(* ===== verification/Prelude.thy ===== *)
theory Prelude
  imports Main "HOL-Library.Word" "HOL-Library.Char_ord" "HOL-Library.List_Lexorder"
    "HOL-Library.Product_Lexorder"
begin

text \<open>
  Shared vocabulary of the development.

  \<^item> Machine integers: \<open>u32\<close> is a 32-bit word; \<open>i64\<close> is an integer whose 64-bit
    bounds are written out in the saturating and checked operations the code uses;
    \<open>usize\<close> is a natural number.
  \<^item> Strings: a Rust \<open>String\<close> is the list of its UTF-8 bytes, so that \<open><\<close> of
    \<open>List_Lexorder\<close> is Rust's byte-wise order and \<open>length\<close> is \<open>str::len\<close>.
    \<open>utf8_chars\<close> groups the bytes into scalar values for \<open>chars()\<close> and \<open>trim()\<close>.
  \<^item> Results: \<open>'e + 'a\<close> with \<open>Inl\<close> for \<open>Err\<close>; a method on \<open>&mut self\<close> is a
    function of the state returning the result together with the new state, which is kept
    when the result is an error, as Rust keeps the mutations made before an early return.
  \<^item> Collections of rules: \<open>monad_defs\<close> unfolds the result monads,
    \<open>store_simps\<close> gathers the read-after-write equations of the store.
\<close>

named_theorems monad_defs \<open>definitions of the result combinators\<close>
named_theorems store_simps \<open>read-after-write equations of the store\<close>
named_theorems frame_simps \<open>fields an operation leaves unchanged\<close>

section \<open>Machine integers\<close>

type_synonym u32 = "32 word"
type_synonym i64 = int
type_synonym usize = nat

definition i64_max :: i64 where "i64_max = 9223372036854775807"
definition i64_min :: i64 where "i64_min = - 9223372036854775808"

definition in_i64 :: "int \<Rightarrow> bool" where
  "in_i64 x \<longleftrightarrow> i64_min \<le> x \<and> x \<le> i64_max"

definition i64_saturating_add :: "i64 \<Rightarrow> i64 \<Rightarrow> i64" where
  "i64_saturating_add a b = max i64_min (min i64_max (a + b))"

definition i64_checked_add :: "i64 \<Rightarrow> i64 \<Rightarrow> i64 option" where
  "i64_checked_add a b = (if in_i64 (a + b) then Some (a + b) else None)"

definition i64_checked_mul :: "i64 \<Rightarrow> i64 \<Rightarrow> i64 option" where
  "i64_checked_mul a b = (if in_i64 (a * b) then Some (a * b) else None)"

text \<open>Rust's \<open>/\<close> on signed integers truncates towards zero.\<close>

definition i64_div :: "i64 \<Rightarrow> i64 \<Rightarrow> i64" where
  "i64_div a b = sgn a * sgn b * (\<bar>a\<bar> div \<bar>b\<bar>)"

definition u32_saturating_add :: "u32 \<Rightarrow> u32 \<Rightarrow> u32" where
  "u32_saturating_add a b = (if unat a + unat b < 2 ^ 32 then a + b else - 1)"

definition u32_saturating_sub :: "u32 \<Rightarrow> u32 \<Rightarrow> u32" where
  "u32_saturating_sub a b = (if b \<le> a then a - b else 0)"

lemma i64_saturating_add_in_range: "in_i64 (i64_saturating_add a b)"
  by (simp add: in_i64_def i64_saturating_add_def i64_min_def i64_max_def)

lemma i64_saturating_add_exact: "in_i64 (a + b) \<Longrightarrow> i64_saturating_add a b = a + b"
  by (simp add: in_i64_def i64_saturating_add_def)

lemma i64_saturating_add_mono:
  "b \<le> c \<Longrightarrow> i64_saturating_add a b \<le> i64_saturating_add a c"
  by (simp add: i64_saturating_add_def)

lemma i64_saturating_add_ge: "in_i64 a \<Longrightarrow> 0 \<le> b \<Longrightarrow> a \<le> i64_saturating_add a b"
  by (simp add: in_i64_def i64_saturating_add_def)

lemma i64_checked_add_SomeD: "i64_checked_add a b = Some c \<Longrightarrow> c = a + b \<and> in_i64 c"
  by (auto simp: i64_checked_add_def split: if_splits)

lemma unat_u32_saturating_add:
  "unat (u32_saturating_add a b) = min (unat a + unat b) (2 ^ 32 - 1)"
proof (cases "unat a + unat b < 2 ^ 32")
  case True
  then have "unat (a + b) = unat a + unat b"
    by (simp add: unat_word_ariths)
  with True show ?thesis by (simp add: u32_saturating_add_def)
next
  case False
  then show ?thesis by (simp add: u32_saturating_add_def unsigned_minus_1_eq_mask mask_eq_exp_minus_1)
qed

lemma unat_u32_saturating_sub: "unat (u32_saturating_sub a b) = unat a - unat b"
proof (cases "b \<le> a")
  case True
  then have "unat (a - b) = unat a - unat b"
    by (rule unat_sub)
  with True show ?thesis by (simp add: u32_saturating_sub_def)
next
  case False
  then have "unat a \<le> unat b" by (simp add: word_le_nat_alt)
  with False show ?thesis by (simp add: u32_saturating_sub_def)
qed

section \<open>Strings\<close>

text \<open>Decimal rendering, as \<open>format!\<close> does for unsigned integers.\<close>

definition digit_char :: "nat \<Rightarrow> char" where
  "digit_char d = char_of (48 + d)"

fun dec_of_nat :: "nat \<Rightarrow> string" where
  "dec_of_nat n = (if n < 10 then [digit_char n] else dec_of_nat (n div 10) @ [digit_char (n mod 10)])"

declare dec_of_nat.simps [simp del]

definition nat_of_dec :: "string \<Rightarrow> nat" where
  "nat_of_dec s = foldl (\<lambda>n c. n * 10 + (of_char c - 48)) 0 s"

lemma of_char_digit: "d < 10 \<Longrightarrow> of_char (digit_char d) = 48 + d"
  by (simp add: digit_char_def)

lemma nat_of_dec_of_nat [simp]: "nat_of_dec (dec_of_nat n) = n"
proof (induction n rule: dec_of_nat.induct)
  case (1 n)
  show ?case
  proof (cases "n < 10")
    case True
    then show ?thesis
      by (subst dec_of_nat.simps) (simp add: nat_of_dec_def of_char_digit)
  next
    case False
    with 1 have "foldl (\<lambda>n c. n * 10 + (of_char c - 48)) 0 (dec_of_nat (n div 10)) = n div 10"
      by (simp add: nat_of_dec_def)
    with False show ?thesis
      by (subst dec_of_nat.simps) (simp add: nat_of_dec_def of_char_digit)
  qed
qed

lemma dec_of_nat_inject [simp]: "dec_of_nat m = dec_of_nat n \<longleftrightarrow> m = n"
  by (metis nat_of_dec_of_nat)

text \<open>
  UTF-8: a continuation byte is \<open>10xxxxxx\<close>; every scalar value is a lead byte followed by
  its continuation bytes, so \<open>chars().count()\<close> is the number of lead bytes.
\<close>

definition is_continuation :: "char \<Rightarrow> bool" where
  "is_continuation c \<longleftrightarrow> 128 \<le> (of_char c :: nat) \<and> (of_char c :: nat) < 192"

fun utf8_chars :: "string \<Rightarrow> string list" where
  "utf8_chars [] = []"
| "utf8_chars (c # cs) =
     (case utf8_chars cs of
        [] \<Rightarrow> [[c]]
      | g # gs \<Rightarrow> (if is_continuation (hd g) then (c # g) # gs else [c] # g # gs))"

definition chars_count :: "string \<Rightarrow> nat" where
  "chars_count s = length (utf8_chars s)"

text \<open>\<open>String::from_utf8\<close> accepts exactly the well-formed byte sequences of the Unicode
  standard (no overlong forms, no surrogates, nothing above \<open>U+10FFFF\<close>).\<close>

definition byte_in :: "nat \<Rightarrow> nat \<Rightarrow> nat \<Rightarrow> bool" where
  "byte_in lo hi b \<longleftrightarrow> lo \<le> b \<and> b \<le> hi"

fun utf8_valid_bytes :: "nat list \<Rightarrow> bool" where
  "utf8_valid_bytes [] = True"
| "utf8_valid_bytes (a # bs) =
     (if a < 128 then utf8_valid_bytes bs
      else (case bs of
          [] \<Rightarrow> False
        | b # cs \<Rightarrow>
            if byte_in 194 223 a then byte_in 128 191 b \<and> utf8_valid_bytes cs
            else (case cs of
                [] \<Rightarrow> False
              | c # ds \<Rightarrow>
                  if a = 224 then byte_in 160 191 b \<and> byte_in 128 191 c \<and> utf8_valid_bytes ds
                  else if a = 237 then byte_in 128 159 b \<and> byte_in 128 191 c \<and> utf8_valid_bytes ds
                  else if byte_in 225 239 a
                    then byte_in 128 191 b \<and> byte_in 128 191 c \<and> utf8_valid_bytes ds
                  else (case ds of
                      [] \<Rightarrow> False
                    | d # es \<Rightarrow>
                        (if a = 240 then byte_in 144 191 b
                         else if byte_in 241 243 a then byte_in 128 191 b
                         else a = 244 \<and> byte_in 128 143 b)
                        \<and> byte_in 128 191 c \<and> byte_in 128 191 d \<and> utf8_valid_bytes es))))"

definition utf8_valid :: "string \<Rightarrow> bool" where
  "utf8_valid s \<longleftrightarrow> utf8_valid_bytes (map of_char s)"

text \<open>The UTF-8 encodings of the code points with the property \<open>White_Space\<close>.\<close>

definition utf8_whitespace :: "nat list list" where
  "utf8_whitespace =
     [[9], [10], [11], [12], [13], [32], [194, 133], [194, 160], [225, 154, 128],
      [226, 128, 128], [226, 128, 129], [226, 128, 130], [226, 128, 131], [226, 128, 132],
      [226, 128, 133], [226, 128, 134], [226, 128, 135], [226, 128, 136], [226, 128, 137],
      [226, 128, 138], [226, 128, 168], [226, 128, 169], [226, 128, 175], [226, 129, 159],
      [227, 128, 128]]"

definition is_whitespace :: "string \<Rightarrow> bool" where
  "is_whitespace g \<longleftrightarrow> map of_char g \<in> set utf8_whitespace"

definition trim_start :: "string \<Rightarrow> string" where
  "trim_start s = concat (dropWhile is_whitespace (utf8_chars s))"

definition trim_end :: "string \<Rightarrow> string" where
  "trim_end s = concat (rev (dropWhile is_whitespace (rev (utf8_chars s))))"

definition trim :: "string \<Rightarrow> string" where
  "trim s = trim_end (trim_start s)"

text \<open>\<open>str::split\<close> on a one-byte delimiter.\<close>

fun split_on :: "char \<Rightarrow> string \<Rightarrow> string list" where
  "split_on d [] = [[]]"
| "split_on d (c # cs) =
     (if c = d then [] # split_on d cs
      else (case split_on d cs of [] \<Rightarrow> [[c]] | p # ps \<Rightarrow> (c # p) # ps))"

definition join :: "string \<Rightarrow> string list \<Rightarrow> string" where
  "join sep ps = (case ps of [] \<Rightarrow> [] | p # qs \<Rightarrow> p @ concat (map (\<lambda>q. sep @ q) qs))"

lemma split_on_not_Nil [simp]: "split_on d s \<noteq> []"
  by (induction s) (auto split: list.splits)

lemma split_on_no_delim: "p \<in> set (split_on d s) \<Longrightarrow> d \<notin> set p"
proof (induction s arbitrary: p)
  case Nil
  then show ?case by simp
next
  case (Cons c cs)
  obtain q qs where q: "split_on d cs = q # qs"
    by (cases "split_on d cs") auto
  with Cons show ?case by (auto split: if_splits)
qed

lemma join_Cons: "ps \<noteq> [] \<Longrightarrow> join sep (p # ps) = p @ sep @ join sep ps"
  by (cases ps) (simp_all add: join_def)

lemma join_split_on: "join [d] (split_on d s) = s"
proof (induction s)
  case Nil
  then show ?case by (simp add: join_def)
next
  case (Cons c cs)
  obtain q qs where q: "split_on d cs = q # qs"
    by (cases "split_on d cs") auto
  with Cons show ?case by (auto simp: join_def)
qed

lemma concat_utf8_chars [simp]: "concat (utf8_chars s) = s"
  by (induction s) (auto split: list.splits)

lemma chars_count_le_length: "chars_count s \<le> length s"
  unfolding chars_count_def by (induction s) (auto split: list.splits)

lemma set_trim: "set (trim s) \<subseteq> set s"
proof -
  have start: "set (trim_start t) \<subseteq> set t" for t
    using set_dropWhileD [of _ is_whitespace "utf8_chars t"]
    by (auto simp: trim_start_def) (metis UN_I concat_utf8_chars set_concat)
  have "set (trim_end t) \<subseteq> set t" for t
    using set_dropWhileD [of _ is_whitespace "rev (utf8_chars t)"]
    by (auto simp: trim_end_def) (metis UN_I concat_utf8_chars set_concat set_rev)
  with start show ?thesis unfolding trim_def by blast
qed

section \<open>Results\<close>

text \<open>\<open>e?\<close> on a pure result, \<open>map_err\<close>, and \<open>Option::ok_or\<close>.\<close>

definition rbind :: "'e + 'a \<Rightarrow> ('a \<Rightarrow> 'e + 'b) \<Rightarrow> 'e + 'b" where
  [monad_defs]: "rbind r f = (case r of Inl e \<Rightarrow> Inl e | Inr x \<Rightarrow> f x)"

definition map_err :: "('e \<Rightarrow> 'f) \<Rightarrow> 'e + 'a \<Rightarrow> 'f + 'a" where
  [monad_defs]: "map_err h r = (case r of Inl e \<Rightarrow> Inl (h e) | Inr x \<Rightarrow> Inr x)"

definition ok_or :: "'e \<Rightarrow> 'a option \<Rightarrow> 'e + 'a" where
  [monad_defs]: "ok_or e x = (case x of None \<Rightarrow> Inl e | Some y \<Rightarrow> Inr y)"

text \<open>\<open>option.map(f).transpose()\<close>.\<close>

definition map_transpose :: "('a \<Rightarrow> 'e + 'b) \<Rightarrow> 'a option \<Rightarrow> 'e + 'b option" where
  [monad_defs]: "map_transpose f x =
     (case x of None \<Rightarrow> Inr None
      | Some y \<Rightarrow> (case f y of Inl e \<Rightarrow> Inl e | Inr z \<Rightarrow> Inr (Some z)))"

lemma rbind_eq_Inr: "rbind r f = Inr y \<longleftrightarrow> (\<exists>x. r = Inr x \<and> f x = Inr y)"
  by (auto simp: rbind_def split: sum.splits)

lemma ok_or_eq_Inr: "ok_or e x = Inr y \<longleftrightarrow> x = Some y"
  by (auto simp: ok_or_def split: option.splits)

lemma map_err_eq_Inr: "map_err h r = Inr y \<longleftrightarrow> r = Inr y"
  by (auto simp: map_err_def split: sum.splits)

lemma map_transpose_eq_Inr:
  "map_transpose f x = Inr y \<longleftrightarrow>
     (x = None \<and> y = None \<or> (\<exists>a b. x = Some a \<and> y = Some b \<and> f a = Inr b))"
  by (auto simp: map_transpose_def split: option.splits sum.splits)

text \<open>A method on \<open>&mut self\<close>, and its combinators.\<close>

type_synonym ('s, 'e, 'a) op = "'s \<Rightarrow> ('e + 'a) \<times> 's"

definition return :: "'a \<Rightarrow> ('s, 'e, 'a) op" where
  [monad_defs]: "return x = (\<lambda>s. (Inr x, s))"

definition fail :: "'e \<Rightarrow> ('s, 'e, 'a) op" where
  [monad_defs]: "fail e = (\<lambda>s. (Inl e, s))"

definition bind_op :: "('s, 'e, 'a) op \<Rightarrow> ('a \<Rightarrow> ('s, 'e, 'b) op) \<Rightarrow> ('s, 'e, 'b) op" where
  [monad_defs]: "bind_op m f =
     (\<lambda>s. case m s of (Inl e, s') \<Rightarrow> (Inl e, s') | (Inr x, s') \<Rightarrow> f x s')"

text \<open>A read (\<open>&self\<close>), its error converted by \<open>From\<close>; a write, likewise.\<close>

definition read_op :: "('e \<Rightarrow> 'f) \<Rightarrow> ('s \<Rightarrow> 'e + 'a) \<Rightarrow> ('s, 'f, 'a) op" where
  [monad_defs]: "read_op h r = (\<lambda>s. (map_err h (r s), s))"

definition write_op :: "('e \<Rightarrow> 'f) \<Rightarrow> ('s, 'e, 'a) op \<Rightarrow> ('s, 'f, 'a) op" where
  [monad_defs]: "write_op h m = (\<lambda>s. case m s of (r, s') \<Rightarrow> (map_err h r, s'))"

definition guard_op :: "bool \<Rightarrow> 'e \<Rightarrow> ('s, 'e, unit) op" where
  [monad_defs]: "guard_op b e = (if b then return () else fail e)"

text \<open>\<open>if !b { return Err(e) }\<close>.\<close>

abbreviation ensure :: "bool \<Rightarrow> 'e \<Rightarrow> ('s, 'e, 'a) op \<Rightarrow> ('s, 'e, 'a) op" where
  "ensure b e m \<equiv> bind_op (guard_op b e) (\<lambda>_. m)"

text \<open>\<open>e?\<close> on a pure result inside a method.\<close>

definition from_result :: "'e + 'a \<Rightarrow> ('s, 'e, 'a) op" where
  [monad_defs]: "from_result r = (\<lambda>s. (r, s))"

lemma from_result_bind [simp]:
  "bind_op (from_result (Inl e)) f s = (Inl e, s)"
  "bind_op (from_result (Inr x)) f s = f x s"
  by (simp_all add: bind_op_def from_result_def)

lemma bind_op_eq_Inr:
  "bind_op m f s = (Inr y, t) \<longleftrightarrow> (\<exists>x s'. m s = (Inr x, s') \<and> f x s' = (Inr y, t))"
  by (auto simp: bind_op_def split: prod.splits sum.splits)

lemma bind_op_return [simp]: "bind_op (return x) f = f x"
  by (simp add: bind_op_def return_def)

lemma bind_op_fail [simp]: "bind_op (fail e) f = fail e"
  by (simp add: bind_op_def fail_def fun_eq_iff)

lemma bind_op_assoc: "bind_op (bind_op m f) g = bind_op m (\<lambda>x. bind_op (f x) g)"
  by (auto simp: bind_op_def fun_eq_iff split: prod.splits sum.splits)

lemma guard_op_bind:
  "bind_op (guard_op b e) f s = (if b then f () s else (Inl e, s))"
  by (simp add: monad_defs)

lemma read_op_bind:
  "bind_op (read_op h r) f s = (case r s of Inl e \<Rightarrow> (Inl (h e), s) | Inr x \<Rightarrow> f x s)"
  by (simp add: monad_defs split: sum.splits)

lemma read_op_bind_Inr [simp]: "r s = Inr x \<Longrightarrow> bind_op (read_op h r) f s = f x s"
  by (simp add: read_op_bind)

lemma read_op_bind_Inl [simp]: "r s = Inl e \<Longrightarrow> bind_op (read_op h r) f s = (Inl (h e), s)"
  by (simp add: read_op_bind)

lemma write_op_bind_Inr [simp]:
  "m s = (Inr x, s') \<Longrightarrow> bind_op (write_op h m) f s = f x s'"
  by (simp add: monad_defs)

lemma write_op_bind_Inl [simp]:
  "m s = (Inl e, s') \<Longrightarrow> bind_op (write_op h m) f s = (Inl (h e), s')"
  by (simp add: monad_defs)

end
