(* ===== verification/BTree_Map.thy ===== *)
theory BTree_Map
  imports Prelude
begin

text \<open>
  \<open>std::collections::BTreeMap\<close> as the list of its entries in key order: \<open>insert\<close>
  replaces the value of an equal key and keeps the order, \<open>values()\<close> and \<open>iter()\<close> go
  through the entries in key order. \<open>bt_ok\<close> is the representation invariant (keys strictly
  increasing); \<open>bt_get\<close> reads the map as a partial function, which is the abstraction the
  clients reason with.

  The locale \<open>keyed_table\<close> is the contract of a table whose values carry their own key,
  as every table of the social store does; it is interpreted here on the map operations.
\<close>

section \<open>The map\<close>

type_synonym ('k, 'v) btree_map = "('k \<times> 'v) list"

definition bt_get :: "('k, 'v) btree_map \<Rightarrow> 'k \<Rightarrow> 'v option" where
  "bt_get m k = map_of m k"

fun bt_insert :: "'k::linorder \<Rightarrow> 'v \<Rightarrow> ('k, 'v) btree_map \<Rightarrow> ('k, 'v) btree_map" where
  "bt_insert k v [] = [(k, v)]"
| "bt_insert k v ((k', v') # m) =
     (if k < k' then (k, v) # (k', v') # m
      else if k = k' then (k, v) # m
      else (k', v') # bt_insert k v m)"

definition bt_remove :: "'k \<Rightarrow> ('k, 'v) btree_map \<Rightarrow> ('k, 'v) btree_map" where
  "bt_remove k m = filter (\<lambda>e. fst e \<noteq> k) m"

definition bt_retain :: "('k \<Rightarrow> bool) \<Rightarrow> ('k, 'v) btree_map \<Rightarrow> ('k, 'v) btree_map" where
  "bt_retain P m = filter (\<lambda>e. P (fst e)) m"

definition bt_keys :: "('k, 'v) btree_map \<Rightarrow> 'k list" where
  "bt_keys m = map fst m"

definition bt_values :: "('k, 'v) btree_map \<Rightarrow> 'v list" where
  "bt_values m = map snd m"

definition bt_ok :: "('k::linorder, 'v) btree_map \<Rightarrow> bool" where
  "bt_ok m \<longleftrightarrow> sorted_wrt (<) (map fst m)"

definition bt_of_list :: "('k::linorder \<times> 'v) list \<Rightarrow> ('k, 'v) btree_map" where
  "bt_of_list es = fold (\<lambda>(k, v). bt_insert k v) es []"

lemma bt_get_Nil [simp]: "bt_get [] k = None"
  by (simp add: bt_get_def)

lemma bt_get_insert [simp]: "bt_get (bt_insert k v m) = (bt_get m)(k \<mapsto> v)"
  by (induction k v m rule: bt_insert.induct) (auto simp: bt_get_def fun_eq_iff)

lemma bt_get_insert_apply: "bt_get (bt_insert k v m) j = (if j = k then Some v else bt_get m j)"
  by simp

lemma bt_get_remove [simp]: "bt_get (bt_remove k m) = (bt_get m)(k := None)"
  by (induction m) (auto simp: bt_get_def bt_remove_def fun_eq_iff)

lemma bt_get_retain: "bt_get (bt_retain P m) k = (if P k then bt_get m k else None)"
  by (induction m) (auto simp: bt_get_def bt_retain_def)

lemma keys_bt_insert: "set (map fst (bt_insert k v m)) = insert k (set (map fst m))"
  by (induction k v m rule: bt_insert.induct) auto

lemma bt_ok_Nil [simp]: "bt_ok []"
  by (simp add: bt_ok_def)

lemma bt_ok_insert [simp]: "bt_ok m \<Longrightarrow> bt_ok (bt_insert k v m)"
  unfolding bt_ok_def
proof (induction k v m rule: bt_insert.induct)
  case (1 k v)
  then show ?case by simp
next
  case (2 k v k' v' m)
  have keys: "set (map fst (bt_insert k v m)) = insert k (set (map fst m))"
    by (rule keys_bt_insert)
  show ?case
  proof (cases "k < k' \<or> k = k'")
    case True
    with "2.prems" show ?thesis by auto
  next
    case False
    with 2 have "sorted_wrt (<) (map fst (bt_insert k v m))" by auto
    moreover from False "2.prems" have "\<forall>x \<in> set (map fst (bt_insert k v m)). k' < x"
      unfolding keys by auto
    ultimately show ?thesis using False by auto
  qed
qed

lemma bt_ok_filter: "bt_ok m \<Longrightarrow> bt_ok (filter P m)"
  by (induction m) (auto simp: bt_ok_def)

lemma bt_ok_remove [simp]: "bt_ok m \<Longrightarrow> bt_ok (bt_remove k m)"
  by (simp add: bt_remove_def bt_ok_filter)

lemma bt_ok_retain [simp]: "bt_ok m \<Longrightarrow> bt_ok (bt_retain P m)"
  by (simp add: bt_retain_def bt_ok_filter)

lemma bt_ok_distinct: "bt_ok m \<Longrightarrow> distinct (map fst m)"
  by (simp add: bt_ok_def strict_sorted_iff)

lemma bt_ok_sorted_keys: "bt_ok m \<Longrightarrow> sorted (bt_keys m) \<and> distinct (bt_keys m)"
  by (simp add: bt_ok_def bt_keys_def strict_sorted_iff)

lemma bt_get_eq_Some: "bt_ok m \<Longrightarrow> bt_get m k = Some v \<longleftrightarrow> (k, v) \<in> set m"
  by (simp add: bt_get_def bt_ok_distinct)

lemma bt_get_SomeD: "bt_get m k = Some v \<Longrightarrow> (k, v) \<in> set m"
  by (simp add: bt_get_def map_of_SomeD)

lemma bt_insert_set:
  "bt_ok m \<Longrightarrow> set (bt_insert k v m) = insert (k, v) {e \<in> set m. fst e \<noteq> k}"
proof -
  assume ok: "bt_ok m"
  have "(j, w) \<in> set (bt_insert k v m) \<longleftrightarrow> (j, w) \<in> insert (k, v) {e \<in> set m. fst e \<noteq> k}" for j w
  proof -
    have "(j, w) \<in> set (bt_insert k v m) \<longleftrightarrow> bt_get (bt_insert k v m) j = Some w"
      using ok by (simp only: bt_get_eq_Some bt_ok_insert)
    also have "\<dots> \<longleftrightarrow> (if j = k then w = v else bt_get m j = Some w)" by auto
    also have "\<dots> \<longleftrightarrow> (j, w) \<in> insert (k, v) {e \<in> set m. fst e \<noteq> k}"
      using ok by (auto simp: bt_get_eq_Some)
    finally show ?thesis .
  qed
  then show ?thesis by auto
qed

lemma bt_insert_insert_same: "bt_insert k w (bt_insert k v m) = bt_insert k w m"
  by (induction k v m rule: bt_insert.induct) auto

text \<open>Two maps with the same reading are the same list: the representation is canonical.\<close>

lemma bt_ext:
  assumes "bt_ok m" and "bt_ok n" and "\<And>k. bt_get m k = bt_get n k"
  shows "m = n"
proof -
  have sets: "set m = set n"
  proof (rule set_eqI)
    fix e :: "'a \<times> 'b"
    show "e \<in> set m \<longleftrightarrow> e \<in> set n"
      using assms(3) [of "fst e"] bt_get_eq_Some [OF assms(1)] bt_get_eq_Some [OF assms(2)]
      by (metis prod.collapse)
  qed
  have inj: "inj_on fst (set m \<union> set n)"
    using bt_ok_distinct [OF assms(1)] sets by (simp add: distinct_map)
  from inj show ?thesis
    by (rule map_sorted_distinct_set_unique)
       (use assms(1,2) sets in \<open>auto simp: bt_ok_def strict_sorted_iff\<close>)
qed

section \<open>Tables whose values carry their key\<close>

locale keyed_table =
  fixes get :: "'m \<Rightarrow> 'k \<Rightarrow> 'v option"
    and put :: "'v \<Rightarrow> 'm \<Rightarrow> 'm"
    and vals :: "'m \<Rightarrow> 'v list"
    and key :: "'v \<Rightarrow> 'k"
    and ok :: "'m \<Rightarrow> bool"
  assumes get_put: "get (put v m) k = (if k = key v then Some v else get m k)"
    and ok_put: "ok m \<Longrightarrow> ok (put v m)"
    and get_key: "ok m \<Longrightarrow> get m k = Some v \<Longrightarrow> key v = k"
    and vals_iff: "ok m \<Longrightarrow> v \<in> set (vals m) \<longleftrightarrow> get m (key v) = Some v"
    and distinct_vals: "ok m \<Longrightarrow> distinct (map key (vals m))"
begin

lemma get_put_same: "get (put v m) (key v) = Some v"
  by (simp add: get_put)

lemma get_put_other: "k \<noteq> key v \<Longrightarrow> get (put v m) k = get m k"
  by (simp add: get_put)

lemma get_in_vals: "ok m \<Longrightarrow> get m k = Some v \<Longrightarrow> v \<in> set (vals m)"
  using get_key vals_iff by metis

lemma vals_put:
  assumes "ok m"
  shows "set (vals (put v m)) = insert v {w \<in> set (vals m). key w \<noteq> key v}"
  using assms by (auto simp: vals_iff ok_put get_put split: if_splits)

lemma same_key_same_val:
  "ok m \<Longrightarrow> v \<in> set (vals m) \<Longrightarrow> w \<in> set (vals m) \<Longrightarrow> key v = key w \<Longrightarrow> v = w"
  by (metis option.inject vals_iff)

text \<open>A property of every row survives a write of a row that has it.\<close>

lemma all_put:
  assumes "ok m" and "\<forall>w \<in> set (vals m). P w" and "P v"
  shows "\<forall>w \<in> set (vals (put v m)). P w"
  using assms by (simp add: vals_put)

end

definition bt_keyed :: "('v \<Rightarrow> 'k::linorder) \<Rightarrow> ('k, 'v) btree_map \<Rightarrow> bool" where
  "bt_keyed key m \<longleftrightarrow> bt_ok m \<and> (\<forall>e \<in> set m. key (snd e) = fst e)"

lemma bt_keyed_Nil [simp]: "bt_keyed key []"
  by (simp add: bt_keyed_def)

lemma bt_keyed_insert: "bt_keyed key m \<Longrightarrow> key v = k \<Longrightarrow> bt_keyed key (bt_insert k v m)"
  by (auto simp: bt_keyed_def bt_insert_set)

lemma bt_keyed_get: "bt_keyed key m \<Longrightarrow> bt_get m k = Some v \<Longrightarrow> key v = k"
  by (auto simp: bt_keyed_def dest!: bt_get_SomeD)

lemma bt_keyed_values:
  "bt_keyed key m \<Longrightarrow> v \<in> set (bt_values m) \<longleftrightarrow> bt_get m (key v) = Some v"
  by (force simp: bt_keyed_def bt_values_def bt_get_eq_Some)

lemma bt_keyed_map_key: "bt_keyed key m \<Longrightarrow> map key (bt_values m) = bt_keys m"
  by (auto simp: bt_keyed_def bt_values_def bt_keys_def)

lemma bt_keyed_distinct: "bt_keyed key m \<Longrightarrow> distinct (map key (bt_values m))"
  by (simp add: bt_keyed_map_key) (simp add: bt_keyed_def bt_keys_def bt_ok_distinct)

interpretation bt: keyed_table bt_get "\<lambda>v m. bt_insert (key v) v m" bt_values key "bt_keyed key"
  for key :: "'v \<Rightarrow> 'k::linorder"
proof unfold_locales
  show "bt_get (bt_insert (key v) v m) k = (if k = key v then Some v else bt_get m k)"
    for v :: 'v and m k
    by simp
qed (auto simp: bt_keyed_insert bt_keyed_get bt_keyed_values bt_keyed_distinct)

end
