(* ===== verification/Json.thy ===== *)
theory Json
  imports BTree_Map
begin

text \<open>
  \<open>serde_json::Value\<close>: an object is a \<open>BTreeMap<String, Value>\<close>; a number is an
  integer or the bit pattern of an \<open>f64\<close>, which the code modelled here never inspects.
  The accessors are those the code uses (\<open>get\<close>, \<open>as_str\<close>, \<open>as_bool\<close>,
  \<open>as_array\<close>).
\<close>

datatype json =
    JNull
  | JBool bool
  | JInt int
  | JFloat "64 word"
  | JStr string
  | JArr "json list"
  | JObj "(string \<times> json) list"

text \<open>The \<open>json!({...})\<close> literal.\<close>

definition json_object :: "(string \<times> json) list \<Rightarrow> json" where
  "json_object es = JObj (bt_of_list es)"

definition json_opt_str :: "string option \<Rightarrow> json" where
  "json_opt_str x = (case x of None \<Rightarrow> JNull | Some s \<Rightarrow> JStr s)"

fun json_get :: "json \<Rightarrow> string \<Rightarrow> json option" where
  "json_get (JObj m) k = bt_get m k"
| "json_get _ k = None"

fun json_as_str :: "json \<Rightarrow> string option" where
  "json_as_str (JStr s) = Some s"
| "json_as_str _ = None"

fun json_as_bool :: "json \<Rightarrow> bool option" where
  "json_as_bool (JBool b) = Some b"
| "json_as_bool _ = None"

fun json_as_array :: "json \<Rightarrow> json list option" where
  "json_as_array (JArr vs) = Some vs"
| "json_as_array _ = None"

definition json_str_field :: "json \<Rightarrow> string \<Rightarrow> string option" where
  "json_str_field v k = Option.bind (json_get v k) json_as_str"

end
