(* ===== verification/Social_Model.thy ===== *)
theory Social_Model
  imports Json
begin

text \<open>
  The data of \<open>crates/social/src/model.rs\<close> and \<open>crates/social/src/oauth.rs\<close>: every
  struct is a record with the struct's fields under a short prefix (\<open>ca_\<close> for
  \<open>ConnectedAccount\<close>, \<open>pj_\<close> for \<open>PublishJob\<close>, and so on), every enum a datatype.
  \<open>team_role\<close> is ordered by privilege (\<open>Viewer < Publisher < Admin < Owner\<close>), so that
  monotonicity of the policy can be stated with the library's order.
\<close>

section \<open>Providers, owners, accounts\<close>

datatype provider = YouTube | TikTok | Instagram | TwitterX

fun provider_as_str :: "provider \<Rightarrow> string" where
  "provider_as_str YouTube = ''youtube''"
| "provider_as_str TikTok = ''tiktok''"
| "provider_as_str Instagram = ''instagram''"
| "provider_as_str TwitterX = ''twitter_x''"

lemma provider_as_str_inject [simp]: "provider_as_str p = provider_as_str q \<longleftrightarrow> p = q"
  by (cases p; cases q) auto

datatype owner_ref = User string | Workspace string

datatype account_kind = Channel | Creator | Business | Professional | Page | UnknownKind

datatype connected_account_status =
  Connected | NeedsReauth | MissingScope | Ineligible | Disabled | Revoked

record provider_capabilities =
  native_scheduling :: bool
  queue_scheduling :: bool
  upload_video :: bool
  upload_thumbnail :: bool
  public_posting :: bool
  requires_user_consent :: bool

record account_eligibility =
  eligible :: bool
  reasons :: "string list"

definition eligibility_eligible :: account_eligibility where
  "eligibility_eligible = \<lparr>eligible = True, reasons = []\<rparr>"

definition eligibility_blocked :: "string \<Rightarrow> account_eligibility" where
  "eligibility_blocked reason = \<lparr>eligible = False, reasons = [reason]\<rparr>"

record connected_account =
  ca_id :: string
  ca_owner :: owner_ref
  ca_provider :: provider
  ca_provider_account_id :: string
  ca_display_name :: string
  ca_handle :: "string option"
  ca_avatar_url :: "string option"
  ca_account_kind :: account_kind
  ca_status :: connected_account_status
  ca_scopes :: "string list"
  ca_capabilities :: provider_capabilities
  ca_eligibility :: account_eligibility
  ca_last_verified_at :: "i64 option"
  ca_created_at :: i64
  ca_updated_at :: i64

section \<open>Targets and publish jobs\<close>

datatype validation_state = Val_Pending | Val_Valid | Val_Invalid | Val_RequiresAction

record campaign_variant_target =
  cvt_id :: string
  cvt_campaign_id :: string
  cvt_variant_id :: string
  cvt_connected_account_id :: string
  cvt_provider :: provider
  cvt_platform_fields :: json
  cvt_scheduled_for :: i64
  cvt_validation_state :: validation_state
  cvt_created_at :: i64
  cvt_updated_at :: i64

datatype publish_job_status =
    Draft
  | Validated
  | Scheduled
  | Uploading
  | Processing
  | Published
  | Failed
  | RequiresAction
  | Cancelled

record publish_job =
  pj_id :: string
  pj_campaign_id :: string
  pj_variant_id :: string
  pj_connected_account_id :: string
  pj_provider :: provider
  pj_artifact_ref :: string
  pj_idempotency_key :: string
  pj_scheduled_for :: i64
  pj_status :: publish_job_status
  pj_attempt_count :: u32
  pj_provider_post_id :: "string option"
  pj_provider_post_url :: "string option"
  pj_normalized_error :: "string option"
  pj_raw_error_ref :: "string option"
  pj_requires_action_reason :: "string option"
  pj_created_by :: string
  pj_created_at :: i64
  pj_updated_at :: i64

datatype publish_job_event_type =
    Ev_TargetBound
  | Ev_Validated
  | Ev_Scheduled
  | Ev_Claimed
  | Ev_Uploaded
  | Ev_StatusPolled
  | Ev_Cancelled
  | Ev_RetryQueued
  | Ev_Rescheduled
  | Ev_RequiresAction
  | Ev_Failed

datatype publish_job_actor_type = Actor_User | Actor_System | Actor_Worker | Actor_Provider

record publish_job_event =
  pe_id :: string
  pe_publish_job_id :: string
  pe_event_type :: publish_job_event_type
  pe_actor_type :: publish_job_actor_type
  pe_message :: string
  pe_metadata :: json
  pe_created_at :: i64

section \<open>Teams and defaults\<close>

datatype team_role = Role_Owner | Role_Admin | Role_Publisher | Role_Viewer

fun role_rank :: "team_role \<Rightarrow> nat" where
  "role_rank Role_Viewer = 0"
| "role_rank Role_Publisher = 1"
| "role_rank Role_Admin = 2"
| "role_rank Role_Owner = 3"

lemma role_rank_inject: "role_rank r = role_rank s \<Longrightarrow> r = s"
  by (cases r; cases s) auto

instantiation team_role :: linorder
begin

definition less_eq_team_role :: "team_role \<Rightarrow> team_role \<Rightarrow> bool" where
  "r \<le> s \<longleftrightarrow> role_rank r \<le> role_rank s"

definition less_team_role :: "team_role \<Rightarrow> team_role \<Rightarrow> bool" where
  "r < s \<longleftrightarrow> role_rank r < role_rank s"

instance
  by standard (auto simp: less_eq_team_role_def less_team_role_def dest: role_rank_inject)

end

datatype team_action =
  ConnectAccount | DisconnectAccount | SchedulePublish | CancelPublish | RetryPublish

record workspace_member_role =
  wmr_workspace_id :: string
  wmr_user_id :: string
  wmr_role :: team_role

record account_publish_defaults =
  apd_connected_account_id :: string
  apd_default_privacy :: "string option"
  apd_default_tags :: "string list"
  apd_title_prefix :: "string option"
  apd_description_suffix :: "string option"
  apd_updated_at :: i64

record publish_job_status_counts =
  count_scheduled :: usize
  count_processing :: usize
  count_published :: usize
  count_failed :: usize
  count_requires_action :: usize

record account_usage_audit =
  aua_connected_account_id :: string
  aua_owner :: owner_ref
  aua_jobs :: "publish_job list"
  aua_events :: "publish_job_event list"
  aua_status_counts :: publish_job_status_counts

section \<open>Digests\<close>

text \<open>
  The crates \<open>sha2\<close> and \<open>base64\<close> are not part of the repository: the digest of a
  byte string and the URL-safe encoding of a digest are parameters, gathered in a record.
\<close>

record digests =
  sha256 :: "string \<Rightarrow> string"
  base64_url_safe_no_pad :: "string \<Rightarrow> string"

section \<open>OAuth connections\<close>

datatype oauth_connection_status = OAuth_Started | OAuth_Completed | OAuth_Failed | OAuth_Expired

datatype oauth_callback_error = CallbackExpired | StateMismatch | AlreadyCompleted

record oauth_connection =
  oc_id :: string
  oc_owner :: owner_ref
  oc_provider :: provider
  oc_state_hash :: string
  oc_requested_scopes :: "string list"
  oc_return_to :: string
  oc_status :: oauth_connection_status
  oc_created_at :: i64
  oc_expires_at :: i64

definition hash_state :: "digests \<Rightarrow> string \<Rightarrow> string" where
  "hash_state d raw_state = base64_url_safe_no_pad d (sha256 d raw_state)"

definition oauth_connection_start ::
  "digests \<Rightarrow> string \<Rightarrow> owner_ref \<Rightarrow> provider \<Rightarrow> string \<Rightarrow> string list \<Rightarrow> string \<Rightarrow> i64 \<Rightarrow> i64
   \<Rightarrow> oauth_connection" where
  "oauth_connection_start d ident owner provider raw_state requested_scopes return_to created_at
     expires_at =
     \<lparr>oc_id = ident, oc_owner = owner, oc_provider = provider,
      oc_state_hash = hash_state d raw_state, oc_requested_scopes = requested_scopes,
      oc_return_to = return_to, oc_status = OAuth_Started, oc_created_at = created_at,
      oc_expires_at = expires_at\<rparr>"

definition matches_state :: "digests \<Rightarrow> oauth_connection \<Rightarrow> string \<Rightarrow> bool" where
  "matches_state d c raw_state \<longleftrightarrow> oc_state_hash c = hash_state d raw_state"

definition validate_callback ::
  "digests \<Rightarrow> oauth_connection \<Rightarrow> string \<Rightarrow> i64 \<Rightarrow> oauth_callback_error + unit" where
  "validate_callback d c raw_state now =
     (if oc_status c \<noteq> OAuth_Started then Inl AlreadyCompleted
      else if now > oc_expires_at c then Inl CallbackExpired
      else if \<not> matches_state d c raw_state then Inl StateMismatch
      else Inr ())"

lemma validate_callback_Ok:
  "validate_callback d c raw now = Inr () \<longleftrightarrow>
     oc_status c = OAuth_Started \<and> now \<le> oc_expires_at c \<and> matches_state d c raw"
  by (auto simp: validate_callback_def)

end
