(* ===== verification/Publish_Job.thy ===== *)
theory Publish_Job
  imports Social_Model
begin

text \<open>
  \<open>crates/social/src/job.rs\<close>: the transitions of a publish job and of its target, the
  bounded retry with exponential backoff, and the idempotency key.

  The lemmas say which fields each transition keeps (\<open>frame_simps\<close>), give the backoff
  delay in closed form with its bounds, and show that the bytes hashed for the idempotency
  key determine the four fields they are built from.
\<close>

section \<open>Targets\<close>

definition target_new ::
  "string \<Rightarrow> string \<Rightarrow> string \<Rightarrow> string \<Rightarrow> provider \<Rightarrow> json \<Rightarrow> i64 \<Rightarrow> i64 \<Rightarrow> campaign_variant_target" where
  "target_new ident campaign_id variant_id connected_account_id provider platform_fields
     scheduled_for now =
     \<lparr>cvt_id = ident, cvt_campaign_id = campaign_id, cvt_variant_id = variant_id,
      cvt_connected_account_id = connected_account_id, cvt_provider = provider,
      cvt_platform_fields = platform_fields, cvt_scheduled_for = scheduled_for,
      cvt_validation_state = Val_Pending, cvt_created_at = now, cvt_updated_at = now\<rparr>"

definition mark_validation ::
  "campaign_variant_target \<Rightarrow> validation_state \<Rightarrow> i64 \<Rightarrow> campaign_variant_target" where
  "mark_validation t state now = t\<lparr>cvt_validation_state := state, cvt_updated_at := now\<rparr>"

definition update_metadata ::
  "campaign_variant_target \<Rightarrow> json \<Rightarrow> i64 \<Rightarrow> i64 \<Rightarrow> campaign_variant_target" where
  "update_metadata t platform_fields scheduled_for now =
     t\<lparr>cvt_platform_fields := platform_fields, cvt_scheduled_for := scheduled_for,
       cvt_validation_state := Val_Pending, cvt_updated_at := now\<rparr>"

section \<open>Idempotency key\<close>

text \<open>\<open>usize::to_be_bytes\<close> on a 64-bit target: eight bytes, most significant first.\<close>

fun be_bytes :: "nat \<Rightarrow> nat \<Rightarrow> string" where
  "be_bytes 0 n = []"
| "be_bytes (Suc k) n = be_bytes k (n div 256) @ [char_of (n mod 256)]"

definition hash_part :: "string \<Rightarrow> string" where
  "hash_part value = be_bytes 8 (length value) @ value"

definition idempotency_input :: "string \<Rightarrow> string \<Rightarrow> string \<Rightarrow> string \<Rightarrow> string" where
  "idempotency_input campaign_id variant_id connected_account_id artifact_ref =
     hash_part campaign_id @ hash_part variant_id @ hash_part connected_account_id
       @ hash_part artifact_ref"

definition idempotency_key :: "digests \<Rightarrow> string \<Rightarrow> string \<Rightarrow> string \<Rightarrow> string \<Rightarrow> string" where
  "idempotency_key d campaign_id variant_id connected_account_id artifact_ref =
     base64_url_safe_no_pad d
       (sha256 d (idempotency_input campaign_id variant_id connected_account_id artifact_ref))"

section \<open>Transitions of a job\<close>

definition publish_job_new ::
  "digests \<Rightarrow> string \<Rightarrow> string \<Rightarrow> string \<Rightarrow> string \<Rightarrow> provider \<Rightarrow> string \<Rightarrow> i64 \<Rightarrow> string \<Rightarrow> publish_job" where
  "publish_job_new d ident campaign_id variant_id connected_account_id provider artifact_ref
     scheduled_for created_by =
     \<lparr>pj_id = ident, pj_campaign_id = campaign_id, pj_variant_id = variant_id,
      pj_connected_account_id = connected_account_id, pj_provider = provider,
      pj_artifact_ref = artifact_ref,
      pj_idempotency_key =
        idempotency_key d campaign_id variant_id connected_account_id artifact_ref,
      pj_scheduled_for = scheduled_for, pj_status = Draft, pj_attempt_count = 0,
      pj_provider_post_id = None, pj_provider_post_url = None, pj_normalized_error = None,
      pj_raw_error_ref = None, pj_requires_action_reason = None, pj_created_by = created_by,
      pj_created_at = 0, pj_updated_at = 0\<rparr>"

definition job_requires_action :: "publish_job \<Rightarrow> string \<Rightarrow> i64 \<Rightarrow> publish_job" where
  "job_requires_action j reason now =
     j\<lparr>pj_status := RequiresAction, pj_requires_action_reason := Some reason,
       pj_updated_at := now\<rparr>"

definition job_schedule :: "publish_job \<Rightarrow> i64 \<Rightarrow> publish_job" where
  "job_schedule j now =
     (let j1 = (if pj_created_at j = 0 then j\<lparr>pj_created_at := now\<rparr> else j)
      in j1\<lparr>pj_status := Scheduled, pj_updated_at := now\<rparr>)"

definition job_reschedule :: "publish_job \<Rightarrow> i64 \<Rightarrow> i64 \<Rightarrow> publish_job" where
  "job_reschedule j scheduled_for now =
     j\<lparr>pj_scheduled_for := scheduled_for, pj_status := Scheduled, pj_updated_at := now\<rparr>"

definition claim_for_upload :: "publish_job \<Rightarrow> i64 \<Rightarrow> publish_job" where
  "claim_for_upload j now =
     j\<lparr>pj_status := Uploading, pj_attempt_count := u32_saturating_add (pj_attempt_count j) 1,
       pj_updated_at := now\<rparr>"

definition job_processing :: "publish_job \<Rightarrow> string \<Rightarrow> i64 \<Rightarrow> publish_job" where
  "job_processing j provider_post_id now =
     j\<lparr>pj_status := Processing, pj_provider_post_id := Some provider_post_id,
       pj_updated_at := now\<rparr>"

definition start_provider_processing :: "publish_job \<Rightarrow> i64 \<Rightarrow> publish_job" where
  "start_provider_processing j now = j\<lparr>pj_status := Processing, pj_updated_at := now\<rparr>"

definition job_publish :: "publish_job \<Rightarrow> string \<Rightarrow> string \<Rightarrow> i64 \<Rightarrow> publish_job" where
  "job_publish j provider_post_id provider_post_url now =
     j\<lparr>pj_status := Published, pj_provider_post_id := Some provider_post_id,
       pj_provider_post_url := Some provider_post_url, pj_normalized_error := None,
       pj_raw_error_ref := None, pj_requires_action_reason := None, pj_updated_at := now\<rparr>"

definition publish_with_optional_url ::
  "publish_job \<Rightarrow> string \<Rightarrow> string option \<Rightarrow> i64 \<Rightarrow> publish_job" where
  "publish_with_optional_url j provider_post_id provider_post_url now =
     j\<lparr>pj_status := Published, pj_provider_post_id := Some provider_post_id,
       pj_provider_post_url := provider_post_url, pj_normalized_error := None,
       pj_raw_error_ref := None, pj_requires_action_reason := None, pj_updated_at := now\<rparr>"

definition job_cancel :: "publish_job \<Rightarrow> i64 \<Rightarrow> publish_job" where
  "job_cancel j now = j\<lparr>pj_status := Cancelled, pj_updated_at := now\<rparr>"

definition job_fail :: "publish_job \<Rightarrow> string \<Rightarrow> string \<Rightarrow> i64 \<Rightarrow> publish_job" where
  "job_fail j normalized_error raw_error_ref now =
     j\<lparr>pj_status := Failed, pj_normalized_error := Some normalized_error,
       pj_raw_error_ref := Some raw_error_ref, pj_updated_at := now\<rparr>"

definition job_retry :: "publish_job \<Rightarrow> i64 \<Rightarrow> publish_job" where
  "job_retry j now =
     j\<lparr>pj_status := Scheduled, pj_provider_post_id := None, pj_provider_post_url := None,
       pj_normalized_error := None, pj_raw_error_ref := None,
       pj_requires_action_reason := None, pj_updated_at := now\<rparr>"

section \<open>Retry with backoff\<close>

datatype retry_outcome = Requeued i64 | Exhausted

definition RETRY_BACKOFF_CEILING_SECS :: i64 where
  "RETRY_BACKOFF_CEILING_SECS = 3600"

definition i64_wrap :: "int \<Rightarrow> i64" where
  "i64_wrap x = (x + 2 ^ 63) mod 2 ^ 64 - 2 ^ 63"

definition i64_checked_shl :: "i64 \<Rightarrow> nat \<Rightarrow> i64 option" where
  "i64_checked_shl a n = (if n < 64 then Some (i64_wrap (a * 2 ^ n)) else None)"

definition backoff_delay_secs :: "u32 \<Rightarrow> i64 \<Rightarrow> i64" where
  "backoff_delay_secs attempt_count base_backoff_secs =
     (let e = min (unat (u32_saturating_sub attempt_count 1)) 32;
          factor = (case i64_checked_shl 1 e of Some f \<Rightarrow> f | None \<Rightarrow> i64_max)
      in min (case i64_checked_mul base_backoff_secs factor of
                Some x \<Rightarrow> x | None \<Rightarrow> RETRY_BACKOFF_CEILING_SECS)
             RETRY_BACKOFF_CEILING_SECS)"

definition retry_with_backoff_or_fail ::
  "publish_job \<Rightarrow> u32 \<Rightarrow> i64 \<Rightarrow> string \<Rightarrow> string \<Rightarrow> i64 \<Rightarrow> publish_job \<times> retry_outcome" where
  "retry_with_backoff_or_fail j max_attempts base_backoff_secs normalized_error raw_error_ref
     now =
     (if pj_attempt_count j \<ge> max_attempts
      then (job_fail j normalized_error raw_error_ref now, Exhausted)
      else
        let delay = backoff_delay_secs (pj_attempt_count j) base_backoff_secs;
            next_scheduled_for = i64_saturating_add now delay;
            job = (job_retry j now)\<lparr>pj_scheduled_for := next_scheduled_for\<rparr>
        in (job, Requeued next_scheduled_for))"

section \<open>Events\<close>

definition publish_job_event_new ::
  "string \<Rightarrow> string \<Rightarrow> publish_job_event_type \<Rightarrow> publish_job_actor_type \<Rightarrow> string \<Rightarrow> json \<Rightarrow> i64
   \<Rightarrow> publish_job_event" where
  "publish_job_event_new ident publish_job_id event_type actor_type message metadata created_at =
     \<lparr>pe_id = ident, pe_publish_job_id = publish_job_id, pe_event_type = event_type,
      pe_actor_type = actor_type, pe_message = message, pe_metadata = metadata,
      pe_created_at = created_at\<rparr>"

section \<open>What each transition keeps\<close>

text \<open>The fields that name a job never change: its identity.\<close>

definition job_identity :: "publish_job \<Rightarrow> string \<times> string \<times> string \<times> string \<times> provider \<times> string \<times> string" where
  "job_identity j =
     (pj_id j, pj_campaign_id j, pj_variant_id j, pj_connected_account_id j, pj_provider j,
      pj_artifact_ref j, pj_idempotency_key j)"

lemmas transition_defs =
  job_requires_action_def job_schedule_def job_reschedule_def claim_for_upload_def
  job_processing_def start_provider_processing_def job_publish_def
  publish_with_optional_url_def job_cancel_def job_fail_def job_retry_def

lemma job_identity_transitions [frame_simps]:
  "job_identity (job_requires_action j r n) = job_identity j"
  "job_identity (job_schedule j n) = job_identity j"
  "job_identity (job_reschedule j t n) = job_identity j"
  "job_identity (claim_for_upload j n) = job_identity j"
  "job_identity (job_processing j p n) = job_identity j"
  "job_identity (start_provider_processing j n) = job_identity j"
  "job_identity (job_publish j p u n) = job_identity j"
  "job_identity (publish_with_optional_url j p uo n) = job_identity j"
  "job_identity (job_cancel j n) = job_identity j"
  "job_identity (job_fail j e r n) = job_identity j"
  "job_identity (job_retry j n) = job_identity j"
  by (simp_all add: job_identity_def transition_defs Let_def)

lemma pj_id_transitions [simp]:
  "pj_id (job_requires_action j r n) = pj_id j"
  "pj_id (job_schedule j n) = pj_id j"
  "pj_id (job_reschedule j t n) = pj_id j"
  "pj_id (claim_for_upload j n) = pj_id j"
  "pj_id (job_processing j p n) = pj_id j"
  "pj_id (start_provider_processing j n) = pj_id j"
  "pj_id (job_publish j p u n) = pj_id j"
  "pj_id (publish_with_optional_url j p uo n) = pj_id j"
  "pj_id (job_cancel j n) = pj_id j"
  "pj_id (job_fail j e r n) = pj_id j"
  "pj_id (job_retry j n) = pj_id j"
  by (simp_all add: transition_defs Let_def)

lemma pj_status_transitions [simp]:
  "pj_status (job_requires_action j r n) = RequiresAction"
  "pj_status (job_schedule j n) = Scheduled"
  "pj_status (job_reschedule j t n) = Scheduled"
  "pj_status (claim_for_upload j n) = Uploading"
  "pj_status (job_processing j p n) = Processing"
  "pj_status (start_provider_processing j n) = Processing"
  "pj_status (job_publish j p u n) = Published"
  "pj_status (publish_with_optional_url j p uo n) = Published"
  "pj_status (job_cancel j n) = Cancelled"
  "pj_status (job_fail j e r n) = Failed"
  "pj_status (job_retry j n) = Scheduled"
  by (simp_all add: transition_defs Let_def)

lemma retry_identity [frame_simps]:
  "job_identity (fst (retry_with_backoff_or_fail j m b e r n)) = job_identity j"
  by (simp add: retry_with_backoff_or_fail_def Let_def job_identity_def transition_defs)

lemma pj_id_retry [simp]: "pj_id (fst (retry_with_backoff_or_fail j m b e r n)) = pj_id j"
  by (simp add: retry_with_backoff_or_fail_def Let_def transition_defs)

section \<open>The idempotency key\<close>

lemma length_be_bytes [simp]: "length (be_bytes k n) = k"
  by (induction k arbitrary: n) simp_all

lemma be_bytes_inj: "m < 256 ^ k \<Longrightarrow> n < 256 ^ k \<Longrightarrow> be_bytes k m = be_bytes k n \<Longrightarrow> m = n"
proof (induction k arbitrary: m n)
  case 0
  then show ?case by simp
next
  case (Suc k)
  from Suc.prems(3) have hi: "be_bytes k (m div 256) = be_bytes k (n div 256)"
    and lo: "(char_of (m mod 256) :: char) = char_of (n mod 256)" by simp_all
  from Suc.prems(1,2) have "m div 256 < 256 ^ k" "n div 256 < 256 ^ k"
    by (simp_all add: less_mult_imp_div_less mult.commute)
  then have div_eq: "m div 256 = n div 256" using Suc.IH hi by simp
  from lo have "(of_char (char_of (m mod 256) :: char) :: nat) = of_char (char_of (n mod 256) :: char)"
    by (rule arg_cong)
  then have "m mod 256 = n mod 256" by (simp only: of_char_of) simp
  with div_eq show ?case by (metis div_mult_mod_eq)
qed

lemma hash_part_append_inj:
  assumes "length x < 2 ^ 64" and "length y < 2 ^ 64"
    and "hash_part x @ r = hash_part y @ r'"
  shows "x = y \<and> r = r'"
proof -
  from assms(3) have "be_bytes 8 (length x) = be_bytes 8 (length y)" and rest: "x @ r = y @ r'"
    by (simp_all add: hash_part_def append_eq_append_conv)
  with assms(1,2) have "length x = length y" using be_bytes_inj [of "length x" 8 "length y"] by simp
  with rest show ?thesis by simp
qed

text \<open>Domain separation of the idempotency key. Two publish requests hash the same bytes only when
  all four of their fields agree: no pair of distinct (campaign, variant, account, artifact) can be
  confused by where one field ends and the next begins. A collision of keys is then a collision of
  the digest.\<close>

theorem idempotency_input_injective:
  assumes "\<forall>x \<in> {c, v, a, r, c', v', a', r'}. length x < 2 ^ 64"
    and "idempotency_input c v a r = idempotency_input c' v' a' r'"
  shows "c = c' \<and> v = v' \<and> a = a' \<and> r = r'"
proof -
  have len: "length c < 2 ^ 64" "length v < 2 ^ 64" "length a < 2 ^ 64" "length r < 2 ^ 64"
    "length c' < 2 ^ 64" "length v' < 2 ^ 64" "length a' < 2 ^ 64" "length r' < 2 ^ 64"
    using assms(1) by simp_all
  note eq = assms(2) [unfolded idempotency_input_def]
  from hash_part_append_inj [OF len(1,5) eq]
  have c: "c = c'" and eq2: "hash_part v @ hash_part a @ hash_part r
      = hash_part v' @ hash_part a' @ hash_part r'" by simp_all
  from hash_part_append_inj [OF len(2,6) eq2]
  have v: "v = v'" and eq3: "hash_part a @ hash_part r = hash_part a' @ hash_part r'" by simp_all
  from hash_part_append_inj [OF len(3,7) eq3]
  have a: "a = a'" and eq4: "hash_part r @ [] = hash_part r' @ []" by simp_all
  from hash_part_append_inj [OF len(4,8) eq4] c v a show ?thesis by simp
qed

theorem idempotency_input_injective_witness:
  "idempotency_input ''ab'' ''c'' ''d'' ''e'' \<noteq> idempotency_input ''a'' ''bc'' ''d'' ''e''"
  using idempotency_input_injective [of "''ab''" "''c''" "''d''" "''e''" "''a''" "''bc''" "''d''" "''e''"]
  by auto

section \<open>Backoff\<close>

lemma i64_wrap_id: "in_i64 x \<Longrightarrow> i64_wrap x = x"
  by (simp add: i64_wrap_def in_i64_def i64_min_def i64_max_def mod_pos_pos_trivial)

lemma backoff_factor: "e \<le> 32 \<Longrightarrow> i64_checked_shl 1 e = Some (2 ^ e)"
proof -
  assume e: "e \<le> 32"
  then have "(2::int) ^ e \<le> 2 ^ 32" by (rule power_increasing) simp
  moreover have "(- 9223372036854775808::int) \<le> 2 ^ e" by (rule order_trans [of _ 0]) simp_all
  ultimately have "in_i64 (2 ^ e)" by (simp add: in_i64_def i64_min_def i64_max_def)
  with e show ?thesis by (simp add: i64_checked_shl_def i64_wrap_id)
qed

definition backoff_exponent :: "u32 \<Rightarrow> nat" where
  "backoff_exponent n = min (unat n - 1) 32"

lemma backoff_delay_closed:
  "backoff_delay_secs n b =
     (if in_i64 (b * 2 ^ backoff_exponent n) then min (b * 2 ^ backoff_exponent n) 3600 else 3600)"
proof -
  have "min (unat (u32_saturating_sub n 1)) 32 = backoff_exponent n"
    by (simp add: unat_u32_saturating_sub backoff_exponent_def)
  moreover have "i64_checked_shl 1 (backoff_exponent n) = Some (2 ^ backoff_exponent n)"
    by (rule backoff_factor) (simp add: backoff_exponent_def)
  ultimately show ?thesis
    by (simp add: backoff_delay_secs_def Let_def i64_checked_mul_def RETRY_BACKOFF_CEILING_SECS_def)
qed

lemma backoff_delay_min:
  assumes "0 \<le> b"
  shows "backoff_delay_secs n b = min (b * 2 ^ backoff_exponent n) 3600"
proof -
  have "0 \<le> b * 2 ^ backoff_exponent n" using assms by simp
  then show ?thesis
    by (auto simp: backoff_delay_closed in_i64_def i64_min_def i64_max_def)
qed

text \<open>Backoff. For a non-negative base the delay after attempt \<open>n\<close> is the base doubled \<open>n - 1\<close>
  times (the exponent stops at 32), capped at one hour; it never overflows, is never negative, never
  exceeds the cap, and never shrinks as attempts accumulate.\<close>

theorem backoff_delay_spec:
  assumes "0 \<le> base" and "m \<le> n"
  shows "backoff_delay_secs n base = min (base * 2 ^ min (unat n - 1) 32) RETRY_BACKOFF_CEILING_SECS
    \<and> 0 \<le> backoff_delay_secs n base \<and> backoff_delay_secs n base \<le> RETRY_BACKOFF_CEILING_SECS
    \<and> backoff_delay_secs m base \<le> backoff_delay_secs n base"
proof -
  have "unat m \<le> unat n" using assms(2) by (simp add: word_le_nat_alt)
  then have "backoff_exponent m \<le> backoff_exponent n" by (auto simp: backoff_exponent_def)
  then have "(2::int) ^ backoff_exponent m \<le> 2 ^ backoff_exponent n" by (rule power_increasing) simp
  with assms(1) have "base * 2 ^ backoff_exponent m \<le> base * 2 ^ backoff_exponent n"
    by (rule mult_left_mono [rotated])
  with assms(1) show ?thesis
    by (simp add: backoff_delay_min RETRY_BACKOFF_CEILING_SECS_def) (simp add: backoff_exponent_def)
qed

theorem backoff_delay_spec_witness: "backoff_delay_secs 4 30 = 240 \<and> backoff_delay_secs 9 30 = 3600"
  using backoff_delay_spec [of 30 4 4] backoff_delay_spec [of 30 9 9]
  by (simp add: RETRY_BACKOFF_CEILING_SECS_def)

section \<open>Bounded retry\<close>

lemma unat_less_two_power: "unat (w :: 32 word) < 2 ^ 32"
  using unsigned_less [of w, where ?'a = nat] by simp

text \<open>A job whose every attempt fails transiently: each is claimed at the time it is due,
  fails at once, and the retry decision is taken. \<open>failing_run\<close> is the job after \<open>k\<close> such
  rounds; a job that is no longer scheduled is not claimed again.\<close>

fun failing_run :: "u32 \<Rightarrow> i64 \<Rightarrow> string \<Rightarrow> string \<Rightarrow> nat \<Rightarrow> publish_job \<Rightarrow> publish_job" where
  "failing_run mx base e r 0 j = j"
| "failing_run mx base e r (Suc k) j =
     (let i = failing_run mx base e r k j in
      if pj_status i = Scheduled
      then fst (retry_with_backoff_or_fail (claim_for_upload i (pj_scheduled_for i)) mx base e r
                  (pj_scheduled_for i))
      else i)"

lemma attempts_transitions:
  "pj_attempt_count (claim_for_upload j n) = u32_saturating_add (pj_attempt_count j) 1"
  "pj_attempt_count (fst (retry_with_backoff_or_fail j mx b e r n)) = pj_attempt_count j"
  by (simp_all add: transition_defs retry_with_backoff_or_fail_def Let_def)

lemma retry_status:
  "pj_status (fst (retry_with_backoff_or_fail j mx b e r n)) =
     (if pj_attempt_count j \<ge> mx then Failed else Scheduled)"
  by (simp add: retry_with_backoff_or_fail_def Let_def transition_defs)

lemma retry_exhausted:
  "pj_attempt_count j \<ge> mx \<Longrightarrow> fst (retry_with_backoff_or_fail j mx b e r n) = job_fail j e r n"
  by (simp add: retry_with_backoff_or_fail_def)

lemma failing_run_attempts:
  assumes "pj_attempt_count j = 0" and "pj_status j = Scheduled" and "k \<le> unat mx"
  shows "unat (pj_attempt_count (failing_run mx base e r k j)) = k \<and>
    pj_status (failing_run mx base e r k j) = (if k = unat mx \<and> 0 < k then Failed else Scheduled)"
  using assms(3)
proof (induction k)
  case 0
  then show ?case using assms by simp
next
  case (Suc k)
  let ?i = "failing_run mx base e r k j"
  from Suc have n: "unat (pj_attempt_count ?i) = k" and st: "pj_status ?i = Scheduled" by auto
  have bound: "Suc k < 2 ^ 32" using Suc.prems unat_less_two_power [of mx] by simp
  then have "unat (u32_saturating_add (pj_attempt_count ?i) 1) = Suc k"
    using n by (simp add: unat_u32_saturating_add)
  then show ?case
    using st Suc.prems by (simp add: Let_def attempts_transitions retry_status word_le_nat_alt)
qed

lemma failing_run_stays: "pj_status (failing_run mx base e r k j) \<noteq> Scheduled \<Longrightarrow>
    failing_run mx base e r (k + d) j = failing_run mx base e r k j"
  by (induction d) (simp_all add: Let_def)

text \<open>C36: Bounded retry. A scheduled job whose attempts all fail transiently is tried exactly
  \<open>max_attempts\<close> times: it is still scheduled after any smaller number of attempts, failed with the
  last error after \<open>max_attempts\<close>, and never tried again.\<close>

theorem retry_is_bounded:
  assumes "pj_attempt_count j = 0" and "pj_status j = Scheduled" and "0 < mx"
  shows "(\<forall>k < unat mx. pj_status (failing_run mx base e r k j) = Scheduled)
    \<and> (\<forall>k \<ge> unat mx. failing_run mx base e r k j = failing_run mx base e r (unat mx) j
        \<and> pj_status (failing_run mx base e r k j) = Failed
        \<and> pj_attempt_count (failing_run mx base e r k j) = mx
        \<and> pj_normalized_error (failing_run mx base e r k j) = Some e)"
proof -
  let ?run = "\<lambda>k. failing_run mx base e r k j"
  have pos: "0 < unat mx" using assms(3) by (simp add: unat_gt_0 word_gt_0)
  note at = failing_run_attempts [OF assms(1,2)]
  have before: "\<forall>k < unat mx. pj_status (?run k) = Scheduled" using at by simp
  have "pj_status (?run (unat mx)) = Failed" and count: "unat (pj_attempt_count (?run (unat mx))) = unat mx"
    using at [of "unat mx" mx base e r] pos by simp_all
  have error: "pj_normalized_error (?run (unat mx)) = Some e"
  proof -
    obtain k where k: "unat mx = Suc k" using pos gr0_implies_Suc by blast
    let ?i = "?run k"
    have "pj_status ?i = Scheduled" using before k by simp
    moreover have "mx \<le> pj_attempt_count (claim_for_upload ?i (pj_scheduled_for ?i))"
    proof -
      have "unat (pj_attempt_count ?i) = k" using at [of k mx base e r] k by simp
      moreover have "Suc k < 2 ^ 32" using k unat_less_two_power [of mx] by simp
      ultimately show ?thesis using k
        by (simp add: attempts_transitions word_le_nat_alt unat_u32_saturating_add)
    qed
    ultimately have "?run (Suc k) =
        job_fail (claim_for_upload ?i (pj_scheduled_for ?i)) e r (pj_scheduled_for ?i)"
      by (simp add: Let_def retry_exhausted)
    then have "pj_normalized_error (?run (Suc k)) = Some e" by (simp only: job_fail_def) simp
    with k show ?thesis by simp
  qed
  have stays: "?run k = ?run (unat mx)" if "unat mx \<le> k" for k
    using failing_run_stays [of mx base e r "unat mx" j "k - unat mx"] that
      \<open>pj_status (?run (unat mx)) = Failed\<close> by simp
  have "pj_attempt_count (?run (unat mx)) = mx" using count by (simp add: unsigned_word_eqI)
  note last = \<open>pj_status (?run (unat mx)) = Failed\<close> this error
  show ?thesis
  proof (intro conjI allI impI)
    fix k
    assume "k < unat mx"
    with before show "pj_status (?run k) = Scheduled" by blast
  next
    fix k
    assume "unat mx \<le> k"
    then show same: "?run k = ?run (unat mx)" by (rule stays)
    show "pj_status (?run k) = Failed" unfolding same by (rule last)
    show "pj_attempt_count (?run k) = mx" unfolding same by (rule last)
    show "pj_normalized_error (?run k) = Some e" unfolding same by (rule last)
  qed
qed

text \<open>The default of the upload service: three attempts, thirty seconds of base delay.\<close>

definition fresh_job :: publish_job where
  "fresh_job =
     job_schedule (publish_job_new \<lparr>sha256 = (\<lambda>s. s), base64_url_safe_no_pad = (\<lambda>s. s)\<rparr>
       ''j'' ''c'' ''v'' ''a'' YouTube ''r'' 100 ''u'') 50"

theorem retry_is_bounded_witness:
  "pj_status (failing_run 3 30 ''network'' ''log'' 2 fresh_job) = Scheduled
   \<and> pj_status (failing_run 3 30 ''network'' ''log'' 3 fresh_job) = Failed
   \<and> pj_attempt_count (failing_run 3 30 ''network'' ''log'' 7 fresh_job) = 3"
proof -
  have "pj_attempt_count fresh_job = 0" "pj_status fresh_job = Scheduled"
    by (simp_all add: fresh_job_def job_schedule_def publish_job_new_def Let_def)
  note bounded = retry_is_bounded [OF this, of 3 30 "''network''" "''log''"]
  have mx: "0 < (3::u32)" "2 < unat (3::u32)" "unat (3::u32) \<le> 3" "unat (3::u32) \<le> 7" by simp_all
  note before = bounded [OF mx(1), THEN conjunct1, rule_format, OF mx(2)]
  note at3 = bounded [OF mx(1), THEN conjunct2, rule_format, OF mx(3)]
  note at7 = bounded [OF mx(1), THEN conjunct2, rule_format, OF mx(4)]
  from before at3 [THEN conjunct2, THEN conjunct1] at7 [THEN conjunct2, THEN conjunct2, THEN conjunct1]
  show ?thesis by (intro conjI)
qed

end
