(* ===== verification/Token.thy ===== *)
theory Token
  imports Social_Model
begin

text \<open>
  \<open>crates/social/src/token.rs\<close> and \<open>token_bundle.rs\<close>: tokens encrypted at rest, and
  the expiry bookkeeping of an OAuth answer.

  ChaCha20-Poly1305, the standard base64 alphabet and the operating system's random nonces
  come from other crates: the cipher is a record of functions, a nonce an argument.
\<close>

section \<open>Secrets and errors\<close>

definition TOKEN_VERSION :: u32 where "TOKEN_VERSION = 2"

record token_secret =
  ts_connected_account_id :: string
  ts_encrypted_access_token :: string
  ts_encrypted_refresh_token :: "string option"
  ts_access_token_expires_at :: "i64 option"
  ts_refresh_token_expires_at :: "i64 option"
  ts_token_version :: u32
  ts_kms_key_id :: string
  ts_last_refreshed_at :: "i64 option"

datatype token_error =
    EmptyKey
  | BadKeyLength
  | InvalidEncoding
  | InvalidPlaintext
  | EncryptionFailed
  | DecryptionFailed
  | UnsupportedTokenVersion u32

text \<open>The messages of the \<open>Display\<close> derive; the dash of the decryption message is the three
  bytes of \<open>U+2014\<close>.\<close>

fun token_error_to_string :: "token_error \<Rightarrow> string" where
  "token_error_to_string EmptyKey = ''key provider returned an empty key''"
| "token_error_to_string BadKeyLength = ''key material must be exactly 32 bytes for AEAD''"
| "token_error_to_string InvalidEncoding = ''encrypted token payload is not valid base64''"
| "token_error_to_string InvalidPlaintext = ''decrypted token payload is not valid UTF-8''"
| "token_error_to_string EncryptionFailed = ''AEAD encryption failed''"
| "token_error_to_string DecryptionFailed =
     ''AEAD decryption failed '' @ [CHR 0xE2, CHR 0x80, CHR 0x94]
       @ '' ciphertext is corrupted or key is wrong''"
| "token_error_to_string (UnsupportedTokenVersion v) =
     ''token_version '' @ dec_of_nat (unat v)
       @ '' is not supported; re-authenticate to generate a v2 token''"

record key_provider =
  kp_key_id :: string
  kp_key_material :: string

section \<open>Keys in hexadecimal\<close>

definition hex_val :: "char \<Rightarrow> (8 word) option" where
  "hex_val c =
     (let b = (of_char c :: nat) in
      if 48 \<le> b \<and> b \<le> 57 then Some (of_nat (b - 48))
      else if 97 \<le> b \<and> b \<le> 102 then Some (of_nat (b - 97 + 10))
      else if 65 \<le> b \<and> b \<le> 70 then Some (of_nat (b - 65 + 10))
      else None)"

text \<open>\<open>chunks(2)\<close> of the 64 bytes; each pair of digits is \<open>(hi << 4) | lo\<close>.\<close>

fun hex_bytes :: "string \<Rightarrow> token_error + string" where
  "hex_bytes (c # e # cs) =
     rbind (ok_or BadKeyLength (hex_val c)) (\<lambda>hi.
     rbind (ok_or BadKeyLength (hex_val e)) (\<lambda>lo.
     rbind (hex_bytes cs) (\<lambda>bs.
       Inr (char_of (unat (or (push_bit 4 hi) lo)) # bs))))"
| "hex_bytes _ = Inr []"

definition aead256_from_hex :: "string \<Rightarrow> string \<Rightarrow> token_error + key_provider" where
  "aead256_from_hex key_id hex =
     (if length hex \<noteq> 64 then Inl BadKeyLength
      else rbind (hex_bytes hex) (\<lambda>bytes.
        Inr \<lparr>kp_key_id = key_id, kp_key_material = bytes\<rparr>))"

section \<open>Sealing and opening\<close>

record cipher =
  chacha_encrypt :: "string \<Rightarrow> string \<Rightarrow> string \<Rightarrow> string option"
  chacha_decrypt :: "string \<Rightarrow> string \<Rightarrow> string \<Rightarrow> string option"
  base64_encode :: "string \<Rightarrow> string"
  base64_decode :: "string \<Rightarrow> string option"

definition check_key :: "key_provider \<Rightarrow> token_error + string" where
  "check_key kp =
     (let key_bytes = kp_key_material kp in
      if key_bytes = [] then Inl EmptyKey
      else if length key_bytes \<noteq> 32 then Inl BadKeyLength
      else Inr key_bytes)"

definition aead_seal :: "cipher \<Rightarrow> string \<Rightarrow> string \<Rightarrow> key_provider \<Rightarrow> token_error + string" where
  "aead_seal ci nonce plaintext kp =
     rbind (check_key kp) (\<lambda>key_bytes.
     rbind (ok_or EncryptionFailed (chacha_encrypt ci key_bytes nonce plaintext)) (\<lambda>ciphertext.
       Inr (base64_encode ci (nonce @ ciphertext))))"

definition aead_open :: "cipher \<Rightarrow> string \<Rightarrow> key_provider \<Rightarrow> token_error + string" where
  "aead_open ci encoded kp =
     rbind (check_key kp) (\<lambda>key_bytes.
     rbind (ok_or InvalidEncoding (base64_decode ci encoded)) (\<lambda>payload.
       if length payload < 12 then Inl InvalidEncoding
       else
         rbind (ok_or DecryptionFailed
                  (chacha_decrypt ci key_bytes (take 12 payload) (drop 12 payload))) (\<lambda>plain.
           if utf8_valid plain then Inr plain else Inl InvalidPlaintext)))"

definition token_secret_encrypt ::
  "cipher \<Rightarrow> string \<times> string \<Rightarrow> string \<Rightarrow> string \<Rightarrow> string option \<Rightarrow> key_provider \<Rightarrow> i64
   \<Rightarrow> token_error + token_secret" where
  "token_secret_encrypt ci nonces connected_account_id access_token refresh_token kp now =
     rbind (aead_seal ci (fst nonces) access_token kp) (\<lambda>access.
     rbind (map_transpose (\<lambda>token. aead_seal ci (snd nonces) token kp) refresh_token) (\<lambda>refresh.
       Inr \<lparr>ts_connected_account_id = connected_account_id,
            ts_encrypted_access_token = access, ts_encrypted_refresh_token = refresh,
            ts_access_token_expires_at = None, ts_refresh_token_expires_at = None,
            ts_token_version = TOKEN_VERSION, ts_kms_key_id = kp_key_id kp,
            ts_last_refreshed_at = Some now\<rparr>))"

definition decrypt_access_token :: "cipher \<Rightarrow> token_secret \<Rightarrow> key_provider \<Rightarrow> token_error + string" where
  "decrypt_access_token ci s kp =
     (if ts_token_version s \<noteq> TOKEN_VERSION
      then Inl (UnsupportedTokenVersion (ts_token_version s))
      else aead_open ci (ts_encrypted_access_token s) kp)"

definition decrypt_refresh_token ::
  "cipher \<Rightarrow> token_secret \<Rightarrow> key_provider \<Rightarrow> token_error + string option" where
  "decrypt_refresh_token ci s kp =
     (if ts_token_version s \<noteq> TOKEN_VERSION
      then Inl (UnsupportedTokenVersion (ts_token_version s))
      else map_transpose (\<lambda>enc. aead_open ci enc kp) (ts_encrypted_refresh_token s))"

definition is_access_expiring :: "token_secret \<Rightarrow> i64 \<Rightarrow> i64 \<Rightarrow> bool" where
  "is_access_expiring s now skew_secs =
     (case ts_access_token_expires_at s of
        Some expires_at \<Rightarrow> expires_at \<le> i64_saturating_add now skew_secs
      | None \<Rightarrow> False)"

definition refresh_token_exhausted :: "token_secret \<Rightarrow> i64 \<Rightarrow> bool" where
  "refresh_token_exhausted s now =
     (case ts_refresh_token_expires_at s of Some expires_at \<Rightarrow> expires_at \<le> now | None \<Rightarrow> False)"

section \<open>Token bundles\<close>

record oauth_token_response =
  otr_provider_account_id :: string
  otr_scopes :: string
  otr_expires_in :: i64
  otr_refresh_expires_in :: "i64 option"

record provider_token_bundle =
  ptb_provider :: provider
  ptb_provider_account_id :: string
  ptb_scopes :: "string list"
  ptb_access_token_expires_at :: i64
  ptb_refresh_token_expires_at :: "i64 option"

datatype token_bundle_error = InvalidAccessTtl | InvalidRefreshTtl | TimestampOverflow

definition scope_delimiter :: "provider \<Rightarrow> char" where
  "scope_delimiter p =
     (case p of
        YouTube \<Rightarrow> CHR '' '' | TwitterX \<Rightarrow> CHR '' ''
      | TikTok \<Rightarrow> CHR '','' | Instagram \<Rightarrow> CHR '','')"

definition split_scopes :: "provider \<Rightarrow> string \<Rightarrow> string list" where
  "split_scopes p raw =
     filter (\<lambda>scope. scope \<noteq> []) (map trim (split_on (scope_delimiter p) raw))"

definition bundle_from_oauth_response ::
  "provider \<Rightarrow> oauth_token_response \<Rightarrow> i64 \<Rightarrow> token_bundle_error + provider_token_bundle" where
  "bundle_from_oauth_response p response now =
     (if otr_expires_in response \<le> 0 then Inl InvalidAccessTtl
      else if (case otr_refresh_expires_in response of Some ttl \<Rightarrow> ttl \<le> 0 | None \<Rightarrow> False)
        then Inl InvalidRefreshTtl
      else
        let scopes = split_scopes p (otr_scopes response) in
        rbind (ok_or TimestampOverflow (i64_checked_add now (otr_expires_in response)))
          (\<lambda>access_token_expires_at.
        rbind (map_transpose (\<lambda>ttl. ok_or TimestampOverflow (i64_checked_add now ttl))
                 (otr_refresh_expires_in response))
          (\<lambda>refresh_token_expires_at.
            Inr \<lparr>ptb_provider = p,
                 ptb_provider_account_id = otr_provider_account_id response,
                 ptb_scopes = scopes,
                 ptb_access_token_expires_at = access_token_expires_at,
                 ptb_refresh_token_expires_at = refresh_token_expires_at\<rparr>)))"

section \<open>Properties\<close>

definition cipher_laws :: "cipher \<Rightarrow> bool" where
  "cipher_laws ci \<longleftrightarrow>
     (\<forall>x. base64_decode ci (base64_encode ci x) = Some x) \<and>
     (\<forall>k n m c. chacha_encrypt ci k n m = Some c \<longrightarrow> chacha_decrypt ci k n c = Some m)"

lemma aead_open_seal:
  assumes "cipher_laws ci" and "length nonce = 12" and "utf8_valid m"
    and "aead_seal ci nonce m kp = Inr c"
  shows "aead_open ci c kp = Inr m"
  using assms
  by (auto simp: cipher_laws_def aead_seal_def aead_open_def monad_defs check_key_def Let_def
      split: if_splits option.splits)

lemma decrypt_encrypt:
  assumes "cipher_laws ci" and "length (fst nonces) = 12" and "length (snd nonces) = 12"
    and "utf8_valid access" and "\<And>r. refresh = Some r \<Longrightarrow> utf8_valid r"
    and "token_secret_encrypt ci nonces acct access refresh kp now = Inr s"
  shows "decrypt_access_token ci s kp = Inr access \<and> decrypt_refresh_token ci s kp = Inr refresh"
proof -
  from assms(6) obtain a r where a: "aead_seal ci (fst nonces) access kp = Inr a"
    and r: "map_transpose (\<lambda>t. aead_seal ci (snd nonces) t kp) refresh = Inr r"
    and s: "ts_encrypted_access_token s = a" "ts_encrypted_refresh_token s = r"
           "ts_token_version s = TOKEN_VERSION"
    by (auto simp: token_secret_encrypt_def rbind_eq_Inr)
  have "aead_open ci a kp = Inr access"
    using assms(1,2,4) a by (rule aead_open_seal)
  moreover have "map_transpose (\<lambda>c. aead_open ci c kp) r = Inr refresh"
    using r assms(1,3,5) by (cases refresh) (auto simp: map_transpose_eq_Inr dest: aead_open_seal)
  ultimately show ?thesis
    using s by (simp add: decrypt_access_token_def decrypt_refresh_token_def)
qed

text \<open>Tokens survive encryption at rest: for a cipher and a base64 codec that invert each
  other and nonces of twelve bytes, whatever \<open>TokenSecret::encrypt\<close> produced decrypts under the
  same key provider to the access and refresh tokens it was given.\<close>

theorem token_secret_round_trip:
  assumes "cipher_laws ci" and "length (fst nonces) = 12" and "length (snd nonces) = 12"
    and "utf8_valid access" and "\<And>r. refresh = Some r \<Longrightarrow> utf8_valid r"
    and "token_secret_encrypt ci nonces acct access refresh kp now = Inr s"
  shows "decrypt_access_token ci s kp = Inr access \<and> decrypt_refresh_token ci s kp = Inr refresh"
  using assms by (rule decrypt_encrypt)

definition plain_cipher :: cipher where
  "plain_cipher = \<lparr>chacha_encrypt = (\<lambda>k n m. Some (k @ m)),
     chacha_decrypt = (\<lambda>k n c. if take (length k) c = k then Some (drop (length k) c) else None),
     base64_encode = (\<lambda>x. x), base64_decode = Some\<rparr>"

lemma plain_cipher_laws: "cipher_laws plain_cipher"
  by (auto simp: cipher_laws_def plain_cipher_def)

definition sample_key :: key_provider where
  "sample_key = \<lparr>kp_key_id = ''key_1'', kp_key_material = replicate 32 CHR ''k''\<rparr>"

theorem token_secret_round_trip_witness:
  "\<exists>s. token_secret_encrypt plain_cipher (replicate 12 CHR ''n'', replicate 12 CHR ''m'') ''acct_1''
         ''access'' (Some ''refresh'') sample_key 7 = Inr s \<and>
       decrypt_access_token plain_cipher s sample_key = Inr ''access'' \<and>
       decrypt_refresh_token plain_cipher s sample_key = Inr (Some ''refresh'')"
proof -
  let ?enc = "token_secret_encrypt plain_cipher (replicate 12 CHR ''n'', replicate 12 CHR ''m'')
    ''acct_1'' ''access'' (Some ''refresh'') sample_key 7"
  have "\<exists>s. ?enc = Inr s"
    by (simp add: token_secret_encrypt_def aead_seal_def check_key_def monad_defs sample_key_def
        plain_cipher_def)
  then obtain s where s: "?enc = Inr s" ..
  have "utf8_valid ''access''" and "utf8_valid ''refresh''" by (simp_all add: utf8_valid_def byte_in_def)
  then have "decrypt_access_token plain_cipher s sample_key = Inr ''access'' \<and>
      decrypt_refresh_token plain_cipher s sample_key = Inr (Some ''refresh'')"
    using token_secret_round_trip [OF plain_cipher_laws _ _ _ _ s] by simp
  with s show ?thesis by blast
qed

text \<open>Hexadecimal printing, for stating that key parsing inverts it.\<close>

definition hex_digit :: "nat \<Rightarrow> char" where
  "hex_digit d = char_of (if d < 10 then 48 + d else 87 + d)"

definition to_hex :: "string \<Rightarrow> string" where
  "to_hex bs = concat (map (\<lambda>c. [hex_digit (of_char c div 16), hex_digit (of_char c mod 16)]) bs)"

lemma hex_val_digit: "d < 16 \<Longrightarrow> hex_val (hex_digit d) = Some (of_nat d)"
  by (auto simp: hex_val_def hex_digit_def Let_def)

lemma word_nibbles: "or (push_bit 4 (drop_bit 4 w)) (take_bit 4 w) = (w :: 8 word)"
  by (rule bit_eqI) (auto simp: bit_simps)

lemma nibbles_join:
  assumes "(b::nat) < 256"
  shows "unat (or (push_bit 4 (of_nat (b div 16) :: 8 word)) (of_nat (b mod 16))) = b"
proof -
  let ?w = "of_nat b :: 8 word"
  have w: "unat ?w = b" using assms by (simp add: unat_of_nat)
  have "unat (of_nat (b div 16) :: 8 word) = unat (drop_bit 4 ?w)"
    using assms by (simp only: unat_drop_bit_eq w) (simp add: unat_of_nat drop_bit_eq_div)
  then have hi: "(of_nat (b div 16) :: 8 word) = drop_bit 4 ?w"
    by (rule unsigned_word_eqI)
  have "unat (of_nat (b mod 16) :: 8 word) = unat (take_bit 4 ?w)"
    using assms by (simp only: unsigned_take_bit_eq w) (simp add: unat_of_nat take_bit_eq_mod)
  then have lo: "(of_nat (b mod 16) :: 8 word) = take_bit 4 ?w"
    by (rule unsigned_word_eqI)
  show ?thesis unfolding hi lo word_nibbles by (rule w)
qed

lemma of_char_div_16: "(of_char c :: nat) div 16 < 16"
  using nat_of_char_less_256 [of c] by (simp add: less_mult_imp_div_less)

lemma hex_bytes_to_hex: "hex_bytes (to_hex bs) = Inr bs"
  by (induction bs)
     (simp_all add: to_hex_def monad_defs hex_val_digit nibbles_join of_char_div_16)

lemma length_to_hex: "length (to_hex bs) = 2 * length bs"
  by (induction bs) (simp_all add: to_hex_def)

text \<open>Key parsing: \<open>Aead256Key::from_hex\<close> reads back the hexadecimal form of any 32 bytes, and
  refuses every input whose length is not 64.\<close>

theorem aead256_from_hex_round_trip:
  "(length hex \<noteq> 64 \<longrightarrow> aead256_from_hex kid hex = Inl BadKeyLength) \<and>
   (length bytes = 32 \<longrightarrow>
      aead256_from_hex kid (to_hex bytes) = Inr \<lparr>kp_key_id = kid, kp_key_material = bytes\<rparr>)"
  by (simp add: aead256_from_hex_def length_to_hex hex_bytes_to_hex monad_defs)

theorem aead256_from_hex_round_trip_witness:
  "aead256_from_hex ''k'' ''abc'' = Inl BadKeyLength \<and>
   aead256_from_hex ''k'' (to_hex (replicate 32 CHR ''x'')) =
     Inr \<lparr>kp_key_id = ''k'', kp_key_material = replicate 32 CHR ''x''\<rparr>"
  using aead256_from_hex_round_trip [of "''abc''" "''k''" "replicate 32 CHR ''x''"] by simp

lemma split_scopes_clean:
  assumes "s \<in> set (split_scopes p raw)"
  shows "s \<noteq> [] \<and> scope_delimiter p \<notin> set s"
proof -
  from assms obtain q where q: "q \<in> set (split_on (scope_delimiter p) raw)" "s = trim q" "s \<noteq> []"
    by (auto simp: split_scopes_def)
  then show ?thesis using split_on_no_delim [OF q(1)] set_trim [of q] by auto
qed

text \<open>A bundle built from an OAuth answer expires strictly in the future and inside the range of
  \<open>i64\<close>, for both tokens, and its scopes are non-empty and free of the provider's delimiter.\<close>

theorem bundle_from_oauth_response_sound:
  assumes "bundle_from_oauth_response p response now = Inr b"
  shows "ptb_access_token_expires_at b = now + otr_expires_in response \<and>
    now < ptb_access_token_expires_at b \<and> in_i64 (ptb_access_token_expires_at b) \<and>
    (\<forall>e. ptb_refresh_token_expires_at b = Some e \<longrightarrow> now < e \<and> in_i64 e) \<and>
    (ptb_refresh_token_expires_at b = None \<longleftrightarrow> otr_refresh_expires_in response = None) \<and>
    (\<forall>s \<in> set (ptb_scopes b). s \<noteq> [] \<and> scope_delimiter p \<notin> set s)"
proof -
  have refresh: "map_transpose (\<lambda>ttl. ok_or TimestampOverflow (i64_checked_add now ttl)) x = Inr y \<Longrightarrow>
      (\<forall>ttl. x = Some ttl \<longrightarrow> 0 < ttl) \<Longrightarrow>
      (\<forall>e. y = Some e \<longrightarrow> now < e \<and> in_i64 e) \<and> (y = None \<longleftrightarrow> x = None)" for x y
    by (auto simp: map_transpose_eq_Inr ok_or_eq_Inr dest!: i64_checked_add_SomeD)
  show ?thesis
    using assms split_scopes_clean [of _ p "otr_scopes response"]
      refresh [of "otr_refresh_expires_in response" "ptb_refresh_token_expires_at b"]
    by (force simp: bundle_from_oauth_response_def rbind_eq_Inr ok_or_eq_Inr Let_def
        split: if_splits option.splits dest!: i64_checked_add_SomeD)
qed

theorem bundle_from_oauth_response_sound_witness:
  "\<exists>b. bundle_from_oauth_response TikTok
         \<lparr>otr_provider_account_id = ''a'', otr_scopes = ''video.publish, user.info'',
          otr_expires_in = 3600, otr_refresh_expires_in = Some 86400\<rparr> 1000 = Inr b \<and>
       1000 < ptb_access_token_expires_at b"
proof -
  let ?r = "\<lparr>otr_provider_account_id = ''a'', otr_scopes = ''video.publish, user.info'',
    otr_expires_in = 3600, otr_refresh_expires_in = Some 86400\<rparr>"
  have "\<exists>b. bundle_from_oauth_response TikTok ?r 1000 = Inr b"
    by (simp add: bundle_from_oauth_response_def monad_defs i64_checked_add_def in_i64_def
        i64_min_def i64_max_def Let_def)
  then obtain b where b: "bundle_from_oauth_response TikTok ?r 1000 = Inr b" ..
  from bundle_from_oauth_response_sound [OF b] b show ?thesis by blast
qed

end
