(* ===== verification/Social_Store.thy ===== *)
theory Social_Store
  imports Publish_Job Token
begin

text \<open>
  \<open>crates/social/src/store.rs\<close>: the in-memory implementation of the trait
  \<open>SocialStore\<close>, one table per field, and its operations. A \<open>&self\<close> method is a function
  from the store to a result, a \<open>&mut self\<close> method an operation (\<open>op\<close>).

  \<open>store_ok\<close> is the invariant: every table is a proper \<open>BTreeMap\<close> whose rows are filed
  under their own key, and no two connected accounts share owner, provider and provider
  account. The locale \<open>publish_store\<close> is the part of the trait the publish services rely on;
  it is interpreted on the operations of this theory.
\<close>

datatype store_error =
  SE_NotFound | SE_OwnerMismatch | SE_DuplicateConnectedAccount | SE_Storage string

record social_store =
  oauth_connections :: "(string, oauth_connection) btree_map"
  connected_accounts :: "(string, connected_account) btree_map"
  token_secrets :: "(string, token_secret) btree_map"
  campaign_variant_targets :: "(string, campaign_variant_target) btree_map"
  publish_jobs :: "(string, publish_job) btree_map"
  publish_job_events :: "(string, publish_job_event list) btree_map"
  account_publish_defaults_table :: "(string, account_publish_defaults) btree_map"
  workspace_member_roles :: "(string \<times> string, workspace_member_role) btree_map"
  youtube_quota :: "(i64, usize) btree_map"

definition store_default :: social_store where
  "store_default =
     \<lparr>oauth_connections = [], connected_accounts = [], token_secrets = [],
      campaign_variant_targets = [], publish_jobs = [], publish_job_events = [],
      account_publish_defaults_table = [], workspace_member_roles = [], youtube_quota = []\<rparr>"

type_synonym 'a store_op = "(social_store, store_error, 'a) op"
type_synonym 'a store_read = "social_store \<Rightarrow> store_error + 'a"

section \<open>OAuth connections\<close>

definition save_oauth_connection :: "oauth_connection \<Rightarrow> unit store_op" where
  "save_oauth_connection c s =
     (Inr (), s\<lparr>oauth_connections := bt_insert (oc_id c) c (oauth_connections s)\<rparr>)"

definition get_oauth_connection :: "string \<Rightarrow> oauth_connection store_read" where
  "get_oauth_connection i s = ok_or SE_NotFound (bt_get (oauth_connections s) i)"

definition update_oauth_status ::
  "string \<Rightarrow> oauth_connection_status \<Rightarrow> oauth_connection store_op" where
  "update_oauth_status i status s =
     (case bt_get (oauth_connections s) i of
        None \<Rightarrow> (Inl SE_NotFound, s)
      | Some c \<Rightarrow>
          let c' = c\<lparr>oc_status := status\<rparr>
          in (Inr c', s\<lparr>oauth_connections := bt_insert i c' (oauth_connections s)\<rparr>))"

section \<open>Connected accounts\<close>

definition same_provider_account :: "connected_account \<Rightarrow> connected_account \<Rightarrow> bool" where
  "same_provider_account a b \<longleftrightarrow>
     ca_owner a = ca_owner b \<and> ca_provider a = ca_provider b
       \<and> ca_provider_account_id a = ca_provider_account_id b"

definition save_connected_account :: "connected_account \<Rightarrow> unit store_op" where
  "save_connected_account account s =
     (if list_ex (\<lambda>existing. ca_id existing \<noteq> ca_id account \<and> same_provider_account existing account)
           (bt_values (connected_accounts s))
      then (Inl SE_DuplicateConnectedAccount, s)
      else (Inr (), s\<lparr>connected_accounts :=
                       bt_insert (ca_id account) account (connected_accounts s)\<rparr>))"

definition get_connected_account :: "string \<Rightarrow> connected_account store_read" where
  "get_connected_account i s = ok_or SE_NotFound (bt_get (connected_accounts s) i)"

definition connected_accounts_for_owner :: "owner_ref \<Rightarrow> connected_account list store_read" where
  "connected_accounts_for_owner owner s =
     Inr (filter (\<lambda>account. ca_owner account = owner) (bt_values (connected_accounts s)))"

definition disable_connected_account ::
  "string \<Rightarrow> owner_ref \<Rightarrow> i64 \<Rightarrow> connected_account store_op" where
  "disable_connected_account i owner now s =
     (case bt_get (connected_accounts s) i of
        None \<Rightarrow> (Inl SE_NotFound, s)
      | Some account \<Rightarrow>
          if ca_owner account \<noteq> owner then (Inl SE_OwnerMismatch, s)
          else
            let account' = account\<lparr>ca_status := Disabled, ca_updated_at := now\<rparr>
            in (Inr account',
                s\<lparr>connected_accounts := bt_insert i account' (connected_accounts s)\<rparr>))"

section \<open>Token secrets\<close>

definition save_token_secret :: "token_secret \<Rightarrow> unit store_op" where
  "save_token_secret secret s =
     (Inr (), s\<lparr>token_secrets :=
                 bt_insert (ts_connected_account_id secret) secret (token_secrets s)\<rparr>)"

definition token_secret_for_account :: "string \<Rightarrow> token_secret store_read" where
  "token_secret_for_account i s = ok_or SE_NotFound (bt_get (token_secrets s) i)"

definition token_secrets_due_refresh :: "i64 \<Rightarrow> token_secret list store_read" where
  "token_secrets_due_refresh deadline s =
     Inr (filter (\<lambda>t. case ts_access_token_expires_at t of Some e \<Rightarrow> e \<le> deadline | None \<Rightarrow> False)
            (bt_values (token_secrets s)))"

section \<open>Targets\<close>

definition save_campaign_variant_target :: "campaign_variant_target \<Rightarrow> unit store_op" where
  "save_campaign_variant_target target s =
     (Inr (), s\<lparr>campaign_variant_targets :=
                 bt_insert (cvt_id target) target (campaign_variant_targets s)\<rparr>)"

definition get_campaign_variant_target :: "string \<Rightarrow> campaign_variant_target store_read" where
  "get_campaign_variant_target i s = ok_or SE_NotFound (bt_get (campaign_variant_targets s) i)"

section \<open>Publish jobs\<close>

definition save_publish_job :: "publish_job \<Rightarrow> unit store_op" where
  "save_publish_job job s = (Inr (), s\<lparr>publish_jobs := bt_insert (pj_id job) job (publish_jobs s)\<rparr>)"

definition get_publish_job :: "string \<Rightarrow> publish_job store_read" where
  "get_publish_job i s = ok_or SE_NotFound (bt_get (publish_jobs s) i)"

definition publish_jobs_for_account :: "string \<Rightarrow> publish_job list store_read" where
  "publish_jobs_for_account account_id s =
     Inr (filter (\<lambda>job. pj_connected_account_id job = account_id) (bt_values (publish_jobs s)))"

definition job_due :: "i64 \<Rightarrow> publish_job \<Rightarrow> bool" where
  "job_due now job \<longleftrightarrow> pj_status job = Scheduled \<and> pj_scheduled_for job \<le> now"

definition due_ids :: "i64 \<Rightarrow> usize \<Rightarrow> social_store \<Rightarrow> string list" where
  "due_ids now limit s =
     map snd (take limit (sort (map (\<lambda>(i, job). (pj_scheduled_for job, i))
       (filter (\<lambda>(i, job). job_due now job) (publish_jobs s)))))"

fun claim_ids :: "i64 \<Rightarrow> string list \<Rightarrow> publish_job list store_op" where
  "claim_ids now [] s = (Inr [], s)"
| "claim_ids now (i # is) s =
     (case bt_get (publish_jobs s) i of
        None \<Rightarrow> (Inl SE_NotFound, s)
      | Some job \<Rightarrow>
          let job' = claim_for_upload job now;
              s' = s\<lparr>publish_jobs := bt_insert i job' (publish_jobs s)\<rparr>
          in (case claim_ids now is s' of
                (Inl e, s'') \<Rightarrow> (Inl e, s'')
              | (Inr claimed, s'') \<Rightarrow> (Inr (job' # claimed), s'')))"

definition claim_due_publish_jobs :: "i64 \<Rightarrow> usize \<Rightarrow> publish_job list store_op" where
  "claim_due_publish_jobs now limit s = claim_ids now (due_ids now limit s) s"

definition claim_due_publish_job :: "string \<Rightarrow> i64 \<Rightarrow> publish_job option store_op" where
  "claim_due_publish_job i now s =
     (case bt_get (publish_jobs s) i of
        None \<Rightarrow> (Inl SE_NotFound, s)
      | Some job \<Rightarrow>
          if pj_status job \<noteq> Scheduled \<or> pj_scheduled_for job > now then (Inr None, s)
          else
            let updated = claim_for_upload job now
            in (Inr (Some updated), s\<lparr>publish_jobs := bt_insert i updated (publish_jobs s)\<rparr>))"

definition processing_publish_jobs :: "usize \<Rightarrow> publish_job list store_read" where
  "processing_publish_jobs limit s =
     Inr (take limit (sort_key (\<lambda>job. (pj_updated_at job, pj_id job))
       (filter (\<lambda>job. pj_status job = Processing) (bt_values (publish_jobs s)))))"

section \<open>Events\<close>

definition append_publish_job_event :: "publish_job_event \<Rightarrow> unit store_op" where
  "append_publish_job_event e s =
     (let old = (case bt_get (publish_job_events s) (pe_publish_job_id e) of
                   None \<Rightarrow> [] | Some es \<Rightarrow> es)
      in (Inr (), s\<lparr>publish_job_events :=
                     bt_insert (pe_publish_job_id e) (old @ [e]) (publish_job_events s)\<rparr>))"

definition get_publish_job_events :: "string \<Rightarrow> publish_job_event list store_read" where
  "get_publish_job_events i s =
     Inr (case bt_get (publish_job_events s) i of None \<Rightarrow> [] | Some es \<Rightarrow> es)"

section \<open>Defaults, roles, quota\<close>

definition save_account_publish_defaults :: "account_publish_defaults \<Rightarrow> unit store_op" where
  "save_account_publish_defaults d s =
     (Inr (), s\<lparr>account_publish_defaults_table :=
                 bt_insert (apd_connected_account_id d) d (account_publish_defaults_table s)\<rparr>)"

definition get_account_publish_defaults :: "string \<Rightarrow> account_publish_defaults store_read" where
  "get_account_publish_defaults i s =
     ok_or SE_NotFound (bt_get (account_publish_defaults_table s) i)"

definition save_workspace_member_role :: "workspace_member_role \<Rightarrow> unit store_op" where
  "save_workspace_member_role r s =
     (Inr (), s\<lparr>workspace_member_roles :=
                 bt_insert (wmr_workspace_id r, wmr_user_id r) r (workspace_member_roles s)\<rparr>)"

definition workspace_roles_of :: "string \<Rightarrow> workspace_member_role list store_read" where
  "workspace_roles_of workspace_id s =
     Inr (filter (\<lambda>r. wmr_workspace_id r = workspace_id) (bt_values (workspace_member_roles s)))"

definition workspace_member_roles_for_user :: "string \<Rightarrow> workspace_member_role list store_read" where
  "workspace_member_roles_for_user user_id s =
     Inr (filter (\<lambda>r. wmr_user_id r = user_id) (bt_values (workspace_member_roles s)))"

definition youtube_upload_quota_today :: "i64 \<Rightarrow> usize store_read" where
  "youtube_upload_quota_today now s =
     Inr (case bt_get (youtube_quota s) (i64_div now 86400) of None \<Rightarrow> 0 | Some n \<Rightarrow> n)"

definition increment_youtube_quota :: "i64 \<Rightarrow> unit store_op" where
  "increment_youtube_quota now s =
     (let day = i64_div now 86400;
          n = (case bt_get (youtube_quota s) day of None \<Rightarrow> 0 | Some n \<Rightarrow> n)
      in (Inr (), s\<lparr>youtube_quota := bt_insert day (n + 1) (youtube_quota s)\<rparr>))"

section \<open>Reads and writes\<close>

abbreviation job_of :: "social_store \<Rightarrow> string \<Rightarrow> publish_job option" where
  "job_of s i \<equiv> bt_get (publish_jobs s) i"

abbreviation account_of :: "social_store \<Rightarrow> string \<Rightarrow> connected_account option" where
  "account_of s i \<equiv> bt_get (connected_accounts s) i"

abbreviation target_of :: "social_store \<Rightarrow> string \<Rightarrow> campaign_variant_target option" where
  "target_of s i \<equiv> bt_get (campaign_variant_targets s) i"

definition events_of :: "social_store \<Rightarrow> string \<Rightarrow> publish_job_event list" where
  "events_of s i = (case bt_get (publish_job_events s) i of None \<Rightarrow> [] | Some es \<Rightarrow> es)"

definition with_job :: "publish_job \<Rightarrow> social_store \<Rightarrow> social_store" where
  "with_job j s = s\<lparr>publish_jobs := bt_insert (pj_id j) j (publish_jobs s)\<rparr>"

definition with_event :: "publish_job_event \<Rightarrow> social_store \<Rightarrow> social_store" where
  "with_event e s =
     s\<lparr>publish_job_events :=
        bt_insert (pe_publish_job_id e) (events_of s (pe_publish_job_id e) @ [e]) (publish_job_events s)\<rparr>"

definition with_target :: "campaign_variant_target \<Rightarrow> social_store \<Rightarrow> social_store" where
  "with_target t s =
     s\<lparr>campaign_variant_targets := bt_insert (cvt_id t) t (campaign_variant_targets s)\<rparr>"

definition with_account :: "connected_account \<Rightarrow> social_store \<Rightarrow> social_store" where
  "with_account a s = s\<lparr>connected_accounts := bt_insert (ca_id a) a (connected_accounts s)\<rparr>"

definition with_secret :: "token_secret \<Rightarrow> social_store \<Rightarrow> social_store" where
  "with_secret t s =
     s\<lparr>token_secrets := bt_insert (ts_connected_account_id t) t (token_secrets s)\<rparr>"

lemma store_writes [store_simps]:
  "save_publish_job j s = (Inr (), with_job j s)"
  "append_publish_job_event e s = (Inr (), with_event e s)"
  "save_campaign_variant_target t s = (Inr (), with_target t s)"
  "save_token_secret x s = (Inr (), with_secret x s)"
  by (simp_all add: save_publish_job_def with_job_def append_publish_job_event_def with_event_def
      events_of_def save_campaign_variant_target_def with_target_def save_token_secret_def
      with_secret_def Let_def)

lemma store_reads [store_simps]:
  "get_publish_job i s = ok_or SE_NotFound (job_of s i)"
  "get_connected_account i s = ok_or SE_NotFound (account_of s i)"
  "get_campaign_variant_target i s = ok_or SE_NotFound (target_of s i)"
  "get_publish_job_events i s = Inr (events_of s i)"
  "token_secret_for_account i s = ok_or SE_NotFound (bt_get (token_secrets s) i)"
  by (simp_all add: get_publish_job_def get_connected_account_def get_campaign_variant_target_def
      get_publish_job_events_def events_of_def token_secret_for_account_def)

lemma store_fields [store_simps, simp]:
  "publish_jobs (with_job j s) = bt_insert (pj_id j) j (publish_jobs s)"
  "publish_jobs (with_event e s) = publish_jobs s"
  "publish_jobs (with_target t s) = publish_jobs s"
  "publish_jobs (with_account a s) = publish_jobs s"
  "publish_jobs (with_secret x s) = publish_jobs s"
  "connected_accounts (with_job j s) = connected_accounts s"
  "connected_accounts (with_event e s) = connected_accounts s"
  "connected_accounts (with_target t s) = connected_accounts s"
  "connected_accounts (with_account a s) = bt_insert (ca_id a) a (connected_accounts s)"
  "connected_accounts (with_secret x s) = connected_accounts s"
  "campaign_variant_targets (with_job j s) = campaign_variant_targets s"
  "campaign_variant_targets (with_event e s) = campaign_variant_targets s"
  "campaign_variant_targets (with_target t s) = bt_insert (cvt_id t) t (campaign_variant_targets s)"
  "campaign_variant_targets (with_account a s) = campaign_variant_targets s"
  "campaign_variant_targets (with_secret x s) = campaign_variant_targets s"
  "token_secrets (with_job j s) = token_secrets s"
  "token_secrets (with_event e s) = token_secrets s"
  "token_secrets (with_target t s) = token_secrets s"
  "token_secrets (with_account a s) = token_secrets s"
  "token_secrets (with_secret x s) = bt_insert (ts_connected_account_id x) x (token_secrets s)"
  by (simp_all add: with_job_def with_event_def with_target_def with_account_def with_secret_def)

lemma events_of_writes [store_simps, simp]:
  "events_of (with_job j s) i = events_of s i"
  "events_of (with_event e s) i =
     (if i = pe_publish_job_id e then events_of s i @ [e] else events_of s i)"
  "events_of (with_target t s) i = events_of s i"
  "events_of (with_account a s) i = events_of s i"
  "events_of (with_secret x s) i = events_of s i"
  by (simp_all add: events_of_def with_job_def with_event_def with_target_def with_account_def
      with_secret_def)

end
