(* ===== verification/Social_Store_Props.thy ===== *)
theory Social_Store_Props
  imports Social_Store "HOL-Library.Multiset"
begin

text \<open>
  Properties of the in-memory store: the invariant \<open>store_ok\<close> and its preservation by every
  operation, the claim of due jobs, and the contract \<open>publish_store\<close> with its interpretation.
\<close>

section \<open>The invariant\<close>

definition accounts_unique :: "social_store \<Rightarrow> bool" where
  "accounts_unique s \<longleftrightarrow>
     (\<forall>a \<in> set (bt_values (connected_accounts s)). \<forall>b \<in> set (bt_values (connected_accounts s)).
        same_provider_account a b \<longrightarrow> ca_id a = ca_id b)"

definition events_keyed :: "social_store \<Rightarrow> bool" where
  "events_keyed s \<longleftrightarrow> bt_ok (publish_job_events s) \<and>
     (\<forall>i. \<forall>e \<in> set (events_of s i). pe_publish_job_id e = i)"

definition role_key :: "workspace_member_role \<Rightarrow> string \<times> string" where
  "role_key r = (wmr_workspace_id r, wmr_user_id r)"

definition tables_keyed :: "social_store \<Rightarrow> bool" where
  "tables_keyed s \<longleftrightarrow>
     bt_keyed oc_id (oauth_connections s) \<and>
     bt_keyed ca_id (connected_accounts s) \<and>
     bt_keyed ts_connected_account_id (token_secrets s) \<and>
     bt_keyed cvt_id (campaign_variant_targets s) \<and>
     bt_keyed pj_id (publish_jobs s) \<and>
     bt_keyed apd_connected_account_id (account_publish_defaults_table s) \<and>
     bt_keyed role_key (workspace_member_roles s) \<and>
     bt_ok (youtube_quota s)"

definition store_ok :: "social_store \<Rightarrow> bool" where
  "store_ok s \<longleftrightarrow> tables_keyed s \<and> events_keyed s \<and> accounts_unique s"

lemma store_ok_default: "store_ok store_default"
  by (simp add: store_ok_def tables_keyed_def events_keyed_def accounts_unique_def
      store_default_def events_of_def bt_values_def)

lemma store_ok_jobs: "store_ok s \<Longrightarrow> bt_keyed pj_id (publish_jobs s)"
  by (simp add: store_ok_def tables_keyed_def)

lemma store_ok_accounts: "store_ok s \<Longrightarrow> bt_keyed ca_id (connected_accounts s)"
  by (simp add: store_ok_def tables_keyed_def)

lemma store_ok_targets: "store_ok s \<Longrightarrow> bt_keyed cvt_id (campaign_variant_targets s)"
  by (simp add: store_ok_def tables_keyed_def)

lemma store_ok_job_id: "store_ok s \<Longrightarrow> job_of s i = Some j \<Longrightarrow> pj_id j = i"
  by (rule bt_keyed_get [OF store_ok_jobs])

lemma store_ok_account_id: "store_ok s \<Longrightarrow> account_of s i = Some a \<Longrightarrow> ca_id a = i"
  by (rule bt_keyed_get [OF store_ok_accounts])

lemma store_ok_target_id: "store_ok s \<Longrightarrow> target_of s i = Some t \<Longrightarrow> cvt_id t = i"
  by (rule bt_keyed_get [OF store_ok_targets])

text \<open>Each part depends on its own tables only.\<close>

lemma accounts_unique_cong:
  "connected_accounts t = connected_accounts s \<Longrightarrow> accounts_unique t = accounts_unique s"
  by (simp only: accounts_unique_def)

lemma events_keyed_cong:
  "publish_job_events t = publish_job_events s \<Longrightarrow> events_keyed t = events_keyed s"
  by (simp only: events_keyed_def events_of_def)

lemma more_fields [simp]:
  "publish_job_events (with_job j s) = publish_job_events s"
  "publish_job_events (with_target t s) = publish_job_events s"
  "publish_job_events (with_secret x s) = publish_job_events s"
  "publish_job_events (with_account a s) = publish_job_events s"
  by (simp_all add: with_job_def with_target_def with_secret_def with_account_def)

lemma tables_keyed_writes:
  "tables_keyed s \<Longrightarrow> tables_keyed (with_job j s)"
  "tables_keyed s \<Longrightarrow> tables_keyed (with_event e s)"
  "tables_keyed s \<Longrightarrow> tables_keyed (with_target t s)"
  "tables_keyed s \<Longrightarrow> tables_keyed (with_secret x s)"
  "tables_keyed s \<Longrightarrow> tables_keyed (with_account a s)"
  by (simp_all add: tables_keyed_def with_job_def with_event_def with_target_def with_secret_def
      with_account_def bt_keyed_insert)

lemma events_keyed_with_event: "events_keyed s \<Longrightarrow> events_keyed (with_event e s)"
  unfolding events_keyed_def events_of_writes by (auto simp: with_event_def)

lemma store_ok_with_job [intro]: "store_ok s \<Longrightarrow> store_ok (with_job j s)"
  using tables_keyed_writes(1) events_keyed_cong [of "with_job j s" s]
    accounts_unique_cong [of "with_job j s" s] by (simp add: store_ok_def)

lemma store_ok_with_event [intro]: "store_ok s \<Longrightarrow> store_ok (with_event e s)"
  using tables_keyed_writes(2) events_keyed_with_event
    accounts_unique_cong [of "with_event e s" s] by (simp add: store_ok_def)

lemma store_ok_with_target [intro]: "store_ok s \<Longrightarrow> store_ok (with_target t s)"
  using tables_keyed_writes(3) events_keyed_cong [of "with_target t s" s]
    accounts_unique_cong [of "with_target t s" s] by (simp add: store_ok_def)

lemma store_ok_with_secret [intro]: "store_ok s \<Longrightarrow> store_ok (with_secret x s)"
  using tables_keyed_writes(4) events_keyed_cong [of "with_secret x s" s]
    accounts_unique_cong [of "with_secret x s" s] by (simp add: store_ok_def)

lemma same_provider_account_sym: "same_provider_account a b \<Longrightarrow> same_provider_account b a"
  by (simp add: same_provider_account_def)

text \<open>Replacing an account by one with the same identity keeps uniqueness.\<close>

lemma store_ok_with_account:
  assumes "store_ok s"
    and "\<And>b. b \<in> set (bt_values (connected_accounts s)) \<Longrightarrow> same_provider_account b a \<Longrightarrow> ca_id b = ca_id a"
  shows "store_ok (with_account a s)"
proof -
  note keyed = store_ok_accounts [OF assms(1)]
  have vals: "set (bt_values (connected_accounts (with_account a s))) =
      insert a {w \<in> set (bt_values (connected_accounts s)). ca_id w \<noteq> ca_id a}"
    using bt.vals_put [OF keyed, of a] by simp
  have old: "ca_id b = ca_id c" if "b \<in> set (bt_values (connected_accounts s))"
      "c \<in> set (bt_values (connected_accounts s))" "same_provider_account b c" for b c
    using assms(1) that unfolding store_ok_def accounts_unique_def by blast
  have "accounts_unique (with_account a s)"
    unfolding accounts_unique_def vals
    using old assms(2) same_provider_account_sym by (metis (no_types, lifting) insertE mem_Collect_eq)
  moreover have "tables_keyed (with_account a s)" "events_keyed (with_account a s)"
    using assms(1) tables_keyed_writes(5) events_keyed_cong [of "with_account a s" s]
    by (simp_all add: store_ok_def)
  ultimately show ?thesis by (simp add: store_ok_def)
qed

lemma store_ok_update_account:
  assumes "store_ok s" and "account_of s (ca_id a) = Some b" and "same_provider_account a b"
  shows "store_ok (with_account a s)"
proof (rule store_ok_with_account [OF assms(1)])
  fix c
  assume c: "c \<in> set (bt_values (connected_accounts s))" and ca: "same_provider_account c a"
  from ca assms(3) have "same_provider_account c b" by (simp add: same_provider_account_def)
  moreover have "b \<in> set (bt_values (connected_accounts s))"
    using bt.get_in_vals [OF store_ok_accounts [OF assms(1)] assms(2)] .
  ultimately have "ca_id c = ca_id b" using c assms(1) unfolding store_ok_def accounts_unique_def by blast
  with store_ok_account_id [OF assms(1,2)] show "ca_id c = ca_id a" by simp
qed

lemma save_connected_account_cases:
  "save_connected_account a s = (Inl SE_DuplicateConnectedAccount, s)
     \<and> (\<exists>b \<in> set (bt_values (connected_accounts s)). ca_id b \<noteq> ca_id a \<and> same_provider_account b a)
   \<or> save_connected_account a s = (Inr (), with_account a s)
     \<and> (\<forall>b \<in> set (bt_values (connected_accounts s)). same_provider_account b a \<longrightarrow> ca_id b = ca_id a)"
  unfolding save_connected_account_def with_account_def list_ex_iff by auto

text \<open>Saving back an account whose identity was not touched always succeeds.\<close>

lemma save_connected_account_update:
  assumes "store_ok s" and "account_of s (ca_id a) = Some b" and "same_provider_account a b"
  shows "save_connected_account a s = (Inr (), with_account a s)"
proof -
  have "b \<in> set (bt_values (connected_accounts s))"
    using bt.get_in_vals [OF store_ok_accounts [OF assms(1)] assms(2)] .
  moreover have "ca_id b = ca_id a" using store_ok_account_id [OF assms(1,2)] .
  moreover have "same_provider_account c a \<Longrightarrow> same_provider_account c b" for c
    using assms(3) by (simp add: same_provider_account_def)
  ultimately have "ca_id c = ca_id a"
    if "c \<in> set (bt_values (connected_accounts s))" "same_provider_account c a" for c
    using that assms(1) unfolding store_ok_def accounts_unique_def by (metis (no_types))
  then show ?thesis using save_connected_account_cases [of a s] by blast
qed

section \<open>Claiming due jobs\<close>

lemma claim_ids_spec:
  assumes "distinct is" and "\<forall>i \<in> set is. job_of s i \<noteq> None"
  shows "\<exists>jobs. claim_ids now is s =
           (Inr (map (\<lambda>i. claim_for_upload (the (job_of s i)) now) is), s\<lparr>publish_jobs := jobs\<rparr>) \<and>
         (bt_keyed pj_id (publish_jobs s) \<longrightarrow> bt_keyed pj_id jobs) \<and>
         (\<forall>i. bt_get jobs i = (if i \<in> set is then Some (claim_for_upload (the (job_of s i)) now)
                               else job_of s i))"
  using assms
proof (induction "is" arbitrary: s)
  case Nil
  then show ?case by (auto intro!: exI [of _ "publish_jobs s"])
next
  case (Cons i rest)
  then obtain j where j: "job_of s i = Some j" by auto
  let ?j' = "claim_for_upload j now"
  let ?s' = "s\<lparr>publish_jobs := bt_insert i ?j' (publish_jobs s)\<rparr>"
  have others: "k \<in> set rest \<Longrightarrow> job_of ?s' k = job_of s k" for k
    using Cons.prems(1) by auto
  then have "\<forall>k \<in> set rest. job_of ?s' k \<noteq> None" using Cons.prems(2) by simp
  with Cons.prems(1) Cons.IH [of ?s'] obtain jobs where
    run: "claim_ids now rest ?s' =
        (Inr (map (\<lambda>k. claim_for_upload (the (job_of ?s' k)) now) rest), ?s'\<lparr>publish_jobs := jobs\<rparr>)"
    and keyed: "bt_keyed pj_id (publish_jobs ?s') \<longrightarrow> bt_keyed pj_id jobs"
    and get: "\<forall>k. bt_get jobs k = (if k \<in> set rest then Some (claim_for_upload (the (job_of ?s' k)) now)
                               else job_of ?s' k)"
    by auto
  have "bt_keyed pj_id (publish_jobs s) \<Longrightarrow> bt_keyed pj_id (publish_jobs ?s')"
    using bt_keyed_get [OF _ j] by (simp add: bt_keyed_insert)
  moreover have "map (\<lambda>k. claim_for_upload (the (job_of ?s' k)) now) rest =
      map (\<lambda>k. claim_for_upload (the (job_of s k)) now) rest"
    using others by simp
  ultimately show ?case
    using j run keyed get others Cons.prems(1)
    by (intro exI [of _ jobs]) (auto simp: Let_def)
qed

definition due_pairs :: "i64 \<Rightarrow> social_store \<Rightarrow> (i64 \<times> string) list" where
  "due_pairs now s = sort (map (\<lambda>(i, job). (pj_scheduled_for job, i))
     (filter (\<lambda>(i, job). job_due now job) (publish_jobs s)))"

lemma due_ids_take: "due_ids now limit s = map snd (take limit (due_pairs now s))"
  by (simp add: due_ids_def due_pairs_def)

lemma set_due_pairs:
  assumes "bt_ok (publish_jobs s)"
  shows "(t, i) \<in> set (due_pairs now s) \<longleftrightarrow>
    (\<exists>j. job_of s i = Some j \<and> job_due now j \<and> pj_scheduled_for j = t)"
  using assms by (force simp: due_pairs_def bt_get_eq_Some)

lemma distinct_due_pairs:
  assumes "bt_ok (publish_jobs s)"
  shows "distinct (map snd (due_pairs now s))"
proof -
  let ?f = "filter (\<lambda>(i, job). job_due now job) (publish_jobs s)"
  let ?d = "map (\<lambda>(i, job). (pj_scheduled_for job, i)) ?f"
  have "map snd ?d = map fst ?f" by (simp add: case_prod_beta comp_def)
  then have "distinct (map snd ?d)"
    using bt_ok_distinct [OF assms] distinct_map_filter by metis
  moreover have "mset (map snd (sort ?d)) = mset (map snd ?d)" by (simp only: mset_map mset_sort)
  ultimately show ?thesis unfolding due_pairs_def using mset_eq_imp_distinct_iff by blast
qed

lemma due_ids_distinct: "bt_ok (publish_jobs s) \<Longrightarrow> distinct (due_ids now limit s)"
  using distinct_due_pairs [of s now] by (simp add: due_ids_take take_map [symmetric])

lemma due_ids_due:
  assumes "bt_ok (publish_jobs s)" and "i \<in> set (due_ids now limit s)"
  shows "\<exists>j. job_of s i = Some j \<and> job_due now j"
  using assms by (auto simp: due_ids_take set_due_pairs dest!: in_set_takeD)

lemma due_ids_all:
  assumes "bt_ok (publish_jobs s)" and "job_of s i = Some j" and "job_due now j"
  shows "i \<in> set (map snd (due_pairs now s))"
  using assms set_due_pairs [OF assms(1)] by force

lemma claim_due_publish_jobs_run:
  assumes "store_ok s"
  shows "\<exists>jobs. claim_due_publish_jobs now limit s =
           (Inr (map (\<lambda>i. claim_for_upload (the (job_of s i)) now) (due_ids now limit s)),
            s\<lparr>publish_jobs := jobs\<rparr>) \<and>
         bt_keyed pj_id jobs \<and>
         (\<forall>i. bt_get jobs i = (if i \<in> set (due_ids now limit s)
                               then Some (claim_for_upload (the (job_of s i)) now)
                               else job_of s i))"
proof -
  note keyed = store_ok_jobs [OF assms]
  then have ok: "bt_ok (publish_jobs s)" by (simp add: bt_keyed_def)
  have "\<forall>i \<in> set (due_ids now limit s). job_of s i \<noteq> None"
    using due_ids_due [OF ok] by fastforce
  with claim_ids_spec [OF due_ids_distinct [OF ok]] keyed show ?thesis
    unfolding claim_due_publish_jobs_def by blast
qed

lemma store_ok_set_jobs: "store_ok s \<Longrightarrow> bt_keyed pj_id jobs \<Longrightarrow> store_ok (s\<lparr>publish_jobs := jobs\<rparr>)"
  using events_keyed_cong [of "s\<lparr>publish_jobs := jobs\<rparr>" s]
    accounts_unique_cong [of "s\<lparr>publish_jobs := jobs\<rparr>" s]
  by (simp add: store_ok_def tables_keyed_def)

text \<open>Claiming due jobs. On a well-formed store \<open>claim_due_publish_jobs\<close> never fails; it returns
  at most \<open>limit\<close> jobs, each of them was scheduled and due and is now uploading with its attempt
  counted; every other job, and every other table, is unchanged.\<close>

theorem claim_due_publish_jobs_spec:
  assumes "store_ok s"
  shows "\<exists>js jobs. claim_due_publish_jobs now limit s = (Inr js, s\<lparr>publish_jobs := jobs\<rparr>) \<and>
    length js = min limit (card {i. \<exists>j. job_of s i = Some j \<and> job_due now j}) \<and>
    (\<forall>j' \<in> set js. \<exists>j. job_of s (pj_id j') = Some j \<and> job_due now j \<and> j' = claim_for_upload j now
        \<and> bt_get jobs (pj_id j') = Some j') \<and>
    (\<forall>i. i \<notin> pj_id ` set js \<longrightarrow> bt_get jobs i = job_of s i) \<and>
    store_ok (s\<lparr>publish_jobs := jobs\<rparr>)"
proof -
  have ok: "bt_ok (publish_jobs s)" using store_ok_jobs [OF assms] by (simp add: bt_keyed_def)
  let ?ids = "due_ids now limit s"
  let ?js = "map (\<lambda>i. claim_for_upload (the (job_of s i)) now) ?ids"
  obtain jobs where run: "claim_due_publish_jobs now limit s = (Inr ?js, s\<lparr>publish_jobs := jobs\<rparr>)"
    and keyed: "bt_keyed pj_id jobs"
    and get: "\<And>i. bt_get jobs i = (if i \<in> set ?ids then Some (claim_for_upload (the (job_of s i)) now)
                               else job_of s i)"
    using claim_due_publish_jobs_run [OF assms] by blast
  have ids: "\<exists>j. job_of s i = Some j \<and> job_due now j \<and> pj_id j = i" if "i \<in> set ?ids" for i
    using due_ids_due [OF ok that] store_ok_job_id [OF assms] by blast
  have "{i. \<exists>j. job_of s i = Some j \<and> job_due now j} = set (map snd (due_pairs now s))"
    using set_due_pairs [OF ok] by force
  then have "card {i. \<exists>j. job_of s i = Some j \<and> job_due now j} = length (due_pairs now s)"
    using distinct_due_pairs [OF ok] by (metis distinct_card length_map)
  then have len: "length ?js = min limit (card {i. \<exists>j. job_of s i = Some j \<and> job_due now j})"
    by (simp add: due_ids_take min.commute)
  have claimed: "\<forall>j' \<in> set ?js. \<exists>j. job_of s (pj_id j') = Some j \<and> job_due now j
      \<and> j' = claim_for_upload j now \<and> bt_get jobs (pj_id j') = Some j'"
    using ids get by fastforce
  have "pj_id ` set ?js = set ?ids" using ids by force
  then have rest: "\<forall>i. i \<notin> pj_id ` set ?js \<longrightarrow> bt_get jobs i = job_of s i"
    using get by simp
  show ?thesis
    using run len claimed rest store_ok_set_jobs [OF assms keyed] by blast
qed

text \<open>Oldest first: when a job is claimed and another due job is left for a later tick, the claimed
  one is due no later, and on equal times has the smaller id.\<close>

theorem claim_due_publish_jobs_oldest_first:
  assumes "store_ok s"
    and "claim_due_publish_jobs now limit s = (Inr js, t)" and "j' \<in> set js"
    and "job_of s k = Some other" and "job_due now other" and "k \<notin> pj_id ` set js"
  shows "(pj_scheduled_for j', pj_id j') \<le> (pj_scheduled_for other, k)"
proof -
  have ok: "bt_ok (publish_jobs s)" using store_ok_jobs [OF assms(1)] by (simp add: bt_keyed_def)
  let ?d = "due_pairs now s"
  have js: "js = map (\<lambda>i. claim_for_upload (the (job_of s i)) now) (due_ids now limit s)"
    using claim_due_publish_jobs_run [OF assms(1), of now limit] assms(2) by auto
  from assms(3) obtain i where i: "i \<in> set (due_ids now limit s)"
    and j': "j' = claim_for_upload (the (job_of s i)) now" unfolding js by auto
  obtain j where j: "job_of s i = Some j" "job_due now j" using due_ids_due [OF ok i] by blast
  from j have pj: "pj_id j' = i" "pj_scheduled_for j' = pj_scheduled_for j"
    using store_ok_job_id [OF assms(1)] j' by (simp_all add: claim_for_upload_def)
  from i obtain t0 where t0: "(t0, i) \<in> set (take limit ?d)" by (auto simp: due_ids_take)
  then have "(t0, i) \<in> set ?d" by (rule in_set_takeD)
  with j(1) have "t0 = pj_scheduled_for j" by (auto simp: set_due_pairs [OF ok])
  with t0 have taken: "(pj_scheduled_for j, i) \<in> set (take limit ?d)" by simp
  have "(pj_scheduled_for other, k) \<in> set ?d"
    using assms(4,5) set_due_pairs [OF ok] by blast
  moreover have "k \<notin> snd ` set (take limit ?d)"
  proof
    assume "k \<in> snd ` set (take limit ?d)"
    then have "k \<in> set (due_ids now limit s)" by (simp add: due_ids_take)
    then have "claim_for_upload other now \<in> set js" unfolding js using assms(4) by force
    moreover have "pj_id (claim_for_upload other now) = k"
      using store_ok_job_id [OF assms(1,4)] by simp
    ultimately show False using assms(6) by (metis image_eqI)
  qed
  ultimately have left: "(pj_scheduled_for other, k) \<in> set (drop limit ?d)"
    by (metis Un_iff append_take_drop_id image_eqI set_append snd_conv)
  have "sorted (take limit ?d @ drop limit ?d)" by (simp add: due_pairs_def)
  then show ?thesis using taken left unfolding sorted_append pj by blast
qed

section \<open>The contract of the publish services\<close>

text \<open>What the services use of \<open>SocialStore\<close> when they record a transition: a saved job is the job
  read back, an appended event is the last one of its job, and neither write touches the other
  table.\<close>

locale publish_store =
  fixes read_job :: "'s \<Rightarrow> string \<Rightarrow> publish_job option"
    and read_events :: "'s \<Rightarrow> string \<Rightarrow> publish_job_event list"
    and write_job :: "publish_job \<Rightarrow> 's \<Rightarrow> 's"
    and write_event :: "publish_job_event \<Rightarrow> 's \<Rightarrow> 's"
    and inv :: "'s \<Rightarrow> bool"
  assumes read_write_job: "read_job (write_job j s) i = (if i = pj_id j then Some j else read_job s i)"
    and read_write_event: "read_events (write_event e s) i =
      (if i = pe_publish_job_id e then read_events s i @ [e] else read_events s i)"
    and job_event: "read_job (write_event e s) i = read_job s i"
    and event_job: "read_events (write_job j s) i = read_events s i"
    and inv_job: "inv s \<Longrightarrow> inv (write_job j s)"
    and inv_event: "inv s \<Longrightarrow> inv (write_event e s)"
begin

text \<open>A transition is a saved job followed by its audit event.\<close>

lemma record_transition:
  assumes "pe_publish_job_id e = pj_id j"
  shows "read_job (write_event e (write_job j s)) (pj_id j) = Some j"
    and "read_events (write_event e (write_job j s)) (pj_id j) = read_events s (pj_id j) @ [e]"
    and "i \<noteq> pj_id j \<Longrightarrow> read_job (write_event e (write_job j s)) i = read_job s i"
    and "i \<noteq> pj_id j \<Longrightarrow> read_events (write_event e (write_job j s)) i = read_events s i"
  using assms by (simp_all add: read_write_job read_write_event job_event event_job)

lemma record_transition_inv: "inv s \<Longrightarrow> inv (write_event e (write_job j s))"
  by (simp add: inv_job inv_event)

text \<open>The history of a job only grows.\<close>

lemma history_grows: "\<exists>es. read_events (write_event e (write_job j s)) i = read_events s i @ es"
  by (simp add: read_write_event event_job)

end

interpretation mem: publish_store job_of events_of with_job with_event store_ok
  by unfold_locales
     (simp_all add: bt_get_insert store_ok_with_job store_ok_with_event)

section \<open>Every operation keeps the invariant\<close>

inductive store_step :: "social_store \<Rightarrow> social_store \<Rightarrow> bool" where
  step_save_oauth: "save_oauth_connection c s = (r0, t) \<Longrightarrow> store_step s t"
| step_oauth_status: "update_oauth_status i st s = (r1, t) \<Longrightarrow> store_step s t"
| step_save_account: "save_connected_account a s = (r0, t) \<Longrightarrow> store_step s t"
| step_disable: "disable_connected_account i ow now s = (r2, t) \<Longrightarrow> store_step s t"
| step_save_secret: "save_token_secret x s = (r0, t) \<Longrightarrow> store_step s t"
| step_save_target: "save_campaign_variant_target tg s = (r0, t) \<Longrightarrow> store_step s t"
| step_save_job: "save_publish_job j s = (r0, t) \<Longrightarrow> store_step s t"
| step_claim_jobs: "claim_due_publish_jobs now limit s = (r3, t) \<Longrightarrow> store_step s t"
| step_claim_job: "claim_due_publish_job i now s = (r4, t) \<Longrightarrow> store_step s t"
| step_event: "append_publish_job_event e s = (r0, t) \<Longrightarrow> store_step s t"
| step_defaults: "save_account_publish_defaults d s = (r0, t) \<Longrightarrow> store_step s t"
| step_role: "save_workspace_member_role rl s = (r0, t) \<Longrightarrow> store_step s t"
| step_quota: "increment_youtube_quota now s = (r0, t) \<Longrightarrow> store_step s t"

inductive store_reachable :: "social_store \<Rightarrow> bool" where
  reach_default: "store_reachable store_default"
| reach_step: "store_reachable s \<Longrightarrow> store_step s t \<Longrightarrow> store_reachable t"

text \<open>The operations outside the publish contract touch a table of their own.\<close>

lemma store_ok_other_tables:
  assumes "store_ok s" and "tables_keyed t"
    and "publish_job_events t = publish_job_events s" and "connected_accounts t = connected_accounts s"
  shows "store_ok t"
  using assms(1,2) events_keyed_cong [OF assms(3)] accounts_unique_cong [OF assms(4)]
  by (simp add: store_ok_def)

lemma update_oauth_status_ok:
  assumes "store_ok s" and "update_oauth_status i st s = (r, t)"
  shows "store_ok t"
proof (cases "bt_get (oauth_connections s) i")
  case None
  with assms show ?thesis by (simp add: update_oauth_status_def)
next
  case (Some c)
  have keyed: "bt_keyed oc_id (oauth_connections s)"
    using assms(1) by (simp add: store_ok_def tables_keyed_def)
  have "oc_id (c\<lparr>oc_status := st\<rparr>) = i" using bt_keyed_get [OF keyed Some] by simp
  with Some assms show ?thesis
    by (intro store_ok_other_tables [OF assms(1)])
       (auto simp: update_oauth_status_def Let_def store_ok_def tables_keyed_def bt_keyed_insert)
qed

lemma disable_connected_account_eq:
  assumes "account_of s i = Some a" and "ca_id a = i" and "ca_owner a = ow"
  shows "disable_connected_account i ow now s =
    (Inr (a\<lparr>ca_status := Disabled, ca_updated_at := now\<rparr>),
     with_account (a\<lparr>ca_status := Disabled, ca_updated_at := now\<rparr>) s)"
  using assms by (simp add: disable_connected_account_def with_account_def Let_def)

lemma disable_connected_account_ok:
  assumes "store_ok s" and "disable_connected_account i ow now s = (r, t)"
  shows "store_ok t"
proof (cases "account_of s i")
  case None
  with assms show ?thesis by (simp add: disable_connected_account_def)
next
  case (Some a)
  note a = store_ok_account_id [OF assms(1) Some]
  show ?thesis
  proof (cases "ca_owner a = ow")
    case True
    let ?a' = "a\<lparr>ca_status := Disabled, ca_updated_at := now\<rparr>"
    have "t = with_account ?a' s"
      using disable_connected_account_eq [OF Some a True] assms(2) by simp
    moreover have "store_ok (with_account ?a' s)"
      using Some a by (intro store_ok_update_account [OF assms(1)])
        (auto simp: same_provider_account_def)
    ultimately show ?thesis by simp
  next
    case False
    with Some assms show ?thesis by (simp add: disable_connected_account_def)
  qed
qed

lemma claim_due_publish_job_ok:
  assumes "store_ok s" and "claim_due_publish_job i now s = (r, t)"
  shows "store_ok t"
proof (cases "job_of s i")
  case None
  with assms show ?thesis by (simp add: claim_due_publish_job_def)
next
  case (Some j)
  have "pj_id j = i" by (rule store_ok_job_id [OF assms(1) Some])
  then have "with_job (claim_for_upload j now) s
      = s\<lparr>publish_jobs := bt_insert i (claim_for_upload j now) (publish_jobs s)\<rparr>"
    by (simp add: with_job_def)
  then have "store_ok (s\<lparr>publish_jobs := bt_insert i (claim_for_upload j now) (publish_jobs s)\<rparr>)"
    using store_ok_with_job [OF assms(1), of "claim_for_upload j now"] by simp
  with Some assms show ?thesis
    by (auto simp: claim_due_publish_job_def Let_def split: if_splits)
qed

lemma store_ok_tables: "store_ok s \<Longrightarrow> tables_keyed s"
  by (simp add: store_ok_def)

lemma side_tables_ok:
  assumes "store_ok s"
  shows "store_ok (s\<lparr>oauth_connections := bt_insert (oc_id c) c (oauth_connections s)\<rparr>)"
    and "store_ok (s\<lparr>account_publish_defaults_table :=
      bt_insert (apd_connected_account_id d) d (account_publish_defaults_table s)\<rparr>)"
    and "store_ok (s\<lparr>workspace_member_roles :=
      bt_insert (wmr_workspace_id r, wmr_user_id r) r (workspace_member_roles s)\<rparr>)"
    and "store_ok (s\<lparr>youtube_quota := bt_insert day n (youtube_quota s)\<rparr>)"
proof -
  note t = store_ok_tables [OF assms]
  show "store_ok (s\<lparr>oauth_connections := bt_insert (oc_id c) c (oauth_connections s)\<rparr>)"
    by (rule store_ok_other_tables [OF assms])
       (use t in \<open>simp_all add: tables_keyed_def bt_keyed_insert\<close>)
  show "store_ok (s\<lparr>account_publish_defaults_table :=
      bt_insert (apd_connected_account_id d) d (account_publish_defaults_table s)\<rparr>)"
    by (rule store_ok_other_tables [OF assms])
       (use t in \<open>simp_all add: tables_keyed_def bt_keyed_insert\<close>)
  have "bt_keyed role_key (bt_insert (role_key r) r (workspace_member_roles s))"
    using t by (simp add: tables_keyed_def bt_keyed_insert)
  then show "store_ok (s\<lparr>workspace_member_roles :=
      bt_insert (wmr_workspace_id r, wmr_user_id r) r (workspace_member_roles s)\<rparr>)"
    by (intro store_ok_other_tables [OF assms])
       (use t in \<open>simp_all add: tables_keyed_def role_key_def\<close>)
  show "store_ok (s\<lparr>youtube_quota := bt_insert day n (youtube_quota s)\<rparr>)"
    by (rule store_ok_other_tables [OF assms])
       (use t in \<open>simp_all add: tables_keyed_def\<close>)
qed

lemma store_step_ok: "store_step s t \<Longrightarrow> store_ok s \<Longrightarrow> store_ok t"
proof (induction rule: store_step.induct)
  case (step_save_account a s r0 t)
  then show ?case using save_connected_account_cases [of a s] store_ok_with_account [of s a] by auto
next
  case (step_claim_jobs now limit s r3 t)
  then show ?case using claim_due_publish_jobs_run [of s now limit] store_ok_set_jobs by auto
next
  case (step_oauth_status i st s r1 t)
  then show ?case using update_oauth_status_ok by simp
next
  case (step_disable i ow now s r2 t)
  then show ?case using disable_connected_account_ok by simp
next
  case (step_claim_job i now s r4 t)
  then show ?case using claim_due_publish_job_ok by simp
qed (simp_all add: store_writes store_ok_with_job store_ok_with_event store_ok_with_target
      store_ok_with_secret save_oauth_connection_def save_account_publish_defaults_def
      save_workspace_member_role_def increment_youtube_quota_def Let_def side_tables_ok)


text \<open>C40: Invariant. Whatever sequence of operations is applied to a fresh store, every row stays under
  its own key, every event in the history of its job, and no owner ever has the same provider
  account connected under two ids.\<close>

theorem store_reachable_ok:
  assumes "store_reachable s"
  shows "store_ok s"
  using assms
proof induction
  case reach_default
  show ?case by (rule store_ok_default)
next
  case (reach_step s t)
  then show ?case using store_step_ok by blast
qed

definition sample_job :: "string \<Rightarrow> i64 \<Rightarrow> publish_job_status \<Rightarrow> publish_job" where
  "sample_job i due status =
     \<lparr>pj_id = i, pj_campaign_id = ''c'', pj_variant_id = ''v'', pj_connected_account_id = ''a'',
      pj_provider = YouTube, pj_artifact_ref = ''r'', pj_idempotency_key = ''k'',
      pj_scheduled_for = due, pj_status = status, pj_attempt_count = 0,
      pj_provider_post_id = None, pj_provider_post_url = None, pj_normalized_error = None,
      pj_raw_error_ref = None, pj_requires_action_reason = None, pj_created_by = ''u'',
      pj_created_at = 0, pj_updated_at = 0\<rparr>"

definition sample_store :: social_store where
  "sample_store = with_job (sample_job ''b'' 5 Scheduled) (with_job (sample_job ''a'' 9 Scheduled)
     (with_job (sample_job ''c'' 1 Processing) store_default))"

lemma sample_store_ok: "store_ok sample_store"
  by (simp add: sample_store_def store_ok_with_job store_ok_default)

theorem store_reachable_ok_witness: "store_ok sample_store"
proof (rule store_reachable_ok)
  show "store_reachable sample_store"
    unfolding sample_store_def
    by (rule reach_step [OF _ step_save_job [OF store_writes(1)]],
        rule reach_step [OF _ step_save_job [OF store_writes(1)]],
        rule reach_step [OF reach_default step_save_job [OF store_writes(1)]])
qed

lemma sample_claim:
  "claim_due_publish_jobs 10 1 sample_store =
    (Inr [claim_for_upload (sample_job ''b'' 5 Scheduled) 10],
     with_job (claim_for_upload (sample_job ''b'' 5 Scheduled) 10) sample_store)"
  by (simp add: claim_due_publish_jobs_def due_ids_def sample_store_def sample_job_def
      store_default_def job_due_def with_job_def bt_get_def claim_for_upload_def Let_def)

theorem claim_due_publish_jobs_spec_witness:
  "1 = min 1 (card {i. \<exists>j. job_of sample_store i = Some j \<and> job_due 10 j})"
proof -
  from claim_due_publish_jobs_spec [OF sample_store_ok, of 10 1] obtain js jobs where
    run: "claim_due_publish_jobs 10 1 sample_store = (Inr js, sample_store\<lparr>publish_jobs := jobs\<rparr>)"
    and len: "length js = min 1 (card {i. \<exists>j. job_of sample_store i = Some j \<and> job_due 10 j})"
    by (elim exE conjE) (rule that)
  from run have "js = [claim_for_upload (sample_job ''b'' 5 Scheduled) 10]"
    unfolding sample_claim by (elim Pair_inject) simp
  with len show ?thesis by (simp only:) simp
qed

theorem claim_due_publish_jobs_oldest_first_witness: "(5::int, ''b'') \<le> (9, ''a'')"
  using claim_due_publish_jobs_oldest_first [OF sample_store_ok sample_claim,
      of "claim_for_upload (sample_job ''b'' 5 Scheduled) 10" "''a''" "sample_job ''a'' 9 Scheduled"]
  by (simp add: sample_store_def sample_job_def job_due_def claim_for_upload_def)

end
