(* ===== verification/Upload_Service.thy ===== *)
theory Upload_Service
  imports Social_Store_Props Token
begin

text \<open>
  \<open>crates/social/src/upload_adapter.rs\<close>, the refresher seam of \<open>token_refresh.rs\<close> and
  \<open>upload_service.rs\<close>: the execution of one claimed job by the worker.

  The provider is reached through \<open>upload_adapter\<close>, a record of functions, as the trait is
  implemented elsewhere. The store is shared with the HTTP handlers, so the call of the adapter is
  where other actors may act: \<open>world\<close> is what they did to the store during the upload.
\<close>

section \<open>Adapters\<close>

datatype upload_privacy = Priv_Private | Priv_Unlisted | Priv_Public

record tiktok_interaction_settings =
  disable_duet :: bool
  disable_comment :: bool
  disable_stitch :: bool

record upload_request =
  ur_job_id :: string
  ur_provider :: provider
  ur_connected_account_id :: string
  ur_artifact_ref :: string
  ur_title :: string
  ur_description :: "string option"
  ur_tags :: "string list"
  ur_thumbnail_ref :: "string option"
  ur_privacy :: upload_privacy
  ur_tiktok_interactions :: tiktok_interaction_settings
  ur_scheduled_for :: "i64 option"
  ur_access_token_ref :: string

record upload_result =
  res_provider_post_id :: string
  res_provider_post_url :: string
  res_processing :: bool

datatype upload_adapter_error =
    UA_ProviderMismatch
  | UA_MissingUploadToken
  | UA_MediaConstraintFailed string
  | UA_RequiresAction string
  | UA_NetworkOrServer string

record upload_adapter =
  adapter_provider :: provider
  adapter_upload :: "upload_request \<Rightarrow> upload_adapter_error + upload_result"

definition mock_adapter ::
  "provider \<Rightarrow> upload_adapter_error + upload_result \<Rightarrow> upload_adapter" where
  "mock_adapter p result =
     \<lparr>adapter_provider = p,
      adapter_upload = (\<lambda>request.
        if ur_provider request \<noteq> p then Inl UA_ProviderMismatch else result)\<rparr>"

definition mock_published :: "provider \<Rightarrow> string \<Rightarrow> string \<Rightarrow> upload_adapter" where
  "mock_published p post_id post_url =
     mock_adapter p (Inr \<lparr>res_provider_post_id = post_id, res_provider_post_url = post_url,
                          res_processing = False\<rparr>)"

definition mock_failing :: "provider \<Rightarrow> upload_adapter_error \<Rightarrow> upload_adapter" where
  "mock_failing p e = mock_adapter p (Inl e)"

definition blocked_adapter :: "provider \<Rightarrow> string \<Rightarrow> upload_adapter" where
  "blocked_adapter p reason =
     \<lparr>adapter_provider = p,
      adapter_upload = (\<lambda>request.
        if ur_provider request \<noteq> p then Inl UA_ProviderMismatch
        else Inl (UA_RequiresAction reason))\<rparr>"

section \<open>Refreshers\<close>

datatype token_refresh_error =
    TR_InvalidGrant string
  | TR_Unavailable string
  | TR_Transient string

type_synonym token_refresher = "string \<Rightarrow> token_secret \<Rightarrow> i64 \<Rightarrow> token_refresh_error + token_secret"

definition noop_token_refresher :: token_refresher where
  "noop_token_refresher account_id secret now =
     Inl (TR_Unavailable ''token refresher not configured for provider'')"

definition TOKEN_REFRESH_SKEW_SECS :: i64 where
  "TOKEN_REFRESH_SKEW_SECS = 120"

section \<open>Policy, input, errors\<close>

record retry_policy =
  policy_max_attempts :: u32
  policy_base_backoff_secs :: i64

definition retry_policy_default :: retry_policy where
  "retry_policy_default = \<lparr>policy_max_attempts = 5, policy_base_backoff_secs = 60\<rparr>"

record execute_upload_input =
  eui_job_id :: string
  eui_title :: string
  eui_description :: "string option"
  eui_tags :: "string list"
  eui_thumbnail_ref :: "string option"
  eui_artifact_ref :: "string option"
  eui_privacy :: upload_privacy
  eui_tiktok_interactions :: tiktok_interaction_settings
  eui_now :: i64

datatype upload_service_error =
    US_Store store_error
  | US_JobNotUploading
  | US_ProviderMismatch
  | US_AccountNotPublishable string
  | US_JobCancelledDuringUpload

type_synonym 'a upload_op = "(social_store, upload_service_error, 'a) op"

abbreviation us_read :: "'b store_read \<Rightarrow> ('b \<Rightarrow> 'a upload_op) \<Rightarrow> 'a upload_op" where
  "us_read r f \<equiv> bind_op (read_op US_Store r) f"

abbreviation us_write :: "unit store_op \<Rightarrow> 'a upload_op \<Rightarrow> 'a upload_op" where
  "us_write w m \<equiv> bind_op (write_op US_Store w) (\<lambda>_. m)"

fun account_status_slug :: "connected_account_status \<Rightarrow> string" where
  "account_status_slug Connected = ''connected''"
| "account_status_slug NeedsReauth = ''needs_reauth''"
| "account_status_slug MissingScope = ''missing_scope''"
| "account_status_slug Ineligible = ''ineligible''"
| "account_status_slug Disabled = ''disabled''"
| "account_status_slug Revoked = ''revoked''"

fun event_type_slug :: "publish_job_event_type \<Rightarrow> string" where
  "event_type_slug Ev_TargetBound = ''target_bound''"
| "event_type_slug Ev_Validated = ''validated''"
| "event_type_slug Ev_Scheduled = ''scheduled''"
| "event_type_slug Ev_Claimed = ''claimed''"
| "event_type_slug Ev_Uploaded = ''uploaded''"
| "event_type_slug Ev_StatusPolled = ''status_polled''"
| "event_type_slug Ev_Cancelled = ''cancelled''"
| "event_type_slug Ev_RetryQueued = ''retry_queued''"
| "event_type_slug Ev_Rescheduled = ''rescheduled''"
| "event_type_slug Ev_RequiresAction = ''requires_action''"
| "event_type_slug Ev_Failed = ''failed''"

section \<open>Events\<close>

definition next_event_id :: "string \<Rightarrow> publish_job_event_type \<Rightarrow> string upload_op" where
  "next_event_id job_id ty =
     us_read (get_publish_job_events job_id) (\<lambda>es.
     return (''event_'' @ job_id @ ''_'' @ event_type_slug ty @ ''_'' @ dec_of_nat (length es + 1)))"

definition append_event ::
  "string \<Rightarrow> publish_job_event_type \<Rightarrow> publish_job_actor_type \<Rightarrow> string \<Rightarrow> json \<Rightarrow> i64
    \<Rightarrow> unit upload_op" where
  "append_event job_id ty actor message metadata now =
     bind_op (next_event_id job_id ty) (\<lambda>event_id.
     us_write (append_publish_job_event
       (publish_job_event_new event_id job_id ty actor message metadata now))
     (return ()))"

section \<open>Failure arms\<close>

definition flip_needs_reauth :: "publish_job \<Rightarrow> string \<Rightarrow> string \<Rightarrow> i64 \<Rightarrow> publish_job upload_op" where
  "flip_needs_reauth job account_id reason now =
     us_read (get_connected_account account_id) (\<lambda>account.
     us_write (save_connected_account (account\<lparr>ca_status := NeedsReauth, ca_updated_at := now\<rparr>)) (
     let next = job_requires_action job reason now
     in us_write (save_publish_job next) (
        bind_op (append_event (pj_id next) Ev_RequiresAction Actor_Worker
            ''token refresh failed; account needs reauth''
            (json_object [(''provider'', JStr (provider_as_str (pj_provider next))),
                          (''reason'', JStr reason)]) now)
          (\<lambda>_. return next))))"

definition requeue_or_fail_retryable ::
  "publish_job \<Rightarrow> retry_policy \<Rightarrow> string \<Rightarrow> string \<Rightarrow> i64 \<Rightarrow> publish_job upload_op" where
  "requeue_or_fail_retryable job policy normalized_error message now =
     (let p = provider_as_str (pj_provider job);
          (next, outcome) = retry_with_backoff_or_fail job (policy_max_attempts policy)
            (policy_base_backoff_secs policy) normalized_error message now
      in us_write (save_publish_job next) (
         bind_op
           (case outcome of
              Requeued next_scheduled_for \<Rightarrow>
                append_event (pj_id next) Ev_RetryQueued Actor_Worker
                  ''upload failed; retry queued with backoff''
                  (json_object [(''provider'', JStr p),
                     (''normalized_error'', JStr normalized_error), (''message'', JStr message),
                     (''attempt_count'', JInt (int (unat (pj_attempt_count next)))),
                     (''next_scheduled_for'', JInt next_scheduled_for)]) now
            | Exhausted \<Rightarrow>
                append_event (pj_id next) Ev_Failed Actor_Provider
                  ''upload failed; retry budget exhausted''
                  (json_object [(''provider'', JStr p),
                     (''normalized_error'', JStr normalized_error), (''message'', JStr message),
                     (''attempt_count'', JInt (int (unat (pj_attempt_count next))))]) now)
           (\<lambda>_. return next)))"

section \<open>The upload\<close>

definition upload_request_for :: "publish_job \<Rightarrow> string \<Rightarrow> execute_upload_input \<Rightarrow> upload_request" where
  "upload_request_for job account_id inp =
     \<lparr>ur_job_id = pj_id job, ur_provider = pj_provider job, ur_connected_account_id = account_id,
      ur_artifact_ref =
        (case eui_artifact_ref inp of None \<Rightarrow> pj_artifact_ref job | Some r \<Rightarrow> r),
      ur_title = eui_title inp, ur_description = eui_description inp, ur_tags = eui_tags inp,
      ur_thumbnail_ref = eui_thumbnail_ref inp, ur_privacy = eui_privacy inp,
      ur_tiktok_interactions = eui_tiktok_interactions inp,
      ur_scheduled_for = Some (pj_scheduled_for job),
      ur_access_token_ref = ''token_secret:'' @ account_id\<rparr>"

definition settle_upload ::
  "publish_job \<Rightarrow> upload_adapter_error + upload_result \<Rightarrow> retry_policy \<Rightarrow> i64 \<Rightarrow> publish_job upload_op" where
  "settle_upload upload_in_progress result policy now =
     (let p = (''provider'', JStr (provider_as_str (pj_provider upload_in_progress)))
      in case result of
        Inr res \<Rightarrow>
          let status = (if res_processing res then ''processing'' else ''published'');
              next = (if res_processing res
                then job_processing upload_in_progress (res_provider_post_id res) now
                else job_publish upload_in_progress (res_provider_post_id res)
                       (res_provider_post_url res) now)
          in us_write (save_publish_job next) (
             bind_op (append_event (pj_id next) Ev_Uploaded Actor_Provider
                 ''provider upload completed''
                 (json_object [p, (''provider_post_id'', JStr (res_provider_post_id res)),
                    (''provider_post_url'', JStr (res_provider_post_url res)),
                    (''status'', JStr status)]) now)
               (\<lambda>_. return next))
      | Inl (UA_RequiresAction reason) \<Rightarrow>
          let next = job_requires_action upload_in_progress reason now
          in us_write (save_publish_job next) (
             bind_op (append_event (pj_id next) Ev_RequiresAction Actor_Provider
                 ''provider upload requires action'' (json_object [p, (''reason'', JStr reason)]) now)
               (\<lambda>_. return next))
      | Inl UA_MissingUploadToken \<Rightarrow>
          let reason = ''missing_upload_token'';
              next = job_requires_action upload_in_progress reason now
          in us_write (save_publish_job next) (
             bind_op (append_event (pj_id next) Ev_RequiresAction Actor_Provider
                 ''provider upload requires action'' (json_object [p, (''reason'', JStr reason)]) now)
               (\<lambda>_. return next))
      | Inl (UA_MediaConstraintFailed reason) \<Rightarrow>
          let next = job_fail upload_in_progress reason ''provider_error_ref_unavailable'' now
          in us_write (save_publish_job next) (
             bind_op (append_event (pj_id next) Ev_Failed Actor_Provider
                 ''provider upload failed media constraints''
                 (json_object [p, (''reason'', JStr reason)]) now)
               (\<lambda>_. return next))
      | Inl (UA_NetworkOrServer message) \<Rightarrow>
          requeue_or_fail_retryable upload_in_progress policy ''network_or_server_error'' message now
      | Inl UA_ProviderMismatch \<Rightarrow> fail US_ProviderMismatch)"

definition perform_upload ::
  "(social_store \<Rightarrow> social_store) \<Rightarrow> upload_adapter \<Rightarrow> publish_job \<Rightarrow> string \<Rightarrow> execute_upload_input
    \<Rightarrow> retry_policy \<Rightarrow> publish_job upload_op" where
  "perform_upload world adapter job account_id inp policy =
     (let request = upload_request_for job account_id inp;
          p = (''provider'', JStr (provider_as_str (pj_provider job)))
      in bind_op (append_event (pj_id job) Ev_Claimed Actor_Worker ''upload job claimed by worker''
             (json_object [p]) (eui_now inp)) (\<lambda>_.
         let upload_in_progress = start_provider_processing job (eui_now inp)
         in us_write (save_publish_job upload_in_progress) (
            let result = adapter_upload adapter request
            in bind_op (\<lambda>s. (Inr (), world s)) (\<lambda>_.
               bind_op
                 (case result of
                    Inl _ \<Rightarrow> return ()
                  | Inr _ \<Rightarrow>
                      us_read (get_publish_job (pj_id upload_in_progress)) (\<lambda>current.
                      if pj_status current = Cancelled
                      then bind_op (append_event (pj_id upload_in_progress) Ev_Cancelled Actor_Worker
                               ''provider upload completed after cancellation; result discarded''
                               (json_object [p]) (eui_now inp))
                             (\<lambda>_. fail US_JobCancelledDuringUpload)
                      else return ()))
                 (\<lambda>_. settle_upload upload_in_progress result policy (eui_now inp))))))"

section \<open>Execution of a claimed job\<close>

definition execute_claimed_job_full ::
  "(social_store \<Rightarrow> social_store) \<Rightarrow> upload_adapter \<Rightarrow> token_refresher \<Rightarrow> execute_upload_input
    \<Rightarrow> retry_policy \<Rightarrow> i64 \<Rightarrow> publish_job upload_op" where
  "execute_claimed_job_full world adapter refresher inp policy refresh_skew_secs =
     us_read (get_publish_job (eui_job_id inp)) (\<lambda>job.
     ensure (pj_status job = Uploading) US_JobNotUploading (
     ensure (adapter_provider adapter = pj_provider job) US_ProviderMismatch (
     us_read (get_connected_account (pj_connected_account_id job)) (\<lambda>account.
     ensure (ca_provider account = pj_provider job) US_ProviderMismatch (
     ensure (ca_status account = Connected)
       (US_AccountNotPublishable (''status:'' @ account_status_slug (ca_status account))) (
     ensure (eligible (ca_eligibility account))
       (US_AccountNotPublishable (''eligibility:'' @
          (case reasons (ca_eligibility account) of [] \<Rightarrow> ''ineligible'' | r # _ \<Rightarrow> r))) (
     ensure (upload_video (ca_capabilities account))
       (US_AccountNotPublishable ''capability:upload_video'') (
     us_read (token_secret_for_account (ca_id account)) (\<lambda>secret.
     let now = eui_now inp;
         proceed = perform_upload world adapter job (ca_id account) inp policy
     in if \<not> is_access_expiring secret now refresh_skew_secs then proceed
        else if refresh_token_exhausted secret now
        then flip_needs_reauth job (ca_id account) ''refresh_token_expired'' now
        else
          (case refresher (ca_id account) secret now of
             Inr fresh \<Rightarrow> us_write (save_token_secret fresh) proceed
           | Inl (TR_InvalidGrant _) \<Rightarrow>
               flip_needs_reauth job (ca_id account) ''refresh_invalid_grant'' now
           | Inl (TR_Unavailable _) \<Rightarrow>
               flip_needs_reauth job (ca_id account) ''refresh_not_configured'' now
           | Inl (TR_Transient message) \<Rightarrow>
               requeue_or_fail_retryable job policy ''token_refresh_transient'' message now))))))))))"

definition execute_claimed_job_with_policy ::
  "(social_store \<Rightarrow> social_store) \<Rightarrow> upload_adapter \<Rightarrow> execute_upload_input \<Rightarrow> retry_policy
    \<Rightarrow> publish_job upload_op" where
  "execute_claimed_job_with_policy world adapter inp policy =
     execute_claimed_job_full world adapter noop_token_refresher inp policy 0"

definition execute_claimed_job ::
  "(social_store \<Rightarrow> social_store) \<Rightarrow> upload_adapter \<Rightarrow> execute_upload_input \<Rightarrow> publish_job upload_op" where
  "execute_claimed_job world adapter inp =
     execute_claimed_job_with_policy world adapter inp retry_policy_default"

end
