(* ===== verification/Platform_Metadata.thy ===== *)
theory Platform_Metadata
  imports Social_Model
begin

text \<open>
  \<open>crates/social/src/platform_metadata.rs\<close>: the limits of each platform and the check of a
  target's fields against them. \<open>metadata_violates\<close> is the reference: it says for each
  reason what it means, independently of the order in which the code looks for it.
\<close>

record platform_metadata_profile =
  title_required :: bool
  title_max :: "usize option"
  description_max :: "usize option"
  tags_total_max :: "usize option"
  caption_max :: "usize option"

fun profile_for :: "provider \<Rightarrow> platform_metadata_profile" where
  "profile_for YouTube =
     \<lparr>title_required = True, title_max = Some 100, description_max = Some 5000,
      tags_total_max = Some 500, caption_max = None\<rparr>"
| "profile_for TikTok =
     \<lparr>title_required = True, title_max = Some 150, description_max = None,
      tags_total_max = None, caption_max = None\<rparr>"
| "profile_for Instagram =
     \<lparr>title_required = False, title_max = None, description_max = None,
      tags_total_max = None, caption_max = Some 2200\<rparr>"
| "profile_for TwitterX =
     \<lparr>title_required = True, title_max = Some 280, description_max = None,
      tags_total_max = None, caption_max = None\<rparr>"

definition exceeds :: "usize \<Rightarrow> usize option \<Rightarrow> bool" where
  "exceeds actual limit = (case limit of None \<Rightarrow> False | Some m \<Rightarrow> m < actual)"

definition string_field :: "json \<Rightarrow> string \<Rightarrow> string option" where
  "string_field flds key = Option.bind (json_get flds key) json_as_str"

definition tags_total_chars :: "json \<Rightarrow> usize" where
  "tags_total_chars flds =
     (case json_get flds ''tags'' of
        Some (JArr values) \<Rightarrow> sum_list (map chars_count (List.map_filter json_as_str values))
      | Some (JStr tags) \<Rightarrow>
          sum_list (map (\<lambda>tag. chars_count (trim tag)) (split_on CHR '','' tags))
      | _ \<Rightarrow> 0)"

definition validate_platform_fields :: "provider \<Rightarrow> json \<Rightarrow> string list" where
  "validate_platform_fields p flds =
     (let profile = profile_for p;
          title = (case string_field flds ''title'' of None \<Rightarrow> [] | Some t \<Rightarrow> t);
          description = (case string_field flds ''description'' of None \<Rightarrow> [] | Some t \<Rightarrow> t);
          r1 = (if title_required profile \<and> trim title = [] then [''title.required''] else []);
          r2 = (if exceeds (chars_count title) (title_max profile)
                then [''title.too_long''] else []);
          r3 = (if p = Instagram
                then (if exceeds (chars_count description) (caption_max profile)
                      then [''caption.too_long''] else [])
                else if exceeds (chars_count description) (description_max profile)
                then [''description.too_long''] else []);
          r4 = (case tags_total_max profile of
                  None \<Rightarrow> []
                | Some m \<Rightarrow> if tags_total_chars flds > m then [''tags.too_long''] else [])
      in r1 @ r2 @ r3 @ r4)"

section \<open>Reference\<close>

definition text_field :: "json \<Rightarrow> string \<Rightarrow> string" where
  "text_field flds key = (case string_field flds key of None \<Rightarrow> [] | Some t \<Rightarrow> t)"

inductive metadata_violates :: "provider \<Rightarrow> json \<Rightarrow> string \<Rightarrow> bool" where
  no_title: "p \<noteq> Instagram \<Longrightarrow> trim (text_field flds ''title'') = [] \<Longrightarrow>
    metadata_violates p flds ''title.required''"
| long_title: "(p, m) \<in> {(YouTube, 100), (TikTok, 150), (TwitterX, 280)} \<Longrightarrow>
    m < chars_count (text_field flds ''title'') \<Longrightarrow>
    metadata_violates p flds ''title.too_long''"
| long_caption: "2200 < chars_count (text_field flds ''description'') \<Longrightarrow>
    metadata_violates Instagram flds ''caption.too_long''"
| long_description: "5000 < chars_count (text_field flds ''description'') \<Longrightarrow>
    metadata_violates YouTube flds ''description.too_long''"
| long_tags: "500 < tags_total_chars flds \<Longrightarrow> metadata_violates YouTube flds ''tags.too_long''"

inductive_simps violates_simps [simp]:
  "metadata_violates YouTube flds r" "metadata_violates TikTok flds r"
  "metadata_violates Instagram flds r" "metadata_violates TwitterX flds r"

text \<open>The check of a target's fields reports exactly the limits that are broken, each once. In
  particular no reason is reported exactly when no limit of the platform is broken.\<close>

theorem validate_platform_fields_complete:
  "distinct (validate_platform_fields p flds)
   \<and> (\<forall>r. r \<in> set (validate_platform_fields p flds) \<longleftrightarrow> metadata_violates p flds r)"
  by (cases p)
    (auto simp: validate_platform_fields_def Let_def exceeds_def text_field_def)

lemma validate_platform_fields_ok:
  "validate_platform_fields p flds = [] \<longleftrightarrow> (\<forall>r. \<not> metadata_violates p flds r)"
  by (cases p)
    (auto simp: validate_platform_fields_def Let_def exceeds_def text_field_def)

text \<open>What the limits guarantee: a YouTube or TikTok or X target that passes the check has a title
  with a visible character and within the platform's length, so that the upload never sends an
  empty title.\<close>

theorem accepted_title_bounds:
  assumes "validate_platform_fields p flds = []" and "p \<noteq> Instagram"
  shows "\<exists>t. string_field flds ''title'' = Some t \<and> trim t \<noteq> [] \<and> chars_count t \<le> 280"
proof -
  have none: "\<not> metadata_violates p flds r" for r
    using assms(1) validate_platform_fields_ok by blast
  have "trim (text_field flds ''title'') \<noteq> []"
    using none [of "''title.required''"] assms(2) metadata_violates.no_title by blast
  moreover have "chars_count (text_field flds ''title'') \<le> 280"
    using none [of "''title.too_long''"] assms(2) by (cases p) auto
  moreover have "trim [] = []" by (simp add: trim_def trim_start_def trim_end_def)
  ultimately show ?thesis by (auto simp: text_field_def split: option.splits)
qed

theorem accepted_title_bounds_witness:
  "\<exists>t. string_field (json_object [(''title'', JStr ''hi'')]) ''title'' = Some t \<and> trim t \<noteq> []"
proof -
  have "validate_platform_fields TikTok (json_object [(''title'', JStr ''hi'')]) = []"
    by (simp add: validate_platform_fields_def Let_def string_field_def json_object_def bt_of_list_def
        exceeds_def chars_count_def is_continuation_def trim_def trim_start_def trim_end_def
        is_whitespace_def utf8_whitespace_def bt_get_def)
  from accepted_title_bounds [OF this] show ?thesis by blast
qed

end
