(* ===== verification/Publish_Service_Props.thy ===== *)
theory Publish_Service_Props
  imports Publish_Service
begin

text \<open>
  What the operations of \<open>publish_service.rs\<close> do, branch by branch (\<open>*_run\<close>), their
  common contract \<open>guarded_service\<close>, the audit trail and the transitions a user can cause.
\<close>

section \<open>The operations, unfolded\<close>

lemmas service_unfold = store_simps monad_defs

lemma existing_target_run: "existing_target i s = (Inr (target_of s i), s)"
  by (simp add: existing_target_def service_unfold split: option.splits)

lemma existing_job_run: "existing_job i s = (Inr (job_of s i), s)"
  by (simp add: existing_job_def service_unfold split: option.splits)

lemma bind_target_run:
  "bind_target owner inp s =
     (case account_of s (bti_connected_account_id inp) of
        None \<Rightarrow> (Inl (PS_Store SE_NotFound), s)
      | Some a \<Rightarrow>
          if ca_owner a \<noteq> owner then (Inl PS_OwnerMismatch, s)
          else
            let t = target_new (bti_id inp) (bti_campaign_id inp) (bti_variant_id inp) (ca_id a)
                      (ca_provider a) (bti_platform_fields inp) (bti_scheduled_for inp) (bti_now inp)
            in (case target_of s (bti_id inp) of
                  None \<Rightarrow> (Inr t, with_target t s)
                | Some ex \<Rightarrow>
                    (case account_of s (cvt_connected_account_id ex) of
                       None \<Rightarrow> (Inl (PS_Store SE_NotFound), s)
                     | Some b \<Rightarrow>
                         if ca_owner b \<noteq> owner then (Inl PS_OwnerMismatch, s)
                         else (Inr t, with_target t s))))"
  by (auto simp: bind_target_def service_unfold existing_target_run Let_def split: option.splits)

text \<open>The common head of the other operations: find the record, find its account, check the owner.\<close>

definition authorised ::
  "'r option \<Rightarrow> ('r \<Rightarrow> string) \<Rightarrow> owner_ref \<Rightarrow> social_store
    \<Rightarrow> ('r \<Rightarrow> connected_account \<Rightarrow> (publish_service_error + 'b) \<times> social_store)
    \<Rightarrow> (publish_service_error + 'b) \<times> social_store" where
  "authorised record account_id owner s k =
     (case record of
        None \<Rightarrow> (Inl (PS_Store SE_NotFound), s)
      | Some x \<Rightarrow>
          (case account_of s (account_id x) of
             None \<Rightarrow> (Inl (PS_Store SE_NotFound), s)
           | Some a \<Rightarrow> if ca_owner a \<noteq> owner then (Inl PS_OwnerMismatch, s) else k x a))"

lemma authorised_cases:
  "authorised record account_id owner s k = (r, t) \<longleftrightarrow>
     (record = None \<or> (\<exists>x. record = Some x \<and> account_of s (account_id x) = None))
        \<and> r = Inl (PS_Store SE_NotFound) \<and> t = s
     \<or> (\<exists>x a. record = Some x \<and> account_of s (account_id x) = Some a \<and> ca_owner a \<noteq> owner
          \<and> r = Inl PS_OwnerMismatch \<and> t = s)
     \<or> (\<exists>x a. record = Some x \<and> account_of s (account_id x) = Some a \<and> ca_owner a = owner
          \<and> k x a = (r, t))"
  by (auto simp: authorised_def split: option.splits)

lemma update_target_run:
  "update_target owner inp s =
     authorised (target_of s (uti_target_id inp)) cvt_connected_account_id owner s (\<lambda>target a.
       if ca_provider a \<noteq> cvt_provider target then (Inl PS_ProviderMismatch, s)
       else let u = update_metadata target (uti_platform_fields inp) (uti_scheduled_for inp)
                      (uti_now inp)
            in (Inr u, with_target u s))"
  by (auto simp: update_target_def authorised_def service_unfold Let_def split: option.splits)

lemma validate_target_run:
  "validate_target owner target_id now s =
     authorised (target_of s target_id) cvt_connected_account_id owner s (\<lambda>target a.
       if ca_provider a \<noteq> cvt_provider target then (Inl PS_ProviderMismatch, s)
       else let v = target_validation_state target a now
            in (Inr \<lparr>tvr_state = fst v, tvr_reasons = snd v\<rparr>,
                with_target (mark_validation target (fst v) now) s))"
  by (auto simp: validate_target_def authorised_def service_unfold Let_def case_prod_beta
      split: option.splits)

definition scheduled_job ::
  "digests \<Rightarrow> campaign_variant_target \<Rightarrow> schedule_target_input \<Rightarrow> publish_job" where
  "scheduled_job d target inp =
     job_schedule (publish_job_new d (sti_job_id inp) (cvt_campaign_id target)
       (cvt_variant_id target) (cvt_connected_account_id target) (cvt_provider target)
       (sti_artifact_ref inp) (cvt_scheduled_for target) (sti_created_by inp)) (sti_now inp)"

definition scheduled_event :: "publish_job \<Rightarrow> schedule_target_input \<Rightarrow> publish_job_event" where
  "scheduled_event job inp =
     publish_job_event_new (''event_'' @ pj_id job @ ''_scheduled'') (pj_id job) Ev_Scheduled
       Actor_User ''publish job scheduled''
       (json_object [(''target_id'', JStr (sti_target_id inp))]) (sti_now inp)"

lemma schedule_target_run:
  "schedule_target d owner inp s =
     authorised (target_of s (sti_target_id inp)) cvt_connected_account_id owner s (\<lambda>target a.
       if ca_provider a \<noteq> cvt_provider target then (Inl PS_ProviderMismatch, s)
       else if cvt_validation_state target \<noteq> Val_Valid then (Inl PS_TargetNotValid, s)
       else if fst (target_validation_state target a (sti_now inp)) \<noteq> Val_Valid
         then (Inl PS_TargetNotValid,
               with_target (mark_validation target
                 (fst (target_validation_state target a (sti_now inp))) (sti_now inp)) s)
       else
         let job = scheduled_job d target inp;
             accept = (Inr job, with_event (scheduled_event job inp) (with_job job s))
         in (case job_of s (pj_id job) of
               None \<Rightarrow> accept
             | Some ex \<Rightarrow>
                 (case account_of s (pj_connected_account_id ex) of
                    None \<Rightarrow> (Inl (PS_Store SE_NotFound), s)
                  | Some b \<Rightarrow>
                      if ca_owner b \<noteq> owner then (Inl PS_OwnerMismatch, s)
                      else if pj_idempotency_key ex \<noteq> pj_idempotency_key job
                        then (Inl PS_JobIdConflict, s)
                      else accept)))"
  by (simp add: schedule_target_def authorised_def service_unfold Let_def case_prod_beta
      existing_job_run scheduled_job_def scheduled_event_def split: option.splits)

definition cancelled_event :: "string \<Rightarrow> i64 \<Rightarrow> publish_job_event" where
  "cancelled_event i now =
     publish_job_event_new (''event_'' @ i @ ''_cancelled'') i Ev_Cancelled Actor_User
       ''publish job cancelled'' (json_object []) now"

lemma cancel_job_run:
  "cancel_job owner i now s =
     authorised (job_of s i) pj_connected_account_id owner s (\<lambda>job a.
       if pj_status job \<in> {Published, Cancelled} then (Inl PS_JobNotCancellable, s)
       else (Inr (job_cancel job now),
             with_event (cancelled_event (pj_id job) now) (with_job (job_cancel job now) s)))"
  by (auto simp: cancel_job_def authorised_def service_unfold cancelled_event_def Let_def
      split: option.splits)

definition retry_event :: "social_store \<Rightarrow> string \<Rightarrow> i64 \<Rightarrow> publish_job_event" where
  "retry_event s i now =
     publish_job_event_new
       (''event_'' @ i @ ''_retry_'' @ dec_of_nat (count_events Ev_RetryQueued (events_of s i) + 1))
       i Ev_RetryQueued Actor_User ''publish job retry queued'' (json_object []) now"

lemma retry_job_run:
  "retry_job owner i now s =
     authorised (job_of s i) pj_connected_account_id owner s (\<lambda>job a.
       if \<not> is_user_retryable job then (Inl PS_JobNotRetryable, s)
       else (Inr (job_retry job now),
             with_event (retry_event s (pj_id job) now) (with_job (job_retry job now) s)))"
  by (simp add: retry_job_def retry_event_id_def authorised_def service_unfold retry_event_def
      Let_def split: option.splits)

definition reschedule_event ::
  "social_store \<Rightarrow> publish_job \<Rightarrow> reschedule_job_input \<Rightarrow> publish_job_event" where
  "reschedule_event s job inp =
     publish_job_event_new
       (''event_'' @ pj_id job @ ''_rescheduled_''
          @ dec_of_nat (count_events Ev_Rescheduled (events_of s (pj_id job)) + 1))
       (pj_id job) Ev_Rescheduled Actor_User ''publish job rescheduled''
       (json_object [(''previous_scheduled_for'', JInt (pj_scheduled_for job)),
                     (''scheduled_for'', JInt (rji_scheduled_for inp))])
       (rji_now inp)"

lemma reschedule_job_run:
  "reschedule_job owner inp s =
     authorised (job_of s (rji_job_id inp)) pj_connected_account_id owner s (\<lambda>job a.
       if rji_scheduled_for inp \<le> rji_now inp then (Inl PS_RescheduleTimeInvalid, s)
       else if pj_status job \<noteq> Scheduled then (Inl PS_JobNotReschedulable, s)
       else let j' = job_reschedule job (rji_scheduled_for inp) (rji_now inp)
            in (Inr j', with_event (reschedule_event s job inp) (with_job j' s)))"
  by (simp add: reschedule_job_def reschedule_event_id_def authorised_def service_unfold
      reschedule_event_def Let_def split: option.splits)

section \<open>Requests\<close>

datatype publish_request =
    Req_Bind bind_target_input
  | Req_Update update_target_input
  | Req_Validate string i64
  | Req_Schedule schedule_target_input
  | Req_Cancel string i64
  | Req_Retry string i64
  | Req_Reschedule reschedule_job_input

definition void :: "('e + 'a) \<times> 's \<Rightarrow> ('e + unit) \<times> 's" where
  "void x = (case x of (Inl e, s) \<Rightarrow> (Inl e, s) | (Inr _, s) \<Rightarrow> (Inr (), s))"

fun run_request ::
  "digests \<Rightarrow> owner_ref \<Rightarrow> publish_request \<Rightarrow> social_store
    \<Rightarrow> (publish_service_error + unit) \<times> social_store" where
  "run_request d owner (Req_Bind inp) s = void (bind_target owner inp s)"
| "run_request d owner (Req_Update inp) s = void (update_target owner inp s)"
| "run_request d owner (Req_Validate i now) s = void (validate_target owner i now s)"
| "run_request d owner (Req_Schedule inp) s = void (schedule_target d owner inp s)"
| "run_request d owner (Req_Cancel i now) s = void (cancel_job owner i now s)"
| "run_request d owner (Req_Retry i now) s = void (retry_job owner i now s)"
| "run_request d owner (Req_Reschedule inp) s = void (reschedule_job owner inp s)"

text \<open>The account a request is about.\<close>

fun request_account :: "publish_request \<Rightarrow> social_store \<Rightarrow> connected_account option" where
  "request_account (Req_Bind inp) s = account_of s (bti_connected_account_id inp)"
| "request_account (Req_Update inp) s =
     Option.bind (target_of s (uti_target_id inp)) (\<lambda>t. account_of s (cvt_connected_account_id t))"
| "request_account (Req_Validate i now) s =
     Option.bind (target_of s i) (\<lambda>t. account_of s (cvt_connected_account_id t))"
| "request_account (Req_Schedule inp) s =
     Option.bind (target_of s (sti_target_id inp)) (\<lambda>t. account_of s (cvt_connected_account_id t))"
| "request_account (Req_Cancel i now) s =
     Option.bind (job_of s i) (\<lambda>j. account_of s (pj_connected_account_id j))"
| "request_account (Req_Retry i now) s =
     Option.bind (job_of s i) (\<lambda>j. account_of s (pj_connected_account_id j))"
| "request_account (Req_Reschedule inp) s =
     Option.bind (job_of s (rji_job_id inp)) (\<lambda>j. account_of s (pj_connected_account_id j))"

lemma void_eq [simp]:
  "void (Inl e, s) = (Inl e, s)" "void (Inr x, s) = (Inr (), s)"
  by (simp_all add: void_def)

lemmas requests_run = bind_target_run update_target_run validate_target_run schedule_target_run
  cancel_job_run retry_job_run reschedule_job_run authorised_def

lemma request_refused:
  "request_account rq s = Some a \<Longrightarrow> ca_owner a \<noteq> owner \<Longrightarrow>
     run_request d owner rq s = (Inl PS_OwnerMismatch, s)"
  by (cases rq) (auto simp: requests_run split: Option.bind_splits)

lemma request_missing:
  "request_account rq s = None \<Longrightarrow> run_request d owner rq s = (Inl (PS_Store SE_NotFound), s)"
  by (cases rq) (auto simp: requests_run split: Option.bind_splits option.splits)

text \<open>What a request does to the store: nothing, one target, or one job with its event.\<close>

inductive request_effect :: "social_store \<Rightarrow> social_store \<Rightarrow> bool" where
  eff_none: "request_effect s s"
| eff_target: "request_effect s (with_target tg s)"
| eff_job: "pe_publish_job_id e = pj_id j \<Longrightarrow> request_effect s (with_event e (with_job j s))"

lemma event_of_defs [simp]:
  "pe_publish_job_id (scheduled_event j inp) = pj_id j"
  "pe_publish_job_id (cancelled_event i now) = i"
  "pe_publish_job_id (retry_event s i now) = i"
  "pe_publish_job_id (reschedule_event s j rinp) = pj_id j"
  by (simp_all add: scheduled_event_def cancelled_event_def retry_event_def reschedule_event_def
      publish_job_event_new_def)

lemma request_effect: "request_effect s (snd (run_request d owner rq s))"
  by (cases rq)
    (simp_all add: requests_run Let_def eff_none eff_target eff_job split: option.split)

lemma store_ok_effect: "request_effect s t \<Longrightarrow> store_ok s \<Longrightarrow> store_ok t"
  by (induction rule: request_effect.induct)
    (simp_all add: store_ok_with_target mem.record_transition_inv)

section \<open>Authorisation\<close>

text \<open>The contract shared by the operations of a service: a request about an account of somebody else
  is refused and changes nothing, a request about no account fails and changes nothing, and no
  request breaks the invariant of the state.\<close>

locale guarded_service =
  fixes run :: "'o \<Rightarrow> 'r \<Rightarrow> 's \<Rightarrow> ('e + unit) \<times> 's"
    and account :: "'r \<Rightarrow> 's \<Rightarrow> 'a option"
    and holder :: "'a \<Rightarrow> 'o"
    and denied :: 'e
    and missing :: 'e
    and inv :: "'s \<Rightarrow> bool"
  assumes refused: "account r s = Some a \<Longrightarrow> holder a \<noteq> w \<Longrightarrow> run w r s = (Inl denied, s)"
    and not_found: "account r s = None \<Longrightarrow> run w r s = (Inl missing, s)"
    and run_inv: "inv s \<Longrightarrow> inv (snd (run w r s))"
begin

lemma accepted_owner:
  assumes "run w r s = (Inr u, t)"
  shows "\<exists>a. account r s = Some a \<and> holder a = w"
proof (cases "account r s")
  case None
  with assms not_found show ?thesis by simp
next
  case (Some a)
  with assms refused [OF Some, of w] show ?thesis by fastforce
qed

lemma strangers_session:
  assumes "\<forall>(w, r) \<in> set rs. \<forall>a. account r s = Some a \<longrightarrow> holder a \<noteq> w"
  shows "fold (\<lambda>(w, r) t. snd (run w r t)) rs s = s"
  using assms
proof (induction rs)
  case Nil
  then show ?case by simp
next
  case (Cons x rs)
  obtain w r where x: "x = (w, r)" by (cases x)
  have "snd (run w r s) = s"
    using Cons.prems refused [of r s _ w] not_found [of r s w] x
    by (cases "account r s") fastforce+
  with Cons x show ?case by simp
qed

lemma session_inv: "inv s \<Longrightarrow> inv (fold (\<lambda>(w, r) t. snd (run w r t)) rs s)"
  by (induction rs arbitrary: s) (auto simp: run_inv)

end

interpretation svc: guarded_service "run_request d" request_account ca_owner PS_OwnerMismatch
  "PS_Store SE_NotFound" store_ok for d
proof unfold_locales
  show "run_request d w r s = (Inl PS_OwnerMismatch, s)"
    if "request_account r s = Some a" "ca_owner a \<noteq> w" for r s a w
    by (rule request_refused [OF that])
  show "run_request d w r s = (Inl (PS_Store SE_NotFound), s)"
    if "request_account r s = None" for r s w
    by (rule request_missing [OF that])
  show "store_ok (snd (run_request d w r s))" if "store_ok s" for s w r
    by (rule store_ok_effect [OF request_effect that])
qed

text \<open>C9: Isolation of owners. However many requests (bind, update, validate, schedule, cancel, retry,
  reschedule) users send about accounts that are not theirs, in whatever order, the store is exactly
  what it was: no target, job, event or account of the owner changes.\<close>

theorem strangers_change_nothing:
  assumes "\<forall>(w, rq) \<in> set rs. \<forall>a. request_account rq s = Some a \<longrightarrow> ca_owner a \<noteq> w"
  shows "fold (\<lambda>(w, rq) t. snd (run_request d w rq t)) rs s = s"
  using assms by (rule svc.strangers_session)

section \<open>Transitions a user can cause\<close>

inductive user_transition :: "publish_job option \<Rightarrow> publish_job \<Rightarrow> bool" where
  ut_new: "pj_status j = Scheduled \<Longrightarrow> pj_attempt_count j = 0 \<Longrightarrow> pj_provider_post_id j = None \<Longrightarrow>
    user_transition None j"
| ut_again: "pj_idempotency_key old = pj_idempotency_key j \<Longrightarrow> pj_status j = Scheduled \<Longrightarrow>
    pj_attempt_count j = 0 \<Longrightarrow> pj_provider_post_id j = None \<Longrightarrow> user_transition (Some old) j"
| ut_cancel: "pj_status j \<notin> {Published, Cancelled} \<Longrightarrow> user_transition (Some j) (job_cancel j now)"
| ut_retry: "is_user_retryable j \<Longrightarrow> user_transition (Some j) (job_retry j now)"
| ut_move: "pj_status j = Scheduled \<Longrightarrow> now < due \<Longrightarrow>
    user_transition (Some j) (job_reschedule j due now)"

lemma scheduled_job_fields [simp]:
  "pj_status (scheduled_job d tg inp) = Scheduled"
  "pj_attempt_count (scheduled_job d tg inp) = 0"
  "pj_provider_post_id (scheduled_job d tg inp) = None"
  "pj_id (scheduled_job d tg inp) = sti_job_id inp"
  by (simp_all add: scheduled_job_def job_schedule_def publish_job_new_def Let_def)

text \<open>The step of one request on the jobs and their histories.\<close>

definition jobs_step :: "social_store \<Rightarrow> social_store \<Rightarrow> bool" where
  "jobs_step s t \<longleftrightarrow>
     (\<forall>i. job_of t i = job_of s i) \<and> (\<forall>i. events_of t i = events_of s i)
     \<or> (\<exists>j e. user_transition (job_of s (pj_id j)) j \<and> pe_publish_job_id e = pj_id j
          \<and> pe_actor_type e = Actor_User \<and> t = with_event e (with_job j s))"

lemma jobs_step_same [simp]: "jobs_step s s" "jobs_step s (with_target tg s)"
  by (simp_all add: jobs_step_def)

lemma jobs_step_write:
  "user_transition (job_of s (pj_id j)) j \<Longrightarrow> pe_publish_job_id e = pj_id j \<Longrightarrow>
     pe_actor_type e = Actor_User \<Longrightarrow> jobs_step s (with_event e (with_job j s))"
  unfolding jobs_step_def by blast

lemma user_events [simp]:
  "pe_actor_type (scheduled_event j inp) = Actor_User"
  "pe_actor_type (cancelled_event i now) = Actor_User"
  "pe_actor_type (retry_event s i now) = Actor_User"
  "pe_actor_type (reschedule_event s j rinp) = Actor_User"
  by (simp_all add: scheduled_event_def cancelled_event_def retry_event_def reschedule_event_def
      publish_job_event_new_def)

lemma run_request_jobs_step:
  assumes "store_ok s"
  shows "jobs_step s (snd (run_request d owner rq s))"
proof (cases rq)
  case (Req_Schedule inp)
  then show ?thesis
    by (auto simp: schedule_target_run authorised_def Let_def ut_new
        intro!: jobs_step_write ut_again split: option.split)
next
  case (Req_Cancel i now)
  then show ?thesis
    using store_ok_job_id [OF assms]
    by (auto simp: cancel_job_run authorised_def ut_cancel intro!: jobs_step_write
        split: option.split)
next
  case (Req_Retry i now)
  then show ?thesis
    using store_ok_job_id [OF assms]
    by (auto simp: retry_job_run authorised_def ut_retry intro!: jobs_step_write
        split: option.split)
next
  case (Req_Reschedule inp)
  then show ?thesis
    using store_ok_job_id [OF assms]
    by (auto simp: reschedule_job_run authorised_def ut_move Let_def intro!: jobs_step_write
        split: option.split)
qed (simp_all add: requests_run Let_def split: option.split)

text \<open>What one request of a user can do to the jobs. Either no job and no history changes at all, or
  exactly one job makes one of the transitions a user may cause (schedule, schedule again under the
  same idempotency key, cancel before publication, retry, move a scheduled job into the future), and
  exactly one event by the user is appended to the history of that job and to no other.\<close>

theorem user_request_step:
  assumes "store_ok s" and "run_request d owner rq s = (r, t)"
  shows "(\<forall>i. job_of t i = job_of s i) \<and> (\<forall>i. events_of t i = events_of s i)
    \<or> (\<exists>j e. user_transition (job_of s (pj_id j)) j \<and> pe_actor_type e = Actor_User
        \<and> (\<forall>i. job_of t i = (if i = pj_id j then Some j else job_of s i))
        \<and> (\<forall>i. events_of t i = (if i = pj_id j then events_of s i @ [e] else events_of s i)))"
  using run_request_jobs_step [OF assms(1), of d owner rq] assms(2)
  unfolding jobs_step_def by fastforce

section \<open>Validation and scheduling\<close>

definition publishable :: "campaign_variant_target \<Rightarrow> connected_account \<Rightarrow> i64 \<Rightarrow> bool" where
  "publishable target account now \<longleftrightarrow>
     ca_status account = Connected \<and> eligible (ca_eligibility account)
     \<and> upload_video (ca_capabilities account) \<and> public_posting (ca_capabilities account)
     \<and> now < cvt_scheduled_for target
     \<and> (\<forall>r. \<not> metadata_violates (cvt_provider target) (cvt_platform_fields target) r)"

lemma target_validation_valid:
  "fst (target_validation_state target account now) = Val_Valid \<longleftrightarrow> publishable target account now"
  "snd (target_validation_state target account now) = [] \<longleftrightarrow> publishable target account now"
  by (auto simp: target_validation_state_def publishable_def validate_platform_fields_ok Let_def)

text \<open>Validation. When \<open>validate_target\<close> answers, the verdict it stores on the target and
  reports is \<open>Valid\<close> exactly when the account is connected, eligible and able to upload and post,
  the time lies in the future and no limit of the platform is broken; reasons are given exactly
  otherwise.\<close>

theorem validate_target_sound:
  assumes "validate_target owner i now s = (Inr report, t)"
  shows "\<exists>target a. target_of s i = Some target
    \<and> account_of s (cvt_connected_account_id target) = Some a \<and> ca_owner a = owner
    \<and> t = with_target (mark_validation target (tvr_state report) now) s
    \<and> (tvr_state report = Val_Valid \<longleftrightarrow> publishable target a now)
    \<and> (tvr_reasons report = [] \<longleftrightarrow> publishable target a now)"
  using assms
  by (auto simp: validate_target_run authorised_cases Let_def target_validation_valid
      split: if_splits)

text \<open>Scheduling. A target is scheduled only when the caller owns its account, it was validated, and
  it is still publishable at the moment of scheduling; the job then carries the target's campaign,
  variant, account, provider and time, is due strictly in the future, and replaces an earlier job of
  the same id only when that job was for the same publication.\<close>

theorem schedule_target_sound:
  assumes "schedule_target d owner inp s = (Inr job, t)"
  shows "\<exists>target a. target_of s (sti_target_id inp) = Some target
    \<and> account_of s (cvt_connected_account_id target) = Some a \<and> ca_owner a = owner
    \<and> ca_provider a = cvt_provider target
    \<and> cvt_validation_state target = Val_Valid \<and> publishable target a (sti_now inp)
    \<and> job = scheduled_job d target inp \<and> sti_now inp < pj_scheduled_for job
    \<and> (\<forall>old. job_of s (pj_id job) = Some old \<longrightarrow> pj_idempotency_key old = pj_idempotency_key job)
    \<and> t = with_event (scheduled_event job inp) (with_job job s)"
proof -
  from assms obtain target a where
    tg: "target_of s (sti_target_id inp) = Some target"
    and a: "account_of s (cvt_connected_account_id target) = Some a" "ca_owner a = owner"
      "ca_provider a = cvt_provider target"
    and v: "cvt_validation_state target = Val_Valid"
    and p: "publishable target a (sti_now inp)"
    and job: "job = scheduled_job d target inp"
    and old: "\<forall>old. job_of s (pj_id job) = Some old \<longrightarrow>
      pj_idempotency_key old = pj_idempotency_key job"
    and t: "t = with_event (scheduled_event job inp) (with_job job s)"
    by (auto simp: schedule_target_run authorised_cases Let_def target_validation_valid
        split: if_splits option.splits)
  have "sti_now inp < pj_scheduled_for job"
    using p by (simp add: job scheduled_job_def job_schedule_def publish_job_new_def Let_def
        publishable_def)
  with tg a v p job old t show ?thesis by blast
qed

lemma schedule_target_accepts:
  assumes "target_of s (sti_target_id inp) = Some target"
    and "account_of s (cvt_connected_account_id target) = Some a" and "ca_owner a = owner"
    and "ca_provider a = cvt_provider target" and "cvt_validation_state target = Val_Valid"
    and "publishable target a (sti_now inp)"
    and "\<And>old. job_of s (sti_job_id inp) = Some old \<Longrightarrow>
      pj_idempotency_key old = pj_idempotency_key (scheduled_job d target inp)
      \<and> (\<exists>b. account_of s (pj_connected_account_id old) = Some b \<and> ca_owner b = owner)"
  shows "schedule_target d owner inp s =
    (Inr (scheduled_job d target inp),
     with_event (scheduled_event (scheduled_job d target inp) inp)
       (with_job (scheduled_job d target inp) s))"
proof (cases "job_of s (sti_job_id inp)")
  case None
  with assms(1-6) show ?thesis
    by (simp add: schedule_target_run authorised_def Let_def target_validation_valid)
next
  case (Some old)
  with assms(7) obtain b where
    "pj_idempotency_key old = pj_idempotency_key (scheduled_job d target inp)"
    "account_of s (pj_connected_account_id old) = Some b" "ca_owner b = owner" by blast
  with Some assms(1-6) show ?thesis
    by (simp add: schedule_target_run authorised_def Let_def target_validation_valid)
qed

text \<open>Re-sending a schedule request is not idempotent. After the job of a request was claimed and
  published, the same request sent once more is accepted: the published job is replaced by a fresh
  scheduled one with no attempts and no post id, due for another upload, and the history gains a
  second event with the identifier of the first.\<close>

theorem resend_requeues_published:
  assumes "schedule_target d owner inp s = (Inr job, s1)"
    and "s2 = with_job (job_publish (claim_for_upload job n1) post url n2) s1"
  shows "\<exists>t. schedule_target d owner inp s2 = (Inr job, t)
    \<and> job_of t (pj_id job) = Some job \<and> pj_status job = Scheduled
    \<and> pj_attempt_count job = 0 \<and> pj_provider_post_id job = None
    \<and> length (filter (\<lambda>e. pe_id e = pe_id (scheduled_event job inp)) (events_of t (pj_id job))) \<ge> 2"
proof -
  from schedule_target_sound [OF assms(1)] obtain target a where
    tg: "target_of s (sti_target_id inp) = Some target"
    and a: "account_of s (cvt_connected_account_id target) = Some a" "ca_owner a = owner"
      "ca_provider a = cvt_provider target"
    and v: "cvt_validation_state target = Val_Valid" "publishable target a (sti_now inp)"
    and job: "job = scheduled_job d target inp"
    and s1: "s1 = with_event (scheduled_event job inp) (with_job job s)" by blast
  let ?pub = "job_publish (claim_for_upload job n1) post url n2"
  have ids: "pj_id ?pub = sti_job_id inp" "pj_idempotency_key ?pub = pj_idempotency_key job"
    "pj_connected_account_id ?pub = cvt_connected_account_id target"
    by (simp_all add: job transition_defs scheduled_job_def publish_job_new_def Let_def)
  have "schedule_target d owner inp s2 =
      (Inr job, with_event (scheduled_event job inp) (with_job job s2))"
    unfolding job
    by (rule schedule_target_accepts [of _ _ _ a])
      (use tg a v ids in \<open>auto simp: assms(2) s1 job\<close>)
  then show ?thesis
    by (simp add: assms(2) s1) (simp add: job)
qed

section \<open>Concrete runs\<close>

definition sample_account :: "string \<Rightarrow> owner_ref \<Rightarrow> connected_account" where
  "sample_account i owner =
     \<lparr>ca_id = i, ca_owner = owner, ca_provider = Instagram, ca_provider_account_id = i,
      ca_display_name = ''acme'', ca_handle = None, ca_avatar_url = None,
      ca_account_kind = Professional, ca_status = Connected, ca_scopes = [],
      ca_capabilities = \<lparr>native_scheduling = False, queue_scheduling = True, upload_video = True,
        upload_thumbnail = False, public_posting = True, requires_user_consent = False\<rparr>,
      ca_eligibility = eligibility_eligible, ca_last_verified_at = None, ca_created_at = 1,
      ca_updated_at = 1\<rparr>"

definition sample_target :: campaign_variant_target where
  "sample_target =
     \<lparr>cvt_id = ''t'', cvt_campaign_id = ''c'', cvt_variant_id = ''v'',
      cvt_connected_account_id = ''a'', cvt_provider = Instagram,
      cvt_platform_fields = json_object [], cvt_scheduled_for = 100,
      cvt_validation_state = Val_Valid, cvt_created_at = 1, cvt_updated_at = 1\<rparr>"

definition sample_digests :: digests where
  "sample_digests = \<lparr>sha256 = (\<lambda>s. s), base64_url_safe_no_pad = (\<lambda>s. s)\<rparr>"

definition sample_site :: social_store where
  "sample_site =
     with_target sample_target (with_account (sample_account ''a'' (User ''ann'')) store_default)"

definition sample_schedule :: schedule_target_input where
  "sample_schedule =
     \<lparr>sti_job_id = ''j'', sti_target_id = ''t'', sti_artifact_ref = ''r'', sti_created_by = ''ann'',
      sti_now = 50\<rparr>"

lemma sample_site_ok: "store_ok sample_site"
  unfolding sample_site_def
  by (rule store_ok_with_target, rule store_ok_with_account [OF store_ok_default])
    (simp add: store_default_def bt_values_def)

lemma sample_fields [simp]:
  "ca_id (sample_account i w) = i" "ca_owner (sample_account i w) = w"
  "ca_provider (sample_account i w) = Instagram"
  "cvt_id sample_target = ''t''" "cvt_connected_account_id sample_target = ''a''"
  "cvt_provider sample_target = Instagram" "cvt_validation_state sample_target = Val_Valid"
  "sti_target_id sample_schedule = ''t''" "sti_job_id sample_schedule = ''j''"
  "sti_now sample_schedule = 50"
  by (simp_all add: sample_account_def sample_target_def sample_schedule_def)

lemma sample_site_reads [simp]:
  "target_of sample_site ''t'' = Some sample_target"
  "account_of sample_site ''a'' = Some (sample_account ''a'' (User ''ann''))"
  "job_of sample_site i = None"
  by (simp_all add: sample_site_def) (simp add: store_default_def)

lemma sample_publishable: "publishable sample_target (sample_account ''a'' w) 50"
  by (simp add: publishable_def sample_target_def sample_account_def eligibility_eligible_def
      json_object_def bt_of_list_def string_field_def text_field_def bt_get_def chars_count_def)

lemma sample_schedule_runs:
  "schedule_target sample_digests (User ''ann'') sample_schedule sample_site =
    (Inr (scheduled_job sample_digests sample_target sample_schedule),
     with_event (scheduled_event (scheduled_job sample_digests sample_target sample_schedule)
         sample_schedule)
       (with_job (scheduled_job sample_digests sample_target sample_schedule) sample_site))"
  by (rule schedule_target_accepts [of _ _ _ "sample_account ''a'' (User ''ann'')"])
    (simp_all add: sample_publishable)

theorem strangers_change_nothing_witness:
  "fold (\<lambda>(w, rq) t. snd (run_request sample_digests w rq t))
     [(User ''eve'', Req_Validate ''t'' 60), (User ''eve'', Req_Schedule sample_schedule)] sample_site
   = sample_site"
  by (rule strangers_change_nothing) simp

theorem schedule_target_sound_witness:
  "50 < pj_scheduled_for (scheduled_job sample_digests sample_target sample_schedule)"
  using schedule_target_sound [OF sample_schedule_runs]
  by (elim exE conjE) simp

theorem resend_requeues_published_witness:
  "pj_status (fst (the (case fst (schedule_target sample_digests (User ''ann'') sample_schedule
      (with_job (job_publish (claim_for_upload
           (scheduled_job sample_digests sample_target sample_schedule) 101) ''p'' ''u'' 105)
         (snd (schedule_target sample_digests (User ''ann'') sample_schedule sample_site))))
      of Inr j \<Rightarrow> Some (j, ()) | Inl e \<Rightarrow> None))) = Scheduled"
  using resend_requeues_published [OF sample_schedule_runs refl, of 101 "''p''" "''u''" 105]
  by (elim exE conjE) (simp add: sample_schedule_runs)

lemma sample_validate:
  "validate_target (User ''ann'') ''t'' 50 sample_site =
    (Inr \<lparr>tvr_state = Val_Valid, tvr_reasons = []\<rparr>,
     with_target (mark_validation sample_target Val_Valid 50) sample_site)"
proof -
  have v: "target_validation_state sample_target (sample_account ''a'' (User ''ann'')) 50 =
      (Val_Valid, [])"
    using sample_publishable target_validation_valid by (metis prod.collapse)
  show ?thesis
    by (simp add: validate_target_run authorised_def v Let_def)
qed

theorem validate_target_sound_witness:
  "\<exists>target a. target_of sample_site ''t'' = Some target \<and> publishable target a 50"
  using validate_target_sound [OF sample_validate] by (elim exE conjE) auto

theorem user_request_step_witness:
  "\<exists>j. job_of (snd (run_request sample_digests (User ''ann'') (Req_Schedule sample_schedule)
      sample_site)) ''j'' = Some j \<and> user_transition None j"
proof -
  let ?j = "scheduled_job sample_digests sample_target sample_schedule"
  have run: "run_request sample_digests (User ''ann'') (Req_Schedule sample_schedule) sample_site =
      (Inr (), with_event (scheduled_event ?j sample_schedule) (with_job ?j sample_site))"
    by (simp add: sample_schedule_runs)
  have job: "job_of (with_event (scheduled_event ?j sample_schedule) (with_job ?j sample_site)) ''j''
      = Some ?j" by simp
  from user_request_step [OF sample_site_ok run] show ?thesis
  proof (elim disjE exE conjE)
    assume "\<forall>i. job_of (with_event (scheduled_event ?j sample_schedule) (with_job ?j sample_site)) i
        = job_of sample_site i"
    then show ?thesis using job by (metis option.distinct(1) sample_site_reads(3))
  next
    fix j
    assume tr: "user_transition (job_of sample_site (pj_id j)) j"
      and js: "\<forall>i. job_of (with_event (scheduled_event ?j sample_schedule) (with_job ?j sample_site)) i
        = (if i = pj_id j then Some j else job_of sample_site i)"
    from js [rule_format, of "''j''"] job have "j = ?j" by (simp split: if_splits)
    with tr show ?thesis unfolding run by simp
  qed
qed

end
