(* ===== verification/Upload_Service_Props.thy ===== *)
theory Upload_Service_Props
  imports Upload_Service Publish_Service_Props
begin

text \<open>
  What the worker does to the store when it executes a claimed job: the arms of the execution in
  closed form, when the provider is contacted at all, the outcome of an undisturbed upload, and what
  happens when the user cancels while the upload runs.
\<close>

section \<open>The arms in closed form\<close>

definition worker_event ::
  "social_store \<Rightarrow> string \<Rightarrow> publish_job_event_type \<Rightarrow> publish_job_actor_type \<Rightarrow> string \<Rightarrow> json \<Rightarrow> i64
    \<Rightarrow> publish_job_event" where
  "worker_event s i ty actor message metadata now =
     publish_job_event_new
       (''event_'' @ i @ ''_'' @ event_type_slug ty @ ''_'' @ dec_of_nat (length (events_of s i) + 1))
       i ty actor message metadata now"

lemma worker_event_fields [simp]:
  "pe_publish_job_id (worker_event s i ty actor message metadata now) = i"
  "pe_event_type (worker_event s i ty actor message metadata now) = ty"
  "pe_actor_type (worker_event s i ty actor message metadata now) = actor"
  by (simp_all add: worker_event_def publish_job_event_new_def)

lemma append_event_run:
  "append_event i ty actor message metadata now s =
     (Inr (), with_event (worker_event s i ty actor message metadata now) s)"
  by (simp add: append_event_def next_event_id_def service_unfold worker_event_def)

text \<open>A transition recorded by the worker: the job is saved, then its event, numbered by the length of
  the history before it.\<close>

definition record_job ::
  "publish_job \<Rightarrow> publish_job_event_type \<Rightarrow> publish_job_actor_type \<Rightarrow> string \<Rightarrow> json \<Rightarrow> i64
    \<Rightarrow> social_store \<Rightarrow> social_store" where
  "record_job j ty actor message metadata now s =
     with_event (worker_event s (pj_id j) ty actor message metadata now) (with_job j s)"

lemma record_job_reads [simp]:
  "job_of (record_job j ty actor message metadata now s) i = (if i = pj_id j then Some j else job_of s i)"
  "events_of (record_job j ty actor message metadata now s) i =
     (if i = pj_id j then events_of s i @ [worker_event s (pj_id j) ty actor message metadata now]
      else events_of s i)"
  "connected_accounts (record_job j ty actor message metadata now s) = connected_accounts s"
  "token_secrets (record_job j ty actor message metadata now s) = token_secrets s"
  "campaign_variant_targets (record_job j ty actor message metadata now s) = campaign_variant_targets s"
  by (simp_all add: record_job_def)

lemma store_ok_record_job: "store_ok s \<Longrightarrow> store_ok (record_job j ty actor message metadata now s)"
  unfolding record_job_def by (rule mem.record_transition_inv)

lemma save_then_event:
  "pj_id j = i \<Longrightarrow> bind_op (write_op US_Store (save_publish_job j)) (\<lambda>_.
     bind_op (append_event i ty actor message metadata now) (\<lambda>_. return x)) s =
   (Inr x, record_job j ty actor message metadata now s)"
  by (auto simp: service_unfold append_event_run record_job_def worker_event_def)

definition provider_field :: "publish_job \<Rightarrow> string \<times> json" where
  "provider_field j = (''provider'', JStr (provider_as_str (pj_provider j)))"

definition retry_fields :: "publish_job \<Rightarrow> string \<Rightarrow> string \<Rightarrow> (string \<times> json) list" where
  "retry_fields j err message =
     [provider_field j, (''normalized_error'', JStr err), (''message'', JStr message),
      (''attempt_count'', JInt (int (unat (pj_attempt_count j))))]"

lemma pj_provider_transitions [simp]:
  "pj_provider (job_requires_action j r n) = pj_provider j"
  "pj_provider (job_processing j p n) = pj_provider j"
  "pj_provider (start_provider_processing j n) = pj_provider j"
  "pj_provider (job_publish j p u n) = pj_provider j"
  "pj_provider (job_fail j e r n) = pj_provider j"
  "pj_provider (job_retry j n) = pj_provider j"
  "pj_provider (claim_for_upload j n) = pj_provider j"
  by (simp_all add: transition_defs)

lemma requeue_run:
  "requeue_or_fail_retryable j policy err message now s =
     (if pj_attempt_count j \<ge> policy_max_attempts policy
      then (Inr (job_fail j err message now),
            record_job (job_fail j err message now) Ev_Failed Actor_Provider
              ''upload failed; retry budget exhausted'' (json_object (retry_fields j err message)) now s)
      else
        let due = i64_saturating_add now
              (backoff_delay_secs (pj_attempt_count j) (policy_base_backoff_secs policy));
            next = (job_retry j now)\<lparr>pj_scheduled_for := due\<rparr>
        in (Inr next,
            record_job next Ev_RetryQueued Actor_Worker ''upload failed; retry queued with backoff''
              (json_object (retry_fields j err message @ [(''next_scheduled_for'', JInt due)])) now s))"
proof (cases "pj_attempt_count j \<ge> policy_max_attempts policy")
  case True
  have "pj_attempt_count (job_fail j err message now) = pj_attempt_count j"
    by (simp add: job_fail_def)
  with True show ?thesis
    by (simp add: requeue_or_fail_retryable_def retry_with_backoff_or_fail_def save_then_event
        retry_fields_def provider_field_def)
next
  case False
  let ?due = "i64_saturating_add now
        (backoff_delay_secs (pj_attempt_count j) (policy_base_backoff_secs policy))"
  have "pj_attempt_count (job_retry j now) = pj_attempt_count j" by (simp add: job_retry_def)
  with False show ?thesis
    by (simp add: requeue_or_fail_retryable_def retry_with_backoff_or_fail_def Let_def
        save_then_event retry_fields_def provider_field_def)
qed

definition settled :: "publish_job \<Rightarrow> upload_adapter_error + upload_result \<Rightarrow> retry_policy \<Rightarrow> i64 \<Rightarrow> publish_job" where
  "settled j result policy now =
     (case result of
        Inr res \<Rightarrow>
          if res_processing res then job_processing j (res_provider_post_id res) now
          else job_publish j (res_provider_post_id res) (res_provider_post_url res) now
      | Inl (UA_RequiresAction reason) \<Rightarrow> job_requires_action j reason now
      | Inl UA_MissingUploadToken \<Rightarrow> job_requires_action j ''missing_upload_token'' now
      | Inl (UA_MediaConstraintFailed reason) \<Rightarrow> job_fail j reason ''provider_error_ref_unavailable'' now
      | Inl (UA_NetworkOrServer message) \<Rightarrow>
          fst (retry_with_backoff_or_fail j (policy_max_attempts policy)
                 (policy_base_backoff_secs policy) ''network_or_server_error'' message now)
      | Inl UA_ProviderMismatch \<Rightarrow> j)"

definition settle_event :: "publish_job \<Rightarrow> upload_adapter_error + upload_result \<Rightarrow> retry_policy \<Rightarrow> publish_job_event_type" where
  "settle_event j result policy =
     (case result of
        Inr _ \<Rightarrow> Ev_Uploaded
      | Inl (UA_MediaConstraintFailed _) \<Rightarrow> Ev_Failed
      | Inl (UA_NetworkOrServer _) \<Rightarrow>
          if pj_attempt_count j \<ge> policy_max_attempts policy then Ev_Failed else Ev_RetryQueued
      | _ \<Rightarrow> Ev_RequiresAction)"

lemma settle_upload_run:
  "settle_upload j result policy now s = (Inl US_ProviderMismatch, s) \<and> result = Inl UA_ProviderMismatch
   \<or> result \<noteq> Inl UA_ProviderMismatch
     \<and> (\<exists>actor message metadata. settle_upload j result policy now s =
          (Inr (settled j result policy now),
           record_job (settled j result policy now) (settle_event j result policy) actor message
             metadata now s))"
proof (cases result)
  case (Inl e)
  show ?thesis
  proof (cases e)
    case (UA_NetworkOrServer message)
    then show ?thesis using Inl
      by (auto simp: settle_upload_def requeue_run settled_def settle_event_def
          retry_with_backoff_or_fail_def Let_def)
  qed (auto simp: Inl settle_upload_def Let_def save_then_event settled_def settle_event_def
      fail_def)
next
  case (Inr res)
  then show ?thesis
    by (auto simp: settle_upload_def Let_def save_then_event settled_def settle_event_def)
qed

definition upload_started :: "publish_job \<Rightarrow> i64 \<Rightarrow> social_store \<Rightarrow> social_store" where
  "upload_started job now s =
     with_job (start_provider_processing job now)
       (with_event (worker_event s (pj_id job) Ev_Claimed Actor_Worker ''upload job claimed by worker''
          (json_object [provider_field job]) now) s)"

definition discard_event :: "publish_job \<Rightarrow> i64 \<Rightarrow> social_store \<Rightarrow> publish_job_event" where
  "discard_event job now s =
     worker_event s (pj_id job) Ev_Cancelled Actor_Worker
       ''provider upload completed after cancellation; result discarded''
       (json_object [provider_field job]) now"

lemma perform_upload_run:
  "perform_upload world adapter job account_id inp policy s =
     (let now = eui_now inp;
          s' = world (upload_started job now s);
          result = adapter_upload adapter (upload_request_for job account_id inp);
          settle = settle_upload (start_provider_processing job now) result policy now s'
      in case result of
           Inl _ \<Rightarrow> settle
         | Inr _ \<Rightarrow>
             (case job_of s' (pj_id job) of
                None \<Rightarrow> (Inl (US_Store SE_NotFound), s')
              | Some current \<Rightarrow>
                  if pj_status current = Cancelled
                  then (Inl US_JobCancelledDuringUpload, with_event (discard_event job now s') s')
                  else settle))"
  by (simp add: perform_upload_def service_unfold append_event_run Let_def upload_started_def
      provider_field_def discard_event_def split: sum.split option.split)

lemma upload_started_reads [simp]:
  "job_of (upload_started job now s) i =
     (if i = pj_id job then Some (start_provider_processing job now) else job_of s i)"
  "connected_accounts (upload_started job now s) = connected_accounts s"
  "token_secrets (upload_started job now s) = token_secrets s"
  by (simp_all add: upload_started_def)

lemma events_upload_started:
  "map pe_event_type (events_of (upload_started job now s) i) =
     map pe_event_type (events_of s i) @ (if i = pj_id job then [Ev_Claimed] else [])"
  by (simp add: upload_started_def)

section \<open>When the provider is contacted\<close>

text \<open>The account-side conditions of the execution.\<close>

definition account_publishable :: "connected_account \<Rightarrow> bool" where
  "account_publishable a \<longleftrightarrow>
     ca_status a = Connected \<and> eligible (ca_eligibility a) \<and> upload_video (ca_capabilities a)"

definition claimed_for ::
  "social_store \<Rightarrow> execute_upload_input \<Rightarrow> publish_job \<Rightarrow> connected_account \<Rightarrow> token_secret \<Rightarrow> bool" where
  "claimed_for s inp job a secret \<longleftrightarrow>
     job_of s (eui_job_id inp) = Some job \<and> pj_status job = Uploading
     \<and> account_of s (pj_connected_account_id job) = Some a \<and> ca_provider a = pj_provider job
     \<and> account_publishable a \<and> bt_get (token_secrets s) (ca_id a) = Some secret"

lemma execute_claimed_run:
  assumes "claimed_for s inp job a secret" and "adapter_provider adapter = pj_provider job"
  shows "execute_claimed_job_full world adapter refresher inp policy skew s =
    (let now = eui_now inp;
         proceed = perform_upload world adapter job (ca_id a) inp policy
     in if \<not> is_access_expiring secret now skew then proceed s
        else if refresh_token_exhausted secret now
        then flip_needs_reauth job (ca_id a) ''refresh_token_expired'' now s
        else
          (case refresher (ca_id a) secret now of
             Inr fresh \<Rightarrow> proceed (with_secret fresh s)
           | Inl (TR_InvalidGrant _) \<Rightarrow> flip_needs_reauth job (ca_id a) ''refresh_invalid_grant'' now s
           | Inl (TR_Unavailable _) \<Rightarrow> flip_needs_reauth job (ca_id a) ''refresh_not_configured'' now s
           | Inl (TR_Transient message) \<Rightarrow>
               requeue_or_fail_retryable job policy ''token_refresh_transient'' message now s))"
  using assms
  by (simp add: execute_claimed_job_full_def claimed_for_def account_publishable_def service_unfold
      Let_def split: sum.split token_refresh_error.split)

text \<open>The provider is never contacted for a job that is not claimed or whose account may no longer
  publish. Whatever adapter is plugged in and whatever others do during an upload, the execution
  gives the same error and leaves the store untouched when the job is not uploading, or its account
  was disconnected, revoked, made ineligible or lost the upload capability since the scheduling.\<close>

theorem unpublishable_never_uploaded:
  assumes "job_of s (eui_job_id inp) = Some job"
    and "account_of s (pj_connected_account_id job) = Some a"
    and "pj_status job \<noteq> Uploading \<or> \<not> account_publishable a"
    and "adapter_provider ad1 = adapter_provider ad2"
  shows "execute_claimed_job_full w1 ad1 refresher inp policy skew s =
      execute_claimed_job_full w2 ad2 refresher inp policy skew s
    \<and> (\<exists>e. execute_claimed_job_full w1 ad1 refresher inp policy skew s = (Inl e, s))"
  using assms
  by (auto simp: execute_claimed_job_full_def service_unfold account_publishable_def)

lemma flip_needs_reauth_run:
  assumes "store_ok s" and "account_of s acc = Some a"
  shows "flip_needs_reauth job acc reason now s =
    (Inr (job_requires_action job reason now),
     record_job (job_requires_action job reason now) Ev_RequiresAction Actor_Worker
       ''token refresh failed; account needs reauth''
       (json_object [provider_field job, (''reason'', JStr reason)]) now
       (with_account (a\<lparr>ca_status := NeedsReauth, ca_updated_at := now\<rparr>) s))"
proof -
  let ?a = "a\<lparr>ca_status := NeedsReauth, ca_updated_at := now\<rparr>"
  have "ca_id a = acc" by (rule store_ok_account_id [OF assms])
  then have "save_connected_account ?a s = (Inr (), with_account ?a s)"
    using assms by (intro save_connected_account_update) (auto simp: same_provider_account_def)
  then show ?thesis
    using assms(2)
    by (simp add: flip_needs_reauth_def store_reads ok_or_def Let_def save_then_event
        provider_field_def)
qed

text \<open>When the access token is about to expire and the refresh token is exhausted or rejected, the
  provider is not contacted either: the job waits for the user with the reason, the account is
  marked for reconnection, and one event records it. Every other account and job is unchanged.\<close>

theorem dead_refresh_asks_for_reauth:
  assumes "store_ok s" and "claimed_for s inp job a secret"
    and "adapter_provider adapter = pj_provider job"
    and "is_access_expiring secret (eui_now inp) skew"
    and "refresh_token_exhausted secret (eui_now inp)
      \<or> (\<exists>m. refresher (ca_id a) secret (eui_now inp) \<in> {Inl (TR_InvalidGrant m), Inl (TR_Unavailable m)})"
  shows "\<exists>next t. execute_claimed_job_full world adapter refresher inp policy skew s = (Inr next, t)
    \<and> job_of t (pj_id job) = Some next \<and> pj_status next = RequiresAction
    \<and> (\<exists>reason. pj_requires_action_reason next = Some reason)
    \<and> account_of t (ca_id a) = Some (a\<lparr>ca_status := NeedsReauth, ca_updated_at := eui_now inp\<rparr>)
    \<and> map pe_event_type (events_of t (pj_id job)) =
        map pe_event_type (events_of s (pj_id job)) @ [Ev_RequiresAction]
    \<and> (\<forall>i. i \<noteq> pj_id job \<longrightarrow> job_of t i = job_of s i)
    \<and> (\<forall>i. i \<noteq> ca_id a \<longrightarrow> account_of t i = account_of s i)"
proof -
  let ?now = "eui_now inp"
  have acc: "account_of s (ca_id a) = Some a"
    using assms(2) store_ok_account_id [OF assms(1)] by (auto simp: claimed_for_def)
  obtain reason where run: "execute_claimed_job_full world adapter refresher inp policy skew s =
      flip_needs_reauth job (ca_id a) reason ?now s"
  proof (cases "refresh_token_exhausted secret ?now")
    case True
    with assms(4) that show ?thesis
      by (simp add: execute_claimed_run [OF assms(2,3)] Let_def)
  next
    case False
    with assms(5) obtain m where
      "refresher (ca_id a) secret ?now = Inl (TR_InvalidGrant m)
       \<or> refresher (ca_id a) secret ?now = Inl (TR_Unavailable m)" by auto
    with False assms(4) that show ?thesis
      by (auto simp: execute_claimed_run [OF assms(2,3)] Let_def)
  qed
  show ?thesis
    unfolding run flip_needs_reauth_run [OF assms(1) acc]
    by (intro exI conjI, rule refl) (simp_all add: job_requires_action_def)
qed

text \<open>Divergence from the documentation. The default execution path is documented never to trigger
  a token refresh; but with a token already past its expiry it does not upload: it marks the account
  for reconnection and parks the job, exactly as if a refresh had been tried and had failed.\<close>

theorem default_path_refuses_expired_token:
  assumes "store_ok s" and "claimed_for s inp job a secret"
    and "adapter_provider adapter = pj_provider job"
    and "ts_access_token_expires_at secret = Some e" and "e \<le> eui_now inp"
    and "in_i64 (eui_now inp)"
  shows "\<exists>next t. execute_claimed_job world adapter inp s = (Inr next, t)
    \<and> pj_status next = RequiresAction \<and> job_of t (pj_id job) = Some next
    \<and> account_of t (ca_id a) = Some (a\<lparr>ca_status := NeedsReauth, ca_updated_at := eui_now inp\<rparr>)"
proof -
  let ?now = "eui_now inp"
  have acc: "account_of s (ca_id a) = Some a"
    using assms(2) store_ok_account_id [OF assms(1)] by (auto simp: claimed_for_def)
  have "is_access_expiring secret ?now 0"
    using assms(4,5,6) by (simp add: is_access_expiring_def i64_saturating_add_exact)
  then have "\<exists>reason. execute_claimed_job world adapter inp s =
      flip_needs_reauth job (ca_id a) reason ?now s"
    by (auto simp: execute_claimed_job_def execute_claimed_job_with_policy_def
        execute_claimed_run [OF assms(2,3)] Let_def noop_token_refresher_def)
  then obtain reason where run: "execute_claimed_job world adapter inp s =
      flip_needs_reauth job (ca_id a) reason ?now s" ..
  show ?thesis
    unfolding run flip_needs_reauth_run [OF assms(1) acc]
    by (intro exI conjI, rule refl) simp_all
qed

section \<open>Outcomes\<close>

lemma job_identity_provider: "job_identity j = job_identity k \<Longrightarrow> pj_provider j = pj_provider k"
  by (simp add: job_identity_def)

lemma job_identity_id: "job_identity j = job_identity k \<Longrightarrow> pj_id j = pj_id k"
  by (simp add: job_identity_def)

lemma settled_identity [frame_simps]: "job_identity (settled j result policy now) = job_identity j"
  by (simp add: settled_def frame_simps split: sum.split upload_adapter_error.split)

lemma settled_id [simp]: "pj_id (settled j result policy now) = pj_id j"
  by (rule job_identity_id) (rule settled_identity)

lemma settled_attempts [simp]: "pj_attempt_count (settled j result policy now) = pj_attempt_count j"
  by (simp add: settled_def transition_defs attempts_transitions
      split: sum.split upload_adapter_error.split)

lemma start_processing_fields [simp]:
  "pj_attempt_count (start_provider_processing j now) = pj_attempt_count j"
  "pj_connected_account_id (start_provider_processing j now) = pj_connected_account_id j"
  "pj_scheduled_for (start_provider_processing j now) = pj_scheduled_for j"
  by (simp_all add: start_provider_processing_def)

definition outcome_status ::
  "upload_adapter_error + upload_result \<Rightarrow> u32 \<Rightarrow> retry_policy \<Rightarrow> publish_job_status" where
  "outcome_status result attempts policy =
     (case result of
        Inr res \<Rightarrow> if res_processing res then Processing else Published
      | Inl (UA_NetworkOrServer _) \<Rightarrow>
          if policy_max_attempts policy \<le> attempts then Failed else Scheduled
      | Inl (UA_MediaConstraintFailed _) \<Rightarrow> Failed
      | Inl _ \<Rightarrow> RequiresAction)"

lemma settled_status:
  "result \<noteq> Inl UA_ProviderMismatch \<Longrightarrow>
     pj_status (settled j result policy now) = outcome_status result (pj_attempt_count j) policy"
  by (auto simp: settled_def outcome_status_def retry_status
      split: sum.split upload_adapter_error.split)

lemma settled_post_id:
  "pj_provider_post_id (settled j (Inr res) policy now) = Some (res_provider_post_id res)"
  by (simp add: settled_def job_processing_def job_publish_def)

lemma perform_upload_undisturbed:
  assumes "adapter_upload adapter (upload_request_for job acc inp) = result"
    and "result \<noteq> Inl UA_ProviderMismatch"
  shows "\<exists>actor message metadata.
    perform_upload (\<lambda>u. u) adapter job acc inp policy s =
      (Inr (settled (start_provider_processing job (eui_now inp)) result policy (eui_now inp)),
       record_job (settled (start_provider_processing job (eui_now inp)) result policy (eui_now inp))
         (settle_event (start_provider_processing job (eui_now inp)) result policy) actor message
         metadata (eui_now inp) (upload_started job (eui_now inp) s))"
proof -
  have "perform_upload (\<lambda>u. u) adapter job acc inp policy s =
      settle_upload (start_provider_processing job (eui_now inp)) result policy (eui_now inp)
        (upload_started job (eui_now inp) s)"
    using assms(1) by (auto simp: perform_upload_run Let_def split: sum.split)
  then show ?thesis
    using settle_upload_run [of "start_provider_processing job (eui_now inp)" result policy
        "eui_now inp" "upload_started job (eui_now inp) s"] assms(2) by auto
qed

text \<open>The outcome of an undisturbed upload with a fresh token. The job ends in the status its result
  calls for (published or processing with the provider's post id, waiting for the user, failed on a
  media constraint, or on a transient failure scheduled again while attempts remain and failed
  otherwise); its identity and attempt count are kept; its history gains the claim and exactly one
  outcome event; every other job and every account is unchanged.\<close>

theorem upload_outcome:
  assumes "claimed_for s inp job a secret" and "adapter_provider adapter = pj_provider job"
    and "\<not> is_access_expiring secret (eui_now inp) skew"
    and "adapter_upload adapter (upload_request_for job (ca_id a) inp) = result"
    and "result \<noteq> Inl UA_ProviderMismatch"
  shows "\<exists>next t. execute_claimed_job_full (\<lambda>u. u) adapter refresher inp policy skew s = (Inr next, t)
    \<and> job_of t (pj_id job) = Some next \<and> job_identity next = job_identity job
    \<and> pj_attempt_count next = pj_attempt_count job
    \<and> pj_status next = outcome_status result (pj_attempt_count job) policy
    \<and> (\<forall>res. result = Inr res \<longrightarrow> pj_provider_post_id next = Some (res_provider_post_id res))
    \<and> (\<exists>outcome. map pe_event_type (events_of t (pj_id job)) =
         map pe_event_type (events_of s (pj_id job)) @ [Ev_Claimed, outcome])
    \<and> (\<forall>i. i \<noteq> pj_id job \<longrightarrow> job_of t i = job_of s i \<and> events_of t i = events_of s i)
    \<and> connected_accounts t = connected_accounts s"
proof -
  let ?j = "start_provider_processing job (eui_now inp)"
  let ?next = "settled ?j result policy (eui_now inp)"
  from perform_upload_undisturbed [OF assms(4,5)] obtain actor message metadata where
    run: "perform_upload (\<lambda>u. u) adapter job (ca_id a) inp policy s =
      (Inr ?next, record_job ?next (settle_event ?j result policy) actor message metadata (eui_now inp)
         (upload_started job (eui_now inp) s))" by blast
  have exec: "execute_claimed_job_full (\<lambda>u. u) adapter refresher inp policy skew s =
      (Inr ?next, record_job ?next (settle_event ?j result policy) actor message metadata (eui_now inp)
         (upload_started job (eui_now inp) s))"
    using assms(3) run by (simp add: execute_claimed_run [OF assms(1,2)] Let_def)
  show ?thesis
    unfolding exec
    by (intro exI conjI, rule refl)
      (auto simp: settled_identity frame_simps settled_status [OF assms(5)] settled_post_id
        upload_started_def)
qed

section \<open>Cancellation during the upload\<close>

text \<open>C33: Cancellation wins over a successful upload. If the job is cancelled while the provider is busy
  and the provider then answers with success, the result is discarded: the call reports it, the job
  stays exactly as the cancellation left it, and the history records the discarded result.\<close>

theorem cancel_beats_success:
  assumes "claimed_for s inp job a secret" and "adapter_provider adapter = pj_provider job"
    and "\<not> is_access_expiring secret (eui_now inp) skew"
    and "adapter_upload adapter (upload_request_for job (ca_id a) inp) = Inr res"
    and "job_of (world (upload_started job (eui_now inp) s)) (pj_id job) = Some current"
    and "pj_status current = Cancelled"
  shows "\<exists>t. execute_claimed_job_full world adapter refresher inp policy skew s =
      (Inl US_JobCancelledDuringUpload, t)
    \<and> job_of t (pj_id job) = Some current
    \<and> (\<exists>e. events_of t (pj_id job) =
        events_of (world (upload_started job (eui_now inp) s)) (pj_id job) @ [e]
        \<and> pe_event_type e = Ev_Cancelled \<and> pe_actor_type e = Actor_Worker)"
  using assms(3-6)
  by (simp add: execute_claimed_run [OF assms(1,2)] Let_def perform_upload_run discard_event_def)

lemma cancel_during_upload:
  assumes "account_of s (pj_connected_account_id job) = Some a"
  shows "snd (cancel_job (ca_owner a) (pj_id job) n (upload_started job now s)) =
    with_event (cancelled_event (pj_id job) n)
      (with_job (job_cancel (start_provider_processing job now) n) (upload_started job now s))"
  using assms by (simp add: cancel_job_run authorised_def)

text \<open>Cancellation loses against a failing upload. The same cancellation, when the provider answers
  with a transient failure instead, is accepted and then undone: the job the user cancelled is
  scheduled again and will be claimed and uploaded by a later tick.\<close>

theorem cancel_lost_on_transient_failure:
  assumes "claimed_for s inp job a secret" and "adapter_provider adapter = pj_provider job"
    and "\<not> is_access_expiring secret (eui_now inp) skew"
    and "adapter_upload adapter (upload_request_for job (ca_id a) inp) = Inl (UA_NetworkOrServer m)"
    and "pj_attempt_count job < policy_max_attempts policy"
    and "world = (\<lambda>u. snd (cancel_job (ca_owner a) (pj_id job) n u))"
  shows "(\<exists>c. job_of (world (upload_started job (eui_now inp) s)) (pj_id job) = Some c
      \<and> pj_status c = Cancelled)
    \<and> (\<exists>next t. execute_claimed_job_full world adapter refresher inp policy skew s = (Inr next, t)
        \<and> job_of t (pj_id job) = Some next \<and> pj_status next = Scheduled
        \<and> job_due (pj_scheduled_for next) next)"
proof -
  have acc: "account_of s (pj_connected_account_id job) = Some a"
    using assms(1) by (simp add: claimed_for_def)
  let ?j = "start_provider_processing job (eui_now inp)"
  let ?u = "world (upload_started job (eui_now inp) s)"
  have "job_of ?u (pj_id job) = Some (job_cancel ?j n)"
    by (simp add: assms(6) cancel_during_upload [OF acc])
  moreover have "\<exists>next t. execute_claimed_job_full world adapter refresher inp policy skew s = (Inr next, t)
      \<and> job_of t (pj_id job) = Some next \<and> pj_status next = Scheduled"
    using assms(3,4) assms(5) [unfolded not_le [symmetric]]
    by (simp add: execute_claimed_run [OF assms(1,2)] Let_def perform_upload_run settle_upload_def
        requeue_run)
  ultimately show ?thesis by (auto simp: job_due_def)
qed

section \<open>Concrete runs\<close>

definition sample_secret :: "i64 option \<Rightarrow> token_secret" where
  "sample_secret expires =
     \<lparr>ts_connected_account_id = ''a'', ts_encrypted_access_token = ''x'',
      ts_encrypted_refresh_token = None, ts_access_token_expires_at = expires,
      ts_refresh_token_expires_at = None, ts_token_version = TOKEN_VERSION, ts_kms_key_id = ''k'',
      ts_last_refreshed_at = None\<rparr>"

definition sample_claimed :: publish_job where
  "sample_claimed = claim_for_upload (scheduled_job sample_digests sample_target sample_schedule) 101"

definition upload_site :: "i64 option \<Rightarrow> social_store" where
  "upload_site expires = with_secret (sample_secret expires) (with_job sample_claimed sample_site)"

definition sample_input :: execute_upload_input where
  "sample_input =
     \<lparr>eui_job_id = ''j'', eui_title = ''hi'', eui_description = None, eui_tags = [],
      eui_thumbnail_ref = None, eui_artifact_ref = None, eui_privacy = Priv_Public,
      eui_tiktok_interactions =
        \<lparr>disable_duet = False, disable_comment = False, disable_stitch = False\<rparr>,
      eui_now = 102\<rparr>"

lemma sample_upload_fields [simp]:
  "pj_id sample_claimed = ''j''" "pj_status sample_claimed = Uploading"
  "pj_provider sample_claimed = Instagram" "pj_connected_account_id sample_claimed = ''a''"
  "eui_job_id sample_input = ''j''" "eui_now sample_input = 102"
  "ts_connected_account_id (sample_secret x) = ''a''"
  "ts_access_token_expires_at (sample_secret x) = x"
  "ts_refresh_token_expires_at (sample_secret x) = None"
  by (simp_all add: sample_claimed_def sample_input_def sample_secret_def claim_for_upload_def
      scheduled_job_def job_schedule_def publish_job_new_def Let_def sample_schedule_def)

lemma sample_claimed_attempts: "pj_attempt_count sample_claimed = 1"
  by (simp add: sample_claimed_def claim_for_upload_def u32_saturating_add_def)

lemma account_publishable_sample: "account_publishable (sample_account i w)"
  by (simp add: account_publishable_def sample_account_def eligibility_eligible_def)

lemma upload_site_ok: "store_ok (upload_site x)"
  unfolding upload_site_def by (intro store_ok_with_secret store_ok_with_job sample_site_ok)

lemma upload_site_claimed:
  "claimed_for (upload_site x) sample_input sample_claimed (sample_account ''a'' (User ''ann''))
     (sample_secret x)"
  by (simp add: claimed_for_def upload_site_def account_publishable_sample)

theorem unpublishable_never_uploaded_witness:
  "\<exists>e. execute_claimed_job_full (\<lambda>u. u) (mock_published Instagram ''p'' ''u'') noop_token_refresher
     sample_input retry_policy_default 0
     (with_account ((sample_account ''a'' (User ''ann''))\<lparr>ca_status := Revoked\<rparr>) (upload_site None))
   = (Inl e, with_account ((sample_account ''a'' (User ''ann''))\<lparr>ca_status := Revoked\<rparr>)
       (upload_site None))"
  using unpublishable_never_uploaded
    [of "with_account ((sample_account ''a'' (User ''ann''))\<lparr>ca_status := Revoked\<rparr>) (upload_site None)"
      sample_input sample_claimed "(sample_account ''a'' (User ''ann''))\<lparr>ca_status := Revoked\<rparr>"
      "mock_published Instagram ''p'' ''u''" "mock_published Instagram ''p'' ''u''" "\<lambda>u. u"]
  by (simp add: upload_site_def account_publishable_def)

theorem dead_refresh_asks_for_reauth_witness:
  "\<exists>next t. execute_claimed_job_full (\<lambda>u. u) (mock_published Instagram ''p'' ''u'')
      (\<lambda>i x n. Inl (TR_InvalidGrant ''revoked'')) sample_input retry_policy_default 120
      (upload_site (Some 200)) = (Inr next, t) \<and> pj_status next = RequiresAction"
  using dead_refresh_asks_for_reauth [OF upload_site_ok upload_site_claimed,
      of "mock_published Instagram ''p'' ''u''" "Some 200" 120
        "\<lambda>i x n. Inl (TR_InvalidGrant ''revoked'')" "\<lambda>u. u" retry_policy_default]
  by (fastforce simp: mock_published_def mock_adapter_def is_access_expiring_def
      i64_saturating_add_def i64_max_def i64_min_def)

theorem default_path_refuses_expired_token_witness:
  "\<exists>next t. execute_claimed_job (\<lambda>u. u) (mock_published Instagram ''p'' ''u'') sample_input
      (upload_site (Some 90)) = (Inr next, t) \<and> pj_status next = RequiresAction"
  using default_path_refuses_expired_token [OF upload_site_ok upload_site_claimed,
      of "mock_published Instagram ''p'' ''u''" "Some 90" 90 "\<lambda>u. u"]
  by (fastforce simp: mock_published_def mock_adapter_def in_i64_def i64_max_def i64_min_def)

theorem upload_outcome_witness:
  "\<exists>next t. execute_claimed_job_full (\<lambda>u. u) (mock_published Instagram ''p'' ''u'')
      noop_token_refresher sample_input retry_policy_default 120 (upload_site None) = (Inr next, t)
    \<and> pj_status next = Published \<and> pj_provider_post_id next = Some ''p''"
proof -
  have up: "adapter_upload (mock_published Instagram ''p'' ''u'')
      (upload_request_for sample_claimed (ca_id (sample_account ''a'' (User ''ann''))) sample_input) =
      Inr \<lparr>res_provider_post_id = ''p'', res_provider_post_url = ''u'', res_processing = False\<rparr>"
    by (simp add: mock_published_def mock_adapter_def upload_request_for_def)
  from upload_outcome [OF upload_site_claimed _ _ up, of None 120 noop_token_refresher
      retry_policy_default]
  show ?thesis
    by (fastforce simp: mock_published_def mock_adapter_def is_access_expiring_def outcome_status_def)
qed

lemma sample_cancels:
  "job_of (snd (cancel_job (User ''ann'') ''j'' 103 (upload_started sample_claimed 102 (upload_site None)))) ''j''
     = Some (job_cancel (start_provider_processing sample_claimed 102) 103)"
proof -
  have acc: "account_of (upload_site None) (pj_connected_account_id sample_claimed) =
      Some (sample_account ''a'' (User ''ann''))"
    by (simp add: upload_site_def)
  show ?thesis
    using cancel_during_upload [OF acc, of 103 102] by simp
qed

theorem cancel_beats_success_witness:
  "\<exists>t. execute_claimed_job_full (\<lambda>u. snd (cancel_job (User ''ann'') ''j'' 103 u))
      (mock_published Instagram ''p'' ''u'') noop_token_refresher sample_input retry_policy_default 120
      (upload_site None) = (Inl US_JobCancelledDuringUpload, t)"
proof -
  have up: "adapter_upload (mock_published Instagram ''p'' ''u'')
      (upload_request_for sample_claimed (ca_id (sample_account ''a'' (User ''ann''))) sample_input) =
      Inr \<lparr>res_provider_post_id = ''p'', res_provider_post_url = ''u'', res_processing = False\<rparr>"
    by (simp add: mock_published_def mock_adapter_def upload_request_for_def)
  from cancel_beats_success [OF upload_site_claimed _ _ up,
      of None 120 "\<lambda>u. snd (cancel_job (User ''ann'') ''j'' 103 u)"
        "job_cancel (start_provider_processing sample_claimed 102) 103" noop_token_refresher
        retry_policy_default]
  show ?thesis
    by (simp add: sample_cancels is_access_expiring_def)
      (fastforce simp: mock_published_def mock_adapter_def)
qed

theorem cancel_lost_on_transient_failure_witness:
  "\<exists>next t. execute_claimed_job_full (\<lambda>u. snd (cancel_job (User ''ann'') ''j'' 103 u))
      (mock_failing Instagram (UA_NetworkOrServer ''503'')) noop_token_refresher sample_input
      retry_policy_default 120 (upload_site None) = (Inr next, t) \<and> pj_status next = Scheduled"
proof -
  have up: "adapter_upload (mock_failing Instagram (UA_NetworkOrServer ''503''))
      (upload_request_for sample_claimed (ca_id (sample_account ''a'' (User ''ann''))) sample_input) =
      Inl (UA_NetworkOrServer ''503'')"
    by (simp add: mock_failing_def mock_adapter_def upload_request_for_def)
  from cancel_lost_on_transient_failure [OF upload_site_claimed _ _ up, of None 120
      retry_policy_default "\<lambda>u. snd (cancel_job (User ''ann'') ''j'' 103 u)" 103 noop_token_refresher]
  show ?thesis
    by (simp add: is_access_expiring_def sample_claimed_attempts retry_policy_default_def)
      (fastforce simp: mock_failing_def mock_adapter_def)
qed

end
