(* ===== verification/Upload_Status.thy ===== *)
theory Upload_Status
  imports Upload_Service_Props
begin

text \<open>
  \<open>crates/social/src/upload_status.rs\<close>: the poll of a job the provider is still processing.
  The adapter is a record of functions, as in \<open>Upload_Service\<close>. The lemmas give the outcome of a
  poll in closed form; the properties say when a poll changes the store at all and what it may turn
  a processing job into.
\<close>

section \<open>Data\<close>

datatype upload_processing_status = UPS_Processing | UPS_Published | UPS_Failed

fun ups_json :: "upload_processing_status \<Rightarrow> json" where
  "ups_json UPS_Processing = JStr ''processing''"
| "ups_json UPS_Published = JStr ''published''"
| "ups_json UPS_Failed = JStr ''failed''"

record poll_upload_status_input =
  pui_job_id :: string
  pui_now :: i64

record upload_status_request =
  usr_job_id :: string
  usr_provider :: provider
  usr_connected_account_id :: string
  usr_provider_post_id :: string
  usr_access_token_ref :: string

record upload_status_result =
  usres_provider_post_id :: string
  usres_provider_post_url :: "string option"
  usres_status :: upload_processing_status
  usres_normalized_error :: "string option"
  usres_raw_error_ref :: "string option"

datatype upload_status_adapter_error =
    SA_ProviderMismatch
  | SA_MissingProviderPostId
  | SA_RequiresAction string
  | SA_NetworkOrServer string

record upload_status_adapter =
  status_adapter_provider :: provider
  poll_status :: "upload_status_request \<Rightarrow> upload_status_adapter_error + upload_status_result"

datatype upload_status_service_error =
    USS_Store store_error
  | USS_JobNotProcessing
  | USS_ProviderMismatch
  | USS_MissingProviderPostId
  | USS_ProviderPostIdMismatch

type_synonym 'a status_op = "(social_store, upload_status_service_error, 'a) op"

abbreviation uss_read :: "'b store_read \<Rightarrow> ('b \<Rightarrow> 'a status_op) \<Rightarrow> 'a status_op" where
  "uss_read r f \<equiv> bind_op (read_op USS_Store r) f"

abbreviation uss_write :: "unit store_op \<Rightarrow> 'a status_op \<Rightarrow> 'a status_op" where
  "uss_write w m \<equiv> bind_op (write_op USS_Store w) (\<lambda>_. m)"

fun status_adapter_error :: "upload_status_adapter_error \<Rightarrow> upload_status_service_error" where
  "status_adapter_error SA_ProviderMismatch = USS_ProviderMismatch"
| "status_adapter_error SA_MissingProviderPostId = USS_MissingProviderPostId"
| "status_adapter_error (SA_RequiresAction reason) = USS_Store (SE_Storage reason)"
| "status_adapter_error (SA_NetworkOrServer message) = USS_Store (SE_Storage message)"

fun account_status_requires_action_reason :: "connected_account_status \<Rightarrow> string option" where
  "account_status_requires_action_reason Connected = None"
| "account_status_requires_action_reason NeedsReauth = Some ''account_needs_reauth''"
| "account_status_requires_action_reason MissingScope = Some ''missing_scope''"
| "account_status_requires_action_reason Ineligible = Some ''account_not_eligible''"
| "account_status_requires_action_reason Disabled = Some ''account_disabled''"
| "account_status_requires_action_reason Revoked = Some ''account_revoked''"

section \<open>Writes\<close>

definition status_next_event_id :: "string \<Rightarrow> string status_op" where
  "status_next_event_id job_id =
     uss_read (get_publish_job_events job_id) (\<lambda>es.
     return (''event_'' @ job_id @ ''_status_polled_'' @ dec_of_nat (length es + 1)))"

definition next_requires_action_event_id :: "string \<Rightarrow> string status_op" where
  "next_requires_action_event_id job_id =
     uss_read (get_publish_job_events job_id) (\<lambda>es.
     return (''event_'' @ job_id @ ''_requires_action_'' @ dec_of_nat (length es + 1)))"

definition append_status_event :: "publish_job \<Rightarrow> upload_status_result \<Rightarrow> i64 \<Rightarrow> unit status_op" where
  "append_status_event job result now =
     bind_op (status_next_event_id (pj_id job)) (\<lambda>event_id.
     uss_write (append_publish_job_event
       (publish_job_event_new event_id (pj_id job) Ev_StatusPolled Actor_Provider
          ''provider upload status polled''
          (json_object
             [(''provider'', JStr (provider_as_str (pj_provider job))),
              (''provider_post_id'', JStr (usres_provider_post_id result)),
              (''provider_post_url'', json_opt_str (usres_provider_post_url result)),
              (''status'', ups_json (usres_status result)),
              (''normalized_error'', json_opt_str (usres_normalized_error result)),
              (''raw_error_ref'', json_opt_str (usres_raw_error_ref result))]) now))
     (return ()))"

definition append_requires_action_event ::
  "publish_job \<Rightarrow> string \<Rightarrow> publish_job_actor_type \<Rightarrow> i64 \<Rightarrow> unit status_op" where
  "append_requires_action_event job reason actor now =
     bind_op (next_requires_action_event_id (pj_id job)) (\<lambda>event_id.
     uss_write (append_publish_job_event
       (publish_job_event_new event_id (pj_id job) Ev_RequiresAction actor
          ''provider status poll requires action''
          (json_object
             [(''provider'', JStr (provider_as_str (pj_provider job))),
              (''reason'', JStr reason)]) now))
     (return ()))"

definition persist_requires_action ::
  "publish_job \<Rightarrow> string \<Rightarrow> publish_job_actor_type \<Rightarrow> i64 \<Rightarrow> publish_job status_op" where
  "persist_requires_action job reason actor now =
     (let next = job_requires_action job reason now
      in uss_write (save_publish_job next) (
         bind_op (append_requires_action_event next reason actor now) (\<lambda>_. return next)))"

definition account_requires_action :: "connected_account \<Rightarrow> string \<Rightarrow> i64 \<Rightarrow> connected_account" where
  "account_requires_action account reason now =
     (let a = (if reason = ''missing_scope'' then account\<lparr>ca_status := MissingScope\<rparr>
        else if reason = ''account_needs_reauth'' then account\<lparr>ca_status := NeedsReauth\<rparr>
        else if reason = ''account_disabled'' then account\<lparr>ca_status := Disabled\<rparr>
        else if reason = ''account_revoked'' then account\<lparr>ca_status := Revoked\<rparr>
        else if reason = ''missing_publish_capability''
          then account\<lparr>ca_capabilities := (ca_capabilities account)\<lparr>upload_video := False\<rparr>\<rparr>
        else account\<lparr>ca_status := Ineligible, ca_eligibility := eligibility_blocked reason\<rparr>)
      in a\<lparr>ca_updated_at := now\<rparr>)"

definition persist_account_requires_action :: "string \<Rightarrow> string \<Rightarrow> i64 \<Rightarrow> unit status_op" where
  "persist_account_requires_action account_id reason now =
     uss_read (get_connected_account account_id) (\<lambda>account.
     uss_write (save_connected_account (account_requires_action account reason now)) (return ()))"

section \<open>The poll\<close>

definition poll_processing_job ::
  "upload_status_adapter \<Rightarrow> poll_upload_status_input \<Rightarrow> publish_job status_op" where
  "poll_processing_job adapter inp =
     uss_read (get_publish_job (pui_job_id inp)) (\<lambda>job.
     ensure (pj_status job = Processing) USS_JobNotProcessing (
     ensure (status_adapter_provider adapter = pj_provider job) USS_ProviderMismatch (
     uss_read (get_connected_account (pj_connected_account_id job)) (\<lambda>account.
     ensure (ca_provider account = pj_provider job) USS_ProviderMismatch (
     let now = pui_now inp
     in case account_status_requires_action_reason (ca_status account) of
          Some reason \<Rightarrow> persist_requires_action job reason Actor_Worker now
        | None \<Rightarrow>
          if \<not> eligible (ca_eligibility account)
          then persist_requires_action job
                 (case reasons (ca_eligibility account) of
                    [] \<Rightarrow> ''account_not_eligible'' | r # _ \<Rightarrow> r) Actor_Worker now
          else if \<not> upload_video (ca_capabilities account)
          then persist_requires_action job ''missing_publish_capability'' Actor_Worker now
          else
            bind_op (from_result (ok_or USS_MissingProviderPostId (pj_provider_post_id job)))
              (\<lambda>provider_post_id.
            uss_read (token_secret_for_account (ca_id account)) (\<lambda>_.
            let request =
                  \<lparr>usr_job_id = pj_id job, usr_provider = pj_provider job,
                   usr_connected_account_id = ca_id account,
                   usr_provider_post_id = provider_post_id,
                   usr_access_token_ref = ''token_secret:'' @ ca_id account\<rparr>
            in case poll_status adapter request of
                 Inl (SA_RequiresAction reason) \<Rightarrow>
                   bind_op (persist_account_requires_action (ca_id account) reason now) (\<lambda>_.
                   persist_requires_action job reason Actor_Provider now)
               | Inl e \<Rightarrow> fail (status_adapter_error e)
               | Inr result \<Rightarrow>
                   ensure (usres_status result = UPS_Published
                             \<or> usres_provider_post_id result = provider_post_id)
                     USS_ProviderPostIdMismatch (
                   let next =
                     (case usres_status result of
                        UPS_Processing \<Rightarrow> job_processing job provider_post_id now
                      | UPS_Published \<Rightarrow>
                          publish_with_optional_url job (usres_provider_post_id result)
                            (usres_provider_post_url result) now
                      | UPS_Failed \<Rightarrow>
                          job_fail job
                            (case usres_normalized_error result of
                               None \<Rightarrow> ''platform_processing_failed'' | Some e \<Rightarrow> e)
                            (case usres_raw_error_ref result of
                               None \<Rightarrow> ''provider_error_ref_unavailable'' | Some e \<Rightarrow> e) now)
                   in uss_write (save_publish_job next) (
                      bind_op (append_status_event next result now) (\<lambda>_. return next))))))))))"

section \<open>The poll in closed form\<close>

definition poll_event :: "social_store \<Rightarrow> publish_job \<Rightarrow> upload_status_result \<Rightarrow> i64 \<Rightarrow> publish_job_event" where
  "poll_event s job result now =
     publish_job_event_new
       (''event_'' @ pj_id job @ ''_status_polled_'' @ dec_of_nat (length (events_of s (pj_id job)) + 1))
       (pj_id job) Ev_StatusPolled Actor_Provider ''provider upload status polled''
       (json_object
          [(''provider'', JStr (provider_as_str (pj_provider job))),
           (''provider_post_id'', JStr (usres_provider_post_id result)),
           (''provider_post_url'', json_opt_str (usres_provider_post_url result)),
           (''status'', ups_json (usres_status result)),
           (''normalized_error'', json_opt_str (usres_normalized_error result)),
           (''raw_error_ref'', json_opt_str (usres_raw_error_ref result))]) now"

definition action_event ::
  "social_store \<Rightarrow> publish_job \<Rightarrow> string \<Rightarrow> publish_job_actor_type \<Rightarrow> i64 \<Rightarrow> publish_job_event" where
  "action_event s job reason actor now =
     publish_job_event_new
       (''event_'' @ pj_id job @ ''_requires_action_'' @ dec_of_nat (length (events_of s (pj_id job)) + 1))
       (pj_id job) Ev_RequiresAction actor ''provider status poll requires action''
       (json_object
          [(''provider'', JStr (provider_as_str (pj_provider job))), (''reason'', JStr reason)]) now"

lemma poll_event_fields [simp]:
  "pe_publish_job_id (poll_event s job result now) = pj_id job"
  "pe_publish_job_id (action_event s job reason actor now) = pj_id job"
  "pe_event_type (poll_event s job result now) = Ev_StatusPolled"
  "pe_event_type (action_event s job reason actor now) = Ev_RequiresAction"
  by (simp_all add: poll_event_def action_event_def publish_job_event_new_def)

lemma persist_requires_action_run:
  "persist_requires_action job reason actor now s =
     (Inr (job_requires_action job reason now),
      with_event (action_event s job reason actor now)
        (with_job (job_requires_action job reason now) s))"
  by (simp add: persist_requires_action_def append_requires_action_event_def
      next_requires_action_event_id_def service_unfold action_event_def Let_def)

definition polled :: "publish_job \<Rightarrow> upload_status_result \<Rightarrow> string \<Rightarrow> i64 \<Rightarrow> publish_job" where
  "polled job result provider_post_id now =
     (case usres_status result of
        UPS_Processing \<Rightarrow> job_processing job provider_post_id now
      | UPS_Published \<Rightarrow>
          publish_with_optional_url job (usres_provider_post_id result)
            (usres_provider_post_url result) now
      | UPS_Failed \<Rightarrow>
          job_fail job
            (case usres_normalized_error result of
               None \<Rightarrow> ''platform_processing_failed'' | Some e \<Rightarrow> e)
            (case usres_raw_error_ref result of
               None \<Rightarrow> ''provider_error_ref_unavailable'' | Some e \<Rightarrow> e) now)"

lemma pj_provider_publish [simp]:
  "pj_provider (publish_with_optional_url j post url now) = pj_provider j"
  by (simp add: publish_with_optional_url_def)

lemma polled_fields [simp]:
  "pj_id (polled job result post now) = pj_id job"
  "pj_provider (polled job result post now) = pj_provider job"
  by (simp_all add: polled_def split: upload_processing_status.split)

lemma polled_identity [frame_simps]: "job_identity (polled job result post now) = job_identity job"
  by (simp add: polled_def frame_simps split: upload_processing_status.split)

lemma poll_event_polled [simp]:
  "poll_event s (polled job result post now) result now = poll_event s job result now"
  by (simp add: poll_event_def)

lemma record_polled:
  "bind_op (write_op USS_Store (save_publish_job next)) (\<lambda>_.
     bind_op (append_status_event next result now) (\<lambda>_. return next)) s =
   (Inr next, with_event (poll_event s next result now) (with_job next s))"
  by (simp add: append_status_event_def status_next_event_id_def service_unfold poll_event_def)

text \<open>The account reason that stops a poll before the provider is asked.\<close>

definition poll_block :: "connected_account \<Rightarrow> string option" where
  "poll_block a =
     (case account_status_requires_action_reason (ca_status a) of
        Some reason \<Rightarrow> Some reason
      | None \<Rightarrow>
          if \<not> eligible (ca_eligibility a)
          then Some (case reasons (ca_eligibility a) of [] \<Rightarrow> ''account_not_eligible'' | r # _ \<Rightarrow> r)
          else if \<not> upload_video (ca_capabilities a) then Some ''missing_publish_capability''
          else None)"

lemma poll_block_None: "poll_block a = None \<longleftrightarrow> account_publishable a"
  by (cases "ca_status a") (auto simp: poll_block_def account_publishable_def)

definition status_request :: "publish_job \<Rightarrow> connected_account \<Rightarrow> string \<Rightarrow> upload_status_request" where
  "status_request job a post =
     \<lparr>usr_job_id = pj_id job, usr_provider = pj_provider job,
      usr_connected_account_id = ca_id a, usr_provider_post_id = post,
      usr_access_token_ref = ''token_secret:'' @ ca_id a\<rparr>"

definition polling :: "social_store \<Rightarrow> poll_upload_status_input \<Rightarrow> publish_job \<Rightarrow> connected_account \<Rightarrow> bool" where
  "polling s inp job a \<longleftrightarrow>
     job_of s (pui_job_id inp) = Some job \<and> pj_status job = Processing
     \<and> account_of s (pj_connected_account_id job) = Some a \<and> ca_provider a = pj_provider job"

lemma poll_not_polling:
  assumes "\<not> (\<exists>job a. polling s inp job a \<and> status_adapter_provider adapter = pj_provider job)"
  shows "\<exists>e. poll_processing_job adapter inp s = (Inl e, s)"
  using assms
  by (auto simp: poll_processing_job_def polling_def service_unfold split: option.split)

lemma poll_blocked_run:
  assumes "polling s inp job a" and "status_adapter_provider adapter = pj_provider job"
    and "poll_block a = Some reason"
  shows "poll_processing_job adapter inp s =
    (Inr (job_requires_action job reason (pui_now inp)),
     with_event (action_event s job reason Actor_Worker (pui_now inp))
       (with_job (job_requires_action job reason (pui_now inp)) s))"
  using assms
  by (simp add: poll_processing_job_def polling_def service_unfold Let_def poll_block_def
      persist_requires_action_run split: option.splits if_splits)

lemma account_requires_action_identity [simp]:
  "ca_id (account_requires_action a reason now) = ca_id a"
  "same_provider_account (account_requires_action a reason now) a"
  by (simp_all add: account_requires_action_def same_provider_account_def Let_def)

lemma persist_account_run:
  assumes "store_ok s" and "account_of s acc = Some a"
  shows "persist_account_requires_action acc reason now s =
    (Inr (), with_account (account_requires_action a reason now) s)"
proof -
  have "ca_id a = acc" by (rule store_ok_account_id [OF assms])
  then have "save_connected_account (account_requires_action a reason now) s =
      (Inr (), with_account (account_requires_action a reason now) s)"
    using assms by (intro save_connected_account_update [of _ _ a]) simp_all
  then show ?thesis
    using assms(2) by (simp add: persist_account_requires_action_def store_reads ok_or_def return_def)
qed

lemma poll_free_run:
  assumes "store_ok s" and "polling s inp job a"
    and "status_adapter_provider adapter = pj_provider job" and "poll_block a = None"
  shows "poll_processing_job adapter inp s =
    (let now = pui_now inp in
     case pj_provider_post_id job of
       None \<Rightarrow> (Inl USS_MissingProviderPostId, s)
     | Some post \<Rightarrow>
         if bt_get (token_secrets s) (ca_id a) = None then (Inl (USS_Store SE_NotFound), s)
         else (case poll_status adapter (status_request job a post) of
             Inl (SA_RequiresAction reason) \<Rightarrow>
               let s' = with_account (account_requires_action a reason now) s
               in (Inr (job_requires_action job reason now),
                   with_event (action_event s' job reason Actor_Provider now)
                     (with_job (job_requires_action job reason now) s'))
           | Inl e \<Rightarrow> (Inl (status_adapter_error e), s)
           | Inr result \<Rightarrow>
               if usres_status result \<noteq> UPS_Published \<and> usres_provider_post_id result \<noteq> post
               then (Inl USS_ProviderPostIdMismatch, s)
               else (Inr (polled job result post now),
                     with_event (poll_event s job result now)
                       (with_job (polled job result post now) s))))"
proof -
  have acc: "account_of s (ca_id a) = Some a"
    using assms(2) store_ok_account_id [OF assms(1)] by (auto simp: polling_def)
  from assms(4) have block: "account_status_requires_action_reason (ca_status a) = None"
    "eligible (ca_eligibility a)" "upload_video (ca_capabilities a)"
    by (auto simp: poll_block_def split: option.splits if_splits)
  note fold_polled = polled_def [symmetric]
  show ?thesis
  proof (cases "pj_provider_post_id job")
    case None
    then show ?thesis using assms(2,3) block
      by (simp add: poll_processing_job_def polling_def service_unfold)
  next
    case (Some post)
    show ?thesis
    proof (cases "bt_get (token_secrets s) (ca_id a)")
      case None
      then show ?thesis using assms(2,3) block Some
        by (simp add: poll_processing_job_def polling_def service_unfold Let_def)
    next
      case secret: (Some secret)
      show ?thesis using assms(2,3) block Some secret
        by (simp add: poll_processing_job_def polling_def store_reads ok_or_def status_request_def
            persist_account_run [OF assms(1) acc] persist_requires_action_run record_polled
            guard_op_bind fold_polled fail_def Let_def bind_op_def [of "persist_account_requires_action _ _ _"]
            split: sum.split upload_status_adapter_error.split)
    qed
  qed
qed

section \<open>What a poll may do\<close>

lemma job_requires_action_fields [simp]:
  "pj_provider_post_id (job_requires_action j reason now) = pj_provider_post_id j"
  "pj_attempt_count (job_requires_action j reason now) = pj_attempt_count j"
  "pj_requires_action_reason (job_requires_action j reason now) = Some reason"
  by (simp_all add: job_requires_action_def)

lemma polled_status:
  "pj_status (polled job result post now) =
     (case usres_status result of
        UPS_Processing \<Rightarrow> Processing | UPS_Published \<Rightarrow> Published | UPS_Failed \<Rightarrow> Failed)"
  by (simp add: polled_def split: upload_processing_status.split)

lemma polled_post:
  "pj_provider_post_id job = Some post \<Longrightarrow>
     pj_provider_post_id (polled job result post now) =
       Some (if usres_status result = UPS_Published then usres_provider_post_id result else post)"
  by (simp add: polled_def job_processing_def publish_with_optional_url_def job_fail_def
      split: upload_processing_status.split)

text \<open>A poll that answers has found a processing job and moved it on: \<open>next\<close> is what it became.\<close>

definition poll_progress :: "publish_job \<Rightarrow> publish_job \<Rightarrow> bool" where
  "poll_progress job next \<longleftrightarrow>
     job_identity next = job_identity job
     \<and> (pj_status next = RequiresAction \<and> pj_requires_action_reason next \<noteq> None
          \<and> pj_provider_post_id next = pj_provider_post_id job
        \<or> pj_status next \<in> {Processing, Published, Failed} \<and> pj_provider_post_id next \<noteq> None
          \<and> (pj_status next \<noteq> Published \<longrightarrow> pj_provider_post_id next = pj_provider_post_id job)
          \<and> (pj_status next = Failed \<longrightarrow>
               pj_normalized_error next \<noteq> None \<and> pj_raw_error_ref next \<noteq> None))"

lemma poll_progress_action: "poll_progress job (job_requires_action job reason now)"
  by (simp add: poll_progress_def frame_simps)

lemma poll_progress_polled:
  assumes "pj_provider_post_id job = Some post"
  shows "poll_progress job (polled job result post now)"
proof -
  have "pj_status (polled job result post now) = Failed \<Longrightarrow>
      pj_normalized_error (polled job result post now) \<noteq> None
      \<and> pj_raw_error_ref (polled job result post now) \<noteq> None"
    by (auto simp: polled_def job_fail_def split: upload_processing_status.splits)
  then show ?thesis
    unfolding poll_progress_def polled_post [OF assms]
    by (auto simp: assms polled_identity polled_status split: upload_processing_status.splits)
qed

lemma poll_effect:
  assumes "store_ok s" and "poll_processing_job adapter inp s = (r, t)"
  shows "(\<exists>e. r = Inl e) \<and> t = s
    \<or> (\<exists>job a a' e next. polling s inp job a \<and> r = Inr next \<and> poll_progress job next
        \<and> ca_id a' = ca_id a \<and> same_provider_account a' a \<and> pe_publish_job_id e = pj_id job
        \<and> (t = with_event e (with_job next s) \<or> t = with_event e (with_job next (with_account a' s))))"
proof (cases "\<exists>job a. polling s inp job a \<and> status_adapter_provider adapter = pj_provider job")
  case False
  with poll_not_polling [of s inp adapter] assms(2) show ?thesis by auto
next
  case True
  then obtain job a where p: "polling s inp job a" "status_adapter_provider adapter = pj_provider job"
    by blast
  have refl_account: "same_provider_account a a" by (simp add: same_provider_account_def)
  show ?thesis
  proof (cases "poll_block a")
    case (Some reason)
    from poll_blocked_run [OF p Some] assms(2) have
      "r = Inr (job_requires_action job reason (pui_now inp))"
      "t = with_event (action_event s job reason Actor_Worker (pui_now inp))
         (with_job (job_requires_action job reason (pui_now inp)) s)" by simp_all
    with p(1) refl_account poll_progress_action show ?thesis
      by (metis poll_event_fields(2))
  next
    case None
    note run = poll_free_run [OF assms(1) p None, unfolded assms(2) Let_def]
    show ?thesis
    proof (cases "\<exists>e. r = Inl e")
      case True
      with run show ?thesis
        by (auto split: option.splits sum.splits upload_status_adapter_error.splits if_splits)
    next
      case False
      with run obtain post where post: "pj_provider_post_id job = Some post"
        and secret: "bt_get (token_secrets s) (ca_id a) \<noteq> None"
        by (auto split: option.splits if_splits)
      show ?thesis
      proof (cases "poll_status adapter (status_request job a post)")
        case (Inl err)
        with False run post secret obtain reason where "err = SA_RequiresAction reason"
          by (auto split: upload_status_adapter_error.splits if_splits)
        with Inl run post secret have
          "r = Inr (job_requires_action job reason (pui_now inp))"
          "t = with_event (action_event (with_account (account_requires_action a reason (pui_now inp)) s)
             job reason Actor_Provider (pui_now inp))
             (with_job (job_requires_action job reason (pui_now inp))
               (with_account (account_requires_action a reason (pui_now inp)) s))" by auto
        with p(1) poll_progress_action show ?thesis
          by (metis poll_event_fields(2) account_requires_action_identity)
      next
        case (Inr result)
        with False run post secret have
          "r = Inr (polled job result post (pui_now inp))"
          "t = with_event (poll_event s job result (pui_now inp))
             (with_job (polled job result post (pui_now inp)) s)" by (auto split: if_splits)
        with p(1) refl_account poll_progress_polled [OF post] show ?thesis
          by (metis poll_event_fields(1))
      qed
    qed
  qed
qed

text \<open>A poll never invents progress. An error leaves the store exactly as it was. An answer means the
  job was processing: it keeps its identity and becomes processing, published or failed with a
  provider post id, or waits for the user with a reason; it keeps the post id it had unless it is
  published; exactly one event is appended to its history; no other job or history changes.\<close>

theorem poll_outcome:
  assumes "store_ok s" and "poll_processing_job adapter inp s = (r, t)"
  shows "(\<exists>e. r = Inl e) \<and> t = s
    \<or> (\<exists>job next e. job_of s (pui_job_id inp) = Some job \<and> pj_status job = Processing
        \<and> r = Inr next \<and> poll_progress job next
        \<and> (\<forall>i. job_of t i = (if i = pj_id job then Some next else job_of s i))
        \<and> (\<forall>i. events_of t i = (if i = pj_id job then events_of s i @ [e] else events_of s i)))"
  using poll_effect [OF assms]
proof
  assume "(\<exists>e. r = Inl e) \<and> t = s"
  then show ?thesis by (rule disjI1)
next
  assume "\<exists>job a a' e next. polling s inp job a \<and> r = Inr next \<and> poll_progress job next
        \<and> ca_id a' = ca_id a \<and> same_provider_account a' a \<and> pe_publish_job_id e = pj_id job
        \<and> (t = with_event e (with_job next s) \<or> t = with_event e (with_job next (with_account a' s)))"
  then obtain job a a' e "next" where p: "polling s inp job a" and r: "r = Inr next"
    and pr: "poll_progress job next" and e: "pe_publish_job_id e = pj_id job"
    and t: "t = with_event e (with_job next s) \<or> t = with_event e (with_job next (with_account a' s))"
    by (elim exE conjE) (rule that)
  have id: "pj_id next = pj_id job"
    using pr unfolding poll_progress_def by (elim conjE) (rule job_identity_id)
  have jobs: "\<forall>i. job_of t i = (if i = pj_id job then Some next else job_of s i)"
    using t by (elim disjE) (simp_all add: id)
  have hist: "\<forall>i. events_of t i = (if i = pj_id job then events_of s i @ [e] else events_of s i)"
    using t by (elim disjE) (simp_all add: e)
  have "job_of s (pui_job_id inp) = Some job" "pj_status job = Processing"
    using p by (simp_all add: polling_def)
  with r pr jobs hist show ?thesis by (intro disjI2 exI conjI)
qed

definition sample_processing :: publish_job where
  "sample_processing = job_processing sample_claimed ''post'' 110"

definition processing_site :: social_store where
  "processing_site = with_job sample_processing (upload_site None)"

definition sample_poll :: poll_upload_status_input where
  "sample_poll = \<lparr>pui_job_id = ''j'', pui_now = 120\<rparr>"

definition sample_answer :: "string option \<Rightarrow> upload_processing_status \<Rightarrow> upload_status_adapter" where
  "sample_answer url st =
     \<lparr>status_adapter_provider = Instagram,
      poll_status = (\<lambda>rq. Inr
        \<lparr>usres_provider_post_id = usr_provider_post_id rq, usres_provider_post_url = url,
         usres_status = st, usres_normalized_error = None, usres_raw_error_ref = None\<rparr>)\<rparr>"

lemma sample_processing_fields [simp]:
  "pj_id sample_processing = ''j''" "pj_status sample_processing = Processing"
  "pj_provider sample_processing = Instagram" "pj_connected_account_id sample_processing = ''a''"
  "pj_provider_post_id sample_processing = Some ''post''"
  "pui_job_id sample_poll = ''j''" "pui_now sample_poll = 120"
  by (simp_all add: sample_processing_def sample_poll_def job_processing_def)

lemma processing_site_ok: "store_ok processing_site"
  unfolding processing_site_def by (intro store_ok_with_job upload_site_ok)

lemma sample_polling: "polling processing_site sample_poll sample_processing (sample_account ''a'' (User ''ann''))"
  by (simp add: polling_def processing_site_def upload_site_def)

theorem poll_outcome_witness:
  "\<exists>next. fst (poll_processing_job (sample_answer None UPS_Published) sample_poll processing_site) = Inr next
     \<and> pj_status sample_processing = Processing \<and> poll_progress sample_processing next"
proof -
  let ?a = "sample_account ''a'' (User ''ann'')"
  have none: "poll_block ?a = None" by (simp add: poll_block_None account_publishable_sample)
  have secret: "bt_get (token_secrets processing_site) ''a'' = Some (sample_secret None)"
    by (simp add: processing_site_def upload_site_def)
  obtain r t where run: "poll_processing_job (sample_answer None UPS_Published) sample_poll processing_site
      = (r, t)" by fastforce
  have ok: "\<exists>next. r = Inr next"
    using run poll_free_run [OF processing_site_ok sample_polling _ none,
        of "sample_answer None UPS_Published"] secret
    by (simp add: sample_answer_def Let_def status_request_def)
  from poll_outcome [OF processing_site_ok run] ok obtain job "next" where
    "job_of processing_site (pui_job_id sample_poll) = Some job" "r = Inr next" "poll_progress job next"
    by auto
  moreover have "job_of processing_site (pui_job_id sample_poll) = Some sample_processing"
    using sample_polling by (simp add: polling_def)
  ultimately show ?thesis using run by simp
qed

end
