(* ===== verification/Job_Lifecycle.thy ===== *)
theory Job_Lifecycle
  imports Upload_Status
begin

text \<open>
  The publish pipeline as a whole: users, the scheduler that claims due jobs, the worker that uploads
  and the poller act on one store, in any order, and other actors may act while an upload runs.
  \<open>lifecycle\<close> is the relation between the stores before and after such an interleaving;
  \<open>evolves\<close> is what every interleaving guarantees.
\<close>

section \<open>Well-formed jobs\<close>

definition job_ok :: "digests \<Rightarrow> publish_job \<Rightarrow> bool" where
  "job_ok d j \<longleftrightarrow>
     pj_status j \<notin> {Draft, Validated}
     \<and> (pj_status j = Published \<longrightarrow> pj_provider_post_id j \<noteq> None)
     \<and> (pj_status j = Failed \<longrightarrow> pj_normalized_error j \<noteq> None \<and> pj_raw_error_ref j \<noteq> None)
     \<and> (pj_status j = RequiresAction \<longrightarrow> pj_requires_action_reason j \<noteq> None)
     \<and> (pj_status j = Uploading \<longrightarrow> pj_attempt_count j \<noteq> 0)
     \<and> pj_idempotency_key j =
         idempotency_key d (pj_campaign_id j) (pj_variant_id j) (pj_connected_account_id j)
           (pj_artifact_ref j)"

definition key_ok :: "digests \<Rightarrow> publish_job \<Rightarrow> bool" where
  "key_ok d j \<longleftrightarrow>
     pj_idempotency_key j =
       idempotency_key d (pj_campaign_id j) (pj_variant_id j) (pj_connected_account_id j)
         (pj_artifact_ref j)"

lemma key_ok_identity: "job_identity j = job_identity k \<Longrightarrow> key_ok d j = key_ok d k"
  by (simp add: job_identity_def key_ok_def)

lemma job_ok_key: "job_ok d j \<Longrightarrow> key_ok d j"
  by (simp add: job_ok_def key_ok_def)

lemma job_identity_key: "job_identity j = job_identity k \<Longrightarrow> pj_idempotency_key j = pj_idempotency_key k"
  by (simp add: job_identity_def)

lemma saturating_succ: "u32_saturating_add n 1 \<noteq> 0"
proof
  assume "u32_saturating_add n 1 = 0"
  then have "unat (u32_saturating_add n 1) = 0" by simp
  then show False by (simp add: unat_u32_saturating_add)
qed

lemma job_ok_transitions:
  assumes "key_ok d j"
  shows "job_ok d (claim_for_upload j now)" "job_ok d (job_cancel j now)" "job_ok d (job_retry j now)"
    "job_ok d (job_requires_action j reason now)" "job_ok d (job_fail j e r now)"
    "job_ok d (job_reschedule j due now)" "job_ok d (start_provider_processing j now)"
    "job_ok d (job_processing j post now)" "job_ok d (job_publish j post url now)"
    "job_ok d (publish_with_optional_url j post ourl now)"
    "job_ok d ((job_retry j now)\<lparr>pj_scheduled_for := due\<rparr>)"
  using assms saturating_succ by (simp_all add: job_ok_def key_ok_def transition_defs)

lemma job_ok_retry:
  "key_ok d j \<Longrightarrow> job_ok d (fst (retry_with_backoff_or_fail j mx base e r now))"
  by (simp add: retry_with_backoff_or_fail_def Let_def job_ok_transitions)

lemma job_ok_settled:
  "key_ok d j \<Longrightarrow> result \<noteq> Inl UA_ProviderMismatch \<Longrightarrow> job_ok d (settled j result policy now)"
  by (auto simp: settled_def job_ok_transitions job_ok_retry
      split: sum.split upload_adapter_error.split)

lemma job_ok_scheduled: "job_ok d (scheduled_job d tg inp)"
  by (simp add: job_ok_def scheduled_job_def job_schedule_def publish_job_new_def Let_def)

section \<open>Evolution\<close>

definition pipeline_ok :: "digests \<Rightarrow> social_store \<Rightarrow> bool" where
  "pipeline_ok d s \<longleftrightarrow>
     store_ok s
     \<and> (\<forall>i j. job_of s i = Some j \<longrightarrow> job_ok d j)
     \<and> (\<forall>i. job_of s i = None \<longleftrightarrow> events_of s i = [])
     \<and> (\<forall>i. events_of s i \<noteq> [] \<longrightarrow> pe_event_type (hd (events_of s i)) = Ev_Scheduled)"

definition grows :: "social_store \<Rightarrow> social_store \<Rightarrow> bool" where
  "grows s t \<longleftrightarrow>
     (\<forall>i. \<exists>es. events_of t i = events_of s i @ es)
     \<and> (\<forall>i j. job_of s i = Some j \<longrightarrow>
          (\<exists>j'. job_of t i = Some j' \<and> pj_idempotency_key j' = pj_idempotency_key j))"

definition evolves :: "digests \<Rightarrow> social_store \<Rightarrow> social_store \<Rightarrow> bool" where
  "evolves d s t \<longleftrightarrow> (pipeline_ok d s \<longrightarrow> pipeline_ok d t \<and> grows s t)"

lemma pipeline_okD:
  assumes "pipeline_ok d s"
  shows "store_ok s" and "job_of s i = Some j \<Longrightarrow> job_ok d j"
    and "job_of s i = None \<longleftrightarrow> events_of s i = []"
    and "events_of s i \<noteq> [] \<Longrightarrow> pe_event_type (hd (events_of s i)) = Ev_Scheduled"
  using assms by (auto simp: pipeline_ok_def)

lemma grows_refl [simp]: "grows s s"
  by (simp add: grows_def)

lemma grows_trans:
  assumes "grows s t" and "grows t u"
  shows "grows s u"
proof -
  have "\<exists>es. events_of u i = events_of s i @ es" for i
    using assms unfolding grows_def by (metis append.assoc)
  moreover have "\<exists>j''. job_of u i = Some j'' \<and> pj_idempotency_key j'' = pj_idempotency_key j"
    if "job_of s i = Some j" for i j
    using assms that unfolding grows_def by metis
  ultimately show ?thesis unfolding grows_def by blast
qed

lemma evolves_refl [simp]: "evolves d s s"
  by (simp add: evolves_def)

lemma evolves_trans: "evolves d s t \<Longrightarrow> evolves d t u \<Longrightarrow> evolves d s u"
  unfolding evolves_def using grows_trans by blast

lemma evolves_if: "(pipeline_ok d s \<Longrightarrow> evolves d s t) \<Longrightarrow> evolves d s t"
  by (auto simp: evolves_def)

text \<open>The four kinds of writes.\<close>

lemma evolves_other:
  assumes "store_ok s \<Longrightarrow> store_ok t"
    and "publish_jobs t = publish_jobs s" and "publish_job_events t = publish_job_events s"
  shows "evolves d s t"
proof -
  have same: "events_of t i = events_of s i" for i
    using assms(3) by (simp add: events_of_def)
  show ?thesis
    using assms(1,2) by (simp add: evolves_def pipeline_ok_def grows_def same)
qed

lemma evolves_job_event:
  assumes "job_ok d j" and "pe_publish_job_id e = pj_id j"
    and "\<And>old. job_of s (pj_id j) = Some old \<Longrightarrow> pj_idempotency_key j = pj_idempotency_key old"
    and "job_of s (pj_id j) = None \<Longrightarrow> pe_event_type e = Ev_Scheduled"
  shows "evolves d s (with_event e (with_job j s))"
  unfolding evolves_def
proof
  assume ok: "pipeline_ok d s"
  let ?t = "with_event e (with_job j s)"
  note parts = pipeline_okD [OF ok]
  have "store_ok ?t" by (rule mem.record_transition_inv [OF parts(1)])
  moreover have "\<forall>i k. job_of ?t i = Some k \<longrightarrow> job_ok d k" using assms(1) parts(2) by simp
  moreover have "\<forall>i. job_of ?t i = None \<longleftrightarrow> events_of ?t i = []"
    using assms(2) parts(3) by simp
  moreover have "\<forall>i. events_of ?t i \<noteq> [] \<longrightarrow> pe_event_type (hd (events_of ?t i)) = Ev_Scheduled"
    using assms(2,4) parts(3,4) by (auto simp: hd_append)
  ultimately have "pipeline_ok d ?t" unfolding pipeline_ok_def by blast
  moreover have "grows s ?t" using assms(2,3) by (auto simp: grows_def)
  ultimately show "pipeline_ok d ?t \<and> grows s ?t" ..
qed

lemma evolves_event:
  assumes "job_of s (pe_publish_job_id e) \<noteq> None"
  shows "evolves d s (with_event e s)"
  unfolding evolves_def
proof
  assume ok: "pipeline_ok d s"
  let ?t = "with_event e s"
  note parts = pipeline_okD [OF ok]
  have "store_ok ?t" by (rule store_ok_with_event [OF parts(1)])
  moreover have "\<forall>i k. job_of ?t i = Some k \<longrightarrow> job_ok d k" using parts(2) by simp
  moreover have "\<forall>i. job_of ?t i = None \<longleftrightarrow> events_of ?t i = []"
    using assms parts(3) by simp
  moreover have "\<forall>i. events_of ?t i \<noteq> [] \<longrightarrow> pe_event_type (hd (events_of ?t i)) = Ev_Scheduled"
    using assms parts(3,4) by (auto simp: hd_append)
  ultimately have "pipeline_ok d ?t" unfolding pipeline_ok_def by blast
  moreover have "grows s ?t" by (auto simp: grows_def)
  ultimately show "pipeline_ok d ?t \<and> grows s ?t" ..
qed

lemma evolves_jobs:
  assumes "store_ok s \<Longrightarrow> store_ok t" and "publish_job_events t = publish_job_events s"
    and "\<And>i j. job_of s i = Some j \<Longrightarrow> job_ok d j \<Longrightarrow> \<exists>k. job_of t i = Some k \<and> job_ok d k
      \<and> pj_idempotency_key k = pj_idempotency_key j"
    and "\<And>i. job_of s i = None \<Longrightarrow> job_of t i = None"
  shows "evolves d s t"
  unfolding evolves_def
proof
  assume ok: "pipeline_ok d s"
  note parts = pipeline_okD [OF ok]
  have same: "events_of t i = events_of s i" for i
    using assms(2) by (simp add: events_of_def)
  have jobs: "\<exists>k. job_of t i = Some k \<and> job_ok d k \<and> pj_idempotency_key k = pj_idempotency_key j"
    if "job_of s i = Some j" for i j
    using assms(3) [OF that] parts(2) [OF that] by blast
  have none: "job_of t i = None \<longleftrightarrow> job_of s i = None" for i
    using jobs assms(4) by (metis option.distinct(1) option.exhaust)
  have "job_ok d k" if "job_of t i = Some k" for i k
    using jobs none that by (metis option.exhaust option.inject option.distinct(1))
  then have "pipeline_ok d t"
    using assms(1) [OF parts(1)] parts(3,4) none same by (simp add: pipeline_ok_def)
  moreover have "grows s t" using jobs same by (fastforce simp: grows_def)
  ultimately show "pipeline_ok d t \<and> grows s t" ..
qed

section \<open>Every operation evolves the store\<close>

lemma event_types [simp]:
  "pe_event_type (scheduled_event j inp) = Ev_Scheduled"
  by (simp add: scheduled_event_def publish_job_event_new_def)

lemma user_transition_key:
  "user_transition old j \<Longrightarrow> old = Some k \<Longrightarrow> pj_idempotency_key j = pj_idempotency_key k"
  by (induction rule: user_transition.induct) (simp_all add: transition_defs)

lemma key_transitions [simp]:
  "pj_idempotency_key (job_cancel j n) = pj_idempotency_key j"
  "pj_idempotency_key (job_retry j n) = pj_idempotency_key j"
  "pj_idempotency_key (job_reschedule j t n) = pj_idempotency_key j"
  "pj_idempotency_key (claim_for_upload j n) = pj_idempotency_key j"
  "pj_idempotency_key (job_requires_action j r n) = pj_idempotency_key j"
  "pj_idempotency_key (start_provider_processing j n) = pj_idempotency_key j"
  by (simp_all add: transition_defs)

lemma evolves_target: "evolves d s (with_target tg s)"
  by (rule evolves_other) (simp_all add: store_ok_with_target)

lemma request_evolves: "evolves d s (snd (run_request d owner rq s))"
proof (rule evolves_if)
  assume ok: "pipeline_ok d s"
  note so = pipeline_okD(1) [OF ok] and jo = job_ok_key [OF pipeline_okD(2) [OF ok]]
  show ?thesis
  proof (cases rq)
    case (Req_Schedule inp)
    then show ?thesis
      by (auto simp: schedule_target_run authorised_def Let_def job_ok_scheduled
          intro!: evolves_job_event evolves_target split: option.split)
  next
    case (Req_Cancel i now)
    then show ?thesis
      using store_ok_job_id [OF so] jo
      by (auto simp: cancel_job_run authorised_def job_ok_transitions
          intro!: evolves_job_event split: option.split)
  next
    case (Req_Retry i now)
    then show ?thesis
      using store_ok_job_id [OF so] jo
      by (auto simp: retry_job_run authorised_def job_ok_transitions
          intro!: evolves_job_event split: option.split)
  next
    case (Req_Reschedule inp)
    then show ?thesis
      using store_ok_job_id [OF so] jo
      by (auto simp: reschedule_job_run authorised_def job_ok_transitions Let_def
          intro!: evolves_job_event split: option.split)
  qed (simp_all add: requests_run Let_def evolves_target split: option.split)
qed

lemma claim_evolves:
  assumes "claim_due_publish_jobs now limit s = (r, t)"
  shows "evolves d s t"
proof (rule evolves_if)
  assume ok: "pipeline_ok d s"
  note so = pipeline_okD(1) [OF ok]
  from claim_due_publish_jobs_run [OF so, of now limit] assms obtain jobs where
    t: "t = s\<lparr>publish_jobs := jobs\<rparr>" and keyed: "bt_keyed pj_id jobs"
    and get: "\<forall>i. bt_get jobs i = (if i \<in> set (due_ids now limit s)
       then Some (claim_for_upload (the (job_of s i)) now) else job_of s i)"
    by auto
  have due: "job_of s i \<noteq> None" if "i \<in> set (due_ids now limit s)" for i
    using due_ids_due [OF _ that] store_ok_jobs [OF so] by (fastforce simp: bt_keyed_def)
  show ?thesis
  proof (rule evolves_jobs)
    show "store_ok t" if "store_ok s" using that keyed t by (simp add: store_ok_set_jobs)
    show "publish_job_events t = publish_job_events s" by (simp add: t)
    show "\<exists>k. job_of t i = Some k \<and> job_ok d k \<and> pj_idempotency_key k = pj_idempotency_key j"
      if "job_of s i = Some j" "job_ok d j" for i j
      using that get job_ok_key by (simp add: t job_ok_transitions)
    show "job_of t i = None" if "job_of s i = None" for i
      using that get due [of i] by (simp add: t) blast
  qed
qed

lemma claim_one_evolves:
  assumes "claim_due_publish_job i now s = (r, t)"
  shows "evolves d s t"
proof (rule evolves_if)
  assume ok: "pipeline_ok d s"
  note so = pipeline_okD(1) [OF ok]
  show ?thesis
  proof (cases "t = s")
    case False
    with assms obtain j where j: "job_of s i = Some j"
      and t: "t = s\<lparr>publish_jobs := bt_insert i (claim_for_upload j now) (publish_jobs s)\<rparr>"
      by (auto simp: claim_due_publish_job_def Let_def split: option.splits if_splits)
    show ?thesis
    proof (rule evolves_jobs)
      show "store_ok t" if "store_ok s" using claim_due_publish_job_ok [OF that assms] .
      show "publish_job_events t = publish_job_events s" by (simp add: t)
      show "\<exists>k. job_of t x = Some k \<and> job_ok d k \<and> pj_idempotency_key k = pj_idempotency_key y"
        if "job_of s x = Some y" "job_ok d y" for x y
        using that j job_ok_key by (auto simp: t job_ok_transitions)
      show "job_of t x = None" if "job_of s x = None" for x
        using that j by (auto simp: t)
    qed
  qed simp
qed

lemma poll_progress_ok: "poll_progress job next \<Longrightarrow> job_ok d job \<Longrightarrow> job_ok d next"
proof -
  assume pr: "poll_progress job next" and ok: "job_ok d job"
  from pr have "job_identity next = job_identity job" by (simp add: poll_progress_def)
  then have "key_ok d next" using key_ok_identity job_ok_key [OF ok] by blast
  then show "job_ok d next"
    using pr unfolding job_ok_def key_ok_def poll_progress_def by (elim conjE disjE) auto
qed

lemma poll_evolves:
  assumes "poll_processing_job adapter inp s = (r, t)"
  shows "evolves d s t"
proof (rule evolves_if)
  assume ok: "pipeline_ok d s"
  note so = pipeline_okD(1) [OF ok]
  show ?thesis
    using poll_effect [OF so assms]
  proof
    assume "(\<exists>e. r = Inl e) \<and> t = s"
    then show ?thesis by simp
  next
    assume "\<exists>job a a' e next. polling s inp job a \<and> r = Inr next \<and> poll_progress job next
      \<and> ca_id a' = ca_id a \<and> same_provider_account a' a \<and> pe_publish_job_id e = pj_id job
      \<and> (t = with_event e (with_job next s) \<or> t = with_event e (with_job next (with_account a' s)))"
    then obtain job a a' e "next" where p: "polling s inp job a" and pr: "poll_progress job next"
      and a': "ca_id a' = ca_id a" "same_provider_account a' a" and e: "pe_publish_job_id e = pj_id job"
      and t: "t = with_event e (with_job next s) \<or> t = with_event e (with_job next (with_account a' s))"
      by (elim exE conjE) (rule that)
    have stored: "job_of s (pui_job_id inp) = Some job" using p by (simp add: polling_def)
    have pid: "pj_id job = pui_job_id inp" by (rule store_ok_job_id [OF so stored])
    have ident: "job_identity next = job_identity job" using pr by (simp add: poll_progress_def)
    note nid = job_identity_id [OF ident] and nkey = job_identity_key [OF ident]
    have jok: "job_ok d next" using poll_progress_ok [OF pr pipeline_okD(2) [OF ok stored]] .
    have acc: "account_of s (ca_id a') = Some a"
      using p a'(1) store_ok_account_id [OF so] by (auto simp: polling_def)
    have step: "evolves d u (with_event e (with_job next u))" if "publish_jobs u = publish_jobs s" for u
      by (rule evolves_job_event) (use jok e nid nkey stored pid that in auto)
    have "evolves d s (with_account a' s)"
      by (rule evolves_other) (use store_ok_update_account [OF _ acc a'(2)] in auto)
    then show ?thesis
      using t step [of s] step [of "with_account a' s"] evolves_trans by auto
  qed
qed

lemma evolves_record:
  assumes "job_ok d j" and "job_of s (pj_id j) = Some old"
    and "pj_idempotency_key j = pj_idempotency_key old"
  shows "evolves d s (record_job j ty actor message metadata now s)"
  unfolding record_job_def by (rule evolves_job_event) (use assms in simp_all)

lemma evolves_save:
  assumes "job_ok d j" and "job_of s (pj_id j) = Some old"
    and "pj_idempotency_key j = pj_idempotency_key old"
  shows "evolves d s (with_job j s)"
proof (rule evolves_jobs)
  show "store_ok (with_job j s)" if "store_ok s" using that by (rule store_ok_with_job)
  show "\<exists>k. job_of (with_job j s) i = Some k \<and> job_ok d k
      \<and> pj_idempotency_key k = pj_idempotency_key x" if "job_of s i = Some x" "job_ok d x" for i x
    using that assms by auto
  show "job_of (with_job j s) i = None" if "job_of s i = None" for i
    using that assms by auto
qed simp

lemma requeue_evolves:
  assumes "key_ok d j" and "job_of s (pj_id j) = Some old"
    and "pj_idempotency_key j = pj_idempotency_key old"
  shows "evolves d s (snd (requeue_or_fail_retryable j policy err message now s))"
proof -
  let ?due = "i64_saturating_add now
        (backoff_delay_secs (pj_attempt_count j) (policy_base_backoff_secs policy))"
  let ?next = "(job_retry j now)\<lparr>pj_scheduled_for := ?due\<rparr>"
  have f: "job_ok d (job_fail j err message now)" and n: "job_ok d ?next"
    by (rule job_ok_transitions [OF assms(1)])+
  have ids: "pj_id (job_fail j err message now) = pj_id j" "pj_id ?next = pj_id j"
    "pj_idempotency_key (job_fail j err message now) = pj_idempotency_key j"
    "pj_idempotency_key ?next = pj_idempotency_key j"
    by (simp_all add: transition_defs)
  show ?thesis
  proof (cases "pj_attempt_count j \<ge> policy_max_attempts policy")
    case True
    then show ?thesis
      unfolding requeue_run by (simp add: evolves_record [OF f] ids assms)
  next
    case False
    then show ?thesis
      unfolding requeue_run Let_def
      using evolves_record [OF n, of s old] ids assms(2,3) by simp
  qed
qed

lemma settle_evolves:
  assumes "key_ok d j" and "job_of s (pj_id j) = Some old"
    and "pj_idempotency_key j = pj_idempotency_key old"
  shows "evolves d s (snd (settle_upload j result policy now s))"
proof (cases "result = Inl UA_ProviderMismatch")
  case True
  then have "settle_upload j result policy now s = (Inl US_ProviderMismatch, s)"
    using settle_upload_run [of j result policy now s] by auto
  then show ?thesis by simp
next
  case False
  let ?next = "settled j result policy now"
  obtain actor message metadata where
    run: "snd (settle_upload j result policy now s) =
      record_job ?next (settle_event j result policy) actor message metadata now s"
    using settle_upload_run [of j result policy now s] False by auto
  have "pj_idempotency_key ?next = pj_idempotency_key j"
    by (rule job_identity_key) (rule settled_identity)
  then show ?thesis
    unfolding run using assms False by (intro evolves_record) (simp_all add: job_ok_settled)
qed

lemma flip_evolves:
  assumes "job_of s (pj_id j) = Some j" and "account_of s acc = Some a"
  shows "evolves d s (snd (flip_needs_reauth j acc reason now s))"
proof (rule evolves_if)
  assume ok: "pipeline_ok d s"
  note so = pipeline_okD(1) [OF ok]
  let ?a = "a\<lparr>ca_status := NeedsReauth, ca_updated_at := now\<rparr>"
  let ?u = "with_account ?a s"
  have "evolves d s ?u"
  proof (rule evolves_other)
    show "store_ok ?u" if "store_ok s"
      using that assms(2) store_ok_account_id [OF so assms(2)]
      by (intro store_ok_update_account [of _ _ a]) (simp_all add: same_provider_account_def)
  qed simp_all
  moreover have "job_ok d (job_requires_action j reason now)"
    using job_ok_transitions(4) job_ok_key pipeline_okD(2) [OF ok assms(1)] by blast
  then have "evolves d ?u (snd (flip_needs_reauth j acc reason now s))"
    unfolding flip_needs_reauth_run [OF so assms(2)] snd_conv
    by (rule evolves_record [of _ _ _ j]) (simp_all add: assms(1))
  ultimately show ?thesis by (rule evolves_trans)
qed

lemma perform_evolves:
  assumes "\<And>u. evolves d u (world u)" and "job_of s (pj_id job) = Some job"
  shows "evolves d s (snd (perform_upload world adapter job acc inp policy s))"
proof (rule evolves_if)
  assume ok: "pipeline_ok d s"
  let ?now = "eui_now inp"
  let ?j = "start_provider_processing job ?now"
  let ?s1 = "upload_started job ?now s"
  let ?u = "world ?s1"
  have key: "key_ok d job" using job_ok_key pipeline_okD(2) [OF ok assms(2)] .
  then have jok: "job_ok d ?j" by (rule job_ok_transitions)
  have kj: "key_ok d ?j" using job_ok_key [OF jok] .
  let ?e = "worker_event s (pj_id job) Ev_Claimed Actor_Worker ''upload job claimed by worker''
    (json_object [provider_field job]) ?now"
  have "evolves d s (with_event ?e s)" by (rule evolves_event) (simp add: assms(2))
  moreover have "evolves d (with_event ?e s) ?s1"
    unfolding upload_started_def by (rule evolves_save [OF jok]) (simp_all add: assms(2))
  ultimately have started: "evolves d s ?s1" by (rule evolves_trans)
  then have su: "evolves d s ?u" using assms(1) evolves_trans by blast
  have s1: "job_of ?s1 (pj_id job) = Some ?j" by simp
  have ok1: "pipeline_ok d ?s1" using started ok by (simp add: evolves_def)
  from assms(1) [of ?s1] ok1 s1 obtain old where
    old: "job_of ?u (pj_id job) = Some old" "pj_idempotency_key old = pj_idempotency_key ?j"
    unfolding evolves_def grows_def by blast
  have settle: "evolves d ?u (snd (settle_upload ?j result policy ?now ?u))" for result
    by (rule settle_evolves [OF kj, of _ old]) (use old in simp_all)
  have discard: "evolves d ?u (with_event (discard_event job ?now ?u) ?u)"
    by (rule evolves_event) (simp add: discard_event_def old)
  show ?thesis
    unfolding perform_upload_run Let_def
    by (simp add: old(1) evolves_trans [OF su settle] evolves_trans [OF su discard] split: sum.split)
qed

lemma unclaimed_unchanged:
  assumes "\<not> (\<exists>job a secret. claimed_for s inp job a secret \<and> adapter_provider adapter = pj_provider job)"
  shows "snd (execute_claimed_job_full world adapter refresher inp policy skew s) = s"
  using assms
  by (auto simp: execute_claimed_job_full_def service_unfold claimed_for_def account_publishable_def
      split: option.split)

lemma execute_evolves:
  assumes world: "\<And>u. evolves d u (world u)"
  shows "evolves d s (snd (execute_claimed_job_full world adapter refresher inp policy skew s))"
proof (cases "\<exists>job a secret. claimed_for s inp job a secret \<and> adapter_provider adapter = pj_provider job")
  case False
  from unclaimed_unchanged [OF this] show ?thesis by simp
next
  case True
  then obtain job a secret where c: "claimed_for s inp job a secret"
    and ad: "adapter_provider adapter = pj_provider job" by blast
  show ?thesis
  proof (rule evolves_if)
    assume ok: "pipeline_ok d s"
    note so = pipeline_okD(1) [OF ok]
    have stored: "job_of s (eui_job_id inp) = Some job" using c by (simp add: claimed_for_def)
    have job: "job_of s (pj_id job) = Some job"
      using stored store_ok_job_id [OF so stored] by simp
    have acc: "account_of s (ca_id a) = Some a"
      using c store_ok_account_id [OF so] by (auto simp: claimed_for_def)
    have fresh: "evolves d s (snd (perform_upload world adapter job (ca_id a) inp policy (with_secret x s)))" for x
      by (rule evolves_trans [OF evolves_other perform_evolves [OF world]])
        (simp_all add: job store_ok_with_secret)
    have requeue: "evolves d s (snd (requeue_or_fail_retryable job policy err m now s))" for err m now
      by (rule requeue_evolves [OF job_ok_key [OF pipeline_okD(2) [OF ok stored]] job]) simp
    show ?thesis
      unfolding execute_claimed_run [OF c ad] Let_def
      by (simp add: perform_evolves [OF world job] flip_evolves [OF job acc] fresh requeue
          split: sum.split token_refresh_error.split)
  qed
qed

section \<open>Interleavings\<close>

inductive lifecycle :: "digests \<Rightarrow> social_store \<Rightarrow> social_store \<Rightarrow> bool" for d where
  lc_start: "lifecycle d s s"
| lc_user: "lifecycle d s t \<Longrightarrow> lifecycle d s (snd (run_request d owner rq t))"
| lc_account: "lifecycle d s t \<Longrightarrow> save_connected_account a t = (r0, u) \<Longrightarrow> lifecycle d s u"
| lc_disable: "lifecycle d s t \<Longrightarrow> disable_connected_account i ow now t = (r1, u) \<Longrightarrow> lifecycle d s u"
| lc_secret: "lifecycle d s t \<Longrightarrow> save_token_secret x t = (r0, u) \<Longrightarrow> lifecycle d s u"
| lc_claim: "lifecycle d s t \<Longrightarrow> claim_due_publish_jobs now limit t = (r2, u) \<Longrightarrow> lifecycle d s u"
| lc_claim_one: "lifecycle d s t \<Longrightarrow> claim_due_publish_job i now t = (r3, u) \<Longrightarrow> lifecycle d s u"
| lc_upload: "lifecycle d s t \<Longrightarrow> (\<And>v. lifecycle d v (world v)) \<Longrightarrow>
    execute_claimed_job_full world adapter refresher inp policy skew t = (r4, u) \<Longrightarrow> lifecycle d s u"
| lc_poll: "lifecycle d s t \<Longrightarrow> poll_processing_job status_adapter pinp t = (r5, u) \<Longrightarrow>
    lifecycle d s u"

lemma account_evolves:
  assumes "save_connected_account a t = (r, u)"
  shows "evolves d t u"
  using save_connected_account_cases [of a t] assms
proof (elim disjE conjE)
  assume "save_connected_account a t = (Inr (), with_account a t)"
    and uniq: "\<forall>b \<in> set (bt_values (connected_accounts t)). same_provider_account b a \<longrightarrow> ca_id b = ca_id a"
  with assms have "u = with_account a t" by simp
  with uniq show ?thesis by (auto intro!: evolves_other store_ok_with_account)
qed simp

lemma disable_evolves:
  assumes "disable_connected_account i ow now t = (r, u)"
  shows "evolves d t u"
proof (rule evolves_other)
  show "store_ok u" if "store_ok t" using disable_connected_account_ok [OF that assms] .
qed (use assms in \<open>auto simp: disable_connected_account_def Let_def split: option.splits if_splits\<close>)

lemma lifecycle_evolves: "lifecycle d s t \<Longrightarrow> evolves d s t"
proof (induction rule: lifecycle.induct)
  case (lc_user s t owner rq)
  then show ?case using evolves_trans request_evolves by blast
next
  case (lc_account s t a r0 u)
  then show ?case using evolves_trans account_evolves by blast
next
  case (lc_disable s t i ow now r1 u)
  then show ?case using evolves_trans disable_evolves by blast
next
  case (lc_secret s t x r0 u)
  have "evolves d t u"
    using lc_secret(2) by (auto simp: store_writes intro!: evolves_other store_ok_with_secret)
  with lc_secret show ?case using evolves_trans by blast
next
  case (lc_claim s t now limit r2 u)
  then show ?case using evolves_trans claim_evolves by blast
next
  case (lc_claim_one s t i now r3 u)
  then show ?case using evolves_trans claim_one_evolves by blast
next
  case (lc_upload s t world adapter refresher inp policy skew r4 u)
  have "evolves d t u"
    using execute_evolves [of d world t adapter refresher inp policy skew] lc_upload by simp
  with lc_upload show ?case using evolves_trans by blast
next
  case (lc_poll s t status_adapter pinp r5 u)
  then show ?case using evolves_trans poll_evolves by blast
qed simp

lemma pipeline_ok_default: "pipeline_ok d store_default"
  by (simp add: pipeline_ok_def store_ok_default) (simp add: store_default_def events_of_def)


text \<open>C29: Nothing is lost. From any well-formed store, whatever interleaving follows, the history of
  every job only grows at its end, no job disappears, and a job id stays bound to the same
  publication: its idempotency key never changes.\<close>

theorem pipeline_monotone:
  assumes "lifecycle d store_default s" and "lifecycle d s t"
  shows "(\<forall>i. \<exists>es. events_of t i = events_of s i @ es)
    \<and> (\<forall>i j. job_of s i = Some j \<longrightarrow>
        (\<exists>j'. job_of t i = Some j' \<and> pj_idempotency_key j' = pj_idempotency_key j))"
proof -
  from lifecycle_evolves [OF assms(1)] pipeline_ok_default have "pipeline_ok d s"
    by (simp add: evolves_def)
  with lifecycle_evolves [OF assms(2)] have "grows s t" by (simp add: evolves_def)
  then show ?thesis by (simp add: grows_def)
qed

section \<open>A concrete run\<close>

text \<open>An account is connected, a target is bound and validated, a job is scheduled; then the scheduler
  claims it and the worker publishes it.\<close>

definition run1 :: social_store where
  "run1 = with_account (sample_account ''a'' (User ''ann'')) store_default"

definition run_bind :: bind_target_input where
  "run_bind =
     \<lparr>bti_id = ''t'', bti_campaign_id = ''c'', bti_variant_id = ''v'', bti_connected_account_id = ''a'',
      bti_platform_fields = json_object [], bti_scheduled_for = 100, bti_now = 40\<rparr>"

definition run4 :: social_store where
  "run4 = snd (run_request sample_digests (User ''ann'') (Req_Schedule sample_schedule)
     (snd (run_request sample_digests (User ''ann'') (Req_Validate ''t'' 45)
       (snd (run_request sample_digests (User ''ann'') (Req_Bind run_bind) run1)))))"

definition run5 :: social_store where
  "run5 = snd (claim_due_publish_job ''j'' 101 run4)"

lemma run1_reads [simp]:
  "account_of run1 ''a'' = Some (sample_account ''a'' (User ''ann''))" "target_of run1 i = None"
  "job_of run1 i = None"
  by (simp_all add: run1_def) (simp_all add: store_default_def)

lemma run_steps: "lifecycle sample_digests store_default run4" "lifecycle sample_digests run4 run5"
proof -
  have "save_connected_account (sample_account ''a'' (User ''ann'')) store_default = (Inr (), run1)"
    by (simp add: save_connected_account_def run1_def with_account_def store_default_def bt_values_def)
  then have "lifecycle sample_digests store_default run1" by (rule lc_account [OF lc_start])
  then show "lifecycle sample_digests store_default run4"
    unfolding run4_def by (intro lc_user)
  show "lifecycle sample_digests run4 run5"
    unfolding run5_def by (rule lc_claim_one [OF lc_start surjective_pairing])
qed

definition run_target :: campaign_variant_target where
  "run_target = target_new ''t'' ''c'' ''v'' ''a'' Instagram (json_object []) 100 40"

lemma run4_job: "\<exists>j. job_of run4 ''j'' = Some j \<and> pj_scheduled_for j = 100 \<and> pj_status j = Scheduled"
proof -
  let ?a = "sample_account ''a'' (User ''ann'')"
  let ?t2 = "mark_validation run_target Val_Valid 45"
  have pub: "publishable run_target ?a 45" "publishable ?t2 ?a 50"
    by (simp_all add: publishable_def run_target_def target_new_def mark_validation_def
        sample_account_def eligibility_eligible_def json_object_def bt_of_list_def string_field_def
        text_field_def bt_get_def chars_count_def)
  then have v: "fst (target_validation_state run_target ?a 45) = Val_Valid"
    "fst (target_validation_state ?t2 ?a 50) = Val_Valid"
    using target_validation_valid by blast+
  have ids: "cvt_id run_target = ''t''" "cvt_connected_account_id run_target = ''a''"
    "cvt_provider run_target = Instagram" "cvt_id ?t2 = ''t''" "cvt_connected_account_id ?t2 = ''a''"
    "cvt_provider ?t2 = Instagram" "cvt_validation_state ?t2 = Val_Valid"
    "cvt_scheduled_for ?t2 = 100"
    by (simp_all add: run_target_def target_new_def mark_validation_def)
  have s2: "run_request sample_digests (User ''ann'') (Req_Bind run_bind) run1 =
      (Inr (), with_target run_target run1)"
    by (simp add: bind_target_run run_bind_def run_target_def Let_def)
  have s3: "run_request sample_digests (User ''ann'') (Req_Validate ''t'' 45) (with_target run_target run1) =
      (Inr (), with_target ?t2 (with_target run_target run1))"
    by (simp add: validate_target_run authorised_def ids v Let_def)
  have "job_of run4 ''j'' = Some (scheduled_job sample_digests ?t2 sample_schedule)"
    unfolding run4_def s2 s3 snd_conv
    by (simp add: schedule_target_run authorised_def ids v Let_def)
  moreover have "pj_scheduled_for (scheduled_job sample_digests ?t2 sample_schedule) = 100"
    by (simp add: scheduled_job_def job_schedule_def publish_job_new_def Let_def ids)
  ultimately show ?thesis by simp
qed


theorem pipeline_monotone_witness:
  "\<exists>j'. job_of run5 ''j'' = Some j' \<and> (\<exists>es. events_of run5 ''j'' = events_of run4 ''j'' @ es)"
  using pipeline_monotone [OF run_steps] run4_job by blast

end
