(* ===== verification/Claim_Fairness.thy ===== *)
theory Claim_Fairness
  imports Job_Lifecycle
begin

text \<open>
  No due job waits for ever. The ticks that claim due jobs are interleaved with other work on the
  store; as long as that work leaves a job alone and schedules nothing older in front of it, the
  job is claimed after a number of ticks given by its place in the queue. The measure is the number of
  older scheduled jobs: a tick that does not claim the job claims that many of them.
\<close>

section \<open>The queue in front of a job\<close>

definition ahead :: "social_store \<Rightarrow> publish_job \<Rightarrow> string set" where
  "ahead s j = {k. \<exists>j'. job_of s k = Some j' \<and> pj_status j' = Scheduled
     \<and> (pj_scheduled_for j', k) < (pj_scheduled_for j, pj_id j)}"

text \<open>Work of others, as seen from the job.\<close>

definition considerate :: "publish_job \<Rightarrow> social_store \<Rightarrow> social_store \<Rightarrow> bool" where
  "considerate j t u \<longleftrightarrow>
     store_ok u \<and> job_of u (pj_id j) = job_of t (pj_id j) \<and> ahead u j \<subseteq> ahead t j"

text \<open>Runs with \<open>n\<close> ticks, each at a time when the job is due.\<close>

inductive ticks :: "usize \<Rightarrow> publish_job \<Rightarrow> nat \<Rightarrow> social_store \<Rightarrow> social_store \<Rightarrow> bool" for limit j where
  ticks_none: "ticks limit j 0 s s"
| ticks_tick: "ticks limit j n s t \<Longrightarrow> pj_scheduled_for j \<le> now \<Longrightarrow>
    claim_due_publish_jobs now limit t = (r, u) \<Longrightarrow> ticks limit j (Suc n) s u"
| ticks_other: "ticks limit j n s t \<Longrightarrow> considerate j t u \<Longrightarrow> ticks limit j n s u"

section \<open>One tick\<close>

lemma finite_ahead: "store_ok s \<Longrightarrow> finite (ahead s j)"
proof -
  have "ahead s j \<subseteq> fst ` set (publish_jobs s)"
    by (force simp: ahead_def bt_get_def dest: map_of_SomeD)
  then show "finite (ahead s j)" using finite_subset by blast
qed

lemma tick_moves_the_queue:
  assumes "store_ok s" and "job_of s (pj_id j) = Some j" and "pj_status j = Scheduled" and "pj_scheduled_for j \<le> now"
    and "claim_due_publish_jobs now limit s = (r, u)"
  shows "store_ok u \<and> (job_of u (pj_id j) = Some (claim_for_upload j now)
      \<or> job_of u (pj_id j) = Some j \<and> card (ahead u j) + limit \<le> card (ahead s j))"
proof -
  have ok: "bt_ok (publish_jobs s)" using store_ok_jobs [OF assms(1)] by (simp add: bt_keyed_def)
  let ?ids = "due_ids now limit s" and ?d = "due_pairs now s" and ?i = "pj_id j"
  from claim_due_publish_jobs_run [OF assms(1), of now limit] assms(5) obtain jobs where
    u: "u = s\<lparr>publish_jobs := jobs\<rparr>" and keyed: "bt_keyed pj_id jobs"
    and get: "\<And>i. bt_get jobs i = (if i \<in> set ?ids then Some (claim_for_upload (the (job_of s i)) now) else job_of s i)"
    by auto
  have u_ok: "store_ok u" unfolding u by (rule store_ok_set_jobs [OF assms(1) keyed])
  show ?thesis
  proof (cases "?i \<in> set ?ids")
    case True
    then show ?thesis using u_ok get [of ?i] assms(2) by (simp add: u)
  next
    case False
    have mine: "(pj_scheduled_for j, ?i) \<in> set ?d"
      using assms(2-4) set_due_pairs [OF ok] by (auto simp: job_due_def)
    with False have later: "(pj_scheduled_for j, ?i) \<in> set (drop limit ?d)"
      by (metis Un_iff append_take_drop_id due_ids_take image_eqI list.set_map set_append snd_conv)
    have sorted: "sorted (take limit ?d @ drop limit ?d)" by (simp add: due_pairs_def)
    have older: "k \<in> ahead s j" if k: "k \<in> set ?ids" for k
    proof -
      from k obtain t0 where t0: "(t0, k) \<in> set (take limit ?d)" by (auto simp: due_ids_take)
      with sorted later have "(t0, k) \<le> (pj_scheduled_for j, ?i)" unfolding sorted_append by blast
      moreover have "k \<noteq> ?i" using k False by blast
      moreover obtain j' where "job_of s k = Some j'" "job_due now j'" "pj_scheduled_for j' = t0"
        using in_set_takeD [OF t0] set_due_pairs [OF ok] by blast
      ultimately show ?thesis by (auto simp: ahead_def job_due_def)
    qed
    have "length ?d > limit" using later by (metis drop_all empty_iff empty_set not_le_imp_less)
    then have "length ?ids = limit" by (simp add: due_ids_take)
    then have taken: "card (set ?ids) = limit" using due_ids_distinct [OF ok] by (simp add: distinct_card)
    have "ahead u j \<subseteq> ahead s j - set ?ids"
      by (auto simp: ahead_def u get claim_for_upload_def split: if_splits)
    then have "card (ahead u j) \<le> card (ahead s j - set ?ids)"
      by (rule card_mono [OF finite_Diff [OF finite_ahead [OF assms(1)]]])
    also have "\<dots> = card (ahead s j) - limit"
      using older taken card_Diff_subset [of "set ?ids" "ahead s j"] by auto
    finally have "card (ahead u j) \<le> card (ahead s j) - limit" .
    moreover have "limit \<le> card (ahead s j)"
      using older taken card_mono [OF finite_ahead [OF assms(1)], of "set ?ids"] by auto
    moreover have "job_of u ?i = Some j" using get [of ?i] False assms(2) by (simp add: u)
    ultimately show ?thesis using u_ok by (simp add: le_diff_conv2)
  qed
qed

lemma tick_leaves_claimed:
  assumes "store_ok s" and "job_of s i = Some j" and "pj_status j = Uploading"
    and "claim_due_publish_jobs now limit s = (r, u)"
  shows "store_ok u \<and> job_of u i = Some j"
proof -
  have ok: "bt_ok (publish_jobs s)" using store_ok_jobs [OF assms(1)] by (simp add: bt_keyed_def)
  from claim_due_publish_jobs_run [OF assms(1), of now limit] assms(4) obtain jobs where
    u: "u = s\<lparr>publish_jobs := jobs\<rparr>" and keyed: "bt_keyed pj_id jobs"
    and get: "bt_get jobs i = (if i \<in> set (due_ids now limit s) then Some (claim_for_upload (the (job_of s i)) now)
      else job_of s i)" by auto
  have "i \<notin> set (due_ids now limit s)" using due_ids_due [OF ok, of i now limit] assms(2,3) by (auto simp: job_due_def)
  then show ?thesis using get assms(2) store_ok_set_jobs [OF assms(1) keyed] by (simp add: u)
qed

section \<open>No starvation\<close>

text \<open>C11: A scheduled job that is due is claimed in time. Whatever considerate work is done between the
  ticks, once there have been more ticks, of \<open>limit\<close> jobs each, than it takes to serve the jobs that were
  scheduled before it, the job has been claimed and is uploading.\<close>

theorem due_job_is_claimed:
  assumes "ticks limit j n s t" and "store_ok s" and "job_of s (pj_id j) = Some j" and "pj_status j = Scheduled"
    and "card (ahead s j) < n * limit"
  shows "\<exists>now \<ge> pj_scheduled_for j. job_of t (pj_id j) = Some (claim_for_upload j now)"
proof -
  have "store_ok t \<and> ((\<exists>now \<ge> pj_scheduled_for j. job_of t (pj_id j) = Some (claim_for_upload j now))
      \<or> job_of t (pj_id j) = Some j \<and> card (ahead t j) + n * limit \<le> card (ahead s j))"
    using assms(1-4)
  proof (induction rule: ticks.induct)
    case (ticks_tick n s t now r u)
    then have t: "store_ok t" by blast
    from ticks_tick consider (claimed) now' where "pj_scheduled_for j \<le> now'"
        "job_of t (pj_id j) = Some (claim_for_upload j now')"
      | (waiting) "job_of t (pj_id j) = Some j" "card (ahead t j) + n * limit \<le> card (ahead s j)" by blast
    then show ?case
    proof cases
      case claimed
      then show ?thesis using tick_leaves_claimed [OF t claimed(2) _ ticks_tick(3)] by (auto simp: claim_for_upload_def)
    next
      case waiting
      then show ?thesis using tick_moves_the_queue [OF t waiting(1) ticks_tick(7,2,3)] ticks_tick(2) by fastforce
    qed
  next
    case (ticks_other n s t u)
    then have "card (ahead u j) \<le> card (ahead t j)"
      using card_mono [of "ahead t j" "ahead u j"] finite_ahead by (simp add: considerate_def)
    with ticks_other show ?case by (auto simp: considerate_def)
  qed simp
  with assms(5) show ?thesis by auto
qed

text \<open>Saving another job, in whatever state, is considerate unless it is scheduled before this one; this is
  what every transition of another job comes down to.\<close>

lemma save_job_considerate:
  assumes "store_ok t" and "pj_id k \<noteq> pj_id j"
    and "pj_status k = Scheduled \<Longrightarrow> (pj_scheduled_for j, pj_id j) \<le> (pj_scheduled_for k, pj_id k)"
  shows "considerate j t (with_job k t)"
proof -
  have "ahead (with_job k t) j \<subseteq> ahead t j"
    using assms(3) by (auto simp: ahead_def with_job_def split: if_splits)
  then show ?thesis using assms(1,2) store_ok_with_job by (auto simp: considerate_def with_job_def)
qed

lemma sample_ahead: "ahead sample_store (sample_job ''a'' 9 Scheduled) = {''b''}"
  by (auto simp: ahead_def sample_store_def with_job_def sample_job_def store_default_def bt_get_def split: if_splits)

theorem due_job_is_claimed_witness:
  "\<exists>t. ticks 1 (sample_job ''a'' 9 Scheduled) 2 sample_store t
    \<and> (\<exists>now \<ge> 9. job_of t ''a'' = Some (claim_for_upload (sample_job ''a'' 9 Scheduled) now))"
proof -
  let ?j = "sample_job ''a'' 9 Scheduled"
  define s1 s2 s3 where "s1 = snd (claim_due_publish_jobs 10 1 sample_store)"
    and "s2 = with_job (sample_job ''z'' 9 Scheduled) s1" and "s3 = snd (claim_due_publish_jobs 11 1 s2)"
  have j: "pj_scheduled_for ?j = 9" "pj_id ?j = ''a''" "pj_status ?j = Scheduled" by (simp_all add: sample_job_def)
  have "claim_due_publish_jobs 10 1 sample_store = (fst (claim_due_publish_jobs 10 1 sample_store), s1)" by (simp add: s1_def)
  then have one: "ticks 1 ?j (Suc 0) sample_store s1" by (rule ticks_tick [OF ticks_none, where now = 10, rotated]) (simp add: j)
  have "store_ok s1" using sample_claim sample_store_ok by (simp add: s1_def store_ok_with_job)
  then have "considerate ?j s1 s2" unfolding s2_def by (rule save_job_considerate) (simp_all add: sample_job_def)
  then have "ticks 1 ?j (Suc 0) sample_store s2" by (rule ticks_other [OF one])
  then have two: "ticks 1 ?j 2 sample_store s3"
    using ticks_tick [of 1 ?j "Suc 0" sample_store s2 11 "fst (claim_due_publish_jobs 11 1 s2)" s3] j
    by (simp add: s3_def numeral_2_eq_2)
  have "job_of sample_store (pj_id ?j) = Some ?j" by (simp add: sample_store_def with_job_def sample_job_def)
  from due_job_is_claimed [OF two sample_store_ok this j(3)] two show ?thesis by (auto simp: sample_ahead j)
qed

end
