(* ===== verification/OAuth_Url.thy ===== *)
theory OAuth_Url
  imports Social_Model
begin

text \<open>
  \<open>crates/social/src/oauth_url.rs\<close>: the authorization URL a user is sent to. The query
  parser \<open>parse_query\<close> is the reference: it is how the provider reads the URL back.
\<close>

section \<open>The code\<close>

record oauth_provider_config =
  opc_client_id :: string
  opc_redirect_uri :: string

record oauth_authorize_request =
  oar_connection :: oauth_connection
  oar_authorization_url :: string

fun scopes_for :: "provider \<Rightarrow> string list" where
  "scopes_for YouTube =
     [''https://www.googleapis.com/auth/youtube.upload'',
      ''https://www.googleapis.com/auth/youtube.readonly'']"
| "scopes_for TikTok = [''user.info.basic'', ''video.publish'']"
| "scopes_for Instagram = [''instagram_business_basic'', ''instagram_business_content_publish'']"
| "scopes_for TwitterX = [''users.read'', ''tweet.write'', ''media.write'', ''offline.access'']"

definition upper_hex_digit :: "nat \<Rightarrow> char" where
  "upper_hex_digit v =
     (if v \<le> 9 then char_of (48 + v) else if v \<le> 15 then char_of (65 + v - 10) else CHR ''?'')"

definition unreserved :: "char \<Rightarrow> bool" where
  "unreserved c \<longleftrightarrow>
     (let b = (of_char c :: nat) in
      65 \<le> b \<and> b \<le> 90 \<or> 97 \<le> b \<and> b \<le> 122 \<or> 48 \<le> b \<and> b \<le> 57
        \<or> c \<in> {CHR ''-'', CHR ''.'', CHR ''_'', CHR ''~''})"

fun percent_encode :: "string \<Rightarrow> string" where
  "percent_encode [] = []"
| "percent_encode (c # cs) =
     (if unreserved c then c # percent_encode cs
      else CHR ''%'' # upper_hex_digit (of_char c div 16) # upper_hex_digit (of_char c mod 16)
             # percent_encode cs)"

definition pkce_s256_challenge :: "digests \<Rightarrow> string \<Rightarrow> string" where
  "pkce_s256_challenge d verifier = base64_url_safe_no_pad d (sha256 d verifier)"

definition authorization_params ::
  "digests \<Rightarrow> provider \<Rightarrow> oauth_provider_config \<Rightarrow> string \<Rightarrow> string list \<Rightarrow> (string \<times> string) list" where
  "authorization_params d p config raw_state scopes =
     (let scope_separator = (case p of YouTube \<Rightarrow> '' '' | TwitterX \<Rightarrow> '' '' | TikTok \<Rightarrow> '',''
                             | Instagram \<Rightarrow> '','');
          scope = join scope_separator scopes;
          client_key = (case p of TikTok \<Rightarrow> ''client_key'' | _ \<Rightarrow> ''client_id'')
      in [(client_key, opc_client_id config), (''redirect_uri'', opc_redirect_uri config),
          (''response_type'', ''code''), (''scope'', scope), (''state'', raw_state)]
         @ (if p = YouTube then [(''access_type'', ''offline''), (''prompt'', ''consent'')] else [])
         @ (if p = TwitterX then [(''code_challenge'', pkce_s256_challenge d raw_state),
                                  (''code_challenge_method'', ''S256'')] else [])
         @ (if p = Instagram then [(''force_reauth'', ''true'')] else []))"

fun base_url_of :: "provider \<Rightarrow> string" where
  "base_url_of YouTube = ''https://accounts.google.com/o/oauth2/v2/auth''"
| "base_url_of TikTok = ''https://www.tiktok.com/v2/auth/authorize/''"
| "base_url_of Instagram = ''https://www.instagram.com/oauth/authorize''"
| "base_url_of TwitterX = ''https://twitter.com/i/oauth2/authorize''"

definition encode_query :: "(string \<times> string) list \<Rightarrow> string" where
  "encode_query params =
     join ''&'' (map (\<lambda>(key, value). percent_encode key @ ''='' @ percent_encode value) params)"

definition authorization_url ::
  "digests \<Rightarrow> provider \<Rightarrow> oauth_provider_config \<Rightarrow> string \<Rightarrow> string list \<Rightarrow> string" where
  "authorization_url d p config raw_state scopes =
     base_url_of p @ ''?'' @ encode_query (authorization_params d p config raw_state scopes)"

definition begin_provider_oauth ::
  "digests \<Rightarrow> string \<Rightarrow> owner_ref \<Rightarrow> provider \<Rightarrow> oauth_provider_config \<Rightarrow> string \<Rightarrow> string \<Rightarrow> i64 \<Rightarrow> i64
    \<Rightarrow> oauth_authorize_request" where
  "begin_provider_oauth d ident owner p config raw_state return_to created_at expires_at =
     (let scopes = scopes_for p;
          connection = oauth_connection_start d ident owner p raw_state scopes return_to created_at
            expires_at
      in \<lparr>oar_connection = connection,
          oar_authorization_url = authorization_url d p config raw_state scopes\<rparr>)"

section \<open>Reading it back\<close>

definition from_hex_digit :: "char \<Rightarrow> nat" where
  "from_hex_digit c = (let b = (of_char c :: nat) in if b \<le> 57 then b - 48 else b - 65 + 10)"

fun percent_decode :: "string \<Rightarrow> string" where
  "percent_decode (c # h # l # cs) =
     (if c = CHR ''%'' then char_of (from_hex_digit h * 16 + from_hex_digit l) # percent_decode cs
      else c # percent_decode (h # l # cs))"
| "percent_decode [c, h] = [c, h]"
| "percent_decode [c] = [c]"
| "percent_decode [] = []"

lemma upper_hex_digit_value: "n < 16 \<Longrightarrow> from_hex_digit (upper_hex_digit n) = n"
  by (auto simp: from_hex_digit_def upper_hex_digit_def Let_def)

lemma char_from_nibbles: "char_of (of_char c div 16 * 16 + of_char c mod 16 :: nat) = (c :: char)"
  by simp

lemma nibbles_bound: "(of_char (c :: char) :: nat) div 16 < 16" "(of_char c :: nat) mod 16 < 16"
  using nat_of_char_less_256 [of c] by (simp_all add: less_mult_imp_div_less)

lemma percent_decode_plain: "c \<noteq> CHR ''%'' \<Longrightarrow> percent_decode (c # cs) = c # percent_decode cs"
  by (cases cs; cases "tl cs") auto

lemma unreserved_not_percent: "unreserved c \<Longrightarrow> c \<noteq> CHR ''%''"
  by (auto simp: unreserved_def Let_def)

lemma percent_decode_encode [simp]: "percent_decode (percent_encode s) = s"
proof (induction s)
  case Nil
  then show ?case by simp
next
  case (Cons c s)
  then show ?case
    by (simp add: percent_decode_plain unreserved_not_percent upper_hex_digit_value nibbles_bound
        char_from_nibbles)
qed

lemma upper_hex_digit_unreserved: "n < 16 \<Longrightarrow> unreserved (upper_hex_digit n)"
  by (auto simp: unreserved_def upper_hex_digit_def Let_def)

lemma percent_encode_alphabet: "c \<in> set (percent_encode s) \<Longrightarrow> unreserved c \<or> c = CHR ''%''"
  by (induction s) (auto simp: upper_hex_digit_unreserved nibbles_bound split: if_splits)

lemma percent_encode_safe: "CHR ''&'' \<notin> set (percent_encode s)" "CHR ''='' \<notin> set (percent_encode s)"
  "CHR ''?'' \<notin> set (percent_encode s)" "CHR ''#'' \<notin> set (percent_encode s)"
  "CHR '' '' \<notin> set (percent_encode s)"
  using percent_encode_alphabet [of "CHR ''&''" s] percent_encode_alphabet [of "CHR ''=''" s]
    percent_encode_alphabet [of "CHR ''?''" s] percent_encode_alphabet [of "CHR ''#''" s]
    percent_encode_alphabet [of "CHR '' ''" s]
  by (auto simp: unreserved_def)

definition parse_pair :: "string \<Rightarrow> string \<times> string" where
  "parse_pair p =
     (percent_decode (takeWhile (\<lambda>c. c \<noteq> CHR ''='') p),
      percent_decode (tl (dropWhile (\<lambda>c. c \<noteq> CHR ''='') p)))"

definition parse_query :: "string \<Rightarrow> (string \<times> string) list" where
  "parse_query q = map parse_pair (split_on CHR ''&'' q)"

lemma split_on_join:
  assumes "ps \<noteq> []" and "\<forall>p \<in> set ps. d \<notin> set p"
  shows "split_on d (join [d] ps) = ps"
proof -
  have one: "d \<notin> set p \<Longrightarrow> split_on d p = [p]" for p
    by (induction p) auto
  have more: "d \<notin> set p \<Longrightarrow> split_on d (p @ d # r) = p # split_on d r" for p r
    by (induction p) auto
  from assms show ?thesis
  proof (induction ps rule: list_nonempty_induct)
    case (single p)
    then show ?case by (simp add: join_def one)
  next
    case (cons p ps)
    then show ?case by (simp add: join_Cons more)
  qed
qed

lemma split_at_delim:
  "d \<notin> set xs \<Longrightarrow> takeWhile (\<lambda>c. c \<noteq> d) (xs @ d # r) = xs"
  "d \<notin> set xs \<Longrightarrow> dropWhile (\<lambda>c. c \<noteq> d) (xs @ d # r) = d # r"
  by (induction xs) auto

lemma parse_pair_encode: "parse_pair (percent_encode k @ ''='' @ percent_encode v) = (k, v)"
  using split_at_delim [OF percent_encode_safe(2)] by (simp add: parse_pair_def)

lemma parse_encode_query:
  assumes "params \<noteq> []"
  shows "parse_query (encode_query params) = params"
proof -
  let ?enc = "\<lambda>(key, value). percent_encode key @ ''='' @ percent_encode value"
  have "split_on CHR ''&'' (join ''&'' (map ?enc params)) = map ?enc params"
    using assms percent_encode_safe(1) by (intro split_on_join) auto
  then show ?thesis
    by (simp add: parse_query_def encode_query_def comp_def case_prod_beta parse_pair_encode
        del: append_Cons)
qed

lemma encode_query_safe: "c \<in> {CHR ''?'', CHR ''#'', CHR '' ''} \<Longrightarrow> c \<notin> set (encode_query params)"
  using percent_encode_safe(3-5)
  by (auto simp: encode_query_def join_def split: list.split)

text \<open>The authorization URL says exactly what was asked. Whatever bytes the client id, the redirect
  address and the raw state contain, a standard query parser reads back the provider's parameters,
  each with its exact value: in particular the state that guards against forged callbacks arrives
  unchanged, and no value can smuggle in another parameter or a fragment.\<close>

theorem authorization_url_round_trip:
  "\<exists>q. authorization_url d p config raw_state scopes = base_url_of p @ ''?'' @ q
    \<and> parse_query q = authorization_params d p config raw_state scopes
    \<and> map_of (parse_query q) ''state'' = Some raw_state
    \<and> map_of (parse_query q) ''redirect_uri'' = Some (opc_redirect_uri config)
    \<and> CHR ''#'' \<notin> set q \<and> CHR ''?'' \<notin> set q"
proof -
  let ?ps = "authorization_params d p config raw_state scopes"
  have ne: "?ps \<noteq> []" by (simp add: authorization_params_def Let_def)
  have "map_of ?ps ''state'' = Some raw_state"
    "map_of ?ps ''redirect_uri'' = Some (opc_redirect_uri config)"
    by (cases p; simp add: authorization_params_def Let_def)+
  then show ?thesis
    by (intro exI [of _ "encode_query ?ps"])
      (simp add: authorization_url_def parse_encode_query [OF ne] encode_query_safe)
qed

end
