(* ===== verification/Accounts_Teams.thy ===== *)
theory Accounts_Teams
  imports Social_Store_Props Token OAuth_Url
begin

text \<open>
  \<open>crates/social/src/account_service.rs\<close> and \<open>team_service.rs\<close>: connecting an account
  through OAuth, and what the members of a workspace may do.
\<close>

section \<open>Accounts\<close>

record complete_oauth_input =
  coi_oauth_connection_id :: string
  coi_raw_state :: string
  coi_connected_account :: connected_account
  coi_token_bundle :: provider_token_bundle
  coi_access_token :: string
  coi_refresh_token :: "string option"
  coi_now :: i64

datatype account_service_error =
    AS_Store store_error
  | AS_InvalidOAuthCallback
  | AS_OAuthAccountMismatch

type_synonym 'a account_op = "(social_store, account_service_error, 'a) op"

definition start_oauth ::
  "digests \<Rightarrow> string \<Rightarrow> owner_ref \<Rightarrow> provider \<Rightarrow> oauth_provider_config \<Rightarrow> string \<Rightarrow> string \<Rightarrow> i64 \<Rightarrow> i64
    \<Rightarrow> oauth_authorize_request account_op" where
  "start_oauth d ident owner p config raw_state return_to created_at expires_at =
     (let request = begin_provider_oauth d ident owner p config raw_state return_to created_at expires_at
      in bind_op (write_op AS_Store (save_oauth_connection (oar_connection request)))
           (\<lambda>_. return request))"

definition complete_oauth ::
  "digests \<Rightarrow> cipher \<Rightarrow> string \<times> string \<Rightarrow> key_provider \<Rightarrow> complete_oauth_input
    \<Rightarrow> connected_account account_op" where
  "complete_oauth d ci nonces kp inp =
     bind_op (read_op AS_Store (get_oauth_connection (coi_oauth_connection_id inp))) (\<lambda>connection.
     ensure (validate_callback d connection (coi_raw_state inp) (coi_now inp) = Inr ())
       AS_InvalidOAuthCallback (
     let given = coi_connected_account inp; bundle = coi_token_bundle inp
     in ensure (ca_owner given = oc_owner connection
           \<and> ca_provider given = oc_provider connection
           \<and> ptb_provider bundle = oc_provider connection
           \<and> ca_provider_account_id given = ptb_provider_account_id bundle)
          AS_OAuthAccountMismatch (
        let account = given\<lparr>ca_scopes := ptb_scopes bundle,
              ca_last_verified_at := Some (coi_now inp), ca_updated_at := coi_now inp\<rparr>
        in bind_op (from_result (map_err (\<lambda>e. AS_Store (SE_Storage (token_error_to_string e)))
               (token_secret_encrypt ci nonces (ca_id account) (coi_access_token inp)
                  (coi_refresh_token inp) kp (coi_now inp)))) (\<lambda>secret0.
           let secret = secret0\<lparr>
                 ts_access_token_expires_at := Some (ptb_access_token_expires_at bundle),
                 ts_refresh_token_expires_at := ptb_refresh_token_expires_at bundle\<rparr>
           in bind_op (write_op AS_Store (save_connected_account account)) (\<lambda>_.
              bind_op (write_op AS_Store (save_token_secret secret)) (\<lambda>_.
              bind_op (write_op AS_Store
                  (update_oauth_status (coi_oauth_connection_id inp) OAuth_Completed)) (\<lambda>_.
              return account)))))))"

definition list_accounts :: "owner_ref \<Rightarrow> connected_account list account_op" where
  "list_accounts owner = read_op AS_Store (connected_accounts_for_owner owner)"

definition disconnect_account :: "string \<Rightarrow> owner_ref \<Rightarrow> i64 \<Rightarrow> connected_account account_op" where
  "disconnect_account i owner now = write_op AS_Store (disable_connected_account i owner now)"

section \<open>Teams\<close>

fun role_allows_action :: "team_role \<Rightarrow> team_action \<Rightarrow> bool" where
  "role_allows_action Role_Owner _ = True"
| "role_allows_action Role_Admin _ = True"
| "role_allows_action Role_Publisher action =
     (action \<in> {SchedulePublish, CancelPublish, RetryPublish})"
| "role_allows_action Role_Viewer _ = False"

fun can_perform :: "owner_ref \<Rightarrow> string \<Rightarrow> team_action \<Rightarrow> workspace_member_role list \<Rightarrow> bool" where
  "can_perform (User user_id) actor_user_id action roles = (user_id = actor_user_id)"
| "can_perform (Workspace workspace_id) actor_user_id action roles =
     list_ex (\<lambda>role. wmr_workspace_id role = workspace_id \<and> wmr_user_id role = actor_user_id
                \<and> role_allows_action (wmr_role role) action) roles"

datatype team_service_error = TS_Store store_error | TS_OwnerMismatch

type_synonym 'a team_op = "(social_store, team_service_error, 'a) op"

definition team_save_account_defaults ::
  "owner_ref \<Rightarrow> account_publish_defaults \<Rightarrow> account_publish_defaults team_op" where
  "team_save_account_defaults owner defaults =
     bind_op (read_op TS_Store (get_connected_account (apd_connected_account_id defaults))) (\<lambda>account.
     ensure (ca_owner account = owner) TS_OwnerMismatch (
     bind_op (write_op TS_Store (save_account_publish_defaults defaults)) (\<lambda>_.
     return defaults)))"

definition team_account_defaults :: "owner_ref \<Rightarrow> string \<Rightarrow> account_publish_defaults team_op" where
  "team_account_defaults owner i =
     bind_op (read_op TS_Store (get_connected_account i)) (\<lambda>account.
     ensure (ca_owner account = owner) TS_OwnerMismatch (
     read_op TS_Store (get_account_publish_defaults i)))"

fun events_for_jobs :: "publish_job list \<Rightarrow> publish_job_event list team_op" where
  "events_for_jobs [] = return []"
| "events_for_jobs (job # jobs) =
     bind_op (read_op TS_Store (get_publish_job_events (pj_id job))) (\<lambda>es.
     bind_op (events_for_jobs jobs) (\<lambda>rest. return (es @ rest)))"

fun count_step :: "publish_job_status_counts \<Rightarrow> publish_job \<Rightarrow> publish_job_status_counts" where
  "count_step c job =
     (case pj_status job of
        Scheduled \<Rightarrow> c\<lparr>count_scheduled := count_scheduled c + 1\<rparr>
      | Processing \<Rightarrow> c\<lparr>count_processing := count_processing c + 1\<rparr>
      | Published \<Rightarrow> c\<lparr>count_published := count_published c + 1\<rparr>
      | Failed \<Rightarrow> c\<lparr>count_failed := count_failed c + 1\<rparr>
      | RequiresAction \<Rightarrow> c\<lparr>count_requires_action := count_requires_action c + 1\<rparr>
      | _ \<Rightarrow> c)"

definition status_counts :: "publish_job list \<Rightarrow> publish_job_status_counts" where
  "status_counts jobs =
     foldl count_step
       \<lparr>count_scheduled = 0, count_processing = 0, count_published = 0, count_failed = 0,
        count_requires_action = 0\<rparr> jobs"

definition account_usage_audit_of :: "owner_ref \<Rightarrow> string \<Rightarrow> account_usage_audit team_op" where
  "account_usage_audit_of owner i =
     bind_op (read_op TS_Store (get_connected_account i)) (\<lambda>account.
     ensure (ca_owner account = owner) TS_OwnerMismatch (
     bind_op (read_op TS_Store (publish_jobs_for_account i)) (\<lambda>jobs.
     bind_op (events_for_jobs jobs) (\<lambda>es.
     return \<lparr>aua_connected_account_id = i, aua_owner = owner, aua_jobs = jobs, aua_events = es,
             aua_status_counts = status_counts jobs\<rparr>))))"

section \<open>The policy\<close>

text \<open>The least role an action needs.\<close>

fun required_role :: "team_action \<Rightarrow> team_role" where
  "required_role ConnectAccount = Role_Admin"
| "required_role DisconnectAccount = Role_Admin"
| "required_role SchedulePublish = Role_Publisher"
| "required_role CancelPublish = Role_Publisher"
| "required_role RetryPublish = Role_Publisher"

lemma role_allows_action_iff: "role_allows_action role action \<longleftrightarrow> required_role action \<le> role"
  by (cases role; cases action) (simp_all add: less_eq_team_role_def)

text \<open>The team policy is a threshold on roles. A personal account obeys its user only; in a workspace
  an action is allowed exactly when the actor holds, in that very workspace, a role at least as
  high as the action needs (publishing needs a publisher, connecting and disconnecting accounts an
  admin). Hence a promotion never takes a right away, and roles elsewhere give none.\<close>

theorem team_policy_threshold:
  "can_perform owner actor action roles \<longleftrightarrow>
     (case owner of
        User u \<Rightarrow> u = actor
      | Workspace w \<Rightarrow>
          \<exists>role \<in> set roles. wmr_workspace_id role = w \<and> wmr_user_id role = actor
            \<and> required_role action \<le> wmr_role role)"
  by (cases owner) (auto simp: list_ex_iff role_allows_action_iff)

lemma events_for_jobs_run: "events_for_jobs jobs s = (Inr (concat (map (\<lambda>j. events_of s (pj_id j)) jobs)), s)"
  by (induction jobs) (simp_all add: monad_defs store_reads)

lemma status_counts_gen:
  "foldl count_step c jobs =
     \<lparr>count_scheduled = count_scheduled c + length (filter (\<lambda>j. pj_status j = Scheduled) jobs),
      count_processing = count_processing c + length (filter (\<lambda>j. pj_status j = Processing) jobs),
      count_published = count_published c + length (filter (\<lambda>j. pj_status j = Published) jobs),
      count_failed = count_failed c + length (filter (\<lambda>j. pj_status j = Failed) jobs),
      count_requires_action =
        count_requires_action c + length (filter (\<lambda>j. pj_status j = RequiresAction) jobs)\<rparr>"
  by (induction jobs arbitrary: c) (simp_all split: publish_job_status.split)

section \<open>Completing an authorization\<close>

definition completed_account :: "complete_oauth_input \<Rightarrow> connected_account" where
  "completed_account inp =
     (coi_connected_account inp)\<lparr>ca_scopes := ptb_scopes (coi_token_bundle inp),
        ca_last_verified_at := Some (coi_now inp), ca_updated_at := coi_now inp\<rparr>"

definition timed_secret :: "token_secret \<Rightarrow> provider_token_bundle \<Rightarrow> token_secret" where
  "timed_secret secret bundle = secret\<lparr>
     ts_access_token_expires_at := Some (ptb_access_token_expires_at bundle),
     ts_refresh_token_expires_at := ptb_refresh_token_expires_at bundle\<rparr>"

definition callback_matches :: "complete_oauth_input \<Rightarrow> oauth_connection \<Rightarrow> bool" where
  "callback_matches inp connection \<longleftrightarrow>
     ca_owner (coi_connected_account inp) = oc_owner connection
     \<and> ca_provider (coi_connected_account inp) = oc_provider connection
     \<and> ptb_provider (coi_token_bundle inp) = oc_provider connection
     \<and> ca_provider_account_id (coi_connected_account inp) =
         ptb_provider_account_id (coi_token_bundle inp)"

lemma completed_account_id [simp]: "ca_id (completed_account inp) = ca_id (coi_connected_account inp)"
  by (simp add: completed_account_def)

lemma oauth_connections_writes [simp]:
  "oauth_connections (with_secret x s) = oauth_connections s"
  "oauth_connections (with_account a s) = oauth_connections s"
  by (simp_all add: with_secret_def with_account_def)

lemma update_oauth_status_run:
  "bt_get (oauth_connections s) i = Some c \<Longrightarrow>
     update_oauth_status i status s =
       (Inr (c\<lparr>oc_status := status\<rparr>),
        s\<lparr>oauth_connections := bt_insert i (c\<lparr>oc_status := status\<rparr>) (oauth_connections s)\<rparr>)"
  by (simp add: update_oauth_status_def Let_def)

definition oauth_completed ::
  "complete_oauth_input \<Rightarrow> oauth_connection \<Rightarrow> token_secret \<Rightarrow> social_store \<Rightarrow> social_store" where
  "oauth_completed inp connection secret s =
     (with_secret (timed_secret secret (coi_token_bundle inp)) (with_account (completed_account inp) s))
       \<lparr>oauth_connections := bt_insert (coi_oauth_connection_id inp)
          (connection\<lparr>oc_status := OAuth_Completed\<rparr>) (oauth_connections s)\<rparr>"

lemma complete_oauth_run:
  assumes "bt_get (oauth_connections s) (coi_oauth_connection_id inp) = Some connection"
  shows "complete_oauth d ci nonces kp inp s =
    (if validate_callback d connection (coi_raw_state inp) (coi_now inp) \<noteq> Inr ()
       then (Inl AS_InvalidOAuthCallback, s)
     else if \<not> callback_matches inp connection then (Inl AS_OAuthAccountMismatch, s)
     else (case token_secret_encrypt ci nonces (ca_id (coi_connected_account inp)) (coi_access_token inp)
                 (coi_refresh_token inp) kp (coi_now inp) of
             Inl e \<Rightarrow> (Inl (AS_Store (SE_Storage (token_error_to_string e))), s)
           | Inr secret \<Rightarrow>
               if fst (save_connected_account (completed_account inp) s) = Inr ()
               then (Inr (completed_account inp), oauth_completed inp connection secret s)
               else (Inl (AS_Store SE_DuplicateConnectedAccount), s)))"
proof -
  have fold: "(coi_connected_account inp)\<lparr>ca_scopes := ptb_scopes (coi_token_bundle inp),
        ca_last_verified_at := Some (coi_now inp), ca_updated_at := coi_now inp\<rparr> = completed_account inp"
    by (simp add: completed_account_def)
  have upd: "update_oauth_status (coi_oauth_connection_id inp) OAuth_Completed
      (with_secret x (with_account (completed_account inp) s)) =
      (Inr (connection\<lparr>oc_status := OAuth_Completed\<rparr>),
       (with_secret x (with_account (completed_account inp) s))
         \<lparr>oauth_connections := bt_insert (coi_oauth_connection_id inp)
           (connection\<lparr>oc_status := OAuth_Completed\<rparr>) (oauth_connections s)\<rparr>)" for x
    using assms by (simp add: update_oauth_status_run)
  note sv = save_connected_account_cases [of "completed_account inp" s]
  have read: "get_oauth_connection (coi_oauth_connection_id inp) s = Inr connection"
    by (simp add: get_oauth_connection_def ok_or_def assms)
  show ?thesis
    using sv
    by (elim disjE conjE)
      (simp_all add: complete_oauth_def read fold Let_def guard_op_bind callback_matches_def
        map_err_def store_writes upd oauth_completed_def
        timed_secret_def fail_def return_def split: sum.split)
qed

lemma timed_secret_decrypts [simp]:
  "decrypt_access_token ci (timed_secret x b) kp = decrypt_access_token ci x kp"
  "decrypt_refresh_token ci (timed_secret x b) kp = decrypt_refresh_token ci x kp"
  by (simp_all add: timed_secret_def decrypt_access_token_def decrypt_refresh_token_def)

lemma encrypt_account:
  "token_secret_encrypt ci nonces acct access refresh kp now = Inr x \<Longrightarrow>
     ts_connected_account_id x = acct"
  by (auto simp: token_secret_encrypt_def rbind_eq_Inr)

lemma oauth_completed_reads [simp]:
  "account_of (oauth_completed inp c x s) i =
     (if i = ca_id (coi_connected_account inp) then Some (completed_account inp) else account_of s i)"
  "bt_get (oauth_connections (oauth_completed inp c x s)) i =
     (if i = coi_oauth_connection_id inp then Some (c\<lparr>oc_status := OAuth_Completed\<rparr>)
      else bt_get (oauth_connections s) i)"
  "bt_get (token_secrets (oauth_completed inp c x s)) i =
     (if i = ts_connected_account_id x then Some (timed_secret x (coi_token_bundle inp))
      else bt_get (token_secrets s) i)"
  by (simp_all add: oauth_completed_def timed_secret_def)

text \<open>Completing an authorization. It succeeds only for a session that was started and not yet
  used, before its deadline, with the state whose digest the session keeps, and only when account,
  bundle and session agree on owner, provider and provider account. Then the account is stored with
  the granted scopes, its tokens decrypt under the key to the ones received, and the session is
  closed: whoever presents the same session again, with whatever state, is refused. A failure leaves
  the store as it was.\<close>

theorem complete_oauth_sound:
  assumes "cipher_laws ci" and "length (fst nonces) = 12" and "length (snd nonces) = 12"
    and "utf8_valid (coi_access_token inp)"
    and "\<And>r. coi_refresh_token inp = Some r \<Longrightarrow> utf8_valid r"
    and "complete_oauth d ci nonces kp inp s = (result, t)"
  shows "case result of
      Inl _ \<Rightarrow> t = s
    | Inr account \<Rightarrow>
        (\<exists>c. bt_get (oauth_connections s) (coi_oauth_connection_id inp) = Some c
           \<and> oc_status c = OAuth_Started \<and> coi_now inp \<le> oc_expires_at c
           \<and> oc_state_hash c = hash_state d (coi_raw_state inp)
           \<and> ca_owner account = oc_owner c \<and> ca_provider account = oc_provider c)
        \<and> account_of t (ca_id account) = Some account
        \<and> ca_scopes account = ptb_scopes (coi_token_bundle inp)
        \<and> ca_provider_account_id account = ptb_provider_account_id (coi_token_bundle inp)
        \<and> (\<exists>x. bt_get (token_secrets t) (ca_id account) = Some x
             \<and> decrypt_access_token ci x kp = Inr (coi_access_token inp)
             \<and> decrypt_refresh_token ci x kp = Inr (coi_refresh_token inp))
        \<and> (\<forall>ci' nonces' kp' inp'. coi_oauth_connection_id inp' = coi_oauth_connection_id inp \<longrightarrow>
             complete_oauth d ci' nonces' kp' inp' t = (Inl AS_InvalidOAuthCallback, t))"
proof (cases "bt_get (oauth_connections s) (coi_oauth_connection_id inp)")
  case None
  with assms(6) show ?thesis
    by (auto simp: complete_oauth_def read_op_bind get_oauth_connection_def ok_or_def)
next
  case (Some c)
  note run = assms(6) [unfolded complete_oauth_run [OF Some]]
  show ?thesis
  proof (cases result)
    case (Inl e)
    with run show ?thesis by (auto split: if_splits sum.splits)
  next
    case (Inr account)
    from run Inr obtain x where v: "validate_callback d c (coi_raw_state inp) (coi_now inp) = Inr ()"
      and m: "callback_matches inp c"
      and enc: "token_secret_encrypt ci nonces (ca_id (coi_connected_account inp)) (coi_access_token inp)
        (coi_refresh_token inp) kp (coi_now inp) = Inr x"
      and acc: "account = completed_account inp" and t: "t = oauth_completed inp c x s"
      by (auto split: if_splits sum.splits)
    have dec: "decrypt_access_token ci x kp = Inr (coi_access_token inp)"
      "decrypt_refresh_token ci x kp = Inr (coi_refresh_token inp)"
      using decrypt_encrypt [OF assms(1-5) enc] by simp_all
    have again: "complete_oauth d ci' nonces' kp' inp' t = (Inl AS_InvalidOAuthCallback, t)"
      if "coi_oauth_connection_id inp' = coi_oauth_connection_id inp" for ci' nonces' kp' inp'
    proof -
      have "bt_get (oauth_connections t) (coi_oauth_connection_id inp') =
          Some (c\<lparr>oc_status := OAuth_Completed\<rparr>)" using that by (simp add: t)
      from complete_oauth_run [OF this] show ?thesis by (simp add: validate_callback_def)
    qed
    have "\<exists>y. bt_get (token_secrets t) (ca_id account) = Some y
        \<and> decrypt_access_token ci y kp = Inr (coi_access_token inp)
        \<and> decrypt_refresh_token ci y kp = Inr (coi_refresh_token inp)"
      using dec encrypt_account [OF enc] by (simp add: acc t)
    moreover have "account_of t (ca_id account) = Some account" by (simp add: acc t)
    moreover have "ca_scopes account = ptb_scopes (coi_token_bundle inp)"
      "ca_owner account = oc_owner c" "ca_provider account = oc_provider c"
      "ca_provider_account_id account = ptb_provider_account_id (coi_token_bundle inp)"
      using m by (simp_all add: acc completed_account_def callback_matches_def)
    moreover have "oc_status c = OAuth_Started" "coi_now inp \<le> oc_expires_at c"
      "oc_state_hash c = hash_state d (coi_raw_state inp)"
      using v by (simp_all add: validate_callback_Ok matches_state_def)
    ultimately show ?thesis using Some again by (simp add: Inr)
  qed
qed

section \<open>A concrete run\<close>

definition plain_digests :: digests where
  "plain_digests = \<lparr>sha256 = (\<lambda>s. s), base64_url_safe_no_pad = (\<lambda>s. s)\<rparr>"

definition sample_session :: oauth_connection where
  "sample_session =
     oauth_connection_start plain_digests ''o'' (User ''ann'') TikTok ''st'' [] ''/'' 10 600"

definition sample_callback :: complete_oauth_input where
  "sample_callback =
     \<lparr>coi_oauth_connection_id = ''o'', coi_raw_state = ''st'',
      coi_connected_account =
        \<lparr>ca_id = ''a'', ca_owner = User ''ann'', ca_provider = TikTok, ca_provider_account_id = ''x'',
         ca_display_name = ''x'', ca_handle = None, ca_avatar_url = None, ca_account_kind = Creator,
         ca_status = Connected, ca_scopes = [],
         ca_capabilities = \<lparr>native_scheduling = False, queue_scheduling = True, upload_video = True,
           upload_thumbnail = False, public_posting = True, requires_user_consent = True\<rparr>,
         ca_eligibility = eligibility_eligible, ca_last_verified_at = None, ca_created_at = 11,
         ca_updated_at = 11\<rparr>,
      coi_token_bundle =
        \<lparr>ptb_provider = TikTok, ptb_provider_account_id = ''x'', ptb_scopes = [''video.publish''],
         ptb_access_token_expires_at = 3600, ptb_refresh_token_expires_at = None\<rparr>,
      coi_access_token = ''tok'', coi_refresh_token = None, coi_now = 20\<rparr>"

theorem complete_oauth_sound_witness:
  "\<exists>account t. complete_oauth plain_digests plain_cipher (replicate 12 CHR ''n'', replicate 12 CHR ''m'')
      sample_key sample_callback (snd (save_oauth_connection sample_session store_default))
      = (Inr account, t)
    \<and> ca_scopes account = [''video.publish'']
    \<and> complete_oauth plain_digests plain_cipher (replicate 12 CHR ''n'', replicate 12 CHR ''m'')
        sample_key sample_callback t = (Inl AS_InvalidOAuthCallback, t)"
proof -
  let ?s = "snd (save_oauth_connection sample_session store_default)"
  let ?ns = "(replicate 12 CHR ''n'', replicate 12 CHR ''m'')"
  have id: "oc_id sample_session = ''o''"
    by (simp add: sample_session_def oauth_connection_start_def)
  have c: "bt_get (oauth_connections ?s) (coi_oauth_connection_id sample_callback) = Some sample_session"
    by (simp add: save_oauth_connection_def id sample_callback_def)
  have "\<exists>account t. complete_oauth plain_digests plain_cipher ?ns sample_key sample_callback ?s
      = (Inr account, t)"
    unfolding complete_oauth_run [OF c]
    by (simp add: validate_callback_def sample_session_def oauth_connection_start_def sample_callback_def
        matches_state_def callback_matches_def token_secret_encrypt_def aead_seal_def check_key_def
        monad_defs sample_key_def plain_cipher_def save_connected_account_def save_oauth_connection_def
        store_default_def bt_values_def completed_account_def)
  then obtain account t where run: "complete_oauth plain_digests plain_cipher ?ns sample_key
      sample_callback ?s = (Inr account, t)" by blast
  have utf: "utf8_valid (coi_access_token sample_callback)"
    "coi_refresh_token sample_callback = Some r \<Longrightarrow> utf8_valid r" for r
    by (simp_all add: sample_callback_def utf8_valid_def byte_in_def)
  have len: "length (fst ?ns) = 12" "length (snd ?ns) = 12" by simp_all
  from complete_oauth_sound [OF plain_cipher_laws len utf run]
  have "ca_scopes account = ptb_scopes (coi_token_bundle sample_callback)"
    and "complete_oauth plain_digests plain_cipher ?ns sample_key sample_callback t =
      (Inl AS_InvalidOAuthCallback, t)" by simp_all
  with run show ?thesis
    by (intro exI [of _ account] exI [of _ t]) (simp add: sample_callback_def)
qed

text \<open>The usage audit of an account is for its owner only, never changes the store, and reports
  exactly the account's jobs with their histories in order and the number of jobs in each of the
  counted states.\<close>

theorem account_usage_audit_exact:
  "account_usage_audit_of owner i s =
     (case account_of s i of
        None \<Rightarrow> (Inl (TS_Store SE_NotFound), s)
      | Some a \<Rightarrow>
          if ca_owner a \<noteq> owner then (Inl TS_OwnerMismatch, s)
          else
            let jobs = filter (\<lambda>j. pj_connected_account_id j = i) (bt_values (publish_jobs s));
                number = (\<lambda>st. length (filter (\<lambda>j. pj_status j = st) jobs))
            in (Inr \<lparr>aua_connected_account_id = i, aua_owner = owner, aua_jobs = jobs,
                     aua_events = concat (map (\<lambda>j. events_of s (pj_id j)) jobs),
                     aua_status_counts =
                       \<lparr>count_scheduled = number Scheduled, count_processing = number Processing,
                        count_published = number Published, count_failed = number Failed,
                        count_requires_action = number RequiresAction\<rparr>\<rparr>, s))"
  by (simp add: account_usage_audit_of_def read_op_bind guard_op_bind store_reads ok_or_def
      publish_jobs_for_account_def bind_op_def [of "events_for_jobs _"] events_for_jobs_run
      status_counts_def status_counts_gen return_def Let_def split: option.split)

end
