(* ===== verification/Token_Refresh.thy ===== *)
theory Token_Refresh
  imports Accounts_Teams
begin

text \<open>
  The refresh service of \<open>crates/social/src/token_refresh.rs\<close>. The exchange with the provider
  is the trait \<open>OAuthTokenExchange\<close>: a function from its input to its result. Logging is left out.
\<close>

record token_exchange_input =
  tei_provider :: provider
  tei_code :: string
  tei_redirect_uri :: string
  tei_code_verifier :: "string option"

record token_exchange_output =
  teo_access_token :: string
  teo_refresh_token :: "string option"
  teo_token_response :: oauth_token_response
  teo_display_name :: "string option"

datatype oauth_exchange_error =
    OX_Http string
  | OX_InvalidResponse string
  | OX_ChannelResolutionFailed string
  | OX_InvalidGrant string

type_synonym token_exchange = "token_exchange_input \<Rightarrow> oauth_exchange_error + token_exchange_output"

datatype refresh_error =
    RE_Store store_error
  | RE_NoRefreshToken
  | RE_Exchange oauth_exchange_error
  | RE_TokenBundle token_bundle_error
  | RE_Encrypt token_error

type_synonym 'a refresh_op = "(social_store, refresh_error, 'a) op"

definition ensure_fresh_access_token ::
  "cipher \<Rightarrow> string \<times> string \<Rightarrow> key_provider \<Rightarrow> token_exchange \<Rightarrow> string \<Rightarrow> provider \<Rightarrow> string \<Rightarrow> i64 \<Rightarrow> i64
    \<Rightarrow> bool refresh_op" where
  "ensure_fresh_access_token ci nonces kp exchange account_id p redirect_uri deadline now =
     bind_op (read_op RE_Store (token_secret_for_account account_id)) (\<lambda>secret.
     let expires_at = (case ts_access_token_expires_at secret of None \<Rightarrow> i64_max | Some e \<Rightarrow> e)
     in if expires_at > deadline then return False
        else
          bind_op (from_result (map_err RE_Encrypt (decrypt_refresh_token ci secret kp))) (\<lambda>stored.
          bind_op (from_result (ok_or RE_NoRefreshToken stored)) (\<lambda>refresh_token.
          bind_op (from_result (map_err RE_Exchange (exchange
              \<lparr>tei_provider = p, tei_code = refresh_token, tei_redirect_uri = redirect_uri,
               tei_code_verifier = None\<rparr>))) (\<lambda>out.
          bind_op (from_result (map_err RE_TokenBundle
              (bundle_from_oauth_response p (teo_token_response out) now))) (\<lambda>bundle.
          let new_refresh = (case teo_refresh_token out of None \<Rightarrow> [] | Some r \<Rightarrow> r)
          in bind_op (from_result (map_err RE_Encrypt
                 (token_secret_encrypt ci nonces account_id (teo_access_token out)
                    (if new_refresh = [] then None else Some new_refresh) kp now))) (\<lambda>new_secret.
             bind_op (write_op RE_Store (save_token_secret
                 (new_secret\<lparr>
                    ts_access_token_expires_at := Some (ptb_access_token_expires_at bundle),
                    ts_refresh_token_expires_at := ptb_refresh_token_expires_at bundle\<rparr>))) (\<lambda>_.
             return True)))))))"

text \<open>The sweep: errors of single accounts are skipped; \<open>nonces\<close> gives the random nonces of the
  account refreshed.\<close>

fun refresh_each ::
  "cipher \<Rightarrow> (string \<Rightarrow> string \<times> string) \<Rightarrow> key_provider \<Rightarrow> token_exchange \<Rightarrow> provider \<Rightarrow> string \<Rightarrow> i64
    \<Rightarrow> i64 \<Rightarrow> token_secret list \<Rightarrow> usize \<Rightarrow> social_store \<Rightarrow> usize \<times> social_store" where
  "refresh_each ci nonces kp exchange p uri deadline now [] refreshed s = (refreshed, s)"
| "refresh_each ci nonces kp exchange p uri deadline now (secret # rest) refreshed s =
     (if ts_token_version secret \<noteq> TOKEN_VERSION
      then refresh_each ci nonces kp exchange p uri deadline now rest refreshed s
      else
        let account_id = ts_connected_account_id secret
        in case ensure_fresh_access_token ci (nonces account_id) kp exchange account_id p uri
                  deadline now s of
             (Inr True, s') \<Rightarrow> refresh_each ci nonces kp exchange p uri deadline now rest (refreshed + 1) s'
           | (_, s') \<Rightarrow> refresh_each ci nonces kp exchange p uri deadline now rest refreshed s')"

definition refresh_due_secrets ::
  "cipher \<Rightarrow> (string \<Rightarrow> string \<times> string) \<Rightarrow> key_provider \<Rightarrow> token_exchange \<Rightarrow> provider \<Rightarrow> string \<Rightarrow> i64
    \<Rightarrow> i64 \<Rightarrow> social_store \<Rightarrow> usize \<times> social_store" where
  "refresh_due_secrets ci nonces kp exchange p uri deadline now s =
     (case token_secrets_due_refresh deadline s of
        Inl _ \<Rightarrow> (0, s)
      | Inr secrets \<Rightarrow> refresh_each ci nonces kp exchange p uri deadline now secrets 0 s)"

section \<open>One refresh\<close>

definition secret_due :: "i64 \<Rightarrow> token_secret \<Rightarrow> bool" where
  "secret_due deadline x \<longleftrightarrow>
     (case ts_access_token_expires_at x of None \<Rightarrow> i64_max \<le> deadline | Some e \<Rightarrow> e \<le> deadline)"

definition exchange_for :: "provider \<Rightarrow> string \<Rightarrow> string \<Rightarrow> token_exchange_input" where
  "exchange_for p uri r =
     \<lparr>tei_provider = p, tei_code = r, tei_redirect_uri = uri, tei_code_verifier = None\<rparr>"

definition rotated :: "token_exchange_output \<Rightarrow> string option" where
  "rotated out = (if teo_refresh_token out = Some [] then None else teo_refresh_token out)"

lemma ensure_fresh_run:
  assumes "bt_get (token_secrets s) acct = Some x"
  shows "ensure_fresh_access_token ci ns kp exchange acct p uri deadline now s =
    (if \<not> secret_due deadline x then (Inr False, s)
     else case decrypt_refresh_token ci x kp of
       Inl e \<Rightarrow> (Inl (RE_Encrypt e), s)
     | Inr None \<Rightarrow> (Inl RE_NoRefreshToken, s)
     | Inr (Some r) \<Rightarrow>
         (case exchange (exchange_for p uri r) of
            Inl e \<Rightarrow> (Inl (RE_Exchange e), s)
          | Inr out \<Rightarrow>
              (case bundle_from_oauth_response p (teo_token_response out) now of
                 Inl e \<Rightarrow> (Inl (RE_TokenBundle e), s)
               | Inr bundle \<Rightarrow>
                   (case token_secret_encrypt ci ns acct (teo_access_token out) (rotated out) kp now of
                      Inl e \<Rightarrow> (Inl (RE_Encrypt e), s)
                    | Inr y \<Rightarrow> (Inr True, with_secret (timed_secret y bundle) s)))))"
proof -
  have due: "(case ts_access_token_expires_at x of None \<Rightarrow> i64_max | Some e \<Rightarrow> e) > deadline
      \<longleftrightarrow> \<not> secret_due deadline x"
    by (auto simp: secret_due_def split: option.splits)
  have rot: "(if (case teo_refresh_token out of None \<Rightarrow> [] | Some r \<Rightarrow> r) = [] then None
      else Some (case teo_refresh_token out of None \<Rightarrow> [] | Some r \<Rightarrow> r)) = rotated out" for out
    by (auto simp: rotated_def split: option.splits)
  have read: "token_secret_for_account acct s = Inr x"
    by (simp add: store_reads ok_or_def assms)
  show ?thesis
    by (simp add: ensure_fresh_access_token_def read due rot Let_def map_err_def ok_or_def
        store_writes return_def exchange_for_def timed_secret_def split: sum.split option.split)
qed

lemma ensure_fresh_missing:
  "bt_get (token_secrets s) acct = None \<Longrightarrow>
     ensure_fresh_access_token ci ns kp exchange acct p uri deadline now s =
       (Inl (RE_Store SE_NotFound), s)"
  by (simp add: ensure_fresh_access_token_def read_op_bind store_reads ok_or_def)

text \<open>A refresh touches one secret, and only when it must. It reports no refresh and changes nothing
  while the token outlives the deadline; an error changes nothing; a refresh replaces exactly the
  account's secret by one that expires when the provider's answer says and whose access token
  decrypts to the one received.\<close>

theorem ensure_fresh_sound:
  assumes "cipher_laws ci" and "length (fst ns) = 12" and "length (snd ns) = 12"
    and "\<And>i out. exchange i = Inr out \<Longrightarrow> utf8_valid (teo_access_token out)
      \<and> (\<forall>r. teo_refresh_token out = Some r \<longrightarrow> utf8_valid r)"
    and "bt_get (token_secrets s) acct = Some x"
    and "ensure_fresh_access_token ci ns kp exchange acct p uri deadline now s = (result, t)"
  shows "(result = Inr False \<longleftrightarrow> \<not> secret_due deadline x) \<and> (result \<noteq> Inr True \<longrightarrow> t = s)
    \<and> (result = Inr True \<longrightarrow>
        (\<exists>y out. t = with_secret y s \<and> ts_connected_account_id y = acct
           \<and> decrypt_access_token ci y kp = Inr (teo_access_token out)
           \<and> (\<exists>r. decrypt_refresh_token ci x kp = Inr (Some r)
                \<and> exchange (exchange_for p uri r) = Inr out)
           \<and> ts_access_token_expires_at y = Some (now + otr_expires_in (teo_token_response out))))"
proof (cases "result = Inr True")
  case False
  with assms(6) [unfolded ensure_fresh_run [OF assms(5)]] show ?thesis
    by (auto split: if_splits sum.splits option.splits)
next
  case True
  with assms(6) [unfolded ensure_fresh_run [OF assms(5)]] obtain r out "bundle" y where
    due: "secret_due deadline x" and r: "decrypt_refresh_token ci x kp = Inr (Some r)"
    and out: "exchange (exchange_for p uri r) = Inr out"
    and b: "bundle_from_oauth_response p (teo_token_response out) now = Inr bundle"
    and y: "token_secret_encrypt ci ns acct (teo_access_token out) (rotated out) kp now = Inr y"
    and t: "t = with_secret (timed_secret y bundle) s"
    by (auto split: if_splits sum.splits option.splits)
  have utf: "utf8_valid (teo_access_token out)" "rotated out = Some q \<Longrightarrow> utf8_valid q" for q
    using assms(4) [OF out] by (auto simp: rotated_def split: if_splits)
  have "decrypt_access_token ci (timed_secret y bundle) kp = Inr (teo_access_token out)"
    using decrypt_encrypt [OF assms(1-3) utf y] by simp
  moreover have "ptb_access_token_expires_at bundle = now + otr_expires_in (teo_token_response out)"
    using b by (auto simp: bundle_from_oauth_response_def Let_def rbind_eq_Inr ok_or_eq_Inr
        dest!: i64_checked_add_SomeD split: if_splits)
  moreover have "ts_connected_account_id (timed_secret y bundle) = acct"
    using encrypt_account [OF y] by (simp add: timed_secret_def)
  ultimately show ?thesis
    using True due r out t
    by (intro conjI impI) (auto intro!: exI [of _ "timed_secret y bundle"] exI [of _ out]
        simp: timed_secret_def)
qed

text \<open>A refresh can lose the refresh token. When the provider answers without rotating its refresh
  token, which is documented as the usual case in which the old one is to be kept, the stored one is
  dropped: the refresh succeeds, but once the new access token is due no further refresh is possible
  and every attempt ends in \<open>NoRefreshToken\<close>.\<close>

theorem refresh_drops_unrotated_token:
  assumes "bt_get (token_secrets s) acct = Some x"
    and "decrypt_refresh_token ci x kp = Inr (Some r)"
    and "exchange (exchange_for p uri r) = Inr out" and "teo_refresh_token out = None"
    and "ensure_fresh_access_token ci ns kp exchange acct p uri deadline now s = (Inr True, t)"
    and "now + otr_expires_in (teo_token_response out) \<le> later"
  shows "ensure_fresh_access_token ci ns' kp exchange' acct p' uri' later now' t =
    (Inl RE_NoRefreshToken, t)"
proof -
  from assms(1-5) obtain "bundle" y where
    b: "bundle_from_oauth_response p (teo_token_response out) now = Inr bundle"
    and y: "token_secret_encrypt ci ns acct (teo_access_token out) (rotated out) kp now = Inr y"
    and t: "t = with_secret (timed_secret y bundle) s"
    unfolding ensure_fresh_run [OF assms(1)]
    by (auto split: if_splits sum.splits option.splits)
  have none: "rotated out = None" using assms(4) by (simp add: rotated_def)
  have at: "bt_get (token_secrets t) acct = Some (timed_secret y bundle)"
    using encrypt_account [OF y] by (simp add: t timed_secret_def)
  have "ptb_access_token_expires_at bundle = now + otr_expires_in (teo_token_response out)"
    using b by (auto simp: bundle_from_oauth_response_def Let_def rbind_eq_Inr ok_or_eq_Inr
        dest!: i64_checked_add_SomeD split: if_splits)
  then have due: "secret_due later (timed_secret y bundle)"
    using assms(6) by (simp add: secret_due_def timed_secret_def)
  have "decrypt_refresh_token ci (timed_secret y bundle) kp = Inr None"
    using y by (auto simp: none token_secret_encrypt_def rbind_eq_Inr map_transpose_def
        decrypt_refresh_token_def timed_secret_def)
  then show ?thesis unfolding ensure_fresh_run [OF at] using due by simp
qed

section \<open>The sweep\<close>

lemma refresh_each_frame:
  "snd (refresh_each ci nonces kp exchange p uri deadline now xs n s) = t \<Longrightarrow>
     publish_jobs t = publish_jobs s \<and> publish_job_events t = publish_job_events s
     \<and> connected_accounts t = connected_accounts s
     \<and> (\<forall>i. i \<notin> ts_connected_account_id ` set xs \<longrightarrow> bt_get (token_secrets t) i = bt_get (token_secrets s) i)"
proof (induction xs arbitrary: n s)
  case Nil
  then show ?case by auto
next
  case (Cons x xs)
  let ?acct = "ts_connected_account_id x"
  obtain r s' where run: "ensure_fresh_access_token ci (nonces ?acct) kp exchange ?acct p uri deadline now s = (r, s')"
    by fastforce
  have step: "publish_jobs s' = publish_jobs s \<and> publish_job_events s' = publish_job_events s
      \<and> connected_accounts s' = connected_accounts s
      \<and> (\<forall>i. i \<noteq> ?acct \<longrightarrow> bt_get (token_secrets s') i = bt_get (token_secrets s) i)"
  proof (cases "bt_get (token_secrets s) ?acct")
    case None
    with run ensure_fresh_missing show ?thesis by simp
  next
    case (Some y)
    show ?thesis
      using run [unfolded ensure_fresh_run [OF Some]]
      by (auto simp: timed_secret_def dest: encrypt_account split: if_splits sum.splits option.splits)
  qed
  show ?case
  proof (cases "ts_token_version x \<noteq> TOKEN_VERSION")
    case True
    with Cons show ?thesis by auto
  next
    case False
    have "\<exists>m. snd (refresh_each ci nonces kp exchange p uri deadline now xs m s') = t"
      using Cons.prems run False by (auto simp: Let_def split: sum.splits if_splits bool.splits)
    then obtain m where "snd (refresh_each ci nonces kp exchange p uri deadline now xs m s') = t" ..
    from Cons.IH [OF this] step show ?thesis by auto
  qed
qed

text \<open>The sweep stays in its lane. It never touches a job, a history or an account, and of the
  secrets only those whose access token falls due by the deadline; whether single refreshes fail or
  not.\<close>

theorem refresh_due_secrets_frame:
  assumes "store_ok s" and "refresh_due_secrets ci nonces kp exchange p uri deadline now s = (n, t)"
  shows "publish_jobs t = publish_jobs s \<and> publish_job_events t = publish_job_events s
    \<and> connected_accounts t = connected_accounts s
    \<and> (\<forall>i. (\<forall>x e. bt_get (token_secrets s) i = Some x \<and> ts_access_token_expires_at x = Some e
              \<longrightarrow> deadline < e)
        \<longrightarrow> bt_get (token_secrets t) i = bt_get (token_secrets s) i)"
proof -
  let ?due = "filter (\<lambda>x. case ts_access_token_expires_at x of Some e \<Rightarrow> e \<le> deadline | None \<Rightarrow> False)
    (bt_values (token_secrets s))"
  have keyed: "bt_keyed ts_connected_account_id (token_secrets s)"
    using store_ok_tables [OF assms(1)] by (simp add: tables_keyed_def)
  have "snd (refresh_each ci nonces kp exchange p uri deadline now ?due 0 s) = t"
    using assms(2) by (simp add: refresh_due_secrets_def token_secrets_due_refresh_def)
  note frame = refresh_each_frame [OF this]
  have "i \<notin> ts_connected_account_id ` set ?due"
    if "\<forall>x e. bt_get (token_secrets s) i = Some x \<and> ts_access_token_expires_at x = Some e \<longrightarrow> deadline < e" for i
    using that by (fastforce simp: bt_keyed_values [OF keyed] split: option.splits)
  with frame show ?thesis by blast
qed

section \<open>Concrete runs\<close>

definition sample_nonces :: "string \<times> string" where
  "sample_nonces = (replicate 12 CHR ''n'', replicate 12 CHR ''m'')"

definition stored_secret :: token_secret where
  "stored_secret =
     \<lparr>ts_connected_account_id = ''a'',
      ts_encrypted_access_token = fst sample_nonces @ kp_key_material sample_key @ ''old'',
      ts_encrypted_refresh_token = Some (snd sample_nonces @ kp_key_material sample_key @ ''rt''),
      ts_access_token_expires_at = Some 100, ts_refresh_token_expires_at = None,
      ts_token_version = TOKEN_VERSION, ts_kms_key_id = ''key_1'', ts_last_refreshed_at = Some 1\<rparr>"

definition sample_output :: token_exchange_output where
  "sample_output =
     \<lparr>teo_access_token = ''new'', teo_refresh_token = None,
      teo_token_response = \<lparr>otr_provider_account_id = ''x'', otr_scopes = ''s'', otr_expires_in = 3600,
        otr_refresh_expires_in = None\<rparr>, teo_display_name = None\<rparr>"

definition secret_site :: social_store where
  "secret_site = with_secret stored_secret store_default"

lemma secret_site_reads [simp]: "bt_get (token_secrets secret_site) ''a'' = Some stored_secret"
  by (simp add: secret_site_def stored_secret_def)

lemma secret_site_ok: "store_ok secret_site"
  unfolding secret_site_def by (intro store_ok_with_secret store_ok_default)

lemma sample_nonce_lengths: "length (fst sample_nonces) = 12" "length (snd sample_nonces) = 12"
  by (simp_all add: sample_nonces_def)

lemma stored_refresh: "decrypt_refresh_token plain_cipher stored_secret sample_key = Inr (Some ''rt'')"
  by (simp add: decrypt_refresh_token_def stored_secret_def map_transpose_def aead_open_def
      check_key_def sample_key_def plain_cipher_def rbind_def ok_or_def sample_nonces_def
      utf8_valid_def byte_in_def)

lemma sample_refreshes:
  "\<exists>t. ensure_fresh_access_token plain_cipher sample_nonces sample_key (\<lambda>i. Inr sample_output) ''a''
     YouTube ''uri'' 200 150 secret_site = (Inr True, t)"
proof -
  have "secret_due 200 stored_secret" by (simp add: secret_due_def stored_secret_def)
  moreover have "\<exists>b. bundle_from_oauth_response YouTube (teo_token_response sample_output) 150 = Inr b"
    by (simp add: bundle_from_oauth_response_def sample_output_def Let_def rbind_def ok_or_def
        i64_checked_add_def in_i64_def i64_min_def i64_max_def map_transpose_def)
  moreover have "\<exists>y. token_secret_encrypt plain_cipher sample_nonces ''a''
      (teo_access_token sample_output) (rotated sample_output) sample_key 150 = Inr y"
    by (simp add: token_secret_encrypt_def aead_seal_def check_key_def monad_defs sample_key_def
        plain_cipher_def rotated_def sample_output_def)
  ultimately show ?thesis
    unfolding ensure_fresh_run [OF secret_site_reads] by (auto simp: stored_refresh)
qed

theorem ensure_fresh_sound_witness:
  "\<exists>t y. ensure_fresh_access_token plain_cipher sample_nonces sample_key (\<lambda>i. Inr sample_output) ''a''
     YouTube ''uri'' 200 150 secret_site = (Inr True, t) \<and> t = with_secret y secret_site
     \<and> ts_access_token_expires_at y = Some 3750"
proof -
  obtain t where run: "ensure_fresh_access_token plain_cipher sample_nonces sample_key
      (\<lambda>i. Inr sample_output) ''a'' YouTube ''uri'' 200 150 secret_site = (Inr True, t)"
    using sample_refreshes by blast
  have utf: "(\<lambda>i. Inr sample_output) i = Inr out \<Longrightarrow> utf8_valid (teo_access_token out)
      \<and> (\<forall>r. teo_refresh_token out = Some r \<longrightarrow> utf8_valid r)" for i :: token_exchange_input and out
    by (auto simp: sample_output_def utf8_valid_def byte_in_def)
  from ensure_fresh_sound [OF plain_cipher_laws sample_nonce_lengths utf secret_site_reads run]
  have "\<exists>y. t = with_secret y secret_site \<and> ts_access_token_expires_at y = Some 3750"
    by (auto simp: sample_output_def)
  with run show ?thesis by blast
qed

theorem refresh_drops_unrotated_token_witness:
  "\<exists>t. ensure_fresh_access_token plain_cipher sample_nonces sample_key (\<lambda>i. Inr sample_output) ''a''
      YouTube ''uri'' 200 150 secret_site = (Inr True, t)
    \<and> ensure_fresh_access_token plain_cipher sample_nonces sample_key (\<lambda>i. Inr sample_output) ''a''
      YouTube ''uri'' 4000 3900 t = (Inl RE_NoRefreshToken, t)"
proof -
  obtain t where run: "ensure_fresh_access_token plain_cipher sample_nonces sample_key
      (\<lambda>i. Inr sample_output) ''a'' YouTube ''uri'' 200 150 secret_site = (Inr True, t)"
    using sample_refreshes by blast
  have le: "150 + otr_expires_in (teo_token_response sample_output) \<le> 4000"
    and none: "teo_refresh_token sample_output = None" by (simp_all add: sample_output_def)
  from refresh_drops_unrotated_token [OF secret_site_reads stored_refresh refl none run le] run
  show ?thesis by blast
qed

theorem refresh_due_secrets_frame_witness:
  "bt_get (token_secrets (snd (refresh_due_secrets plain_cipher (\<lambda>_. sample_nonces) sample_key
     (\<lambda>i. Inr sample_output) YouTube ''uri'' 50 20 secret_site))) ''a'' = Some stored_secret"
proof -
  obtain n t where run: "refresh_due_secrets plain_cipher (\<lambda>_. sample_nonces) sample_key
      (\<lambda>i. Inr sample_output) YouTube ''uri'' 50 20 secret_site = (n, t)" by fastforce
  have "\<forall>x e. bt_get (token_secrets secret_site) ''a'' = Some x
      \<and> ts_access_token_expires_at x = Some e \<longrightarrow> 50 < e"
    by (simp add: stored_secret_def)
  with refresh_due_secrets_frame [OF secret_site_ok run] show ?thesis by (simp add: run)
qed

end
