(* ===== verification/Eligibility.thy ===== *)
theory Eligibility
  imports Social_Model
begin

text \<open>
  \<open>crates/social/src/eligibility.rs\<close> and \<open>provider.rs\<close>: what an account may do,
  computed from the scopes it granted, and the registry of providers. The \<open>&[&str]\<close> scope
  slices are lists of strings.

  The lemmas relate the two answers the code gives (the eligibility verdict and the capability
  flags), which are computed separately, and show that both only grow with the granted scopes.
\<close>

section \<open>Reports\<close>

record provider_account_profile =
  prof_provider :: provider
  prof_provider_account_id :: string
  prof_display_name :: string
  prof_handle :: "string option"
  prof_avatar_url :: "string option"
  prof_account_kind :: account_kind

record provider_eligibility_report =
  rep_profile :: provider_account_profile
  rep_capabilities :: provider_capabilities
  rep_eligibility :: account_eligibility

definition has_instagram_content_publish_scope :: "string list \<Rightarrow> bool" where
  "has_instagram_content_publish_scope scopes \<longleftrightarrow>
     ''instagram_business_content_publish'' \<in> set scopes
       \<or> ''instagram_content_publish'' \<in> set scopes"

definition youtube_eligibility ::
  "string \<Rightarrow> string \<Rightarrow> string option \<Rightarrow> string list \<Rightarrow> provider_eligibility_report" where
  "youtube_eligibility provider_account_id display_name handle scopes =
     (let has_upload_scope = (''https://www.googleapis.com/auth/youtube.upload'' \<in> set scopes)
      in \<lparr>rep_profile =
            \<lparr>prof_provider = YouTube, prof_provider_account_id = provider_account_id,
             prof_display_name = display_name, prof_handle = handle, prof_avatar_url = None,
             prof_account_kind = Channel\<rparr>,
          rep_capabilities =
            \<lparr>native_scheduling = True, queue_scheduling = True, upload_video = has_upload_scope,
             upload_thumbnail = True, public_posting = has_upload_scope,
             requires_user_consent = False\<rparr>,
          rep_eligibility =
            (if has_upload_scope then eligibility_eligible
             else eligibility_blocked ''missing_youtube_upload_scope'')\<rparr>)"

definition tiktok_eligibility ::
  "string \<Rightarrow> string \<Rightarrow> string list \<Rightarrow> provider_eligibility_report" where
  "tiktok_eligibility provider_account_id display_name scopes =
     (let has_publish = (''video.publish'' \<in> set scopes)
      in \<lparr>rep_profile =
            \<lparr>prof_provider = TikTok, prof_provider_account_id = provider_account_id,
             prof_display_name = display_name, prof_handle = None, prof_avatar_url = None,
             prof_account_kind = Creator\<rparr>,
          rep_capabilities =
            \<lparr>native_scheduling = False, queue_scheduling = True, upload_video = has_publish,
             upload_thumbnail = False, public_posting = has_publish,
             requires_user_consent = True\<rparr>,
          rep_eligibility =
            (if has_publish then eligibility_eligible
             else eligibility_blocked ''missing_video_publish_scope'')\<rparr>)"

definition instagram_eligibility ::
  "string \<Rightarrow> string \<Rightarrow> bool \<Rightarrow> bool \<Rightarrow> provider_eligibility_report" where
  "instagram_eligibility provider_account_id display_name is_professional
     has_content_publish_scope =
     (let eligibility =
        (case (is_professional, has_content_publish_scope) of
           (False, _) \<Rightarrow> eligibility_blocked ''instagram_professional_account_required''
         | (True, False) \<Rightarrow> eligibility_blocked ''missing_instagram_content_publish_scope''
         | (True, True) \<Rightarrow> eligibility_eligible)
      in \<lparr>rep_profile =
            \<lparr>prof_provider = Instagram, prof_provider_account_id = provider_account_id,
             prof_display_name = display_name, prof_handle = None, prof_avatar_url = None,
             prof_account_kind = (if is_professional then Professional else UnknownKind)\<rparr>,
          rep_capabilities =
            \<lparr>native_scheduling = False, queue_scheduling = True,
             upload_video = is_professional \<and> has_content_publish_scope,
             upload_thumbnail = False,
             public_posting = is_professional \<and> has_content_publish_scope,
             requires_user_consent = False\<rparr>,
          rep_eligibility = eligibility\<rparr>)"

definition twitter_x_eligibility ::
  "string \<Rightarrow> string \<Rightarrow> string option \<Rightarrow> string list \<Rightarrow> provider_eligibility_report" where
  "twitter_x_eligibility provider_account_id display_name handle scopes =
     (let has_write_scope = (''tweet.write'' \<in> set scopes \<and> ''media.write'' \<in> set scopes)
      in \<lparr>rep_profile =
            \<lparr>prof_provider = TwitterX, prof_provider_account_id = provider_account_id,
             prof_display_name = display_name, prof_handle = handle, prof_avatar_url = None,
             prof_account_kind = Creator\<rparr>,
          rep_capabilities =
            \<lparr>native_scheduling = False, queue_scheduling = True, upload_video = has_write_scope,
             upload_thumbnail = False, public_posting = has_write_scope,
             requires_user_consent = False\<rparr>,
          rep_eligibility =
            (if has_write_scope then eligibility_eligible
             else eligibility_blocked ''missing_twitter_x_write_scope'')\<rparr>)"

section \<open>The mock adapter\<close>

record mock_provider_adapter =
  mock_provider :: provider
  mock_provider_account_id :: string
  mock_display_name :: string
  mock_handle :: "string option"
  mock_is_professional :: bool

definition mock_youtube :: "string \<Rightarrow> string \<Rightarrow> string \<Rightarrow> mock_provider_adapter" where
  "mock_youtube i name handle =
     \<lparr>mock_provider = YouTube, mock_provider_account_id = i, mock_display_name = name,
      mock_handle = Some handle, mock_is_professional = False\<rparr>"

definition mock_tiktok :: "string \<Rightarrow> string \<Rightarrow> mock_provider_adapter" where
  "mock_tiktok i name =
     \<lparr>mock_provider = TikTok, mock_provider_account_id = i, mock_display_name = name,
      mock_handle = None, mock_is_professional = False\<rparr>"

definition mock_instagram :: "string \<Rightarrow> string \<Rightarrow> bool \<Rightarrow> mock_provider_adapter" where
  "mock_instagram i name is_professional =
     \<lparr>mock_provider = Instagram, mock_provider_account_id = i, mock_display_name = name,
      mock_handle = None, mock_is_professional = is_professional\<rparr>"

definition mock_twitter_x :: "string \<Rightarrow> string \<Rightarrow> string \<Rightarrow> mock_provider_adapter" where
  "mock_twitter_x i name handle =
     \<lparr>mock_provider = TwitterX, mock_provider_account_id = i, mock_display_name = name,
      mock_handle = Some handle, mock_is_professional = False\<rparr>"

definition fetch_capabilities ::
  "mock_provider_adapter \<Rightarrow> string list \<Rightarrow> provider_eligibility_report" where
  "fetch_capabilities a scopes =
     (case mock_provider a of
        YouTube \<Rightarrow> youtube_eligibility (mock_provider_account_id a) (mock_display_name a)
                     (mock_handle a) scopes
      | TikTok \<Rightarrow> tiktok_eligibility (mock_provider_account_id a) (mock_display_name a) scopes
      | Instagram \<Rightarrow> instagram_eligibility (mock_provider_account_id a) (mock_display_name a)
                     (mock_is_professional a) (has_instagram_content_publish_scope scopes)
      | TwitterX \<Rightarrow> twitter_x_eligibility (mock_provider_account_id a) (mock_display_name a)
                     (mock_handle a) scopes)"

section \<open>The registry\<close>

record provider_descriptor =
  desc_provider :: provider
  desc_display_name :: string
  desc_scopes :: "string list"
  desc_capabilities :: provider_capabilities

datatype provider_registry_error = UnknownProvider string

record provider_state =
  st_descriptor :: provider_descriptor
  st_eligibility :: account_eligibility

type_synonym provider_registry = "(string, provider_state) btree_map"

definition registry_insert :: "provider_state \<Rightarrow> provider_registry \<Rightarrow> provider_registry" where
  "registry_insert state registry =
     bt_insert (provider_as_str (desc_provider (st_descriptor state))) state registry"

definition registry_get ::
  "provider_registry \<Rightarrow> provider \<Rightarrow> provider_registry_error + provider_state" where
  "registry_get registry p =
     ok_or (UnknownProvider (provider_as_str p)) (bt_get registry (provider_as_str p))"

definition default_multi_platform :: provider_registry where
  "default_multi_platform =
     (let youtube =
        \<lparr>st_descriptor =
           \<lparr>desc_provider = YouTube, desc_display_name = ''YouTube'',
            desc_scopes = [''youtube.upload''],
            desc_capabilities =
              \<lparr>native_scheduling = True, queue_scheduling = True, upload_video = True,
               upload_thumbnail = True, public_posting = True, requires_user_consent = False\<rparr>\<rparr>,
         st_eligibility = eligibility_eligible\<rparr>;
      tiktok =
        \<lparr>st_descriptor =
           \<lparr>desc_provider = TikTok, desc_display_name = ''TikTok'',
            desc_scopes = [''video.publish''],
            desc_capabilities =
              \<lparr>native_scheduling = False, queue_scheduling = True, upload_video = False,
               upload_thumbnail = False, public_posting = False, requires_user_consent = True\<rparr>\<rparr>,
         st_eligibility = eligibility_blocked ''tiktok_direct_post_permission_required''\<rparr>;
      instagram =
        \<lparr>st_descriptor =
           \<lparr>desc_provider = Instagram, desc_display_name = ''Instagram'',
            desc_scopes = [''instagram_business_basic'', ''instagram_business_content_publish''],
            desc_capabilities =
              \<lparr>native_scheduling = False, queue_scheduling = True, upload_video = False,
               upload_thumbnail = False, public_posting = False, requires_user_consent = False\<rparr>\<rparr>,
         st_eligibility = eligibility_blocked ''instagram_professional_account_required''\<rparr>;
      twitter_x =
        \<lparr>st_descriptor =
           \<lparr>desc_provider = TwitterX, desc_display_name = ''Twitter/X'',
            desc_scopes = [''users.read'', ''tweet.write'', ''media.write'', ''offline.access''],
            desc_capabilities =
              \<lparr>native_scheduling = False, queue_scheduling = True, upload_video = True,
               upload_thumbnail = False, public_posting = True, requires_user_consent = False\<rparr>\<rparr>,
         st_eligibility = eligibility_eligible\<rparr>
      in registry_insert twitter_x (registry_insert instagram
           (registry_insert tiktok (registry_insert youtube []))))"

section \<open>Coherence\<close>

lemmas report_defs = youtube_eligibility_def tiktok_eligibility_def instagram_eligibility_def
  twitter_x_eligibility_def eligibility_eligible_def eligibility_blocked_def

text \<open>The verdict and the capability flags agree. For every provider and every set of scopes, an
  account is reported eligible exactly when it may upload and post publicly; a reason is given
  exactly when it is not eligible; the report names the account asked about; and granting further
  scopes never revokes eligibility.\<close>

theorem fetch_capabilities_coherent:
  "(eligible (rep_eligibility (fetch_capabilities a scopes)) \<longleftrightarrow>
      upload_video (rep_capabilities (fetch_capabilities a scopes))
        \<and> public_posting (rep_capabilities (fetch_capabilities a scopes)))
   \<and> (reasons (rep_eligibility (fetch_capabilities a scopes)) = [] \<longleftrightarrow>
      eligible (rep_eligibility (fetch_capabilities a scopes)))
   \<and> prof_provider (rep_profile (fetch_capabilities a scopes)) = mock_provider a
   \<and> prof_provider_account_id (rep_profile (fetch_capabilities a scopes))
       = mock_provider_account_id a
   \<and> (eligible (rep_eligibility (fetch_capabilities a scopes)) \<longrightarrow>
      eligible (rep_eligibility (fetch_capabilities a (scopes @ extra))))"
proof (cases "mock_provider a")
  case Instagram
  then show ?thesis
    by (cases "mock_is_professional a"; cases "has_instagram_content_publish_scope scopes")
      (auto simp: fetch_capabilities_def report_defs has_instagram_content_publish_scope_def Let_def)
qed (simp_all add: fetch_capabilities_def report_defs Let_def)

theorem fetch_capabilities_coherent_witness:
  "eligible (rep_eligibility (fetch_capabilities (mock_tiktok ''1'' ''t'') [''video.publish'', ''x'']))"
  using fetch_capabilities_coherent [of "mock_tiktok ''1'' ''t''" "[''video.publish'']" "[''x'']"]
  by (simp add: fetch_capabilities_def mock_tiktok_def report_defs Let_def)

lemma registry_get_insert:
  "registry_get (registry_insert st r) p =
     (if p = desc_provider (st_descriptor st) then Inr st else registry_get r p)"
  by (auto simp: registry_get_def registry_insert_def ok_or_def)

text \<open>Registry. The default registry answers for every provider, with that provider's own
  descriptor, and publishing is offered exactly where no approval is pending.\<close>

theorem default_registry_total:
  "\<exists>st. registry_get default_multi_platform p = Inr st
     \<and> desc_provider (st_descriptor st) = p
     \<and> (eligible (st_eligibility st) \<longleftrightarrow> public_posting (desc_capabilities (st_descriptor st)))
     \<and> (eligible (st_eligibility st) \<longleftrightarrow> p \<in> {YouTube, TwitterX})"
  by (cases p) (simp_all add: default_multi_platform_def Let_def registry_get_insert
      eligibility_eligible_def eligibility_blocked_def)

end
