(* ===== verification/Float64.thy ===== *)
theory Float64
  imports Prelude Complex_Main "HOL-Library.Log_Nat"
begin

text \<open>
  \<open>f64\<close>: the binary64 numbers of IEEE 754 as Rust uses them. A finite number is its rational
  value; zero has a negative twin; NaN has no payload. Every operation computes the exact result
  and rounds it to the nearest representable value, ties to the even significand, overflowing to
  an infinity. Values that are representable are not changed by the rounding
  (\<open>rnd_exact\<close>), so arithmetic on a grid of binary fractions is exact
  (\<open>grid_*\<close>).
\<close>

section \<open>Values and rounding\<close>

datatype f64 = NaN | Inf bool | NZero | Fin rat

text \<open>The binary exponent of a positive rational.\<close>

definition ilog2 :: "rat \<Rightarrow> int" where
  "ilog2 q =
     (if 1 \<le> q then int (floorlog 2 (nat \<lfloor>q\<rfloor>)) - 1
      else - int (floorlog 2 (nat (\<lceil>1 / q\<rceil> - 1))))"

definition round_half_even :: "rat \<Rightarrow> int" where
  "round_half_even x =
     (let f = \<lfloor>x\<rfloor>; d = x - of_int f
      in if d < 1 / 2 then f else if 1 / 2 < d then f + 1 else if even f then f else f + 1)"

definition rnd :: "bool \<Rightarrow> rat \<Rightarrow> f64" where
  "rnd negative q =
     (if q = 0 then (if negative then NZero else Fin 0)
      else
        let e = max (ilog2 \<bar>q\<bar> - 52) (- 1074);
            m = round_half_even (q / 2 powi e);
            r = of_int m * 2 powi e
        in if m = 0 then (if q < 0 then NZero else Fin 0)
           else if 2 ^ 1024 \<le> \<bar>r\<bar> then Inf (q < 0)
           else Fin r)"

text \<open>A decimal literal of the source.\<close>

definition f64_lit :: "rat \<Rightarrow> f64" where
  "f64_lit q = rnd False q"

section \<open>Operations\<close>

fun fval :: "f64 \<Rightarrow> rat" where
  "fval (Fin q) = q"
| "fval _ = 0"

fun is_finite :: "f64 \<Rightarrow> bool" where
  "is_finite NaN = False"
| "is_finite (Inf _) = False"
| "is_finite _ = True"

fun fsign :: "f64 \<Rightarrow> bool" where
  "fsign (Inf s) = s"
| "fsign NZero = True"
| "fsign (Fin q) = (q < 0)"
| "fsign NaN = False"

fun fneg :: "f64 \<Rightarrow> f64" where
  "fneg NaN = NaN"
| "fneg (Inf s) = Inf (\<not> s)"
| "fneg NZero = Fin 0"
| "fneg (Fin q) = (if q = 0 then NZero else Fin (- q))"

fun fabs :: "f64 \<Rightarrow> f64" where
  "fabs NaN = NaN"
| "fabs (Inf _) = Inf False"
| "fabs NZero = Fin 0"
| "fabs (Fin q) = Fin \<bar>q\<bar>"

fun fadd :: "f64 \<Rightarrow> f64 \<Rightarrow> f64" where
  "fadd NaN _ = NaN"
| "fadd _ NaN = NaN"
| "fadd (Inf s) (Inf t) = (if s = t then Inf s else NaN)"
| "fadd (Inf s) _ = Inf s"
| "fadd _ (Inf s) = Inf s"
| "fadd NZero NZero = NZero"
| "fadd x y = rnd False (fval x + fval y)"

definition fsub :: "f64 \<Rightarrow> f64 \<Rightarrow> f64" where
  "fsub x y = fadd x (fneg y)"

definition fmul :: "f64 \<Rightarrow> f64 \<Rightarrow> f64" where
  "fmul x y =
     (let s = (fsign x \<noteq> fsign y)
      in if x = NaN \<or> y = NaN then NaN
         else if is_finite x \<and> is_finite y then rnd s (fval x * fval y)
         else if is_finite x \<and> fval x = 0 \<or> is_finite y \<and> fval y = 0 then NaN
         else Inf s)"

definition fdiv :: "f64 \<Rightarrow> f64 \<Rightarrow> f64" where
  "fdiv x y =
     (let s = (fsign x \<noteq> fsign y)
      in if x = NaN \<or> y = NaN then NaN
         else if is_finite y
         then if fval y = 0
              then if is_finite x \<and> fval x = 0 then NaN else Inf s
              else if is_finite x then rnd s (fval x / fval y) else Inf s
         else if is_finite x then (if s then NZero else Fin 0) else NaN)"

fun flt :: "f64 \<Rightarrow> f64 \<Rightarrow> bool" where
  "flt NaN _ = False"
| "flt _ NaN = False"
| "flt (Inf s) (Inf t) = (s \<and> \<not> t)"
| "flt (Inf s) _ = s"
| "flt _ (Inf t) = (\<not> t)"
| "flt x y = (fval x < fval y)"

fun feq :: "f64 \<Rightarrow> f64 \<Rightarrow> bool" where
  "feq NaN _ = False"
| "feq _ NaN = False"
| "feq (Inf s) (Inf t) = (s = t)"
| "feq (Inf s) _ = False"
| "feq _ (Inf t) = False"
| "feq x y = (fval x = fval y)"

definition fle :: "f64 \<Rightarrow> f64 \<Rightarrow> bool" where
  "fle x y = (flt x y \<or> feq x y)"

text \<open>\<open>f64::max\<close> and \<open>f64::min\<close>: a NaN argument is ignored.\<close>

definition fmax :: "f64 \<Rightarrow> f64 \<Rightarrow> f64" where
  "fmax x y = (if x = NaN then y else if y = NaN then x else if flt x y then y else x)"

definition fmin :: "f64 \<Rightarrow> f64 \<Rightarrow> f64" where
  "fmin x y = (if x = NaN then y else if y = NaN then x else if flt y x then y else x)"

text \<open>\<open>Iterator::sum\<close>, which starts from negative zero.\<close>

definition fsum :: "f64 list \<Rightarrow> f64" where
  "fsum xs = foldl fadd NZero xs"

text \<open>The total order of \<open>f64::total_cmp\<close>: negative zero comes before zero.\<close>

definition ftotal_lt :: "f64 \<Rightarrow> f64 \<Rightarrow> bool" where
  "ftotal_lt x y = (x \<noteq> NaN \<and> (y = NaN \<or> flt x y \<or> feq x y \<and> fsign x \<and> \<not> fsign y))"

section \<open>Rounding is exact on representable values\<close>

lemma floorlog2_bounds: "0 < n \<Longrightarrow> 2 ^ (floorlog 2 n - 1) \<le> n \<and> n < 2 ^ floorlog 2 n"
  using floorlog_bounds [of n 2] by simp

lemma ilog2_bounds:
  assumes "0 < q"
  shows "2 powi ilog2 q \<le> q" and "q < 2 powi (ilog2 q + 1)"
proof -
  have "2 powi ilog2 q \<le> q \<and> q < 2 powi (ilog2 q + 1)"
  proof (cases "1 \<le> q")
    case True
    define n where "n = nat \<lfloor>q\<rfloor>"
    have n: "0 < n" and nq: "of_nat n \<le> q" "q < of_nat n + 1"
      using True by (simp_all add: n_def of_nat_nat le_floor_iff) linarith+
    define k where "k = floorlog 2 n"
    have k: "0 < k" using n by (simp add: k_def floorlog_def)
    have b: "2 ^ (k - 1) \<le> n" "n < 2 ^ k" using floorlog2_bounds [OF n] by (simp_all add: k_def)
    have e: "ilog2 q = int (k - 1)" using True k by (simp add: ilog2_def k_def n_def of_nat_diff)
    have "(2::rat) ^ (k - 1) \<le> of_nat n" using b(1) by (metis of_nat_le_iff of_nat_numeral of_nat_power)
    moreover have "(of_nat n :: rat) + 1 \<le> 2 ^ k"
      using b(2) by (metis Suc_leI of_nat_Suc of_nat_le_iff of_nat_numeral of_nat_power add.commute)
    moreover have "int (k - 1) + 1 = int k" using k by simp
    ultimately show ?thesis using nq by (simp only: e power_int_of_nat) linarith
  next
    case False
    then have "1 < 1 / q" using assms by simp
    define n where "n = nat (\<lceil>1 / q\<rceil> - 1)"
    have "of_int 1 < 1 / q" using \<open>1 < 1 / q\<close> by simp
    then have "1 < \<lceil>1 / q\<rceil>" by (simp only: less_ceiling_iff)
    then have n: "0 < n" unfolding n_def zero_less_nat_eq by linarith
    have "of_int (int n) = (of_int \<lceil>1 / q\<rceil> - 1 :: rat)" using n assms by (simp add: n_def)
    then have nq: "of_nat n < 1 / q" "1 / q \<le> of_nat n + 1" by simp_all linarith+
    define k where "k = floorlog 2 n"
    have k: "0 < k" using n by (simp add: k_def floorlog_def)
    have b: "2 ^ (k - 1) \<le> n" "n < 2 ^ k" using floorlog2_bounds [OF n] by (simp_all add: k_def)
    have e: "ilog2 q = - int k" using False by (simp add: ilog2_def k_def n_def)
    have "(2::rat) ^ (k - 1) \<le> of_nat n" using b(1) by (metis of_nat_le_iff of_nat_numeral of_nat_power)
    then have lo: "(2::rat) ^ (k - 1) < 1 / q" using nq(1) by (rule le_less_trans)
    have "(of_nat n :: rat) + 1 \<le> 2 ^ k"
      using b(2) by (metis Suc_leI of_nat_Suc of_nat_le_iff of_nat_numeral of_nat_power add.commute)
    then have hi: "1 / q \<le> 2 ^ k" using nq(2) by linarith
    have "1 / 2 ^ k \<le> q" using hi assms by (simp add: field_simps)
    moreover have "q < 1 / 2 ^ (k - 1)" using lo assms by (simp add: field_simps)
    moreover have "- int k + 1 = - int (k - 1)" using k by simp
    moreover have "(2::rat) powi (- int j) = 1 / 2 ^ j" for j
      by (simp only: power_int_minus power_int_of_nat inverse_eq_divide)
    ultimately show ?thesis unfolding e by metis
  qed
  then show "2 powi ilog2 q \<le> q" and "q < 2 powi (ilog2 q + 1)" by blast+
qed

definition representable :: "rat \<Rightarrow> bool" where
  "representable q \<longleftrightarrow>
     (\<exists>m e. q = of_int m * 2 powi e \<and> \<bar>m\<bar> < 2 ^ 53 \<and> - 1074 \<le> e \<and> \<bar>q\<bar> < 2 ^ 1024)"

lemma round_half_even_int [simp]: "round_half_even (of_int n) = n"
  by (simp add: round_half_even_def)

lemma rnd_zero [simp]: "rnd s 0 = (if s then NZero else Fin 0)"
  by (simp add: rnd_def)

lemma rnd_exact:
  assumes "representable q"
  shows "rnd s q = (if q = 0 \<and> s then NZero else Fin q)"
proof (cases "q = 0")
  case True
  then show ?thesis by (simp add: rnd_def)
next
  case False
  obtain m e where q: "q = of_int m * 2 powi e" and m: "\<bar>m\<bar> < 2 ^ 53" and e: "- 1074 \<le> e"
    and big: "\<bar>q\<bar> < 2 ^ 1024"
    using assms unfolding representable_def by blast
  define e0 where "e0 = max (ilog2 \<bar>q\<bar> - 52) (- 1074)"
  have pos: "0 < \<bar>q\<bar>" using False by simp
  have aq: "\<bar>q\<bar> = of_int \<bar>m\<bar> * 2 powi e" by (simp add: q abs_mult)
  have "(of_int \<bar>m\<bar> :: rat) < 2 powi 53" using m by (simp add: power_int_def)
  then have "\<bar>q\<bar> < 2 powi 53 * 2 powi e" unfolding aq by (simp add: mult_strict_right_mono)
  also have "\<dots> = 2 powi (53 + e)" by (simp add: power_int_add)
  finally have "(2::rat) powi ilog2 \<bar>q\<bar> < 2 powi (53 + e)" using ilog2_bounds(1) [OF pos] by linarith
  then have "ilog2 \<bar>q\<bar> < 53 + e"
    using power_int_increasing [of "53 + e" "ilog2 \<bar>q\<bar>" "2::rat"] by linarith
  then have le: "e0 \<le> e" using e by (simp add: e0_def)
  have "q / 2 powi e0 = of_int m * (2 powi e / 2 powi e0)" by (simp add: q)
  also have "\<dots> = of_int m * 2 powi (e - e0)" by (simp add: power_int_diff)
  also have "\<dots> = of_int (m * 2 ^ nat (e - e0))" using le by (simp add: power_int_def)
  finally have quot: "q / 2 powi e0 = of_int (m * 2 ^ nat (e - e0))" .
  define r where "r = round_half_even (q / 2 powi e0)"
  have r: "of_int r = q / 2 powi e0" unfolding r_def quot by (simp only: round_half_even_int)
  then have "of_int r * 2 powi e0 = q" by simp
  moreover have "r \<noteq> 0" using False r by auto
  ultimately show ?thesis using False big
    by (simp add: rnd_def Let_def flip: e0_def r_def)
qed

lemma representable_dyadic:
  assumes "\<bar>n\<bar> < 2 ^ 53" and "k \<le> 1074"
  shows "representable (of_int n / 2 ^ k)"
proof -
  have "(of_int n / 2 ^ k :: rat) = of_int n * 2 powi (- int k)"
    by (simp add: power_int_minus divide_inverse)
  moreover have "\<bar>of_int n / 2 ^ k :: rat\<bar> < 2 ^ 1024"
  proof -
    have "\<bar>of_int n / 2 ^ k :: rat\<bar> \<le> of_int \<bar>n\<bar>"
      by (simp add: abs_divide divide_le_eq) (metis mult_le_cancel_left1 abs_ge_zero not_less one_le_power one_le_numeral of_int_abs order_refl mult.commute)
    also have "\<dots> < 2 ^ 53" using assms(1) by (metis of_int_less_numeral_power_cancel_iff)
    also have "\<dots> < (2::rat) ^ 1024" by (rule power_strict_increasing) simp_all
    finally show ?thesis .
  qed
  ultimately show ?thesis unfolding representable_def using assms
    by (intro exI [of _ n] exI [of _ "- int k"]) simp
qed

section \<open>Arithmetic on a grid\<close>

text \<open>A finite number that is a multiple of \<open>1 / 2 ^ k\<close>, at most \<open>b\<close> of them.\<close>

definition dy :: "nat \<Rightarrow> int \<Rightarrow> f64 \<Rightarrow> bool" where
  "dy k b x \<longleftrightarrow> is_finite x \<and> (\<exists>n. fval x = of_int n / 2 ^ k \<and> \<bar>n\<bar> \<le> b)"

named_theorems float_simps "comparisons and arithmetic of finite numbers"

lemma dy_finite: "dy k b x \<Longrightarrow> is_finite x"
  by (simp add: dy_def)

lemma dy_mono: "dy k a x \<Longrightarrow> a \<le> b \<Longrightarrow> dy k b x"
  unfolding dy_def by (meson order_trans)

lemma rnd_dyadic:
  assumes "\<bar>n\<bar> < 2 ^ 53" and "k \<le> 1074"
  shows "is_finite (rnd s (of_int n / 2 ^ k)) \<and> fval (rnd s (of_int n / 2 ^ k)) = of_int n / 2 ^ k"
  using rnd_exact [OF representable_dyadic [OF assms]] by simp

lemma finite_cases:
  assumes "is_finite x"
  obtains "x = NZero" | q where "x = Fin q"
  using assms by (cases x) auto

lemma finite_compare [float_simps]:
  assumes "is_finite x" and "is_finite y"
  shows "flt x y \<longleftrightarrow> fval x < fval y" and "feq x y \<longleftrightarrow> fval x = fval y"
    and "fle x y \<longleftrightarrow> fval x \<le> fval y"
  using assms by (auto elim!: finite_cases simp: fle_def)

lemma fval_fneg [simp]: "fval (fneg x) = - fval x"
  by (cases x) simp_all

lemma is_finite_fneg [simp]: "is_finite (fneg x) = is_finite x"
  by (cases x) simp_all

lemma fval_fabs: "is_finite x \<Longrightarrow> fval (fabs x) = \<bar>fval x\<bar>"
  by (cases x) simp_all

lemma is_finite_fabs [simp]: "is_finite (fabs x) = is_finite x"
  by (cases x) simp_all

lemma fadd_finite:
  assumes "is_finite x" and "is_finite y"
  shows "is_finite (fadd x y) = is_finite (rnd False (fval x + fval y))"
    and "fval (fadd x y) = fval (rnd False (fval x + fval y))"
  using assms by (auto elim!: finite_cases)

lemma finite_not_nan [simp]: "is_finite x \<Longrightarrow> x \<noteq> NaN"
  by auto

lemma fmul_finite:
  "is_finite x \<Longrightarrow> is_finite y \<Longrightarrow> fmul x y = rnd (fsign x \<noteq> fsign y) (fval x * fval y)"
  by (auto simp: fmul_def Let_def)

lemma fdiv_finite:
  "is_finite x \<Longrightarrow> is_finite y \<Longrightarrow> fval y \<noteq> 0 \<Longrightarrow>
     fdiv x y = rnd (fsign x \<noteq> fsign y) (fval x / fval y)"
  by (auto simp: fdiv_def Let_def)

lemma fadd_dy:
  assumes "dy k a x" and "dy k b y" and "a + b < 2 ^ 53" and "k \<le> 1074"
  shows "dy k (a + b) (fadd x y)" and "fval (fadd x y) = fval x + fval y"
proof -
  from assms obtain m n where x: "is_finite x" "fval x = of_int m / 2 ^ k" "\<bar>m\<bar> \<le> a"
    and y: "is_finite y" "fval y = of_int n / 2 ^ k" "\<bar>n\<bar> \<le> b" unfolding dy_def by blast
  have sum: "fval x + fval y = of_int (m + n) / 2 ^ k" by (simp add: x y add_divide_distrib)
  have small: "\<bar>m + n\<bar> < 2 ^ 53" using x(3) y(3) assms(3) by linarith
  show val: "fval (fadd x y) = fval x + fval y"
    using rnd_dyadic [OF small assms(4)] by (simp add: fadd_finite [OF x(1) y(1)] sum)
  have "is_finite (fadd x y)"
    using rnd_dyadic [OF small assms(4)] by (simp add: fadd_finite [OF x(1) y(1)] sum)
  then show "dy k (a + b) (fadd x y)"
    unfolding dy_def val sum using x(3) y(3) by (auto intro!: exI [of _ "m + n"])
qed

lemma dy_fneg [simp]: "dy k b (fneg x) = dy k b x"
proof -
  have "(\<exists>n. - q = of_int n / 2 ^ k \<and> \<bar>n\<bar> \<le> b) = (\<exists>n. q = of_int n / 2 ^ k \<and> \<bar>n\<bar> \<le> b)" for q :: rat
    by (metis abs_minus_cancel minus_divide_left minus_minus of_int_minus)
  then show ?thesis by (simp add: dy_def)
qed

lemma fsub_dy:
  assumes "dy k a x" and "dy k b y" and "a + b < 2 ^ 53" and "k \<le> 1074"
  shows "dy k (a + b) (fsub x y)" and "fval (fsub x y) = fval x - fval y"
  using fadd_dy [OF assms(1) _ assms(3,4), of "fneg y"] assms(2) by (simp_all add: fsub_def)

lemma fmul_dy:
  assumes "dy k a x" and "dy 0 b y" and "a * b < 2 ^ 53" and "k \<le> 1074"
  shows "dy k (a * b) (fmul x y)" and "fval (fmul x y) = fval x * fval y"
proof -
  from assms obtain m n where x: "is_finite x" "fval x = of_int m / 2 ^ k" "\<bar>m\<bar> \<le> a"
    and y: "is_finite y" "fval y = of_int n" "\<bar>n\<bar> \<le> b" unfolding dy_def by auto
  have prod: "fval x * fval y = of_int (m * n) / 2 ^ k" by (simp add: x y)
  have le: "\<bar>m * n\<bar> \<le> a * b" unfolding abs_mult using x(3) y(3) by (intro mult_mono) auto
  then have small: "\<bar>m * n\<bar> < 2 ^ 53" using assms(3) by linarith
  have eq: "fmul x y = rnd (fsign x \<noteq> fsign y) (of_int (m * n) / 2 ^ k)"
    unfolding fmul_finite [OF x(1) y(1)] prod ..
  show val: "fval (fmul x y) = fval x * fval y" unfolding eq prod using rnd_dyadic [OF small assms(4)] by blast
  show "dy k (a * b) (fmul x y)"
    unfolding dy_def val prod using le rnd_dyadic [OF small assms(4)] unfolding eq by blast
qed

lemma fdiv_dy:
  assumes "is_finite x" and "is_finite y" and "fval y \<noteq> 0"
    and "fval x = of_int n / 2 ^ k * fval y" and "\<bar>n\<bar> < 2 ^ 53" and "k \<le> 1074"
  shows "dy k \<bar>n\<bar> (fdiv x y)" and "fval (fdiv x y) = of_int n / 2 ^ k"
proof -
  have "fval x / fval y = of_int n / 2 ^ k" using assms(3,4) by simp
  then have eq: "fdiv x y = rnd (fsign x \<noteq> fsign y) (of_int n / 2 ^ k)"
    using fdiv_finite [OF assms(1-3)] by simp
  show val: "fval (fdiv x y) = of_int n / 2 ^ k" unfolding eq using rnd_dyadic [OF assms(5,6)] by blast
  show "dy k \<bar>n\<bar> (fdiv x y)" unfolding dy_def val using rnd_dyadic [OF assms(5,6)] unfolding eq by blast
qed

section \<open>The error of a rounding\<close>

lemma round_half_even_near: "\<bar>of_int (round_half_even x) - x\<bar> \<le> (1 / 2 :: rat)"
  unfolding round_half_even_def Let_def
  using of_int_floor_le [of x] floor_correct [of x] by auto

lemma rnd_near:
  assumes "\<bar>q\<bar> < 2 ^ k" and "k \<le> 900"
  shows "is_finite (rnd s q)" and "\<bar>fval (rnd s q) - q\<bar> \<le> 2 powi (int k - 54)"
proof -
  have "is_finite (rnd s q) \<and> \<bar>fval (rnd s q) - q\<bar> \<le> 2 powi (int k - 54)"
  proof (cases "q = 0")
    case True
    then show ?thesis by simp
  next
    case False
    define e where "e = max (ilog2 \<bar>q\<bar> - 52) (- 1074)"
    define m where "m = round_half_even (q / 2 powi e)"
    define r where "r = of_int m * (2::rat) powi e"
    have pos: "0 < (2::rat) powi e" by simp
    have "(2::rat) powi ilog2 \<bar>q\<bar> < 2 powi int k"
      using ilog2_bounds(1) [of "\<bar>q\<bar>"] False assms(1) by simp
    then have "ilog2 \<bar>q\<bar> < int k" using power_int_increasing [of "int k" "ilog2 \<bar>q\<bar>" "2::rat"] by linarith
    then have "e \<le> int k - 53" by (auto simp: e_def)
    then have "(2::rat) powi e \<le> 2 powi (int k - 53)" by (intro power_int_increasing) simp_all
    also have "\<dots> = 2 powi (1 + (int k - 54))" by simp
    also have "\<dots> = 2 * 2 powi (int k - 54)" by (subst power_int_add) simp_all
    finally have small: "(2::rat) powi e / 2 \<le> 2 powi (int k - 54)" by simp
    have "r - q = (of_int m - q / 2 powi e) * 2 powi e" by (simp add: r_def left_diff_distrib)
    then have "\<bar>r - q\<bar> = \<bar>of_int m - q / 2 powi e\<bar> * 2 powi e" using pos by (simp add: abs_mult)
    also have "\<dots> \<le> 1 / 2 * 2 powi e"
      unfolding m_def using pos by (intro mult_right_mono round_half_even_near) simp
    finally have near: "\<bar>r - q\<bar> \<le> 2 powi (int k - 54)" using small by simp
    have "(2::rat) powi (int k - 54) \<le> 2 powi int k" by (intro power_int_increasing) simp_all
    then have "\<bar>r\<bar> < 2 * 2 ^ k" using near assms(1) by simp
    also have "\<dots> = 2 ^ Suc k" by simp
    also have "\<dots> \<le> (2::rat) ^ 1024" using assms(2) by (intro power_increasing) simp_all
    finally have big: "\<bar>r\<bar> < 2 ^ 1024" .
    have "rnd s q = (if m = 0 then (if q < 0 then NZero else Fin 0) else Fin r)"
      using False big unfolding rnd_def Let_def e_def [symmetric] m_def [symmetric] r_def [symmetric]
      by (simp add: not_le)
    moreover have "m = 0 \<Longrightarrow> r = 0" by (simp add: r_def)
    ultimately show ?thesis using near by (auto split: if_splits)
  qed
  then show "is_finite (rnd s q)" and "\<bar>fval (rnd s q) - q\<bar> \<le> 2 powi (int k - 54)" by blast+
qed
section \<open>Literals\<close>

text \<open>Integers below \<open>2 ^ 53\<close> are exact; a decimal literal is rounded.\<close>

lemma rnd_integers [simp]:
  "numeral w < (2 ^ 53 :: int) \<Longrightarrow> rnd s (numeral w) = Fin (numeral w)"
  "numeral w < (2 ^ 53 :: int) \<Longrightarrow> rnd s (- numeral w) = Fin (- numeral w)"
  "rnd s 1 = Fin 1"
  using rnd_exact [OF representable_dyadic [of "numeral w" 0]]
    rnd_exact [OF representable_dyadic [of "- numeral w" 0]]
    rnd_exact [OF representable_dyadic [of 1 0]] by simp_all

lemma rnd_eqI:
  assumes "ilog2 \<bar>q\<bar> = k" and "- 1022 \<le> k" and "round_half_even (q / 2 powi (k - 52)) = m"
    and "m \<noteq> 0" and "of_int m * 2 powi (k - 52) = r" and "\<bar>r\<bar> < 2 ^ 1024" and "q \<noteq> 0"
  shows "rnd s q = Fin r"
proof -
  have "max (ilog2 \<bar>q\<bar> - 52) (- 1074) = k - 52" using assms(1,2) by simp
  then show ?thesis using assms(3-7) by (simp add: rnd_def Let_def)
qed

lemma neg_powers:
  "(2::rat) powi - 59 = 1 / 576460752303423488"
  "(2::rat) powi - 62 = 1 / 4611686018427387904"
  "(2::rat) powi - 72 = 1 / 4722366482869645213696"
  by (simp_all only: power_int_minus power_int_numeral) simp_all

lemma floorlog_values: "floorlog 2 99 = 7" "floorlog 2 999 = 10" "floorlog 2 999999 = 20"
  by (rule antisym; simp add: floorlog_leI floorlog_geI)+

lemma floor_values:
  "\<lfloor>144115188075855872 / 25 :: rat\<rfloor> = 5764607523034234"
  "\<lfloor>576460752303423488 / 125 :: rat\<rfloor> = 4611686018427387"
  "\<lfloor>73786976294838206464 / 15625 :: rat\<rfloor> = 4722366482869645"
  by (simp_all add: floor_eq_iff)

lemmas literal_simps = ilog2_def floorlog_values neg_powers round_half_even_def Let_def floor_values

lemma rnd_hundredth: "rnd s (1 / 100) = Fin (5764607523034235 / 576460752303423488)"
  by (rule rnd_eqI [where k = "- 7" and m = 5764607523034235]) (simp_all add: literal_simps)

lemma rnd_thousandth: "rnd s (1 / 1000) = Fin (1152921504606847 / 1152921504606846976)"
  by (rule rnd_eqI [where k = "- 10" and m = 4611686018427388]) (simp_all add: literal_simps)

lemma rnd_millionth: "rnd s (1 / 1000000) = Fin (4722366482869645 / 4722366482869645213696)"
  by (rule rnd_eqI [where k = "- 20" and m = 4722366482869645]) (simp_all add: literal_simps)

end
