(* ===== verification/Otio.thy ===== *)
theory Otio
  imports Float64 Json
begin

text \<open>
  \<open>crates/proto/src/otio/time.rs\<close> and \<open>nodes.rs\<close>, with the clip and timeline metadata of
  \<open>montage_meta.rs\<close>: the edit graph. A timeline is a stack of parallel tracks; a track plays
  clips, gaps, transitions and nested stacks one after the other; times are \<open>f64\<close> values at an
  \<open>f64\<close> rate. \<open>HashMap\<close>s are ordered maps here: no code modelled depends on the order in
  which a map is visited. Of the timeline metadata only the version, the cut boundaries and the
  unnamed fields are structured; the other blocks, which no edit modelled here reads or writes, are
  one JSON value.
\<close>

section \<open>Times\<close>

record rational_time =
  rt_value :: f64
  rt_rate :: f64

definition to_seconds :: "rational_time \<Rightarrow> f64" where
  "to_seconds t = fdiv (rt_value t) (rt_rate t)"

definition rational_time_new :: "f64 \<Rightarrow> f64 \<Rightarrow> rational_time" where
  "rational_time_new value rate = \<lparr>rt_value = value, rt_rate = rate\<rparr>"

definition rational_time_zero :: "f64 \<Rightarrow> rational_time" where
  "rational_time_zero rate = \<lparr>rt_value = Fin 0, rt_rate = rate\<rparr>"

record time_range =
  tr_start_time :: rational_time
  tr_duration :: rational_time

definition time_range_new :: "rational_time \<Rightarrow> rational_time \<Rightarrow> time_range" where
  "time_range_new start duration = \<lparr>tr_start_time = start, tr_duration = duration\<rparr>"

section \<open>Clip metadata\<close>

type_synonym json_map = "(string, json) btree_map"

record content_anchor =
  an_transcript_snippet :: "string option"
  an_scene_change_index :: "u32 option"
  an_audio_fingerprint_sha :: "string option"
  an_energy_curve_hash :: "string option"
  an_extra :: json_map

record split_edit_spec =
  se_audio_lead_s :: "f64 option"
  se_audio_lead_from_clip_id :: "string option"
  se_audio_trail_s :: "f64 option"
  se_audio_trail_to_clip_id :: "string option"
  se_reason :: "string option"
  se_confidence :: "f64 option"

record audio_range =
  ar_start_s :: f64
  ar_end_s :: f64

record clip_audio_override =
  cao_muted :: bool
  cao_removed_ranges :: "audio_range list"

record montage_clip_metadata =
  mcm_reasoning :: "string option"
  mcm_edit_plan_ref :: "string option"
  mcm_anchor :: "content_anchor option"
  mcm_split_edit :: "split_edit_spec option"
  mcm_audio_override :: "clip_audio_override option"
  mcm_extra :: json_map

definition montage_clip_metadata_default :: montage_clip_metadata where
  "montage_clip_metadata_default =
     \<lparr>mcm_reasoning = None, mcm_edit_plan_ref = None, mcm_anchor = None, mcm_split_edit = None,
      mcm_audio_override = None, mcm_extra = []\<rparr>"

record clip_metadata =
  cm_montage :: "montage_clip_metadata option"
  cm_other :: json_map

record montage_marker_metadata =
  mmm_category :: "string option"
  mmm_note :: "string option"
  mmm_extra :: json_map

record marker_metadata =
  mm_montage :: "montage_marker_metadata option"
  mm_other :: json_map

section \<open>Nodes\<close>

record external_reference =
  er_target_url :: string
  er_available_range :: "time_range option"
  er_metadata :: json_map

record missing_reference =
  mr_name :: string
  mr_available_range :: "time_range option"
  mr_metadata :: json_map

datatype media_reference =
    MR_External external_reference
  | MR_Missing missing_reference

record effect_node =
  ef_otio_schema :: string
  ef_name :: string
  ef_effect_name :: string
  ef_metadata :: json_map

record marker =
  mk_otio_schema :: string
  mk_name :: string
  mk_marked_range :: time_range
  mk_color :: "string option"
  mk_comment :: "string option"
  mk_metadata :: marker_metadata

record clip =
  clip_name :: string
  clip_source_range :: "time_range option"
  clip_media_reference :: media_reference
  clip_effects :: "effect_node list"
  clip_markers :: "marker list"
  clip_active :: bool
  clip_metadata :: clip_metadata

record gap =
  gap_name :: string
  gap_source_range :: time_range
  gap_metadata :: json_map

record transition_node =
  tn_name :: string
  tn_transition_type :: string
  tn_in_offset :: rational_time
  tn_out_offset :: rational_time
  tn_metadata :: json_map

datatype track_kind = Video | Audio

text \<open>The tree: \<open>TrackChild\<close>, \<open>Stack\<close>, \<open>StackChild\<close> and \<open>Track\<close>.\<close>

datatype track_child =
    TC_Clip clip
  | TC_Gap gap
  | TC_Transition transition_node
  | TC_Stack stack
and stack =
    Stack (stack_name: string) (stack_children: "stack_child list")
      (stack_source_range: "time_range option") (stack_metadata: json_map)
and stack_child =
    SC_Track track
  | SC_Stack stack
  | SC_Clip clip
  | SC_Gap gap
and track =
    Track (track_name: string) (track_kind: track_kind) (track_children: "track_child list")
      (track_source_range: "time_range option") (track_metadata: json_map)

datatype cut_type =
    HardCut | CutOnAction | Cutaway | InsertCut | EyelineMatch | ShotReverseShot | MatchCut
  | SmashCut | JumpCut | CrossCut | JCut | LCut

datatype audio_relation = Sync | AudioLeads | AudioTrails | Overlap | AudioCut

record semantic_cut_spec =
  scs_cut_type :: cut_type
  scs_intent :: string
  scs_energy :: "f64 option"
  scs_audio_relation :: audio_relation
  scs_confidence :: "f64 option"
  scs_reason :: "string option"
  scs_extra :: json_map

record montage_timeline_metadata =
  mtm_version :: string
  mtm_cut_boundaries :: "(string, semantic_cut_spec) btree_map"
  mtm_extra :: json_map
  mtm_rest :: json

record timeline_metadata =
  tm_montage :: "montage_timeline_metadata option"
  tm_other :: json_map

record timeline =
  tl_otio_schema :: string
  tl_name :: string
  tl_global_start_time :: "rational_time option"
  tl_tracks :: stack
  tl_metadata :: timeline_metadata

section \<open>Constructors\<close>

definition gap_of_duration :: "f64 \<Rightarrow> f64 \<Rightarrow> gap" where
  "gap_of_duration duration_seconds rate =
     \<lparr>gap_name = [],
      gap_source_range = time_range_new (rational_time_zero rate)
        (rational_time_new (fmul duration_seconds rate) rate),
      gap_metadata = []\<rparr>"

definition track_empty :: "string \<Rightarrow> track_kind \<Rightarrow> track" where
  "track_empty name kind = Track name kind [] None []"

definition stack_empty :: "string \<Rightarrow> stack" where
  "stack_empty name = Stack name [] None []"

definition missing_reference_default :: missing_reference where
  "missing_reference_default = \<lparr>mr_name = [], mr_available_range = None, mr_metadata = []\<rparr>"

definition clip_empty :: "string \<Rightarrow> clip" where
  "clip_empty name =
     \<lparr>clip_name = name, clip_source_range = None,
      clip_media_reference = MR_Missing missing_reference_default, clip_effects = [],
      clip_markers = [], clip_active = True,
      clip_metadata = \<lparr>cm_montage = None, cm_other = []\<rparr>\<rparr>"

definition external_reference_new :: "string \<Rightarrow> external_reference" where
  "external_reference_new target_url =
     \<lparr>er_target_url = target_url, er_available_range = None, er_metadata = []\<rparr>"

definition cut_boundary_key :: "string \<Rightarrow> string \<Rightarrow> string" where
  "cut_boundary_key from_clip_id to_clip_id = from_clip_id @ ''::'' @ to_clip_id"

section \<open>Validation\<close>

text \<open>
  \<open>validate\<close> of every node: the first violation in document order, as the JSON path of the
  field and the rule it breaks.
\<close>

datatype validation_rule =
    Rate_Not_Finite | Rate_Not_Positive | Value_Not_Finite | Duration_Negative
  | Target_Url_Empty | Effect_Name_Empty

type_synonym validation = "(string \<times> validation_rule) + unit"

definition path_field :: "string \<Rightarrow> string \<Rightarrow> string" where
  "path_field p name = (if p = [] then name else p @ ''.'' @ name)"

definition path_index :: "string \<Rightarrow> nat \<Rightarrow> string" where
  "path_index p i = p @ ''['' @ dec_of_nat i @ '']''"

definition rational_time_validate :: "string \<Rightarrow> rational_time \<Rightarrow> validation" where
  "rational_time_validate p t =
     (if \<not> is_finite (rt_rate t) then Inl (path_field p ''rate'', Rate_Not_Finite)
      else if fle (rt_rate t) (Fin 0) then Inl (path_field p ''rate'', Rate_Not_Positive)
      else if \<not> is_finite (rt_value t) then Inl (path_field p ''value'', Value_Not_Finite)
      else Inr ())"

definition time_range_validate :: "string \<Rightarrow> time_range \<Rightarrow> validation" where
  "time_range_validate p r =
     rbind (rational_time_validate (path_field p ''start_time'') (tr_start_time r)) (\<lambda>_.
     rbind (rational_time_validate (path_field p ''duration'') (tr_duration r)) (\<lambda>_.
     if flt (rt_value (tr_duration r)) (Fin 0)
     then Inl (path_field (path_field p ''duration'') ''value'', Duration_Negative)
     else Inr ()))"

fun validate_opt :: "(string \<Rightarrow> 'a \<Rightarrow> validation) \<Rightarrow> string \<Rightarrow> 'a option \<Rightarrow> validation" where
  "validate_opt v p None = Inr ()"
| "validate_opt v p (Some x) = v p x"

fun validate_list :: "(string \<Rightarrow> 'a \<Rightarrow> validation) \<Rightarrow> string \<Rightarrow> nat \<Rightarrow> 'a list \<Rightarrow> validation" where
  "validate_list v p i [] = Inr ()"
| "validate_list v p i (x # xs) = rbind (v (path_index p i) x) (\<lambda>_. validate_list v p (Suc i) xs)"

fun media_reference_validate :: "string \<Rightarrow> media_reference \<Rightarrow> validation" where
  "media_reference_validate p (MR_External e) =
     (if er_target_url e = [] then Inl (path_field p ''target_url'', Target_Url_Empty)
      else validate_opt time_range_validate (path_field p ''available_range'') (er_available_range e))"
| "media_reference_validate p (MR_Missing m) =
     validate_opt time_range_validate (path_field p ''available_range'') (mr_available_range m)"

definition effect_validate :: "string \<Rightarrow> effect_node \<Rightarrow> validation" where
  "effect_validate p e =
     (if ef_effect_name e = [] then Inl (path_field p ''effect_name'', Effect_Name_Empty) else Inr ())"

definition marker_validate :: "string \<Rightarrow> marker \<Rightarrow> validation" where
  "marker_validate p m = time_range_validate (path_field p ''marked_range'') (mk_marked_range m)"

definition clip_validate :: "string \<Rightarrow> clip \<Rightarrow> validation" where
  "clip_validate p c =
     rbind (validate_opt time_range_validate (path_field p ''source_range'') (clip_source_range c)) (\<lambda>_.
     rbind (media_reference_validate (path_field p ''media_reference'') (clip_media_reference c)) (\<lambda>_.
     rbind (validate_list effect_validate (path_field p ''effects'') 0 (clip_effects c)) (\<lambda>_.
     validate_list marker_validate (path_field p ''markers'') 0 (clip_markers c))))"

definition gap_validate :: "string \<Rightarrow> gap \<Rightarrow> validation" where
  "gap_validate p g = time_range_validate (path_field p ''source_range'') (gap_source_range g)"

definition transition_validate :: "string \<Rightarrow> transition_node \<Rightarrow> validation" where
  "transition_validate p t =
     rbind (rational_time_validate (path_field p ''in_offset'') (tn_in_offset t)) (\<lambda>_.
     rational_time_validate (path_field p ''out_offset'') (tn_out_offset t))"

fun track_child_validate :: "string \<Rightarrow> track_child \<Rightarrow> validation"
  and stack_validate :: "string \<Rightarrow> stack \<Rightarrow> validation"
  and stack_child_validate :: "string \<Rightarrow> stack_child \<Rightarrow> validation"
  and track_validate :: "string \<Rightarrow> track \<Rightarrow> validation"
  and track_children_validate :: "string \<Rightarrow> nat \<Rightarrow> track_child list \<Rightarrow> validation"
  and stack_children_validate :: "string \<Rightarrow> nat \<Rightarrow> stack_child list \<Rightarrow> validation" where
  "track_child_validate p (TC_Clip c) = clip_validate p c"
| "track_child_validate p (TC_Gap g) = gap_validate p g"
| "track_child_validate p (TC_Transition t) = transition_validate p t"
| "track_child_validate p (TC_Stack s) = stack_validate p s"
| "stack_validate p (Stack n cs sr m) =
     rbind (validate_opt time_range_validate (path_field p ''source_range'') sr) (\<lambda>_.
     stack_children_validate (path_field p ''children'') 0 cs)"
| "stack_child_validate p (SC_Track t) = track_validate p t"
| "stack_child_validate p (SC_Stack s) = stack_validate p s"
| "stack_child_validate p (SC_Clip c) = clip_validate p c"
| "stack_child_validate p (SC_Gap g) = gap_validate p g"
| "track_validate p (Track n k cs sr m) =
     rbind (validate_opt time_range_validate (path_field p ''source_range'') sr) (\<lambda>_.
     track_children_validate (path_field p ''children'') 0 cs)"
| "track_children_validate p i [] = Inr ()"
| "track_children_validate p i (c # cs) =
     rbind (track_child_validate (path_index p i) c) (\<lambda>_. track_children_validate p (Suc i) cs)"
| "stack_children_validate p i [] = Inr ()"
| "stack_children_validate p i (c # cs) =
     rbind (stack_child_validate (path_index p i) c) (\<lambda>_. stack_children_validate p (Suc i) cs)"

definition timeline_validate :: "string \<Rightarrow> timeline \<Rightarrow> validation" where
  "timeline_validate p t =
     rbind (validate_opt rational_time_validate (path_field p ''global_start_time'')
       (tl_global_start_time t)) (\<lambda>_.
     stack_validate (path_field p ''tracks'') (tl_tracks t))"

end
