(* ===== verification/Edl_Track.thy ===== *)
theory Edl_Track
  imports Otio
begin

text \<open>
  The helpers of \<open>crates/core/src/edl/apply.rs\<close> that work on one track: durations and
  cursors, the ids and link groups of clips, and the ways the editor resizes, merges and removes
  gaps. A \<open>while\<close> loop that walks a vector from its end is a recursion over the reversed
  list.
\<close>

section \<open>Messages and errors\<close>

text \<open>
  A formatted string is its template together with its arguments, unrendered: \<open>A_str\<close> for
  \<open>{}\<close> on a string, \<open>A_dbg\<close> for \<open>{:?}\<close>, \<open>A_secs\<close> for
  \<open>{:.3}\<close> on a time.
\<close>

datatype message = Fmt string "fmt_arg list"
  and fmt_arg =
    A_str string | A_dbg string | A_nat nat | A_f64 f64 | A_secs f64 | A_msg message
  | A_kind track_kind | A_strs "string list" | A_msgs "message list"
  | A_cut cut_type | A_relation audio_relation

definition msg :: "string \<Rightarrow> message" where
  "msg t = Fmt t []"

section \<open>Durations and cursors\<close>

fun child_duration :: "track_child \<Rightarrow> f64"
  and stack_cursor :: "stack \<Rightarrow> f64"
  and stack_child_cursor :: "stack_child \<Rightarrow> f64"
  and track_cursor :: "track \<Rightarrow> f64" where
  "child_duration (TC_Clip c) =
     (case clip_source_range c of None \<Rightarrow> Fin 0 | Some r \<Rightarrow> to_seconds (tr_duration r))"
| "child_duration (TC_Gap g) = to_seconds (tr_duration (gap_source_range g))"
| "child_duration (TC_Transition _) = Fin 0"
| "child_duration (TC_Stack s) = stack_cursor s"
| "stack_cursor (Stack n cs sr m) =
     (case sr of
        None \<Rightarrow> foldl fmax (Fin 0) (map stack_child_cursor cs)
      | Some r \<Rightarrow> to_seconds (tr_duration r))"
| "stack_child_cursor (SC_Track t) = track_cursor t"
| "stack_child_cursor (SC_Gap g) = to_seconds (tr_duration (gap_source_range g))"
| "stack_child_cursor (SC_Clip c) =
     (case clip_source_range c of None \<Rightarrow> Fin 0 | Some r \<Rightarrow> to_seconds (tr_duration r))"
| "stack_child_cursor (SC_Stack s) = stack_cursor s"
| "track_cursor (Track n k cs sr m) = fsum (map child_duration cs)"

definition timeline_duration :: "timeline \<Rightarrow> f64" where
  "timeline_duration t = stack_cursor (tl_tracks t)"

fun as_clip_rate :: "track_child \<Rightarrow> f64 option" where
  "as_clip_rate (TC_Clip c) =
     (case clip_source_range c of
        None \<Rightarrow> None
      | Some r \<Rightarrow> let rate = rt_rate (tr_start_time r)
                  in if flt (Fin 0) rate then Some rate else None)"
| "as_clip_rate _ = None"

definition unwrap_or :: "'a \<Rightarrow> 'a option \<Rightarrow> 'a" where
  "unwrap_or d x = (case x of None \<Rightarrow> d | Some y \<Rightarrow> y)"

text \<open>Where on its track a child starts.\<close>

definition start_of :: "track_child list \<Rightarrow> nat \<Rightarrow> f64" where
  "start_of cs i = fsum (map child_duration (take i cs))"

section \<open>Kinds and ids of children\<close>

fun is_gap :: "track_child \<Rightarrow> bool" where
  "is_gap (TC_Gap _) = True"
| "is_gap _ = False"

fun is_transition :: "track_child \<Rightarrow> bool" where
  "is_transition (TC_Transition _) = True"
| "is_transition _ = False"

fun is_clip :: "track_child \<Rightarrow> bool" where
  "is_clip (TC_Clip _) = True"
| "is_clip _ = False"

definition clip_extra_str :: "string \<Rightarrow> clip \<Rightarrow> string option" where
  "clip_extra_str k c =
     Option.bind (cm_montage (clip_metadata c)) (\<lambda>m.
     Option.bind (bt_get (mcm_extra m) k) json_as_str)"

definition clip_uuid :: "clip \<Rightarrow> string option" where
  "clip_uuid c = clip_extra_str ''clip_uuid'' c"

definition clip_link_group_id :: "clip \<Rightarrow> string option" where
  "clip_link_group_id c = clip_extra_str ''link_group_id'' c"

definition clip_id :: "clip \<Rightarrow> string" where
  "clip_id c = unwrap_or (clip_name c) (clip_uuid c)"

fun track_child_clip_id :: "track_child \<Rightarrow> string option" where
  "track_child_clip_id (TC_Clip c) = Some (clip_id c)"
| "track_child_clip_id _ = None"

definition clip_source_range_s :: "clip \<Rightarrow> (f64 \<times> f64) option" where
  "clip_source_range_s c =
     map_option (\<lambda>r.
       let start_s = to_seconds (tr_start_time r)
       in (start_s, fadd start_s (to_seconds (tr_duration r)))) (clip_source_range c)"

definition clip_contains_source_time :: "clip \<Rightarrow> f64 \<Rightarrow> bool" where
  "clip_contains_source_time c at_s =
     (case clip_source_range_s c of
        None \<Rightarrow> False
      | Some (start_s, end_s) \<Rightarrow> flt start_s at_s \<and> flt at_s end_s)"

definition micro :: f64 where "micro = f64_lit (1 / 1000000)"
definition milli :: f64 where "milli = f64_lit (1 / 1000)"

definition clip_covers_source_range :: "clip \<Rightarrow> f64 \<Rightarrow> f64 \<Rightarrow> bool" where
  "clip_covers_source_range c start_s end_s =
     (case clip_source_range_s c of
        None \<Rightarrow> False
      | Some (clip_start_s, clip_end_s) \<Rightarrow>
          fle (fsub clip_start_s micro) start_s \<and> fle end_s (fadd clip_end_s micro))"

text \<open>\<open>Iterator::position\<close>.\<close>

fun position :: "('a \<Rightarrow> bool) \<Rightarrow> 'a list \<Rightarrow> nat option" where
  "position P [] = None"
| "position P (x # xs) = (if P x then Some 0 else map_option Suc (position P xs))"

text \<open>The children of a \<open>StackChild\<close> that is a track; nothing otherwise.\<close>

fun sc_children :: "stack_child \<Rightarrow> track_child list" where
  "sc_children (SC_Track t) = track_children t"
| "sc_children _ = []"

definition linked :: "string \<Rightarrow> (clip \<Rightarrow> bool) \<Rightarrow> track_child \<Rightarrow> bool" where
  "linked group_id P child =
     (case child of
        TC_Clip c \<Rightarrow> clip_link_group_id c = Some group_id \<and> P c
      | _ \<Rightarrow> False)"

definition first_clip_with_link_group :: "stack_child \<Rightarrow> string \<Rightarrow> nat option" where
  "first_clip_with_link_group sc group_id = position (linked group_id (\<lambda>_. True)) (sc_children sc)"

definition clip_with_link_group_containing :: "stack_child \<Rightarrow> string \<Rightarrow> f64 \<Rightarrow> nat option" where
  "clip_with_link_group_containing sc group_id at_s =
     position (linked group_id (\<lambda>c. clip_contains_source_time c at_s)) (sc_children sc)"

definition clip_with_link_group_covering_range ::
  "stack_child \<Rightarrow> string \<Rightarrow> f64 \<Rightarrow> f64 \<Rightarrow> nat option" where
  "clip_with_link_group_covering_range sc group_id start_s end_s =
     position (linked group_id (\<lambda>c. clip_covers_source_range c start_s end_s)) (sc_children sc)"

fun last_clip_group :: "track_child list \<Rightarrow> string option" where
  "last_clip_group [] = None"
| "last_clip_group (TC_Clip c # cs) = clip_link_group_id c"
| "last_clip_group (_ # cs) = last_clip_group cs"

definition last_clip_link_group_id :: "stack_child \<Rightarrow> string option" where
  "last_clip_link_group_id sc = last_clip_group (rev (sc_children sc))"

section \<open>Gaps\<close>

definition gap_child :: "f64 \<Rightarrow> f64 \<Rightarrow> track_child" where
  "gap_child duration_s rate = TC_Gap (gap_of_duration duration_s rate)"

text \<open>The loop of \<open>pop_trailing_gaps\<close>, over the children from the last one.\<close>

fun pop_gaps :: "nat \<Rightarrow> f64 \<Rightarrow> track_child list \<Rightarrow> (nat \<times> f64) \<times> track_child list" where
  "pop_gaps count total_s (TC_Gap g # cs) =
     pop_gaps (count + 1) (fadd total_s (child_duration (TC_Gap g))) cs"
| "pop_gaps count total_s cs = ((count, total_s), cs)"

fun pop_trailing_gaps :: "stack_child \<Rightarrow> (nat \<times> f64) \<times> stack_child" where
  "pop_trailing_gaps (SC_Track (Track n k cs sr m)) =
     (case pop_gaps 0 (Fin 0) (rev cs) of
        (removed, rest) \<Rightarrow> (removed, SC_Track (Track n k (rev rest) sr m)))"
| "pop_trailing_gaps sc = ((0, Fin 0), sc)"

text \<open>\<open>merge_adjacent_gaps\<close>; \<open>merged\<close> is kept with its last element first.\<close>

definition merge_step :: "f64 \<Rightarrow> track_child list \<Rightarrow> track_child \<Rightarrow> track_child list" where
  "merge_step rate merged child =
     (case child of
        TC_Gap gap \<Rightarrow>
          let dur_s = to_seconds (tr_duration (gap_source_range gap))
          in if fle dur_s milli then merged
             else (case merged of
                 TC_Gap prev # rest \<Rightarrow>
                   gap_child (fadd (to_seconds (tr_duration (gap_source_range prev))) dur_s) rate # rest
               | _ \<Rightarrow> TC_Gap gap # merged)
      | _ \<Rightarrow> child # merged)"

definition merge_adjacent_gaps :: "track_child list \<Rightarrow> f64 \<Rightarrow> track_child list" where
  "merge_adjacent_gaps children rate = rev (foldl (merge_step rate) [] children)"

text \<open>\<open>insert_child_at_time\<close>: the loop over the children with the cursor.\<close>

fun insert_child_from ::
  "track_child \<Rightarrow> f64 \<Rightarrow> f64 \<Rightarrow> f64 \<Rightarrow> f64 \<Rightarrow> track_child list \<Rightarrow> track_child list" where
  "insert_child_from child target dur rate cursor_s [] =
     (if flt (fadd cursor_s milli) target then [gap_child (fsub target cursor_s) rate] else [])
       @ [child]"
| "insert_child_from child target dur rate cursor_s (c # cs) =
     (let dur_s = child_duration c; end_s = fadd cursor_s dur_s
      in if fle target (fadd cursor_s milli) then child # c # cs
         else if flt target (fsub end_s milli)
         then if is_gap c
              then let before_s = fmax (fsub target cursor_s) (Fin 0);
                       after_s = fmax (fsub (fsub end_s target) dur) (Fin 0)
                   in (if flt milli before_s then [gap_child before_s rate] else [])
                        @ [child]
                        @ (if flt milli after_s then [gap_child after_s rate] else []) @ cs
              else if flt target (fadd cursor_s (fdiv dur_s (Fin 2))) then child # c # cs
              else c # child # cs
         else c # insert_child_from child target dur rate end_s cs)"

definition insert_child_at_time ::
  "track_child list \<Rightarrow> track_child \<Rightarrow> f64 \<Rightarrow> f64 \<Rightarrow> f64 \<Rightarrow> track_child list" where
  "insert_child_at_time children child target_start_s child_duration_s rate =
     insert_child_from child target_start_s child_duration_s rate (Fin 0) children"

text \<open>
  The loop that takes time off the gaps next to a clip, first gap first, until nothing remains to
  be taken or another kind of child is met.
\<close>

fun eat_gaps :: "f64 \<Rightarrow> f64 \<Rightarrow> track_child list \<Rightarrow> track_child list" where
  "eat_gaps rate remaining [] = []"
| "eat_gaps rate remaining (c # cs) =
     (if \<not> flt milli remaining then c # cs
      else if is_gap c
      then let dur = child_duration c
           in if fle dur (fadd remaining milli) then eat_gaps rate (fsub remaining dur) cs
              else gap_child (fsub dur remaining) rate # cs
      else c # cs)"

text \<open>\<open>shift_clip_at_index\<close> and \<open>ripple_shift_after\<close> on the children of the track.\<close>

definition shift_rate :: "track_child list \<Rightarrow> nat \<Rightarrow> f64" where
  "shift_rate cs i =
     (case as_clip_rate (cs ! i) of
        Some rate \<Rightarrow> rate
      | None \<Rightarrow> (case List.map_filter as_clip_rate cs of [] \<Rightarrow> Fin 24 | rate # _ \<Rightarrow> rate))"

definition shift_children :: "f64 \<Rightarrow> nat \<Rightarrow> track_child list \<Rightarrow> track_child list" where
  "shift_children delta_s i cs =
     (let rate = shift_rate cs i
      in if flt (Fin 0) delta_s
         then if 0 < i \<and> is_gap (cs ! (i - 1))
              then cs[i - 1 := gap_child (fadd (child_duration (cs ! (i - 1))) delta_s) rate]
              else take i cs @ gap_child delta_s rate # drop i cs
         else rev (eat_gaps rate (fneg delta_s) (rev (take i cs))) @ drop i cs)"

definition ripple_children :: "f64 \<Rightarrow> f64 \<Rightarrow> nat \<Rightarrow> track_child list \<Rightarrow> track_child list" where
  "ripple_children rate delta_s i cs =
     (let after = i + 1
      in if length cs < after then cs
         else if flt (Fin 0) delta_s
         then if after < length cs \<and> is_gap (cs ! after)
              then cs[after := gap_child (fadd (child_duration (cs ! after)) delta_s) rate]
              else take after cs @ gap_child delta_s rate # drop after cs
         else take after cs @ eat_gaps rate (fneg delta_s) (drop after cs))"

definition remove_at :: "nat \<Rightarrow> 'a list \<Rightarrow> 'a list" where
  "remove_at i xs = take i xs @ drop (Suc i) xs"

definition insert_at :: "nat \<Rightarrow> 'a \<Rightarrow> 'a list \<Rightarrow> 'a list" where
  "insert_at i x xs = take i xs @ x # drop i xs"

text \<open>\<open>remove_transitions_around_child\<close>: how many were removed, and the children left.\<close>

definition remove_transitions_around_child ::
  "track_child list \<Rightarrow> nat \<Rightarrow> nat \<times> track_child list" where
  "remove_transitions_around_child cs i =
     (let (n1, cs1) =
            (if i + 1 < length cs \<and> is_transition (cs ! (i + 1)) then (1, remove_at (i + 1) cs)
             else (0, cs))
      in if 0 < i \<and> i - 1 < length cs1 \<and> is_transition (cs1 ! (i - 1))
         then (n1 + 1, remove_at (i - 1) cs1)
         else (n1, cs1))"

end
