(* ===== verification/Edl_Anchor.thy ===== *)
theory Edl_Anchor
  imports Edl_Track
begin

text \<open>
  \<open>crates/core/src/edl/anchor.rs\<close>: how an anchor of an edit names a clip of the timeline.
  The side data is a context: whether there is a project root, the transcript segments the sidecar
  file of an asset holds (the result of \<open>load_segments\<close>, empty when the file is missing or
  unreadable; the cache in front of it is not observable) and the Unicode lower-casing of the
  standard library, which only ranks the candidates of an error message.
\<close>

datatype anchor =
    TranscriptSnippet string
  | ClipUuid string
  | SceneChangeIndex string u32

record clip_locator =
  cl_track_index :: nat
  cl_child_index :: nat

record transcript_segment =
  tseg_start_s :: f64
  tseg_end_s :: f64
  tseg_text :: string

record anchor_context =
  ac_project_root :: "string option"
  ac_sidecar :: "string \<Rightarrow> transcript_segment list"
  ac_to_lowercase :: "string \<Rightarrow> string"

record anchor_miss =
  am_anchor :: anchor
  am_candidates :: "string list"
  am_reason :: message

definition segments_for :: "anchor_context \<Rightarrow> string \<Rightarrow> transcript_segment list" where
  "segments_for ctx asset_id = (if ac_project_root ctx = None then [] else ac_sidecar ctx asset_id)"

section \<open>Text\<close>

text \<open>\<open>str::contains\<close>, \<open>str::split_whitespace\<close>, \<open>char::to_ascii_lowercase\<close>.\<close>

fun str_contains :: "string \<Rightarrow> string \<Rightarrow> bool" where
  "str_contains [] needle = (needle = [])"
| "str_contains (c # cs) needle =
     (take (length needle) (c # cs) = needle \<or> str_contains cs needle)"

fun words_of :: "string list \<Rightarrow> string \<Rightarrow> string list" where
  "words_of [] w = (if w = [] then [] else [w])"
| "words_of (g # gs) w =
     (if is_whitespace g then (if w = [] then words_of gs [] else w # words_of gs [])
      else words_of gs (w @ g))"

definition split_whitespace :: "string \<Rightarrow> string list" where
  "split_whitespace s = words_of (utf8_chars s) []"

definition ascii_lower :: "char \<Rightarrow> char" where
  "ascii_lower c =
     (if 65 \<le> (of_char c :: nat) \<and> (of_char c :: nat) \<le> 90 then char_of (of_char c + 32 :: nat)
      else c)"

definition fold_char :: "string \<Rightarrow> string" where
  "fold_char g =
     (let b = map (of_char :: char \<Rightarrow> nat) g
      in if b = [226, 128, 152] \<or> b = [226, 128, 153] then [CHR 0x27]
         else if b = [226, 128, 156] \<or> b = [226, 128, 157] then [CHR 0x22]
         else if b = [226, 128, 147] \<or> b = [226, 128, 148] then ''-''
         else if b = [194, 160] then '' ''
         else if b = [226, 128, 166] then ''...''
         else map ascii_lower g)"

definition unicode_fold :: "string \<Rightarrow> string" where
  "unicode_fold s = concat (map fold_char (utf8_chars s))"

datatype tier = Exact | TrimEnd | TrimBoth | UnicodeNorm

fun normalize :: "string \<Rightarrow> tier \<Rightarrow> string" where
  "normalize s Exact = s"
| "normalize s TrimEnd = trim_end s"
| "normalize s TrimBoth = trim s"
| "normalize s UnicodeNorm = unicode_fold s"

definition tiers :: "tier list" where
  "tiers = [Exact, TrimEnd, TrimBoth, UnicodeNorm]"

text \<open>\<open>Path::file_name\<close> and \<open>file_stem\<close>: the last component of a path, without the
  trailing separators and current-directory components.\<close>

definition file_name :: "string \<Rightarrow> string option" where
  "file_name p =
     (case dropWhile (\<lambda>c. c = [] \<or> c = ''.'') (rev (split_on (CHR ''/'') p)) of
        [] \<Rightarrow> None
      | c # _ \<Rightarrow> if c = ''..'' then None else Some c)"

definition file_stem :: "string \<Rightarrow> string option" where
  "file_stem p =
     map_option (\<lambda>name.
       let before = butlast (split_on (CHR ''.'') name)
       in if before = [] \<or> before = [[]] then name else join ''.'' before) (file_name p)"

section \<open>Clips and matches\<close>

record clip_entry =
  ce_locator :: clip_locator
  ce_name :: string
  ce_transcript_snippet :: "string option"
  ce_montage_uuid :: "string option"
  ce_marker_notes :: "string list"
  ce_asset_id :: "string option"
  ce_source_range :: "(f64 \<times> f64) option"

fun media_asset_id :: "media_reference \<Rightarrow> string option" where
  "media_asset_id (MR_External e) = Some (er_target_url e)"
| "media_asset_id (MR_Missing _) = None"

definition clip_entry_of :: "nat \<Rightarrow> nat \<Rightarrow> clip \<Rightarrow> clip_entry" where
  "clip_entry_of ti ci c =
     \<lparr>ce_locator = \<lparr>cl_track_index = ti, cl_child_index = ci\<rparr>,
      ce_name = clip_name c,
      ce_transcript_snippet =
        Option.bind (cm_montage (clip_metadata c)) (\<lambda>m.
        Option.bind (mcm_anchor m) an_transcript_snippet),
      ce_montage_uuid = clip_uuid c,
      ce_marker_notes =
        List.map_filter (\<lambda>m. Option.bind (mm_montage (mk_metadata m)) mmm_note) (clip_markers c),
      ce_asset_id = media_asset_id (clip_media_reference c),
      ce_source_range =
        map_option (\<lambda>r. (to_seconds (tr_start_time r), to_seconds (tr_duration r)))
          (clip_source_range c)\<rparr>"

definition track_entries :: "nat \<Rightarrow> track_child list \<Rightarrow> clip_entry list" where
  "track_entries ti cs =
     List.map_filter (\<lambda>(ci, tc). case tc of TC_Clip c \<Rightarrow> Some (clip_entry_of ti ci c) | _ \<Rightarrow> None)
       (enumerate 0 cs)"

definition collect_clips :: "timeline \<Rightarrow> clip_entry list" where
  "collect_clips tml =
     concat (map (\<lambda>(ti, sc). track_entries ti (sc_children sc))
       (enumerate 0 (stack_children (tl_tracks tml))))"

definition clip_text :: "clip_entry \<Rightarrow> string option" where
  "clip_text e =
     (let parts = (case ce_transcript_snippet e of None \<Rightarrow> [] | Some s \<Rightarrow> [s])
                    @ ce_marker_notes e @ (if ce_name e = [] then [] else [ce_name e])
      in if parts = [] then None else Some (join ([CHR '' '', CHR 0x0A, CHR '' '']) parts))"

definition clip_covers_segment :: "clip_entry \<Rightarrow> transcript_segment \<Rightarrow> bool" where
  "clip_covers_segment e seg =
     (case ce_source_range e of
        None \<Rightarrow> True
      | Some (start, dur) \<Rightarrow>
          \<not> (fle (tseg_end_s seg) start \<or> fle (fadd start dur) (tseg_start_s seg)))"

definition asset_reference_matches :: "string \<Rightarrow> string \<Rightarrow> bool" where
  "asset_reference_matches asset_id needle \<longleftrightarrow>
     asset_id = needle \<or> file_name asset_id = Some needle \<or> file_stem asset_id = Some needle"

text \<open>The first element for which the function gives a value.\<close>

fun find_map :: "('a \<Rightarrow> 'b option) \<Rightarrow> 'a list \<Rightarrow> 'b option" where
  "find_map f [] = None"
| "find_map f (x # xs) = (case f x of None \<Rightarrow> find_map f xs | Some y \<Rightarrow> Some y)"

definition tier_match :: "clip_entry list \<Rightarrow> string \<Rightarrow> tier \<Rightarrow> clip_locator option" where
  "tier_match clips needle t =
     find_map (\<lambda>e. case clip_text e of
         Some haystack \<Rightarrow> if str_contains (normalize haystack t) (normalize needle t)
                          then Some (ce_locator e) else None
       | None \<Rightarrow> None) clips"

definition whisper_match ::
  "anchor_context \<Rightarrow> clip_entry list \<Rightarrow> string \<Rightarrow> tier \<Rightarrow> clip_locator option" where
  "whisper_match ctx clips needle t =
     find_map (\<lambda>e. case ce_asset_id e of
         None \<Rightarrow> None
       | Some asset \<Rightarrow>
           if list_ex (\<lambda>seg. str_contains (normalize (tseg_text seg) t) (normalize needle t)
                            \<and> clip_covers_segment e seg) (segments_for ctx asset)
           then Some (ce_locator e) else None) clips"

definition resolve_via_whisper ::
  "anchor_context \<Rightarrow> clip_entry list \<Rightarrow> string \<Rightarrow> clip_locator option" where
  "resolve_via_whisper ctx clips needle =
     (if ac_project_root ctx = None then None
      else find_map (whisper_match ctx clips needle) tiers)"

section \<open>Candidates of a miss\<close>

definition overlap_score :: "string \<Rightarrow> string \<Rightarrow> nat" where
  "overlap_score needle haystack =
     length (filter (\<lambda>w. w \<in> set (split_whitespace haystack)) (split_whitespace needle))"

fun first_assets :: "string list \<Rightarrow> clip_entry list \<Rightarrow> string list" where
  "first_assets seen [] = []"
| "first_assets seen (e # es) =
     (case ce_asset_id e of
        None \<Rightarrow> first_assets seen es
      | Some a \<Rightarrow> if a \<in> set seen then first_assets seen es
                  else a # first_assets (a # seen) es)"

definition nearest_candidates ::
  "string \<Rightarrow> clip_entry list \<Rightarrow> anchor_context \<Rightarrow> nat \<Rightarrow> string list" where
  "nearest_candidates needle clips ctx k =
     (let lower = ac_to_lowercase ctx;
          score = (\<lambda>t. (overlap_score (lower needle) (lower t), t));
          scored = map score (List.map_filter ce_transcript_snippet clips)
            @ (if ac_project_root ctx = None then []
               else concat (map (\<lambda>a. map (\<lambda>seg. score (tseg_text seg)) (segments_for ctx a))
                      (first_assets [] clips)))
      in map snd (take k (sort_key (\<lambda>(s, _). - int s) scored)))"

section \<open>Resolution\<close>

definition resolve_by_uuid :: "clip_entry list \<Rightarrow> string \<Rightarrow> anchor_miss + clip_locator" where
  "resolve_by_uuid clips uuid =
     (case find_map (\<lambda>e. if ce_montage_uuid e = Some uuid \<or> ce_name e = uuid
                          then Some (ce_locator e) else None) clips of
        Some l \<Rightarrow> Inr l
      | None \<Rightarrow>
          let asset_matches = filter (\<lambda>e. case ce_asset_id e of
                  None \<Rightarrow> False | Some a \<Rightarrow> asset_reference_matches a uuid) clips
          in if length asset_matches = 1 then Inr (ce_locator (hd asset_matches))
             else Inl \<lparr>am_anchor = ClipUuid uuid,
                 am_candidates = take 3 (concat (map (\<lambda>e.
                     (case ce_montage_uuid e of None \<Rightarrow> [] | Some u \<Rightarrow> [u])
                     @ (if ce_name e = [] then [] else [ce_name e])
                     @ (case ce_asset_id e of None \<Rightarrow> [] | Some a \<Rightarrow> [a])) clips)),
                 am_reason =
                   (if 1 < length asset_matches
                    then Fmt ''uuid matched clips by asset filename/stem''
                           [A_str uuid, A_nat (length asset_matches)]
                    else Fmt ''no clip with uuid'' [A_str uuid])\<rparr>)"

definition resolve :: "timeline \<Rightarrow> anchor \<Rightarrow> anchor_context \<Rightarrow> anchor_miss + clip_locator" where
  "resolve tml a ctx =
     (let clips = collect_clips tml
      in case a of
           ClipUuid uuid \<Rightarrow> resolve_by_uuid clips uuid
         | SceneChangeIndex _ _ \<Rightarrow>
             Inl \<lparr>am_anchor = a, am_candidates = [],
                  am_reason = msg ''scene_change_index anchors require an indexer sidecar''\<rparr>
         | TranscriptSnippet needle \<Rightarrow>
             (case find_map (tier_match clips needle) tiers of
                Some l \<Rightarrow> Inr l
              | None \<Rightarrow>
                  (case resolve_via_whisper ctx clips needle of
                     Some l \<Rightarrow> Inr l
                   | None \<Rightarrow>
                       Inl \<lparr>am_anchor = a,
                            am_candidates = nearest_candidates needle clips ctx 3,
                            am_reason = Fmt ''no clip found whose transcript snippet contains''
                              [A_dbg needle]\<rparr>)))"

section \<open>A resolved anchor names a clip\<close>

definition clip_at :: "timeline \<Rightarrow> clip_locator \<Rightarrow> clip option" where
  "clip_at tml l =
     (let scs = stack_children (tl_tracks tml)
      in if cl_track_index l < length scs
         then (let cs = sc_children (scs ! cl_track_index l)
               in if cl_child_index l < length cs
                  then (case cs ! cl_child_index l of TC_Clip c \<Rightarrow> Some c | _ \<Rightarrow> None)
                  else None)
         else None)"

lemma find_map_Some: "find_map f xs = Some y \<Longrightarrow> \<exists>x \<in> set xs. f x = Some y"
  by (induction xs) (auto split: option.splits)

lemma find_map_None: "find_map f xs = None \<longleftrightarrow> (\<forall>x \<in> set xs. f x = None)"
  by (induction xs) (auto split: option.splits)

lemma track_entries_sound:
  "e \<in> set (track_entries ti cs) \<Longrightarrow>
     \<exists>ci c. ci < length cs \<and> cs ! ci = TC_Clip c \<and> e = clip_entry_of ti ci c"
  unfolding track_entries_def List.map_filter_def
  by (auto simp: in_set_enumerate_eq split: track_child.splits)

lemma collect_clips_sound:
  assumes "e \<in> set (collect_clips tml)"
  shows "\<exists>c. clip_at tml (ce_locator e) = Some c
    \<and> e = clip_entry_of (cl_track_index (ce_locator e)) (cl_child_index (ce_locator e)) c"
proof -
  from assms obtain ti where ti: "ti < length (stack_children (tl_tracks tml))"
    and e: "e \<in> set (track_entries ti (sc_children (stack_children (tl_tracks tml) ! ti)))"
    unfolding collect_clips_def by (auto simp: in_set_enumerate_eq)
  from track_entries_sound [OF e] obtain ci c where
    "ci < length (sc_children (stack_children (tl_tracks tml) ! ti))"
    "sc_children (stack_children (tl_tracks tml) ! ti) ! ci = TC_Clip c"
    "e = clip_entry_of ti ci c" by blast
  with ti show ?thesis by (simp add: clip_at_def clip_entry_of_def Let_def)
qed

lemma resolve_entry:
  assumes "resolve tml a ctx = Inr l"
  shows "\<exists>e \<in> set (collect_clips tml). l = ce_locator e"
proof (cases a)
  case (TranscriptSnippet needle)
  from assms TranscriptSnippet consider
      t where "tier_match (collect_clips tml) needle t = Some l"
    | t where "whisper_match ctx (collect_clips tml) needle t = Some l"
    unfolding resolve_def resolve_via_whisper_def Let_def
    by (auto split: option.splits if_splits dest!: find_map_Some)
  then show ?thesis
    by cases (auto simp: tier_match_def whisper_match_def dest!: find_map_Some
        split: option.splits if_splits)
next
  case (ClipUuid uuid)
  define ms where "ms = filter (\<lambda>e. case ce_asset_id e of
      None \<Rightarrow> False | Some a \<Rightarrow> asset_reference_matches a uuid) (collect_clips tml)"
  have hd: "hd ms \<in> set (collect_clips tml)" if "length ms = 1"
    using that list.set_sel(1) [of ms] by (force simp: ms_def)
  from assms ClipUuid have "resolve_by_uuid (collect_clips tml) uuid = Inr l"
    by (simp add: resolve_def)
  then show ?thesis
    unfolding resolve_by_uuid_def Let_def ms_def [symmetric]
    using hd by (auto dest!: find_map_Some split: option.splits if_splits)
next
  case (SceneChangeIndex s i)
  with assms show ?thesis by (simp add: resolve_def Let_def)
qed

lemma resolve_clip: "resolve tml a ctx = Inr l \<Longrightarrow> \<exists>c. clip_at tml l = Some c"
  using resolve_entry collect_clips_sound by blast

end
