(* ===== verification/Edl_Boundaries.thy ===== *)
theory Edl_Boundaries
  imports Edl_Track
begin

text \<open>
  The memory an edit keeps of the cuts: the semantic cut specifications of
  \<open>metadata.montage.cut_boundaries\<close>, keyed by the ids of the two clips of the cut, and the split
  edits stamped on clips; from \<open>crates/core/src/edl/apply.rs\<close>. After every operation both are
  pruned to the cuts that still exist. Also the fresh ids that a split stamps.
\<close>

section \<open>Updates inside the tree\<close>

fun track_with_children :: "track_child list \<Rightarrow> track \<Rightarrow> track" where
  "track_with_children cs (Track n k _ sr m) = Track n k cs sr m"

fun sc_with_children :: "track_child list \<Rightarrow> stack_child \<Rightarrow> stack_child" where
  "sc_with_children cs (SC_Track t) = SC_Track (track_with_children cs t)"
| "sc_with_children cs sc = sc"

fun stack_with_children :: "stack_child list \<Rightarrow> stack \<Rightarrow> stack" where
  "stack_with_children cs (Stack n _ sr m) = Stack n cs sr m"

definition tl_children :: "timeline \<Rightarrow> stack_child list" where
  "tl_children tml = stack_children (tl_tracks tml)"

definition with_tl_children :: "stack_child list \<Rightarrow> timeline \<Rightarrow> timeline" where
  "with_tl_children scs tml = tml\<lparr>tl_tracks := stack_with_children scs (tl_tracks tml)\<rparr>"

text \<open>Replace the children of the track at an index of the root stack.\<close>

definition with_track_children :: "nat \<Rightarrow> track_child list \<Rightarrow> timeline \<Rightarrow> timeline" where
  "with_track_children ti cs tml =
     with_tl_children ((tl_children tml)[ti := sc_with_children cs (tl_children tml ! ti)]) tml"

definition map_montage :: "(montage_clip_metadata \<Rightarrow> montage_clip_metadata) \<Rightarrow> clip \<Rightarrow> clip" where
  "map_montage f c =
     c\<lparr>clip_metadata := (clip_metadata c)\<lparr>cm_montage := map_option f (cm_montage (clip_metadata c))\<rparr>\<rparr>"

section \<open>Fresh ids\<close>

definition lower_hex_digit :: "nat \<Rightarrow> char" where
  "lower_hex_digit d = char_of (if d < 10 then 48 + d else 87 + d)"

fun hex_fixed :: "nat \<Rightarrow> nat \<Rightarrow> string" where
  "hex_fixed 0 n = []"
| "hex_fixed (Suc k) n = hex_fixed k (n div 16) @ [lower_hex_digit (n mod 16)]"

text \<open>The id stamped when the clock shows \<open>nanos\<close> and the global counter is \<open>seq\<close>.\<close>

definition fresh_clip_uuid :: "nat \<Rightarrow> nat \<Rightarrow> string" where
  "fresh_clip_uuid nanos seq =
     ''c-'' @ hex_fixed 13 (nanos mod 2 ^ 52) @ hex_fixed 3 (seq mod 2 ^ 12)"

definition stamp_clip_uuid :: "string \<Rightarrow> clip \<Rightarrow> clip" where
  "stamp_clip_uuid uuid c =
     (let montage = (case cm_montage (clip_metadata c) of
                       None \<Rightarrow> montage_clip_metadata_default | Some m \<Rightarrow> m)
      in c\<lparr>clip_metadata := (clip_metadata c)\<lparr>cm_montage :=
             Some (montage\<lparr>mcm_extra := bt_insert ''clip_uuid'' (JStr uuid) (mcm_extra montage)\<rparr>)\<rparr>\<rparr>)"

section \<open>Split edits of a clip\<close>

definition keep_only_split_edit_lead :: "clip \<Rightarrow> clip" where
  "keep_only_split_edit_lead c =
     map_montage (\<lambda>m. m\<lparr>mcm_split_edit :=
       Option.bind (mcm_split_edit m) (\<lambda>se.
         let kept = se\<lparr>se_audio_trail_s := None, se_audio_trail_to_clip_id := None\<rparr>
         in if se_audio_lead_s kept = None then None else Some kept)\<rparr>) c"

definition keep_only_split_edit_trail :: "clip \<Rightarrow> clip" where
  "keep_only_split_edit_trail c =
     map_montage (\<lambda>m. m\<lparr>mcm_split_edit :=
       Option.bind (mcm_split_edit m) (\<lambda>se.
         let kept = se\<lparr>se_audio_lead_s := None, se_audio_lead_from_clip_id := None\<rparr>
         in if se_audio_trail_s kept = None then None else Some kept)\<rparr>) c"

text \<open>Is the recorded neighbour still there? Without a record, any neighbour will do.\<close>

definition neighbour_matches :: "string option \<Rightarrow> string option \<Rightarrow> bool" where
  "neighbour_matches expected actual =
     (case expected of None \<Rightarrow> actual \<noteq> None | Some e \<Rightarrow> actual = Some e)"

definition prune_split_edit :: "string option \<Rightarrow> string option \<Rightarrow> split_edit_spec \<Rightarrow> split_edit_spec option" where
  "prune_split_edit previous_id next_id se =
     (let se1 = (if se_audio_lead_s se \<noteq> None
                   \<and> \<not> neighbour_matches (se_audio_lead_from_clip_id se) previous_id
                 then se\<lparr>se_audio_lead_s := None, se_audio_lead_from_clip_id := None\<rparr> else se);
          se2 = (if se_audio_trail_s se1 \<noteq> None
                   \<and> \<not> neighbour_matches (se_audio_trail_to_clip_id se1) next_id
                 then se1\<lparr>se_audio_trail_s := None, se_audio_trail_to_clip_id := None\<rparr> else se1)
      in if se_audio_lead_s se2 = None \<and> se_audio_trail_s se2 = None then None else Some se2)"

definition prune_split_edit_for_clip :: "clip \<Rightarrow> string option \<Rightarrow> string option \<Rightarrow> clip" where
  "prune_split_edit_for_clip c previous_id next_id =
     map_montage (\<lambda>m. m\<lparr>mcm_split_edit :=
       Option.bind (mcm_split_edit m) (prune_split_edit previous_id next_id)\<rparr>) c"

fun first_clip_id :: "track_child list \<Rightarrow> string option" where
  "first_clip_id [] = None"
| "first_clip_id (c # cs) =
     (case track_child_clip_id c of None \<Rightarrow> first_clip_id cs | Some i \<Rightarrow> Some i)"

definition previous_clip_id :: "track_child list \<Rightarrow> nat \<Rightarrow> string option" where
  "previous_clip_id cs before_index = first_clip_id (rev (take before_index cs))"

definition next_clip_id :: "track_child list \<Rightarrow> nat \<Rightarrow> string option" where
  "next_clip_id cs after_index = first_clip_id (drop (after_index + 1) cs)"

fun prune_child :: "string option \<Rightarrow> string option \<Rightarrow> track_child \<Rightarrow> track_child" where
  "prune_child previous_id next_id (TC_Clip c) =
     TC_Clip (prune_split_edit_for_clip c previous_id next_id)"
| "prune_child previous_id next_id child = child"

text \<open>The loop over one track; pruning changes no id, so every clip sees its old neighbours.\<close>

definition prune_track_split_edits :: "track_child list \<Rightarrow> track_child list" where
  "prune_track_split_edits cs =
     map (\<lambda>(i, c). prune_child (previous_clip_id cs i) (next_clip_id cs i) c) (enumerate 0 cs)"

definition prune_stale_split_edits :: "timeline \<Rightarrow> timeline" where
  "prune_stale_split_edits tml =
     with_tl_children
       (map (\<lambda>sc. sc_with_children (prune_track_split_edits (sc_children sc)) sc) (tl_children tml)) tml"

section \<open>Cut boundaries\<close>

fun split_once :: "string \<Rightarrow> (string \<times> string) option" where
  "split_once [] = None"
| "split_once (c # cs) =
     (if take 2 (c # cs) = ''::'' then Some ([], drop 2 (c # cs))
      else map_option (\<lambda>(a, b). (c # a, b)) (split_once cs))"

definition cut_boundary_key_references_clip :: "string \<Rightarrow> string \<Rightarrow> bool" where
  "cut_boundary_key_references_clip key cid =
     (case split_once key of None \<Rightarrow> False | Some (from_id, to_id) \<Rightarrow> from_id = cid \<or> to_id = cid)"

definition map_cut_boundaries ::
  "((string, semantic_cut_spec) btree_map \<Rightarrow> (string, semantic_cut_spec) btree_map)
    \<Rightarrow> timeline \<Rightarrow> timeline" where
  "map_cut_boundaries f tml =
     tml\<lparr>tl_metadata := (tl_metadata tml)\<lparr>tm_montage :=
       map_option (\<lambda>m. m\<lparr>mtm_cut_boundaries := f (mtm_cut_boundaries m)\<rparr>)
         (tm_montage (tl_metadata tml))\<rparr>\<rparr>"

definition cut_boundaries :: "timeline \<Rightarrow> (string, semantic_cut_spec) btree_map" where
  "cut_boundaries tml =
     (case tm_montage (tl_metadata tml) of None \<Rightarrow> [] | Some m \<Rightarrow> mtm_cut_boundaries m)"

definition remove_cut_boundaries_for_clip :: "string \<Rightarrow> timeline \<Rightarrow> timeline" where
  "remove_cut_boundaries_for_clip cid =
     map_cut_boundaries (bt_retain (\<lambda>key. \<not> cut_boundary_key_references_clip key cid))"

definition boundary_transfers ::
  "string \<Rightarrow> string \<Rightarrow> (string, semantic_cut_spec) btree_map
    \<Rightarrow> (string \<times> string \<times> semantic_cut_spec) list" where
  "boundary_transfers original_clip_id right_clip_id m =
     List.map_filter (\<lambda>(key, spec).
       case split_once key of
         None \<Rightarrow> None
       | Some (from_id, to_id) \<Rightarrow>
           if from_id = original_clip_id
           then Some (key, cut_boundary_key right_clip_id to_id, spec) else None) m"

definition transfer_outgoing_cut_boundary_to_split_right ::
  "string \<Rightarrow> string \<Rightarrow> timeline \<Rightarrow> timeline" where
  "transfer_outgoing_cut_boundary_to_split_right original_clip_id right_clip_id =
     map_cut_boundaries (\<lambda>m.
       fold (\<lambda>(old_key, new_key, spec) m. bt_insert new_key spec (bt_remove old_key m))
         (boundary_transfers original_clip_id right_clip_id m) m)"

text \<open>The cuts of a track: from a clip to the clip after it, over one transition or over gaps.\<close>

fun cut_target :: "track_child list \<Rightarrow> string option" where
  "cut_target (TC_Clip c # _) = Some (clip_id c)"
| "cut_target (TC_Transition _ # c # _) = track_child_clip_id c"
| "cut_target (TC_Gap g # cs) =
     (case dropWhile is_gap cs of [] \<Rightarrow> None | c # _ \<Rightarrow> track_child_clip_id c)"
| "cut_target _ = None"

fun track_cuts :: "track_child list \<Rightarrow> (string \<times> string) list" where
  "track_cuts [] = []"
| "track_cuts (c # cs) =
     (case (track_child_clip_id c, cut_target cs) of
        (Some from_id, Some to_id) \<Rightarrow> (from_id, to_id) # track_cuts cs
      | _ \<Rightarrow> track_cuts cs)"

definition current_cut_boundary_keys :: "timeline \<Rightarrow> string list" where
  "current_cut_boundary_keys tml =
     concat (map (\<lambda>sc. map (\<lambda>(a, b). cut_boundary_key a b) (track_cuts (sc_children sc)))
       (tl_children tml))"

definition prune_stale_cut_boundaries :: "timeline \<Rightarrow> timeline" where
  "prune_stale_cut_boundaries tml =
     map_cut_boundaries (bt_retain (\<lambda>key. key \<in> set (current_cut_boundary_keys tml))) tml"

section \<open>Facts about updates\<close>

lemma sc_children_with [simp]:
  "sc_children (sc_with_children cs sc) = (case sc of SC_Track _ \<Rightarrow> cs | _ \<Rightarrow> [])"
  by (cases sc; cases "case sc of SC_Track t \<Rightarrow> t") auto

lemma tl_children_with [simp]: "tl_children (with_tl_children scs tml) = scs"
  by (cases "tl_tracks tml") (simp add: tl_children_def with_tl_children_def)

lemma tl_children_map_cut [simp]: "tl_children (map_cut_boundaries f tml) = tl_children tml"
  by (simp add: tl_children_def map_cut_boundaries_def)

lemma cut_boundaries_map [simp]:
  "f [] = [] \<Longrightarrow> cut_boundaries (map_cut_boundaries f tml) = f (cut_boundaries tml)"
  by (simp add: cut_boundaries_def map_cut_boundaries_def split: option.splits)

lemma cut_boundaries_with_children [simp]:
  "cut_boundaries (with_tl_children scs tml) = cut_boundaries tml"
  "cut_boundaries (with_track_children ti cs tml) = cut_boundaries tml"
  by (simp_all add: cut_boundaries_def with_tl_children_def with_track_children_def)

end
