(* ===== verification/Edl_Ops.thy ===== *)
theory Edl_Ops
  imports Edl_Anchor Edl_Boundaries
begin

text \<open>
  The structural edits of \<open>crates/core/src/edl/apply.rs\<close>: split, trim, delete, move, the ripple
  edits, gaps and tracks. An operation takes the working timeline and returns the new one with its
  one-line description, or fails: with an \<open>ApplyError\<close>, or with \<open>Panic\<close> where the code
  indexes a vector out of bounds. A failed operation gives no timeline, since \<open>apply\<close> works on
  a clone and drops it.
\<close>

section \<open>Results\<close>

datatype apply_error =
    AE_AnchorMiss nat anchor_miss
  | AE_Invalid nat message
  | AE_OtioInvalid nat "string list"

datatype failure = Panic | Err apply_error

type_synonym 'a edit = "failure + 'a"
type_synonym edited = "(message \<times> timeline) edit"

abbreviation invalid :: "nat \<Rightarrow> message \<Rightarrow> 'a edit" where
  "invalid index m \<equiv> Inl (Err (AE_Invalid index m))"

abbreviation ensures :: "bool \<Rightarrow> failure \<Rightarrow> 'a edit \<Rightarrow> 'a edit" where
  "ensures b e r \<equiv> (if b then r else Inl e)"

text \<open>\<open>xs[i]\<close>.\<close>

definition vec_get :: "'a list \<Rightarrow> nat \<Rightarrow> 'a edit" where
  "vec_get xs i = (if i < length xs then Inr (xs ! i) else Inl Panic)"

text \<open>\<open>let StackChild::Track(track) = &mut working.tracks.children[i] else { return Err }\<close>,
  and likewise for a clip on a track.\<close>

definition track_at :: "nat \<Rightarrow> string \<Rightarrow> timeline \<Rightarrow> nat \<Rightarrow> track edit" where
  "track_at index text tml ti =
     rbind (vec_get (tl_children tml) ti) (\<lambda>sc.
       case sc of SC_Track t \<Rightarrow> Inr t | _ \<Rightarrow> invalid index (msg text))"

definition clip_on :: "nat \<Rightarrow> string \<Rightarrow> track_child list \<Rightarrow> nat \<Rightarrow> clip edit" where
  "clip_on index text cs ci =
     rbind (vec_get cs ci) (\<lambda>tc. case tc of TC_Clip c \<Rightarrow> Inr c | _ \<Rightarrow> invalid index (msg text))"

definition source_range_of :: "nat \<Rightarrow> string \<Rightarrow> clip \<Rightarrow> time_range edit" where
  "source_range_of index text c =
     (case clip_source_range c of None \<Rightarrow> invalid index (msg text) | Some r \<Rightarrow> Inr r)"

definition required_locator :: "nat \<Rightarrow> clip_locator option \<Rightarrow> clip_locator edit" where
  "required_locator index locator =
     (case locator of
        None \<Rightarrow> invalid index
          (msg ''internal error: anchored op applied without a resolved locator'')
      | Some l \<Rightarrow> Inr l)"

text \<open>The range \<open>[start_s, start_s + duration_s)\<close> at a rate.\<close>

definition seconds_range :: "f64 \<Rightarrow> f64 \<Rightarrow> f64 \<Rightarrow> time_range" where
  "seconds_range start_s duration_s rate =
     time_range_new (rational_time_new (fmul start_s rate) rate)
       (rational_time_new (fmul duration_s rate) rate)"

section \<open>Snapping\<close>

datatype snap_target_kind = ClipEdge | MarkerTarget | Playhead

record snap_options =
  so_enabled :: bool
  so_tolerance_s :: f64
  so_targets :: "snap_target_kind list"

definition snap_includes :: "snap_options \<Rightarrow> snap_target_kind \<Rightarrow> bool" where
  "snap_includes snap kind = (so_targets snap = [] \<or> kind \<in> set (so_targets snap))"

fun snap_target_priority :: "snap_target_kind \<Rightarrow> nat" where
  "snap_target_priority MarkerTarget = 0"
| "snap_target_priority ClipEdge = 1"
| "snap_target_priority Playhead = 2"

type_synonym snap_target = "snap_target_kind \<times> f64"

fun track_snap_targets :: "bool \<Rightarrow> bool \<Rightarrow> f64 \<Rightarrow> track_child list \<Rightarrow> snap_target list" where
  "track_snap_targets edges marks cursor_s [] = []"
| "track_snap_targets edges marks cursor_s (c # cs) =
     (let duration_s = child_duration c
      in (if edges then [(ClipEdge, cursor_s), (ClipEdge, fadd cursor_s duration_s)] else [])
         @ (case c of
              TC_Clip cl \<Rightarrow>
                if marks
                then map (\<lambda>m. (MarkerTarget,
                       fadd cursor_s (to_seconds (tr_start_time (mk_marked_range m))))) (clip_markers cl)
                else []
            | _ \<Rightarrow> [])
         @ track_snap_targets edges marks (fadd cursor_s duration_s) cs)"

definition collect_snap_targets :: "timeline \<Rightarrow> snap_options \<Rightarrow> snap_target list" where
  "collect_snap_targets tml snap =
     (let edges = snap_includes snap ClipEdge; marks = snap_includes snap MarkerTarget
      in if \<not> edges \<and> \<not> marks then []
         else concat (map (\<lambda>sc. case sc of
                SC_Track t \<Rightarrow> track_snap_targets edges marks (Fin 0) (track_children t)
              | _ \<Rightarrow> []) (tl_children tml)))"

text \<open>The comparison of two targets: distance, then kind, then time.\<close>

definition target_lt :: "f64 \<Rightarrow> snap_target \<Rightarrow> snap_target \<Rightarrow> bool" where
  "target_lt requested_s a b =
     (let da = fabs (fsub (snd a) requested_s); db = fabs (fsub (snd b) requested_s);
          pa = snap_target_priority (fst a); pb = snap_target_priority (fst b)
      in ftotal_lt da db \<or> \<not> ftotal_lt db da \<and>
           (pa < pb \<or> pa = pb \<and> ftotal_lt (snd a) (snd b)))"

text \<open>\<open>Iterator::min_by\<close>: the first of several minima.\<close>

fun min_target :: "f64 \<Rightarrow> snap_target list \<Rightarrow> snap_target option" where
  "min_target r [] = None"
| "min_target r (t # ts) =
     (case min_target r ts of
        None \<Rightarrow> Some t
      | Some u \<Rightarrow> if target_lt r u t then Some u else Some t)"

definition resolve_snap_time ::
  "timeline \<Rightarrow> nat \<Rightarrow> f64 \<Rightarrow> snap_options option \<Rightarrow> f64 edit" where
  "resolve_snap_time tml index requested_s snap =
     (case snap of
        None \<Rightarrow> Inr requested_s
      | Some so \<Rightarrow>
          if \<not> so_enabled so then Inr requested_s
          else if \<not> is_finite (so_tolerance_s so) \<or> flt (so_tolerance_s so) (Fin 0)
          then invalid index (Fmt ''move: snap_tolerance_s must be finite and >= 0, got {}''
                 [A_f64 (so_tolerance_s so)])
          else (case min_target requested_s
                   (filter (\<lambda>t. fle (fabs (fsub (snd t) requested_s)) (so_tolerance_s so))
                     (collect_snap_targets tml so)) of
                  Some t \<Rightarrow> Inr (snd t)
                | None \<Rightarrow> Inr requested_s))"

section \<open>Tracks\<close>

definition list_track_names :: "timeline \<Rightarrow> string list" where
  "list_track_names tml =
     List.map_filter (\<lambda>sc. case sc of SC_Track t \<Rightarrow> Some (track_name t) | _ \<Rightarrow> None) (tl_children tml)"

datatype insert_track_kind = ITK_Video | ITK_Audio | ITK_Auto

definition to_ascii_lowercase :: "string \<Rightarrow> string" where
  "to_ascii_lowercase = map ascii_lower"

definition resolved_track_kind :: "string \<Rightarrow> insert_track_kind \<Rightarrow> track_kind" where
  "resolved_track_kind trimmed kind =
     (case kind of
        ITK_Video \<Rightarrow> Video
      | ITK_Audio \<Rightarrow> Audio
      | ITK_Auto \<Rightarrow>
          let lower = to_ascii_lowercase trimmed
          in if take 1 lower = ''a'' \<or> take 5 lower = ''audio'' then Audio else Video)"

definition is_track_named :: "string \<Rightarrow> stack_child \<Rightarrow> bool" where
  "is_track_named name sc = (case sc of SC_Track t \<Rightarrow> track_name t = name | _ \<Rightarrow> False)"

definition is_track_kind :: "track_kind \<Rightarrow> stack_child \<Rightarrow> bool" where
  "is_track_kind kind sc = (case sc of SC_Track t \<Rightarrow> track_kind t = kind | _ \<Rightarrow> False)"

text \<open>The indices of the tracks of a kind, in stack order.\<close>

definition kind_indices :: "track_kind \<Rightarrow> stack_child list \<Rightarrow> nat list" where
  "kind_indices kind scs = filter (\<lambda>i. is_track_kind kind (scs ! i)) [0..<length scs]"

definition track_insert_index :: "track_kind \<Rightarrow> nat option \<Rightarrow> stack_child list \<Rightarrow> nat" where
  "track_insert_index kind at_position scs =
     (let same = kind_indices kind scs
      in if same = [] then length scs
         else (case at_position of
             Some target \<Rightarrow> (if target < length same then same ! target else last same) + 1
           | None \<Rightarrow> last same + 1))"

definition apply_insert_track ::
  "nat \<Rightarrow> string \<Rightarrow> insert_track_kind \<Rightarrow> nat option \<Rightarrow> timeline \<Rightarrow> edited" where
  "apply_insert_track index name kind at_position tml =
     (let trimmed = trim name
      in if trimmed = [] then invalid index (msg ''insert_track: name must not be empty'')
         else
           let resolved = resolved_track_kind trimmed kind
           in case List.find (is_track_named trimmed) (tl_children tml) of
                Some sc \<Rightarrow>
                  if is_track_kind resolved sc
                  then Inr (Fmt ''insert_track: track {:?} already exists; left timeline unchanged''
                         [A_dbg trimmed], tml)
                  else invalid index (Fmt ''insert_track: track {:?} exists as {:?}, cannot recreate as {:?}''
                         [A_dbg trimmed, A_kind (if resolved = Video then Audio else Video), A_kind resolved])
              | None \<Rightarrow>
                  let i = track_insert_index resolved at_position (tl_children tml)
                  in Inr (Fmt ''insert_track: added {:?} ({:?}) at stack index {}''
                           [A_dbg trimmed, A_kind resolved, A_nat i],
                         with_tl_children
                           (insert_at i (SC_Track (track_empty trimmed resolved)) (tl_children tml)) tml))"

definition non_gap_count :: "stack_child \<Rightarrow> nat" where
  "non_gap_count sc = length (filter (\<lambda>c. \<not> is_gap c) (sc_children sc))"

definition apply_delete_track :: "nat \<Rightarrow> string \<Rightarrow> bool \<Rightarrow> timeline \<Rightarrow> edited" where
  "apply_delete_track index name force tml =
     (let trimmed = trim name
      in if trimmed = [] then invalid index (msg ''delete_track: name must not be empty'')
         else (case position (is_track_named trimmed) (tl_children tml) of
             None \<Rightarrow> invalid index (Fmt ''delete_track: no track named {:?}{}''
                       [A_dbg trimmed, A_strs (list_track_names tml)])
           | Some i \<Rightarrow>
               let sc = tl_children tml ! i; clip_count = non_gap_count sc
               in if 0 < clip_count \<and> \<not> force
                  then invalid index
                    (Fmt ''delete_track: track {:?} has {} clip(s); refusing to delete without `force: true`''
                       [A_dbg trimmed, A_nat clip_count])
                  else Inr (Fmt ''delete_track: removed {} track {:?} (had {} clip{})''
                         [A_kind (case sc of SC_Track t \<Rightarrow> track_kind t | _ \<Rightarrow> Video), A_dbg trimmed,
                          A_nat clip_count],
                       with_tl_children (remove_at i (tl_children tml)) tml)))"

text \<open>The cascade of \<open>trim_track_tail\<close>: the tracks from index \<open>ti\<close> on whose last clip is
  linked to the primary one.\<close>

fun trim_tails :: "nat \<Rightarrow> string \<Rightarrow> nat \<Rightarrow> stack_child list \<Rightarrow> (string \<times> nat \<times> f64) list \<times> stack_child list" where
  "trim_tails primary group_id ti [] = ([], [])"
| "trim_tails primary group_id ti (sc # scs) =
     (case trim_tails primary group_id (Suc ti) scs of
        (cascaded, rest) \<Rightarrow>
          if ti = primary \<or> last_clip_link_group_id sc \<noteq> Some group_id then (cascaded, sc # rest)
          else (case pop_trailing_gaps sc of
              ((count, total_s), sc') \<Rightarrow>
                ((if 0 < count
                  then [((case sc of SC_Track t \<Rightarrow> track_name t | _ \<Rightarrow> []), count, total_s)] else [])
                   @ cascaded, sc' # rest)))"

definition apply_trim_track_tail :: "nat \<Rightarrow> string \<Rightarrow> timeline \<Rightarrow> edited" where
  "apply_trim_track_tail index name tml =
     (if trim name = [] then invalid index (msg ''trim_track_tail: track must not be empty'')
      else (case position (is_track_named name) (tl_children tml) of
          None \<Rightarrow> invalid index (Fmt ''trim_track_tail: no track named {:?}{}''
                    [A_dbg name, A_strs (list_track_names tml)])
        | Some primary \<Rightarrow>
            let group = last_clip_link_group_id (tl_children tml ! primary);
                ((count, total_s), sc') = pop_trailing_gaps (tl_children tml ! primary);
                scs1 = (tl_children tml)[primary := sc'];
                (cascaded, scs2) =
                  (case group of None \<Rightarrow> ([], scs1) | Some g \<Rightarrow> trim_tails primary g 0 scs1)
            in if count = 0 \<and> cascaded = []
               then Inr (Fmt ''trim_track_tail: track {:?} already ends in a clip; left timeline unchanged''
                      [A_dbg name], with_tl_children scs2 tml)
               else Inr (Fmt ''trim_track_tail: removed {} trailing gap{} ({:.3}s) from track {:?}{}''
                      [A_nat count, A_secs total_s, A_dbg name,
                       A_msgs (map (\<lambda>(n, c, t). Fmt ''{:?} ({} gap{}, {:.3}s)''
                         [A_dbg n, A_nat c, A_secs t]) cascaded)],
                    with_tl_children scs2 tml)))"

end
