(* ===== verification/Edl_Clips.thy ===== *)
theory Edl_Clips
  imports Edl_Ops
begin

text \<open>
  The edits of \<open>crates/core/src/edl/apply.rs\<close> that act on the clip an anchor resolved to:
  split, trim, delete, delete gap, move, ripple move, ripple delete, ripple trim. The clock behind
  the fresh ids is a function from the global counter to nanoseconds; the counter is passed along.
\<close>

abbreviation not_a_track :: string where
  "not_a_track \<equiv> ''anchor resolved to a non-track stack child''"

abbreviation not_a_clip :: string where
  "not_a_clip \<equiv> ''anchor resolved to a non-clip track child''"

definition clip_at_locator :: "timeline \<Rightarrow> clip_locator \<Rightarrow> clip option" where
  "clip_at_locator = clip_at"

text \<open>The locators, on the other tracks, of the linked clips a predicate finds.\<close>

definition sibling_locators ::
  "(stack_child \<Rightarrow> nat option) \<Rightarrow> nat \<Rightarrow> timeline \<Rightarrow> clip_locator list" where
  "sibling_locators finds primary tml =
     List.map_filter (\<lambda>(ti, sc).
       if ti = primary then None
       else map_option (\<lambda>ci. \<lparr>cl_track_index = ti, cl_child_index = ci\<rparr>) (finds sc))
       (enumerate 0 (tl_children tml))"

section \<open>Split\<close>

record split_result =
  sr_original_name :: string
  sr_right_name :: string
  sr_right_uuid :: string
  sr_start_s :: f64
  sr_end_s :: f64

definition right_piece :: "string \<Rightarrow> f64 \<Rightarrow> f64 \<Rightarrow> f64 \<Rightarrow> clip \<Rightarrow> clip" where
  "right_piece uuid at_s end_s rate c =
     stamp_clip_uuid uuid
       (keep_only_split_edit_trail
         (c\<lparr>clip_name := clip_name c @ ''-b'',
            clip_source_range := Some (seconds_range at_s (fsub end_s at_s) rate)\<rparr>))"

definition left_piece :: "f64 \<Rightarrow> f64 \<Rightarrow> f64 \<Rightarrow> clip \<Rightarrow> clip" where
  "left_piece start_s at_s rate c =
     keep_only_split_edit_lead
       (c\<lparr>clip_source_range := Some (seconds_range start_s (fsub at_s start_s) rate)\<rparr>)"

definition split_clip_at_locator ::
  "(nat \<Rightarrow> nat) \<Rightarrow> nat \<Rightarrow> clip_locator \<Rightarrow> f64 \<Rightarrow> timeline \<Rightarrow> nat \<Rightarrow> (split_result \<times> timeline \<times> nat) edit" where
  "split_clip_at_locator clock index locator at_s tml seq =
     rbind (track_at index not_a_track tml (cl_track_index locator)) (\<lambda>track.
     rbind (clip_on index not_a_clip (track_children track) (cl_child_index locator)) (\<lambda>c.
     rbind (source_range_of index
        ''clip has no source_range; cannot split a clip with implicit range'' c) (\<lambda>r.
     let rate = rt_rate (tr_start_time r);
         start_s = to_seconds (tr_start_time r);
         end_s = fadd start_s (to_seconds (tr_duration r))
     in if fle at_s start_s \<or> fle end_s at_s
        then invalid index (Fmt ''split: at_s {} must lie strictly inside source range [{}, {})''
               [A_f64 at_s, A_f64 start_s, A_f64 end_s])
        else
          let uuid = fresh_clip_uuid (clock seq) seq;
              ci = cl_child_index locator;
              cs = insert_at (ci + 1) (TC_Clip (right_piece uuid at_s end_s rate c))
                     ((track_children track)[ci := TC_Clip (left_piece start_s at_s rate c)]);
              tml' = transfer_outgoing_cut_boundary_to_split_right (clip_id c) uuid
                      (with_track_children (cl_track_index locator) cs tml)
          in Inr (\<lparr>sr_original_name = clip_name c, sr_right_name = clip_name c @ ''-b'',
                   sr_right_uuid = uuid, sr_start_s = start_s, sr_end_s = end_s\<rparr>,
                  tml', seq + 1))))"

fun split_all ::
  "(nat \<Rightarrow> nat) \<Rightarrow> nat \<Rightarrow> clip_locator list \<Rightarrow> f64 \<Rightarrow> timeline \<Rightarrow> nat \<Rightarrow> (timeline \<times> nat) edit" where
  "split_all clock index [] at_s tml seq = Inr (tml, seq)"
| "split_all clock index (l # ls) at_s tml seq =
     rbind (split_clip_at_locator clock index l at_s tml seq) (\<lambda>(_, tml', seq').
     split_all clock index ls at_s tml' seq')"

definition split_linked_siblings ::
  "(nat \<Rightarrow> nat) \<Rightarrow> nat \<Rightarrow> clip_locator \<Rightarrow> string \<Rightarrow> f64 \<Rightarrow> timeline \<Rightarrow> nat \<Rightarrow> (nat \<times> timeline \<times> nat) edit" where
  "split_linked_siblings clock index primary group_id at_s tml seq =
     (let ls = sibling_locators (\<lambda>sc. clip_with_link_group_containing sc group_id at_s)
                 (cl_track_index primary) tml
      in rbind (split_all clock index ls at_s tml seq) (\<lambda>(tml', seq'). Inr (length ls, tml', seq')))"

definition apply_split ::
  "(nat \<Rightarrow> nat) \<Rightarrow> nat \<Rightarrow> f64 \<Rightarrow> snap_options option \<Rightarrow> clip_locator option \<Rightarrow> timeline \<Rightarrow> nat
    \<Rightarrow> (message \<times> timeline \<times> nat) edit" where
  "apply_split clock index at_s snap loc tml seq =
     rbind (required_locator index loc) (\<lambda>locator.
     rbind (track_at index not_a_track tml (cl_track_index locator)) (\<lambda>track.
     rbind (clip_on index not_a_clip (track_children track) (cl_child_index locator)) (\<lambda>c.
     rbind (source_range_of index
        ''clip has no source_range; cannot split a clip with implicit range'' c) (\<lambda>r.
     let projected = fadd (start_of (track_children track) (cl_child_index locator))
                       (fsub at_s (to_seconds (tr_start_time r)))
     in rbind (case snap of
                 None \<Rightarrow> Inr at_s
               | Some _ \<Rightarrow> rbind (resolve_snap_time tml index projected snap) (\<lambda>snapped.
                            Inr (fadd at_s (fsub snapped projected)))) (\<lambda>cut_s.
        let group = Option.bind (clip_at_locator tml locator) clip_link_group_id
        in rbind (split_clip_at_locator clock index locator cut_s tml seq) (\<lambda>(split, tml1, seq1).
           rbind (case group of
                    None \<Rightarrow> Inr (0, tml1, seq1)
                  | Some g \<Rightarrow> split_linked_siblings clock index locator g cut_s tml1 seq1)
             (\<lambda>(linked_count, tml2, seq2).
           Inr (Fmt ''split clip {:?} at {:.3}s: [{:.3}s..] + {:?} anchor=clip_uuid={} [..{:.3}s]{}''
                  [A_dbg (sr_original_name split), A_secs cut_s, A_secs (sr_start_s split),
                   A_dbg (sr_right_name split), A_str (sr_right_uuid split),
                   A_secs (sr_end_s split), A_nat linked_count], tml2, seq2))))))))"

section \<open>Trim\<close>

fun trim_all :: "nat \<Rightarrow> clip_locator list \<Rightarrow> f64 \<Rightarrow> f64 \<Rightarrow> timeline \<Rightarrow> (nat \<times> timeline) edit" where
  "trim_all index [] target_start target_end tml = Inr (0, tml)"
| "trim_all index (l # ls) target_start target_end tml =
     rbind (vec_get (tl_children tml) (cl_track_index l)) (\<lambda>sc.
       case sc of
         SC_Track track \<Rightarrow>
           rbind (vec_get (track_children track) (cl_child_index l)) (\<lambda>tc.
             case tc of
               TC_Clip c \<Rightarrow>
                 (case clip_source_range c of
                    None \<Rightarrow> trim_all index ls target_start target_end tml
                  | Some r \<Rightarrow>
                      if flt target_end target_start
                      then invalid index (Fmt ''linked trim: end {} must be >= start {}''
                             [A_f64 target_end, A_f64 target_start])
                      else
                        let c' = c\<lparr>clip_source_range := Some (seconds_range target_start
                                    (fsub target_end target_start) (rt_rate (tr_start_time r)))\<rparr>
                        in rbind (trim_all index ls target_start target_end
                             (with_track_children (cl_track_index l)
                               ((track_children track)[cl_child_index l := TC_Clip c']) tml))
                             (\<lambda>(count, tml'). Inr (count + 1, tml')))
             | _ \<Rightarrow> trim_all index ls target_start target_end tml)
       | _ \<Rightarrow> trim_all index ls target_start target_end tml)"

definition trim_linked_siblings ::
  "nat \<Rightarrow> clip_locator \<Rightarrow> string \<Rightarrow> f64 \<Rightarrow> f64 \<Rightarrow> f64 \<Rightarrow> f64 \<Rightarrow> timeline \<Rightarrow> (nat \<times> timeline) edit" where
  "trim_linked_siblings index primary group_id target_start target_end original_start original_end tml =
     trim_all index
       (sibling_locators (\<lambda>sc.
          clip_with_link_group_covering_range sc group_id original_start original_end)
          (cl_track_index primary) tml)
       target_start target_end tml"

definition apply_trim ::
  "nat \<Rightarrow> f64 option \<Rightarrow> f64 option \<Rightarrow> clip_locator option \<Rightarrow> timeline \<Rightarrow> edited" where
  "apply_trim index new_start new_end loc tml =
     rbind (required_locator index loc) (\<lambda>locator.
     rbind (track_at index not_a_track tml (cl_track_index locator)) (\<lambda>track.
     rbind (clip_on index not_a_clip (track_children track) (cl_child_index locator)) (\<lambda>c.
     rbind (source_range_of index
        ''clip has no source_range; cannot trim a clip with implicit range'' c) (\<lambda>r.
     let group = clip_link_group_id c;
         rate = rt_rate (tr_start_time r);
         original_start = to_seconds (tr_start_time r);
         original_end = fadd (to_seconds (tr_start_time r)) (to_seconds (tr_duration r));
         target_start = unwrap_or original_start new_start;
         target_end = unwrap_or original_end new_end;
         new_dur = fsub target_end target_start
     in ensures (\<not> flt target_end target_start)
          (Err (AE_Invalid index (Fmt ''trim: end {} must be >= start {}''
             [A_f64 target_end, A_f64 target_start]))) (
        ensures (\<not> flt (fadd original_end micro) target_end)
          (Err (AE_Invalid index (Fmt ''trim: end {:.3}s is past the current source range end {:.3}s''
             [A_secs target_end, A_secs original_end]))) (
        ensures (\<not> flt target_start (fsub original_start micro))
          (Err (AE_Invalid index (Fmt ''trim: start {:.3}s is before the current source range start {:.3}s''
             [A_secs target_start, A_secs original_start]))) (
        ensures (\<not> (flt (fabs (fsub target_start original_start)) micro
                    \<and> flt (fabs (fsub target_end original_end)) micro))
          (Err (AE_Invalid index (Fmt ''trim: requested range [{:.3}s..{:.3}s] is a no-op''
             [A_secs target_start, A_secs target_end]))) (
        ensures (\<not> flt new_dur (Fin 0))
          (Err (AE_Invalid index (Fmt ''trim: computed negative duration {}'' [A_f64 new_dur]))) (
        let c' = c\<lparr>clip_source_range := Some (seconds_range target_start new_dur rate)\<rparr>;
            tml1 = with_track_children (cl_track_index locator)
                    ((track_children track)[cl_child_index locator := TC_Clip c']) tml
        in rbind (case group of
                    None \<Rightarrow> Inr (0, tml1)
                  | Some g \<Rightarrow> trim_linked_siblings index locator g target_start target_end
                               original_start original_end tml1)
             (\<lambda>(linked_count, tml2).
           Inr (Fmt ''trimmed clip {:?} to [{:.3}s..{:.3}s] ({:.3}s){}''
                  [A_dbg (clip_name c), A_secs target_start, A_secs target_end, A_secs new_dur,
                   A_nat linked_count], tml2)))))))))))"

section \<open>Delete\<close>

definition apply_delete :: "nat \<Rightarrow> clip_locator option \<Rightarrow> timeline \<Rightarrow> edited" where
  "apply_delete index loc tml =
     rbind (required_locator index loc) (\<lambda>locator.
     rbind (track_at index not_a_track tml (cl_track_index locator)) (\<lambda>track.
     let cs = track_children track; ci = cl_child_index locator
     in rbind (vec_get cs ci) (\<lambda>removed.
        let gap_rate = unwrap_or (Fin 24) (as_clip_rate removed);
            with_gap = cs[ci := gap_child (child_duration removed) gap_rate];
            (removed_transitions, pruned) = remove_transitions_around_child with_gap ci;
            tml1 = with_track_children (cl_track_index locator)
                    (merge_adjacent_gaps pruned gap_rate) tml;
            tml2 = (case track_child_clip_id removed of
                     None \<Rightarrow> tml1 | Some cid \<Rightarrow> remove_cut_boundaries_for_clip cid tml1);
            name = (case removed of TC_Clip c \<Rightarrow> clip_name c | _ \<Rightarrow> ''<non-clip>'')
        in Inr (if removed_transitions = 0 then Fmt ''deleted clip {:?}'' [A_dbg name]
                else Fmt ''deleted clip {:?} and removed {} adjacent transition(s)''
                       [A_dbg name, A_nat removed_transitions], tml2))))"

datatype gap_side = GapBefore | GapAfter

fun gap_side_debug :: "gap_side \<Rightarrow> string" where
  "gap_side_debug GapBefore = ''Before''"
| "gap_side_debug GapAfter = ''After''"

definition remove_one_gap ::
  "nat \<Rightarrow> nat \<Rightarrow> nat \<Rightarrow> gap_side \<Rightarrow> timeline \<Rightarrow> ((f64 \<times> nat) \<times> timeline) edit" where
  "remove_one_gap index ti ci side tml =
     rbind (track_at index ''delete_gap: target slot is not a track'' tml ti) (\<lambda>track.
     let cs = track_children track
     in ensures (ci < length cs)
          (Err (AE_Invalid index (Fmt ''delete_gap: source index {} out of bounds for track of length {}''
             [A_nat ci, A_nat (length cs)]))) (
        rbind (case side of
                 GapBefore \<Rightarrow>
                   if ci = 0
                   then invalid index (msg ''delete_gap: anchor at track start; no preceding gap'')
                   else Inr (ci - 1)
               | GapAfter \<Rightarrow>
                   if length cs \<le> ci + 1
                   then invalid index (msg ''delete_gap: anchor is last child; no trailing gap'')
                   else Inr (ci + 1)) (\<lambda>gi.
        if \<not> is_gap (cs ! gi)
        then invalid index (Fmt ''delete_gap: child at {} on track {} is not a gap'' [A_nat gi, A_nat ti])
        else Inr ((child_duration (cs ! gi), ti), with_track_children ti (remove_at gi cs) tml))))"

text \<open>The cascade over the tracks from the given indices on.\<close>

fun remove_linked_gaps ::
  "nat \<Rightarrow> nat \<Rightarrow> string \<Rightarrow> gap_side \<Rightarrow> nat list \<Rightarrow> timeline \<Rightarrow> (nat list \<times> timeline) edit" where
  "remove_linked_gaps index primary group_id side [] tml = Inr ([], tml)"
| "remove_linked_gaps index primary group_id side (ti # tis) tml =
     (if ti = primary then remove_linked_gaps index primary group_id side tis tml
      else (case first_clip_with_link_group (tl_children tml ! ti) group_id of
          None \<Rightarrow> remove_linked_gaps index primary group_id side tis tml
        | Some ci \<Rightarrow>
            (case remove_one_gap index ti ci side tml of
               Inr (_, tml') \<Rightarrow>
                 rbind (remove_linked_gaps index primary group_id side tis tml')
                   (\<lambda>(cascaded, tml''). Inr (ti # cascaded, tml''))
             | Inl Panic \<Rightarrow> Inl Panic
             | Inl (Err _) \<Rightarrow> remove_linked_gaps index primary group_id side tis tml)))"

definition apply_delete_gap ::
  "nat \<Rightarrow> gap_side \<Rightarrow> clip_locator option \<Rightarrow> timeline \<Rightarrow> edited" where
  "apply_delete_gap index side loc tml =
     rbind (required_locator index loc) (\<lambda>locator.
     let group = Option.bind (clip_at tml locator) clip_link_group_id
     in case remove_one_gap index (cl_track_index locator) (cl_child_index locator) side tml of
          Inl (Err (AE_Invalid _ m)) \<Rightarrow>
            Inr (Fmt ''delete_gap: {}; left timeline unchanged'' [A_msg m], tml)
        | Inl e \<Rightarrow> Inl e
        | Inr ((removed, primary), tml1) \<Rightarrow>
            rbind (case group of
                     None \<Rightarrow> Inr ([], tml1)
                   | Some g \<Rightarrow> remove_linked_gaps index primary g side
                                [0..<length (tl_children tml1)] tml1)
              (\<lambda>(cascaded, tml2).
            Inr (Fmt ''deleted {:?} gap ({:.3}s) on track {} (cascaded to {} linked tracks)''
                   [A_str (gap_side_debug side), A_secs removed, A_nat primary, A_nat (length cascaded)], tml2)))"

end
