(* ===== verification/Edl_Insert.thy ===== *)
theory Edl_Insert
  imports Edl_Clips
begin

text \<open>
  Building a timeline and widening a clip again, from \<open>crates/core/src/edl/apply.rs\<close>:
  \<open>apply_insert_clip\<close> with the choice of the track, the name and the position, and
  \<open>apply_untrim\<close>. The unbounded search for an unused name is a search among as many candidates
  as there are children, plus one; \<open>unused_name_total\<close> shows that it always succeeds.
\<close>

section \<open>Names\<close>

definition used_names :: "track_child list \<Rightarrow> string list" where
  "used_names cs = List.map_filter (\<lambda>tc. case tc of TC_Clip c \<Rightarrow> Some (clip_name c) | _ \<Rightarrow> None) cs"

text \<open>The first \<open>prefix-i\<close>, from \<open>i = first\<close> on, that no clip of the track has.\<close>

definition unused_name :: "string \<Rightarrow> nat \<Rightarrow> track_child list \<Rightarrow> string option" where
  "unused_name prefix first cs =
     List.find (\<lambda>candidate. candidate \<notin> set (used_names cs))
       (map (\<lambda>i. prefix @ ''-'' @ dec_of_nat i) [first..<first + length cs + 1])"

definition next_clip_name_in_track :: "track_child list \<Rightarrow> string edit" where
  "next_clip_name_in_track cs =
     (case unused_name ''clip'' 0 cs of None \<Rightarrow> Inl Panic | Some n \<Rightarrow> Inr n)"

definition default_clip_name_for_asset :: "track_child list \<Rightarrow> string \<Rightarrow> string edit" where
  "default_clip_name_for_asset cs asset =
     (case file_stem asset of
        None \<Rightarrow> next_clip_name_in_track cs
      | Some s \<Rightarrow>
          let stem = trim s
          in if stem = [] then next_clip_name_in_track cs
             else if stem \<notin> set (used_names cs) then Inr stem
             else (case unused_name stem 2 cs of None \<Rightarrow> Inl Panic | Some n \<Rightarrow> Inr n))"

section \<open>Insert\<close>

definition starts_with :: "string \<Rightarrow> string \<Rightarrow> bool" where
  "starts_with p s = (take (length p) s = p)"

definition infer_insert_track_kind :: "string \<Rightarrow> insert_track_kind option \<Rightarrow> track_kind" where
  "infer_insert_track_kind name hint =
     (case hint of
        Some ITK_Video \<Rightarrow> Video
      | Some ITK_Audio \<Rightarrow> Audio
      | _ \<Rightarrow>
          let n = to_ascii_lowercase (trim name)
          in if n = ''a1'' \<or> starts_with ''a '' n \<or> starts_with ''a-'' n
                \<or> starts_with ''audio'' n \<or> starts_with ''music'' n
             then Audio else Video)"

definition is_generated_visual_asset :: "string \<Rightarrow> bool" where
  "is_generated_visual_asset asset \<longleftrightarrow>
     starts_with ''generated/'' asset \<or> str_contains asset ''raw/generated/''
       \<or> str_contains asset ''/generated/''"

definition validate_visual_range ::
  "nat \<Rightarrow> string \<Rightarrow> string \<Rightarrow> f64 \<Rightarrow> f64 \<Rightarrow> f64 \<Rightarrow> unit edit" where
  "validate_visual_range index kind label start_s duration_s timeline_end_s =
     (if \<not> is_finite start_s \<or> flt start_s (Fin 0)
      then invalid index (Fmt ''{} {:?} start {} must be a finite non-negative timeline time''
             [A_str kind, A_dbg label, A_f64 start_s])
      else if \<not> is_finite duration_s \<or> fle duration_s (Fin 0)
      then invalid index (Fmt ''{} {:?} duration {} must be > 0'' [A_str kind, A_dbg label, A_f64 duration_s])
      else if fle timeline_end_s milli then Inr ()
      else if flt (fadd timeline_end_s milli) (fadd start_s duration_s)
      then invalid index (Fmt ''{} {:?} is outside timeline: [{:.3}s..{:.3}s] exceeds current timeline end {:.3}s''
             [A_str kind, A_dbg label, A_secs start_s, A_secs (fadd start_s duration_s),
              A_secs timeline_end_s])
      else Inr ())"

definition stamp_link_group_id :: "string \<Rightarrow> clip \<Rightarrow> clip" where
  "stamp_link_group_id gid c =
     (let montage = (case cm_montage (clip_metadata c) of
                       None \<Rightarrow> montage_clip_metadata_default | Some m \<Rightarrow> m)
      in c\<lparr>clip_metadata := (clip_metadata c)\<lparr>cm_montage :=
             Some (montage\<lparr>mcm_extra := bt_insert ''link_group_id'' (JStr gid) (mcm_extra montage)\<rparr>)\<rparr>\<rparr>)"

text \<open>Where the first linked clip on a track of the kind starts.\<close>

fun linked_start :: "string \<Rightarrow> f64 \<Rightarrow> track_child list \<Rightarrow> f64 option" where
  "linked_start group_id cursor_s [] = None"
| "linked_start group_id cursor_s (c # cs) =
     (if linked group_id (\<lambda>_. True) c then Some cursor_s
      else linked_start group_id (fadd cursor_s (child_duration c)) cs)"

definition linked_clip_track_time :: "timeline \<Rightarrow> string \<Rightarrow> track_kind \<Rightarrow> f64 option" where
  "linked_clip_track_time tml group_id kind =
     find_map (\<lambda>sc. if is_track_kind kind sc then linked_start group_id (Fin 0) (sc_children sc) else None)
       (tl_children tml)"

text \<open>The loop that looks for the child starting at the requested time: its index if there is one,
  and the cursor where the loop stopped.\<close>

fun boundary_at :: "f64 \<Rightarrow> nat \<Rightarrow> f64 \<Rightarrow> track_child list \<Rightarrow> nat option \<times> f64" where
  "boundary_at target idx cursor_s [] = (None, cursor_s)"
| "boundary_at target idx cursor_s (c # cs) =
     (if fle (fabs (fsub cursor_s target)) milli then (Some idx, cursor_s)
      else boundary_at target (Suc idx) (fadd cursor_s (child_duration c)) cs)"

text \<open>The children, padded with a gap where needed, and the position of the new clip.\<close>

definition place_at_time :: "f64 \<Rightarrow> f64 \<Rightarrow> track_child list \<Rightarrow> track_child list \<times> nat" where
  "place_at_time rate target cs =
     (case boundary_at target 0 (Fin 0) cs of
        (Some i, _) \<Rightarrow> (cs, i)
      | (None, cursor_s) \<Rightarrow>
          if flt (fadd cursor_s milli) target
          then (cs @ [gap_child (fsub target cursor_s) rate], length cs + 1)
          else (cs, length cs))"

record insert_clip_args =
  ica_asset :: string
  ica_track :: string
  ica_track_kind :: "insert_track_kind option"
  ica_at_position :: "nat option"
  ica_at_s :: "f64 option"
  ica_start :: "f64 option"
  ica_end :: "f64 option"
  ica_name :: "string option"
  ica_link_group_id :: "string option"
  ica_snap :: "snap_options option"

definition apply_insert_clip ::
  "(nat \<Rightarrow> nat) \<Rightarrow> nat \<Rightarrow> insert_clip_args \<Rightarrow> timeline \<Rightarrow> nat \<Rightarrow> (message \<times> timeline \<times> nat) edit" where
  "apply_insert_clip clock index a tml0 seq =
     rbind (map_transpose (\<lambda>t. resolve_snap_time tml0 index t (ica_snap a)) (ica_at_s a)) (\<lambda>snapped_at_s.
     let kind = infer_insert_track_kind (ica_track a) (ica_track_kind a);
         (ti, tml) =
           (case position (is_track_named (ica_track a)) (tl_children tml0) of
              Some i \<Rightarrow> (i, tml0)
            | None \<Rightarrow> (length (tl_children tml0),
                with_tl_children (tl_children tml0 @ [SC_Track (track_empty (ica_track a) kind)]) tml0));
         start = unwrap_or (Fin 0) (ica_start a);
         end_s = unwrap_or (fadd start (Fin 1)) (ica_end a);
         length_s = fsub end_s start
     in ensures (\<not> fle end_s start)
          (Err (AE_Invalid index (Fmt ''insert: end {:.3}s must be > start {:.3}s''
             [A_secs end_s, A_secs start]))) (
        rbind (case snapped_at_s of
                 None \<Rightarrow> Inr ()
               | Some at_s \<Rightarrow>
                   ensures (is_finite at_s \<and> \<not> flt at_s (Fin 0))
                     (Err (AE_Invalid index (Fmt ''insert: at_s must be a finite non-negative timeline time, got {}''
                        [A_f64 at_s])))
                     (if kind = Video \<and> is_generated_visual_asset (ica_asset a)
                      then validate_visual_range index ''insert_clip'' (ica_asset a) at_s length_s
                             (timeline_duration tml)
                      else Inr ())) (\<lambda>_.
        rbind (vec_get (tl_children tml) ti) (\<lambda>sc.
        let rate = Fin 24;
            linked_video_start_s =
              Option.bind (ica_link_group_id a) (\<lambda>g.
                if ica_at_position a = None \<and> snapped_at_s = None \<and> is_track_kind Audio sc
                then linked_clip_track_time tml g Video else None)
        in rbind (track_at index ''track index resolved to a non-track stack child'' tml ti) (\<lambda>track.
        let cs = track_children track;
            (cs1, timeline_pos) =
              (case snapped_at_s of
                 Some target \<Rightarrow> (case place_at_time rate target cs of (cs', p) \<Rightarrow> (cs', Some p))
               | None \<Rightarrow>
                   (case linked_video_start_s of
                      None \<Rightarrow> (cs, None)
                    | Some target \<Rightarrow>
                        let cursor_s = fsum (map child_duration cs)
                        in (if flt (fadd cursor_s milli) target
                            then cs @ [gap_child (fsub target cursor_s) rate] else cs, None)));
            pos = min (case timeline_pos of Some p \<Rightarrow> p
                       | None \<Rightarrow> unwrap_or (length cs1) (ica_at_position a)) (length cs1)
        in rbind (if track_kind track = Video \<and> is_generated_visual_asset (ica_asset a)
                  then validate_visual_range index ''insert_clip'' (ica_asset a) (start_of cs1 pos)
                         length_s (timeline_duration tml)
                  else Inr ()) (\<lambda>_.
        rbind (case ica_name a of
                 Some n \<Rightarrow> Inr n | None \<Rightarrow> default_clip_name_for_asset cs1 (ica_asset a)) (\<lambda>name.
        let bare = (clip_empty name)\<lparr>
              clip_media_reference := MR_External (external_reference_new (ica_asset a)),
              clip_source_range := Some (seconds_range start length_s rate)\<rparr>;
            stamped = stamp_clip_uuid (fresh_clip_uuid (clock seq) seq) bare;
            c = (case ica_link_group_id a of None \<Rightarrow> stamped | Some g \<Rightarrow> stamp_link_group_id g stamped)
        in Inr (Fmt ''inserted clip {:?} on track {:?} at position {}: asset={:?} source=[{:.3}s..{:.3}s] ({:.3}s)''
                  [A_dbg name, A_dbg (ica_track a), A_nat pos, A_dbg (ica_asset a), A_secs start,
                   A_secs end_s, A_secs length_s],
                with_track_children ti (insert_at pos (TC_Clip c) cs1) tml, seq + 1))))))))"

section \<open>Untrim\<close>

definition available_bounds :: "clip \<Rightarrow> f64 \<times> f64" where
  "available_bounds c =
     (case (case clip_media_reference c of
              MR_External e \<Rightarrow> er_available_range e | MR_Missing _ \<Rightarrow> None) of
        Some r \<Rightarrow> (to_seconds (tr_start_time r),
                   fadd (to_seconds (tr_start_time r)) (to_seconds (tr_duration r)))
      | None \<Rightarrow> (Fin 0, Inf False))"

definition apply_untrim ::
  "nat \<Rightarrow> f64 option \<Rightarrow> f64 option \<Rightarrow> clip_locator option \<Rightarrow> timeline \<Rightarrow> edited" where
  "apply_untrim index new_start new_end loc tml =
     rbind (required_locator index loc) (\<lambda>locator.
     rbind (track_at index not_a_track tml (cl_track_index locator)) (\<lambda>track.
     rbind (clip_on index not_a_clip (track_children track) (cl_child_index locator)) (\<lambda>c.
     rbind (source_range_of index ''clip has no source_range; nothing to untrim'' c) (\<lambda>r.
     let rate = rt_rate (tr_start_time r);
         cur_start = to_seconds (tr_start_time r);
         cur_end = fadd cur_start (to_seconds (tr_duration r));
         (avail_start, avail_end) = available_bounds c;
         target_start = unwrap_or cur_start new_start;
         target_end = unwrap_or cur_end new_end
     in ensures (\<not> flt target_end target_start)
          (Err (AE_Invalid index (Fmt ''untrim: end {} must be >= start {}''
             [A_f64 target_end, A_f64 target_start]))) (
        ensures (\<not> (flt (fadd cur_start micro) target_start \<or> flt target_end (fsub cur_end micro)))
          (Err (AE_Invalid index (Fmt ''untrim: requested range [{:.3}s..{:.3}s] is narrower than current [{:.3}s..{:.3}s]''
             [A_secs target_start, A_secs target_end, A_secs cur_start, A_secs cur_end]))) (
        let final_start = fmax target_start avail_start;
            final_end = (if is_finite avail_end then fmin target_end avail_end else target_end);
            new_dur = fsub final_end final_start
        in ensures (\<not> fle new_dur (Fin 0))
             (Err (AE_Invalid index (Fmt ''untrim: computed non-positive duration {} after capping to available range''
                [A_f64 new_dur]))) (
           let c' = c\<lparr>clip_source_range := Some (seconds_range final_start new_dur rate)\<rparr>;
               tml1 = with_track_children (cl_track_index locator)
                       ((track_children track)[cl_child_index locator := TC_Clip c']) tml
           in rbind (case clip_link_group_id c of
                       None \<Rightarrow> Inr (0, tml1)
                     | Some g \<Rightarrow> trim_linked_siblings index locator g final_start final_end
                                  cur_start cur_end tml1) (\<lambda>(linked_count, tml2).
              Inr (Fmt ''untrimmed clip {:?} to [{:.3}s..{:.3}s] ({:.3}s) was [{:.3}s..{:.3}s]{}''
                     [A_dbg (clip_name c), A_secs final_start, A_secs final_end, A_secs new_dur,
                      A_secs cur_start, A_secs cur_end, A_nat linked_count], tml2)))))))))"

end
