(* ===== verification/Edl_Moves.thy ===== *)
theory Edl_Moves
  imports Edl_Clips
begin

text \<open>
  The edits of \<open>crates/core/src/edl/apply.rs\<close> that move clips along the timeline: moving a clip
  to another position or time, and the ripple edits, which take the clips after it and its linked
  siblings on other tracks along. Also removing a transition and recording the intent of a cut.
\<close>

section \<open>Move\<close>

definition apply_move_clip_to_time :: "nat \<Rightarrow> track \<Rightarrow> nat \<Rightarrow> f64 \<Rightarrow> (message \<times> track_child list) edit" where
  "apply_move_clip_to_time index track ci target_start_s =
     (let cs = track_children track
      in ensures (is_finite target_start_s \<and> \<not> flt target_start_s (Fin 0))
           (Err (AE_Invalid index (Fmt ''move: at_s must be a finite non-negative time, got {}''
              [A_f64 target_start_s]))) (
         rbind (vec_get cs ci) (\<lambda>child.
         let original_start_s = start_of cs ci; duration_s = child_duration child
         in ensures (\<not> fle duration_s (Fin 0))
              (Err (AE_Invalid index (msg ''move: source clip has zero duration''))) (
            if flt (fabs (fsub target_start_s original_start_s)) (f64_lit (1 / 100))
            then Inr (case child of
                    TC_Clip c \<Rightarrow> Fmt ''move: clip {:?} already starts at {:.3}s; left timeline unchanged''
                                  [A_dbg (clip_name c), A_secs target_start_s]
                  | _ \<Rightarrow> msg ''move: source is not a clip; left timeline unchanged'', cs)
            else
              let rate = unwrap_or (Fin 24) (as_clip_rate child);
                  with_gap = cs[ci := gap_child duration_s rate];
                  placed = insert_child_at_time with_gap child target_start_s duration_s rate;
                  name = (case child of TC_Clip c \<Rightarrow> clip_name c | _ \<Rightarrow> ''<non-clip>'')
              in Inr (Fmt ''moved clip {:?} from {:.3}s to {:.3}s on track {:?}''
                        [A_dbg name, A_secs original_start_s, A_secs target_start_s,
                         A_dbg (track_name track)],
                      merge_adjacent_gaps placed rate)))))"

definition apply_move_clip ::
  "nat \<Rightarrow> nat \<Rightarrow> f64 option \<Rightarrow> snap_options option \<Rightarrow> clip_locator option \<Rightarrow> timeline \<Rightarrow> edited" where
  "apply_move_clip index to_position at_s snap loc tml =
     rbind (required_locator index loc) (\<lambda>locator.
     rbind (map_transpose (\<lambda>t. resolve_snap_time tml index t snap) at_s) (\<lambda>target_start_s.
     rbind (track_at index ''move: anchor resolved to a non-track stack child'' tml
        (cl_track_index locator)) (\<lambda>track.
     let cs = track_children track; ci = cl_child_index locator
     in ensures (ci < length cs)
          (Err (AE_Invalid index (Fmt ''move: source index {} out of bounds for track of length {}''
             [A_nat ci, A_nat (length cs)]))) (
        case target_start_s of
          Some t \<Rightarrow>
            rbind (apply_move_clip_to_time index track ci t) (\<lambda>(note, cs').
            Inr (note, with_track_children (cl_track_index locator) cs' tml))
        | None \<Rightarrow>
            let target_user = min to_position (length cs - 1)
            in if target_user = ci
               then Inr (case cs ! ci of
                      TC_Clip c \<Rightarrow> Fmt ''move: clip {:?} already at position {}; left timeline unchanged''
                                    [A_dbg (clip_name c), A_nat target_user]
                    | _ \<Rightarrow> msg ''move: source is not a clip; left timeline unchanged'', tml)
               else
                 let rest = remove_at ci cs;
                     i = (if ci \<le> target_user then min target_user (length rest) else target_user);
                     cs' = insert_at i (cs ! ci) rest
                 in Inr (case cs' ! i of
                        TC_Clip c \<Rightarrow> Fmt ''moved clip {:?} from position {} to position {} on track {}''
                          [A_dbg (clip_name c), A_nat ci, A_nat target_user, A_nat (cl_track_index locator)]
                      | _ \<Rightarrow> Fmt ''move: moved a non-clip child from {} to {} on track {}''
                          [A_nat ci, A_nat i, A_nat (cl_track_index locator)],
                      with_track_children (cl_track_index locator) cs' tml)))))"

section \<open>Ripple move\<close>

definition shift_clip_at_index :: "nat \<Rightarrow> nat \<Rightarrow> f64 \<Rightarrow> timeline \<Rightarrow> timeline edit" where
  "shift_clip_at_index ti ci delta_s tml =
     (if flt (fabs delta_s) milli then Inr tml
      else rbind (track_at 0 ''ripple_move: target slot is not a track'' tml ti) (\<lambda>track.
        let cs = track_children track
        in ensures (ci < length cs)
             (Err (AE_Invalid 0 (msg ''ripple_move: child index out of bounds during shift'')))
             (Inr (with_track_children ti (shift_children delta_s ci cs) tml))))"

fun shift_linked :: "nat \<Rightarrow> string \<Rightarrow> f64 \<Rightarrow> nat list \<Rightarrow> timeline \<Rightarrow> (nat \<times> timeline) edit" where
  "shift_linked primary group_id delta_s [] tml = Inr (0, tml)"
| "shift_linked primary group_id delta_s (ti # tis) tml =
     (if ti = primary then shift_linked primary group_id delta_s tis tml
      else (case first_clip_with_link_group (tl_children tml ! ti) group_id of
          None \<Rightarrow> shift_linked primary group_id delta_s tis tml
        | Some ci \<Rightarrow>
            rbind (shift_clip_at_index ti ci delta_s tml) (\<lambda>tml1.
            rbind (shift_linked primary group_id delta_s tis tml1) (\<lambda>(count, tml2).
            Inr (count + 1, tml2)))))"

definition apply_ripple_move ::
  "nat \<Rightarrow> f64 \<Rightarrow> snap_options option \<Rightarrow> clip_locator option \<Rightarrow> timeline \<Rightarrow> edited" where
  "apply_ripple_move index delta_s snap loc tml =
     rbind (required_locator index loc) (\<lambda>locator.
     ensures (is_finite delta_s)
       (Err (AE_Invalid index (Fmt ''ripple_move: delta_s must be finite, got {}'' [A_f64 delta_s]))) (
     rbind (track_at index ''ripple_move: anchor resolved to a non-track stack child'' tml
        (cl_track_index locator)) (\<lambda>track.
     let cs = track_children track; ci = cl_child_index locator
     in ensures (ci < length cs)
          (Err (AE_Invalid index (Fmt ''ripple_move: source index {} out of bounds for track of length {}''
             [A_nat ci, A_nat (length cs)]))) (
        case cs ! ci of
          TC_Clip c \<Rightarrow>
            let original_start_s = start_of cs ci;
                raw_target = fadd original_start_s delta_s
            in rbind (resolve_snap_time tml index (fmax raw_target (Fin 0)) snap) (\<lambda>snapped_target.
               let effective = fsub snapped_target original_start_s
               in if flt (fabs effective) milli
                  then Inr (Fmt ''ripple_move: clip {:?} already at {:.3}s; left timeline unchanged''
                         [A_dbg (clip_name c), A_secs snapped_target], tml)
                  else
                    rbind (shift_clip_at_index (cl_track_index locator) ci effective tml) (\<lambda>tml1.
                    rbind (case clip_link_group_id c of
                             None \<Rightarrow> Inr (0, tml1)
                           | Some g \<Rightarrow> shift_linked (cl_track_index locator) g effective
                                        [0..<length (tl_children tml1)] tml1) (\<lambda>(siblings, tml2).
                    Inr (Fmt ''ripple-moved clip {:?} by {:+.3}s on track {} ({} linked siblings also shifted)''
                           [A_dbg (clip_name c), A_secs effective, A_nat (cl_track_index locator),
                            A_nat siblings], tml2))))
        | _ \<Rightarrow> invalid index (msg ''ripple_move: source is not a clip'')))))"

section \<open>Ripple delete\<close>

fun delete_linked ::
  "nat \<Rightarrow> string \<Rightarrow> (f64 \<times> f64) option \<Rightarrow> nat list \<Rightarrow> timeline \<Rightarrow> nat \<times> timeline" where
  "delete_linked primary group_id removed_range [] tml = (0, tml)"
| "delete_linked primary group_id removed_range (ti # tis) tml =
     (let sc = tl_children tml ! ti
      in if ti = primary then delete_linked primary group_id removed_range tis tml
         else (case (case removed_range of
                 Some (start_s, end_s) \<Rightarrow>
                   clip_with_link_group_covering_range sc group_id start_s end_s
               | None \<Rightarrow> first_clip_with_link_group sc group_id) of
             None \<Rightarrow> delete_linked primary group_id removed_range tis tml
           | Some ci \<Rightarrow>
               (case delete_linked primary group_id removed_range tis
                   (with_track_children ti (remove_at ci (sc_children sc)) tml) of
                  (count, tml') \<Rightarrow> (count + 1, tml'))))"

definition apply_ripple_delete :: "nat \<Rightarrow> clip_locator option \<Rightarrow> timeline \<Rightarrow> edited" where
  "apply_ripple_delete index loc tml =
     rbind (required_locator index loc) (\<lambda>locator.
     rbind (track_at index ''ripple_delete: anchor resolved to a non-track stack child'' tml
        (cl_track_index locator)) (\<lambda>track.
     let cs = track_children track; ci = cl_child_index locator
     in ensures (ci < length cs)
          (Err (AE_Invalid index (Fmt ''ripple_delete: source index {} out of bounds for track of length {}''
             [A_nat ci, A_nat (length cs)]))) (
        case cs ! ci of
          TC_Clip c \<Rightarrow>
            let removed_duration = child_duration (cs ! ci)
            in ensures (\<not> fle removed_duration (Fin 0))
                 (Err (AE_Invalid index (msg ''ripple_delete: source clip has zero duration''))) (
               let tml1 = with_track_children (cl_track_index locator) (remove_at ci cs) tml;
                   (siblings, tml2) =
                     (case clip_link_group_id c of
                        None \<Rightarrow> (0, tml1)
                      | Some g \<Rightarrow> delete_linked (cl_track_index locator) g (clip_source_range_s c)
                                   [0..<length (tl_children tml1)] tml1)
               in Inr (Fmt ''ripple-deleted clip {:?} ({:.3}s) on track {} ({} linked siblings also deleted)''
                         [A_dbg (clip_name c), A_secs removed_duration,
                          A_nat (cl_track_index locator), A_nat siblings], tml2))
        | _ \<Rightarrow> invalid index (msg ''ripple_delete: source is not a clip''))))"

section \<open>Ripple trim\<close>

datatype ripple_trim_edge = StartEdge | EndEdge

fun edge_debug :: "ripple_trim_edge \<Rightarrow> string" where
  "edge_debug StartEdge = ''Start''"
| "edge_debug EndEdge = ''End''"

definition ripple_shift_after :: "nat \<Rightarrow> nat \<Rightarrow> f64 \<Rightarrow> f64 \<Rightarrow> timeline \<Rightarrow> timeline edit" where
  "ripple_shift_after ti ci delta_s rate tml =
     (if flt (fabs delta_s) milli then Inr tml
      else rbind (vec_get (tl_children tml) ti) (\<lambda>sc.
        case sc of
          SC_Track track \<Rightarrow>
            Inr (with_track_children ti (ripple_children rate delta_s ci (track_children track)) tml)
        | _ \<Rightarrow> Inr tml))"

text \<open>The new source range of a linked sibling whose edge moves by \<open>by_s\<close>.\<close>

definition sibling_range :: "ripple_trim_edge \<Rightarrow> f64 \<Rightarrow> time_range \<Rightarrow> time_range" where
  "sibling_range edge by_s r =
     (let rate = rt_rate (tr_start_time r);
          old_start = to_seconds (tr_start_time r);
          old_end = fadd old_start (to_seconds (tr_duration r));
          (new_start, new_end) =
            (case edge of
               StartEdge \<Rightarrow> (fmax (fadd old_start by_s) (Fin 0), old_end)
             | EndEdge \<Rightarrow> (old_start, fmax (fadd old_end by_s) (fadd old_start milli)));
          new_dur = fsub new_end new_start
      in if flt (Fin 0) new_dur then seconds_range new_start new_dur rate else r)"

fun trim_linked ::
  "nat \<Rightarrow> string \<Rightarrow> ripple_trim_edge \<Rightarrow> f64 \<Rightarrow> f64 \<Rightarrow> f64 \<Rightarrow> nat list \<Rightarrow> timeline \<Rightarrow> (nat \<times> timeline) edit" where
  "trim_linked primary group_id edge by_s delta_s rate [] tml = Inr (0, tml)"
| "trim_linked primary group_id edge by_s delta_s rate (ti # tis) tml =
     (let sc = tl_children tml ! ti;
          skip = trim_linked primary group_id edge by_s delta_s rate tis tml
      in if ti = primary then skip
         else (case first_clip_with_link_group sc group_id of
             None \<Rightarrow> skip
           | Some ci \<Rightarrow>
               (case sc_children sc ! ci of
                  TC_Clip c \<Rightarrow>
                    (case clip_source_range c of
                       None \<Rightarrow> skip
                     | Some r \<Rightarrow>
                         let c' = c\<lparr>clip_source_range := Some (sibling_range edge by_s r)\<rparr>;
                             tml1 = with_track_children ti ((sc_children sc)[ci := TC_Clip c']) tml
                         in rbind (ripple_shift_after ti ci delta_s rate tml1) (\<lambda>tml2.
                            rbind (trim_linked primary group_id edge by_s delta_s rate tis tml2)
                              (\<lambda>(count, tml3). Inr (count + 1, tml3))))
                | _ \<Rightarrow> skip)))"

definition apply_ripple_trim ::
  "nat \<Rightarrow> ripple_trim_edge \<Rightarrow> f64 \<Rightarrow> clip_locator option \<Rightarrow> timeline \<Rightarrow> edited" where
  "apply_ripple_trim index edge value_s loc tml =
     rbind (required_locator index loc) (\<lambda>locator.
     ensures (is_finite value_s \<and> \<not> flt value_s (Fin 0))
       (Err (AE_Invalid index (Fmt ''ripple_trim: value_s must be a finite non-negative source-time, got {}''
          [A_f64 value_s]))) (
     rbind (track_at index ''ripple_trim: anchor resolved to a non-track stack child'' tml
        (cl_track_index locator)) (\<lambda>track.
     rbind (clip_on index ''ripple_trim: source is not a clip'' (track_children track)
        (cl_child_index locator)) (\<lambda>c.
     rbind (source_range_of index ''ripple_trim: source clip has no source_range'' c) (\<lambda>r.
     let rate = rt_rate (tr_start_time r);
         old_start = to_seconds (tr_start_time r);
         old_end = fadd old_start (to_seconds (tr_duration r));
         (new_start, new_end) =
           (case edge of
              StartEdge \<Rightarrow> (fmax (fmin value_s (fsub old_end milli)) (Fin 0), old_end)
            | EndEdge \<Rightarrow> (old_start, fmax value_s (fadd old_start milli)));
         new_duration = fsub new_end new_start
     in ensures (\<not> fle new_duration (Fin 0))
          (Err (AE_Invalid index (Fmt ''ripple_trim: resulting duration {:.3}s would be non-positive''
             [A_secs new_duration]))) (
        let c' = c\<lparr>clip_source_range := Some (seconds_range new_start new_duration rate)\<rparr>;
            tml1 = with_track_children (cl_track_index locator)
                    ((track_children track)[cl_child_index locator := TC_Clip c']) tml;
            by_s = (case edge of StartEdge \<Rightarrow> fsub new_start old_start | EndEdge \<Rightarrow> fsub new_end old_end);
            downstream = (case edge of StartEdge \<Rightarrow> fneg by_s | EndEdge \<Rightarrow> by_s)
        in if flt (fabs downstream) milli
           then Inr (Fmt ''ripple_trim: clip {:?} edge {:?} unchanged''
                  [A_dbg (clip_name c), A_str (edge_debug edge)], tml1)
           else
             rbind (ripple_shift_after (cl_track_index locator) (cl_child_index locator)
                downstream rate tml1) (\<lambda>tml2.
             rbind (case clip_link_group_id c of
                      None \<Rightarrow> Inr (0, tml2)
                    | Some g \<Rightarrow> trim_linked (cl_track_index locator) g edge by_s downstream rate
                                 [0..<length (tl_children tml2)] tml2) (\<lambda>(siblings, tml3).
             Inr (Fmt ''ripple-trimmed clip {:?} edge {:?} [{:.3}..{:.3}]; downstream shifted {:+.3}s ({} siblings)''
                    [A_dbg (clip_name c), A_str (edge_debug edge), A_secs new_start, A_secs new_end,
                     A_secs downstream, A_nat siblings], tml3)))))))))"

section \<open>Transitions and the intent of cuts\<close>

definition resolve_for :: "nat \<Rightarrow> timeline \<Rightarrow> anchor_context \<Rightarrow> anchor \<Rightarrow> clip_locator edit" where
  "resolve_for index tml ctx a = map_err (\<lambda>miss. Err (AE_AnchorMiss index miss)) (resolve tml a ctx)"

definition child_at :: "timeline \<Rightarrow> nat \<Rightarrow> nat \<Rightarrow> track_child option" where
  "child_at tml ti ci =
     (if ti < length (tl_children tml) \<and> ci < length (sc_children (tl_children tml ! ti))
      then Some (sc_children (tl_children tml ! ti) ! ci) else None)"

definition apply_delete_transition :: "nat \<Rightarrow> anchor \<Rightarrow> anchor \<Rightarrow> anchor_context \<Rightarrow> timeline \<Rightarrow> edited" where
  "apply_delete_transition index from_anchor to_anchor ctx tml =
     rbind (resolve_for index tml ctx from_anchor) (\<lambda>from_loc.
     rbind (resolve_for index tml ctx to_anchor) (\<lambda>to_loc.
     let ti = cl_track_index from_loc; i = cl_child_index from_loc; j = cl_child_index to_loc
     in ensures (ti = cl_track_index to_loc)
          (Err (AE_Invalid index (Fmt ''delete_transition: anchors resolve to different tracks ({} vs {})''
             [A_nat ti, A_nat (cl_track_index to_loc)]))) (
        ensures (j = i + 2)
          (Err (AE_Invalid index (Fmt ''delete_transition: expected clips separated by one transition, got indices {} and {}''
             [A_nat i, A_nat j]))) (
        rbind (track_at index ''delete_transition: anchor resolved to a non-track stack child'' tml ti)
          (\<lambda>track.
        let cs = track_children track
        in ensures (i + 1 < length cs \<and> is_transition (cs ! (i + 1)))
             (Err (AE_Invalid index (msg ''delete_transition: no transition exists between those clips''))) (
           Inr (Fmt ''deleted transition between clips at indices {} and {} on track {}''
                  [A_nat i, A_nat (i + 2), A_nat ti],
                with_track_children ti (remove_at (i + 1) cs) tml)))))))"

definition unit_interval :: "f64 option \<Rightarrow> bool" where
  "unit_interval x =
     (case x of None \<Rightarrow> True | Some v \<Rightarrow> is_finite v \<and> fle (Fin 0) v \<and> fle v (Fin 1))"

definition validate_semantic_cut_spec :: "nat \<Rightarrow> semantic_cut_spec \<Rightarrow> unit edit" where
  "validate_semantic_cut_spec index spec =
     (if trim (scs_intent spec) = [] then invalid index (msg ''set_cut_intent: intent must be non-empty'')
      else if \<not> unit_interval (scs_energy spec)
      then invalid index (Fmt ''set_cut_intent: energy {} must be in [0, 1]''
             [A_f64 (the (scs_energy spec))])
      else if \<not> unit_interval (scs_confidence spec)
      then invalid index (Fmt ''set_cut_intent: confidence {} must be in [0, 1]''
             [A_f64 (the (scs_confidence spec))])
      else Inr ())"

definition clips_are_separated_only_by_gaps :: "track_child list \<Rightarrow> nat \<Rightarrow> nat \<Rightarrow> bool" where
  "clips_are_separated_only_by_gaps cs i j \<longleftrightarrow>
     i + 1 < j \<and> list_all is_gap (take (j - (i + 1)) (drop (i + 1) cs))"

text \<open>\<open>timeline_montage_metadata\<close>: the block is created when it is missing, and gets a
  version when it has none.\<close>

definition montage_timeline_metadata_default :: montage_timeline_metadata where
  "montage_timeline_metadata_default =
     \<lparr>mtm_version = [], mtm_cut_boundaries = [], mtm_extra = [], mtm_rest = JNull\<rparr>"

definition timeline_montage_metadata :: "timeline \<Rightarrow> montage_timeline_metadata" where
  "timeline_montage_metadata tml =
     (let m = (case tm_montage (tl_metadata tml) of
                 None \<Rightarrow> montage_timeline_metadata_default | Some m \<Rightarrow> m)
      in if mtm_version m = [] then m\<lparr>mtm_version := ''0.1''\<rparr> else m)"

definition with_montage :: "montage_timeline_metadata \<Rightarrow> timeline \<Rightarrow> timeline" where
  "with_montage m tml = tml\<lparr>tl_metadata := (tl_metadata tml)\<lparr>tm_montage := Some m\<rparr>\<rparr>"

definition insert_cut_boundary :: "string \<Rightarrow> semantic_cut_spec \<Rightarrow> timeline \<Rightarrow> timeline" where
  "insert_cut_boundary key spec tml =
     (let m = timeline_montage_metadata tml
      in with_montage (m\<lparr>mtm_cut_boundaries := bt_insert key spec (mtm_cut_boundaries m)\<rparr>) tml)"

definition apply_set_cut_intent ::
  "nat \<Rightarrow> anchor \<Rightarrow> anchor \<Rightarrow> semantic_cut_spec \<Rightarrow> anchor_context \<Rightarrow> timeline \<Rightarrow> edited" where
  "apply_set_cut_intent index from_anchor to_anchor spec ctx tml =
     rbind (validate_semantic_cut_spec index spec) (\<lambda>_.
     rbind (resolve_for index tml ctx from_anchor) (\<lambda>from_loc.
     rbind (resolve_for index tml ctx to_anchor) (\<lambda>to_loc.
     let ti = cl_track_index from_loc; i = cl_child_index from_loc; j = cl_child_index to_loc
     in ensures (ti = cl_track_index to_loc)
          (Err (AE_Invalid index (Fmt ''set_cut_intent: anchors resolve to different tracks ({} vs {})''
             [A_nat ti, A_nat (cl_track_index to_loc)]))) (
        let by_transition = (j = i + 2 \<and>
              (case child_at tml ti (i + 1) of Some c \<Rightarrow> is_transition c | None \<Rightarrow> False));
            cs = (if ti < length (tl_children tml) then sc_children (tl_children tml ! ti) else []);
            by_gaps = clips_are_separated_only_by_gaps cs i j
        in ensures (j = i + 1 \<or> by_transition \<or> by_gaps)
             (Err (AE_Invalid index (Fmt ''set_cut_intent: anchors are not adjacent boundary clips (from at index {}, to at index {})''
                [A_nat i, A_nat j]))) (
           rbind (track_at index ''set_cut_intent: anchor resolved to a non-track stack child'' tml ti)
             (\<lambda>track.
           rbind (clip_on index ''set_cut_intent: from anchor resolved to a non-clip child''
                (track_children track) i) (\<lambda>from_clip.
           rbind (clip_on index ''set_cut_intent: to anchor resolved to a non-clip child''
                (track_children track) j) (\<lambda>to_clip.
           let key = cut_boundary_key (clip_id from_clip) (clip_id to_clip)
           in Inr (Fmt ''set cut intent {:?} ({:?}) for boundary {}''
                     [A_cut (scs_cut_type spec), A_relation (scs_audio_relation spec), A_str key],
                   insert_cut_boundary key spec tml)))))))))"

end
