(* ===== verification/Edl_Source_Edits.thy ===== *)
theory Edl_Source_Edits
  imports Edl_Insert Edl_Moves
begin

text \<open>
  The professional edits of \<open>crates/core/src/edl/apply.rs\<close> that change which part of its media
  a clip plays: slip, roll, slide and replace, with the check against the available media and the
  append, which is an insert at the end of a track. A pair \<open>split_at_mut\<close> of borrows is a pair
  of children of one list.
\<close>

section \<open>Ranges\<close>

record source_range =
  sg_start_s :: f64
  sg_end_s :: f64

definition validate_professional_timeline_range :: "nat \<Rightarrow> string \<Rightarrow> source_range \<Rightarrow> unit edit" where
  "validate_professional_timeline_range index label r =
     (if \<not> is_finite (sg_start_s r) \<or> \<not> is_finite (sg_end_s r)
      then invalid index (Fmt ''{}: range bounds must be finite, got [{:?}..{:?}]''
             [A_str label, A_f64 (sg_start_s r), A_f64 (sg_end_s r)])
      else if flt (sg_start_s r) (Fin 0)
      then invalid index (Fmt ''{}: range start must be >= 0, got {:.3}s''
             [A_str label, A_secs (sg_start_s r)])
      else if fle (sg_end_s r) (sg_start_s r)
      then invalid index (Fmt ''{}: range end {:.3}s must be after start {:.3}s''
             [A_str label, A_secs (sg_end_s r), A_secs (sg_start_s r)])
      else Inr ())"

definition media_available_range :: "media_reference \<Rightarrow> time_range option" where
  "media_available_range m =
     (case m of MR_External e \<Rightarrow> er_available_range e | MR_Missing _ \<Rightarrow> None)"

definition validate_available_source_range ::
  "nat \<Rightarrow> string \<Rightarrow> clip \<Rightarrow> f64 \<Rightarrow> f64 \<Rightarrow> unit edit" where
  "validate_available_source_range index label c start_s end_s =
     (if flt start_s (Fin 0)
      then invalid index (Fmt ''{}: target source start {:.3}s is before 0'' [A_str label, A_secs start_s])
      else (case media_available_range (clip_media_reference c) of
          None \<Rightarrow> Inr ()
        | Some r \<Rightarrow>
            let available_start_s = to_seconds (tr_start_time r);
                available_end_s = fadd available_start_s (to_seconds (tr_duration r))
            in if flt start_s (fsub available_start_s micro) \<or> flt (fadd available_end_s micro) end_s
               then invalid index (Fmt
                 ''{}: target source range [{:.3}s..{:.3}s] exceeds available media range [{:.3}s..{:.3}s]''
                 [A_str label, A_secs start_s, A_secs end_s, A_secs available_start_s, A_secs available_end_s])
               else Inr ()))"

text \<open>The first two checks of slip, roll and slide.\<close>

definition validate_delta :: "nat \<Rightarrow> string \<Rightarrow> f64 \<Rightarrow> unit edit" where
  "validate_delta index label delta_s =
     (if \<not> is_finite delta_s
      then invalid index (Fmt ''{}: delta_s must be finite, got {}'' [A_str label, A_f64 delta_s])
      else if flt (fabs delta_s) micro
      then invalid index (Fmt ''{}: delta_s is a no-op'' [A_str label])
      else Inr ())"

section \<open>Slip\<close>

definition apply_slip_clip :: "nat \<Rightarrow> f64 \<Rightarrow> clip_locator option \<Rightarrow> timeline \<Rightarrow> edited" where
  "apply_slip_clip index delta_s loc tml =
     rbind (validate_delta index ''slip_clip'' delta_s) (\<lambda>_.
     rbind (required_locator index loc) (\<lambda>locator.
     rbind (track_at index ''slip_clip: anchor resolved to a non-track stack child'' tml
        (cl_track_index locator)) (\<lambda>track.
     rbind (clip_on index ''slip_clip: anchor resolved to a non-clip track child''
        (track_children track) (cl_child_index locator)) (\<lambda>c.
     rbind (source_range_of index ''slip_clip: clip has no source_range'' c) (\<lambda>r.
     let rate = rt_rate (tr_start_time r);
         duration_s = to_seconds (tr_duration r);
         target_start_s = fadd (to_seconds (tr_start_time r)) delta_s;
         target_end_s = fadd target_start_s duration_s
     in rbind (validate_available_source_range index ''slip_clip'' c target_start_s target_end_s) (\<lambda>_.
        Inr (Fmt ''slipped clip {:?} source range by {:.3}s to [{:.3}s..{:.3}s]''
               [A_dbg (clip_name c), A_secs delta_s, A_secs target_start_s, A_secs target_end_s],
             with_track_children (cl_track_index locator)
               ((track_children track)[cl_child_index locator :=
                  TC_Clip (c\<lparr>clip_source_range := Some (seconds_range target_start_s duration_s rate)\<rparr>)])
               tml)))))))"

section \<open>Roll and slide\<close>

text \<open>
  Two clips that meet, or that meet the clip between them: the first one ends \<open>delta_s\<close> later
  in its media, the second one starts \<open>delta_s\<close> later in its media. Shared by
  \<open>apply_roll_edit\<close> and \<open>apply_slide_clip\<close>, which differ in the words of the messages.
\<close>

record edge_labels =
  el_first_empty :: string
  el_second_empty :: string
  el_first_available :: string
  el_second_available :: string

definition move_edges ::
  "nat \<Rightarrow> edge_labels \<Rightarrow> f64 \<Rightarrow> clip \<Rightarrow> time_range \<Rightarrow> clip \<Rightarrow> time_range \<Rightarrow> (clip \<times> clip) edit" where
  "move_edges index labels delta_s first first_range second second_range =
     (let first_rate = rt_rate (tr_start_time first_range);
          second_rate = rt_rate (tr_start_time second_range);
          first_start_s = to_seconds (tr_start_time first_range);
          first_end_s = fadd first_start_s (to_seconds (tr_duration first_range));
          second_start_s = to_seconds (tr_start_time second_range);
          second_end_s = fadd second_start_s (to_seconds (tr_duration second_range));
          target_first_end_s = fadd first_end_s delta_s;
          target_second_start_s = fadd second_start_s delta_s
      in if fle target_first_end_s (fadd first_start_s micro)
         then invalid index (msg (el_first_empty labels))
         else if fle (fsub second_end_s micro) target_second_start_s
         then invalid index (msg (el_second_empty labels))
         else
           rbind (validate_available_source_range index (el_first_available labels) first
              first_start_s target_first_end_s) (\<lambda>_.
           rbind (validate_available_source_range index (el_second_available labels) second
              target_second_start_s second_end_s) (\<lambda>_.
           Inr (first\<lparr>clip_source_range :=
                  Some (seconds_range first_start_s (fsub target_first_end_s first_start_s) first_rate)\<rparr>,
                second\<lparr>clip_source_range :=
                  Some (seconds_range target_second_start_s
                    (fsub second_end_s target_second_start_s) second_rate)\<rparr>))))"

definition roll_labels :: edge_labels where
  "roll_labels =
     \<lparr>el_first_empty = ''roll_edit: delta would collapse or invert the outgoing clip'',
      el_second_empty = ''roll_edit: delta would collapse or invert the incoming clip'',
      el_first_available = ''roll_edit outgoing'', el_second_available = ''roll_edit incoming''\<rparr>"

definition apply_roll_edit ::
  "nat \<Rightarrow> anchor \<Rightarrow> anchor \<Rightarrow> f64 \<Rightarrow> anchor_context \<Rightarrow> timeline \<Rightarrow> edited" where
  "apply_roll_edit index from_anchor to_anchor delta_s ctx tml =
     rbind (validate_delta index ''roll_edit'' delta_s) (\<lambda>_.
     rbind (resolve_for index tml ctx from_anchor) (\<lambda>from_loc.
     rbind (resolve_for index tml ctx to_anchor) (\<lambda>to_loc.
     let ti = cl_track_index from_loc; i = cl_child_index from_loc; j = cl_child_index to_loc
     in ensures (ti = cl_track_index to_loc)
          (Err (AE_Invalid index (Fmt ''roll_edit: anchors resolve to different tracks ({} vs {})''
             [A_nat ti, A_nat (cl_track_index to_loc)]))) (
        ensures (j = i + 1)
          (Err (AE_Invalid index (Fmt
             ''roll_edit: anchors are not adjacent clips (from at index {}, to at index {})''
             [A_nat i, A_nat j]))) (
        rbind (track_at index ''roll_edit: anchor resolved to a non-track stack child'' tml ti) (\<lambda>track.
        let cs = track_children track
        in ensures (j \<le> length cs) Panic (
           rbind (clip_on index ''roll_edit: from anchor resolved to a non-clip child'' cs i) (\<lambda>from_clip.
           rbind (clip_on index ''roll_edit: to anchor resolved to a non-clip child'' cs j) (\<lambda>to_clip.
           rbind (source_range_of index ''roll_edit: from clip has no source_range'' from_clip) (\<lambda>from_range.
           rbind (source_range_of index ''roll_edit: to clip has no source_range'' to_clip) (\<lambda>to_range.
           rbind (move_edges index roll_labels delta_s from_clip from_range to_clip to_range)
             (\<lambda>(from', to').
           Inr (Fmt ''rolled edit between {:?} and {:?} by {:.3}s''
                  [A_dbg (clip_name from_clip), A_dbg (clip_name to_clip), A_secs delta_s],
                with_track_children ti (cs[i := TC_Clip from', j := TC_Clip to']) tml)))))))))))))"

definition slide_labels :: edge_labels where
  "slide_labels =
     \<lparr>el_first_empty = ''slide_clip: delta would collapse or invert the previous clip'',
      el_second_empty = ''slide_clip: delta would collapse or invert the next clip'',
      el_first_available = ''slide_clip previous'', el_second_available = ''slide_clip next''\<rparr>"

definition apply_slide_clip :: "nat \<Rightarrow> f64 \<Rightarrow> clip_locator option \<Rightarrow> timeline \<Rightarrow> edited" where
  "apply_slide_clip index delta_s loc tml =
     rbind (validate_delta index ''slide_clip'' delta_s) (\<lambda>_.
     rbind (required_locator index loc) (\<lambda>locator.
     let ti = cl_track_index locator; i = cl_child_index locator
     in if i = 0
        then invalid index (msg ''slide_clip: target clip has no previous neighbor to absorb the slide'')
        else
          rbind (track_at index ''slide_clip: anchor resolved to a non-track stack child'' tml ti) (\<lambda>track.
          let cs = track_children track
          in if length cs \<le> i + 1
             then invalid index (msg ''slide_clip: target clip has no next neighbor to absorb the slide'')
             else
               rbind (clip_on index ''slide_clip: previous neighbor is not a clip'' cs (i - 1)) (\<lambda>previous.
               rbind (clip_on index ''slide_clip: anchor resolved to a non-clip track child'' cs i) (\<lambda>target.
               rbind (clip_on index ''slide_clip: next neighbor is not a clip'' cs (i + 1)) (\<lambda>following.
               rbind (source_range_of index ''slide_clip: previous clip has no source_range'' previous)
                 (\<lambda>previous_range.
               rbind (source_range_of index ''slide_clip: target clip has no source_range'' target)
                 (\<lambda>target_range.
               rbind (source_range_of index ''slide_clip: next clip has no source_range'' following)
                 (\<lambda>next_range.
               rbind (move_edges index slide_labels delta_s previous previous_range following next_range)
                 (\<lambda>(previous', following').
               Inr (Fmt ''slid clip {:?} by {:.3}s while preserving its {:.3}s duration''
                      [A_dbg (clip_name target), A_secs delta_s,
                       A_secs (to_seconds (tr_duration target_range))],
                    with_track_children ti (cs[i - 1 := TC_Clip previous', i + 1 := TC_Clip following'])
                      tml)))))))))))"

section \<open>Replace and append\<close>

definition apply_replace_clip ::
  "nat \<Rightarrow> string \<Rightarrow> source_range \<Rightarrow> clip_locator option \<Rightarrow> timeline \<Rightarrow> edited" where
  "apply_replace_clip index asset r loc tml =
     rbind (validate_professional_timeline_range index ''replace_clip'' r) (\<lambda>_.
     if trim asset = [] then invalid index (msg ''replace_clip: asset must not be empty'')
     else
       rbind (required_locator index loc) (\<lambda>locator.
       rbind (track_at index ''replace_clip: anchor resolved to a non-track stack child'' tml
          (cl_track_index locator)) (\<lambda>track.
       rbind (clip_on index ''replace_clip: anchor resolved to a non-clip track child''
          (track_children track) (cl_child_index locator)) (\<lambda>c.
       let rate = (case map_option (\<lambda>q. rt_rate (tr_start_time q)) (clip_source_range c) of
                     Some rate \<Rightarrow> if flt (Fin 0) rate then rate else Fin 24 | None \<Rightarrow> Fin 24);
           c' = c\<lparr>clip_media_reference := MR_External (external_reference_new asset),
                  clip_source_range :=
                    Some (seconds_range (sg_start_s r) (fsub (sg_end_s r) (sg_start_s r)) rate)\<rparr>
       in Inr (Fmt ''replaced clip {:?} with asset {:?} source=[{:.3}s..{:.3}s]''
                 [A_dbg (clip_name c), A_dbg asset, A_secs (sg_start_s r), A_secs (sg_end_s r)],
               with_track_children (cl_track_index locator)
                 ((track_children track)[cl_child_index locator := TC_Clip c']) tml)))))"

definition apply_append_clip ::
  "(nat \<Rightarrow> nat) \<Rightarrow> nat \<Rightarrow> string \<Rightarrow> string \<Rightarrow> source_range \<Rightarrow> timeline \<Rightarrow> nat
    \<Rightarrow> (message \<times> timeline \<times> nat) edit" where
  "apply_append_clip clock index track asset r tml seq =
     rbind (validate_professional_timeline_range index ''append'' r) (\<lambda>_.
     if trim track = [] then invalid index (msg ''append: track must not be empty'')
     else if trim asset = [] then invalid index (msg ''append: asset must not be empty'')
     else apply_insert_clip clock index
       \<lparr>ica_asset = asset, ica_track = track, ica_track_kind = Some ITK_Auto, ica_at_position = None,
        ica_at_s = None, ica_start = Some (sg_start_s r), ica_end = Some (sg_end_s r), ica_name = None,
        ica_link_group_id = None, ica_snap = None\<rparr> tml seq)"

end
