(* ===== verification/Edl_Range_Edits.thy ===== *)
theory Edl_Range_Edits
  imports Edl_Source_Edits
begin

text \<open>
  The professional edits of \<open>crates/core/src/edl/apply.rs\<close> that work on a range of track time:
  lift, extract and overwrite. The three loops walk the children of a track with a cursor and build
  the new children; each is a recursion over the children that are left. What they do with a child
  that overlaps the range is shared (\<open>carve\<close>): the piece before the range and the piece after it
  survive.
\<close>

section \<open>Pieces of a child\<close>

text \<open>\<open>timeline_child_segment\<close>: the part of a child between two track times.\<close>

definition timeline_child_segment ::
  "(nat \<Rightarrow> nat) \<Rightarrow> nat \<Rightarrow> track_child \<Rightarrow> f64 \<Rightarrow> f64 \<Rightarrow> f64 \<Rightarrow> bool \<Rightarrow> nat
    \<Rightarrow> (track_child option \<times> nat) edit" where
  "timeline_child_segment clock index child child_start_s segment_start_s segment_end_s fresh seq =
     (let duration_s = fsub segment_end_s segment_start_s
      in if fle duration_s micro then Inr (None, seq)
         else (case child of
             TC_Clip c \<Rightarrow>
               (case clip_source_range c of
                  None \<Rightarrow> invalid index (Fmt
                    ''lift_range: clip {:?} has no source_range and cannot be segmented''
                    [A_dbg (clip_name c)])
                | Some r \<Rightarrow>
                    let rate = rt_rate (tr_start_time r);
                        source_start_s = fadd (to_seconds (tr_start_time r))
                                           (fsub segment_start_s child_start_s);
                        segment = c\<lparr>clip_source_range := Some (seconds_range source_start_s duration_s rate)\<rparr>
                    in if fresh
                       then Inr (Some (TC_Clip (stamp_clip_uuid (fresh_clip_uuid (clock seq) seq)
                              (segment\<lparr>clip_name := clip_name segment @ ''-lift-tail''\<rparr>))), seq + 1)
                       else Inr (Some (TC_Clip segment), seq))
           | TC_Gap g \<Rightarrow>
               Inr (Some (gap_child duration_s (rt_rate (tr_duration (gap_source_range g)))), seq)
           | TC_Transition _ \<Rightarrow> Inr (None, seq)
           | TC_Stack _ \<Rightarrow>
               invalid index (msg ''lift_range: nested stack segmentation is not supported'')))"

text \<open>The pieces of a child before and after the range.\<close>

definition carve ::
  "(nat \<Rightarrow> nat) \<Rightarrow> nat \<Rightarrow> track_child \<Rightarrow> f64 \<Rightarrow> f64 \<Rightarrow> f64 \<Rightarrow> f64 \<Rightarrow> nat
    \<Rightarrow> ((track_child option \<times> track_child option) \<times> nat) edit" where
  "carve clock index child child_start_s child_end_s range_start_s range_end_s seq =
     rbind (if flt child_start_s range_start_s
            then timeline_child_segment clock index child child_start_s child_start_s
                   (fmin range_start_s child_end_s) False seq
            else Inr (None, seq)) (\<lambda>(leading, seq1).
     let emitted_clip_piece = (case leading of Some piece \<Rightarrow> is_clip piece | None \<Rightarrow> False)
     in rbind (if flt range_end_s child_end_s
               then timeline_child_segment clock index child child_start_s
                      (fmax range_end_s child_start_s) child_end_s emitted_clip_piece seq1
               else Inr (None, seq1)) (\<lambda>(trailing, seq2).
        Inr ((leading, trailing), seq2)))"

definition piece_list :: "track_child option \<Rightarrow> track_child list" where
  "piece_list p = (case p of None \<Rightarrow> [] | Some c \<Rightarrow> [c])"

text \<open>An item without length at the cursor stays unless it lies in the range.\<close>

definition keep_instant :: "f64 \<Rightarrow> f64 \<Rightarrow> f64 \<Rightarrow> track_child \<Rightarrow> track_child list" where
  "keep_instant range_start_s range_end_s cursor_s child =
     (if flt cursor_s range_start_s \<or> fle range_end_s cursor_s then [child] else [])"

section \<open>Lift\<close>

fun lift_children ::
  "(nat \<Rightarrow> nat) \<Rightarrow> nat \<Rightarrow> f64 \<Rightarrow> f64 \<Rightarrow> f64 \<Rightarrow> f64 \<Rightarrow> f64 \<Rightarrow> track_child list \<Rightarrow> nat
    \<Rightarrow> ((track_child list \<times> f64) \<times> nat) edit" where
  "lift_children clock index a b rate cursor_s lifted_s [] seq = Inr (([], lifted_s), seq)"
| "lift_children clock index a b rate cursor_s lifted_s (c # cs) seq =
     (let duration_s = child_duration c;
          child_end_s = fadd cursor_s duration_s;
          overlap_start_s = fmax cursor_s a;
          overlap_end_s = fmin child_end_s b
      in if fle duration_s micro
         then rbind (lift_children clock index a b rate cursor_s lifted_s cs seq)
                (\<lambda>((rest, total_s), seq'). Inr ((keep_instant a b cursor_s c @ rest, total_s), seq'))
         else if fle overlap_end_s (fadd overlap_start_s micro)
         then rbind (lift_children clock index a b rate child_end_s lifted_s cs seq)
                (\<lambda>((rest, total_s), seq'). Inr ((c # rest, total_s), seq'))
         else
           let overlap_duration_s = fsub overlap_end_s overlap_start_s
           in rbind (carve clock index c cursor_s child_end_s a b seq) (\<lambda>((leading, trailing), seq1).
              rbind (lift_children clock index a b rate child_end_s
                       (fadd lifted_s overlap_duration_s) cs seq1)
                (\<lambda>((rest, total_s), seq').
                 Inr ((piece_list leading @ gap_child overlap_duration_s rate # piece_list trailing @ rest,
                       total_s), seq'))))"

definition lift_range_on_track ::
  "(nat \<Rightarrow> nat) \<Rightarrow> nat \<Rightarrow> f64 \<Rightarrow> f64 \<Rightarrow> f64 \<Rightarrow> track_child list \<Rightarrow> nat
    \<Rightarrow> ((track_child list \<times> f64) \<times> nat) edit" where
  "lift_range_on_track clock index a b rate cs seq =
     rbind (lift_children clock index a b rate (Fin 0) (Fin 0) cs seq) (\<lambda>((replacement, lifted_s), seq').
     Inr ((merge_adjacent_gaps replacement rate, lifted_s), seq'))"

section \<open>Extract\<close>

fun extract_children ::
  "(nat \<Rightarrow> nat) \<Rightarrow> nat \<Rightarrow> f64 \<Rightarrow> f64 \<Rightarrow> f64 \<Rightarrow> f64 \<Rightarrow> track_child list \<Rightarrow> nat
    \<Rightarrow> ((track_child list \<times> f64) \<times> nat) edit" where
  "extract_children clock index a b cursor_s extracted_s [] seq = Inr (([], extracted_s), seq)"
| "extract_children clock index a b cursor_s extracted_s (c # cs) seq =
     (let duration_s = child_duration c;
          child_end_s = fadd cursor_s duration_s;
          overlap_start_s = fmax cursor_s a;
          overlap_end_s = fmin child_end_s b
      in if fle duration_s micro
         then rbind (extract_children clock index a b cursor_s extracted_s cs seq)
                (\<lambda>((rest, total_s), seq'). Inr ((keep_instant a b cursor_s c @ rest, total_s), seq'))
         else if fle overlap_end_s (fadd overlap_start_s micro)
         then rbind (extract_children clock index a b child_end_s extracted_s cs seq)
                (\<lambda>((rest, total_s), seq'). Inr ((c # rest, total_s), seq'))
         else
           rbind (carve clock index c cursor_s child_end_s a b seq) (\<lambda>((leading, trailing), seq1).
           rbind (extract_children clock index a b child_end_s
                    (fadd extracted_s (fsub overlap_end_s overlap_start_s)) cs seq1)
             (\<lambda>((rest, total_s), seq').
              Inr ((piece_list leading @ piece_list trailing @ rest, total_s), seq'))))"

text \<open>The rate of the first clip with a positive one.\<close>

definition track_rate :: "track_child list \<Rightarrow> f64" where
  "track_rate cs = unwrap_or (Fin 24) (find_map as_clip_rate cs)"

definition extract_range_on_track ::
  "(nat \<Rightarrow> nat) \<Rightarrow> nat \<Rightarrow> f64 \<Rightarrow> f64 \<Rightarrow> track_child list \<Rightarrow> nat
    \<Rightarrow> ((track_child list \<times> f64) \<times> nat) edit" where
  "extract_range_on_track clock index a b cs seq =
     rbind (extract_children clock index a b (Fin 0) (Fin 0) cs seq)
       (\<lambda>((replacement, extracted_s), seq').
     Inr ((merge_adjacent_gaps replacement (track_rate replacement), extracted_s), seq'))"

section \<open>The tracks selected\<close>

definition selects_track :: "string list \<Rightarrow> track \<Rightarrow> bool" where
  "selects_track names track \<longleftrightarrow> names = [] \<or> track_name track \<in> set names"

text \<open>
  The loop over the tracks, shared by \<open>apply_lift_range\<close> and \<open>apply_extract_range\<close>: the tracks,
  how many were selected and how many touched, and the seconds taken.
\<close>

fun edit_tracks ::
  "(track_child list \<Rightarrow> nat \<Rightarrow> ((track_child list \<times> f64) \<times> nat) edit) \<Rightarrow> string list
    \<Rightarrow> nat \<Rightarrow> nat \<Rightarrow> f64 \<Rightarrow> stack_child list \<Rightarrow> nat
    \<Rightarrow> ((stack_child list \<times> nat \<times> nat \<times> f64) \<times> nat) edit" where
  "edit_tracks on_track names matched touched total_s [] seq = Inr (([], matched, touched, total_s), seq)"
| "edit_tracks on_track names matched touched total_s (SC_Track track # scs) seq =
     (if \<not> selects_track names track
      then rbind (edit_tracks on_track names matched touched total_s scs seq)
             (\<lambda>((rest, counts), seq'). Inr ((SC_Track track # rest, counts), seq'))
      else rbind (on_track (track_children track) seq) (\<lambda>((cs, taken_s), seq1).
           let hit = flt micro taken_s
           in rbind (edit_tracks on_track names (matched + 1)
                       (if hit then touched + 1 else touched)
                       (if hit then fadd total_s taken_s else total_s) scs seq1)
                (\<lambda>((rest, counts), seq').
                 Inr ((SC_Track (track_with_children cs track) # rest, counts), seq'))))"
| "edit_tracks on_track names matched touched total_s (sc # scs) seq =
     rbind (edit_tracks on_track names matched touched total_s scs seq)
       (\<lambda>((rest, counts), seq'). Inr ((sc # rest, counts), seq'))"

definition apply_lift_range ::
  "(nat \<Rightarrow> nat) \<Rightarrow> nat \<Rightarrow> source_range \<Rightarrow> string list \<Rightarrow> timeline \<Rightarrow> nat
    \<Rightarrow> (message \<times> timeline \<times> nat) edit" where
  "apply_lift_range clock index r names tml seq =
     rbind (validate_professional_timeline_range index ''lift_range'' r) (\<lambda>_.
     rbind (edit_tracks
        (\<lambda>cs. lift_range_on_track clock index (sg_start_s r) (sg_end_s r) (track_rate cs) cs)
        names 0 0 (Fin 0) (tl_children tml) seq) (\<lambda>((scs, matched, touched, lifted_s), seq').
     if matched = 0
     then invalid index (Fmt ''lift_range: no tracks matched {:?}'' [A_strs names])
     else if touched = 0
     then invalid index (Fmt ''lift_range: range [{:.3}s..{:.3}s] did not overlap selected tracks''
            [A_secs (sg_start_s r), A_secs (sg_end_s r)])
     else Inr (Fmt ''lifted range [{:.3}s..{:.3}s] on {} track(s), leaving gaps for {:.3}s of selected material''
                 [A_secs (sg_start_s r), A_secs (sg_end_s r), A_nat touched, A_secs lifted_s],
               with_tl_children scs tml, seq')))"

definition apply_extract_range ::
  "(nat \<Rightarrow> nat) \<Rightarrow> nat \<Rightarrow> source_range \<Rightarrow> string list \<Rightarrow> timeline \<Rightarrow> nat
    \<Rightarrow> (message \<times> timeline \<times> nat) edit" where
  "apply_extract_range clock index r names tml seq =
     rbind (validate_professional_timeline_range index ''extract_range'' r) (\<lambda>_.
     rbind (edit_tracks (extract_range_on_track clock index (sg_start_s r) (sg_end_s r))
        names 0 0 (Fin 0) (tl_children tml) seq) (\<lambda>((scs, matched, touched, extracted_s), seq').
     if matched = 0
     then invalid index (Fmt ''extract_range: no tracks matched {:?}'' [A_strs names])
     else if touched = 0
     then invalid index (Fmt ''extract_range: range [{:.3}s..{:.3}s] did not overlap selected tracks''
            [A_secs (sg_start_s r), A_secs (sg_end_s r)])
     else Inr (Fmt ''extracted range [{:.3}s..{:.3}s] on {} track(s), closing {:.3}s of selected material''
                 [A_secs (sg_start_s r), A_secs (sg_end_s r), A_nat touched, A_secs extracted_s],
               with_tl_children scs tml, seq')))"

section \<open>Overwrite\<close>

text \<open>The loop; \<open>pending\<close> is the clip that still has to be put in.\<close>

fun overwrite_children ::
  "(nat \<Rightarrow> nat) \<Rightarrow> nat \<Rightarrow> f64 \<Rightarrow> f64 \<Rightarrow> f64 \<Rightarrow> clip option \<Rightarrow> f64 \<Rightarrow> track_child list \<Rightarrow> nat
    \<Rightarrow> (track_child list \<times> nat) edit" where
  "overwrite_children clock index a b rate pending cursor_s [] seq =
     Inr (case pending of
            None \<Rightarrow> []
          | Some c \<Rightarrow>
              (if flt cursor_s (fsub a micro) then [gap_child (fsub a cursor_s) rate] else [])
                @ [TC_Clip c], seq)"
| "overwrite_children clock index a b rate pending cursor_s (c # cs) seq =
     (let duration_s = child_duration c;
          child_end_s = fadd cursor_s duration_s;
          overlap_start_s = fmax cursor_s a;
          overlap_end_s = fmin child_end_s b;
          over = (case pending of None \<Rightarrow> [] | Some p \<Rightarrow> [TC_Clip p])
      in if fle duration_s micro
         then rbind (overwrite_children clock index a b rate pending cursor_s cs seq)
                (\<lambda>(rest, seq'). Inr (keep_instant a b cursor_s c @ rest, seq'))
         else if fle child_end_s (fadd a micro)
         then rbind (overwrite_children clock index a b rate pending child_end_s cs seq)
                (\<lambda>(rest, seq'). Inr (c # rest, seq'))
         else if pending \<noteq> None \<and> fle (fsub b micro) cursor_s
         then rbind (overwrite_children clock index a b rate None child_end_s cs seq)
                (\<lambda>(rest, seq'). Inr (over @ c # rest, seq'))
         else if fle overlap_end_s (fadd overlap_start_s micro)
         then rbind (overwrite_children clock index a b rate pending child_end_s cs seq)
                (\<lambda>(rest, seq'). Inr (c # rest, seq'))
         else
           rbind (carve clock index c cursor_s child_end_s a b seq) (\<lambda>((leading, trailing), seq1).
           rbind (overwrite_children clock index a b rate None child_end_s cs seq1)
             (\<lambda>(rest, seq').
              Inr (piece_list leading @ over @ piece_list trailing @ rest, seq'))))"

definition overwrite_range_on_track ::
  "(nat \<Rightarrow> nat) \<Rightarrow> nat \<Rightarrow> f64 \<Rightarrow> f64 \<Rightarrow> clip \<Rightarrow> f64 \<Rightarrow> track_child list \<Rightarrow> nat
    \<Rightarrow> (track_child list \<times> nat) edit" where
  "overwrite_range_on_track clock index a b c rate cs seq =
     rbind (overwrite_children clock index a b rate (Some c) (Fin 0) cs seq) (\<lambda>(replacement, seq').
     Inr (merge_adjacent_gaps replacement rate, seq'))"

definition build_professional_source_clip ::
  "track_child list \<Rightarrow> string \<Rightarrow> f64 \<Rightarrow> f64 \<Rightarrow> f64 \<Rightarrow> string option \<Rightarrow> string \<Rightarrow> clip edit" where
  "build_professional_source_clip cs asset source_start_s source_end_s rate name_prefix uuid =
     rbind (case name_prefix of
              Some prefix \<Rightarrow> Inr (prefix @ ''-'' @ dec_of_nat (length cs))
            | None \<Rightarrow> default_clip_name_for_asset cs asset) (\<lambda>name.
     Inr (stamp_clip_uuid uuid ((clip_empty name)\<lparr>
       clip_media_reference := MR_External (external_reference_new asset),
       clip_source_range :=
         Some (seconds_range source_start_s (fsub source_end_s source_start_s) rate)\<rparr>)))"

definition apply_overwrite_clip ::
  "(nat \<Rightarrow> nat) \<Rightarrow> nat \<Rightarrow> string \<Rightarrow> source_range \<Rightarrow> string \<Rightarrow> timeline \<Rightarrow> nat
    \<Rightarrow> (message \<times> timeline \<times> nat) edit" where
  "apply_overwrite_clip clock index name r asset tml0 seq =
     rbind (validate_professional_timeline_range index ''overwrite'' r) (\<lambda>_.
     if trim name = [] then invalid index (msg ''overwrite: track must not be empty'')
     else if trim asset = [] then invalid index (msg ''overwrite: asset must not be empty'')
     else
       let (ti, tml) =
             (case position (is_track_named name) (tl_children tml0) of
                Some i \<Rightarrow> (i, tml0)
              | None \<Rightarrow> (length (tl_children tml0),
                  with_tl_children (tl_children tml0 @
                    [SC_Track (track_empty name (infer_insert_track_kind name (Some ITK_Auto)))]) tml0))
       in rbind (track_at index ''overwrite: resolved destination is not a track'' tml ti) (\<lambda>track.
          let cs = track_children track;
              rate = track_rate cs
          in rbind (build_professional_source_clip cs asset (Fin 0)
                (fsub (sg_end_s r) (sg_start_s r)) rate (Some ''overwrite'')
                (fresh_clip_uuid (clock seq) seq)) (\<lambda>c.
             rbind (overwrite_range_on_track clock index (sg_start_s r) (sg_end_s r) c rate cs (seq + 1))
               (\<lambda>(cs', seq').
             Inr (Fmt ''overwrote range [{:.3}s..{:.3}s] on track {:?} with asset {:?}''
                    [A_secs (sg_start_s r), A_secs (sg_end_s r), A_dbg name, A_dbg asset],
                  with_track_children ti cs' tml, seq')))))"

end
