(* ===== verification/Edl_Markers.thy ===== *)
theory Edl_Markers
  imports Edl_Range_Edits
begin

text \<open>
  Clip markers, from \<open>crates/core/src/edl/apply.rs\<close>: adding one at a track time, and updating or
  deleting the one that a selector picks out. A marker carries its time relative to the start of
  its clip and an id in its metadata.
\<close>

record marker_selector =
  ms_marker_id :: "string option"
  ms_anchor :: "anchor option"
  ms_label :: "string option"
  ms_at_s :: "f64 option"

definition montage_marker_metadata_default :: montage_marker_metadata where
  "montage_marker_metadata_default = \<lparr>mmm_category = None, mmm_note = None, mmm_extra = []\<rparr>"

definition marker_new :: "string \<Rightarrow> time_range \<Rightarrow> marker" where
  "marker_new name marked_range =
     \<lparr>mk_otio_schema = ''Marker.2'', mk_name = name, mk_marked_range = marked_range, mk_color = None,
      mk_comment = None, mk_metadata = \<lparr>mm_montage = None, mm_other = []\<rparr>\<rparr>"

section \<open>Adding\<close>

text \<open>The child of a track that covers a time: its index and start.\<close>

fun covering_child :: "f64 \<Rightarrow> nat \<Rightarrow> f64 \<Rightarrow> track_child list \<Rightarrow> (nat \<times> f64) option" where
  "covering_child at_s ci cursor_s [] = None"
| "covering_child at_s ci cursor_s (c # cs) =
     (let end_s = fadd cursor_s (child_duration c)
      in if flt at_s cursor_s \<or> fle end_s at_s then covering_child at_s (Suc ci) end_s cs
         else Some (ci, cursor_s))"

text \<open>The first track that has such a child.\<close>

fun covering_track :: "f64 \<Rightarrow> nat \<Rightarrow> stack_child list \<Rightarrow> (nat \<times> nat \<times> f64) option" where
  "covering_track at_s ti [] = None"
| "covering_track at_s ti (sc # scs) =
     (case covering_child at_s 0 (Fin 0) (sc_children sc) of
        Some (ci, start_s) \<Rightarrow> Some (ti, ci, start_s)
      | None \<Rightarrow> covering_track at_s (Suc ti) scs)"

definition marker_id_of :: "nat \<Rightarrow> nat \<Rightarrow> clip \<Rightarrow> string" where
  "marker_id_of ti ci c =
     ''marker-'' @ dec_of_nat ti @ ''-'' @ dec_of_nat ci @ ''-'' @ dec_of_nat (length (clip_markers c))"

definition apply_professional_marker ::
  "nat \<Rightarrow> f64 \<Rightarrow> string \<Rightarrow> string option \<Rightarrow> timeline \<Rightarrow> edited" where
  "apply_professional_marker index at_s label0 category tml =
     (let label = trim label0
      in if \<not> is_finite at_s \<or> flt at_s (Fin 0)
         then invalid index (Fmt ''add_marker: at_s must be finite and >= 0, got {}'' [A_f64 at_s])
         else if label = [] then invalid index (msg ''add_marker: label must not be empty'')
         else (case covering_track at_s 0 (tl_children tml) of
             None \<Rightarrow> invalid index (Fmt ''add_marker: no clip covers timeline time {:.3}s'' [A_secs at_s])
           | Some (ti, ci, start_s) \<Rightarrow>
               let cs = sc_children (tl_children tml ! ti)
               in (case cs ! ci of
                     TC_Clip c \<Rightarrow>
                       let rate = (case clip_source_range c of
                             Some r \<Rightarrow> rt_rate (tr_start_time r) | None \<Rightarrow> Fin 24);
                           relative_s = fsub at_s start_s;
                           bare = marker_new label (time_range_new
                             (rational_time_new (fmul relative_s rate) rate)
                             (rational_time_new (Fin 0) rate));
                           metadata = montage_marker_metadata_default\<lparr>mmm_category := category,
                             mmm_note := Some label,
                             mmm_extra := bt_insert ''id'' (JStr (marker_id_of ti ci c)) []\<rparr>;
                           marker = bare\<lparr>mk_metadata := (mk_metadata bare)\<lparr>mm_montage := Some metadata\<rparr>\<rparr>;
                           c' = c\<lparr>clip_markers := clip_markers c @ [marker]\<rparr>
                       in Inr (Fmt ''added marker {:?} at {:.3}s on clip {:?}''
                                 [A_dbg label, A_secs at_s, A_dbg (clip_name c)],
                               with_track_children ti (cs[ci := TC_Clip c']) tml)
                   | _ \<Rightarrow> invalid index (Fmt
                       ''add_marker: timeline time {:.3}s resolves to non-clip item on track {:?}''
                       [A_secs at_s,
                        A_dbg (case tl_children tml ! ti of SC_Track t \<Rightarrow> track_name t | _ \<Rightarrow> [])]))))"

section \<open>Selecting\<close>

record marker_candidate =
  mc_track_index :: nat
  mc_child_index :: nat
  mc_marker_index :: nat
  mc_clip_start_s :: f64
  mc_clip_end_s :: f64
  mc_timeline_s :: f64

definition validate_marker_selector :: "nat \<Rightarrow> marker_selector \<Rightarrow> unit edit" where
  "validate_marker_selector index s =
     (if ms_marker_id s = None \<and> ms_anchor s = None \<and> ms_label s = None \<and> ms_at_s s = None
      then invalid index (msg ''marker selector must include marker_id, anchor, label, or at_s'')
      else if (case ms_marker_id s of None \<Rightarrow> False | Some i \<Rightarrow> trim i = [])
      then invalid index (msg ''marker selector marker_id must not be empty'')
      else if (case ms_label s of None \<Rightarrow> False | Some l \<Rightarrow> trim l = [])
      then invalid index (msg ''marker selector label must not be empty'')
      else (case ms_at_s s of
          None \<Rightarrow> Inr ()
        | Some at_s \<Rightarrow>
            if \<not> is_finite at_s \<or> flt at_s (Fin 0)
            then invalid index (Fmt ''marker selector at_s must be finite and >= 0, got {}'' [A_f64 at_s])
            else Inr ()))"

definition marker_metadata_id :: "marker \<Rightarrow> string option" where
  "marker_metadata_id m =
     Option.bind (mm_montage (mk_metadata m)) (\<lambda>metadata.
     Option.bind (bt_get (mmm_extra metadata) ''id'') json_as_str)"

definition marker_matches_selector :: "marker \<Rightarrow> f64 \<Rightarrow> marker_selector \<Rightarrow> bool" where
  "marker_matches_selector m timeline_s s \<longleftrightarrow>
     (case ms_marker_id s of None \<Rightarrow> True | Some i \<Rightarrow> marker_metadata_id m = Some (trim i))
     \<and> (case ms_label s of None \<Rightarrow> True | Some l \<Rightarrow> mk_name m = trim l)
     \<and> (case ms_at_s s of None \<Rightarrow> True | Some at_s \<Rightarrow> \<not> flt micro (fabs (fsub timeline_s at_s)))"

definition clip_candidates ::
  "marker_selector \<Rightarrow> nat \<Rightarrow> nat \<Rightarrow> f64 \<Rightarrow> f64 \<Rightarrow> clip \<Rightarrow> marker_candidate list" where
  "clip_candidates s ti ci start_s end_s c =
     List.map_filter (\<lambda>(mi, m).
       let timeline_s = fadd start_s (to_seconds (tr_start_time (mk_marked_range m)))
       in if marker_matches_selector m timeline_s s
          then Some \<lparr>mc_track_index = ti, mc_child_index = ci, mc_marker_index = mi,
                     mc_clip_start_s = start_s, mc_clip_end_s = end_s, mc_timeline_s = timeline_s\<rparr>
          else None) (enumerate 0 (clip_markers c))"

fun track_candidates ::
  "marker_selector \<Rightarrow> clip_locator option \<Rightarrow> nat \<Rightarrow> nat \<Rightarrow> f64 \<Rightarrow> track_child list
    \<Rightarrow> marker_candidate list" where
  "track_candidates s loc ti ci cursor_s [] = []"
| "track_candidates s loc ti ci cursor_s (c # cs) =
     (let end_s = fadd cursor_s (child_duration c);
          here = (case loc of None \<Rightarrow> True | Some l \<Rightarrow> cl_track_index l = ti \<and> cl_child_index l = ci)
      in (case c of TC_Clip clip \<Rightarrow> if here then clip_candidates s ti ci cursor_s end_s clip else []
          | _ \<Rightarrow> []) @ track_candidates s loc ti (Suc ci) end_s cs)"

definition collect_marker_candidates ::
  "timeline \<Rightarrow> marker_selector \<Rightarrow> clip_locator option \<Rightarrow> marker_candidate list" where
  "collect_marker_candidates tml s loc =
     concat (map (\<lambda>(ti, sc). track_candidates s loc ti 0 (Fin 0) (sc_children sc))
       (enumerate 0 (tl_children tml)))"

text \<open>\<open>{:?}\<close> of a selector: its fields in order.\<close>

definition selector_msg :: "marker_selector \<Rightarrow> message" where
  "selector_msg s =
     Fmt ''MarkerSelector''
       [A_strs (case ms_marker_id s of None \<Rightarrow> [] | Some i \<Rightarrow> [i]),
        A_strs (case ms_anchor s of None \<Rightarrow> []
                | Some (TranscriptSnippet t) \<Rightarrow> [''text'', t] | Some (ClipUuid u) \<Rightarrow> [''uuid'', u]
                | Some (SceneChangeIndex a i) \<Rightarrow> [''asset_id'', a, dec_of_nat (unat i)]),
        A_strs (case ms_label s of None \<Rightarrow> [] | Some l \<Rightarrow> [l]),
        A_msgs (case ms_at_s s of None \<Rightarrow> [] | Some t \<Rightarrow> [Fmt ''{}'' [A_f64 t]])]"

definition resolve_marker_candidate ::
  "timeline \<Rightarrow> nat \<Rightarrow> marker_selector \<Rightarrow> anchor_context \<Rightarrow> marker_candidate edit" where
  "resolve_marker_candidate tml index s ctx =
     rbind (validate_marker_selector index s) (\<lambda>_.
     rbind (map_transpose (resolve_for index tml ctx) (ms_anchor s)) (\<lambda>loc.
     case collect_marker_candidates tml s loc of
       [candidate] \<Rightarrow> Inr candidate
     | [] \<Rightarrow> invalid index (Fmt ''marker selector {:?} matched no markers'' [A_msg (selector_msg s)])
     | many \<Rightarrow> invalid index (Fmt
         ''marker selector {:?} matches {} markers; add marker_id, anchor, or at_s to disambiguate''
         [A_msg (selector_msg s), A_nat (length many)])))"

section \<open>Updating and deleting\<close>

record marker_update =
  mu_label :: "string option"
  mu_category :: "string option"
  mu_note :: "string option"
  mu_at_s :: "f64 option"
  mu_duration_s :: "f64 option"

definition validate_optional_time :: "nat \<Rightarrow> string \<Rightarrow> f64 option \<Rightarrow> unit edit" where
  "validate_optional_time index text x =
     (case x of
        None \<Rightarrow> Inr ()
      | Some t \<Rightarrow> if \<not> is_finite t \<or> flt t (Fin 0) then invalid index (Fmt text [A_f64 t]) else Inr ())"

text \<open>The marker after the update, with its clip starting at \<open>clip_start_s\<close>.\<close>

definition updated_marker :: "marker_update \<Rightarrow> f64 \<Rightarrow> marker \<Rightarrow> marker" where
  "updated_marker u clip_start_s m =
     (let m1 = (case mu_label u of None \<Rightarrow> m | Some l \<Rightarrow> m\<lparr>mk_name := trim l\<rparr>);
          meta = unwrap_or montage_marker_metadata_default (mm_montage (mk_metadata m1));
          meta1 = (case mu_category u of None \<Rightarrow> meta | Some c \<Rightarrow> meta\<lparr>mmm_category := Some (trim c)\<rparr>);
          meta2 = (case mu_note u of None \<Rightarrow> meta1 | Some n \<Rightarrow> meta1\<lparr>mmm_note := Some (trim n)\<rparr>);
          m2 = m1\<lparr>mk_metadata := (mk_metadata m1)\<lparr>mm_montage := Some meta2\<rparr>,
                  mk_comment := (case mu_note u of None \<Rightarrow> mk_comment m1 | Some n \<Rightarrow> Some (trim n))\<rparr>;
          r = mk_marked_range m2;
          r1 = (case mu_at_s u of
                  None \<Rightarrow> r
                | Some t \<Rightarrow> let rate = rt_rate (tr_start_time r)
                            in r\<lparr>tr_start_time := rational_time_new (fmul (fsub t clip_start_s) rate) rate\<rparr>);
          r2 = (case mu_duration_s u of
                  None \<Rightarrow> r1
                | Some d \<Rightarrow> let rate = rt_rate (tr_duration r1)
                            in r1\<lparr>tr_duration := rational_time_new (fmul d rate) rate\<rparr>)
      in m2\<lparr>mk_marked_range := r2\<rparr>)"

definition apply_update_marker ::
  "nat \<Rightarrow> marker_selector \<Rightarrow> marker_update \<Rightarrow> anchor_context \<Rightarrow> timeline \<Rightarrow> edited" where
  "apply_update_marker index s u ctx tml =
     rbind (resolve_marker_candidate tml index s ctx) (\<lambda>mc.
     rbind (validate_optional_time index ''update_marker: at_s must be finite and >= 0, got {}'' (mu_at_s u)) (\<lambda>_.
     rbind (validate_optional_time index ''update_marker: duration_s must be finite and >= 0, got {}''
        (mu_duration_s u)) (\<lambda>_.
     ensures (case mu_at_s u of None \<Rightarrow> True
              | Some t \<Rightarrow> \<not> (flt t (mc_clip_start_s mc) \<or> fle (mc_clip_end_s mc) t))
       (Err (AE_Invalid index (Fmt
          ''update_marker: moving marker to {:.3}s would leave its current clip range [{:.3}s..{:.3}s]''
          [A_secs (the (mu_at_s u)), A_secs (mc_clip_start_s mc), A_secs (mc_clip_end_s mc)]))) (
     rbind (track_at index ''update_marker: resolved marker track is not a track'' tml (mc_track_index mc)) (\<lambda>track.
     rbind (clip_on index ''update_marker: resolved marker child is not a clip''
        (track_children track) (mc_child_index mc)) (\<lambda>c.
     if length (clip_markers c) \<le> mc_marker_index mc
     then invalid index (msg ''update_marker: resolved marker index disappeared'')
     else if (case mu_label u of None \<Rightarrow> False | Some l \<Rightarrow> trim l = [])
     then invalid index (msg ''update_marker: label must not be empty'')
     else
       let m = updated_marker u (mc_clip_start_s mc) (clip_markers c ! mc_marker_index mc);
           c' = c\<lparr>clip_markers := (clip_markers c)[mc_marker_index mc := m]\<rparr>
       in Inr (Fmt ''updated marker {:?} at {:.3}s on clip {:?}''
                 [A_dbg (mk_name m), A_secs (mc_timeline_s mc), A_dbg (clip_name c)],
               with_track_children (mc_track_index mc)
                 ((track_children track)[mc_child_index mc := TC_Clip c']) tml)))))))"

definition apply_delete_marker ::
  "nat \<Rightarrow> marker_selector \<Rightarrow> anchor_context \<Rightarrow> timeline \<Rightarrow> edited" where
  "apply_delete_marker index s ctx tml =
     rbind (resolve_marker_candidate tml index s ctx) (\<lambda>mc.
     rbind (track_at index ''delete_marker: resolved marker track is not a track'' tml (mc_track_index mc)) (\<lambda>track.
     rbind (clip_on index ''delete_marker: resolved marker child is not a clip''
        (track_children track) (mc_child_index mc)) (\<lambda>c.
     if length (clip_markers c) \<le> mc_marker_index mc
     then invalid index (msg ''delete_marker: resolved marker index disappeared'')
     else
       let m = clip_markers c ! mc_marker_index mc;
           c' = c\<lparr>clip_markers := remove_at (mc_marker_index mc) (clip_markers c)\<rparr>
       in Inr (Fmt ''deleted marker {:?} at {:.3}s from clip {:?}''
                 [A_dbg (mk_name m), A_secs (mc_timeline_s mc), A_dbg (clip_name c)],
               with_track_children (mc_track_index mc)
                 ((track_children track)[mc_child_index mc := TC_Clip c']) tml))))"

end
