(* ===== verification/Edl_Nesting.thy ===== *)
theory Edl_Nesting
  imports Edl_Markers
begin

text \<open>
  Building whole runs of children, from \<open>crates/core/src/edl/apply.rs\<close>: wrapping a run into a nested
  stack and flattening it again, and the program track of a multicam plan.
\<close>

section \<open>Nested stacks\<close>

text \<open>\<open>find_track_mut\<close>: the index of the first track of that name, and the track.\<close>

definition find_track :: "timeline \<Rightarrow> string \<Rightarrow> (nat \<times> track) option" where
  "find_track tml name =
     Option.bind (position (is_track_named name) (tl_children tml)) (\<lambda>ti.
       case tl_children tml ! ti of SC_Track t \<Rightarrow> Some (ti, t) | _ \<Rightarrow> None)"

definition nested_stack :: "string \<Rightarrow> track_kind \<Rightarrow> track_child list \<Rightarrow> stack" where
  "nested_stack name kind cs =
     stack_with_children [SC_Track (track_with_children cs (track_empty (name @ '' Track'') kind))]
       (stack_empty name)"

definition apply_wrap_as_nested ::
  "nat \<Rightarrow> string \<Rightarrow> nat \<Rightarrow> nat \<Rightarrow> string option \<Rightarrow> timeline \<Rightarrow> edited" where
  "apply_wrap_as_nested index name0 start_index end_index given tml =
     (let name = trim name0
      in if name = [] then invalid index (msg ''wrap_as_nested: track must not be empty'')
         else if end_index \<le> start_index
         then invalid index (Fmt ''wrap_as_nested: start_index {} must be < end_index {}''
                [A_nat start_index, A_nat end_index])
         else (case find_track tml name of
             None \<Rightarrow> invalid index (Fmt ''wrap_as_nested: track {:?} not found'' [A_dbg name])
           | Some (ti, track) \<Rightarrow>
               let cs = track_children track
               in if length cs < end_index
                  then invalid index (Fmt ''wrap_as_nested: range [{}..{}) exceeds track length {}''
                         [A_nat start_index, A_nat end_index, A_nat (length cs)])
                  else
                    let nested_name = (case given of
                          Some n \<Rightarrow> if trim n = [] then ''Nested Stack'' else trim n
                        | None \<Rightarrow> ''Nested Stack'');
                        nested_children = take (end_index - start_index) (drop start_index cs);
                        rest = take start_index cs @ drop end_index cs;
                        s = nested_stack nested_name (track_kind track) nested_children
                    in Inr (Fmt ''wrapped children [{}..{}) on track {:?} into nested stack {:?}''
                              [A_nat start_index, A_nat end_index, A_dbg name, A_dbg nested_name],
                            with_track_children ti (insert_at start_index (TC_Stack s) rest) tml)))"

text \<open>The children of the stack, one after the other; a nested track must have the kind of the
  track it is flattened into.\<close>

fun flattened ::
  "nat \<Rightarrow> track_kind \<Rightarrow> stack_child list \<Rightarrow> track_child list edit" where
  "flattened index kind [] = Inr []"
| "flattened index kind (SC_Track t # scs) =
     (if track_kind t \<noteq> kind
      then invalid index (Fmt ''flatten_nested: nested track {:?} kind {:?} does not match parent kind {:?}''
             [A_dbg (track_name t), A_kind (track_kind t), A_kind kind])
      else rbind (flattened index kind scs) (\<lambda>rest. Inr (track_children t @ rest)))"
| "flattened index kind (SC_Clip c # scs) =
     rbind (flattened index kind scs) (\<lambda>rest. Inr (TC_Clip c # rest))"
| "flattened index kind (SC_Gap g # scs) =
     rbind (flattened index kind scs) (\<lambda>rest. Inr (TC_Gap g # rest))"
| "flattened index kind (SC_Stack s # scs) =
     rbind (flattened index kind scs) (\<lambda>rest. Inr (TC_Stack s # rest))"

definition apply_flatten_nested :: "nat \<Rightarrow> string \<Rightarrow> nat \<Rightarrow> timeline \<Rightarrow> edited" where
  "apply_flatten_nested index name0 child_index tml =
     (let name = trim name0
      in if name = [] then invalid index (msg ''flatten_nested: track must not be empty'')
         else (case find_track tml name of
             None \<Rightarrow> invalid index (Fmt ''flatten_nested: track {:?} not found'' [A_dbg name])
           | Some (ti, track) \<Rightarrow>
               let cs = track_children track
               in if length cs \<le> child_index
                  then invalid index (Fmt ''flatten_nested: child_index {} exceeds track length {}''
                         [A_nat child_index, A_nat (length cs)])
                  else (case cs ! child_index of
                      TC_Stack s \<Rightarrow>
                        rbind (flattened index (track_kind track) (stack_children s)) (\<lambda>flat.
                        Inr (Fmt ''flattened nested stack at child {} on track {:?} into {} children''
                               [A_nat child_index, A_dbg name, A_nat (length flat)],
                             with_track_children ti
                               (take child_index cs @ flat @ drop (Suc child_index) cs) tml))
                    | _ \<Rightarrow> invalid index (Fmt ''flatten_nested: child {} is not a nested stack''
                            [A_nat child_index]))))"

section \<open>Multicam\<close>

record multicam_decision =
  md_source_asset :: string
  md_start_s :: f64
  md_end_s :: f64
  md_source_start_s :: "f64 option"
  md_source_end_s :: "f64 option"
  md_reason :: "string option"
  md_speaker :: "string option"
  md_sync_group_id :: "string option"

record multicam_plan =
  mp_program_track :: string
  mp_decisions :: "multicam_decision list"

fun validate_decisions :: "nat \<Rightarrow> nat \<Rightarrow> f64 \<Rightarrow> multicam_decision list \<Rightarrow> unit edit" where
  "validate_decisions index di cursor_s [] = Inr ()"
| "validate_decisions index di cursor_s (d # ds) =
     (if trim (md_source_asset d) = []
      then invalid index (Fmt ''apply_multicam_plan: decision {} source_asset must not be empty'' [A_nat di])
      else if \<not> is_finite (md_start_s d) \<or> flt (md_start_s d) (Fin 0)
      then invalid index (Fmt ''apply_multicam_plan: decision {} start_s must be finite and >= 0'' [A_nat di])
      else if \<not> is_finite (md_end_s d) \<or> fle (md_end_s d) (md_start_s d)
      then invalid index (Fmt ''apply_multicam_plan: decision {} end_s must be finite and > start_s'' [A_nat di])
      else if flt (fadd (md_start_s d) micro) cursor_s
      then invalid index (Fmt
        ''apply_multicam_plan: decision {} starts at {:.3}s before previous decision ends at {:.3}s''
        [A_nat di, A_secs (md_start_s d), A_secs cursor_s])
      else validate_decisions index (Suc di) (md_end_s d) ds)"

definition validate_multicam_decisions :: "nat \<Rightarrow> multicam_decision list \<Rightarrow> unit edit" where
  "validate_multicam_decisions index ds =
     (if ds = [] then invalid index (msg ''apply_multicam_plan: decisions must not be empty'')
      else validate_decisions index 0 (Fin 0) ds)"

definition insert_opt_str :: "string \<Rightarrow> string option \<Rightarrow> json_map \<Rightarrow> json_map" where
  "insert_opt_str k v m = (case v of None \<Rightarrow> m | Some s \<Rightarrow> bt_insert k (JStr s) m)"

text \<open>The clip of a decision.\<close>

definition multicam_clip :: "nat \<Rightarrow> multicam_decision \<Rightarrow> string \<Rightarrow> clip" where
  "multicam_clip di d uuid =
     (let c = clip_empty (''multicam-'' @ dec_of_nat di);
          extra = insert_opt_str ''sync_group_id'' (md_sync_group_id d)
            (insert_opt_str ''speaker'' (md_speaker d)
              (bt_insert ''multicam_decision_index'' (JInt (int di))
                (bt_insert ''multicam_source_asset'' (JStr (md_source_asset d)) [])))
      in stamp_clip_uuid uuid (c\<lparr>
           clip_media_reference := MR_External (external_reference_new (md_source_asset d)),
           clip_source_range := Some (seconds_range (unwrap_or (md_start_s d) (md_source_start_s d))
             (fsub (md_end_s d) (md_start_s d)) (Fin 24)),
           clip_metadata := (clip_metadata c)\<lparr>cm_montage :=
             Some (montage_clip_metadata_default\<lparr>mcm_reasoning := md_reason d, mcm_extra := extra\<rparr>)\<rparr>\<rparr>))"

fun multicam_children ::
  "(nat \<Rightarrow> nat) \<Rightarrow> nat \<Rightarrow> f64 \<Rightarrow> multicam_decision list \<Rightarrow> nat \<Rightarrow> track_child list \<times> nat" where
  "multicam_children clock di cursor_s [] seq = ([], seq)"
| "multicam_children clock di cursor_s (d # ds) seq =
     (case multicam_children clock (Suc di) (md_end_s d) ds (seq + 1) of
        (rest, seq') \<Rightarrow>
          ((if flt (fadd cursor_s milli) (md_start_s d)
            then [gap_child (fsub (md_start_s d) cursor_s) (Fin 24)] else [])
             @ TC_Clip (multicam_clip di d (fresh_clip_uuid (clock seq) seq)) # rest, seq'))"

definition build_multicam_program_track ::
  "(nat \<Rightarrow> nat) \<Rightarrow> string \<Rightarrow> multicam_decision list \<Rightarrow> nat \<Rightarrow> track \<times> nat" where
  "build_multicam_program_track clock name ds seq =
     (case multicam_children clock 0 (Fin 0) ds seq of
        (cs, seq') \<Rightarrow> (track_with_children cs (track_empty name Video), seq'))"

definition apply_multicam_plan ::
  "(nat \<Rightarrow> nat) \<Rightarrow> nat \<Rightarrow> multicam_plan \<Rightarrow> timeline \<Rightarrow> nat \<Rightarrow> (message \<times> timeline \<times> nat) edit" where
  "apply_multicam_plan clock index plan tml seq =
     (let name = trim (mp_program_track plan)
      in if name = [] then invalid index (msg ''apply_multicam_plan: program_track must not be empty'')
         else rbind (validate_multicam_decisions index (mp_decisions plan)) (\<lambda>_.
           case build_multicam_program_track clock name (mp_decisions plan) seq of
             (track, seq') \<Rightarrow>
               let scs = tl_children tml;
                   scs' = (case position (is_track_named name) scs of
                             Some i \<Rightarrow> scs[i := SC_Track track]
                           | None \<Rightarrow> scs @ [SC_Track track])
               in Inr (Fmt ''applied multicam plan to track {:?} with {} decisions''
                         [A_dbg name, A_nat (length (mp_decisions plan))],
                       with_tl_children scs' tml, seq')))"

end
