(* ===== verification/Edl_Professional.thy ===== *)
theory Edl_Professional
  imports Edl_Nesting
begin

text \<open>
  \<open>ProfessionalTimelineEdit\<close> of \<open>crates/core/src/edl/op.rs\<close> and its dispatcher in
  \<open>apply.rs\<close>. The edit that was applied last is kept as JSON in the metadata of the timeline, in
  the encoding of its derived \<open>Serialize\<close>: an object with the tag \<open>edit\<close>, options left out
  when they are absent, times as \<open>f64\<close> numbers, or \<open>null\<close> when they are not finite.
\<close>

section \<open>The edits\<close>

datatype pro_edit =
    PE_RippleTrim anchor f64 "string list"
  | PE_RollEdit anchor anchor f64
  | PE_SlipClip anchor f64
  | PE_SlideClip anchor f64
  | PE_LiftRange source_range "string list"
  | PE_ExtractRange source_range "string list"
  | PE_ReplaceClip anchor string source_range
  | PE_Overwrite string source_range string
  | PE_Append string string source_range
  | PE_WrapAsNested string nat nat "string option"
  | PE_FlattenNested string nat
  | PE_AddMarker f64 string "string option"
  | PE_UpdateMarker marker_selector marker_update
  | PE_DeleteMarker marker_selector

section \<open>Their JSON\<close>

text \<open>\<open>f64::to_bits\<close> of a finite number: sign, biased exponent and fraction.\<close>

definition f64_to_bits :: "f64 \<Rightarrow> 64 word" where
  "f64_to_bits x =
     (let q = \<bar>fval x\<bar>;
          e = max (ilog2 q - 52) (- 1074);
          m = \<lfloor>q / 2 powi e\<rfloor>;
          magnitude = (if q = 0 then 0
                       else if m < 2 ^ 52 then m else (e + 1075) * 2 ^ 52 + (m - 2 ^ 52))
      in word_of_int ((if fsign x then 2 ^ 63 else 0) + magnitude))"

definition json_f64 :: "f64 \<Rightarrow> json" where
  "json_f64 x = (if is_finite x then JFloat (f64_to_bits x) else JNull)"

definition json_strs :: "string list \<Rightarrow> json" where
  "json_strs xs = JArr (map JStr xs)"

text \<open>A field that is skipped when it is absent.\<close>

definition opt_field :: "string \<Rightarrow> ('a \<Rightarrow> json) \<Rightarrow> 'a option \<Rightarrow> (string \<times> json) list" where
  "opt_field k f x = (case x of None \<Rightarrow> [] | Some y \<Rightarrow> [(k, f y)])"

fun anchor_json :: "anchor \<Rightarrow> json" where
  "anchor_json (TranscriptSnippet t) =
     json_object [(''anchor_kind'', JStr ''transcript_snippet''), (''text'', JStr t)]"
| "anchor_json (ClipUuid u) = json_object [(''anchor_kind'', JStr ''clip_uuid''), (''uuid'', JStr u)]"
| "anchor_json (SceneChangeIndex a i) =
     json_object [(''anchor_kind'', JStr ''scene_change_index''), (''asset_id'', JStr a),
       (''index'', JInt (uint i))]"

definition range_json :: "source_range \<Rightarrow> json" where
  "range_json r =
     json_object [(''start_s'', json_f64 (sg_start_s r)), (''end_s'', json_f64 (sg_end_s r))]"

definition selector_json :: "marker_selector \<Rightarrow> json" where
  "selector_json s =
     json_object (opt_field ''marker_id'' JStr (ms_marker_id s) @ opt_field ''anchor'' anchor_json (ms_anchor s)
       @ opt_field ''label'' JStr (ms_label s) @ opt_field ''at_s'' json_f64 (ms_at_s s))"

definition tagged :: "string \<Rightarrow> (string \<times> json) list \<Rightarrow> json" where
  "tagged tag fs = json_object ((''edit'', JStr tag) # fs)"

fun pro_edit_json :: "pro_edit \<Rightarrow> json" where
  "pro_edit_json (PE_RippleTrim a e ts) =
     tagged ''ripple_trim'' [(''anchor'', anchor_json a), (''new_end_s'', json_f64 e),
       (''ripple_tracks'', json_strs ts)]"
| "pro_edit_json (PE_RollEdit f t d) =
     tagged ''roll_edit'' [(''between'', json_object [(''from'', anchor_json f), (''to'', anchor_json t)]),
       (''delta_s'', json_f64 d)]"
| "pro_edit_json (PE_SlipClip a d) =
     tagged ''slip_clip'' [(''anchor'', anchor_json a), (''delta_s'', json_f64 d)]"
| "pro_edit_json (PE_SlideClip a d) =
     tagged ''slide_clip'' [(''anchor'', anchor_json a), (''delta_s'', json_f64 d)]"
| "pro_edit_json (PE_LiftRange r ts) =
     tagged ''lift_range'' [(''range'', range_json r), (''tracks'', json_strs ts)]"
| "pro_edit_json (PE_ExtractRange r ts) =
     tagged ''extract_range'' [(''range'', range_json r), (''tracks'', json_strs ts)]"
| "pro_edit_json (PE_ReplaceClip a asset r) =
     tagged ''replace_clip'' [(''anchor'', anchor_json a), (''asset'', JStr asset), (''range'', range_json r)]"
| "pro_edit_json (PE_Overwrite t r asset) =
     tagged ''overwrite'' [(''track'', JStr t), (''range'', range_json r), (''asset'', JStr asset)]"
| "pro_edit_json (PE_Append t asset r) =
     tagged ''append'' [(''track'', JStr t), (''asset'', JStr asset), (''range'', range_json r)]"
| "pro_edit_json (PE_WrapAsNested t s e n) =
     tagged ''wrap_as_nested'' ([(''track'', JStr t), (''start_index'', JInt (int s)),
       (''end_index'', JInt (int e))] @ opt_field ''name'' JStr n)"
| "pro_edit_json (PE_FlattenNested t i) =
     tagged ''flatten_nested'' [(''track'', JStr t), (''child_index'', JInt (int i))]"
| "pro_edit_json (PE_AddMarker t l c) =
     tagged ''add_marker'' ([(''at_s'', json_f64 t), (''label'', JStr l)] @ opt_field ''category'' JStr c)"
| "pro_edit_json (PE_UpdateMarker s u) =
     tagged ''update_marker'' ([(''selector'', selector_json s)] @ opt_field ''label'' JStr (mu_label u)
       @ opt_field ''category'' JStr (mu_category u) @ opt_field ''note'' JStr (mu_note u)
       @ opt_field ''at_s'' json_f64 (mu_at_s u) @ opt_field ''duration_s'' json_f64 (mu_duration_s u))"
| "pro_edit_json (PE_DeleteMarker s) = tagged ''delete_marker'' [(''selector'', selector_json s)]"

definition record_professional_timeline_edit :: "pro_edit \<Rightarrow> timeline \<Rightarrow> timeline" where
  "record_professional_timeline_edit edit tml =
     (let m = timeline_montage_metadata tml
      in with_montage (m\<lparr>mtm_extra :=
           bt_insert ''last_professional_timeline_edit'' (pro_edit_json edit) (mtm_extra m)\<rparr>) tml)"

section \<open>The dispatcher\<close>

definition lift_edit :: "nat \<Rightarrow> edited \<Rightarrow> (message \<times> timeline \<times> nat) edit" where
  "lift_edit seq r = rbind r (\<lambda>(note, tml). Inr (note, tml, seq))"

text \<open>The trim of \<open>PE_RippleTrim\<close>, with the guard on the affected tracks.\<close>

definition apply_pro_ripple_trim ::
  "nat \<Rightarrow> f64 \<Rightarrow> string list \<Rightarrow> clip_locator option \<Rightarrow> timeline \<Rightarrow> edited" where
  "apply_pro_ripple_trim index new_end_s ripple_tracks loc tml =
     rbind (required_locator index loc) (\<lambda>locator.
     rbind (track_at index ''ripple_trim: anchor resolved to a non-track stack child'' tml
        (cl_track_index locator)) (\<lambda>track.
     if ripple_tracks \<noteq> [] \<and> track_name track \<notin> set ripple_tracks
     then invalid index (Fmt ''ripple_trim: resolved track {:?} is not included in ripple_tracks {:?}''
            [A_dbg (track_name track), A_strs ripple_tracks])
     else apply_trim index None (Some new_end_s) (Some locator) tml))"

text \<open>What an edit does before it is recorded, and the words put before its description.\<close>

fun run_pro_edit ::
  "(nat \<Rightarrow> nat) \<Rightarrow> anchor_context \<Rightarrow> nat \<Rightarrow> pro_edit \<Rightarrow> clip_locator option \<Rightarrow> timeline \<Rightarrow> nat
    \<Rightarrow> (message \<times> timeline \<times> nat) edit" where
  "run_pro_edit clock ctx index (PE_RippleTrim a e ts) loc tml seq =
     lift_edit seq (apply_pro_ripple_trim index e ts loc tml)"
| "run_pro_edit clock ctx index (PE_RollEdit f t d) loc tml seq =
     lift_edit seq (apply_roll_edit index f t d ctx tml)"
| "run_pro_edit clock ctx index (PE_SlipClip a d) loc tml seq =
     lift_edit seq (apply_slip_clip index d loc tml)"
| "run_pro_edit clock ctx index (PE_SlideClip a d) loc tml seq =
     lift_edit seq (apply_slide_clip index d loc tml)"
| "run_pro_edit clock ctx index (PE_LiftRange r ts) loc tml seq = apply_lift_range clock index r ts tml seq"
| "run_pro_edit clock ctx index (PE_ExtractRange r ts) loc tml seq =
     apply_extract_range clock index r ts tml seq"
| "run_pro_edit clock ctx index (PE_ReplaceClip a asset r) loc tml seq =
     lift_edit seq (apply_replace_clip index asset r loc tml)"
| "run_pro_edit clock ctx index (PE_Overwrite t r asset) loc tml seq =
     apply_overwrite_clip clock index t r asset tml seq"
| "run_pro_edit clock ctx index (PE_Append t asset r) loc tml seq =
     apply_append_clip clock index t asset r tml seq"
| "run_pro_edit clock ctx index (PE_WrapAsNested t s e n) loc tml seq =
     lift_edit seq (apply_wrap_as_nested index t s e n tml)"
| "run_pro_edit clock ctx index (PE_FlattenNested t i) loc tml seq =
     lift_edit seq (apply_flatten_nested index t i tml)"
| "run_pro_edit clock ctx index (PE_AddMarker t l c) loc tml seq =
     lift_edit seq (apply_professional_marker index t l c tml)"
| "run_pro_edit clock ctx index (PE_UpdateMarker s u) loc tml seq =
     lift_edit seq (apply_update_marker index s u ctx tml)"
| "run_pro_edit clock ctx index (PE_DeleteMarker s) loc tml seq =
     lift_edit seq (apply_delete_marker index s ctx tml)"

fun pro_edit_words :: "pro_edit \<Rightarrow> string" where
  "pro_edit_words (PE_RippleTrim _ _ _) = ''ripple trimmed via professional timeline edit: {}''"
| "pro_edit_words (PE_RollEdit _ _ _) = ''rolled edit via professional timeline edit: {}''"
| "pro_edit_words (PE_SlipClip _ _) = ''slipped via professional timeline edit: {}''"
| "pro_edit_words (PE_SlideClip _ _) = ''slid clip via professional timeline edit: {}''"
| "pro_edit_words (PE_LiftRange _ _) = ''lifted range via professional timeline edit: {}''"
| "pro_edit_words (PE_ExtractRange _ _) = ''extracted range via professional timeline edit: {}''"
| "pro_edit_words (PE_ReplaceClip _ _ _) = ''replaced clip via professional timeline edit: {}''"
| "pro_edit_words (PE_Overwrite _ _ _) = ''overwrote range via professional timeline edit: {}''"
| "pro_edit_words (PE_Append _ _ _) = ''appended clip via professional timeline edit: {}''"
| "pro_edit_words (PE_WrapAsNested _ _ _ _) = ''wrapped nested stack via professional timeline edit: {}''"
| "pro_edit_words (PE_FlattenNested _ _) = ''flattened nested stack via professional timeline edit: {}''"
| "pro_edit_words (PE_AddMarker _ _ _) = ''added marker via professional timeline edit: {}''"
| "pro_edit_words (PE_UpdateMarker _ _) = ''updated marker via professional timeline edit: {}''"
| "pro_edit_words (PE_DeleteMarker _) = ''deleted marker via professional timeline edit: {}''"

definition apply_professional_timeline_edit ::
  "(nat \<Rightarrow> nat) \<Rightarrow> anchor_context \<Rightarrow> nat \<Rightarrow> pro_edit \<Rightarrow> clip_locator option \<Rightarrow> timeline \<Rightarrow> nat
    \<Rightarrow> (message \<times> timeline \<times> nat) edit" where
  "apply_professional_timeline_edit clock ctx index edit loc tml seq =
     rbind (run_pro_edit clock ctx index edit loc tml seq) (\<lambda>(description, tml', seq').
     Inr (Fmt (pro_edit_words edit) [A_msg description],
          record_professional_timeline_edit edit tml', seq'))"

end
