(* ===== verification/Edl_Audio.thy ===== *)
theory Edl_Audio
  imports Edl_Professional
begin

text \<open>
  The sound edits of \<open>crates/core/src/edl/apply.rs\<close>: levels, fades, mutes and removed spans of a
  clip, J-cuts and L-cuts, the controls of audio tracks, and the sync group of a clip, with the
  playback speed. A sound edit of a clip writes one of its effects, or its metadata; a sound edit of a
  track writes the object under \<open>montage_audio\<close> in the metadata of the track.
\<close>

section \<open>Editing one clip\<close>

text \<open>
  The frame of every anchored sound edit: the slot the anchor resolved to must be a clip on a track;
  what the edit returns for the clip replaces it.
\<close>

definition edit_clip ::
  "nat \<Rightarrow> string \<Rightarrow> (clip \<Rightarrow> (message \<times> clip) edit) \<Rightarrow> clip_locator option \<Rightarrow> timeline \<Rightarrow> edited" where
  "edit_clip index label f loc tml =
     rbind (required_locator index loc) (\<lambda>locator.
     rbind (track_at index (label @ '': anchor resolved to a non-track stack child'') tml
        (cl_track_index locator)) (\<lambda>track.
     rbind (clip_on index (label @ '': anchor resolved to a non-clip track child'') (track_children track)
        (cl_child_index locator)) (\<lambda>c.
     rbind (f c) (\<lambda>(note, c').
     Inr (note, with_track_children (cl_track_index locator)
                  ((track_children track)[cl_child_index locator := TC_Clip c']) tml)))))"

definition effect_new :: "string \<Rightarrow> json_map \<Rightarrow> effect_node" where
  "effect_new effect_name metadata =
     \<lparr>ef_otio_schema = ''Effect.1'', ef_name = [], ef_effect_name = effect_name, ef_metadata = metadata\<rparr>"

text \<open>\<open>clip.effects.retain(|e| e.effect_name != name)\<close>, then \<open>push\<close>.\<close>

definition replace_effect :: "string \<Rightarrow> json_map \<Rightarrow> clip \<Rightarrow> clip" where
  "replace_effect name metadata c =
     c\<lparr>clip_effects := filter (\<lambda>e. ef_effect_name e \<noteq> name) (clip_effects c) @ [effect_new name metadata]\<rparr>"

definition volume_effect :: string where "volume_effect = ''montage.volume''"
definition audio_fade_effect :: string where "audio_fade_effect = ''montage.audio_fade''"
definition speed_effect :: string where "speed_effect = ''montage.speed''"
definition audio_fx_effect :: string where "audio_fx_effect = ''montage.audio_fx''"
definition sync_group_effect :: string where "sync_group_effect = ''montage.sync_group''"
definition audio_track_key :: string where "audio_track_key = ''montage_audio''"

section \<open>Levels and fades\<close>

definition apply_set_volume :: "nat \<Rightarrow> f64 \<Rightarrow> clip_locator option \<Rightarrow> timeline \<Rightarrow> edited" where
  "apply_set_volume index v loc tml =
     (if \<not> is_finite v \<or> flt v (Fin 0)
      then invalid index (Fmt ''set_volume: value {} must be finite and >= 0.0'' [A_f64 v])
      else edit_clip index ''set_volume'' (\<lambda>c.
        Inr (Fmt ''set volume on clip {:?} to {:.3} (linear gain)'' [A_dbg (clip_name c), A_secs v],
             replace_effect volume_effect (bt_of_list [(''value'', json_f64 v)]) c)) loc tml)"

definition apply_set_audio_fade ::
  "nat \<Rightarrow> f64 option \<Rightarrow> f64 option \<Rightarrow> clip_locator option \<Rightarrow> timeline \<Rightarrow> edited" where
  "apply_set_audio_fade index fade_in_s fade_out_s loc tml =
     (let fade_in = unwrap_or (Fin 0) fade_in_s; fade_out = unwrap_or (Fin 0) fade_out_s
      in if \<not> is_finite fade_in \<or> \<not> is_finite fade_out \<or> flt fade_in (Fin 0) \<or> flt fade_out (Fin 0)
         then invalid index
           (Fmt ''set_audio_fade: fade_in_s {} and fade_out_s {} must be finite and >= 0.0''
             [A_f64 fade_in, A_f64 fade_out])
         else edit_clip index ''set_audio_fade'' (\<lambda>c.
           Inr (Fmt ''set audio fade on clip {:?}: in={:.3}s out={:.3}s''
                  [A_dbg (clip_name c), A_secs fade_in, A_secs fade_out],
                replace_effect audio_fade_effect
                  (bt_of_list [(''fade_in_s'', json_f64 fade_in), (''fade_out_s'', json_f64 fade_out)]) c))
           loc tml)"

definition apply_set_speed :: "nat \<Rightarrow> f64 \<Rightarrow> clip_locator option \<Rightarrow> timeline \<Rightarrow> edited" where
  "apply_set_speed index factor loc tml =
     (if \<not> is_finite factor \<or> fle factor (Fin 0)
      then invalid index (Fmt ''set_speed: factor {} must be finite and > 0.0'' [A_f64 factor])
      else edit_clip index ''set_speed'' (\<lambda>c.
        Inr (Fmt (''set speed on clip {:?} to {:.3}'' @ [CHR 0xC3, CHR 0x97]
                @ '' (timeline duration scales by 1/factor)'')
               [A_dbg (clip_name c), A_secs factor],
             replace_effect speed_effect (bt_of_list [(''factor'', json_f64 factor)]) c)) loc tml)"

section \<open>Muted clips and removed spans\<close>

definition clip_montage_or_default :: "clip \<Rightarrow> montage_clip_metadata" where
  "clip_montage_or_default c = unwrap_or montage_clip_metadata_default (cm_montage (clip_metadata c))"

definition with_clip_montage :: "montage_clip_metadata \<Rightarrow> clip \<Rightarrow> clip" where
  "with_clip_montage m c = c\<lparr>clip_metadata := (clip_metadata c)\<lparr>cm_montage := Some m\<rparr>\<rparr>"

definition override_default :: clip_audio_override where
  "override_default = \<lparr>cao_muted = False, cao_removed_ranges = []\<rparr>"

definition apply_mute_clip :: "nat \<Rightarrow> bool \<Rightarrow> clip_locator option \<Rightarrow> timeline \<Rightarrow> edited" where
  "apply_mute_clip index muted loc tml =
     edit_clip index ''mute_clip'' (\<lambda>c.
       let m = clip_montage_or_default c;
           overlay = (unwrap_or override_default (mcm_audio_override m))\<lparr>cao_muted := muted\<rparr>;
           kept = (if \<not> cao_muted overlay \<and> cao_removed_ranges overlay = [] then None else Some overlay)
       in Inr (Fmt ''{} audio on clip {:?} (picture kept)''
                 [A_str (if muted then ''muted'' else ''unmuted''), A_dbg (clip_name c)],
               with_clip_montage (m\<lparr>mcm_audio_override := kept\<rparr>) c)) loc tml"

definition apply_remove_audio ::
  "nat \<Rightarrow> f64 option \<Rightarrow> f64 option \<Rightarrow> bool \<Rightarrow> clip_locator option \<Rightarrow> timeline \<Rightarrow> edited" where
  "apply_remove_audio index start_s end_s clear loc tml =
     edit_clip index ''remove_audio'' (\<lambda>c.
       let m = clip_montage_or_default c
       in if clear
          then Inr (Fmt ''cleared audio removals on clip {:?}'' [A_dbg (clip_name c)],
            with_clip_montage (m\<lparr>mcm_audio_override :=
              Option.bind (mcm_audio_override m) (\<lambda>overlay.
                if cao_muted overlay then Some (overlay\<lparr>cao_removed_ranges := []\<rparr>) else None)\<rparr>) c)
          else (case (start_s, end_s) of
              (Some a, Some b) \<Rightarrow>
                if \<not> is_finite a \<or> \<not> is_finite b \<or> flt a (Fin 0) \<or> fle b a
                then invalid index (Fmt ''remove_audio: need finite 0 <= start_s < end_s (got {}..{})''
                       [A_f64 a, A_f64 b])
                else
                  let overlay = unwrap_or override_default (mcm_audio_override m)
                  in Inr (Fmt ''removed audio {:.3}..{:.3}s on clip {:?} (picture kept)''
                            [A_secs a, A_secs b, A_dbg (clip_name c)],
                          with_clip_montage (m\<lparr>mcm_audio_override := Some (overlay\<lparr>cao_removed_ranges :=
                            cao_removed_ranges overlay @ [\<lparr>ar_start_s = a, ar_end_s = b\<rparr>]\<rparr>)\<rparr>) c)
            | _ \<Rightarrow> invalid index
                (msg ''remove_audio: start_s and end_s are required unless clear:true''))) loc tml"

section \<open>J-cuts and L-cuts\<close>

datatype split_edit_kind = AudioLead | AudioTrail

definition split_edit_default :: split_edit_spec where
  "split_edit_default =
     \<lparr>se_audio_lead_s = None, se_audio_lead_from_clip_id = None, se_audio_trail_s = None,
      se_audio_trail_to_clip_id = None, se_reason = None, se_confidence = None\<rparr>"

definition some_or :: "'a option \<Rightarrow> 'a option \<Rightarrow> 'a option" where
  "some_or x y = (case x of Some a \<Rightarrow> Some a | None \<Rightarrow> y)"

text \<open>The spec stamped on the clip: the offset and the neighbour it was authored against; the other
  side too when the given spec names one.\<close>

fun stamped_sides ::
  "split_edit_kind \<Rightarrow> f64 \<Rightarrow> split_edit_spec option \<Rightarrow> string option \<Rightarrow> string option
    \<Rightarrow> split_edit_spec \<Rightarrow> split_edit_spec" where
  "stamped_sides AudioLead offset_s given from_id to_id spec =
     (let spec1 = spec\<lparr>se_audio_lead_s := Some offset_s, se_audio_lead_from_clip_id := from_id\<rparr>;
          trail = Option.bind given se_audio_trail_s
      in if trail \<noteq> None then spec1\<lparr>se_audio_trail_s := trail, se_audio_trail_to_clip_id := to_id\<rparr>
         else spec1)"
| "stamped_sides AudioTrail offset_s given from_id to_id spec =
     (let spec1 = spec\<lparr>se_audio_trail_s := Some offset_s, se_audio_trail_to_clip_id := to_id\<rparr>;
          lead = Option.bind given se_audio_lead_s
      in if lead \<noteq> None then spec1\<lparr>se_audio_lead_s := lead, se_audio_lead_from_clip_id := from_id\<rparr>
         else spec1)"

definition stamped_split_edit ::
  "split_edit_kind \<Rightarrow> f64 \<Rightarrow> split_edit_spec option \<Rightarrow> string option \<Rightarrow> string option
    \<Rightarrow> split_edit_spec \<Rightarrow> split_edit_spec" where
  "stamped_split_edit kind offset_s given from_id to_id spec =
     (let s = stamped_sides kind offset_s given from_id to_id spec
      in s\<lparr>se_reason := some_or (Option.bind given se_reason) (se_reason s),
           se_confidence := some_or (Option.bind given se_confidence) (se_confidence s)\<rparr>)"

text \<open>The name and the id of the clip come back with the timeline.\<close>

definition stamp_split_edit_on_clip ::
  "nat \<Rightarrow> clip_locator \<Rightarrow> split_edit_kind \<Rightarrow> f64 \<Rightarrow> split_edit_spec option \<Rightarrow> timeline
    \<Rightarrow> (string \<times> string \<times> timeline) edit" where
  "stamp_split_edit_on_clip index locator kind offset_s given tml =
     rbind (track_at index ''split edit: anchor resolved to a non-track stack child'' tml
        (cl_track_index locator)) (\<lambda>track.
     let cs = track_children track; ci = cl_child_index locator;
         from_id = previous_clip_id cs ci; to_id = next_clip_id cs ci
     in rbind (clip_on index ''split edit: anchor resolved to a non-clip track child'' cs ci) (\<lambda>c.
        let m = clip_montage_or_default c;
            spec = stamped_split_edit kind offset_s given from_id to_id
                     (unwrap_or split_edit_default (mcm_split_edit m));
            c' = with_clip_montage (m\<lparr>mcm_split_edit := Some spec\<rparr>) c
        in Inr (clip_name c, clip_id c,
                with_track_children (cl_track_index locator) (cs[ci := TC_Clip c']) tml)))"

definition neighboring_boundary_ids ::
  "timeline \<Rightarrow> clip_locator \<Rightarrow> string \<Rightarrow> split_edit_kind \<Rightarrow> (string \<times> string) option" where
  "neighboring_boundary_ids tml locator cid kind =
     (if cl_track_index locator < length (tl_children tml)
      then (case tl_children tml ! cl_track_index locator of
          SC_Track t \<Rightarrow>
            (case kind of
               AudioLead \<Rightarrow> map_option (\<lambda>prev. (prev, cid))
                 (previous_clip_id (track_children t) (cl_child_index locator))
             | AudioTrail \<Rightarrow> map_option (\<lambda>nxt. (cid, nxt))
                 (next_clip_id (track_children t) (cl_child_index locator)))
        | _ \<Rightarrow> None)
      else None)"

text \<open>\<open>{:.3}\<close> of a finite number: the nearest number of thousandths, ties to even.\<close>

definition fixed3 :: "f64 \<Rightarrow> string" where
  "fixed3 x =
     (let n = nat (round_half_even (\<bar>fval x\<bar> * 1000)); frac = dec_of_nat (n mod 1000)
      in (if fsign x then ''-'' else []) @ dec_of_nat (n div 1000) @ ''.''
         @ replicate (3 - length frac) (CHR ''0'') @ frac)"

definition split_edit_cut_spec :: "split_edit_kind \<Rightarrow> f64 \<Rightarrow> split_edit_spec option \<Rightarrow> semantic_cut_spec" where
  "split_edit_cut_spec kind offset_s given =
     \<lparr>scs_cut_type = (case kind of AudioLead \<Rightarrow> JCut | AudioTrail \<Rightarrow> LCut),
      scs_intent = (case kind of AudioLead \<Rightarrow> ''audio_lead'' | AudioTrail \<Rightarrow> ''audio_trail''),
      scs_energy = None,
      scs_audio_relation = (case kind of AudioLead \<Rightarrow> AudioLeads | AudioTrail \<Rightarrow> AudioTrails),
      scs_confidence = Option.bind given se_confidence,
      scs_reason = some_or (Option.bind given se_reason)
        (Some ((case kind of AudioLead \<Rightarrow> ''Incoming audio leads picture by ''
                | AudioTrail \<Rightarrow> ''Outgoing audio trails picture by '') @ fixed3 offset_s @ ''s'')),
      scs_extra = []\<rparr>"

definition stamp_split_edit_cut_boundary ::
  "clip_locator \<Rightarrow> string \<Rightarrow> split_edit_kind \<Rightarrow> f64 \<Rightarrow> split_edit_spec option \<Rightarrow> timeline \<Rightarrow> timeline" where
  "stamp_split_edit_cut_boundary locator cid kind offset_s given tml =
     (case neighboring_boundary_ids tml locator cid kind of
        None \<Rightarrow> tml
      | Some (from_id, to_id) \<Rightarrow>
          insert_cut_boundary (cut_boundary_key from_id to_id)
            (split_edit_cut_spec kind offset_s given) tml)"

definition outside_unit :: "f64 option \<Rightarrow> bool" where
  "outside_unit x =
     (case x of None \<Rightarrow> False
      | Some v \<Rightarrow> \<not> is_finite v \<or> \<not> (fle (Fin 0) v \<and> fle v (Fin 1)))"

definition apply_split_edit_offset ::
  "nat \<Rightarrow> f64 \<Rightarrow> split_edit_kind \<Rightarrow> split_edit_spec option \<Rightarrow> clip_locator option \<Rightarrow> timeline \<Rightarrow> edited" where
  "apply_split_edit_offset index offset_s kind given loc tml =
     (if \<not> is_finite offset_s \<or> flt offset_s (Fin 0)
      then invalid index (Fmt ''split edit offset {} must be finite and >= 0.0'' [A_f64 offset_s])
      else if outside_unit (Option.bind given se_confidence)
      then invalid index (Fmt ''split edit confidence {} must be in [0, 1]''
             [A_f64 (the (Option.bind given se_confidence))])
      else rbind (required_locator index loc) (\<lambda>locator.
        rbind (stamp_split_edit_on_clip index locator kind offset_s given tml) (\<lambda>(name, cid, tml1).
        Inr (Fmt ''set {} on clip {:?}: {:.3}s''
               [A_str (case kind of AudioLead \<Rightarrow> ''audio lead'' | AudioTrail \<Rightarrow> ''audio trail''),
                A_dbg name, A_secs offset_s],
             stamp_split_edit_cut_boundary locator cid kind offset_s given tml1))))"

section \<open>Audio tracks\<close>

fun track_with_metadata :: "json_map \<Rightarrow> track \<Rightarrow> track" where
  "track_with_metadata m (Track n k cs sr _) = Track n k cs sr m"

text \<open>The frame of the edits of an audio track: its control object, created when missing, is
  rewritten and put back.\<close>

definition edit_audio_track ::
  "nat \<Rightarrow> string \<Rightarrow> (json_map \<Rightarrow> json_map) \<Rightarrow> message \<Rightarrow> string \<Rightarrow> timeline \<Rightarrow> edited" where
  "edit_audio_track index label f note name tml =
     (case find_track tml name of
        None \<Rightarrow> invalid index (Fmt (label @ '': track {:?} not found'') [A_dbg name])
      | Some (ti, track) \<Rightarrow>
          if track_kind track \<noteq> Audio
          then invalid index (Fmt (label @ '': track {:?} is not an audio track'') [A_dbg name])
          else (case unwrap_or (JObj []) (bt_get (track_metadata track) audio_track_key) of
              JObj m \<Rightarrow>
                Inr (note, with_tl_children ((tl_children tml)[ti :=
                  SC_Track (track_with_metadata
                    (bt_insert audio_track_key (JObj (f m)) (track_metadata track)) track)]) tml)
            | _ \<Rightarrow> invalid index (Fmt (label @ '': existing {} metadata is not an object'')
                    [A_str audio_track_key])))"

definition insert_opt :: "string \<Rightarrow> json option \<Rightarrow> json_map \<Rightarrow> json_map" where
  "insert_opt k x m = (case x of None \<Rightarrow> m | Some v \<Rightarrow> bt_insert k v m)"

definition apply_set_track_audio ::
  "nat \<Rightarrow> string \<Rightarrow> string option \<Rightarrow> f64 option \<Rightarrow> bool option \<Rightarrow> bool option \<Rightarrow> timeline \<Rightarrow> edited" where
  "apply_set_track_audio index name role volume muted solo tml =
     (case volume of
        Some v \<Rightarrow>
          if \<not> is_finite v \<or> flt v (Fin 0)
          then invalid index (Fmt ''set_track_audio: volume {} must be finite and >= 0.0'' [A_f64 v])
          else edit_audio_track index ''set_track_audio''
            (\<lambda>m. insert_opt ''solo'' (map_option JBool solo) (insert_opt ''muted'' (map_option JBool muted)
               (bt_insert ''volume'' (json_f64 v) (insert_opt ''role'' (map_option JStr role) m))))
            (Fmt ''set audio controls on track {:?}'' [A_dbg name]) name tml
      | None \<Rightarrow> edit_audio_track index ''set_track_audio''
            (\<lambda>m. insert_opt ''solo'' (map_option JBool solo) (insert_opt ''muted'' (map_option JBool muted)
               (insert_opt ''role'' (map_option JStr role) m)))
            (Fmt ''set audio controls on track {:?}'' [A_dbg name]) name tml)"

definition apply_set_ducking ::
  "nat \<Rightarrow> string \<Rightarrow> bool option \<Rightarrow> f64 option \<Rightarrow> f64 option \<Rightarrow> f64 option \<Rightarrow> timeline \<Rightarrow> edited" where
  "apply_set_ducking index name enabled0 amount0 attack0 release0 tml =
     (let enabled = unwrap_or True enabled0; amount_db = unwrap_or (Fin (- 12)) amount0;
          attack_ms = unwrap_or (Fin 80) attack0; release_ms = unwrap_or (Fin 300) release0
      in if \<not> is_finite amount_db \<or> \<not> is_finite attack_ms \<or> \<not> is_finite release_ms
            \<or> flt attack_ms (Fin 0) \<or> flt release_ms (Fin 0)
         then invalid index (msg
           ''set_ducking: amount_db, attack_ms, and release_ms must be finite; timings must be >= 0.0'')
         else edit_audio_track index ''set_ducking''
           (bt_insert ''ducking'' (json_object [(''enabled'', JBool enabled),
              (''amount_db'', json_f64 amount_db), (''attack_ms'', json_f64 attack_ms),
              (''release_ms'', json_f64 release_ms)]))
           (Fmt ''set ducking on track {:?}: enabled={} amount={:.1}dB''
             [A_dbg name, A_str (if enabled then ''true'' else ''false''), A_f64 amount_db]) name tml)"

section \<open>Audio effects\<close>

record eq_band =
  eb_freq_hz :: f64
  eb_gain_db :: f64
  eb_width_hz :: "f64 option"

record audio_fx_config =
  fx_high_pass_hz :: "f64 option"
  fx_low_pass_hz :: "f64 option"
  fx_pan :: "f64 option"
  fx_balance :: "f64 option"
  fx_adeclick :: "bool option"
  fx_adeclip :: "bool option"
  fx_arnndn_model :: "string option"
  fx_eq_bands :: "eq_band list"
  fx_compressor_threshold_db :: "f64 option"
  fx_compressor_ratio :: "f64 option"
  fx_limiter_limit_db :: "f64 option"
  fx_noise_gate_threshold_db :: "f64 option"
  fx_hum_notch_hz :: "f64 option"
  fx_de_ess_hz :: "f64 option"
  fx_de_ess_reduction_db :: "f64 option"
  fx_loudnorm_i :: "f64 option"
  fx_loudnorm_tp :: "f64 option"

text \<open>The numbers the validation looks at, in its order; pan and balance are not among them.\<close>

definition checked_fx_numbers :: "audio_fx_config \<Rightarrow> (string \<times> f64 option) list" where
  "checked_fx_numbers fx =
     [(''high_pass_hz'', fx_high_pass_hz fx), (''low_pass_hz'', fx_low_pass_hz fx),
      (''compressor_threshold_db'', fx_compressor_threshold_db fx),
      (''compressor_ratio'', fx_compressor_ratio fx), (''limiter_limit_db'', fx_limiter_limit_db fx),
      (''noise_gate_threshold_db'', fx_noise_gate_threshold_db fx),
      (''hum_notch_hz'', fx_hum_notch_hz fx), (''de_ess_hz'', fx_de_ess_hz fx),
      (''de_ess_reduction_db'', fx_de_ess_reduction_db fx), (''loudnorm_i'', fx_loudnorm_i fx),
      (''loudnorm_tp'', fx_loudnorm_tp fx)]"

definition audio_fx_is_empty :: "audio_fx_config \<Rightarrow> bool" where
  "audio_fx_is_empty fx \<longleftrightarrow>
     list_all (\<lambda>(n, x). x = None) (checked_fx_numbers fx) \<and> fx_pan fx = None \<and> fx_balance fx = None
     \<and> fx_adeclick fx = None \<and> fx_adeclip fx = None \<and> fx_arnndn_model fx = None \<and> fx_eq_bands fx = []"

definition not_finite_opt :: "f64 option \<Rightarrow> bool" where
  "not_finite_opt x = (case x of None \<Rightarrow> False | Some v \<Rightarrow> \<not> is_finite v)"

definition validate_audio_fx :: "nat \<Rightarrow> string \<Rightarrow> audio_fx_config \<Rightarrow> unit edit" where
  "validate_audio_fx index label fx =
     (if audio_fx_is_empty fx
      then invalid index (msg (label @ '': at least one audio FX parameter is required''))
      else (case List.find (\<lambda>(n, x). not_finite_opt x) (checked_fx_numbers fx) of
          Some (n, _) \<Rightarrow> invalid index (Fmt (label @ '': {} must be finite'') [A_str n])
        | None \<Rightarrow>
            if list_ex (\<lambda>b. \<not> is_finite (eb_freq_hz b) \<or> \<not> is_finite (eb_gain_db b)
                  \<or> not_finite_opt (eb_width_hz b)) (fx_eq_bands fx)
            then invalid index (msg (label @ '': EQ band values must be finite''))
            else Inr ()))"

definition eq_band_json :: "eq_band \<Rightarrow> json" where
  "eq_band_json b =
     json_object ([(''freq_hz'', json_f64 (eb_freq_hz b)), (''gain_db'', json_f64 (eb_gain_db b))]
       @ opt_field ''width_hz'' json_f64 (eb_width_hz b))"

text \<open>The derived \<open>Serialize\<close>: absent parameters and an empty list of bands are left out.\<close>

definition audio_fx_metadata :: "audio_fx_config \<Rightarrow> json_map" where
  "audio_fx_metadata fx =
     bt_of_list (concat (map (\<lambda>(n, x). opt_field n json_f64 x) (checked_fx_numbers fx))
       @ opt_field ''pan'' json_f64 (fx_pan fx) @ opt_field ''balance'' json_f64 (fx_balance fx)
       @ opt_field ''adeclick'' JBool (fx_adeclick fx) @ opt_field ''adeclip'' JBool (fx_adeclip fx)
       @ opt_field ''arnndn_model'' JStr (fx_arnndn_model fx)
       @ (if fx_eq_bands fx = [] then []
          else [(''eq_bands'', JArr (map eq_band_json (fx_eq_bands fx)))]))"

definition apply_set_clip_audio_fx ::
  "nat \<Rightarrow> audio_fx_config \<Rightarrow> clip_locator option \<Rightarrow> timeline \<Rightarrow> edited" where
  "apply_set_clip_audio_fx index fx loc tml =
     rbind (validate_audio_fx index ''set_clip_audio_fx'' fx) (\<lambda>_.
     edit_clip index ''set_clip_audio_fx'' (\<lambda>c.
       Inr (Fmt ''set audio FX on clip {:?}'' [A_dbg (clip_name c)],
            replace_effect audio_fx_effect (audio_fx_metadata fx) c)) loc tml)"

definition apply_set_track_audio_fx ::
  "nat \<Rightarrow> string \<Rightarrow> audio_fx_config \<Rightarrow> timeline \<Rightarrow> edited" where
  "apply_set_track_audio_fx index name fx tml =
     rbind (validate_audio_fx index ''set_track_audio_fx'' fx) (\<lambda>_.
     edit_audio_track index ''set_track_audio_fx'' (bt_insert ''fx'' (JObj (audio_fx_metadata fx)))
       (Fmt ''set audio FX on track {:?}'' [A_dbg name]) name tml)"

section \<open>Sync groups\<close>

definition sync_group_metadata :: "string \<Rightarrow> f64 \<Rightarrow> f64 option \<Rightarrow> f64 option \<Rightarrow> json_map" where
  "sync_group_metadata sync_group_id offset_s speed_factor confidence =
     bt_of_list ([(''sync_group_id'', JStr sync_group_id), (''offset_s'', json_f64 offset_s)]
       @ opt_field ''speed_factor'' json_f64 speed_factor @ opt_field ''confidence'' json_f64 confidence)"

text \<open>A factor that differs from one retimes the clip.\<close>

definition synced_clip :: "string \<Rightarrow> f64 \<Rightarrow> f64 option \<Rightarrow> f64 option \<Rightarrow> clip \<Rightarrow> clip" where
  "synced_clip sync_group_id offset_s speed_factor confidence c =
     (let c1 = c\<lparr>clip_effects := filter (\<lambda>e. ef_effect_name e \<noteq> sync_group_effect) (clip_effects c)\<rparr>;
          c2 = (case speed_factor of
                  Some f \<Rightarrow>
                    if flt (f64_lit (1 / 10 ^ 9)) (fabs (fsub f (Fin 1)))
                    then replace_effect speed_effect (bt_of_list [(''factor'', json_f64 f)]) c1 else c1
                | None \<Rightarrow> c1)
      in c2\<lparr>clip_effects := clip_effects c2 @
           [effect_new sync_group_effect (sync_group_metadata sync_group_id offset_s speed_factor confidence)]\<rparr>)"

definition apply_set_sync_group ::
  "nat \<Rightarrow> string \<Rightarrow> f64 \<Rightarrow> f64 option \<Rightarrow> f64 option \<Rightarrow> clip_locator option \<Rightarrow> timeline \<Rightarrow> edited" where
  "apply_set_sync_group index sync_group_id offset_s speed_factor confidence loc tml =
     (if trim sync_group_id = []
      then invalid index (msg ''set_sync_group: sync_group_id must not be empty'')
      else if \<not> is_finite offset_s
      then invalid index (Fmt ''set_sync_group: offset_s {} must be finite'' [A_f64 offset_s])
      else if (case speed_factor of None \<Rightarrow> False | Some f \<Rightarrow> \<not> is_finite f \<or> fle f (Fin 0))
      then invalid index (Fmt ''set_sync_group: speed_factor {} must be finite and > 0.0''
             [A_f64 (the speed_factor)])
      else if outside_unit confidence
      then invalid index (Fmt ''set_sync_group: confidence {} must be in [0, 1]'' [A_f64 (the confidence)])
      else rbind (required_locator index loc) (\<lambda>locator.
        rbind (track_at index ''set_sync_group: anchor resolved to a non-track stack child'' tml
          (cl_track_index locator)) (\<lambda>track.
        let cs = track_children track; ci = cl_child_index locator
        in rbind (clip_on index ''set_sync_group: anchor resolved to a non-clip track child'' cs ci) (\<lambda>c.
           let cs1 = cs[ci := TC_Clip (synced_clip sync_group_id offset_s speed_factor confidence c)];
               aligned_to_s = fmax offset_s (Fin 0)
           in rbind (if flt (Fin 0) aligned_to_s
                     then rbind (apply_move_clip_to_time index (track_with_children cs1 track) ci aligned_to_s)
                            (\<lambda>(_, cs2). Inr cs2)
                     else Inr cs1) (\<lambda>cs2.
              Inr (Fmt ''set sync group {:?} on clip {:?}: offset={:.3}s{}{}''
                     [A_dbg sync_group_id, A_dbg (clip_name c), A_secs offset_s,
                      A_msgs (case speed_factor of None \<Rightarrow> [] | Some v \<Rightarrow> [Fmt '' speed_factor={:.6}'' [A_f64 v]]),
                      A_msgs (case confidence of None \<Rightarrow> [] | Some v \<Rightarrow> [Fmt '' confidence={:.2}'' [A_f64 v]])],
                   with_track_children (cl_track_index locator) cs2 tml))))))"

end
