(* ===== verification/Edl_Apply.thy ===== *)
theory Edl_Apply
  imports Edl_Audio
begin

text \<open>
  \<open>apply\<close> of \<open>crates/core/src/edl/apply.rs\<close>: an envelope of operations is applied one after
  the other to a clone of the timeline; the anchor of each operation is resolved against the
  timeline the operations before it left; after each one the records of cuts that no longer exist
  are pruned; at the end the timeline is checked. The operations are the structural edits and the
  sound edits modelled here, a part of \<open>EdlOp\<close>.
\<close>

section \<open>Operations\<close>

datatype edl_op =
    TrimClip anchor "f64 option" "f64 option"
  | DeleteClip anchor
  | SplitClip anchor f64 "snap_options option"
  | UntrimClip anchor "f64 option" "f64 option"
  | InsertClip insert_clip_args
  | MoveClip anchor nat "f64 option" "snap_options option"
  | RippleMove anchor f64 "snap_options option"
  | RippleDelete anchor
  | RippleTrim anchor ripple_trim_edge f64
  | DeleteGap anchor gap_side
  | TrimTrackTail string
  | InsertTrack string insert_track_kind "nat option"
  | DeleteTrack string bool
  | DeleteTransition anchor anchor
  | SetCutIntent anchor anchor semantic_cut_spec
  | ProTimelineEdit pro_edit
  | ApplyMulticamPlan multicam_plan
  | SetVolume anchor f64
  | MuteClip anchor bool
  | RemoveAudio anchor "f64 option" "f64 option" bool
  | SetAudioFade anchor "f64 option" "f64 option"
  | SetAudioLead anchor f64 "split_edit_spec option"
  | SetAudioTrail anchor f64 "split_edit_spec option"
  | SetTrackAudio string "string option" "f64 option" "bool option" "bool option"
  | SetDucking string "bool option" "f64 option" "f64 option" "f64 option"
  | SetSyncGroup anchor string f64 "f64 option" "f64 option"
  | SetClipAudioFx anchor audio_fx_config
  | SetTrackAudioFx string audio_fx_config
  | SetSpeed anchor f64

text \<open>The anchor that is resolved before the operation runs.\<close>

fun op_anchor :: "edl_op \<Rightarrow> anchor option" where
  "op_anchor (TrimClip a _ _) = Some a"
| "op_anchor (DeleteClip a) = Some a"
| "op_anchor (SplitClip a _ _) = Some a"
| "op_anchor (UntrimClip a _ _) = Some a"
| "op_anchor (MoveClip a _ _ _) = Some a"
| "op_anchor (RippleMove a _ _) = Some a"
| "op_anchor (RippleDelete a) = Some a"
| "op_anchor (RippleTrim a _ _) = Some a"
| "op_anchor (DeleteGap a _) = Some a"
| "op_anchor (ProTimelineEdit (PE_RippleTrim a _ _)) = Some a"
| "op_anchor (ProTimelineEdit (PE_SlipClip a _)) = Some a"
| "op_anchor (ProTimelineEdit (PE_SlideClip a _)) = Some a"
| "op_anchor (ProTimelineEdit (PE_ReplaceClip a _ _)) = Some a"
| "op_anchor (SetVolume a _) = Some a"
| "op_anchor (MuteClip a _) = Some a"
| "op_anchor (RemoveAudio a _ _ _) = Some a"
| "op_anchor (SetAudioFade a _ _) = Some a"
| "op_anchor (SetAudioLead a _ _) = Some a"
| "op_anchor (SetAudioTrail a _ _) = Some a"
| "op_anchor (SetSyncGroup a _ _ _ _) = Some a"
| "op_anchor (SetClipAudioFx a _) = Some a"
| "op_anchor (SetSpeed a _) = Some a"
| "op_anchor _ = None"

text \<open>The second name of the right half of a split: \<open>{left}-b\<close>, within one envelope.\<close>

type_synonym split_aliases = "(string, string) btree_map"

definition resolve_locator_for_op ::
  "timeline \<Rightarrow> nat \<Rightarrow> edl_op \<Rightarrow> anchor_context \<Rightarrow> split_aliases \<Rightarrow> clip_locator option edit" where
  "resolve_locator_for_op tml index eop ctx aliases =
     (case op_anchor eop of
        None \<Rightarrow> Inr None
      | Some a \<Rightarrow>
          let aliased = (case a of
                ClipUuid uuid \<Rightarrow> (case bt_get aliases uuid of Some u \<Rightarrow> ClipUuid u | None \<Rightarrow> a)
              | _ \<Rightarrow> a)
          in rbind (resolve_for index tml ctx aliased) (\<lambda>l. Inr (Some l)))"

fun apply_one ::
  "(nat \<Rightarrow> nat) \<Rightarrow> anchor_context \<Rightarrow> nat \<Rightarrow> edl_op \<Rightarrow> clip_locator option \<Rightarrow> timeline \<Rightarrow> nat
    \<Rightarrow> (message \<times> timeline \<times> nat) edit" where
  "apply_one clock ctx index (TrimClip a s e) loc tml seq = lift_edit seq (apply_trim index s e loc tml)"
| "apply_one clock ctx index (DeleteClip a) loc tml seq = lift_edit seq (apply_delete index loc tml)"
| "apply_one clock ctx index (SplitClip a at_s snap) loc tml seq =
     apply_split clock index at_s snap loc tml seq"
| "apply_one clock ctx index (UntrimClip a s e) loc tml seq =
     lift_edit seq (apply_untrim index s e loc tml)"
| "apply_one clock ctx index (InsertClip args) loc tml seq = apply_insert_clip clock index args tml seq"
| "apply_one clock ctx index (MoveClip a pos at_s snap) loc tml seq =
     lift_edit seq (apply_move_clip index pos at_s snap loc tml)"
| "apply_one clock ctx index (RippleMove a d snap) loc tml seq =
     lift_edit seq (apply_ripple_move index d snap loc tml)"
| "apply_one clock ctx index (RippleDelete a) loc tml seq =
     lift_edit seq (apply_ripple_delete index loc tml)"
| "apply_one clock ctx index (RippleTrim a edge v) loc tml seq =
     lift_edit seq (apply_ripple_trim index edge v loc tml)"
| "apply_one clock ctx index (DeleteGap a side) loc tml seq =
     lift_edit seq (apply_delete_gap index side loc tml)"
| "apply_one clock ctx index (TrimTrackTail t) loc tml seq =
     lift_edit seq (apply_trim_track_tail index t tml)"
| "apply_one clock ctx index (InsertTrack n k p) loc tml seq =
     lift_edit seq (apply_insert_track index n k p tml)"
| "apply_one clock ctx index (DeleteTrack n force) loc tml seq =
     lift_edit seq (apply_delete_track index n force tml)"
| "apply_one clock ctx index (DeleteTransition f t) loc tml seq =
     lift_edit seq (apply_delete_transition index f t ctx tml)"
| "apply_one clock ctx index (SetCutIntent f t spec) loc tml seq =
     lift_edit seq (apply_set_cut_intent index f t spec ctx tml)"
| "apply_one clock ctx index (ProTimelineEdit edit) loc tml seq =
     apply_professional_timeline_edit clock ctx index edit loc tml seq"
| "apply_one clock ctx index (ApplyMulticamPlan plan) loc tml seq =
     apply_multicam_plan clock index plan tml seq"
| "apply_one clock ctx index (SetVolume a v) loc tml seq = lift_edit seq (apply_set_volume index v loc tml)"
| "apply_one clock ctx index (MuteClip a b) loc tml seq = lift_edit seq (apply_mute_clip index b loc tml)"
| "apply_one clock ctx index (RemoveAudio a s e clear) loc tml seq =
     lift_edit seq (apply_remove_audio index s e clear loc tml)"
| "apply_one clock ctx index (SetAudioFade a i o') loc tml seq =
     lift_edit seq (apply_set_audio_fade index i o' loc tml)"
| "apply_one clock ctx index (SetAudioLead a s given) loc tml seq =
     lift_edit seq (apply_split_edit_offset index s AudioLead given loc tml)"
| "apply_one clock ctx index (SetAudioTrail a s given) loc tml seq =
     lift_edit seq (apply_split_edit_offset index s AudioTrail given loc tml)"
| "apply_one clock ctx index (SetTrackAudio n r v m s) loc tml seq =
     lift_edit seq (apply_set_track_audio index n r v m s tml)"
| "apply_one clock ctx index (SetDucking n e d a r) loc tml seq =
     lift_edit seq (apply_set_ducking index n e d a r tml)"
| "apply_one clock ctx index (SetSyncGroup a g off f c) loc tml seq =
     lift_edit seq (apply_set_sync_group index g off f c loc tml)"
| "apply_one clock ctx index (SetClipAudioFx a fx) loc tml seq =
     lift_edit seq (apply_set_clip_audio_fx index fx loc tml)"
| "apply_one clock ctx index (SetTrackAudioFx n fx) loc tml seq =
     lift_edit seq (apply_set_track_audio_fx index n fx tml)"
| "apply_one clock ctx index (SetSpeed a f) loc tml seq = lift_edit seq (apply_set_speed index f loc tml)"

section \<open>What an operation touched\<close>

definition push_unique :: "string \<Rightarrow> string list \<Rightarrow> string list" where
  "push_unique v vs = (if v = [] \<or> v \<in> set vs then vs else vs @ [v])"

definition ids_at_locator :: "timeline \<Rightarrow> clip_locator \<Rightarrow> (string \<times> string) option" where
  "ids_at_locator tml l =
     (case clip_at tml l of
        None \<Rightarrow> None
      | Some c \<Rightarrow>
          (case tl_children tml ! cl_track_index l of
             SC_Track t \<Rightarrow> Some (track_name t, clip_id c) | _ \<Rightarrow> None))"

fun right_of :: "string \<Rightarrow> track_child list \<Rightarrow> string option" where
  "right_of left_id (TC_Clip l # TC_Clip r # cs) =
     (if clip_id l = left_id then Some (clip_id r) else right_of left_id (TC_Clip r # cs))"
| "right_of left_id (c # cs) = right_of left_id cs"
| "right_of left_id [] = None"

definition find_split_right_clip_id :: "timeline \<Rightarrow> string \<Rightarrow> string option" where
  "find_split_right_clip_id tml left_id =
     find_map (\<lambda>sc. right_of left_id (sc_children sc)) (tl_children tml)"

definition clip_media_target :: "clip \<Rightarrow> string option" where
  "clip_media_target c = media_asset_id (clip_media_reference c)"

definition find_inserted_clip_id ::
  "timeline \<Rightarrow> string \<Rightarrow> string \<Rightarrow> string option \<Rightarrow> string option" where
  "find_inserted_clip_id tml name asset given =
     Option.bind (List.find (is_track_named name) (tl_children tml)) (\<lambda>sc.
       find_map (\<lambda>tc. case tc of
           TC_Clip c \<Rightarrow>
             if (case given of None \<Rightarrow> True | Some n \<Rightarrow> clip_name c = n)
                  \<and> clip_media_target c = Some asset
             then Some (clip_id c) else None
         | _ \<Rightarrow> None) (rev (sc_children sc)))"

record applied_op_metadata =
  aom_affected_clip_ids :: "string list"
  aom_affected_track_ids :: "string list"

definition metadata_before_apply ::
  "timeline \<Rightarrow> edl_op \<Rightarrow> clip_locator option \<Rightarrow> applied_op_metadata" where
  "metadata_before_apply tml eop loc =
     (let at_loc = (case Option.bind loc (ids_at_locator tml) of
            None \<Rightarrow> \<lparr>aom_affected_clip_ids = [], aom_affected_track_ids = []\<rparr>
          | Some (t, c) \<Rightarrow> \<lparr>aom_affected_clip_ids = push_unique c [],
                            aom_affected_track_ids = push_unique t []\<rparr>)
      in case eop of
           InsertClip a \<Rightarrow>
             at_loc\<lparr>aom_affected_track_ids :=
               push_unique (ica_track a) (aom_affected_track_ids at_loc)\<rparr>
         | SetTrackAudio n _ _ _ _ \<Rightarrow>
             at_loc\<lparr>aom_affected_track_ids := push_unique n (aom_affected_track_ids at_loc)\<rparr>
         | SetTrackAudioFx n _ \<Rightarrow>
             at_loc\<lparr>aom_affected_track_ids := push_unique n (aom_affected_track_ids at_loc)\<rparr>
         | _ \<Rightarrow> at_loc)"

definition metadata_after_apply ::
  "timeline \<Rightarrow> edl_op \<Rightarrow> applied_op_metadata \<Rightarrow> applied_op_metadata" where
  "metadata_after_apply tml eop m =
     (let push = (\<lambda>found. case found of
            None \<Rightarrow> m
          | Some i \<Rightarrow> m\<lparr>aom_affected_clip_ids := push_unique i (aom_affected_clip_ids m)\<rparr>)
      in case eop of
           InsertClip a \<Rightarrow>
             push (find_inserted_clip_id tml (ica_track a) (ica_asset a) (ica_name a))
         | SplitClip _ _ _ \<Rightarrow>
             (case aom_affected_clip_ids m of
                [] \<Rightarrow> m | left # _ \<Rightarrow> push (find_split_right_clip_id tml left))
         | _ \<Rightarrow> m)"

definition extend_aliases :: "edl_op \<Rightarrow> string list \<Rightarrow> split_aliases \<Rightarrow> split_aliases" where
  "extend_aliases eop ids aliases =
     (case eop of
        SplitClip _ _ _ \<Rightarrow>
          if 2 \<le> length ids then bt_insert (hd ids @ ''-b'') (last ids) aliases else aliases
      | _ \<Rightarrow> aliases)"

section \<open>The final check\<close>

text \<open>
  Every \<open>f64\<close> that JSON must carry: the numbers of the time values and of the removed audio
  ranges. A number that is not finite is written as \<open>null\<close>, which reading back rejects;
  an optional number read back from \<open>null\<close> is merely absent.
\<close>

definition time_floats :: "rational_time \<Rightarrow> f64 list" where
  "time_floats t = [rt_value t, rt_rate t]"

definition range_floats :: "time_range \<Rightarrow> f64 list" where
  "range_floats r = time_floats (tr_start_time r) @ time_floats (tr_duration r)"

definition opt_floats :: "('a \<Rightarrow> f64 list) \<Rightarrow> 'a option \<Rightarrow> f64 list" where
  "opt_floats f x = (case x of None \<Rightarrow> [] | Some y \<Rightarrow> f y)"

fun media_floats :: "media_reference \<Rightarrow> f64 list" where
  "media_floats (MR_External e) = opt_floats range_floats (er_available_range e)"
| "media_floats (MR_Missing m) = opt_floats range_floats (mr_available_range m)"

definition override_floats :: "montage_clip_metadata \<Rightarrow> f64 list" where
  "override_floats m =
     opt_floats (\<lambda>ov. concat (map (\<lambda>a. [ar_start_s a, ar_end_s a]) (cao_removed_ranges ov)))
       (mcm_audio_override m)"

definition clip_floats :: "clip \<Rightarrow> f64 list" where
  "clip_floats c =
     opt_floats range_floats (clip_source_range c) @ media_floats (clip_media_reference c)
     @ concat (map (\<lambda>m. range_floats (mk_marked_range m)) (clip_markers c))
     @ opt_floats override_floats (cm_montage (clip_metadata c))"

fun child_floats :: "track_child \<Rightarrow> f64 list"
  and stack_floats :: "stack \<Rightarrow> f64 list"
  and stack_child_floats :: "stack_child \<Rightarrow> f64 list"
  and track_floats :: "track \<Rightarrow> f64 list" where
  "child_floats (TC_Clip c) = clip_floats c"
| "child_floats (TC_Gap g) = range_floats (gap_source_range g)"
| "child_floats (TC_Transition t) = time_floats (tn_in_offset t) @ time_floats (tn_out_offset t)"
| "child_floats (TC_Stack s) = stack_floats s"
| "stack_floats (Stack n cs sr m) =
     opt_floats range_floats sr @ concat (map stack_child_floats cs)"
| "stack_child_floats (SC_Track t) = track_floats t"
| "stack_child_floats (SC_Stack s) = stack_floats s"
| "stack_child_floats (SC_Clip c) = clip_floats c"
| "stack_child_floats (SC_Gap g) = range_floats (gap_source_range g)"
| "track_floats (Track n k cs sr m) =
     opt_floats range_floats sr @ concat (map child_floats cs)"

definition serde_round_trips :: "timeline \<Rightarrow> bool" where
  "serde_round_trips tml \<longleftrightarrow>
     list_all is_finite (opt_floats time_floats (tl_global_start_time tml) @ stack_floats (tl_tracks tml))"

fun child_warnings :: "track_child \<Rightarrow> string list" where
  "child_warnings (TC_Clip c) =
     (case clip_source_range c of
        None \<Rightarrow> []
      | Some r \<Rightarrow>
          (if flt (rt_value (tr_duration r)) (Fin 0)
           then [clip_name c @ '' has negative duration''] else [])
          @ (if fle (rt_rate (tr_duration r)) (Fin 0) \<or> fle (rt_rate (tr_start_time r)) (Fin 0)
             then [clip_name c @ '' has non-positive time rate''] else []))"
| "child_warnings _ = []"

definition validate_for_test :: "timeline \<Rightarrow> string list + unit" where
  "validate_for_test tml =
     (if \<not> serde_round_trips tml then Inl [''invalid type: null, expected f64'']
      else let warnings = concat (map (\<lambda>sc. concat (map child_warnings (sc_children sc)))
                            (tl_children tml))
           in if warnings = [] then Inr () else Inl warnings)"

section \<open>Apply\<close>

record applied_op =
  ao_index :: nat
  ao_description :: message
  ao_locator :: "clip_locator option"
  ao_metadata :: applied_op_metadata

text \<open>One turn of the loop, and the loop.\<close>

definition apply_step ::
  "(nat \<Rightarrow> nat) \<Rightarrow> anchor_context \<Rightarrow> nat \<Rightarrow> edl_op \<Rightarrow> split_aliases \<Rightarrow> timeline \<Rightarrow> nat
    \<Rightarrow> (applied_op \<times> split_aliases \<times> timeline \<times> nat) edit" where
  "apply_step clock ctx index eop aliases tml seq =
     rbind (resolve_locator_for_op tml index eop ctx aliases) (\<lambda>loc.
     rbind (apply_one clock ctx index eop loc tml seq) (\<lambda>(note, tml1, seq1).
     let m = metadata_after_apply tml1 eop (metadata_before_apply tml eop loc);
         tml2 = prune_stale_split_edits (prune_stale_cut_boundaries tml1)
     in Inr (\<lparr>ao_index = index, ao_description = note, ao_locator = loc, ao_metadata = m\<rparr>,
             extend_aliases eop (aom_affected_clip_ids m) aliases, tml2, seq1)))"

fun apply_ops ::
  "(nat \<Rightarrow> nat) \<Rightarrow> anchor_context \<Rightarrow> nat \<Rightarrow> edl_op list \<Rightarrow> split_aliases \<Rightarrow> timeline \<Rightarrow> nat
    \<Rightarrow> (applied_op list \<times> timeline \<times> nat) edit" where
  "apply_ops clock ctx index [] aliases tml seq = Inr ([], tml, seq)"
| "apply_ops clock ctx index (eop # ops) aliases tml seq =
     rbind (apply_step clock ctx index eop aliases tml seq) (\<lambda>(a, aliases1, tml1, seq1).
     rbind (apply_ops clock ctx (Suc index) ops aliases1 tml1 seq1) (\<lambda>(applied, tml2, seq2).
     Inr (a # applied, tml2, seq2)))"

definition apply_envelope ::
  "(nat \<Rightarrow> nat) \<Rightarrow> anchor_context \<Rightarrow> edl_op list \<Rightarrow> timeline \<Rightarrow> nat
    \<Rightarrow> (applied_op list \<times> timeline \<times> nat) edit" where
  "apply_envelope clock ctx ops original seq =
     rbind (apply_ops clock ctx 0 ops [] original seq) (\<lambda>(applied, tml, seq').
     case validate_for_test tml of
       Inl warnings \<Rightarrow>
         Inl (Err (AE_OtioInvalid (if applied = [] then 0 else ao_index (last applied)) warnings))
     | Inr _ \<Rightarrow> Inr (applied, tml, seq'))"

end
