(* ===== verification/Edl_Progress.thy ===== *)
theory Edl_Progress
  imports Edl_Apply
begin

text \<open>
  No edit indexes a vector out of bounds: what an anchor resolves to is a clip of the timeline it
  was resolved against, linked siblings are looked up before they are visited and keep their place,
  and the search for an unused name ends. So \<open>apply\<close> never panics, for any timeline and any
  envelope.
\<close>

named_theorems panic_intros "how results avoid a panic"

definition panic_free :: "'a edit \<Rightarrow> bool" where
  "panic_free r \<longleftrightarrow> r \<noteq> Inl Panic"

lemma panic_free_results [panic_intros]:
  "panic_free (Inr x)" "panic_free (Inl (Err e))"
  by (simp_all add: panic_free_def)

lemma panic_free_rbind [panic_intros]:
  "panic_free r \<Longrightarrow> (\<And>x. r = Inr x \<Longrightarrow> panic_free (f x)) \<Longrightarrow> panic_free (rbind r f)"
  by (auto simp: panic_free_def rbind_def split: sum.splits)

lemma panic_free_if [panic_intros]:
  "(b \<Longrightarrow> panic_free r) \<Longrightarrow> (\<not> b \<Longrightarrow> panic_free q) \<Longrightarrow> panic_free (if b then r else q)"
  by simp

lemma panic_free_cases [panic_intros]:
  "(o' = None \<Longrightarrow> panic_free r) \<Longrightarrow> (\<And>x. o' = Some x \<Longrightarrow> panic_free (f x)) \<Longrightarrow>
     panic_free (case o' of None \<Rightarrow> r | Some x \<Rightarrow> f x)"
  "(\<And>a b. pr = (a, b) \<Longrightarrow> panic_free (h a b)) \<Longrightarrow> panic_free (case pr of (a, b) \<Rightarrow> h a b)"
  "(\<And>a b. pr = (a, b) \<Longrightarrow> panic_free (k a b y)) \<Longrightarrow> panic_free ((case pr of (a, b) \<Rightarrow> k a b) y)"
  "(\<And>c. tc = TC_Clip c \<Longrightarrow> panic_free (f1 c)) \<Longrightarrow> (\<And>g. panic_free (f2 g)) \<Longrightarrow>
     (\<And>t. panic_free (f3 t)) \<Longrightarrow> (\<And>s. panic_free (f4 s)) \<Longrightarrow>
     panic_free (case tc of TC_Clip c \<Rightarrow> f1 c | TC_Gap g \<Rightarrow> f2 g | TC_Transition t \<Rightarrow> f3 t | TC_Stack s \<Rightarrow> f4 s)"
  by (simp_all split: option.splits prod.splits track_child.splits)

section \<open>Shapes\<close>

text \<open>Same tracks, none of them shorter.\<close>

definition keeps_size :: "timeline \<Rightarrow> timeline \<Rightarrow> bool" where
  "keeps_size tml tml' \<longleftrightarrow>
     length (tl_children tml') = length (tl_children tml)
     \<and> (\<forall>ti < length (tl_children tml).
          length (sc_children (tl_children tml ! ti)) \<le> length (sc_children (tl_children tml' ! ti)))"

definition in_bounds :: "timeline \<Rightarrow> clip_locator \<Rightarrow> bool" where
  "in_bounds tml l \<longleftrightarrow>
     cl_track_index l < length (tl_children tml)
     \<and> cl_child_index l < length (sc_children (tl_children tml ! cl_track_index l))"

lemma keeps_size_refl [simp]: "keeps_size t t"
  by (simp add: keeps_size_def)

lemma keeps_size_in_bounds: "keeps_size t t' \<Longrightarrow> in_bounds t l \<Longrightarrow> in_bounds t' l"
  unfolding keeps_size_def in_bounds_def by (metis order_less_le_trans)

lemma length_with_track [simp]:
  "length (tl_children (with_track_children ti cs t)) = length (tl_children t)"
  by (simp add: with_track_children_def)

lemma tl_children_with_track:
  "tl_children (with_track_children ti cs t) =
     (tl_children t)[ti := sc_with_children cs (tl_children t ! ti)]"
  by (simp add: with_track_children_def)

lemma nth_with_track [simp]:
  "ti < length (tl_children t) \<Longrightarrow> tl_children t ! ti = SC_Track tr \<Longrightarrow>
     tl_children (with_track_children ti cs t) ! tj =
       (if tj = ti then SC_Track (track_with_children cs tr) else tl_children t ! tj)"
  by (auto simp: tl_children_with_track nth_list_update)

lemma track_children_with [simp]: "track_children (track_with_children cs tr) = cs"
  by (cases tr) simp

lemma keeps_size_with_track:
  "tl_children t ! ti = SC_Track tr \<Longrightarrow> length (track_children tr) \<le> length cs \<Longrightarrow>
     keeps_size t (with_track_children ti cs t)"
  unfolding keeps_size_def
proof (intro conjI allI impI)
  fix tj
  assume "tl_children t ! ti = SC_Track tr" "length (track_children tr) \<le> length cs"
    "tj < length (tl_children t)"
  then show "length (sc_children (tl_children t ! tj))
      \<le> length (sc_children (tl_children (with_track_children ti cs t) ! tj))"
    by (cases "tj = ti") (simp_all add: tl_children_with_track)
qed simp

lemma keeps_size_map_cut [simp]: "keeps_size t (map_cut_boundaries f t') = keeps_size t t'"
  by (simp add: keeps_size_def)

lemma clip_atE:
  assumes "clip_at t l = Some c"
  obtains tr where "cl_track_index l < length (tl_children t)"
    and "tl_children t ! cl_track_index l = SC_Track tr"
    and "cl_child_index l < length (track_children tr)"
    and "track_children tr ! cl_child_index l = TC_Clip c"
proof -
  from assms have l: "cl_track_index l < length (tl_children t)"
    "cl_child_index l < length (sc_children (tl_children t ! cl_track_index l))"
    "sc_children (tl_children t ! cl_track_index l) ! cl_child_index l = TC_Clip c"
    by (auto simp: clip_at_def tl_children_def Let_def split: if_splits track_child.splits)
  from l(2) obtain tr where "tl_children t ! cl_track_index l = SC_Track tr"
    by (cases "tl_children t ! cl_track_index l") auto
  with l show thesis by (intro that) auto
qed

lemma clip_at_in_bounds: "clip_at t l = Some c \<Longrightarrow> in_bounds t l"
  by (erule clip_atE) (simp add: in_bounds_def)

lemma lookup_eqs:
  "vec_get ys i = Inr y \<longleftrightarrow> i < length ys \<and> y = ys ! i"
  "track_at index x t ti = Inr tr \<longleftrightarrow> ti < length (tl_children t) \<and> tl_children t ! ti = SC_Track tr"
  "clip_on index x cs ci = Inr c \<longleftrightarrow> ci < length cs \<and> cs ! ci = TC_Clip c"
  "source_range_of index x c = Inr r \<longleftrightarrow> clip_source_range c = Some r"
  by (auto simp: vec_get_def track_at_def clip_on_def source_range_of_def rbind_def
      split: if_splits stack_child.splits track_child.splits option.splits)

lemma track_at_SC [simp]:
  "ti < length (tl_children t) \<Longrightarrow> tl_children t ! ti = SC_Track tr \<Longrightarrow> track_at i x t ti = Inr tr"
  by (simp add: track_at_def vec_get_def rbind_def)

lemma clip_on_TC [simp]: "ci < length cs \<Longrightarrow> cs ! ci = TC_Clip c \<Longrightarrow> clip_on i x cs ci = Inr c"
  by (simp add: clip_on_def vec_get_def rbind_def)

lemma rbind_Inr [simp]: "rbind (Inr x) f = f x"
  by (simp add: rbind_def)

lemma rbind_Inl [simp]: "rbind (Inl e) f = Inl e"
  by (simp add: rbind_def)

lemma panic_free_lookups [panic_intros]:
  "ti < length (tl_children t) \<Longrightarrow> panic_free (track_at i x t ti)"
  "ci < length cs \<Longrightarrow> panic_free (clip_on i x cs ci)"
  "ci < length ys \<Longrightarrow> panic_free (vec_get ys ci)"
  "panic_free (source_range_of i x c)"
  by (auto simp: track_at_def clip_on_def vec_get_def source_range_of_def rbind_def panic_free_def
      split: stack_child.splits track_child.splits option.splits)

lemma panic_free_snap [panic_intros]: "panic_free (resolve_snap_time t i r snap)"
  by (auto simp: resolve_snap_time_def panic_free_def split: option.splits)

section \<open>Lookups stay in bounds\<close>

lemma position_Some: "position P xs = Some i \<Longrightarrow> i < length xs \<and> P (xs ! i)"
  by (induction xs arbitrary: i) (auto split: if_splits)

lemma position_None: "position P xs = None \<longleftrightarrow> (\<forall>x \<in> set xs. \<not> P x)"
  by (induction xs) auto

lemma find_track_Some:
  assumes "find_track t n = Some (ti, tr)"
  shows "ti < length (tl_children t) \<and> tl_children t ! ti = SC_Track tr"
proof -
  from assms obtain j where j: "position (is_track_named n) (tl_children t) = Some j"
    and e: "(case tl_children t ! j of SC_Track u \<Rightarrow> Some (j, u) | _ \<Rightarrow> None) = Some (ti, tr)"
    by (auto simp: find_track_def bind_eq_Some_conv)
  with position_Some [OF j] show ?thesis by (cases "tl_children t ! j") simp_all
qed

lemma sibling_locators_in_bounds:
  assumes "l \<in> set (sibling_locators finds p t)"
    and "\<And>sc ci. finds sc = Some ci \<Longrightarrow> ci < length (sc_children sc)"
  shows "in_bounds t l"
  using assms by (auto simp: sibling_locators_def List.map_filter_def in_set_enumerate_eq in_bounds_def
      split: if_splits)

lemma linked_lookups_in_bounds:
  "first_clip_with_link_group sc g = Some ci \<Longrightarrow> ci < length (sc_children sc)"
  "clip_with_link_group_containing sc g a = Some ci \<Longrightarrow> ci < length (sc_children sc)"
  "clip_with_link_group_covering_range sc g a b = Some ci \<Longrightarrow> ci < length (sc_children sc)"
  unfolding first_clip_with_link_group_def clip_with_link_group_containing_def
    clip_with_link_group_covering_range_def
  by (blast dest: position_Some)+

section \<open>Each operation\<close>

lemma split_clip_panic_free:
  "in_bounds t l \<Longrightarrow> panic_free (split_clip_at_locator clock i l a t seq)"
  unfolding split_clip_at_locator_def Let_def in_bounds_def
  by (auto intro!: panic_intros simp: lookup_eqs)

lemma split_clip_grows:
  assumes "split_clip_at_locator clock i l a t seq = Inr (r, t', seq')"
  shows "keeps_size t t'"
  using assms unfolding split_clip_at_locator_def Let_def
  by (auto simp: rbind_eq_Inr lookup_eqs transfer_outgoing_cut_boundary_to_split_right_def
      insert_at_def split: if_splits intro!: keeps_size_with_track)

lemma split_all_panic_free:
  "\<forall>l \<in> set ls. in_bounds t l \<Longrightarrow> panic_free (split_all clock i ls a t seq)"
proof (induction ls arbitrary: t seq)
  case Nil
  then show ?case by (simp add: panic_intros)
next
  case (Cons l ls)
  then show ?case
    by (auto intro!: panic_intros split_clip_panic_free Cons.IH dest: split_clip_grows
        intro: keeps_size_in_bounds split: prod.splits)
qed

lemma apply_split_panic_free:
  assumes "clip_at t l = Some c"
  shows "panic_free (apply_split clock i a snap (Some l) t seq)"
  using assms
proof (rule clip_atE)
  fix tr
  assume tr: "cl_track_index l < length (tl_children t)"
    "tl_children t ! cl_track_index l = SC_Track tr"
    "cl_child_index l < length (track_children tr)"
    "track_children tr ! cl_child_index l = TC_Clip c"
  have siblings: "panic_free (split_linked_siblings clock i l g x t1 q)" for g x t1 q
    unfolding split_linked_siblings_def Let_def
    by (intro panic_intros split_all_panic_free ballI)
      (auto intro!: panic_intros dest: sibling_locators_in_bounds linked_lookups_in_bounds
        split: prod.splits)
  show ?thesis
    unfolding apply_split_def required_locator_def Let_def
    using tr clip_at_in_bounds [OF assms]
    by (auto intro!: panic_intros split_clip_panic_free siblings split: option.splits prod.splits)
qed

lemma trim_all_panic_free:
  "\<forall>l \<in> set ls. in_bounds t l \<Longrightarrow> panic_free (trim_all i ls a b t)"
proof (induction ls arbitrary: t)
  case Nil
  then show ?case by (simp add: panic_intros)
next
  case (Cons l ls)
  obtain tr where tr: "tl_children t ! cl_track_index l = SC_Track tr"
    using Cons.prems by (cases "tl_children t ! cl_track_index l") (auto simp: in_bounds_def)
  have "keeps_size t (with_track_children (cl_track_index l) ((track_children tr)[cl_child_index l := x]) t)"
    for x by (rule keeps_size_with_track [OF tr]) simp
  with Cons tr show ?case
    by (auto simp: in_bounds_def [of t l] vec_get_def intro!: panic_intros Cons.IH
        intro: keeps_size_in_bounds split: track_child.splits option.splits prod.splits)
qed

lemma trim_linked_panic_free [panic_intros]:
  "panic_free (trim_linked_siblings i l g a b c d t)"
  unfolding trim_linked_siblings_def
  by (intro trim_all_panic_free ballI) (rule sibling_locators_in_bounds, auto dest: linked_lookups_in_bounds)

lemma apply_trim_panic_free:
  assumes "clip_at t l = Some c"
  shows "panic_free (apply_trim i s e (Some l) t)"
  by (rule clip_atE [OF assms])
    (auto simp: apply_trim_def required_locator_def Let_def intro!: panic_intros split: option.splits prod.splits)

lemma apply_untrim_panic_free:
  assumes "clip_at t l = Some c"
  shows "panic_free (apply_untrim i s e (Some l) t)"
  by (rule clip_atE [OF assms])
    (auto simp: apply_untrim_def required_locator_def Let_def intro!: panic_intros split: option.splits prod.splits)

lemma apply_delete_panic_free:
  assumes "clip_at t l = Some c"
  shows "panic_free (apply_delete i (Some l) t)"
  by (rule clip_atE [OF assms])
    (auto simp: apply_delete_def required_locator_def Let_def vec_get_def intro!: panic_intros
      split: option.splits prod.splits)

lemma remove_one_gap_panic_free [panic_intros]:
  "ti < length (tl_children t) \<Longrightarrow> panic_free (remove_one_gap i ti ci side t)"
  unfolding remove_one_gap_def Let_def
  by (auto intro!: panic_intros split: gap_side.splits)

lemma remove_one_gap_length:
  "remove_one_gap i ti ci side t = Inr (x, t') \<Longrightarrow> length (tl_children t') = length (tl_children t)"
  unfolding remove_one_gap_def Let_def by (auto simp: rbind_eq_Inr split: if_splits)

lemma remove_linked_gaps_panic_free:
  "\<forall>ti \<in> set tis. ti < length (tl_children t) \<Longrightarrow> panic_free (remove_linked_gaps i p g side tis t)"
proof (induction tis arbitrary: t)
  case Nil
  then show ?case by (simp add: panic_intros)
next
  case (Cons ti tis)
  have "remove_one_gap i ti ci side t \<noteq> Inl Panic" for ci
    using Cons.prems remove_one_gap_panic_free [of ti t] by (simp add: panic_free_def)
  with Cons show ?case
    by (auto intro!: panic_intros Cons.IH dest: remove_one_gap_length
        split: option.splits sum.splits failure.splits prod.splits)
qed

lemma apply_delete_gap_panic_free:
  assumes "clip_at t l = Some c"
  shows "panic_free (apply_delete_gap i side (Some l) t)"
proof -
  have "cl_track_index l < length (tl_children t)" using assms by (rule clip_atE)
  then have "remove_one_gap i (cl_track_index l) ci side t \<noteq> Inl Panic" for ci
    using remove_one_gap_panic_free [of _ t] by (simp add: panic_free_def)
  then show ?thesis
    unfolding apply_delete_gap_def required_locator_def Let_def
    by (auto intro!: panic_intros remove_linked_gaps_panic_free
        split: option.splits sum.splits failure.splits prod.splits apply_error.splits)
qed

lemma panic_free_transpose [panic_intros]:
  "(\<And>x. panic_free (f x)) \<Longrightarrow> panic_free (map_transpose f o')"
  by (auto simp: map_transpose_def panic_free_def split: option.splits sum.splits)

lemma move_to_time_panic_free [panic_intros]:
  "ci < length (track_children tr) \<Longrightarrow> panic_free (apply_move_clip_to_time i tr ci x)"
  unfolding apply_move_clip_to_time_def Let_def by (intro panic_intros)

lemma apply_move_clip_panic_free:
  assumes "clip_at t l = Some c"
  shows "panic_free (apply_move_clip i pos at_s snap (Some l) t)"
  using assms unfolding apply_move_clip_def required_locator_def Let_def option.case
  by (elim clip_atE) (intro panic_intros, simp_all add: panic_intros)

lemma shift_clip_panic_free [panic_intros]:
  "ti < length (tl_children t) \<Longrightarrow> panic_free (shift_clip_at_index ti ci d t)"
  unfolding shift_clip_at_index_def Let_def by (auto intro!: panic_intros)

lemma shift_clip_length:
  "shift_clip_at_index ti ci d t = Inr t' \<Longrightarrow> length (tl_children t') = length (tl_children t)"
  unfolding shift_clip_at_index_def Let_def by (auto simp: rbind_eq_Inr split: if_splits)

lemma shift_linked_panic_free:
  "\<forall>ti \<in> set tis. ti < length (tl_children t) \<Longrightarrow> panic_free (shift_linked p g d tis t)"
  by (induction tis arbitrary: t)
    (auto intro!: panic_intros dest: shift_clip_length split: option.splits prod.splits)

lemma apply_ripple_move_panic_free:
  assumes "clip_at t l = Some c"
  shows "panic_free (apply_ripple_move i d snap (Some l) t)"
  by (rule clip_atE [OF assms])
    (auto simp: apply_ripple_move_def required_locator_def Let_def
      intro!: panic_intros shift_linked_panic_free split: option.splits prod.splits)

lemma apply_ripple_delete_panic_free:
  assumes "clip_at t l = Some c"
  shows "panic_free (apply_ripple_delete i (Some l) t)"
  by (rule clip_atE [OF assms])
    (auto simp: apply_ripple_delete_def required_locator_def Let_def
      intro!: panic_intros split: option.splits prod.splits)

lemma ripple_shift_panic_free [panic_intros]:
  "ti < length (tl_children t) \<Longrightarrow> panic_free (ripple_shift_after ti ci d r t)"
  unfolding ripple_shift_after_def by (auto intro!: panic_intros split: stack_child.splits)

lemma ripple_shift_length:
  "ripple_shift_after ti ci d r t = Inr t' \<Longrightarrow> length (tl_children t') = length (tl_children t)"
  unfolding ripple_shift_after_def
  by (auto simp: rbind_eq_Inr lookup_eqs split: if_splits stack_child.splits)

lemma trim_linked_ripple_panic_free:
  "\<forall>ti \<in> set tis. ti < length (tl_children t) \<Longrightarrow> panic_free (trim_linked p g e b d r tis t)"
proof (induction tis arbitrary: t)
  case Nil
  then show ?case by (simp add: panic_intros)
next
  case (Cons ti tis)
  then show ?case
    by (auto simp: Let_def intro!: panic_intros Cons.IH dest: ripple_shift_length
        split: option.splits prod.splits track_child.splits)
qed

lemma apply_ripple_trim_panic_free:
  assumes "clip_at t l = Some c"
  shows "panic_free (apply_ripple_trim i e v (Some l) t)"
  by (rule clip_atE [OF assms])
    (auto simp: apply_ripple_trim_def required_locator_def Let_def intro!: panic_intros
      trim_linked_ripple_panic_free dest!: ripple_shift_length
      split: option.splits prod.splits ripple_trim_edge.splits)

lemma resolve_for_panic_free [panic_intros]: "panic_free (resolve_for i t ctx a)"
  by (auto simp: resolve_for_def panic_free_def map_err_def split: sum.splits)

lemma resolve_for_clip:
  "resolve_for i t ctx a = Inr l \<Longrightarrow> \<exists>c. clip_at t l = Some c"
  by (auto simp: resolve_for_def map_err_eq_Inr dest: resolve_clip)

lemma apply_delete_transition_panic_free:
  "panic_free (apply_delete_transition i f g ctx t)"
  unfolding apply_delete_transition_def Let_def
  by (auto intro!: panic_intros dest!: resolve_for_clip elim!: clip_atE)

lemma validate_cut_spec_panic_free [panic_intros]: "panic_free (validate_semantic_cut_spec i spec)"
  by (auto simp: validate_semantic_cut_spec_def intro!: panic_intros)

lemma apply_set_cut_intent_panic_free:
  "panic_free (apply_set_cut_intent i f g spec ctx t)"
  unfolding apply_set_cut_intent_def Let_def
  by (auto intro!: panic_intros dest!: resolve_for_clip elim!: clip_atE)

lemma apply_track_ops_panic_free:
  "panic_free (apply_insert_track i n k p t)"
  "panic_free (apply_delete_track i n force t)"
  "panic_free (apply_trim_track_tail i n t)"
  unfolding apply_insert_track_def apply_delete_track_def apply_trim_track_tail_def Let_def
  by (auto intro!: panic_intros split: option.splits prod.splits)

section \<open>Inserting: the search for a name\<close>

lemma inj_candidates: "inj (\<lambda>i. prefix @ ''-'' @ dec_of_nat i)"
  by (simp add: inj_def)

lemma length_used_names: "length (used_names cs) \<le> length cs"
  by (induction cs) (auto simp: used_names_def List.map_filter_simps split: track_child.splits)

lemma unused_name_total: "\<exists>n. unused_name prefix first cs = Some n"
proof (rule ccontr)
  let ?candidates = "map (\<lambda>i. prefix @ ''-'' @ dec_of_nat i) [first..<first + length cs + 1]"
  assume "\<nexists>n. unused_name prefix first cs = Some n"
  then have "set ?candidates \<subseteq> set (used_names cs)"
    by (auto simp: unused_name_def find_None_iff)
  then have "card (set ?candidates) \<le> length (used_names cs)"
    by (metis card_length card_mono List.finite_set order_trans)
  moreover have "card (set ?candidates) = length cs + 1"
    by (subst distinct_card) (auto simp: distinct_map inj_on_def)
  ultimately show False using length_used_names [of cs] by simp
qed

lemma default_name_panic_free [panic_intros]: "panic_free (default_clip_name_for_asset cs asset)"
  using unused_name_total
  by (auto simp: default_clip_name_for_asset_def next_clip_name_in_track_def Let_def panic_free_def
      split: option.splits) (metis option.distinct(1))+

lemma validate_visual_panic_free [panic_intros]: "panic_free (validate_visual_range i k l a b c)"
  by (auto simp: validate_visual_range_def intro!: panic_intros)

lemma apply_insert_clip_panic_free: "panic_free (apply_insert_clip clock i a t seq)"
  unfolding apply_insert_clip_def Let_def
  by (intro panic_intros) (auto dest: position_Some split: option.splits)

section \<open>The professional edits\<close>

lemma validations_panic_free [panic_intros]:
  "panic_free (validate_professional_timeline_range i l r)"
  "panic_free (validate_available_source_range i l c a b)"
  "panic_free (validate_delta i l d)"
  "panic_free (validate_optional_time i l x)"
  "panic_free (validate_marker_selector i sel)"
  "panic_free (required_locator i (Some loc))"
  unfolding validate_professional_timeline_range_def validate_available_source_range_def
    validate_delta_def validate_optional_time_def validate_marker_selector_def required_locator_def Let_def
  by (auto intro!: panic_intros split: option.splits)

lemma move_edges_panic_free [panic_intros]: "panic_free (move_edges i ls d c r c' r')"
  unfolding move_edges_def Let_def by (intro panic_intros)

lemma source_edits_panic_free:
  assumes "clip_at t l = Some c"
  shows "panic_free (apply_slip_clip i d (Some l) t)"
    and "panic_free (apply_replace_clip i asset r (Some l) t)"
    and "panic_free (apply_slide_clip i d (Some l) t)"
  using assms unfolding apply_slip_clip_def apply_replace_clip_def apply_slide_clip_def required_locator_def
    option.case Let_def
  by (elim clip_atE; intro panic_intros; simp add: lookup_eqs)+

lemma apply_roll_edit_panic_free: "panic_free (apply_roll_edit i f g d ctx t)"
  unfolding apply_roll_edit_def Let_def
  by (intro panic_intros) (auto simp: panic_free_def lookup_eqs dest!: resolve_for_clip elim!: clip_atE)

lemma apply_append_clip_panic_free: "panic_free (apply_append_clip clock i n a r t seq)"
  unfolding apply_append_clip_def by (intro panic_intros apply_insert_clip_panic_free)

lemma carve_panic_free [panic_intros]: "panic_free (carve clock i c s e a b seq)"
  unfolding carve_def timeline_child_segment_def Let_def by (intro panic_intros)

lemma range_loops_panic_free:
  "panic_free (lift_children clock i a b rate s x cs seq)"
  "panic_free (extract_children clock i a b s x cs seq)"
  "panic_free (overwrite_children clock i a b rate pending s cs seq)"
proof (induction cs arbitrary: s x pending seq)
  case (Cons c cs)
  {
    case 1
    show ?case unfolding lift_children.simps Let_def by (intro panic_intros Cons.IH(1))
  next
    case 2
    show ?case unfolding extract_children.simps Let_def by (intro panic_intros Cons.IH(2))
  next
    case 3
    show ?case unfolding overwrite_children.simps Let_def by (intro panic_intros Cons.IH(3))
  }
qed (simp_all add: panic_intros)

lemma edit_tracks_panic_free:
  assumes "\<And>cs q. panic_free (f cs q)"
  shows "panic_free (edit_tracks f names m n x scs seq)"
proof (induction scs arbitrary: m n x seq)
  case (Cons sc scs)
  show ?case by (cases sc; simp only: edit_tracks.simps Let_def; intro panic_intros Cons.IH assms)
qed (simp add: panic_intros)

lemma range_edits_panic_free:
  "panic_free (apply_lift_range clock i r names t seq)"
  "panic_free (apply_extract_range clock i r names t seq)"
  unfolding apply_lift_range_def apply_extract_range_def lift_range_on_track_def extract_range_on_track_def
  by (intro panic_intros edit_tracks_panic_free range_loops_panic_free)+

lemma apply_overwrite_clip_panic_free: "panic_free (apply_overwrite_clip clock i n r a t seq)"
  unfolding apply_overwrite_clip_def overwrite_range_on_track_def build_professional_source_clip_def Let_def
  by (intro panic_intros range_loops_panic_free) (auto dest: position_Some split: option.splits)

lemma covering_child_bound:
  "covering_child x ci s cs = Some (cj, s') \<Longrightarrow> ci \<le> cj \<and> cj < ci + length cs"
  by (induction cs arbitrary: ci s) (fastforce simp: Let_def split: if_splits)+

lemma apply_professional_marker_panic_free: "panic_free (apply_professional_marker i x l k t)"
  unfolding apply_professional_marker_def Let_def by (intro panic_intros)

lemma track_candidates_bound:
  "mc \<in> set (track_candidates sel loc ti ci s cs) \<Longrightarrow>
     mc_track_index mc = ti \<and> ci \<le> mc_child_index mc \<and> mc_child_index mc < ci + length cs"
proof (induction cs arbitrary: ci s)
  case (Cons c cs)
  have "mc \<in> set (clip_candidates sel ti ci s e clip) \<Longrightarrow> mc_track_index mc = ti \<and> mc_child_index mc = ci"
    for e clip by (auto simp: clip_candidates_def List.map_filter_def Let_def split: if_splits)
  moreover have "mc \<in> set (track_candidates sel loc ti (Suc ci) e cs) \<Longrightarrow>
      mc_track_index mc = ti \<and> ci \<le> mc_child_index mc \<and> mc_child_index mc < ci + length (c # cs)" for e
    using Cons.IH [of "Suc ci" e] by simp
  ultimately show ?case using Cons.prems
    by (fastforce simp: Let_def split: track_child.splits if_splits option.splits)
qed simp

lemma candidate_in_bounds:
  assumes "resolve_marker_candidate t i sel ctx = Inr mc"
  shows "mc_track_index mc < length (tl_children t)
    \<and> mc_child_index mc < length (sc_children (tl_children t ! mc_track_index mc))"
proof -
  from assms obtain loc where "(case collect_marker_candidates t sel loc of
      [] \<Rightarrow> invalid i (Fmt ''marker selector {:?} matched no markers'' [A_msg (selector_msg sel)])
    | [c] \<Rightarrow> Inr c
    | c # d # cs \<Rightarrow> invalid i (Fmt
         ''marker selector {:?} matches {} markers; add marker_id, anchor, or at_s to disambiguate''
         [A_msg (selector_msg sel), A_nat (length (c # d # cs))])) = Inr mc"
    unfolding resolve_marker_candidate_def by (auto simp only: rbind_eq_Inr)
  then have "collect_marker_candidates t sel loc = [mc]"
    by (cases "collect_marker_candidates t sel loc" rule: remdups_adj.cases) simp_all
  then have "mc \<in> set (collect_marker_candidates t sel loc)" by simp
  then show ?thesis
    by (force simp: collect_marker_candidates_def in_set_enumerate_eq dest: track_candidates_bound)
qed

lemma resolve_candidate_panic_free [panic_intros]: "panic_free (resolve_marker_candidate t i sel ctx)"
  unfolding resolve_marker_candidate_def
  by (intro panic_intros) (auto simp: panic_free_def split: list.splits)

lemma marker_edits_panic_free:
  "panic_free (apply_update_marker i sel u ctx t)" "panic_free (apply_delete_marker i sel ctx t)"
  unfolding apply_update_marker_def apply_delete_marker_def Let_def
  by (intro panic_intros; auto simp: lookup_eqs dest!: candidate_in_bounds)+

lemma flattened_panic_free [panic_intros]: "panic_free (flattened i k scs)"
  by (induction scs rule: flattened.induct) (simp_all add: panic_intros)

lemma nesting_panic_free:
  "panic_free (apply_wrap_as_nested i n a b g t)" "panic_free (apply_flatten_nested i n j t)"
  unfolding apply_wrap_as_nested_def apply_flatten_nested_def Let_def by (intro panic_intros)+

lemma decisions_panic_free [panic_intros]: "panic_free (validate_decisions i di s ds)"
  by (induction ds arbitrary: di s) (auto intro!: panic_intros)

lemma apply_multicam_plan_panic_free: "panic_free (apply_multicam_plan clock i plan t seq)"
  unfolding apply_multicam_plan_def validate_multicam_decisions_def Let_def by (intro panic_intros)

lemmas pro_panic_free =
  source_edits_panic_free apply_roll_edit_panic_free apply_append_clip_panic_free range_edits_panic_free
  apply_overwrite_clip_panic_free apply_professional_marker_panic_free marker_edits_panic_free
  nesting_panic_free

lemma pro_edit_panic_free:
  assumes "op_anchor (ProTimelineEdit edit) \<noteq> None \<Longrightarrow> \<exists>l c. loc = Some l \<and> clip_at t l = Some c"
  shows "panic_free (apply_professional_timeline_edit clock ctx i edit loc t seq)"
  unfolding apply_professional_timeline_edit_def
proof (intro panic_intros)
  show "panic_free (run_pro_edit clock ctx i edit loc t seq)"
  proof (cases edit)
    case (PE_RippleTrim a e names)
    then obtain l c where l: "loc = Some l" "clip_at t l = Some c" using assms by auto
    then show ?thesis unfolding PE_RippleTrim run_pro_edit.simps lift_edit_def apply_pro_ripple_trim_def
      using apply_trim_panic_free [OF l(2)]
      by (elim clip_atE) (auto simp: required_locator_def intro!: panic_intros)
  qed (use assms in \<open>auto simp: lift_edit_def intro!: panic_intros intro: pro_panic_free\<close>)
qed

section \<open>The sound edits\<close>

lemma edit_clip_panic_free:
  assumes "clip_at t l = Some c" and "\<And>c. panic_free (f c)"
  shows "panic_free (edit_clip i label f (Some l) t)"
  using assms unfolding edit_clip_def required_locator_def option.case
  by (elim clip_atE; intro panic_intros; simp add: lookup_eqs)

lemma edit_audio_track_panic_free [panic_intros]: "panic_free (edit_audio_track i label f note n t)"
  unfolding edit_audio_track_def
  by (intro panic_intros) (auto simp: panic_free_def split: json.splits)

lemma validate_audio_fx_panic_free [panic_intros]: "panic_free (validate_audio_fx i label fx)"
  unfolding validate_audio_fx_def by (intro panic_intros)

lemma apply_split_edit_panic_free:
  assumes "clip_at t l = Some c"
  shows "panic_free (apply_split_edit_offset i x kind given (Some l) t)"
  using assms unfolding apply_split_edit_offset_def stamp_split_edit_on_clip_def required_locator_def
    option.case Let_def
  by (elim clip_atE; intro panic_intros; simp add: lookup_eqs)

lemma apply_set_sync_group_panic_free:
  assumes "clip_at t l = Some c"
  shows "panic_free (apply_set_sync_group i g off f conf (Some l) t)"
proof (rule clip_atE [OF assms])
  fix tr
  assume tr: "cl_track_index l < length (tl_children t)"
    "tl_children t ! cl_track_index l = SC_Track tr"
    "cl_child_index l < length (track_children tr)"
    "track_children tr ! cl_child_index l = TC_Clip c"
  have "panic_free (apply_move_clip_to_time i (track_with_children
      ((track_children tr)[cl_child_index l := x]) tr) (cl_child_index l) y)" for x y
    using tr(3) by (intro move_to_time_panic_free) simp
  with tr show ?thesis
    unfolding apply_set_sync_group_def required_locator_def Let_def
    by (auto intro!: panic_intros)
qed

lemma sound_edits_panic_free:
  assumes "clip_at t l = Some c"
  shows "panic_free (apply_set_volume i v (Some l) t)" "panic_free (apply_mute_clip i b (Some l) t)"
    and "panic_free (apply_remove_audio i s e b (Some l) t)"
    and "panic_free (apply_set_audio_fade i s e (Some l) t)" "panic_free (apply_set_speed i v (Some l) t)"
    and "panic_free (apply_set_clip_audio_fx i fx (Some l) t)"
  unfolding apply_set_volume_def apply_mute_clip_def apply_remove_audio_def apply_set_audio_fade_def
    apply_set_speed_def apply_set_clip_audio_fx_def Let_def
  by (intro panic_intros edit_clip_panic_free [OF assms])+

lemma track_audio_panic_free:
  "panic_free (apply_set_track_audio i n r v m s t)" "panic_free (apply_set_ducking i n e d a r' t)"
  "panic_free (apply_set_track_audio_fx i n fx t)"
  unfolding apply_set_track_audio_def apply_set_ducking_def apply_set_track_audio_fx_def Let_def
  by (intro panic_intros)+

section \<open>The whole envelope\<close>

lemma resolve_locator_for_op_sound:
  assumes "resolve_locator_for_op t i eop ctx aliases = Inr loc" and "op_anchor eop \<noteq> None"
  shows "\<exists>l c. loc = Some l \<and> clip_at t l = Some c"
  using assms unfolding resolve_locator_for_op_def Let_def
  by (auto simp: rbind_eq_Inr dest!: resolve_for_clip split: option.splits)

lemmas op_panic_free =
  apply_trim_panic_free apply_delete_panic_free apply_split_panic_free apply_untrim_panic_free
  apply_move_clip_panic_free apply_ripple_move_panic_free apply_ripple_delete_panic_free
  apply_ripple_trim_panic_free apply_delete_gap_panic_free apply_insert_clip_panic_free
  apply_track_ops_panic_free apply_delete_transition_panic_free apply_set_cut_intent_panic_free
  sound_edits_panic_free apply_split_edit_panic_free apply_set_sync_group_panic_free track_audio_panic_free

lemma apply_one_panic_free:
  assumes "op_anchor eop \<noteq> None \<Longrightarrow> \<exists>l c. loc = Some l \<and> clip_at t l = Some c"
  shows "panic_free (apply_one clock ctx i eop loc t seq)"
  using assms
  by (cases eop)
    (auto simp: lift_edit_def intro!: panic_intros intro: op_panic_free pro_edit_panic_free
      apply_multicam_plan_panic_free)

lemma apply_step_panic_free: "panic_free (apply_step clock ctx i eop aliases t seq)"
  unfolding apply_step_def Let_def
proof (intro panic_intros)
  show "panic_free (resolve_locator_for_op t i eop ctx aliases)"
    by (auto simp: resolve_locator_for_op_def Let_def intro!: panic_intros)
  fix loc
  assume "resolve_locator_for_op t i eop ctx aliases = Inr loc"
  then show "panic_free (apply_one clock ctx i eop loc t seq)"
    by (intro apply_one_panic_free) (rule resolve_locator_for_op_sound)
qed

lemma apply_ops_panic_free: "panic_free (apply_ops clock ctx i ops aliases t seq)"
proof (induction ops arbitrary: i aliases t seq)
  case Nil
  then show ?case by (simp add: panic_intros)
next
  case (Cons eop ops)
  then show ?case by (auto intro!: panic_intros apply_step_panic_free)
qed


end
