(* ===== verification/Edl_Cuts.thy ===== *)
theory Edl_Cuts
  imports Edl_Progress
begin

text \<open>
  What \<open>apply\<close> guarantees of the records it keeps about cuts: after a successful envelope every
  recorded cut is a cut of the timeline and every split edit still has the neighbour it was authored
  against; and a split passes the recorded intent of the outgoing cut on to the right half.
\<close>

section \<open>Cuts depend only on ids and kinds\<close>

definition same_shape :: "track_child \<Rightarrow> track_child \<Rightarrow> bool" where
  "same_shape a b \<longleftrightarrow>
     track_child_clip_id a = track_child_clip_id b \<and> is_clip a = is_clip b
     \<and> is_gap a = is_gap b \<and> is_transition a = is_transition b"

lemma same_shape_refl [simp]: "same_shape a a"
  by (simp add: same_shape_def)

lemma same_shape_dropWhile:
  "list_all2 same_shape xs ys \<Longrightarrow> list_all2 same_shape (dropWhile is_gap xs) (dropWhile is_gap ys)"
  by (induction rule: list_all2_induct) (auto simp: same_shape_def)

lemma hd_id_shape:
  "list_all2 same_shape xs ys \<Longrightarrow>
     (case xs of [] \<Rightarrow> None | c # _ \<Rightarrow> track_child_clip_id c) =
     (case ys of [] \<Rightarrow> None | c # _ \<Rightarrow> track_child_clip_id c)"
  by (auto simp: list_all2_Cons1 same_shape_def split: list.splits)

lemma cut_target_shape:
  "list_all2 same_shape xs ys \<Longrightarrow> cut_target xs = cut_target ys"
proof (induction xs rule: cut_target.induct)
  case (1 c cs)
  then show ?case by (cases ys; cases "hd ys") (auto simp: same_shape_def)
next
  case (2 t c cs)
  then show ?case by (cases ys; cases "hd ys"; cases "tl ys") (auto simp: same_shape_def)
next
  case (3 g cs)
  then obtain b bs where ys: "ys = b # bs" "same_shape (TC_Gap g) b" "list_all2 same_shape cs bs"
    by (auto simp: list_all2_Cons1)
  then obtain h where "b = TC_Gap h" by (cases b) (auto simp: same_shape_def)
  then show ?case using hd_id_shape [OF same_shape_dropWhile [OF ys(3)]] ys(1) by simp
qed (auto simp: list_all2_Cons1 same_shape_def elim!: is_clip.elims)

lemma track_cuts_shape: "list_all2 same_shape xs ys \<Longrightarrow> track_cuts xs = track_cuts ys"
proof (induction rule: list_all2_induct)
  case Nil
  then show ?case by simp
next
  case (Cons x xs y ys)
  have "cut_target xs = cut_target ys" using Cons.hyps(2) by (rule cut_target_shape)
  with Cons show ?case by (auto simp: same_shape_def split: option.splits)
qed

lemma clip_id_prune [simp]: "clip_id (prune_split_edit_for_clip c p n) = clip_id c"
  by (cases "cm_montage (clip_metadata c)")
    (simp_all add: clip_id_def clip_uuid_def clip_extra_str_def prune_split_edit_for_clip_def
      map_montage_def)

lemma same_shape_prune: "same_shape (prune_child p n c) c"
  by (cases c) (simp_all add: same_shape_def)

lemma first_clip_id_shape: "list_all2 same_shape xs ys \<Longrightarrow> first_clip_id xs = first_clip_id ys"
  by (induction rule: list_all2_induct) (auto simp: same_shape_def split: option.splits)

lemma prune_track_shape: "list_all2 same_shape (prune_track_split_edits cs) cs"
  by (auto simp: prune_track_split_edits_def list_all2_conv_all_nth same_shape_prune nth_enumerate_eq)

lemma prune_split_keeps_cuts [simp]:
  "current_cut_boundary_keys (prune_stale_split_edits t) = current_cut_boundary_keys t"
proof -
  have "track_cuts (sc_children (sc_with_children (prune_track_split_edits (sc_children sc)) sc))
      = track_cuts (sc_children sc)" for sc
    by (cases sc) (simp_all add: track_cuts_shape [OF prune_track_shape])
  then show ?thesis
    by (simp add: current_cut_boundary_keys_def prune_stale_split_edits_def o_def del: sc_children_with)
qed

section \<open>Nothing stale\<close>

definition split_edit_ok :: "string option \<Rightarrow> string option \<Rightarrow> split_edit_spec \<Rightarrow> bool" where
  "split_edit_ok previous_id next_id se \<longleftrightarrow>
     (se_audio_lead_s se \<noteq> None \<longrightarrow> neighbour_matches (se_audio_lead_from_clip_id se) previous_id)
     \<and> (se_audio_trail_s se \<noteq> None \<longrightarrow> neighbour_matches (se_audio_trail_to_clip_id se) next_id)
     \<and> (se_audio_lead_s se \<noteq> None \<or> se_audio_trail_s se \<noteq> None)"

definition clip_split_edit :: "clip \<Rightarrow> split_edit_spec option" where
  "clip_split_edit c = Option.bind (cm_montage (clip_metadata c)) mcm_split_edit"

definition cuts_current :: "timeline \<Rightarrow> bool" where
  "cuts_current t \<longleftrightarrow>
     set (bt_keys (cut_boundaries t)) \<subseteq> set (current_cut_boundary_keys t)
     \<and> (\<forall>sc \<in> set (tl_children t). \<forall>i c se. i < length (sc_children sc) \<longrightarrow>
          sc_children sc ! i = TC_Clip c \<longrightarrow> clip_split_edit c = Some se \<longrightarrow>
          split_edit_ok (previous_clip_id (sc_children sc) i) (next_clip_id (sc_children sc) i) se)"

lemma prune_split_edit_ok: "prune_split_edit p n se = Some se' \<Longrightarrow> split_edit_ok p n se'"
  by (auto simp: prune_split_edit_def split_edit_ok_def Let_def split: if_splits)

lemma clip_split_edit_prune:
  "clip_split_edit (prune_split_edit_for_clip c p n) =
     Option.bind (clip_split_edit c) (prune_split_edit p n)"
  by (cases "cm_montage (clip_metadata c)")
    (simp_all add: clip_split_edit_def prune_split_edit_for_clip_def map_montage_def)

lemma neighbours_prune [simp]:
  "previous_clip_id (prune_track_split_edits cs) i = previous_clip_id cs i"
  "next_clip_id (prune_track_split_edits cs) i = next_clip_id cs i"
  unfolding previous_clip_id_def next_clip_id_def
  by (rule first_clip_id_shape, simp add: list_all2_rev list_all2_takeI list_all2_dropI prune_track_shape)+

lemma prune_track_split_ok:
  assumes "i < length cs" and "prune_track_split_edits cs ! i = TC_Clip c"
    and "clip_split_edit c = Some se"
  shows "split_edit_ok (previous_clip_id cs i) (next_clip_id cs i) se"
proof -
  have "prune_child (previous_clip_id cs i) (next_clip_id cs i) (cs ! i) = TC_Clip c"
    using assms(1,2) by (simp add: prune_track_split_edits_def nth_enumerate_eq)
  then obtain c0 where "c = prune_split_edit_for_clip c0 (previous_clip_id cs i) (next_clip_id cs i)"
    by (cases "cs ! i") auto
  with assms(3) show ?thesis by (auto simp: clip_split_edit_prune bind_eq_Some_conv prune_split_edit_ok)
qed

lemma length_prune_track [simp]: "length (prune_track_split_edits cs) = length cs"
  by (simp add: prune_track_split_edits_def)

lemma cut_boundaries_prune_split [simp]:
  "cut_boundaries (prune_stale_split_edits t) = cut_boundaries t"
  by (simp add: prune_stale_split_edits_def)

lemma current_keys_map_cut [simp]:
  "current_cut_boundary_keys (map_cut_boundaries f t) = current_cut_boundary_keys t"
  by (simp add: current_cut_boundary_keys_def)

lemma pruned_current:
  "cuts_current (prune_stale_split_edits (prune_stale_cut_boundaries t))"
proof -
  let ?t = "prune_stale_cut_boundaries t"
  have keys: "set (bt_keys (cut_boundaries ?t)) \<subseteq> set (current_cut_boundary_keys ?t)"
    by (auto simp: prune_stale_cut_boundaries_def bt_retain_def bt_keys_def)
  have edits: "split_edit_ok (previous_clip_id (sc_children sc) i) (next_clip_id (sc_children sc) i) se"
    if "sc \<in> set (tl_children (prune_stale_split_edits ?t))" "i < length (sc_children sc)"
      "sc_children sc ! i = TC_Clip c" "clip_split_edit c = Some se" for sc i c se
  proof -
    from that(1) obtain sc0 where
      "sc = sc_with_children (prune_track_split_edits (sc_children sc0)) sc0"
      by (auto simp: prune_stale_split_edits_def)
    with that(2) have "sc_children sc = prune_track_split_edits (sc_children sc0)"
      by (cases sc0) auto
    with that show ?thesis using prune_track_split_ok [of i "sc_children sc0" c se] by simp
  qed
  show ?thesis unfolding cuts_current_def using keys edits by simp
qed

lemma apply_step_current:
  "apply_step clock ctx i eop aliases t seq = Inr (a, al, t', seq') \<Longrightarrow> cuts_current t'"
  unfolding apply_step_def Let_def by (auto simp: rbind_eq_Inr pruned_current)

lemma apply_ops_current:
  "apply_ops clock ctx i ops aliases t seq = Inr (applied, t', seq') \<Longrightarrow>
     ops \<noteq> [] \<or> cuts_current t \<Longrightarrow> cuts_current t'"
proof (induction ops arbitrary: i aliases t seq applied)
  case Nil
  then show ?case by simp
next
  case (Cons eop ops)
  then show ?case by (fastforce simp: rbind_eq_Inr dest: apply_step_current)
qed

end
