(* ===== verification/Edl_Grid.thy ===== *)
theory Edl_Grid
  imports Edl_Cuts
begin

text \<open>
  Exact arithmetic for the edits. When every time is a multiple of 1/512 of a second and at most
  \<open>2 ^ 20\<close> seconds, and every rate is a whole number of at most \<open>2 ^ 20\<close> frames, the
  \<open>f64\<close> operations of the editor are the operations on rational numbers, a conversion to frames
  and back loses nothing, and the tolerances of a millisecond and a microsecond decide comparisons
  the way equality does.
\<close>

section \<open>The grid\<close>

definition on_grid :: "f64 \<Rightarrow> bool" where
  "on_grid x \<longleftrightarrow> is_finite x \<and> fval x * 512 \<in> \<int>"

definition whole_rate :: "f64 \<Rightarrow> bool" where
  "whole_rate r \<longleftrightarrow> is_finite r \<and> fval r \<in> \<int> \<and> 1 \<le> fval r \<and> fval r \<le> 2 ^ 20"

definition in_reach :: "f64 \<Rightarrow> bool" where
  "in_reach x \<longleftrightarrow> on_grid x \<and> \<bar>fval x\<bar> \<le> 2 ^ 20"

lemma on_grid_finite: "on_grid x \<Longrightarrow> is_finite x"
  by (simp add: on_grid_def)

lemma in_reach_grid: "in_reach x \<Longrightarrow> on_grid x"
  by (simp add: in_reach_def)

lemma grid_dy:
  assumes "on_grid x" and "\<bar>fval x\<bar> \<le> of_int b / 512"
  shows "dy 9 b x"
proof -
  from assms(1) obtain n where n: "fval x * 512 = of_int n" unfolding on_grid_def Ints_def by auto
  then have "fval x = of_int n / 512" by simp
  moreover from this assms(2) have "\<bar>n\<bar> \<le> b" by (simp add: abs_divide)
  ultimately show ?thesis using assms(1) by (auto simp: dy_def on_grid_def)
qed

lemma dy_grid: "dy 9 b x \<Longrightarrow> on_grid x"
  by (auto simp: dy_def on_grid_def)

lemma rnd_grid:
  assumes "q * 512 \<in> \<int>" and "\<bar>q\<bar> < 2 ^ 44"
  shows "on_grid (rnd s q)" and "fval (rnd s q) = q"
proof -
  from assms(1) obtain n where "q * 512 = of_int n" unfolding Ints_def by auto
  then have n: "q = of_int n / 2 ^ 9" by simp
  with assms(2) have "\<bar>n\<bar> < 2 ^ 53" by (simp add: abs_divide)
  from rnd_dyadic [OF this, of 9 s] have "is_finite (rnd s q)" and val: "fval (rnd s q) = q"
    unfolding n by simp_all
  with assms(1) show "on_grid (rnd s q)" and "fval (rnd s q) = q" by (simp_all add: on_grid_def)
qed

lemma fadd_grid:
  assumes "on_grid x" and "on_grid y" and "\<bar>fval x + fval y\<bar> < 2 ^ 44"
  shows "on_grid (fadd x y)" and "fval (fadd x y) = fval x + fval y"
proof -
  have "(fval x + fval y) * 512 \<in> \<int>" using assms(1,2) by (simp add: on_grid_def distrib_right)
  from rnd_grid [OF this assms(3), of False] fadd_finite [of x y] assms(1,2)
  show "on_grid (fadd x y)" and "fval (fadd x y) = fval x + fval y" by (simp_all add: on_grid_def)
qed

lemma fneg_grid: "on_grid x \<Longrightarrow> on_grid (fneg x)"
  by (simp add: on_grid_def)

lemma fsub_grid:
  assumes "on_grid x" and "on_grid y" and "\<bar>fval x - fval y\<bar> < 2 ^ 44"
  shows "on_grid (fsub x y)" and "fval (fsub x y) = fval x - fval y"
  using fadd_grid [of x "fneg y"] assms by (simp_all add: fsub_def fneg_grid)

text \<open>To frames and back.\<close>

lemma frames_grid:
  assumes "in_reach x" and "whole_rate r"
  shows "on_grid (fmul x r)" and "fval (fmul x r) = fval x * fval r"
    and "in_reach (to_seconds (rational_time_new (fmul x r) r))"
    and "fval (to_seconds (rational_time_new (fmul x r) r)) = fval x"
proof -
  have x: "is_finite x" "fval x * 512 \<in> \<int>" "\<bar>fval x\<bar> \<le> 2 ^ 20"
    using assms(1) by (simp_all add: in_reach_def on_grid_def)
  have r: "is_finite r" "fval r \<in> \<int>" "1 \<le> fval r" "fval r \<le> 2 ^ 20"
    using assms(2) by (simp_all add: whole_rate_def)
  have int: "fval x * fval r * 512 \<in> \<int>"
    using Ints_mult [OF x(2) r(2)] by (simp add: ac_simps)
  have "\<bar>fval x * fval r\<bar> \<le> 2 ^ 20 * 2 ^ 20"
    unfolding abs_mult using x(3) r(3,4) by (intro mult_mono) auto
  then have "\<bar>fval x * fval r\<bar> < 2 ^ 44" by simp
  from rnd_grid [OF int this] fmul_finite [OF x(1) r(1)]
  show mul: "on_grid (fmul x r)" and val: "fval (fmul x r) = fval x * fval r" by simp_all
  have "fval (fmul x r) / fval r = fval x" using r(3) by (simp add: val)
  moreover have "\<bar>fval x\<bar> < 2 ^ 44" using x(3) by simp
  ultimately show "in_reach (to_seconds (rational_time_new (fmul x r) r))"
    and "fval (to_seconds (rational_time_new (fmul x r) r)) = fval x"
    using rnd_grid [OF x(2)] x(3) r(3) fdiv_finite [OF on_grid_finite [OF mul] r(1)]
    by (simp_all add: to_seconds_def rational_time_new_def in_reach_def)
qed

lemma gap_child_grid:
  assumes "in_reach x" and "whole_rate r"
  shows "in_reach (child_duration (gap_child x r))" and "fval (child_duration (gap_child x r)) = fval x"
  using frames_grid [OF assms]
  by (simp_all add: gap_child_def gap_of_duration_def time_range_new_def)

lemma seconds_range_grid:
  assumes "in_reach x" and "in_reach d" and "whole_rate r"
  shows "in_reach (to_seconds (tr_start_time (seconds_range x d r)))"
    and "fval (to_seconds (tr_start_time (seconds_range x d r))) = fval x"
    and "in_reach (to_seconds (tr_duration (seconds_range x d r)))"
    and "fval (to_seconds (tr_duration (seconds_range x d r))) = fval d"
  using frames_grid [OF assms(1,3)] frames_grid [OF assms(2,3)]
  by (simp_all add: seconds_range_def time_range_new_def)

section \<open>Tolerances\<close>

lemma tolerances:
  "is_finite milli" "0 < fval milli" "fval milli < 1 / 900"
  "is_finite micro" "0 < fval micro" "fval micro < 1 / 900"
  by (simp_all add: milli_def micro_def f64_lit_def rnd_thousandth rnd_millionth)

lemma grid_gap:
  assumes "on_grid x" and "on_grid y" and "fval x < fval y"
  shows "fval x + 1 / 512 \<le> fval y"
proof -
  from assms obtain m n where "fval x * 512 = of_int m" "fval y * 512 = of_int n"
    unfolding on_grid_def Ints_def by auto
  moreover from this assms(3) have "m + 1 \<le> n"
    by (metis add1_zle_eq mult_less_cancel_right_pos of_int_less_iff zero_less_numeral)
  then have "(of_int m + 1 :: rat) \<le> of_int n" by (metis of_int_1 of_int_add of_int_le_iff)
  ultimately show ?thesis by linarith
qed

text \<open>A sum with a tolerance is off by less than the tolerance itself.\<close>

lemma fuzzy_add:
  assumes "is_finite x" and "is_finite e" and "\<bar>fval x\<bar> \<le> 2 ^ 21" and "\<bar>fval e\<bar> < 1 / 900"
  shows "is_finite (fadd x e)" and "\<bar>fval (fadd x e) - (fval x + fval e)\<bar> < 1 / 100000000"
proof -
  have "\<bar>fval x + fval e\<bar> < 2 ^ 22" using assms(3,4) by simp
  note near = rnd_near [OF this, of False]
  have "(2::rat) powi (int 22 - 54) = 2 powi (- 32)" by simp
  also have "\<dots> = inverse (2 ^ 32)" by (simp only: power_int_minus power_int_numeral)
  also have "\<dots> < 1 / 100000000" by simp
  finally show "is_finite (fadd x e)" and "\<bar>fval (fadd x e) - (fval x + fval e)\<bar> < 1 / 100000000"
    using near fadd_finite [OF assms(1,2)] by simp_all
qed

text \<open>Smaller than the grid, larger than the error of a sum.\<close>

definition tolerance :: "f64 \<Rightarrow> bool" where
  "tolerance e \<longleftrightarrow> is_finite e \<and> 1 / 2000000 < fval e \<and> fval e < 1 / 900"

lemma tolerances_of_the_code [simp]: "tolerance milli" "tolerance micro"
  by (simp_all add: tolerance_def milli_def micro_def f64_lit_def rnd_thousandth rnd_millionth)

lemma tolerance_compare:
  assumes "tolerance e" and "on_grid x" and "on_grid y" and "\<bar>fval x\<bar> \<le> 2 ^ 21"
  shows "fle y (fadd x e) \<longleftrightarrow> fval y \<le> fval x"
    and "flt (fadd x e) y \<longleftrightarrow> fval x < fval y"
    and "flt y (fsub x e) \<longleftrightarrow> fval y < fval x"
    and "fle (fsub x e) y \<longleftrightarrow> fval x \<le> fval y"
    and "flt e x \<longleftrightarrow> 0 < fval x"
    and "fle x e \<longleftrightarrow> fval x \<le> 0"
    and "flt x e \<longleftrightarrow> fval x \<le> 0"
proof -
  have fin: "is_finite x" "is_finite y" using assms by (simp_all add: on_grid_finite)
  have tiny: "is_finite e" "1 / 2000000 < fval e" "fval e < 1 / 900"
    using assms(1) by (simp_all add: tolerance_def)
  then have t: "\<bar>fval e\<bar> < 1 / 900" "\<bar>fval (fneg e)\<bar> < 1 / 900" "is_finite (fneg e)" by simp_all
  note add = fuzzy_add [OF fin(1) tiny(1) assms(4) t(1)]
  note sub = fuzzy_add [OF fin(1) t(3) assms(4) t(2), folded fsub_def]
  have step: "fval x < fval y \<Longrightarrow> fval x + 1 / 512 \<le> fval y"
    "fval y < fval x \<Longrightarrow> fval y + 1 / 512 \<le> fval x" using grid_gap assms(2,3) by blast+
  have add': "fval x < fval (fadd x e)" "fval (fadd x e) < fval x + 1 / 600"
    and sub': "fval x - 1 / 600 < fval (fsub x e)" "fval (fsub x e) < fval x"
    using add(2) sub(2) tiny unfolding abs_less_iff fval_fneg by linarith+
  show "fle y (fadd x e) \<longleftrightarrow> fval y \<le> fval x" "flt (fadd x e) y \<longleftrightarrow> fval x < fval y"
    "flt y (fsub x e) \<longleftrightarrow> fval y < fval x" "fle (fsub x e) y \<longleftrightarrow> fval x \<le> fval y"
    unfolding finite_compare [OF fin(2) add(1)] finite_compare [OF add(1) fin(2)]
      finite_compare [OF fin(2) sub(1)] finite_compare [OF sub(1) fin(2)]
    using add' sub' step by linarith+
  have "on_grid (Fin 0)" by (simp add: on_grid_def)
  then have zero: "0 < fval x \<Longrightarrow> 1 / 512 \<le> fval x" using grid_gap [of "Fin 0" x] assms(2) by simp
  show "flt e x \<longleftrightarrow> 0 < fval x" "fle x e \<longleftrightarrow> fval x \<le> 0" "flt x e \<longleftrightarrow> fval x \<le> 0"
    unfolding finite_compare [OF tiny(1) fin(1)] finite_compare [OF fin(1) tiny(1)]
    using zero tiny by linarith+
qed

lemmas near_compare = tolerance_compare(1,2,3,5,6) [OF tolerances_of_the_code(1)]

section \<open>Tracks on the grid\<close>

definition dur :: "track_child \<Rightarrow> rat" where
  "dur c = fval (child_duration c)"

definition span_of :: "track_child list \<Rightarrow> rat" where
  "span_of cs = sum_list (map dur cs)"

definition grid_track :: "track_child list \<Rightarrow> bool" where
  "grid_track cs \<longleftrightarrow>
     list_all (\<lambda>c. on_grid (child_duration c) \<and> 0 \<le> dur c) cs \<and> span_of cs \<le> 2 ^ 20"

text \<open>The clips and nested stacks of a track, each with the time it starts at.\<close>

fun placed :: "rat \<Rightarrow> track_child list \<Rightarrow> (rat \<times> track_child) list" where
  "placed s [] = []"
| "placed s (c # cs) =
     (if is_gap c \<or> is_transition c then [] else [(s, c)]) @ placed (s + dur c) cs"

lemma total_simps [simp]:
  "span_of [] = 0" "span_of (c # cs) = dur c + span_of cs" "span_of (xs @ ys) = span_of xs + span_of ys"
  "span_of (rev xs) = span_of xs"
  by (simp_all add: span_of_def sum_list_rev flip: rev_map)

lemma placed_append [simp]: "placed s (xs @ ys) = placed s xs @ placed (s + span_of xs) ys"
  by (induction xs arbitrary: s) (simp_all add: add.assoc)

lemma total_nonneg: "list_all (\<lambda>c. on_grid (child_duration c) \<and> 0 \<le> dur c) cs \<Longrightarrow> 0 \<le> span_of cs"
  by (induction cs) simp_all

lemma grid_track_simps [simp]:
  "grid_track []"
  "grid_track (xs @ ys) \<longleftrightarrow> grid_track xs \<and> grid_track ys \<and> span_of xs + span_of ys \<le> 2 ^ 20"
  "grid_track (rev xs) = grid_track xs"
  using total_nonneg by (fastforce simp: grid_track_def)+

lemma grid_track_Cons [simp]:
  "grid_track (c # cs) \<longleftrightarrow>
     on_grid (child_duration c) \<and> 0 \<le> dur c \<and> grid_track cs \<and> dur c + span_of cs \<le> 2 ^ 20"
  using total_nonneg by (fastforce simp: grid_track_def)

lemma grid_track_total: "grid_track cs \<Longrightarrow> 0 \<le> span_of cs \<and> span_of cs \<le> 2 ^ 20"
  by (simp add: grid_track_def total_nonneg)

lemma child_in_reach: "grid_track cs \<Longrightarrow> c \<in> set cs \<Longrightarrow> in_reach (child_duration c) \<and> 0 \<le> dur c"
proof (induction cs)
  case (Cons d cs)
  then show ?case using grid_track_total [of cs] by (auto simp: in_reach_def dur_def)
qed simp

lemma sum_from_grid:
  assumes "grid_track cs" and "on_grid a" and "0 \<le> fval a" and "fval a + span_of cs \<le> 2 ^ 21"
  shows "on_grid (foldl fadd a (map child_duration cs))
    \<and> fval (foldl fadd a (map child_duration cs)) = fval a + span_of cs"
  using assms
proof (induction cs arbitrary: a)
  case (Cons c cs)
  then have c: "on_grid (child_duration c)" "0 \<le> dur c" "grid_track cs" by simp_all
  have "\<bar>fval a + fval (child_duration c)\<bar> < 2 ^ 44"
    using Cons.prems grid_track_total [OF c(3)] by (simp add: dur_def)
  note sum = fadd_grid [OF Cons.prems(2) c(1) this]
  then show ?case using Cons.IH [OF c(3) sum(1)] Cons.prems c(2) by (simp add: dur_def add.assoc)
qed simp

lemma track_time_grid:
  assumes "grid_track cs"
  shows "in_reach (fsum (map child_duration cs))" and "fval (fsum (map child_duration cs)) = span_of cs"
proof -
  have "on_grid NZero" by (simp add: on_grid_def)
  then have "on_grid (fsum (map child_duration cs)) \<and> fval (fsum (map child_duration cs)) = span_of cs"
    using sum_from_grid [OF assms, of NZero] grid_track_total [OF assms] by (simp add: fsum_def)
  then show "in_reach (fsum (map child_duration cs))" and "fval (fsum (map child_duration cs)) = span_of cs"
    using grid_track_total [OF assms] by (simp_all add: in_reach_def)
qed

lemma grid_track_take: "grid_track cs \<Longrightarrow> grid_track (take i cs)"
  by (metis append_take_drop_id grid_track_simps(2))

lemma start_of_grid:
  assumes "grid_track cs"
  shows "in_reach (start_of cs i)" and "fval (start_of cs i) = span_of (take i cs)"
  using track_time_grid [OF grid_track_take [OF assms, of i]] by (simp_all add: start_of_def)

lemma gap_on_track [simp]:
  assumes "in_reach x" and "whole_rate r"
  shows "on_grid (child_duration (gap_child x r))" and "dur (gap_child x r) = fval x"
  using gap_child_grid [OF assms] by (simp_all add: in_reach_def dur_def)

lemma is_gap_child [simp]: "is_gap (gap_child x r)" "\<not> is_clip (gap_child x r)"
  "\<not> is_transition (gap_child x r)"
  by (simp_all add: gap_child_def)

section \<open>A small timeline\<close>

text \<open>Clips of whole seconds at 24 frames per second, for concrete runs.\<close>

definition sample_clip :: "string \<Rightarrow> rat \<Rightarrow> rat \<Rightarrow> clip" where
  "sample_clip name start duration =
     (clip_empty name)\<lparr>clip_source_range :=
       Some (time_range_new (rational_time_new (Fin (24 * start)) (Fin 24))
         (rational_time_new (Fin (24 * duration)) (Fin 24)))\<rparr>"

definition sample_gap :: "rat \<Rightarrow> track_child" where
  "sample_gap duration =
     TC_Gap \<lparr>gap_name = [],
       gap_source_range = time_range_new (rational_time_new (Fin 0) (Fin 24))
         (rational_time_new (Fin (24 * duration)) (Fin 24)),
       gap_metadata = []\<rparr>"

definition sample_timeline :: "stack_child list \<Rightarrow> timeline" where
  "sample_timeline scs =
     \<lparr>tl_otio_schema = ''Timeline.1'', tl_name = ''cut'', tl_global_start_time = None,
      tl_tracks = Stack ''tracks'' scs None [],
      tl_metadata = \<lparr>tm_montage = None, tm_other = []\<rparr>\<rparr>"

definition sample_track :: "track_child list \<Rightarrow> track" where
  "sample_track cs = Track ''V1'' Video cs None []"

lemmas sample_defs = sample_clip_def sample_gap_def sample_timeline_def sample_track_def
  clip_empty_def missing_reference_default_def time_range_new_def rational_time_new_def

lemma sample_tracks [simp]: "tl_children (sample_timeline scs) = scs"
  "track_children (sample_track cs) = cs"
  by (simp_all add: tl_children_def sample_timeline_def sample_track_def)

lemma sample_seconds:
  "clip_source_range (sample_clip n s d) = Some (time_range_new
     (rational_time_new (Fin (24 * s)) (Fin 24)) (rational_time_new (Fin (24 * d)) (Fin 24)))"
  "child_duration (TC_Clip (sample_clip n s d)) = fdiv (Fin (24 * d)) (Fin 24)"
  "child_duration (sample_gap d) = fdiv (Fin (24 * d)) (Fin 24)"
  by (simp_all add: sample_defs to_seconds_def)

lemma sample_kinds [simp]:
  "is_gap (sample_gap d)" "\<not> is_transition (sample_gap d)" "\<not> is_clip (sample_gap d)"
  "clip_link_group_id (sample_clip n s d) = None"
  by (simp_all add: sample_defs clip_link_group_id_def clip_extra_str_def)

lemma sample_clip_at [simp]:
  "clip_at (sample_timeline (SC_Track tr # scs)) \<lparr>cl_track_index = 0, cl_child_index = i\<rparr> =
     (if i < length (track_children tr)
      then (case track_children tr ! i of TC_Clip c \<Rightarrow> Some c | _ \<Rightarrow> None) else None)"
  by (simp add: clip_at_def sample_timeline_def)

lemma sample_rate [simp]: "as_clip_rate (TC_Clip (sample_clip n s d)) = Some (Fin 24)"
  by (simp add: sample_defs)

lemmas sample_simps = sample_seconds fdiv_def dur_def on_grid_def unwrap_or_def
  time_range_new_def rational_time_new_def to_seconds_def

end
