(* ===== verification/Edl_Layout.thy ===== *)
theory Edl_Layout
  imports Edl_Grid
begin

text \<open>
  Where an edit puts the clips of a track: merging gaps and taking out transitions moves nothing,
  so a deletion leaves every other clip at its time, and a move to a time puts the clip there.
\<close>

section \<open>Merging gaps\<close>

text \<open>No two gaps in a row, and none of at most a millisecond.\<close>

definition gaps_merged :: "track_child list \<Rightarrow> bool" where
  "gaps_merged cs \<longleftrightarrow> successively (\<lambda>a b. \<not> (is_gap a \<and> is_gap b)) cs"

lemma merge_step_cases:
  obtains "\<not> is_gap c" "merge_step r acc c = c # acc"
  | "is_gap c" "fle (child_duration c) milli" "merge_step r acc c = acc"
  | p rest where "is_gap c" "\<not> fle (child_duration c) milli" "acc = p # rest" "is_gap p"
      "merge_step r acc c = gap_child (fadd (child_duration p) (child_duration c)) r # rest"
  | "is_gap c" "\<not> fle (child_duration c) milli" "merge_step r acc c = c # acc"
      "acc = [] \<or> \<not> is_gap (hd acc)"
proof (cases c)
  case (TC_Gap g)
  show thesis
  proof (cases "fle (child_duration c) milli")
    case True
    then show thesis using that(2) TC_Gap by (simp add: merge_step_def Let_def)
  next
    case False
    show thesis
    proof (cases "acc \<noteq> [] \<and> is_gap (hd acc)")
      case True
      then obtain p rest where "acc = TC_Gap p # rest" by (cases acc; cases "hd acc") auto
      then show thesis using that(3) [of "TC_Gap p" rest] False TC_Gap
        by (simp add: merge_step_def Let_def)
    next
      case no_gap: False
      then have "merge_step r acc c = c # acc" using False TC_Gap
        by (auto simp: merge_step_def Let_def split: list.splits track_child.splits)
      then show thesis using that(4) no_gap False TC_Gap by auto
    qed
  qed
qed (use that(1) in \<open>simp_all add: merge_step_def\<close>)

lemma merge_step_merged:
  "gaps_merged (rev acc) \<Longrightarrow> gaps_merged (rev (merge_step r acc c))"
proof (cases rule: merge_step_cases [of c r acc])
  case 1
  then show "gaps_merged (rev acc) \<Longrightarrow> ?thesis"
    by (auto simp: gaps_merged_def successively_append_iff)
next
  case 4
  then show "gaps_merged (rev acc) \<Longrightarrow> ?thesis"
    by (auto simp: gaps_merged_def successively_append_iff last_rev)
qed (auto simp: gaps_merged_def successively_append_iff)

lemma merge_step_others:
  "filter (\<lambda>x. \<not> is_gap x) (merge_step r acc c) =
     (if is_gap c then [] else [c]) @ filter (\<lambda>x. \<not> is_gap x) acc"
  by (cases rule: merge_step_cases [of c r acc]) auto

lemma merge_fold_merged:
  "gaps_merged (rev acc) \<Longrightarrow> gaps_merged (rev (foldl (merge_step r) acc cs))"
  by (induction cs arbitrary: acc) (simp_all add: merge_step_merged)

lemma merge_fold_others:
  "filter (\<lambda>x. \<not> is_gap x) (rev (foldl (merge_step r) acc cs)) =
     filter (\<lambda>x. \<not> is_gap x) (rev acc @ cs)"
  by (induction cs arbitrary: acc) (simp_all add: merge_step_others flip: rev_filter)

lemma merge_adjacent_gaps_merged: "gaps_merged (merge_adjacent_gaps cs r)"
  unfolding merge_adjacent_gaps_def by (rule merge_fold_merged) (simp add: gaps_merged_def)

lemma merge_adjacent_gaps_others:
  "filter (\<lambda>x. \<not> is_gap x) (merge_adjacent_gaps cs r) = filter (\<lambda>x. \<not> is_gap x) cs"
  unfolding merge_adjacent_gaps_def merge_fold_others by simp

lemma gap_not_placed: "is_gap c \<Longrightarrow> \<not> is_transition c"
  by (cases c) simp_all

lemma merge_step_grid:
  assumes "grid_track (rev acc @ c # cs)" and "whole_rate r"
  shows "grid_track (rev (merge_step r acc c) @ cs)
    \<and> placed s (rev (merge_step r acc c) @ cs) = placed s (rev acc @ c # cs)
    \<and> span_of (rev (merge_step r acc c) @ cs) = span_of (rev acc @ c # cs)"
proof (cases rule: merge_step_cases [of c r acc])
  case 2
  have c: "in_reach (child_duration c)" "0 \<le> dur c"
    using child_in_reach [OF assms(1), of c] by simp_all
  then have "\<bar>fval (child_duration c)\<bar> \<le> 2 ^ 21" by (simp add: in_reach_def)
  with 2(2) c have "dur c = 0"
    using near_compare(5) [of "child_duration c" "child_duration c"] by (simp add: in_reach_def dur_def)
  with 2 assms show ?thesis using gap_not_placed by (simp add: in_reach_grid [OF c(1)])
next
  case (3 p rest)
  have reach: "in_reach (child_duration c)" "in_reach (child_duration p)" and pos: "0 \<le> dur c" "0 \<le> dur p"
    using child_in_reach [OF assms(1), of c] child_in_reach [OF assms(1), of p] 3 by simp_all
  have tot: "grid_track (rev rest)" "grid_track cs" "span_of rest + dur p + (dur c + span_of cs) \<le> 2 ^ 20"
    using assms(1) 3(3) by simp_all
  then have small: "dur p + dur c \<le> 2 ^ 20"
    using grid_track_total [of "rev rest"] grid_track_total [of cs] by simp
  then have "\<bar>fval (child_duration p) + fval (child_duration c)\<bar> < 2 ^ 44"
    using pos by (simp add: dur_def)
  note sum = fadd_grid [OF in_reach_grid [OF reach(2)] in_reach_grid [OF reach(1)] this]
  have r: "in_reach (fadd (child_duration p) (child_duration c))"
    using sum small pos by (simp add: in_reach_def dur_def)
  have d: "dur (gap_child (fadd (child_duration p) (child_duration c)) r) = dur p + dur c"
    using gap_on_track(2) [OF r assms(2)] sum(2) by (simp add: dur_def)
  show ?thesis using assms 3 tot pos small gap_not_placed gap_on_track(1) [OF r assms(2)]
    by (simp add: d add.assoc)
qed (use assms in \<open>simp_all\<close>)

lemma merge_grid:
  assumes "grid_track cs" and "whole_rate r"
  shows "grid_track (merge_adjacent_gaps cs r)" and "placed s (merge_adjacent_gaps cs r) = placed s cs"
    and "span_of (merge_adjacent_gaps cs r) = span_of cs"
proof -
  have "grid_track (rev (foldl (merge_step r) acc cs))
      \<and> placed s (rev (foldl (merge_step r) acc cs)) = placed s (rev acc @ cs)
      \<and> span_of (rev (foldl (merge_step r) acc cs)) = span_of (rev acc @ cs)"
    if "grid_track (rev acc @ cs)" for acc
    using that
  proof (induction cs arbitrary: acc)
    case (Cons c cs)
    from Cons.prems have step: "grid_track (rev (merge_step r acc c) @ cs)"
      "placed s (rev (merge_step r acc c) @ cs) = placed s (rev acc @ c # cs)"
      "span_of (rev (merge_step r acc c) @ cs) = span_of (rev acc @ c # cs)"
      using merge_step_grid [OF _ assms(2)] by blast+
    from Cons.IH [OF step(1)] step(2,3) show ?case by simp
  qed simp
  from this [of "[]"] assms(1)
  show "grid_track (merge_adjacent_gaps cs r)" and "placed s (merge_adjacent_gaps cs r) = placed s cs"
    and "span_of (merge_adjacent_gaps cs r) = span_of cs"
    by (simp_all add: merge_adjacent_gaps_def)
qed

section \<open>Taking out transitions\<close>

lemma transition_child [simp]: "is_transition c \<Longrightarrow> dur c = 0" "is_transition c \<Longrightarrow> \<not> is_gap c"
  by (cases c; simp add: dur_def)+

lemma remove_transition_grid:
  assumes "i < length cs" and "is_transition (cs ! i)"
  shows "placed s (remove_at i cs) = placed s cs" and "span_of (remove_at i cs) = span_of cs"
    and "grid_track cs \<Longrightarrow> grid_track (remove_at i cs)"
proof -
  have cs: "cs = take i cs @ cs ! i # drop (Suc i) cs" using assms(1) by (rule id_take_nth_drop)
  show "placed s (remove_at i cs) = placed s cs" "span_of (remove_at i cs) = span_of cs"
    by (subst (2) cs, simp add: remove_at_def assms(2))+
  show "grid_track (remove_at i cs)" if "grid_track cs"
    using that assms(2) by (subst (asm) cs) (simp add: remove_at_def)
qed

lemma remove_transitions_grid:
  assumes "remove_transitions_around_child cs i = (n, cs')"
  shows "placed s cs' = placed s cs" and "span_of cs' = span_of cs" and "grid_track cs \<Longrightarrow> grid_track cs'"
  using assms remove_transition_grid(1) remove_transition_grid(2) remove_transition_grid(3)
  by (auto simp: remove_transitions_around_child_def Let_def split: if_splits)

section \<open>Deletion\<close>

lemma list_update_parts: "i < length xs \<Longrightarrow> xs[i := y] = take i xs @ y # drop (Suc i) xs"
  by (rule upd_conv_take_nth_drop)

text \<open>The rate the editor gives a gap in the place of a child.\<close>

definition slot_rate :: "track_child \<Rightarrow> f64" where
  "slot_rate c = unwrap_or (Fin 24) (as_clip_rate c)"

lemma whole_24 [simp]: "whole_rate (Fin 24)"
  by (simp add: whole_rate_def)

lemma blank_grid:
  assumes "grid_track cs" and "i < length cs" and "whole_rate r"
  shows "grid_track (cs[i := gap_child (child_duration (cs ! i)) r])"
    and "placed s (cs[i := gap_child (child_duration (cs ! i)) r]) =
           placed s (take i cs) @ placed (s + span_of (take (Suc i) cs)) (drop (Suc i) cs)"
    and "span_of (cs[i := gap_child (child_duration (cs ! i)) r]) = span_of cs"
proof -
  have cs: "cs = take i cs @ cs ! i # drop (Suc i) cs" using assms(2) by (rule id_take_nth_drop)
  have reach: "in_reach (child_duration (cs ! i))" "0 \<le> dur (cs ! i)"
    using child_in_reach [OF assms(1), of "cs ! i"] assms(2) by simp_all
  note gap = gap_on_track [OF reach(1) assms(3)]
  have d: "dur (gap_child (child_duration (cs ! i)) r) = dur (cs ! i)" using gap(2) by (simp add: dur_def)
  have parts: "grid_track (take i cs)" "grid_track (drop (Suc i) cs)"
    "span_of (take i cs) + (dur (cs ! i) + span_of (drop (Suc i) cs)) \<le> 2 ^ 20"
    "dur (cs ! i) + span_of (drop (Suc i) cs) \<le> 2 ^ 20"
    using assms(1) by (subst (asm) cs, simp)+
  show "grid_track (cs[i := gap_child (child_duration (cs ! i)) r])"
    using parts reach gap(1) assms(2) by (simp add: list_update_parts d)
  show "placed s (cs[i := gap_child (child_duration (cs ! i)) r]) =
      placed s (take i cs) @ placed (s + span_of (take (Suc i) cs)) (drop (Suc i) cs)"
    using assms(2) by (simp add: list_update_parts d take_Suc_conv_app_nth add.assoc)
  show "span_of (cs[i := gap_child (child_duration (cs ! i)) r]) = span_of cs"
    using assms(2) by (subst (3) cs) (simp add: list_update_parts d)
qed

lemma apply_delete_run:
  assumes "clip_at tml l = Some c" and "tl_children tml ! cl_track_index l = SC_Track tr"
    and "remove_transitions_around_child
      ((track_children tr)[cl_child_index l :=
         gap_child (child_duration (TC_Clip c)) (slot_rate (TC_Clip c))]) (cl_child_index l) = (n, pruned)"
  shows "\<exists>descr. apply_delete index (Some l) tml =
    Inr (descr, remove_cut_boundaries_for_clip (clip_id c)
      (with_track_children (cl_track_index l)
        (merge_adjacent_gaps pruned (slot_rate (TC_Clip c))) tml))"
  using assms(2,3)
  by (rule_tac clip_atE [OF assms(1)]) (auto simp: apply_delete_def required_locator_def slot_rate_def Let_def vec_get_def)

lemma tl_children_remove_cuts [simp]: "tl_children (remove_cut_boundaries_for_clip i t) = tl_children t"
  by (simp add: remove_cut_boundaries_for_clip_def)

text \<open>C27: Deleting a clip leaves a gap: every other clip and nested stack of the track stays at its
  time, the track keeps its length, gaps are merged, and the other tracks are untouched.\<close>

theorem delete_keeps_the_rest_in_place:
  assumes "clip_at tml l = Some c" and "tl_children tml ! cl_track_index l = SC_Track tr"
    and "grid_track (track_children tr)" and "whole_rate (slot_rate (TC_Clip c))"
  shows "\<exists>note tml' cs' before after.
    apply_delete index (Some l) tml = Inr (note, tml')
    \<and> tl_children tml' = (tl_children tml)[cl_track_index l := SC_Track (track_with_children cs' tr)]
    \<and> placed 0 (track_children tr) =
        before @ (span_of (take (cl_child_index l) (track_children tr)), TC_Clip c) # after
    \<and> placed 0 cs' = before @ after
    \<and> span_of cs' = span_of (track_children tr)
    \<and> gaps_merged cs'"
proof -
  let ?cs = "track_children tr" and ?i = "cl_child_index l" and ?r = "slot_rate (TC_Clip c)"
  from clip_atE [OF assms(1)] assms(2) have i: "?i < length ?cs" and c: "?cs ! ?i = TC_Clip c" by auto
  obtain n pruned where rem: "remove_transitions_around_child
      (?cs[?i := gap_child (child_duration (TC_Clip c)) ?r]) ?i = (n, pruned)" by fastforce
  obtain descr where run: "apply_delete index (Some l) tml =
    Inr (descr, remove_cut_boundaries_for_clip (clip_id c)
      (with_track_children (cl_track_index l) (merge_adjacent_gaps pruned ?r) tml))"
    using apply_delete_run [OF assms(1,2) rem] by blast
  note blank = blank_grid [OF assms(3) i assms(4), unfolded c]
  note pruned = remove_transitions_grid [OF rem]
  note merged = merge_grid [OF pruned(3) [OF blank(1)] assms(4)]
  have cs: "?cs = take ?i ?cs @ TC_Clip c # drop (Suc ?i) ?cs" using id_take_nth_drop [OF i] c by simp
  have "placed 0 ?cs = placed 0 (take ?i ?cs) @ (span_of (take ?i ?cs), TC_Clip c)
      # placed (span_of (take (Suc ?i) ?cs)) (drop (Suc ?i) ?cs)"
    by (subst cs) (simp add: take_Suc_conv_app_nth i c)
  moreover have "placed 0 (merge_adjacent_gaps pruned ?r) =
      placed 0 (take ?i ?cs) @ placed (span_of (take (Suc ?i) ?cs)) (drop (Suc ?i) ?cs)"
    using merged(2) [of 0] pruned(1) [of 0] blank(2) [of 0] by simp
  moreover have "span_of (merge_adjacent_gaps pruned ?r) = span_of ?cs"
    using merged(3) pruned(2) blank(3) by simp
  ultimately show ?thesis
    using run merge_adjacent_gaps_merged [of pruned ?r] assms(2) by (auto simp: tl_children_with_track)
qed

theorem delete_keeps_the_rest_in_place_witness:
  "\<exists>note tml' cs' before after.
    apply_delete 0 (Some \<lparr>cl_track_index = 0, cl_child_index = 1\<rparr>)
      (sample_timeline [SC_Track (sample_track
         [TC_Clip (sample_clip ''a'' 0 5), TC_Clip (sample_clip ''b'' 2 3), sample_gap 7])])
      = Inr (note, tml')
    \<and> tl_children tml' = [SC_Track (track_with_children cs' (sample_track
         [TC_Clip (sample_clip ''a'' 0 5), TC_Clip (sample_clip ''b'' 2 3), sample_gap 7]))]
    \<and> [(0, TC_Clip (sample_clip ''a'' 0 5)), (5, TC_Clip (sample_clip ''b'' 2 3))]
        = before @ (5, TC_Clip (sample_clip ''b'' 2 3)) # after
    \<and> placed 0 cs' = before @ after \<and> span_of cs' = 15 \<and> gaps_merged cs'"
  using delete_keeps_the_rest_in_place
    [of "sample_timeline [SC_Track (sample_track
           [TC_Clip (sample_clip ''a'' 0 5), TC_Clip (sample_clip ''b'' 2 3), sample_gap 7])]"
        "\<lparr>cl_track_index = 0, cl_child_index = 1\<rparr>" "sample_clip ''b'' 2 3"
        "sample_track [TC_Clip (sample_clip ''a'' 0 5), TC_Clip (sample_clip ''b'' 2 3), sample_gap 7]" 0]
  by (simp add: sample_simps slot_rate_def del: as_clip_rate.simps)

end
