(* ===== verification/Edl_Placement.thy ===== *)
theory Edl_Placement
  imports Edl_Layout
begin

text \<open>
  Moving a clip to a time and trimming with a ripple, on the grid: where the clips of the track end
  up.
\<close>

section \<open>Placing a child at a time\<close>

lemma cursor_step:
  assumes "grid_track (c # cs)" and "on_grid a" and "0 \<le> fval a" and "fval a + span_of (c # cs) \<le> 2 ^ 20"
  shows "on_grid (fadd a (child_duration c))" and "fval (fadd a (child_duration c)) = fval a + dur c"
    and "0 \<le> fval a + dur c" and "fval a + dur c + span_of cs \<le> 2 ^ 20"
proof -
  have c: "on_grid (child_duration c)" "0 \<le> dur c" "0 \<le> span_of cs"
    using assms(1) grid_track_total [of cs] by simp_all
  then have "\<bar>fval a + fval (child_duration c)\<bar> < 2 ^ 44" using assms(3,4) by (simp add: dur_def)
  from fadd_grid [OF assms(2) c(1) this] assms(3,4) c
  show "on_grid (fadd a (child_duration c))" and "fval (fadd a (child_duration c)) = fval a + dur c"
    and "0 \<le> fval a + dur c" and "fval a + dur c + span_of cs \<le> 2 ^ 20"
    by (simp_all add: dur_def)
qed

text \<open>Past the children that end by the target.\<close>

lemma insert_child_skip:
  assumes "grid_track (pre @ cs)" and "on_grid a" and "0 \<le> fval a"
    and "fval a + span_of (pre @ cs) \<le> 2 ^ 20" and "on_grid t" and "\<bar>fval t\<bar> \<le> 2 ^ 21"
    and "(\<forall>c \<in> set pre. 0 < dur c) \<or> fval a + span_of pre < fval t"
    and "fval a + span_of pre \<le> fval t"
  shows "\<exists>a'. on_grid a' \<and> fval a' = fval a + span_of pre
    \<and> insert_child_from child t d r a (pre @ cs) = pre @ insert_child_from child t d r a' cs"
  using assms
proof (induction pre arbitrary: a)
  case Nil
  then show ?case by auto
next
  case (Cons c pre)
  note step = cursor_step [of c "pre @ cs" a]
  have grid: "grid_track (c # (pre @ cs))" and reach: "fval a + span_of (c # (pre @ cs)) \<le> 2 ^ 20"
    using Cons.prems by simp_all
  note end' = step [OF grid Cons.prems(2,3) reach]
  have nonneg: "0 \<le> span_of pre" "0 \<le> span_of cs" "grid_track (pre @ cs)" "0 \<le> dur c"
    using grid grid_track_total [of pre] grid_track_total [of cs] by simp_all
  have small: "\<bar>fval a\<bar> \<le> 2 ^ 21" "\<bar>fval (fadd a (child_duration c))\<bar> \<le> 2 ^ 21"
    using Cons.prems(3,4) nonneg end'(2-4) by simp_all
  have "\<not> fle t (fadd a milli)"
    unfolding near_compare(1) [OF Cons.prems(2,5) small(1)]
    using Cons.prems(7,8) nonneg(1,4) by auto
  moreover have "\<not> flt t (fsub (fadd a (child_duration c)) milli)"
    unfolding near_compare(3) [OF end'(1) Cons.prems(5) small(2)] end'(2)
    using Cons.prems(8) nonneg(1) by simp
  ultimately have here: "insert_child_from child t d r a ((c # pre) @ cs) =
      c # insert_child_from child t d r (fadd a (child_duration c)) (pre @ cs)"
    by (simp add: Let_def)
  have "\<exists>a'. on_grid a' \<and> fval a' = fval (fadd a (child_duration c)) + span_of pre
      \<and> insert_child_from child t d r (fadd a (child_duration c)) (pre @ cs)
        = pre @ insert_child_from child t d r a' cs"
    using Cons.prems end' nonneg by (intro Cons.IH) auto
  then show ?case unfolding here using end'(2) by (auto simp: add.assoc)
qed

lemma insert_child_into_gap:
  assumes "grid_track (g # post)" and "is_gap g" and "on_grid a" and "0 \<le> fval a"
    and "fval a + span_of (g # post) \<le> 2 ^ 20" and "in_reach t" and "in_reach d" and "0 < fval d"
    and "whole_rate r" and "fval a < fval t" and "fval t + fval d \<le> fval a + dur g"
    and "dur child = fval d" and "on_grid (child_duration child)"
  shows "\<exists>cs'. insert_child_from child t d r a (g # post) = cs' @ post
    \<and> grid_track (cs' @ post) \<and> span_of cs' = dur g
    \<and> placed s cs' = (if is_gap child \<or> is_transition child then [] else [(s + fval t - fval a, child)])"
proof -
  note end' = cursor_step [OF assms(1,3,4,5)]
  have nonneg: "0 \<le> span_of post" "grid_track post" "dur g + span_of post \<le> 2 ^ 20" "0 \<le> dur g"
    using assms(1) grid_track_total [of post] by simp_all
  have t: "on_grid t" "on_grid d" "\<bar>fval t\<bar> \<le> 2 ^ 20" "\<bar>fval d\<bar> \<le> 2 ^ 20"
    using assms(6,7) by (simp_all add: in_reach_def)
  define e where "e = fadd a (child_duration g)"
  have e: "on_grid e" "fval e = fval a + dur g" using end' by (simp_all add: e_def)
  have small: "\<bar>fval a\<bar> \<le> 2 ^ 21" "\<bar>fval e\<bar> \<le> 2 ^ 21" using assms(4,5) nonneg e(2) end'(3,4) by simp_all
  have c1: "\<not> fle t (fadd a milli)"
    unfolding near_compare(1) [OF assms(3) t(1) small(1)] using assms(10) by simp
  have c2: "flt t (fsub e milli)"
    unfolding near_compare(3) [OF e(1) t(1) small(2)] e(2) using assms(8,11) by simp
  define b where "b = fsub t a"
  define q where "q = fsub (fsub e t) d"
  have b: "on_grid b" "fval b = fval t - fval a"
    unfolding b_def using fsub_grid [OF t(1) assms(3)] t(3) small(1) by simp_all
  have et: "on_grid (fsub e t)" "fval (fsub e t) = fval e - fval t"
    using fsub_grid [OF e(1) t(1)] t(3) small(2) by simp_all
  have q: "on_grid q" "fval q = fval e - fval t - fval d"
    unfolding q_def using fsub_grid [OF et(1) t(2)] t(3,4) small(2) et(2) by simp_all
  have bq: "in_reach b" "in_reach q" "0 < fval b" "0 \<le> fval q"
    using b q e(2) assms(4,5,8,10,11) t(3) nonneg end'(3,4) by (simp_all add: in_reach_def)
  have max0: "fmax b (Fin 0) = b" "fmax q (Fin 0) = q"
    using bq on_grid_finite [OF b(1)] on_grid_finite [OF q(1)]
    by (simp_all add: fmax_def finite_compare)
  have pos: "flt milli b" "flt milli q \<longleftrightarrow> 0 < fval q"
    using near_compare(4) [OF b(1) b(1)] near_compare(4) [OF q(1) q(1)] bq by (simp_all add: in_reach_def)
  define tail where "tail = (if 0 < fval q then [gap_child q r] else [])"
  have run: "insert_child_from child t d r a (g # post) = (gap_child b r # child # tail) @ post"
    using c1 c2 assms(2) pos max0
    by (simp add: Let_def tail_def flip: e_def b_def q_def)
  have "span_of tail = fval q" using bq(4) gap_on_track(2) [OF bq(2) assms(9)] by (simp add: tail_def)
  moreover have "grid_track tail"
    using bq gap_on_track [OF bq(2) assms(9)] by (simp add: tail_def in_reach_def)
  moreover have "placed x tail = []" for x by (simp add: tail_def)
  ultimately show ?thesis
    unfolding run using gap_on_track [OF bq(1) assms(9)] assms(8,12,13) bq nonneg b(2) q(2) e(2)
    by (intro exI [of _ "gap_child b r # child # tail"]) (auto simp: add.assoc)
qed

section \<open>Move to a time\<close>

text \<open>The children while a clip is being moved: a gap where it was.\<close>

definition blanked :: "track_child list \<Rightarrow> nat \<Rightarrow> track_child list" where
  "blanked cs i = cs[i := gap_child (child_duration (cs ! i)) (slot_rate (cs ! i))]"

definition moves_clip :: "timeline \<Rightarrow> clip_locator \<Rightarrow> clip \<Rightarrow> track \<Rightarrow> f64 \<Rightarrow> bool" where
  "moves_clip tml l c tr t \<longleftrightarrow>
     clip_at tml l = Some c \<and> tl_children tml ! cl_track_index l = SC_Track tr
     \<and> grid_track (track_children tr) \<and> whole_rate (slot_rate (TC_Clip c))
     \<and> 0 < dur (TC_Clip c) \<and> in_reach t \<and> 0 \<le> fval t
     \<and> 1 / 50 < \<bar>fval t - span_of (take (cl_child_index l) (track_children tr))\<bar>"

lemma hundredth: "f64_lit (1 / 100) = Fin (5764607523034235 / 576460752303423488)"
  by (simp add: f64_lit_def rnd_hundredth)

lemma move_run:
  assumes "moves_clip tml l c tr t"
    and "cs' = merge_adjacent_gaps (insert_child_at_time (blanked (track_children tr) (cl_child_index l))
      (TC_Clip c) t (child_duration (TC_Clip c)) (slot_rate (TC_Clip c))) (slot_rate (TC_Clip c))"
  shows "\<exists>descr. apply_move_clip index pos (Some t) None (Some l) tml =
    Inr (descr, with_track_children (cl_track_index l) cs' tml)"
proof -
  let ?cs = "track_children tr" and ?i = "cl_child_index l"
  from assms(1) have m: "clip_at tml l = Some c" "tl_children tml ! cl_track_index l = SC_Track tr"
    "grid_track ?cs" "0 < dur (TC_Clip c)" "in_reach t" "0 \<le> fval t"
    "1 / 50 < \<bar>fval t - span_of (take ?i ?cs)\<bar>" by (simp_all add: moves_clip_def)
  from clip_atE [OF m(1)] m(2) have i: "?i < length ?cs" "?cs ! ?i = TC_Clip c"
    "cl_track_index l < length (tl_children tml)" by auto
  have fin: "is_finite t" "is_finite (child_duration (TC_Clip c))"
    using m(5) child_in_reach [OF m(3), of "TC_Clip c"] i nth_mem [OF i(1)]
    by (auto simp: in_reach_def on_grid_def)
  have ok: "is_finite t \<and> \<not> flt t (Fin 0)" "\<not> fle (child_duration (TC_Clip c)) (Fin 0)"
    using m(4,6) fin by (simp_all add: finite_compare dur_def)
  have s: "on_grid (start_of ?cs ?i)" "\<bar>fval (start_of ?cs ?i)\<bar> \<le> 2 ^ 20"
    "fval (start_of ?cs ?i) = span_of (take ?i ?cs)"
    using start_of_grid [OF m(3), of ?i] by (simp_all add: in_reach_def)
  have "\<bar>fval t - fval (start_of ?cs ?i)\<bar> < 2 ^ 44"
    using s(2) m(5) by (simp add: in_reach_def abs_if split: if_splits)
  note diff = fsub_grid [OF in_reach_grid [OF m(5)] s(1) this]
  have far: "\<not> flt (fabs (fsub t (start_of ?cs ?i))) (f64_lit (1 / 100))"
    using m(7) by (simp add: hundredth finite_compare diff on_grid_finite fval_fabs s(3))
  show ?thesis unfolding assms(2)
    using m(2) i ok far
    by (auto simp: apply_move_clip_def apply_move_clip_to_time_def required_locator_def map_transpose_def
        resolve_snap_time_def Let_def vec_get_def blanked_def slot_rate_def)
qed

lemma blanked_grid:
  assumes "moves_clip tml l c tr t"
  shows "grid_track (blanked (track_children tr) (cl_child_index l))"
    and "placed 0 (track_children tr) =
      placed 0 (take (cl_child_index l) (track_children tr))
        @ (span_of (take (cl_child_index l) (track_children tr)), TC_Clip c)
        # placed (span_of (take (Suc (cl_child_index l)) (track_children tr)))
            (drop (Suc (cl_child_index l)) (track_children tr))"
    and "placed 0 (blanked (track_children tr) (cl_child_index l)) =
      placed 0 (take (cl_child_index l) (track_children tr))
        @ placed (span_of (take (Suc (cl_child_index l)) (track_children tr)))
            (drop (Suc (cl_child_index l)) (track_children tr))"
    and "span_of (blanked (track_children tr) (cl_child_index l)) = span_of (track_children tr)"
    and "in_reach (child_duration (TC_Clip c))"
proof -
  let ?cs = "track_children tr" and ?i = "cl_child_index l"
  from assms have m: "clip_at tml l = Some c" "tl_children tml ! cl_track_index l = SC_Track tr"
    "grid_track ?cs" "whole_rate (slot_rate (TC_Clip c))" by (simp_all add: moves_clip_def)
  from clip_atE [OF m(1)] m(2) have i: "?i < length ?cs" and c: "?cs ! ?i = TC_Clip c" by auto
  show "grid_track (blanked ?cs ?i)" "span_of (blanked ?cs ?i) = span_of ?cs"
    using blank_grid(1,3) [OF m(3) i] m(4) c by (simp_all add: blanked_def)
  show "placed 0 (blanked ?cs ?i) = placed 0 (take ?i ?cs)
      @ placed (span_of (take (Suc ?i) ?cs)) (drop (Suc ?i) ?cs)"
    using blank_grid(2) [OF m(3) i] m(4) c by (simp add: blanked_def)
  have "?cs = take ?i ?cs @ TC_Clip c # drop (Suc ?i) ?cs" using id_take_nth_drop [OF i] c by simp
  then have "placed 0 ?cs = placed 0 (take ?i ?cs @ TC_Clip c # drop (Suc ?i) ?cs)" by metis
  then show "placed 0 ?cs = placed 0 (take ?i ?cs) @ (span_of (take ?i ?cs), TC_Clip c)
      # placed (span_of (take (Suc ?i) ?cs)) (drop (Suc ?i) ?cs)"
    by (simp add: take_Suc_conv_app_nth i c)
  show "in_reach (child_duration (TC_Clip c))" using child_in_reach [OF m(3), of "TC_Clip c"] nth_mem [OF i] c by metis
qed

lemma split_at_gap:
  assumes "k < length cs" and "is_gap (cs ! k)"
  obtains pre g post where "cs = pre @ g # post" "is_gap g" "pre = take k cs"
    "span_of (take (Suc k) cs) = span_of pre + dur g"
  using assms that [of "take k cs" "cs ! k" "drop (Suc k) cs"]
  by (simp add: id_take_nth_drop [symmetric] take_Suc_conv_app_nth)

lemma clip_into_gap:
  assumes "moves_clip tml l c tr t"
    and "k < length (track_children tr)" and "blank = blanked (track_children tr) (cl_child_index l)"
    and "is_gap (blank ! k)" and "span_of (take k blank) < fval t"
    and "fval t + dur (TC_Clip c) \<le> span_of (take (Suc k) blank)"
  shows "\<exists>descr tml' cs' before after.
    apply_move_clip index pos (Some t) None (Some l) tml = Inr (descr, tml')
    \<and> tl_children tml' = (tl_children tml)[cl_track_index l := SC_Track (track_with_children cs' tr)]
    \<and> placed 0 blank = before @ after
    \<and> placed 0 cs' = before @ (fval t, TC_Clip c) # after
    \<and> span_of cs' = span_of (track_children tr) \<and> gaps_merged cs'"
proof -
  let ?d = "child_duration (TC_Clip c)" and ?r = "slot_rate (TC_Clip c)"
  note blank = blanked_grid [OF assms(1), folded assms(3)]
  have m: "whole_rate ?r" "0 < dur (TC_Clip c)" "in_reach t" "0 \<le> fval t"
    "tl_children tml ! cl_track_index l = SC_Track tr" using assms(1) by (simp_all add: moves_clip_def)
  have "k < length blank" using assms(2,3) by (simp add: blanked_def)
  from split_at_gap [OF this assms(4)] obtain pre g post where
    parts: "blank = pre @ g # post" "is_gap g" "pre = take k blank"
      "span_of (take (Suc k) blank) = span_of pre + dur g" by blast
  have grids: "grid_track (pre @ g # post)" "grid_track (g # post)" "grid_track pre"
    "span_of pre + span_of (g # post) \<le> 2 ^ 20" using blank(1) parts(1) by simp_all
  have t: "on_grid t" "\<bar>fval t\<bar> \<le> 2 ^ 21" using m(3) by (simp_all add: in_reach_def)
  have zero: "on_grid (Fin 0)" by (simp add: on_grid_def)
  have "\<exists>a'. on_grid a' \<and> fval a' = fval (Fin 0) + span_of pre
      \<and> insert_child_from (TC_Clip c) t ?d ?r (Fin 0) (pre @ g # post)
        = pre @ insert_child_from (TC_Clip c) t ?d ?r a' (g # post)"
    using grids assms(5) parts(3) by (intro insert_child_skip [OF grids(1) zero _ _ t]) simp_all
  then obtain a where a: "on_grid a" "fval a = span_of pre"
    "insert_child_at_time blank (TC_Clip c) t ?d ?r = pre @ insert_child_from (TC_Clip c) t ?d ?r a (g # post)"
    by (auto simp: insert_child_at_time_def parts(1))
  obtain mid where mid: "insert_child_from (TC_Clip c) t ?d ?r a (g # post) = mid @ post"
    "grid_track (mid @ post)" "span_of mid = dur g"
    "placed (span_of pre) mid = [(span_of pre + fval t - fval a, TC_Clip c)]"
    using insert_child_into_gap [OF grids(2) parts(2) a(1) _ _ m(3) blank(5) _ m(1), of "TC_Clip c" "span_of pre"]
      grids grid_track_total [OF grids(3)] a(2) m(2) assms(5,6) parts(3,4) in_reach_grid [OF blank(5)]
    by (auto simp: dur_def)
  have placed_list: "grid_track (pre @ mid @ post)" using grids mid by simp
  note merged = merge_grid [OF placed_list m(1)]
  obtain descr where run: "apply_move_clip index pos (Some t) None (Some l) tml =
      Inr (descr, with_track_children (cl_track_index l) (merge_adjacent_gaps (pre @ mid @ post) ?r) tml)"
    using move_run [OF assms(1) refl, of index pos] a(3) mid(1) assms(3) by auto
  have "placed 0 blank = placed 0 pre @ placed (span_of pre + dur g) post"
    using parts(1,2) gap_not_placed by simp
  moreover have "placed 0 (merge_adjacent_gaps (pre @ mid @ post) ?r) =
      placed 0 pre @ (fval t, TC_Clip c) # placed (span_of pre + dur g) post"
    using merged(2) [of 0] mid a(2) by simp
  moreover have "span_of (merge_adjacent_gaps (pre @ mid @ post) ?r) = span_of (track_children tr)"
    using merged(3) mid(3) parts(1) blank(4) by simp
  ultimately show ?thesis
    using run m(5) merge_adjacent_gaps_merged [of "pre @ mid @ post" ?r]
    by (intro exI conjI) (auto simp: tl_children_with_track)
qed

text \<open>C28: A clip moved to a time inside a gap with room for it starts exactly at that time; every
  other clip of the track stays where it was and the track keeps its length.\<close>

theorem move_into_gap_disturbs_nothing:
  assumes "moves_clip tml l c tr t"
    and "k < length (track_children tr)" and "blank = blanked (track_children tr) (cl_child_index l)"
    and "is_gap (blank ! k)" and "span_of (take k blank) < fval t"
    and "fval t + dur (TC_Clip c) \<le> span_of (take (Suc k) blank)"
  shows "\<exists>descr tml' cs' before after.
    apply_move_clip index pos (Some t) None (Some l) tml = Inr (descr, tml')
    \<and> tl_children tml' = (tl_children tml)[cl_track_index l := SC_Track (track_with_children cs' tr)]
    \<and> placed 0 blank = before @ after
    \<and> placed 0 cs' = before @ (fval t, TC_Clip c) # after
    \<and> span_of cs' = span_of (track_children tr) \<and> gaps_merged cs'"
  using clip_into_gap [OF assms] .

lemma placed_shift: "placed (s + d) cs = map (\<lambda>(t, c). (t + d, c)) (placed s cs)"
proof (induction cs arbitrary: s)
  case (Cons c cs)
  from Cons.IH [of "s + dur c"] show ?case by (simp add: ac_simps)
qed simp

text \<open>A clip moved to the very start of a gap, as snapping to the end of the clip before it does,
  does not use the gap: everything from the gap on is pushed later by the length of the clip,
  although the gap has room for it.\<close>

theorem move_to_gap_start_pushes_the_rest:
  assumes "moves_clip tml l c tr t"
    and "k < length (track_children tr)" and "blank = blanked (track_children tr) (cl_child_index l)"
    and "is_gap (blank ! k)" and "span_of (take k blank) = fval t"
    and "fval t + dur (TC_Clip c) \<le> span_of (take (Suc k) blank)"
    and "\<forall>x \<in> set (take k blank). 0 < dur x"
    and "span_of (track_children tr) + dur (TC_Clip c) \<le> 2 ^ 20"
  shows "\<exists>descr tml' cs' before after.
    apply_move_clip index pos (Some t) None (Some l) tml = Inr (descr, tml')
    \<and> tl_children tml' = (tl_children tml)[cl_track_index l := SC_Track (track_with_children cs' tr)]
    \<and> placed 0 blank = before @ after
    \<and> placed 0 cs' = before @ (fval t, TC_Clip c) # map (\<lambda>(s, x). (s + dur (TC_Clip c), x)) after
    \<and> span_of cs' = span_of (track_children tr) + dur (TC_Clip c)"
proof -
  let ?d = "child_duration (TC_Clip c)" and ?r = "slot_rate (TC_Clip c)"
  note blank = blanked_grid [OF assms(1), folded assms(3)]
  have m: "whole_rate ?r" "0 < dur (TC_Clip c)" "in_reach t" "0 \<le> fval t"
    "tl_children tml ! cl_track_index l = SC_Track tr" using assms(1) by (simp_all add: moves_clip_def)
  have "k < length blank" using assms(2,3) by (simp add: blanked_def)
  from split_at_gap [OF this assms(4)] obtain pre g post where
    parts: "blank = pre @ g # post" "is_gap g" "pre = take k blank"
      "span_of (take (Suc k) blank) = span_of pre + dur g" by blast
  have start: "span_of pre = fval t" unfolding parts(3) by (rule assms(5))
  have grids: "grid_track (pre @ g # post)" "grid_track (g # post)" "grid_track pre"
    "span_of pre + span_of (g # post) \<le> 2 ^ 20" using blank(1) parts(1) by simp_all
  have t: "on_grid t" "\<bar>fval t\<bar> \<le> 2 ^ 21" using m(3) by (simp_all add: in_reach_def)
  have zero: "on_grid (Fin 0)" by (simp add: on_grid_def)
  have "\<exists>a'. on_grid a' \<and> fval a' = fval (Fin 0) + span_of pre
      \<and> insert_child_from (TC_Clip c) t ?d ?r (Fin 0) (pre @ g # post)
        = pre @ insert_child_from (TC_Clip c) t ?d ?r a' (g # post)"
    using grids start assms(7) parts(3) by (intro insert_child_skip [OF grids(1) zero _ _ t]) simp_all
  then obtain a where a: "on_grid a" "fval a = fval t"
    "insert_child_at_time blank (TC_Clip c) t ?d ?r = pre @ insert_child_from (TC_Clip c) t ?d ?r a (g # post)"
    using start by (auto simp: insert_child_at_time_def parts(1))
  have "fle t (fadd a milli)" using near_compare(1) [OF a(1) t(1)] t(2) a(2) by simp
  then have placed_at: "insert_child_at_time blank (TC_Clip c) t ?d ?r = pre @ TC_Clip c # g # post"
    using a(3) by (simp add: Let_def)
  have placed_list: "grid_track (pre @ TC_Clip c # g # post)"
    using grids m(2) assms(8) blank(4) in_reach_grid [OF blank(5)] grid_track_total [OF grids(2)]
      grid_track_total [OF grids(3)]
    by (simp add: parts(1) del: child_duration.simps)
  note merged = merge_grid [OF placed_list m(1)]
  obtain descr where run: "apply_move_clip index pos (Some t) None (Some l) tml =
      Inr (descr, with_track_children (cl_track_index l)
        (merge_adjacent_gaps (pre @ TC_Clip c # g # post) ?r) tml)"
    using move_run [OF assms(1) refl, of index pos] placed_at assms(3) by auto
  have "placed 0 blank = placed 0 pre @ placed (span_of pre) (g # post)" using parts(1) by simp
  moreover have "placed 0 (merge_adjacent_gaps (pre @ TC_Clip c # g # post) ?r) =
      placed 0 pre @ (fval t, TC_Clip c)
        # map (\<lambda>(s, x). (s + dur (TC_Clip c), x)) (placed (span_of pre) (g # post))"
    unfolding merged(2) placed_append placed_shift [symmetric] using start
    by (simp del: child_duration.simps)
  moreover have "span_of (merge_adjacent_gaps (pre @ TC_Clip c # g # post) ?r) =
      span_of (track_children tr) + dur (TC_Clip c)"
    using merged(3) parts(1) blank(4) by simp
  ultimately show ?thesis using run m(5)
    by (intro exI conjI) (auto simp: tl_children_with_track)
qed

section \<open>Concrete moves\<close>

definition three_clips :: track where
  "three_clips = sample_track [TC_Clip (sample_clip ''a'' 0 5), sample_gap 20, TC_Clip (sample_clip ''b'' 0 3),
     TC_Clip (sample_clip ''c'' 0 4)]"

lemma three_clips_moves:
  "fval t = 10 \<or> fval t = 5 \<Longrightarrow> is_finite t \<Longrightarrow>
     moves_clip (sample_timeline [SC_Track three_clips]) \<lparr>cl_track_index = 0, cl_child_index = 2\<rparr>
       (sample_clip ''b'' 0 3) three_clips t"
  "length (track_children three_clips) = 4" "span_of (track_children three_clips) = 32"
  "blanked (track_children three_clips) 2 =
     [TC_Clip (sample_clip ''a'' 0 5), sample_gap 20, gap_child (Fin 3) (Fin 24),
      TC_Clip (sample_clip ''c'' 0 4)]"
  by (auto simp: moves_clip_def three_clips_def sample_simps slot_rate_def in_reach_def blanked_def
      simp del: as_clip_rate.simps)

theorem move_into_gap_disturbs_nothing_witness:
  "\<exists>descr tml' cs' before after.
    apply_move_clip 0 0 (Some (Fin 10)) None (Some \<lparr>cl_track_index = 0, cl_child_index = 2\<rparr>)
      (sample_timeline [SC_Track three_clips]) = Inr (descr, tml')
    \<and> tl_children tml' = [SC_Track (track_with_children cs' three_clips)]
    \<and> [(0, TC_Clip (sample_clip ''a'' 0 5)), (28, TC_Clip (sample_clip ''c'' 0 4))] = before @ after
    \<and> placed 0 cs' = before @ (10, TC_Clip (sample_clip ''b'' 0 3)) # after
    \<and> span_of cs' = 32 \<and> gaps_merged cs'"
  using move_into_gap_disturbs_nothing [OF three_clips_moves(1), of "Fin 10" 1, OF _ _ _ refl, of 0 0]
  by (simp add: three_clips_moves sample_simps gap_child_def gap_of_duration_def fmul_def rational_time_zero_def)

theorem move_to_gap_start_pushes_the_rest_witness:
  "\<exists>descr tml' cs' before after.
    apply_move_clip 0 0 (Some (Fin 5)) None (Some \<lparr>cl_track_index = 0, cl_child_index = 2\<rparr>)
      (sample_timeline [SC_Track three_clips]) = Inr (descr, tml')
    \<and> tl_children tml' = [SC_Track (track_with_children cs' three_clips)]
    \<and> [(0, TC_Clip (sample_clip ''a'' 0 5)), (28, TC_Clip (sample_clip ''c'' 0 4))] = before @ after
    \<and> placed 0 cs' = before @ (5, TC_Clip (sample_clip ''b'' 0 3)) # map (\<lambda>(s, x). (s + 3, x)) after
    \<and> span_of cs' = 35"
  using move_to_gap_start_pushes_the_rest [OF three_clips_moves(1), of "Fin 5" 1, OF _ _ _ refl, of 0 0]
  by (simp add: three_clips_moves sample_simps gap_child_def gap_of_duration_def fmul_def rational_time_zero_def)

end
