(* ===== verification/Edl_Ripple.thy ===== *)
theory Edl_Ripple
  imports Edl_Placement
begin

text \<open>
  The ripple edits on the grid: what happens to the clips after the one edited.
\<close>

section \<open>Clips on the grid\<close>

text \<open>A clip whose source range is on the grid, at a whole rate.\<close>

definition grid_clip :: "clip \<Rightarrow> bool" where
  "grid_clip c \<longleftrightarrow>
     (\<exists>r. clip_source_range c = Some r \<and> whole_rate (rt_rate (tr_start_time r))
       \<and> in_reach (to_seconds (tr_start_time r)) \<and> in_reach (to_seconds (tr_duration r))
       \<and> 0 \<le> fval (to_seconds (tr_start_time r)) \<and> 0 \<le> fval (to_seconds (tr_duration r))
       \<and> fval (to_seconds (tr_start_time r)) + fval (to_seconds (tr_duration r)) \<le> 2 ^ 20)"

text \<open>Start and end in the source, as rational seconds.\<close>

definition src_start :: "clip \<Rightarrow> rat" where
  "src_start c = (case clip_source_range c of None \<Rightarrow> 0 | Some r \<Rightarrow> fval (to_seconds (tr_start_time r)))"

definition src_end :: "clip \<Rightarrow> rat" where
  "src_end c = src_start c + dur (TC_Clip c)"

lemma grid_clip_ends:
  assumes "grid_clip c" and "clip_source_range c = Some r"
  shows "whole_rate (rt_rate (tr_start_time r))"
    and "in_reach (to_seconds (tr_start_time r))" "fval (to_seconds (tr_start_time r)) = src_start c"
    and "in_reach (fadd (to_seconds (tr_start_time r)) (to_seconds (tr_duration r)))"
    and "fval (fadd (to_seconds (tr_start_time r)) (to_seconds (tr_duration r))) = src_end c"
    and "0 \<le> src_start c" "src_start c \<le> src_end c" "src_end c \<le> 2 ^ 20"
proof -
  from assms have r: "whole_rate (rt_rate (tr_start_time r))"
    "in_reach (to_seconds (tr_start_time r))" "in_reach (to_seconds (tr_duration r))"
    "0 \<le> fval (to_seconds (tr_start_time r))" "0 \<le> fval (to_seconds (tr_duration r))"
    "fval (to_seconds (tr_start_time r)) + fval (to_seconds (tr_duration r)) \<le> 2 ^ 20"
    by (auto simp: grid_clip_def)
  then have "\<bar>fval (to_seconds (tr_start_time r)) + fval (to_seconds (tr_duration r))\<bar> < 2 ^ 44" by simp
  note sum = fadd_grid [OF in_reach_grid [OF r(2)] in_reach_grid [OF r(3)] this]
  show "whole_rate (rt_rate (tr_start_time r))"
    "in_reach (to_seconds (tr_start_time r))" "fval (to_seconds (tr_start_time r)) = src_start c"
    "in_reach (fadd (to_seconds (tr_start_time r)) (to_seconds (tr_duration r)))"
    "fval (fadd (to_seconds (tr_start_time r)) (to_seconds (tr_duration r))) = src_end c"
    "0 \<le> src_start c" "src_start c \<le> src_end c" "src_end c \<le> 2 ^ 20"
    using r sum assms(2) by (simp_all add: in_reach_def src_start_def src_end_def dur_def)
qed

text \<open>A clip given a new source range.\<close>

lemma retimed_clip:
  assumes "in_reach s" and "in_reach d" and "whole_rate rate" and "0 \<le> fval s" and "0 \<le> fval d"
    and "fval s + fval d \<le> 2 ^ 20"
    and "c' = c\<lparr>clip_source_range := Some (seconds_range s d rate)\<rparr>"
  shows "grid_clip c'" and "src_start c' = fval s" and "src_end c' = fval s + fval d"
    and "dur (TC_Clip c') = fval d" and "on_grid (child_duration (TC_Clip c'))"
proof -
  note range_grid = seconds_range_grid [OF assms(1-3)]
  have "rt_rate (tr_start_time (seconds_range s d rate)) = rate"
    by (simp add: seconds_range_def time_range_new_def rational_time_new_def)
  with range_grid assms show "grid_clip c'" and "src_start c' = fval s" and "src_end c' = fval s + fval d"
    and "dur (TC_Clip c') = fval d" and "on_grid (child_duration (TC_Clip c'))"
    by (auto simp: grid_clip_def src_start_def src_end_def dur_def in_reach_grid)
qed

section \<open>Ripple trim\<close>

lemma track_with_children_twice [simp]:
  "track_with_children cs (track_with_children ds t) = track_with_children cs t"
  by (cases t) simp

lemma with_children_twice [simp]:
  "with_tl_children xs (with_tl_children ys t) = with_tl_children xs t"
  "sc_with_children cs (sc_with_children ds sc) = sc_with_children cs sc"
  by (cases "tl_tracks t", simp add: with_tl_children_def) (cases sc, simp_all)

lemma with_track_children_twice [simp]:
  "with_track_children ti cs (with_track_children ti ds t) = with_track_children ti cs t"
  by (cases "ti < length (tl_children t)") (simp_all add: with_track_children_def list_update_beyond)

lemma ripple_children_longer:
  assumes "grid_track (x # cs)" and "in_reach d" and "0 < fval d" and "whole_rate r"
    and "dur x + span_of cs + fval d \<le> 2 ^ 20"
  shows "\<exists>cs'. ripple_children r d (length pre) (pre @ x # cs) = pre @ x # cs'
    \<and> placed s cs' = map (\<lambda>(t, c). (t + fval d, c)) (placed s cs) \<and> span_of cs' = span_of cs + fval d"
proof -
  have pos: "flt (Fin 0) d" using assms(2,3) by (simp add: finite_compare in_reach_def on_grid_def)
  show ?thesis
  proof (cases "cs \<noteq> [] \<and> is_gap (hd cs)")
    case True
    then obtain g rest where cs: "cs = g # rest" "is_gap g" by (cases cs) auto
    have g: "on_grid (child_duration g)" "0 \<le> dur g" "0 \<le> span_of rest" "0 \<le> dur x"
      using assms(1) cs grid_track_total [of rest] by simp_all
    have "\<bar>fval (child_duration g) + fval d\<bar> < 2 ^ 44" using assms(3,5) g cs by (simp add: dur_def)
    note sum = fadd_grid [OF g(1) in_reach_grid [OF assms(2)] this]
    have "in_reach (fadd (child_duration g) d)" using sum assms(3,5) g cs by (simp add: in_reach_def dur_def)
    note gap = gap_on_track [OF this assms(4)]
    have "ripple_children r d (length pre) (pre @ x # cs) =
        pre @ x # gap_child (fadd (child_duration g) d) r # rest"
      using pos cs by (simp add: ripple_children_def nth_append list_update_append)
    then show ?thesis using cs gap sum(2) gap_not_placed placed_shift [of "s + dur g" "fval d" rest]
      by (auto simp: dur_def add.assoc)
  next
    case False
    have "ripple_children r d (length pre) (pre @ x # cs) = pre @ x # gap_child d r # cs"
      using pos False by (cases cs) (simp_all add: ripple_children_def nth_append)
    then show ?thesis using gap_on_track [OF assms(2,4)] placed_shift [of s "fval d" cs] by simp
  qed
qed

lemma list_parts:
  assumes "i < length xs"
  obtains pre post where "xs = pre @ xs ! i # post" "length pre = i" "pre = take i xs"
    "post = drop (Suc i) xs" "\<And>y. xs[i := y] = pre @ y # post"
  using that [of "take i xs" "drop (Suc i) xs"] assms id_take_nth_drop [OF assms] upd_conv_take_nth_drop [OF assms]
  by simp

text \<open>C39: Lengthening a clip at its end with a ripple trim shifts the clips after it by twice the
  added length: the longer clip already pushes them, and a gap of the same length is put in between.\<close>

theorem ripple_trim_shifts_twice:
  assumes "clip_at tml l = Some c" and "tl_children tml ! cl_track_index l = SC_Track tr"
    and "grid_track (track_children tr)" and "grid_clip c" and "clip_link_group_id c = None"
    and "in_reach v" and "src_end c < fval v"
    and "span_of (track_children tr) + 2 * (fval v - src_end c) \<le> 2 ^ 20"
  shows "\<exists>descr tml' cs' c' before after.
    apply_ripple_trim index EndEdge v (Some l) tml = Inr (descr, tml')
    \<and> tl_children tml' = (tl_children tml)[cl_track_index l := SC_Track (track_with_children cs' tr)]
    \<and> src_start c' = src_start c \<and> src_end c' = fval v
    \<and> placed 0 (track_children tr) =
        before @ (span_of (take (cl_child_index l) (track_children tr)), TC_Clip c) # after
    \<and> placed 0 cs' =
        before @ (span_of (take (cl_child_index l) (track_children tr)), TC_Clip c')
          # map (\<lambda>(t, x). (t + 2 * (fval v - src_end c), x)) after"
proof -
  let ?cs = "track_children tr" and ?i = "cl_child_index l"
  from clip_atE [OF assms(1)] assms(2) have i: "?i < length ?cs" and c: "?cs ! ?i = TC_Clip c"
    and ti: "cl_track_index l < length (tl_children tml)" by auto
  from assms(4) obtain r where r: "clip_source_range c = Some r" by (auto simp: grid_clip_def)
  note e = grid_clip_ends [OF assms(4) r]
  define a where "a = to_seconds (tr_start_time r)"
  define b where "b = fadd a (to_seconds (tr_duration r))"
  define rate where "rate = rt_rate (tr_start_time r)"
  note e = e [folded a_def rate_def, folded b_def]
  have v: "on_grid v" "\<bar>fval v\<bar> \<le> 2 ^ 20" using assms(6) by (simp_all add: in_reach_def)
  have ab: "on_grid a" "\<bar>fval a\<bar> \<le> 2 ^ 20" "on_grid b" "\<bar>fval b\<bar> \<le> 2 ^ 20"
    using e by (simp_all add: in_reach_def)
  have later: "flt (fadd a milli) v"
    using near_compare(2) [OF ab(1) v(1)] ab(2) e assms(7) by simp
  have fin: "is_finite v" "is_finite (fadd a milli)"
    using on_grid_finite [OF v(1)] fuzzy_add(1) [OF on_grid_finite [OF ab(1)] tolerances(1)] ab(2) tolerances
    by simp_all
  have new_end: "fmax v (fadd a milli) = v" using later fin by (auto simp: fmax_def finite_compare)
  define d where "d = fsub v a"
  define delta where "delta = fsub v b"
  have d: "on_grid d" "fval d = fval v - src_start c"
    unfolding d_def using fsub_grid [OF v(1) ab(1)] v(2) ab(2) e(3) by simp_all
  have delta: "on_grid delta" "fval delta = fval v - src_end c"
    unfolding delta_def using fsub_grid [OF v(1) ab(3)] v(2) ab(4) e(5) by simp_all
  have reach: "in_reach d" "in_reach delta" "0 < fval d" "0 < fval delta"
    using d delta e v(2) assms(7) by (simp_all add: in_reach_def)
  have small: "\<not> flt (fabs delta) milli"
    using near_compare(4) [OF delta(1) delta(1)] reach(2,4) on_grid_finite [OF delta(1)] tolerances(1)
    by (simp add: finite_compare fval_fabs in_reach_def)
  have not_flat: "\<not> fle d (Fin 0)" using reach(3) on_grid_finite [OF d(1)] by (simp add: finite_compare)
  define c' where "c' = c\<lparr>clip_source_range := Some (seconds_range a d rate)\<rparr>"
  note new_clip = retimed_clip [OF e(2) reach(1) e(1) _ _ _ c'_def]
  have nc: "src_start c' = src_start c" "src_end c' = fval v" "dur (TC_Clip c') = fval v - src_start c"
    "on_grid (child_duration (TC_Clip c'))"
    using new_clip e d v(2) reach(3) by simp_all
  from list_parts [OF i] c obtain pre post where parts: "?cs = pre @ TC_Clip c # post"
    "length pre = ?i" "pre = take ?i ?cs" "\<And>y. ?cs[?i := y] = pre @ y # post" by metis
  have len: "dur (TC_Clip c) = src_end c - src_start c" by (simp add: src_end_def)
  have grids: "grid_track pre" "grid_track post" "0 \<le> span_of pre" "0 \<le> span_of post"
    using assms(3) grid_track_total [of pre] grid_track_total [of post] by (simp_all add: parts(1))
  have longer: "grid_track (TC_Clip c' # post)" "dur (TC_Clip c') + span_of post + fval delta \<le> 2 ^ 20"
    using assms(8) nc(3,4) grids len reach(3,4) d(2) delta(2) by (simp_all add: parts(1))
  from ripple_children_longer [OF longer(1) reach(2,4) e(1) longer(2), of pre "span_of pre + dur (TC_Clip c')"]
  obtain cs' where cs': "ripple_children rate delta ?i (pre @ TC_Clip c' # post) = pre @ TC_Clip c' # cs'"
    "placed (span_of pre + dur (TC_Clip c')) cs' =
      map (\<lambda>(t, x). (t + fval delta, x)) (placed (span_of pre + dur (TC_Clip c')) post)"
    unfolding parts(2) by blast
  have run: "\<exists>descr. apply_ripple_trim index EndEdge v (Some l) tml =
      Inr (descr, with_track_children (cl_track_index l) (pre @ TC_Clip c' # cs') tml)"
    using assms(2,5) ti i c r fin(1) reach(3) assms(7) e(6,7) new_end not_flat small
    by (simp add: apply_ripple_trim_def required_locator_def source_range_of_def Let_def ripple_shift_after_def vec_get_def
        finite_compare parts(4) cs'(1) tl_children_with_track
        flip: a_def rate_def b_def d_def delta_def c'_def)
  have before: "placed 0 ?cs = placed 0 pre @ (span_of pre, TC_Clip c)
      # placed (span_of pre + dur (TC_Clip c)) post" by (simp add: parts(1))
  have after: "placed 0 (pre @ TC_Clip c' # cs') = placed 0 pre @ (span_of pre, TC_Clip c')
      # map (\<lambda>(t, x). (t + 2 * (fval v - src_end c), x)) (placed (span_of pre + dur (TC_Clip c)) post)"
  proof -
    have "span_of pre + dur (TC_Clip c') = span_of pre + dur (TC_Clip c) + fval delta"
      using nc(3) len delta(2) by simp
    then show ?thesis using cs'(2) delta(2)
      by (simp add: placed_shift case_prod_unfold o_def algebra_simps del: child_duration.simps)
  qed
  from run obtain descr where "apply_ripple_trim index EndEdge v (Some l) tml =
      Inr (descr, with_track_children (cl_track_index l) (pre @ TC_Clip c' # cs') tml)" by blast
  then show ?thesis using before after nc(1,2) assms(2) unfolding parts(3) [symmetric]
    by (intro exI conjI) (assumption | simp add: tl_children_with_track)+
qed

lemma sample_grid_clip [simp]:
  "whole_rate (Fin 24)" "grid_clip (sample_clip ''a'' 0 5)" "src_end (sample_clip ''a'' 0 5) = 5"
  "src_start (sample_clip ''a'' 0 5) = 0"
  by (simp_all add: grid_clip_def src_start_def src_end_def sample_simps in_reach_def)

theorem ripple_trim_shifts_twice_witness:
  "\<exists>descr tml' cs' c' before after.
    apply_ripple_trim 0 EndEdge (Fin 7) (Some \<lparr>cl_track_index = 0, cl_child_index = 0\<rparr>)
      (sample_timeline [SC_Track three_clips]) = Inr (descr, tml')
    \<and> tl_children tml' = [SC_Track (track_with_children cs' three_clips)]
    \<and> src_start c' = 0 \<and> src_end c' = 7
    \<and> placed 0 (track_children three_clips) = before @ (0, TC_Clip (sample_clip ''a'' 0 5)) # after
    \<and> placed 0 cs' = before @ (0, TC_Clip c') # map (\<lambda>(t, x). (t + 4, x)) after"
  using ripple_trim_shifts_twice [of "sample_timeline [SC_Track three_clips]"
      "\<lparr>cl_track_index = 0, cl_child_index = 0\<rparr>" "sample_clip ''a'' 0 5" three_clips "Fin 7" 0]
  by (simp add: three_clips_def sample_simps in_reach_def)

section \<open>Ripple delete\<close>

text \<open>C34: A ripple delete closes up: every clip after the one deleted starts earlier by exactly its
  length, and nothing before it moves.\<close>

theorem ripple_delete_closes_up:
  assumes "clip_at tml l = Some c" and "tl_children tml ! cl_track_index l = SC_Track tr"
    and "is_finite (child_duration (TC_Clip c))" and "0 < dur (TC_Clip c)"
    and "clip_link_group_id c = None"
  shows "\<exists>descr tml' cs' before after.
    apply_ripple_delete index (Some l) tml = Inr (descr, tml')
    \<and> tl_children tml' = (tl_children tml)[cl_track_index l := SC_Track (track_with_children cs' tr)]
    \<and> placed 0 (track_children tr) =
        before @ (span_of (take (cl_child_index l) (track_children tr)), TC_Clip c) # after
    \<and> placed 0 cs' = before @ map (\<lambda>(t, x). (t - dur (TC_Clip c), x)) after"
proof -
  let ?cs = "track_children tr" and ?i = "cl_child_index l"
  from clip_atE [OF assms(1)] assms(2) have i: "?i < length ?cs" and c: "?cs ! ?i = TC_Clip c"
    and ti: "cl_track_index l < length (tl_children tml)" by auto
  from list_parts [OF i] c obtain pre post where parts: "?cs = pre @ TC_Clip c # post"
    "length pre = ?i" "pre = take ?i ?cs" "post = drop (Suc ?i) ?cs" by metis
  have rest: "remove_at ?i ?cs = pre @ post" unfolding remove_at_def parts(3,4) ..
  have "\<not> fle (child_duration (TC_Clip c)) (Fin 0)"
    using assms(3,4) by (simp add: finite_compare dur_def del: child_duration.simps)
  then have run: "\<exists>descr. apply_ripple_delete index (Some l) tml =
      Inr (descr, with_track_children (cl_track_index l) (pre @ post) tml)"
    using assms(2,5) i c ti
    by (simp add: apply_ripple_delete_def required_locator_def Let_def rest del: child_duration.simps)
  have shift: "placed (span_of pre) post
      = map (\<lambda>(t, x). (t - dur (TC_Clip c), x)) (placed (span_of pre + dur (TC_Clip c)) post)"
    unfolding placed_shift by (simp add: case_prod_unfold o_def)
  from run obtain descr where "apply_ripple_delete index (Some l) tml =
      Inr (descr, with_track_children (cl_track_index l) (pre @ post) tml)" by blast
  then show ?thesis using assms(2) shift parts(1) unfolding parts(3) [symmetric]
    by (intro exI [of _ "placed 0 pre"] exI [of _ "placed (span_of pre + dur (TC_Clip c)) post"]
        exI [of _ "pre @ post"] exI conjI) (assumption | simp add: tl_children_with_track)+
qed

theorem ripple_delete_closes_up_witness:
  "\<exists>descr tml' cs' before after.
    apply_ripple_delete 0 (Some \<lparr>cl_track_index = 0, cl_child_index = 2\<rparr>)
      (sample_timeline [SC_Track three_clips]) = Inr (descr, tml')
    \<and> tl_children tml' = [SC_Track (track_with_children cs' three_clips)]
    \<and> [(0, TC_Clip (sample_clip ''a'' 0 5)), (25, TC_Clip (sample_clip ''b'' 0 3)),
       (28, TC_Clip (sample_clip ''c'' 0 4))] = before @ (25, TC_Clip (sample_clip ''b'' 0 3)) # after
    \<and> placed 0 cs' = before @ map (\<lambda>(t, x). (t - 3, x)) after"
  using ripple_delete_closes_up [of "sample_timeline [SC_Track three_clips]"
      "\<lparr>cl_track_index = 0, cl_child_index = 2\<rparr>" "sample_clip ''b'' 0 3" three_clips 0]
  by (simp add: three_clips_def sample_simps)

end
