(* ===== verification/Edl_Split.thy ===== *)
theory Edl_Split
  imports Edl_Ripple
begin

text \<open>
  Splitting a clip, and trimming it and back: the two halves tile the source range of the clip, the
  rest of the timeline stays in place, ids and cut intents follow the halves, and untrimming undoes
  a trim.
\<close>

section \<open>The halves\<close>

lemma keep_lead_simps [simp]:
  "clip_source_range (keep_only_split_edit_lead c) = clip_source_range c"
  "clip_name (keep_only_split_edit_lead c) = clip_name c"
  "clip_media_reference (keep_only_split_edit_lead c) = clip_media_reference c"
  "clip_uuid (keep_only_split_edit_lead c) = clip_uuid c"
  by (simp_all add: keep_only_split_edit_lead_def map_montage_def clip_uuid_def clip_extra_str_def
      split: option.splits bind_splits)

lemma keep_trail_simps [simp]:
  "clip_source_range (keep_only_split_edit_trail c) = clip_source_range c"
  "clip_name (keep_only_split_edit_trail c) = clip_name c"
  "clip_media_reference (keep_only_split_edit_trail c) = clip_media_reference c"
  by (simp_all add: keep_only_split_edit_trail_def map_montage_def)

lemma stamp_simps [simp]:
  "clip_source_range (stamp_clip_uuid u c) = clip_source_range c"
  "clip_name (stamp_clip_uuid u c) = clip_name c"
  "clip_media_reference (stamp_clip_uuid u c) = clip_media_reference c"
  "clip_uuid (stamp_clip_uuid u c) = Some u"
  "clip_id (stamp_clip_uuid u c) = u"
  by (simp_all add: stamp_clip_uuid_def clip_uuid_def clip_id_def clip_extra_str_def unwrap_or_def Let_def)

lemma clip_id_left [simp]: "clip_id (left_piece s a r c) = clip_id c"
  by (simp add: left_piece_def clip_id_def clip_uuid_def clip_extra_str_def keep_only_split_edit_lead_def
      map_montage_def split: option.splits bind_splits)

lemma piece_ids [simp]:
  "clip_uuid (right_piece u a e r c) = Some u" "clip_id (right_piece u a e r c) = u"
  "clip_name (right_piece u a e r c) = clip_name c @ ''-b''"
  "clip_media_reference (right_piece u a e r c) = clip_media_reference c"
  "clip_media_reference (left_piece s a r c) = clip_media_reference c"
  "clip_name (left_piece s a r c) = clip_name c"
  by (simp_all add: right_piece_def left_piece_def)

text \<open>Only the source range of a clip counts for its times.\<close>

lemma same_range:
  assumes "clip_source_range c = clip_source_range d"
  shows "grid_clip c = grid_clip d" "src_start c = src_start d" "src_end c = src_end d"
    and "dur (TC_Clip c) = dur (TC_Clip d)"
  using assms by (simp_all add: grid_clip_def src_start_def src_end_def dur_def)

lemma left_piece_times:
  assumes "in_reach s" and "in_reach (fsub a s)" and "whole_rate r" and "0 \<le> fval s"
    and "0 \<le> fval (fsub a s)" and "fval s + fval (fsub a s) \<le> 2 ^ 20"
  shows "grid_clip (left_piece s a r c)" and "src_start (left_piece s a r c) = fval s"
    and "src_end (left_piece s a r c) = fval s + fval (fsub a s)"
    and "dur (TC_Clip (left_piece s a r c)) = fval (fsub a s)"
  using retimed_clip [OF assms refl, of c]
    same_range [of "left_piece s a r c" "c\<lparr>clip_source_range := Some (seconds_range s (fsub a s) r)\<rparr>"]
  by (simp_all add: left_piece_def)

lemma right_piece_times:
  assumes "in_reach a" and "in_reach (fsub e a)" and "whole_rate r" and "0 \<le> fval a"
    and "0 \<le> fval (fsub e a)" and "fval a + fval (fsub e a) \<le> 2 ^ 20"
  shows "grid_clip (right_piece u a e r c)" and "src_start (right_piece u a e r c) = fval a"
    and "src_end (right_piece u a e r c) = fval a + fval (fsub e a)"
    and "dur (TC_Clip (right_piece u a e r c)) = fval (fsub e a)"
  using retimed_clip [OF assms refl, of c]
    same_range [of "right_piece u a e r c" "c\<lparr>clip_source_range := Some (seconds_range a (fsub e a) r)\<rparr>"]
  by (simp_all add: right_piece_def)

section \<open>A split tiles the clip\<close>

text \<open>What a split makes of a clip: two halves of the same media that meet at the cut.\<close>

definition halves :: "clip \<Rightarrow> rat \<Rightarrow> string \<Rightarrow> clip \<Rightarrow> clip \<Rightarrow> bool" where
  "halves c at_s uuid left right \<longleftrightarrow>
     src_start left = src_start c \<and> src_end left = at_s
     \<and> src_start right = at_s \<and> src_end right = src_end c
     \<and> clip_media_reference left = clip_media_reference c
     \<and> clip_media_reference right = clip_media_reference c
     \<and> clip_id left = clip_id c \<and> clip_id right = uuid
     \<and> grid_clip left \<and> grid_clip right"

lemma split_locator_run:
  assumes "clip_at tml l = Some c" and "tl_children tml ! cl_track_index l = SC_Track tr"
    and "grid_clip c" and "in_reach at_s" and "src_start c < fval at_s" and "fval at_s < src_end c"
    and "uuid = fresh_clip_uuid (clock seq) seq"
  shows "\<exists>res left right.
    split_clip_at_locator clock index l at_s tml seq = Inr (res,
      transfer_outgoing_cut_boundary_to_split_right (clip_id c) uuid
        (with_track_children (cl_track_index l)
          (take (cl_child_index l) (track_children tr) @ [TC_Clip left, TC_Clip right]
            @ drop (Suc (cl_child_index l)) (track_children tr)) tml), seq + 1)
    \<and> halves c (fval at_s) uuid left right"
proof -
  let ?cs = "track_children tr" and ?i = "cl_child_index l"
  from clip_atE [OF assms(1)] assms(2) have i: "?i < length ?cs" and c: "?cs ! ?i = TC_Clip c"
    and ti: "cl_track_index l < length (tl_children tml)" by auto
  from assms(3) obtain r where r: "clip_source_range c = Some r" by (auto simp: grid_clip_def)
  note e = grid_clip_ends [OF assms(3) r]
  define s where "s = to_seconds (tr_start_time r)"
  define t where "t = fadd s (to_seconds (tr_duration r))"
  define rate where "rate = rt_rate (tr_start_time r)"
  note e = e [folded s_def rate_def, folded t_def]
  have grid: "on_grid at_s" "\<bar>fval at_s\<bar> \<le> 2 ^ 20" "on_grid s" "\<bar>fval s\<bar> \<le> 2 ^ 20" "on_grid t" "\<bar>fval t\<bar> \<le> 2 ^ 20"
    using assms(4) e by (simp_all add: in_reach_def)
  have inside: "\<not> (fle at_s s \<or> fle t at_s)"
    using assms(5,6) grid e by (simp add: finite_compare on_grid_finite)
  have l: "on_grid (fsub at_s s)" "fval (fsub at_s s) = fval at_s - src_start c"
    using fsub_grid [OF grid(1,3)] grid(2,4) e(3) by simp_all
  have rt: "on_grid (fsub t at_s)" "fval (fsub t at_s) = src_end c - fval at_s"
    using fsub_grid [OF grid(5,1)] grid(2,6) e(5) by simp_all
  have reach: "in_reach (fsub at_s s)" "in_reach (fsub t at_s)"
    using l rt assms(5,6) e by (simp_all add: in_reach_def)
  have "halves c (fval at_s) uuid (left_piece s at_s rate c) (right_piece uuid at_s t rate c)"
    using left_piece_times [OF e(2) reach(1) e(1), of c] right_piece_times [OF assms(4) reach(2) e(1), of uuid c]
      l(2) rt(2) assms(5,6) e by (simp add: halves_def)
  moreover have "insert_at (Suc ?i) x (?cs[?i := y]) = take ?i ?cs @ [y, x] @ drop (Suc ?i) ?cs" for x y
    using i by (simp add: insert_at_def take_Suc_conv_app_nth list_update_append upd_conv_take_nth_drop)
  ultimately show ?thesis
    using assms(2) ti i c r inside
    by (auto simp: split_clip_at_locator_def source_range_of_def Let_def assms(7)
        simp flip: s_def rate_def t_def)
qed

lemma tl_children_transfer [simp]:
  "tl_children (transfer_outgoing_cut_boundary_to_split_right a b t) = tl_children t"
  by (simp add: transfer_outgoing_cut_boundary_to_split_right_def)

lemma apply_split_run:
  assumes "clip_at tml l = Some c" and "tl_children tml ! cl_track_index l = SC_Track tr"
    and "grid_clip c" and "in_reach at_s" and "src_start c < fval at_s" and "fval at_s < src_end c"
    and "clip_link_group_id c = None" and "uuid = fresh_clip_uuid (clock seq) seq"
  shows "\<exists>descr left right.
    apply_split clock index at_s None (Some l) tml seq = Inr (descr,
      transfer_outgoing_cut_boundary_to_split_right (clip_id c) uuid
        (with_track_children (cl_track_index l)
          (take (cl_child_index l) (track_children tr) @ [TC_Clip left, TC_Clip right]
            @ drop (Suc (cl_child_index l)) (track_children tr)) tml), seq + 1)
    \<and> halves c (fval at_s) uuid left right"
proof -
  from split_locator_run [of tml l c tr at_s uuid clock seq index] assms
  obtain res left right where run: "split_clip_at_locator clock index l at_s tml seq = Inr (res,
      transfer_outgoing_cut_boundary_to_split_right (clip_id c) uuid
        (with_track_children (cl_track_index l)
          (take (cl_child_index l) (track_children tr) @ [TC_Clip left, TC_Clip right]
            @ drop (Suc (cl_child_index l)) (track_children tr)) tml), seq + 1)"
    and h: "halves c (fval at_s) uuid left right" by blast
  from clip_atE [OF assms(1)] assms(2) have i: "cl_child_index l < length (track_children tr)"
    "track_children tr ! cl_child_index l = TC_Clip c" "cl_track_index l < length (tl_children tml)" by auto
  from assms(3) obtain r where r: "clip_source_range c = Some r" by (auto simp: grid_clip_def)
  have "\<exists>descr. apply_split clock index at_s None (Some l) tml seq = Inr (descr,
      transfer_outgoing_cut_boundary_to_split_right (clip_id c) uuid
        (with_track_children (cl_track_index l)
          (take (cl_child_index l) (track_children tr) @ [TC_Clip left, TC_Clip right]
            @ drop (Suc (cl_child_index l)) (track_children tr)) tml), seq + 1)"
    using assms(1,2,7) i r run
    by (simp add: apply_split_def required_locator_def source_range_of_def clip_at_locator_def Let_def)
  with h show ?thesis by blast
qed

text \<open>C12: A split puts in the place of the clip two clips of the same media that tile its source range
  and its time on the track; the left half keeps the id, the right one gets a fresh id, and every
  other clip of the track and every other track is where it was.\<close>

theorem split_tiles_the_clip:
  assumes "clip_at tml l = Some c" and "tl_children tml ! cl_track_index l = SC_Track tr"
    and "grid_clip c" and "in_reach at_s" and "src_start c < fval at_s" and "fval at_s < src_end c"
    and "clip_link_group_id c = None"
  shows "\<exists>descr tml' cs' left right before after.
    apply_split clock index at_s None (Some l) tml seq = Inr (descr, tml', seq + 1)
    \<and> tl_children tml' = (tl_children tml)[cl_track_index l := SC_Track (track_with_children cs' tr)]
    \<and> halves c (fval at_s) (fresh_clip_uuid (clock seq) seq) left right
    \<and> placed 0 (track_children tr) =
        before @ (span_of (take (cl_child_index l) (track_children tr)), TC_Clip c) # after
    \<and> placed 0 cs' =
        before @ (span_of (take (cl_child_index l) (track_children tr)), TC_Clip left)
          # (span_of (take (cl_child_index l) (track_children tr)) + (fval at_s - src_start c), TC_Clip right)
          # after"
proof -
  let ?cs = "track_children tr" and ?i = "cl_child_index l"
  from clip_atE [OF assms(1)] assms(2) have i: "?i < length ?cs" and c: "?cs ! ?i = TC_Clip c"
    and ti: "cl_track_index l < length (tl_children tml)" by auto
  from list_parts [OF i] c obtain pre post where parts: "?cs = pre @ TC_Clip c # post"
    "pre = take ?i ?cs" "post = drop (Suc ?i) ?cs" by metis
  from apply_split_run [OF assms refl, of clock index seq] obtain descr left right where
    run: "apply_split clock index at_s None (Some l) tml seq = Inr (descr,
      transfer_outgoing_cut_boundary_to_split_right (clip_id c) (fresh_clip_uuid (clock seq) seq)
        (with_track_children (cl_track_index l) (pre @ TC_Clip left # TC_Clip right # post) tml), seq + 1)"
    and h: "halves c (fval at_s) (fresh_clip_uuid (clock seq) seq) left right"
    unfolding parts(2,3) append_Cons append_Nil by blast
  have d: "dur (TC_Clip left) = fval at_s - src_start c"
    "fval at_s - src_start c + dur (TC_Clip right) = dur (TC_Clip c)"
    using h by (auto simp: halves_def src_end_def)
  have "placed 0 (pre @ TC_Clip left # TC_Clip right # post) =
      placed 0 pre @ (span_of pre, TC_Clip left) # (span_of pre + (fval at_s - src_start c), TC_Clip right)
        # placed (span_of pre + dur (TC_Clip c)) post"
    by (simp add: d add.assoc del: child_duration.simps)
  moreover have "placed 0 ?cs = placed 0 pre @ (span_of pre, TC_Clip c)
      # placed (span_of pre + dur (TC_Clip c)) post" by (simp add: parts(1))
  ultimately show ?thesis using run h assms(2) unfolding parts(2) [symmetric]
    by (intro exI conjI) (assumption | simp add: tl_children_with_track)+
qed

theorem split_tiles_the_clip_witness:
  "\<exists>descr tml' cs' left right before after.
    apply_split (\<lambda>_. 7) 0 (Fin 2) None (Some \<lparr>cl_track_index = 0, cl_child_index = 0\<rparr>)
      (sample_timeline [SC_Track three_clips]) 4 = Inr (descr, tml', 5)
    \<and> tl_children tml' = [SC_Track (track_with_children cs' three_clips)]
    \<and> halves (sample_clip ''a'' 0 5) 2 (fresh_clip_uuid 7 4) left right
    \<and> [(0, TC_Clip (sample_clip ''a'' 0 5)), (25, TC_Clip (sample_clip ''b'' 0 3)),
       (28, TC_Clip (sample_clip ''c'' 0 4))] = before @ (0, TC_Clip (sample_clip ''a'' 0 5)) # after
    \<and> placed 0 cs' = before @ (0, TC_Clip left) # (2, TC_Clip right) # after"
  using split_tiles_the_clip [of "sample_timeline [SC_Track three_clips]"
        "\<lparr>cl_track_index = 0, cl_child_index = 0\<rparr>" "sample_clip ''a'' 0 5" three_clips "Fin 2"
        "\<lambda>_. 7" 0 4]
  by (simp add: three_clips_def sample_simps in_reach_def)

section \<open>Cut intents follow a split\<close>

lemma split_once_key: "CHR '':'' \<notin> set a \<Longrightarrow> split_once (a @ ''::'' @ b) = Some (a, b)"
  by (induction a) auto

lemma split_once_Some: "split_once k = Some (a, b) \<Longrightarrow> k = a @ ''::'' @ b"
proof (induction k arbitrary: a)
  case (Cons x k)
  show ?case
  proof (cases "take 2 (x # k) = ''::''")
    case True
    then have "x # k = ''::'' @ drop 2 (x # k)" by (metis append_take_drop_id)
    with Cons.prems True show ?thesis by simp
  next
    case False
    with Cons show ?thesis by auto
  qed
qed simp

lemma hex_no_colon: "CHR '':'' \<notin> set (hex_fixed k n)"
proof (induction k arbitrary: n)
  case (Suc k)
  have "lower_hex_digit d \<noteq> CHR '':''" if "d < 16" for d
  proof
    assume "lower_hex_digit d = CHR '':''"
    then have "of_char (lower_hex_digit d) = (58 :: nat)" by simp
    with that show False by (simp add: lower_hex_digit_def split: if_splits)
  qed
  from this [of "n mod 16"] Suc.IH [of "n div 16"] show ?case by auto
qed simp

lemma fresh_no_colon: "CHR '':'' \<notin> set (fresh_clip_uuid nanos seq)"
  using hex_no_colon by (simp add: fresh_clip_uuid_def)

abbreviation move_entry ::
  "string \<times> string \<times> semantic_cut_spec \<Rightarrow> (string, semantic_cut_spec) btree_map
    \<Rightarrow> (string, semantic_cut_spec) btree_map" where
  "move_entry \<equiv> \<lambda>(k, k', spec) m. bt_insert k' spec (bt_remove k m)"

lemma moves_other_keys:
  "\<forall>(k, k', spec) \<in> set ts. key \<noteq> k \<and> key \<noteq> k' \<Longrightarrow> bt_get (fold move_entry ts m) key = bt_get m key"
  by (induction ts arbitrary: m) auto

lemma moves_removed_key:
  "bt_get m key = None \<Longrightarrow> \<forall>(k, k', spec) \<in> set ts. key \<noteq> k' \<Longrightarrow> bt_get (fold move_entry ts m) key = None"
  by (induction ts arbitrary: m) auto

lemma moves_old_key:
  "(key, k', spec) \<in> set ts \<Longrightarrow> \<forall>(k, k', spec) \<in> set ts. key \<noteq> k' \<Longrightarrow>
     bt_get (fold move_entry ts m) key = None"
proof (induction ts arbitrary: m)
  case (Cons x ts)
  show ?case
  proof (cases "x = (key, k', spec)")
    case True
    with Cons.prems show ?thesis using moves_removed_key [of _ key ts] by auto
  next
    case False
    with Cons show ?thesis by (cases x) auto
  qed
qed simp

lemma moves_new_key:
  "(k, k', spec) \<in> set ts \<Longrightarrow> \<forall>(j, j', s) \<in> set ts. k' \<noteq> j \<and> (k' = j' \<longrightarrow> s = spec) \<Longrightarrow>
     bt_get (fold move_entry ts m) k' = Some spec"
proof (induction ts arbitrary: k m)
  case (Cons x ts)
  have rest: "\<forall>(j, j', s) \<in> set ts. k' \<noteq> j \<and> (k' = j' \<longrightarrow> s = spec)" using Cons.prems(2) by simp
  show ?case
  proof (cases "\<exists>j s. (j, k', s) \<in> set ts")
    case True
    then obtain j s where "(j, k', s) \<in> set ts" by blast
    moreover from this rest have "s = spec" by auto
    ultimately show ?thesis using Cons.IH [of j "move_entry x m"] rest by simp
  next
    case False
    with Cons.prems(1) have x: "x = (k, k', spec)" by auto
    have "\<forall>(j, j', s) \<in> set ts. k' \<noteq> j \<and> k' \<noteq> j'" using False rest by auto
    then show ?thesis using moves_other_keys [of ts k' "move_entry x m"] x by simp
  qed
qed simp

lemma map_filter_mem: "y \<in> set (List.map_filter f xs) \<longleftrightarrow> (\<exists>x \<in> set xs. f x = Some y)"
  by (induction xs) (auto simp: List.map_filter_simps split: option.splits)

lemma boundary_transfers_mem:
  "(k, k', spec) \<in> set (boundary_transfers old new m) \<longleftrightarrow>
     (\<exists>to. (k, spec) \<in> set m \<and> split_once k = Some (old, to) \<and> k' = cut_boundary_key new to)"
proof -
  have "(case split_once j of
        None \<Rightarrow> None
      | Some (from_id, to_id) \<Rightarrow>
          if from_id = old then Some (j, cut_boundary_key new to_id, s) else None) = Some (k, k', spec) \<longleftrightarrow>
      j = k \<and> s = spec \<and> (\<exists>to. split_once k = Some (old, to) \<and> k' = cut_boundary_key new to)" for j s
    by (auto split: option.splits)
  then show ?thesis by (auto simp: boundary_transfers_def map_filter_mem Bex_def)
qed

lemma transfer_moves_intents:
  assumes "bt_ok (cut_boundaries tml)" and "CHR '':'' \<notin> set old" and "CHR '':'' \<notin> set new" and "new \<noteq> old"
    and "bt_get (cut_boundaries tml) (cut_boundary_key old to) = Some spec"
    and "tml' = transfer_outgoing_cut_boundary_to_split_right old new tml"
  shows "bt_get (cut_boundaries tml') (cut_boundary_key new to) = Some spec"
    and "bt_get (cut_boundaries tml') (cut_boundary_key old to) = None"
proof -
  let ?m = "cut_boundaries tml"
  let ?ts = "boundary_transfers old new ?m"
  have keys: "split_once (cut_boundary_key old x) = Some (old, x)"
    "split_once (cut_boundary_key new x) = Some (new, x)" for x
    using assms(2,3) split_once_key by (simp_all add: cut_boundary_key_def)
  have dist: "distinct (map fst ?m)" using assms(1) by (simp add: bt_ok_def strict_sorted_iff)
  have mem: "(cut_boundary_key old to, spec) \<in> set ?m" using assms(5) by (simp add: bt_get_def map_of_SomeD)
  then have entry: "(cut_boundary_key old to, cut_boundary_key new to, spec) \<in> set ?ts"
    by (auto simp: boundary_transfers_mem keys)
  have other: "cut_boundary_key old to \<noteq> k'" "cut_boundary_key new to \<noteq> k"
    "cut_boundary_key new to = k' \<longrightarrow> s = spec" if "(k, k', s) \<in> set ?ts" for k k' s
  proof -
    from that obtain x where x: "(k, s) \<in> set ?m" "split_once k = Some (old, x)" "k' = cut_boundary_key new x"
      by (auto simp: boundary_transfers_mem)
    show "cut_boundary_key old to \<noteq> k'" "cut_boundary_key new to \<noteq> k"
      using x keys assms(4) by (metis option.inject prod.inject)+
    show "cut_boundary_key new to = k' \<longrightarrow> s = spec"
    proof
      assume "cut_boundary_key new to = k'"
      then have "x = to" using x(3) keys(2) by (metis option.inject prod.inject)
      then have "k = cut_boundary_key old to" using split_once_Some [OF x(2)] by (simp add: cut_boundary_key_def)
      with x(1) mem dist show "s = spec" by (meson eq_key_imp_eq_value)
    qed
  qed
  have "cut_boundaries tml' = fold move_entry ?ts ?m"
    unfolding assms(6) transfer_outgoing_cut_boundary_to_split_right_def
    by (rule cut_boundaries_map) (simp add: boundary_transfers_def)
  moreover have "bt_get (fold move_entry ?ts ?m) (cut_boundary_key new to) = Some spec"
    using other by (intro moves_new_key [OF entry]) blast
  moreover have "bt_get (fold move_entry ?ts ?m) (cut_boundary_key old to) = None"
    using other by (intro moves_old_key [OF entry]) blast
  ultimately show "bt_get (cut_boundaries tml') (cut_boundary_key new to) = Some spec"
    and "bt_get (cut_boundaries tml') (cut_boundary_key old to) = None" by simp_all
qed

lemma track_cuts_suffix: "set (track_cuts ys) \<subseteq> set (track_cuts (xs @ ys))"
  by (induction xs) (auto split: option.splits)

lemma prune_cut_get [simp]:
  "bt_get (cut_boundaries (prune_stale_cut_boundaries t)) key =
     (if key \<in> set (current_cut_boundary_keys t) then bt_get (cut_boundaries t) key else None)"
proof -
  have "cut_boundaries (prune_stale_cut_boundaries t) =
      bt_retain (\<lambda>key. key \<in> set (current_cut_boundary_keys t)) (cut_boundaries t)"
    unfolding prune_stale_cut_boundaries_def by (rule cut_boundaries_map) (simp add: bt_retain_def)
  then show ?thesis by (simp add: bt_get_retain)
qed

text \<open>The intent recorded for the cut from a clip to the next one survives a split of the clip: it
  is the intent of the cut from the right half to the next clip, and no longer one of the left half.\<close>

theorem split_keeps_cut_intent:
  assumes "resolve tml a ctx = Inr l" and "clip_at tml l = Some c"
    and "tl_children tml ! cl_track_index l = SC_Track tr" and "grid_clip c" and "in_reach at_s"
    and "src_start c < fval at_s" and "fval at_s < src_end c" and "clip_link_group_id c = None"
    and "cut_target (drop (Suc (cl_child_index l)) (track_children tr)) = Some to"
    and "bt_ok (cut_boundaries tml)"
    and "bt_get (cut_boundaries tml) (cut_boundary_key (clip_id c) to) = Some spec"
    and "CHR '':'' \<notin> set (clip_id c)" and "clip_id c \<noteq> fresh_clip_uuid (clock seq) seq"
  shows "\<exists>applied aliases' tml'.
    apply_step clock ctx index (SplitClip a at_s None) [] tml seq = Inr (applied, aliases', tml', seq + 1)
    \<and> bt_get (cut_boundaries tml') (cut_boundary_key (fresh_clip_uuid (clock seq) seq) to) = Some spec
    \<and> bt_get (cut_boundaries tml') (cut_boundary_key (clip_id c) to) = None"
proof -
  let ?u = "fresh_clip_uuid (clock seq) seq" and ?cs = "track_children tr" and ?i = "cl_child_index l"
  from apply_split_run [OF assms(2-8) refl, of clock index seq] obtain descr left right where
    run: "apply_split clock index at_s None (Some l) tml seq = Inr (descr,
      transfer_outgoing_cut_boundary_to_split_right (clip_id c) ?u
        (with_track_children (cl_track_index l) (take ?i ?cs @ [TC_Clip left, TC_Clip right]
            @ drop (Suc ?i) ?cs) tml), seq + 1)"
    and h: "halves c (fval at_s) ?u left right" by blast
  let ?cut = "with_track_children (cl_track_index l)
    (take ?i ?cs @ [TC_Clip left, TC_Clip right] @ drop (Suc ?i) ?cs) tml"
  define moved where "moved = transfer_outgoing_cut_boundary_to_split_right (clip_id c) ?u ?cut"
  have "bt_get (cut_boundaries moved) (cut_boundary_key ?u to) = Some spec"
    "bt_get (cut_boundaries moved) (cut_boundary_key (clip_id c) to) = None"
    using assms(10-13) by (intro transfer_moves_intents [OF _ _ fresh_no_colon _ _ moved_def]; simp)+
  moreover have "cut_boundary_key ?u to \<in> set (current_cut_boundary_keys moved)"
  proof -
    have ti: "cl_track_index l < length (tl_children tml)" using clip_atE [OF assms(2)] by blast
    have "tl_children moved ! cl_track_index l = SC_Track (track_with_children
        (take ?i ?cs @ [TC_Clip left, TC_Clip right] @ drop (Suc ?i) ?cs) tr)"
      using nth_with_track [OF ti assms(3)] by (simp add: moved_def)
    then have sc: "SC_Track (track_with_children
        (take ?i ?cs @ [TC_Clip left, TC_Clip right] @ drop (Suc ?i) ?cs) tr) \<in> set (tl_children moved)"
      using ti nth_mem [of "cl_track_index l" "tl_children moved"] by (simp add: moved_def)
    have "(?u, to) \<in> set (track_cuts (TC_Clip right # drop (Suc ?i) ?cs))"
      using assms(9) h by (simp add: halves_def)
    then have "(?u, to) \<in> set (track_cuts (take ?i ?cs @ [TC_Clip left, TC_Clip right] @ drop (Suc ?i) ?cs))"
      using track_cuts_suffix [of "TC_Clip right # drop (Suc ?i) ?cs" "take ?i ?cs @ [TC_Clip left]"] by auto
    with sc show ?thesis unfolding current_cut_boundary_keys_def by force
  qed
  moreover have found: "resolve_locator_for_op tml index (SplitClip a at_s None) ctx [] = Inr (Some l)"
    using assms(1) by (cases a) (simp_all add: resolve_locator_for_op_def resolve_for_def map_err_def)
  moreover have "\<exists>applied al. apply_step clock ctx index (SplitClip a at_s None) [] tml seq =
      Inr (applied, al, prune_stale_split_edits (prune_stale_cut_boundaries moved), seq + 1)"
    using run by (simp add: apply_step_def found moved_def Let_def)
  ultimately show ?thesis by auto
qed

section \<open>A concrete split with an intent\<close>

definition sample_spec :: semantic_cut_spec where
  "sample_spec =
     \<lparr>scs_cut_type = MatchCut, scs_intent = ''match'', scs_energy = None, scs_audio_relation = Sync,
      scs_confidence = None, scs_reason = None, scs_extra = []\<rparr>"

definition two_clips :: track where
  "two_clips = sample_track [TC_Clip (sample_clip ''a'' 0 5), TC_Clip (sample_clip ''b'' 0 3)]"

definition two_clips_timeline :: timeline where
  "two_clips_timeline = (sample_timeline [SC_Track two_clips])
     \<lparr>tl_metadata := \<lparr>tm_montage = Some \<lparr>mtm_version = ''1'',
        mtm_cut_boundaries = [(''a::b'', sample_spec)], mtm_extra = [], mtm_rest = JNull\<rparr>, tm_other = []\<rparr>\<rparr>"

definition no_sidecars :: anchor_context where
  "no_sidecars = \<lparr>ac_project_root = None, ac_sidecar = \<lambda>_. [], ac_to_lowercase = \<lambda>s. s\<rparr>"

lemma two_clips_facts:
  "tl_children two_clips_timeline = [SC_Track two_clips]"
  "clip_at two_clips_timeline \<lparr>cl_track_index = 0, cl_child_index = 0\<rparr> = Some (sample_clip ''a'' 0 5)"
  "cut_boundaries two_clips_timeline = [(''a::b'', sample_spec)]"
  "resolve two_clips_timeline (ClipUuid ''a'') no_sidecars = Inr \<lparr>cl_track_index = 0, cl_child_index = 0\<rparr>"
  "clip_id (sample_clip ''a'' 0 5) = ''a''" "clip_id (sample_clip ''b'' 0 3) = ''b''"
  by (simp_all add: two_clips_timeline_def two_clips_def sample_defs tl_children_def clip_at_def
      cut_boundaries_def resolve_def resolve_by_uuid_def collect_clips_def track_entries_def
      clip_entry_of_def clip_id_def clip_uuid_def clip_extra_str_def unwrap_or_def List.map_filter_def)

theorem split_keeps_cut_intent_witness:
  "\<exists>applied aliases' tml'.
    apply_step (\<lambda>_. 7) no_sidecars 0 (SplitClip (ClipUuid ''a'') (Fin 2) None) [] two_clips_timeline 4
      = Inr (applied, aliases', tml', 5)
    \<and> bt_get (cut_boundaries tml') (cut_boundary_key (fresh_clip_uuid 7 4) ''b'') = Some sample_spec
    \<and> bt_get (cut_boundaries tml') ''a::b'' = None"
proof -
  have "fresh_clip_uuid 7 4 \<noteq> ''a''" by (simp add: fresh_clip_uuid_def)
  then show ?thesis
    using split_keeps_cut_intent [OF two_clips_facts(4,2), of two_clips "Fin 2" "''b''" sample_spec
        "\<lambda>_. 7" 4 0]
    by (simp add: two_clips_facts two_clips_def cut_boundary_key_def bt_ok_def bt_get_def in_reach_def
        sample_simps)
qed

end
