(* ===== verification/Edl_Frames.thy ===== *)
theory Edl_Frames
  imports Edl_Progress
begin

text \<open>
  What edits leave alone. The locale \<open>timeline_frame\<close> is the contract of an observation of a
  timeline that does not see the children of tracks nor the cut boundaries; every edit but those
  that add or remove tracks keeps it. It is interpreted on the names and kinds of the tracks, and on
  the fields of the timeline itself.
\<close>

section \<open>Results with a property\<close>

named_theorems gives_intros "how a property reaches the result of an edit"

definition gives :: "('a \<Rightarrow> bool) \<Rightarrow> 'a edit \<Rightarrow> bool" where
  "gives P r \<longleftrightarrow> (\<forall>x. r = Inr x \<longrightarrow> P x)"

lemma givesD: "gives P r \<Longrightarrow> r = Inr x \<Longrightarrow> P x"
  by (simp add: gives_def)

lemma gives_results [gives_intros]:
  "P x \<Longrightarrow> gives P (Inr x)" "gives P (Inl e)"
  by (simp_all add: gives_def)

lemma gives_rbind [gives_intros]:
  "(\<And>x. r = Inr x \<Longrightarrow> gives P (f x)) \<Longrightarrow> gives P (rbind r f)"
  by (auto simp: gives_def rbind_eq_Inr)

lemma gives_if [gives_intros]:
  "(b \<Longrightarrow> gives P r) \<Longrightarrow> (\<not> b \<Longrightarrow> gives P q) \<Longrightarrow> gives P (if b then r else q)"
  by simp

lemma gives_cases [gives_intros]:
  "(o' = None \<Longrightarrow> gives P r) \<Longrightarrow> (\<And>x. o' = Some x \<Longrightarrow> gives P (f x)) \<Longrightarrow>
     gives P (case o' of None \<Rightarrow> r | Some x \<Rightarrow> f x)"
  "(\<And>a b. pr = (a, b) \<Longrightarrow> gives P (h a b)) \<Longrightarrow> gives P (case pr of (a, b) \<Rightarrow> h a b)"
  "(\<And>a b. pr = (a, b) \<Longrightarrow> gives P (k' a b y)) \<Longrightarrow> gives P ((case pr of (a, b) \<Rightarrow> k' a b) y)"
  "(\<And>c. tc = TC_Clip c \<Longrightarrow> gives P (f1 c)) \<Longrightarrow> (\<And>g. gives P (f2 g)) \<Longrightarrow>
     (\<And>t. gives P (f3 t)) \<Longrightarrow> (\<And>s. gives P (f4 s)) \<Longrightarrow>
     gives P (case tc of TC_Clip c \<Rightarrow> f1 c | TC_Gap g \<Rightarrow> f2 g | TC_Transition t \<Rightarrow> f3 t | TC_Stack s \<Rightarrow> f4 s)"
  "(\<And>t. sc = SC_Track t \<Longrightarrow> gives P (g1 t)) \<Longrightarrow> (\<And>s. gives P (g2 s)) \<Longrightarrow>
     (\<And>c. gives P (g3 c)) \<Longrightarrow> (\<And>g. gives P (g4 g)) \<Longrightarrow>
     gives P (case sc of SC_Track t \<Rightarrow> g1 t | SC_Stack s \<Rightarrow> g2 s | SC_Clip c \<Rightarrow> g3 c | SC_Gap g \<Rightarrow> g4 g)"
  "(\<And>e. gives P (l e)) \<Longrightarrow> (\<And>x. sm = Inr x \<Longrightarrow> gives P (q x)) \<Longrightarrow>
     gives P (case sm of Inl e \<Rightarrow> l e | Inr x \<Rightarrow> q x)"
  "gives P r \<Longrightarrow> (\<And>e. gives P (k e)) \<Longrightarrow> gives P (case fl of Panic \<Rightarrow> r | Err e \<Rightarrow> k e)"
  "(\<And>i m. gives P (h1 i m)) \<Longrightarrow> (\<And>i m. gives P (h2 i m)) \<Longrightarrow> (\<And>i m. gives P (h3 i m)) \<Longrightarrow>
     gives P (case ae of AE_AnchorMiss i m \<Rightarrow> h1 i m | AE_Invalid i m \<Rightarrow> h2 i m | AE_OtioInvalid i m \<Rightarrow> h3 i m)"
  by (simp_all split: option.splits prod.splits track_child.splits stack_child.splits sum.splits
      failure.splits apply_error.splits)

section \<open>The contract\<close>

locale timeline_frame =
  fixes view :: "timeline \<Rightarrow> 'v"
  assumes view_children [simp]: "view (with_track_children ti cs t) = view t"
    and view_cuts [simp]: "view (map_cut_boundaries f t) = view t"
    and view_montage [simp]: "view (with_montage m t) = view t"
begin

lemma view_metadata [simp]:
  "view (insert_cut_boundary k spec t) = view t"
  "view (record_professional_timeline_edit edit t) = view t"
  by (simp_all add: insert_cut_boundary_def record_professional_timeline_edit_def Let_def)

lemma view_prunes [simp]:
  "view (remove_cut_boundaries_for_clip i t) = view t"
  "view (transfer_outgoing_cut_boundary_to_split_right a b t) = view t"
  "view (prune_stale_cut_boundaries t) = view t"
  by (simp_all add: remove_cut_boundaries_for_clip_def transfer_outgoing_cut_boundary_to_split_right_def
      prune_stale_cut_boundaries_def)

lemma split_view: "gives (\<lambda>(r, t', n). view t' = view t) (split_clip_at_locator clock i l at_s t seq)"
  unfolding split_clip_at_locator_def Let_def by (intro gives_intros) simp_all

lemma split_all_view: "gives (\<lambda>(t', n). view t' = view t) (split_all clock i ls at_s t seq)"
proof (induction ls arbitrary: t seq)
  case (Cons l ls)
  show ?case unfolding split_all.simps
    by (intro gives_intros) (auto simp: gives_def dest!: givesD [OF split_view] givesD [OF Cons.IH])
qed (simp add: gives_def)

lemma apply_split_view:
  "gives (\<lambda>(m, t', n). view t' = view t) (apply_split clock i at_s snap loc t seq)"
  unfolding apply_split_def split_linked_siblings_def Let_def
  by (intro gives_intros)
    (auto simp: rbind_eq_Inr dest!: givesD [OF split_view] givesD [OF split_all_view] split: option.splits)

lemma trim_all_view: "gives (\<lambda>(n, t'). view t' = view t) (trim_all i ls a b t)"
proof (induction ls arbitrary: t)
  case (Cons l ls)
  have next_one: "gives (\<lambda>(n, t'). view t' = view t) (trim_all i ls a b t')" if "view t' = view t" for t'
    using Cons.IH [of t'] that by simp
  show ?case unfolding trim_all.simps Let_def
    by (intro gives_intros next_one) (auto dest!: givesD [OF Cons.IH])
qed (simp add: gives_def)

lemma apply_trim_view: "gives (\<lambda>(m, t'). view t' = view t) (apply_trim i s e loc t)"
  unfolding apply_trim_def trim_linked_siblings_def Let_def
  by (intro gives_intros) (auto dest!: givesD [OF trim_all_view] split: option.splits)

lemma apply_untrim_view: "gives (\<lambda>(m, t'). view t' = view t) (apply_untrim i s e loc t)"
  unfolding apply_untrim_def trim_linked_siblings_def Let_def
  by (intro gives_intros) (auto dest!: givesD [OF trim_all_view] split: option.splits)

lemma apply_delete_view: "gives (\<lambda>(m, t'). view t' = view t) (apply_delete i loc t)"
  unfolding apply_delete_def Let_def by (intro gives_intros) (auto split: option.splits)

lemma remove_one_gap_view: "gives (\<lambda>(r, t'). view t' = view t) (remove_one_gap i ti ci side t)"
  unfolding remove_one_gap_def Let_def by (intro gives_intros) simp_all

lemma remove_linked_gaps_view:
  "gives (\<lambda>(r, t'). view t' = view t) (remove_linked_gaps i p g side tis t)"
proof (induction tis arbitrary: t)
  case (Cons ti tis)
  show ?case unfolding remove_linked_gaps.simps
    by (intro gives_intros Cons.IH) (auto dest!: givesD [OF Cons.IH] givesD [OF remove_one_gap_view])
qed (simp add: gives_def)

lemma apply_delete_gap_view: "gives (\<lambda>(m, t'). view t' = view t) (apply_delete_gap i side loc t)"
  unfolding apply_delete_gap_def Let_def
  by (intro gives_intros)
    (auto dest!: givesD [OF remove_one_gap_view] givesD [OF remove_linked_gaps_view] split: option.splits)

lemma apply_move_clip_view: "gives (\<lambda>(m, t'). view t' = view t) (apply_move_clip i p s snap loc t)"
  unfolding apply_move_clip_def Let_def by (intro gives_intros) simp_all

lemma shift_clip_view: "gives (\<lambda>t'. view t' = view t) (shift_clip_at_index ti ci d t)"
  unfolding shift_clip_at_index_def Let_def by (intro gives_intros) simp_all

lemma shift_linked_view: "gives (\<lambda>(n, t'). view t' = view t) (shift_linked p g d tis t)"
proof (induction tis arbitrary: t)
  case (Cons ti tis)
  show ?case unfolding shift_linked.simps
    by (intro gives_intros Cons.IH) (auto dest!: givesD [OF Cons.IH] givesD [OF shift_clip_view])
qed (simp add: gives_def)

lemma apply_ripple_move_view: "gives (\<lambda>(m, t'). view t' = view t) (apply_ripple_move i d snap loc t)"
  unfolding apply_ripple_move_def Let_def
  by (intro gives_intros)
    (auto dest!: givesD [OF shift_clip_view] givesD [OF shift_linked_view] split: option.splits)

lemma delete_linked_view: "view (snd (delete_linked p g r tis t)) = view t"
proof (induction tis arbitrary: t)
  case (Cons ti tis)
  have "view t' = view t" if "delete_linked p g r tis (with_track_children ti cs t) = (n, t')" for cs n t'
    using Cons.IH [of "with_track_children ti cs t"] that by simp
  with Cons.IH [of t] show ?case by (auto simp: Let_def split: option.splits prod.splits)
qed simp

lemma apply_ripple_delete_view: "gives (\<lambda>(m, t'). view t' = view t) (apply_ripple_delete i loc t)"
proof -
  have "view t2 = view t" if "delete_linked p g r tis (with_track_children ti cs t) = (n, t2)"
    for p g r tis ti cs n t2 using delete_linked_view [of p g r tis "with_track_children ti cs t"] that by simp
  then show ?thesis unfolding apply_ripple_delete_def Let_def
    by (intro gives_intros) (auto split: option.splits)
qed

lemma ripple_shift_view: "gives (\<lambda>t'. view t' = view t) (ripple_shift_after ti ci d r t)"
  unfolding ripple_shift_after_def by (intro gives_intros) simp_all

lemma trim_linked_view: "gives (\<lambda>(n, t'). view t' = view t) (trim_linked p g e by_s d r tis t)"
proof (induction tis arbitrary: t)
  case (Cons ti tis)
  show ?case unfolding trim_linked.simps Let_def
    by (intro gives_intros Cons.IH) (auto dest!: givesD [OF Cons.IH] givesD [OF ripple_shift_view])
qed (simp add: gives_def)

lemma apply_ripple_trim_view: "gives (\<lambda>(m, t'). view t' = view t) (apply_ripple_trim i e v loc t)"
  unfolding apply_ripple_trim_def Let_def
  by (intro gives_intros)
    (auto dest!: givesD [OF ripple_shift_view] givesD [OF trim_linked_view] split: option.splits)

lemma apply_delete_transition_view:
  "gives (\<lambda>(m, t'). view t' = view t) (apply_delete_transition i f g ctx t)"
  unfolding apply_delete_transition_def Let_def by (intro gives_intros) simp_all

lemma apply_set_cut_intent_view:
  "gives (\<lambda>(m, t'). view t' = view t) (apply_set_cut_intent i f g spec ctx t)"
  unfolding apply_set_cut_intent_def Let_def by (intro gives_intros) simp_all

lemma source_edits_view:
  "gives (\<lambda>(m, t'). view t' = view t) (apply_slip_clip i d loc t)"
  "gives (\<lambda>(m, t'). view t' = view t) (apply_replace_clip i asset r loc t)"
  "gives (\<lambda>(m, t'). view t' = view t) (apply_slide_clip i d loc t)"
  "gives (\<lambda>(m, t'). view t' = view t) (apply_roll_edit i f g d ctx t)"
  unfolding apply_slip_clip_def apply_replace_clip_def apply_slide_clip_def apply_roll_edit_def Let_def
  by (intro gives_intros; simp)+

lemma apply_pro_ripple_trim_view:
  "gives (\<lambda>(m, t'). view t' = view t) (apply_pro_ripple_trim i e names loc t)"
  unfolding apply_pro_ripple_trim_def by (intro gives_intros apply_trim_view)

lemma marker_edits_view:
  "gives (\<lambda>(m, t'). view t' = view t) (apply_professional_marker i x l k t)"
  "gives (\<lambda>(m, t'). view t' = view t) (apply_update_marker i sel u ctx t)"
  "gives (\<lambda>(m, t'). view t' = view t) (apply_delete_marker i sel ctx t)"
  unfolding apply_professional_marker_def apply_update_marker_def apply_delete_marker_def Let_def
  by (intro gives_intros; simp)+

lemma nesting_view:
  "gives (\<lambda>(m, t'). view t' = view t) (apply_wrap_as_nested i n a b g t)"
  "gives (\<lambda>(m, t'). view t' = view t) (apply_flatten_nested i n j t)"
  unfolding apply_wrap_as_nested_def apply_flatten_nested_def Let_def by (intro gives_intros; simp)+

lemma edit_clip_view: "gives (\<lambda>(m, t'). view t' = view t) (edit_clip i label f loc t)"
  unfolding edit_clip_def by (intro gives_intros) simp_all

lemma sound_edits_view:
  "gives (\<lambda>(m, t'). view t' = view t) (apply_set_volume i v loc t)"
  "gives (\<lambda>(m, t'). view t' = view t) (apply_mute_clip i b loc t)"
  "gives (\<lambda>(m, t'). view t' = view t) (apply_remove_audio i x y b loc t)"
  "gives (\<lambda>(m, t'). view t' = view t) (apply_set_audio_fade i x y loc t)"
  "gives (\<lambda>(m, t'). view t' = view t) (apply_set_speed i v loc t)"
  "gives (\<lambda>(m, t'). view t' = view t) (apply_set_clip_audio_fx i fx loc t)"
  unfolding apply_set_volume_def apply_mute_clip_def apply_remove_audio_def apply_set_audio_fade_def
    apply_set_speed_def apply_set_clip_audio_fx_def Let_def
  by (intro gives_intros edit_clip_view)+

lemma stamp_boundary_view [simp]: "view (stamp_split_edit_cut_boundary l c k x given t) = view t"
  by (simp add: stamp_split_edit_cut_boundary_def split: option.splits)

lemma split_edit_view:
  "gives (\<lambda>(m, t'). view t' = view t) (apply_split_edit_offset i x k given loc t)"
  unfolding apply_split_edit_offset_def stamp_split_edit_on_clip_def Let_def
  by (intro gives_intros) (auto simp: rbind_eq_Inr)

lemma sync_group_view: "gives (\<lambda>(m, t'). view t' = view t) (apply_set_sync_group i g x f c loc t)"
  unfolding apply_set_sync_group_def Let_def by (intro gives_intros) simp_all

end

section \<open>Names and kinds of the tracks\<close>

definition sc_label :: "stack_child \<Rightarrow> (string \<times> track_kind) option" where
  "sc_label sc = (case sc of SC_Track t \<Rightarrow> Some (track_name t, track_kind t) | _ \<Rightarrow> None)"

definition labels :: "timeline \<Rightarrow> (string \<times> track_kind) option list" where
  "labels t = map sc_label (tl_children t)"

text \<open>The fields of the timeline that no structural edit writes.\<close>

definition header :: "timeline \<Rightarrow> string \<times> string \<times> rational_time option \<times> json_map" where
  "header t = (tl_otio_schema t, tl_name t, tl_global_start_time t, tm_other (tl_metadata t))"

lemma sc_label_with [simp]: "sc_label (sc_with_children cs sc) = sc_label sc"
  by (cases sc; simp add: sc_label_def) (metis track.exhaust track.sel(1,2) track_with_children.simps)

lemma labels_tl_children [simp]:
  "labels (with_tl_children scs t) = map sc_label scs" "header (with_tl_children scs t) = header t"
  by (simp_all add: labels_def header_def with_tl_children_def tl_children_with [unfolded with_tl_children_def])

interpretation track_labels: timeline_frame labels
proof
  show "labels (with_track_children ti cs t) = labels t" for ti cs t
    by (cases "ti < length (tl_children t)")
      (auto simp: with_track_children_def labels_def map_update list_update_beyond intro!: list_update_same_conv [THEN iffD2])
qed (simp_all add: labels_def tl_children_def map_cut_boundaries_def with_montage_def)

interpretation fields: timeline_frame header
  by unfold_locales (simp_all add: header_def with_track_children_def with_tl_children_def
      map_cut_boundaries_def with_montage_def)

definition names_of :: "(string \<times> track_kind) option list \<Rightarrow> string list" where
  "names_of ls = map fst (List.map_filter id ls)"

lemma names_of_simps [simp]:
  "names_of [] = []" "names_of (l # ls) = (case l of None \<Rightarrow> [] | Some (n, k) \<Rightarrow> [n]) @ names_of ls"
  "names_of (xs @ ys) = names_of xs @ names_of ys"
  by (auto simp: names_of_def List.map_filter_def split: option.splits)

lemma list_track_names_labels: "list_track_names t = names_of (labels t)"
proof -
  have "List.map_filter (\<lambda>sc. case sc of SC_Track t \<Rightarrow> Some (track_name t) | _ \<Rightarrow> None) scs
      = names_of (map sc_label scs)" for scs
    by (induction scs) (auto simp: List.map_filter_simps sc_label_def split: stack_child.splits)
  then show ?thesis by (simp add: list_track_names_def labels_def)
qed

lemma names_of_tracks: "set (names_of (map sc_label scs)) = {n. \<exists>sc \<in> set scs. is_track_named n sc}"
  by (induction scs) (auto simp: sc_label_def is_track_named_def split: stack_child.splits)

lemma pop_trailing_label: "pop_trailing_gaps sc = (r, sc') \<Longrightarrow> sc_label sc' = sc_label sc"
  by (cases sc rule: pop_trailing_gaps.cases) (auto simp: sc_label_def split: prod.splits)

lemma trim_tails_labels: "trim_tails p g ti scs = (r, scs') \<Longrightarrow> map sc_label scs' = map sc_label scs"
proof (induction scs arbitrary: ti r scs')
  case (Cons sc scs)
  then show ?case by (fastforce split: prod.splits if_splits dest: pop_trailing_label)
qed simp

lemma apply_trim_track_tail_labels: "gives (\<lambda>(m, t'). labels t' = labels t \<and> header t' = header t)
    (apply_trim_track_tail i n t)"
proof -
  have "map sc_label (snd (case g of
      None \<Rightarrow> ([], (tl_children t)[k := snd (pop_trailing_gaps (tl_children t ! k))])
    | Some h \<Rightarrow> trim_tails k h 0 ((tl_children t)[k := snd (pop_trailing_gaps (tl_children t ! k))]))) = labels t"
    for k and g :: "string option"
  proof -
    have "sc_label (snd (pop_trailing_gaps (tl_children t ! k))) = sc_label (tl_children t ! k)"
      by (rule pop_trailing_label [of _ "fst (pop_trailing_gaps (tl_children t ! k))"]) simp
    then have "map sc_label ((tl_children t)[k := snd (pop_trailing_gaps (tl_children t ! k))]) = labels t"
      by (cases "k < length (tl_children t)")
        (auto simp: labels_def map_update list_update_beyond intro!: list_update_same_conv [THEN iffD2])
    moreover have "map sc_label (snd (trim_tails k h 0 scs)) = map sc_label scs" for h scs
      by (rule trim_tails_labels [of k h 0 scs "fst (trim_tails k h 0 scs)"]) simp
    ultimately show ?thesis by (simp split: option.splits)
  qed
  then show ?thesis unfolding apply_trim_track_tail_def Let_def case_prod_unfold
    by (intro gives_intros) simp_all
qed

lemma new_track_name:
  "\<forall>sc \<in> set (tl_children t). \<not> is_track_named n sc \<Longrightarrow> n \<notin> set (names_of (labels t))"
  by (simp add: labels_def names_of_tracks)

lemma apply_insert_track_names:
  assumes "distinct (list_track_names t)"
  shows "gives (\<lambda>(m, t'). distinct (list_track_names t') \<and> header t' = header t)
    (apply_insert_track i n k p t)"
proof -
  have "distinct (names_of (map sc_label (insert_at j (SC_Track (track_empty (trim n) kind)) (tl_children t))))"
    if "List.find (is_track_named (trim n)) (tl_children t) = None" for j kind
  proof -
    have new: "trim n \<notin> set (names_of (labels t))"
      using that by (intro new_track_name) (simp add: find_None_iff)
    have "labels t = map sc_label (take j (tl_children t)) @ map sc_label (drop j (tl_children t))"
      by (simp add: labels_def flip: map_append)
    with new assms show ?thesis
      by (auto simp: insert_at_def sc_label_def [of "SC_Track x" for x] track_empty_def list_track_names_labels)
  qed
  with assms show ?thesis unfolding apply_insert_track_def Let_def
    by (intro gives_intros) (auto simp: list_track_names_labels)
qed

lemma apply_delete_track_names:
  assumes "distinct (list_track_names t)"
  shows "gives (\<lambda>(m, t'). distinct (list_track_names t') \<and> header t' = header t)
    (apply_delete_track i n force t)"
proof -
  have "distinct (names_of (map sc_label (remove_at j (tl_children t))))" for j
  proof (cases "j < length (tl_children t)")
    case True
    then have "labels t = map sc_label (take j (tl_children t)) @ sc_label (tl_children t ! j)
        # map sc_label (drop (Suc j) (tl_children t))"
      unfolding labels_def by (metis id_take_nth_drop list.simps(9) map_append)
    with assms show ?thesis by (auto simp: remove_at_def list_track_names_labels)
  next
    case False
    with assms show ?thesis by (simp add: remove_at_def list_track_names_labels labels_def)
  qed
  then show ?thesis unfolding apply_delete_track_def Let_def
    by (intro gives_intros) (auto simp: list_track_names_labels)
qed

text \<open>The tracks of a timeline, with one appended when no track has the name.\<close>

lemma track_or_new:
  assumes "distinct (list_track_names t)"
    and "(case position (is_track_named n) (tl_children t) of
          Some j \<Rightarrow> (j, t)
        | None \<Rightarrow> (length (tl_children t), with_tl_children (tl_children t @ [SC_Track (track_empty n k)]) t))
      = (ti, t1)"
  shows "distinct (names_of (labels t1)) \<and> header t1 = header t"
  using assms position_None [of "is_track_named n" "tl_children t"]
  by (auto simp: list_track_names_labels labels_def [symmetric] new_track_name
      sc_label_def [of "SC_Track x" for x] track_empty_def split: option.splits)

lemma apply_insert_clip_names:
  assumes "distinct (list_track_names t)"
  shows "gives (\<lambda>(m, t', n). distinct (list_track_names t') \<and> header t' = header t)
    (apply_insert_clip clock i a t seq)"
  unfolding apply_insert_clip_def Let_def
  by (intro gives_intros) (auto simp: list_track_names_labels dest!: track_or_new [OF assms])

section \<open>The professional edits\<close>

lemma edit_tracks_labels:
  "gives (\<lambda>((scs', counts), q). map sc_label scs' = map sc_label scs) (edit_tracks f names m n x scs seq)"
proof (induction scs arbitrary: m n x seq)
  case (Cons sc scs)
  have "sc_label (SC_Track (track_with_children cs tr)) = sc_label (SC_Track tr)" for cs tr
    using sc_label_with [of cs "SC_Track tr"] by simp
  then show ?case
    by (cases sc; simp only: edit_tracks.simps Let_def; intro gives_intros)
      (auto dest!: givesD [OF Cons.IH])
qed (simp add: gives_def)

definition tracks_named :: "timeline \<Rightarrow> timeline \<Rightarrow> bool" where
  "tracks_named t t' \<longleftrightarrow> distinct (list_track_names t') \<and> header t' = header t"

lemma tracks_namedI: "distinct (list_track_names t) \<Longrightarrow> labels t' = labels t \<Longrightarrow> header t' = header t \<Longrightarrow>
    tracks_named t t'"
  by (simp add: tracks_named_def list_track_names_labels)

lemma lift_names:
  assumes "distinct (list_track_names t)"
    and "gives (\<lambda>(m, t'). labels t' = labels t) r" and "gives (\<lambda>(m, t'). header t' = header t) r"
  shows "gives (\<lambda>(m, t', n). tracks_named t t') (lift_edit seq r)"
  using assms unfolding lift_edit_def by (intro gives_intros) (auto simp: gives_def intro: tracks_namedI)

lemma range_edits_names:
  assumes "distinct (list_track_names t)"
  shows "gives (\<lambda>(m, t', n). tracks_named t t') (apply_lift_range clock i r names t seq)"
    and "gives (\<lambda>(m, t', n). tracks_named t t') (apply_extract_range clock i r names t seq)"
  unfolding apply_lift_range_def apply_extract_range_def
  by ((intro gives_intros;
      auto dest!: givesD [OF edit_tracks_labels] intro!: tracks_namedI [OF assms] simp: labels_def [of t]))+

lemma apply_overwrite_names:
  assumes "distinct (list_track_names t)"
  shows "gives (\<lambda>(m, t', n). tracks_named t t') (apply_overwrite_clip clock i n r a t seq)"
  unfolding apply_overwrite_clip_def build_professional_source_clip_def Let_def
  by (intro gives_intros) (auto simp: tracks_named_def list_track_names_labels dest!: track_or_new [OF assms])

lemma apply_append_names:
  assumes "distinct (list_track_names t)"
  shows "gives (\<lambda>(m, t', n). tracks_named t t') (apply_append_clip clock i n a r t seq)"
  using givesD [OF apply_insert_clip_names [OF assms]] unfolding apply_append_clip_def
  by (intro gives_intros) (auto simp: gives_def tracks_named_def)

lemma names_of_update:
  "j < length scs \<Longrightarrow> is_track_named n (scs ! j) \<Longrightarrow> is_track_named n sc \<Longrightarrow>
     names_of (map sc_label (scs[j := sc])) = names_of (map sc_label scs)"
proof (induction scs arbitrary: j)
  case (Cons x scs)
  then show ?case
    by (cases j) (auto simp: sc_label_def is_track_named_def split: stack_child.splits)
qed simp

lemma apply_multicam_names:
  assumes "distinct (list_track_names t)"
  shows "gives (\<lambda>(m, t', n). tracks_named t t') (apply_multicam_plan clock i plan t seq)"
proof -
  have named: "is_track_named n (SC_Track tr)"
    if "build_multicam_program_track clock n ds seq = (tr, q)" for n ds tr q
    using that by (auto simp: build_multicam_program_track_def is_track_named_def track_empty_def split: prod.splits)
  have "distinct (names_of (map sc_label (case position (is_track_named n) (tl_children t) of
      Some j \<Rightarrow> (tl_children t)[j := SC_Track tr] | None \<Rightarrow> tl_children t @ [SC_Track tr])))"
    if "is_track_named n (SC_Track tr)" for n tr
    using that assms position_None [of "is_track_named n" "tl_children t"]
      position_Some [of "is_track_named n" "tl_children t"]
    by (auto simp: list_track_names_labels labels_def [symmetric] new_track_name names_of_update
        sc_label_def [of "SC_Track x" for x] is_track_named_def split: option.splits)
  with named show ?thesis
    unfolding apply_multicam_plan_def Let_def
    by (intro gives_intros) (simp add: tracks_named_def list_track_names_labels)
qed

lemma run_pro_edit_names:
  assumes "distinct (list_track_names t)"
  shows "gives (\<lambda>(m, t', n). tracks_named t t') (run_pro_edit clock ctx i edit loc t seq)"
  by (cases edit; simp only: run_pro_edit.simps;
      (intro range_edits_names [OF assms] apply_overwrite_names [OF assms] apply_append_names [OF assms])?;
      (intro lift_names [OF assms];
        rule track_labels.source_edits_view fields.source_edits_view
          track_labels.apply_pro_ripple_trim_view fields.apply_pro_ripple_trim_view
          track_labels.marker_edits_view fields.marker_edits_view
          track_labels.nesting_view fields.nesting_view)?)

lemma pro_edit_names:
  assumes "distinct (list_track_names t)"
  shows "gives (\<lambda>(m, t', n). tracks_named t t') (apply_professional_timeline_edit clock ctx i edit loc t seq)"
  unfolding apply_professional_timeline_edit_def
  by (intro gives_intros)
    (auto dest!: givesD [OF run_pro_edit_names [OF assms]] simp: tracks_named_def list_track_names_labels)

section \<open>Audio tracks\<close>

lemma edit_audio_track_labels:
  "gives (\<lambda>(m, t'). labels t' = labels t) (edit_audio_track i label f note n t)"
  "gives (\<lambda>(m, t'). header t' = header t) (edit_audio_track i label f note n t)"
proof -
  have label: "sc_label (SC_Track (track_with_metadata m tr)) = sc_label (SC_Track tr)" for m tr
    by (cases tr) (simp add: sc_label_def)
  show "gives (\<lambda>(m, t'). labels t' = labels t) (edit_audio_track i label f note n t)"
    unfolding edit_audio_track_def
    by (intro gives_intros)
      (auto simp: gives_def labels_def map_update label split: json.splits dest!: find_track_Some
        intro!: list_update_same_conv [THEN iffD2])
  show "gives (\<lambda>(m, t'). header t' = header t) (edit_audio_track i label f note n t)"
    unfolding edit_audio_track_def by (intro gives_intros) (auto simp: gives_def split: json.splits)
qed

lemma track_audio_labels:
  "gives (\<lambda>(m, t'). labels t' = labels t) (apply_set_track_audio i n r v b s t)"
  "gives (\<lambda>(m, t'). header t' = header t) (apply_set_track_audio i n r v b s t)"
  "gives (\<lambda>(m, t'). labels t' = labels t) (apply_set_ducking i n e d a r' t)"
  "gives (\<lambda>(m, t'). header t' = header t) (apply_set_ducking i n e d a r' t)"
  "gives (\<lambda>(m, t'). labels t' = labels t) (apply_set_track_audio_fx i n fx t)"
  "gives (\<lambda>(m, t'). header t' = header t) (apply_set_track_audio_fx i n fx t)"
  unfolding apply_set_track_audio_def apply_set_ducking_def apply_set_track_audio_fx_def Let_def
  by (intro gives_intros edit_audio_track_labels)+

section \<open>Envelopes\<close>

lemma apply_envelope_eq:
  "apply_envelope clock ctx ops t seq = Inr (applied, t', seq') \<longleftrightarrow>
     apply_ops clock ctx 0 ops [] t seq = Inr (applied, t', seq') \<and> validate_for_test t' = Inr ()"
proof (cases "apply_ops clock ctx 0 ops [] t seq")
  case (Inr r)
  obtain a t1 n where r: "r = (a, t1, n)" by (cases r)
  show ?thesis using Inr r by (cases "validate_for_test t1") (auto simp: apply_envelope_def)
qed (simp add: apply_envelope_def)

lemma apply_one_names:
  assumes "distinct (list_track_names t)"
  shows "gives (\<lambda>(m, t', n). tracks_named t t') (apply_one clock ctx i eop loc t seq)"
proof (cases eop)
  case (SplitClip a at_s snap)
  show ?thesis using assms
      givesD [OF track_labels.apply_split_view [of t clock i at_s snap loc seq]]
      givesD [OF fields.apply_split_view [of t clock i at_s snap loc seq]]
    by (auto simp: SplitClip gives_def intro: tracks_namedI)
next
  case (InsertClip a)
  show ?thesis using apply_insert_clip_names [OF assms, of clock i a seq]
    by (simp add: InsertClip tracks_named_def case_prod_unfold)
next
  case (InsertTrack n k p)
  show ?thesis using apply_insert_track_names [OF assms, of i n k p]
    by (auto simp: InsertTrack lift_edit_def gives_def rbind_eq_Inr tracks_named_def)
next
  case (DeleteTrack n force)
  show ?thesis using apply_delete_track_names [OF assms, of i n force]
    by (auto simp: DeleteTrack lift_edit_def gives_def rbind_eq_Inr tracks_named_def)
next
  case (TrimTrackTail n)
  show ?thesis using apply_trim_track_tail_labels [of t i n] assms
    by (auto simp: TrimTrackTail lift_edit_def gives_def rbind_eq_Inr intro: tracks_namedI)
next
  case (ProTimelineEdit edit)
  show ?thesis using pro_edit_names [OF assms] by (simp add: ProTimelineEdit)
next
  case (ApplyMulticamPlan plan)
  show ?thesis using apply_multicam_names [OF assms] by (simp add: ApplyMulticamPlan)
qed ((simp only: apply_one.simps; intro lift_names [OF assms];
    rule track_labels.apply_trim_view fields.apply_trim_view
      track_labels.apply_untrim_view fields.apply_untrim_view
      track_labels.apply_delete_view fields.apply_delete_view
      track_labels.apply_move_clip_view fields.apply_move_clip_view
      track_labels.apply_ripple_move_view fields.apply_ripple_move_view
      track_labels.apply_ripple_delete_view fields.apply_ripple_delete_view
      track_labels.apply_ripple_trim_view fields.apply_ripple_trim_view
      track_labels.apply_delete_gap_view fields.apply_delete_gap_view
      track_labels.apply_delete_transition_view fields.apply_delete_transition_view
      track_labels.apply_set_cut_intent_view fields.apply_set_cut_intent_view
      track_labels.sound_edits_view fields.sound_edits_view
      track_labels.split_edit_view fields.split_edit_view
      track_labels.sync_group_view fields.sync_group_view track_audio_labels)+)

lemma prune_split_views [simp]:
  "labels (prune_stale_split_edits t) = labels t" "header (prune_stale_split_edits t) = header t"
  by (simp_all add: prune_stale_split_edits_def labels_def o_def)

lemma apply_ops_names:
  "distinct (list_track_names t) \<Longrightarrow>
     gives (\<lambda>(a, t', n). tracks_named t t') (apply_ops clock ctx i ops aliases t seq)"
proof (induction ops arbitrary: i aliases t seq)
  case (Cons eop ops)
  have "tracks_named t t'" if "apply_step clock ctx i eop aliases t seq = Inr (a, al, t', n)" for a al t' n
  proof -
    from that obtain loc note' t1 where "apply_one clock ctx i eop loc t seq = Inr (note', t1, n)"
      "t' = prune_stale_split_edits (prune_stale_cut_boundaries t1)"
      by (auto simp: apply_step_def rbind_eq_Inr Let_def)
    with givesD [OF apply_one_names [OF Cons.prems]] show ?thesis
      by (auto simp: tracks_named_def list_track_names_labels)
  qed
  then show ?case unfolding apply_ops.simps
    by (intro gives_intros) (auto simp: tracks_named_def dest!: givesD [OF Cons.IH])
qed (simp add: gives_def tracks_named_def)


end
