(* ===== verification/Edl_Guarantees.thy ===== *)
theory Edl_Guarantees
  imports Edl_Split Edl_Frames
begin

text \<open>
  What an envelope guarantees as a whole, and operations that undo each other.
\<close>

section \<open>The result of an envelope\<close>

text \<open>Every clip directly on a track plays a range of finite numbers, of positive rate and
  non-negative length.\<close>

definition clips_playable :: "timeline \<Rightarrow> bool" where
  "clips_playable t \<longleftrightarrow>
     (\<forall>sc \<in> set (tl_children t). \<forall>c r. TC_Clip c \<in> set (sc_children sc) \<longrightarrow> clip_source_range c = Some r \<longrightarrow>
        list_all is_finite (range_floats r)
        \<and> 0 < fval (rt_rate (tr_start_time r)) \<and> 0 < fval (rt_rate (tr_duration r))
        \<and> 0 \<le> fval (rt_value (tr_duration r)))"

lemma track_clip_floats:
  assumes "sc \<in> set (tl_children t)" and "TC_Clip c \<in> set (sc_children sc)" and "clip_source_range c = Some r"
    and "serde_round_trips t"
  shows "list_all is_finite (range_floats r)"
proof -
  from assms(2) obtain n k cs sr m where sc: "sc = SC_Track (Track n k cs sr m)" "TC_Clip c \<in> set cs"
    by (cases sc rule: sc_children.cases) (metis sc_children.simps(1) track.collapse, simp_all)
  have "set (range_floats r) \<subseteq> set (clip_floats c)" using assms(3) by (auto simp: clip_floats_def opt_floats_def)
  also have "\<dots> \<subseteq> set (stack_child_floats sc)" using sc by force
  also have "\<dots> \<subseteq> set (stack_floats (tl_tracks t))"
    using assms(1) by (cases "tl_tracks t") (auto simp: tl_children_def)
  finally show ?thesis using assms(4) by (auto simp: serde_round_trips_def list_all_iff)
qed

lemma validated_clips:
  assumes "validate_for_test t = Inr ()"
  shows "serde_round_trips t \<and> clips_playable t"
proof -
  from assms have fin: "serde_round_trips t"
    and warn: "\<forall>sc \<in> set (tl_children t). \<forall>tc \<in> set (sc_children sc). child_warnings tc = []"
    by (auto simp: validate_for_test_def Let_def split: if_splits)
  have "list_all is_finite (range_floats r) \<and> 0 < fval (rt_rate (tr_start_time r))
      \<and> 0 < fval (rt_rate (tr_duration r)) \<and> 0 \<le> fval (rt_value (tr_duration r))"
    if "sc \<in> set (tl_children t)" "TC_Clip c \<in> set (sc_children sc)" "clip_source_range c = Some r" for sc c r
  proof -
    have floats: "list_all is_finite (range_floats r)" using track_clip_floats [OF that fin] .
    then have "is_finite (rt_rate (tr_start_time r))" "is_finite (rt_rate (tr_duration r))"
      "is_finite (rt_value (tr_duration r))" by (simp_all add: range_floats_def time_floats_def)
    moreover have "child_warnings (TC_Clip c) = []" using warn that(1,2) by blast
    ultimately show ?thesis using floats that(3) by (simp add: finite_compare split: if_splits)
  qed
  with fin show ?thesis by (auto simp: clips_playable_def)
qed

lemma apply_ops_indices:
  "apply_ops clock ctx i ops aliases t seq = Inr (applied, t', seq') \<Longrightarrow>
     map ao_index applied = [i..<i + length ops]"
proof (induction ops arbitrary: i aliases t seq applied)
  case (Cons eop ops)
  from Cons.prems obtain a al t1 n rest where
    step: "apply_step clock ctx i eop aliases t seq = Inr (a, al, t1, n)"
    and rest: "apply_ops clock ctx (Suc i) ops al t1 n = Inr (rest, t', seq')" "applied = a # rest"
    by (auto simp: rbind_eq_Inr)
  from step have "ao_index a = i" by (auto simp: apply_step_def rbind_eq_Inr Let_def)
  with Cons.IH [OF rest(1)] rest(2) show ?case by (simp add: upt_conv_Cons del: upt_Suc)
qed simp

text \<open>C8: An envelope that succeeds reports every operation in order and leaves a well-formed
  timeline: all numbers finite, every clip on a track with positive rates and a non-negative length,
  no record of a cut that does not exist, and no split edit whose neighbour is gone.\<close>

theorem apply_envelope_sound:
  assumes "apply_envelope clock ctx ops t seq = Inr (applied, t', seq')"
  shows "map ao_index applied = [0..<length ops] \<and> serde_round_trips t' \<and> clips_playable t'
    \<and> (ops \<noteq> [] \<longrightarrow> cuts_current t')"
proof -
  from assms have ops: "apply_ops clock ctx 0 ops [] t seq = Inr (applied, t', seq')"
    and valid: "validate_for_test t' = Inr ()" by (simp_all add: apply_envelope_eq)
  show ?thesis
    using apply_ops_indices [OF ops] validated_clips [OF valid] apply_ops_current [OF ops] by auto
qed

section \<open>Adding and removing a track\<close>

lemma with_own_children [simp]: "with_tl_children (tl_children t) t = t"
  by (cases "tl_tracks t") (simp add: with_tl_children_def tl_children_def)

lemma position_insert_at:
  "\<forall>y \<in> set xs. \<not> P y \<Longrightarrow> P x \<Longrightarrow> i \<le> length xs \<Longrightarrow> position P (insert_at i x xs) = Some i"
proof (induction xs arbitrary: i)
  case (Cons y ys)
  then show ?case by (cases i) (simp_all add: insert_at_def)
qed (simp add: insert_at_def)

lemma remove_insert_at: "i \<le> length xs \<Longrightarrow> remove_at i (insert_at i x xs) = xs"
  by (simp add: remove_at_def insert_at_def)

lemma track_insert_index_bound: "track_insert_index k p scs \<le> length scs"
proof (cases "kind_indices k scs = []")
  case False
  have bound: "x < length scs" if "x \<in> set (kind_indices k scs)" for x
    using that by (simp add: kind_indices_def)
  show ?thesis
  proof (cases p)
    case None
    then show ?thesis using False bound [OF last_in_set [OF False]] by (simp add: track_insert_index_def)
  next
    case (Some j)
    then show ?thesis using False bound [OF last_in_set [OF False]] bound [OF nth_mem [of j "kind_indices k scs"]]
      by (simp add: track_insert_index_def Let_def Suc_le_eq)
  qed
qed (simp add: track_insert_index_def)

text \<open>A track that was added can be removed again without force, and the timeline is what it was.\<close>

theorem insert_then_delete_track:
  assumes "trim name \<noteq> []" and "\<forall>sc \<in> set (tl_children t). \<not> is_track_named (trim name) sc"
  shows "\<exists>m t' m'. apply_insert_track i name kind pos t = Inr (m, t')
    \<and> length (tl_children t') = Suc (length (tl_children t))
    \<and> apply_delete_track j name False t' = Inr (m', t)"
proof -
  let ?k = "resolved_track_kind (trim name) kind"
  let ?p = "track_insert_index ?k pos (tl_children t)"
  let ?x = "SC_Track (track_empty (trim name) ?k)"
  let ?t' = "with_tl_children (insert_at ?p ?x (tl_children t)) t"
  have none: "List.find (is_track_named (trim name)) (tl_children t) = None"
    using assms(2) by (simp add: find_None_iff)
  have p: "?p \<le> length (tl_children t)" by (rule track_insert_index_bound)
  have found: "position (is_track_named (trim name)) (insert_at ?p ?x (tl_children t)) = Some ?p"
    using assms(2) p by (intro position_insert_at) (simp_all add: is_track_named_def track_empty_def)
  have new: "insert_at ?p ?x (tl_children t) ! ?p = ?x" using p by (simp add: insert_at_def nth_append)
  have "non_gap_count ?x = 0" by (simp add: non_gap_count_def track_empty_def)
  then have "\<exists>m'. apply_delete_track j name False ?t' = Inr (m', t)"
    using assms(1) found new p by (simp add: apply_delete_track_def Let_def remove_insert_at)
  moreover have "\<exists>m. apply_insert_track i name kind pos t = Inr (m, ?t')"
    using assms(1) none by (simp add: apply_insert_track_def Let_def)
  moreover have "length (tl_children ?t') = Suc (length (tl_children t))"
    using p by (simp add: insert_at_def)
  ultimately show ?thesis by blast
qed

section \<open>Concrete envelopes\<close>

lemma sample_trims: "trim ''V1'' = ''V1''" "trim ''A1'' = ''A1''"
  by code_simp+

lemma sample_envelope:
  "\<exists>applied t'. apply_envelope (\<lambda>_. 7) no_sidecars [InsertTrack ''V1'' ITK_Video None]
     (sample_timeline []) 0 = Inr (applied, t', 0)"
  by (simp add: apply_envelope_def apply_step_def resolve_locator_for_op_def lift_edit_def Let_def
      apply_insert_track_def sample_trims sample_timeline_def tl_children_def
      with_tl_children_def resolved_track_kind_def track_insert_index_def kind_indices_def insert_at_def
      track_empty_def prune_stale_split_edits_def prune_stale_cut_boundaries_def map_cut_boundaries_def
      validate_for_test_def serde_round_trips_def opt_floats_def prune_track_split_edits_def)

theorem apply_envelope_sound_witness:
  "\<exists>applied t'.
    apply_envelope (\<lambda>_. 7) no_sidecars [InsertTrack ''V1'' ITK_Video None] (sample_timeline []) 0
      = Inr (applied, t', 0)
    \<and> map ao_index applied = [0] \<and> serde_round_trips t' \<and> clips_playable t' \<and> cuts_current t'"
proof -
  obtain applied t' where run: "apply_envelope (\<lambda>_. 7) no_sidecars
      [InsertTrack ''V1'' ITK_Video None] (sample_timeline []) 0 = Inr (applied, t', 0)"
    using sample_envelope by blast
  with apply_envelope_sound [OF run] show ?thesis by auto
qed


theorem insert_then_delete_track_witness:
  "\<exists>m t' m'. apply_insert_track 0 ''A1'' ITK_Auto None (sample_timeline []) = Inr (m, t')
    \<and> length (tl_children t') = 1
    \<and> apply_delete_track 1 ''A1'' False t' = Inr (m', sample_timeline [])"
  using insert_then_delete_track [of "''A1''" "sample_timeline []" 0 ITK_Auto None 1]
  by (simp add: sample_trims)

end
