(* ===== verification/Edl_Undo.thy ===== *)
theory Edl_Undo
  imports Edl_Guarantees
begin

text \<open>
  Edits that undo each other: a clip moved to another position and back, a clip trimmed and untrimmed.
\<close>

section \<open>Positions\<close>

lemma nth_insert_at: "p \<le> length xs \<Longrightarrow> insert_at p x xs ! p = x"
  by (simp add: insert_at_def nth_append)

lemma length_remove_at: "i < length xs \<Longrightarrow> length (remove_at i xs) = length xs - 1"
  by (simp add: remove_at_def)

lemma length_insert_at: "p \<le> length xs \<Longrightarrow> length (insert_at p x xs) = Suc (length xs)"
  by (simp add: insert_at_def)

lemma insert_remove_at: "i < length xs \<Longrightarrow> insert_at i (xs ! i) (remove_at i xs) = xs"
  by (simp add: insert_at_def remove_at_def id_take_nth_drop [symmetric])

lemma with_own_track [simp]:
  "tl_children t ! ti = SC_Track tr \<Longrightarrow> with_track_children ti (track_children tr) t = t"
proof -
  assume tr: "tl_children t ! ti = SC_Track tr"
  have "sc_with_children (track_children tr) (SC_Track tr) = SC_Track tr" by (cases tr) simp
  with tr have "with_track_children ti (track_children tr) t = with_tl_children (tl_children t) t"
    by (metis list_update_id with_track_children_def)
  then show ?thesis by simp
qed

lemma move_to_position_run:
  assumes "ti < length (tl_children t)" and "tl_children t ! ti = SC_Track tr"
    and "ci < length (track_children tr)" and "p < length (track_children tr)" and "p \<noteq> ci"
  shows "\<exists>m. apply_move_clip i p None snap (Some \<lparr>cl_track_index = ti, cl_child_index = ci\<rparr>) t =
    Inr (m, with_track_children ti (insert_at p (track_children tr ! ci) (remove_at ci (track_children tr))) t)"
proof -
  have "min p (length (track_children tr) - 1) = p" using assms(4) by simp
  moreover have "min p (length (remove_at ci (track_children tr))) = p"
    using assms(3,4) by (simp add: length_remove_at)
  ultimately show ?thesis using assms
    by (simp add: apply_move_clip_def required_locator_def map_transpose_def Let_def)
qed

text \<open>Moving a clip to another position of its track puts it there, keeps the others in order, and
  moving it back gives the timeline there was.\<close>

theorem move_and_back:
  assumes "ti < length (tl_children t)" and "tl_children t ! ti = SC_Track tr"
    and "ci < length (track_children tr)" and "p < length (track_children tr)" and "p \<noteq> ci"
  shows "\<exists>m t' cs' m'.
    apply_move_clip i p None snap (Some \<lparr>cl_track_index = ti, cl_child_index = ci\<rparr>) t = Inr (m, t')
    \<and> tl_children t' = (tl_children t)[ti := SC_Track (track_with_children cs' tr)]
    \<and> cs' ! p = track_children tr ! ci \<and> remove_at p cs' = remove_at ci (track_children tr)
    \<and> apply_move_clip j ci None snap' (Some \<lparr>cl_track_index = ti, cl_child_index = p\<rparr>) t' = Inr (m', t)"
proof -
  let ?cs = "track_children tr"
  let ?cs' = "insert_at p (?cs ! ci) (remove_at ci ?cs)"
  let ?t' = "with_track_children ti ?cs' t"
  have p: "p \<le> length (remove_at ci ?cs)" using assms(3,4) by (simp add: length_remove_at)
  have there: "?cs' ! p = ?cs ! ci" "remove_at p ?cs' = remove_at ci ?cs"
    using p by (simp_all add: nth_insert_at remove_insert_at)
  have len: "length ?cs' = length ?cs" using p assms(3) by (simp add: length_insert_at length_remove_at)
  have t': "tl_children ?t' ! ti = SC_Track (track_with_children ?cs' tr)" using assms(1,2) by simp
  from move_to_position_run [of ti ?t' "track_with_children ?cs' tr" p ci j snap'] assms t' len
  have "\<exists>m'. apply_move_clip j ci None snap' (Some \<lparr>cl_track_index = ti, cl_child_index = p\<rparr>) ?t' =
      Inr (m', with_track_children ti (insert_at ci (?cs' ! p) (remove_at p ?cs')) ?t')" by simp
  then have undone: "\<exists>m'. apply_move_clip j ci None snap' (Some \<lparr>cl_track_index = ti, cl_child_index = p\<rparr>) ?t' =
      Inr (m', t)"
    using assms(2,3) by (simp add: there insert_remove_at)
  from move_to_position_run [OF assms, of i snap] undone there assms(2) show ?thesis
    by (fastforce simp: tl_children_with_track)
qed

theorem move_and_back_witness:
  "\<exists>m t' cs' m'.
    apply_move_clip 0 0 None None (Some \<lparr>cl_track_index = 0, cl_child_index = 2\<rparr>)
      (sample_timeline [SC_Track three_clips]) = Inr (m, t')
    \<and> tl_children t' = [SC_Track (track_with_children cs' three_clips)]
    \<and> cs' ! 0 = TC_Clip (sample_clip ''b'' 0 3)
    \<and> remove_at 0 cs' = remove_at 2 (track_children three_clips)
    \<and> apply_move_clip 1 2 None None (Some \<lparr>cl_track_index = 0, cl_child_index = 0\<rparr>) t'
        = Inr (m', sample_timeline [SC_Track three_clips])"
  using move_and_back [of 0 "sample_timeline [SC_Track three_clips]" three_clips 2 0 0 None 1 None]
  by (simp add: three_clips_moves) (simp add: three_clips_def)

section \<open>Trim and untrim\<close>

lemma grid_difference:
  assumes "in_reach x" and "in_reach y"
  shows "on_grid (fsub x y)" and "fval (fsub x y) = fval x - fval y"
    and "flt (fabs (fsub x y)) micro \<longleftrightarrow> fval x = fval y"
proof -
  have xy: "on_grid x" "on_grid y" "\<bar>fval x\<bar> \<le> 2 ^ 20" "\<bar>fval y\<bar> \<le> 2 ^ 20"
    using assms by (simp_all add: in_reach_def)
  then have "\<bar>fval x - fval y\<bar> < 2 ^ 44" by simp
  note d = fsub_grid [OF xy(1,2) this]
  show "on_grid (fsub x y)" and "fval (fsub x y) = fval x - fval y" by (fact d)+
  have "\<bar>fval (fsub x y)\<bar> * 512 = \<bar>fval (fsub x y) * 512\<bar>" by (simp only: abs_mult)
  also have "\<dots> \<in> \<int>" using d(1) unfolding on_grid_def by (intro Ints_abs) blast
  finally have abs_grid: "on_grid (fabs (fsub x y))" "fval (fabs (fsub x y)) = \<bar>fval x - fval y\<bar>"
    using d(2) on_grid_finite [OF d(1)] by (simp_all add: on_grid_def fval_fabs)
  then have "\<bar>fval (fabs (fsub x y))\<bar> \<le> 2 ^ 21" using xy by simp
  from tolerance_compare(7) [OF tolerances_of_the_code(2) abs_grid(1) abs_grid(1) this]
  show "flt (fabs (fsub x y)) micro \<longleftrightarrow> fval x = fval y" by (simp add: abs_grid(2))
qed

lemma apply_trim_run:
  assumes "clip_at t l = Some c" and "tl_children t ! cl_track_index l = SC_Track tr"
    and "grid_clip c" and "clip_link_group_id c = None" and "in_reach s" and "in_reach e"
    and "src_start c \<le> fval s" and "fval s \<le> fval e" and "fval e \<le> src_end c"
    and "\<not> (fval s = src_start c \<and> fval e = src_end c)"
  shows "\<exists>m c'. apply_trim i (Some s) (Some e) (Some l) t =
      Inr (m, with_track_children (cl_track_index l) ((track_children tr)[cl_child_index l := TC_Clip c']) t)
    \<and> c' = c\<lparr>clip_source_range := clip_source_range c'\<rparr>
    \<and> grid_clip c' \<and> src_start c' = fval s \<and> src_end c' = fval e"
proof -
  from clip_atE [OF assms(1)] assms(2) have ci: "cl_child_index l < length (track_children tr)"
    "track_children tr ! cl_child_index l = TC_Clip c" "cl_track_index l < length (tl_children t)" by auto
  from assms(3) obtain r where r: "clip_source_range c = Some r" by (auto simp: grid_clip_def)
  note ends = grid_clip_ends [OF assms(3) r]
  define a where "a = to_seconds (tr_start_time r)"
  define b where "b = fadd a (to_seconds (tr_duration r))"
  define rate where "rate = rt_rate (tr_start_time r)"
  note ends = ends [folded a_def rate_def, folded b_def]
  have grid: "on_grid s" "on_grid e" "on_grid a" "on_grid b" "\<bar>fval a\<bar> \<le> 2 ^ 21" "\<bar>fval b\<bar> \<le> 2 ^ 21"
    using assms(5,6) ends by (simp_all add: in_reach_def)
  have d: "on_grid (fsub e s)" "fval (fsub e s) = fval e - fval s"
    using grid_difference [OF assms(6,5)] by simp_all
  have checks: "\<not> flt e s" "\<not> flt (fadd b micro) e" "\<not> flt s (fsub a micro)" "\<not> flt (fsub e s) (Fin 0)"
    "\<not> (flt (fabs (fsub s a)) micro \<and> flt (fabs (fsub e b)) micro)"
    using assms(7-10) ends tolerance_compare(2) [OF tolerances_of_the_code(2) grid(4,2,6)]
      tolerance_compare(3) [OF tolerances_of_the_code(2) grid(3,1,5)]
      grid_difference(3) [OF assms(5) ends(2)] grid_difference(3) [OF assms(6) ends(4)] d
    by (simp_all add: finite_compare on_grid_finite grid)
  have reach: "in_reach (fsub e s)" using d assms(7-9) ends by (simp add: in_reach_def)
  define c' where "c' = c\<lparr>clip_source_range := Some (seconds_range s (fsub e s) rate)\<rparr>"
  have c': "grid_clip c'" "src_start c' = fval s" "src_end c' = fval e"
    using retimed_clip [OF assms(5) reach ends(1) _ _ _ c'_def] d assms(7-9) ends by simp_all
  have "\<exists>m. apply_trim i (Some s) (Some e) (Some l) t =
      Inr (m, with_track_children (cl_track_index l) ((track_children tr)[cl_child_index l := TC_Clip c']) t)"
    using assms(2,4) ci r checks
    by (simp add: apply_trim_def required_locator_def source_range_of_def Let_def unwrap_or_def
        flip: a_def b_def rate_def c'_def)
  moreover have "c' = c\<lparr>clip_source_range := clip_source_range c'\<rparr>" by (simp add: c'_def)
  ultimately show ?thesis using c' by blast
qed

lemma apply_untrim_run:
  assumes "clip_at t l = Some c" and "tl_children t ! cl_track_index l = SC_Track tr"
    and "grid_clip c" and "clip_link_group_id c = None" and "in_reach s" and "in_reach e"
    and "0 \<le> fval s" and "fval s \<le> src_start c" and "src_end c \<le> fval e" and "fval s < fval e"
    and "available_bounds c = (x, y)" and "is_finite x" and "fval x \<le> fval s"
    and "y = Inf False \<or> is_finite y \<and> fval e \<le> fval y"
  shows "\<exists>m c'. apply_untrim i (Some s) (Some e) (Some l) t =
      Inr (m, with_track_children (cl_track_index l) ((track_children tr)[cl_child_index l := TC_Clip c']) t)
    \<and> c' = c\<lparr>clip_source_range := clip_source_range c'\<rparr>
    \<and> grid_clip c' \<and> src_start c' = fval s \<and> src_end c' = fval e"
proof -
  from clip_atE [OF assms(1)] assms(2) have ci: "cl_child_index l < length (track_children tr)"
    "track_children tr ! cl_child_index l = TC_Clip c" "cl_track_index l < length (tl_children t)" by auto
  from assms(3) obtain r where r: "clip_source_range c = Some r" by (auto simp: grid_clip_def)
  note ends = grid_clip_ends [OF assms(3) r]
  define a where "a = to_seconds (tr_start_time r)"
  define b where "b = fadd a (to_seconds (tr_duration r))"
  define rate where "rate = rt_rate (tr_start_time r)"
  note ends = ends [folded a_def rate_def, folded b_def]
  have grid: "on_grid s" "on_grid e" "on_grid a" "on_grid b" "\<bar>fval a\<bar> \<le> 2 ^ 21" "\<bar>fval b\<bar> \<le> 2 ^ 21"
    "fval e \<le> 2 ^ 20"
    using assms(5,6) ends by (auto simp: in_reach_def dest: abs_le_D1)
  have d: "on_grid (fsub e s)" "fval (fsub e s) = fval e - fval s"
    using grid_difference [OF assms(6,5)] by simp_all
  have fin: "is_finite s" "is_finite e" using grid by (simp_all add: on_grid_finite)
  have checks: "\<not> flt e s" "\<not> (flt (fadd a micro) s \<or> flt e (fsub b micro))" "\<not> fle (fsub e s) (Fin 0)"
    using assms(8-10) ends tolerance_compare(2) [OF tolerances_of_the_code(2) grid(3,1,5)]
      tolerance_compare(3) [OF tolerances_of_the_code(2) grid(4,2,6)] d
    by (simp_all add: finite_compare on_grid_finite grid)
  have caps: "fmax s x = s" "(if is_finite y then fmin e y else e) = e"
    using assms(12-14) fin by (auto simp: fmax_def fmin_def finite_compare)
  have reach: "in_reach (fsub e s)" using d assms(7,10) grid(7) by (simp add: in_reach_def)
  define c' where "c' = c\<lparr>clip_source_range := Some (seconds_range s (fsub e s) rate)\<rparr>"
  have c': "grid_clip c'" "src_start c' = fval s" "src_end c' = fval e"
    using retimed_clip [OF assms(5) reach ends(1) _ _ _ c'_def] d assms(7,10) grid(7) by simp_all
  have "\<exists>m. apply_untrim i (Some s) (Some e) (Some l) t =
      Inr (m, with_track_children (cl_track_index l) ((track_children tr)[cl_child_index l := TC_Clip c']) t)"
    using assms(2,4,11) ci r checks caps
    by (simp add: apply_untrim_def required_locator_def source_range_of_def Let_def unwrap_or_def
        flip: a_def b_def rate_def c'_def)
  moreover have "c' = c\<lparr>clip_source_range := clip_source_range c'\<rparr>" by (simp add: c'_def)
  ultimately show ?thesis using c' by blast
qed

lemma unlinked_retimed [simp]:
  "clip_link_group_id (c\<lparr>clip_source_range := r\<rparr>) = clip_link_group_id c"
  "available_bounds (c\<lparr>clip_source_range := r\<rparr>) = available_bounds c"
  by (simp_all add: clip_link_group_id_def clip_extra_str_def available_bounds_def)

text \<open>Untrimming to the range a clip had before a trim gives the clip that range again, and leaves
  everything else of the timeline as it was before the trim.\<close>

theorem untrim_undoes_trim:
  assumes "clip_at t l = Some c" and "tl_children t ! cl_track_index l = SC_Track tr"
    and "grid_clip c" and "clip_link_group_id c = None"
    and "in_reach s" and "in_reach e" and "src_start c \<le> fval s" and "fval s \<le> fval e"
    and "fval e \<le> src_end c" and "\<not> (fval s = src_start c \<and> fval e = src_end c)"
    and "in_reach s0" and "fval s0 = src_start c" and "in_reach e0" and "fval e0 = src_end c"
    and "available_bounds c = (x, y)" and "is_finite x" and "fval x \<le> src_start c"
    and "y = Inf False \<or> is_finite y \<and> src_end c \<le> fval y"
  shows "\<exists>m t1 m' c'.
    apply_trim i (Some s) (Some e) (Some l) t = Inr (m, t1)
    \<and> apply_untrim j (Some s0) (Some e0) (Some l) t1 =
        Inr (m', with_track_children (cl_track_index l)
          ((track_children tr)[cl_child_index l := TC_Clip c']) t)
    \<and> c' = c\<lparr>clip_source_range := clip_source_range c'\<rparr>
    \<and> src_start c' = src_start c \<and> src_end c' = src_end c"
proof -
  let ?cs = "track_children tr" and ?i = "cl_child_index l" and ?ti = "cl_track_index l"
  from clip_atE [OF assms(1)] assms(2) have i: "?i < length ?cs" "?ti < length (tl_children t)" by auto
  from apply_trim_run [OF assms(1-10), of i] obtain m c1 where
    trim: "apply_trim i (Some s) (Some e) (Some l) t =
      Inr (m, with_track_children ?ti (?cs[?i := TC_Clip c1]) t)"
    and c1: "c1 = c\<lparr>clip_source_range := clip_source_range c1\<rparr>"
      "grid_clip c1" "src_start c1 = fval s" "src_end c1 = fval e" by blast
  have kept: "clip_link_group_id c1 = None" "available_bounds c1 = (x, y)"
    by (subst c1(1), simp add: assms(4,15))+
  let ?t1 = "with_track_children ?ti (?cs[?i := TC_Clip c1]) t"
  let ?tr1 = "track_with_children (?cs[?i := TC_Clip c1]) tr"
  have there: "tl_children ?t1 ! ?ti = SC_Track ?tr1" using i(2) assms(2) by simp
  have at1: "clip_at ?t1 l = Some c1"
    using i assms(2) by (simp add: clip_at_def Let_def flip: tl_children_def)
  have long: "fval s0 < fval e0" using assms(7-10,12,14) by linarith
  have "0 \<le> fval s0" using assms(3,12) grid_clip_ends(6) by (auto simp: grid_clip_def)
  from apply_untrim_run [OF at1 there c1(2) kept(1) assms(11,13) this _ _ long kept(2) assms(16), of j]
  obtain m' c' where untrim: "apply_untrim j (Some s0) (Some e0) (Some l) ?t1 =
      Inr (m', with_track_children ?ti ((track_children ?tr1)[?i := TC_Clip c']) ?t1)"
    and c': "c' = c1\<lparr>clip_source_range := clip_source_range c'\<rparr>"
      "src_start c' = fval s0" "src_end c' = fval e0"
    using c1(3,4) assms(7,9,12,14,17,18) by auto
  have "c' = c\<lparr>clip_source_range := clip_source_range c'\<rparr>"
    by (subst c'(1), subst c1(1)) simp
  moreover have "with_track_children ?ti ((track_children ?tr1)[?i := TC_Clip c']) ?t1 =
      with_track_children ?ti (?cs[?i := TC_Clip c']) t" by simp
  ultimately show ?thesis using trim untrim c'(2,3) assms(12,14) by metis
qed

theorem untrim_undoes_trim_witness:
  "\<exists>m t1 m' c'.
    apply_trim 0 (Some (Fin 1)) (Some (Fin 3)) (Some \<lparr>cl_track_index = 0, cl_child_index = 0\<rparr>)
      (sample_timeline [SC_Track three_clips]) = Inr (m, t1)
    \<and> apply_untrim 1 (Some (Fin 0)) (Some (Fin 5)) (Some \<lparr>cl_track_index = 0, cl_child_index = 0\<rparr>) t1 =
        Inr (m', with_track_children 0 ((track_children three_clips)[0 := TC_Clip c'])
          (sample_timeline [SC_Track three_clips]))
    \<and> c' = (sample_clip ''a'' 0 5)\<lparr>clip_source_range := clip_source_range c'\<rparr>
    \<and> src_start c' = 0 \<and> src_end c' = 5"
proof -
  have "available_bounds (sample_clip ''a'' 0 5) = (Fin 0, Inf False)"
    by (simp add: available_bounds_def sample_defs)
  then show ?thesis
    using untrim_undoes_trim [of "sample_timeline [SC_Track three_clips]"
        "\<lparr>cl_track_index = 0, cl_child_index = 0\<rparr>" "sample_clip ''a'' 0 5" three_clips
        "Fin 1" "Fin 3" "Fin 0" "Fin 5" "Fin 0" "Inf False" 0 1]
    by (simp add: in_reach_def on_grid_def) (simp add: three_clips_def)
qed

end
