(* ===== verification/Edl_Resolve.thy ===== *)
theory Edl_Resolve
  imports Edl_Undo
begin

text \<open>
  How anchors and times are resolved: an id that one clip carries names that clip, and a snapped time
  is the nearest target within the tolerance.
\<close>

section \<open>Anchors\<close>

lemma enumerate_mem: "i < length xs \<Longrightarrow> (i, xs ! i) \<in> set (enumerate 0 xs)"
  by (simp add: in_set_enumerate_eq)

lemma collect_clips_complete:
  assumes "clip_at t l = Some c"
  shows "clip_entry_of (cl_track_index l) (cl_child_index l) c \<in> set (collect_clips t)"
proof -
  from assms have ti: "cl_track_index l < length (stack_children (tl_tracks t))"
    and ci: "cl_child_index l < length (sc_children (stack_children (tl_tracks t) ! cl_track_index l))"
    and c: "sc_children (stack_children (tl_tracks t) ! cl_track_index l) ! cl_child_index l = TC_Clip c"
    by (auto simp: clip_at_def Let_def split: if_splits track_child.splits)
  have "clip_entry_of (cl_track_index l) (cl_child_index l) c
      \<in> set (track_entries (cl_track_index l) (sc_children (stack_children (tl_tracks t) ! cl_track_index l)))"
    unfolding track_entries_def map_filter_mem using enumerate_mem [OF ci] c by force
  then show ?thesis unfolding collect_clips_def using enumerate_mem [OF ti] by force
qed

lemma find_map_only:
  "y \<in> set xs \<Longrightarrow> f y = Some z \<Longrightarrow> \<forall>x \<in> set xs. f x = None \<or> f x = Some z \<Longrightarrow> find_map f xs = Some z"
  by (induction xs) (auto split: option.splits)

text \<open>An id that one clip carries, and that is neither the id nor the name of another clip, names
  exactly that clip.\<close>

theorem unique_uuid_resolves:
  assumes "clip_at t l = Some c" and "clip_uuid c = Some u"
    and "\<forall>e \<in> set (collect_clips t). ce_locator e \<noteq> l \<longrightarrow> ce_montage_uuid e \<noteq> Some u \<and> ce_name e \<noteq> u"
  shows "resolve t (ClipUuid u) ctx = Inr l"
proof -
  let ?f = "\<lambda>e. if ce_montage_uuid e = Some u \<or> ce_name e = u then Some (ce_locator e) else None"
  let ?e = "clip_entry_of (cl_track_index l) (cl_child_index l) c"
  have "?f ?e = Some l" using assms(2) by (simp add: clip_entry_of_def)
  moreover have "\<forall>x \<in> set (collect_clips t). ?f x = None \<or> ?f x = Some l" using assms(3) by auto
  ultimately have "find_map ?f (collect_clips t) = Some l"
    by (rule find_map_only [OF collect_clips_complete [OF assms(1)]])
  then show ?thesis by (simp add: resolve_def resolve_by_uuid_def)
qed

section \<open>Snapping\<close>

lemma fabs_sign [simp]: "\<not> fsign (fabs x)"
  by (cases x) simp_all

lemma dist_lt:
  assumes "is_finite (fabs a)" and "is_finite (fabs b)"
  shows "ftotal_lt (fabs a) (fabs b) \<longleftrightarrow> fval (fabs a) < fval (fabs b)"
  using assms finite_compare(1) [OF assms] unfolding ftotal_lt_def by (auto simp del: is_finite_fabs)

definition dist_of :: "f64 \<Rightarrow> snap_target \<Rightarrow> f64" where
  "dist_of r x = fabs (fsub (snd x) r)"

lemma target_lt_dist:
  assumes "is_finite (dist_of r a)" and "is_finite (dist_of r b)"
  shows "target_lt r a b \<Longrightarrow> fval (dist_of r a) \<le> fval (dist_of r b)"
    and "\<not> target_lt r a b \<Longrightarrow> fval (dist_of r b) \<le> fval (dist_of r a)"
  using dist_lt [of "fsub (snd a) r" "fsub (snd b) r"] dist_lt [of "fsub (snd b) r" "fsub (snd a) r"] assms
  by (auto simp: target_lt_def dist_of_def Let_def not_less)

lemma min_target_least:
  "\<forall>x \<in> set ts. is_finite (dist_of r x) \<Longrightarrow>
     (case min_target r ts of
        None \<Rightarrow> ts = []
      | Some u \<Rightarrow> u \<in> set ts \<and> (\<forall>x \<in> set ts. fval (dist_of r u) \<le> fval (dist_of r x)))"
proof (induction ts)
  case (Cons t ts)
  then have IH: "case min_target r ts of
      None \<Rightarrow> ts = []
    | Some u \<Rightarrow> u \<in> set ts \<and> (\<forall>x \<in> set ts. fval (dist_of r u) \<le> fval (dist_of r x))" by simp
  show ?case
  proof (cases "min_target r ts")
    case None
    with IH show ?thesis by simp
  next
    case (Some u)
    with IH have u: "u \<in> set ts" "\<And>x. x \<in> set ts \<Longrightarrow> fval (dist_of r u) \<le> fval (dist_of r x)" by auto
    with target_lt_dist [of r u t] Cons.prems have "target_lt r u t \<Longrightarrow> fval (dist_of r u) \<le> fval (dist_of r t)"
      "\<not> target_lt r u t \<Longrightarrow> fval (dist_of r t) \<le> fval (dist_of r u)" by auto
    with u Some show ?thesis by (auto intro: order_trans)
  qed
qed simp

lemma near_is_finite: "fle (fabs a) tol \<Longrightarrow> is_finite tol \<Longrightarrow> is_finite (fabs a)"
  by (cases a; cases tol) (auto simp: fle_def)

text \<open>C38: With snapping enabled the time is a snap target within the tolerance that no other target
  within the tolerance is nearer than; only when there is none is it the requested time.\<close>

theorem snap_is_nearest:
  assumes "resolve_snap_time t i req (Some so) = Inr r" and "so_enabled so"
    and "near = filter (\<lambda>x. fle (fabs (fsub (snd x) req)) (so_tolerance_s so)) (collect_snap_targets t so)"
  shows "if near = [] then r = req
    else \<exists>x \<in> set near. r = snd x
      \<and> (\<forall>y \<in> set near. fle (fabs (fsub r req)) (fabs (fsub (snd y) req)))"
proof -
  from assms(1,2) have tol: "is_finite (so_tolerance_s so)"
    and run: "(case min_target req near of Some x \<Rightarrow> Inr (snd x) | None \<Rightarrow> Inr req) = (Inr r :: f64 edit)"
    by (auto simp: resolve_snap_time_def assms(3) split: if_splits)
  have fin: "\<forall>x \<in> set near. is_finite (dist_of req x)"
    using near_is_finite [OF _ tol] by (auto simp: assms(3) dist_of_def)
  note least = min_target_least [OF fin]
  show ?thesis
  proof (cases "min_target req near")
    case None
    with least run show ?thesis by simp
  next
    case (Some u)
    with least run have u: "u \<in> set near" "r = snd u"
      "\<And>x. x \<in> set near \<Longrightarrow> fval (dist_of req u) \<le> fval (dist_of req x)" by auto
    have "fle (dist_of req u) (dist_of req y)" if "y \<in> set near" for y
      using u(3) [OF that] fin u(1) that by (simp add: finite_compare)
    with u show ?thesis by (auto simp: dist_of_def)
  qed
qed

section \<open>Concrete resolutions\<close>

definition named_clips :: timeline where
  "named_clips = sample_timeline [SC_Track (sample_track
     [TC_Clip (sample_clip ''a'' 0 5), TC_Clip (stamp_clip_uuid ''u7'' (sample_clip ''b'' 0 3))])]"

theorem unique_uuid_resolves_witness:
  "resolve named_clips (ClipUuid ''u7'') no_sidecars = Inr \<lparr>cl_track_index = 0, cl_child_index = 1\<rparr>"
proof (rule unique_uuid_resolves)
  show "clip_at named_clips \<lparr>cl_track_index = 0, cl_child_index = 1\<rparr>
      = Some (stamp_clip_uuid ''u7'' (sample_clip ''b'' 0 3))" by (simp add: named_clips_def)
  show "\<forall>e \<in> set (collect_clips named_clips). ce_locator e \<noteq> \<lparr>cl_track_index = 0, cl_child_index = 1\<rparr>
      \<longrightarrow> ce_montage_uuid e \<noteq> Some ''u7'' \<and> ce_name e \<noteq> ''u7''"
    by (simp add: named_clips_def sample_defs collect_clips_def track_entries_def clip_entry_of_def
        List.map_filter_def clip_uuid_def clip_extra_str_def)
qed simp

definition edge_snap :: snap_options where
  "edge_snap = \<lparr>so_enabled = True, so_tolerance_s = Fin 2, so_targets = [ClipEdge]\<rparr>"

lemma edge_targets:
  "collect_snap_targets (sample_timeline [SC_Track three_clips]) edge_snap =
     map (\<lambda>t. (ClipEdge, Fin t)) [0, 5, 5, 25, 25, 28, 28, 32]"
  by (simp add: collect_snap_targets_def edge_snap_def snap_includes_def three_clips_def sample_defs
      tl_children_def to_seconds_def fdiv_def Let_def)

theorem snap_is_nearest_witness:
  "resolve_snap_time (sample_timeline [SC_Track three_clips]) 0 (Fin 24) (Some edge_snap) = Inr (Fin 25)
    \<and> (\<exists>x \<in> set [(ClipEdge, Fin 25), (ClipEdge, Fin 25)]. Fin 25 = snd x
      \<and> (\<forall>y \<in> set [(ClipEdge, Fin 25), (ClipEdge, Fin 25)].
           fle (fabs (fsub (Fin 25) (Fin 24))) (fabs (fsub (snd y) (Fin 24)))))"
proof -
  have opts: "so_enabled edge_snap" "so_tolerance_s edge_snap = Fin 2" by (simp_all add: edge_snap_def)
  have run: "resolve_snap_time (sample_timeline [SC_Track three_clips]) 0 (Fin 24) (Some edge_snap) = Inr (Fin 25)"
    by (simp add: resolve_snap_time_def edge_targets opts fsub_def fle_def target_lt_def ftotal_lt_def Let_def)
  from snap_is_nearest [OF run opts(1) refl] show ?thesis
    by (simp add: run edge_targets opts fsub_def fle_def)
qed

end
