(* ===== verification/Float_Bits.thy ===== *)
theory Float_Bits
  imports Edl_Professional
begin

text \<open>
  \<open>serde_json\<close> keeps a finite \<open>f64\<close> by its bits, so a number written to JSON is read back
  unchanged: \<open>f64::from_bits\<close> undoes \<open>f64::to_bits\<close> on every representable number.
\<close>

definition f64_of_bits :: "64 word \<Rightarrow> f64" where
  "f64_of_bits w =
     (let negative = (2 ^ 63 \<le> uint w); n = uint w mod 2 ^ 63; e = n div 2 ^ 52; f = n mod 2 ^ 52
      in if e = 2047 then (if f = 0 then Inf negative else NaN)
         else
           let m = (if e = 0 then f else f + 2 ^ 52); q = of_int m * 2 powi (max e 1 - 1075)
           in if q = 0 then (if negative then NZero else Fin 0)
              else Fin (if negative then - q else q))"

text \<open>\<open>Value::as_f64\<close>.\<close>

fun json_as_f64 :: "json \<Rightarrow> f64 option" where
  "json_as_f64 (JFloat w) = Some (f64_of_bits w)"
| "json_as_f64 (JInt i) = Some (rnd False (of_int i))"
| "json_as_f64 _ = None"

text \<open>A finite number of the type: NaN and the infinities apart.\<close>

definition is_f64 :: "f64 \<Rightarrow> bool" where
  "is_f64 x \<longleftrightarrow> is_finite x \<and> representable (fval x)"

lemma significand:
  assumes "representable q" and "0 < q" and "e = max (ilog2 q - 52) (- 1074)" and "m = \<lfloor>q / 2 powi e\<rfloor>"
  shows "q = of_int m * 2 powi e" and "0 < m" and "m < 2 ^ 53" and "- 1074 \<le> e" and "e \<le> 971"
    and "m < 2 ^ 52 \<Longrightarrow> e = - 1074"
proof -
  obtain n k where q: "q = of_int n * 2 powi k" and n: "\<bar>n\<bar> < 2 ^ 53" and k: "- 1074 \<le> k"
    and big: "\<bar>q\<bar> < 2 ^ 1024"
    using assms(1) unfolding representable_def by blast
  note bounds = ilog2_bounds [OF assms(2)]
  have pow: "(2::rat) powi a \<le> 2 powi b \<longleftrightarrow> a \<le> b" "(2::rat) powi a < 2 powi b \<longleftrightarrow> a < b" for a b
    by (meson linorder_not_le one_less_numeral_iff power_int_increasing power_int_strict_increasing semiring_norm(76)
        less_imp_le)+
  have "q < 2 powi (53 + k)"
  proof -
    have "(of_int n :: rat) < 2 powi 53" using n by (simp add: power_int_def)
    then have "q < 2 powi 53 * 2 powi k" unfolding q by (simp add: mult_strict_right_mono)
    then show ?thesis by (simp add: power_int_add)
  qed
  then have "ilog2 q < 53 + k" using bounds(1) pow(2) by (metis le_less_trans)
  then have le: "e \<le> k" using k by (simp add: assms(3))
  have "q / 2 powi e = of_int n * (2 powi k / 2 powi e)" by (simp add: q)
  also have "\<dots> = of_int n * 2 powi (k - e)" by (simp add: power_int_diff)
  also have "\<dots> = of_int (n * 2 ^ nat (k - e))" using le by (simp add: power_int_def)
  finally have quot: "q / 2 powi e = of_int (n * 2 ^ nat (k - e))" .
  then have m: "of_int m = q / 2 powi e" by (simp add: assms(4))
  then show val: "q = of_int m * 2 powi e" by simp
  have "0 < q / 2 powi e" using assms(2) by simp
  then show "0 < m" using m by (metis of_int_0_less_iff)
  have "q / 2 powi e < 2 powi (ilog2 q + 1) / 2 powi e" using bounds(2) by (simp add: divide_strict_right_mono)
  also have "\<dots> = 2 powi (ilog2 q + 1 - e)" by (simp add: power_int_diff)
  also have "\<dots> \<le> 2 powi 53" unfolding pow by (simp add: assms(3))
  finally have "(of_int m :: rat) < 2 ^ 53" by (simp add: m power_int_def)
  then show "m < 2 ^ 53" by (metis of_int_less_numeral_power_cancel_iff)
  show "- 1074 \<le> e" by (simp add: assms(3))
  have "(2::rat) powi ilog2 q < 2 powi 1024" using bounds(1) big assms(2) by (simp add: power_int_def)
  then show "e \<le> 971" unfolding pow by (simp add: assms(3))
  show "e = - 1074" if "m < 2 ^ 52"
  proof (rule ccontr)
    assume "e \<noteq> - 1074"
    then have "ilog2 q = e + 52" by (simp add: assms(3) max_def split: if_splits)
    then have "2 powi (e + 52) / 2 powi e \<le> q / 2 powi e" using bounds(1) by (simp add: divide_right_mono)
    moreover have "(2::rat) powi (e + 52) / 2 powi e = 2 powi 52" by (simp add: power_int_add)
    moreover have "(2::rat) powi 52 = 2 ^ 52" by (simp only: power_int_numeral)
    ultimately have "(2::rat) ^ 52 \<le> of_int m" by (simp only: m)
    then have "2 ^ 52 \<le> m" by (metis numeral_power_le_of_int_cancel_iff)
    with that show False by simp
  qed
qed

text \<open>A sign, a biased exponent and a fraction, put together and taken apart.\<close>

lemma packed_fields:
  fixes f e :: int
  assumes "0 \<le> f" and "f < 2 ^ 52" and "0 \<le> e" and "e < 2047"
    and "w = word_of_int ((if s then 2 ^ 63 else 0) + (e * 2 ^ 52 + f)) "
  shows "(2 ^ 63 \<le> uint (w :: 64 word)) = s" and "uint w mod 2 ^ 63 div 2 ^ 52 = e" and "uint w mod 2 ^ 63 mod 2 ^ 52 = f"
proof -
  have "e * 2 ^ 52 + f < 2 ^ 63" using assms(2,4) by simp
  then have u: "uint w = (if s then 2 ^ 63 else 0) + (e * 2 ^ 52 + f)" and small: "e * 2 ^ 52 + f < 2 ^ 63"
    unfolding assms(5) uint_word_of_int_eq using assms(1,3) by (auto intro!: take_bit_int_eq_self)
  show "(2 ^ 63 \<le> uint w) = s" using u small assms(1,3) by auto
  have "uint w mod 2 ^ 63 = e * 2 ^ 52 + f" using u small assms(1,3) by auto
  then show "uint w mod 2 ^ 63 div 2 ^ 52 = e" "uint w mod 2 ^ 63 mod 2 ^ 52 = f" using assms(1,2) by simp_all
qed

lemma bits_back:
  assumes "is_f64 x"
  shows "f64_of_bits (f64_to_bits x) = x"
proof (cases "fval x = 0")
  case True
  then have "f64_to_bits x = word_of_int ((if fsign x then 2 ^ 63 else 0) + (0 * 2 ^ 52 + 0))"
    by (simp add: f64_to_bits_def)
  from packed_fields [OF _ _ _ _ this] True assms
  show ?thesis by (cases x) (auto simp: f64_of_bits_def is_f64_def Let_def)
next
  case False
  then obtain q where x: "x = Fin q" "q \<noteq> 0" using assms by (cases x) (simp_all add: is_f64_def)
  obtain n k where "q = of_int n * 2 powi k" "\<bar>n\<bar> < 2 ^ 53" "- 1074 \<le> k" "\<bar>q\<bar> < 2 ^ 1024"
    using assms x unfolding is_f64_def representable_def by auto
  then have rep: "representable \<bar>q\<bar>" unfolding representable_def
    by (intro exI [of _ "\<bar>n\<bar>"] exI [of _ k]) (simp add: abs_mult)
  define e where "e = max (ilog2 \<bar>q\<bar> - 52) (- 1074)"
  define m where "m = \<lfloor>\<bar>q\<bar> / 2 powi e\<rfloor>"
  note s = significand [OF rep _ e_def m_def]
  have pos: "0 < \<bar>q\<bar>" using x by simp
  note s = s [OF pos]
  show ?thesis
  proof (cases "m < 2 ^ 52")
    case True
    then have "f64_to_bits x = word_of_int ((if fsign x then 2 ^ 63 else 0) + (0 * 2 ^ 52 + m))"
      using x by (simp add: f64_to_bits_def Let_def flip: e_def m_def)
    from packed_fields [OF _ True _ _ this] s(1,2,6) True x show ?thesis
      by (auto simp: f64_of_bits_def Let_def abs_if split: if_splits)
  next
    case False
    define g where "g = m - 2 ^ 52"
    have bits: "f64_to_bits x = word_of_int ((if fsign x then 2 ^ 63 else 0) + ((e + 1075) * 2 ^ 52 + g))"
      using x False by (simp add: f64_to_bits_def Let_def g_def flip: e_def m_def)
    have g: "0 \<le> g" "g < 2 ^ 52" "0 \<le> e + 1075" "e + 1075 < 2047" "e + 1075 \<noteq> 0" "max (e + 1075) 1 - 1075 = e"
      "g + 2 ^ 52 = m"
      using False s(3,4,5) by (simp_all add: g_def)
    note p = packed_fields [OF g(1,2,3,4) bits]
    have "f64_of_bits (f64_to_bits x) = Fin (if fsign x then - \<bar>q\<bar> else \<bar>q\<bar>)"
      unfolding f64_of_bits_def Let_def p g(6,7) using g(4,5) s(1,2) pos by auto
    then show ?thesis using x by (simp add: abs_if)
  qed
qed

lemma json_f64_round_trip: "is_f64 x \<Longrightarrow> json_as_f64 (json_f64 x) = Some x"
  by (simp add: json_f64_def is_f64_def bits_back)

text \<open>A finite number that is written to JSON by its bits and read back is the same number: zero of
  either sign, subnormal or normal.
\<close>

theorem bits_round_trip:
  assumes "is_f64 x"
  shows "f64_of_bits (f64_to_bits x) = x \<and> json_as_f64 (json_f64 x) = Some x"
  using assms bits_back json_f64_round_trip by blast

theorem bits_round_trip_witness:
  "f64_of_bits (f64_to_bits (Fin (- 5 / 8))) = Fin (- 5 / 8) \<and> json_as_f64 (json_f64 (Fin (- 5 / 8))) = Some (Fin (- 5 / 8))"
proof -
  have "representable (of_int (- 5) / 2 ^ 3)" by (rule representable_dyadic) simp_all
  then have "is_f64 (Fin (- 5 / 8))" by (simp add: is_f64_def)
  then show ?thesis by (rule bits_round_trip)
qed

end
