(* ===== verification/Render_Plan.thy ===== *)
theory Render_Plan
  imports Edl_Audio Float_Bits "HOL-Library.Sublist"
begin

text \<open>
  What the renderer makes of a timeline, from \<open>crates/render/src/timeline.rs\<close>: the segments of
  the base video track with their retiming, the transitions between them, the overlays of the other
  video tracks, and the audio tracks, which are synthesized from the segments when the timeline has
  none. The project root, the files that exist, the registry of transitions and the decoding of their
  compositions are arguments. Of a segment the plan keeps what has to do with time and sound; colour,
  reframing, titles and the automation of parameters are left out.
\<close>

section \<open>Errors\<close>

datatype render_error =
    ClipMissingRange string
  | MissingAsset string string
  | MissingLut string string
  | TransitionHandleUnavailable string string string f64 f64
  | AudioRemovalUnsupported string string
  | UnsupportedTransition string string
  | InvalidTransitionPlacement message
  | InvalidTransitionMetadata string string
  | InvalidClipEffectMetadata string string message

record render_env =
  re_root :: string
  re_exists :: "string \<Rightarrow> bool"
  re_xfade :: "string \<Rightarrow> string + string option"
  re_composition :: "transition_node \<Rightarrow> render_error + unit"

text \<open>\<open>Path::join\<close>.\<close>

definition path_join :: "string \<Rightarrow> string \<Rightarrow> string" where
  "path_join base p =
     (if take 1 p = ''/'' then p
      else if base = [] \<or> last base = CHR ''/'' then base @ p
      else base @ ''/'' @ p)"

section \<open>Reading the effects of a clip\<close>

definition read_effect :: "clip \<Rightarrow> string \<Rightarrow> string \<Rightarrow> json option" where
  "read_effect c effect_name field =
     Option.bind (List.find (\<lambda>e. ef_effect_name e = effect_name) (clip_effects c))
       (\<lambda>e. bt_get (ef_metadata e) field)"

definition read_effect_number :: "clip \<Rightarrow> string \<Rightarrow> string \<Rightarrow> f64 option" where
  "read_effect_number c effect_name field = Option.bind (read_effect c effect_name field) json_as_f64"

definition read_effect_bool :: "clip \<Rightarrow> string \<Rightarrow> string \<Rightarrow> bool option" where
  "read_effect_bool c effect_name field = Option.bind (read_effect c effect_name field) json_as_bool"

definition read_effect_string :: "clip \<Rightarrow> string \<Rightarrow> string \<Rightarrow> string option" where
  "read_effect_string c effect_name field = Option.bind (read_effect c effect_name field) json_as_str"

datatype frame_blending = Nearest | Blend | Flow

record speed_plan =
  sp_factor :: f64
  sp_reverse :: bool
  sp_maintain_pitch :: bool
  sp_frame_blending :: frame_blending

definition read_speed :: "clip \<Rightarrow> speed_plan option" where
  "read_speed c =
     Option.bind (read_effect_number c ''montage.speed'' ''factor'') (\<lambda>factor.
       if \<not> is_finite factor \<or> fle factor (Fin 0) then None
       else Some \<lparr>sp_factor = factor,
         sp_reverse = unwrap_or False (read_effect_bool c ''montage.speed'' ''reverse''),
         sp_maintain_pitch = unwrap_or True (read_effect_bool c ''montage.speed'' ''maintain_pitch''),
         sp_frame_blending =
           (case read_effect_string c ''montage.speed'' ''frame_blending'' of
              None \<Rightarrow> Nearest
            | Some b \<Rightarrow> if b = ''blend'' then Blend else if b = ''flow'' then Flow else Nearest)\<rparr>)"

record freeze_plan =
  fp_freeze_at_source_s :: f64
  fp_duration_s :: f64

definition read_freeze :: "clip \<Rightarrow> freeze_plan option" where
  "read_freeze c =
     Option.bind (read_effect_number c ''montage.freeze'' ''freeze_at_source_s'') (\<lambda>freeze_at.
     Option.bind (read_effect_number c ''montage.freeze'' ''duration_s'') (\<lambda>duration_s.
       if \<not> is_finite freeze_at \<or> flt freeze_at (Fin 0) \<or> \<not> is_finite duration_s
          \<or> fle duration_s (Fin 0)
          \<or> unwrap_or ''at'' (read_effect_string c ''montage.freeze'' ''freeze_position'') \<noteq> ''at''
          \<or> unwrap_or ''silence'' (read_effect_string c ''montage.freeze'' ''audio_behavior'') \<noteq> ''silence''
       then None
       else Some \<lparr>fp_freeze_at_source_s = freeze_at, fp_duration_s = duration_s\<rparr>))"

subsection \<open>Time remapping\<close>

text \<open>Points of source seconds and timeline seconds.\<close>

type_synonym remap_points = "(f64 \<times> f64) list"

definition nano :: f64 where "nano = f64_lit (1 / 10 ^ 9)"

abbreviation bad_curve :: "clip \<Rightarrow> message \<Rightarrow> render_error + 'a" where
  "bad_curve c text \<equiv> Inl (InvalidClipEffectMetadata (clip_name c) ''montage.time_remap'' text)"

definition non_negative_number :: "json \<Rightarrow> string \<Rightarrow> f64 option" where
  "non_negative_number v field =
     Option.bind (Option.bind (json_get v field) json_as_f64) (\<lambda>x.
       if is_finite x \<and> fle (Fin 0) x then Some x else None)"

fun read_points :: "clip \<Rightarrow> nat \<Rightarrow> json list \<Rightarrow> render_error + remap_points" where
  "read_points c i [] = Inr []"
| "read_points c i (JObj m # vs) =
     (case (non_negative_number (JObj m) ''source_time_s'', non_negative_number (JObj m) ''timeline_time_s'') of
        (None, _) \<Rightarrow> bad_curve c (Fmt ''curve point #{} needs finite non-negative source_time_s'' [A_nat i])
      | (Some _, None) \<Rightarrow>
          bad_curve c (Fmt ''curve point #{} needs finite non-negative timeline_time_s'' [A_nat i])
      | (Some s, Some t) \<Rightarrow> rbind (read_points c (Suc i) vs) (\<lambda>ps. Inr ((s, t) # ps)))"
| "read_points c i (v # vs) = bad_curve c (Fmt ''curve point #{} must be an object'' [A_nat i])"

fun check_points :: "clip \<Rightarrow> remap_points \<Rightarrow> render_error + unit" where
  "check_points c (p # q # ps) =
     (if fle (fst q) (fst p)
      then bad_curve c (msg ''curve source_time_s values must be strictly increasing'')
      else if flt (snd q) (snd p)
      then bad_curve c (msg ''curve timeline_time_s values must be non-decreasing'')
      else check_points c (q # ps))"
| "check_points c ps = Inr ()"

definition read_time_remap :: "clip \<Rightarrow> render_error + remap_points option" where
  "read_time_remap c =
     (case List.find (\<lambda>e. ef_effect_name e = ''montage.time_remap'') (clip_effects c) of
        None \<Rightarrow> Inr None
      | Some e \<Rightarrow>
          (case Option.bind (bt_get (ef_metadata e) ''curve'') json_as_array of
             None \<Rightarrow> bad_curve c (msg ''curve must be an array'')
           | Some curve \<Rightarrow>
               if length curve < 2
               then bad_curve c (msg ''curve must contain at least two time-remap points'')
               else rbind (read_points c 0 curve) (\<lambda>ps.
                 if flt nano (fabs (fst (hd ps))) \<or> flt nano (fabs (snd (hd ps)))
                 then bad_curve c (msg ''curve must start at source_time_s=0 and timeline_time_s=0'')
                 else rbind (check_points c ps) (\<lambda>_. Inr (Some ps)))))"

definition interpolate_time_remap_segment :: "f64 \<times> f64 \<Rightarrow> f64 \<times> f64 \<Rightarrow> f64 \<Rightarrow> f64" where
  "interpolate_time_remap_segment p q x =
     (let source_span = fsub (fst q) (fst p)
      in if fle source_span (Fin 0) then snd p
         else fadd (snd p) (fdiv (fmul (fsub x (fst p)) (fsub (snd q) (snd p))) source_span))"

text \<open>The walk over the pairs of points; past the last one the last pair is extended. A curve has
  at least two points.\<close>

fun remap_pairs :: "remap_points \<Rightarrow> f64 \<Rightarrow> f64" where
  "remap_pairs (p # q # r # ps) x =
     (if fle x (fst q) then interpolate_time_remap_segment p q x else remap_pairs (q # r # ps) x)"
| "remap_pairs [p, q] x = interpolate_time_remap_segment p q x"
| "remap_pairs [p] x = snd p"
| "remap_pairs [] x = Fin 0"

definition timeline_time_at_source :: "remap_points \<Rightarrow> f64 \<Rightarrow> f64" where
  "timeline_time_at_source ps x = (if fle x (fst (hd ps)) then snd (hd ps) else remap_pairs ps x)"

subsection \<open>Colour files\<close>

text \<open>Of the colour pipeline only the files it needs: each that is named has to exist.\<close>

fun check_luts :: "render_env \<Rightarrow> clip \<Rightarrow> json_map \<Rightarrow> string list \<Rightarrow> render_error + unit" where
  "check_luts env c m [] = Inr ()"
| "check_luts env c m (key # keys) =
     (case Option.bind (bt_get m key) json_as_str of
        None \<Rightarrow> check_luts env c m keys
      | Some raw \<Rightarrow>
          let full = path_join (re_root env) raw
          in if re_exists env full then check_luts env c m keys
             else Inl (MissingLut (clip_name c) full))"

definition check_color_pipeline :: "render_env \<Rightarrow> clip \<Rightarrow> render_error + unit" where
  "check_color_pipeline env c =
     (case List.find (\<lambda>e. ef_effect_name e = ''montage.color_pipeline'') (clip_effects c) of
        None \<Rightarrow> Inr ()
      | Some e \<Rightarrow>
          if Option.bind (bt_get (ef_metadata e) ''clip_input_space'') json_as_str = None then Inr ()
          else check_luts env c (ef_metadata e)
            [''input_transform_lut'', ''shaper_lut'', ''look_lut'', ''output_transform_lut''])"

section \<open>Segments\<close>

record timeline_segment =
  ts_clip_name :: string
  ts_asset_path :: string
  ts_start_s :: f64
  ts_duration_s :: f64
  ts_pre_handle_s :: f64
  ts_post_handle_s :: f64
  ts_available_start_s :: "f64 option"
  ts_available_end_s :: "f64 option"
  ts_volume :: "f64 option"
  ts_speed :: "speed_plan option"
  ts_time_remap :: "remap_points option"
  ts_freeze :: "freeze_plan option"
  ts_audio_lead_s :: "f64 option"
  ts_audio_trail_s :: "f64 option"
  ts_audio_muted :: bool
  ts_audio_removed_ranges :: "(f64 \<times> f64) list"

definition clip_override :: "clip \<Rightarrow> clip_audio_override option" where
  "clip_override c = Option.bind (cm_montage (clip_metadata c)) mcm_audio_override"

definition clip_split :: "clip \<Rightarrow> split_edit_spec option" where
  "clip_split c = Option.bind (cm_montage (clip_metadata c)) mcm_split_edit"

definition collect_timeline_segment :: "render_env \<Rightarrow> clip \<Rightarrow> render_error + timeline_segment option" where
  "collect_timeline_segment env c =
     (case clip_media_reference c of
        MR_Missing _ \<Rightarrow> Inr None
      | MR_External ext \<Rightarrow>
          (case clip_source_range c of
             None \<Rightarrow> Inl (ClipMissingRange (clip_name c))
           | Some r \<Rightarrow>
               let asset_path = path_join (re_root env) (er_target_url ext);
                   lut_path = map_option (path_join (re_root env)) (read_effect_string c ''montage.lut'' ''lut_path'')
               in if \<not> re_exists env asset_path then Inl (MissingAsset (clip_name c) asset_path)
                  else if (case lut_path of None \<Rightarrow> False | Some p \<Rightarrow> \<not> re_exists env p)
                  then Inl (MissingLut (clip_name c) (the lut_path))
                  else rbind (check_color_pipeline env c) (\<lambda>_.
                    rbind (read_time_remap c) (\<lambda>time_remap.
                    Inr (Some \<lparr>ts_clip_name = clip_name c, ts_asset_path = asset_path,
                      ts_start_s = to_seconds (tr_start_time r), ts_duration_s = to_seconds (tr_duration r),
                      ts_pre_handle_s = Fin 0, ts_post_handle_s = Fin 0,
                      ts_available_start_s = map_option (\<lambda>a. to_seconds (tr_start_time a)) (er_available_range ext),
                      ts_available_end_s = map_option (\<lambda>a. fadd (to_seconds (tr_start_time a))
                        (to_seconds (tr_duration a))) (er_available_range ext),
                      ts_volume = read_effect_number c ''montage.volume'' ''value'',
                      ts_speed = read_speed c, ts_time_remap = time_remap, ts_freeze = read_freeze c,
                      ts_audio_lead_s = Option.bind (clip_split c) se_audio_lead_s,
                      ts_audio_trail_s = Option.bind (clip_split c) se_audio_trail_s,
                      ts_audio_muted = (case clip_override c of None \<Rightarrow> False | Some o' \<Rightarrow> cao_muted o'),
                      ts_audio_removed_ranges = (case clip_override c of
                          None \<Rightarrow> [] | Some o' \<Rightarrow> map (\<lambda>r. (ar_start_s r, ar_end_s r)) (cao_removed_ranges o'))\<rparr>)))))"

section \<open>Durations\<close>

definition segment_speed :: "timeline_segment \<Rightarrow> f64" where
  "segment_speed seg =
     (let by_speed = (case ts_speed seg of
             Some sp \<Rightarrow> if flt (Fin 0) (sp_factor sp) then sp_factor sp else Fin 1
           | None \<Rightarrow> Fin 1)
      in case ts_time_remap seg of
           Some ps \<Rightarrow>
             let timeline_duration = timeline_time_at_source ps (ts_duration_s seg)
             in if flt (Fin 0) timeline_duration then fdiv (ts_duration_s seg) timeline_duration else by_speed
         | None \<Rightarrow> by_speed)"

definition effective_duration :: "timeline_segment \<Rightarrow> f64" where
  "effective_duration seg =
     (let freeze_duration = (case ts_freeze seg of None \<Rightarrow> Fin 0 | Some f \<Rightarrow> fp_duration_s f)
      in case ts_time_remap seg of
           Some ps \<Rightarrow> fadd (timeline_time_at_source ps (ts_duration_s seg)) freeze_duration
         | None \<Rightarrow> fdiv (fadd (ts_duration_s seg) freeze_duration) (segment_speed seg))"

definition visible_effective_duration :: "timeline_segment \<Rightarrow> f64" where
  "visible_effective_duration seg =
     fmax (fsub (fsub (effective_duration seg) (ts_pre_handle_s seg)) (ts_post_handle_s seg)) (Fin 0)"

section \<open>Transitions\<close>

definition add_pre_handle :: "string \<Rightarrow> f64 \<Rightarrow> timeline_segment \<Rightarrow> render_error + timeline_segment" where
  "add_pre_handle kind handle_s seg =
     (let speed = segment_speed seg;
          source_s = fmul handle_s speed;
          available_source_s = (case ts_available_start_s seg of
              Some s \<Rightarrow> fmax (fsub (ts_start_s seg) s) (Fin 0) | None \<Rightarrow> fmax (ts_start_s seg) (Fin 0));
          available_s = fdiv available_source_s speed
      in if flt (fadd available_s micro) handle_s
         then Inl (TransitionHandleUnavailable kind (ts_clip_name seg) ''incoming'' handle_s available_s)
         else Inr (seg\<lparr>ts_start_s := fsub (ts_start_s seg) source_s,
                       ts_duration_s := fadd (ts_duration_s seg) source_s,
                       ts_pre_handle_s := fadd (ts_pre_handle_s seg) handle_s\<rparr>))"

definition add_post_handle :: "string \<Rightarrow> f64 \<Rightarrow> timeline_segment \<Rightarrow> render_error + timeline_segment" where
  "add_post_handle kind handle_s seg =
     (let speed = segment_speed seg;
          source_s = fmul handle_s speed;
          extended = seg\<lparr>ts_duration_s := fadd (ts_duration_s seg) source_s,
                         ts_post_handle_s := fadd (ts_post_handle_s seg) handle_s\<rparr>
      in case ts_available_end_s seg of
           None \<Rightarrow> Inr extended
         | Some end_s \<Rightarrow>
             let visible_end = fadd (ts_start_s seg) (ts_duration_s seg);
                 available_s = fdiv (fmax (fsub end_s visible_end) (Fin 0)) speed
             in if flt (fadd available_s micro) handle_s
                then Inl (TransitionHandleUnavailable kind (ts_clip_name seg) ''outgoing'' handle_s available_s)
                else Inr extended)"

definition extend_transition_handles ::
  "nat \<Rightarrow> nat \<Rightarrow> string \<Rightarrow> f64 \<Rightarrow> f64 \<Rightarrow> timeline_segment list \<Rightarrow> render_error + timeline_segment list" where
  "extend_transition_handles outgoing incoming kind in_offset_s out_offset_s segs =
     rbind (if flt (Fin 0) in_offset_s
            then rbind (add_pre_handle kind in_offset_s (segs ! incoming)) (\<lambda>seg. Inr (segs[incoming := seg]))
            else Inr segs) (\<lambda>segs1.
     if flt (Fin 0) out_offset_s
     then rbind (add_post_handle kind out_offset_s (segs1 ! outgoing)) (\<lambda>seg. Inr (segs1[outgoing := seg]))
     else Inr segs1)"

record transition_plan =
  tp_from_segment_index :: nat
  tp_to_segment_index :: nat
  tp_kind :: string
  tp_in_offset_s :: f64
  tp_out_offset_s :: f64
  tp_duration_s :: f64

section \<open>Nested stacks\<close>

definition is_titles_track :: "track \<Rightarrow> bool" where
  "is_titles_track t \<longleftrightarrow>
     Option.bind (bt_get (track_metadata t) ''montage_track_role'') json_as_str = Some ''titles''
     \<or> track_name t = ''Titles''"

definition is_annotations_track :: "track \<Rightarrow> bool" where
  "is_annotations_track t \<longleftrightarrow>
     Option.bind (bt_get (track_metadata t) ''montage_track_role'') json_as_str = Some ''annotations''
     \<or> track_name t = ''Annotations''"

text \<open>The segments of a nested stack, in the order of the walk; a walk that met a clip gives some.\<close>

fun nested_stack_segments :: "render_env \<Rightarrow> stack \<Rightarrow> render_error + timeline_segment list"
  and nested_parts :: "render_env \<Rightarrow> stack_child list \<Rightarrow> render_error + timeline_segment list"
  and nested_children :: "render_env \<Rightarrow> track_child list \<Rightarrow> render_error + timeline_segment list" where
  "nested_stack_segments env (Stack n cs sr m) = nested_parts env cs"
| "nested_parts env [] = Inr []"
| "nested_parts env (SC_Clip c # cs) =
     rbind (collect_timeline_segment env c) (\<lambda>seg.
     rbind (nested_parts env cs) (\<lambda>rest. Inr ((case seg of None \<Rightarrow> [] | Some s \<Rightarrow> [s]) @ rest)))"
| "nested_parts env (SC_Track (Track n k tcs sr m) # cs) =
     (if k = Video \<and> \<not> is_titles_track (Track n k tcs sr m) \<and> \<not> is_annotations_track (Track n k tcs sr m)
      then rbind (nested_children env tcs) (\<lambda>segs. rbind (nested_parts env cs) (\<lambda>rest. Inr (segs @ rest)))
      else nested_parts env cs)"
| "nested_parts env (SC_Stack s # cs) =
     rbind (nested_stack_segments env s) (\<lambda>segs. rbind (nested_parts env cs) (\<lambda>rest. Inr (segs @ rest)))"
| "nested_parts env (SC_Gap g # cs) = nested_parts env cs"
| "nested_children env [] = Inr []"
| "nested_children env (TC_Clip c # cs) =
     rbind (collect_timeline_segment env c) (\<lambda>seg.
     rbind (nested_children env cs) (\<lambda>rest. Inr ((case seg of None \<Rightarrow> [] | Some s \<Rightarrow> [s]) @ rest)))"
| "nested_children env (TC_Stack s # cs) =
     rbind (nested_stack_segments env s) (\<lambda>segs. rbind (nested_children env cs) (\<lambda>rest. Inr (segs @ rest)))"
| "nested_children env (TC_Gap g # cs) = nested_children env cs"
| "nested_children env (TC_Transition t # cs) = nested_children env cs"

section \<open>The base track\<close>

text \<open>The state of the walk: what was collected, the transition that waits for its incoming clip, and
  whether the track has shown a clip yet.\<close>

record base_walk =
  bw_segs :: "timeline_segment list"
  bw_transitions :: "transition_plan list"
  bw_pending :: "(string \<times> f64 \<times> f64) option"
  bw_saw_clip :: bool

definition base_clip :: "render_env \<Rightarrow> clip \<Rightarrow> base_walk \<Rightarrow> render_error + base_walk" where
  "base_clip env c w =
     rbind (collect_timeline_segment env c) (\<lambda>found.
     case found of
       None \<Rightarrow> Inr (w\<lparr>bw_pending := None\<rparr>)
     | Some seg \<Rightarrow>
         let new_index = length (bw_segs w);
             segs = bw_segs w @ [seg];
             w1 = w\<lparr>bw_segs := segs, bw_saw_clip := True, bw_pending := None\<rparr>
         in case bw_pending w of
              None \<Rightarrow> Inr w1
            | Some (kind, in_s, out_s) \<Rightarrow>
                if new_index = 0 then Inr w1
                else rbind (extend_transition_handles (new_index - 1) new_index kind in_s out_s segs) (\<lambda>segs1.
                  Inr (w1\<lparr>bw_segs := segs1, bw_transitions := bw_transitions w @
                    [\<lparr>tp_from_segment_index = new_index - 1, tp_to_segment_index = new_index, tp_kind = kind,
                      tp_in_offset_s = in_s, tp_out_offset_s = out_s, tp_duration_s = fadd in_s out_s\<rparr>]\<rparr>)))"

definition base_transition :: "render_env \<Rightarrow> transition_node \<Rightarrow> base_walk \<Rightarrow> render_error + base_walk" where
  "base_transition env t w =
     (case re_xfade env (tn_transition_type t) of
        Inl e \<Rightarrow> Inl (UnsupportedTransition (tn_transition_type t) e)
      | Inr None \<Rightarrow>
          Inl (UnsupportedTransition (tn_transition_type t) ''semantic-only transition cannot be exported'')
      | Inr (Some _) \<Rightarrow>
          if \<not> bw_saw_clip w then 
            Inl (InvalidTransitionPlacement (Fmt ''transition {:?} appears before any renderable clip''
              [A_dbg (tn_transition_type t)]))
          else if bw_pending w \<noteq> None
          then Inl (InvalidTransitionPlacement (Fmt
            ''transition {:?} follows another transition before an incoming clip'' [A_dbg (tn_transition_type t)]))
          else rbind (re_composition env t) (\<lambda>_.
            Inr (w\<lparr>bw_pending := Some (tn_transition_type t, to_seconds (tn_in_offset t),
                     to_seconds (tn_out_offset t))\<rparr>)))"

fun base_children :: "render_env \<Rightarrow> track_child list \<Rightarrow> base_walk \<Rightarrow> render_error + base_walk" where
  "base_children env [] w =
     (case bw_pending w of
        Some (kind, _, _) \<Rightarrow>
          Inl (InvalidTransitionPlacement (Fmt ''transition {kind:?} has no incoming clip'' [A_dbg kind]))
      | None \<Rightarrow> Inr w)"
| "base_children env (TC_Clip c # cs) w = rbind (base_clip env c w) (base_children env cs)"
| "base_children env (TC_Transition t # cs) w = rbind (base_transition env t w) (base_children env cs)"
| "base_children env (TC_Gap g # cs) w = base_children env cs (w\<lparr>bw_pending := None\<rparr>)"
| "base_children env (TC_Stack s # cs) w =
     rbind (nested_stack_segments env s) (\<lambda>segs.
     base_children env cs (w\<lparr>bw_pending := None, bw_segs := bw_segs w @ segs,
       bw_saw_clip := (bw_saw_clip w \<or> segs \<noteq> [])\<rparr>))"

section \<open>Overlays\<close>

text \<open>The clips of the other video tracks, with the time each starts at.\<close>

fun overlay_children ::
  "render_env \<Rightarrow> f64 \<Rightarrow> track_child list \<Rightarrow> render_error + (timeline_segment \<times> f64) list" where
  "overlay_children env cursor_s [] = Inr []"
| "overlay_children env cursor_s (TC_Clip c # cs) =
     rbind (collect_timeline_segment env c) (\<lambda>found.
     case found of
       None \<Rightarrow> overlay_children env cursor_s cs
     | Some seg \<Rightarrow>
         rbind (overlay_children env
           (case clip_source_range c of None \<Rightarrow> cursor_s | Some r \<Rightarrow> fadd cursor_s (to_seconds (tr_duration r))) cs)
           (\<lambda>rest. Inr ((seg, cursor_s) # rest)))"
| "overlay_children env cursor_s (TC_Gap g # cs) =
     overlay_children env (fadd cursor_s (to_seconds (tr_duration (gap_source_range g)))) cs"
| "overlay_children env cursor_s (_ # cs) = overlay_children env cursor_s cs"

section \<open>Audio tracks\<close>

record audio_clip_plan =
  ac_asset_path :: string
  ac_start_s :: f64
  ac_duration_s :: f64
  ac_volume :: "f64 option"
  ac_speed :: "speed_plan option"
  ac_fade_in_s :: "f64 option"
  ac_fade_out_s :: "f64 option"

datatype audio_item = AI_Clip audio_clip_plan | AI_Gap f64

record ducking_plan =
  dk_enabled :: bool
  dk_amount_db :: f64
  dk_attack_ms :: f64
  dk_release_ms :: f64

record audio_track_plan =
  atp_name :: string
  atp_role :: string
  atp_volume :: f64
  atp_muted :: bool
  atp_solo :: bool
  atp_ducking :: "ducking_plan option"
  atp_items :: "audio_item list"

definition default_audio_role :: "string \<Rightarrow> string" where
  "default_audio_role name0 =
     (let name = to_ascii_lowercase (trim name0)
      in if name = ''a1'' \<or> name = ''audio 1'' then ''dialogue''
         else if sublist ''music'' name then ''music'' else ''sfx'')"

definition number_or :: "f64 \<Rightarrow> json \<Rightarrow> string \<Rightarrow> f64" where
  "number_or d v field = unwrap_or d (Option.bind (json_get v field) json_as_f64)"

definition bool_or :: "bool \<Rightarrow> json option \<Rightarrow> string \<Rightarrow> bool" where
  "bool_or d v field = unwrap_or d (Option.bind (Option.bind v (\<lambda>x. json_get x field)) json_as_bool)"

definition parse_audio_track_settings :: "track \<Rightarrow> audio_track_plan" where
  "parse_audio_track_settings t =
     (let v = bt_get (track_metadata t) ''montage_audio''
      in \<lparr>atp_name = track_name t,
          atp_role = unwrap_or (default_audio_role (track_name t))
            (Option.bind v (\<lambda>x. json_str_field x ''role'')),
          atp_volume = (case Option.bind (Option.bind v (\<lambda>x. json_get x ''volume'')) json_as_f64 of
              Some n \<Rightarrow> if is_finite n \<and> fle (Fin 0) n then n else Fin 1
            | None \<Rightarrow> Fin 1),
          atp_muted = bool_or False v ''muted'', atp_solo = bool_or False v ''solo'',
          atp_ducking = map_option (\<lambda>d.
            \<lparr>dk_enabled = bool_or True (Some d) ''enabled'', dk_amount_db = number_or (Fin (- 12)) d ''amount_db'',
             dk_attack_ms = number_or (Fin 80) d ''attack_ms'',
             dk_release_ms = number_or (Fin 300) d ''release_ms''\<rparr>) (Option.bind v (\<lambda>x. json_get x ''ducking'')),
          atp_items = []\<rparr>)"

definition read_audio_fade :: "clip \<Rightarrow> f64 option \<times> f64 option" where
  "read_audio_fade c =
     (read_effect_number c ''montage.audio_fade'' ''fade_in_s'',
      read_effect_number c ''montage.audio_fade'' ''fade_out_s'')"

fun audio_track_items :: "render_env \<Rightarrow> track_child list \<Rightarrow> render_error + audio_item list" where
  "audio_track_items env [] = Inr []"
| "audio_track_items env (TC_Clip c # cs) =
     (case clip_media_reference c of
        MR_Missing _ \<Rightarrow> audio_track_items env cs
      | MR_External ext \<Rightarrow>
          (case clip_source_range c of
             None \<Rightarrow> Inl (ClipMissingRange (clip_name c))
           | Some r \<Rightarrow>
               let asset_path = path_join (re_root env) (er_target_url ext)
               in if \<not> re_exists env asset_path then Inl (MissingAsset (clip_name c) asset_path)
                  else rbind (audio_track_items env cs) (\<lambda>rest.
                    Inr (AI_Clip \<lparr>ac_asset_path = asset_path, ac_start_s = to_seconds (tr_start_time r),
                      ac_duration_s = to_seconds (tr_duration r),
                      ac_volume = read_effect_number c ''montage.volume'' ''value'', ac_speed = read_speed c,
                      ac_fade_in_s = fst (read_audio_fade c), ac_fade_out_s = snd (read_audio_fade c)\<rparr> # rest))))"
| "audio_track_items env (TC_Gap g # cs) =
     rbind (audio_track_items env cs) (\<lambda>rest.
     Inr (AI_Gap (to_seconds (tr_duration (gap_source_range g))) # rest))"
| "audio_track_items env (_ # cs) = audio_track_items env cs"

definition collect_audio_track_plan :: "render_env \<Rightarrow> track \<Rightarrow> render_error + audio_track_plan" where
  "collect_audio_track_plan env t =
     rbind (audio_track_items env (track_children t)) (\<lambda>items.
     Inr ((parse_audio_track_settings t)\<lparr>atp_items := items\<rparr>))"

section \<open>Synthesized audio\<close>

definition normalized_split_offset :: "f64 option \<Rightarrow> f64" where
  "normalized_split_offset x =
     (case x of Some v \<Rightarrow> if is_finite v \<and> flt (Fin 0) v then v else Fin 0 | None \<Rightarrow> Fin 0)"

definition lead_of :: "timeline_segment \<Rightarrow> f64" where
  "lead_of seg = normalized_split_offset (ts_audio_lead_s seg)"

definition trail_of :: "timeline_segment \<Rightarrow> f64" where
  "trail_of seg = normalized_split_offset (ts_audio_trail_s seg)"

definition segment_has_split_edit_audio :: "timeline_segment \<Rightarrow> bool" where
  "segment_has_split_edit_audio seg \<longleftrightarrow> flt (Fin 0) (lead_of seg) \<or> flt (Fin 0) (trail_of seg)"

definition segment_needs_synthesized_audio :: "timeline_segment \<Rightarrow> bool" where
  "segment_needs_synthesized_audio seg \<longleftrightarrow>
     segment_has_split_edit_audio seg \<or> ts_audio_muted seg \<or> ts_audio_removed_ranges seg \<noteq> []"

definition validate_split_edit_handles :: "timeline_segment \<Rightarrow> f64 \<Rightarrow> f64 \<Rightarrow> render_error + unit" where
  "validate_split_edit_handles seg lead_s trail_s =
     (let speed = segment_speed seg;
          before_s = (case ts_available_start_s seg of
              Some s \<Rightarrow> fmax (fsub (ts_start_s seg) s) (Fin 0) | None \<Rightarrow> fmax (ts_start_s seg) (Fin 0))
      in if flt (Fin 0) lead_s \<and> flt (fadd before_s micro) (fmul lead_s speed)
         then Inl (TransitionHandleUnavailable ''split_edit_audio_lead'' (ts_clip_name seg) ''incoming''
                lead_s (fdiv before_s speed))
         else (case ts_available_end_s seg of
             None \<Rightarrow> Inr ()
           | Some end_s \<Rightarrow>
               let after_s = fmax (fsub end_s (fadd (ts_start_s seg) (ts_duration_s seg))) (Fin 0)
               in if flt (Fin 0) trail_s \<and> flt (fadd after_s micro) (fmul trail_s speed)
                  then Inl (TransitionHandleUnavailable ''split_edit_audio_trail'' (ts_clip_name seg) ''outgoing''
                         trail_s (fdiv after_s speed))
                  else Inr ()))"

definition segment_audio :: "timeline_segment \<Rightarrow> f64 \<Rightarrow> f64 \<Rightarrow> audio_item" where
  "segment_audio seg start_s duration_s =
     AI_Clip \<lparr>ac_asset_path = ts_asset_path seg, ac_start_s = start_s, ac_duration_s = duration_s,
       ac_volume = ts_volume seg, ac_speed = ts_speed seg, ac_fade_in_s = None, ac_fade_out_s = None\<rparr>"

text \<open>\<open>f64::clamp\<close>; with a lower bound above the upper one it panics, which spans of no negative
  length do not give.\<close>

definition fclamp :: "f64 \<Rightarrow> f64 \<Rightarrow> f64 \<Rightarrow> f64" where
  "fclamp x lo hi = (if flt x lo then lo else if flt hi x then hi else x)"

text \<open>A stable sort by the first component.\<close>

fun insert_cut :: "f64 \<times> f64 \<Rightarrow> (f64 \<times> f64) list \<Rightarrow> (f64 \<times> f64) list" where
  "insert_cut c [] = [c]"
| "insert_cut c (d # ds) = (if ftotal_lt (fst d) (fst c) then d # insert_cut c ds else c # d # ds)"

definition sort_cuts :: "(f64 \<times> f64) list \<Rightarrow> (f64 \<times> f64) list" where
  "sort_cuts cs = foldr insert_cut cs []"

text \<open>The loop that merges the sorted cuts, with the last merged cut in hand.\<close>

fun merge_into :: "f64 \<times> f64 \<Rightarrow> (f64 \<times> f64) list \<Rightarrow> (f64 \<times> f64) list" where
  "merge_into m [] = [m]"
| "merge_into m (c # cs) =
     (if fle (fst c) (fadd (snd m) nano) then merge_into (fst m, fmax (snd m) (snd c)) cs
      else m # merge_into c cs)"

definition merge_cuts :: "(f64 \<times> f64) list \<Rightarrow> (f64 \<times> f64) list" where
  "merge_cuts cs = (case cs of [] \<Rightarrow> [] | c # cs \<Rightarrow> merge_into c cs)"

definition source_cuts :: "f64 \<Rightarrow> f64 \<Rightarrow> (f64 \<times> f64) list \<Rightarrow> (f64 \<times> f64) list" where
  "source_cuts span_start span_end ranges =
     filter (\<lambda>(s, e). flt nano (fsub e s))
       (map (\<lambda>(a, b). (fclamp (fadd span_start (fmin a b)) span_start span_end,
                       fclamp (fadd span_start (fmax a b)) span_start span_end)) ranges)"

fun kept_items :: "timeline_segment \<Rightarrow> f64 \<Rightarrow> f64 \<Rightarrow> (f64 \<times> f64) list \<Rightarrow> audio_item list" where
  "kept_items seg span_end cursor [] =
     (if flt nano (fsub span_end cursor) then [segment_audio seg cursor (fsub span_end cursor)] else [])"
| "kept_items seg span_end cursor ((s, e) # cuts) =
     (if flt nano (fsub s cursor) then [segment_audio seg cursor (fsub s cursor)] else [])
     @ AI_Gap (fsub e s) # kept_items seg span_end e cuts"

definition removal_obstacle :: "timeline_segment \<Rightarrow> string option" where
  "removal_obstacle seg =
     (if flt nano (fabs (fsub (segment_speed seg) (Fin 1)))
      then Some ''audio removal with a clip speed change is not supported yet''
      else if (case ts_speed seg of None \<Rightarrow> False | Some sp \<Rightarrow> sp_reverse sp)
      then Some ''audio removal on a reversed clip is not supported yet''
      else if ts_time_remap seg \<noteq> None then Some ''audio removal with a time-remap is not supported yet''
      else if ts_freeze seg \<noteq> None
      then Some ''audio removal combined with a freeze hold is not supported yet''
      else if flt (Fin 0) (lead_of seg) \<or> flt (Fin 0) (trail_of seg)
      then Some ''audio removal combined with a J/L split edit on the same clip is not supported yet''
      else None)"

definition audio_items_with_removals ::
  "timeline_segment \<Rightarrow> f64 \<Rightarrow> f64 \<Rightarrow> render_error + audio_item list" where
  "audio_items_with_removals seg source_start_s duration_s =
     (case removal_obstacle seg of
        Some reason \<Rightarrow> Inl (AudioRemovalUnsupported (ts_clip_name seg) reason)
      | None \<Rightarrow>
          let span_end = fadd source_start_s duration_s;
              merged = merge_cuts (sort_cuts (source_cuts source_start_s span_end (ts_audio_removed_ranges seg)));
              items = kept_items seg span_end source_start_s merged
          in Inr (if items = [] then [AI_Gap duration_s] else items))"

definition synthesized_track :: "nat \<Rightarrow> f64 \<Rightarrow> timeline_segment \<Rightarrow> render_error + audio_track_plan" where
  "synthesized_track idx picture_start_s seg =
     (let lead_s = lead_of seg; trail_s = trail_of seg; speed = segment_speed seg
      in rbind (validate_split_edit_handles seg lead_s trail_s) (\<lambda>_.
         let source_start_s = fsub (ts_start_s seg) (fmul lead_s speed);
             duration_s = fadd (ts_duration_s seg) (fmul (fadd lead_s trail_s) speed);
             audio_start_s = fmax (fsub picture_start_s lead_s) (Fin 0);
             wait = (if flt (Fin 0) audio_start_s then [AI_Gap audio_start_s] else [])
         in rbind (if ts_audio_muted seg then Inr [AI_Gap (visible_effective_duration seg)]
                   else if ts_audio_removed_ranges seg \<noteq> []
                   then audio_items_with_removals seg source_start_s duration_s
                   else Inr [segment_audio seg source_start_s duration_s]) (\<lambda>items.
            Inr \<lparr>atp_name = ''split-edit-a'' @ dec_of_nat (idx + 1), atp_role = ''dialogue'', atp_volume = Fin 1,
                 atp_muted = False, atp_solo = False, atp_ducking = None, atp_items = wait @ items\<rparr>)))"

fun synthesized_tracks :: "nat \<Rightarrow> f64 \<Rightarrow> timeline_segment list \<Rightarrow> render_error + audio_track_plan list" where
  "synthesized_tracks idx picture_start_s [] = Inr []"
| "synthesized_tracks idx picture_start_s (seg # segs) =
     rbind (synthesized_track idx picture_start_s seg) (\<lambda>t.
     rbind (synthesized_tracks (Suc idx) (fadd picture_start_s (visible_effective_duration seg)) segs) (\<lambda>ts.
     Inr (t # ts)))"

definition synthesize_audio_tracks :: "timeline_segment list \<Rightarrow> render_error + audio_track_plan list" where
  "synthesize_audio_tracks segs =
     (if \<not> list_ex segment_needs_synthesized_audio segs then Inr [] else synthesized_tracks 0 (Fin 0) segs)"

section \<open>The plan of a timeline\<close>

record render_plan =
  rp_segs :: "timeline_segment list"
  rp_transitions :: "transition_plan list"
  rp_overlays :: "(timeline_segment \<times> f64) list"
  rp_audio_tracks :: "audio_track_plan list"

text \<open>The walk over the children of the root stack: the first video track that is neither titles nor
  annotations is the base track.\<close>

fun plan_children ::
  "render_env \<Rightarrow> bool \<Rightarrow> stack_child list \<Rightarrow> render_plan \<Rightarrow> render_error + render_plan" where
  "plan_children env saw_base [] p = Inr p"
| "plan_children env saw_base (SC_Track t # scs) p =
     (if track_kind t = Audio
      then rbind (collect_audio_track_plan env t) (\<lambda>a.
        plan_children env saw_base scs (p\<lparr>rp_audio_tracks := rp_audio_tracks p @ [a]\<rparr>))
      else if is_titles_track t \<or> is_annotations_track t then plan_children env saw_base scs p
      else if saw_base
      then rbind (overlay_children env (Fin 0) (track_children t)) (\<lambda>os.
        plan_children env saw_base scs (p\<lparr>rp_overlays := rp_overlays p @ os\<rparr>))
      else rbind (base_children env (track_children t)
          \<lparr>bw_segs = [], bw_transitions = [], bw_pending = None, bw_saw_clip = False\<rparr>) (\<lambda>w.
        plan_children env True scs (p\<lparr>rp_segs := bw_segs w, rp_transitions := bw_transitions w\<rparr>)))"
| "plan_children env saw_base (_ # scs) p = plan_children env saw_base scs p"

definition collect_timeline_full_plan :: "render_env \<Rightarrow> timeline \<Rightarrow> render_error + render_plan" where
  "collect_timeline_full_plan env tml =
     rbind (plan_children env False (tl_children tml)
       \<lparr>rp_segs = [], rp_transitions = [], rp_overlays = [], rp_audio_tracks = []\<rparr>) (\<lambda>p.
     if rp_audio_tracks p = []
     then rbind (synthesize_audio_tracks (rp_segs p)) (\<lambda>ts. Inr (p\<lparr>rp_audio_tracks := ts\<rparr>))
     else Inr p)"

end
