(* ===== verification/Edl_Program.thy ===== *)
theory Edl_Program
  imports Edl_Split
begin

text \<open>
  What a track plays: at every time, the media and the second of it, or the nested stack, that is
  shown. This is the abstract view of a track that an editor thinks in, and in which the lift, the
  extract and the overwrite of a range have one-line specifications.
\<close>

section \<open>The programme of a track\<close>

datatype shown =
    Media media_reference "effect_node list" bool rat
  | Nested stack rat

fun shows_at :: "track_child \<Rightarrow> rat \<Rightarrow> shown option" where
  "shows_at (TC_Clip c) d =
     Some (Media (clip_media_reference c) (clip_effects c) (clip_active c) (src_start c + d))"
| "shows_at (TC_Stack s) d = Some (Nested s d)"
| "shows_at (TC_Gap g) d = None"
| "shows_at (TC_Transition t) d = None"

text \<open>What a track whose first child starts at \<open>s\<close> plays at \<open>t\<close>.\<close>

fun plays :: "rat \<Rightarrow> track_child list \<Rightarrow> rat \<Rightarrow> shown option" where
  "plays s [] t = None"
| "plays s (c # cs) t = (if s \<le> t \<and> t < s + dur c then shows_at c (t - s) else plays (s + dur c) cs t)"

definition nonneg :: "track_child list \<Rightarrow> bool" where
  "nonneg cs \<longleftrightarrow> list_all (\<lambda>c. 0 \<le> dur c) cs"

lemma nonneg_simps [simp]:
  "nonneg []" "nonneg (c # cs) \<longleftrightarrow> 0 \<le> dur c \<and> nonneg cs" "nonneg (xs @ ys) \<longleftrightarrow> nonneg xs \<and> nonneg ys"
  by (simp_all add: nonneg_def)

lemma grid_nonneg: "grid_track cs \<Longrightarrow> nonneg cs"
  by (auto simp: grid_track_def nonneg_def list_all_iff)

lemma nonneg_span: "nonneg cs \<Longrightarrow> 0 \<le> span_of cs"
  by (induction cs) simp_all

lemma plays_before: "nonneg cs \<Longrightarrow> t < s \<Longrightarrow> plays s cs t = None"
  by (induction cs arbitrary: s) simp_all

lemma plays_append:
  "nonneg xs \<Longrightarrow> nonneg ys \<Longrightarrow> plays s (xs @ ys) t =
     (if t < s + span_of xs then plays s xs t else plays (s + span_of xs) ys t)"
proof (induction xs arbitrary: s)
  case (Cons x xs)
  then show ?case using nonneg_span [of xs] by (auto simp: add.assoc)
qed (simp add: plays_before)

lemma plays_after: "nonneg cs \<Longrightarrow> s + span_of cs \<le> t \<Longrightarrow> plays s cs t = None"
proof (induction cs arbitrary: s)
  case (Cons c cs)
  then show ?case using nonneg_span [of cs] by (auto simp: add.assoc)
qed simp

lemma silent_child: "is_gap c \<or> is_transition c \<Longrightarrow> shows_at c d = None"
  by (cases c) simp_all

lemma plays_placed:
  "grid_track cs \<Longrightarrow> plays s cs t =
     find_map (\<lambda>(s', c). if s' \<le> t \<and> t < s' + dur c then shows_at c (t - s') else None) (placed s cs)"
proof (induction cs arbitrary: s)
  case (Cons c cs)
  then show ?case using plays_before [OF grid_nonneg, of cs t "s + dur c"] silent_child [of c "t - s"]
    by (auto split: option.splits)
qed simp

lemma plays_merged:
  assumes "grid_track cs" and "whole_rate r"
  shows "plays s (merge_adjacent_gaps cs r) t = plays s cs t"
  using merge_grid [OF assms] plays_placed [of cs s t] plays_placed [of "merge_adjacent_gaps cs r" s t] assms(1)
  by simp

section \<open>Pieces of a child\<close>

lemma stamped_simps [simp]:
  "clip_source_range (stamp_clip_uuid u c) = clip_source_range c"
  "clip_media_reference (stamp_clip_uuid u c) = clip_media_reference c"
  "clip_effects (stamp_clip_uuid u c) = clip_effects c"
  "clip_active (stamp_clip_uuid u c) = clip_active c"
  by (simp_all add: stamp_clip_uuid_def Let_def)

lemma same_source_range:
  "clip_source_range c = clip_source_range d \<Longrightarrow> grid_clip c = grid_clip d"
  "clip_source_range c = clip_source_range d \<Longrightarrow> src_start c = src_start d"
  "clip_source_range c = clip_source_range d \<Longrightarrow> child_duration (TC_Clip c) = child_duration (TC_Clip d)"
  by (simp_all add: grid_clip_def src_start_def)

text \<open>Children that can be cut at \<open>a\<close> and \<open>b\<close> when the first one starts at \<open>s\<close>: clips
  and gaps on the grid, and nested stacks that lie on one side of each.\<close>

fun carvable_child :: "rat \<Rightarrow> rat \<Rightarrow> rat \<Rightarrow> track_child \<Rightarrow> bool" where
  "carvable_child a b s (TC_Clip c) = grid_clip c"
| "carvable_child a b s (TC_Gap g) = whole_rate (rt_rate (tr_duration (gap_source_range g)))"
| "carvable_child a b s (TC_Stack st) \<longleftrightarrow>
     \<not> (s < a \<and> a < s + dur (TC_Stack st)) \<and> \<not> (s < b \<and> b < s + dur (TC_Stack st))"
| "carvable_child a b s (TC_Transition t) = True"

fun carvable :: "rat \<Rightarrow> rat \<Rightarrow> rat \<Rightarrow> track_child list \<Rightarrow> bool" where
  "carvable a b s [] = True"
| "carvable a b s (c # cs) \<longleftrightarrow> carvable_child a b s c \<and> carvable a b (s + dur c) cs"

definition rated :: "track_child \<Rightarrow> bool" where
  "rated c \<longleftrightarrow> (\<forall>r. as_clip_rate c = Some r \<longrightarrow> whole_rate r)"

lemma rated_simps [simp]:
  "rated (TC_Gap g)" "rated (TC_Transition t)" "rated (TC_Stack s)" "rated (gap_child d r)"
  "grid_clip c \<Longrightarrow> rated (TC_Clip c)"
  by (auto simp: rated_def gap_child_def grid_clip_def Let_def split: if_splits)

lemma track_rate_whole: "list_all rated cs \<Longrightarrow> whole_rate (track_rate cs)"
proof (induction cs)
  case (Cons c cs)
  then show ?case by (auto simp: track_rate_def unwrap_or_def rated_def split: option.splits)
qed (simp add: track_rate_def unwrap_or_def)

lemma carvable_rated: "carvable a b s cs \<Longrightarrow> list_all rated cs"
proof (induction cs arbitrary: s)
  case (Cons c cs)
  then show ?case by (cases c) auto
qed simp

text \<open>The part of a child from \<open>p\<close> to \<open>q\<close>.\<close>

lemma segment_grid:
  assumes "in_reach cur" and "in_reach p" and "in_reach q" and "fval p < fval q"
    and "0 \<le> fval cur" and "fval cur \<le> fval p" and "fval q \<le> fval cur + dur c"
    and "\<not> is_transition c" and "\<forall>st. c \<noteq> TC_Stack st"
    and "carvable_child a b s c"
  shows "\<exists>piece seq'. timeline_child_segment clock i c cur p q fresh seq = Inr (Some piece, seq')
    \<and> on_grid (child_duration piece) \<and> dur piece = fval q - fval p \<and> rated piece
    \<and> (\<forall>d. shows_at piece d = shows_at c (fval p - fval cur + d))"
proof -
  have small: "\<bar>fval q - fval p\<bar> < 2 ^ 44" "\<bar>fval p - fval cur\<bar> < 2 ^ 44"
    using assms(1-3) by (auto simp: in_reach_def abs_le_iff abs_less_iff)
  note grids = in_reach_grid [OF assms(1)] in_reach_grid [OF assms(2)] in_reach_grid [OF assms(3)]
  note len = fsub_grid [OF grids(3,2) small(1)] and off = fsub_grid [OF grids(2,1) small(2)]
  have d: "in_reach (fsub q p)" and "in_reach (fsub p cur)"
    using len off assms(1-6) by (auto simp: in_reach_def)
  then have not_empty: "\<not> fle (fsub q p) micro"
    using tolerance_compare(6) [OF tolerances_of_the_code(2) len(1) len(1)] len(2) assms(4)
    by (simp add: in_reach_def)
  show ?thesis
  proof (cases c)
    case (TC_Gap g)
    then have "whole_rate (rt_rate (tr_duration (gap_source_range g)))" using assms(10) by simp
    from gap_on_track [OF d this] show ?thesis
      using not_empty TC_Gap len(2) by (simp add: timeline_child_segment_def Let_def gap_child_def)
  next
    case (TC_Clip k)
    then have k: "grid_clip k" using assms(10) by simp
    then obtain r where r: "clip_source_range k = Some r" by (auto simp: grid_clip_def)
    note ends = grid_clip_ends [OF k r]
    have up: "src_start k + (fval q - fval cur) \<le> src_end k" using assms(7) TC_Clip by (simp add: src_end_def)
    have "\<bar>fval (to_seconds (tr_start_time r)) + fval (fsub p cur)\<bar> < 2 ^ 44"
      using ends(3,6,7,8) off(2) assms(4,6) up by (simp add: abs_less_iff)
    note st = fadd_grid [OF in_reach_grid [OF ends(2)] off(1) this]
    have start: "fval (fadd (to_seconds (tr_start_time r)) (fsub p cur)) = src_start k + (fval p - fval cur)"
      using st(2) ends(3) off(2) by simp
    have reach: "in_reach (fadd (to_seconds (tr_start_time r)) (fsub p cur))"
      using st(1) start ends(6,7,8) up assms(4,6) by (simp add: in_reach_def abs_le_iff)
    define k' where "k' = k\<lparr>clip_source_range :=
      Some (seconds_range (fadd (to_seconds (tr_start_time r)) (fsub p cur)) (fsub q p) (rt_rate (tr_start_time r)))\<rparr>"
    note new = retimed_clip [OF reach d ends(1) _ _ _ k'_def, unfolded start len(2)]
    have new: "grid_clip k'" "src_start k' = src_start k + (fval p - fval cur)"
      "dur (TC_Clip k') = fval q - fval p" "on_grid (child_duration (TC_Clip k'))"
      using new ends(6,7,8) up assms(4,6) by simp_all
    define k'' where "k'' = stamp_clip_uuid (fresh_clip_uuid (clock seq) seq) (k'\<lparr>clip_name := clip_name k' @ ''-lift-tail''\<rparr>)"
    have same: "clip_source_range k'' = clip_source_range k'" by (simp add: k''_def)
    have look: "clip_media_reference k' = clip_media_reference k" "clip_effects k' = clip_effects k"
      "clip_active k' = clip_active k" "clip_media_reference k'' = clip_media_reference k"
      "clip_effects k'' = clip_effects k" "clip_active k'' = clip_active k"
      by (simp_all add: k''_def k'_def)
    have "timeline_child_segment clock i c cur p q fresh seq =
        (if fresh then Inr (Some (TC_Clip k''), seq + 1) else Inr (Some (TC_Clip k'), seq))"
      using not_empty TC_Clip r by (simp add: timeline_child_segment_def Let_def k''_def k'_def)
    then show ?thesis using new look same_source_range [OF same] TC_Clip
      by (cases fresh) (auto simp: dur_def add.assoc)
  qed (use assms(8,9) in auto)
qed

lemma fmin_grid:
  assumes "is_finite x" and "is_finite y"
  shows "is_finite (fmin x y)" "fval (fmin x y) = min (fval x) (fval y)"
    and "is_finite (fmax x y)" "fval (fmax x y) = max (fval x) (fval y)"
  using assms by (simp_all add: fmin_def fmax_def finite_compare min_def max_def)

lemma in_reach_min_max:
  assumes "in_reach x" and "in_reach y"
  shows "in_reach (fmin x y)" "in_reach (fmax x y)"
  using assms by (simp_all add: fmin_def fmax_def in_reach_grid on_grid_finite)

text \<open>Whatever the child, its piece from \<open>p\<close> to \<open>q\<close> plays what the child plays there.\<close>

definition piece_of :: "track_child \<Rightarrow> rat \<Rightarrow> rat \<Rightarrow> rat \<Rightarrow> track_child list \<Rightarrow> bool" where
  "piece_of c s p q cs \<longleftrightarrow>
     grid_track cs \<and> span_of cs = max 0 (q - p) \<and> list_all rated cs
     \<and> (\<forall>u t. plays u cs t = (if u \<le> t \<and> t < u + (q - p) then shows_at c (t - u + (p - s)) else None))"

lemma piece_of_none: "q \<le> p \<Longrightarrow> piece_of c s p q []"
  by (auto simp: piece_of_def)

lemma piece_of_one:
  assumes "on_grid (child_duration x)" and "dur x = q - p" and "p \<le> q" and "q - p \<le> 2 ^ 20" and "rated x"
    and "\<forall>d. shows_at x d = shows_at c (p - s + d)"
  shows "piece_of c s p q [x]"
  using assms by (simp add: piece_of_def add.commute)

lemma carve_grid:
  assumes "in_reach cur" and "in_reach e" and "fval e = fval cur + dur c" and "0 \<le> fval cur"
    and "in_reach A" and "in_reach B" and "fval A < fval B"
    and "fval cur < fval B" and "fval A < fval e" and "0 < dur c"
    and "carvable_child (fval A) (fval B) (fval cur) c"
  shows "\<exists>ld tr seq'. carve clock i c cur e A B seq = Inr ((ld, tr), seq')
    \<and> piece_of c (fval cur) (fval cur) (fval A) (piece_list ld)
    \<and> piece_of c (fval cur) (fval B) (fval e) (piece_list tr)"
proof -
  have fin: "is_finite cur" "is_finite e" "is_finite A" "is_finite B"
    using assms(1,2,5,6) by (simp_all add: in_reach_def on_grid_def)
  have ends: "fmin A e = A" "fmax B cur = B"
    using fin assms(8,9) by (simp_all add: fmin_def fmax_def finite_compare)
  have top: "fval A \<le> 2 ^ 20" "fval e \<le> 2 ^ 20" "0 \<le> fval A \<or> fval A < fval cur" "fval cur < fval e"
    using assms(2-5,10) by (auto simp: in_reach_def)
  have no_trans: "\<not> is_transition c" using assms(10) by auto
  have no_stack: "\<forall>st. c \<noteq> TC_Stack st" if "fval cur < fval A \<or> fval B < fval e"
    using that assms(3,8,9,11) by auto
  have leading: "\<exists>ld seq1. (if flt cur A then timeline_child_segment clock i c cur cur (fmin A e) False seq
        else Inr (None, seq)) = Inr (ld, seq1) \<and> piece_of c (fval cur) (fval cur) (fval A) (piece_list ld)"
  proof (cases "fval cur < fval A")
    case True
    from segment_grid [OF assms(1,1,5) True assms(4) order_refl _ no_trans no_stack assms(11)] True assms(3,9)
    obtain x q where "timeline_child_segment clock i c cur cur A False seq = Inr (Some x, q)"
      "on_grid (child_duration x)" "dur x = fval A - fval cur" "rated x"
      "\<forall>d. shows_at x d = shows_at c (fval cur - fval cur + d)" by fastforce
    with True fin ends top assms(4) show ?thesis
      by (auto simp: finite_compare piece_list_def intro!: piece_of_one)
  next
    case False
    then show ?thesis using fin by (simp add: finite_compare piece_list_def piece_of_none)
  qed
  have trailing: "\<exists>tr seq2. (if flt B e then timeline_child_segment clock i c cur (fmax B cur) e fresh seq1
        else Inr (None, seq1)) = Inr (tr, seq2) \<and> piece_of c (fval cur) (fval B) (fval e) (piece_list tr)"
    for fresh seq1
  proof (cases "fval B < fval e")
    case True
    have "fval cur \<le> fval B" "fval e \<le> fval cur + dur c" using assms(3,8) by simp_all
    from segment_grid [OF assms(1,6,2) True assms(4) this no_trans no_stack assms(11)] True
    obtain x q where "timeline_child_segment clock i c cur B e fresh seq1 = Inr (Some x, q)"
      "on_grid (child_duration x)" "dur x = fval e - fval B" "rated x"
      "\<forall>d. shows_at x d = shows_at c (fval B - fval cur + d)" by fastforce
    with True fin ends top assms(4,8) show ?thesis
      by (auto simp: finite_compare piece_list_def intro!: piece_of_one)
  next
    case False
    then show ?thesis using fin by (simp add: finite_compare piece_list_def piece_of_none)
  qed
  from leading obtain ld seq1 where ld: "(if flt cur A then timeline_child_segment clock i c cur cur (fmin A e) False seq
        else Inr (None, seq)) = Inr (ld, seq1)" "piece_of c (fval cur) (fval cur) (fval A) (piece_list ld)" by blast
  from trailing obtain tr seq2 where tr: "(if flt B e then timeline_child_segment clock i c cur (fmax B cur) e
        (case ld of Some piece \<Rightarrow> is_clip piece | None \<Rightarrow> False) seq1
        else Inr (None, seq1)) = Inr (tr, seq2)" "piece_of c (fval cur) (fval B) (fval e) (piece_list tr)" by blast
  show ?thesis using ld tr by (simp add: carve_def)
qed

text \<open>What is left of a child around the range, with \<open>m\<close> in between, and then the rest.\<close>

lemma carved_plays:
  assumes "piece_of c s s a ld" and "piece_of c s b e tr" and "nonneg m" and "nonneg rest"
  shows "plays u (ld @ m @ tr @ rest) t =
    (let p = u + max 0 (a - s); q = p + span_of m; r = q + max 0 (e - b)
     in if t < u then None else if t < p then shows_at c (t - u) else if t < q then plays p m t
        else if t < r then shows_at c (t - q + (b - s)) else plays r rest t)"
proof -
  have ld: "nonneg ld" "span_of ld = max 0 (a - s)"
    "plays w ld t = (if w \<le> t \<and> t < w + (a - s) then shows_at c (t - w + (s - s)) else None)" for w t
    using assms(1) grid_nonneg unfolding piece_of_def by blast+
  have tr: "nonneg tr" "span_of tr = max 0 (e - b)"
    "plays w tr t = (if w \<le> t \<and> t < w + (e - b) then shows_at c (t - w + (b - s)) else None)" for w t
    using assms(2) grid_nonneg unfolding piece_of_def by blast+
  define p q r where "p = u + max 0 (a - s)" and "q = p + span_of m" and "r = q + max 0 (e - b)"
  have order: "u \<le> p" "p \<le> q" "q \<le> r" using nonneg_span [OF assms(3)] by (simp_all add: p_def q_def r_def)
  have ends: "p = u + span_of ld" "r = q + span_of tr" by (simp_all add: p_def r_def ld(2) tr(2))
  have "plays u (ld @ m @ tr @ rest) t = (if t < p then plays u ld t else if t < q then plays p m t
      else if t < r then plays q tr t else plays r rest t)"
    using assms(3,4) ld(1) tr(1) by (simp add: plays_append ends q_def)
  moreover have "t < p \<Longrightarrow> plays u ld t = (if t < u then None else shows_at c (t - u))"
    unfolding ld(3) by (auto simp: p_def max_def split: if_splits)
  moreover have "q \<le> t \<Longrightarrow> t < r \<Longrightarrow> plays q tr t = shows_at c (t - q + (b - s))"
    unfolding tr(3) by (auto simp: r_def max_def split: if_splits)
  ultimately show ?thesis using order by (simp add: Let_def flip: p_def q_def r_def)
qed

definition overlap :: "rat \<Rightarrow> rat \<Rightarrow> rat \<Rightarrow> rat \<Rightarrow> rat" where
  "overlap a b s e = max 0 (min e b - max s a)"

section \<open>Lift\<close>

lemma range_compare:
  assumes "in_reach cur" and "in_reach e" and "in_reach A" and "in_reach B"
  shows "fle (fmin e B) (fadd (fmax cur A) micro) \<longleftrightarrow> min (fval e) (fval B) \<le> max (fval cur) (fval A)"
    and "in_reach (fmin e B)" "in_reach (fmax cur A)"
    and "fval (fmin e B) = min (fval e) (fval B)" "fval (fmax cur A) = max (fval cur) (fval A)"
proof -
  have fin: "is_finite cur" "is_finite e" "is_finite A" "is_finite B"
    using assms by (simp_all add: in_reach_def on_grid_def)
  show r: "in_reach (fmin e B)" "in_reach (fmax cur A)" 
    by (rule in_reach_min_max [OF assms(2,4)] in_reach_min_max [OF assms(1,3)])+
  show v: "fval (fmin e B) = min (fval e) (fval B)" "fval (fmax cur A) = max (fval cur) (fval A)"
    by (rule fmin_grid [OF fin(2,4)] fmin_grid [OF fin(1,3)])+
  have "\<bar>fval (fmax cur A)\<bar> \<le> 2 ^ 21" using r(2) by (simp add: in_reach_def)
  then show "fle (fmin e B) (fadd (fmax cur A) micro) \<longleftrightarrow> min (fval e) (fval B) \<le> max (fval cur) (fval A)"
    using tolerance_compare(1) [OF tolerances_of_the_code(2) in_reach_grid [OF r(2)] in_reach_grid [OF r(1)]] v
    by simp
qed

text \<open>One step of the cursor.\<close>

lemma edit_cursor_step:
  assumes "in_reach cur" and "0 \<le> fval cur" and "grid_track (c # cs)" and "fval cur + span_of (c # cs) \<le> 2 ^ 20"
  shows "in_reach (fadd cur (child_duration c))" and "fval (fadd cur (child_duration c)) = fval cur + dur c"
    and "fle (child_duration c) micro \<longleftrightarrow> dur c = 0"
proof -
  have c: "on_grid (child_duration c)" "0 \<le> dur c" "0 \<le> span_of cs" "dur c \<le> 2 ^ 20"
    using assms(3) grid_track_total [of cs] by simp_all
  have "\<bar>fval cur + fval (child_duration c)\<bar> < 2 ^ 44" using assms(2,4) c by (simp add: dur_def)
  note sum = fadd_grid [OF in_reach_grid [OF assms(1)] c(1) this]
  show "fval (fadd cur (child_duration c)) = fval cur + dur c" using sum by (simp add: dur_def)
  then show "in_reach (fadd cur (child_duration c))" using sum assms(2,4) c by (simp add: in_reach_def)
  have "\<bar>fval (child_duration c)\<bar> \<le> 2 ^ 21" using c by (simp add: dur_def)
  then show "fle (child_duration c) micro \<longleftrightarrow> dur c = 0"
    using tolerance_compare(6) [OF tolerances_of_the_code(2) c(1) c(1)] c(2) by (simp add: dur_def)
qed

lemma instant_kept:
  assumes "grid_track (c # cs)" and "dur c = 0" and "grid_track rest"
  shows "grid_track (keep_instant a b cur c @ rest)"
    and "span_of (keep_instant a b cur c @ rest) = span_of rest"
    and "plays u (keep_instant a b cur c @ rest) t = plays u rest t"
  using assms grid_track_total [of rest] by (auto simp: keep_instant_def)

lemma hit_range:
  assumes "in_reach cur" and "in_reach e" and "in_reach A" and "in_reach B" and "0 \<le> fval cur"
    and "max (fval cur) (fval A) < min (fval e) (fval B)"
  shows "in_reach (fsub (fmin e B) (fmax cur A))"
    and "fval (fsub (fmin e B) (fmax cur A)) = min (fval e) (fval B) - max (fval cur) (fval A)"
proof -
  note r = range_compare [OF assms(1-4)]
  have "\<bar>fval (fmin e B) - fval (fmax cur A)\<bar> < 2 ^ 44"
    using r(2,3) by (auto simp: in_reach_def abs_le_iff abs_less_iff)
  note w = fsub_grid [OF in_reach_grid [OF r(2)] in_reach_grid [OF r(3)] this]
  show val: "fval (fsub (fmin e B) (fmax cur A)) = min (fval e) (fval B) - max (fval cur) (fval A)"
    using w(2) r(4,5) by simp
  have "0 \<le> max (fval cur) (fval A)" "min (fval e) (fval B) \<le> 2 ^ 20"
    using assms(2,5) by (auto simp: in_reach_def)
  then show "in_reach (fsub (fmin e B) (fmax cur A))"
    using w(1) val assms(6) unfolding in_reach_def by linarith
qed

text \<open>The seconds taken so far.\<close>

lemma add_taken:
  assumes "on_grid x" and "0 \<le> fval x" and "fval x \<le> s" and "in_reach w" and "0 \<le> fval w" and "s + fval w \<le> 2 ^ 20"
  shows "on_grid (fadd x w)" and "fval (fadd x w) = fval x + fval w"
  using fadd_grid [OF assms(1) in_reach_grid [OF assms(4)]] assms by auto

lemma overlap_Cons:
  assumes "a < b" and "0 \<le> d" and "0 \<le> n"
  shows "overlap a b s (s + (d + n)) = overlap a b s (s + d) + overlap a b (s + d) (s + d + n)"
  using assms by (auto simp: overlap_def max_def min_def)

text \<open>A child cut by the range, with a gap in the place of what was taken out.\<close>

lemma lifted_child:
  assumes "piece_of c s s a ld" and "piece_of c s b e tr" and "e = s + dur c"
    and "max s a < min e b" and "is_gap g" and "on_grid (child_duration g)" and "dur g = min e b - max s a"
    and "grid_track rest" and "span_of rest = span_of cs" and "nonneg cs" and "0 \<le> s" and "s + span_of (c # cs) \<le> 2 ^ 20"
    and "\<And>t. plays e rest t = (if a \<le> t \<and> t < b then None else plays e cs t)"
  shows "grid_track (ld @ [g] @ tr @ rest)" and "span_of (ld @ [g] @ tr @ rest) = span_of (c # cs)"
    and "plays s (ld @ [g] @ tr @ rest) t = (if a \<le> t \<and> t < b then None else plays s (c # cs) t)"
proof -
  have n: "0 \<le> span_of cs" using assms(10) by (rule nonneg_span)
  have "grid_track ld \<and> span_of ld = max 0 (a - s) \<and> grid_track tr \<and> span_of tr = max 0 (e - b)"
    using assms(1,2) by (simp add: piece_of_def)
  then show "grid_track (ld @ [g] @ tr @ rest)" and "span_of (ld @ [g] @ tr @ rest) = span_of (c # cs)"
    using assms(3-9,11,12) n by (auto simp: max_def min_def split: if_splits)
  have points: "s + max 0 (a - s) = max s a" "max s a + span_of [g] = min e b" "min e b + max 0 (e - b) = e"
    using assms(7) by (auto simp: max_def min_def)
  have "nonneg [g]" using assms(4,7) by simp
  note parts = carved_plays [OF assms(1,2) this grid_nonneg [OF assms(8)], of s t, unfolded Let_def points]
  have silent: "plays x [g] t = None" for x using silent_child [of g] assms(5) by simp
  show "plays s (ld @ [g] @ tr @ rest) t = (if a \<le> t \<and> t < b then None else plays s (c # cs) t)"
    unfolding parts silent using assms(3,4,13) plays_before [OF assms(10), of t e]
    by (auto simp: max_def min_def split: if_splits)
qed

lemma lift_children_grid:
  assumes "in_reach A" and "in_reach B" and "0 \<le> fval A" and "fval A < fval B" and "whole_rate rate"
    and "in_reach cur" and "0 \<le> fval cur" and "grid_track cs" and "fval cur + span_of cs \<le> 2 ^ 20"
    and "carvable (fval A) (fval B) (fval cur) cs"
    and "on_grid lifted" and "0 \<le> fval lifted" and "fval lifted \<le> fval cur"
  shows "\<exists>cs' taken seq'. lift_children clock i A B rate cur lifted cs seq = Inr ((cs', taken), seq')
    \<and> grid_track cs' \<and> span_of cs' = span_of cs \<and> on_grid taken
    \<and> fval taken = fval lifted + overlap (fval A) (fval B) (fval cur) (fval cur + span_of cs)
    \<and> (\<forall>t. plays (fval cur) cs' t =
         (if fval A \<le> t \<and> t < fval B then None else plays (fval cur) cs t))"
  using assms(6-)
proof (induction cs arbitrary: cur lifted seq)
  case Nil
  then show ?case using assms(4) by (simp add: overlap_def max_def min_def)
next
  case (Cons c cs)
  note step = edit_cursor_step [OF Cons.prems(1-4)]
  let ?e = "fadd cur (child_duration c)" and ?w = "fsub (fmin (fadd cur (child_duration c)) B) (fmax cur A)"
  have c: "on_grid (child_duration c)" "0 \<le> dur c" "grid_track cs" "0 \<le> span_of cs"
    using Cons.prems(3) grid_track_total [of cs] by simp_all
  have rest: "fval ?e + span_of cs \<le> 2 ^ 20" "carvable (fval A) (fval B) (fval ?e) cs" "0 \<le> fval ?e"
    using Cons.prems(2,4,5) c(2) step(2) by (simp_all add: add.assoc)
  note IH = Cons.IH [OF step(1) rest(3) c(3) rest(1,2)]
  note cmp = range_compare(1) [OF Cons.prems(1) step(1) assms(1,2)]
  note more = overlap_Cons [OF assms(4) c(2,4), of "fval cur", folded step(2)]
  consider (instant) "dur c = 0" | (apart) "0 < dur c" "min (fval ?e) (fval B) \<le> max (fval cur) (fval A)"
    | (hit) "0 < dur c" "max (fval cur) (fval A) < min (fval ?e) (fval B)" using c(2) by linarith
  then show ?case
  proof cases
    case instant
    with Cons.IH [of cur lifted seq] Cons.prems c(3) rest step(2)
    obtain cs' taken q where "lift_children clock i A B rate cur lifted cs seq = Inr ((cs', taken), q)"
      and cs': "grid_track cs'" "span_of cs' = span_of cs" "on_grid taken"
      "fval taken = fval lifted + overlap (fval A) (fval B) (fval cur) (fval cur + span_of cs)"
      "\<forall>t. plays (fval cur) cs' t = (if fval A \<le> t \<and> t < fval B then None else plays (fval cur) cs t)"
      by auto
    then show ?thesis using instant step(3) instant_kept [OF Cons.prems(3) instant cs'(1)] by simp
  next
    case apart
    then have away: "fval ?e \<le> fval A \<or> fval B \<le> fval cur" "overlap (fval A) (fval B) (fval cur) (fval ?e) = 0"
      using assms(4) step(2) by (auto simp: overlap_def min_def max_def split: if_splits)
    with IH [of lifted seq] Cons.prems(6-8) step(2) c(2) more apart cmp step(3) Cons.prems(3)
    show ?thesis by (auto simp: max_def)
  next
    case hit
    note w = hit_range [OF Cons.prems(1) step(1) assms(1,2) Cons.prems(2) hit(2)]
    have wv: "0 \<le> fval ?w" "fval cur + fval ?w \<le> fval ?e" using w(2) hit(2) step(2) by (auto simp: max_def min_def)
    note l = add_taken [OF Cons.prems(6-8) w(1) wv(1)]
    obtain ld tr q1 where cut: "carve clock i c cur ?e A B seq = Inr ((ld, tr), q1)"
      "piece_of c (fval cur) (fval cur) (fval A) (piece_list ld)" "piece_of c (fval cur) (fval B) (fval ?e) (piece_list tr)"
      using carve_grid [OF Cons.prems(1) step(1,2) Cons.prems(2) assms(1,2,4) _ _ hit(1), of clock i seq] hit(2) Cons.prems(5) by auto
    obtain cs' taken q where run: "lift_children clock i A B rate ?e (fadd lifted ?w) cs q1 = Inr ((cs', taken), q)"
      and cs': "grid_track cs'" "span_of cs' = span_of cs" "on_grid taken"
      "fval taken = fval (fadd lifted ?w) + overlap (fval A) (fval B) (fval ?e) (fval ?e + span_of cs)"
      "\<And>t. plays (fval ?e) cs' t = (if fval A \<le> t \<and> t < fval B then None else plays (fval ?e) cs t)"
      using IH [of "fadd lifted ?w" q1] l wv rest(1) c(4) Cons.prems(7,8) by auto
    note g = gap_on_track [OF w(1) assms(5)]
    note out = lifted_child [OF cut(2,3) step(2) hit(2) is_gap_child(1) g(1) g(2)[unfolded w(2)] cs'(1,2)
        grid_nonneg [OF c(3)] Cons.prems(2,4) cs'(5)]
    have "fval ?w = overlap (fval A) (fval B) (fval cur) (fval ?e)" using w(2) hit(2) by (simp add: overlap_def)
    then show ?thesis using cmp step(3) hit cut(1) run out cs'(3,4) l more wv rest(1) c(4) by (simp add: Let_def)
  qed
qed

end
