(* ===== verification/Render_Removals.thy ===== *)
theory Render_Removals
  imports Render_Plan Edl_Program
begin

text \<open>
  What is heard of a synthesized audio track, and what the removal of parts of the sound of a clip
  does to it: the removed spans are silent, everything else is heard where it was.
\<close>

section \<open>What is heard\<close>

definition rate_of :: "audio_clip_plan \<Rightarrow> rat" where
  "rate_of a = (case ac_speed a of
     Some sp \<Rightarrow> if 0 < fval (sp_factor sp) then fval (sp_factor sp) else 1 | None \<Rightarrow> 1)"

fun item_span :: "audio_item \<Rightarrow> rat" where
  "item_span (AI_Clip a) = fval (ac_duration_s a) / rate_of a"
| "item_span (AI_Gap d) = fval d"

definition items_span :: "audio_item list \<Rightarrow> rat" where
  "items_span is = sum_list (map item_span is)"

text \<open>The file and the second of it that is heard at a time, when the first item starts at \<open>s\<close>.\<close>

fun item_at :: "audio_item \<Rightarrow> rat \<Rightarrow> (string \<times> rat) option" where
  "item_at (AI_Clip a) d = Some (ac_asset_path a, fval (ac_start_s a) + d * rate_of a)"
| "item_at (AI_Gap g) d = None"

fun heard :: "rat \<Rightarrow> audio_item list \<Rightarrow> rat \<Rightarrow> (string \<times> rat) option" where
  "heard s [] x = None"
| "heard s (i # is) x =
     (if s \<le> x \<and> x < s + item_span i then item_at i (x - s) else heard (s + item_span i) is x)"

section \<open>Arithmetic\<close>

lemma nano_facts: "is_finite nano" "2 powi (- 32) < fval nano" "fval nano < 1 / 600"
proof -
  have exps: "int 0 - 54 = - 54" by simp
  have "is_finite nano \<and> \<bar>fval nano - 1 / 10 ^ 9\<bar> \<le> 2 powi (int 0 - 54)"
    unfolding nano_def f64_lit_def using rnd_near [of "1 / 10 ^ 9" 0 False] by simp
  moreover have "(2::rat) powi (int 0 - 54) = inverse (2 ^ 54)"
    "(2::rat) powi (- 32) = inverse (2 ^ 32)"
    by (simp_all only: exps power_int_minus power_int_numeral)
  ultimately show "is_finite nano" "2 powi (- 32) < fval nano" "fval nano < 1 / 600"
    unfolding abs_le_iff by (simp_all add: field_simps)
qed

lemma nano_compare:
  assumes "on_grid x" and "on_grid y" and "\<bar>fval x\<bar> \<le> 2 ^ 21"
  shows "flt nano x \<longleftrightarrow> 0 < fval x" and "fle y (fadd x nano) \<longleftrightarrow> fval y \<le> fval x"
proof -
  have fin: "is_finite x" "is_finite y" using assms by (simp_all add: on_grid_finite)
  have pos: "(0::rat) < 2 powi (- 32)" by simp
  note nano = nano_facts
  have n: "0 < fval nano" using nano(2) pos by linarith
  have "on_grid (Fin 0)" by (simp add: on_grid_def)
  then have zero: "0 < fval x \<Longrightarrow> 1 / 512 \<le> fval x" using grid_gap [of "Fin 0" x] assms(1) by simp
  show "flt nano x \<longleftrightarrow> 0 < fval x"
    using zero n nano(3) by (simp add: finite_compare nano(1) fin) linarith
  have "\<bar>fval x + fval nano\<bar> < 2 ^ 22" using assms(3) n nano(3) by simp
  from rnd_near [OF this, of False]
  have near: "is_finite (fadd x nano)" "\<bar>fval (fadd x nano) - (fval x + fval nano)\<bar> \<le> 2 powi (- 32)"
    using fadd_finite [OF fin(1) nano(1)] by simp_all
  have small: "(2::rat) powi (- 32) < 1 / 100000000"
    by (simp only: power_int_minus power_int_numeral) simp
  have "fval x < fval (fadd x nano)" "fval (fadd x nano) < fval x + 1 / 512"
    using near(2) nano small unfolding abs_le_iff by linarith+
  moreover have "fval x < fval y \<Longrightarrow> fval x + 1 / 512 \<le> fval y" using grid_gap assms(1,2) by blast
  ultimately show "fle y (fadd x nano) \<longleftrightarrow> fval y \<le> fval x"
    by (simp add: finite_compare near(1) fin) linarith
qed

lemma extrema_grid:
  assumes "on_grid x" and "on_grid y"
  shows "on_grid (fmin x y)" "fval (fmin x y) = min (fval x) (fval y)"
    and "on_grid (fmax x y)" "fval (fmax x y) = max (fval x) (fval y)"
  using assms on_grid_finite [OF assms(1)] on_grid_finite [OF assms(2)]
  by (auto simp: fmin_def fmax_def finite_compare)

lemma fclamp_grid:
  assumes "on_grid x" and "on_grid lo" and "on_grid hi" and "fval lo \<le> fval hi"
  shows "on_grid (fclamp x lo hi)" and "fval (fclamp x lo hi) = max (fval lo) (min (fval x) (fval hi))"
  using assms on_grid_finite [OF assms(1)] on_grid_finite [OF assms(2)] on_grid_finite [OF assms(3)]
  by (auto simp: fclamp_def finite_compare)

section \<open>The cuts\<close>

text \<open>A cut of the span from \<open>a\<close> to \<open>b\<close>, and the times a list of cuts covers.\<close>

definition cut_of :: "rat \<Rightarrow> rat \<Rightarrow> f64 \<times> f64 \<Rightarrow> bool" where
  "cut_of a b c \<longleftrightarrow> on_grid (fst c) \<and> on_grid (snd c) \<and> a \<le> fval (fst c) \<and> fval (fst c) < fval (snd c)
     \<and> fval (snd c) \<le> b"

definition covered :: "(f64 \<times> f64) list \<Rightarrow> rat \<Rightarrow> bool" where
  "covered cs x \<longleftrightarrow> (\<exists>c \<in> set cs. fval (fst c) \<le> x \<and> x < fval (snd c))"

lemma covered_Cons: "covered ((s, e) # cs) x \<longleftrightarrow> fval s \<le> x \<and> x < fval e \<or> covered cs x"
  by (simp add: covered_def)

text \<open>What the user asked to remove, in seconds of the clip.\<close>

definition removed :: "(f64 \<times> f64) list \<Rightarrow> rat \<Rightarrow> bool" where
  "removed rs x \<longleftrightarrow> (\<exists>(a, b) \<in> set rs. min (fval a) (fval b) \<le> x \<and> x < max (fval a) (fval b))"

lemma spread:
  fixes x y a b c :: rat
  assumes "a \<le> x" and "x \<le> b" and "a \<le> y" and "y \<le> b" and "\<bar>a\<bar> \<le> c" and "\<bar>b\<bar> \<le> c"
  shows "\<bar>x - y\<bar> \<le> 2 * c"
  using assms unfolding abs_le_iff by linarith

lemma clamped_span:
  fixes a b x l :: rat
  assumes "a \<le> x" and "x < b"
  shows "max a (min (a + l) b) \<le> x \<longleftrightarrow> l \<le> x - a" and "x < max a (min (a + l) b) \<longleftrightarrow> x - a < l"
  using assms by (auto simp: max_def min_def)

lemma source_cuts_spec:
  assumes "in_reach a" and "in_reach b" and "fval a \<le> fval b" and "\<forall>r \<in> set rs. in_reach (fst r) \<and> in_reach (snd r)"
  shows "list_all (cut_of (fval a) (fval b)) (source_cuts a b rs)"
    and "fval a \<le> x \<Longrightarrow> x < fval b \<Longrightarrow> covered (source_cuts a b rs) x \<longleftrightarrow> removed rs (x - fval a)"
proof -
  let ?s = "\<lambda>r. fclamp (fadd a (fmin (fst r) (snd r))) a b" and ?e = "\<lambda>r. fclamp (fadd a (fmax (fst r) (snd r))) a b"
  have one: "on_grid (?s r) \<and> on_grid (?e r)
      \<and> fval (?s r) = max (fval a) (min (fval a + min (fval (fst r)) (fval (snd r))) (fval b))
      \<and> fval (?e r) = max (fval a) (min (fval a + max (fval (fst r)) (fval (snd r))) (fval b))
      \<and> (flt nano (fsub (?e r) (?s r)) \<longleftrightarrow> fval (?s r) < fval (?e r))" if "r \<in> set rs" for r
  proof -
    have r: "on_grid (fst r)" "on_grid (snd r)" "\<bar>fval (fst r)\<bar> \<le> 2 ^ 20" "\<bar>fval (snd r)\<bar> \<le> 2 ^ 20"
      and ab: "on_grid a" "on_grid b" "\<bar>fval a\<bar> \<le> 2 ^ 20" "\<bar>fval b\<bar> \<le> 2 ^ 20"
      using assms that by (simp_all add: in_reach_def)
    note ex = extrema_grid [OF r(1,2)]
    have "\<bar>fval a + fval (fmin (fst r) (snd r))\<bar> < 2 ^ 44" "\<bar>fval a + fval (fmax (fst r) (snd r))\<bar> < 2 ^ 44"
      using r(3,4) ab(3) unfolding ex by (auto simp: min_def max_def)
    note lo = fadd_grid [OF ab(1) ex(1) this(1)] and hi = fadd_grid [OF ab(1) ex(3) this(2)]
    note s = fclamp_grid [OF lo(1) ab(1,2) assms(3)] and e = fclamp_grid [OF hi(1) ab(1,2) assms(3)]
    have bounds: "fval a \<le> fval (?s r)" "fval (?s r) \<le> fval b" "fval a \<le> fval (?e r)" "fval (?e r) \<le> fval b"
      using assms(3) unfolding s e by simp_all
    from spread [OF bounds(3,4,1,2) ab(3,4)] have "\<bar>fval (?e r) - fval (?s r)\<bar> \<le> 2 ^ 21" by simp
    then have "\<bar>fval (?e r) - fval (?s r)\<bar> < 2 ^ 44" by (rule order.strict_trans1) simp
    note d = fsub_grid [OF e(1) s(1) this]
    have "flt nano (fsub (?e r) (?s r)) \<longleftrightarrow> fval (?s r) < fval (?e r)"
      using nano_compare(1) [OF d(1) d(1)] \<open>\<bar>fval (?e r) - fval (?s r)\<bar> \<le> 2 ^ 21\<close> d(2) by simp
    with s(1) e(1) s(2) [unfolded lo(2) ex(2)] e(2) [unfolded hi(2) ex(4)] show ?thesis by blast
  qed
  have members: "set (source_cuts a b rs) =
      (\<lambda>r. (?s r, ?e r)) ` {r \<in> set rs. fval (?s r) < fval (?e r)}"
    using one by (auto simp: source_cuts_def case_prod_unfold)
  show "list_all (cut_of (fval a) (fval b)) (source_cuts a b rs)"
    unfolding list_all_iff members using one assms(3) by (auto simp: cut_of_def)
  show "covered (source_cuts a b rs) x \<longleftrightarrow> removed rs (x - fval a)" if "fval a \<le> x" "x < fval b"
  proof
    assume "covered (source_cuts a b rs) x"
    then obtain r where r: "r \<in> set rs" "fval (?s r) \<le> x" "x < fval (?e r)"
      unfolding covered_def members by auto
    note v = one [OF r(1)]
    from r(2,3) have "min (fval (fst r)) (fval (snd r)) \<le> x - fval a \<and> x - fval a < max (fval (fst r)) (fval (snd r))"
      using v clamped_span [OF that] by metis
    with r(1) show "removed rs (x - fval a)" unfolding removed_def by (intro bexI [of _ r]) (simp_all add: case_prod_unfold)
  next
    assume "removed rs (x - fval a)"
    then obtain r where r: "r \<in> set rs" "min (fval (fst r)) (fval (snd r)) \<le> x - fval a"
      "x - fval a < max (fval (fst r)) (fval (snd r))" unfolding removed_def by (auto simp: case_prod_unfold)
    note v = one [OF r(1)]
    from r(2,3) have "fval (?s r) \<le> x" "x < fval (?e r)" using v clamped_span [OF that] by metis+
    with r(1) show "covered (source_cuts a b rs) x" unfolding covered_def members
      by (intro bexI [of _ "(?s r, ?e r)"]) auto
  qed
qed

lemma insert_cut_spec:
  "set (insert_cut c cs) = insert c (set cs)"
  "on_grid (fst c) \<Longrightarrow> \<forall>d \<in> set cs. on_grid (fst d) \<Longrightarrow> sorted (map (\<lambda>d. fval (fst d)) cs) \<Longrightarrow>
     sorted (map (\<lambda>d. fval (fst d)) (insert_cut c cs))"
proof (induction cs)
  case (Cons d ds)
  case 2
  then have "is_finite (fst c)" "is_finite (fst d)" by (simp_all add: on_grid_finite)
  then have "ftotal_lt (fst d) (fst c) \<Longrightarrow> fval (fst d) \<le> fval (fst c)"
    "\<not> ftotal_lt (fst d) (fst c) \<Longrightarrow> fval (fst c) \<le> fval (fst d)"
    by (auto simp: ftotal_lt_def finite_compare)
  with 2 Cons.IH show ?case by auto
qed auto

lemma sort_cuts_spec:
  assumes "\<forall>d \<in> set cs. on_grid (fst d)"
  shows "set (sort_cuts cs) = set cs" and "sorted (map (\<lambda>d. fval (fst d)) (sort_cuts cs))"
proof -
  have "set (sort_cuts cs) = set cs \<and> sorted (map (\<lambda>d. fval (fst d)) (sort_cuts cs))"
    using assms by (induction cs) (auto simp: sort_cuts_def insert_cut_spec)
  then show "set (sort_cuts cs) = set cs" and "sorted (map (\<lambda>d. fval (fst d)) (sort_cuts cs))" by blast+
qed

text \<open>Cuts that follow one another with something kept in between.\<close>

fun apart :: "(f64 \<times> f64) list \<Rightarrow> bool" where
  "apart (c # d # cs) \<longleftrightarrow> fval (snd c) < fval (fst d) \<and> apart (d # cs)"
| "apart _ = True"

lemma covered_after:
  "list_all (cut_of a b) cs \<Longrightarrow> apart cs \<Longrightarrow> covered cs x \<Longrightarrow> fval (fst (hd cs)) \<le> x"
proof (induction cs rule: apart.induct)
  case (1 c d cs)
  then have "covered (d # cs) x \<Longrightarrow> fval (fst d) \<le> x" by simp
  with 1 show ?case by (fastforce simp: covered_def cut_of_def)
qed (auto simp: covered_def)

lemma merge_into_spec:
  assumes "- (2 ^ 21) \<le> a" and "b \<le> 2 ^ 21" and "cut_of a b m" and "list_all (cut_of a b) cs"
    and "sorted (map (\<lambda>d. fval (fst d)) (m # cs))"
  shows "list_all (cut_of a b) (merge_into m cs) \<and> apart (merge_into m cs)
    \<and> fst (hd (merge_into m cs)) = fst m \<and> merge_into m cs \<noteq> []
    \<and> (covered (merge_into m cs) x \<longleftrightarrow> covered (m # cs) x)"
  using assms(3-)
proof (induction cs arbitrary: m)
  case (Cons c cs)
  have m: "on_grid (fst m)" "on_grid (snd m)" "a \<le> fval (fst m)" "fval (fst m) < fval (snd m)" "fval (snd m) \<le> b"
    and c: "on_grid (fst c)" "on_grid (snd c)" "a \<le> fval (fst c)" "fval (fst c) < fval (snd c)" "fval (snd c) \<le> b"
    using Cons.prems by (simp_all add: cut_of_def)
  have "\<bar>fval (snd m)\<bar> \<le> 2 ^ 21" using m assms(1,2) by (intro abs_leI) linarith+
  note le = nano_compare(2) [OF m(2) c(1) this]
  show ?case
  proof (cases "fval (fst c) \<le> fval (snd m)")
    case True
    let ?m = "(fst m, fmax (snd m) (snd c))"
    have "cut_of a b ?m" using m c extrema_grid [OF m(2) c(2)] by (simp add: cut_of_def)
    from Cons.IH [OF this] Cons.prems extrema_grid(4) [OF m(2) c(2)] True le show ?thesis
      by (auto simp: covered_def)
  next
    case False
    from Cons.IH [of c] Cons.prems
    have ih: "list_all (cut_of a b) (merge_into c cs)" "apart (merge_into c cs)"
      "fst (hd (merge_into c cs)) = fst c" "merge_into c cs \<noteq> []"
      "covered (merge_into c cs) x \<longleftrightarrow> covered (c # cs) x" by auto
    then obtain d ds where "merge_into c cs = d # ds" by (cases "merge_into c cs") auto
    with ih False le Cons.prems show ?thesis by (auto simp: covered_def)
  qed
qed (simp_all add: covered_def)

lemma merge_cuts_spec:
  assumes "- (2 ^ 21) \<le> a" and "b \<le> 2 ^ 21" and "list_all (cut_of a b) cs"
    and "sorted (map (\<lambda>d. fval (fst d)) cs)"
  shows "list_all (cut_of a b) (merge_cuts cs) \<and> apart (merge_cuts cs)
    \<and> (covered (merge_cuts cs) x \<longleftrightarrow> covered cs x)"
proof (cases cs)
  case (Cons c ds)
  with assms merge_into_spec [OF assms(1,2), of c ds x] show ?thesis by (simp add: merge_cuts_def)
qed (simp add: merge_cuts_def)

lemma nano_compare_one: "\<not> flt nano (fabs (fsub (Fin 1) (Fin 1)))"
proof -
  have "on_grid (Fin 1)" by (simp add: on_grid_def)
  from fsub_grid [OF this this] have "is_finite (fsub (Fin 1) (Fin 1))" "fval (fsub (Fin 1) (Fin 1)) = 0"
    by (simp_all add: on_grid_def)
  moreover have "(0::rat) < 2 powi (- 32)" by simp
  ultimately show ?thesis using nano_facts by (simp add: finite_compare fval_fabs)
qed

section \<open>What is kept\<close>

lemma plain_rate: "ts_speed seg = None \<Longrightarrow> item_span (segment_audio seg u d) = fval d
    \<and> item_at (segment_audio seg u d) y = Some (ts_asset_path seg, fval u + y)"
  by (simp add: segment_audio_def rate_of_def)

lemma heard_shift: "heard (s + d) is (x + d) = heard s is x"
proof (induction "is" arbitrary: s)
  case (Cons i "is")
  have "s + d + item_span i = s + item_span i + d" by simp
  with Cons show ?case by (simp only: heard.simps) (simp add: algebra_simps)
qed simp

lemma keep_one:
  assumes "ts_speed seg = None" and "on_grid c" and "on_grid e" and "fval c \<le> fval e" and "\<bar>fval e - fval c\<bar> \<le> 2 ^ 21"
  shows "heard (fval c) ((if flt nano (fsub e c) then [segment_audio seg c (fsub e c)] else []) @ rest) x =
    (if fval c \<le> x \<and> x < fval e then Some (ts_asset_path seg, x) else heard (fval e) rest x)"
    and "items_span ((if flt nano (fsub e c) then [segment_audio seg c (fsub e c)] else []) @ rest) =
      fval e - fval c + items_span rest"
proof -
  have "\<bar>fval e - fval c\<bar> < 2 ^ 44" by (rule order.strict_trans1 [OF assms(5)]) simp
  note d = fsub_grid [OF assms(3,2) this]
  have cond: "flt nano (fsub e c) \<longleftrightarrow> fval c < fval e"
    using nano_compare(1) [OF d(1) d(1)] assms(5) d(2) by simp
  note p = plain_rate [OF assms(1), of c "fsub e c"]
  show "heard (fval c) ((if flt nano (fsub e c) then [segment_audio seg c (fsub e c)] else []) @ rest) x =
    (if fval c \<le> x \<and> x < fval e then Some (ts_asset_path seg, x) else heard (fval e) rest x)"
    using assms(4) unfolding cond by (auto simp: p d(2))
  show "items_span ((if flt nano (fsub e c) then [segment_audio seg c (fsub e c)] else []) @ rest) =
      fval e - fval c + items_span rest"
    using assms(4) unfolding cond by (simp add: p d(2) items_span_def)
qed

lemma kept_items_spec:
  assumes "ts_speed seg = None" and "on_grid b" and "\<bar>fval b\<bar> \<le> 2 ^ 20" and "- (2 ^ 20) \<le> a"
    and "on_grid c" and "a \<le> fval c" and "fval c \<le> fval b"
    and "list_all (cut_of a (fval b)) cuts" and "apart cuts" and "cuts \<noteq> [] \<Longrightarrow> fval c \<le> fval (fst (hd cuts))"
  shows "items_span (kept_items seg b c cuts) = fval b - fval c
    \<and> (fval c \<le> x \<longrightarrow> x < fval b \<longrightarrow> heard (fval c) (kept_items seg b c cuts) x =
          (if covered cuts x then None else Some (ts_asset_path seg, x)))"
  using assms(5-)
proof (induction cuts arbitrary: c)
  case Nil
  have "\<bar>fval b - fval c\<bar> \<le> 2 ^ 21"
    using assms(3,4) Nil.prems(2,3) by (intro abs_leI) (simp_all add: abs_le_iff)
  note k = keep_one [OF assms(1) Nil.prems(1) assms(2) Nil.prems(3) this, where rest = "[]"]
  show ?case using k by (simp add: items_span_def covered_def)
next
  case (Cons cut cuts)
  obtain s e where cut: "cut = (s, e)" by (cases cut)
  have se: "on_grid s" "on_grid e" "fval c \<le> fval s" "fval s < fval e" "fval e \<le> fval b" "a \<le> fval e"
    using Cons.prems by (simp_all add: cut cut_of_def)
  have near: "\<bar>fval s - fval c\<bar> \<le> 2 ^ 21" "\<bar>fval e - fval s\<bar> \<le> 2 ^ 21"
    using assms(3,4) Cons.prems(2) se by (auto intro!: abs_leI simp: abs_le_iff)
  from near(2) have "\<bar>fval e - fval s\<bar> < 2 ^ 44" by (rule order.strict_trans1) simp
  note d = fsub_grid [OF se(2,1) this]
  have order: "cuts \<noteq> [] \<Longrightarrow> fval e \<le> fval (fst (hd cuts))" using Cons.prems(5) by (cases cuts) (simp_all add: cut)
  have "apart cuts" using Cons.prems(5) by (cases cuts) simp_all
  from Cons.IH [OF se(2) se(6) se(5) _ this order] Cons.prems(4)
  have ih: "items_span (kept_items seg b e cuts) = fval b - fval e"
    "fval e \<le> x \<Longrightarrow> x < fval b \<Longrightarrow> heard (fval e) (kept_items seg b e cuts) x =
          (if covered cuts x then None else Some (ts_asset_path seg, x))" by simp_all
  note k = keep_one [OF assms(1) Cons.prems(1) se(1) se(3) near(1), where rest = "AI_Gap (fsub e s) # kept_items seg b e cuts"]
  have later: "covered cuts x \<Longrightarrow> fval e \<le> x"
    using covered_after [OF _ \<open>apart cuts\<close>, of a "fval b" x] order Cons.prems(4)
    by (cases cuts) (auto simp: covered_def)
  show ?case unfolding cut kept_items.simps k(1) k(2)
    using ih d(2) se later by (auto simp: items_span_def covered_Cons)
qed

section \<open>Removed audio\<close>

lemma no_obstacle:
  assumes "removal_obstacle seg = None" and "ts_speed seg = None"
  shows "lead_of seg = Fin 0" and "trail_of seg = Fin 0" and "segment_speed seg = Fin 1"
  using assms by (auto simp: removal_obstacle_def lead_of_def trail_of_def normalized_split_offset_def
    segment_speed_def split: if_splits option.splits)

lemma kept_audio:
  assumes "ts_speed seg = None" and "removal_obstacle seg = None"
    and "in_reach u" and "in_reach d" and "0 \<le> fval d" and "in_reach (fadd u d)"
    and "\<forall>r \<in> set (ts_audio_removed_ranges seg). in_reach (fst r) \<and> in_reach (snd r)"
  shows "\<exists>items. audio_items_with_removals seg u d = Inr items \<and> items_span items = fval d
    \<and> (\<forall>x. 0 \<le> x \<longrightarrow> x < fval d \<longrightarrow> heard 0 items x =
          (if removed (ts_audio_removed_ranges seg) x then None else Some (ts_asset_path seg, fval u + x)))"
proof -
  let ?b = "fadd u d" and ?rs = "ts_audio_removed_ranges seg"
  have small: "\<bar>fval u + fval d\<bar> < 2 ^ 44" using assms(3,4) by (auto simp: in_reach_def abs_le_iff)
  have u: "on_grid u" "- (2 ^ 20) \<le> fval u" "\<bar>fval u\<bar> \<le> 2 ^ 20" and b: "on_grid ?b" "\<bar>fval ?b\<bar> \<le> 2 ^ 20" "fval ?b \<le> 2 ^ 20"
    using assms(3,6) by (auto simp: in_reach_def abs_le_iff)
  have "on_grid d" using assms(4) by (simp add: in_reach_def)
  note end_time = fadd_grid(2) [OF u(1) this small]
  have le: "fval u \<le> fval ?b" using assms(5) end_time by simp
  let ?cuts = "source_cuts u ?b ?rs" and ?merged = "merge_cuts (sort_cuts (source_cuts u ?b ?rs))"
  note cuts = source_cuts_spec [OF assms(3,6) le assms(7)]
  have grid: "\<forall>c \<in> set ?cuts. on_grid (fst c)" using cuts(1) by (auto simp: list_all_iff cut_of_def)
  note sorted = sort_cuts_spec [OF grid]
  have all: "list_all (cut_of (fval u) (fval ?b)) (sort_cuts ?cuts)" using cuts(1) sorted(1) by (simp add: list_all_iff)
  have "- (2 ^ 21) \<le> fval u" "fval ?b \<le> 2 ^ 21" using u(2) b(3) by simp_all
  note merged = merge_cuts_spec [OF this all sorted(2)]
  have cov: "covered ?merged x \<longleftrightarrow> covered ?cuts x" for x
    using merged [of x] sorted(1) by (simp add: covered_def)
  have first: "?merged \<noteq> [] \<Longrightarrow> fval u \<le> fval (fst (hd ?merged))"
    using merged by (cases ?merged) (auto simp: cut_of_def)
  note kept = kept_items_spec [OF assms(1) b(1,2) u(2) u(1) order.refl le _ _ first]
  let ?items = "kept_items seg ?b u ?merged"
  have span: "items_span ?items = fval d"
    and hear: "fval u \<le> x \<Longrightarrow> x < fval ?b \<Longrightarrow> heard (fval u) ?items x =
          (if removed ?rs (x - fval u) then None else Some (ts_asset_path seg, x))" for x
    using kept merged end_time cuts(2) [of x] cov [of x] by simp_all
  have "heard 0 ?items x = (if removed ?rs x then None else Some (ts_asset_path seg, fval u + x))"
    if "0 \<le> x" "x < fval d" for x
    using hear [of "fval u + x"] heard_shift [of 0 "fval u" ?items x] that end_time by (simp add: add.commute)
  moreover have "?items = [] \<Longrightarrow> fval d = 0" using span by (simp add: items_span_def)
  ultimately show ?thesis using span assms(2)
    by (auto simp: audio_items_with_removals_def items_span_def Let_def)
qed

lemma zero_offset: "fmul (Fin 0) (Fin 1) = Fin 0" "fadd (Fin 0) (Fin 0) = Fin 0" "on_grid (Fin 0)"
  by (simp_all add: on_grid_def) (code_simp+)

lemma same_span:
  assumes "in_reach x"
  shows "in_reach (fsub x (Fin 0))" "fval (fsub x (Fin 0)) = fval x" "in_reach (fadd x (Fin 0))" "fval (fadd x (Fin 0)) = fval x"
proof -
  have x: "on_grid x" "\<bar>fval x\<bar> \<le> 2 ^ 20" using assms by (simp_all add: in_reach_def)
  have "\<bar>fval x\<bar> < 2 ^ 44" by (rule order.strict_trans1 [OF x(2)]) simp
  with fsub_grid [OF x(1) zero_offset(3)] fadd_grid [OF x(1) zero_offset(3)] x(2)
  show "in_reach (fsub x (Fin 0))" "fval (fsub x (Fin 0)) = fval x" "in_reach (fadd x (Fin 0))" "fval (fadd x (Fin 0)) = fval x"
    by (simp_all add: in_reach_def)
qed

text \<open>C7: The synthesized sound of a clip of which spans are removed is silent exactly at the seconds the
  removed ranges cover, given in any order, reversed or overlapping, and plays everywhere else the
  second of the file that the picture shows: the items last as long as the clip, and what is kept is
  neither shifted nor repeated.
\<close>

theorem removed_audio_is_silent:
  assumes "ts_speed seg = None" and "removal_obstacle seg = None" and "\<not> ts_audio_muted seg"
    and "ts_audio_removed_ranges seg \<noteq> []"
    and "in_reach (ts_start_s seg)" and "in_reach (ts_duration_s seg)" and "0 \<le> fval (ts_duration_s seg)"
    and "fval (ts_start_s seg) + fval (ts_duration_s seg) \<le> 2 ^ 20"
    and "in_reach p" and "0 \<le> fval p"
    and "\<forall>r \<in> set (ts_audio_removed_ranges seg). in_reach (fst r) \<and> in_reach (snd r)"
  shows "\<exists>t. synthesized_track idx p seg = Inr t
    \<and> items_span (atp_items t) = fval p + fval (ts_duration_s seg)
    \<and> (\<forall>x. 0 \<le> x \<longrightarrow> x < fval (ts_duration_s seg) \<longrightarrow> heard 0 (atp_items t) (fval p + x) =
          (if removed (ts_audio_removed_ranges seg) x then None
           else Some (ts_asset_path seg, fval (ts_start_s seg) + x)))"
proof -
  let ?u = "fsub (ts_start_s seg) (Fin 0)" and ?d = "fadd (ts_duration_s seg) (Fin 0)"
  note off = no_obstacle [OF assms(2,1)]
  note u = same_span(1,2) [OF assms(5)] and d = same_span(3,4) [OF assms(6)] and p = same_span(1,2) [OF assms(9)]
  have grid: "on_grid ?u" "on_grid ?d" using u(1) d(1) by (simp_all add: in_reach_def)
  have "\<bar>fval ?u + fval ?d\<bar> < 2 ^ 44" using u(1) d(1) by (auto simp: in_reach_def abs_le_iff)
  note sum = fadd_grid [OF grid this]
  have "in_reach (fadd ?u ?d)" using sum u d assms(5-8) by (auto simp: in_reach_def abs_le_iff)
  moreover have "0 \<le> fval ?d" using d(2) assms(7) by simp
  ultimately obtain items where items: "audio_items_with_removals seg ?u ?d = Inr items" "items_span items = fval ?d"
    "\<forall>x. 0 \<le> x \<longrightarrow> x < fval ?d \<longrightarrow> heard 0 items x =
          (if removed (ts_audio_removed_ranges seg) x then None else Some (ts_asset_path seg, fval ?u + x))"
    using kept_audio [OF assms(1,2) u(1) d(1) _ _ assms(11)] by blast
  have "is_finite (fsub p (Fin 0))" "is_finite (Fin 0)"
    using p(1) zero_offset(3) by (auto simp: in_reach_def on_grid_def)
  then have wait: "flt (Fin 0) (fmax (fsub p (Fin 0)) (Fin 0)) \<longleftrightarrow> 0 < fval p"
    "fval (fmax (fsub p (Fin 0)) (Fin 0)) = fval p"
    using p(2) assms(10) by (auto simp: fmax_def finite_compare)
  have valid: "validate_split_edit_handles seg (Fin 0) (Fin 0) = Inr ()"
    by (simp add: validate_split_edit_handles_def Let_def split: option.splits)
  have "\<exists>t. synthesized_track idx p seg = Inr t \<and> atp_items t =
      (if 0 < fval p then [AI_Gap (fmax (fsub p (Fin 0)) (Fin 0))] else []) @ items"
    unfolding synthesized_track_def Let_def off valid zero_offset wait(1)
    using assms(3,4) items(1) by simp
  moreover have "heard (fval p) items (fval p + x) = heard 0 items x" for x
    using heard_shift [of 0 "fval p" items x] by (simp add: add.commute)
  ultimately show ?thesis using items(2,3) wait(2) u(2) d(2) assms(10)
    by (auto simp: items_span_def)
qed

text \<open>An interview of which two adjacent spans of the sound are removed, ten seconds into its file, three
  seconds into the programme.\<close>

definition trimmed_interview :: timeline_segment where
  "trimmed_interview = \<lparr>ts_clip_name = ''interview'', ts_asset_path = ''a.wav'', ts_start_s = Fin 10, ts_duration_s = Fin 10,
     ts_pre_handle_s = Fin 0, ts_post_handle_s = Fin 0, ts_available_start_s = None, ts_available_end_s = None,
     ts_volume = None, ts_speed = None, ts_time_remap = None, ts_freeze = None, ts_audio_lead_s = None,
     ts_audio_trail_s = None, ts_audio_muted = False, ts_audio_removed_ranges = [(Fin 5, Fin 4), (Fin 2, Fin 4)]\<rparr>"

theorem removed_audio_is_silent_witness:
  "\<exists>t. synthesized_track 0 (Fin 3) trimmed_interview = Inr t
    \<and> items_span (atp_items t) = 13
    \<and> heard 0 (atp_items t) (3 + 1) = Some (''a.wav'', 11)
    \<and> heard 0 (atp_items t) (3 + 9 / 2) = None
    \<and> heard 0 (atp_items t) (3 + 5) = Some (''a.wav'', 15)"
proof -
  let ?s = trimmed_interview
  have "\<exists>t. synthesized_track 0 (Fin 3) ?s = Inr t
    \<and> items_span (atp_items t) = fval (Fin 3) + fval (ts_duration_s ?s)
    \<and> (\<forall>x. 0 \<le> x \<longrightarrow> x < fval (ts_duration_s ?s) \<longrightarrow> heard 0 (atp_items t) (fval (Fin 3) + x) =
          (if removed (ts_audio_removed_ranges ?s) x then None else Some (ts_asset_path ?s, fval (ts_start_s ?s) + x)))"
    by (rule removed_audio_is_silent)
      (simp_all add: trimmed_interview_def in_reach_def on_grid_def removal_obstacle_def segment_speed_def lead_of_def
        trail_of_def normalized_split_offset_def nano_compare_one)
  then obtain t where t: "synthesized_track 0 (Fin 3) ?s = Inr t" "items_span (atp_items t) = 13"
    and h: "\<And>x. 0 \<le> x \<Longrightarrow> x < 10 \<Longrightarrow> heard 0 (atp_items t) (3 + x) =
          (if removed [(Fin 5, Fin 4), (Fin 2, Fin 4)] x then None else Some (''a.wav'', 10 + x))"
    by (auto simp: trimmed_interview_def)
  with h [of 1] h [of "9 / 2"] h [of 5] show ?thesis by (auto simp: removed_def)
qed

end
