(* ===== verification/Edl_Range_Props.thy ===== *)
theory Edl_Range_Props
  imports Edl_Program Edl_Frames
begin

text \<open>
  Lifting, extracting and overwriting a range of a track, as changes of what the track plays.
\<close>

section \<open>Extract\<close>

text \<open>Where a time of the old track is found on the new one.\<close>

definition closed_time :: "rat \<Rightarrow> rat \<Rightarrow> rat \<Rightarrow> rat" where
  "closed_time a b s = (if s \<le> a then s else if s \<le> b then a else s - (b - a))"

lemma closed_child:
  assumes "piece_of c s s a ld" and "piece_of c s b e tr" and "e = s + dur c" and "a < b"
    and "max s a < min e b" and "grid_track rest" and "nonneg cs" and "0 \<le> s" and "s + span_of (c # cs) \<le> 2 ^ 20"
    and "span_of rest = span_of cs - overlap a b e (e + span_of cs)"
    and "\<And>t. plays (closed_time a b e) rest t = plays e cs (if t < a then t else t + (b - a))"
  shows "grid_track (ld @ tr @ rest)"
    and "span_of (ld @ tr @ rest) = span_of (c # cs) - overlap a b s (s + span_of (c # cs))"
    and "plays (closed_time a b s) (ld @ tr @ rest) t = plays s (c # cs) (if t < a then t else t + (b - a))"
proof -
  have n: "0 \<le> span_of cs" using assms(7) by (rule nonneg_span)
  have p: "grid_track ld \<and> span_of ld = max 0 (a - s) \<and> grid_track tr \<and> span_of tr = max 0 (e - b)"
    using assms(1,2) by (simp add: piece_of_def)
  have "overlap a b s (s + span_of (c # cs)) = (min e b - max s a) + overlap a b e (e + span_of cs)"
    using assms(3,4,5) n by (auto simp: overlap_def max_def min_def split: if_splits)
  with p show "span_of (ld @ tr @ rest) = span_of (c # cs) - overlap a b s (s + span_of (c # cs))"
    using assms(3,5,10) by (auto simp: max_def min_def split: if_splits)
  moreover have "0 \<le> overlap a b s (s + span_of (c # cs))" by (simp add: overlap_def)
  moreover have "0 \<le> span_of rest" using nonneg_span [OF grid_nonneg [OF assms(6)]] .
  ultimately show "grid_track (ld @ tr @ rest)"
    using p assms(6,8,9) by (auto simp: max_def split: if_splits)
  have points: "closed_time a b s + max 0 (a - s) = a" "a + span_of [] = a" "a + max 0 (e - b) = closed_time a b e"
    using assms(4,5) by (auto simp: closed_time_def max_def min_def split: if_splits)
  have "nonneg []" by simp
  note parts = carved_plays [OF assms(1,2) this grid_nonneg [OF assms(6)], of "closed_time a b s" t,
      unfolded Let_def points append_Nil]
  show "plays (closed_time a b s) (ld @ tr @ rest) t = plays s (c # cs) (if t < a then t else t + (b - a))"
    unfolding parts assms(11) using assms(3,4,5) plays_before [OF assms(7), of "if t < a then t else t + (b - a)" e]
    by (auto simp: closed_time_def max_def min_def algebra_simps split: if_splits)
qed

lemma extract_children_grid:
  assumes "in_reach A" and "in_reach B" and "0 \<le> fval A" and "fval A < fval B"
    and "in_reach cur" and "0 \<le> fval cur" and "grid_track cs" and "fval cur + span_of cs \<le> 2 ^ 20"
    and "carvable (fval A) (fval B) (fval cur) cs"
    and "on_grid lifted" and "0 \<le> fval lifted" and "fval lifted \<le> fval cur"
  shows "\<exists>cs' taken seq'. extract_children clock i A B cur lifted cs seq = Inr ((cs', taken), seq')
    \<and> grid_track cs' \<and> list_all rated cs' \<and> on_grid taken
    \<and> span_of cs' = span_of cs - overlap (fval A) (fval B) (fval cur) (fval cur + span_of cs)
    \<and> fval taken = fval lifted + overlap (fval A) (fval B) (fval cur) (fval cur + span_of cs)
    \<and> (\<forall>t. plays (closed_time (fval A) (fval B) (fval cur)) cs' t =
         plays (fval cur) cs (if t < fval A then t else t + (fval B - fval A)))"
  using assms(5-)
proof (induction cs arbitrary: cur lifted seq)
  case Nil
  then show ?case using assms(4) by (simp add: overlap_def max_def min_def)
next
  case (Cons c cs)
  note step = edit_cursor_step [OF Cons.prems(1-4)]
  let ?e = "fadd cur (child_duration c)" and ?w = "fsub (fmin (fadd cur (child_duration c)) B) (fmax cur A)"
  have c: "on_grid (child_duration c)" "0 \<le> dur c" "grid_track cs" "0 \<le> span_of cs" "rated c"
    using Cons.prems(3) grid_track_total [of cs] carvable_rated [OF Cons.prems(5)] by simp_all
  have rest: "fval ?e + span_of cs \<le> 2 ^ 20" "carvable (fval A) (fval B) (fval ?e) cs" "0 \<le> fval ?e"
    using Cons.prems(2,4,5) c(2) step(2) by (simp_all add: add.assoc)
  note IH = Cons.IH [OF step(1) rest(3) c(3) rest(1,2)]
  note cmp = range_compare(1) [OF Cons.prems(1) step(1) assms(1,2)]
  note more = overlap_Cons [OF assms(4) c(2,4), of "fval cur", folded step(2)]
  consider (instant) "dur c = 0" | (apart) "0 < dur c" "min (fval ?e) (fval B) \<le> max (fval cur) (fval A)"
    | (hit) "0 < dur c" "max (fval cur) (fval A) < min (fval ?e) (fval B)" using c(2) by linarith
  then show ?case
  proof cases
    case instant
    with Cons.IH [of cur lifted seq] Cons.prems c(3) rest step(2)
    obtain cs' taken q where "extract_children clock i A B cur lifted cs seq = Inr ((cs', taken), q)"
      and cs': "grid_track cs'" "list_all rated cs'" "on_grid taken"
      "span_of cs' = span_of cs - overlap (fval A) (fval B) (fval cur) (fval cur + span_of cs)"
      "fval taken = fval lifted + overlap (fval A) (fval B) (fval cur) (fval cur + span_of cs)"
      "\<forall>t. plays (closed_time (fval A) (fval B) (fval cur)) cs' t =
         plays (fval cur) cs (if t < fval A then t else t + (fval B - fval A))"
      by auto
    moreover have "list_all rated (keep_instant A B cur c)" using c(5) by (simp add: keep_instant_def)
    ultimately show ?thesis using instant step(3) instant_kept [OF Cons.prems(3) instant cs'(1)] by auto
  next
    case apart
    then have away: "fval ?e \<le> fval A \<or> fval B \<le> fval cur" "overlap (fval A) (fval B) (fval cur) (fval ?e) = 0"
      using assms(4) step(2) by (auto simp: overlap_def min_def max_def split: if_splits)
    have "fval lifted \<le> fval ?e" using Cons.prems(8) step(2) c(2) by simp
    from IH [OF Cons.prems(6,7) this, of seq]
    obtain cs' taken q where run: "extract_children clock i A B ?e lifted cs seq = Inr ((cs', taken), q)"
      and cs': "grid_track cs'" "list_all rated cs'" "on_grid taken"
      "span_of cs' = span_of cs - overlap (fval A) (fval B) (fval ?e) (fval ?e + span_of cs)"
      "fval taken = fval lifted + overlap (fval A) (fval B) (fval ?e) (fval ?e + span_of cs)"
      "\<And>t. plays (closed_time (fval A) (fval B) (fval ?e)) cs' t =
         plays (fval ?e) cs (if t < fval A then t else t + (fval B - fval A))"
      by auto
    have small: "0 \<le> overlap (fval A) (fval B) (fval ?e) (fval ?e + span_of cs)" by (simp add: overlap_def)
    have at: "closed_time (fval A) (fval B) (fval cur) + dur c = closed_time (fval A) (fval B) (fval ?e)"
      using away(1) step(2) c(2) assms(4) by (auto simp: closed_time_def)
    have "plays (closed_time (fval A) (fval B) (fval cur)) (c # cs') t =
        plays (fval cur) (c # cs) (if t < fval A then t else t + (fval B - fval A))" for t
      using cs'(6) [of t] at step(2) away(1) assms(4) c(2) apart(1)
        plays_before [OF grid_nonneg [OF c(3)], of t "fval ?e"]
      by (auto simp: closed_time_def algebra_simps split: if_splits)
    then show ?thesis using run cs'(1-5) c small cmp apart step Cons.prems(2,4) more away(2) by auto
  next
    case hit
    note w = hit_range [OF Cons.prems(1) step(1) assms(1,2) Cons.prems(2) hit(2)]
    have wv: "0 \<le> fval ?w" "fval cur + fval ?w \<le> fval ?e" using w(2) hit(2) step(2) by (auto simp: max_def min_def)
    note l = add_taken [OF Cons.prems(6-8) w(1) wv(1)]
    obtain ld tr q1 where cut: "carve clock i c cur ?e A B seq = Inr ((ld, tr), q1)"
      "piece_of c (fval cur) (fval cur) (fval A) (piece_list ld)" "piece_of c (fval cur) (fval B) (fval ?e) (piece_list tr)"
      using carve_grid [OF Cons.prems(1) step(1,2) Cons.prems(2) assms(1,2,4) _ _ hit(1), of clock i seq] hit(2) Cons.prems(5) by auto
    obtain cs' taken q where run: "extract_children clock i A B ?e (fadd lifted ?w) cs q1 = Inr ((cs', taken), q)"
      and cs': "grid_track cs'" "list_all rated cs'" "on_grid taken"
      "span_of cs' = span_of cs - overlap (fval A) (fval B) (fval ?e) (fval ?e + span_of cs)"
      "fval taken = fval (fadd lifted ?w) + overlap (fval A) (fval B) (fval ?e) (fval ?e + span_of cs)"
      "\<And>t. plays (closed_time (fval A) (fval B) (fval ?e)) cs' t =
         plays (fval ?e) cs (if t < fval A then t else t + (fval B - fval A))"
      using IH [of "fadd lifted ?w" q1] l wv rest(1) c(4) Cons.prems(7,8) by auto
    note out = closed_child [OF cut(2,3) step(2) assms(4) hit(2) cs'(1) grid_nonneg [OF c(3)] Cons.prems(2,4) cs'(4,6)]
    have "list_all rated (piece_list ld @ piece_list tr @ cs')" using cut(2,3) cs'(2) by (simp add: piece_of_def)
    moreover have "fval ?w = overlap (fval A) (fval B) (fval cur) (fval ?e)" using w(2) hit(2) by (simp add: overlap_def)
    ultimately show ?thesis using cmp step(3) hit cut(1) run out cs'(3,5) l more wv rest(1) c(4) by (simp add: Let_def)
  qed
qed

section \<open>Overwrite\<close>

text \<open>After the new clip has been put in: what is left of the range disappears.\<close>

lemma carved_tail:
  assumes "piece_of c s b e tr" and "e = s + dur c" and "s < b"
    and "grid_track rest" and "nonneg cs" and "0 \<le> s" and "s + span_of (c # cs) \<le> 2 ^ 20"
    and "span_of rest = max (e + span_of cs) b - max e b"
    and "\<And>t. plays (max e b) rest t = (if t < b then None else plays e cs t)"
  shows "grid_track (tr @ rest)" and "span_of (tr @ rest) = max (s + span_of (c # cs)) b - b"
    and "plays b (tr @ rest) t = (if t < b then None else plays s (c # cs) t)"
proof -
  have n: "0 \<le> span_of cs" using assms(5) by (rule nonneg_span)
  have p: "grid_track tr" "span_of tr = max 0 (e - b)"
    "plays w tr t = (if w \<le> t \<and> t < w + (e - b) then shows_at c (t - w + (b - s)) else None)" for w t
    using assms(1) unfolding piece_of_def by blast+
  show sp: "span_of (tr @ rest) = max (s + span_of (c # cs)) b - b"
    using assms(2,8) p(2) n by (auto simp: max_def split: if_splits)
  have r: "0 \<le> span_of rest" using nonneg_span [OF grid_nonneg [OF assms(4)]] .
  show "grid_track (tr @ rest)"
    using p(1) assms(3,4,6,7) sp by (simp add: max_def split: if_splits)
  have "b + span_of tr = max e b" using p(2) by (auto simp: max_def)
  then show "plays b (tr @ rest) t = (if t < b then None else plays s (c # cs) t)"
    unfolding plays_append [OF grid_nonneg [OF p(1)] grid_nonneg [OF assms(4)]] p(3)
    using assms(2,3,9) plays_before [OF assms(5), of t e] by (auto simp: max_def split: if_splits)
qed

lemma overwrite_done_grid:
  assumes "in_reach A" and "in_reach B" and "0 \<le> fval A" and "fval A < fval B"
    and "in_reach cur" and "fval A \<le> fval cur" and "grid_track cs" and "fval cur + span_of cs \<le> 2 ^ 20"
    and "carvable (fval A) (fval B) (fval cur) cs"
  shows "\<exists>cs' seq'. overwrite_children clock i A B rate None cur cs seq = Inr (cs', seq')
    \<and> grid_track cs' \<and> span_of cs' = max (fval cur + span_of cs) (fval B) - max (fval cur) (fval B)
    \<and> (\<forall>t. plays (max (fval cur) (fval B)) cs' t = (if t < fval B then None else plays (fval cur) cs t))"
  using assms(5-)
proof (induction cs arbitrary: cur seq)
  case Nil
  then show ?case by simp
next
  case (Cons c cs)
  have pos: "0 \<le> fval cur" using Cons.prems(2) assms(3) by simp
  note step = edit_cursor_step [OF Cons.prems(1) pos Cons.prems(3,4)]
  let ?e = "fadd cur (child_duration c)"
  have c: "on_grid (child_duration c)" "0 \<le> dur c" "grid_track cs" "0 \<le> span_of cs"
    using Cons.prems(3) grid_track_total [of cs] by simp_all
  have rest: "fval ?e + span_of cs \<le> 2 ^ 20" "carvable (fval A) (fval B) (fval ?e) cs" "fval A \<le> fval ?e"
    using Cons.prems(2,4,5) c(2) step(2) by (simp_all add: add.assoc)
  note cmp = range_compare(1) [OF Cons.prems(1) step(1) assms(1,2)]
  have a2: "\<bar>fval A\<bar> \<le> 2 ^ 21" using assms(1) by (simp add: in_reach_def)
  note past = tolerance_compare(1) [OF tolerances_of_the_code(2) in_reach_grid [OF assms(1)] in_reach_grid [OF step(1)] a2]
  from Cons.IH [OF step(1) rest(3) c(3) rest(1,2)]
  have IH: "\<exists>cs' seq'. overwrite_children clock i A B rate None ?e cs q = Inr (cs', seq')
    \<and> grid_track cs' \<and> span_of cs' = max (fval ?e + span_of cs) (fval B) - max (fval ?e) (fval B)
    \<and> (\<forall>t. plays (max (fval ?e) (fval B)) cs' t = (if t < fval B then None else plays (fval ?e) cs t))" for q .
  consider (instant) "dur c = 0" | (after) "0 < dur c" "fval B \<le> fval cur"
    | (hit) "0 < dur c" "fval cur < fval B" using c(2) by linarith
  then show ?case
  proof cases
    case instant
    with Cons.IH [of cur seq] Cons.prems c(3) rest step(2)
    obtain cs' q where "overwrite_children clock i A B rate None cur cs seq = Inr (cs', q)"
      and cs': "grid_track cs'" "span_of cs' = max (fval cur + span_of cs) (fval B) - max (fval cur) (fval B)"
      "\<forall>t. plays (max (fval cur) (fval B)) cs' t = (if t < fval B then None else plays (fval cur) cs t)"
      by auto
    then show ?thesis using instant step(3) instant_kept [OF Cons.prems(3) instant cs'(1)] by auto
  next
    case after
    obtain cs' q where run: "overwrite_children clock i A B rate None ?e cs seq = Inr (cs', q)"
      and cs': "grid_track cs'" "span_of cs' = max (fval ?e + span_of cs) (fval B) - max (fval ?e) (fval B)"
      "\<And>t. plays (max (fval ?e) (fval B)) cs' t = (if t < fval B then None else plays (fval ?e) cs t)"
      using IH [of seq] by blast
    have "overwrite_children clock i A B rate None cur (c # cs) seq = Inr (c # cs', q)"
      using run after step(2,3) assms(4) Cons.prems(2) cmp past by (simp add: Let_def max_def)
    then show ?thesis using cs' after step(2) c assms(4) Cons.prems(4) pos by (auto simp: max_def)
  next
    case hit
    obtain ld tr q1 where cut: "carve clock i c cur ?e A B seq = Inr ((ld, tr), q1)"
      "piece_of c (fval cur) (fval cur) (fval A) (piece_list ld)" "piece_of c (fval cur) (fval B) (fval ?e) (piece_list tr)"
      using carve_grid [OF Cons.prems(1) step(1,2) pos assms(1,2,4) _ _ hit(1), of clock i seq] hit Cons.prems(2,5) step(2) by auto
    have none: "ld = None"
      using cut(1) Cons.prems(2) finite_compare(1) [of cur A] in_reach_grid [OF Cons.prems(1)] in_reach_grid [OF assms(1)]
      by (auto simp: carve_def rbind_eq_Inr on_grid_def Let_def split: if_splits)
    obtain cs' q where run: "overwrite_children clock i A B rate None ?e cs q1 = Inr (cs', q)"
      and cs': "grid_track cs'" "span_of cs' = max (fval ?e + span_of cs) (fval B) - max (fval ?e) (fval B)"
      "\<And>t. plays (max (fval ?e) (fval B)) cs' t = (if t < fval B then None else plays (fval ?e) cs t)"
      using IH [of q1] by blast
    have "\<not> min (fval cur + dur c) (fval B) \<le> fval cur" using hit by (simp add: min_def)
    then have "overwrite_children clock i A B rate None cur (c # cs) seq = Inr (piece_list tr @ cs', q)"
      using run cut(1) none hit step(2,3) Cons.prems(2) cmp past by (simp add: Let_def piece_list_def)
    then show ?thesis
      using carved_tail [OF cut(3) step(2) hit(2) cs'(1) grid_nonneg [OF c(3)] pos Cons.prems(4) cs'(2,3)] hit(2)
      by (auto simp: max_def)
  qed
qed

text \<open>The child in which the range starts, with the new clip put in.\<close>

lemma over_child:
  assumes "piece_of c s s a ld" and "piece_of c s b e tr" and "e = s + dur c" and "a < b" and "s \<le> a" and "a < e"
    and "on_grid (child_duration p)" and "dur p = b - a" and "grid_track rest" and "nonneg cs" and "0 \<le> s"
    and "max (s + span_of (c # cs)) b \<le> 2 ^ 20"
    and "span_of rest = max (e + span_of cs) b - max e b"
    and "\<And>t. plays (max e b) rest t = (if t < b then None else plays e cs t)"
  shows "grid_track (ld @ [p] @ tr @ rest)" and "span_of (ld @ [p] @ tr @ rest) = max (s + span_of (c # cs)) b - s"
    and "plays s (ld @ [p] @ tr @ rest) t =
      (if a \<le> t \<and> t < b then shows_at p (t - a) else plays s (c # cs) t)"
proof -
  have n: "0 \<le> span_of cs" using assms(10) by (rule nonneg_span)
  have pc: "grid_track ld \<and> span_of ld = max 0 (a - s) \<and> grid_track tr \<and> span_of tr = max 0 (e - b)"
    using assms(1,2) by (simp add: piece_of_def)
  show sp: "span_of (ld @ [p] @ tr @ rest) = max (s + span_of (c # cs)) b - s"
    using pc assms(3-6,8,13) n by (auto simp: max_def split: if_splits)
  moreover have r: "0 \<le> span_of rest" using nonneg_span [OF grid_nonneg [OF assms(9)]] .
  ultimately show "grid_track (ld @ [p] @ tr @ rest)"
    using pc assms(4,5,7,8,9,11,12) by (auto simp: max_def split: if_splits)
  have points: "s + max 0 (a - s) = a" "a + span_of [p] = b" "b + max 0 (e - b) = max e b"
    using assms(4,5,8) by (auto simp: max_def)
  have "nonneg [p]" using assms(4,8) by simp
  note parts = carved_plays [OF assms(1,2) this grid_nonneg [OF assms(9)], of s t, unfolded Let_def points]
  show "plays s (ld @ [p] @ tr @ rest) t =
      (if a \<le> t \<and> t < b then shows_at p (t - a) else plays s (c # cs) t)"
    unfolding parts assms(14) using assms(3,4,5,6,8) plays_before [OF assms(10), of t e]
    by (auto simp: max_def split: if_splits)
qed

lemma overwrite_children_grid:
  assumes "in_reach A" and "in_reach B" and "0 \<le> fval A" and "fval A < fval B" and "whole_rate rate"
    and "on_grid (child_duration (TC_Clip p))" and "dur (TC_Clip p) = fval B - fval A"
    and "in_reach cur" and "0 \<le> fval cur" and "fval cur \<le> fval A" and "grid_track cs"
    and "max (fval cur + span_of cs) (fval B) \<le> 2 ^ 20" and "carvable (fval A) (fval B) (fval cur) cs"
  shows "\<exists>cs' seq'. overwrite_children clock i A B rate (Some p) cur cs seq = Inr (cs', seq')
    \<and> grid_track cs' \<and> span_of cs' = max (fval cur + span_of cs) (fval B) - fval cur
    \<and> (\<forall>t. plays (fval cur) cs' t =
         (if fval A \<le> t \<and> t < fval B then shows_at (TC_Clip p) (t - fval A) else plays (fval cur) cs t))"
  using assms(8-)
proof (induction cs arbitrary: cur seq)
  case Nil
  have grids: "on_grid A" "on_grid cur" "\<bar>fval A\<bar> \<le> 2 ^ 21"
    using assms(1) Nil.prems(1) by (simp_all add: in_reach_def)
  have d: "\<bar>fval A - fval cur\<bar> < 2 ^ 44" using assms(1) Nil.prems(2,3) by (auto simp: in_reach_def)
  note w = fsub_grid [OF grids(1,2) d]
  have "in_reach (fsub A cur)" using w Nil.prems(2,3) assms(1) by (simp add: in_reach_def)
  note g = gap_on_track [OF this assms(5)]
  note late = tolerance_compare(3) [OF tolerances_of_the_code(2) grids(1,2,3)]
  have silent: "shows_at (gap_child (fsub A cur) rate) x = None" for x by (simp add: gap_child_def)
  have "fval B \<le> 2 ^ 20" using Nil.prems(5) by simp
  then show ?case
    using Nil.prems(2,3) assms(3,4,6,7) w(2) g late silent by (cases "fval cur < fval A") auto
next
  case (Cons c cs)
  have all: "fval cur + span_of (c # cs) \<le> 2 ^ 20" using Cons.prems(5) by simp
  note step = edit_cursor_step [OF Cons.prems(1,2,4) all]
  let ?e = "fadd cur (child_duration c)"
  have c: "on_grid (child_duration c)" "0 \<le> dur c" "grid_track cs" "0 \<le> span_of cs"
    using Cons.prems(4) grid_track_total [of cs] by simp_all
  have rest: "max (fval ?e + span_of cs) (fval B) \<le> 2 ^ 20" "carvable (fval A) (fval B) (fval ?e) cs"
    "0 \<le> fval ?e" "fval ?e + span_of cs \<le> 2 ^ 20"
    using Cons.prems(2,5,6) c(2) step(2) by (simp_all add: add.assoc)
  have a2: "\<bar>fval A\<bar> \<le> 2 ^ 21" "\<bar>fval B\<bar> \<le> 2 ^ 21" using assms(1,2) by (simp_all add: in_reach_def)
  note past = tolerance_compare(1) [OF tolerances_of_the_code(2) in_reach_grid [OF assms(1)] in_reach_grid [OF step(1)] a2(1)]
  note beyond = tolerance_compare(4) [OF tolerances_of_the_code(2) in_reach_grid [OF assms(2)] in_reach_grid [OF Cons.prems(1)] a2(2)]
  note cmp = range_compare(1) [OF Cons.prems(1) step(1) assms(1,2)]
  consider (instant) "dur c = 0" | (apart) "0 < dur c" "fval ?e \<le> fval A"
    | (hit) "0 < dur c" "fval A < fval ?e" using c(2) by linarith
  then show ?case
  proof cases
    case instant
    with Cons.IH [of cur seq] Cons.prems c(3) rest step(2)
    obtain cs' q where "overwrite_children clock i A B rate (Some p) cur cs seq = Inr (cs', q)"
      and cs': "grid_track cs'" "span_of cs' = max (fval cur + span_of cs) (fval B) - fval cur"
      "\<forall>t. plays (fval cur) cs' t = (if fval A \<le> t \<and> t < fval B then shows_at (TC_Clip p) (t - fval A)
         else plays (fval cur) cs t)"
      by auto
    then show ?thesis using instant step(3) instant_kept [OF Cons.prems(4) instant cs'(1)] by auto
  next
    case apart
    from Cons.IH [OF step(1) rest(3) apart(2) c(3) rest(1,2), of seq]
    obtain cs' q where run: "overwrite_children clock i A B rate (Some p) ?e cs seq = Inr (cs', q)"
      and cs': "grid_track cs'" "span_of cs' = max (fval ?e + span_of cs) (fval B) - fval ?e"
      "\<forall>t. plays (fval ?e) cs' t = (if fval A \<le> t \<and> t < fval B then shows_at (TC_Clip p) (t - fval A)
         else plays (fval ?e) cs t)"
      by auto
    have "overwrite_children clock i A B rate (Some p) cur (c # cs) seq = Inr (c # cs', q)"
      using run apart step(3) past by (simp add: Let_def)
    then show ?thesis using cs' c step(2) apart(2) Cons.prems(2,5) assms(4)
        plays_before [OF grid_nonneg [OF c(3)]] by (auto simp: max_def add.assoc split: if_splits)
  next
    case hit
    obtain ld tr q1 where cut: "carve clock i c cur ?e A B seq = Inr ((ld, tr), q1)"
      "piece_of c (fval cur) (fval cur) (fval A) (piece_list ld)" "piece_of c (fval cur) (fval B) (fval ?e) (piece_list tr)"
      using carve_grid [OF Cons.prems(1) step(1,2) Cons.prems(2) assms(1,2,4) _ hit(2,1), of clock i seq]
        Cons.prems(3,6) assms(4) by auto
    from overwrite_done_grid [OF assms(1-4) step(1) _ c(3) rest(4,2), of clock i rate q1] hit(2)
    obtain cs' q where run: "overwrite_children clock i A B rate None ?e cs q1 = Inr (cs', q)"
      and cs': "grid_track cs'" "span_of cs' = max (fval ?e + span_of cs) (fval B) - max (fval ?e) (fval B)"
      "\<And>t. plays (max (fval ?e) (fval B)) cs' t = (if t < fval B then None else plays (fval ?e) cs t)"
      by auto
    have "\<not> min (fval ?e) (fval B) \<le> max (fval cur) (fval A)" using hit assms(4) Cons.prems(3) by (simp add: max_def min_def)
    then have "overwrite_children clock i A B rate (Some p) cur (c # cs) seq =
        Inr (piece_list ld @ [TC_Clip p] @ piece_list tr @ cs', q)"
      using run cut(1) hit step(3) Cons.prems(3) assms(4) cmp past beyond by (simp add: Let_def)
    then show ?thesis
      using over_child [OF cut(2,3) step(2) assms(4) Cons.prems(3) hit(2) assms(6,7) cs'(1) grid_nonneg [OF c(3)]
          Cons.prems(2,5) cs'(2,3)] by blast
  qed
qed

section \<open>The contract of an edit of every selected track\<close>

text \<open>Tracks before and after: selected ones related by the specification, the rest unchanged.\<close>

definition selected_tracks_related ::
  "string list \<Rightarrow> (track_child list \<Rightarrow> track_child list \<Rightarrow> bool) \<Rightarrow> stack_child list \<Rightarrow> stack_child list \<Rightarrow> bool" where
  "selected_tracks_related names spec = list_all2 (\<lambda>sc sc'.
     case sc of
       SC_Track tr \<Rightarrow>
         if selects_track names tr
         then \<exists>cs'. sc' = SC_Track (track_with_children cs' tr) \<and> spec (track_children tr) cs'
         else sc' = sc
     | _ \<Rightarrow> sc' = sc)"

text \<open>
  \<open>edit_tracks\<close> needs of the edit of one track that it succeeds on the children that fit, that
  what it gives is related to them by the specification, and that it reports the seconds it took.
\<close>

locale track_edit =
  fixes on_track :: "track_child list \<Rightarrow> nat \<Rightarrow> ((track_child list \<times> f64) \<times> nat) edit"
    and fits :: "track_child list \<Rightarrow> bool"
    and spec :: "track_child list \<Rightarrow> track_child list \<Rightarrow> bool"
    and amount :: "track_child list \<Rightarrow> rat"
  assumes runs: "fits cs \<Longrightarrow> \<exists>cs' taken q'. on_track cs q = Inr ((cs', taken), q')
      \<and> spec cs cs' \<and> on_grid taken \<and> fval taken = amount cs"
    and bounded: "fits cs \<Longrightarrow> 0 \<le> amount cs \<and> amount cs \<le> 2 ^ 20"
begin

lemma edit_tracks_edited:
  assumes "\<And>tr. SC_Track tr \<in> set scs \<Longrightarrow> selects_track names tr \<Longrightarrow> fits (track_children tr)"
  shows "\<exists>scs' m' n' x' q. edit_tracks on_track names m n x scs seq = Inr ((scs', m', n', x'), q)
    \<and> selected_tracks_related names spec scs scs' \<and> m \<le> m' \<and> n \<le> n'
    \<and> (\<forall>tr. SC_Track tr \<in> set scs \<longrightarrow> selects_track names tr \<longrightarrow> 0 < m'
          \<and> (0 < amount (track_children tr) \<longrightarrow> 0 < n'))"
  using assms
proof (induction scs arbitrary: m n x seq)
  case Nil
  then show ?case by (simp add: selected_tracks_related_def)
next
  case (Cons sc scs)
  have fits: "\<And>tr. SC_Track tr \<in> set scs \<Longrightarrow> selects_track names tr \<Longrightarrow> fits (track_children tr)"
    using Cons.prems by simp
  show ?case
  proof (cases "\<exists>tr. sc = SC_Track tr \<and> selects_track names tr")
    case True
    then obtain tr where tr: "sc = SC_Track tr" "selects_track names tr" by blast
    with Cons.prems have f: "fits (track_children tr)" by simp
    from runs [OF f, of seq] obtain cs' taken q1 where run: "on_track (track_children tr) seq = Inr ((cs', taken), q1)"
      "spec (track_children tr) cs'" "on_grid taken" "fval taken = amount (track_children tr)" by blast
    have "\<bar>fval taken\<bar> \<le> 2 ^ 21" using bounded [OF f] run(4) by simp
    then have hit: "flt micro taken \<longleftrightarrow> 0 < amount (track_children tr)"
      using tolerance_compare(5) [OF tolerances_of_the_code(2) run(3,3)] run(4) by simp
    show ?thesis using Cons.IH [OF fits, of "m + 1" "if flt micro taken then n + 1 else n"
        "if flt micro taken then fadd x taken else x" q1] tr run(1,2) hit
      by (fastforce simp: Let_def selected_tracks_related_def)
  next
    case False
    then have skip: "edit_tracks on_track names m n x (sc # scs) seq =
        rbind (edit_tracks on_track names m n x scs seq) (\<lambda>((rest, counts), seq'). Inr ((sc # rest, counts), seq'))"
      and same: "selected_tracks_related names spec (sc # scs) (sc # scs') = selected_tracks_related names spec scs scs'" for scs'
      by (cases sc; simp add: selected_tracks_related_def)+
    show ?thesis using Cons.IH [OF fits, of m n x seq] False skip same by fastforce
  qed
qed

end

section \<open>Lift and extract\<close>

text \<open>A range on the grid, and a track it can be taken from.\<close>

definition fits_range :: "f64 \<Rightarrow> f64 \<Rightarrow> track_child list \<Rightarrow> bool" where
  "fits_range A B cs \<longleftrightarrow>
     in_reach A \<and> in_reach B \<and> 0 \<le> fval A \<and> fval A < fval B
     \<and> grid_track cs \<and> carvable (fval A) (fval B) 0 cs"

text \<open>The specifications, as changes of the programme.\<close>

definition lifted_programme :: "rat \<Rightarrow> rat \<Rightarrow> (rat \<Rightarrow> shown option) \<Rightarrow> rat \<Rightarrow> shown option" where
  "lifted_programme a b f t = (if a \<le> t \<and> t < b then None else f t)"

definition extracted_programme :: "rat \<Rightarrow> rat \<Rightarrow> (rat \<Rightarrow> shown option) \<Rightarrow> rat \<Rightarrow> shown option" where
  "extracted_programme a b f t = f (if t < a then t else t + (b - a))"

definition overwritten_programme ::
  "rat \<Rightarrow> rat \<Rightarrow> (rat \<Rightarrow> shown option) \<Rightarrow> (rat \<Rightarrow> shown option) \<Rightarrow> rat \<Rightarrow> shown option" where
  "overwritten_programme a b g f t = (if a \<le> t \<and> t < b then g (t - a) else f t)"

text \<open>How much of the track lies in the range.\<close>

definition in_range :: "f64 \<Rightarrow> f64 \<Rightarrow> track_child list \<Rightarrow> rat" where
  "in_range A B cs = overlap (fval A) (fval B) 0 (span_of cs)"

definition lift_spec :: "f64 \<Rightarrow> f64 \<Rightarrow> track_child list \<Rightarrow> track_child list \<Rightarrow> bool" where
  "lift_spec A B cs cs' \<longleftrightarrow>
     plays 0 cs' = lifted_programme (fval A) (fval B) (plays 0 cs) \<and> span_of cs' = span_of cs
     \<and> gaps_merged cs'"

definition extract_spec :: "f64 \<Rightarrow> f64 \<Rightarrow> track_child list \<Rightarrow> track_child list \<Rightarrow> bool" where
  "extract_spec A B cs cs' \<longleftrightarrow>
     plays 0 cs' = extracted_programme (fval A) (fval B) (plays 0 cs)
     \<and> span_of cs' = span_of cs - in_range A B cs \<and> gaps_merged cs'"

lemma in_reach_0: "in_reach (Fin 0)" "on_grid (Fin 0)"
  by (simp_all add: in_reach_def on_grid_def)

lemma lift_range_on_track_spec:
  assumes "fits_range A B cs"
  shows "\<exists>cs' taken q'. lift_range_on_track clock i A B (track_rate cs) cs q = Inr ((cs', taken), q')
    \<and> lift_spec A B cs cs' \<and> on_grid taken \<and> fval taken = in_range A B cs"
proof -
  have f: "in_reach A" "in_reach B" "0 \<le> fval A" "fval A < fval B" "grid_track cs" "carvable (fval A) (fval B) 0 cs"
    using assms by (simp_all add: fits_range_def)
  have r: "whole_rate (track_rate cs)" by (rule track_rate_whole [OF carvable_rated [OF f(6)]])
  obtain cs' taken q' where run: "lift_children clock i A B (track_rate cs) (Fin 0) (Fin 0) cs q = Inr ((cs', taken), q')"
    and cs': "grid_track cs'" "span_of cs' = span_of cs" "on_grid taken" "fval taken = in_range A B cs"
    "\<forall>t. plays 0 cs' t = (if fval A \<le> t \<and> t < fval B then None else plays 0 cs t)"
    using lift_children_grid [OF f(1-4) r in_reach_0(1) _ f(5) _ _ in_reach_0(2), of clock i q] f(6)
      grid_track_total [OF f(5)] by (auto simp: in_range_def)
  have "lift_spec A B cs (merge_adjacent_gaps cs' (track_rate cs))"
    unfolding lift_spec_def using cs'(2,5) merge_grid(3) [OF cs'(1) r] plays_merged [OF cs'(1) r] merge_adjacent_gaps_merged
    by (auto simp: lifted_programme_def)
  then show ?thesis using run cs'(3,4) by (simp add: lift_range_on_track_def)
qed

lemma extract_range_on_track_spec:
  assumes "fits_range A B cs"
  shows "\<exists>cs' taken q'. extract_range_on_track clock i A B cs q = Inr ((cs', taken), q')
    \<and> extract_spec A B cs cs' \<and> on_grid taken \<and> fval taken = in_range A B cs"
proof -
  have f: "in_reach A" "in_reach B" "0 \<le> fval A" "fval A < fval B" "grid_track cs" "carvable (fval A) (fval B) 0 cs"
    using assms by (simp_all add: fits_range_def)
  obtain cs' taken q' where run: "extract_children clock i A B (Fin 0) (Fin 0) cs q = Inr ((cs', taken), q')"
    and cs': "grid_track cs'" "list_all rated cs'" "on_grid taken" "span_of cs' = span_of cs - in_range A B cs"
    "fval taken = in_range A B cs"
    "\<forall>t. plays (closed_time (fval A) (fval B) 0) cs' t = plays 0 cs (if t < fval A then t else t + (fval B - fval A))"
    using extract_children_grid [OF f(1-4) in_reach_0(1) _ f(5) _ _ in_reach_0(2), of clock i q] f(6)
      grid_track_total [OF f(5)] by (auto simp: in_range_def)
  note r = track_rate_whole [OF cs'(2)]
  have "extract_spec A B cs (merge_adjacent_gaps cs' (track_rate cs'))"
    unfolding extract_spec_def
    using cs'(4,6) f(3) merge_grid(3) [OF cs'(1) r] plays_merged [OF cs'(1) r] merge_adjacent_gaps_merged
    by (auto simp: extracted_programme_def closed_time_def)
  then show ?thesis using run cs'(3,5) by (simp add: extract_range_on_track_def)
qed

lemma in_range_bounds: "fits_range A B cs \<Longrightarrow> 0 \<le> in_range A B cs \<and> in_range A B cs \<le> 2 ^ 20"
  using grid_track_total [of cs] by (auto simp: fits_range_def in_range_def overlap_def max_def min_def)

interpretation lifting: track_edit
  "\<lambda>cs. lift_range_on_track clock i A B (track_rate cs) cs" "fits_range A B" "lift_spec A B" "in_range A B"
  for clock i A B
  by unfold_locales (rule lift_range_on_track_spec in_range_bounds, assumption)+

interpretation extracting: track_edit
  "extract_range_on_track clock i A B" "fits_range A B" "extract_spec A B" "in_range A B"
  for clock i A B
  by unfold_locales (rule extract_range_on_track_spec in_range_bounds, assumption)+

lemma valid_range:
  "in_reach (sg_start_s r) \<Longrightarrow> in_reach (sg_end_s r) \<Longrightarrow> 0 \<le> fval (sg_start_s r) \<Longrightarrow>
     fval (sg_start_s r) < fval (sg_end_s r) \<Longrightarrow> validate_professional_timeline_range i l r = Inr ()"
  by (simp add: validate_professional_timeline_range_def in_reach_def on_grid_def finite_compare)

text \<open>C4: Lifting a range takes what the selected tracks play between its ends away and leaves
  everything else where it was: the new programme is the old one with silence in the range, each track
  keeps its length, and the other tracks are untouched.\<close>

theorem lift_refines:
  assumes "\<And>tr. SC_Track tr \<in> set (tl_children t) \<Longrightarrow> selects_track names tr \<Longrightarrow>
      fits_range (sg_start_s r) (sg_end_s r) (track_children tr)"
    and "SC_Track hit \<in> set (tl_children t)" and "selects_track names hit"
    and "fval (sg_start_s r) < span_of (track_children hit)"
  shows "\<exists>note t' seq'. apply_lift_range clock i r names t seq = Inr (note, t', seq')
    \<and> selected_tracks_related names (lift_spec (sg_start_s r) (sg_end_s r)) (tl_children t) (tl_children t')"
proof -
  let ?A = "sg_start_s r" and ?B = "sg_end_s r"
  have f: "fits_range ?A ?B (track_children hit)" using assms(1-3) by blast
  then have v: "validate_professional_timeline_range i ''lift_range'' r = Inr ()"
    by (intro valid_range) (simp_all add: fits_range_def)
  have "0 < in_range ?A ?B (track_children hit)"
    using f assms(4) by (auto simp: fits_range_def in_range_def overlap_def max_def min_def)
  moreover have "\<exists>scs' m n x' q. edit_tracks (\<lambda>cs. lift_range_on_track clock i ?A ?B (track_rate cs) cs) names 0 0 (Fin 0) (tl_children t) seq
        = Inr ((scs', m, n, x'), q) \<and> selected_tracks_related names (lift_spec ?A ?B) (tl_children t) scs' \<and> 0 \<le> m \<and> 0 \<le> n
      \<and> (\<forall>tr. SC_Track tr \<in> set (tl_children t) \<longrightarrow> selects_track names tr \<longrightarrow> 0 < m
            \<and> (0 < in_range ?A ?B (track_children tr) \<longrightarrow> 0 < n))"
    by (rule lifting.edit_tracks_edited) (rule assms(1))
  ultimately
  obtain scs' m n x q where "edit_tracks (\<lambda>cs. lift_range_on_track clock i ?A ?B (track_rate cs) cs)
      names 0 0 (Fin 0) (tl_children t) seq = Inr ((scs', m, n, x), q)"
    and "selected_tracks_related names (lift_spec ?A ?B) (tl_children t) scs'" and "0 < m" "0 < n" using assms(2,3) by blast
  then show ?thesis using v
    by (simp add: apply_lift_range_def)
qed

text \<open>C10: Extracting a range closes it: the new programme of every selected track jumps from the start of
  the range to its end, and the track is shorter by what lay in the range.\<close>

theorem extract_refines:
  assumes "\<And>tr. SC_Track tr \<in> set (tl_children t) \<Longrightarrow> selects_track names tr \<Longrightarrow>
      fits_range (sg_start_s r) (sg_end_s r) (track_children tr)"
    and "SC_Track hit \<in> set (tl_children t)" and "selects_track names hit"
    and "fval (sg_start_s r) < span_of (track_children hit)"
  shows "\<exists>note t' seq'. apply_extract_range clock i r names t seq = Inr (note, t', seq')
    \<and> selected_tracks_related names (extract_spec (sg_start_s r) (sg_end_s r)) (tl_children t) (tl_children t')"
proof -
  let ?A = "sg_start_s r" and ?B = "sg_end_s r"
  have f: "fits_range ?A ?B (track_children hit)" using assms(1-3) by blast
  then have v: "validate_professional_timeline_range i ''extract_range'' r = Inr ()"
    by (intro valid_range) (simp_all add: fits_range_def)
  have "0 < in_range ?A ?B (track_children hit)"
    using f assms(4) by (auto simp: fits_range_def in_range_def overlap_def max_def min_def)
  moreover have "\<exists>scs' m n x' q. edit_tracks (extract_range_on_track clock i ?A ?B) names 0 0 (Fin 0) (tl_children t) seq
        = Inr ((scs', m, n, x'), q) \<and> selected_tracks_related names (extract_spec ?A ?B) (tl_children t) scs' \<and> 0 \<le> m \<and> 0 \<le> n
      \<and> (\<forall>tr. SC_Track tr \<in> set (tl_children t) \<longrightarrow> selects_track names tr \<longrightarrow> 0 < m
            \<and> (0 < in_range ?A ?B (track_children tr) \<longrightarrow> 0 < n))"
    by (rule extracting.edit_tracks_edited) (rule assms(1))
  ultimately
  obtain scs' m n x q where "edit_tracks (extract_range_on_track clock i ?A ?B)
      names 0 0 (Fin 0) (tl_children t) seq = Inr ((scs', m, n, x), q)"
    and "selected_tracks_related names (extract_spec ?A ?B) (tl_children t) scs'" and "0 < m" "0 < n" using assms(2,3) by blast
  then show ?thesis using v
    by (simp add: apply_extract_range_def)
qed

section \<open>Overwriting\<close>

lemma position_first:
  "ti < length xs \<Longrightarrow> P (xs ! ti) \<Longrightarrow> \<forall>j < ti. \<not> P (xs ! j) \<Longrightarrow> position P xs = Some ti"
proof (induction xs arbitrary: ti)
  case (Cons x xs)
  show ?case
  proof (cases ti)
    case (Suc j)
    then have "\<not> P x" and "\<forall>k < j. \<not> P (xs ! k)" using Cons.prems(3) by force+
    then show ?thesis using Cons.IH [of j] Cons.prems Suc by auto
  qed (use Cons.prems in simp)
qed simp

lemma source_clip_grid:
  assumes "in_reach A" and "in_reach B" and "0 \<le> fval A" and "fval A < fval B" and "whole_rate rate"
    and "build_professional_source_clip cs asset (Fin 0) (fsub B A) rate (Some p) uuid = Inr c"
  shows "on_grid (child_duration (TC_Clip c))" and "dur (TC_Clip c) = fval B - fval A"
    and "shows_at (TC_Clip c) = (\<lambda>d. Some (Media (MR_External (external_reference_new asset)) [] True d))"
proof -
  have d: "\<bar>fval B - fval A\<bar> < 2 ^ 44" using assms(1,2) by (auto simp: in_reach_def)
  note len = fsub_grid [OF in_reach_grid [OF assms(2)] in_reach_grid [OF assms(1)] d]
  have "fval B \<le> 2 ^ 20" using assms(2) by (simp add: in_reach_def abs_le_iff)
  then have len0: "in_reach (fsub (fsub B A) (Fin 0))" "fval (fsub (fsub B A) (Fin 0)) = fval B - fval A"
    using fsub_grid [OF len(1) in_reach_0(2)] len(2) d assms(3,4) by (simp_all add: in_reach_def)
  define bare where "bare = (clip_empty (p @ ''-'' @ dec_of_nat (length cs)))\<lparr>
    clip_media_reference := MR_External (external_reference_new asset)\<rparr>"
  define k where "k = bare\<lparr>clip_source_range := Some (seconds_range (Fin 0) (fsub (fsub B A) (Fin 0)) rate)\<rparr>"
  have c: "c = stamp_clip_uuid uuid k"
    using assms(6) by (simp add: build_professional_source_clip_def k_def bare_def)
  note new = retimed_clip [OF in_reach_0(1) len0(1) assms(5) _ _ _ k_def, unfolded len0(2)]
  have new: "src_start k = 0" "dur (TC_Clip k) = fval B - fval A" "on_grid (child_duration (TC_Clip k))"
    using new assms(3,4) \<open>fval B \<le> 2 ^ 20\<close> by simp_all
  have same: "clip_source_range c = clip_source_range k" by (simp add: c)
  have "clip_media_reference c = MR_External (external_reference_new asset)" "clip_effects c = []" "clip_active c"
    by (simp_all add: c k_def bare_def clip_empty_def)
  then show "on_grid (child_duration (TC_Clip c))" and "dur (TC_Clip c) = fval B - fval A"
    and "shows_at (TC_Clip c) = (\<lambda>d. Some (Media (MR_External (external_reference_new asset)) [] True d))"
    using new same_source_range [OF same] by (auto simp: dur_def)
qed

text \<open>C5: Overwriting a range replaces what the track plays there by the asset from its beginning and changes
  nothing else: the programme before and after the range stays at its times.\<close>

theorem overwrite_refines:
  assumes "ti < length (tl_children t)" and "tl_children t ! ti = SC_Track tr" and "track_name tr = name"
    and "\<forall>j < ti. \<not> is_track_named name (tl_children t ! j)"
    and "trim name \<noteq> []" and "trim asset \<noteq> []"
    and "fits_range (sg_start_s r) (sg_end_s r) (track_children tr)"
  shows "\<exists>note t' seq' cs'. apply_overwrite_clip clock i name r asset t seq = Inr (note, t', seq')
    \<and> tl_children t' = (tl_children t)[ti := SC_Track (track_with_children cs' tr)]
    \<and> plays 0 cs' = overwritten_programme (fval (sg_start_s r)) (fval (sg_end_s r))
         (\<lambda>d. Some (Media (MR_External (external_reference_new asset)) [] True d))
         (plays 0 (track_children tr))
    \<and> span_of cs' = max (span_of (track_children tr)) (fval (sg_end_s r)) \<and> gaps_merged cs'"
proof -
  let ?A = "sg_start_s r" and ?B = "sg_end_s r" and ?cs = "track_children tr"
  have f: "in_reach ?A" "in_reach ?B" "0 \<le> fval ?A" "fval ?A < fval ?B" "grid_track ?cs"
    "carvable (fval ?A) (fval ?B) 0 ?cs" using assms(7) by (simp_all add: fits_range_def)
  note v = valid_range [OF f(1-4)]
  have rate: "whole_rate (track_rate ?cs)" by (rule track_rate_whole [OF carvable_rated [OF f(6)]])
  have found: "position (is_track_named name) (tl_children t) = Some ti"
    using assms(1-4) by (intro position_first) (simp_all add: is_track_named_def)
  obtain p where p: "build_professional_source_clip ?cs asset (Fin 0) (fsub ?B ?A) (track_rate ?cs)
      (Some ''overwrite'') (fresh_clip_uuid (clock seq) seq) = Inr p"
    by (simp add: build_professional_source_clip_def)
  note new = source_clip_grid [OF f(1-4) rate p]
  have "max (span_of ?cs) (fval ?B) \<le> 2 ^ 20" using grid_track_total [OF f(5)] f(2) by (simp add: in_reach_def abs_le_iff)
  with overwrite_children_grid [OF f(1-4) rate new(1,2) in_reach_0(1) _ _ f(5), of clock i "seq + 1"] f(3,6)
  obtain cs' q where run: "overwrite_children clock i ?A ?B (track_rate ?cs) (Some p) (Fin 0) ?cs (seq + 1) = Inr (cs', q)"
    and cs': "grid_track cs'" "span_of cs' = max (span_of ?cs) (fval ?B)"
    "\<And>t. plays 0 cs' t = (if fval ?A \<le> t \<and> t < fval ?B then shows_at (TC_Clip p) (t - fval ?A) else plays 0 ?cs t)"
    by auto
  have prog: "plays 0 (merge_adjacent_gaps cs' (track_rate ?cs)) = overwritten_programme (fval ?A) (fval ?B)
      (\<lambda>d. Some (Media (MR_External (external_reference_new asset)) [] True d)) (plays 0 ?cs)"
    using plays_merged [OF cs'(1) rate] cs'(3) new(3) by (auto simp: overwritten_programme_def)
  have "\<exists>note. apply_overwrite_clip clock i name r asset t seq =
      Inr (note, with_track_children ti (merge_adjacent_gaps cs' (track_rate ?cs)) t, q)"
    using v assms(1,2,5,6) found p run
    by (simp add: apply_overwrite_clip_def overwrite_range_on_track_def Let_def)
  then show ?thesis
    using prog merge_grid(3) [OF cs'(1) rate] cs'(2) merge_adjacent_gaps_merged assms(2)
    by (fastforce simp: tl_children_with_track)
qed

section \<open>Concrete runs\<close>

text \<open>A track of five seconds and then three, and the range from the third to the sixth second.\<close>

definition sample_edit_track :: track where
  "sample_edit_track = sample_track [TC_Clip (sample_clip ''a'' 0 5), TC_Clip (sample_clip ''b'' 2 3)]"

definition sample_range :: source_range where
  "sample_range = \<lparr>sg_start_s = Fin 3, sg_end_s = Fin 6\<rparr>"

lemma sample_edit_track_facts:
  "track_name sample_edit_track = ''V1''" "span_of (track_children sample_edit_track) = 8"
  "fits_range (Fin 3) (Fin 6) (track_children sample_edit_track)"
  by (simp_all add: sample_edit_track_def sample_track_def fits_range_def grid_clip_def in_reach_def sample_simps)

theorem lift_refines_witness:
  "\<exists>note t' seq'. apply_lift_range (\<lambda>_. 7) 0 sample_range []
      (sample_timeline [SC_Track sample_edit_track]) 0 = Inr (note, t', seq')
    \<and> selected_tracks_related [] (lift_spec (Fin 3) (Fin 6)) [SC_Track sample_edit_track] (tl_children t')"
  using lift_refines [of "sample_timeline [SC_Track sample_edit_track]" "[]" sample_range sample_edit_track
      "\<lambda>_. 7" 0 0] sample_edit_track_facts
  by (simp add: sample_range_def selects_track_def)

theorem extract_refines_witness:
  "\<exists>note t' seq'. apply_extract_range (\<lambda>_. 7) 0 sample_range []
      (sample_timeline [SC_Track sample_edit_track]) 0 = Inr (note, t', seq')
    \<and> selected_tracks_related [] (extract_spec (Fin 3) (Fin 6)) [SC_Track sample_edit_track] (tl_children t')"
  using extract_refines [of "sample_timeline [SC_Track sample_edit_track]" "[]" sample_range sample_edit_track
      "\<lambda>_. 7" 0 0] sample_edit_track_facts
  by (simp add: sample_range_def selects_track_def)

lemma sample_asset_trims: "trim ''V1'' = ''V1''" "trim ''raw/b.mp4'' = ''raw/b.mp4''"
  by code_simp+

theorem overwrite_refines_witness:
  "\<exists>note t' seq' cs'. apply_overwrite_clip (\<lambda>_. 7) 0 ''V1'' sample_range ''raw/b.mp4''
      (sample_timeline [SC_Track sample_edit_track]) 0 = Inr (note, t', seq')
    \<and> tl_children t' = [SC_Track (track_with_children cs' sample_edit_track)]
    \<and> plays 0 cs' = overwritten_programme 3 6
         (\<lambda>d. Some (Media (MR_External (external_reference_new ''raw/b.mp4'')) [] True d))
         (plays 0 (track_children sample_edit_track))
    \<and> span_of cs' = 8 \<and> gaps_merged cs'"
  using overwrite_refines [of 0 "sample_timeline [SC_Track sample_edit_track]" sample_edit_track "''V1''"
      "''raw/b.mp4''" sample_range "\<lambda>_. 7" 0 0] sample_edit_track_facts
  by (simp add: sample_range_def sample_asset_trims)

end
