(* ===== verification/Edl_Nesting_Props.thy ===== *)
theory Edl_Nesting_Props
  imports Edl_Range_Props Edl_Undo
begin

text \<open>
  Runs of children: a multicam plan is accepted exactly when its decisions follow one another, and
  its program track plays each of them in its window; wrapping a run into a nested stack keeps the
  times of the track, and flattening the stack restores the timeline.
\<close>

section \<open>The program of a multicam plan\<close>

definition grid_decision :: "multicam_decision \<Rightarrow> bool" where
  "grid_decision d \<longleftrightarrow>
     (let s = unwrap_or (md_start_s d) (md_source_start_s d)
      in in_reach (md_start_s d) \<and> in_reach (md_end_s d) \<and> in_reach s \<and> 0 \<le> fval s
         \<and> fval s + (fval (md_end_s d) - fval (md_start_s d)) \<le> 2 ^ 20)"

text \<open>Every decision has a length, and starts when the one before it is over or later.\<close>

fun consecutive :: "rat \<Rightarrow> multicam_decision list \<Rightarrow> bool" where
  "consecutive e [] = True"
| "consecutive e (d # ds) \<longleftrightarrow>
     e \<le> fval (md_start_s d) \<and> fval (md_start_s d) < fval (md_end_s d) \<and> consecutive (fval (md_end_s d)) ds"

definition on_air :: "rat \<Rightarrow> multicam_decision \<Rightarrow> bool" where
  "on_air t d \<longleftrightarrow> fval (md_start_s d) \<le> t \<and> t < fval (md_end_s d)"

text \<open>What the plan asks for at a time: the angle on air, read from its in point on.\<close>

definition planned :: "multicam_decision list \<Rightarrow> rat \<Rightarrow> shown option" where
  "planned ds t = map_option (\<lambda>d. Media (MR_External (external_reference_new (md_source_asset d))) [] True
     (fval (unwrap_or (md_start_s d) (md_source_start_s d)) + (t - fval (md_start_s d)))) (List.find (on_air t) ds)"

lemma not_on_air: "consecutive e ds \<Longrightarrow> t < e \<Longrightarrow> List.find (on_air t) ds = None"
proof (induction ds arbitrary: e)
  case (Cons d ds)
  then show ?case using Cons.IH [of "fval (md_end_s d)"] by (auto simp: on_air_def)
qed simp

lemma validate_decisions_iff:
  assumes "\<forall>d \<in> set ds. grid_decision d \<and> trim (md_source_asset d) \<noteq> []" and "in_reach cur" and "0 \<le> fval cur"
  shows "validate_decisions i k cur ds = Inr () \<longleftrightarrow> consecutive (fval cur) ds"
  using assms
proof (induction ds arbitrary: k cur)
  case (Cons d ds)
  have d: "in_reach (md_start_s d)" "in_reach (md_end_s d)" "trim (md_source_asset d) \<noteq> []"
    using Cons.prems(1) by (auto simp: grid_decision_def Let_def)
  have fin: "is_finite (md_start_s d)" "is_finite (md_end_s d)"
    using d by (simp_all add: in_reach_def on_grid_def)
  have "\<bar>fval (md_start_s d)\<bar> \<le> 2 ^ 21" using d(1) by (simp add: in_reach_def)
  note late = tolerance_compare(2) [OF tolerances_of_the_code(2) in_reach_grid [OF d(1)] in_reach_grid [OF Cons.prems(2)] this]
  have "validate_decisions i (Suc k) (md_end_s d) ds = Inr () \<longleftrightarrow> consecutive (fval (md_end_s d)) ds"
    if "fval cur \<le> fval (md_start_s d)" "fval (md_start_s d) < fval (md_end_s d)"
    using Cons.IH [of "md_end_s d" "Suc k"] Cons.prems d(2) that by auto
  then show ?case using fin d(3) late Cons.prems(3) by (auto simp: finite_compare)
qed simp

lemma multicam_clip_grid:
  assumes "grid_decision d" and "fval (md_start_s d) < fval (md_end_s d)"
  shows "on_grid (child_duration (TC_Clip (multicam_clip k d u)))"
    and "dur (TC_Clip (multicam_clip k d u)) = fval (md_end_s d) - fval (md_start_s d)"
    and "shows_at (TC_Clip (multicam_clip k d u)) x = Some (Media (MR_External (external_reference_new (md_source_asset d)))
      [] True (fval (unwrap_or (md_start_s d) (md_source_start_s d)) + x))"
proof -
  define s where "s = unwrap_or (md_start_s d) (md_source_start_s d)"
  define len where "len = fsub (md_end_s d) (md_start_s d)"
  have d: "in_reach (md_start_s d)" "in_reach (md_end_s d)" "in_reach s" "0 \<le> fval s"
    "fval s + (fval (md_end_s d) - fval (md_start_s d)) \<le> 2 ^ 20"
    using assms(1) by (simp_all add: grid_decision_def s_def Let_def)
  have "\<bar>fval (md_end_s d) - fval (md_start_s d)\<bar> < 2 ^ 44" using d(1,2) by (auto simp: in_reach_def)
  note w = fsub_grid [OF in_reach_grid [OF d(2)] in_reach_grid [OF d(1)] this, folded len_def]
  have len: "in_reach len" using w d(4,5) assms(2) by (simp add: in_reach_def)
  define k' where "k' = (clip_empty [])\<lparr>clip_source_range := Some (seconds_range s len (Fin 24))\<rparr>"
  have rate: "whole_rate (Fin 24)" by (simp add: whole_rate_def)
  have new: "src_start k' = fval s" "dur (TC_Clip k') = fval len" "on_grid (child_duration (TC_Clip k'))"
    using retimed_clip [OF d(3) len rate d(4) _ _ k'_def] w(2) d(5) assms(2) by simp_all
  have same: "clip_source_range (multicam_clip k d u) = clip_source_range k'"
    by (simp add: multicam_clip_def Let_def k'_def s_def len_def)
  then show "on_grid (child_duration (TC_Clip (multicam_clip k d u)))"
    and "dur (TC_Clip (multicam_clip k d u)) = fval (md_end_s d) - fval (md_start_s d)"
    using new w(2) by (simp_all add: dur_def)
  have "clip_media_reference (multicam_clip k d u) = MR_External (external_reference_new (md_source_asset d))"
    "clip_effects (multicam_clip k d u) = []" "clip_active (multicam_clip k d u)"
    by (simp_all add: multicam_clip_def Let_def clip_empty_def)
  then show "shows_at (TC_Clip (multicam_clip k d u)) x = Some (Media (MR_External (external_reference_new (md_source_asset d)))
      [] True (fval (unwrap_or (md_start_s d) (md_source_start_s d)) + x))"
    using same_source_range(2) [OF same] new(1) by (simp add: s_def)
qed

lemma multicam_children_plays:
  assumes "\<forall>d \<in> set ds. grid_decision d" and "consecutive (fval cur) ds" and "in_reach cur" and "0 \<le> fval cur"
  shows "nonneg (fst (multicam_children clock k cur ds seq))
    \<and> plays (fval cur) (fst (multicam_children clock k cur ds seq)) t = planned ds t
    \<and> fval cur + span_of (fst (multicam_children clock k cur ds seq)) =
        (if ds = [] then fval cur else fval (md_end_s (last ds)))"
  using assms
proof (induction ds arbitrary: k cur seq)
  case Nil
  then show ?case by (simp add: planned_def)
next
  case (Cons d ds)
  let ?rest = "fst (multicam_children clock (Suc k) (md_end_s d) ds (seq + 1))"
  let ?clip = "TC_Clip (multicam_clip k d (fresh_clip_uuid (clock seq) seq))"
  let ?gap = "gap_child (fsub (md_start_s d) cur) (Fin 24)"
  have d: "grid_decision d" "fval cur \<le> fval (md_start_s d)" "fval (md_start_s d) < fval (md_end_s d)"
    "consecutive (fval (md_end_s d)) ds" using Cons.prems(1,2) by auto
  have r: "in_reach (md_start_s d)" "in_reach (md_end_s d)" using d(1) by (auto simp: grid_decision_def Let_def)
  note clip = multicam_clip_grid [OF d(1,3), of k "fresh_clip_uuid (clock seq) seq"]
  have "0 \<le> fval (md_end_s d)" using d(2,3) Cons.prems(4) by simp
  note IH = Cons.IH [OF _ d(4) r(2) this, of "Suc k" "seq + 1"]
  have "\<bar>fval cur\<bar> \<le> 2 ^ 21" using Cons.prems(3) by (simp add: in_reach_def)
  note late = tolerance_compare(2) [OF tolerances_of_the_code(1) in_reach_grid [OF Cons.prems(3)] in_reach_grid [OF r(1)] this]
  have "\<bar>fval (md_start_s d) - fval cur\<bar> < 2 ^ 44" using r(1) Cons.prems(3) by (auto simp: in_reach_def)
  note w = fsub_grid [OF in_reach_grid [OF r(1)] in_reach_grid [OF Cons.prems(3)] this]
  have "in_reach (fsub (md_start_s d) cur)" using w d(2) r(1) Cons.prems(4) by (simp add: in_reach_def abs_le_iff)
  then have gap: "dur ?gap = fval (md_start_s d) - fval cur"
    using gap_on_track(2) [of _ "Fin 24"] w(2) by (simp add: whole_rate_def)
  have children: "fst (multicam_children clock k cur (d # ds) seq) =
      (if fval cur < fval (md_start_s d) then [?gap] else []) @ ?clip # ?rest"
    using late by (auto split: prod.splits)
  have silent: "shows_at ?gap x = None" for x using silent_child [of ?gap] by simp
  have off: "List.find (on_air t) ds = None" if "t < fval (md_end_s d)" by (rule not_on_air [OF d(4) that])
  show ?case using IH Cons.prems(1) clip gap silent d(2,3) off plays_before [of ?rest t "fval (md_end_s d)"]
    unfolding children by (auto simp: planned_def on_air_def)
qed

lemma replace_first:
  "(case position P xs of Some i \<Rightarrow> xs[i := y] | None \<Rightarrow> xs @ [y]) =
    (if \<exists>x \<in> set xs. P x then takeWhile (\<lambda>x. \<not> P x) xs @ y # tl (dropWhile (\<lambda>x. \<not> P x) xs) else xs @ [y])"
proof (induction xs)
  case (Cons x xs)
  then show ?case by (cases "position P xs") (auto split: if_splits)
qed simp

text \<open>C13: A multicam plan is accepted exactly when its decisions follow one another. Its program
  track, which replaces the first track of that name or is added at the end, then plays each
  decision in its window, from its in point on, and nothing in between.\<close>

theorem multicam_plan_plays:
  assumes "trim (mp_program_track plan) = name" and "name \<noteq> []" and "mp_decisions plan = ds" and "ds \<noteq> []"
    and "\<forall>d \<in> set ds. grid_decision d \<and> trim (md_source_asset d) \<noteq> []"
  shows "if consecutive 0 ds
    then \<exists>note t' seq' cs. apply_multicam_plan clock i plan t seq = Inr (note, t', seq')
      \<and> (let track = SC_Track (track_with_children cs (track_empty name Video)); scs = tl_children t
         in tl_children t' = (if \<exists>sc \<in> set scs. is_track_named name sc
              then takeWhile (\<lambda>sc. \<not> is_track_named name sc) scs @ track
                # tl (dropWhile (\<lambda>sc. \<not> is_track_named name sc) scs)
              else scs @ [track]))
      \<and> plays 0 cs = planned ds \<and> span_of cs = fval (md_end_s (last ds))
    else \<exists>e. apply_multicam_plan clock i plan t seq = Inl e"
proof -
  have decisions: "\<forall>d \<in> set ds. grid_decision d" using assms(5) by simp
  have valid: "validate_multicam_decisions i ds = Inr () \<longleftrightarrow> consecutive 0 ds"
    using validate_decisions_iff [OF assms(5) in_reach_0(1), of i 0] assms(4) by (simp add: validate_multicam_decisions_def)
  show ?thesis
  proof (cases "consecutive 0 ds")
    case True
    obtain cs seq' where built: "multicam_children clock 0 (Fin 0) ds seq = (cs, seq')" by fastforce
    from True have "consecutive (fval (Fin 0)) ds" by simp
    note run = multicam_children_plays [OF decisions this in_reach_0(1), of clock 0 seq, unfolded built]
    have "\<exists>note t'. apply_multicam_plan clock i plan t seq = Inr (note, t', seq')
        \<and> tl_children t' = (case position (is_track_named name) (tl_children t) of
            Some k \<Rightarrow> (tl_children t)[k := SC_Track (track_with_children cs (track_empty name Video))]
          | None \<Rightarrow> tl_children t @ [SC_Track (track_with_children cs (track_empty name Video))])"
      using True valid assms(1-3) built
      by (simp add: apply_multicam_plan_def build_multicam_program_track_def Let_def)
    then show ?thesis using True run assms(4) unfolding replace_first Let_def by fastforce
  next
    case False
    with valid obtain e where "validate_multicam_decisions i ds = Inl e"
      by (cases "validate_multicam_decisions i ds") auto
    then show ?thesis using False assms(1-3) by (simp add: apply_multicam_plan_def Let_def)
  qed
qed

section \<open>Nesting\<close>

lemma nested_span:
  assumes "grid_track xs"
  shows "on_grid (child_duration (TC_Stack (nested_stack n k xs)))"
    and "dur (TC_Stack (nested_stack n k xs)) = span_of xs"
proof -
  note time = track_time_grid [OF assms]
  have "child_duration (TC_Stack (nested_stack n k xs)) = fmax (Fin 0) (fsum (map child_duration xs))"
    by (simp add: nested_stack_def stack_empty_def track_empty_def)
  then show "on_grid (child_duration (TC_Stack (nested_stack n k xs)))"
    and "dur (TC_Stack (nested_stack n k xs)) = span_of xs"
    using in_reach_min_max(2) [OF in_reach_0(1) time(1)] fmin_grid(4) [OF _ on_grid_finite [OF in_reach_grid [OF time(1)]], of "Fin 0"]
      time(2) grid_track_total [OF assms] by (simp_all add: dur_def in_reach_grid)
qed

text \<open>A run of children replaced by others that take as long.\<close>

lemma plays_replaced:
  assumes "nonneg pre" and "nonneg xs" and "nonneg ys" and "nonneg post" and "span_of xs = span_of ys"
  shows "plays s (pre @ ys @ post) t =
    (let u = s + span_of pre in
     if u \<le> t \<and> t < u + span_of ys then plays u ys t else plays s (pre @ xs @ post) t)"
  using assms plays_before [OF assms(2)] plays_before [OF assms(3)] nonneg_span [OF assms(3)]
  by (simp add: plays_append Let_def)

lemma plays_shift: "plays (s + u) cs (t + u) = plays s cs t"
proof (induction cs arbitrary: s)
  case (Cons c cs)
  then show ?case using Cons.IH [of "s + dur c"] by (simp add: algebra_simps)
qed simp

lemma position_update: "position P xs = Some i \<Longrightarrow> P y \<Longrightarrow> position P (xs[i := y]) = Some i"
proof (induction xs arbitrary: i)
  case (Cons x xs)
  then show ?case by (auto split: if_splits)
qed simp

lemma same_track [simp]:
  "track_name (track_with_children cs tr) = track_name tr" "track_kind (track_with_children cs tr) = track_kind tr"
  by (cases tr; simp)+

lemma find_track_name:
  assumes "find_track t n = Some (ti, tr)"
  shows "ti < length (tl_children t)" and "tl_children t ! ti = SC_Track tr"
    and "find_track (with_track_children ti cs t) n = Some (ti, track_with_children cs tr)"
proof -
  from assms have p: "position (is_track_named n) (tl_children t) = Some ti" and tr: "tl_children t ! ti = SC_Track tr"
    by (auto simp: find_track_def split: bind_splits stack_child.splits)
  from position_Some [OF p] tr show ti: "ti < length (tl_children t)" and "tl_children t ! ti = SC_Track tr"
    and "find_track (with_track_children ti cs t) n = Some (ti, track_with_children cs tr)"
    using position_update [OF p, of "SC_Track (track_with_children cs tr)"]
    by (simp_all add: find_track_def tl_children_with_track is_track_named_def)
qed

text \<open>C32: Wrapping a run of children into a nested stack keeps the length of the track and
  everything outside the run; inside, the track shows the stack, whose own track plays at that offset what was
  there before. Flattening the stack restores the timeline.\<close>

theorem wrap_then_flatten:
  assumes "find_track t (trim name) = Some (ti, tr)" and "trim name \<noteq> []" and "a < b"
    and "track_children tr = cs" and "b \<le> length cs" and "grid_track cs"
  shows "\<exists>note t' s ntr cs'. apply_wrap_as_nested i name a b given t = Inr (note, t')
    \<and> tl_children t' = (tl_children t)[ti := SC_Track (track_with_children cs' tr)]
    \<and> stack_children s = [SC_Track ntr] \<and> span_of cs' = span_of cs
    \<and> (\<forall>x. let d = x - span_of (take a cs); inside = (0 \<le> d \<and> x < span_of (take b cs))
         in plays 0 cs' x = (if inside then Some (Nested s d) else plays 0 cs x)
            \<and> plays 0 (track_children ntr) d = (if inside then plays 0 cs x else None))
    \<and> (\<exists>note'. apply_flatten_nested j name a t' = Inr (note', t))"
proof -
  define given' where "given' = (case given of
    Some n \<Rightarrow> if trim n = [] then ''Nested Stack'' else trim n | None \<Rightarrow> ''Nested Stack'')"
  define pre xs post where "pre = take a cs" and "xs = take (b - a) (drop a cs)" and "post = drop b cs"
  define s where "s = nested_stack given' (track_kind tr) xs"
  define cs' where "cs' = pre @ TC_Stack s # post"
  note f = find_track_name [OF assms(1)]
  have cut: "cs = pre @ xs @ post" "take b cs = pre @ xs" "length pre = a"
    using assms(3,5) by (simp_all add: pre_def xs_def post_def flip: take_add)
      (metis append_take_drop_id less_imp_le_nat le_add_diff_inverse take_add append_assoc)
  then have grid: "grid_track pre" "grid_track xs" "grid_track post" using assms(6) by (auto simp: grid_track_simps)
  note st = nested_span [OF grid(2), of given' "track_kind tr", folded s_def]
  have wrap: "\<exists>note. apply_wrap_as_nested i name a b given t = Inr (note, with_track_children ti cs' t)"
    using assms(1-5) by (simp add: apply_wrap_as_nested_def Let_def cs'_def s_def given'_def pre_def xs_def post_def insert_at_def)
  have own: "with_track_children ti cs t = t" using with_own_track [OF f(2)] assms(4) by simp
  have flat: "\<exists>note. apply_flatten_nested j name a (with_track_children ti cs' t) = Inr (note, t)"
    using f assms(2) cut(3) own by (simp add: apply_flatten_nested_def Let_def cs'_def s_def nested_stack_def
      stack_empty_def track_empty_def nth_append flip: cut(1))
  have span: "span_of cs' = span_of cs" using st(2) cut(1) by (simp add: cs'_def)
  have ns: "nonneg pre" "nonneg xs" "nonneg post" "nonneg [TC_Stack s]" 
    using grid grid_nonneg st nonneg_span [of xs] by auto
  have shown: "plays 0 cs' x = (if span_of pre \<le> x \<and> x < span_of pre + span_of xs
      then Some (Nested s (x - span_of pre)) else plays 0 cs x)" for x
    using plays_replaced [OF ns(1,2,4,3), of 0 x] st(2) cut(1) by (simp add: cs'_def Let_def)
  have inner: "plays 0 xs (x - span_of pre) =
      (if span_of pre \<le> x \<and> x < span_of pre + span_of xs then plays 0 cs x else None)" for x
    using plays_shift [of 0 "span_of pre" xs "x - span_of pre"] ns plays_before [OF ns(2), of x "span_of pre"]
      plays_after [OF ns(2), of "span_of pre" x] cut(1) by (auto simp: plays_append)
  have "stack_children s = [SC_Track (track_with_children xs (track_empty (given' @ '' Track'') (track_kind tr)))]"
    by (simp add: s_def nested_stack_def stack_empty_def)
  moreover have "tl_children (with_track_children ti cs' t) = (tl_children t)[ti := SC_Track (track_with_children cs' tr)]"
    using f(2) by (simp add: tl_children_with_track)
  ultimately show ?thesis using wrap flat span shown inner cut(2)
    unfolding Let_def pre_def [symmetric] by fastforce
qed

section \<open>Concrete runs\<close>

text \<open>Two cameras, with a hole between the first two decisions and an in point of its own for the second.\<close>

definition sample_plan :: multicam_plan where
  "sample_plan = \<lparr>mp_program_track = ''V1'', mp_decisions = [
     \<lparr>md_source_asset = ''raw/b.mp4'', md_start_s = Fin 0, md_end_s = Fin 3, md_source_start_s = None,
      md_source_end_s = None, md_reason = None, md_speaker = None, md_sync_group_id = None\<rparr>,
     \<lparr>md_source_asset = ''raw/b.mp4'', md_start_s = Fin 4, md_end_s = Fin 6, md_source_start_s = Some (Fin 10),
      md_source_end_s = None, md_reason = None, md_speaker = None, md_sync_group_id = None\<rparr>]\<rparr>"

theorem multicam_plan_plays_witness:
  "\<exists>note t' seq' cs. apply_multicam_plan (\<lambda>_. 7) 0 sample_plan (sample_timeline [SC_Track sample_edit_track]) 0
       = Inr (note, t', seq')
     \<and> tl_children t' = [SC_Track (track_with_children cs (track_empty ''V1'' Video))]
     \<and> plays 0 cs = planned (mp_decisions sample_plan) \<and> span_of cs = 6"
  using multicam_plan_plays [of sample_plan "''V1''" "mp_decisions sample_plan" "\<lambda>_. 7" 0
      "sample_timeline [SC_Track sample_edit_track]" 0] sample_edit_track_facts(1)
  by (simp add: sample_plan_def sample_asset_trims grid_decision_def in_reach_def on_grid_def unwrap_or_def is_track_named_def)

theorem wrap_then_flatten_witness:
  "\<exists>note t' note'. apply_wrap_as_nested 0 ''V1'' 0 2 None (sample_timeline [SC_Track sample_edit_track]) = Inr (note, t')
     \<and> apply_flatten_nested 1 ''V1'' 0 t' = Inr (note', sample_timeline [SC_Track sample_edit_track])"
proof -
  have "find_track (sample_timeline [SC_Track sample_edit_track]) (trim ''V1'') = Some (0, sample_edit_track)"
    using sample_edit_track_facts(1) by (simp add: find_track_def sample_asset_trims is_track_named_def)
  from wrap_then_flatten [OF this _ _ refl, of 0 2 0 None 1] sample_edit_track_facts(3)
  show ?thesis by (fastforce simp: sample_asset_trims sample_edit_track_def fits_range_def)
qed

end
