(* ===== verification/Edl_Media_Props.thy ===== *)
theory Edl_Media_Props
  imports Edl_Nesting_Props
begin

text \<open>
  Slip, roll and slide as changes of what the track plays: each is accepted exactly when no clip
  collapses and the media covers the new ranges, and then moves the edges or the media of the clips
  it names and nothing else.
\<close>

section \<open>Available media\<close>

definition grid_media :: "clip \<Rightarrow> bool" where
  "grid_media c \<longleftrightarrow>
     (\<forall>r. media_available_range (clip_media_reference c) = Some r \<longrightarrow>
        in_reach (to_seconds (tr_start_time r)) \<and> in_reach (to_seconds (tr_duration r)))"

text \<open>The media can be played from \<open>a\<close> to \<open>b\<close>, as far as the timeline knows its extent.\<close>

definition media_covers :: "clip \<Rightarrow> rat \<Rightarrow> rat \<Rightarrow> bool" where
  "media_covers c a b \<longleftrightarrow> 0 \<le> a \<and>
     (case media_available_range (clip_media_reference c) of
        None \<Rightarrow> True
      | Some r \<Rightarrow> fval (to_seconds (tr_start_time r)) \<le> a
          \<and> b \<le> fval (to_seconds (tr_start_time r)) + fval (to_seconds (tr_duration r)))"

lemma available_iff:
  assumes "on_grid a" and "on_grid b" and "grid_media c"
  shows "validate_available_source_range i label c a b =
    Inr () \<longleftrightarrow> media_covers c (fval a) (fval b)"
proof (cases "media_available_range (clip_media_reference c)")
  case None
  then show ?thesis using assms(1)
    by (auto simp: validate_available_source_range_def media_covers_def finite_compare on_grid_def)
next
  case (Some r)
  let ?s = "to_seconds (tr_start_time r)" and ?d = "to_seconds (tr_duration r)"
  have r: "in_reach ?s" "in_reach ?d" using assms(3) Some by (simp_all add: grid_media_def)
  have "\<bar>fval ?s + fval ?d\<bar> < 2 ^ 44" using r by (auto simp: in_reach_def abs_le_iff abs_less_iff)
  note sum = fadd_grid [OF in_reach_grid [OF r(1)] in_reach_grid [OF r(2)] this]
  have bound: "\<bar>fval ?s\<bar> \<le> 2 ^ 21" "\<bar>fval (fadd ?s ?d)\<bar> \<le> 2 ^ 21"
    using r sum(2) by (auto simp: in_reach_def abs_le_iff)
  note low = tolerance_compare(3) [OF tolerances_of_the_code(2) in_reach_grid [OF r(1)] assms(1) bound(1)]
  note high = tolerance_compare(2) [OF tolerances_of_the_code(2) sum(1) assms(2) bound(2)]
  show ?thesis using Some assms(1) low high sum(2)
    by (auto simp: validate_available_source_range_def media_covers_def finite_compare on_grid_def Let_def)
qed

lemma delta_ok: "in_reach d \<Longrightarrow> fval d \<noteq> 0 \<Longrightarrow> validate_delta i label d = Inr ()"
proof -
  assume d: "in_reach d" "fval d \<noteq> 0"
  have "on_grid (fabs d)" "\<bar>fval (fabs d)\<bar> \<le> 2 ^ 21" "0 < fval (fabs d)"
    using d by (auto simp: in_reach_def on_grid_def fval_fabs abs_if)
  then show ?thesis using tolerance_compare(7) [OF tolerances_of_the_code(2), of "fabs d" "fabs d"] d(1)
    by (simp add: validate_delta_def in_reach_def on_grid_def)
qed

section \<open>Moving the edges of two clips\<close>

definition edges_movable :: "rat \<Rightarrow> clip \<Rightarrow> clip \<Rightarrow> bool" where
  "edges_movable d c1 c2 \<longleftrightarrow>
     0 < dur (TC_Clip c1) + d \<and> 0 < dur (TC_Clip c2) - d
     \<and> media_covers c1 (src_start c1) (src_end c1 + d) \<and> media_covers c2 (src_start c2 + d) (src_end c2)"

lemma move_edges_spec:
  assumes "grid_clip c1" and "grid_clip c2" and "clip_source_range c1 = Some r1" and "clip_source_range c2 = Some r2"
    and "grid_media c1" and "grid_media c2" and "in_reach d" and "src_end c1 + fval d \<le> 2 ^ 20"
  shows "if edges_movable (fval d) c1 c2
    then \<exists>c1' c2'. move_edges i lbls d c1 r1 c2 r2 = Inr (c1', c2')
      \<and> dur (TC_Clip c1') = dur (TC_Clip c1) + fval d \<and> dur (TC_Clip c2') = dur (TC_Clip c2) - fval d
      \<and> (\<forall>x. shows_at (TC_Clip c1') x = shows_at (TC_Clip c1) x)
      \<and> (\<forall>x. shows_at (TC_Clip c2') x = shows_at (TC_Clip c2) (x + fval d))
    else \<exists>e. move_edges i lbls d c1 r1 c2 r2 = Inl e"
proof -
  define s1 e1 s2 e2 where "s1 = to_seconds (tr_start_time r1)" and "e1 = fadd s1 (to_seconds (tr_duration r1))"
    and "s2 = to_seconds (tr_start_time r2)" and "e2 = fadd s2 (to_seconds (tr_duration r2))"
  define rate1 rate2 where "rate1 = rt_rate (tr_start_time r1)" and "rate2 = rt_rate (tr_start_time r2)"
  note g1 = grid_clip_ends [OF assms(1,3), folded s1_def rate1_def, folded e1_def]
  note g2 = grid_clip_ends [OF assms(2,4), folded s2_def rate2_def, folded e2_def]
  note grids = in_reach_grid [OF g1(2)] in_reach_grid [OF g1(4)] in_reach_grid [OF g2(2)] in_reach_grid [OF g2(4)]
  have small: "\<bar>fval x + fval d\<bar> < 2 ^ 44" if "in_reach x" for x using that assms(7) by (auto simp: in_reach_def abs_le_iff abs_less_iff)
  note t1 = fadd_grid [OF grids(2) in_reach_grid [OF assms(7)] small [OF g1(4)]]
  note t2 = fadd_grid [OF grids(3) in_reach_grid [OF assms(7)] small [OF g2(2)]]
  have lens: "src_end c1 = src_start c1 + dur (TC_Clip c1)" "src_end c2 = src_start c2 + dur (TC_Clip c2)"
    by (simp_all add: src_end_def)
  have "\<bar>fval s1\<bar> \<le> 2 ^ 21" "\<bar>fval e2\<bar> \<le> 2 ^ 21" using g1(2) g2(4) by (simp_all add: in_reach_def)
  then have empty: "fle (fadd e1 d) (fadd s1 micro) \<longleftrightarrow> \<not> 0 < dur (TC_Clip c1) + fval d"
    "fle (fsub e2 micro) (fadd s2 d) \<longleftrightarrow> \<not> 0 < dur (TC_Clip c2) - fval d"
    using tolerance_compare(1) [OF tolerances_of_the_code(2) grids(1) t1(1)]
      tolerance_compare(4) [OF tolerances_of_the_code(2) grids(4) t2(1)] t1(2) t2(2) g1(3,5) g2(3,5) lens by auto
  note covers = available_iff [OF grids(1) t1(1) assms(5), unfolded t1(2) g1(3,5)]
    available_iff [OF t2(1) grids(4) assms(6), unfolded t2(2) g2(3,5)]
  have unfolded: "move_edges i lbls d c1 r1 c2 r2 =
     (if \<not> 0 < dur (TC_Clip c1) + fval d then invalid i (msg (el_first_empty lbls))
      else if \<not> 0 < dur (TC_Clip c2) - fval d then invalid i (msg (el_second_empty lbls))
      else rbind (validate_available_source_range i (el_first_available lbls) c1 s1 (fadd e1 d)) (\<lambda>_.
           rbind (validate_available_source_range i (el_second_available lbls) c2 (fadd s2 d) e2) (\<lambda>_.
           Inr (c1\<lparr>clip_source_range := Some (seconds_range s1 (fsub (fadd e1 d) s1) rate1)\<rparr>,
                c2\<lparr>clip_source_range := Some (seconds_range (fadd s2 d) (fsub e2 (fadd s2 d)) rate2)\<rparr>))))"
    by (simp add: move_edges_def Let_def empty flip: s1_def s2_def rate1_def rate2_def e1_def e2_def)
  show ?thesis
  proof (cases "edges_movable (fval d) c1 c2")
    case True
    then have m: "0 < dur (TC_Clip c1) + fval d" "0 < dur (TC_Clip c2) - fval d" "0 \<le> src_start c2 + fval d"
      "validate_available_source_range i (el_first_available lbls) c1 s1 (fadd e1 d) = Inr ()"
      "validate_available_source_range i (el_second_available lbls) c2 (fadd s2 d) e2 = Inr ()"
      unfolding covers by (auto simp: edges_movable_def media_covers_def)
    have w: "\<bar>fval (fadd e1 d) - fval s1\<bar> < 2 ^ 44" "\<bar>fval e2 - fval (fadd s2 d)\<bar> < 2 ^ 44"
      using t1(2) t2(2) g1 g2 m(1-3) assms(8) lens by auto
    note l1 = fsub_grid [OF t1(1) grids(1) w(1)] and l2 = fsub_grid [OF grids(4) t2(1) w(2)]
    have reach: "in_reach (fsub (fadd e1 d) s1)" "in_reach (fadd s2 d)" "in_reach (fsub e2 (fadd s2 d))"
      using l1 l2 t1(2) t2 g1 g2 m(1-3) assms(8) lens by (auto simp: in_reach_def)
    define c1' c2' where "c1' = c1\<lparr>clip_source_range := Some (seconds_range s1 (fsub (fadd e1 d) s1) rate1)\<rparr>"
      and "c2' = c2\<lparr>clip_source_range := Some (seconds_range (fadd s2 d) (fsub e2 (fadd s2 d)) rate2)\<rparr>"
    have "src_start c1' = src_start c1" "dur (TC_Clip c1') = dur (TC_Clip c1) + fval d"
      using retimed_clip(2,4) [OF g1(2) reach(1) g1(1) _ _ _ c1'_def] l1(2) t1(2) g1 m(1) assms(8) lens by auto
    moreover have "src_start c2' = src_start c2 + fval d" "dur (TC_Clip c2') = dur (TC_Clip c2) - fval d"
      using retimed_clip(2,4) [OF reach(2,3) g2(1) _ _ _ c2'_def] l2(2) t2(2) g2 m(2,3) lens by auto
    moreover have "move_edges i lbls d c1 r1 c2 r2 = Inr (c1', c2')"
      unfolding unfolded m(4,5) using m(1,2) by (simp add: c1'_def c2'_def)
    moreover have "shows_at (TC_Clip c1') x = Some (Media (clip_media_reference c1) (clip_effects c1) (clip_active c1) (src_start c1' + x))"
      "shows_at (TC_Clip c2') x = Some (Media (clip_media_reference c2) (clip_effects c2) (clip_active c2) (src_start c2' + x))" for x
      by (simp_all add: c1'_def c2'_def)
    ultimately show ?thesis using True by (simp add: ac_simps)
  next
    case False
    define v1 v2 where "v1 = validate_available_source_range i (el_first_available lbls) c1 s1 (fadd e1 d)"
      and "v2 = validate_available_source_range i (el_second_available lbls) c2 (fadd s2 d) e2"
    have "\<not> 0 < dur (TC_Clip c1) + fval d \<or> \<not> 0 < dur (TC_Clip c2) - fval d \<or> v1 \<noteq> Inr () \<or> v2 \<noteq> Inr ()"
      using False unfolding v1_def v2_def covers edges_movable_def by blast
    then show ?thesis unfolding unfolded v1_def [symmetric] v2_def [symmetric] using False
      by (cases v1; cases v2) auto
  qed
qed

section \<open>Roll\<close>

text \<open>What two clips in a row play, and three.\<close>

lemma plays_two:
  assumes "0 \<le> dur x" and "0 \<le> dur y" and "nonneg post"
  shows "plays s (x # y # post) t =
    (if t < s then None else if t < s + dur x then shows_at x (t - s)
     else if t < s + dur x + dur y then shows_at y (t - (s + dur x)) else plays (s + dur x + dur y) post t)"
  using assms plays_before [OF assms(3), of t] by auto

text \<open>C30: A roll moves the cut between two clips that meet, and neither their media nor anything else: it is accepted
  exactly when neither clip collapses and the media of both covers its new range.\<close>

theorem roll_moves_the_cut:
  assumes "resolve_for i t ctx a = Inr \<lparr>cl_track_index = ti, cl_child_index = length pre\<rparr>"
    and "resolve_for i t ctx b = Inr \<lparr>cl_track_index = ti, cl_child_index = Suc (length pre)\<rparr>"
    and "ti < length (tl_children t)" and "tl_children t ! ti = SC_Track tr"
    and "track_children tr = pre @ TC_Clip c1 # TC_Clip c2 # post" and "nonneg pre" and "nonneg post"
    and "grid_clip c1" and "grid_clip c2" and "grid_media c1" and "grid_media c2"
    and "in_reach d" and "fval d \<noteq> 0" and "src_end c1 + fval d \<le> 2 ^ 20"
    and "s = span_of pre" and "m = s + dur (TC_Clip c1)" and "e = m + dur (TC_Clip c2)"
  shows "if edges_movable (fval d) c1 c2
    then \<exists>note t' c1' c2'. apply_roll_edit i a b d ctx t = Inr (note, t')
      \<and> (let cs' = pre @ TC_Clip c1' # TC_Clip c2' # post
         in tl_children t' = (tl_children t)[ti := SC_Track (track_with_children cs' tr)]
          \<and> span_of cs' = span_of (track_children tr)
          \<and> (\<forall>x. plays 0 cs' x =
               (if s \<le> x \<and> x < m + fval d then shows_at (TC_Clip c1) (x - s)
                else if m + fval d \<le> x \<and> x < e then shows_at (TC_Clip c2) (x - m)
                else plays 0 (track_children tr) x)))
    else \<exists>err. apply_roll_edit i a b d ctx t = Inl err"
proof -
  obtain r1 r2 where r: "clip_source_range c1 = Some r1" "clip_source_range c2 = Some r2"
    using assms(8,9) by (auto simp: grid_clip_def)
  note moved = move_edges_spec [OF assms(8,9) r assms(10-12,14), of i roll_labels]
  have run: "apply_roll_edit i a b d ctx t = rbind (move_edges i roll_labels d c1 r1 c2 r2) (\<lambda>(c1', c2').
      Inr (Fmt ''rolled edit between {:?} and {:?} by {:.3}s'' [A_dbg (clip_name c1), A_dbg (clip_name c2), A_secs d],
        with_track_children ti (pre @ TC_Clip c1' # TC_Clip c2' # post) t))"
    using assms(1-5) r delta_ok [OF assms(12,13)]
    by (simp add: apply_roll_edit_def Let_def track_at_def clip_on_def vec_get_def source_range_of_def nth_append
        list_update_append)
  show ?thesis
  proof (cases "edges_movable (fval d) c1 c2")
    case True
    with moved obtain c1' c2' where new: "move_edges i roll_labels d c1 r1 c2 r2 = Inr (c1', c2')"
      "dur (TC_Clip c1') = dur (TC_Clip c1) + fval d" "dur (TC_Clip c2') = dur (TC_Clip c2) - fval d"
      "\<And>x. shows_at (TC_Clip c1') x = shows_at (TC_Clip c1) x"
      "\<And>x. shows_at (TC_Clip c2') x = shows_at (TC_Clip c2) (x + fval d)" by auto
    have pos: "0 < dur (TC_Clip c1) + fval d" "0 < dur (TC_Clip c2) - fval d" "0 \<le> dur (TC_Clip c1)" "0 \<le> dur (TC_Clip c2)"
      "0 \<le> dur (TC_Clip c1')" "0 \<le> dur (TC_Clip c2')"
      using True assms(8,9) new(2,3) r by (auto simp: edges_movable_def grid_clip_def dur_def)
    have "plays 0 (pre @ TC_Clip c1' # TC_Clip c2' # post) x =
        (if s \<le> x \<and> x < m + fval d then shows_at (TC_Clip c1) (x - s)
         else if m + fval d \<le> x \<and> x < e then shows_at (TC_Clip c2) (x - m) else plays 0 (track_children tr) x)" for x
    proof -
      have ends: "s + dur (TC_Clip c1') = m + fval d" "m + fval d + dur (TC_Clip c2') = e" using new(2,3) assms(16,17) by simp_all
      have order: "s \<le> m" "m \<le> e" "s \<le> m + fval d" "m + fval d \<le> e" using ends assms(16,17) pos by linarith+
      then show ?thesis using assms(6,7) pos plays_two [OF pos(5,6) assms(7), of s x, unfolded ends new(4,5)]
          plays_two [OF pos(3,4) assms(7), of s x, folded assms(16), folded assms(17)]
        by (auto simp: assms(5) plays_append assms(15) [symmetric] simp del: shows_at.simps plays.simps)
    qed
    then show ?thesis using True new run assms(4,5)
      by (fastforce simp: Let_def tl_children_with_track simp del: shows_at.simps plays.simps)
  qed (use moved run in auto)
qed

section \<open>Slide\<close>

lemma plays_three:
  assumes "0 \<le> dur x" and "0 \<le> dur y" and "0 \<le> dur z" and "nonneg post"
  shows "plays s (x # y # z # post) t =
    (if t < s then None else if t < s + dur x then shows_at x (t - s)
     else if t < s + dur x + dur y then shows_at y (t - (s + dur x))
     else if t < s + dur x + dur y + dur z then shows_at z (t - (s + dur x + dur y))
     else plays (s + dur x + dur y + dur z) post t)"
  using assms plays_two [OF assms(1,2), of "z # post" s t] plays_before [OF assms(4), of t] by auto

text \<open>C31: A slide moves a clip between its two neighbours, which give and take the time: the clip
  plays the same media later or earlier, each neighbour keeps its media where it was, and the rest of the
  track stays. It is accepted exactly when no neighbour collapses and their media covers the new ranges.\<close>

theorem slide_moves_the_clip:
  assumes "ti < length (tl_children t)" and "tl_children t ! ti = SC_Track tr"
    and "track_children tr = pre @ TC_Clip p # TC_Clip c # TC_Clip q # post" and "nonneg pre" and "nonneg post"
    and "grid_clip p" and "grid_clip c" and "grid_clip q" and "grid_media p" and "grid_media q"
    and "in_reach d" and "fval d \<noteq> 0" and "src_end p + fval d \<le> 2 ^ 20"
    and "s = span_of pre" and "m = s + dur (TC_Clip p)" and "n = m + dur (TC_Clip c)" and "e = n + dur (TC_Clip q)"
  shows "if edges_movable (fval d) p q
    then \<exists>note t' p' q'. apply_slide_clip i d (Some \<lparr>cl_track_index = ti, cl_child_index = Suc (length pre)\<rparr>) t
        = Inr (note, t')
      \<and> (let cs' = pre @ TC_Clip p' # TC_Clip c # TC_Clip q' # post
         in tl_children t' = (tl_children t)[ti := SC_Track (track_with_children cs' tr)]
          \<and> span_of cs' = span_of (track_children tr)
          \<and> (\<forall>x. plays 0 cs' x =
               (if s \<le> x \<and> x < m + fval d then shows_at (TC_Clip p) (x - s)
                else if m + fval d \<le> x \<and> x < n + fval d then shows_at (TC_Clip c) (x - (m + fval d))
                else if n + fval d \<le> x \<and> x < e then shows_at (TC_Clip q) (x - n)
                else plays 0 (track_children tr) x)))
    else \<exists>err. apply_slide_clip i d (Some \<lparr>cl_track_index = ti, cl_child_index = Suc (length pre)\<rparr>) t = Inl err"
proof -
  let ?run = "apply_slide_clip i d (Some \<lparr>cl_track_index = ti, cl_child_index = Suc (length pre)\<rparr>) t"
  obtain rp rc rq where r: "clip_source_range p = Some rp" "clip_source_range c = Some rc" "clip_source_range q = Some rq"
    using assms(6-8) by (auto simp: grid_clip_def)
  note moved = move_edges_spec [OF assms(6,8) r(1,3) assms(9-11,13), of i slide_labels]
  have run: "?run = rbind (move_edges i slide_labels d p rp q rq) (\<lambda>(p', q').
      Inr (Fmt ''slid clip {:?} by {:.3}s while preserving its {:.3}s duration''
          [A_dbg (clip_name c), A_secs d, A_secs (to_seconds (tr_duration rc))],
        with_track_children ti (pre @ TC_Clip p' # TC_Clip c # TC_Clip q' # post) t))"
    using assms(1-3) r delta_ok [OF assms(11,12)]
    by (simp add: apply_slide_clip_def Let_def track_at_def clip_on_def vec_get_def source_range_of_def nth_append
        list_update_append required_locator_def)
  show ?thesis
  proof (cases "edges_movable (fval d) p q")
    case True
    with moved obtain p' q' where new: "move_edges i slide_labels d p rp q rq = Inr (p', q')"
      "dur (TC_Clip p') = dur (TC_Clip p) + fval d" "dur (TC_Clip q') = dur (TC_Clip q) - fval d"
      "\<And>x. shows_at (TC_Clip p') x = shows_at (TC_Clip p) x"
      "\<And>x. shows_at (TC_Clip q') x = shows_at (TC_Clip q) (x + fval d)" by auto
    have pos: "0 < dur (TC_Clip p) + fval d" "0 < dur (TC_Clip q) - fval d" "0 \<le> dur (TC_Clip p)" "0 \<le> dur (TC_Clip q)"
      "0 \<le> dur (TC_Clip c)" "0 \<le> dur (TC_Clip p')" "0 \<le> dur (TC_Clip q')"
      using True assms(6-8) new(2,3) r by (auto simp: edges_movable_def grid_clip_def dur_def)
    have "plays 0 (pre @ TC_Clip p' # TC_Clip c # TC_Clip q' # post) x =
        (if s \<le> x \<and> x < m + fval d then shows_at (TC_Clip p) (x - s)
         else if m + fval d \<le> x \<and> x < n + fval d then shows_at (TC_Clip c) (x - (m + fval d))
         else if n + fval d \<le> x \<and> x < e then shows_at (TC_Clip q) (x - n) else plays 0 (track_children tr) x)" for x
    proof -
      have ends: "s + dur (TC_Clip p') = m + fval d" "m + fval d + dur (TC_Clip c) = n + fval d"
        "n + fval d + dur (TC_Clip q') = e" using new(2,3) assms(15-17) by simp_all
      have order: "s \<le> m" "m \<le> n" "n \<le> e" "s \<le> m + fval d" "m + fval d \<le> n + fval d" "n + fval d \<le> e"
        using ends assms(15-17) pos by linarith+
      then show ?thesis using assms(4,5) pos plays_three [OF pos(6,5,7) assms(5), of s x, unfolded ends new(4,5)]
          plays_three [OF pos(3,5,4) assms(5), of s x, folded assms(15), folded assms(16), folded assms(17)]
        by (auto simp: assms(3) plays_append assms(14) [symmetric] simp del: shows_at.simps plays.simps)
    qed
    then show ?thesis using True new run assms(2,3)
      by (fastforce simp: Let_def tl_children_with_track simp del: shows_at.simps plays.simps)
  qed (use moved run in auto)
qed

section \<open>Slip\<close>

text \<open>A slip plays another part of the media in the same window: it is accepted exactly when
  the media covers the new range, and changes nothing else.\<close>

theorem slip_moves_the_media:
  assumes "ti < length (tl_children t)" and "tl_children t ! ti = SC_Track tr"
    and "track_children tr = pre @ TC_Clip c # post" and "nonneg pre" and "nonneg post"
    and "grid_clip c" and "grid_media c" and "in_reach d" and "fval d \<noteq> 0" and "src_end c + fval d \<le> 2 ^ 20"
    and "s = span_of pre" and "e = s + dur (TC_Clip c)"
  shows "if media_covers c (src_start c + fval d) (src_end c + fval d)
    then \<exists>note t' c'. apply_slip_clip i d (Some \<lparr>cl_track_index = ti, cl_child_index = length pre\<rparr>) t = Inr (note, t')
      \<and> (let cs' = pre @ TC_Clip c' # post
         in tl_children t' = (tl_children t)[ti := SC_Track (track_with_children cs' tr)]
          \<and> span_of cs' = span_of (track_children tr)
          \<and> (\<forall>x. plays 0 cs' x =
               (if s \<le> x \<and> x < e then shows_at (TC_Clip c) (x - s + fval d)
                else plays 0 (track_children tr) x)))
    else \<exists>err. apply_slip_clip i d (Some \<lparr>cl_track_index = ti, cl_child_index = length pre\<rparr>) t = Inl err"
proof -
  let ?run = "apply_slip_clip i d (Some \<lparr>cl_track_index = ti, cl_child_index = length pre\<rparr>) t"
  obtain r where r: "clip_source_range c = Some r" using assms(6) by (auto simp: grid_clip_def)
  define start len where "start = fadd (to_seconds (tr_start_time r)) d" and "len = to_seconds (tr_duration r)"
  note g = grid_clip_ends [OF assms(6) r]
  have len: "in_reach len" "fval len = dur (TC_Clip c)" "0 \<le> fval len"
    using assms(6) r by (auto simp: grid_clip_def len_def dur_def)
  have "\<bar>fval (to_seconds (tr_start_time r)) + fval d\<bar> < 2 ^ 44"
    using g(2) assms(8) by (auto simp: in_reach_def abs_le_iff abs_less_iff)
  note st = fadd_grid [OF in_reach_grid [OF g(2)] in_reach_grid [OF assms(8)] this, folded start_def]
  have "\<bar>fval start + fval len\<bar> < 2 ^ 44"
    using st(2) g(2) assms(8) len(1) by (auto simp: in_reach_def abs_le_iff abs_less_iff)
  note en = fadd_grid [OF st(1) in_reach_grid [OF len(1)] this]
  have covers: "validate_available_source_range i ''slip_clip'' c start (fadd start len) = Inr ()
      \<longleftrightarrow> media_covers c (src_start c + fval d) (src_end c + fval d)"
    using available_iff [OF st(1) en(1) assms(7)] st(2) en(2) g(3) len(2) by (simp add: src_end_def ac_simps)
  define c' where "c' = c\<lparr>clip_source_range := Some (seconds_range start len (rt_rate (tr_start_time r)))\<rparr>"
  have run: "\<exists>note. ?run = rbind (validate_available_source_range i ''slip_clip'' c start (fadd start len)) (\<lambda>_.
      Inr (note, with_track_children ti (pre @ TC_Clip c' # post) t))"
    using assms(1-3) r delta_ok [OF assms(8,9)]
    by (auto simp: apply_slip_clip_def Let_def track_at_def clip_on_def vec_get_def source_range_of_def nth_append
        list_update_append required_locator_def c'_def start_def len_def)
  show ?thesis
  proof (cases "media_covers c (src_start c + fval d) (src_end c + fval d)")
    case True
    then have "0 \<le> src_start c + fval d" by (simp add: media_covers_def)
    then have reach: "in_reach start" "0 \<le> fval start" "fval start + fval len \<le> 2 ^ 20"
      using st g(3) assms(10) len(2,3) by (auto simp: in_reach_def src_end_def)
    note new = retimed_clip [OF reach(1) len(1) g(1) reach(2) len(3) reach(3) c'_def]
    have look: "shows_at (TC_Clip c') x = shows_at (TC_Clip c) (x + fval d)" for x
      using new(2) st(2) g(3) by (simp add: c'_def ac_simps)
    have "plays 0 (pre @ TC_Clip c' # post) x =
        (if s \<le> x \<and> x < e then shows_at (TC_Clip c) (x - s + fval d) else plays 0 (track_children tr) x)" for x
      using plays_replaced [OF assms(4) _ _ assms(5), of "[TC_Clip c]" "[TC_Clip c']" 0 x] new(4) len(2,3) assms(3,11,12) look
      by (simp add: Let_def del: shows_at.simps)
    then show ?thesis using True covers new(4) len(2) run assms(2,3)
      by (fastforce simp: Let_def tl_children_with_track simp del: shows_at.simps plays.simps)
  next
    case False
    with covers obtain err where "validate_available_source_range i ''slip_clip'' c start (fadd start len) = Inl err"
      by (cases "validate_available_source_range i ''slip_clip'' c start (fadd start len)") auto
    then show ?thesis using run False by auto
  qed
qed

section \<open>Concrete runs\<close>

text \<open>Three clips in a row: five seconds, three from second 2 of the media, four from second 4.\<close>

definition clip_a :: clip where "clip_a = sample_clip ''a'' 0 5"
definition clip_b :: clip where "clip_b = sample_clip ''b'' 2 3"
definition clip_c :: clip where "clip_c = sample_clip ''c'' 4 4"

definition three_shots :: timeline where
  "three_shots = sample_timeline [SC_Track (sample_track [TC_Clip clip_a, TC_Clip clip_b, TC_Clip clip_c])]"

lemma three_shots_facts:
  "dur (TC_Clip clip_a) = 5" "dur (TC_Clip clip_b) = 3" "dur (TC_Clip clip_c) = 4"
  "src_start clip_a = 0" "src_start clip_b = 2" "src_start clip_c = 4"
  "src_end clip_a = 5" "src_end clip_b = 5" "src_end clip_c = 8"
  "grid_clip clip_a" "grid_clip clip_b" "grid_clip clip_c"
  "media_available_range (clip_media_reference clip_a) = None"
  "media_available_range (clip_media_reference clip_b) = None"
  "media_available_range (clip_media_reference clip_c) = None"
  by (simp_all add: clip_a_def clip_b_def clip_c_def src_end_def src_start_def grid_clip_def in_reach_def
      whole_rate_def sample_simps media_available_range_def sample_clip_def clip_empty_def missing_reference_default_def)

lemma one_second: "in_reach (Fin 1)" by (simp add: in_reach_def on_grid_def)

lemma three_shots_resolve:
  "resolve_for 0 three_shots no_sidecars (ClipUuid ''a'') = Inr \<lparr>cl_track_index = 0, cl_child_index = 0\<rparr>"
  "resolve_for 0 three_shots no_sidecars (ClipUuid ''b'') = Inr \<lparr>cl_track_index = 0, cl_child_index = 1\<rparr>"
  by (simp_all add: resolve_for_def map_err_def three_shots_def clip_a_def clip_b_def clip_c_def sample_defs resolve_def
      resolve_by_uuid_def collect_clips_def track_entries_def clip_entry_of_def List.map_filter_def clip_uuid_def
      clip_extra_str_def)

lemma three_shots_edges:
  "edges_movable 1 clip_a clip_b" "edges_movable 1 clip_a clip_c" "media_covers clip_b 3 6"
  "grid_media clip_a" "grid_media clip_b" "grid_media clip_c"
  by (simp_all add: edges_movable_def media_covers_def grid_media_def three_shots_facts)

abbreviation three_track :: track where
  "three_track \<equiv> sample_track [TC_Clip clip_a, TC_Clip clip_b, TC_Clip clip_c]"

lemma three_shots_track:
  "0 < length (tl_children three_shots)" "tl_children three_shots ! 0 = SC_Track three_track"
  "tl_children three_shots = [SC_Track three_track]" "track_with_children cs three_track = sample_track cs"
  by (simp_all add: three_shots_def sample_track_def)

theorem roll_moves_the_cut_witness:
  "\<exists>note t' c1' c2'. apply_roll_edit 0 (ClipUuid ''a'') (ClipUuid ''b'') (Fin 1) no_sidecars three_shots = Inr (note, t')
    \<and> tl_children t' = [SC_Track (sample_track [TC_Clip c1', TC_Clip c2', TC_Clip clip_c])]
    \<and> plays 0 [TC_Clip c1', TC_Clip c2', TC_Clip clip_c] (11 / 2) = shows_at (TC_Clip clip_a) (11 / 2)
    \<and> plays 0 [TC_Clip c1', TC_Clip c2', TC_Clip clip_c] 7 = shows_at (TC_Clip clip_b) 2"
proof -
  have "if edges_movable (fval (Fin 1)) clip_a clip_b
    then \<exists>note t' c1' c2'. apply_roll_edit 0 (ClipUuid ''a'') (ClipUuid ''b'') (Fin 1) no_sidecars three_shots = Inr (note, t')
      \<and> (let cs' = [] @ TC_Clip c1' # TC_Clip c2' # [TC_Clip clip_c]
         in tl_children t' = (tl_children three_shots)[0 := SC_Track (track_with_children cs' three_track)]
          \<and> span_of cs' = span_of (track_children three_track)
          \<and> (\<forall>x. plays 0 cs' x =
               (if 0 \<le> x \<and> x < 5 + fval (Fin 1) then shows_at (TC_Clip clip_a) (x - 0)
                else if 5 + fval (Fin 1) \<le> x \<and> x < 8 then shows_at (TC_Clip clip_b) (x - 5)
                else plays 0 (track_children three_track) x)))
    else \<exists>err. apply_roll_edit 0 (ClipUuid ''a'') (ClipUuid ''b'') (Fin 1) no_sidecars three_shots = Inl err"
    by (rule roll_moves_the_cut [of 0 three_shots no_sidecars "ClipUuid ''a''" 0 "[]" "ClipUuid ''b''" three_track clip_a
        clip_b "[TC_Clip clip_c]" "Fin 1" 0 5 8])
      (use three_shots_track(1,2) three_shots_resolve three_shots_edges(4,5) one_second in \<open>simp_all add: three_shots_facts\<close>)
  then obtain msg1 t' c1' c2' where run: "apply_roll_edit 0 (ClipUuid ''a'') (ClipUuid ''b'') (Fin 1) no_sidecars three_shots = Inr (msg1, t')"
    "tl_children t' = [SC_Track (sample_track [TC_Clip c1', TC_Clip c2', TC_Clip clip_c])]"
    and shown: "\<And>x. plays 0 [TC_Clip c1', TC_Clip c2', TC_Clip clip_c] x = (if 0 \<le> x \<and> x < 6 then shows_at (TC_Clip clip_a) (x - 0) else if 6 \<le> x \<and> x < 8 then shows_at (TC_Clip clip_b) (x - 5) else plays 0 (track_children three_track) x)"
    using three_shots_edges(1)
    by (auto simp: three_shots_track(3,4) three_shots_facts Let_def simp del: shows_at.simps plays.simps)
  show ?thesis using run shown [of "11 / 2"] shown [of "7"]
    by (intro exI [of _ msg1] exI [of _ t'] exI [of _ c1'] exI [of _ c2'] conjI) (simp_all del: shows_at.simps plays.simps)
qed

theorem slide_moves_the_clip_witness:
  "\<exists>note t' c1' c2'. apply_slide_clip 0 (Fin 1) (Some \<lparr>cl_track_index = 0, cl_child_index = 1\<rparr>) three_shots = Inr (note, t')
    \<and> tl_children t' = [SC_Track (sample_track [TC_Clip c1', TC_Clip clip_b, TC_Clip c2'])]
    \<and> plays 0 [TC_Clip c1', TC_Clip clip_b, TC_Clip c2'] 7 = shows_at (TC_Clip clip_b) 1"
proof -
  have "if edges_movable (fval (Fin 1)) clip_a clip_c
    then \<exists>note t' c1' c2'. apply_slide_clip 0 (Fin 1) (Some \<lparr>cl_track_index = 0, cl_child_index = Suc (length ([] :: track_child list))\<rparr>) three_shots = Inr (note, t')
      \<and> (let cs' = [] @ TC_Clip c1' # TC_Clip clip_b # TC_Clip c2' # []
         in tl_children t' = (tl_children three_shots)[0 := SC_Track (track_with_children cs' three_track)]
          \<and> span_of cs' = span_of (track_children three_track)
          \<and> (\<forall>x. plays 0 cs' x =
               (if 0 \<le> x \<and> x < 5 + fval (Fin 1) then shows_at (TC_Clip clip_a) (x - 0)
                else if 5 + fval (Fin 1) \<le> x \<and> x < 8 + fval (Fin 1) then shows_at (TC_Clip clip_b) (x - (5 + fval (Fin 1)))
                else if 8 + fval (Fin 1) \<le> x \<and> x < 12 then shows_at (TC_Clip clip_c) (x - 8)
                else plays 0 (track_children three_track) x)))
    else \<exists>err. apply_slide_clip 0 (Fin 1) (Some \<lparr>cl_track_index = 0, cl_child_index = Suc (length ([] :: track_child list))\<rparr>) three_shots = Inl err"
    by (rule slide_moves_the_clip [of 0 three_shots three_track "[]" clip_a clip_b clip_c "[]" "Fin 1" 0 5 8 12 0])
      (use three_shots_track(1,2) three_shots_edges(4,6) one_second in \<open>simp_all add: three_shots_facts\<close>)
  then obtain msg1 t' c1' c2' where run: "apply_slide_clip 0 (Fin 1) (Some \<lparr>cl_track_index = 0, cl_child_index = Suc 0\<rparr>) three_shots = Inr (msg1, t')"
    "tl_children t' = [SC_Track (sample_track [TC_Clip c1', TC_Clip clip_b, TC_Clip c2'])]"
    and shown: "\<And>x. plays 0 [TC_Clip c1', TC_Clip clip_b, TC_Clip c2'] x = (if 0 \<le> x \<and> x < 6 then shows_at (TC_Clip clip_a) (x - 0) else if 6 \<le> x \<and> x < 9 then shows_at (TC_Clip clip_b) (x - 6) else if 9 \<le> x \<and> x < 12 then shows_at (TC_Clip clip_c) (x - 8) else plays 0 (track_children three_track) x)"
    using three_shots_edges(2)
    by (auto simp: three_shots_track(3,4) three_shots_facts Let_def simp del: shows_at.simps plays.simps)
  show ?thesis using run shown [of "7"]
    by (intro exI [of _ msg1] exI [of _ t'] exI [of _ c1'] exI [of _ c2'] conjI) (simp_all del: shows_at.simps plays.simps)
qed

theorem slip_moves_the_media_witness:
  "\<exists>note t' c'. apply_slip_clip 0 (Fin 1) (Some \<lparr>cl_track_index = 0, cl_child_index = 1\<rparr>) three_shots = Inr (note, t')
    \<and> tl_children t' = [SC_Track (sample_track [TC_Clip clip_a, TC_Clip c', TC_Clip clip_c])]
    \<and> plays 0 [TC_Clip clip_a, TC_Clip c', TC_Clip clip_c] 5 = shows_at (TC_Clip clip_b) 1"
proof -
  have "if media_covers clip_b (src_start clip_b + fval (Fin 1)) (src_end clip_b + fval (Fin 1))
    then \<exists>note t' c'. apply_slip_clip 0 (Fin 1) (Some \<lparr>cl_track_index = 0, cl_child_index = length [TC_Clip clip_a]\<rparr>) three_shots = Inr (note, t')
      \<and> (let cs' = [TC_Clip clip_a] @ TC_Clip c' # [TC_Clip clip_c]
         in tl_children t' = (tl_children three_shots)[0 := SC_Track (track_with_children cs' three_track)]
          \<and> span_of cs' = span_of (track_children three_track)
          \<and> (\<forall>x. plays 0 cs' x =
               (if 5 \<le> x \<and> x < 8 then shows_at (TC_Clip clip_b) (x - 5 + fval (Fin 1))
                else plays 0 (track_children three_track) x)))
    else \<exists>err. apply_slip_clip 0 (Fin 1) (Some \<lparr>cl_track_index = 0, cl_child_index = length [TC_Clip clip_a]\<rparr>) three_shots = Inl err"
    by (rule slip_moves_the_media [of 0 three_shots three_track "[TC_Clip clip_a]" clip_b "[TC_Clip clip_c]" "Fin 1" 5 8 0])
      (use three_shots_track(1,2) three_shots_edges(5) one_second in \<open>simp_all add: three_shots_facts\<close>)
  then obtain msg1 t' c' where run: "apply_slip_clip 0 (Fin 1) (Some \<lparr>cl_track_index = 0, cl_child_index = Suc 0\<rparr>) three_shots = Inr (msg1, t')"
    "tl_children t' = [SC_Track (sample_track [TC_Clip clip_a, TC_Clip c', TC_Clip clip_c])]"
    and shown: "\<And>x. plays 0 [TC_Clip clip_a, TC_Clip c', TC_Clip clip_c] x = (if 5 \<le> x \<and> x < 8 then shows_at (TC_Clip clip_b) (x - 5 + 1) else plays 0 (track_children three_track) x)"
    using three_shots_edges(3)
    by (auto simp: three_shots_track(3,4) three_shots_facts Let_def simp del: shows_at.simps plays.simps)
  show ?thesis using run shown [of "5"]
    by (intro exI [of _ msg1] exI [of _ t'] exI [of _ c'] conjI) (simp_all del: shows_at.simps plays.simps)
qed

end
