(* ===== verification/Picture_Lock.thy ===== *)
theory Picture_Lock
  imports Edl_Guarantees Edl_Media_Props
begin

text \<open>
  The picture lock of \<open>crates/core/src/picture_lock.rs\<close>: once picture is locked, envelopes with
  operations that change the cut are refused. The file of the lock is its content, if there is one;
  \<open>serde_json\<close> is a parameter. The classification of the operations is the one of the code, on
  the operations modelled here.
\<close>

section \<open>The lock\<close>

record picture_lock =
  pl_locked :: bool
  pl_reason :: "string option"
  pl_updated_at :: int

definition read_picture_lock ::
  "(string \<Rightarrow> picture_lock option) \<Rightarrow> int \<Rightarrow> string option \<Rightarrow> picture_lock" where
  "read_picture_lock from_slice now file =
     (case file of
        Some bytes \<Rightarrow>
          (case from_slice bytes of
             Some lock \<Rightarrow> lock
           | None \<Rightarrow> \<lparr>pl_locked = True,
               pl_reason = Some (''picture_lock.json is corrupt '' @ [CHR 0xE2, CHR 0x80, CHR 0x94]
                 @ '' treating as locked; fix or delete the file''),
               pl_updated_at = now\<rparr>)
      | None \<Rightarrow> \<lparr>pl_locked = False, pl_reason = None, pl_updated_at = now\<rparr>)"

text \<open>What is written, and what the caller gets.\<close>

definition set_picture_lock ::
  "(picture_lock \<Rightarrow> string) \<Rightarrow> int \<Rightarrow> bool \<Rightarrow> string option \<Rightarrow> picture_lock \<times> string" where
  "set_picture_lock to_vec now locked reason =
     (let state = \<lparr>pl_locked = locked, pl_reason = reason, pl_updated_at = now\<rparr>
      in (state, to_vec state))"

fun op_mutates_picture :: "edl_op \<Rightarrow> bool" where
  "op_mutates_picture (SetVolume _ _) = False"
| "op_mutates_picture (MuteClip _ _) = False"
| "op_mutates_picture (RemoveAudio _ _ _ _) = False"
| "op_mutates_picture (SetAudioFade _ _ _) = False"
| "op_mutates_picture (SetTrackAudio _ _ _ _ _) = False"
| "op_mutates_picture (SetDucking _ _ _ _ _) = False"
| "op_mutates_picture (SetClipAudioFx _ _) = False"
| "op_mutates_picture (SetTrackAudioFx _ _) = False"
| "op_mutates_picture (SetSyncGroup _ _ _ _ _) = False"
| "op_mutates_picture (InsertTrack _ _ _) = False"
| "op_mutates_picture (DeleteTrack _ _) = False"
| "op_mutates_picture (ProTimelineEdit (PE_AddMarker _ _ _)) = False"
| "op_mutates_picture (ProTimelineEdit (PE_UpdateMarker _ _)) = False"
| "op_mutates_picture (ProTimelineEdit (PE_DeleteMarker _)) = False"
| "op_mutates_picture _ = True"

definition check_envelope :: "picture_lock \<Rightarrow> edl_op list \<Rightarrow> message + unit" where
  "check_envelope lock ops =
     (if \<not> pl_locked lock then Inr ()
      else
        let blocked = map fst (filter (\<lambda>(i, eop). op_mutates_picture eop) (enumerate 0 ops))
        in if blocked = [] then Inr ()
           else Inl (Fmt (''picture is locked{} '' @ [CHR 0xE2, CHR 0x80, CHR 0x94]
               @ '' refusing picture-mutating EDL op(s) at index {:?}. ''
               @ ''Sound/color/graphics ops that do not retime or restructure the cut may ''
               @ ''still apply. Unlock only via `set_picture_lock` with locked=false after ''
               @ ''an explicit user request to reopen picture.'')
             [A_str (case pl_reason lock of None \<Rightarrow> [] | Some r \<Rightarrow> '' ('' @ r @ '')''),
              A_msgs (map (\<lambda>i. Fmt ''{}'' [A_nat i]) blocked)]))"

section \<open>The picture\<close>

text \<open>
  What the lock is to protect. A clip without its sound: the effects of sound, the markers, the
  offsets of split edits and the removed audio are not part of the picture. A track without its audio
  controls; a track that plays nothing is not part of the picture at all.
\<close>

definition sound_effects :: "string list" where
  "sound_effects = [volume_effect, audio_fade_effect, audio_fx_effect]"

definition picture_clip :: "clip \<Rightarrow> clip" where
  "picture_clip c =
     with_clip_montage ((clip_montage_or_default c)\<lparr>mcm_split_edit := None, mcm_audio_override := None\<rparr>)
       (c\<lparr>clip_effects := filter (\<lambda>e. ef_effect_name e \<notin> set sound_effects) (clip_effects c),
          clip_markers := []\<rparr>)"

fun picture_child :: "track_child \<Rightarrow> track_child" where
  "picture_child (TC_Clip c) = TC_Clip (picture_clip c)"
| "picture_child c = c"

fun picture_track :: "track \<Rightarrow> track" where
  "picture_track (Track n k cs sr m) = Track n k (map picture_child cs) sr (bt_remove audio_track_key m)"

fun picture_part :: "stack_child \<Rightarrow> stack_child list" where
  "picture_part (SC_Track t) = (if 0 < non_gap_count (SC_Track t) then [SC_Track (picture_track t)] else [])"
| "picture_part sc = [sc]"

definition picture :: "timeline \<Rightarrow> stack_child list" where
  "picture tml = concat (map picture_part (tl_children tml))"

text \<open>The two operations the lock lets through although they change the cut.\<close>

fun slips_through :: "edl_op \<Rightarrow> bool" where
  "slips_through (SetSyncGroup _ _ _ _ _) = True"
| "slips_through (DeleteTrack _ force) = force"
| "slips_through _ = False"

lemma check_envelope_accepts:
  assumes "pl_locked lock"
  shows "check_envelope lock ops = Inr () \<longleftrightarrow> (\<forall>eop \<in> set ops. \<not> op_mutates_picture eop)"
proof -
  have "set ops = snd ` set (enumerate 0 ops)" by (simp flip: set_map)
  then show ?thesis using assms
    by (simp add: check_envelope_def Let_def filter_empty_conv case_prod_unfold)
qed

section \<open>Edits that keep the picture\<close>

named_theorems picture_simps "what the picture does not see"

lemma picture_same_parts:
  assumes "ti < length scs" and "picture_part sc = picture_part (scs ! ti)"
  shows "concat (map picture_part (scs[ti := sc])) = concat (map picture_part scs)"
  using assms(2) list_update_id [of "map picture_part scs" ti]
  by (simp add: map_update nth_map [OF assms(1)])

lemma same_non_gaps:
  "list_all2 (\<lambda>c d. is_gap c = is_gap d) cs ds \<Longrightarrow>
     length (filter (\<lambda>c. \<not> is_gap c) cs) = length (filter (\<lambda>c. \<not> is_gap c) ds)"
  by (induction rule: list_all2_induct) auto

lemma is_gap_picture [simp]: "is_gap (picture_child c) = is_gap c"
  by (cases c) simp_all

lemma picture_part_children:
  assumes "map picture_child cs = map picture_child (track_children tr)"
  shows "picture_part (SC_Track (track_with_children cs tr)) = picture_part (SC_Track tr)"
proof -
  have "map is_gap cs = map is_gap (track_children tr)"
    using arg_cong [OF assms, of "map is_gap"] by (simp add: o_def)
  then have "length (filter (\<lambda>c. \<not> is_gap c) cs) = length (filter (\<lambda>c. \<not> is_gap c) (track_children tr))"
    by (intro same_non_gaps) (simp add: list_all2_conv_all_nth list_eq_iff_nth_eq)
  with assms show ?thesis by (cases tr) (simp add: non_gap_count_def)
qed

lemma picture_with_track:
  assumes "ti < length (tl_children t)" and "tl_children t ! ti = SC_Track tr"
    and "map picture_child cs = map picture_child (track_children tr)"
  shows "picture (with_track_children ti cs t) = picture t"
  using picture_same_parts [OF assms(1), of "sc_with_children cs (tl_children t ! ti)"]
    picture_part_children [OF assms(3)] assms(2)
  by (simp add: picture_def with_track_children_def)

lemma picture_with_clip [picture_simps]:
  assumes "ti < length (tl_children t)" and "tl_children t ! ti = SC_Track tr"
    and "ci < length (track_children tr)" and "track_children tr ! ci = TC_Clip c"
    and "picture_clip c' = picture_clip c"
  shows "picture (with_track_children ti ((track_children tr)[ci := TC_Clip c']) t) = picture t"
  using assms(3-5) by (intro picture_with_track [OF assms(1,2)])
    (simp add: map_update list_update_same_conv)

lemma picture_metadata [picture_simps]:
  "picture (map_cut_boundaries f t) = picture t" "picture (with_montage m t) = picture t"
  "picture (insert_cut_boundary k spec t) = picture t"
  "picture (record_professional_timeline_edit edit t) = picture t"
  "picture (prune_stale_cut_boundaries t) = picture t"
  by (simp_all add: picture_def insert_cut_boundary_def record_professional_timeline_edit_def Let_def
      prune_stale_cut_boundaries_def with_montage_def tl_children_def map_cut_boundaries_def)

lemma picture_prune [picture_simps]: "picture (prune_stale_split_edits t) = picture t"
proof -
  have clip: "picture_clip (prune_split_edit_for_clip c p n) = picture_clip c" for c p n
    by (simp add: picture_clip_def prune_split_edit_for_clip_def map_montage_def clip_montage_or_default_def
        with_clip_montage_def unwrap_or_def split: option.splits)
  have "picture_child (prune_child p n c) = picture_child c" for c p n
    by (cases c) (simp_all add: clip)
  then have "map picture_child (prune_track_split_edits cs) = map picture_child cs" for cs
    by (intro nth_equalityI) (simp_all add: prune_track_split_edits_def nth_enumerate_eq)
  then have "picture_part (sc_with_children (prune_track_split_edits (sc_children sc)) sc) = picture_part sc" for sc
    by (cases sc) (simp_all add: picture_part_children del: picture_part.simps(1))
  then show ?thesis by (simp add: picture_def prune_stale_split_edits_def o_def del: picture_part.simps)
qed

lemma picture_sound_clips [picture_simps]:
  "name \<in> set sound_effects \<Longrightarrow> picture_clip (replace_effect name m c) = picture_clip c"
  "picture_clip (with_clip_montage ((clip_montage_or_default c)\<lparr>mcm_audio_override := x\<rparr>) c) = picture_clip c"
  "picture_clip (c\<lparr>clip_markers := ms\<rparr>) = picture_clip c"
proof -
  assume "name \<in> set sound_effects"
  then have "filter (\<lambda>e. ef_effect_name e \<notin> set sound_effects) (clip_effects (replace_effect name m c))
      = filter (\<lambda>e. ef_effect_name e \<notin> set sound_effects) (clip_effects c)"
    by (auto simp: replace_effect_def effect_new_def intro: filter_cong)
  moreover have "clip_montage_or_default (replace_effect name m c) = clip_montage_or_default c"
    "replace_effect name m c\<lparr>clip_effects := es, clip_markers := []\<rparr> = c\<lparr>clip_effects := es, clip_markers := []\<rparr>"
    for es by (simp_all add: replace_effect_def clip_montage_or_default_def)
  ultimately show "picture_clip (replace_effect name m c) = picture_clip c" by (simp add: picture_clip_def)
qed (simp_all add: picture_clip_def with_clip_montage_def clip_montage_or_default_def unwrap_or_def)

text \<open>A result with the picture it started from.\<close>

abbreviation keeps_picture :: "timeline \<Rightarrow> edited \<Rightarrow> bool" where
  "keeps_picture t \<equiv> gives (\<lambda>(m, t'). picture t' = picture t)"

lemma edit_clip_picture:
  assumes "\<And>c. gives (\<lambda>(m, c'). picture_clip c' = picture_clip c) (f c)"
  shows "keeps_picture t (edit_clip i label f loc t)"
  unfolding edit_clip_def
  by (intro gives_intros) (auto simp: lookup_eqs dest!: givesD [OF assms] intro: picture_with_clip)

lemma sound_edits_picture:
  "keeps_picture t (apply_set_volume i v loc t)" "keeps_picture t (apply_mute_clip i b loc t)"
  "keeps_picture t (apply_remove_audio i x y b loc t)" "keeps_picture t (apply_set_audio_fade i x y loc t)"
  "keeps_picture t (apply_set_clip_audio_fx i fx loc t)"
  unfolding apply_set_volume_def apply_mute_clip_def apply_remove_audio_def apply_set_audio_fade_def
    apply_set_clip_audio_fx_def Let_def
  by (intro gives_intros edit_clip_picture; simp add: picture_simps sound_effects_def)+

lemma bt_remove_insert_same: "bt_remove k (bt_insert k v m) = bt_remove k m"
  by (induction m) (auto simp: bt_remove_def)

lemma edit_audio_track_picture: "keeps_picture t (edit_audio_track i label f note n t)"
proof -
  have "picture_part (SC_Track (track_with_metadata (bt_insert audio_track_key v (track_metadata tr)) tr))
      = picture_part (SC_Track tr)" for tr v
    by (cases tr) (simp add: bt_remove_insert_same non_gap_count_def)
  then show ?thesis unfolding edit_audio_track_def
    by (intro gives_intros)
      (auto simp: gives_def picture_def picture_same_parts dest!: find_track_Some split: json.splits)
qed

lemma track_audio_picture:
  "keeps_picture t (apply_set_track_audio i n r v b s t)" "keeps_picture t (apply_set_ducking i n e d a r' t)"
  "keeps_picture t (apply_set_track_audio_fx i n fx t)"
  unfolding apply_set_track_audio_def apply_set_ducking_def apply_set_track_audio_fx_def Let_def
  by (intro gives_intros edit_audio_track_picture)+

lemma picture_empty_part: "picture_part (SC_Track (track_empty n k)) = []"
  by (simp add: track_empty_def non_gap_count_def)

lemma apply_insert_track_picture: "keeps_picture t (apply_insert_track i n k p t)"
proof -
  have "concat (map picture_part (insert_at j (SC_Track (track_empty m kind)) scs))
      = concat (map picture_part scs)" for j m kind scs
    unfolding insert_at_def map_append list.map concat_append concat.simps picture_empty_part append_Nil
    by (simp flip: concat_append map_append)
  then show ?thesis unfolding apply_insert_track_def Let_def
    by (intro gives_intros) (auto simp: picture_def)
qed

lemma apply_delete_track_picture: "keeps_picture t (apply_delete_track i n False t)"
proof -
  have "concat (map picture_part (remove_at j scs)) = concat (map picture_part scs)"
    if "j < length scs" "is_track_named m (scs ! j)" "\<not> 0 < non_gap_count (scs ! j)" for j m scs
  proof -
    have "picture_part (scs ! j) = []" using that(2,3)
      by (cases "scs ! j") (simp_all add: is_track_named_def)
    moreover have "concat (map picture_part scs) = concat (map picture_part (take j scs))
        @ picture_part (scs ! j) @ concat (map picture_part (drop (Suc j) scs))"
      by (subst id_take_nth_drop [OF that(1)]) simp
    ultimately show ?thesis by (simp add: remove_at_def)
  qed
  then show ?thesis unfolding apply_delete_track_def Let_def
    by (intro gives_intros) (auto simp: picture_def dest!: position_Some)
qed

lemma covering_track_bound:
  "covering_track x ti scs = Some (tj, ci, s) \<Longrightarrow>
     ti \<le> tj \<and> tj < ti + length scs \<and> ci < length (sc_children (scs ! (tj - ti)))"
proof (induction scs arbitrary: ti)
  case (Cons sc scs)
  show ?case
  proof (cases "covering_child x 0 (Fin 0) (sc_children sc)")
    case None
    with Cons.prems Cons.IH [of "Suc ti"] show ?thesis by (auto simp: nth_Cons' Suc_diff_le)
  next
    case (Some p)
    with Cons.prems show ?thesis by (cases p) (auto dest: covering_child_bound)
  qed
qed simp

lemma covered_slot:
  assumes "covering_track x 0 scs = Some (ti, ci, s)"
  shows "\<exists>tr. ti < length scs \<and> scs ! ti = SC_Track tr \<and> ci < length (track_children tr)"
  using covering_track_bound [OF assms] by (cases "scs ! ti") simp_all

lemma marker_edits_picture:
  "keeps_picture t (apply_professional_marker i x l k t)"
  "keeps_picture t (apply_update_marker i sel u ctx t)"
  "keeps_picture t (apply_delete_marker i sel ctx t)"
proof -
  show "keeps_picture t (apply_professional_marker i x l k t)"
    unfolding apply_professional_marker_def Let_def
    by (intro gives_intros)
      (auto dest!: covered_slot simp: picture_simps)
  show "keeps_picture t (apply_update_marker i sel u ctx t)"
    unfolding apply_update_marker_def Let_def
    by (intro gives_intros) (auto simp: lookup_eqs picture_simps)
  show "keeps_picture t (apply_delete_marker i sel ctx t)"
    unfolding apply_delete_marker_def Let_def
    by (intro gives_intros) (auto simp: lookup_eqs picture_simps)
qed

lemma lift_picture: "keeps_picture t r \<Longrightarrow> gives (\<lambda>(m, t', n). picture t' = picture t) (lift_edit seq r)"
  unfolding lift_edit_def by (intro gives_intros) (auto simp: gives_def)

lemma apply_one_picture:
  assumes "\<not> op_mutates_picture eop" and "\<not> slips_through eop"
  shows "gives (\<lambda>(m, t', n). picture t' = picture t) (apply_one clock ctx i eop loc t seq)"
proof (cases "\<exists>edit. eop = ProTimelineEdit edit")
  case True
  then obtain edit where edit: "eop = ProTimelineEdit edit" by blast
  have "gives (\<lambda>(m, t', n). picture t' = picture t) (run_pro_edit clock ctx i edit loc t seq)"
    using assms(1) unfolding edit
    by (cases edit) (auto intro: lift_picture marker_edits_picture)
  then show ?thesis unfolding edit apply_one.simps apply_professional_timeline_edit_def
    by (intro gives_intros) (auto simp: gives_def picture_simps)
next
  case False
  then show ?thesis using assms
    by (cases eop) (auto intro!: lift_picture
        intro: sound_edits_picture track_audio_picture apply_insert_track_picture apply_delete_track_picture)
qed

lemma apply_ops_picture:
  assumes "\<forall>eop \<in> set ops. \<not> op_mutates_picture eop \<and> \<not> slips_through eop"
  shows "gives (\<lambda>(a, t', n). picture t' = picture t) (apply_ops clock ctx i ops aliases t seq)"
  using assms
proof (induction ops arbitrary: i aliases t seq)
  case (Cons eop ops)
  have one: "gives (\<lambda>(m, t', n). picture t' = picture t) (apply_one clock ctx i eop loc t seq)" for loc
    using Cons.prems by (intro apply_one_picture) simp_all
  have "picture t' = picture t" if "apply_step clock ctx i eop aliases t seq = Inr (a, al, t', n)" for a al t' n
    using that by (auto simp: apply_step_def rbind_eq_Inr Let_def picture_simps dest!: givesD [OF one])
  then show ?case unfolding apply_ops.simps using Cons.prems
    by (intro gives_intros) (auto dest!: givesD [OF Cons.IH])
qed (simp add: gives_def)


section \<open>What slips through\<close>

text \<open>The timeline an edit leaves, without its description.\<close>

definition left_by :: "edited \<Rightarrow> timeline edit" where
  "left_by r = rbind r (\<lambda>(m, t'). Inr t')"

lemma with_track_twice:
  assumes "ti < length (tl_children t)" and "tl_children t ! ti = SC_Track tr"
  shows "with_track_children ti cs (with_track_children ti ds t) = with_track_children ti cs t"
  using assms by (cases tr; cases "tl_tracks t") (simp add: with_track_children_def with_tl_children_def tl_children_def)

text \<open>The picture lock refuses to move a clip to a time, but accepts a sync group with that time as its
  offset as a sound edit; that edit does to the timeline exactly what the refused move does to the clip it
  has stamped, so the picture moves under the lock.
\<close>

theorem sync_group_moves_under_lock:
  assumes "pl_locked lock" and "trim g \<noteq> []" and "is_finite off" and "flt (Fin 0) off"
    and "\<forall>f. factor = Some f \<longrightarrow> is_finite f \<and> \<not> fle f (Fin 0)" and "\<not> outside_unit conf"
    and "ti < length (tl_children t)" and "tl_children t ! ti = SC_Track tr"
    and "ci < length (track_children tr)" and "track_children tr ! ci = TC_Clip c"
    and "stamped = with_track_children ti
           ((track_children tr)[ci := TC_Clip (synced_clip g off factor conf c)]) t"
    and "loc = Some \<lparr>cl_track_index = ti, cl_child_index = ci\<rparr>"
  shows "check_envelope lock [SetSyncGroup a g off factor conf] = Inr ()
    \<and> check_envelope lock [MoveClip a pos (Some off) None] \<noteq> Inr ()
    \<and> left_by (apply_set_sync_group i g off factor conf loc t)
        = left_by (apply_move_clip i pos (Some off) None loc stamped)"
proof (intro conjI)
  let ?cs = "(track_children tr)[ci := TC_Clip (synced_clip g off factor conf c)]"
  have aligned: "fmax off (Fin 0) = off" using assms(3,4) by (auto simp: fmax_def float_simps)
  have factor: "\<not> (case factor of None \<Rightarrow> False | Some f \<Rightarrow> \<not> is_finite f \<or> fle f (Fin 0))"
    using assms(5) by (auto split: option.splits)
  have sync: "left_by (apply_set_sync_group i g off factor conf loc t)
      = rbind (apply_move_clip_to_time i (track_with_children ?cs tr) ci off)
          (\<lambda>(m, cs). Inr (with_track_children ti cs t))"
    unfolding apply_set_sync_group_def left_by_def Let_def aligned
    using assms(2-4,6-10) factor
    by (auto simp: assms(12) required_locator_def rbind_def split: sum.splits)
  have move: "left_by (apply_move_clip i pos (Some off) None loc stamped)
      = rbind (apply_move_clip_to_time i (track_with_children ?cs tr) ci off)
          (\<lambda>(m, cs). Inr (with_track_children ti cs stamped))"
    unfolding apply_move_clip_def left_by_def Let_def
    using assms(7-9)
    by (auto simp: assms(11,12) required_locator_def map_transpose_def resolve_snap_time_def rbind_def
        split: sum.splits)
  show "left_by (apply_set_sync_group i g off factor conf loc t)
      = left_by (apply_move_clip i pos (Some off) None loc stamped)"
    unfolding sync move by (simp add: assms(11) with_track_twice [OF assms(7,8)])
qed (use assms(1) in \<open>simp_all add: check_envelope_accepts\<close>)

lemma forced_delete_slips:
  assumes "pl_locked lock" and "trim n \<noteq> []" and "position (is_track_named (trim n)) (tl_children t) = Some j"
  shows "check_envelope lock [DeleteTrack n True] = Inr ()
    \<and> left_by (apply_delete_track i n True t) = Inr (with_tl_children (remove_at j (tl_children t)) t)"
  using assms by (simp add: check_envelope_accepts apply_delete_track_def left_by_def Let_def)

section \<open>Concrete runs\<close>

definition locked :: picture_lock where
  "locked = \<lparr>pl_locked = True, pl_reason = Some ''gates passed'', pl_updated_at = 0\<rparr>"

text \<open>The level of a clip set under lock.\<close>

definition quieter :: "clip \<Rightarrow> clip" where
  "quieter = replace_effect volume_effect (bt_of_list [(''value'', json_f64 (Fin (1 / 2)))])"

lemma quieter_shots_valid:
  "validate_for_test (prune_stale_split_edits (prune_stale_cut_boundaries
     (with_track_children 0 [TC_Clip (quieter clip_a), TC_Clip clip_b, TC_Clip clip_c] three_shots))) = Inr ()"
  by (simp add: three_shots_def quieter_def replace_effect_def clip_a_def clip_b_def clip_c_def sample_defs
      validate_for_test_def serde_round_trips_def with_track_children_def with_tl_children_def tl_children_def
      prune_stale_split_edits_def prune_track_split_edits_def prune_split_edit_for_clip_def map_montage_def
      prune_stale_cut_boundaries_def map_cut_boundaries_def opt_floats_def clip_floats_def range_floats_def
      time_floats_def override_floats_def clip_empty_def missing_reference_default_def Let_def fle_def)

lemma volume_under_lock:
  "\<exists>applied t'. apply_envelope (\<lambda>_. 0) no_sidecars [SetVolume (ClipUuid ''a'') (Fin (1 / 2))] three_shots 0
     = Inr (applied, t', 0)"
proof -
  obtain note' where "apply_set_volume 0 (Fin (1 / 2)) (Some \<lparr>cl_track_index = 0, cl_child_index = 0\<rparr>) three_shots
      = Inr (note', with_track_children 0 [TC_Clip (quieter clip_a), TC_Clip clip_b, TC_Clip clip_c] three_shots)"
    by (simp add: apply_set_volume_def edit_clip_def required_locator_def three_shots_track track_at_def vec_get_def
        clip_on_def quieter_def)
  then show ?thesis using three_shots_resolve(1) quieter_shots_valid
    by (simp add: apply_envelope_eq apply_step_def resolve_locator_for_op_def Let_def lift_edit_def)
qed


text \<open>The third child of a track, a clip at 25 s, is synced to 10 s: there it plays from then on.\<close>

lemma synced_clip_range [simp]:
  "clip_source_range (synced_clip g off factor conf c) = clip_source_range c"
  by (simp add: synced_clip_def Let_def replace_effect_def split: option.splits)

definition synced_b :: clip where
  "synced_b = synced_clip ''cam'' (Fin 10) None None (sample_clip ''b'' 0 3)"

definition synced_track :: track where
  "synced_track = sample_track [TC_Clip (sample_clip ''a'' 0 5), sample_gap 20, TC_Clip synced_b,
     TC_Clip (sample_clip ''c'' 0 4)]"

lemma synced_moves:
  "moves_clip (sample_timeline [SC_Track synced_track]) \<lparr>cl_track_index = 0, cl_child_index = 2\<rparr>
     synced_b synced_track (Fin 10)"
  "length (track_children synced_track) = 4" "span_of (track_children synced_track) = 32"
  "clip_source_range synced_b = clip_source_range (sample_clip ''b'' 0 3)"
  "blanked (track_children synced_track) 2 =
     [TC_Clip (sample_clip ''a'' 0 5), sample_gap 20, gap_child (Fin 3) (Fin 24),
      TC_Clip (sample_clip ''c'' 0 4)]"
  by (auto simp: moves_clip_def synced_track_def synced_b_def sample_simps slot_rate_def in_reach_def blanked_def
      to_seconds_def rational_time_new_def time_range_new_def)

theorem sync_group_moves_under_lock_witness:
  "\<exists>t' cs' before after.
    check_envelope locked [SetSyncGroup (ClipUuid ''b'') ''cam'' (Fin 10) None None] = Inr ()
    \<and> check_envelope locked [MoveClip (ClipUuid ''b'') 0 (Some (Fin 10)) None] \<noteq> Inr ()
    \<and> left_by (apply_set_sync_group 0 ''cam'' (Fin 10) None None
          (Some \<lparr>cl_track_index = 0, cl_child_index = 2\<rparr>) (sample_timeline [SC_Track three_clips])) = Inr t'
    \<and> tl_children t' = [SC_Track (track_with_children cs' synced_track)]
    \<and> placed 0 cs' = before @ (10, TC_Clip synced_b) # after"
proof -
  let ?loc = "Some \<lparr>cl_track_index = 0, cl_child_index = 2\<rparr>"
  obtain m t' cs' before after where
    move: "apply_move_clip 0 0 (Some (Fin 10)) None ?loc (sample_timeline [SC_Track synced_track]) = Inr (m, t')"
    and placed: "tl_children t' = [SC_Track (track_with_children cs' synced_track)]"
      "placed 0 cs' = before @ (10, TC_Clip synced_b) # after"
    using clip_into_gap [OF synced_moves(1), of 1, OF _ refl, of 0 0]
    by (auto simp: synced_moves sample_simps gap_child_def gap_of_duration_def fmul_def rational_time_zero_def
        to_seconds_def rational_time_new_def time_range_new_def)
  have name: "trim ''cam'' \<noteq> []" by code_simp
  have stamped: "sample_timeline [SC_Track synced_track] = with_track_children 0
      ((track_children three_clips)[2 := TC_Clip (synced_clip ''cam'' (Fin 10) None None (sample_clip ''b'' 0 3))])
      (sample_timeline [SC_Track three_clips])"
    by (simp add: synced_track_def synced_b_def three_clips_def with_track_children_def with_tl_children_def
        sample_timeline_def sample_track_def tl_children_def)
  have "check_envelope locked [SetSyncGroup (ClipUuid ''b'') ''cam'' (Fin 10) None None] = Inr ()
    \<and> check_envelope locked [MoveClip (ClipUuid ''b'') 0 (Some (Fin 10)) None] \<noteq> Inr ()
    \<and> left_by (apply_set_sync_group 0 ''cam'' (Fin 10) None None ?loc (sample_timeline [SC_Track three_clips]))
        = left_by (apply_move_clip 0 0 (Some (Fin 10)) None ?loc (sample_timeline [SC_Track synced_track]))"
    by (rule sync_group_moves_under_lock [OF _ name _ _ _ _ _ _ _ _ stamped refl, of locked])
      (simp_all add: locked_def outside_unit_def three_clips_def)
  moreover have "left_by (apply_move_clip 0 0 (Some (Fin 10)) None ?loc (sample_timeline [SC_Track synced_track])) = Inr t'"
    by (simp add: left_by_def move)
  ultimately show ?thesis using placed by fastforce
qed

end
