(* ===== verification/Edl_Sound_Props.thy ===== *)
theory Edl_Sound_Props
  imports Picture_Lock
begin

text \<open>
  What the sound edits leave behind: the last level set wins, and a J-cut or L-cut lives exactly as
  long as the neighbour it was authored against.
\<close>

section \<open>Levels\<close>

lemma replace_effect_twice [simp]:
  "replace_effect name m (replace_effect name m' c) = replace_effect name m c"
  by (simp add: replace_effect_def effect_new_def)

lemma edit_clip_slot:
  assumes "ti < length (tl_children t)" and "tl_children t ! ti = SC_Track tr"
    and "ci < length (track_children tr)" and "track_children tr ! ci = TC_Clip c"
    and "loc = Some \<lparr>cl_track_index = ti, cl_child_index = ci\<rparr>"
  shows "edit_clip i label f loc t =
    rbind (f c) (\<lambda>(m, c'). Inr (m, with_track_children ti ((track_children tr)[ci := TC_Clip c']) t))"
  using assms by (simp add: edit_clip_def required_locator_def)

text \<open>The values of the volume effects of a clip.\<close>

definition volumes :: "clip \<Rightarrow> json option list" where
  "volumes c = map (\<lambda>e. bt_get (ef_metadata e) ''value'')
     (filter (\<lambda>e. ef_effect_name e = volume_effect) (clip_effects c))"

text \<open>Setting the volume of a clip twice is setting it once to the last value: one effect, one value,
  and the other effects as they were.
\<close>

theorem last_volume_wins:
  assumes "ti < length (tl_children t)" and "tl_children t ! ti = SC_Track tr"
    and "ci < length (track_children tr)" and "track_children tr ! ci = TC_Clip c"
    and "loc = Some \<lparr>cl_track_index = ti, cl_child_index = ci\<rparr>"
    and "is_finite v" and "\<not> flt v (Fin 0)" and "is_finite w" and "\<not> flt w (Fin 0)"
  shows "\<exists>m1 t1 m2 m2' t2 c2. apply_set_volume i v loc t = Inr (m1, t1)
    \<and> apply_set_volume j w loc t1 = Inr (m2, t2) \<and> apply_set_volume j w loc t = Inr (m2', t2)
    \<and> t2 = with_track_children ti ((track_children tr)[ci := TC_Clip c2]) t
    \<and> volumes c2 = [Some (json_f64 w)]
    \<and> filter (\<lambda>e. ef_effect_name e \<noteq> volume_effect) (clip_effects c2)
        = filter (\<lambda>e. ef_effect_name e \<noteq> volume_effect) (clip_effects c)"
proof -
  define loud where "loud x = replace_effect volume_effect (bt_of_list [(''value'', json_f64 x)])" for x
  define t1 where "t1 = with_track_children ti ((track_children tr)[ci := TC_Clip (loud v c)]) t"
  define t2 where "t2 = with_track_children ti ((track_children tr)[ci := TC_Clip (loud w c)]) t"
  have run: "\<exists>m. apply_set_volume k x loc t = Inr (m, with_track_children ti ((track_children tr)[ci := TC_Clip (loud x c)]) t)"
    if "is_finite x" "\<not> flt x (Fin 0)" for k x
    using that by (simp add: apply_set_volume_def edit_clip_slot [OF assms(1-5)] loud_def)
  have t1: "ti < length (tl_children t1)"
    "tl_children t1 ! ti = SC_Track (track_with_children ((track_children tr)[ci := TC_Clip (loud v c)]) tr)"
    using assms(1,2) by (simp_all add: t1_def)
  have "with_track_children ti ((track_children tr)[ci := TC_Clip (loud w c)]) t1 = t2"
    unfolding t1_def t2_def by (rule with_track_twice [OF assms(1,2)])
  then have again: "\<exists>m. apply_set_volume j w loc t1 = Inr (m, t2)"
    using assms(3,8,9) edit_clip_slot [OF t1, of ci "loud v c" loc] assms(5)
    by (simp add: apply_set_volume_def loud_def)
  have "volumes (loud w c) = [Some (json_f64 w)]"
    "filter (\<lambda>e. ef_effect_name e \<noteq> volume_effect) (clip_effects (loud w c))
      = filter (\<lambda>e. ef_effect_name e \<noteq> volume_effect) (clip_effects c)"
    by (simp_all add: volumes_def loud_def replace_effect_def effect_new_def bt_of_list_def bt_get_def)
  with run [OF assms(6,7), of i] run [OF assms(8,9), of j] again show ?thesis
    unfolding t1_def t2_def by blast
qed

section \<open>J-cuts and L-cuts\<close>

fun offset_of :: "split_edit_kind \<Rightarrow> clip \<Rightarrow> f64 option" where
  "offset_of AudioLead c = Option.bind (mcm_split_edit (clip_montage_or_default c)) se_audio_lead_s"
| "offset_of AudioTrail c = Option.bind (mcm_split_edit (clip_montage_or_default c)) se_audio_trail_s"

text \<open>The clip on the other side of the cut.\<close>

fun neighbour :: "split_edit_kind \<Rightarrow> track_child list \<Rightarrow> nat \<Rightarrow> string option" where
  "neighbour AudioLead cs ci = previous_clip_id cs ci"
| "neighbour AudioTrail cs ci = next_clip_id cs ci"

fun split_edit_key :: "split_edit_kind \<Rightarrow> string \<Rightarrow> string \<Rightarrow> string" where
  "split_edit_key AudioLead cid other = cut_boundary_key other cid"
| "split_edit_key AudioTrail cid other = cut_boundary_key cid other"

fun split_edit_op :: "split_edit_kind \<Rightarrow> anchor \<Rightarrow> f64 \<Rightarrow> split_edit_spec option \<Rightarrow> edl_op" where
  "split_edit_op AudioLead a off given = SetAudioLead a off given"
| "split_edit_op AudioTrail a off given = SetAudioTrail a off given"

lemma neighbours_update [simp]:
  "previous_clip_id (cs[ci := c]) ci = previous_clip_id cs ci"
  "next_clip_id (cs[ci := c]) ci = next_clip_id cs ci"
  by (simp_all add: previous_clip_id_def next_clip_id_def)

lemma stamped_sides_kept:
  "offset_of kind (with_clip_montage (m\<lparr>mcm_split_edit := Some
     (stamped_split_edit kind off given from_id to_id spec)\<rparr>) c) = Some off"
  by (cases kind) (simp_all add: with_clip_montage_def clip_montage_or_default_def unwrap_or_def
      stamped_split_edit_def Let_def)

lemma pruned_offset:
  assumes "c' = with_clip_montage (m\<lparr>mcm_split_edit := Some
      (stamped_split_edit kind off given p n spec)\<rparr>) c"
  shows "offset_of kind (prune_split_edit_for_clip c' p n) =
    (if (case kind of AudioLead \<Rightarrow> p | AudioTrail \<Rightarrow> n) = None then None else Some off)"
  unfolding assms
  by (cases kind) (auto simp: prune_split_edit_for_clip_def map_montage_def with_clip_montage_def
      clip_montage_or_default_def unwrap_or_def stamped_split_edit_def prune_split_edit_def neighbour_matches_def
      Let_def split: option.splits)

lemma stamped_track:
  assumes "stamp_split_edit_on_clip i l kind off given t = Inr (name, cid, t0)"
  obtains tr c c1 where "cl_track_index l < length (tl_children t)"
    and "tl_children t ! cl_track_index l = SC_Track tr"
    and "cl_child_index l < length (track_children tr)"
    and "track_children tr ! cl_child_index l = TC_Clip c"
    and "cid = clip_id c"
    and "t0 = with_track_children (cl_track_index l) ((track_children tr)[cl_child_index l := TC_Clip c1]) t"
    and "offset_of kind (prune_split_edit_for_clip c1 (previous_clip_id (track_children tr) (cl_child_index l))
          (next_clip_id (track_children tr) (cl_child_index l)))
      = (if neighbour kind (track_children tr) (cl_child_index l) = None then None else Some off)"
proof -
  from assms obtain tr c where tr: "cl_track_index l < length (tl_children t)"
    "tl_children t ! cl_track_index l = SC_Track tr" "cl_child_index l < length (track_children tr)"
    "track_children tr ! cl_child_index l = TC_Clip c" "cid = clip_id c"
    and t0: "t0 = with_track_children (cl_track_index l) ((track_children tr)[cl_child_index l :=
        TC_Clip (with_clip_montage ((clip_montage_or_default c)\<lparr>mcm_split_edit := Some
          (stamped_split_edit kind off given (previous_clip_id (track_children tr) (cl_child_index l))
            (next_clip_id (track_children tr) (cl_child_index l))
            (unwrap_or split_edit_default (mcm_split_edit (clip_montage_or_default c))))\<rparr>) c)]) t"
    by (auto simp: stamp_split_edit_on_clip_def rbind_eq_Inr lookup_eqs Let_def)
  show thesis
    by (rule that [OF tr t0]) (cases kind; simp add: pruned_offset [OF refl])
qed

lemma boundary_ids_neighbour:
  assumes "cl_track_index l < length (tl_children t)" and "tl_children t ! cl_track_index l = SC_Track tr"
  shows "neighboring_boundary_ids t l cid kind =
    map_option (\<lambda>other. case kind of AudioLead \<Rightarrow> (other, cid) | AudioTrail \<Rightarrow> (cid, other))
      (neighbour kind (track_children tr) (cl_child_index l))"
  using assms by (cases kind) (simp_all add: neighboring_boundary_ids_def)

lemma stamped_boundary:
  assumes "cl_track_index l < length (tl_children t)" and "tl_children t ! cl_track_index l = SC_Track tr"
    and "neighbour kind (track_children tr) (cl_child_index l) = Some other"
  shows "bt_get (cut_boundaries (stamp_split_edit_cut_boundary l cid kind off given t)) (split_edit_key kind cid other)
    = Some (split_edit_cut_spec kind off given)"
  using assms(3)
  by (cases kind) (simp_all add: stamp_split_edit_cut_boundary_def boundary_ids_neighbour [OF assms(1,2)]
      insert_cut_boundary_def Let_def with_montage_def cut_boundaries_def)

lemma tl_children_stamped [simp]:
  "tl_children (stamp_split_edit_cut_boundary l cid kind off given t) = tl_children t"
  by (simp add: stamp_split_edit_cut_boundary_def insert_cut_boundary_def with_montage_def tl_children_def Let_def
      split: option.splits)

lemma clip_at_pruned:
  assumes "ti < length (tl_children t)" and "tl_children t ! ti = SC_Track tr"
    and "ci < length (track_children tr)" and "track_children tr ! ci = TC_Clip c"
  shows "clip_at (prune_stale_split_edits (prune_stale_cut_boundaries t)) \<lparr>cl_track_index = ti, cl_child_index = ci\<rparr>
    = Some (prune_split_edit_for_clip c (previous_clip_id (track_children tr) ci) (next_clip_id (track_children tr) ci))"
  using assms
  by (simp add: clip_at_def prune_stale_split_edits_def prune_stale_cut_boundaries_def flip: tl_children_def)
    (simp add: prune_track_split_edits_def nth_enumerate_eq)


section \<open>Concrete runs\<close>

theorem last_volume_wins_witness:
  "\<exists>m1 t1 m2 m2' t2 c2. apply_set_volume 0 (Fin 0) (Some \<lparr>cl_track_index = 0, cl_child_index = 0\<rparr>) three_shots = Inr (m1, t1)
    \<and> apply_set_volume 1 (Fin 2) (Some \<lparr>cl_track_index = 0, cl_child_index = 0\<rparr>) t1 = Inr (m2, t2)
    \<and> apply_set_volume 1 (Fin 2) (Some \<lparr>cl_track_index = 0, cl_child_index = 0\<rparr>) three_shots = Inr (m2', t2)
    \<and> tl_children t2 = [SC_Track (sample_track [TC_Clip c2, TC_Clip clip_b, TC_Clip clip_c])]
    \<and> volumes c2 = [Some (json_f64 (Fin 2))]"
proof -
  have "\<exists>m1 t1 m2 m2' t2 c2. apply_set_volume 0 (Fin 0) (Some \<lparr>cl_track_index = 0, cl_child_index = 0\<rparr>) three_shots = Inr (m1, t1)
    \<and> apply_set_volume 1 (Fin 2) (Some \<lparr>cl_track_index = 0, cl_child_index = 0\<rparr>) t1 = Inr (m2, t2)
    \<and> apply_set_volume 1 (Fin 2) (Some \<lparr>cl_track_index = 0, cl_child_index = 0\<rparr>) three_shots = Inr (m2', t2)
    \<and> t2 = with_track_children 0 ((track_children three_track)[0 := TC_Clip c2]) three_shots
    \<and> volumes c2 = [Some (json_f64 (Fin 2))]
    \<and> filter (\<lambda>e. ef_effect_name e \<noteq> volume_effect) (clip_effects c2)
        = filter (\<lambda>e. ef_effect_name e \<noteq> volume_effect) (clip_effects clip_a)"
    by (rule last_volume_wins) (simp_all add: three_shots_track)
  then obtain m1 t1 m2 m2' t2 c2 where
    "apply_set_volume 0 (Fin 0) (Some \<lparr>cl_track_index = 0, cl_child_index = 0\<rparr>) three_shots = Inr (m1, t1)"
    "apply_set_volume 1 (Fin 2) (Some \<lparr>cl_track_index = 0, cl_child_index = 0\<rparr>) t1 = Inr (m2, t2)"
    "apply_set_volume 1 (Fin 2) (Some \<lparr>cl_track_index = 0, cl_child_index = 0\<rparr>) three_shots = Inr (m2', t2)"
    "t2 = with_track_children 0 ((track_children three_track)[0 := TC_Clip c2]) three_shots"
    "volumes c2 = [Some (json_f64 (Fin 2))]"
    by blast
  then show ?thesis
    by (intro exI [of _ m1] exI [of _ t1] exI [of _ m2] exI [of _ m2'] exI [of _ t2] exI [of _ c2] conjI)
      (simp_all add: tl_children_with_track three_shots_track)
qed

lemma lead_steps:
  "\<exists>ao al t' n. apply_step (\<lambda>_. 0) no_sidecars 0 (split_edit_op AudioLead (ClipUuid ''a'') (Fin 1) None) []
     three_shots 0 = Inr (ao, al, t', n) \<and> ao_locator ao = Some \<lparr>cl_track_index = 0, cl_child_index = 0\<rparr>"
  "\<exists>ao al t' n. apply_step (\<lambda>_. 0) no_sidecars 0 (split_edit_op AudioLead (ClipUuid ''b'') (Fin 1) None) []
     three_shots 0 = Inr (ao, al, t', n) \<and> ao_locator ao = Some \<lparr>cl_track_index = 0, cl_child_index = 1\<rparr>"
  using three_shots_resolve
  by (simp_all add: apply_step_def resolve_locator_for_op_def Let_def lift_edit_def apply_split_edit_offset_def
      required_locator_def stamp_split_edit_on_clip_def three_shots_track outside_unit_def)


end
