(* ===== verification/Render_Props.thy ===== *)
theory Render_Props
  imports Render_Removals Edl_Sound_Props
begin

text \<open>
  What the plan of a render makes of a timeline: where a split edit puts its sound, that the gaps of
  the picture track are lost, and that the settings of the sound arrive as they were made.
\<close>

section \<open>Gaps of the picture track\<close>

lemma base_clip_pending:
  assumes "base_clip env c w = Inr w'"
  shows "bw_pending w' = None"
proof -
  obtain found where found: "collect_timeline_segment env c = Inr found" using assms
    by (cases "collect_timeline_segment env c") (simp_all add: base_clip_def)
  show ?thesis
  proof (cases found)
    case (Some seg)
    with assms found show ?thesis
      by (cases "bw_pending w") (auto simp: base_clip_def Let_def rbind_eq_Inr split: if_splits)
  qed (use assms found in \<open>auto simp: base_clip_def\<close>)
qed

lemma base_children_without_gaps:
  "\<not> list_ex is_transition cs \<Longrightarrow> bw_pending w = None \<Longrightarrow>
     base_children env cs w = base_children env (filter (\<lambda>c. \<not> is_gap c) cs) w"
proof (induction cs arbitrary: w)
  case (Cons c cs)
  then show ?case
  proof (cases c)
    case (TC_Clip x)
    with Cons base_clip_pending [of env x w] show ?thesis by (cases "base_clip env x w") simp_all
  next
    case (TC_Gap g)
    have w: "w\<lparr>bw_pending := None\<rparr> = w" using Cons.prems(2) by (cases w) simp
    have "base_children env (c # cs) w = base_children env cs w"
      unfolding TC_Gap base_children.simps w ..
    with TC_Gap Cons show ?thesis by simp
  next
    case (TC_Stack s)
    with Cons show ?thesis by (cases "nested_stack_segments env s") simp_all
  qed simp
qed simp

lemma merge_keeps_the_others:
  "filter (\<lambda>c. \<not> is_gap c) (merge_adjacent_gaps cs r) = filter (\<lambda>c. \<not> is_gap c) cs"
proof -
  have "filter (\<lambda>c. \<not> is_gap c) (rev (foldl (merge_step r) m cs)) =
      filter (\<lambda>c. \<not> is_gap c) (rev m) @ filter (\<lambda>c. \<not> is_gap c) cs" for m
    by (induction cs arbitrary: m)
      (auto simp: merge_step_def gap_child_def Let_def split: track_child.splits list.splits)
  from this [of "[]"] show ?thesis by (simp add: merge_adjacent_gaps_def)
qed

lemma transitions_are_no_gaps: "list_ex is_transition (filter (\<lambda>c. \<not> is_gap c) cs) = list_ex is_transition cs"
  by (induction cs) (auto split: track_child.splits elim: is_transition.elims)

lemma nothing_removed: "\<not> list_ex is_transition cs \<Longrightarrow> remove_transitions_around_child cs i = (0, cs)"
  by (auto simp: remove_transitions_around_child_def list_ex_length)

text \<open>A child of the root stack that is not a picture track.\<close>

fun beside_the_picture :: "stack_child \<Rightarrow> bool" where
  "beside_the_picture (SC_Track t) \<longleftrightarrow> track_kind t = Audio \<or> is_titles_track t \<or> is_annotations_track t"
| "beside_the_picture _ \<longleftrightarrow> True"

lemma same_track_role [simp]:
  "is_titles_track (track_with_children cs t) = is_titles_track t"
  "is_annotations_track (track_with_children cs t) = is_annotations_track t"
  "track_kind (track_with_children cs t) = track_kind t"
  by (cases t; simp add: is_titles_track_def is_annotations_track_def)+

lemma same_picture_same_plan:
  assumes "list_all beside_the_picture before" and "\<not> beside_the_picture (SC_Track tr)"
    and "\<not> list_ex is_transition cs" and "\<not> list_ex is_transition ds"
    and "filter (\<lambda>c. \<not> is_gap c) cs = filter (\<lambda>c. \<not> is_gap c) ds"
  shows "plan_children env False (before @ SC_Track (track_with_children cs tr) # rest) p =
    plan_children env False (before @ SC_Track (track_with_children ds tr) # rest) p"
  using assms(1)
proof (induction before arbitrary: p)
  case Nil
  let ?w = "\<lparr>bw_segs = [], bw_transitions = [], bw_pending = None, bw_saw_clip = False\<rparr>"
  have "base_children env cs ?w = base_children env ds ?w"
    using base_children_without_gaps [OF assms(3), of ?w env] base_children_without_gaps [OF assms(4), of ?w env] assms(5)
    by simp
  then show ?case using assms(2) by simp
next
  case (Cons b bs)
  then show ?case
  proof (cases b)
    case (SC_Track t)
    with Cons show ?thesis by (cases "collect_audio_track_plan env t") (auto simp: rbind_def)
  qed simp_all
qed

text \<open>C22: Deleting a clip puts a gap in its place so that the clips after it do not shift, but the plan of a render
  skips the gaps of the picture track: the render of the timeline after the delete is the render after a
  ripple delete, with every later shot earlier, for any clip of a picture track without transitions.
\<close>

theorem deleted_clip_leaves_no_black:
  assumes "clip_at tml l = Some c" and "clip_link_group_id c = None"
    and "is_finite (child_duration (TC_Clip c))" and "0 < dur (TC_Clip c)"
    and "tl_children tml = before @ SC_Track tr # rest" and "cl_track_index l = length before"
    and "list_all beside_the_picture before" and "\<not> beside_the_picture (SC_Track tr)"
    and "\<not> list_ex is_transition (track_children tr)"
  shows "\<exists>d1 deleted d2 rippled.
    apply_delete index (Some l) tml = Inr (d1, deleted)
    \<and> apply_ripple_delete index (Some l) tml = Inr (d2, rippled)
    \<and> collect_timeline_full_plan env deleted = collect_timeline_full_plan env rippled"
proof -
  let ?cs = "track_children tr" and ?i = "cl_child_index l" and ?r = "slot_rate (TC_Clip c)"
  have tr: "tl_children tml ! cl_track_index l = SC_Track tr" using assms(5,6) by simp
  from clip_atE [OF assms(1)] tr have i: "?i < length ?cs" and c: "?cs ! ?i = TC_Clip c" by auto
  let ?gap = "?cs[?i := gap_child (child_duration (TC_Clip c)) ?r]"
  have parts: "?cs = take ?i ?cs @ TC_Clip c # drop (Suc ?i) ?cs" using id_take_nth_drop [OF i] c by simp
  have none: "\<not> list_ex is_transition (take ?i ?cs)" "\<not> list_ex is_transition (drop (Suc ?i) ?cs)"
    using assms(9) by (subst (asm) parts, simp)+
  then have gap: "\<not> list_ex is_transition ?gap" using i by (simp add: list_update_parts gap_child_def)
  note nothing_removed [OF gap, of ?i]
  from apply_delete_run [OF assms(1) tr this] obtain d1 where d1: "apply_delete index (Some l) tml =
    Inr (d1, remove_cut_boundaries_for_clip (clip_id c)
      (with_track_children (cl_track_index l) (merge_adjacent_gaps ?gap ?r) tml))" by blast
  have "\<not> fle (child_duration (TC_Clip c)) (Fin 0)"
    using assms(3,4) by (simp add: finite_compare dur_def del: child_duration.simps)
  then obtain d2 where d2: "apply_ripple_delete index (Some l) tml =
      Inr (d2, with_track_children (cl_track_index l) (remove_at ?i ?cs) tml)"
    using tr assms(2,5,6) i c
    by (simp add: apply_ripple_delete_def required_locator_def Let_def del: child_duration.simps)
  have "filter (\<lambda>c. \<not> is_gap c) (merge_adjacent_gaps ?gap ?r) = filter (\<lambda>c. \<not> is_gap c) (remove_at ?i ?cs)"
    using i by (simp add: merge_keeps_the_others list_update_parts remove_at_def gap_child_def)
  moreover have "\<not> list_ex is_transition (merge_adjacent_gaps ?gap ?r)"
    using gap by (metis merge_keeps_the_others transitions_are_no_gaps)
  moreover have "\<not> list_ex is_transition (remove_at ?i ?cs)" using none by (simp add: remove_at_def)
  ultimately have "plan_children env False (before @ SC_Track (track_with_children (merge_adjacent_gaps ?gap ?r) tr) # rest) p
      = plan_children env False (before @ SC_Track (track_with_children (remove_at ?i ?cs) tr) # rest) p" for p
    by (intro same_picture_same_plan assms(7,8))
  then have "collect_timeline_full_plan env (remove_cut_boundaries_for_clip (clip_id c)
      (with_track_children (cl_track_index l) (merge_adjacent_gaps ?gap ?r) tml))
    = collect_timeline_full_plan env (with_track_children (cl_track_index l) (remove_at ?i ?cs) tml)"
    using assms(5,6) by (simp add: collect_timeline_full_plan_def tl_children_with_track)
  with d1 d2 show ?thesis by blast
qed

section \<open>The sound of a split edit\<close>

lemma lead_trail_nonneg: "0 \<le> fval (lead_of seg)" "0 \<le> fval (trail_of seg)"
  by (auto simp: lead_of_def trail_of_def normalized_split_offset_def finite_compare split: option.splits)

lemma sum_in_grid:
  assumes "in_reach x" and "in_reach y"
  shows "on_grid (fadd x y)" "fval (fadd x y) = fval x + fval y" "on_grid (fsub x y)" "fval (fsub x y) = fval x - fval y"
proof -
  have x: "on_grid x" "on_grid y" "\<bar>fval x + fval y\<bar> < 2 ^ 44" "\<bar>fval x - fval y\<bar> < 2 ^ 44"
    using assms by (auto simp: in_reach_def abs_le_iff)
  show "on_grid (fadd x y)" "fval (fadd x y) = fval x + fval y" using fadd_grid [OF x(1-3)] by simp_all
  show "on_grid (fsub x y)" "fval (fsub x y) = fval x - fval y" using fsub_grid [OF x(1,2,4)] by simp_all
qed

text \<open>C26: The sound of a J-cut or L-cut is heard at the seconds of the picture it belongs to when the lead
  fits before the picture; when the lead is longer than what precedes the clip, the whole sound of the clip
  is late by the excess.
\<close>

theorem split_edit_sound_is_late:
  assumes "ts_speed seg = None" and "ts_time_remap seg = None"
    and "\<not> ts_audio_muted seg" and "ts_audio_removed_ranges seg = []"
    and "in_reach (ts_start_s seg)" and "in_reach (ts_duration_s seg)" and "in_reach p"
    and "in_reach (lead_of seg)" and "in_reach (trail_of seg)" and "in_reach (fadd (lead_of seg) (trail_of seg))"
    and "0 \<le> fval p" and "synthesized_track idx p seg = Inr t"
    and "- fval (lead_of seg) \<le> x" and "x < fval (ts_duration_s seg) + fval (trail_of seg)"
  shows "heard 0 (atp_items t) (fval p + x + max 0 (fval (lead_of seg) - fval p))
    = Some (ts_asset_path seg, fval (ts_start_s seg) + x)"
proof -
  let ?L = "lead_of seg" and ?T = "trail_of seg" and ?one = "Fin 1"
  have one: "segment_speed seg = ?one" "whole_rate ?one" using assms(1,2) by (simp_all add: segment_speed_def whole_rate_def)
  let ?S = "fmul ?L ?one" and ?E = "fmul (fadd ?L ?T) ?one"
  have S: "on_grid ?S" "fval ?S = fval ?L" "in_reach ?S"
    using frames_grid [OF assms(8) one(2)] assms(8) by (simp_all add: in_reach_def)
  note LT = sum_in_grid [OF assms(8,9)]
  have E: "on_grid ?E" "fval ?E = fval ?L + fval ?T" "in_reach ?E"
    using frames_grid [OF assms(10) one(2)] assms(10) LT(2) by (simp_all add: in_reach_def)
  note start = sum_in_grid(4) [OF assms(5) S(3)] and duration = sum_in_grid(2) [OF assms(6) E(3)]
    and early = sum_in_grid(3,4) [OF assms(7,8)]
  let ?a = "fmax (fsub p ?L) (Fin 0)"
  have a: "flt (Fin 0) ?a \<longleftrightarrow> 0 < max 0 (fval p - fval ?L)" "fval ?a = max 0 (fval p - fval ?L)"
    using early on_grid_finite [OF early(1)] by (auto simp: fmax_def finite_compare)
  have items: "atp_items t = (if 0 < max 0 (fval p - fval ?L) then [AI_Gap ?a] else []) @
      [segment_audio seg (fsub (ts_start_s seg) ?S) (fadd (ts_duration_s seg) ?E)]"
    using assms(3,4,12) a(1) unfolding synthesized_track_def Let_def one(1)
    by (cases "validate_split_edit_handles seg ?L ?T") auto
  note plain = plain_rate [OF assms(1)]
  show ?thesis using lead_trail_nonneg [of seg] assms(11,13,14)
    unfolding items by (auto simp: plain start duration S(2) E(2) a(2) max_def)
qed

section \<open>Levels and speeds\<close>

lemma find_replaced:
  "List.find (\<lambda>e. ef_effect_name e = n) (clip_effects (replace_effect name m c)) =
     (if n = name then Some (effect_new name m) else List.find (\<lambda>e. ef_effect_name e = n) (clip_effects c))"
proof -
  have "List.find (\<lambda>e. ef_effect_name e = n) (filter (\<lambda>e. ef_effect_name e \<noteq> name) es @ [effect_new name m]) =
     (if n = name then Some (effect_new name m) else List.find (\<lambda>e. ef_effect_name e = n) es)" for es
    by (induction es) (auto simp: effect_new_def)
  then show ?thesis by (simp add: replace_effect_def)
qed

lemma read_replaced:
  "read_effect (replace_effect name m c) n field = (if n = name then bt_get m field else read_effect c n field)"
  unfolding read_effect_def find_replaced by (simp add: effect_new_def)

lemma replaced_clip [simp]:
  "clip_media_reference (replace_effect name m c) = clip_media_reference c"
  "clip_source_range (replace_effect name m c) = clip_source_range c"
  "clip_name (replace_effect name m c) = clip_name c" "clip_metadata (replace_effect name m c) = clip_metadata c"
  by (simp_all add: replace_effect_def)

lemmas reads = read_effect_number_def read_effect_bool_def read_effect_string_def read_replaced

lemma luts_replaced: "check_luts env (replace_effect name m c) f keys = check_luts env c f keys"
  by (induction keys) (simp_all add: Let_def split: option.splits)

lemma points_replaced: "read_points (replace_effect name m c) i ps = read_points c i ps"
  by (induction c i ps rule: read_points.induct) (simp_all split: option.splits)

lemma order_replaced: "check_points (replace_effect name m c) ps = check_points c ps"
  by (induction c ps rule: check_points.induct) simp_all

lemma replaced_reads:
  "name \<noteq> ''montage.speed'' \<Longrightarrow> read_speed (replace_effect name m c) = read_speed c"
  "name \<noteq> ''montage.freeze'' \<Longrightarrow> read_freeze (replace_effect name m c) = read_freeze c"
  "name \<noteq> ''montage.time_remap'' \<Longrightarrow> read_time_remap (replace_effect name m c) = read_time_remap c"
  "name \<noteq> ''montage.color_pipeline'' \<Longrightarrow>
     check_color_pipeline env (replace_effect name m c) = check_color_pipeline env c"
  by (simp_all add: read_speed_def read_freeze_def read_time_remap_def check_color_pipeline_def reads find_replaced
      luts_replaced points_replaced order_replaced cong: if_cong option.case_cong)

lemma collected_reads:
  assumes "collect_timeline_segment env c = Inr (Some seg)"
  shows "ts_volume seg = read_effect_number c ''montage.volume'' ''value''" "ts_speed seg = read_speed c"
    "ts_freeze seg = read_freeze c"
  using assms by (auto simp: collect_timeline_segment_def rbind_eq_Inr Let_def
    split: media_reference.splits option.splits if_splits)

lemma collect_replaced:
  assumes "collect_timeline_segment env c = Inr (Some seg)"
    and "name \<notin> {''montage.lut'', ''montage.color_pipeline'', ''montage.time_remap''}"
  shows "collect_timeline_segment env (replace_effect name m c) = Inr (Some (seg
    \<lparr>ts_volume := read_effect_number (replace_effect name m c) ''montage.volume'' ''value'',
     ts_speed := read_speed (replace_effect name m c), ts_freeze := read_freeze (replace_effect name m c)\<rparr>))"
proof -
  from assms(2) have "read_effect_string (replace_effect name m c) ''montage.lut'' ''lut_path''
      = read_effect_string c ''montage.lut'' ''lut_path''" by (auto simp: reads)
  with assms show ?thesis by (auto simp: collect_timeline_segment_def rbind_eq_Inr Let_def replaced_reads
      clip_override_def clip_split_def split: media_reference.splits option.splits if_splits)
qed

text \<open>The volume set on a clip, and the speed, are the numbers the segment of the render plan has, bit for
  bit, and nothing else of the segment changes.
\<close>

theorem levels_reach_the_render:
  assumes "ti < length (tl_children t)" and "tl_children t ! ti = SC_Track tr"
    and "ci < length (track_children tr)" and "track_children tr ! ci = TC_Clip c"
    and "loc = Some \<lparr>cl_track_index = ti, cl_child_index = ci\<rparr>"
    and "collect_timeline_segment env c = Inr (Some seg)"
    and "is_f64 v" and "\<not> flt v (Fin 0)" and "is_f64 r" and "flt (Fin 0) r"
  shows "\<exists>m1 c1 m2 c2.
    apply_set_volume i v loc t = Inr (m1, with_track_children ti ((track_children tr)[ci := TC_Clip c1]) t)
    \<and> collect_timeline_segment env c1 = Inr (Some (seg\<lparr>ts_volume := Some v\<rparr>))
    \<and> apply_set_speed i r loc t = Inr (m2, with_track_children ti ((track_children tr)[ci := TC_Clip c2]) t)
    \<and> collect_timeline_segment env c2 = Inr (Some (seg\<lparr>ts_speed := Some
        \<lparr>sp_factor = r, sp_reverse = False, sp_maintain_pitch = True, sp_frame_blending = Nearest\<rparr>\<rparr>))"
proof -
  let ?loud = "replace_effect volume_effect (bt_of_list [(''value'', json_f64 v)]) c"
    and ?fast = "replace_effect speed_effect (bt_of_list [(''factor'', json_f64 r)]) c"
  have fin: "is_finite v" "is_finite r" "\<not> fle r (Fin 0)"
    using assms(7,9,10) by (auto simp: is_f64_def finite_compare)
  have run: "\<exists>m1. apply_set_volume i v loc t = Inr (m1, with_track_children ti ((track_children tr)[ci := TC_Clip ?loud]) t)"
    "\<exists>m2. apply_set_speed i r loc t = Inr (m2, with_track_children ti ((track_children tr)[ci := TC_Clip ?fast]) t)"
    using assms(8) fin by (simp_all add: apply_set_volume_def apply_set_speed_def edit_clip_slot [OF assms(1-5)])
  note stored = json_f64_round_trip [OF assms(7)] json_f64_round_trip [OF assms(9)]
  have "collect_timeline_segment env ?loud = Inr (Some (seg\<lparr>ts_volume := Some v\<rparr>))"
    using collect_replaced [OF assms(6)] stored collected_reads [OF assms(6)]
    by (cases seg) (simp add: replaced_reads reads volume_effect_def bt_of_list_def bt_get_def)
  moreover have fast: "read_speed ?fast = Some
      \<lparr>sp_factor = r, sp_reverse = False, sp_maintain_pitch = True, sp_frame_blending = Nearest\<rparr>"
    using stored fin by (simp add: read_speed_def reads speed_effect_def bt_of_list_def bt_get_def unwrap_or_def)
  have "collect_timeline_segment env ?fast = Inr (Some (seg\<lparr>ts_speed := Some
      \<lparr>sp_factor = r, sp_reverse = False, sp_maintain_pitch = True, sp_frame_blending = Nearest\<rparr>\<rparr>))"
    using collect_replaced [OF assms(6), of speed_effect] fast collected_reads [OF assms(6)]
    by (cases seg) (simp add: replaced_reads reads fast speed_effect_def)
  ultimately show ?thesis using run by blast
qed

section \<open>The controls of an audio track\<close>

lemma metadata_of_track [simp]:
  "track_metadata (track_with_metadata m tr) = m" "track_name (track_with_metadata m tr) = track_name tr"
  "track_kind (track_with_metadata m tr) = track_kind tr" "track_children (track_with_metadata m tr) = track_children tr"
  "track_with_metadata m' (track_with_metadata m tr) = track_with_metadata m' tr"
  by (cases tr; simp)+

text \<open>What an edit of an audio track does, in one equation.\<close>

lemma edit_audio_track_Inr:
  assumes "edit_audio_track i label f note name t = Inr (m, t')"
  obtains ti tr ctl where "find_track t name = Some (ti, tr)"
    and "unwrap_or (JObj []) (bt_get (track_metadata tr) audio_track_key) = JObj ctl"
    and "tl_children t' = (tl_children t)[ti :=
      SC_Track (track_with_metadata (bt_insert audio_track_key (JObj (f ctl)) (track_metadata tr)) tr)]"
    and "find_track t' name = Some (ti, track_with_metadata (bt_insert audio_track_key (JObj (f ctl)) (track_metadata tr)) tr)"
proof -
  from assms obtain ti tr ctl where found: "find_track t name = Some (ti, tr)"
    and ctl: "unwrap_or (JObj []) (bt_get (track_metadata tr) audio_track_key) = JObj ctl"
    and t': "tl_children t' = (tl_children t)[ti :=
      SC_Track (track_with_metadata (bt_insert audio_track_key (JObj (f ctl)) (track_metadata tr)) tr)]"
    by (auto simp: edit_audio_track_def split: option.splits if_splits json.splits)
  from found have p: "position (is_track_named name) (tl_children t) = Some ti" and tr: "tl_children t ! ti = SC_Track tr"
    by (auto simp: find_track_def split: bind_splits stack_child.splits)
  with position_Some [OF p] position_update [OF p, of "SC_Track (track_with_metadata (bt_insert audio_track_key (JObj (f ctl)) (track_metadata tr)) tr)"]
  have "find_track t' name = Some (ti, track_with_metadata (bt_insert audio_track_key (JObj (f ctl)) (track_metadata tr)) tr)"
    by (simp add: find_track_def t' is_track_named_def)
  with found ctl t' that show ?thesis by blast
qed

text \<open>The settings of a track that holds a control object.\<close>

definition read_controls :: "string \<Rightarrow> json_map \<Rightarrow> audio_track_plan" where
  "read_controls n m = parse_audio_track_settings (Track n Audio [] None [(audio_track_key, JObj m)])"

lemma parse_controls:
  assumes "unwrap_or (JObj []) (bt_get (track_metadata tr) audio_track_key) = JObj m"
  shows "parse_audio_track_settings tr = read_controls (track_name tr) m"
  using assms
  by (cases "bt_get (track_metadata tr) audio_track_key")
    (auto simp: read_controls_def parse_audio_track_settings_def audio_track_key_def bt_get_def json_str_field_def
      bool_or_def unwrap_or_def)

lemma bt_get_Cons: "bt_get ((k, v) # m) j = (if j = k then Some v else bt_get m j)"
  by (simp add: bt_get_def)

lemma read_controls_insert:
  "read_controls n (bt_insert ''role'' (JStr r) m) = (read_controls n m)\<lparr>atp_role := r\<rparr>"
  "read_controls n (bt_insert ''muted'' (JBool b) m) = (read_controls n m)\<lparr>atp_muted := b\<rparr>"
  "read_controls n (bt_insert ''solo'' (JBool b) m) = (read_controls n m)\<lparr>atp_solo := b\<rparr>"
  "is_f64 v \<Longrightarrow> \<not> flt v (Fin 0) \<Longrightarrow>
     read_controls n (bt_insert ''volume'' (json_f64 v) m) = (read_controls n m)\<lparr>atp_volume := v\<rparr>"
  "is_f64 x \<Longrightarrow> is_f64 y \<Longrightarrow> is_f64 z \<Longrightarrow>
     read_controls n (bt_insert ''ducking'' (json_object [(''enabled'', JBool b), (''amount_db'', json_f64 x),
       (''attack_ms'', json_f64 y), (''release_ms'', json_f64 z)]) m) = (read_controls n m)\<lparr>atp_ducking :=
         Some \<lparr>dk_enabled = b, dk_amount_db = x, dk_attack_ms = y, dk_release_ms = z\<rparr>\<rparr>"
  using json_f64_round_trip
  by (auto simp: read_controls_def parse_audio_track_settings_def audio_track_key_def bt_get_Cons json_str_field_def
      bool_or_def number_or_def unwrap_or_def json_object_def bt_of_list_def is_f64_def finite_compare not_less)

lemma small_f64: "\<bar>n\<bar> < 2 ^ 53 \<Longrightarrow> is_f64 (Fin (of_int n))"
  using representable_dyadic [of n 0] by (auto simp: is_f64_def)

text \<open>The controls of an audio track and then its ducking, each left out or given, arrive together in the
  plan of the track: what was given replaces what the plan had, what was left out stays, and the
  unset ducking values are the defaults.
\<close>

theorem track_sound_reaches_the_render:
  assumes "apply_set_track_audio i name role volume muted solo t = Inr (m1, t1)"
    and "apply_set_ducking j name enabled amount attack release t1 = Inr (m2, t2)"
    and "list_all is_f64 (map (unwrap_or (Fin 0)) [volume, amount, attack, release])"
  shows "\<exists>ti tr tr2. find_track t name = Some (ti, tr)
    \<and> tl_children t2 = (tl_children t)[ti := SC_Track tr2] \<and> track_children tr2 = track_children tr
    \<and> parse_audio_track_settings tr2 = (let p = parse_audio_track_settings tr
        in p\<lparr>atp_role := unwrap_or (atp_role p) role, atp_volume := unwrap_or (atp_volume p) volume,
             atp_muted := unwrap_or (atp_muted p) muted, atp_solo := unwrap_or (atp_solo p) solo,
             atp_ducking := Some \<lparr>dk_enabled = unwrap_or True enabled, dk_amount_db = unwrap_or (Fin (- 12)) amount,
               dk_attack_ms = unwrap_or (Fin 80) attack, dk_release_ms = unwrap_or (Fin 300) release\<rparr>\<rparr>)"
proof -
  have f64: "is_f64 (unwrap_or (Fin (- 12)) amount)" "is_f64 (unwrap_or (Fin 80) attack)"
    "is_f64 (unwrap_or (Fin 300) release)" "\<And>v. volume = Some v \<Longrightarrow> is_f64 v"
    using assms(3) small_f64 [of "- 12"] small_f64 [of 80] small_f64 [of 300] by (auto simp: unwrap_or_def split: option.splits)
  obtain f1 l1 n1 where e1: "edit_audio_track i l1 f1 n1 name t = Inr (m1, t1)"
    and f1: "\<And>n m. read_controls n (f1 m) = (let p = read_controls n m
      in p\<lparr>atp_role := unwrap_or (atp_role p) role, atp_volume := unwrap_or (atp_volume p) volume,
           atp_muted := unwrap_or (atp_muted p) muted, atp_solo := unwrap_or (atp_solo p) solo\<rparr>)"
  proof (cases volume)
    case None
    with assms(1) show ?thesis by (intro that) (auto simp: apply_set_track_audio_def insert_opt_def unwrap_or_def
      read_controls_insert Let_def split: option.splits)
  next
    case (Some v)
    with assms(1) f64(4) [OF Some] show ?thesis
      by (intro that) (auto simp: apply_set_track_audio_def insert_opt_def unwrap_or_def
        read_controls_insert Let_def split: option.splits if_splits)
  qed
  obtain f2 l2 n2 where e2: "edit_audio_track j l2 f2 n2 name t1 = Inr (m2, t2)"
    and f2: "\<And>n m. read_controls n (f2 m) = (read_controls n m)\<lparr>atp_ducking := Some
      \<lparr>dk_enabled = unwrap_or True enabled, dk_amount_db = unwrap_or (Fin (- 12)) amount,
       dk_attack_ms = unwrap_or (Fin 80) attack, dk_release_ms = unwrap_or (Fin 300) release\<rparr>\<rparr>"
    using assms(2) f64 read_controls_insert(5)
    by (auto simp: apply_set_ducking_def Let_def split: if_splits)
  from edit_audio_track_Inr [OF e1] obtain ti tr ctl where one: "find_track t name = Some (ti, tr)"
    "unwrap_or (JObj []) (bt_get (track_metadata tr) audio_track_key) = JObj ctl"
    "tl_children t1 = (tl_children t)[ti := SC_Track (track_with_metadata (bt_insert audio_track_key (JObj (f1 ctl)) (track_metadata tr)) tr)]"
    "find_track t1 name = Some (ti, track_with_metadata (bt_insert audio_track_key (JObj (f1 ctl)) (track_metadata tr)) tr)"
    by metis
  from edit_audio_track_Inr [OF e2] one(4) obtain tr2 where
    "tl_children t2 = (tl_children t1)[ti := SC_Track tr2]"
    "tr2 = track_with_metadata (bt_insert audio_track_key (JObj (f2 (f1 ctl))) (bt_insert audio_track_key (JObj (f1 ctl)) (track_metadata tr))) tr"
    by (auto simp: unwrap_or_def)
  then show ?thesis using one(1,3) parse_controls [OF one(2)] parse_controls [of tr2 "f2 (f1 ctl)"] f1 f2
    by (intro exI [of _ ti] exI [of _ tr] exI [of _ tr2]) (simp add: unwrap_or_def Let_def)
qed

section \<open>Examples\<close>

text \<open>A project every file of which exists, with every transition renderable.\<close>

definition plain_env :: render_env where
  "plain_env = \<lparr>re_root = ''/p'', re_exists = (\<lambda>_. True), re_xfade = (\<lambda>_. Inr (Some ''fade'')),
     re_composition = (\<lambda>_. Inr ())\<rparr>"

text \<open>A shot of five seconds with a file, and a track of three of them.\<close>

definition shot :: "string \<Rightarrow> clip" where
  "shot name = (sample_clip name 0 5)\<lparr>clip_media_reference :=
     MR_External \<lparr>er_target_url = name, er_available_range = None, er_metadata = []\<rparr>\<rparr>"

definition shot_track :: track where
  "shot_track = sample_track [TC_Clip (shot ''a''), TC_Clip (shot ''b''), TC_Clip (shot ''c'')]"

lemma shot_facts:
  "clip_at (sample_timeline [SC_Track shot_track]) \<lparr>cl_track_index = 0, cl_child_index = 1\<rparr> = Some (shot ''b'')"
  "clip_link_group_id (shot n) = None" "is_finite (child_duration (TC_Clip (shot n)))" "dur (TC_Clip (shot n)) = 5"
  "\<not> beside_the_picture (SC_Track shot_track)"
  "track_children shot_track = [TC_Clip (shot ''a''), TC_Clip (shot ''b''), TC_Clip (shot ''c'')]"
  by (simp_all add: shot_track_def shot_def sample_defs sample_track_def clip_at_def clip_link_group_id_def clip_extra_str_def
      is_titles_track_def is_annotations_track_def sample_simps)

theorem deleted_clip_leaves_no_black_witness:
  "\<exists>d1 deleted d2 rippled.
    apply_delete 0 (Some \<lparr>cl_track_index = 0, cl_child_index = 1\<rparr>) (sample_timeline [SC_Track shot_track]) = Inr (d1, deleted)
    \<and> apply_ripple_delete 0 (Some \<lparr>cl_track_index = 0, cl_child_index = 1\<rparr>) (sample_timeline [SC_Track shot_track])
        = Inr (d2, rippled)
    \<and> collect_timeline_full_plan plain_env deleted = collect_timeline_full_plan plain_env rippled"
  by (rule deleted_clip_leaves_no_black [of _ _ "shot ''b''" "[]" shot_track "[]"])
    (simp_all add: shot_facts del: child_duration.simps beside_the_picture.simps)

lemma plus_micro: "on_grid x \<Longrightarrow> \<bar>fval x\<bar> \<le> 2 ^ 21 \<Longrightarrow> is_finite (fadd x micro) \<and> fval x - 1 / 512 \<le> fval (fadd x micro)"
proof -
  assume x: "on_grid x" "\<bar>fval x\<bar> \<le> 2 ^ 21"
  have exps: "int 0 - 54 = - 54" "int 22 - 54 = - 32" by simp_all
  have small: "(2::rat) powi (- 54) = inverse (2 ^ 54)" "(2::rat) powi (- 32) = inverse (2 ^ 32)"
    by (simp_all only: power_int_minus power_int_numeral)
  have m: "is_finite micro" "\<bar>fval micro - 1 / 10 ^ 6\<bar> \<le> inverse (2 ^ 54)"
    using rnd_near [of "1 / 10 ^ 6" 0 False] by (simp_all add: micro_def f64_lit_def exps small)
  have "\<bar>fval x + fval micro\<bar> < 2 ^ 22" using x(2) m(2) unfolding abs_le_iff by (simp add: abs_less_iff field_simps)
  from rnd_near [OF this, of False]
  have "is_finite (fadd x micro)" "\<bar>fval (fadd x micro) - (fval x + fval micro)\<bar> \<le> inverse (2 ^ 32)"
    using fadd_finite [OF on_grid_finite [OF x(1)] m(1)] by (simp_all add: exps small)
  then show ?thesis using m(2) unfolding abs_le_iff by (simp add: field_simps)
qed

theorem split_edit_sound_is_late_witness:
  "\<exists>t. synthesized_track 0 (Fin 0) (trimmed_interview\<lparr>ts_audio_removed_ranges := [], ts_audio_lead_s := Some (Fin (1 / 2))\<rparr>) = Inr t
    \<and> heard 0 (atp_items t) (0 + 0 + max 0 (1 / 2 - 0)) = Some (''a.wav'', 10 + 0)"
proof -
  let ?s = "trimmed_interview\<lparr>ts_audio_removed_ranges := [], ts_audio_lead_s := Some (Fin (1 / 2))\<rparr>"
  have lt: "lead_of ?s = Fin (1 / 2)" "trail_of ?s = Fin 0"
    by (simp_all add: lead_of_def trail_of_def normalized_split_offset_def trimmed_interview_def finite_compare)
  have half: "in_reach (fadd (Fin (1 / 2)) (Fin 0))" by (rule same_span) (simp add: in_reach_def on_grid_def)
  have "validate_split_edit_handles ?s (Fin (1 / 2)) (Fin 0) = Inr ()"
  proof -
    have "fmax (Fin 10) (Fin 0) = Fin 10" "segment_speed ?s = Fin 1"
      by (simp_all add: fmax_def trimmed_interview_def segment_speed_def finite_compare)
    moreover have "on_grid (Fin 10)" "\<bar>fval (Fin 10)\<bar> \<le> 2 ^ 21" by (simp_all add: on_grid_def)
    from plus_micro [OF this] frames_grid(1,2) [of "Fin (1 / 2)" "Fin 1"]
    have "\<not> flt (fadd (Fin 10) micro) (fmul (Fin (1 / 2)) (Fin 1))"
      by (simp add: in_reach_def on_grid_def whole_rate_def finite_compare)
    ultimately show ?thesis
      by (simp add: validate_split_edit_handles_def trimmed_interview_def Let_def finite_compare)
  qed
  then obtain t where t: "synthesized_track 0 (Fin 0) ?s = Inr t" unfolding synthesized_track_def Let_def lt
    by (simp add: trimmed_interview_def)
  have "heard 0 (atp_items t) (fval (Fin 0) + 0 + max 0 (fval (lead_of ?s) - fval (Fin 0))) = Some (ts_asset_path ?s, fval (ts_start_s ?s) + 0)"
    by (rule split_edit_sound_is_late [OF _ _ _ _ _ _ _ _ _ _ _ t])
      (simp_all only: lt half fval.simps, simp_all add: trimmed_interview_def in_reach_def on_grid_def)
  from this [unfolded lt] t show ?thesis by (auto simp: trimmed_interview_def)
qed

theorem levels_reach_the_render_witness:
  "\<exists>m1 c1 m2 c2 seg. collect_timeline_segment plain_env (shot ''b'') = Inr (Some seg)
    \<and> apply_set_volume 0 (Fin (1 / 2)) (Some \<lparr>cl_track_index = 0, cl_child_index = 1\<rparr>) (sample_timeline [SC_Track shot_track])
      = Inr (m1, with_track_children 0 ((track_children shot_track)[1 := TC_Clip c1]) (sample_timeline [SC_Track shot_track]))
    \<and> collect_timeline_segment plain_env c1 = Inr (Some (seg\<lparr>ts_volume := Some (Fin (1 / 2))\<rparr>))
    \<and> apply_set_speed 0 (Fin 2) (Some \<lparr>cl_track_index = 0, cl_child_index = 1\<rparr>) (sample_timeline [SC_Track shot_track])
      = Inr (m2, with_track_children 0 ((track_children shot_track)[1 := TC_Clip c2]) (sample_timeline [SC_Track shot_track]))
    \<and> collect_timeline_segment plain_env c2 = Inr (Some (seg\<lparr>ts_speed := Some
        \<lparr>sp_factor = Fin 2, sp_reverse = False, sp_maintain_pitch = True, sp_frame_blending = Nearest\<rparr>\<rparr>))"
proof -
  have "\<exists>seg. collect_timeline_segment plain_env (shot ''b'') = Inr (Some seg)"
    by (simp add: collect_timeline_segment_def plain_env_def shot_def sample_defs Let_def read_effect_string_def
      read_effect_def check_color_pipeline_def read_time_remap_def)
  then obtain seg where seg: "collect_timeline_segment plain_env (shot ''b'') = Inr (Some seg)" by blast
  have f: "is_f64 (Fin (1 / 2))" "is_f64 (Fin 2)"
    using representable_dyadic [of 1 1] representable_dyadic [of 2 0] by (simp_all add: is_f64_def)
  have "\<exists>m1 c1 m2 c2.
    apply_set_volume 0 (Fin (1 / 2)) (Some \<lparr>cl_track_index = 0, cl_child_index = 1\<rparr>) (sample_timeline [SC_Track shot_track])
      = Inr (m1, with_track_children 0 ((track_children shot_track)[1 := TC_Clip c1]) (sample_timeline [SC_Track shot_track]))
    \<and> collect_timeline_segment plain_env c1 = Inr (Some (seg\<lparr>ts_volume := Some (Fin (1 / 2))\<rparr>))
    \<and> apply_set_speed 0 (Fin 2) (Some \<lparr>cl_track_index = 0, cl_child_index = 1\<rparr>) (sample_timeline [SC_Track shot_track])
      = Inr (m2, with_track_children 0 ((track_children shot_track)[1 := TC_Clip c2]) (sample_timeline [SC_Track shot_track]))
    \<and> collect_timeline_segment plain_env c2 = Inr (Some (seg\<lparr>ts_speed := Some
        \<lparr>sp_factor = Fin 2, sp_reverse = False, sp_maintain_pitch = True, sp_frame_blending = Nearest\<rparr>\<rparr>))"
    by (rule levels_reach_the_render [OF _ _ _ _ _ seg]) (simp_all add: shot_facts f finite_compare)
  with seg show ?thesis by blast
qed

text \<open>A music track whose controls were never set.\<close>

definition music_track :: track where
  "music_track = Track ''Music'' Audio [TC_Clip (shot ''song'')] None []"

theorem track_sound_reaches_the_render_witness:
  "\<exists>m1 t1 m2 t2 tr2.
    apply_set_track_audio 0 ''Music'' None (Some (Fin (1 / 2))) (Some True) None (sample_timeline [SC_Track music_track]) = Inr (m1, t1)
    \<and> apply_set_ducking 1 ''Music'' None (Some (Fin (- 20))) None None t1 = Inr (m2, t2)
    \<and> tl_children t2 = [SC_Track tr2]
    \<and> parse_audio_track_settings tr2 =
        \<lparr>atp_name = ''Music'', atp_role = ''music'', atp_volume = Fin (1 / 2), atp_muted = True, atp_solo = False,
         atp_ducking = Some \<lparr>dk_enabled = True, dk_amount_db = Fin (- 20), dk_attack_ms = Fin 80, dk_release_ms = Fin 300\<rparr>,
         atp_items = []\<rparr>"
proof -
  let ?t = "sample_timeline [SC_Track music_track]"
  have named: "find_track ?t ''Music'' = Some (0, music_track)"
    by (simp add: find_track_def music_track_def is_track_named_def)
  have f: "is_f64 (Fin (1 / 2))" "is_f64 (Fin (- 20))" "is_f64 (Fin 0)"
    using representable_dyadic [of 1 1] small_f64 [of "- 20"] small_f64 [of 0] by (simp_all add: is_f64_def)
  have mt: "track_kind music_track = Audio" "track_metadata music_track = []" "tl_children ?t = [SC_Track music_track]"
    by (simp_all add: music_track_def)
  obtain m1 t1 where one: "apply_set_track_audio 0 ''Music'' None (Some (Fin (1 / 2))) (Some True) None ?t = Inr (m1, t1)"
    by (auto simp: apply_set_track_audio_def edit_audio_track_def named mt unwrap_or_def finite_compare)
  then obtain l f n where "edit_audio_track 0 l f n ''Music'' ?t = Inr (m1, t1)"
    by (auto simp: apply_set_track_audio_def finite_compare)
  from edit_audio_track_Inr [OF this] obtain ti0 tr0 ctl where "find_track ?t ''Music'' = Some (ti0, tr0)"
    "find_track t1 ''Music'' = Some (ti0,
      track_with_metadata (bt_insert audio_track_key (JObj (f ctl)) (track_metadata tr0)) tr0)" by blast
  then have "find_track t1 ''Music'' = Some (0,
      track_with_metadata [(audio_track_key, JObj (f ctl))] music_track)" by (simp add: named mt)
  then obtain m2 t2 where two: "apply_set_ducking 1 ''Music'' None (Some (Fin (- 20))) None None t1 = Inr (m2, t2)"
    by (auto simp: apply_set_ducking_def edit_audio_track_def unwrap_or_def finite_compare mt bt_get_Cons Let_def)
  have "list_all is_f64 (map (unwrap_or (Fin 0)) [Some (Fin (1 / 2)), Some (Fin (- 20)), None, None])"
    using f by (simp add: unwrap_or_def)
  from track_sound_reaches_the_render [OF one two this] named obtain tr2 where
    "tl_children t2 = (tl_children ?t)[0 := SC_Track tr2]" and p: "parse_audio_track_settings tr2 =
      (let p = parse_audio_track_settings music_track
        in p\<lparr>atp_role := unwrap_or (atp_role p) None, atp_volume := unwrap_or (atp_volume p) (Some (Fin (1 / 2))),
             atp_muted := unwrap_or (atp_muted p) (Some True), atp_solo := unwrap_or (atp_solo p) None,
             atp_ducking := Some \<lparr>dk_enabled = unwrap_or True None, dk_amount_db = unwrap_or (Fin (- 12)) (Some (Fin (- 20))),
               dk_attack_ms = unwrap_or (Fin 80) None, dk_release_ms = unwrap_or (Fin 300) None\<rparr>\<rparr>)"
    by auto
  moreover have "default_audio_role ''Music'' = ''music''" by code_simp
  then have "parse_audio_track_settings music_track = \<lparr>atp_name = ''Music'', atp_role = ''music'', atp_volume = Fin 1,
      atp_muted = False, atp_solo = False, atp_ducking = None, atp_items = []\<rparr>"
    by (simp add: parse_audio_track_settings_def music_track_def unwrap_or_def bool_or_def)
  ultimately show ?thesis using one two
    by (intro exI [of _ m1] exI [of _ t1] exI [of _ m2] exI [of _ t2] exI [of _ tr2]) (simp add: unwrap_or_def)
qed

end
