(* ===== verification/Float_Text.thy ===== *)
theory Float_Text
  imports Float_Bits
begin

text \<open>
  \<open>f64\<close> as text: \<open>str::parse\<close>, which rounds the decimal number correctly, and \<open>Display\<close>,
  which prints the shortest decimal number that is read back as the same value and never uses an
  exponent.
\<close>

section \<open>Reading\<close>

definition is_digit :: "char \<Rightarrow> bool" where
  "is_digit c \<longleftrightarrow> 48 \<le> (of_char c :: nat) \<and> (of_char c :: nat) < 58"

fun take_sign :: "string \<Rightarrow> bool \<times> string" where
  "take_sign (c # s) = (if c = CHR ''-'' then (True, s) else if c = CHR ''+'' then (False, s) else (False, c # s))"
| "take_sign [] = (False, [])"

definition parse_exponent :: "string \<Rightarrow> int option" where
  "parse_exponent s =
     (case s of
        [] \<Rightarrow> Some 0
      | c # t \<Rightarrow>
          if c = CHR ''e'' \<or> c = CHR ''E''
          then let (negative, ds) = take_sign t
               in if ds = [] \<or> \<not> list_all is_digit ds then None
                  else Some ((if negative then - 1 else 1) * int (nat_of_dec ds))
          else None)"

definition with_sign :: "bool \<Rightarrow> f64 \<Rightarrow> f64" where
  "with_sign negative x = (if negative then fneg x else x)"

definition parse_decimal :: "bool \<Rightarrow> string \<Rightarrow> f64 option" where
  "parse_decimal negative s =
     (let whole = takeWhile is_digit s; rest = dropWhile is_digit s;
          (frac, rest') = (case rest of
              c # t \<Rightarrow> if c = CHR ''.'' then (takeWhile is_digit t, dropWhile is_digit t) else ([], rest)
            | [] \<Rightarrow> ([], []))
      in if whole = [] \<and> frac = [] then None
         else map_option (\<lambda>x. with_sign negative
                (rnd False (of_nat (nat_of_dec (whole @ frac)) * 10 powi (x - int (length frac))))) (parse_exponent rest'))"

definition parse_f64 :: "string \<Rightarrow> f64 option" where
  "parse_f64 s =
     (let (negative, t) = take_sign s; l = to_ascii_lowercase t
      in if l = ''inf'' \<or> l = ''infinity'' then Some (Inf negative)
         else if l = ''nan'' then Some NaN
         else parse_decimal negative t)"

section \<open>Printing\<close>

text \<open>
  The shortest decimal significand: the largest power of ten of which a multiple next to the number
  is read back as it. Every number of the type is a multiple of \<open>10 powi - 1074\<close>, where the search
  ends at the latest.
\<close>

definition reads_back :: "rat \<Rightarrow> int \<Rightarrow> int \<Rightarrow> bool" where
  "reads_back q e m \<longleftrightarrow> rnd False (of_int m * 10 powi e) = Fin q"

definition nearest_multiple :: "rat \<Rightarrow> int \<Rightarrow> int option" where
  "nearest_multiple q e =
     (let lo = \<lfloor>q / 10 powi e\<rfloor>; hi = lo + 1; below = q - of_int lo * 10 powi e; above = of_int hi * 10 powi e - q
      in if reads_back q e hi \<and> (\<not> reads_back q e lo \<or> above \<le> below) then Some hi
         else if reads_back q e lo then Some lo else None)"

fun shortest :: "rat \<Rightarrow> int \<Rightarrow> nat \<Rightarrow> nat \<times> int" where
  "shortest q e n =
     (case nearest_multiple q e of
        Some m \<Rightarrow> (nat m, e)
      | None \<Rightarrow> (case n of 0 \<Rightarrow> (0, e) | Suc k \<Rightarrow> shortest q (e - 1) k))"

declare shortest.simps [simp del]

text \<open>The digits of \<open>m * 10 powi e\<close>.\<close>

definition decimal_text :: "nat \<Rightarrow> int \<Rightarrow> string" where
  "decimal_text m e =
     (if 0 \<le> e then dec_of_nat m @ replicate (nat e) (CHR ''0'')
      else let k = nat (- e); ds = dec_of_nat m; padded = replicate (Suc k - length ds) (CHR ''0'') @ ds
           in take (length padded - k) padded @ ''.'' @ drop (length padded - k) padded)"

definition sign_text :: "bool \<Rightarrow> string" where
  "sign_text negative = (if negative then ''-'' else [])"

fun f64_display :: "f64 \<Rightarrow> string" where
  "f64_display NaN = ''NaN''"
| "f64_display (Inf negative) = sign_text negative @ ''inf''"
| "f64_display NZero = ''-0''"
| "f64_display (Fin q) =
     (if q = 0 then ''0''
      else let top = int (length (dec_of_nat (nat \<lfloor>\<bar>q\<bar>\<rfloor>))); (m, e) = shortest \<bar>q\<bar> top (nat (top + 1074))
           in sign_text (q < 0) @ decimal_text m e)"

section \<open>What is printed is read back\<close>

lemma nat_of_dec_append: "nat_of_dec (a @ b) = nat_of_dec a * 10 ^ length b + nat_of_dec b"
proof (induction b rule: rev_induct)
  case (snoc c b)
  have "nat_of_dec (s @ [c]) = nat_of_dec s * 10 + (of_char c - 48)" for s by (simp add: nat_of_dec_def)
  from this [of "a @ b"] this [of b] snoc show ?case by (simp add: algebra_simps)
qed (simp add: nat_of_dec_def)

lemma nat_of_dec_zeros [simp]: "nat_of_dec (replicate k (CHR ''0'')) = 0"
  by (induction k) (simp_all add: nat_of_dec_def)

lemma digits_of_nat: "list_all is_digit (dec_of_nat n)" "dec_of_nat n \<noteq> []"
proof (induction n rule: dec_of_nat.induct)
  case (1 n)
  have "is_digit (digit_char d)" if "d < 10" for d using that by (simp add: is_digit_def of_char_digit)
  with 1 show "list_all is_digit (dec_of_nat n)" "dec_of_nat n \<noteq> []"
    by (subst dec_of_nat.simps; simp)+
qed

lemma not_digits [simp]: "\<not> is_digit (CHR ''.'')" "\<not> is_digit (CHR ''-'')" "\<not> is_digit (CHR ''+'')" "is_digit (CHR ''0'')"
  by (simp_all add: is_digit_def)

lemma span_digits: "list_all is_digit a \<Longrightarrow> (b = [] \<or> \<not> is_digit (hd b)) \<Longrightarrow>
    takeWhile is_digit (a @ b) = a \<and> dropWhile is_digit (a @ b) = b"
  by (induction a) (cases b; simp)+

lemma parse_decimal_digits:
  assumes "list_all is_digit a" and "list_all is_digit b" and "a \<noteq> []"
  shows "parse_decimal negative a = Some (with_sign negative (rnd False (of_nat (nat_of_dec a))))"
    and "parse_decimal negative (a @ ''.'' @ b) =
      Some (with_sign negative (rnd False (of_nat (nat_of_dec (a @ b)) * 10 powi (- int (length b)))))"
proof -
  have a: "takeWhile is_digit a = a" "dropWhile is_digit a = []" "takeWhile is_digit (a @ ''.'' @ b) = a"
    "dropWhile is_digit (a @ ''.'' @ b) = ''.'' @ b"
    using span_digits [OF assms(1), of "[]"] span_digits [OF assms(1), of "''.'' @ b"] by simp_all
  have b: "takeWhile is_digit b = b" "dropWhile is_digit b = []" using span_digits [OF assms(2), of "[]"] by simp_all
  show "parse_decimal negative a = Some (with_sign negative (rnd False (of_nat (nat_of_dec a))))"
    unfolding parse_decimal_def Let_def a using assms(3) by (simp add: parse_exponent_def)
  show "parse_decimal negative (a @ ''.'' @ b) =
      Some (with_sign negative (rnd False (of_nat (nat_of_dec (a @ b)) * 10 powi (- int (length b)))))"
    unfolding parse_decimal_def Let_def a using assms(3) by (simp add: parse_exponent_def b)
qed

lemma parse_decimal_text:
  "parse_decimal negative (decimal_text m e) = Some (with_sign negative (rnd False (of_nat m * 10 powi e)))"
proof (cases "0 \<le> e")
  case True
  have "list_all is_digit (dec_of_nat m @ replicate (nat e) (CHR ''0''))" using digits_of_nat [of m] by (auto simp: list_all_iff)
  from parse_decimal_digits(1) [OF this, of "[]"] digits_of_nat(2) [of m] True show ?thesis
    by (simp add: decimal_text_def nat_of_dec_append power_int_def)
next
  case False
  define k where "k = nat (- e)"
  define padded where "padded = replicate (Suc k - length (dec_of_nat m)) (CHR ''0'') @ dec_of_nat m"
  let ?a = "take (length padded - k) padded" and ?b = "drop (length padded - k) padded"
  have len: "k < length padded" by (simp add: padded_def)
  have all: "list_all is_digit padded" using digits_of_nat [of m] by (auto simp: padded_def list_all_iff)
  then have "list_all is_digit ?a" "list_all is_digit ?b" "?a \<noteq> []"
    using len by (auto simp: list_all_iff dest: in_set_takeD in_set_dropD)
  note parse = parse_decimal_digits(2) [OF this, of negative]
  have "nat_of_dec padded = m" by (simp add: padded_def nat_of_dec_append)
  moreover have "length ?b = k" using len by simp
  moreover have "decimal_text m e = ?a @ ''.'' @ ?b" using False by (simp add: decimal_text_def padded_def k_def Let_def)
  moreover have "- int k = e" using False by (simp add: k_def)
  ultimately show ?thesis using parse by simp
qed

lemma nearest_reads_back:
  assumes "nearest_multiple q e = Some m" and "0 < q"
  shows "0 \<le> m" and "reads_back q e m"
proof -
  have lo: "0 \<le> \<lfloor>q / 10 powi e\<rfloor>" using assms(2) by (simp only: zero_le_floor) simp
  have m: "m = \<lfloor>q / 10 powi e\<rfloor> + 1 \<and> reads_back q e m \<or> m = \<lfloor>q / 10 powi e\<rfloor> \<and> reads_back q e m"
    using assms(1) unfolding nearest_multiple_def Let_def by (simp split: if_splits)
  then show "reads_back q e m" by blast
  from m lo show "0 \<le> m" by linarith
qed

lemma shortest_reads_back:
  assumes "q * 10 powi (int n - e) \<in> \<int>" and "rnd False q = Fin q" and "shortest q e n = (m, e')" and "0 < q"
  shows "rnd False (of_nat m * 10 powi e') = Fin q"
  using assms
proof (induction n arbitrary: e)
  case 0
  then obtain i where i: "q * 10 powi (- e) = of_int i" by (auto elim: Ints_cases)
  then have q: "q / 10 powi e = of_int i" by (simp add: power_int_minus field_simps)
  then have "q = of_int i * 10 powi e" by (simp add: field_simps)
  then have "reads_back q e i" using 0(2) by (simp add: reads_back_def)
  then obtain k where k: "nearest_multiple q e = Some k" unfolding nearest_multiple_def Let_def q floor_of_int by metis
  note near = nearest_reads_back [OF k \<open>0 < q\<close>]
  have "m = nat k" "e' = e" using 0(3) k by (simp_all add: shortest.simps [of q e 0])
  with near show ?case by (simp add: reads_back_def)
next
  case (Suc n)
  show ?case
  proof (cases "nearest_multiple q e")
    case None
    then have "shortest q (e - 1) n = (m, e')" using Suc.prems(3) by (simp add: shortest.simps [of q e "Suc n"])
    moreover have "int n - (e - 1) = int (Suc n) - e" by simp
    ultimately show ?thesis using Suc by metis
  next
    case (Some k)
    note near = nearest_reads_back [OF Some \<open>0 < q\<close>]
    have "m = nat k" "e' = e" using Suc.prems(3) Some by (simp_all add: shortest.simps [of q e "Suc n"])
    with near show ?thesis by (simp add: reads_back_def)
  qed
qed

lemma dyadic_decimal:
  assumes "- int k \<le> e"
  shows "(of_int m * 2 powi e :: rat) * 10 powi int k \<in> \<int>"
proof -
  have "(10::rat) powi int k = (5 * 2) powi int k" by simp
  also have "\<dots> = 5 powi int k * 2 powi int k" by (rule power_int_mult_distrib)
  finally have "of_int m * 2 powi e * (10::rat) powi int k = of_int m * 5 ^ k * (2 powi e * 2 powi int k)" by simp
  also have "(2::rat) powi e * 2 powi int k = 2 powi (e + int k)" by (simp add: power_int_add)
  also have "\<dots> = 2 ^ nat (e + int k)" using assms by (simp add: power_int_def)
  also have "of_int m * 5 ^ k * (2 ^ nat (e + int k) :: rat) = of_int (m * 5 ^ k * 2 ^ nat (e + int k))" by simp
  finally show ?thesis by (metis Ints_of_int)
qed

lemma representable_abs:
  assumes "representable q"
  shows "representable \<bar>q\<bar>"
proof -
  obtain m e where "q = of_int m * 2 powi e" "\<bar>m\<bar> < 2 ^ 53" "- 1074 \<le> e" "\<bar>q\<bar> < 2 ^ 1024"
    using assms unfolding representable_def by blast
  then show ?thesis unfolding representable_def by (intro exI [of _ "\<bar>m\<bar>"] exI [of _ e]) (simp add: abs_mult)
qed

text \<open>The first character of a printed number is a digit or the minus sign.\<close>

lemma decimal_text_head: "\<exists>c s. decimal_text m e = c # s \<and> is_digit c"
proof (cases "0 \<le> e")
  case True
  then show ?thesis using digits_of_nat [of m] by (cases "dec_of_nat m") (simp_all add: decimal_text_def)
next
  case False
  define k where "k = nat (- e)"
  define padded where "padded = replicate (Suc k - length (dec_of_nat m)) (CHR ''0'') @ dec_of_nat m"
  have "k < length padded" by (simp add: padded_def)
  moreover have "list_all is_digit padded" using digits_of_nat [of m] by (auto simp: padded_def list_all_iff)
  ultimately have "take (length padded - k) padded \<noteq> []" "list_all is_digit (take (length padded - k) padded)"
    by (auto simp: list_all_iff dest: in_set_takeD)
  then obtain c s where "take (length padded - k) padded = c # s" "is_digit c" by (cases "take (length padded - k) padded") auto
  moreover have "decimal_text m e = take (length padded - k) padded @ ''.'' @ drop (length padded - k) padded"
    using False by (simp add: decimal_text_def padded_def k_def Let_def)
  ultimately show ?thesis by simp
qed

lemma digit_starts_number:
  assumes "is_digit c"
  shows "parse_f64 (c # s) = parse_decimal False (c # s)" and "parse_f64 (CHR ''-'' # c # s) = parse_decimal True (c # s)"
proof -
  have "c \<noteq> CHR ''-''" "c \<noteq> CHR ''+''" using assms by auto
  then have sign: "take_sign (c # s) = (False, c # s)" by simp
  have "to_ascii_lowercase (c # s) = c # to_ascii_lowercase s"
    using assms by (simp add: to_ascii_lowercase_def ascii_lower_def is_digit_def)
  moreover have "c \<noteq> CHR ''i''" "c \<noteq> CHR ''n''" using assms by (auto simp: is_digit_def)
  ultimately show "parse_f64 (c # s) = parse_decimal False (c # s)" "parse_f64 (CHR ''-'' # c # s) = parse_decimal True (c # s)"
    unfolding parse_f64_def using sign by (simp_all add: Let_def)
qed

lemma display_round_trip:
  assumes "is_f64 x"
  shows "parse_f64 (f64_display x) = Some x"
proof (cases "fval x = 0")
  case True
  have "parse_decimal True ''0'' = Some NZero" "parse_decimal False ''0'' = Some (Fin 0)"
    using parse_decimal_digits(1) [of "''0''" "[]"] by (simp_all add: nat_of_dec_def with_sign_def)
  with True assms show ?thesis
    by (cases x) (simp_all add: is_f64_def digit_starts_number)
next
  case False
  then obtain q where x: "x = Fin q" "q \<noteq> 0" using assms by (cases x) (simp_all add: is_f64_def)
  define top where "top = int (length (dec_of_nat (nat \<lfloor>\<bar>q\<bar>\<rfloor>)))"
  obtain m e where short: "shortest \<bar>q\<bar> top (nat (top + 1074)) = (m, e)" by fastforce
  have rep: "representable \<bar>q\<bar>" using assms x representable_abs by (simp add: is_f64_def)
  have same: "rnd False (of_nat m * 10 powi e) = Fin \<bar>q\<bar>"
  proof (rule shortest_reads_back [OF _ _ short])
    obtain n b where "\<bar>q\<bar> = of_int n * 2 powi b" "- int 1074 \<le> b" using rep unfolding representable_def by auto
    moreover have "int (nat (top + 1074)) - top = int 1074" by (simp add: top_def)
    ultimately show "\<bar>q\<bar> * 10 powi (int (nat (top + 1074)) - top) \<in> \<int>" by (metis dyadic_decimal)
    show "rnd False \<bar>q\<bar> = Fin \<bar>q\<bar>" using rnd_exact [OF rep] by simp
  qed (use x in simp)
  obtain c s where head: "decimal_text m e = c # s" "is_digit c" using decimal_text_head by blast
  have printed: "f64_display x = sign_text (q < 0) @ decimal_text m e"
    using x short by (simp add: Let_def flip: top_def)
  have "parse_f64 (f64_display x) = parse_decimal (q < 0) (decimal_text m e)"
    unfolding printed head(1) using digit_starts_number [OF head(2), of s] by (simp add: sign_text_def)
  then show ?thesis using x by (simp add: parse_decimal_text same with_sign_def)
qed

end
