(* ===== verification/Edl_Text.thy ===== *)
theory Edl_Text
  imports Edl_Apply Float_Text
begin

text \<open>
  The parts of the textual edit language (\<open>crates/core/src/edl/parser.rs\<close>) below an operation: the
  string functions it is read with, numbers, errors, anchors, fields, and the readers that take the
  values of an operation out of its fields.
\<close>

section \<open>Strings\<close>

fun strip_prefix :: "string \<Rightarrow> string \<Rightarrow> string option" where
  "strip_prefix [] s = Some s"
| "strip_prefix (p # ps) [] = None"
| "strip_prefix (p # ps) (c # cs) = (if p = c then strip_prefix ps cs else None)"

definition strip_suffix :: "string \<Rightarrow> string \<Rightarrow> string option" where
  "strip_suffix p s = map_option rev (strip_prefix (rev p) (rev s))"

text \<open>\<open>str::split_once\<close> and \<open>rsplit_once\<close>: before and after the first, or last, occurrence.\<close>

fun split_once_at :: "string \<Rightarrow> string \<Rightarrow> (string \<times> string) option" where
  "split_once_at d s =
     (case strip_prefix d s of
        Some rest \<Rightarrow> Some ([], rest)
      | None \<Rightarrow> (case s of [] \<Rightarrow> None | c # cs \<Rightarrow> map_option (\<lambda>(a, b). (c # a, b)) (split_once_at d cs)))"

declare split_once_at.simps [simp del]

definition rsplit_once :: "string \<Rightarrow> string \<Rightarrow> (string \<times> string) option" where
  "rsplit_once d s = map_option (\<lambda>(b, a). (rev a, rev b)) (split_once_at (rev d) (rev s))"

text \<open>\<open>str::lines\<close>: a carriage return before a line feed belongs to the line ending.\<close>

definition without_cr :: "string \<Rightarrow> string" where
  "without_cr l = (case strip_suffix [CHR 0x0D] l of None \<Rightarrow> l | Some l' \<Rightarrow> l')"

definition text_lines :: "string \<Rightarrow> string list" where
  "text_lines s =
     (let ps = split_on (CHR 0x0A) s
      in map without_cr (butlast ps) @ (if last ps = [] then [] else [last ps]))"

definition unquoted :: "string \<Rightarrow> string option" where
  "unquoted s = Option.bind (strip_prefix [CHR 0x22] s) (strip_suffix [CHR 0x22])"

section \<open>Numbers\<close>

datatype int_error = IntEmpty | IntInvalid | IntOverflow

fun int_error_display :: "int_error \<Rightarrow> string" where
  "int_error_display IntEmpty = ''cannot parse integer from empty string''"
| "int_error_display IntInvalid = ''invalid digit found in string''"
| "int_error_display IntOverflow = ''number too large to fit in target type''"

definition parse_unsigned :: "nat \<Rightarrow> string \<Rightarrow> int_error + nat" where
  "parse_unsigned bits s =
     (if s = [] then Inl IntEmpty
      else let ds = (case strip_prefix ''+'' s of Some t \<Rightarrow> t | None \<Rightarrow> s)
           in if ds = [] \<or> \<not> list_all is_digit ds then Inl IntInvalid
              else if 2 ^ bits \<le> nat_of_dec ds then Inl IntOverflow
              else Inr (nat_of_dec ds))"

section \<open>Errors\<close>

datatype edl_parse_error =
    MissingBegin
  | MissingEnd
  | UnknownOp nat string
  | BadAnchor nat message
  | BadField nat message message
  | MissingField nat string
  | StrayLine nat string

section \<open>Anchors\<close>

definition parse_anchor :: "string \<Rightarrow> nat \<Rightarrow> edl_parse_error + anchor" where
  "parse_anchor rest line =
     (case (case split_once_at ''='' rest of Some kv \<Rightarrow> Some kv | None \<Rightarrow> split_once_at '': '' rest) of
        None \<Rightarrow> Inl (BadAnchor line (Fmt ''expected key=value, got {:?}'' [A_dbg rest]))
      | Some (k0, v0) \<Rightarrow>
          let k = trim k0; v = trim v0
          in if k = ''transcript_snippet''
             then let t = unwrap_or v (unquoted v)
                  in if t = [] then Inl (BadAnchor line (msg ''transcript_snippet must be non-empty''))
                     else Inr (TranscriptSnippet t)
             else if k = ''clip_uuid''
             then if v = [] then Inl (BadAnchor line (msg ''clip_uuid must be non-empty'')) else Inr (ClipUuid v)
             else if k = ''scene_change_index''
             then (case rsplit_once '':'' v of
                     None \<Rightarrow> Inl (BadAnchor line (msg ''scene_change_index expects ASSET:INDEX''))
                   | Some (asset, idx) \<Rightarrow>
                       (case parse_unsigned 32 idx of
                          Inl _ \<Rightarrow> Inl (BadAnchor line
                            (Fmt ''scene_change_index: '{}' is not a number'' [A_str idx]))
                        | Inr n \<Rightarrow> Inr (SceneChangeIndex asset (of_nat n))))
             else Inl (BadAnchor line (Fmt (''unknown anchor kind '{}'' @ [CHR 0x27]) [A_str k])))"

definition parse_between :: "string \<Rightarrow> nat \<Rightarrow> edl_parse_error + (anchor \<times> anchor)" where
  "parse_between rest line =
     (case split_once_at '' and '' rest of
        None \<Rightarrow> Inl (BadAnchor line (msg (''between: expects two anchors separated by ' and '' @ [CHR 0x27])))
      | Some (a, b) \<Rightarrow>
          rbind (parse_anchor (trim a) line) (\<lambda>f. rbind (parse_anchor (trim b) line) (\<lambda>t. Inr (f, t))))"

section \<open>Fields\<close>

datatype field_value = FString string | FNumber f64

type_synonym field_list = "(string \<times> field_value) list"

text \<open>
  What \<open>serde_json\<close> provides: a string as JSON text and back, JSON text as a value and back, and the
  derived decoders of the payloads, each with the text of its error. A payload that is not looked
  into is kept as the value it was decoded from, under the name of its type.
\<close>

record edl_codec =
  ec_quote :: "string \<Rightarrow> string"
  ec_string :: "string \<Rightarrow> string option"
  ec_print :: "json \<Rightarrow> string"
  ec_edit_text :: "pro_edit \<Rightarrow> string"
  ec_value :: "string \<Rightarrow> string + json"
  ec_payload :: "string \<Rightarrow> json \<Rightarrow> string + json"
  ec_multicam :: "json \<Rightarrow> string + multicam_plan"
  ec_pro_edit :: "json \<Rightarrow> string + pro_edit"
  ec_eq_bands :: "json \<Rightarrow> string + eq_band list"

definition parse_field :: "edl_codec \<Rightarrow> string \<Rightarrow> nat \<Rightarrow> string \<Rightarrow> edl_parse_error + string \<times> field_value" where
  "parse_field codec rest line full_line =
     (case split_once_at '':'' rest of
        None \<Rightarrow> Inl (BadField line (Fmt ''{}'' [A_str full_line]) (msg ''expected `key: value`''))
      | Some (key0, raw_value) \<Rightarrow>
          let key = trim key0; raw = trim raw_value
          in case parse_f64 raw of
               Some n \<Rightarrow> Inr (key, FNumber n)
             | None \<Rightarrow>
                 (case (if take 1 raw = [CHR 0x22] then ec_string codec raw else None) of
                    Some decoded \<Rightarrow> Inr (key, FString decoded)
                  | None \<Rightarrow> Inr (key, FString (unwrap_or raw (unquoted raw)))))"

text \<open>The last field of a key is taken out of the list.\<close>

fun take_field :: "string \<Rightarrow> field_list \<Rightarrow> (field_value \<times> field_list) option" where
  "take_field key [] = None"
| "take_field key ((k, v) # fs) =
     (case take_field key fs of
        Some (w, rest) \<Rightarrow> Some (w, (k, v) # rest)
      | None \<Rightarrow> if k = key then Some (v, fs) else None)"

fun value_f64 :: "field_value \<Rightarrow> f64 option" where
  "value_f64 (FNumber n) = Some n"
| "value_f64 (FString s) = parse_f64 s"

text \<open>\<open>n as usize\<close> saturates.\<close>

fun value_usize :: "field_value \<Rightarrow> nat option" where
  "value_usize (FNumber n) =
     (if is_finite n \<and> 0 \<le> fval n \<and> fval n = of_int \<lfloor>fval n\<rfloor> then Some (min (nat \<lfloor>fval n\<rfloor>) (2 ^ 64 - 1)) else None)"
| "value_usize (FString s) = (case parse_unsigned 64 s of Inr n \<Rightarrow> Some n | Inl _ \<Rightarrow> None)"

definition value_u32 :: "field_value \<Rightarrow> u32 option" where
  "value_u32 v = Option.bind (value_usize v) (\<lambda>n. if n < 2 ^ 32 then Some (of_nat n) else None)"

text \<open>\<open>n as u32\<close> wraps around.\<close>

definition value_as_u32 :: "field_value \<Rightarrow> u32 option" where
  "value_as_u32 v = map_option of_nat (value_usize v)"

fun value_string :: "field_value \<Rightarrow> string option" where
  "value_string (FString s) = Some s"
| "value_string (FNumber n) = Some (f64_display n)"

definition float_epsilon :: f64 where
  "float_epsilon = Fin (1 / 2 ^ 52)"

fun value_bool :: "field_value \<Rightarrow> bool option" where
  "value_bool (FString s) =
     (let l = to_ascii_lowercase s
      in if l = ''true'' \<or> l = ''yes'' \<or> l = ''1'' then Some True
         else if l = ''false'' \<or> l = ''no'' \<or> l = ''0'' then Some False else None)"
| "value_bool (FNumber n) =
     (if flt (fabs (fsub n (Fin 1))) float_epsilon then Some True
      else if flt (fabs n) float_epsilon then Some False else None)"

section \<open>Reading an operation out of its fields\<close>

type_synonym 'a reader = "field_list \<Rightarrow> edl_parse_error + 'a \<times> field_list"

named_theorems reader_simps "the steps that take an operation out of its fields"

definition yields :: "'a \<Rightarrow> 'a reader" where
  "yields x fs = Inr (x, fs)"

definition and_then :: "'a reader \<Rightarrow> ('a \<Rightarrow> 'b reader) \<Rightarrow> 'b reader" where
  "and_then r k fs = rbind (r fs) (\<lambda>(x, rest). k x rest)"

definition checked :: "edl_parse_error + 'a \<Rightarrow> 'a reader" where
  "checked r fs = rbind r (\<lambda>x. Inr (x, fs))"

definition need :: "nat \<Rightarrow> string \<Rightarrow> 'a option \<Rightarrow> edl_parse_error + 'a" where
  "need line field v = (case v of None \<Rightarrow> Inl (MissingField line field) | Some x \<Rightarrow> Inr x)"

definition optional :: "(field_value \<Rightarrow> 'a option) \<Rightarrow> string \<Rightarrow> 'a option reader" where
  "optional f key fs = (case take_field key fs of None \<Rightarrow> Inr (None, fs) | Some (v, rest) \<Rightarrow> Inr (f v, rest))"

definition required :: "nat \<Rightarrow> (field_value \<Rightarrow> 'a option) \<Rightarrow> string \<Rightarrow> 'a reader" where
  "required line f key = and_then (optional f key) (\<lambda>v. checked (need line key v))"

text \<open>\<open>Option::map\<close> with a fallible function and \<open>transpose\<close>.\<close>

definition parsed :: "(string \<Rightarrow> edl_parse_error + 'a) \<Rightarrow> string \<Rightarrow> 'a option reader" where
  "parsed p key = and_then (optional value_string key) (\<lambda>v. checked
     (case v of None \<Rightarrow> Inr None | Some s \<Rightarrow> rbind (p s) (\<lambda>x. Inr (Some x))))"

lemma reader_steps [reader_simps]:
  "and_then (yields x) k' = k' x"
  "and_then (optional f key) k fs =
     (case take_field key fs of None \<Rightarrow> k None fs | Some (v, rest) \<Rightarrow> k (f v) rest)"
  "and_then (required line f key) k' fs =
     (case take_field key fs of
        None \<Rightarrow> Inl (MissingField line key)
      | Some (v, rest) \<Rightarrow> (case f v of None \<Rightarrow> Inl (MissingField line key) | Some x \<Rightarrow> k' x rest))"
  "and_then (checked (Inr x)) k' = k' x"
  "and_then (checked (Inl e)) k' fs = Inl e"
  "yields x fs = Inr (x, fs)"
  by (simp_all add: and_then_def yields_def optional_def required_def checked_def need_def rbind_def fun_eq_iff
      split: option.splits prod.splits)

text \<open>The text of a JSON payload: \<open>serde_robust::from_json_str\<close> goes through a value.\<close>

definition from_json_str :: "edl_codec \<Rightarrow> (json \<Rightarrow> string + 'a) \<Rightarrow> string \<Rightarrow> string + 'a" where
  "from_json_str codec decode s = rbind (ec_value codec s) decode"

definition optional_json :: "edl_codec \<Rightarrow> (json \<Rightarrow> string + 'a) \<Rightarrow> string \<Rightarrow> nat \<Rightarrow> 'a option reader" where
  "optional_json codec decode key line = parsed (\<lambda>raw.
     case from_json_str codec decode raw of
       Inr x \<Rightarrow> Inr x
     | Inl e \<Rightarrow> Inl (BadField line (Fmt ''{}: {}'' [A_str key, A_str raw])
         (Fmt ''must be valid JSON for {}: {}'' [A_str key, A_str e]))) key"

definition required_json :: "edl_codec \<Rightarrow> (json \<Rightarrow> string + 'a) \<Rightarrow> string \<Rightarrow> nat \<Rightarrow> 'a reader" where
  "required_json codec decode key line =
     and_then (optional_json codec decode key line) (\<lambda>v. checked (need line key v))"

definition optional_json_map :: "edl_codec \<Rightarrow> string \<Rightarrow> nat \<Rightarrow> json_map reader" where
  "optional_json_map codec key line = and_then (parsed (\<lambda>raw.
     case ec_value codec raw of
       Inl e \<Rightarrow> Inl (BadField line (Fmt ''{}: {}'' [A_str key, A_str raw]) (Fmt ''must be a JSON object: {}'' [A_str e]))
     | Inr (JObj m) \<Rightarrow> Inr m
     | Inr _ \<Rightarrow> Inl (BadField line (Fmt ''{}: {}'' [A_str key, A_str raw]) (msg ''must be a JSON object''))) key)
     (\<lambda>m. yields (unwrap_or [] m))"

end
