(* ===== verification/Edl_Script.thy ===== *)
theory Edl_Script
  imports Edl_Text
begin

text \<open>
  The operations of the edit language (\<open>EdlOp\<close> of \<open>crates/core/src/edl/op.rs\<close>): those that the
  timeline model applies, and those it carries as they were read. For each, the part of
  \<open>OpBuilder::build\<close> that takes its arguments out of the anchor and the fields of its block.
\<close>

section \<open>Operations\<close>

datatype broll_position = BRollOverlay | BRollReplace
datatype pip_corner = PipTopLeft | PipTopRight | PipBottomLeft | PipBottomRight
datatype transition_alignment = AlignCenter | StartAtCut | EndAtCut
datatype title_position = TitleTop | TitleCenter | TitleBottom
datatype title_weight = WeightNormal | WeightBold
datatype title_animation = TitleStill | TitleFadeIn | TitleFadeOut | TitleFadeInOut | TitleSlideIn | TitleSlideOut
datatype template_animation = TemplateStill | TemplateOpacity | TemplateTransform | TemplateTextReveal | TemplateWriteOn
datatype annotation_kind = AnnRectangle | AnnCircle | AnnArrow | AnnBracket | AnnBlur
datatype reframe_smoothing = SmoothNone | SmoothGentle | SmoothModerate | SmoothStrong
datatype workflow_lens =
    LensMedia | LensSelects | LensAssembly | LensEditReview | LensVfx | LensColor | LensAudio | LensDelivery
  | LensPreflight

record transition_spec =
  ts_id :: string
  ts_family :: "string option"
  ts_intent :: "string option"
  ts_energy :: "f64 option"
  ts_direction :: "string option"
  ts_params :: json_map
  ts_composition :: "json option"

record transition_args =
  ta_from :: anchor
  ta_to :: anchor
  ta_kind :: string
  ta_duration_s :: f64
  ta_alignment :: "transition_alignment option"
  ta_in_offset_s :: "f64 option"
  ta_out_offset_s :: "f64 option"
  ta_spec :: "transition_spec option"

record color_args =
  ca_exposure_ev :: "f64 option"
  ca_contrast :: "f64 option"
  ca_saturation :: "f64 option"
  ca_temperature :: "f64 option"
  ca_tint :: "f64 option"
  ca_shadows :: "f64 option"
  ca_highlights :: "f64 option"

text \<open>The fields that titles share; an insertion fills them with its defaults.\<close>

record title_args =
  tt_position :: "title_position option"
  tt_font_size :: "u32 option"
  tt_color :: "string option"
  tt_font_weight :: "title_weight option"
  tt_animation :: "title_animation option"
  tt_phases :: "json option"
  tt_font_family :: "string option"
  tt_font_path :: "string option"

record caption_args =
  cap_position :: title_position
  cap_font_size :: u32
  cap_color :: string
  cap_safe_area :: string
  cap_word_timings :: json
  cap_style_json :: "json option"

record annotation_args =
  an_kind :: annotation_kind
  an_x :: f64
  an_y :: f64
  an_width :: f64
  an_height :: f64
  an_color :: string
  an_stroke_width :: u32
  an_label :: "string option"

record output_args =
  of_aspect_ratio :: string
  of_platform :: "string option"
  of_safe_area :: "string option"
  of_width :: "u32 option"
  of_height :: "u32 option"
  of_frame_rate :: "u32 option"

record reframe_args =
  ra_track_id :: string
  ra_clip_id :: string
  ra_aspect_ratio :: string
  ra_source_width :: u32
  ra_source_height :: u32
  ra_target_width :: u32
  ra_target_height :: u32
  ra_frame_rate :: f64
  ra_smoothing :: reframe_smoothing
  ra_safe_area :: "string option"

record broadcast_host =
  bh_name :: string
  bh_title :: string
  bh_photo_path :: "string option"

record overlay_config =
  oc_enabled :: bool
  oc_template_name :: "string option"
  oc_episode_title :: string
  oc_episode_subtitle :: string
  oc_show_name :: string
  oc_host_a :: broadcast_host
  oc_host_b :: broadcast_host
  oc_sponsors :: json
  oc_topics :: json
  oc_chapters :: json
  oc_brand_logo_path :: "string option"
  oc_short_form_mode :: bool
  oc_style :: "json option"

text \<open>
  An operation with only a payload is \<open>Payload\<close> with the name of its constructor in the source, and
  a second payload where it has one.
\<close>

datatype script_op =
    Timeline edl_op
  | InsertBRoll anchor string f64 broll_position
  | InsertPiP anchor string f64 f64 pip_corner f64 f64
  | InsertTransition transition_args
  | SetEffect anchor string json_map "string option"
  | SetTimeRemap anchor json
  | SetFreeze anchor f64 f64 "string option" "string option"
  | SetColorCorrection anchor color_args
  | ApplyLut anchor string "string option" "f64 option"
  | RemoveLut anchor
  | InsertTitle f64 f64 string title_args
  | InsertRichTitle f64 f64 json title_args
  | InstantiateMotionTemplate string f64 f64 template_animation json
  | SetTitle anchor "f64 option" "f64 option" "string option" title_args
  | InsertCaption f64 f64 string caption_args
  | InsertAnnotation f64 f64 annotation_args
  | SetOutputFormat output_args
  | SetLoudnessTarget f64 "f64 option"
  | SetPackageMetadata "string option" "string option" "string option" "string option"
  | SetBroadcastOverlay overlay_config
  | AuthorSubjectReframe reframe_args
  | SetWorkflowLens workflow_lens
  | Payload string json "json option"

section \<open>A block under assembly\<close>

datatype op_kind =
    K_TrimClip | K_DeleteClip | K_SplitClip | K_UntrimClip | K_InsertClip | K_InsertBRoll | K_InsertPiP | K_MoveClip
  | K_RippleMove | K_RippleDelete | K_RippleTrim | K_DeleteGap | K_TrimTrackTail | K_InsertTrack | K_DeleteTrack
  | K_ApplyMulticamPlan | K_InsertTransition | K_DeleteTransition | K_SetCutIntent | K_SetVolume | K_MuteClip
  | K_RemoveAudio | K_SetAudioFade | K_SetAudioLead | K_SetAudioTrail | K_SetTrackAudio | K_SetDucking
  | K_SetSyncGroup | K_SetClipAudioFx | K_SetTrackAudioFx | K_SetEffect | K_SetSpeed | K_SetTimeRemap | K_SetFreeze
  | K_SetColorCorrection | K_ApplyLut | K_RemoveLut | K_InsertTitle | K_InsertRichTitle | K_InstantiateMotionTemplate
  | K_SetTitle | K_InsertCaption | K_InsertAnnotation | K_SetOutputFormat | K_SetLoudnessTarget
  | K_SetPackageMetadata | K_SetBroadcastOverlay | K_SetAssetCatalog | K_SetSourceReview | K_ProTimelineEdit
  | K_AddProposalPackage | K_SetParameterAnimation | K_SetMotionTemplate | K_SetMotionScene | K_AttachComposition
  | K_SetTrackingPackage | K_AuthorSubjectReframe | K_SetColorFinishing | K_SetAudioFinishing
  | K_SelectDeliveryProfile | K_AddPreflightReport | K_SetWorkflowLens | K_SetPipelineReadiness | K_SetBrandKit

record op_builder =
  ob_head_line :: nat
  ob_op_kind :: op_kind
  ob_anchor :: "anchor option"
  ob_between :: "(anchor \<times> anchor) option"
  ob_fields :: field_list

definition heading_kinds :: "(string \<times> op_kind) list" where
  "heading_kinds =
    [(''Trim Clip'', K_TrimClip), (''Delete Clip'', K_DeleteClip), (''Split Clip'', K_SplitClip),
     (''Untrim Clip'', K_UntrimClip), (''Insert Clip'', K_InsertClip), (''Insert BRoll'', K_InsertBRoll),
     (''Insert PiP'', K_InsertPiP), (''Move Clip'', K_MoveClip), (''Ripple Move'', K_RippleMove),
     (''Ripple Delete'', K_RippleDelete), (''Ripple Trim'', K_RippleTrim), (''Delete Gap'', K_DeleteGap),
     (''Trim Track Tail'', K_TrimTrackTail), (''Insert Track'', K_InsertTrack), (''Delete Track'', K_DeleteTrack),
     (''Apply Multicam Plan'', K_ApplyMulticamPlan), (''Insert Transition'', K_InsertTransition),
     (''Delete Transition'', K_DeleteTransition), (''Set Cut Intent'', K_SetCutIntent),
     (''Set Volume'', K_SetVolume), (''Mute Clip'', K_MuteClip), (''Remove Audio'', K_RemoveAudio),
     (''Set Audio Fade'', K_SetAudioFade), (''Set Audio Lead'', K_SetAudioLead),
     (''Set Audio Trail'', K_SetAudioTrail), (''Set Track Audio'', K_SetTrackAudio),
     (''Set Ducking'', K_SetDucking), (''Set Sync Group'', K_SetSyncGroup),
     (''Set Clip Audio FX'', K_SetClipAudioFx), (''Set Track Audio FX'', K_SetTrackAudioFx),
     (''Set Effect'', K_SetEffect), (''Set Speed'', K_SetSpeed), (''Set Time Remap'', K_SetTimeRemap),
     (''Set Freeze'', K_SetFreeze), (''Set Color Correction'', K_SetColorCorrection), (''Apply LUT'', K_ApplyLut),
     (''Remove LUT'', K_RemoveLut), (''Insert Title'', K_InsertTitle), (''Insert Rich Title'', K_InsertRichTitle),
     (''Instantiate Motion Template'', K_InstantiateMotionTemplate),
     (''Insert Motion Template'', K_InstantiateMotionTemplate), (''Set Title'', K_SetTitle),
     (''Insert Caption'', K_InsertCaption), (''Insert Annotation'', K_InsertAnnotation),
     (''Set Output Format'', K_SetOutputFormat), (''Set Loudness Target'', K_SetLoudnessTarget),
     (''Set Package Metadata'', K_SetPackageMetadata), (''Set Broadcast Overlay'', K_SetBroadcastOverlay),
     (''Set Asset Catalog'', K_SetAssetCatalog), (''Set Source Review'', K_SetSourceReview),
     (''Professional Timeline Edit'', K_ProTimelineEdit), (''Add Proposal Package'', K_AddProposalPackage),
     (''Set Parameter Animation'', K_SetParameterAnimation), (''Set Motion Template'', K_SetMotionTemplate),
     (''Set Motion Scene'', K_SetMotionScene), (''Attach Composition'', K_AttachComposition),
     (''Set Tracking Package'', K_SetTrackingPackage),
     (''Author Subject Reframe From Track'', K_AuthorSubjectReframe), (''Set Color Finishing'', K_SetColorFinishing),
     (''Set Audio Finishing'', K_SetAudioFinishing), (''Select Delivery Profile'', K_SelectDeliveryProfile),
     (''Add Preflight Report'', K_AddPreflightReport), (''Set Workflow Lens'', K_SetWorkflowLens),
     (''Set Pipeline Readiness'', K_SetPipelineReadiness), (''Set Brand Kit'', K_SetBrandKit)]"

definition builder_new_for :: "string \<Rightarrow> nat \<Rightarrow> edl_parse_error + op_builder" where
  "builder_new_for heading line =
     (case map_of heading_kinds (trim heading) of
        None \<Rightarrow> Inl (UnknownOp line (trim heading))
      | Some kind \<Rightarrow>
          Inr \<lparr>ob_head_line = line, ob_op_kind = kind, ob_anchor = None, ob_between = None, ob_fields = []\<rparr>)"

text \<open>A keyword of a fixed vocabulary.\<close>

definition keyword :: "nat \<Rightarrow> string \<Rightarrow> message \<Rightarrow> (string \<times> 'a) list \<Rightarrow> string \<Rightarrow> edl_parse_error + 'a" where
  "keyword line raw complaint vocabulary s =
     (case map_of vocabulary s of
        Some x \<Rightarrow> Inr x
      | None \<Rightarrow> Inl (BadField line (Fmt raw [A_str s]) complaint))"

definition the_anchor :: "op_builder \<Rightarrow> anchor reader" where
  "the_anchor b = checked (need (ob_head_line b) ''anchor'' (ob_anchor b))"

definition the_cut :: "op_builder \<Rightarrow> (anchor \<times> anchor) reader" where
  "the_cut b = checked (need (ob_head_line b) ''between'' (ob_between b))"

definition the_f64 :: "op_builder \<Rightarrow> string \<Rightarrow> f64 reader" where
  "the_f64 b = required (ob_head_line b) value_f64"

definition the_string :: "op_builder \<Rightarrow> string \<Rightarrow> string reader" where
  "the_string b = required (ob_head_line b) value_string"

lemmas the_defs = the_anchor_def the_cut_def the_f64_def the_string_def

section \<open>Clips and tracks\<close>

fun snap_targets_from :: "nat \<Rightarrow> string list \<Rightarrow> snap_target_kind list \<Rightarrow> edl_parse_error + snap_target_kind list" where
  "snap_targets_from line [] acc = Inr acc"
| "snap_targets_from line (part # parts) acc =
     (let t = trim part
      in if t = [] then snap_targets_from line parts acc
         else rbind (keyword line ''snap_targets: {}''
                (msg ''must contain comma-separated values from: clip_edge, marker, playhead'')
                [(''clip_edge'', ClipEdge), (''clip_edges'', ClipEdge), (''marker'', MarkerTarget),
                 (''markers'', MarkerTarget), (''playhead'', Playhead)] t)
              (\<lambda>target. snap_targets_from line parts (if target \<in> set acc then acc else acc @ [target])))"

definition parse_snap_targets :: "nat \<Rightarrow> string \<Rightarrow> edl_parse_error + snap_target_kind list" where
  "parse_snap_targets line raw = snap_targets_from line (split_on (CHR '','') raw) []"

definition parse_snap_options :: "nat \<Rightarrow> snap_options option reader" where
  "parse_snap_options line =
     and_then (optional value_bool ''snap'') (\<lambda>enabled.
     and_then (optional value_f64 ''snap_tolerance_s'') (\<lambda>tolerance0.
     and_then (parsed (parse_snap_targets line) ''snap_targets'') (\<lambda>targets.
       if enabled = None \<and> tolerance0 = None \<and> targets = None then yields None
       else
         let tolerance_s = unwrap_or (f64_lit (1 / 10)) tolerance0
         in if \<not> is_finite tolerance_s \<or> flt tolerance_s (Fin 0)
            then checked (Inl (BadField line (Fmt ''snap_tolerance_s: {}'' [A_f64 tolerance_s])
                   (msg ''must be finite and >= 0'')))
            else yields (Some \<lparr>so_enabled = unwrap_or True enabled, so_tolerance_s = tolerance_s,
                               so_targets = unwrap_or [] targets\<rparr>))))"

definition parse_insert_track_kind :: "nat \<Rightarrow> string \<Rightarrow> edl_parse_error + insert_track_kind" where
  "parse_insert_track_kind line raw =
     keyword line ''track_kind: {}'' (msg (''must be 'video', 'audio', or 'auto'' @ [CHR 0x27]))
       [(''video'', ITK_Video), (''audio'', ITK_Audio), (''auto'', ITK_Auto)] (to_ascii_lowercase (trim raw))"

definition build_trim_clip :: "op_builder \<Rightarrow> script_op reader" where
  "build_trim_clip b =
     and_then (the_anchor b) (\<lambda>a.
     and_then (optional value_f64 ''start'') (\<lambda>s.
     and_then (optional value_f64 ''end'') (\<lambda>e.
       yields (Timeline (TrimClip a s e)))))"

definition build_delete_clip :: "op_builder \<Rightarrow> script_op reader" where
  "build_delete_clip b = and_then (the_anchor b) (\<lambda>a. yields (Timeline (DeleteClip a)))"

definition build_split_clip :: "op_builder \<Rightarrow> script_op reader" where
  "build_split_clip b =
     and_then (the_anchor b) (\<lambda>a.
     and_then (the_f64 b ''at_s'') (\<lambda>at_s.
     and_then (parse_snap_options (ob_head_line b)) (\<lambda>snap.
       yields (Timeline (SplitClip a at_s snap)))))"

definition build_untrim_clip :: "op_builder \<Rightarrow> script_op reader" where
  "build_untrim_clip b =
     and_then (the_anchor b) (\<lambda>a.
     and_then (optional value_f64 ''start'') (\<lambda>s.
     and_then (optional value_f64 ''end'') (\<lambda>e.
       yields (Timeline (UntrimClip a s e)))))"

definition build_insert_clip :: "op_builder \<Rightarrow> script_op reader" where
  "build_insert_clip b =
     and_then (the_string b ''asset'') (\<lambda>asset.
     and_then (the_string b ''track'') (\<lambda>trk.
     and_then (parsed (parse_insert_track_kind (ob_head_line b)) ''track_kind'') (\<lambda>kind.
     and_then (optional value_usize ''at_position'') (\<lambda>pos.
     and_then (optional value_f64 ''at_s'') (\<lambda>at_s.
     and_then (optional value_f64 ''start'') (\<lambda>s.
     and_then (optional value_f64 ''end'') (\<lambda>e.
     and_then (optional value_string ''name'') (\<lambda>name.
     and_then (optional value_string ''link_group_id'') (\<lambda>link.
     and_then (parse_snap_options (ob_head_line b)) (\<lambda>snap.
       yields (Timeline (InsertClip
         \<lparr>ica_asset = asset, ica_track = trk, ica_track_kind = kind, ica_at_position = pos, ica_at_s = at_s,
          ica_start = s, ica_end = e, ica_name = name, ica_link_group_id = link, ica_snap = snap\<rparr>))))))))))))"

definition build_insert_broll :: "op_builder \<Rightarrow> script_op reader" where
  "build_insert_broll b =
     and_then (the_anchor b) (\<lambda>a.
     and_then (the_string b ''asset'') (\<lambda>asset.
     and_then (the_f64 b ''duration_s'') (\<lambda>d.
     and_then (parsed (keyword (ob_head_line b) ''position: {}''
        (msg (''must be 'overlay' or 'replace'' @ [CHR 0x27]))
        [(''overlay'', BRollOverlay), (''replace'', BRollReplace)]) ''position'') (\<lambda>pos.
       yields (InsertBRoll a asset d (unwrap_or BRollOverlay pos))))))"

definition parse_pip_corner :: "nat \<Rightarrow> string \<Rightarrow> edl_parse_error + pip_corner" where
  "parse_pip_corner line =
     keyword line ''corner: {}''
       (msg (''must be 'top_left', 'top_right', 'bottom_left', or 'bottom_right'' @ [CHR 0x27]))
       [(''top_left'', PipTopLeft), (''top_right'', PipTopRight), (''bottom_left'', PipBottomLeft),
        (''bottom_right'', PipBottomRight)]"

definition validate_pip_number :: "nat \<Rightarrow> string \<Rightarrow> f64 \<Rightarrow> f64 \<Rightarrow> f64 \<Rightarrow> edl_parse_error + unit" where
  "validate_pip_number line field x lo hi =
     (if is_finite x \<and> fle lo x \<and> fle x hi then Inr ()
      else Inl (BadField line (Fmt ''{}: {}'' [A_str field, A_f64 x])
             (Fmt ''must be finite and in range {}..={}'' [A_f64 lo, A_f64 hi])))"

definition build_insert_pip :: "op_builder \<Rightarrow> script_op reader" where
  "build_insert_pip b =
     and_then (the_anchor b) (\<lambda>a.
     and_then (the_string b ''asset'') (\<lambda>asset.
     and_then (the_f64 b ''duration_s'') (\<lambda>d.
     and_then (optional value_f64 ''source_start_s'') (\<lambda>start0.
     and_then (optional value_string ''corner'') (\<lambda>corner0.
     and_then (checked (parse_pip_corner (ob_head_line b) (unwrap_or ''bottom_right'' corner0))) (\<lambda>corner.
     and_then (optional value_f64 ''scale'') (\<lambda>scale0.
     and_then (optional value_f64 ''margin_pct'') (\<lambda>margin0.
       let scale = unwrap_or (f64_lit (28 / 100)) scale0; margin = unwrap_or (f64_lit (35 / 1000)) margin0
       in and_then (checked (validate_pip_number (ob_head_line b) ''scale'' scale (f64_lit (1 / 10)) (f64_lit (6 / 10)))) (\<lambda>_.
          and_then (checked (validate_pip_number (ob_head_line b) ''margin_pct'' margin (Fin 0) (f64_lit (15 / 100)))) (\<lambda>_.
            yields (InsertPiP a asset d (unwrap_or (Fin 0) start0) corner scale margin)))))))))))"

text \<open>A time of arrival stands in for a position, which is then zero.\<close>

definition build_move_clip :: "op_builder \<Rightarrow> script_op reader" where
  "build_move_clip b =
     and_then (the_anchor b) (\<lambda>a.
     and_then (optional value_f64 ''at_s'') (\<lambda>at_s.
     and_then (optional value_usize ''to_position'') (\<lambda>pos.
     and_then (checked (need (ob_head_line b) ''to_position or at_s''
        (case pos of Some n \<Rightarrow> Some n | None \<Rightarrow> map_option (\<lambda>_. 0) at_s))) (\<lambda>to_position.
     and_then (parse_snap_options (ob_head_line b)) (\<lambda>snap.
       yields (Timeline (MoveClip a to_position at_s snap)))))))"

definition build_ripple_move :: "op_builder \<Rightarrow> script_op reader" where
  "build_ripple_move b =
     and_then (the_anchor b) (\<lambda>a.
     and_then (the_f64 b ''delta_s'') (\<lambda>d.
     and_then (parse_snap_options (ob_head_line b)) (\<lambda>snap.
       yields (Timeline (RippleMove a d snap)))))"

definition build_ripple_delete :: "op_builder \<Rightarrow> script_op reader" where
  "build_ripple_delete b = and_then (the_anchor b) (\<lambda>a. yields (Timeline (RippleDelete a)))"

definition build_ripple_trim :: "op_builder \<Rightarrow> script_op reader" where
  "build_ripple_trim b =
     and_then (the_anchor b) (\<lambda>a.
     and_then (the_string b ''edge'') (\<lambda>raw.
     and_then (checked (keyword (ob_head_line b) ''+ edge: {}''
        (Fmt ''ripple_trim: edge must be 'start' or 'end', got {:?}'' [A_dbg raw])
        [(''start'', StartEdge), (''end'', EndEdge)] raw)) (\<lambda>edge.
     and_then (the_f64 b ''value_s'') (\<lambda>v.
       yields (Timeline (RippleTrim a edge v))))))"

definition build_delete_gap :: "op_builder \<Rightarrow> script_op reader" where
  "build_delete_gap b =
     and_then (the_anchor b) (\<lambda>a.
     and_then (the_string b ''side'') (\<lambda>raw.
     and_then (checked (keyword (ob_head_line b) ''+ side: {}''
        (Fmt ''delete_gap: side must be 'before' or 'after', got {:?}'' [A_dbg raw])
        [(''before'', GapBefore), (''after'', GapAfter)] raw)) (\<lambda>side.
       yields (Timeline (DeleteGap a side)))))"

definition build_trim_track_tail :: "op_builder \<Rightarrow> script_op reader" where
  "build_trim_track_tail b = and_then (the_string b ''track'') (\<lambda>trk. yields (Timeline (TrimTrackTail trk)))"

definition build_insert_track :: "op_builder \<Rightarrow> script_op reader" where
  "build_insert_track b =
     and_then (the_string b ''name'') (\<lambda>name.
     and_then (the_string b ''kind'') (\<lambda>raw.
     and_then (checked (parse_insert_track_kind (ob_head_line b) raw)) (\<lambda>kind.
     and_then (parsed (\<lambda>s. case parse_unsigned 64 s of
          Inr n \<Rightarrow> Inr n
        | Inl e \<Rightarrow> Inl (BadField (ob_head_line b) (Fmt ''+ at_position: {}'' [A_str s])
            (Fmt ''at_position must be a non-negative integer: {}'' [A_str (int_error_display e)]))) ''at_position'') (\<lambda>pos.
       yields (Timeline (InsertTrack name kind pos))))))"

definition build_delete_track :: "op_builder \<Rightarrow> script_op reader" where
  "build_delete_track b =
     and_then (optional value_string ''name'') (\<lambda>name.
     and_then (case name of Some n \<Rightarrow> yields (Some n) | None \<Rightarrow> optional value_string ''track'') (\<lambda>name_or_track.
     and_then (checked (need (ob_head_line b) ''name (or track)'' name_or_track)) (\<lambda>n.
     and_then (optional value_string ''force'') (\<lambda>raw.
     and_then (checked (case raw of
          None \<Rightarrow> Inr False
        | Some r \<Rightarrow> keyword (ob_head_line b) ''+ force: {}''
            (Fmt ''delete_track: force must be 'true' or 'false', got {:?}'' [A_dbg r])
            [(''true'', True), (''false'', False)] r)) (\<lambda>force.
       yields (Timeline (DeleteTrack n force)))))))"

definition build_multicam :: "edl_codec \<Rightarrow> op_builder \<Rightarrow> script_op reader" where
  "build_multicam codec b =
     and_then (required_json codec (ec_multicam codec) ''plan_json'' (ob_head_line b)) (\<lambda>plan.
       yields (Timeline (ApplyMulticamPlan plan)))"

section \<open>Cuts and transitions\<close>

definition parse_transition_alignment :: "nat \<Rightarrow> string \<Rightarrow> edl_parse_error + transition_alignment" where
  "parse_transition_alignment line =
     keyword line ''alignment: {}'' (msg (''must be 'center', 'start_at_cut', or 'end_at_cut'' @ [CHR 0x27]))
       [(''center'', AlignCenter), (''start_at_cut'', StartAtCut), (''end_at_cut'', EndAtCut)]"

definition parse_cut_type :: "nat \<Rightarrow> string \<Rightarrow> edl_parse_error + cut_type" where
  "parse_cut_type line =
     keyword line ''cut_type: {}''
       (msg ''must be one of: hard_cut, cut_on_action, cutaway, insert, eyeline_match, shot_reverse_shot, match_cut, smash_cut, jump_cut, cross_cut, j_cut, l_cut'')
       [(''hard_cut'', HardCut), (''cut_on_action'', CutOnAction), (''cutaway'', Cutaway), (''insert'', InsertCut),
        (''eyeline_match'', EyelineMatch), (''shot_reverse_shot'', ShotReverseShot), (''match_cut'', MatchCut),
        (''smash_cut'', SmashCut), (''jump_cut'', JumpCut), (''cross_cut'', CrossCut), (''j_cut'', JCut),
        (''l_cut'', LCut)]"

definition parse_audio_relation :: "nat \<Rightarrow> string \<Rightarrow> edl_parse_error + audio_relation" where
  "parse_audio_relation line =
     keyword line ''audio_relation: {}''
       (msg ''must be one of: sync, audio_leads, audio_trails, overlap, audio_cut'')
       [(''sync'', Sync), (''audio_leads'', AudioLeads), (''audio_trails'', AudioTrails), (''overlap'', Overlap),
        (''audio_cut'', AudioCut)]"

definition build_insert_transition :: "edl_codec \<Rightarrow> op_builder \<Rightarrow> script_op reader" where
  "build_insert_transition codec b =
     and_then (the_cut b) (\<lambda>(f, t).
     and_then (optional value_string ''id'') (\<lambda>transition_id.
     and_then (optional value_string ''kind'') (\<lambda>kind0.
     and_then (checked (need (ob_head_line b) ''kind''
        (case kind0 of Some k \<Rightarrow> Some k | None \<Rightarrow> transition_id))) (\<lambda>kind.
     and_then (the_f64 b ''duration_s'') (\<lambda>d.
     and_then (parsed (parse_transition_alignment (ob_head_line b)) ''alignment'') (\<lambda>alignment.
     and_then (optional value_f64 ''in_offset_s'') (\<lambda>in_offset.
     and_then (optional value_f64 ''out_offset_s'') (\<lambda>out_offset.
     and_then (optional value_string ''family'') (\<lambda>family.
     and_then (optional value_string ''intent'') (\<lambda>intent.
     and_then (optional value_f64 ''energy'') (\<lambda>energy.
     and_then (optional value_string ''direction'') (\<lambda>direction.
     and_then (optional_json_map codec ''params_json'' (ob_head_line b)) (\<lambda>params.
     and_then (optional_json codec (ec_payload codec ''TransitionComposition'') ''composition_json'' (ob_head_line b)) (\<lambda>composition.
       let has_semantic_fields = (family \<noteq> None \<or> intent \<noteq> None \<or> energy \<noteq> None \<or> direction \<noteq> None
             \<or> params \<noteq> [] \<or> composition \<noteq> None);
           semantic_id = (case transition_id of Some i \<Rightarrow> Some i | None \<Rightarrow> if has_semantic_fields then Some kind else None)
       in yields (InsertTransition
            \<lparr>ta_from = f, ta_to = t, ta_kind = kind, ta_duration_s = d, ta_alignment = alignment,
             ta_in_offset_s = in_offset, ta_out_offset_s = out_offset,
             ta_spec = map_option (\<lambda>i. \<lparr>ts_id = i, ts_family = family, ts_intent = intent, ts_energy = energy,
               ts_direction = direction, ts_params = params, ts_composition = composition\<rparr>) semantic_id\<rparr>)))))))))))))))"

definition build_delete_transition :: "op_builder \<Rightarrow> script_op reader" where
  "build_delete_transition b = and_then (the_cut b) (\<lambda>(f, t). yields (Timeline (DeleteTransition f t)))"

definition build_set_cut_intent :: "op_builder \<Rightarrow> script_op reader" where
  "build_set_cut_intent b =
     and_then (the_cut b) (\<lambda>(f, t).
     and_then (parsed (parse_cut_type (ob_head_line b)) ''cut_type'') (\<lambda>cut0.
     and_then (checked (need (ob_head_line b) ''cut_type'' cut0)) (\<lambda>cut.
     and_then (the_string b ''intent'') (\<lambda>intent.
     and_then (parsed (parse_audio_relation (ob_head_line b)) ''audio_relation'') (\<lambda>relation.
     and_then (optional value_f64 ''energy'') (\<lambda>energy.
     and_then (optional value_f64 ''confidence'') (\<lambda>confidence.
     and_then (optional value_string ''reason'') (\<lambda>reason.
       yields (Timeline (SetCutIntent f t
         \<lparr>scs_cut_type = cut, scs_intent = intent, scs_energy = energy, scs_audio_relation = unwrap_or Sync relation,
          scs_confidence = confidence, scs_reason = reason, scs_extra = []\<rparr>))))))))))"

end
