(* ===== verification/Edl_Script_Build.thy ===== *)
theory Edl_Script_Build
  imports Edl_Script
begin

text \<open>
  \<open>OpBuilder::build\<close>, continued: sound, picture, titles, delivery and the operations that carry a
  JSON payload; and the dispatch over the kinds of operation.
\<close>

section \<open>Sound\<close>

definition build_set_volume :: "op_builder \<Rightarrow> script_op reader" where
  "build_set_volume b =
     and_then (the_anchor b) (\<lambda>a.
     and_then (the_f64 b ''value'') (\<lambda>v. yields (Timeline (SetVolume a v))))"

text \<open>A block without the field mutes, and so does a value that is not a truth value.\<close>

definition build_mute_clip :: "op_builder \<Rightarrow> script_op reader" where
  "build_mute_clip b =
     and_then (the_anchor b) (\<lambda>a.
     and_then (optional value_bool ''muted'') (\<lambda>m. yields (Timeline (MuteClip a (unwrap_or True m)))))"

definition build_remove_audio :: "op_builder \<Rightarrow> script_op reader" where
  "build_remove_audio b =
     and_then (the_anchor b) (\<lambda>a.
     and_then (optional value_bool ''clear'') (\<lambda>clear.
     and_then (optional value_f64 ''start_s'') (\<lambda>s.
     and_then (optional value_f64 ''end_s'') (\<lambda>e.
       yields (Timeline (RemoveAudio a s e (unwrap_or False clear)))))))"

definition build_set_audio_fade :: "op_builder \<Rightarrow> script_op reader" where
  "build_set_audio_fade b =
     and_then (the_anchor b) (\<lambda>a.
     and_then (optional value_f64 ''fade_in_s'') (\<lambda>i.
     and_then (optional value_f64 ''fade_out_s'') (\<lambda>out.
       yields (Timeline (SetAudioFade a i out)))))"

definition build_set_audio_lead :: "op_builder \<Rightarrow> script_op reader" where
  "build_set_audio_lead b =
     and_then (the_anchor b) (\<lambda>a.
     and_then (the_f64 b ''lead_s'') (\<lambda>lead.
     and_then (optional value_string ''reason'') (\<lambda>reason.
     and_then (optional value_f64 ''confidence'') (\<lambda>confidence.
       yields (Timeline (SetAudioLead a lead (Some
         \<lparr>se_audio_lead_s = Some lead, se_audio_lead_from_clip_id = None, se_audio_trail_s = None,
          se_audio_trail_to_clip_id = None, se_reason = reason, se_confidence = confidence\<rparr>)))))))"

definition build_set_audio_trail :: "op_builder \<Rightarrow> script_op reader" where
  "build_set_audio_trail b =
     and_then (the_anchor b) (\<lambda>a.
     and_then (the_f64 b ''trail_s'') (\<lambda>trail.
     and_then (optional value_string ''reason'') (\<lambda>reason.
     and_then (optional value_f64 ''confidence'') (\<lambda>confidence.
       yields (Timeline (SetAudioTrail a trail (Some
         \<lparr>se_audio_lead_s = None, se_audio_lead_from_clip_id = None, se_audio_trail_s = Some trail,
          se_audio_trail_to_clip_id = None, se_reason = reason, se_confidence = confidence\<rparr>)))))))"

definition build_set_track_audio :: "op_builder \<Rightarrow> script_op reader" where
  "build_set_track_audio b =
     and_then (the_string b ''track'') (\<lambda>trk.
     and_then (optional value_string ''role'') (\<lambda>role.
     and_then (optional value_f64 ''volume'') (\<lambda>volume.
     and_then (optional value_bool ''muted'') (\<lambda>muted.
     and_then (optional value_bool ''solo'') (\<lambda>solo.
       yields (Timeline (SetTrackAudio trk role volume muted solo)))))))"

definition build_set_ducking :: "op_builder \<Rightarrow> script_op reader" where
  "build_set_ducking b =
     and_then (the_string b ''track'') (\<lambda>trk.
     and_then (optional value_bool ''enabled'') (\<lambda>enabled.
     and_then (optional value_f64 ''amount_db'') (\<lambda>amount.
     and_then (optional value_f64 ''attack_ms'') (\<lambda>attack.
     and_then (optional value_f64 ''release_ms'') (\<lambda>release.
       yields (Timeline (SetDucking trk enabled amount attack release)))))))"

definition build_set_sync_group :: "op_builder \<Rightarrow> script_op reader" where
  "build_set_sync_group b =
     and_then (the_anchor b) (\<lambda>a.
     and_then (the_string b ''sync_group_id'') (\<lambda>g.
     and_then (the_f64 b ''offset_s'') (\<lambda>offset.
     and_then (optional value_f64 ''speed_factor'') (\<lambda>speed.
     and_then (optional value_f64 ''confidence'') (\<lambda>confidence.
       yields (Timeline (SetSyncGroup a g offset speed confidence)))))))"

text \<open>Bands in JSON take precedence over the single band of the plain fields.\<close>

definition parse_eq_bands :: "edl_codec \<Rightarrow> nat \<Rightarrow> eq_band list reader" where
  "parse_eq_bands codec line =
     and_then (optional value_string ''eq_bands_json'') (\<lambda>raw0.
       case raw0 of
         Some raw \<Rightarrow>
           checked (case from_json_str codec (ec_eq_bands codec) raw of
               Inr bands \<Rightarrow> Inr bands
             | Inl e \<Rightarrow> Inl (BadField line (Fmt ''eq_bands_json: {}'' [A_str raw])
                 (Fmt ''must be valid JSON array of EQ bands: {}'' [A_str e])))
       | None \<Rightarrow>
           and_then (optional value_f64 ''eq_freq_hz'') (\<lambda>freq0.
             case freq0 of
               None \<Rightarrow> yields []
             | Some freq \<Rightarrow>
                 and_then (optional value_f64 ''eq_gain_db'') (\<lambda>gain.
                 and_then (optional value_f64 ''eq_width_hz'') (\<lambda>width.
                   yields [\<lparr>eb_freq_hz = freq, eb_gain_db = unwrap_or (Fin 0) gain, eb_width_hz = width\<rparr>]))))"

definition parse_audio_fx_config :: "edl_codec \<Rightarrow> nat \<Rightarrow> audio_fx_config reader" where
  "parse_audio_fx_config codec line =
     and_then (optional value_f64 ''high_pass_hz'') (\<lambda>high_pass.
     and_then (optional value_f64 ''low_pass_hz'') (\<lambda>low_pass.
     and_then (optional value_f64 ''pan'') (\<lambda>pan.
     and_then (optional value_f64 ''balance'') (\<lambda>balance.
     and_then (optional value_bool ''adeclick'') (\<lambda>adeclick.
     and_then (optional value_bool ''adeclip'') (\<lambda>adeclip.
     and_then (optional value_string ''arnndn_model'') (\<lambda>model.
     and_then (optional value_f64 ''compressor_threshold_db'') (\<lambda>threshold.
     and_then (optional value_f64 ''compressor_ratio'') (\<lambda>ratio.
     and_then (optional value_f64 ''limiter_limit_db'') (\<lambda>limit.
     and_then (optional value_f64 ''noise_gate_threshold_db'') (\<lambda>gate.
     and_then (optional value_f64 ''hum_notch_hz'') (\<lambda>hum.
     and_then (optional value_f64 ''de_ess_hz'') (\<lambda>de_ess.
     and_then (optional value_f64 ''de_ess_reduction_db'') (\<lambda>reduction.
     and_then (optional value_f64 ''loudnorm_i'') (\<lambda>loud_i.
     and_then (optional value_f64 ''loudnorm_tp'') (\<lambda>loud_tp.
     and_then (parse_eq_bands codec line) (\<lambda>bands.
       yields \<lparr>fx_high_pass_hz = high_pass, fx_low_pass_hz = low_pass, fx_pan = pan, fx_balance = balance,
         fx_adeclick = adeclick, fx_adeclip = adeclip, fx_arnndn_model = model, fx_eq_bands = bands,
         fx_compressor_threshold_db = threshold, fx_compressor_ratio = ratio, fx_limiter_limit_db = limit,
         fx_noise_gate_threshold_db = gate, fx_hum_notch_hz = hum, fx_de_ess_hz = de_ess,
         fx_de_ess_reduction_db = reduction, fx_loudnorm_i = loud_i, fx_loudnorm_tp = loud_tp\<rparr>)))))))))))))))))"

definition build_set_clip_audio_fx :: "edl_codec \<Rightarrow> op_builder \<Rightarrow> script_op reader" where
  "build_set_clip_audio_fx codec b =
     and_then (the_anchor b) (\<lambda>a.
     and_then (parse_audio_fx_config codec (ob_head_line b)) (\<lambda>fx. yields (Timeline (SetClipAudioFx a fx))))"

definition build_set_track_audio_fx :: "edl_codec \<Rightarrow> op_builder \<Rightarrow> script_op reader" where
  "build_set_track_audio_fx codec b =
     and_then (the_string b ''track'') (\<lambda>trk.
     and_then (parse_audio_fx_config codec (ob_head_line b)) (\<lambda>fx. yields (Timeline (SetTrackAudioFx trk fx))))"

section \<open>Picture\<close>

definition build_set_effect :: "edl_codec \<Rightarrow> op_builder \<Rightarrow> script_op reader" where
  "build_set_effect codec b =
     and_then (the_anchor b) (\<lambda>a.
     and_then (the_string b ''effect'') (\<lambda>fx.
     and_then (optional_json_map codec ''params_json'' (ob_head_line b)) (\<lambda>params.
     and_then (optional value_string ''rationale'') (\<lambda>rationale.
       yields (SetEffect a fx params rationale)))))"

definition build_set_speed :: "op_builder \<Rightarrow> script_op reader" where
  "build_set_speed b =
     and_then (the_anchor b) (\<lambda>a.
     and_then (the_f64 b ''factor'') (\<lambda>f. yields (Timeline (SetSpeed a f))))"

definition build_set_time_remap :: "edl_codec \<Rightarrow> op_builder \<Rightarrow> script_op reader" where
  "build_set_time_remap codec b =
     and_then (the_anchor b) (\<lambda>a.
     and_then (required_json codec (ec_payload codec ''Vec<Value>'') ''curve_json'' (ob_head_line b)) (\<lambda>curve.
       yields (SetTimeRemap a curve)))"

definition build_set_freeze :: "op_builder \<Rightarrow> script_op reader" where
  "build_set_freeze b =
     and_then (the_anchor b) (\<lambda>a.
     and_then (the_f64 b ''freeze_at_source_s'') (\<lambda>s.
     and_then (the_f64 b ''duration_s'') (\<lambda>d.
     and_then (optional value_string ''freeze_position'') (\<lambda>pos.
     and_then (optional value_string ''audio_behavior'') (\<lambda>behavior.
       yields (SetFreeze a s d pos behavior))))))"

definition build_set_color_correction :: "op_builder \<Rightarrow> script_op reader" where
  "build_set_color_correction b =
     and_then (the_anchor b) (\<lambda>a.
     and_then (optional value_f64 ''exposure_ev'') (\<lambda>exposure.
     and_then (optional value_f64 ''contrast'') (\<lambda>contrast.
     and_then (optional value_f64 ''saturation'') (\<lambda>saturation.
     and_then (optional value_f64 ''temperature'') (\<lambda>temperature.
     and_then (optional value_f64 ''tint'') (\<lambda>tint.
     and_then (optional value_f64 ''shadows'') (\<lambda>shadows.
     and_then (optional value_f64 ''highlights'') (\<lambda>highlights.
       yields (SetColorCorrection a
         \<lparr>ca_exposure_ev = exposure, ca_contrast = contrast, ca_saturation = saturation, ca_temperature = temperature,
          ca_tint = tint, ca_shadows = shadows, ca_highlights = highlights\<rparr>)))))))))"

definition build_apply_lut :: "op_builder \<Rightarrow> script_op reader" where
  "build_apply_lut b =
     and_then (the_anchor b) (\<lambda>a.
     and_then (the_string b ''lut_path'') (\<lambda>path.
     and_then (optional value_string ''interpolation'') (\<lambda>interpolation.
     and_then (optional value_f64 ''strength'') (\<lambda>strength.
       yields (ApplyLut a path interpolation strength)))))"

definition build_remove_lut :: "op_builder \<Rightarrow> script_op reader" where
  "build_remove_lut b = and_then (the_anchor b) (\<lambda>a. yields (RemoveLut a))"

section \<open>Titles and graphics\<close>

definition parse_title_position :: "nat \<Rightarrow> string \<Rightarrow> edl_parse_error + title_position" where
  "parse_title_position line =
     keyword line ''position: {}'' (msg (''must be 'top', 'center', or 'bottom'' @ [CHR 0x27]))
       [(''top'', TitleTop), (''center'', TitleCenter), (''bottom'', TitleBottom)]"

definition parse_title_weight :: "nat \<Rightarrow> string \<Rightarrow> edl_parse_error + title_weight" where
  "parse_title_weight line =
     keyword line ''font_weight: {}'' (msg (''must be 'normal' or 'bold'' @ [CHR 0x27]))
       [(''normal'', WeightNormal), (''bold'', WeightBold)]"

definition parse_title_animation :: "nat \<Rightarrow> string \<Rightarrow> edl_parse_error + title_animation" where
  "parse_title_animation line =
     keyword line ''animation: {}''
       (msg (''must be 'none', 'fade_in', 'fade_out', 'fade_in_out', 'slide_in', or 'slide_out'' @ [CHR 0x27]))
       [(''none'', TitleStill), (''fade_in'', TitleFadeIn), (''fade_out'', TitleFadeOut),
        (''fade_in_out'', TitleFadeInOut), (''slide_in'', TitleSlideIn), (''slide_out'', TitleSlideOut)]"

definition parse_motion_template_animation :: "nat \<Rightarrow> string \<Rightarrow> edl_parse_error + template_animation" where
  "parse_motion_template_animation line =
     keyword line ''animation: {}''
       (msg (''must be 'none', 'opacity', 'transform', 'text_reveal', or 'write_on'' @ [CHR 0x27]))
       [(''none'', TemplateStill), (''opacity'', TemplateOpacity), (''transform'', TemplateTransform),
        (''text_reveal'', TemplateTextReveal), (''write_on'', TemplateWriteOn)]"

definition title_phases :: "edl_codec \<Rightarrow> nat \<Rightarrow> json option reader" where
  "title_phases codec line = optional_json codec (ec_payload codec ''TitlePhases'') ''phases_json'' line"

definition build_insert_title :: "edl_codec \<Rightarrow> op_builder \<Rightarrow> script_op reader" where
  "build_insert_title codec b =
     and_then (the_f64 b ''start_s'') (\<lambda>s.
     and_then (the_f64 b ''end_s'') (\<lambda>e.
     and_then (the_string b ''text'') (\<lambda>t.
     and_then (parsed (parse_title_position (ob_head_line b)) ''position'') (\<lambda>pos.
     and_then (optional value_as_u32 ''font_size'') (\<lambda>size.
     and_then (optional value_string ''color'') (\<lambda>color.
     and_then (parsed (parse_title_weight (ob_head_line b)) ''font_weight'') (\<lambda>weight.
     and_then (parsed (parse_title_animation (ob_head_line b)) ''animation'') (\<lambda>animation.
     and_then (title_phases codec (ob_head_line b)) (\<lambda>phases.
     and_then (optional value_string ''font_family'') (\<lambda>family.
     and_then (optional value_string ''font_path'') (\<lambda>path.
       yields (InsertTitle s e t
         \<lparr>tt_position = Some (unwrap_or TitleCenter pos), tt_font_size = Some (unwrap_or 64 size),
          tt_color = Some (unwrap_or ''#FFFFFF'' color), tt_font_weight = Some (unwrap_or WeightNormal weight),
          tt_animation = Some (unwrap_or TitleStill animation), tt_phases = phases, tt_font_family = family,
          tt_font_path = path\<rparr>))))))))))))"

definition build_insert_rich_title :: "edl_codec \<Rightarrow> op_builder \<Rightarrow> script_op reader" where
  "build_insert_rich_title codec b =
     and_then (the_f64 b ''start_s'') (\<lambda>s.
     and_then (the_f64 b ''end_s'') (\<lambda>e.
     and_then (required_json codec (ec_payload codec ''Vec<RichTextSegment>'') ''segments_json'' (ob_head_line b)) (\<lambda>segments.
     and_then (parsed (parse_title_position (ob_head_line b)) ''position'') (\<lambda>pos.
     and_then (optional value_as_u32 ''font_size'') (\<lambda>size.
     and_then (parsed (parse_title_animation (ob_head_line b)) ''animation'') (\<lambda>animation.
     and_then (title_phases codec (ob_head_line b)) (\<lambda>phases.
     and_then (optional value_string ''font_family'') (\<lambda>family.
     and_then (optional value_string ''font_path'') (\<lambda>path.
       yields (InsertRichTitle s e segments
         \<lparr>tt_position = Some (unwrap_or TitleCenter pos), tt_font_size = Some (unwrap_or 64 size), tt_color = None,
          tt_font_weight = None, tt_animation = Some (unwrap_or TitleStill animation), tt_phases = phases,
          tt_font_family = family, tt_font_path = path\<rparr>))))))))))"

definition build_motion_template :: "edl_codec \<Rightarrow> op_builder \<Rightarrow> script_op reader" where
  "build_motion_template codec b =
     and_then (the_string b ''template_id'') (\<lambda>template.
     and_then (the_f64 b ''start_s'') (\<lambda>s.
     and_then (the_f64 b ''end_s'') (\<lambda>e.
     and_then (parsed (parse_motion_template_animation (ob_head_line b)) ''animation'') (\<lambda>animation.
     and_then (required_json codec (ec_payload codec ''slot_values'') ''slot_values_json'' (ob_head_line b)) (\<lambda>slots.
       yields (InstantiateMotionTemplate template s e (unwrap_or TemplateStill animation) slots))))))"

definition build_set_title :: "edl_codec \<Rightarrow> op_builder \<Rightarrow> script_op reader" where
  "build_set_title codec b =
     and_then (the_anchor b) (\<lambda>a.
     and_then (optional value_f64 ''start_s'') (\<lambda>s.
     and_then (optional value_f64 ''end_s'') (\<lambda>e.
     and_then (optional value_string ''text'') (\<lambda>t.
     and_then (parsed (parse_title_position (ob_head_line b)) ''position'') (\<lambda>pos.
     and_then (optional value_as_u32 ''font_size'') (\<lambda>size.
     and_then (optional value_string ''color'') (\<lambda>color.
     and_then (parsed (parse_title_weight (ob_head_line b)) ''font_weight'') (\<lambda>weight.
     and_then (parsed (parse_title_animation (ob_head_line b)) ''animation'') (\<lambda>animation.
     and_then (title_phases codec (ob_head_line b)) (\<lambda>phases.
     and_then (optional value_string ''font_family'') (\<lambda>family.
     and_then (optional value_string ''font_path'') (\<lambda>path.
       yields (SetTitle a s e t
         \<lparr>tt_position = pos, tt_font_size = size, tt_color = color, tt_font_weight = weight, tt_animation = animation,
          tt_phases = phases, tt_font_family = family, tt_font_path = path\<rparr>)))))))))))))"

definition build_insert_caption :: "edl_codec \<Rightarrow> op_builder \<Rightarrow> script_op reader" where
  "build_insert_caption codec b =
     and_then (the_f64 b ''start_s'') (\<lambda>s.
     and_then (the_f64 b ''end_s'') (\<lambda>e.
     and_then (the_string b ''text'') (\<lambda>t.
     and_then (parsed (parse_title_position (ob_head_line b)) ''position'') (\<lambda>pos.
     and_then (optional value_as_u32 ''font_size'') (\<lambda>size.
     and_then (optional value_string ''color'') (\<lambda>color.
     and_then (optional value_string ''safe_area'') (\<lambda>safe.
     and_then (optional_json codec (ec_payload codec ''Vec<CaptionWordTiming>'') ''word_timings_json'' (ob_head_line b)) (\<lambda>timings.
     and_then (optional_json codec Inr ''style_json'' (ob_head_line b)) (\<lambda>style.
       yields (InsertCaption s e t
         \<lparr>cap_position = unwrap_or TitleBottom pos, cap_font_size = unwrap_or 52 size,
          cap_color = unwrap_or ''#FFFFFF'' color, cap_safe_area = unwrap_or ''mobile'' safe,
          cap_word_timings = unwrap_or (JArr []) timings, cap_style_json = style\<rparr>))))))))))"

definition parse_annotation_kind :: "nat \<Rightarrow> string \<Rightarrow> edl_parse_error + annotation_kind" where
  "parse_annotation_kind line =
     keyword line ''kind: {}'' (msg (''must be 'rectangle', 'circle', 'arrow', 'bracket', or 'blur'' @ [CHR 0x27]))
       [(''rectangle'', AnnRectangle), (''circle'', AnnCircle), (''arrow'', AnnArrow), (''bracket'', AnnBracket),
        (''blur'', AnnBlur)]"

definition is_alphanumeric :: "char \<Rightarrow> bool" where
  "is_alphanumeric c \<longleftrightarrow> is_digit c \<or> (let n = (of_char c :: nat) in 65 \<le> n \<and> n < 91 \<or> 97 \<le> n \<and> n < 123)"

definition is_hex :: "char \<Rightarrow> bool" where
  "is_hex c \<longleftrightarrow> is_digit c \<or> (let n = (of_char c :: nat) in 65 \<le> n \<and> n < 71 \<or> 97 \<le> n \<and> n < 103)"

definition valid_graphic_color :: "string \<Rightarrow> bool" where
  "valid_graphic_color raw =
     (let color = trim raw
      in if color = [] \<or> color \<noteq> raw then False
         else case strip_prefix ''#'' color of
           Some hex \<Rightarrow> length hex \<in> {3, 4, 6, 8} \<and> list_all is_hex hex
         | None \<Rightarrow> list_all is_alphanumeric color)"

definition parse_annotation_color :: "nat \<Rightarrow> string \<Rightarrow> edl_parse_error + string" where
  "parse_annotation_color line raw =
     (if valid_graphic_color raw then Inr raw
      else Inl (BadField line (Fmt ''color: {}'' [A_str raw])
        (msg ''annotation color must be #RGB/#RGBA/#RRGGBB/#RRGGBBAA hex or an alphanumeric color name'')))"

definition build_insert_annotation :: "op_builder \<Rightarrow> script_op reader" where
  "build_insert_annotation b =
     and_then (the_f64 b ''start_s'') (\<lambda>s.
     and_then (the_f64 b ''end_s'') (\<lambda>e.
     and_then (the_string b ''kind'') (\<lambda>raw.
     and_then (checked (parse_annotation_kind (ob_head_line b) raw)) (\<lambda>kind.
     and_then (the_f64 b ''x'') (\<lambda>x.
     and_then (the_f64 b ''y'') (\<lambda>y.
     and_then (the_f64 b ''width'') (\<lambda>width.
     and_then (the_f64 b ''height'') (\<lambda>height.
     and_then (optional value_string ''color'') (\<lambda>color0.
     and_then (checked (parse_annotation_color (ob_head_line b) (unwrap_or ''#FFCC00'' color0))) (\<lambda>color.
     and_then (optional value_as_u32 ''stroke_width'') (\<lambda>stroke.
     and_then (optional value_string ''label'') (\<lambda>label.
       yields (InsertAnnotation s e
         \<lparr>an_kind = kind, an_x = x, an_y = y, an_width = width, an_height = height, an_color = color,
          an_stroke_width = unwrap_or 4 stroke, an_label = label\<rparr>)))))))))))))"

section \<open>Delivery\<close>

text \<open>A size that is given has to be one: here a value that does not fit is an error.\<close>

definition output_value :: "nat \<Rightarrow> string \<Rightarrow> u32 option reader" where
  "output_value line key fs =
     (if key \<notin> fst ` set fs then Inr (None, fs)
      else and_then (optional value_u32 key) (\<lambda>v. checked
        (case v of
           Some n \<Rightarrow> Inr (Some n)
         | None \<Rightarrow> Inl (BadField line (Fmt ''{}'' [A_str key]) (msg ''expected an unsigned 32-bit integer'')))) fs)"

definition build_set_output_format :: "op_builder \<Rightarrow> script_op reader" where
  "build_set_output_format b =
     and_then (the_string b ''aspect_ratio'') (\<lambda>ratio.
     and_then (output_value (ob_head_line b) ''width'') (\<lambda>width.
     and_then (output_value (ob_head_line b) ''height'') (\<lambda>height.
     and_then (output_value (ob_head_line b) ''frame_rate'') (\<lambda>rate.
     and_then (optional value_string ''platform'') (\<lambda>platform.
     and_then (optional value_string ''safe_area'') (\<lambda>safe.
       yields (SetOutputFormat
         \<lparr>of_aspect_ratio = ratio, of_platform = platform, of_safe_area = safe, of_width = width, of_height = height,
          of_frame_rate = rate\<rparr>)))))))"

definition build_set_loudness_target :: "op_builder \<Rightarrow> script_op reader" where
  "build_set_loudness_target b =
     and_then (the_f64 b ''integrated_lufs'') (\<lambda>lufs.
     and_then (optional value_f64 ''true_peak_db'') (\<lambda>peak. yields (SetLoudnessTarget lufs peak)))"

definition build_set_package_metadata :: "op_builder \<Rightarrow> script_op reader" where
  "build_set_package_metadata b =
     and_then (optional value_string ''platform'') (\<lambda>platform.
     and_then (optional value_string ''title'') (\<lambda>title.
     and_then (optional value_string ''description'') (\<lambda>description.
     and_then (optional value_string ''tags'') (\<lambda>tags.
       yields (SetPackageMetadata platform title description tags)))))"

end
