(* ===== verification/Edl_Parser.thy ===== *)
theory Edl_Parser
  imports Edl_Script_Build
begin

text \<open>
  The last operations of the edit language, the dispatch of \<open>OpBuilder::build\<close> over the kinds, and
  the machine over the lines of a script (\<open>parse\<close> in \<open>crates/core/src/edl/parser.rs\<close>): outside the
  envelope, inside it with at most one block under assembly, or closed.
\<close>

section \<open>The broadcast overlay\<close>

definition host_default :: broadcast_host where
  "host_default = \<lparr>bh_name = [], bh_title = [], bh_photo_path = None\<rparr>"

definition overlay_default :: overlay_config where
  "overlay_default =
     \<lparr>oc_enabled = True, oc_template_name = None, oc_episode_title = [], oc_episode_subtitle = [], oc_show_name = [],
      oc_host_a = host_default, oc_host_b = host_default, oc_sponsors = JArr [], oc_topics = JArr [],
      oc_chapters = JArr [], oc_brand_logo_path = None, oc_short_form_mode = False, oc_style = None\<rparr>"

text \<open>The derived decoders of the overlay and of a host.\<close>

record overlay_codec =
  oco_config :: "json \<Rightarrow> string + overlay_config"
  oco_host :: "json \<Rightarrow> string + broadcast_host"

definition parse_json_value ::
  "edl_codec \<Rightarrow> (json \<Rightarrow> string + 'a) \<Rightarrow> nat \<Rightarrow> string \<Rightarrow> string \<Rightarrow> edl_parse_error + 'a" where
  "parse_json_value codec decode line field raw =
     (case from_json_str codec decode raw of
        Inr x \<Rightarrow> Inr x
      | Inl e \<Rightarrow> Inl (BadField line (Fmt ''{}'' [A_str field]) (Fmt ''must be valid JSON: {}'' [A_str e])))"

definition parse_bool_field :: "nat \<Rightarrow> string \<Rightarrow> string \<Rightarrow> edl_parse_error + bool" where
  "parse_bool_field line field =
     keyword line (field @ '': {}'') (msg ''must be true or false'')
       [(''true'', True), (''yes'', True), (''1'', True), (''false'', False), (''no'', False), (''0'', False)]"

text \<open>The fields of one group, each of them optional, then the update they make.\<close>

definition overlay_identity :: "edl_codec \<Rightarrow> overlay_codec \<Rightarrow> nat \<Rightarrow> overlay_config reader" where
  "overlay_identity codec over line =
     and_then (parsed (parse_bool_field line ''enabled'') ''enabled'') (\<lambda>enabled.
     and_then (optional value_string ''template_name'') (\<lambda>template.
     and_then (optional value_string ''episode_title'') (\<lambda>title.
     and_then (optional value_string ''episode_subtitle'') (\<lambda>subtitle.
     and_then (optional value_string ''show_name'') (\<lambda>show.
     and_then (parsed (parse_json_value codec (oco_host over) line ''host_a'') ''host_a'') (\<lambda>host_a.
     and_then (parsed (parse_json_value codec (oco_host over) line ''host_b'') ''host_b'') (\<lambda>host_b.
     and_then (parsed (parse_json_value codec (ec_payload codec ''Vec<String>'') line ''sponsors'') ''sponsors'') (\<lambda>sponsors.
     and_then (parsed (parse_json_value codec (ec_payload codec ''Vec<BroadcastTimedEntry>'') line ''topics'') ''topics'') (\<lambda>topics.
     and_then (parsed (parse_json_value codec (ec_payload codec ''Vec<BroadcastTimedEntry>'') line ''chapters'') ''chapters'') (\<lambda>chapters.
     and_then (optional value_string ''brand_logo_path'') (\<lambda>logo.
     and_then (parsed (parse_bool_field line ''short_form_mode'') ''short_form_mode'') (\<lambda>short.
     and_then (parsed (parse_json_value codec (ec_payload codec ''BroadcastOverlayStyle'') line ''style'') ''style'') (\<lambda>style.
       yields \<lparr>oc_enabled = unwrap_or True enabled, oc_template_name = template,
         oc_episode_title = unwrap_or [] title, oc_episode_subtitle = unwrap_or [] subtitle,
         oc_show_name = unwrap_or [] show, oc_host_a = unwrap_or host_default host_a,
         oc_host_b = unwrap_or host_default host_b, oc_sponsors = unwrap_or (JArr []) sponsors,
         oc_topics = unwrap_or (JArr []) topics, oc_chapters = unwrap_or (JArr []) chapters,
         oc_brand_logo_path = logo, oc_short_form_mode = unwrap_or False short, oc_style = style\<rparr>)))))))))))))"

text \<open>The convenience fields of a host replace what its JSON said.\<close>

definition host_fields :: "string \<Rightarrow> broadcast_host \<Rightarrow> broadcast_host reader" where
  "host_fields prefix h =
     and_then (optional value_string (prefix @ ''_name'')) (\<lambda>name.
     and_then (optional value_string (prefix @ ''_title'')) (\<lambda>title.
     and_then (optional value_string (prefix @ ''_photo_path'')) (\<lambda>photo.
       yields \<lparr>bh_name = unwrap_or (bh_name h) name, bh_title = unwrap_or (bh_title h) title,
         bh_photo_path = (case photo of Some p \<Rightarrow> Some p | None \<Rightarrow> bh_photo_path h)\<rparr>)))"

definition parse_broadcast_overlay_config :: "edl_codec \<Rightarrow> overlay_codec \<Rightarrow> nat \<Rightarrow> overlay_config reader" where
  "parse_broadcast_overlay_config codec over line =
     and_then (optional value_string ''config_json'') (\<lambda>raw0.
       case raw0 of
         Some raw \<Rightarrow> checked (case from_json_str codec (oco_config over) raw of
             Inr config \<Rightarrow> Inr config
           | Inl e \<Rightarrow> Inl (BadField line (msg ''config_json'') (Fmt ''must be valid broadcast overlay JSON: {}'' [A_str e])))
       | None \<Rightarrow>
           and_then (overlay_identity codec over line) (\<lambda>config.
           and_then (host_fields ''host_a'' (oc_host_a config)) (\<lambda>host_a.
           and_then (host_fields ''host_b'' (oc_host_b config)) (\<lambda>host_b.
             yields (config\<lparr>oc_host_a := host_a, oc_host_b := host_b\<rparr>)))))"

definition build_set_broadcast_overlay :: "edl_codec \<Rightarrow> overlay_codec \<Rightarrow> op_builder \<Rightarrow> script_op reader" where
  "build_set_broadcast_overlay codec over b =
     and_then (parse_broadcast_overlay_config codec over (ob_head_line b)) (\<lambda>config.
       yields (SetBroadcastOverlay config))"

section \<open>Payloads\<close>

text \<open>One required payload: the name of the operation, its type and its field.\<close>

definition build_payload :: "edl_codec \<Rightarrow> op_builder \<Rightarrow> string \<Rightarrow> string \<Rightarrow> string \<Rightarrow> script_op reader" where
  "build_payload codec b name ty key =
     and_then (required_json codec (ec_payload codec ty) key (ob_head_line b)) (\<lambda>v. yields (Payload name v None))"

definition build_payloads ::
  "edl_codec \<Rightarrow> op_builder \<Rightarrow> string \<Rightarrow> string \<Rightarrow> string \<Rightarrow> string \<Rightarrow> string \<Rightarrow> json option \<Rightarrow> script_op reader" where
  "build_payloads codec b name ty key ty2 key2 absent =
     and_then (required_json codec (ec_payload codec ty) key (ob_head_line b)) (\<lambda>v.
     and_then (optional_json codec (ec_payload codec ty2) key2 (ob_head_line b)) (\<lambda>w.
       yields (Payload name v (case w of Some x \<Rightarrow> Some x | None \<Rightarrow> absent))))"

definition build_professional_edit :: "edl_codec \<Rightarrow> op_builder \<Rightarrow> script_op reader" where
  "build_professional_edit codec b =
     and_then (required_json codec (ec_pro_edit codec) ''edit_json'' (ob_head_line b)) (\<lambda>edit.
       yields (Timeline (ProTimelineEdit edit)))"

definition parse_reframe_smoothing :: "nat \<Rightarrow> string \<Rightarrow> edl_parse_error + reframe_smoothing" where
  "parse_reframe_smoothing line raw =
     (let s = to_ascii_lowercase (trim raw)
      in keyword line ''smoothing''
           (Fmt ''unknown reframe smoothing {:?}; expected none, gentle, moderate, or strong'' [A_dbg s])
           [(''none'', SmoothNone), (''gentle'', SmoothGentle), (''moderate'', SmoothModerate), (''strong'', SmoothStrong)] s)"

definition build_author_reframe :: "op_builder \<Rightarrow> script_op reader" where
  "build_author_reframe b =
     and_then (required (ob_head_line b) value_u32 ''source_width'') (\<lambda>sw.
     and_then (required (ob_head_line b) value_u32 ''source_height'') (\<lambda>sh.
     and_then (required (ob_head_line b) value_u32 ''target_width'') (\<lambda>tw.
     and_then (required (ob_head_line b) value_u32 ''target_height'') (\<lambda>th.
     and_then (the_f64 b ''frame_rate'') (\<lambda>rate.
     and_then (the_string b ''track_id'') (\<lambda>trk.
     and_then (the_string b ''clip_id'') (\<lambda>c.
     and_then (the_string b ''aspect_ratio'') (\<lambda>ratio.
     and_then (parsed (parse_reframe_smoothing (ob_head_line b)) ''smoothing'') (\<lambda>smoothing.
     and_then (optional value_string ''safe_area'') (\<lambda>safe.
       yields (AuthorSubjectReframe
         \<lparr>ra_track_id = trk, ra_clip_id = c, ra_aspect_ratio = ratio, ra_source_width = sw, ra_source_height = sh,
          ra_target_width = tw, ra_target_height = th, ra_frame_rate = rate,
          ra_smoothing = unwrap_or SmoothModerate smoothing, ra_safe_area = safe\<rparr>)))))))))))"

definition parse_workflow_lens :: "nat \<Rightarrow> string \<Rightarrow> edl_parse_error + workflow_lens" where
  "parse_workflow_lens line =
     keyword line ''lens: {}''
       (msg ''must be one of: media, selects, assembly, edit_review, vfx, color, audio, delivery, preflight'')
       [(''media'', LensMedia), (''selects'', LensSelects), (''assembly'', LensAssembly),
        (''edit_review'', LensEditReview), (''vfx'', LensVfx), (''color'', LensColor), (''audio'', LensAudio),
        (''delivery'', LensDelivery), (''preflight'', LensPreflight)]"

definition build_set_workflow_lens :: "op_builder \<Rightarrow> script_op reader" where
  "build_set_workflow_lens b =
     and_then (the_string b ''lens'') (\<lambda>raw.
     and_then (checked (parse_workflow_lens (ob_head_line b) raw)) (\<lambda>lens. yields (SetWorkflowLens lens)))"

section \<open>Building an operation\<close>

fun build_kind :: "edl_codec \<Rightarrow> overlay_codec \<Rightarrow> op_kind \<Rightarrow> op_builder \<Rightarrow> script_op reader" where
  "build_kind codec over K_TrimClip b = build_trim_clip b"
| "build_kind codec over K_DeleteClip b = build_delete_clip b"
| "build_kind codec over K_SplitClip b = build_split_clip b"
| "build_kind codec over K_UntrimClip b = build_untrim_clip b"
| "build_kind codec over K_InsertClip b = build_insert_clip b"
| "build_kind codec over K_InsertBRoll b = build_insert_broll b"
| "build_kind codec over K_InsertPiP b = build_insert_pip b"
| "build_kind codec over K_MoveClip b = build_move_clip b"
| "build_kind codec over K_RippleMove b = build_ripple_move b"
| "build_kind codec over K_RippleDelete b = build_ripple_delete b"
| "build_kind codec over K_RippleTrim b = build_ripple_trim b"
| "build_kind codec over K_DeleteGap b = build_delete_gap b"
| "build_kind codec over K_TrimTrackTail b = build_trim_track_tail b"
| "build_kind codec over K_InsertTrack b = build_insert_track b"
| "build_kind codec over K_DeleteTrack b = build_delete_track b"
| "build_kind codec over K_ApplyMulticamPlan b = build_multicam codec b"
| "build_kind codec over K_InsertTransition b = build_insert_transition codec b"
| "build_kind codec over K_DeleteTransition b = build_delete_transition b"
| "build_kind codec over K_SetCutIntent b = build_set_cut_intent b"
| "build_kind codec over K_SetVolume b = build_set_volume b"
| "build_kind codec over K_MuteClip b = build_mute_clip b"
| "build_kind codec over K_RemoveAudio b = build_remove_audio b"
| "build_kind codec over K_SetAudioFade b = build_set_audio_fade b"
| "build_kind codec over K_SetAudioLead b = build_set_audio_lead b"
| "build_kind codec over K_SetAudioTrail b = build_set_audio_trail b"
| "build_kind codec over K_SetTrackAudio b = build_set_track_audio b"
| "build_kind codec over K_SetDucking b = build_set_ducking b"
| "build_kind codec over K_SetSyncGroup b = build_set_sync_group b"
| "build_kind codec over K_SetClipAudioFx b = build_set_clip_audio_fx codec b"
| "build_kind codec over K_SetTrackAudioFx b = build_set_track_audio_fx codec b"
| "build_kind codec over K_SetEffect b = build_set_effect codec b"
| "build_kind codec over K_SetSpeed b = build_set_speed b"
| "build_kind codec over K_SetTimeRemap b = build_set_time_remap codec b"
| "build_kind codec over K_SetFreeze b = build_set_freeze b"
| "build_kind codec over K_SetColorCorrection b = build_set_color_correction b"
| "build_kind codec over K_ApplyLut b = build_apply_lut b"
| "build_kind codec over K_RemoveLut b = build_remove_lut b"
| "build_kind codec over K_InsertTitle b = build_insert_title codec b"
| "build_kind codec over K_InsertRichTitle b = build_insert_rich_title codec b"
| "build_kind codec over K_InstantiateMotionTemplate b = build_motion_template codec b"
| "build_kind codec over K_SetTitle b = build_set_title codec b"
| "build_kind codec over K_InsertCaption b = build_insert_caption codec b"
| "build_kind codec over K_InsertAnnotation b = build_insert_annotation b"
| "build_kind codec over K_SetOutputFormat b = build_set_output_format b"
| "build_kind codec over K_SetLoudnessTarget b = build_set_loudness_target b"
| "build_kind codec over K_SetPackageMetadata b = build_set_package_metadata b"
| "build_kind codec over K_SetBroadcastOverlay b = build_set_broadcast_overlay codec over b"
| "build_kind codec over K_SetAssetCatalog b = build_payload codec b ''SetAssetCatalog'' ''AssetCatalog'' ''catalog_json''"
| "build_kind codec over K_SetSourceReview b =
     build_payloads codec b ''SetSourceReview'' ''Vec<SourceSelect>'' ''selects_json''
       ''Vec<Stringout>'' ''stringouts_json'' (Some (JArr []))"
| "build_kind codec over K_ProTimelineEdit b = build_professional_edit codec b"
| "build_kind codec over K_AddProposalPackage b =
     build_payload codec b ''AddProposalPackage'' ''ProposalPackage'' ''package_json''"
| "build_kind codec over K_SetParameterAnimation b =
     build_payload codec b ''SetParameterAnimation'' ''ParameterAnimation'' ''animation_json''"
| "build_kind codec over K_SetMotionTemplate b =
     build_payload codec b ''SetMotionTemplate'' ''MotionGraphicsTemplate'' ''template_json''"
| "build_kind codec over K_SetMotionScene b = build_payload codec b ''SetMotionScene'' ''MotionScene'' ''scene_json''"
| "build_kind codec over K_AttachComposition b =
     build_payloads codec b ''AttachComposition'' ''CompositionGraph'' ''graph_json'' ''SourceRange'' ''attach_to_json'' None"
| "build_kind codec over K_SetTrackingPackage b =
     build_payload codec b ''SetTrackingPackage'' ''TrackingPackage'' ''package_json''"
| "build_kind codec over K_AuthorSubjectReframe b = build_author_reframe b"
| "build_kind codec over K_SetColorFinishing b =
     build_payload codec b ''SetColorFinishing'' ''ColorFinishingState'' ''state_json''"
| "build_kind codec over K_SetAudioFinishing b =
     build_payload codec b ''SetAudioFinishing'' ''AudioFinishingState'' ''state_json''"
| "build_kind codec over K_SelectDeliveryProfile b =
     build_payload codec b ''SelectDeliveryProfile'' ''DeliveryProfile'' ''profile_json''"
| "build_kind codec over K_AddPreflightReport b =
     build_payload codec b ''AddPreflightReport'' ''PreflightReport'' ''report_json''"
| "build_kind codec over K_SetWorkflowLens b = build_set_workflow_lens b"
| "build_kind codec over K_SetPipelineReadiness b =
     build_payloads codec b ''SetPipelineReadiness'' ''PipelineReadinessReport'' ''readiness_json''
       ''Vec<PlannerPassContract>'' ''planner_passes_json'' (Some (JArr []))"
| "build_kind codec over K_SetBrandKit b = build_payload codec b ''SetBrandKit'' ''BrandKit'' ''kit_json''"

text \<open>What is left of the fields is dropped without a word.\<close>

definition build :: "edl_codec \<Rightarrow> overlay_codec \<Rightarrow> op_builder \<Rightarrow> edl_parse_error + script_op" where
  "build codec over b = rbind (build_kind codec over (ob_op_kind b) b (ob_fields b)) (\<lambda>(x, _). Inr x)"

section \<open>The machine over the lines\<close>

datatype parser_state = Outside | InsideEnvelope | Closed

record parser =
  ps_state :: parser_state
  ps_ops :: "script_op list"
  ps_current :: "op_builder option"
  ps_saw_end :: bool

definition parser_init :: parser where
  "parser_init = \<lparr>ps_state = Outside, ps_ops = [], ps_current = None, ps_saw_end = False\<rparr>"

text \<open>The block under assembly, if any, is built and pushed.\<close>

definition flush :: "edl_codec \<Rightarrow> overlay_codec \<Rightarrow> parser \<Rightarrow> edl_parse_error + parser" where
  "flush codec over p =
     (case ps_current p of
        None \<Rightarrow> Inr p
      | Some b \<Rightarrow> rbind (build codec over b) (\<lambda>x. Inr (p\<lparr>ps_ops := ps_ops p @ [x], ps_current := None\<rparr>)))"

definition with_current ::
  "parser \<Rightarrow> nat \<Rightarrow> string \<Rightarrow> (op_builder \<Rightarrow> edl_parse_error + op_builder) \<Rightarrow> edl_parse_error + parser" where
  "with_current p n line f =
     (case ps_current p of
        None \<Rightarrow> Inl (StrayLine n line)
      | Some b \<Rightarrow> rbind (f b) (\<lambda>b'. Inr (p\<lparr>ps_current := Some b'\<rparr>)))"

definition inside_line :: "edl_codec \<Rightarrow> overlay_codec \<Rightarrow> parser \<Rightarrow> nat \<Rightarrow> string \<Rightarrow> edl_parse_error + parser" where
  "inside_line codec over p n line =
     (if line = ''*** End EDL''
      then rbind (flush codec over p) (\<lambda>q. Inr (q\<lparr>ps_saw_end := True, ps_state := Closed\<rparr>))
      else case strip_prefix ''*** '' line of
        Some rest \<Rightarrow>
          rbind (flush codec over p) (\<lambda>q. rbind (builder_new_for rest n) (\<lambda>b. Inr (q\<lparr>ps_current := Some b\<rparr>)))
      | None \<Rightarrow>
      case strip_prefix ''@@ anchor: '' line of
        Some rest \<Rightarrow> with_current p n line (\<lambda>b. rbind (parse_anchor rest n) (\<lambda>a. Inr (b\<lparr>ob_anchor := Some a\<rparr>)))
      | None \<Rightarrow>
      case strip_prefix ''@@ between: '' line of
        Some rest \<Rightarrow> with_current p n line (\<lambda>b. rbind (parse_between rest n) (\<lambda>c. Inr (b\<lparr>ob_between := Some c\<rparr>)))
      | None \<Rightarrow>
      case strip_prefix ''+ '' line of
        Some field \<Rightarrow>
          with_current p n line (\<lambda>b. rbind (parse_field codec field n line) (\<lambda>kv. Inr (b\<lparr>ob_fields := ob_fields b @ [kv]\<rparr>)))
      | None \<Rightarrow>
      case strip_prefix ''- '' line of
        Some _ \<Rightarrow> Inr p
      | None \<Rightarrow> Inl (StrayLine n line))"

definition parse_line :: "edl_codec \<Rightarrow> overlay_codec \<Rightarrow> parser \<Rightarrow> nat \<Rightarrow> string \<Rightarrow> edl_parse_error + parser" where
  "parse_line codec over p n raw =
     (let line = trim_end raw
      in if trim line = [] then Inr p
         else case ps_state p of
           Outside \<Rightarrow> if line = ''*** Begin EDL'' then Inr (p\<lparr>ps_state := InsideEnvelope\<rparr>) else Inl (StrayLine n line)
         | InsideEnvelope \<Rightarrow> inside_line codec over p n line
         | Closed \<Rightarrow> Inl (StrayLine n line))"

fun parse_lines :: "edl_codec \<Rightarrow> overlay_codec \<Rightarrow> nat \<Rightarrow> string list \<Rightarrow> parser \<Rightarrow> edl_parse_error + parser" where
  "parse_lines codec over n [] p = Inr p"
| "parse_lines codec over n (l # ls) p = rbind (parse_line codec over p n l) (parse_lines codec over (Suc n) ls)"

definition parse :: "edl_codec \<Rightarrow> overlay_codec \<Rightarrow> string \<Rightarrow> edl_parse_error + script_op list" where
  "parse codec over s =
     rbind (parse_lines codec over 1 (text_lines s) parser_init) (\<lambda>p.
       if ps_state p = Outside then Inl MissingBegin
       else if \<not> ps_saw_end p then Inl MissingEnd
       else Inr (ps_ops p))"

end
