(* ===== verification/Tool_Edits.thy ===== *)
theory Tool_Edits
  imports Edl_Parser
begin

text \<open>
  The editing tools of \<open>crates/core/src/montage_mcp/tools/granular_timeline.rs\<close>: each writes its
  arguments as a script of the edit language, which is then parsed and applied. A tool is modelled
  up to that script.
\<close>

section \<open>Arguments\<close>

record anchor_arg =
  aa_clip_uuid :: "string option"
  aa_transcript_snippet :: "string option"
  aa_asset_id :: "string option"
  aa_scene_change_index :: "u32 option"

record move_clip_args =
  mv_anchor :: anchor_arg
  mv_to_position :: "nat option"
  mv_at_s :: "f64 option"
  mv_snap :: "bool option"
  mv_snap_tolerance_s :: "f64 option"
  mv_snap_targets :: "string list"

record set_marker_args =
  sm_marker_id :: "string option"
  sm_anchor :: "anchor_arg option"
  sm_at_s :: "f64 option"
  sm_label :: "string option"
  sm_category :: "string option"
  sm_note :: "string option"
  sm_duration_s :: "f64 option"

record clip_property_args =
  cpa_anchor :: anchor_arg
  cpa_volume :: "f64 option"
  cpa_speed :: "f64 option"
  cpa_effect :: "string option"
  cpa_params :: json_map
  cpa_rationale :: "string option"

record track_property_args =
  tpa_track :: string
  tpa_role :: "string option"
  tpa_volume :: "f64 option"
  tpa_muted :: "bool option"
  tpa_solo :: "bool option"

section \<open>Writing\<close>

definition line_feed :: string where
  "line_feed = [CHR 0x0A]"

definition delegated_edl :: "string list \<Rightarrow> string" where
  "delegated_edl ops =
     ''*** Begin EDL'' @ concat (map (\<lambda>x. line_feed @ x) ops) @ line_feed @ ''*** End EDL'' @ line_feed"

definition single_line :: "string \<Rightarrow> string" where
  "single_line s = trim (map (\<lambda>c. if c = CHR 0x0A \<or> c = CHR 0x0D then CHR 0x20 else c) s)"

definition json_string :: "edl_codec \<Rightarrow> string \<Rightarrow> string" where
  "json_string codec s = ec_quote codec (single_line s)"

definition fmt_num :: "f64 \<Rightarrow> string" where
  "fmt_num x =
     (if is_finite x \<and> fval x = of_int \<lfloor>fval x\<rfloor>
      then sign_text (fsign x) @ dec_of_nat (nat \<lfloor>\<bar>fval x\<bar>\<rfloor>) @ ''.0''
      else f64_display x)"

text \<open>\<open>\n+ key: value\<close>.\<close>

definition field_line :: "string \<Rightarrow> string \<Rightarrow> string" where
  "field_line key v = line_feed @ ''+ '' @ key @ '': '' @ v"

definition push_opt_line :: "string \<Rightarrow> ('a \<Rightarrow> string) \<Rightarrow> 'a option \<Rightarrow> string" where
  "push_opt_line key show v = (case v of None \<Rightarrow> [] | Some x \<Rightarrow> field_line key (show x))"

definition push_opt_num :: "string \<Rightarrow> f64 option \<Rightarrow> string" where
  "push_opt_num key v = push_opt_line key fmt_num v"

definition bool_text :: "bool \<Rightarrow> string" where
  "bool_text v = (if v then ''true'' else ''false'')"

definition no_anchor :: string where
  "no_anchor = ''anchor must include clip_uuid, transcript_snippet, or asset_id + scene_change_index''"

definition edl_anchor :: "edl_codec \<Rightarrow> anchor_arg \<Rightarrow> string + string" where
  "edl_anchor codec a =
     (case aa_clip_uuid a of
        Some uuid \<Rightarrow> Inr (''clip_uuid='' @ single_line uuid)
      | None \<Rightarrow>
      case aa_transcript_snippet a of
        Some t \<Rightarrow> Inr (''transcript_snippet='' @ json_string codec t)
      | None \<Rightarrow>
      case (aa_asset_id a, aa_scene_change_index a) of
        (Some asset, Some i) \<Rightarrow> Inr (''scene_change_index='' @ single_line asset @ '':'' @ dec_of_nat (unat i))
      | _ \<Rightarrow> Inl no_anchor)"

text \<open>The anchor that \<open>json_anchor\<close> writes as an object, kept as the anchor it denotes.\<close>

definition json_anchor :: "anchor_arg \<Rightarrow> string + anchor" where
  "json_anchor a =
     (case aa_clip_uuid a of
        Some uuid \<Rightarrow> Inr (ClipUuid uuid)
      | None \<Rightarrow>
      case aa_transcript_snippet a of
        Some t \<Rightarrow> Inr (TranscriptSnippet t)
      | None \<Rightarrow>
      case (aa_asset_id a, aa_scene_change_index a) of
        (Some asset, Some i) \<Rightarrow> Inr (SceneChangeIndex asset i)
      | _ \<Rightarrow> Inl no_anchor)"

definition professional_edit_op :: "edl_codec \<Rightarrow> pro_edit \<Rightarrow> string" where
  "professional_edit_op codec edit = ''*** Professional Timeline Edit'' @ field_line ''edit_json'' (ec_edit_text codec edit)"

definition anchored :: "string \<Rightarrow> string \<Rightarrow> string" where
  "anchored heading a = ''*** '' @ heading @ line_feed @ ''@@ anchor: '' @ a"

section \<open>The tools\<close>

definition run_split_clip :: "edl_codec \<Rightarrow> anchor_arg \<Rightarrow> f64 \<Rightarrow> string + string" where
  "run_split_clip codec a at_s =
     rbind (edl_anchor codec a) (\<lambda>t. Inr (delegated_edl [anchored ''Split Clip'' t @ field_line ''at_s'' (fmt_num at_s)]))"

definition run_trim_clip :: "edl_codec \<Rightarrow> anchor_arg \<Rightarrow> f64 option \<Rightarrow> f64 option \<Rightarrow> string + string" where
  "run_trim_clip codec a s e =
     rbind (edl_anchor codec a) (\<lambda>t.
       Inr (delegated_edl [anchored ''Trim Clip'' t @ push_opt_num ''start'' s @ push_opt_num ''end'' e]))"

definition run_move_clip :: "edl_codec \<Rightarrow> move_clip_args \<Rightarrow> string + string" where
  "run_move_clip codec m =
     rbind (edl_anchor codec (mv_anchor m)) (\<lambda>t.
       Inr (delegated_edl [anchored ''Move Clip'' t
         @ push_opt_line ''to_position'' dec_of_nat (mv_to_position m)
         @ push_opt_num ''at_s'' (mv_at_s m)
         @ push_opt_line ''snap'' bool_text (mv_snap m)
         @ push_opt_num ''snap_tolerance_s'' (mv_snap_tolerance_s m)
         @ (if mv_snap_targets m = [] then [] else field_line ''snap_targets'' (join '', '' (mv_snap_targets m)))]))"

fun edl_anchors :: "edl_codec \<Rightarrow> anchor_arg list \<Rightarrow> string + string list" where
  "edl_anchors codec [] = Inr []"
| "edl_anchors codec (a # as) = rbind (edl_anchor codec a) (\<lambda>t. rbind (edl_anchors codec as) (\<lambda>ts. Inr (t # ts)))"

definition run_delete_clips :: "edl_codec \<Rightarrow> anchor_arg list \<Rightarrow> string + string" where
  "run_delete_clips codec as =
     (if as = [] then Inl ''delete_clips: anchors must contain at least one clip anchor''
      else rbind (edl_anchors codec as) (\<lambda>ts. Inr (delegated_edl (map (anchored ''Delete Clip'') ts))))"

definition run_roll_trim :: "edl_codec \<Rightarrow> anchor_arg \<Rightarrow> anchor_arg \<Rightarrow> f64 \<Rightarrow> string + string" where
  "run_roll_trim codec outgoing incoming delta_s =
     rbind (json_anchor outgoing) (\<lambda>f. rbind (json_anchor incoming) (\<lambda>t.
       Inr (delegated_edl [professional_edit_op codec (PE_RollEdit f t delta_s)])))"

definition run_slip_clip :: "edl_codec \<Rightarrow> anchor_arg \<Rightarrow> f64 \<Rightarrow> string + string" where
  "run_slip_clip codec a delta_s =
     rbind (json_anchor a) (\<lambda>t. Inr (delegated_edl [professional_edit_op codec (PE_SlipClip t delta_s)]))"

definition run_ripple_trim :: "edl_codec \<Rightarrow> anchor_arg \<Rightarrow> f64 \<Rightarrow> string list \<Rightarrow> string + string" where
  "run_ripple_trim codec a new_end_s tracks =
     rbind (json_anchor a) (\<lambda>t.
       Inr (delegated_edl [professional_edit_op codec (PE_RippleTrim t new_end_s tracks)]))"

text \<open>An update selects the marker by the label and the time it is to have.\<close>

definition set_marker_edit :: "set_marker_args \<Rightarrow> string + pro_edit" where
  "set_marker_edit m =
     (if sm_marker_id m \<noteq> None \<or> sm_anchor m \<noteq> None
      then rbind (case sm_anchor m of None \<Rightarrow> Inr None | Some a \<Rightarrow> rbind (json_anchor a) (\<lambda>x. Inr (Some x))) (\<lambda>a.
        Inr (PE_UpdateMarker
          \<lparr>ms_marker_id = sm_marker_id m, ms_anchor = a, ms_label = sm_label m, ms_at_s = sm_at_s m\<rparr>
          \<lparr>mu_label = sm_label m, mu_category = sm_category m, mu_note = sm_note m, mu_at_s = sm_at_s m,
           mu_duration_s = sm_duration_s m\<rparr>))
      else case sm_at_s m of
        None \<Rightarrow> Inl ''set_marker: at_s is required to add a marker''
      | Some at_s \<Rightarrow>
      case sm_label m of
        None \<Rightarrow> Inl ''set_marker: label is required to add a marker''
      | Some label \<Rightarrow> Inr (PE_AddMarker at_s label (sm_category m)))"

definition run_set_marker :: "edl_codec \<Rightarrow> set_marker_args \<Rightarrow> string + string" where
  "run_set_marker codec m =
     rbind (set_marker_edit m) (\<lambda>edit. Inr (delegated_edl [professional_edit_op codec edit]))"

text \<open>The name of the effect is written as it is.\<close>

definition run_set_clip_property :: "edl_codec \<Rightarrow> clip_property_args \<Rightarrow> string + string" where
  "run_set_clip_property codec p =
     rbind (edl_anchor codec (cpa_anchor p)) (\<lambda>a.
       let ops = (case cpa_volume p of None \<Rightarrow> [] | Some v \<Rightarrow> [anchored ''Set Volume'' a @ field_line ''value'' (fmt_num v)])
             @ (case cpa_speed p of None \<Rightarrow> [] | Some v \<Rightarrow> [anchored ''Set Speed'' a @ field_line ''factor'' (fmt_num v)])
             @ (case cpa_effect p of None \<Rightarrow> []
                | Some fx \<Rightarrow> [anchored ''Set Effect'' a @ field_line ''effect'' fx
                    @ field_line ''params_json'' (ec_print codec (JObj (cpa_params p)))
                    @ push_opt_line ''rationale'' single_line (cpa_rationale p)])
       in if ops = [] then Inl ''set_clip_property: provide at least one of volume, speed, or effect''
          else Inr (delegated_edl ops))"

definition run_set_track_property :: "track_property_args \<Rightarrow> string + string" where
  "run_set_track_property p =
     Inr (delegated_edl [''*** Set Track Audio'' @ field_line ''track'' (single_line (tpa_track p))
       @ push_opt_line ''role'' single_line (tpa_role p)
       @ push_opt_num ''volume'' (tpa_volume p)
       @ push_opt_line ''muted'' bool_text (tpa_muted p)
       @ push_opt_line ''solo'' bool_text (tpa_solo p)])"

end
