(* ===== verification/Edl_Marker_Props.thy ===== *)
theory Edl_Marker_Props
  imports Edl_Media_Props
begin

text \<open>
  Marker ids: which markers a selector by id picks out, that deleting a marker just added undoes the
  addition, and that the id built from positions and a count can be given twice.
\<close>

section \<open>Markers by id\<close>

definition by_id :: "string \<Rightarrow> marker_selector" where
  "by_id i = \<lparr>ms_marker_id = Some i, ms_anchor = None, ms_label = None, ms_at_s = None\<rparr>"

lemma by_id_simps [simp]:
  "ms_marker_id (by_id i) = Some i" "ms_anchor (by_id i) = None" "ms_label (by_id i) = None" "ms_at_s (by_id i) = None"
  by (simp_all add: by_id_def)

text \<open>Where the markers with an id are: track, child and position on the clip.\<close>

definition marked :: "timeline \<Rightarrow> string \<Rightarrow> (nat \<times> nat \<times> nat) set" where
  "marked t i = {(ti, ci, mi). \<exists>c. clip_at t \<lparr>cl_track_index = ti, cl_child_index = ci\<rparr> = Some c
     \<and> mi < length (clip_markers c) \<and> marker_metadata_id (clip_markers c ! mi) = Some i}"

definition place :: "marker_candidate \<Rightarrow> nat \<times> nat \<times> nat" where
  "place mc = (mc_track_index mc, mc_child_index mc, mc_marker_index mc)"

lemma clip_candidates_places:
  "place ` set (clip_candidates (by_id x) ti ci s e c) =
     {(ti, ci, mi) | mi. mi < length (clip_markers c) \<and> marker_metadata_id (clip_markers c ! mi) = Some (trim x)}"
  "distinct (map place (clip_candidates (by_id x) ti ci s e c))"
proof -
  have eq: "map place (clip_candidates (by_id x) ti ci s e c) = map (\<lambda>(mi, m). (ti, ci, mi))
      (filter (\<lambda>(mi, m). marker_metadata_id m = Some (trim x)) (enumerate 0 (clip_markers c)))"
    by (auto simp: clip_candidates_def List.map_filter_def by_id_def marker_matches_selector_def place_def Let_def
        comp_def case_prod_unfold)
  then show "place ` set (clip_candidates (by_id x) ti ci s e c) =
     {(ti, ci, mi) | mi. mi < length (clip_markers c) \<and> marker_metadata_id (clip_markers c ! mi) = Some (trim x)}"
    unfolding set_map [symmetric] by (force simp: in_set_enumerate_eq)
  show "distinct (map place (clip_candidates (by_id x) ti ci s e c))"
  proof -
    have "map place (clip_candidates (by_id x) ti ci s e c) = map (\<lambda>mi. (ti, ci, mi)) (map fst
        (filter (\<lambda>(mi, m). marker_metadata_id m = Some (trim x)) (enumerate 0 (clip_markers c))))"
      unfolding eq by (simp add: case_prod_unfold)
    moreover have "distinct (map fst
        (filter (\<lambda>(mi, m). marker_metadata_id m = Some (trim x)) (enumerate 0 (clip_markers c))))"
      by (rule distinct_map_filter) simp
    ultimately show ?thesis by (simp only: distinct_map) (simp add: inj_on_def)
  qed
qed

lemma track_candidates_places:
  "place ` set (track_candidates (by_id x) None ti ci s cs) =
     {(ti, ci + k, mi) | k mi c. k < length cs \<and> cs ! k = TC_Clip c \<and> mi < length (clip_markers c)
        \<and> marker_metadata_id (clip_markers c ! mi) = Some (trim x)}
   \<and> distinct (map place (track_candidates (by_id x) None ti ci s cs))" (is "_ = ?places ci cs \<and> _")
proof (induction cs arbitrary: ci s)
  case (Cons d cs)
  let ?here = "case d of TC_Clip c \<Rightarrow> clip_candidates (by_id x) ti ci s (fadd s (child_duration d)) c | _ \<Rightarrow> []"
  let ?rest = "track_candidates (by_id x) None ti (Suc ci) (fadd s (child_duration d)) cs"
  have run: "track_candidates (by_id x) None ti ci s (d # cs) = ?here @ ?rest"
    by (simp add: Let_def split: track_child.splits)
  have here: "place ` set ?here = {(ti, ci, mi) | mi c. d = TC_Clip c \<and> mi < length (clip_markers c)
      \<and> marker_metadata_id (clip_markers c ! mi) = Some (trim x)}" "distinct (map place ?here)"
    by (cases d; simp add: clip_candidates_places; blast)+
  note rest = Cons.IH [of "Suc ci" "fadd s (child_duration d)"]
  have "?places ci (d # cs) = place ` set ?here \<union> place ` set ?rest"
    unfolding here(1) rest [THEN conjunct1] by (auto simp: less_Suc_eq_0_disj)
  moreover have "place ` set ?here \<inter> place ` set ?rest = {}"
    unfolding here(1) rest [THEN conjunct1] by auto
  ultimately show ?case unfolding run using here(2) rest by (simp add: image_Un)
qed simp

lemma collect_from:
  "distinct (map place (concat (map (\<lambda>(ti, sc). track_candidates (by_id x) None ti 0 (Fin 0) (sc_children sc))
      (enumerate n scs))))
   \<and> (\<forall>p \<in> set (concat (map (\<lambda>(ti, sc). track_candidates (by_id x) None ti 0 (Fin 0) (sc_children sc))
      (enumerate n scs))). n \<le> mc_track_index p)"
proof (induction scs arbitrary: n)
  case (Cons sc scs)
  let ?here = "track_candidates (by_id x) None n 0 (Fin 0) (sc_children sc)"
  let ?rest = "concat (map (\<lambda>(ti, sc). track_candidates (by_id x) None ti 0 (Fin 0) (sc_children sc))
      (enumerate (Suc n) scs))"
  have here: "mc_track_index p = n" if "p \<in> set ?here" for p using track_candidates_bound [OF that] by simp
  have rest: "distinct (map place ?rest)" "Suc n \<le> mc_track_index p" if "p \<in> set ?rest" for p
    using Cons.IH [of "Suc n"] that by blast+
  have "place p \<noteq> place q" if "p \<in> set ?here" "q \<in> set ?rest" for p q
    using here [OF that(1)] rest(2) [OF that(2)] by (auto simp: place_def)
  then have "place ` set ?here \<inter> place ` set ?rest = {}" by blast
  moreover have "distinct (map place ?rest)" using Cons.IH [of "Suc n"] by blast
  moreover have "n \<le> mc_track_index p" if "p \<in> set ?here \<union> set ?rest" for p
    using that here rest(2) Suc_leD by (metis UnE order_refl)
  ultimately show ?case
    using track_candidates_places [of x n 0 "Fin 0" "sc_children sc"] by (simp del: set_concat)
qed simp

lemma collect_places:
  "place ` set (collect_marker_candidates t (by_id x) None) = marked t (trim x)"
  "distinct (map place (collect_marker_candidates t (by_id x) None))"
proof -
  show "distinct (map place (collect_marker_candidates t (by_id x) None))"
    using collect_from unfolding collect_marker_candidates_def by blast
  have "place ` set (collect_marker_candidates t (by_id x) None) =
      (\<Union>ti < length (tl_children t). place ` set (track_candidates (by_id x) None ti 0 (Fin 0)
        (sc_children (tl_children t ! ti))))"
    by (force simp: collect_marker_candidates_def in_set_enumerate_eq)
  also have "\<dots> = marked t (trim x)"
    unfolding track_candidates_places [THEN conjunct1]
    by (auto simp: marked_def clip_at_def tl_children_def Let_def split: if_splits track_child.splits)
  finally show "place ` set (collect_marker_candidates t (by_id x) None) = marked t (trim x)" .
qed

lemma resolve_by_id:
  assumes "trim x \<noteq> []"
  shows "marked t (trim x) = {p} \<Longrightarrow> \<exists>mc. resolve_marker_candidate t i (by_id x) ctx = Inr mc \<and> place mc = p"
    and "p \<in> marked t (trim x) \<Longrightarrow> q \<in> marked t (trim x) \<Longrightarrow> p \<noteq> q \<Longrightarrow>
      \<exists>e. resolve_marker_candidate t i (by_id x) ctx = Inl e"
proof -
  let ?found = "collect_marker_candidates t (by_id x) None"
  note places = collect_places [of t x]
  have run: "resolve_marker_candidate t i (by_id x) ctx =
      (case ?found of
         [] \<Rightarrow> invalid i (Fmt ''marker selector {:?} matched no markers'' [A_msg (selector_msg (by_id x))])
       | [c] \<Rightarrow> Inr c
       | c # d # cs \<Rightarrow> invalid i (Fmt
           ''marker selector {:?} matches {} markers; add marker_id, anchor, or at_s to disambiguate''
           [A_msg (selector_msg (by_id x)), A_nat (length (c # d # cs))]))"
    using assms by (simp add: resolve_marker_candidate_def validate_marker_selector_def map_transpose_def)
  show "\<exists>mc. resolve_marker_candidate t i (by_id x) ctx = Inr mc \<and> place mc = p" if "marked t (trim x) = {p}"
    using places that unfolding run
    by (cases ?found rule: remdups_adj.cases) (auto simp: insert_eq_iff)
  show "\<exists>e. resolve_marker_candidate t i (by_id x) ctx = Inl e"
    if "p \<in> marked t (trim x)" "q \<in> marked t (trim x)" "p \<noteq> q"
    using that unfolding run places(1) [symmetric]
    by (cases ?found rule: remdups_adj.cases) auto
qed

section \<open>The ids given\<close>

lemma plain_trim: "list_all (\<lambda>c. 33 \<le> (of_char c :: nat) \<and> (of_char c :: nat) < 127) s \<Longrightarrow> trim s = s"
proof -
  assume plain: "list_all (\<lambda>c. 33 \<le> (of_char c :: nat) \<and> (of_char c :: nat) < 127) s"
  then have chars: "utf8_chars s = map (\<lambda>c. [c]) s"
    by (induction s) (auto simp: is_continuation_def split: list.splits)
  have ink: "\<not> is_whitespace [c]" if "c \<in> set s" for c
    using plain that by (auto simp: is_whitespace_def utf8_whitespace_def list_all_iff)
  have keep: "dropWhile is_whitespace (map (\<lambda>c. [c]) xs) = map (\<lambda>c. [c]) xs" if "set xs \<subseteq> set s" for xs
    using that ink by (cases xs) auto
  have "concat (map (\<lambda>c. [c]) xs) = xs" for xs :: string by (induction xs) simp_all
  with chars keep [of s] keep [of "rev s"] show "trim s = s"
    by (simp add: trim_def trim_start_def trim_end_def rev_map)
qed

lemma dec_of_nat_plain: "list_all (\<lambda>c. 33 \<le> (of_char c :: nat) \<and> (of_char c :: nat) < 127) (dec_of_nat n)"
proof (induction n rule: dec_of_nat.induct)
  case (1 n)
  have "n mod 10 < 10" by simp
  with 1 show ?case by (subst dec_of_nat.simps) (auto simp: of_char_digit)
qed

lemma marker_id_trim: "trim (marker_id_of ti ci c) = marker_id_of ti ci c" "marker_id_of ti ci c \<noteq> []"
proof -
  show "trim (marker_id_of ti ci c) = marker_id_of ti ci c"
    by (rule plain_trim) (simp add: marker_id_of_def dec_of_nat_plain)
qed (simp add: marker_id_of_def)

section \<open>Adding and deleting\<close>

text \<open>The clip a time falls on: its place, its start, the clip.\<close>

definition falls_on :: "f64 \<Rightarrow> timeline \<Rightarrow> nat \<Rightarrow> nat \<Rightarrow> clip \<Rightarrow> bool" where
  "falls_on at_s t ti ci c \<longleftrightarrow>
     (\<exists>start_s. covering_track at_s 0 (tl_children t) = Some (ti, ci, start_s))
     \<and> clip_at t \<lparr>cl_track_index = ti, cl_child_index = ci\<rparr> = Some c"

text \<open>The timeline with the markers of one clip replaced.\<close>

definition with_markers :: "nat \<Rightarrow> nat \<Rightarrow> clip \<Rightarrow> marker list \<Rightarrow> timeline \<Rightarrow> timeline" where
  "with_markers ti ci c ms t =
     with_track_children ti ((sc_children (tl_children t ! ti))[ci := TC_Clip (c\<lparr>clip_markers := ms\<rparr>)]) t"

lemma with_markers_at:
  assumes "clip_at t \<lparr>cl_track_index = ti, cl_child_index = ci\<rparr> = Some c"
  shows "clip_at (with_markers ti ci c ms t) \<lparr>cl_track_index = tj, cl_child_index = cj\<rparr> =
      (if tj = ti \<and> cj = ci then Some (c\<lparr>clip_markers := ms\<rparr>)
       else clip_at t \<lparr>cl_track_index = tj, cl_child_index = cj\<rparr>)"
    and "with_markers ti ci (c\<lparr>clip_markers := ms\<rparr>) ks (with_markers ti ci c ms t) = with_markers ti ci c ks t"
    and "with_markers ti ci c (clip_markers c) t = t"
proof -
  from clip_atE [OF assms] obtain tr where tr: "ti < length (tl_children t)" "tl_children t ! ti = SC_Track tr"
    "ci < length (track_children tr)" "track_children tr ! ci = TC_Clip c" by auto
  show "clip_at (with_markers ti ci c ms t) \<lparr>cl_track_index = tj, cl_child_index = cj\<rparr> =
      (if tj = ti \<and> cj = ci then Some (c\<lparr>clip_markers := ms\<rparr>)
       else clip_at t \<lparr>cl_track_index = tj, cl_child_index = cj\<rparr>)"
    using tr by (auto simp: clip_at_def with_markers_def Let_def nth_list_update simp flip: tl_children_def)
  show "with_markers ti ci (c\<lparr>clip_markers := ms\<rparr>) ks (with_markers ti ci c ms t) = with_markers ti ci c ks t"
    and "with_markers ti ci c (clip_markers c) t = t"
    using tr list_update_id [of "track_children tr" ci] with_own_track [OF tr(2)] by (simp_all add: with_markers_def)
qed

lemma marked_after:
  assumes "clip_at t \<lparr>cl_track_index = ti, cl_child_index = ci\<rparr> = Some c"
  shows "marked (with_markers ti ci c ms t) i =
    {p \<in> marked t i. \<not> (fst p = ti \<and> fst (snd p) = ci)}
    \<union> {(ti, ci, mi) | mi. mi < length ms \<and> marker_metadata_id (ms ! mi) = Some i}"
  by (auto simp: marked_def with_markers_at [OF assms] split: if_splits)

lemma add_marker_run:
  assumes "falls_on at_s t ti ci c" and "is_finite at_s" and "\<not> flt at_s (Fin 0)" and "trim label \<noteq> []"
  shows "\<exists>note m. apply_professional_marker i at_s label k t = Inr (note, with_markers ti ci c (clip_markers c @ [m]) t)
    \<and> marker_metadata_id m = Some (marker_id_of ti ci c) \<and> mk_name m = trim label"
proof -
  from assms(1) obtain start_s where cov: "covering_track at_s 0 (tl_children t) = Some (ti, ci, start_s)"
    and c: "clip_at t \<lparr>cl_track_index = ti, cl_child_index = ci\<rparr> = Some c" by (auto simp: falls_on_def)
  from clip_atE [OF c] obtain tr where tr: "tl_children t ! ti = SC_Track tr" "track_children tr ! ci = TC_Clip c" by auto
  show ?thesis using assms(2-4) cov tr
    by (simp add: apply_professional_marker_def with_markers_def Let_def marker_new_def marker_metadata_id_def)
      (intro exI conjI, rule refl, simp_all add: bt_get_def)
qed

lemma delete_marker_run:
  assumes "clip_at t \<lparr>cl_track_index = ti, cl_child_index = ci\<rparr> = Some c" and "trim x \<noteq> []"
    and "marked t (trim x) = {(ti, ci, mi)}"
  shows "\<exists>note. apply_delete_marker i (by_id x) ctx t = Inr (note, with_markers ti ci c (remove_at mi (clip_markers c)) t)"
proof -
  obtain mc where mc: "resolve_marker_candidate t i (by_id x) ctx = Inr mc" "place mc = (ti, ci, mi)"
    using resolve_by_id(1) [OF assms(2,3)] by blast
  have "(ti, ci, mi) \<in> marked t (trim x)" using assms(3) by simp
  then have mi: "mi < length (clip_markers c)" using assms(1) by (auto simp: marked_def)
  from clip_atE [OF assms(1)] obtain tr where tr: "ti < length (tl_children t)" "tl_children t ! ti = SC_Track tr"
    "ci < length (track_children tr)" "track_children tr ! ci = TC_Clip c" by auto
  show ?thesis using mc mi tr
    by (auto simp: apply_delete_marker_def place_def track_at_def clip_on_def vec_get_def with_markers_def Let_def)
qed

text \<open>C37: A marker that was added is picked out by the id it was given and deleted again, which restores the timeline,
  as long as no other marker has that id.\<close>

theorem add_then_delete_marker:
  assumes "falls_on at_s t ti ci c" and "is_finite at_s" and "\<not> flt at_s (Fin 0)" and "trim label \<noteq> []"
    and "marked t (marker_id_of ti ci c) = {}"
  shows "\<exists>note t' note'. apply_professional_marker i at_s label k t = Inr (note, t')
    \<and> marked t' (marker_id_of ti ci c) = {(ti, ci, length (clip_markers c))}
    \<and> apply_delete_marker j (by_id (marker_id_of ti ci c)) ctx t' = Inr (note', t)"
proof -
  let ?id = "marker_id_of ti ci c"
  have c: "clip_at t \<lparr>cl_track_index = ti, cl_child_index = ci\<rparr> = Some c" using assms(1) by (simp add: falls_on_def)
  obtain msg1 m where add: "apply_professional_marker i at_s label k t =
      Inr (msg1, with_markers ti ci c (clip_markers c @ [m]) t)" "marker_metadata_id m = Some ?id"
    using add_marker_run [OF assms(1-4)] by blast
  let ?t' = "with_markers ti ci c (clip_markers c @ [m]) t"
  have "\<forall>mi < length (clip_markers c). marker_metadata_id (clip_markers c ! mi) \<noteq> Some ?id"
    using assms(5) c by (auto simp: marked_def)
  then have here: "marked ?t' ?id = {(ti, ci, length (clip_markers c))}"
    using assms(5) add(2) by (auto simp: marked_after [OF c] nth_append less_Suc_eq)
  note at_new = with_markers_at(1) [OF c, of "clip_markers c @ [m]" ti ci, simplified]
  have "trim ?id \<noteq> []" "marked ?t' (trim ?id) = {(ti, ci, length (clip_markers c))}"
    using here by (simp_all add: marker_id_trim)
  from delete_marker_run [OF at_new this, of j ctx] with_markers_at(2,3) [OF c]
  have "\<exists>msg2. apply_delete_marker j (by_id ?id) ctx ?t' = Inr (msg2, t)" by (simp add: remove_at_def)
  then show ?thesis using add(1) here by blast
qed

text \<open>Markers do not change what a time falls on.\<close>

lemma covering_child_cong:
  "map child_duration cs = map child_duration ds \<Longrightarrow> covering_child x k s cs = covering_child x k s ds"
proof (induction cs arbitrary: ds k s)
  case (Cons c cs)
  then obtain d ds' where "ds = d # ds'" "child_duration c = child_duration d" "map child_duration cs = map child_duration ds'"
    by auto
  then show ?case using Cons.IH by (simp add: Let_def)
qed simp

lemma covering_track_update:
  "j < length scs \<Longrightarrow> map child_duration (sc_children sc) = map child_duration (sc_children (scs ! j)) \<Longrightarrow>
     covering_track x k (scs[j := sc]) = covering_track x k scs"
proof (induction scs arbitrary: j k)
  case (Cons y ys)
  show ?case
  proof (cases j)
    case 0
    with Cons.prems covering_child_cong [of "sc_children sc" "sc_children y"] show ?thesis by simp
  next
    case (Suc m)
    with Cons show ?thesis by (simp split: option.splits)
  qed
qed simp

lemma falls_on_with_markers:
  assumes "falls_on x t ti ci c"
  shows "falls_on x (with_markers ti ci c ms t) ti ci (c\<lparr>clip_markers := ms\<rparr>)"
proof -
  from assms have c: "clip_at t \<lparr>cl_track_index = ti, cl_child_index = ci\<rparr> = Some c" by (simp add: falls_on_def)
  from clip_atE [OF c] obtain tr where tr: "ti < length (tl_children t)" "tl_children t ! ti = SC_Track tr"
    "ci < length (track_children tr)" "track_children tr ! ci = TC_Clip c" by auto
  have "map child_duration ((track_children tr)[ci := TC_Clip (c\<lparr>clip_markers := ms\<rparr>)]) = map child_duration (track_children tr)"
    using tr(3,4) by (simp add: map_update list_update_same_conv)
  then have "covering_track x 0 (tl_children (with_markers ti ci c ms t)) = covering_track x 0 (tl_children t)"
    using tr covering_track_update [OF tr(1)] by (simp add: with_markers_def tl_children_with_track)
  then show ?thesis using assms with_markers_at(1) [OF c] by (simp add: falls_on_def)
qed

text \<open>The id of a new marker counts the markers of the clip at that moment, so after a deletion it can be the id of
  a marker that is still there: with two markers added, the first deleted and a third added, neither an update nor a
  deletion by the id of the second finds its marker any more.\<close>

theorem marker_ids_collide:
  assumes "\<forall>x \<in> {x1, x2, x3}. falls_on x t ti ci c \<and> is_finite x \<and> \<not> flt x (Fin 0)"
    and "trim l1 \<noteq> []" and "trim l2 \<noteq> []" and "trim l3 \<noteq> []"
    and "first = marker_id_of ti ci c"
    and "second = ''marker-'' @ dec_of_nat ti @ ''-'' @ dec_of_nat ci @ ''-'' @ dec_of_nat (Suc (length (clip_markers c)))"
    and "marked t first = {}" and "marked t second = {}"
  shows "\<exists>n1 t1 n2 t2 n3 t3 n4 t4.
    apply_professional_marker i x1 l1 k1 t = Inr (n1, t1)
    \<and> apply_professional_marker i x2 l2 k2 t1 = Inr (n2, t2)
    \<and> apply_delete_marker i (by_id first) ctx t2 = Inr (n3, t3)
    \<and> (\<exists>n t'. apply_delete_marker i (by_id second) ctx t3 = Inr (n, t'))
    \<and> apply_professional_marker i x3 l3 k3 t3 = Inr (n4, t4)
    \<and> (\<exists>e. apply_delete_marker i (by_id second) ctx t4 = Inl e)
    \<and> (\<forall>u. \<exists>e. apply_update_marker i (by_id second) u ctx t4 = Inl e)"
proof -
  let ?ms = "clip_markers c" and ?n = "length (clip_markers c)"
  have falls: "falls_on x1 t ti ci c" "falls_on x2 t ti ci c" "falls_on x3 t ti ci c"
    and times: "is_finite x1" "\<not> flt x1 (Fin 0)" "is_finite x2" "\<not> flt x2 (Fin 0)" "is_finite x3" "\<not> flt x3 (Fin 0)"
    using assms(1) by simp_all
  have c: "clip_at t \<lparr>cl_track_index = ti, cl_child_index = ci\<rparr> = Some c" using falls(1) by (simp add: falls_on_def)
  have ids: "marker_id_of ti ci (c\<lparr>clip_markers := ms\<rparr>) = second" if "length ms = Suc ?n" for ms
    using that assms(6) by (simp add: marker_id_of_def)
  have other: "first \<noteq> second" using assms(5,6) by (simp add: marker_id_of_def)
  have trims: "trim first = first" "first \<noteq> []" "trim second = second" "second \<noteq> []"
    using marker_id_trim [of ti ci c] marker_id_trim [of ti ci "c\<lparr>clip_markers := replicate (Suc ?n) undefined\<rparr>"] ids assms(5)
    by auto
  have none: "marker_metadata_id (?ms ! mi) \<noteq> Some first" "marker_metadata_id (?ms ! mi) \<noteq> Some second" if "mi < ?n" for mi
    using assms(7,8) c that by (auto simp: marked_def)
  define tm where tm: "tm ms = with_markers ti ci c ms t" for ms
  note at = with_markers_at(1) [OF c, of _ ti ci, folded tm, simplified]
  note again = with_markers_at(2) [OF c, folded tm]
  note falls' = falls [THEN falls_on_with_markers, folded tm]
  obtain n1 m1 where add1: "apply_professional_marker i x1 l1 k1 t = Inr (n1, tm (?ms @ [m1]))"
    "marker_metadata_id m1 = Some first"
    using add_marker_run [OF falls(1) times(1,2) assms(2), of i k1] assms(5) unfolding tm by blast
  obtain n2 m2 where add2: "apply_professional_marker i x2 l2 k2 (tm (?ms @ [m1])) = Inr (n2, tm (?ms @ [m1, m2]))"
    "marker_metadata_id m2 = Some second"
    using add_marker_run [OF falls'(2) times(3,4) assms(3), of i k2 "?ms @ [m1]"] by (auto simp: again ids)
  have "marked (tm (?ms @ [m1, m2])) (trim first) = {(ti, ci, ?n)}"
    using assms(7) add1(2) add2(2) none(1) other
    by (auto simp: trims tm marked_after [OF c] nth_append less_Suc_eq split: if_splits)
  from delete_marker_run [OF at _ this, of i ctx] obtain n3 where
    del: "apply_delete_marker i (by_id first) ctx (tm (?ms @ [m1, m2])) = Inr (n3, tm (?ms @ [m2]))"
    using trims by (auto simp: again remove_at_def)
  have "marked (tm (?ms @ [m2])) (trim second) = {(ti, ci, ?n)}"
    using assms(8) add2(2) none(2) by (auto simp: trims tm marked_after [OF c] nth_append less_Suc_eq split: if_splits)
  from delete_marker_run [OF at _ this, of i ctx]
  have found: "\<exists>n t'. apply_delete_marker i (by_id second) ctx (tm (?ms @ [m2])) = Inr (n, t')" using trims by auto
  obtain n4 m3 where add3: "apply_professional_marker i x3 l3 k3 (tm (?ms @ [m2])) = Inr (n4, tm (?ms @ [m2, m3]))"
    "marker_metadata_id m3 = Some second"
    using add_marker_run [OF falls'(3) times(5,6) assms(4), of i k3 "?ms @ [m2]"] by (auto simp: again ids)
  have "(ti, ci, ?n) \<in> marked (tm (?ms @ [m2, m3])) (trim second)" "(ti, ci, Suc ?n) \<in> marked (tm (?ms @ [m2, m3])) (trim second)"
    using add2(2) add3(2) by (auto simp: trims tm marked_after [OF c] nth_append)
  from resolve_by_id(2) [OF _ this, of i ctx] trims obtain e where
    "resolve_marker_candidate (tm (?ms @ [m2, m3])) i (by_id second) ctx = Inl e" by auto
  then have "\<exists>e. apply_delete_marker i (by_id second) ctx (tm (?ms @ [m2, m3])) = Inl e"
    "\<forall>u. \<exists>e. apply_update_marker i (by_id second) u ctx (tm (?ms @ [m2, m3])) = Inl e"
    by (simp_all add: apply_delete_marker_def apply_update_marker_def)
  then show ?thesis using add1(1) add2(1) del found add3(1) by blast
qed

section \<open>Concrete runs\<close>

lemma falls_on_first:
  assumes "tl_children t = SC_Track tr # rest" and "track_children tr = TC_Clip c # cs"
    and "on_grid (child_duration (TC_Clip c))" and "is_finite x" and "0 \<le> fval x" and "fval x < dur (TC_Clip c)"
    and "dur (TC_Clip c) < 2 ^ 44"
  shows "falls_on x t 0 0 c \<and> is_finite x \<and> \<not> flt x (Fin 0)"
proof -
  have "\<bar>fval (Fin 0) + fval (child_duration (TC_Clip c))\<bar> < 2 ^ 44" using assms(5-7) by (simp add: dur_def)
  note sum = fadd_grid [OF in_reach_0(2) assms(3) this]
  have "\<not> fle (fadd (Fin 0) (child_duration (TC_Clip c))) x" "\<not> flt x (Fin 0)"
    using sum assms(4-6) by (simp_all add: finite_compare on_grid_def dur_def del: child_duration.simps)
  then show ?thesis using assms(1,2,4)
    by (simp add: falls_on_def clip_at_def Let_def flip: tl_children_def del: child_duration.simps)
qed

lemma three_shots_falls: "x \<in> {Fin 1, Fin 2, Fin 3} \<Longrightarrow> falls_on x three_shots 0 0 clip_a \<and> is_finite x \<and> \<not> flt x (Fin 0)"
  using three_shots_facts(1) by (intro falls_on_first) (auto simp: three_shots_def on_grid_def clip_a_def sample_simps)

lemma three_shots_unmarked: "marked three_shots i = {}"
proof -
  have "clip_markers c = []" if "clip_at three_shots l = Some c" for l c
  proof -
    from clip_atE [OF that] obtain tr where "tl_children three_shots ! cl_track_index l = SC_Track tr"
      "cl_track_index l < length (tl_children three_shots)" "TC_Clip c \<in> set (track_children tr)"
      by (metis nth_mem)
    then have "TC_Clip c \<in> {TC_Clip clip_a, TC_Clip clip_b, TC_Clip clip_c}"
      by (auto simp: three_shots_track(3))
    then show ?thesis by (auto simp: clip_a_def clip_b_def clip_c_def sample_clip_def clip_empty_def)
  qed
  then show ?thesis by (fastforce simp: marked_def)
qed

lemma label_trim: "trim ''beat'' = ''beat''" by code_simp

theorem add_then_delete_marker_witness:
  "\<exists>note t' note'. apply_professional_marker 0 (Fin 1) ''beat'' None three_shots = Inr (note, t')
    \<and> marked t' (marker_id_of 0 0 clip_a) = {(0, 0, length (clip_markers clip_a))}
    \<and> apply_delete_marker 0 (by_id (marker_id_of 0 0 clip_a)) no_sidecars t' = Inr (note', three_shots)"
  by (rule add_then_delete_marker) (use three_shots_falls [of "Fin 1"] three_shots_unmarked label_trim in simp_all)

theorem marker_ids_collide_witness:
  "\<exists>second n1 t1 n2 t2 n3 t3 n4 t4.
    apply_professional_marker 0 (Fin 1) ''beat'' None three_shots = Inr (n1, t1)
    \<and> apply_professional_marker 0 (Fin 2) ''beat'' None t1 = Inr (n2, t2)
    \<and> apply_delete_marker 0 (by_id (marker_id_of 0 0 clip_a)) no_sidecars t2 = Inr (n3, t3)
    \<and> (\<exists>n t'. apply_delete_marker 0 (by_id second) no_sidecars t3 = Inr (n, t'))
    \<and> apply_professional_marker 0 (Fin 3) ''beat'' None t3 = Inr (n4, t4)
    \<and> (\<exists>e. apply_delete_marker 0 (by_id second) no_sidecars t4 = Inl e)
    \<and> (\<forall>u. \<exists>e. apply_update_marker 0 (by_id second) u no_sidecars t4 = Inl e)"
proof -
  have "\<forall>x \<in> {Fin 1, Fin 2, Fin 3}. falls_on x three_shots 0 0 clip_a \<and> is_finite x \<and> \<not> flt x (Fin 0)"
    using three_shots_falls by blast
  note run = marker_ids_collide [OF this _ _ _ refl refl three_shots_unmarked three_shots_unmarked,
      of "''beat''" "''beat''" "''beat''" 0 None None no_sidecars None, unfolded label_trim]
  show ?thesis by (rule exI, rule run) simp_all
qed

end
