(* ===== verification/Marker_Tool.thy ===== *)
theory Marker_Tool
  imports Tool_Edits Edl_Marker_Props
begin

text \<open>
  The tool that sets markers, together with the edits it is turned into: what an update finds.
\<close>

section \<open>Markers\<close>

text \<open>The labels of the markers of a clip.\<close>

definition marker_labels :: "timeline \<Rightarrow> clip_locator \<Rightarrow> string list option" where
  "marker_labels t l = map_option (\<lambda>c. map mk_name (clip_markers c)) (clip_at t l)"

lemma track_candidates_from:
  "p \<in> set (track_candidates s loc ti ci x cs) \<Longrightarrow> \<exists>k c y. k < length cs \<and> cs ! k = TC_Clip c
     \<and> mc_track_index p = ti \<and> mc_child_index p = ci + k \<and> mc_marker_index p < length (clip_markers c)
     \<and> marker_matches_selector (clip_markers c ! mc_marker_index p) y s"
proof (induction cs arbitrary: ci x)
  case (Cons d cs)
  let ?e = "fadd x (child_duration d)"
  from Cons.prems consider (here) c where "d = TC_Clip c" "p \<in> set (clip_candidates s ti ci x ?e c)"
    | (rest) "p \<in> set (track_candidates s loc ti (Suc ci) ?e cs)"
    by (auto simp: Let_def split: track_child.splits if_splits)
  then show ?case
  proof cases
    case here
    then obtain a where a: "a < length (clip_markers c)" "mc_marker_index p = a" "mc_track_index p = ti"
      "mc_child_index p = ci" "\<exists>y. marker_matches_selector (clip_markers c ! a) y s"
      by (force simp: clip_candidates_def map_filter_def in_set_enumerate_eq Let_def split: if_splits)
    then obtain y where "marker_matches_selector (clip_markers c ! a) y s" by blast
    with a here show ?thesis by (intro exI [of _ 0] exI [of _ c] exI [of _ y]) simp
  next
    case rest
    from Cons.IH [OF this] obtain k c y where "k < length cs" "cs ! k = TC_Clip c" "mc_track_index p = ti"
      "mc_child_index p = Suc ci + k" "mc_marker_index p < length (clip_markers c)"
      "marker_matches_selector (clip_markers c ! mc_marker_index p) y s" by blast
    then show ?thesis by (intro exI [of _ "Suc k"] exI [of _ c] exI [of _ y]) simp
  qed
qed simp

lemma candidate_matches:
  assumes "resolve_marker_candidate t i s ctx = Inr mc"
  shows "\<exists>c x. clip_at t \<lparr>cl_track_index = mc_track_index mc, cl_child_index = mc_child_index mc\<rparr> = Some c
    \<and> mc_marker_index mc < length (clip_markers c) \<and> marker_matches_selector (clip_markers c ! mc_marker_index mc) x s"
proof -
  obtain loc where "mc \<in> set (collect_marker_candidates t s loc)"
  proof -
    from assms obtain loc where "(case collect_marker_candidates t s loc of [candidate] \<Rightarrow> Inr candidate
       | [] \<Rightarrow> invalid i (Fmt ''marker selector {:?} matched no markers'' [A_msg (selector_msg s)])
       | many \<Rightarrow> invalid i (Fmt
           ''marker selector {:?} matches {} markers; add marker_id, anchor, or at_s to disambiguate''
           [A_msg (selector_msg s), A_nat (length many)])) = Inr mc"
      unfolding resolve_marker_candidate_def rbind_eq_Inr by blast
    then have "collect_marker_candidates t s loc = [mc]"
      by (cases "collect_marker_candidates t s loc" rule: remdups_adj.cases) auto
    then show ?thesis by (intro that [of loc]) simp
  qed
  then obtain ti where ti: "ti < length (tl_children t)"
    "mc \<in> set (track_candidates s loc ti 0 (Fin 0) (sc_children (tl_children t ! ti)))"
    by (auto simp: collect_marker_candidates_def in_set_enumerate_eq)
  from track_candidates_from [OF ti(2)] ti(1) show ?thesis
    by (fastforce simp: clip_at_def tl_children_def Let_def)
qed

lemma update_run:
  assumes "apply_update_marker i s u ctx t = Inr (note, t')"
  shows "\<exists>mc c m. resolve_marker_candidate t i s ctx = Inr mc
    \<and> clip_at t \<lparr>cl_track_index = mc_track_index mc, cl_child_index = mc_child_index mc\<rparr> = Some c
    \<and> mc_marker_index mc < length (clip_markers c) \<and> m = updated_marker u (mc_clip_start_s mc) (clip_markers c ! mc_marker_index mc)
    \<and> t' = with_markers (mc_track_index mc) (mc_child_index mc) c ((clip_markers c)[mc_marker_index mc := m]) t"
proof -
  obtain mc where mc: "resolve_marker_candidate t i s ctx = Inr mc"
    using assms by (auto simp: apply_update_marker_def rbind_eq_Inr)
  obtain c where c: "clip_at t \<lparr>cl_track_index = mc_track_index mc, cl_child_index = mc_child_index mc\<rparr> = Some c"
    "mc_marker_index mc < length (clip_markers c)"
    using candidate_matches [OF mc] by blast
  from clip_atE [OF c(1)] obtain tr where tr: "mc_track_index mc < length (tl_children t)"
    "tl_children t ! mc_track_index mc = SC_Track tr" "mc_child_index mc < length (track_children tr)"
    "track_children tr ! mc_child_index mc = TC_Clip c" by auto
  have "t' = with_markers (mc_track_index mc) (mc_child_index mc) c ((clip_markers c)[mc_marker_index mc :=
      updated_marker u (mc_clip_start_s mc) (clip_markers c ! mc_marker_index mc)]) t"
    using assms mc c(2) tr
    by (auto simp: apply_update_marker_def rbind_eq_Inr track_at_def clip_on_def vec_get_def with_markers_def Let_def
        split: if_splits)
  with mc c show ?thesis by blast
qed

text \<open>C14: Through \<open>set_marker\<close> no marker can be renamed: the new label is also what the marker is
  selected by, so an update that succeeds finds a marker that has the label already, and every
  clip has the same labels after it as before.\<close>

theorem set_marker_never_renames:
  assumes "set_marker_edit m = Inr (PE_UpdateMarker s u)" and "apply_update_marker i s u ctx t = Inr (note, t')"
  shows "marker_labels t' l = marker_labels t l"
proof -
  have same: "ms_label s = mu_label u" using assms(1) by (auto simp: set_marker_edit_def rbind_eq_Inr split: if_splits option.splits)
  obtain mc c where mc: "resolve_marker_candidate t i s ctx = Inr mc"
    and c: "clip_at t \<lparr>cl_track_index = mc_track_index mc, cl_child_index = mc_child_index mc\<rparr> = Some c"
    and mi: "mc_marker_index mc < length (clip_markers c)"
    and t': "t' = with_markers (mc_track_index mc) (mc_child_index mc) c
      ((clip_markers c)[mc_marker_index mc := updated_marker u (mc_clip_start_s mc) (clip_markers c ! mc_marker_index mc)]) t"
    using update_run [OF assms(2)] by blast
  obtain x where match: "marker_matches_selector (clip_markers c ! mc_marker_index mc) x s"
    using candidate_matches [OF mc] c by auto
  have "mk_name (updated_marker u z (clip_markers c ! mc_marker_index mc)) = mk_name (clip_markers c ! mc_marker_index mc)" for z
    using match same by (auto simp: updated_marker_def marker_matches_selector_def Let_def split: option.splits)
  then have "map mk_name ((clip_markers c)[mc_marker_index mc :=
      updated_marker u (mc_clip_start_s mc) (clip_markers c ! mc_marker_index mc)]) = map mk_name (clip_markers c)"
    using mi by (simp add: map_update list_update_same_conv)
  then show ?thesis unfolding t' marker_labels_def
    by (cases l) (simp add: with_markers_at(1) [OF c] c)
qed

text \<open>A note on a marker, named by its id.\<close>

definition note_call :: "string \<Rightarrow> set_marker_args" where
  "note_call i = \<lparr>sm_marker_id = Some i, sm_anchor = None, sm_at_s = None, sm_label = None, sm_category = None,
     sm_note = Some ''retake'', sm_duration_s = None\<rparr>"

theorem set_marker_never_renames_witness:
  "\<exists>n t1 u n' t'. apply_professional_marker 0 (Fin 1) ''beat'' None three_shots = Inr (n, t1)
     \<and> set_marker_edit (note_call (marker_id_of 0 0 clip_a)) = Inr (PE_UpdateMarker (by_id (marker_id_of 0 0 clip_a)) u)
     \<and> mu_note u = Some ''retake''
     \<and> apply_update_marker 0 (by_id (marker_id_of 0 0 clip_a)) u no_sidecars t1 = Inr (n', t')
     \<and> marker_labels t' \<lparr>cl_track_index = 0, cl_child_index = 0\<rparr> = marker_labels t1 \<lparr>cl_track_index = 0, cl_child_index = 0\<rparr>"
proof -
  let ?i = "marker_id_of 0 0 clip_a"
  have on: "falls_on (Fin 1) three_shots 0 0 clip_a" "is_finite (Fin 1)" "\<not> flt (Fin 1) (Fin 0)"
    using three_shots_falls [of "Fin 1"] by auto
  obtain n mk where add: "apply_professional_marker 0 (Fin 1) ''beat'' None three_shots =
      Inr (n, with_markers 0 0 clip_a (clip_markers clip_a @ [mk]) three_shots)" "marker_metadata_id mk = Some ?i"
    using add_marker_run [OF on, of "''beat''" 0 None] label_trim by auto
  let ?t = "with_markers 0 0 clip_a (clip_markers clip_a @ [mk]) three_shots"
  have c: "clip_at three_shots \<lparr>cl_track_index = 0, cl_child_index = 0\<rparr> = Some clip_a" using on(1) by (simp add: falls_on_def)
  have bare: "clip_markers clip_a = []" by (simp add: clip_a_def sample_clip_def clip_empty_def)
  note at_new = with_markers_at(1) [OF c, of "clip_markers clip_a @ [mk]" 0 0, simplified]
  have "marked ?t ?i = {(0, 0, 0)}"
    using three_shots_unmarked add(2) by (auto simp: marked_after [OF c] bare)
  then obtain mc where mc: "resolve_marker_candidate ?t 0 (by_id ?i) no_sidecars = Inr mc" "place mc = (0, 0, 0)"
    using resolve_by_id(1) [of ?i ?t "(0, 0, 0)" 0 no_sidecars] by (auto simp: marker_id_trim)
  define u where "u = \<lparr>mu_label = None, mu_category = None, mu_note = Some ''retake'', mu_at_s = None, mu_duration_s = None\<rparr>"
  have made: "set_marker_edit (note_call ?i) = Inr (PE_UpdateMarker (by_id ?i) u)"
    by (simp add: set_marker_edit_def note_call_def by_id_def u_def rbind_def)
  from clip_atE [OF at_new] obtain tr where tr: "0 < length (tl_children ?t)" "tl_children ?t ! 0 = SC_Track tr"
    "0 < length (track_children tr)" "track_children tr ! 0 = TC_Clip (clip_a\<lparr>clip_markers := clip_markers clip_a @ [mk]\<rparr>)" by auto
  have "\<exists>n' t'. apply_update_marker 0 (by_id ?i) u no_sidecars ?t = Inr (n', t')"
    using mc tr bare
    by (auto simp: apply_update_marker_def place_def track_at_def clip_on_def vec_get_def Let_def u_def rbind_def
        validate_optional_time_def)
  then obtain n' t' where run: "apply_update_marker 0 (by_id ?i) u no_sidecars ?t = Inr (n', t')" by blast
  have "mu_note u = Some ''retake''" by (simp add: u_def)
  with add(1) made run set_marker_never_renames [OF made run] show ?thesis by blast
qed

end
