(* ===== verification/Script_Lines.thy ===== *)
theory Script_Lines
  imports Tool_Edits
begin

text \<open>
  Scripts as they are written by the tools: printable lines, a heading and its anchor and fields for
  each operation. Such a script is read as the operations its blocks build (\<open>parse_blocks\<close>).
\<close>

section \<open>Printable text\<close>

definition printable :: "string \<Rightarrow> bool" where
  "printable s \<longleftrightarrow> list_all (\<lambda>c. 32 \<le> (of_char c :: nat) \<and> (of_char c :: nat) < 127) s"

definition tidy :: "string \<Rightarrow> bool" where
  "tidy s \<longleftrightarrow> printable s \<and> s \<noteq> [] \<and> hd s \<noteq> CHR 0x20 \<and> last s \<noteq> CHR 0x20"

lemma printable_append [simp]: "printable (a @ b) \<longleftrightarrow> printable a \<and> printable b"
  by (simp add: printable_def)

lemma printable_Cons: "printable (c # s) \<longleftrightarrow> (32 \<le> (of_char c :: nat) \<and> (of_char c :: nat) < 127) \<and> printable s"
  by (simp add: printable_def)

lemma printable_Nil [simp]: "printable []"
  by (simp add: printable_def)

lemma printable_chars: "printable s \<Longrightarrow> utf8_chars s = map (\<lambda>c. [c]) s"
  by (induction s) (auto simp: printable_Cons is_continuation_def split: list.splits)

lemma space_char: "is_whitespace [c] \<longleftrightarrow> c = CHR 0x20" if "32 \<le> (of_char c :: nat)" "(of_char c :: nat) < 127"
proof -
  have "is_whitespace [c] \<longleftrightarrow> (of_char c :: nat) = 32" using that by (auto simp: is_whitespace_def utf8_whitespace_def)
  also have "\<dots> \<longleftrightarrow> (of_char c :: nat) = of_char (CHR 0x20)" by simp
  also have "\<dots> \<longleftrightarrow> c = CHR 0x20" by (simp only: of_char_eq_iff)
  finally show ?thesis .
qed

lemma dropWhile_space:
  "printable s \<Longrightarrow> concat (dropWhile is_whitespace (map (\<lambda>c. [c]) s)) = dropWhile (\<lambda>c. c = CHR 0x20) s"
  by (induction s) (auto simp: printable_Cons space_char)

lemma printable_rev: "printable (rev s) = printable s"
  by (simp add: printable_def)

lemma printable_dropWhile: "printable s \<Longrightarrow> printable (dropWhile P s)"
  by (auto simp: printable_def list_all_iff dest: set_dropWhileD)

lemma printable_trim_end: "printable s \<Longrightarrow> trim_end s = rev (dropWhile (\<lambda>c. c = CHR 0x20) (rev s))"
proof -
  assume s: "printable s"
  have single: "concat (rev gs) = rev (concat gs)" if "\<forall>g\<in>set gs. length g = 1" for gs :: "string list"
    using that by (induction gs) (auto simp: length_Suc_conv)
  have "\<forall>g\<in>set (dropWhile is_whitespace (map (\<lambda>c. [c]) (rev s))). length g = 1"
    using set_dropWhileD [of _ is_whitespace "map (\<lambda>c. [c]) (rev s)"] by fastforce
  from single [OF this] show ?thesis using dropWhile_space [of "rev s"] s
    by (simp add: trim_end_def printable_chars printable_rev flip: rev_map)
qed

lemma printable_trim:
  "printable s \<Longrightarrow> trim s = rev (dropWhile (\<lambda>c. c = CHR 0x20) (rev (dropWhile (\<lambda>c. c = CHR 0x20) s)))"
  using dropWhile_space [of s]
  by (simp add: trim_def trim_start_def printable_chars printable_trim_end printable_dropWhile)

lemma tidy_trim: "tidy s \<Longrightarrow> trim s = s"
proof -
  assume s: "tidy s"
  then have "dropWhile (\<lambda>c. c = CHR 0x20) s = s" by (cases s) (simp_all add: tidy_def)
  moreover have "dropWhile (\<lambda>c. c = CHR 0x20) (rev s) = rev s"
    using s by (cases "rev s") (auto simp: tidy_def last_rev hd_rev dest: arg_cong [where f = last])
  ultimately show ?thesis using s by (simp add: printable_trim tidy_def)
qed

lemma tidy_trim_end: "printable a \<Longrightarrow> tidy s \<Longrightarrow> trim_end (a @ s) = a @ s"
  by (cases s rule: rev_cases) (auto simp: printable_trim_end tidy_def)

lemma tidy_trim_space: "tidy s \<Longrightarrow> trim (CHR 0x20 # s) = s"
  using tidy_trim [of s] by (simp add: printable_trim tidy_def printable_Cons)

lemma tidyD: "tidy s \<Longrightarrow> printable s" "tidy s \<Longrightarrow> s \<noteq> []"
  by (simp_all add: tidy_def)

lemma single_line_tidy: "tidy s \<Longrightarrow> single_line s = s"
proof -
  assume s: "tidy s"
  then have "printable s" by (rule tidyD)
  then have "map (\<lambda>c. if c = CHR 0x0A \<or> c = CHR 0x0D then CHR 0x20 else c) s = s"
    by (induction s) (auto simp: printable_Cons)
  then show ?thesis using s by (simp add: single_line_def tidy_trim)
qed

lemma tidy_prefix: "tidy s \<Longrightarrow> printable a \<Longrightarrow> a = [] \<or> hd a \<noteq> CHR 0x20 \<Longrightarrow> tidy (a @ s)"
  by (cases a) (auto simp: tidy_def printable_Cons)

section \<open>Lines\<close>

lemma split_lines:
  "\<forall>l\<in>set ls. CHR 0x0A \<notin> set l \<Longrightarrow>
    split_on (CHR 0x0A) (concat (map (\<lambda>l. l @ line_feed) ls)) = ls @ [[]]"
proof (induction ls)
  case (Cons l ls)
  have "split_on (CHR 0x0A) (l @ line_feed @ r) = l # split_on (CHR 0x0A) r" if "CHR 0x0A \<notin> set l" for l r
    using that by (induction l) (auto simp: line_feed_def)
  with Cons show ?case by simp
qed simp

lemma printable_no_control: "printable s \<Longrightarrow> CHR 0x0A \<notin> set s" "printable s \<Longrightarrow> CHR 0x0D \<notin> set s"
  by (auto simp: printable_def list_all_iff)

lemma strip_prefix_iff: "strip_prefix p s = Some r \<longleftrightarrow> s = p @ r"
  by (induction p s rule: strip_prefix.induct) auto

lemma strip_prefix_append [simp]: "strip_prefix p (p @ r) = Some r"
  by (simp add: strip_prefix_iff)

lemma strip_suffix_iff: "strip_suffix p s = Some r \<longleftrightarrow> s = r @ p"
proof -
  have "rev s = rev p @ t \<longleftrightarrow> s = rev t @ p" for t by (simp add: rev_swap)
  then show ?thesis by (auto simp: strip_suffix_def strip_prefix_iff intro: exI [of _ "rev r"])
qed

lemma without_cr_printable: "printable l \<Longrightarrow> without_cr l = l"
  using printable_no_control(2) [of l]
  by (auto simp: without_cr_def strip_suffix_iff split: option.splits)

lemma text_lines_of: "\<forall>l\<in>set ls. printable l \<Longrightarrow> text_lines (concat (map (\<lambda>l. l @ line_feed) ls)) = ls"
  by (subst text_lines_def, subst split_lines)
    (auto simp: printable_no_control Let_def without_cr_printable butlast_append intro: map_idI)

lemma parse_lines_append:
  "parse_lines codec over n (a @ b) p = rbind (parse_lines codec over n a p) (parse_lines codec over (n + length a) b)"
  by (induction a arbitrary: n p) (simp_all add: rbind_def split: sum.splits)

section \<open>Blocks\<close>

text \<open>
  A block as it is written: its heading, the text of its anchor with the anchor it stands for, and
  its fields with the value each is read as.
\<close>

record block =
  bk_heading :: string
  bk_kind :: op_kind
  bk_anchor :: "(string \<times> anchor) option"
  bk_fields :: "(string \<times> string \<times> field_value) list"

definition anchor_lines :: "block \<Rightarrow> string list" where
  "anchor_lines blk = (case bk_anchor blk of None \<Rightarrow> [] | Some (t, _) \<Rightarrow> [''@@ anchor: '' @ t])"

definition field_text :: "string \<times> string \<times> field_value \<Rightarrow> string" where
  "field_text = (\<lambda>(k, v, _). ''+ '' @ k @ '': '' @ v)"

definition block_lines :: "block \<Rightarrow> string list" where
  "block_lines blk = (''*** '' @ bk_heading blk) # anchor_lines blk @ map field_text (bk_fields blk)"

definition block_text :: "block \<Rightarrow> string" where
  "block_text blk = ''*** '' @ bk_heading blk
     @ concat (map (\<lambda>l. line_feed @ l) (anchor_lines blk @ map field_text (bk_fields blk)))"

definition block_builder :: "nat \<Rightarrow> block \<Rightarrow> op_builder" where
  "block_builder n blk =
     \<lparr>ob_head_line = n, ob_op_kind = bk_kind blk, ob_anchor = map_option snd (bk_anchor blk), ob_between = None,
      ob_fields = map (\<lambda>(k, _, v). (k, v)) (bk_fields blk)\<rparr>"

text \<open>The lines say what the block stands for, and it builds an operation wherever it stands.\<close>

definition reads_as :: "edl_codec \<Rightarrow> string \<Rightarrow> field_value \<Rightarrow> bool" where
  "reads_as codec v x \<longleftrightarrow> tidy v \<and> (\<forall>k n l. tidy k \<and> CHR '':'' \<notin> set k \<longrightarrow> parse_field codec (k @ '': '' @ v) n l = Inr (k, x))"

definition anchored_at :: "string \<Rightarrow> anchor \<Rightarrow> bool" where
  "anchored_at t a \<longleftrightarrow> tidy t \<and> (\<forall>n. parse_anchor t n = Inr a)"

definition stands_for :: "edl_codec \<Rightarrow> overlay_codec \<Rightarrow> block \<Rightarrow> script_op \<Rightarrow> bool" where
  "stands_for codec over blk x \<longleftrightarrow>
     tidy (bk_heading blk) \<and> map_of heading_kinds (bk_heading blk) = Some (bk_kind blk)
     \<and> (case bk_anchor blk of None \<Rightarrow> True | Some (t, a) \<Rightarrow> anchored_at t a)
     \<and> (\<forall>(k, v, y)\<in>set (bk_fields blk). tidy k \<and> CHR '':'' \<notin> set k \<and> reads_as codec v y)
     \<and> (\<forall>n. build codec over (block_builder n blk) = Inr x)"

lemma inside_tidy:
  assumes "tidy l" and "ps_state p = InsideEnvelope"
  shows "parse_line codec over p n l = inside_line codec over p n l"
  using tidy_trim_end [of "[]" l] tidy_trim [of l] tidyD(2) [of l] assms by (simp add: parse_line_def)

lemma parse_heading:
  assumes "tidy h" and "map_of heading_kinds h = Some k" and "ps_state p = InsideEnvelope"
  shows "parse_line codec over p n (''*** '' @ h) =
    rbind (flush codec over p) (\<lambda>q. Inr (q\<lparr>ps_current := Some
      \<lparr>ob_head_line = n, ob_op_kind = k, ob_anchor = None, ob_between = None, ob_fields = []\<rparr>\<rparr>))"
proof -
  have "tidy (''*** '' @ h)" using assms(1) by (intro tidy_prefix) (simp_all add: printable_Cons)
  note line = inside_tidy [OF this assms(3)]
  have "h \<noteq> ''End EDL''" using assms(2) by (auto simp: heading_kinds_def)
  then have "inside_line codec over p n (''*** '' @ h) =
      rbind (flush codec over p) (\<lambda>q. rbind (builder_new_for h n) (\<lambda>b. Inr (q\<lparr>ps_current := Some b\<rparr>)))"
    by (simp add: inside_line_def)
  moreover have "builder_new_for h n =
      Inr \<lparr>ob_head_line = n, ob_op_kind = k, ob_anchor = None, ob_between = None, ob_fields = []\<rparr>"
    using assms(1,2) by (simp add: builder_new_for_def tidy_trim)
  ultimately show ?thesis unfolding line by (simp add: rbind_def split: sum.splits)
qed

lemma inside_line_kinds:
  "inside_line codec over p n (''@@ anchor: '' @ t) =
     with_current p n (''@@ anchor: '' @ t) (\<lambda>b. rbind (parse_anchor t n) (\<lambda>a. Inr (b\<lparr>ob_anchor := Some a\<rparr>)))"
  "inside_line codec over p n (''+ '' @ f) =
     with_current p n (''+ '' @ f) (\<lambda>b. rbind (parse_field codec f n (''+ '' @ f)) (\<lambda>kv. Inr (b\<lparr>ob_fields := ob_fields b @ [kv]\<rparr>)))"
  "inside_line codec over p n (''- '' @ f) = Inr p"
  by (simp_all add: inside_line_def)

lemma parse_anchor_line:
  assumes "anchored_at t a" and "ps_state p = InsideEnvelope" and "ps_current p = Some b"
  shows "parse_line codec over p n (''@@ anchor: '' @ t) = Inr (p\<lparr>ps_current := Some (b\<lparr>ob_anchor := Some a\<rparr>)\<rparr>)"
proof -
  have "tidy (''@@ anchor: '' @ t)" using assms(1) by (intro tidy_prefix) (simp_all add: printable_Cons anchored_at_def)
  then have "parse_line codec over p n (''@@ anchor: '' @ t) = inside_line codec over p n (''@@ anchor: '' @ t)"
    using assms(2) by (rule inside_tidy)
  then show ?thesis unfolding inside_line_kinds using assms(1,3) by (simp add: with_current_def rbind_def anchored_at_def)
qed

lemma parse_field_line:
  assumes "tidy k" and "CHR '':'' \<notin> set k" and "reads_as codec v x" and "ps_state p = InsideEnvelope"
    and "ps_current p = Some b"
  shows "parse_line codec over p n (''+ '' @ k @ '': '' @ v) =
    Inr (p\<lparr>ps_current := Some (b\<lparr>ob_fields := ob_fields b @ [(k, x)]\<rparr>)\<rparr>)"
proof -
  have "tidy v" using assms(3) by (simp add: reads_as_def)
  then have "tidy ((''+ '' @ k @ '': '') @ v)" using tidyD(1) [OF assms(1)] by (intro tidy_prefix) (simp_all add: printable_Cons)
  then have "tidy (''+ '' @ k @ '': '' @ v)" by simp
  then have line: "parse_line codec over p n (''+ '' @ k @ '': '' @ v) = inside_line codec over p n (''+ '' @ k @ '': '' @ v)"
    using assms(4) by (rule inside_tidy)
  have "parse_field codec (k @ '': '' @ v) n l = Inr (k, x)" for l using assms(1-3) unfolding reads_as_def by blast
  then show ?thesis unfolding line inside_line_kinds using assms(5) by (simp add: with_current_def rbind_def)
qed

lemma parse_field_lines:
  assumes "\<forall>(k, v, y)\<in>set fs. tidy k \<and> CHR '':'' \<notin> set k \<and> reads_as codec v y"
    and "ps_state p = InsideEnvelope" and "ps_current p = Some b"
  shows "parse_lines codec over n (map field_text fs) p =
    Inr (p\<lparr>ps_current := Some (b\<lparr>ob_fields := ob_fields b @ map (\<lambda>(k, _, v). (k, v)) fs\<rparr>)\<rparr>)"
  using assms
proof (induction fs arbitrary: n p b)
  case (Cons f fs)
  obtain k v y where f: "f = (k, v, y)" by (cases f)
  have "parse_line codec over p n (field_text f) = Inr (p\<lparr>ps_current := Some (b\<lparr>ob_fields := ob_fields b @ [(k, y)]\<rparr>)\<rparr>)"
    using parse_field_line [of k codec v y p b over n] Cons.prems by (simp add: f field_text_def)
  then show ?case using Cons by (simp add: f rbind_def)
qed (simp add: rbind_def)

lemma parse_block:
  assumes "stands_for codec over blk x" and "ps_state p = InsideEnvelope"
  shows "parse_lines codec over n (block_lines blk) p =
    rbind (flush codec over p) (\<lambda>q. Inr (q\<lparr>ps_current := Some (block_builder n blk)\<rparr>))"
proof (cases "flush codec over p")
  case (Inl e)
  then show ?thesis using assms by (simp add: block_lines_def stands_for_def parse_heading rbind_def del: append_Cons)
next
  case (Inr q)
  have state: "ps_state q = InsideEnvelope" using Inr assms(2)
    by (auto simp: flush_def rbind_def split: option.splits sum.splits)
  define b where "b = \<lparr>ob_head_line = n, ob_op_kind = bk_kind blk, ob_anchor = None, ob_between = None, ob_fields = []\<rparr>"
  define q1 where "q1 = q\<lparr>ps_current := Some b\<rparr>"
  define q2 where "q2 = q\<lparr>ps_current := Some (b\<lparr>ob_anchor := map_option snd (bk_anchor blk)\<rparr>)\<rparr>"
  have 1: "parse_line codec over p n (''*** '' @ bk_heading blk) = Inr q1"
    using assms Inr by (simp add: stands_for_def parse_heading rbind_def b_def q1_def del: append_Cons)
  have 2: "parse_lines codec over m (anchor_lines blk) q1 = Inr q2" for m
  proof (cases "bk_anchor blk")
    case None
    then show ?thesis by (simp add: anchor_lines_def q1_def q2_def b_def)
  next
    case (Some ta)
    obtain t a where ta: "ta = (t, a)" by (cases ta)
    have "anchored_at t a" using assms(1) Some ta by (simp add: stands_for_def)
    from parse_anchor_line [OF this, of q1 b codec over m] show ?thesis
      using Some ta state by (simp add: anchor_lines_def q1_def q2_def rbind_def del: append_Cons)
  qed
  have 3: "parse_lines codec over m (map field_text (bk_fields blk)) q2 =
      Inr (q\<lparr>ps_current := Some (block_builder n blk)\<rparr>)" for m
    using parse_field_lines [of "bk_fields blk" codec q2 "b\<lparr>ob_anchor := map_option snd (bk_anchor blk)\<rparr>" over m] assms(1) state
    by (simp add: q2_def stands_for_def b_def block_builder_def)
  show ?thesis unfolding block_lines_def by (simp add: 1 2 3 parse_lines_append rbind_def Inr del: append_Cons)
qed

lemma parse_all_blocks:
  assumes "list_all2 (stands_for codec over) blks xs" and "ps_state p = InsideEnvelope" and "flush codec over p = Inr q"
  shows "\<exists>r. parse_lines codec over n (concat (map block_lines blks)) p = Inr r \<and> ps_state r = InsideEnvelope
    \<and> (\<exists>s. flush codec over r = Inr s \<and> ps_ops s = ps_ops q @ xs)"
  using assms
proof (induction blks arbitrary: n p q xs)
  case Nil
  then show ?case by simp
next
  case (Cons blk blks)
  then obtain x xs' where xs: "xs = x # xs'" and x: "stands_for codec over blk x" and rest: "list_all2 (stands_for codec over) blks xs'"
    by (auto simp: list_all2_Cons1)
  define p1 where "p1 = q\<lparr>ps_current := Some (block_builder n blk)\<rparr>"
  define q1 where "q1 = q\<lparr>ps_ops := ps_ops q @ [x], ps_current := None\<rparr>"
  have step: "parse_lines codec over n (block_lines blk) p = Inr p1"
    using parse_block [OF x Cons.prems(2)] Cons.prems(3) by (simp add: rbind_def p1_def)
  have "ps_state p1 = InsideEnvelope" using Cons.prems(2,3)
    by (auto simp: p1_def flush_def rbind_def split: option.splits sum.splits)
  moreover have "flush codec over p1 = Inr q1" using x by (simp add: p1_def q1_def flush_def stands_for_def rbind_def)
  ultimately obtain r s where "parse_lines codec over (n + length (block_lines blk)) (concat (map block_lines blks)) p1 = Inr r"
    "ps_state r = InsideEnvelope" "flush codec over r = Inr s" "ps_ops s = ps_ops q1 @ xs'"
    using Cons.IH [OF rest] by blast
  then show ?case using step by (simp add: parse_lines_append rbind_def q1_def xs)
qed

lemma block_lines_printable:
  assumes "stands_for codec over blk x"
  shows "\<forall>l\<in>set (block_lines blk). printable l"
proof -
  have "printable (bk_heading blk)" using assms by (simp add: stands_for_def tidyD)
  moreover have "printable t" if "bk_anchor blk = Some (t, a)" for t a
    using assms that by (simp add: stands_for_def anchored_at_def tidyD)
  moreover have "printable (field_text f)" if "f \<in> set (bk_fields blk)" for f
  proof -
    obtain k v y where f: "f = (k, v, y)" by (cases f)
    then have "tidy k \<and> tidy v" using assms that unfolding stands_for_def reads_as_def by blast
    then show ?thesis by (simp add: f field_text_def printable_Cons tidyD)
  qed
  ultimately show ?thesis by (cases "bk_anchor blk") (auto simp: block_lines_def anchor_lines_def printable_Cons)
qed

lemma delegated_lines:
  "delegated_edl (map block_text blks) =
    concat (map (\<lambda>l. l @ line_feed) (''*** Begin EDL'' # concat (map block_lines blks) @ [''*** End EDL'']))"
proof -
  have shift: "l @ concat (map (\<lambda>l. line_feed @ l) ls) @ line_feed = concat (map (\<lambda>l. l @ line_feed) (l # ls))" for l ls
    by (induction ls arbitrary: l) simp_all
  have "line_feed @ block_text blk @ line_feed = line_feed @ concat (map (\<lambda>l. l @ line_feed) (block_lines blk))" for blk
    using shift [of "''*** '' @ bk_heading blk" "anchor_lines blk @ map field_text (bk_fields blk)"]
    by (simp add: block_text_def block_lines_def)
  then have "concat (map (\<lambda>x. line_feed @ x) (map block_text blks)) @ line_feed =
      line_feed @ concat (map (\<lambda>l. l @ line_feed) (concat (map block_lines blks)))"
  proof (induction blks)
    case (Cons blk blks)
    then show ?case by (metis (no_types, lifting) append.assoc concat.simps(2) concat_append list.simps(9) map_append)
  qed simp
  then show ?thesis by (simp add: delegated_edl_def)
qed

lemma parse_blocks:
  assumes "list_all2 (stands_for codec over) blks xs"
  shows "parse codec over (delegated_edl (map block_text blks)) = Inr xs"
proof -
  let ?ls = "''*** Begin EDL'' # concat (map block_lines blks) @ [''*** End EDL'']"
  have "\<forall>l\<in>set (concat (map block_lines blks)). printable l"
    using assms block_lines_printable by (fastforce simp: list_all2_conv_all_nth in_set_conv_nth)
  then have lines: "text_lines (delegated_edl (map block_text blks)) = ?ls"
    unfolding delegated_lines by (intro text_lines_of) (auto simp: printable_Cons)
  define p where "p = parser_init\<lparr>ps_state := InsideEnvelope\<rparr>"
  have fixed: "trim_end ''*** Begin EDL'' = ''*** Begin EDL''" "trim ''*** Begin EDL'' = ''*** Begin EDL''"
    "trim_end ''*** End EDL'' = ''*** End EDL''" "trim ''*** End EDL'' = ''*** End EDL''"
    using tidy_trim_end [of "[]" "''*** Begin EDL''"] tidy_trim [of "''*** Begin EDL''"]
      tidy_trim_end [of "[]" "''*** End EDL''"] tidy_trim [of "''*** End EDL''"] by (simp_all add: tidy_def printable_Cons)
  have first: "parse_line codec over parser_init n ''*** Begin EDL'' = Inr p" for n
    by (simp add: parse_line_def fixed p_def parser_init_def)
  have "flush codec over p = Inr p" by (simp add: p_def parser_init_def flush_def)
  from parse_all_blocks [OF assms _ this] obtain r s where
    r: "parse_lines codec over 2 (concat (map block_lines blks)) p = Inr r" "ps_state r = InsideEnvelope"
       "flush codec over r = Inr s" "ps_ops s = ps_ops p @ xs"
    by (metis (no_types, lifting) p_def parser.select_convs(1) parser.surjective parser.update_convs(1))
  have last: "parse_line codec over r n ''*** End EDL'' = Inr (s\<lparr>ps_saw_end := True, ps_state := Closed\<rparr>)" for n
    using r by (simp add: parse_line_def fixed inside_line_def rbind_def)
  show ?thesis unfolding parse_def lines using first r last
    by (simp add: parse_lines_append rbind_def p_def parser_init_def numeral_2_eq_2)
qed

end
