(* ===== verification/Tool_Scripts.thy ===== *)
theory Tool_Scripts
  imports Script_Lines
begin

text \<open>
  What the tools write is what they mean: the anchors, numbers, words and truth values of their
  scripts are read back as they were given.
\<close>

section \<open>Splitting\<close>

lemma split_once_first: "d \<notin> set a \<Longrightarrow> split_once_at [d] (a @ d # b) = Some (a, b)"
proof (induction a)
  case Nil
  then show ?case by (simp add: split_once_at.simps [of "[d]" "d # b"])
next
  case (Cons c a)
  then show ?case by (simp add: split_once_at.simps [of "[d]" "c # a @ d # b"])
qed

lemma rsplit_once_last: "d \<notin> set b \<Longrightarrow> rsplit_once [d] (a @ d # b) = Some (a, b)"
  using split_once_first [of d "rev b" "rev a"] by (simp add: rsplit_once_def)

section \<open>Numbers\<close>

definition numeric :: "string \<Rightarrow> bool" where
  "numeric s \<longleftrightarrow> list_all (\<lambda>c. is_digit c \<or> c = CHR ''-'' \<or> c = CHR ''.'') s"

lemma numeric_simps [simp]:
  "numeric []" "numeric (a @ b) \<longleftrightarrow> numeric a \<and> numeric b"
  "numeric (c # s) \<longleftrightarrow> (is_digit c \<or> c = CHR ''-'' \<or> c = CHR ''.'') \<and> numeric s"
  by (simp_all add: numeric_def)

lemma numeric_digits: "list_all is_digit s \<Longrightarrow> numeric s"
  by (auto simp: numeric_def list_all_iff)

lemma numeric_tidy:
  assumes "numeric s" and "s \<noteq> []"
  shows "tidy s"
proof -
  have ok: "32 < (of_char c :: nat) \<and> (of_char c :: nat) < 127" if "c \<in> set s" for c
    using assms(1) that by (auto simp: numeric_def list_all_iff is_digit_def)
  then have "printable s" by (fastforce simp: printable_def list_all_iff)
  moreover have "c \<noteq> CHR 0x20" if "c \<in> set s" for c using ok [OF that] by auto
  ultimately show ?thesis using assms(2) by (simp add: tidy_def)
qed

lemma numeric_nat: "numeric (dec_of_nat n)" "dec_of_nat n \<noteq> []"
  using digits_of_nat [of n] by (simp_all add: numeric_digits)

lemma numeric_decimal: "numeric (decimal_text m e)"
proof (cases "0 \<le> e")
  case True
  then show ?thesis by (simp add: decimal_text_def numeric_nat) (simp add: numeric_def list_all_iff)
next
  case False
  define k where "k = nat (- e)"
  define padded where "padded = replicate (Suc k - length (dec_of_nat m)) (CHR ''0'') @ dec_of_nat m"
  have "numeric (replicate j (CHR ''0''))" for j by (simp add: numeric_def list_all_iff)
  then have "numeric padded" by (simp add: padded_def numeric_nat)
  then have "numeric (take j padded)" "numeric (drop j padded)" for j
    by (auto simp: numeric_def list_all_iff dest: in_set_takeD in_set_dropD)
  then show ?thesis using False by (simp add: decimal_text_def padded_def k_def Let_def del: take_append drop_append)
qed

lemma decimal_text_nonempty: "decimal_text m e \<noteq> []"
  using decimal_text_head [of m e] by auto

lemma display_numeric: "is_f64 x \<Longrightarrow> numeric (f64_display x) \<and> f64_display x \<noteq> []"
  by (cases x) (auto simp: is_f64_def sign_text_def numeric_decimal decimal_text_nonempty Let_def split: prod.splits)

lemma fmt_num_numeric:
  assumes "is_f64 x"
  shows "numeric (fmt_num x)" and "fmt_num x \<noteq> []"
  using display_numeric [OF assms] by (auto simp: fmt_num_def sign_text_def numeric_nat)

lemma parse_fmt_num:
  assumes "is_f64 x"
  shows "parse_f64 (fmt_num x) = Some x"
proof (cases "fval x = of_int \<lfloor>fval x\<rfloor>")
  case False
  then show ?thesis using display_round_trip [OF assms] by (simp add: fmt_num_def)
next
  case True
  have finite: "is_finite x" and rep: "representable (fval x)" using assms by (simp_all add: is_f64_def)
  define n where "n = nat \<lfloor>\<bar>fval x\<bar>\<rfloor>"
  have n: "of_nat n = \<bar>fval x\<bar>"
  proof -
    obtain i where i: "fval x = of_int i" using True by blast
    have "\<lfloor>\<bar>fval x\<bar>\<rfloor> = \<bar>i\<bar>" unfolding i by (metis floor_of_int of_int_abs)
    then show ?thesis by (simp add: n_def i)
  qed
  have printed: "fmt_num x = sign_text (fsign x) @ dec_of_nat n @ ''.0''" using True finite by (simp add: fmt_num_def n_def)
  obtain c s where head: "dec_of_nat n = c # s" "is_digit c" using digits_of_nat [of n] by (cases "dec_of_nat n") auto
  have "nat_of_dec (dec_of_nat n @ ''0'') = n * 10" by (simp add: nat_of_dec_append) (simp add: nat_of_dec_def)
  moreover have "(10::rat) powi (- 1) = 1 / 10" by (simp add: power_int_minus)
  ultimately have "parse_decimal b (dec_of_nat n @ ''.'' @ ''0'') = Some (with_sign b (rnd False (of_nat n)))" for b
    using parse_decimal_digits(2) [of "dec_of_nat n" "''0''" b] digits_of_nat [of n] by simp
  then have "parse_f64 (fmt_num x) = Some (with_sign (fsign x) (rnd False \<bar>fval x\<bar>))"
    using digit_starts_number [OF head(2), of "s @ ''.0''"] by (simp add: printed head sign_text_def n [symmetric])
  also have "rnd False \<bar>fval x\<bar> = Fin \<bar>fval x\<bar>" using rnd_exact [OF representable_abs [OF rep]] by simp
  also have "with_sign (fsign x) (Fin \<bar>fval x\<bar>) = x"
    using finite by (cases x) (auto simp: with_sign_def)
  finally show ?thesis .
qed

lemma parse_nat_text:
  assumes "n < 2 ^ 53"
  shows "parse_f64 (dec_of_nat n) = Some (Fin (of_nat n))"
proof -
  obtain c s where head: "dec_of_nat n = c # s" "is_digit c" using digits_of_nat [of n] by (cases "dec_of_nat n") auto
  have "representable (of_int (int n) / 2 ^ 0)" using assms by (intro representable_dyadic) auto
  then have "rnd False (of_nat n) = Fin (of_nat n)" using rnd_exact [of "of_nat n" False] by simp
  moreover have "nat_of_dec (c # s) = n" by (metis head(1) nat_of_dec_of_nat)
  ultimately show ?thesis using parse_decimal_digits(1) [of "dec_of_nat n" "[]" False] digits_of_nat [of n]
      digit_starts_number(1) [OF head(2), of s] by (simp add: head with_sign_def)
qed

section \<open>Values of fields\<close>

lemma field_parts:
  assumes "tidy k" and "CHR '':'' \<notin> set k" and "tidy v"
  shows "split_once_at '':'' (k @ '': '' @ v) = Some (k, CHR 0x20 # v)" and "trim k = k" and "trim (CHR 0x20 # v) = v"
  using split_once_first [OF assms(2), of "CHR 0x20 # v"] assms by (simp_all add: tidy_trim tidy_trim_space)

lemma parse_field_value:
  assumes "tidy k" and "CHR '':'' \<notin> set k" and "tidy v"
  shows "parse_field codec (k @ '': '' @ v) n l =
    Inr (k, case parse_f64 v of Some x \<Rightarrow> FNumber x | None \<Rightarrow>
      FString (case (if take 1 v = [CHR 0x22] then ec_string codec v else None) of
        Some decoded \<Rightarrow> decoded | None \<Rightarrow> unwrap_or v (unquoted v)))"
  unfolding parse_field_def field_parts(1) [OF assms] Let_def field_parts(2,3) [OF assms] option.case prod.case
  by (simp only: field_parts(2,3) [OF assms] split: option.split) simp

lemma reads_number:
  assumes "tidy v" and "parse_f64 v = Some x"
  shows "reads_as codec v (FNumber x)"
  unfolding reads_as_def using assms parse_field_value [of _ v codec] by (auto simp del: append.simps append_Cons)

lemma reads_fmt_num: "is_f64 x \<Longrightarrow> reads_as codec (fmt_num x) (FNumber x)"
  by (simp add: reads_number numeric_tidy fmt_num_numeric parse_fmt_num)

lemma reads_nat: "n < 2 ^ 53 \<Longrightarrow> reads_as codec (dec_of_nat n) (FNumber (Fin (of_nat n)))"
  by (simp add: reads_number numeric_tidy numeric_nat parse_nat_text)

text \<open>A word is neither a number nor quoted.\<close>

definition word_text :: "string \<Rightarrow> bool" where
  "word_text s \<longleftrightarrow> tidy s \<and> parse_f64 s = None \<and> hd s \<noteq> CHR 0x22"

lemma reads_word:
  assumes "word_text s"
  shows "reads_as codec s (FString s)"
proof -
  obtain c r where s: "s = c # r" "c \<noteq> CHR 0x22" "tidy s" "parse_f64 s = None"
    using assms by (cases s) (auto simp: word_text_def tidy_def)
  then have "unquoted s = None" by (simp add: unquoted_def)
  moreover have "take 1 s \<noteq> [CHR 0x22]" using s(1,2) by simp
  ultimately show ?thesis unfolding reads_as_def using s(3,4) parse_field_value [of _ s codec]
    by (auto simp: unwrap_or_def simp del: append.simps append_Cons take_Cons)
qed

lemma letter_word:
  assumes "tidy (c # s)" and "\<not> is_digit c" and "c \<notin> {CHR ''-'', CHR ''+'', CHR ''.'', CHR 0x22}"
    and "ascii_lower c \<notin> {CHR ''i'', CHR ''n''}"
  shows "word_text (c # s)"
proof -
  have "to_ascii_lowercase (c # s) = ascii_lower c # to_ascii_lowercase s" by (simp add: to_ascii_lowercase_def)
  then have "parse_f64 (c # s) = None"
    using assms by (simp add: parse_f64_def parse_decimal_def parse_exponent_def)
  then show ?thesis using assms by (simp add: word_text_def)
qed

lemma reads_bool: "reads_as codec (bool_text v) (FString (bool_text v))"
proof -
  have "tidy ''true''" "tidy ''false''" by (simp_all add: tidy_def printable_Cons)
  then have "word_text (bool_text v)" by (cases v) (simp_all add: bool_text_def letter_word is_digit_def ascii_lower_def)
  then show ?thesis by (rule reads_word)
qed

section \<open>Anchors\<close>

text \<open>The snippet is quoted as it stands, that is, no character of it is escaped.\<close>

definition writable_anchor :: "edl_codec \<Rightarrow> anchor_arg \<Rightarrow> bool" where
  "writable_anchor codec a \<longleftrightarrow>
     (case aa_clip_uuid a of
        Some uuid \<Rightarrow> tidy uuid
      | None \<Rightarrow>
      case aa_transcript_snippet a of
        Some t \<Rightarrow> tidy t \<and> ec_quote codec t = [CHR 0x22] @ t @ [CHR 0x22]
      | None \<Rightarrow>
      case (aa_asset_id a, aa_scene_change_index a) of (Some asset, Some i) \<Rightarrow> tidy asset | _ \<Rightarrow> False)"

lemma quoted_snippet_read:
  assumes "tidy t"
  shows "anchored_at (''transcript_snippet='' @ [CHR 0x22] @ t @ [CHR 0x22]) (TranscriptSnippet t)"
proof -
  have q: "tidy ([CHR 0x22] @ t @ [CHR 0x22])" using assms by (simp add: tidy_def printable_Cons)
  have u: "unquoted ([CHR 0x22] @ t @ [CHR 0x22]) = Some t"
    using strip_suffix_iff [of "[CHR 0x22]" "t @ [CHR 0x22]" t] by (simp add: unquoted_def)
  have key: "split_once_at ''='' (''transcript_snippet='' @ [CHR 0x22] @ t @ [CHR 0x22]) =
      Some (''transcript_snippet'', [CHR 0x22] @ t @ [CHR 0x22])"
    using split_once_first [of "CHR ''=''" "''transcript_snippet''" "[CHR 0x22] @ t @ [CHR 0x22]"] by simp
  have k: "trim ''transcript_snippet'' = ''transcript_snippet''" by (rule tidy_trim) (simp add: tidy_def printable_Cons)
  have "tidy (''transcript_snippet='' @ [CHR 0x22] @ t @ [CHR 0x22])"
    by (rule tidy_prefix [OF q]) (simp_all add: printable_Cons)
  moreover have "parse_anchor (''transcript_snippet='' @ [CHR 0x22] @ t @ [CHR 0x22]) n = Inr (TranscriptSnippet t)" for n
    unfolding parse_anchor_def key using assms by (simp add: k tidy_trim [OF q, simplified] u [simplified] Let_def tidyD unwrap_or_def)
  ultimately show ?thesis unfolding anchored_at_def by blast
qed

lemma uuid_read:
  assumes "tidy u"
  shows "anchored_at (''clip_uuid='' @ u) (ClipUuid u)"
proof -
  have key: "split_once_at ''='' (''clip_uuid='' @ u) = Some (''clip_uuid'', u)"
    using split_once_first [of "CHR ''=''" "''clip_uuid''" u] by simp
  have k: "trim ''clip_uuid'' = ''clip_uuid''" by (rule tidy_trim) (simp add: tidy_def printable_Cons)
  have "tidy (''clip_uuid='' @ u)" using assms by (intro tidy_prefix) (simp_all add: printable_Cons)
  moreover have "parse_anchor (''clip_uuid='' @ u) n = Inr (ClipUuid u)" for n
    unfolding parse_anchor_def key using assms by (simp add: k tidy_trim Let_def tidyD)
  ultimately show ?thesis unfolding anchored_at_def by blast
qed

lemma digits_no_colon: "CHR '':'' \<notin> set (dec_of_nat n)"
  using digits_of_nat(1) [of n] by (auto simp: list_all_iff is_digit_def)

lemma parse_unsigned_nat: "n < 2 ^ bits \<Longrightarrow> parse_unsigned bits (dec_of_nat n) = Inr n"
proof -
  assume n: "n < 2 ^ bits"
  obtain c s where c: "dec_of_nat n = c # s" "is_digit c" using digits_of_nat [of n] by (cases "dec_of_nat n") auto
  then have "CHR ''+'' \<noteq> c" by auto
  then have "strip_prefix ''+'' (dec_of_nat n) = None" by (simp add: c)
  then show ?thesis using n digits_of_nat [of n] by (simp add: parse_unsigned_def)
qed

lemma scene_read:
  assumes "tidy s"
  shows "anchored_at (''scene_change_index='' @ s @ '':'' @ dec_of_nat (unat i)) (SceneChangeIndex s i)"
proof -
  let ?v = "s @ '':'' @ dec_of_nat (unat (i :: u32))"
  have "tidy (dec_of_nat (unat i))" using numeric_nat by (rule numeric_tidy)
  then have v: "tidy ?v" using assms by (auto simp: tidy_def printable_Cons)
  have key: "split_once_at ''='' (''scene_change_index='' @ ?v) = Some (''scene_change_index'', ?v)"
    using split_once_first [of "CHR ''=''" "''scene_change_index''" ?v] by simp
  have k: "trim ''scene_change_index'' = ''scene_change_index''" by (rule tidy_trim) (simp add: tidy_def printable_Cons)
  have last: "rsplit_once '':'' ?v = Some (s, dec_of_nat (unat i))" using rsplit_once_last [OF digits_no_colon] by simp
  have idx: "parse_unsigned 32 (dec_of_nat (unat i)) = Inr (unat i)"
    by (rule parse_unsigned_nat) (use unsigned_less [of i, where ?'a = nat] in simp)
  have "tidy (''scene_change_index='' @ ?v)" by (rule tidy_prefix [OF v]) (simp_all add: printable_Cons)
  moreover have "parse_anchor (''scene_change_index='' @ ?v) n = Inr (SceneChangeIndex s i)" for n
    unfolding parse_anchor_def key using last by (simp add: k tidy_trim [OF v, simplified] idx Let_def)
  ultimately show ?thesis unfolding anchored_at_def by blast
qed

lemma written_anchor:
  assumes "writable_anchor codec a"
  obtains t x where "edl_anchor codec a = Inr t" and "json_anchor a = Inr x" and "anchored_at t x"
proof (cases "aa_clip_uuid a")
  case (Some u)
  with assms show ?thesis
    by (intro that [rotated 2, OF uuid_read [of u]])
      (simp_all add: writable_anchor_def edl_anchor_def json_anchor_def single_line_tidy)
next
  case None
  note no_uuid = None
  show ?thesis
  proof (cases "aa_transcript_snippet a")
    case (Some t)
    with no_uuid assms show ?thesis
      by (intro that [rotated 2, OF quoted_snippet_read [of t]])
        (simp_all add: writable_anchor_def edl_anchor_def json_anchor_def json_string_def single_line_tidy)
  next
    case None
    with no_uuid assms obtain s i where "aa_asset_id a = Some s" "aa_scene_change_index a = Some i" "tidy s"
      by (auto simp: writable_anchor_def split: option.splits)
    with no_uuid None show ?thesis
      by (intro that [rotated 2, OF scene_read [of s i]])
        (simp_all add: edl_anchor_def json_anchor_def single_line_tidy)
  qed
qed

end
