(* ===== verification/Tool_Props.thy ===== *)
theory Tool_Props
  imports Tool_Scripts
begin

text \<open>
  The contract of the editing tools: the operations a call asks for (\<open>call_ops\<close>), which are the
  operations that the parser reads in the script the call is turned into.
\<close>

section \<open>What a call asks for\<close>

datatype tool_call =
    Call_Split anchor_arg f64
  | Call_Trim anchor_arg "f64 option" "f64 option"
  | Call_Move move_clip_args
  | Call_Delete "anchor_arg list"
  | Call_Roll anchor_arg anchor_arg f64
  | Call_Slip anchor_arg f64
  | Call_Ripple anchor_arg f64 "string list"
  | Call_Marker set_marker_args
  | Call_Clip clip_property_args
  | Call_Track track_property_args

fun call_script :: "edl_codec \<Rightarrow> tool_call \<Rightarrow> string + string" where
  "call_script codec (Call_Split a t) = run_split_clip codec a t"
| "call_script codec (Call_Trim a s e) = run_trim_clip codec a s e"
| "call_script codec (Call_Move m) = run_move_clip codec m"
| "call_script codec (Call_Delete as) = run_delete_clips codec as"
| "call_script codec (Call_Roll f t d) = run_roll_trim codec f t d"
| "call_script codec (Call_Slip a d) = run_slip_clip codec a d"
| "call_script codec (Call_Ripple a e ts) = run_ripple_trim codec a e ts"
| "call_script codec (Call_Marker m) = run_set_marker codec m"
| "call_script codec (Call_Clip p) = run_set_clip_property codec p"
| "call_script codec (Call_Track p) = run_set_track_property p"

abbreviation anchor_of :: "anchor_arg \<Rightarrow> anchor" where
  "anchor_of a \<equiv> projr (json_anchor a)"

definition snap_names :: "(string \<times> snap_target_kind) list" where
  "snap_names = [(''clip_edge'', ClipEdge), (''marker'', MarkerTarget), (''playhead'', Playhead)]"

definition asked_snap :: "move_clip_args \<Rightarrow> snap_options option" where
  "asked_snap m =
     (if mv_snap m = None \<and> mv_snap_tolerance_s m = None \<and> mv_snap_targets m = [] then None
      else Some \<lparr>so_enabled = unwrap_or True (mv_snap m),
                 so_tolerance_s = unwrap_or (f64_lit (1 / 10)) (mv_snap_tolerance_s m),
                 so_targets = map (the \<circ> map_of snap_names) (mv_snap_targets m)\<rparr>)"

definition option_list :: "('a \<Rightarrow> 'b) \<Rightarrow> 'a option \<Rightarrow> 'b list" where
  "option_list f v = (case v of None \<Rightarrow> [] | Some x \<Rightarrow> [f x])"

lemma option_list_simps [simp]: "option_list f None = []" "option_list f (Some x) = [f x]"
  by (simp_all add: option_list_def)

fun call_ops :: "tool_call \<Rightarrow> script_op list" where
  "call_ops (Call_Split a t) = [Timeline (SplitClip (anchor_of a) t None)]"
| "call_ops (Call_Trim a s e) = [Timeline (TrimClip (anchor_of a) s e)]"
| "call_ops (Call_Move m) =
     [Timeline (MoveClip (anchor_of (mv_anchor m)) (unwrap_or 0 (mv_to_position m)) (mv_at_s m) (asked_snap m))]"
| "call_ops (Call_Delete as) = map (\<lambda>a. Timeline (DeleteClip (anchor_of a))) as"
| "call_ops (Call_Roll f t d) = [Timeline (ProTimelineEdit (PE_RollEdit (anchor_of f) (anchor_of t) d))]"
| "call_ops (Call_Slip a d) = [Timeline (ProTimelineEdit (PE_SlipClip (anchor_of a) d))]"
| "call_ops (Call_Ripple a e ts) = [Timeline (ProTimelineEdit (PE_RippleTrim (anchor_of a) e ts))]"
| "call_ops (Call_Marker m) = [Timeline (ProTimelineEdit (projr (set_marker_edit m)))]"
| "call_ops (Call_Clip p) =
     option_list (\<lambda>v. Timeline (SetVolume (anchor_of (cpa_anchor p)) v)) (cpa_volume p)
     @ option_list (\<lambda>v. Timeline (SetSpeed (anchor_of (cpa_anchor p)) v)) (cpa_speed p)
     @ option_list (\<lambda>fx. SetEffect (anchor_of (cpa_anchor p)) fx (cpa_params p) (cpa_rationale p)) (cpa_effect p)"
| "call_ops (Call_Track p) =
     [Timeline (SetTrackAudio (tpa_track p) (tpa_role p) (tpa_volume p) (tpa_muted p) (tpa_solo p))]"

text \<open>
  The calls whose arguments the language can carry: representable numbers, printable names that do
  not read as numbers, and payloads whose JSON text is decoded as what was printed.
\<close>

definition opt_all :: "('a \<Rightarrow> bool) \<Rightarrow> 'a option \<Rightarrow> bool" where
  "opt_all P v = (case v of None \<Rightarrow> True | Some x \<Rightarrow> P x)"

lemma opt_all_simps [simp]: "opt_all P None" "opt_all P (Some x) = P x"
  by (simp_all add: opt_all_def)

definition writable_edit :: "edl_codec \<Rightarrow> string + pro_edit \<Rightarrow> bool" where
  "writable_edit codec r =
     (case r of
        Inl _ \<Rightarrow> False
      | Inr e \<Rightarrow> word_text (ec_edit_text codec e)
          \<and> from_json_str codec (ec_pro_edit codec) (ec_edit_text codec e) = Inr e)"

definition writable_params :: "edl_codec \<Rightarrow> json_map \<Rightarrow> bool" where
  "writable_params codec m \<longleftrightarrow>
     word_text (ec_print codec (JObj m)) \<and> ec_value codec (ec_print codec (JObj m)) = Inr (JObj m)"

fun writable :: "edl_codec \<Rightarrow> tool_call \<Rightarrow> bool" where
  "writable codec (Call_Split a t) = (writable_anchor codec a \<and> is_f64 t)"
| "writable codec (Call_Trim a s e) = (writable_anchor codec a \<and> opt_all is_f64 s \<and> opt_all is_f64 e)"
| "writable codec (Call_Move m) =
     (writable_anchor codec (mv_anchor m) \<and> opt_all (\<lambda>n. n < 2 ^ 53) (mv_to_position m) \<and> opt_all is_f64 (mv_at_s m)
      \<and> (mv_to_position m \<noteq> None \<or> mv_at_s m \<noteq> None)
      \<and> opt_all (\<lambda>x. is_f64 x \<and> \<not> flt x (Fin 0)) (mv_snap_tolerance_s m)
      \<and> set (mv_snap_targets m) \<subseteq> fst ` set snap_names \<and> distinct (mv_snap_targets m))"
| "writable codec (Call_Delete as) = (as \<noteq> [] \<and> list_all (writable_anchor codec) as)"
| "writable codec (Call_Roll f t d) =
     writable_edit codec (rbind (json_anchor f) (\<lambda>x. rbind (json_anchor t) (\<lambda>y. Inr (PE_RollEdit x y d))))"
| "writable codec (Call_Slip a d) = writable_edit codec (rbind (json_anchor a) (\<lambda>x. Inr (PE_SlipClip x d)))"
| "writable codec (Call_Ripple a e ts) = writable_edit codec (rbind (json_anchor a) (\<lambda>x. Inr (PE_RippleTrim x e ts)))"
| "writable codec (Call_Marker m) = writable_edit codec (set_marker_edit m)"
| "writable codec (Call_Clip p) =
     (writable_anchor codec (cpa_anchor p) \<and> opt_all is_f64 (cpa_volume p) \<and> opt_all is_f64 (cpa_speed p)
      \<and> opt_all (\<lambda>fx. word_text fx \<and> writable_params codec (cpa_params p) \<and> opt_all word_text (cpa_rationale p)) (cpa_effect p)
      \<and> (cpa_volume p \<noteq> None \<or> cpa_speed p \<noteq> None \<or> cpa_effect p \<noteq> None))"
| "writable codec (Call_Track p) =
     (word_text (tpa_track p) \<and> opt_all word_text (tpa_role p) \<and> opt_all is_f64 (tpa_volume p))"

section \<open>Each call\<close>

lemma reader_assoc [reader_simps]:
  "and_then (and_then r f) g = and_then r (\<lambda>x. and_then (f x) g)"
  "need line field (Some x) = Inr x" "need line field None = Inl (MissingField line field)"
  by (simp_all add: and_then_def need_def rbind_def fun_eq_iff split: sum.splits)

lemma printable_literal:
  "tidy (c # s) \<longleftrightarrow> printable (c # s) \<and> c \<noteq> CHR 0x20 \<and> last (c # s) \<noteq> CHR 0x20"
  by (simp add: tidy_def)

lemmas literal_text = printable_literal printable_Cons

lemmas block_layout = block_text_def anchor_lines_def anchored_def field_line_def field_text_def

lemmas block_build = stands_for_def block_builder_def build_def the_defs reader_simps rbind_def heading_kinds_def literal_text

lemma word_textD: "word_text s \<Longrightarrow> tidy s" "word_text s \<Longrightarrow> single_line s = s"
  by (simp_all add: word_text_def single_line_tidy)

lemma written_block:
  assumes "stands_for codec over blk x" and "r = Inr (delegated_edl [block_text blk])"
  shows "\<exists>txt. r = Inr txt \<and> parse codec over txt = Inr [x]"
  using parse_blocks [of codec over "[blk]" "[x]"] assms by simp

lemma split_call:
  assumes "writable codec (Call_Split a t)"
  shows "\<exists>txt. call_script codec (Call_Split a t) = Inr txt \<and> parse codec over txt = Inr (call_ops (Call_Split a t))"
proof -
  obtain s x where s: "edl_anchor codec a = Inr s" "json_anchor a = Inr x" "anchored_at s x"
    using assms written_anchor [of codec a] by auto
  define blk where "blk = \<lparr>bk_heading = ''Split Clip'', bk_kind = K_SplitClip, bk_anchor = Some (s, x),
    bk_fields = [(''at_s'', fmt_num t, FNumber t)]\<rparr>"
  have "stands_for codec over blk (Timeline (SplitClip x t None))"
    using assms s(3) by (simp add: blk_def block_build build_split_clip_def parse_snap_options_def parsed_def reads_fmt_num)
  moreover have "run_split_clip codec a t = Inr (delegated_edl [block_text blk])"
    by (simp add: run_split_clip_def s rbind_def blk_def block_layout)
  ultimately have "\<exists>txt. run_split_clip codec a t = Inr txt \<and> parse codec over txt = Inr [Timeline (SplitClip x t None)]"
    by (rule written_block)
  then show ?thesis by (simp add: s)
qed

lemma trim_call:
  assumes "writable codec (Call_Trim a s e)"
  shows "\<exists>txt. call_script codec (Call_Trim a s e) = Inr txt \<and> parse codec over txt = Inr (call_ops (Call_Trim a s e))"
proof -
  obtain t x where t: "edl_anchor codec a = Inr t" "json_anchor a = Inr x" "anchored_at t x"
    using assms written_anchor [of codec a] by auto
  define blk where "blk = \<lparr>bk_heading = ''Trim Clip'', bk_kind = K_TrimClip, bk_anchor = Some (t, x),
    bk_fields = option_list (\<lambda>y. (''start'', fmt_num y, FNumber y)) s @ option_list (\<lambda>y. (''end'', fmt_num y, FNumber y)) e\<rparr>"
  have "stands_for codec over blk (Timeline (TrimClip x s e))"
    using assms t(3) by (cases s; cases e) (simp_all add: blk_def block_build build_trim_clip_def reads_fmt_num)
  moreover have "run_trim_clip codec a s e = Inr (delegated_edl [block_text blk])"
    by (cases s; cases e) (simp_all add: run_trim_clip_def t rbind_def blk_def block_layout push_opt_num_def push_opt_line_def)
  ultimately have "\<exists>txt. run_trim_clip codec a s e = Inr txt \<and> parse codec over txt = Inr [Timeline (TrimClip x s e)]"
    by (rule written_block)
  then show ?thesis by (simp add: t)
qed

lemma edit_call:
  assumes "writable_edit codec r"
  shows "\<exists>txt. rbind r (\<lambda>e. Inr (delegated_edl [professional_edit_op codec e])) = Inr txt
    \<and> parse codec over txt = Inr [Timeline (ProTimelineEdit (projr r))]"
proof -
  obtain e where e: "r = Inr e" "word_text (ec_edit_text codec e)"
    "from_json_str codec (ec_pro_edit codec) (ec_edit_text codec e) = Inr e"
    using assms by (auto simp: writable_edit_def split: sum.splits)
  define blk where "blk = \<lparr>bk_heading = ''Professional Timeline Edit'', bk_kind = K_ProTimelineEdit, bk_anchor = None,
    bk_fields = [(''edit_json'', ec_edit_text codec e, FString (ec_edit_text codec e))]\<rparr>"
  have "stands_for codec over blk (Timeline (ProTimelineEdit e))"
    using e by (simp add: blk_def block_build build_professional_edit_def required_json_def optional_json_def parsed_def
        reads_word)
  moreover have "rbind r (\<lambda>e. Inr (delegated_edl [professional_edit_op codec e])) = Inr (delegated_edl [block_text blk])"
    by (simp add: e rbind_def blk_def block_layout professional_edit_op_def)
  ultimately have "\<exists>txt. rbind r (\<lambda>e. Inr (delegated_edl [professional_edit_op codec e])) = Inr txt
      \<and> parse codec over txt = Inr [Timeline (ProTimelineEdit e)]"
    by (rule written_block)
  then show ?thesis by (simp add: e)
qed

lemma delete_anchors:
  "list_all (writable_anchor codec) as \<Longrightarrow> \<exists>ts blks. edl_anchors codec as = Inr ts
     \<and> map (anchored ''Delete Clip'') ts = map block_text blks
     \<and> list_all2 (stands_for codec over) blks (call_ops (Call_Delete as))"
proof (induction as)
  case (Cons a as)
  obtain t x where t: "edl_anchor codec a = Inr t" "json_anchor a = Inr x" "anchored_at t x"
    using Cons.prems written_anchor [of codec a] by auto
  define blk where "blk = \<lparr>bk_heading = ''Delete Clip'', bk_kind = K_DeleteClip, bk_anchor = Some (t, x), bk_fields = []\<rparr>"
  have "stands_for codec over blk (Timeline (DeleteClip x))"
    using t(3) by (simp add: blk_def block_build build_delete_clip_def)
  moreover have "anchored ''Delete Clip'' t = block_text blk" by (simp add: blk_def block_layout)
  moreover obtain ts blks where "edl_anchors codec as = Inr ts" "map (anchored ''Delete Clip'') ts = map block_text blks"
    "list_all2 (stands_for codec over) blks (call_ops (Call_Delete as))"
    using Cons.IH Cons.prems unfolding list.pred_inject(2) by blast
  ultimately show ?case by (intro exI [of _ "t # ts"] exI [of _ "blk # blks"]) (simp add: t rbind_def)
qed simp

lemma delete_call:
  assumes "writable codec (Call_Delete as)"
  shows "\<exists>txt. call_script codec (Call_Delete as) = Inr txt \<and> parse codec over txt = Inr (call_ops (Call_Delete as))"
proof -
  have "list_all (writable_anchor codec) as" "as \<noteq> []" using assms by simp_all
  then obtain ts blks where b: "edl_anchors codec as = Inr ts" "map (anchored ''Delete Clip'') ts = map block_text blks"
    "list_all2 (stands_for codec over) blks (call_ops (Call_Delete as))"
    using delete_anchors by blast
  have "run_delete_clips codec as = Inr (delegated_edl (map block_text blks))"
    using \<open>as \<noteq> []\<close> by (simp add: run_delete_clips_def b(1) rbind_def flip: b(2))
  with parse_blocks [OF b(3)] show ?thesis by simp
qed

lemma track_call:
  assumes "writable codec (Call_Track p)"
  shows "\<exists>txt. call_script codec (Call_Track p) = Inr txt \<and> parse codec over txt = Inr (call_ops (Call_Track p))"
proof -
  define blk where "blk = \<lparr>bk_heading = ''Set Track Audio'', bk_kind = K_SetTrackAudio, bk_anchor = None,
    bk_fields = (''track'', tpa_track p, FString (tpa_track p))
      # option_list (\<lambda>y. (''role'', y, FString y)) (tpa_role p)
      @ option_list (\<lambda>y. (''volume'', fmt_num y, FNumber y)) (tpa_volume p)
      @ option_list (\<lambda>y. (''muted'', bool_text y, FString (bool_text y))) (tpa_muted p)
      @ option_list (\<lambda>y. (''solo'', bool_text y, FString (bool_text y))) (tpa_solo p)\<rparr>"
  have truth: "value_bool (FString (bool_text v)) = Some v" for v
    by (simp add: bool_text_def to_ascii_lowercase_def ascii_lower_def)
  have "stands_for codec over blk (Timeline (SetTrackAudio (tpa_track p) (tpa_role p) (tpa_volume p) (tpa_muted p) (tpa_solo p)))"
    using assms by (cases "tpa_role p"; cases "tpa_volume p"; cases "tpa_muted p"; cases "tpa_solo p")
      (simp_all add: blk_def block_build build_set_track_audio_def reads_fmt_num reads_word reads_bool truth del: value_bool.simps)
  moreover have "run_set_track_property p = Inr (delegated_edl [block_text blk])"
    using assms by (cases "tpa_role p"; cases "tpa_volume p"; cases "tpa_muted p"; cases "tpa_solo p")
      (simp_all add: run_set_track_property_def rbind_def blk_def block_layout push_opt_num_def push_opt_line_def word_textD)
  ultimately have "\<exists>txt. run_set_track_property p = Inr txt \<and> parse codec over txt =
      Inr [Timeline (SetTrackAudio (tpa_track p) (tpa_role p) (tpa_volume p) (tpa_muted p) (tpa_solo p))]"
    by (rule written_block)
  then show ?thesis by simp
qed

lemma clip_call:
  assumes "writable codec (Call_Clip p)"
  shows "\<exists>txt. call_script codec (Call_Clip p) = Inr txt \<and> parse codec over txt = Inr (call_ops (Call_Clip p))"
proof -
  obtain t x where t: "edl_anchor codec (cpa_anchor p) = Inr t" "json_anchor (cpa_anchor p) = Inr x" "anchored_at t x"
    using assms written_anchor [of codec "cpa_anchor p"] by auto
  define volume where "volume = (\<lambda>v. \<lparr>bk_heading = ''Set Volume'', bk_kind = K_SetVolume, bk_anchor = Some (t, x),
    bk_fields = [(''value'', fmt_num v, FNumber v)]\<rparr>)"
  define speed where "speed = (\<lambda>v. \<lparr>bk_heading = ''Set Speed'', bk_kind = K_SetSpeed, bk_anchor = Some (t, x),
    bk_fields = [(''factor'', fmt_num v, FNumber v)]\<rparr>)"
  define params where "params = ec_print codec (JObj (cpa_params p))"
  define effect where "effect = (\<lambda>fx. \<lparr>bk_heading = ''Set Effect'', bk_kind = K_SetEffect, bk_anchor = Some (t, x),
    bk_fields = [(''effect'', fx, FString fx), (''params_json'', params, FString params)]
      @ option_list (\<lambda>y. (''rationale'', y, FString y)) (cpa_rationale p)\<rparr>)"
  let ?blks = "option_list volume (cpa_volume p) @ option_list speed (cpa_speed p) @ option_list effect (cpa_effect p)"
  have v: "stands_for codec over (volume v) (Timeline (SetVolume x v))" if "is_f64 v" for v
    using t(3) that by (simp add: volume_def block_build build_set_volume_def reads_fmt_num)
  have s: "stands_for codec over (speed v) (Timeline (SetSpeed x v))" if "is_f64 v" for v
    using t(3) that by (simp add: speed_def block_build build_set_speed_def reads_fmt_num)
  have e: "stands_for codec over (effect fx) (SetEffect x fx (cpa_params p) (cpa_rationale p))"
    if "word_text fx" "writable_params codec (cpa_params p)" "opt_all word_text (cpa_rationale p)" for fx
    using t(3) that by (cases "cpa_rationale p") (simp_all add: effect_def block_build build_set_effect_def
        optional_json_map_def parsed_def unwrap_or_def reads_word writable_params_def flip: params_def)
  have "list_all2 (stands_for codec over) ?blks (call_ops (Call_Clip p))"
    using assms v s e by (cases "cpa_volume p"; cases "cpa_speed p"; cases "cpa_effect p") (simp_all add: t(2))
  note parsed = parse_blocks [OF this]
  have "run_set_clip_property codec p = Inr (delegated_edl (map block_text ?blks))"
    using assms by (cases "cpa_volume p"; cases "cpa_speed p"; cases "cpa_effect p"; cases "cpa_rationale p")
      (simp_all add: run_set_clip_property_def t rbind_def volume_def speed_def effect_def block_layout push_opt_line_def
        word_textD flip: params_def)
  with parsed show ?thesis by simp
qed

text \<open>The targets of a move, separated by a comma and a space.\<close>

lemma split_joined:
  assumes "\<forall>t\<in>set (t # ts). CHR '','' \<notin> set t"
  shows "split_on (CHR '','') (join '', '' (t # ts)) = t # map (\<lambda>u. CHR 0x20 # u) ts"
proof -
  have no_comma: "split_on (CHR '','') t = [t]" if "CHR '','' \<notin> set t" for t using that by (induction t) auto
  have step: "split_on (CHR '','') (t @ CHR '','' # r) = t # split_on (CHR '','') r" if "CHR '','' \<notin> set t" for t r
    using that by (induction t) auto
  show ?thesis using assms
  proof (induction ts arbitrary: t)
    case Nil
    then show ?case by (simp add: join_def no_comma)
  next
    case (Cons u us)
    have "join '', '' (t # u # us) = t @ CHR '','' # join '', '' ((CHR 0x20 # u) # us)" by (simp add: join_def)
    moreover have "split_on (CHR '','') (join '', '' ((CHR 0x20 # u) # us)) = (CHR 0x20 # u) # map (\<lambda>u. CHR 0x20 # u) us"
      using Cons.prems by (intro Cons.IH) auto
    ultimately show ?case using Cons.prems step by simp
  qed
qed

lemma snap_name_facts:
  assumes "t \<in> fst ` set snap_names"
  shows "tidy t" and "CHR '','' \<notin> set t"
    and "keyword n raw complaint [(''clip_edge'', ClipEdge), (''clip_edges'', ClipEdge), (''marker'', MarkerTarget),
      (''markers'', MarkerTarget), (''playhead'', Playhead)] t = Inr (the (map_of snap_names t))"
    and "word_text (t @ s) = tidy (t @ s)"
proof -
  from assms have t: "t = ''clip_edge'' \<or> t = ''marker'' \<or> t = ''playhead''" by (auto simp: snap_names_def)
  then show "tidy t" "CHR '','' \<notin> set t" by (auto simp: literal_text)
  show "keyword n raw complaint [(''clip_edge'', ClipEdge), (''clip_edges'', ClipEdge), (''marker'', MarkerTarget),
      (''markers'', MarkerTarget), (''playhead'', Playhead)] t = Inr (the (map_of snap_names t))"
    using t by (auto simp: keyword_def snap_names_def)
  show "word_text (t @ s) = tidy (t @ s)"
    using t letter_word by (auto simp: is_digit_def ascii_lower_def word_text_def)
qed

lemma snap_targets_read:
  assumes "set ts \<subseteq> fst ` set snap_names" and "distinct ts" and "f = map (\<lambda>t. t) \<or> f = map (\<lambda>t. CHR 0x20 # t)"
    and "\<forall>t\<in>set ts. the (map_of snap_names t) \<notin> set acc"
  shows "snap_targets_from n (f ts) acc = Inr (acc @ map (the \<circ> map_of snap_names) ts)"
  using assms(1,2,4)
proof (induction ts arbitrary: acc)
  case Nil
  then show ?case using assms(3) by auto
next
  case (Cons t ts)
  have t: "t \<in> fst ` set snap_names" using Cons.prems by simp
  note facts = snap_name_facts [OF t]
  have "trim (hd (f [t])) = t" "f (t # ts) = hd (f [t]) # f ts"
    using assms(3) facts(1) tidy_trim [OF facts(1)] tidy_trim_space [OF facts(1)] by auto
  moreover have "the (map_of snap_names u) \<noteq> the (map_of snap_names t)" if "u \<in> set ts" for u
  proof -
    have "u \<in> fst ` set snap_names" "u \<noteq> t" using Cons.prems that by auto
    then show ?thesis using t by (auto simp: snap_names_def)
  qed
  then have "snap_targets_from n (f ts) (acc @ [the (map_of snap_names t)]) =
      Inr ((acc @ [the (map_of snap_names t)]) @ map (the \<circ> map_of snap_names) ts)"
    using Cons.prems by (intro Cons.IH) auto
  ultimately show ?case using Cons.prems facts(3) tidyD(2) [OF facts(1)] by (simp add: rbind_def Let_def)
qed

lemma joined_targets:
  assumes "set ts \<subseteq> fst ` set snap_names" and "distinct ts" and "ts \<noteq> []"
  shows "parse_snap_targets n (join '', '' ts) = Inr (map (the \<circ> map_of snap_names) ts)"
    and "word_text (join '', '' ts)"
proof -
  obtain u us where ts: "ts = u # us" using assms(3) by (cases ts) auto
  have u: "u \<in> fst ` set snap_names" and us: "set us \<subseteq> fst ` set snap_names" using assms ts by auto
  note facts = snap_name_facts [OF u]
  have commas: "\<forall>t\<in>set (u # us). CHR '','' \<notin> set t" using assms snap_name_facts(2) unfolding ts by blast
  have "the (map_of snap_names t) \<noteq> the (map_of snap_names u)" if "t \<in> set us" for t
  proof -
    have "t \<in> fst ` set snap_names" "t \<noteq> u" using assms(2) us that by (auto simp: ts)
    then show ?thesis using u by (auto simp: snap_names_def)
  qed
  then have "snap_targets_from n (map (\<lambda>t. CHR 0x20 # t) us) ([] @ [the (map_of snap_names u)]) =
      Inr (([] @ [the (map_of snap_names u)]) @ map (the \<circ> map_of snap_names) us)"
    using assms(2) us by (intro snap_targets_read) (auto simp: ts)
  then show "parse_snap_targets n (join '', '' ts) = Inr (map (the \<circ> map_of snap_names) ts)"
    unfolding parse_snap_targets_def ts split_joined [OF commas]
    using facts(3) tidyD(2) [OF facts(1)] tidy_trim [OF facts(1)] by (simp add: rbind_def Let_def)
  have "tidy (u @ concat (map (\<lambda>q. '', '' @ q) us))" using us facts(1)
  proof (induction us rule: rev_induct)
    case (snoc w us)
    then have "tidy w" "printable (u @ concat (map (\<lambda>q. '', '' @ q) us))" "hd u \<noteq> CHR 0x20" "u \<noteq> []"
      using snap_name_facts(1) [of w] by (auto simp: tidy_def)
    then have "tidy ((u @ concat (map (\<lambda>q. '', '' @ q) us) @ '', '') @ w)"
      by (intro tidy_prefix) (auto simp: printable_Cons)
    then show ?case by simp
  qed simp
  then show "word_text (join '', '' ts)" by (simp only: ts join_def list.case facts(4))
qed

lemma default_tolerance: "is_finite (f64_lit (1 / 10))" "\<not> flt (f64_lit (1 / 10)) (Fin 0)"
proof -
  note near = rnd_near [of "1 / 10" 0 False]
  show "is_finite (f64_lit (1 / 10))" using near(1) by (simp add: f64_lit_def)
  have "\<bar>fval (f64_lit (1 / 10)) - 1 / 10\<bar> \<le> 2 powi (- 54)" using near(2) by (simp add: f64_lit_def)
  also have "(2::rat) powi (- 54) \<le> 1 / 10" by (simp add: power_int_def field_simps)
  finally have "0 \<le> fval (f64_lit (1 / 10))" unfolding abs_le_iff by linarith
  then show "\<not> flt (f64_lit (1 / 10)) (Fin 0)"
    using \<open>is_finite (f64_lit (1 / 10))\<close> by (cases "f64_lit (1 / 10)") auto
qed

lemma move_call:
  assumes "writable codec (Call_Move m)"
  shows "\<exists>txt. call_script codec (Call_Move m) = Inr txt \<and> parse codec over txt = Inr (call_ops (Call_Move m))"
proof -
  obtain t x where t: "edl_anchor codec (mv_anchor m) = Inr t" "json_anchor (mv_anchor m) = Inr x" "anchored_at t x"
    using assms written_anchor [of codec "mv_anchor m"] by auto
  define names where "names = join '', '' (mv_snap_targets m)"
  define targets where "targets = (if mv_snap_targets m = [] then [] else [(''snap_targets'', names, FString names)])"
  define snaps where "snaps = option_list (\<lambda>y. (''snap'', bool_text y, FString (bool_text y))) (mv_snap m)
      @ option_list (\<lambda>y. (''snap_tolerance_s'', fmt_num y, FNumber y)) (mv_snap_tolerance_s m) @ targets"
  define rest where "rest = map (\<lambda>(k, _, v). (k, v)) snaps"
  define blk where "blk = \<lparr>bk_heading = ''Move Clip'', bk_kind = K_MoveClip, bk_anchor = Some (t, x),
    bk_fields = option_list (\<lambda>y. (''to_position'', dec_of_nat y, FNumber (Fin (of_nat y)))) (mv_to_position m)
      @ option_list (\<lambda>y. (''at_s'', fmt_num y, FNumber y)) (mv_at_s m) @ snaps\<rparr>"
  have truth: "value_bool (FString (bool_text v)) = Some v" for v
    by (simp add: bool_text_def to_ascii_lowercase_def ascii_lower_def)
  have place: "value_usize (FNumber (Fin (of_nat n))) = Some n" if "n < 2 ^ 53" for n using that by simp
  have names: "parse_snap_targets n names = Inr (map (the \<circ> map_of snap_names) (mv_snap_targets m))" "word_text names"
    if "mv_snap_targets m \<noteq> []" for n
    using joined_targets [of "mv_snap_targets m"] assms that by (simp_all add: names_def)
  have finite: "is_finite y" if "is_f64 y" for y using that by (simp add: is_f64_def)
  have snap: "parse_snap_options n rest = Inr (asked_snap m, [])" for n
    using assms names finite default_tolerance
    by (cases "mv_snap m"; cases "mv_snap_tolerance_s m"; cases "mv_snap_targets m = []")
      (simp_all add: parse_snap_options_def parsed_def reader_simps targets_def snaps_def rest_def asked_snap_def
        unwrap_or_def truth rbind_def Let_def del: value_bool.simps)
  have snap_then: "and_then (parse_snap_options n) k rest = k (asked_snap m) []" for n k
    by (simp add: and_then_def snap rbind_def)
  have no_place: "take_field ''at_s'' rest = None" "take_field ''to_position'' rest = None"
    by (cases "mv_snap m"; cases "mv_snap_tolerance_s m"; simp add: rest_def snaps_def targets_def)+
  have readable: "\<forall>(k, v, y)\<in>set (bk_fields blk). tidy k \<and> CHR '':'' \<notin> set k \<and> reads_as codec v y"
    using assms names
    by (cases "mv_to_position m"; cases "mv_at_s m"; cases "mv_snap m"; cases "mv_snap_tolerance_s m")
      (simp_all add: blk_def snaps_def targets_def literal_text reads_fmt_num reads_nat reads_bool reads_word)
  have built: "build codec over (block_builder n blk) =
      Inr (Timeline (MoveClip x (unwrap_or 0 (mv_to_position m)) (mv_at_s m) (asked_snap m)))" for n
    using assms place snap no_place
    by (cases "mv_to_position m"; cases "mv_at_s m")
      (simp_all add: block_builder_def blk_def build_def build_move_clip_def the_defs reader_simps unwrap_or_def
        rbind_def snap_then del: value_usize.simps flip: rest_def)
  have "stands_for codec over blk (Timeline (MoveClip x (unwrap_or 0 (mv_to_position m)) (mv_at_s m) (asked_snap m)))"
    unfolding stands_for_def using readable built t(3) by (simp add: blk_def heading_kinds_def literal_text)
  moreover have "run_move_clip codec m = Inr (delegated_edl [block_text blk])"
    by (cases "mv_to_position m"; cases "mv_at_s m"; cases "mv_snap m"; cases "mv_snap_tolerance_s m"; cases "mv_snap_targets m = []")
      (simp_all add: run_move_clip_def t rbind_def blk_def block_layout push_opt_num_def push_opt_line_def targets_def names_def
        snaps_def)
  ultimately have "\<exists>txt. run_move_clip codec m = Inr txt \<and> parse codec over txt =
      Inr [Timeline (MoveClip x (unwrap_or 0 (mv_to_position m)) (mv_at_s m) (asked_snap m))]"
    by (rule written_block)
  then show ?thesis by (simp add: t)
qed

end
