(* ===== verification/Script_Errors.thy ===== *)
theory Script_Errors
  imports Script_Lines
begin

text \<open>
  Where the errors of a script are reported: an operation is built from its anchor and its fields
  alone, the number of its heading line is only used in its errors (\<open>build_located\<close>).
\<close>

fun err_line :: "edl_parse_error \<Rightarrow> nat option" where
  "err_line MissingBegin = None"
| "err_line MissingEnd = None"
| "err_line (UnknownOp n _) = Some n"
| "err_line (BadAnchor n _) = Some n"
| "err_line (BadField n _ _) = Some n"
| "err_line (MissingField n _) = Some n"
| "err_line (StrayLine n _) = Some n"

text \<open>Two results that agree, or two errors, each at its own line.\<close>

fun lined :: "nat \<Rightarrow> nat \<Rightarrow> edl_parse_error + 'a \<Rightarrow> edl_parse_error + 'a \<Rightarrow> bool" where
  "lined m n (Inr x) (Inr y) = (x = y)"
| "lined m n (Inl e) (Inl e') = (err_line e = Some m \<and> err_line e' = Some n)"
| "lined m n _ _ = False"

definition located :: "nat \<Rightarrow> nat \<Rightarrow> 'a reader \<Rightarrow> 'a reader \<Rightarrow> bool" where
  "located m n r r' \<longleftrightarrow> (\<forall>fs. lined m n (r fs) (r' fs))"

named_theorems located_rules "readers that use their line in errors only"

lemma lined_rbind: "lined m n r r' \<Longrightarrow> (\<And>x. lined m n (k x) (k' x)) \<Longrightarrow> lined m n (rbind r k) (rbind r' k')"
  by (cases r; cases r') (simp_all add: rbind_def)

lemma located_yields [located_rules]: "located m n (yields x) (yields x)"
  by (simp add: located_def yields_def)

lemma located_optional [located_rules]: "located m n (optional f key) (optional f key)"
  by (simp add: located_def optional_def split: option.splits)

lemma located_and_then [located_rules]:
  "located m n r r' \<Longrightarrow> (\<And>x. located m n (k x) (k' x)) \<Longrightarrow> located m n (and_then r k) (and_then r' k')"
  unfolding located_def and_then_def by (intro allI lined_rbind) (auto split: prod.split)

lemma located_checked [located_rules]: "lined m n c c' \<Longrightarrow> located m n (checked c) (checked c')"
  by (cases c; cases c') (simp_all add: located_def checked_def rbind_def)

lemma lined_need [located_rules]: "lined m n (need m field v) (need n field v)"
  by (cases v) (simp_all add: need_def)

lemma lined_keyword [located_rules]: "lined m n (keyword m raw c voc s) (keyword n raw c voc s)"
  by (cases "map_of voc s") (simp_all add: keyword_def)

lemma lined_Inr [located_rules]: "lined m n (Inr x) (Inr x)"
  by simp

lemma lined_bad_field [located_rules]: "lined m n (Inl (BadField m raw c)) (Inl (BadField n raw c))"
  by simp

lemma located_required [located_rules]: "located m n (required m f key) (required n f key)"
  unfolding required_def by (intro located_rules)

lemma located_parsed [located_rules]: "(\<And>s. lined m n (p s) (p' s)) \<Longrightarrow> located m n (parsed p key) (parsed p' key)"
  unfolding parsed_def by (intro located_rules) (auto split: option.split intro: lined_rbind)

lemma located_json [located_rules]:
  "located m n (optional_json codec d key m) (optional_json codec d key n)"
  "located m n (required_json codec d key m) (required_json codec d key n)"
  "located m n (optional_json_map codec key m) (optional_json_map codec key n)"
proof -
  show 1: "located m n (optional_json codec d key m) (optional_json codec d key n)"
    unfolding optional_json_def by (intro located_rules) (simp split: sum.split)
  show "located m n (required_json codec d key m) (required_json codec d key n)"
    unfolding required_json_def by (intro located_rules 1)
  show "located m n (optional_json_map codec key m) (optional_json_map codec key n)"
    unfolding optional_json_map_def by (intro located_rules) (simp split: sum.split json.split)
qed

lemma located_case [located_rules]:
  "located m n r0 r0' \<Longrightarrow> (\<And>x. located m n (k x) (k' x)) \<Longrightarrow>
    located m n (case v of None \<Rightarrow> r0 | Some x \<Rightarrow> k x) (case v of None \<Rightarrow> r0' | Some x \<Rightarrow> k' x)"
  "(\<And>x y. located m n (h x y) (h' x y)) \<Longrightarrow> located m n (case w of (x, y) \<Rightarrow> h x y) (case w of (x, y) \<Rightarrow> h' x y)"
  "located m n r1 r1' \<Longrightarrow> located m n r2 r2' \<Longrightarrow> located m n (if c then r1 else r2) (if c then r1' else r2')"
  by (auto split: option.split prod.split)

lemma lined_case [located_rules]:
  "lined m n c c' \<Longrightarrow> (\<And>x. lined m n (h x) (h' x)) \<Longrightarrow>
    lined m n (case v of None \<Rightarrow> c | Some x \<Rightarrow> h x) (case v of None \<Rightarrow> c' | Some x \<Rightarrow> h' x)"
  "(\<And>e. lined m n (g e) (g' e)) \<Longrightarrow> (\<And>x. lined m n (h x) (h' x)) \<Longrightarrow>
    lined m n (case w of Inl e \<Rightarrow> g e | Inr x \<Rightarrow> h x) (case w of Inl e \<Rightarrow> g' e | Inr x \<Rightarrow> h' x)"
  by (auto split: option.split sum.split)

section \<open>Every builder\<close>

lemma lined_targets [located_rules]: "lined m n (parse_snap_targets m s) (parse_snap_targets n s)"
proof -
  have "lined m n (snap_targets_from m ps acc) (snap_targets_from n ps acc)" for ps acc
    by (induction ps arbitrary: acc) (auto simp: Let_def intro!: lined_rbind lined_keyword)
  then show ?thesis by (simp add: parse_snap_targets_def)
qed

lemma located_snap [located_rules]: "located m n (parse_snap_options m) (parse_snap_options n)"
  unfolding parse_snap_options_def Let_def by (intro located_rules)

lemma lined_vocabularies [located_rules]:
  "lined m n (parse_insert_track_kind m s) (parse_insert_track_kind n s)"
  "lined m n (parse_pip_corner m s) (parse_pip_corner n s)"
  "lined m n (validate_pip_number m f x lo hi) (validate_pip_number n f x lo hi)"
  "lined m n (parse_transition_alignment m s) (parse_transition_alignment n s)"
  "lined m n (parse_cut_type m s) (parse_cut_type n s)"
  "lined m n (parse_audio_relation m s) (parse_audio_relation n s)"
  "lined m n (parse_title_position m s) (parse_title_position n s)"
  "lined m n (parse_title_weight m s) (parse_title_weight n s)"
  "lined m n (parse_title_animation m s) (parse_title_animation n s)"
  "lined m n (parse_motion_template_animation m s) (parse_motion_template_animation n s)"
  "lined m n (parse_annotation_kind m s) (parse_annotation_kind n s)"
  "lined m n (parse_annotation_color m s) (parse_annotation_color n s)"
  "lined m n (parse_reframe_smoothing m s) (parse_reframe_smoothing n s)"
  "lined m n (parse_workflow_lens m s) (parse_workflow_lens n s)"
  "lined m n (parse_bool_field m f s) (parse_bool_field n f s)"
  "lined m n (parse_json_value codec d m f s) (parse_json_value codec d n f s)"
  by (simp_all add: parse_insert_track_kind_def parse_pip_corner_def validate_pip_number_def parse_transition_alignment_def
      parse_cut_type_def parse_audio_relation_def parse_title_position_def parse_title_weight_def parse_title_animation_def
      parse_motion_template_animation_def parse_annotation_kind_def parse_annotation_color_def parse_reframe_smoothing_def
      parse_workflow_lens_def parse_bool_field_def parse_json_value_def lined_keyword Let_def del: lined.simps split: sum.split)
    (simp_all add: lined_keyword)

lemma located_output [located_rules]: "located m n (output_value m key) (output_value n key)"
proof -
  have "located m n (and_then (optional value_u32 key) (\<lambda>v. checked (case v of Some x \<Rightarrow> Inr (Some x)
      | None \<Rightarrow> Inl (BadField m (Fmt ''{}'' [A_str key]) (msg ''expected an unsigned 32-bit integer'')))))
    (and_then (optional value_u32 key) (\<lambda>v. checked (case v of Some x \<Rightarrow> Inr (Some x)
      | None \<Rightarrow> Inl (BadField n (Fmt ''{}'' [A_str key]) (msg ''expected an unsigned 32-bit integer'')))))"
    by (intro located_rules)
  then show ?thesis by (simp add: located_def output_value_def)
qed

lemma located_sound [located_rules]:
  "located m n (parse_eq_bands codec m) (parse_eq_bands codec n)"
  "located m n (parse_audio_fx_config codec m) (parse_audio_fx_config codec n)"
  "located m n (title_phases codec m) (title_phases codec n)"
proof -
  show 1: "located m n (parse_eq_bands codec m) (parse_eq_bands codec n)"
    unfolding parse_eq_bands_def by (intro located_rules)
  show "located m n (parse_audio_fx_config codec m) (parse_audio_fx_config codec n)"
    unfolding parse_audio_fx_config_def by (intro located_rules 1)
  show "located m n (title_phases codec m) (title_phases codec n)" unfolding title_phases_def by (intro located_rules)
qed

lemma located_overlay [located_rules]:
  "located m n (parse_broadcast_overlay_config codec over m) (parse_broadcast_overlay_config codec over n)"
proof -
  have host: "located m n (host_fields p h) (host_fields p h)" for p h unfolding host_fields_def by (intro located_rules)
  have identity: "located m n (overlay_identity codec over m) (overlay_identity codec over n)"
    unfolding overlay_identity_def by (intro located_rules)
  show ?thesis unfolding parse_broadcast_overlay_config_def
    by (intro located_rules identity host)
qed

lemmas clip_builders = build_trim_clip_def build_delete_clip_def build_split_clip_def build_untrim_clip_def
  build_insert_clip_def build_insert_broll_def build_insert_pip_def build_move_clip_def build_ripple_move_def
  build_ripple_delete_def build_ripple_trim_def build_delete_gap_def build_trim_track_tail_def build_insert_track_def
  build_delete_track_def build_multicam_def build_insert_transition_def build_delete_transition_def
  build_set_cut_intent_def

lemmas other_builders = build_set_volume_def build_mute_clip_def build_remove_audio_def build_set_audio_fade_def
  build_set_audio_lead_def build_set_audio_trail_def build_set_track_audio_def build_set_ducking_def
  build_set_sync_group_def build_set_clip_audio_fx_def build_set_track_audio_fx_def build_set_effect_def
  build_set_speed_def build_set_time_remap_def build_set_freeze_def build_set_color_correction_def
  build_apply_lut_def build_remove_lut_def build_insert_title_def build_insert_rich_title_def build_motion_template_def
  build_set_title_def build_insert_caption_def build_insert_annotation_def build_set_output_format_def
  build_set_loudness_target_def build_set_package_metadata_def build_set_broadcast_overlay_def build_payload_def
  build_payloads_def build_professional_edit_def build_author_reframe_def build_set_workflow_lens_def

lemma build_kind_located:
  assumes "ob_anchor d = ob_anchor c" and "ob_between d = ob_between c"
  shows "located (ob_head_line c) (ob_head_line d) (build_kind codec over k c) (build_kind codec over k d)"
  by (cases k; simp only: build_kind.simps; unfold clip_builders other_builders the_defs Let_def assms; intro located_rules)

lemma build_located:
  assumes "d = c\<lparr>ob_head_line := n\<rparr>"
  shows "lined (ob_head_line c) n (build codec over c) (build codec over d)"
proof -
  have "located (ob_head_line c) (ob_head_line d) (build_kind codec over (ob_op_kind c) c) (build_kind codec over (ob_op_kind c) d)"
    by (rule build_kind_located) (simp_all add: assms)
  then have "lined (ob_head_line c) n (build_kind codec over (ob_op_kind c) c (ob_fields c))
      (build_kind codec over (ob_op_kind c) d (ob_fields c))"
    by (simp add: located_def assms)
  moreover have "ob_op_kind d = ob_op_kind c" "ob_fields d = ob_fields c" by (simp_all add: assms)
  ultimately show ?thesis unfolding build_def by (simp only:) (rule lined_rbind, auto)
qed

lemma build_err_line: "build codec over c = Inl e \<Longrightarrow> err_line e = Some (ob_head_line c)"
  using build_located [of c "ob_head_line c" c codec over] by (cases "build codec over c") simp_all

section \<open>Errors of a script\<close>

definition heads_below :: "nat \<Rightarrow> parser \<Rightarrow> bool" where
  "heads_below n p \<longleftrightarrow> (case ps_current p of None \<Rightarrow> True | Some b \<Rightarrow> 1 \<le> ob_head_line b \<and> ob_head_line b < n)"

lemma lined_more [located_rules]:
  "lined m n (Inl (BadAnchor m w0)) (Inl (BadAnchor n w0))"
  "lined m n c c' \<Longrightarrow> lined m n h h' \<Longrightarrow> lined m n (if v then c else h) (if v then c' else h')"
  "(\<And>x y. lined m n (g x y) (g' x y)) \<Longrightarrow> lined m n (case w of (x, y) \<Rightarrow> g x y) (case w of (x, y) \<Rightarrow> g' x y)"
  "lined m n r r' \<Longrightarrow> (\<And>x. lined m n (k x) (k' x)) \<Longrightarrow> lined m n (rbind r k) (rbind r' k')"
  by (auto split: prod.split intro: lined_rbind)

lemma lined_lines [located_rules]:
  "lined m n (parse_anchor s m) (parse_anchor s n)"
  "lined m n (parse_between s m) (parse_between s n)"
proof -
  show 1: "lined m n (parse_anchor s m) (parse_anchor s n)" for s
    unfolding parse_anchor_def Let_def by (intro located_rules)
  show "lined m n (parse_between s m) (parse_between s n)"
    unfolding parse_between_def by (intro located_rules 1)
qed

lemma lined_field: "lined m n (parse_field codec s m l) (parse_field codec s n l')"
  by (cases "split_once_at '':'' s") (auto simp: parse_field_def Let_def split: option.split)

lemma linedD:
  assumes "\<And>m n. lined m n (r m) (r n)"
  shows "r n = Inl e \<Longrightarrow> err_line e = Some n" and "r n = Inr x \<Longrightarrow> r n' = Inr x"
  using assms [of n n] assms [of n n'] by (cases "r n"; cases "r n'"; simp)+

lemmas parse_anchor_line_no = linedD(1) [where r = "parse_anchor s" for s, OF lined_lines(1)]
lemmas parse_between_line_no = linedD(1) [where r = "parse_between s" for s, OF lined_lines(2)]
lemmas parse_anchor_any_line = linedD(2) [where r = "parse_anchor s" for s, OF lined_lines(1)]
lemmas parse_between_any_line = linedD(2) [where r = "parse_between s" for s, OF lined_lines(2)]

lemma parse_field_lines_no:
  "parse_field codec s n l = Inl e \<Longrightarrow> err_line e = Some n"
  "parse_field codec s n l = Inr a \<Longrightarrow> parse_field codec s n' l' = Inr a"
  using lined_field [of n n codec s l l] lined_field [of n n' codec s l l']
  by (cases "parse_field codec s n l"; cases "parse_field codec s n' l'"; simp)+

lemma builder_new_for_facts:
  "builder_new_for h n = Inl e \<Longrightarrow> err_line e = Some n"
  "builder_new_for h n = Inr b \<Longrightarrow> ob_head_line b = n"
  by (auto simp: builder_new_for_def split: option.splits)

lemma flush_facts:
  "flush codec over p = Inl e \<Longrightarrow> heads_below n p \<Longrightarrow> \<exists>k. err_line e = Some k \<and> 1 \<le> k \<and> k < n"
  "flush codec over p = Inr q \<Longrightarrow> ps_current q = None"
  by (auto simp: flush_def heads_below_def rbind_def dest!: build_err_line split: option.splits sum.splits)

lemma with_current_facts:
  assumes "\<And>b e. f b = Inl e \<Longrightarrow> err_line e = Some n" and "\<And>b b'. f b = Inr b' \<Longrightarrow> ob_head_line b' = ob_head_line b"
  shows "with_current p n l f = Inl e \<Longrightarrow> err_line e = Some n"
    and "with_current p n l f = Inr q \<Longrightarrow> heads_below n p \<Longrightarrow> heads_below n q"
  using assms by (auto simp: with_current_def heads_below_def rbind_def split: option.splits sum.splits)

lemma heads_below_mono: "heads_below m p \<Longrightarrow> m \<le> n \<Longrightarrow> heads_below n p"
  by (auto simp: heads_below_def split: option.splits)

lemma block_steps:
  "with_current p n l (\<lambda>b. rbind (parse_anchor r n) (\<lambda>a. Inr (b\<lparr>ob_anchor := Some a\<rparr>))) = Inl e \<Longrightarrow> err_line e = Some n"
  "with_current p n l (\<lambda>b. rbind (parse_between r n) (\<lambda>c. Inr (b\<lparr>ob_between := Some c\<rparr>))) = Inl e \<Longrightarrow> err_line e = Some n"
  "with_current p n l (\<lambda>b. rbind (parse_field codec r n l) (\<lambda>kv. Inr (b\<lparr>ob_fields := ob_fields b @ [kv]\<rparr>))) = Inl e
    \<Longrightarrow> err_line e = Some n"
  "with_current p n l (\<lambda>b. rbind (parse_anchor r n) (\<lambda>a. Inr (b\<lparr>ob_anchor := Some a\<rparr>))) = Inr q \<Longrightarrow> heads_below m p \<Longrightarrow> heads_below m q"
  "with_current p n l (\<lambda>b. rbind (parse_between r n) (\<lambda>c. Inr (b\<lparr>ob_between := Some c\<rparr>))) = Inr q \<Longrightarrow> heads_below m p \<Longrightarrow> heads_below m q"
  "with_current p n l (\<lambda>b. rbind (parse_field codec r n l) (\<lambda>kv. Inr (b\<lparr>ob_fields := ob_fields b @ [kv]\<rparr>))) = Inr q
    \<Longrightarrow> heads_below m p \<Longrightarrow> heads_below m q"
  by (auto simp: with_current_def rbind_def heads_below_def split: option.splits sum.splits
      dest: parse_anchor_line_no parse_between_line_no parse_field_lines_no(1))

lemma rbind_eq_Inl: "rbind r f = Inl e \<longleftrightarrow> r = Inl e \<or> (\<exists>x. r = Inr x \<and> f x = Inl e)"
  by (auto simp: rbind_def split: sum.splits)

lemma inside_line_error:
  assumes "inside_line codec over p n l = Inl e" and "heads_below n p" and "1 \<le> n"
  shows "\<exists>k. err_line e = Some k \<and> 1 \<le> k \<and> k \<le> n"
proof -
  have here: "\<exists>k. err_line e = Some k \<and> 1 \<le> k \<and> k \<le> n" if "err_line e = Some n" using that assms(3) by simp
  have stray: "\<exists>k. err_line (StrayLine n l) = Some k \<and> 1 \<le> k \<and> k \<le> n" using assms(3) by simp
  have early: "\<exists>k. err_line e = Some k \<and> 1 \<le> k \<and> k \<le> n" if "flush codec over p = Inl e"
    using flush_facts(1) [OF that assms(2)] by fastforce
  show ?thesis using assms(1) unfolding inside_line_def
    by (auto simp only: rbind_eq_Inl sum.distinct sum.inject split: if_splits option.splits
        intro: early stray here block_steps(1,2,3) builder_new_for_facts(1))
qed

lemma inside_line_heads:
  assumes "inside_line codec over p n l = Inr q" and "heads_below n p" and "1 \<le> n"
  shows "heads_below (Suc n) q"
proof -
  have up: "heads_below (Suc n) r" if "heads_below n r" for r using heads_below_mono [OF that] by simp
  have fresh: "heads_below (Suc n) (r\<lparr>ps_current := Some b\<rparr>)" if "ob_head_line b = n" for r b
    using that assms(3) by (simp add: heads_below_def)
  have none: "heads_below m (r\<lparr>ps_saw_end := True, ps_state := Closed\<rparr>)" if "ps_current r = None" for r m
    using that by (simp add: heads_below_def)
  show ?thesis using assms(1,2) unfolding inside_line_def
    by (auto simp: rbind_eq_Inr split: if_splits option.splits
        dest: block_steps(4,5,6) builder_new_for_facts(2) flush_facts(2) intro: up fresh none)
qed

lemma parse_line_facts:
  assumes "heads_below n p" and "1 \<le> n"
  shows "parse_line codec over p n l = Inl e \<Longrightarrow> \<exists>k. err_line e = Some k \<and> 1 \<le> k \<and> k \<le> n"
    and "parse_line codec over p n l = Inr q \<Longrightarrow> heads_below (Suc n) q"
proof -
  show "\<exists>k. err_line e = Some k \<and> 1 \<le> k \<and> k \<le> n" if "parse_line codec over p n l = Inl e"
    using that assms inside_line_error [OF _ assms]
    by (auto simp: parse_line_def Let_def split: if_splits parser_state.splits)
  have "heads_below (Suc n) p" using heads_below_mono [OF assms(1)] by simp
  then show "heads_below (Suc n) q" if "parse_line codec over p n l = Inr q"
    using that assms inside_line_heads [OF _ assms]
    by (auto simp: parse_line_def Let_def heads_below_def split: if_splits parser_state.splits)
qed

lemma parse_lines_error:
  assumes "parse_lines codec over n ls p = Inl e" and "heads_below n p" and "1 \<le> n"
  shows "\<exists>k. err_line e = Some k \<and> 1 \<le> k \<and> k < n + length ls"
  using assms
proof (induction ls arbitrary: n p)
  case (Cons l ls)
  show ?case
  proof (cases "parse_line codec over p n l")
    case (Inl e')
    then show ?thesis using Cons.prems parse_line_facts(1) [OF Cons.prems(2,3) Inl] by (fastforce simp: rbind_def)
  next
    case (Inr q)
    then have "parse_lines codec over (Suc n) ls q = Inl e" using Cons.prems by (simp add: rbind_def)
    from Cons.IH [OF this parse_line_facts(2) [OF Cons.prems(2,3) Inr]] show ?thesis by simp
  qed
qed simp

lemma parse_error_line:
  assumes "parse codec over s = Inl e"
  shows "e = MissingBegin \<or> e = MissingEnd \<or> (\<exists>k. err_line e = Some k \<and> 1 \<le> k \<and> k \<le> length (text_lines s))"
proof (cases "parse_lines codec over 1 (text_lines s) parser_init")
  case (Inl e')
  then have "e' = e" using assms by (simp add: parse_def rbind_def)
  then show ?thesis using parse_lines_error [OF Inl] by (force simp: heads_below_def parser_init_def)
next
  case (Inr p)
  then show ?thesis using assms by (auto simp: parse_def rbind_def split: if_splits)
qed

section \<open>Lines that say nothing\<close>

text \<open>A blank line, or the old value of a field.\<close>

definition says_nothing :: "string \<Rightarrow> bool" where
  "says_nothing raw \<longleftrightarrow> trim (trim_end raw) = [] \<or> strip_prefix ''- '' (trim_end raw) \<noteq> None"

text \<open>The state of the parser but for the line where the block under assembly began.\<close>

definition unplaced :: "parser \<Rightarrow> parser" where
  "unplaced p = p\<lparr>ps_current := map_option (\<lambda>b. b\<lparr>ob_head_line := 0\<rparr>) (ps_current p)\<rparr>"

lemma skip_line: "parse_line codec over p n l = Inr q \<Longrightarrow> says_nothing l \<Longrightarrow> q = p"
  by (auto simp: parse_line_def says_nothing_def inside_line_def strip_prefix_iff Let_def
      split: if_splits parser_state.splits)

lemma unplaced_parts:
  assumes "unplaced p = unplaced p'"
  shows "ps_state p = ps_state p'" and "ps_ops p = ps_ops p'" and "ps_saw_end p = ps_saw_end p'"
    and "map_option (\<lambda>b. b\<lparr>ob_head_line := 0\<rparr>) (ps_current p) = map_option (\<lambda>b. b\<lparr>ob_head_line := 0\<rparr>) (ps_current p')"
proof -
  from assms have "ps_state (unplaced p) = ps_state (unplaced p')" "ps_ops (unplaced p) = ps_ops (unplaced p')"
    "ps_saw_end (unplaced p) = ps_saw_end (unplaced p')" "ps_current (unplaced p) = ps_current (unplaced p')" by simp_all
  then show "ps_state p = ps_state p'" "ps_ops p = ps_ops p'" "ps_saw_end p = ps_saw_end p'"
    "map_option (\<lambda>b. b\<lparr>ob_head_line := 0\<rparr>) (ps_current p) = map_option (\<lambda>b. b\<lparr>ob_head_line := 0\<rparr>) (ps_current p')"
    by (simp_all add: unplaced_def)
qed

lemma unplacedI:
  "ps_state p = ps_state p' \<Longrightarrow> ps_ops p = ps_ops p' \<Longrightarrow> ps_saw_end p = ps_saw_end p' \<Longrightarrow>
    map_option (\<lambda>b. b\<lparr>ob_head_line := 0\<rparr>) (ps_current p) = map_option (\<lambda>b. b\<lparr>ob_head_line := 0\<rparr>) (ps_current p') \<Longrightarrow>
    unplaced p = unplaced p'"
  unfolding unplaced_def by (rule parser.equality) simp_all

lemma build_unplaced:
  assumes "b\<lparr>ob_head_line := 0\<rparr> = b'\<lparr>ob_head_line := 0\<rparr>" and "build codec over b = Inr x"
  shows "build codec over b' = Inr x"
proof -
  have 0: "build codec over (c\<lparr>ob_head_line := 0\<rparr>) = Inr y \<longleftrightarrow> build codec over c = Inr y" for c y
    using build_located [of "c\<lparr>ob_head_line := 0\<rparr>" 0 c codec over]
    by (cases "build codec over c"; cases "build codec over (c\<lparr>ob_head_line := 0\<rparr>)") auto
  show ?thesis using 0 [of b] 0 [of b'] assms by simp
qed

lemma flush_unplaced:
  assumes "unplaced p = unplaced p'" and "flush codec over p = Inr q"
  shows "\<exists>q'. flush codec over p' = Inr q' \<and> unplaced q = unplaced q'"
proof (cases "ps_current p")
  case None
  then show ?thesis using unplaced_parts(4) [OF assms(1)] assms by (simp add: flush_def)
next
  case (Some b)
  then obtain b' where b': "ps_current p' = Some b'" "b\<lparr>ob_head_line := 0\<rparr> = b'\<lparr>ob_head_line := 0\<rparr>"
    using unplaced_parts(4) [OF assms(1)] by (cases "ps_current p'") auto
  obtain x where x: "build codec over b = Inr x" "q = p\<lparr>ps_ops := ps_ops p @ [x], ps_current := None\<rparr>"
    using assms(2) Some by (auto simp: flush_def rbind_eq_Inr)
  show ?thesis using unplaced_parts [OF assms(1)] x b'(1) build_unplaced [OF b'(2) x(1)]
    by (auto simp: flush_def rbind_def intro!: unplacedI)
qed

lemma with_current_unplaced:
  assumes "unplaced p = unplaced p'" and "with_current p n l f = Inr q"
    and "\<And>b b' c. b\<lparr>ob_head_line := 0\<rparr> = b'\<lparr>ob_head_line := 0\<rparr> \<Longrightarrow> f b = Inr c \<Longrightarrow>
      \<exists>c'. f' b' = Inr c' \<and> c\<lparr>ob_head_line := 0\<rparr> = c'\<lparr>ob_head_line := 0\<rparr>"
  shows "\<exists>q'. with_current p' n' l' f' = Inr q' \<and> unplaced q = unplaced q'"
proof -
  obtain b c where b: "ps_current p = Some b" "f b = Inr c" "q = p\<lparr>ps_current := Some c\<rparr>"
    using assms(2) by (auto simp: with_current_def rbind_eq_Inr split: option.splits)
  obtain b' where b': "ps_current p' = Some b'" "b\<lparr>ob_head_line := 0\<rparr> = b'\<lparr>ob_head_line := 0\<rparr>"
    using unplaced_parts(4) [OF assms(1)] b(1) by (cases "ps_current p'") auto
  obtain c' where "f' b' = Inr c'" "c\<lparr>ob_head_line := 0\<rparr> = c'\<lparr>ob_head_line := 0\<rparr>" using assms(3) [OF b'(2) b(2)] by blast
  then show ?thesis using unplaced_parts [OF assms(1)] b(3) b'(1)
    by (auto simp: with_current_def rbind_def intro!: unplacedI)
qed

lemma fields_eq: "b\<lparr>ob_head_line := 0\<rparr> = b'\<lparr>ob_head_line := 0\<rparr> \<Longrightarrow> b = b'\<lparr>ob_head_line := ob_head_line b\<rparr>"
  by (metis op_builder.surjective op_builder.update_convs(1) op_builder.select_convs)

lemma step_unplaced:
  assumes "b\<lparr>ob_head_line := 0\<rparr> = b'\<lparr>ob_head_line := 0\<rparr>"
  shows "rbind (parse_anchor r n) (\<lambda>a. Inr (b\<lparr>ob_anchor := Some a\<rparr>)) = Inr c \<Longrightarrow>
      \<exists>c'. rbind (parse_anchor r n') (\<lambda>a. Inr (b'\<lparr>ob_anchor := Some a\<rparr>)) = Inr c' \<and> c\<lparr>ob_head_line := 0\<rparr> = c'\<lparr>ob_head_line := 0\<rparr>"
    and "rbind (parse_between r n) (\<lambda>a. Inr (b\<lparr>ob_between := Some a\<rparr>)) = Inr c \<Longrightarrow>
      \<exists>c'. rbind (parse_between r n') (\<lambda>a. Inr (b'\<lparr>ob_between := Some a\<rparr>)) = Inr c' \<and> c\<lparr>ob_head_line := 0\<rparr> = c'\<lparr>ob_head_line := 0\<rparr>"
    and "rbind (parse_field codec r n l) (\<lambda>kv. Inr (b\<lparr>ob_fields := ob_fields b @ [kv]\<rparr>)) = Inr c \<Longrightarrow>
      \<exists>c'. rbind (parse_field codec r n' l') (\<lambda>kv. Inr (b'\<lparr>ob_fields := ob_fields b' @ [kv]\<rparr>)) = Inr c'
        \<and> c\<lparr>ob_head_line := 0\<rparr> = c'\<lparr>ob_head_line := 0\<rparr>"
proof -
  obtain i where b: "b = b'\<lparr>ob_head_line := i\<rparr>" using fields_eq [OF assms] by blast
  show "rbind (parse_anchor r n) (\<lambda>a. Inr (b\<lparr>ob_anchor := Some a\<rparr>)) = Inr c \<Longrightarrow>
      \<exists>c'. rbind (parse_anchor r n') (\<lambda>a. Inr (b'\<lparr>ob_anchor := Some a\<rparr>)) = Inr c' \<and> c\<lparr>ob_head_line := 0\<rparr> = c'\<lparr>ob_head_line := 0\<rparr>"
    by (auto simp: rbind_eq_Inr b dest: parse_anchor_any_line [where n' = n'])
  show "rbind (parse_between r n) (\<lambda>a. Inr (b\<lparr>ob_between := Some a\<rparr>)) = Inr c \<Longrightarrow>
      \<exists>c'. rbind (parse_between r n') (\<lambda>a. Inr (b'\<lparr>ob_between := Some a\<rparr>)) = Inr c' \<and> c\<lparr>ob_head_line := 0\<rparr> = c'\<lparr>ob_head_line := 0\<rparr>"
    by (auto simp: rbind_eq_Inr b dest: parse_between_any_line [where n' = n'])
  show "rbind (parse_field codec r n l) (\<lambda>kv. Inr (b\<lparr>ob_fields := ob_fields b @ [kv]\<rparr>)) = Inr c \<Longrightarrow>
      \<exists>c'. rbind (parse_field codec r n' l') (\<lambda>kv. Inr (b'\<lparr>ob_fields := ob_fields b' @ [kv]\<rparr>)) = Inr c'
        \<and> c\<lparr>ob_head_line := 0\<rparr> = c'\<lparr>ob_head_line := 0\<rparr>"
    by (fastforce simp: rbind_eq_Inr b dest: parse_field_lines_no(2) [where n' = n' and l' = l'])
qed

lemma inside_unplaced:
  assumes "unplaced p = unplaced p'" and "inside_line codec over p n l = Inr q"
  shows "\<exists>q'. inside_line codec over p' n' l = Inr q' \<and> unplaced q = unplaced q'"
proof -
  note flushed = flush_unplaced [OF assms(1)]
  have closed: "unplaced (r\<lparr>ps_saw_end := True, ps_state := Closed\<rparr>) = unplaced (r'\<lparr>ps_saw_end := True, ps_state := Closed\<rparr>)"
    if "unplaced r = unplaced r'" for r r'
    using unplaced_parts [OF that] by (auto intro!: unplacedI)
  have opened: "\<exists>q'. rbind (builder_new_for h n') (\<lambda>b. Inr (r'\<lparr>ps_current := Some b\<rparr>)) = Inr q' \<and> unplaced q = unplaced q'"
    if "unplaced r = unplaced r'" "rbind (builder_new_for h n) (\<lambda>b. Inr (r\<lparr>ps_current := Some b\<rparr>)) = Inr q" for r r' h
    using that unplaced_parts [OF that(1)]
    by (auto simp: builder_new_for_def rbind_def split: option.splits intro!: unplacedI)
  consider (stop) "l = ''*** End EDL''" | (start) h where "l \<noteq> ''*** End EDL''" "strip_prefix ''*** '' l = Some h"
    | (other) "l \<noteq> ''*** End EDL''" "strip_prefix ''*** '' l = None"
    by (cases "strip_prefix ''*** '' l") auto
  then show ?thesis
  proof cases
    case stop
    then obtain r where "flush codec over p = Inr r" "q = r\<lparr>ps_saw_end := True, ps_state := Closed\<rparr>"
      using assms(2) by (auto simp: inside_line_def rbind_eq_Inr)
    moreover from this obtain r' where r': "flush codec over p' = Inr r'" "unplaced r = unplaced r'" using flushed by blast
    ultimately show ?thesis using closed [OF r'(2)] stop by (simp add: inside_line_def rbind_def)
  next
    case start
    then obtain r where r: "flush codec over p = Inr r" "rbind (builder_new_for h n) (\<lambda>b. Inr (r\<lparr>ps_current := Some b\<rparr>)) = Inr q"
      using assms(2) by (auto simp: inside_line_def rbind_eq_Inr)
    obtain r' where "flush codec over p' = Inr r'" "unplaced r = unplaced r'" using flushed [OF r(1)] by blast
    with opened [OF _ r(2)] start show ?thesis by (simp add: inside_line_def rbind_def [of "Inr r'"])
  next
    case other
    consider (anch) r where "strip_prefix ''@@ anchor: '' l = Some r"
      | (betw) r where "strip_prefix ''@@ anchor: '' l = None" "strip_prefix ''@@ between: '' l = Some r"
      | (fld) r where "strip_prefix ''@@ anchor: '' l = None" "strip_prefix ''@@ between: '' l = None" "strip_prefix ''+ '' l = Some r"
      | (rest) "strip_prefix ''@@ anchor: '' l = None" "strip_prefix ''@@ between: '' l = None" "strip_prefix ''+ '' l = None"
      by (metis not_Some_eq)
    then show ?thesis
    proof cases
      case anch
      with other assms(2) have "with_current p n l (\<lambda>b. rbind (parse_anchor r n) (\<lambda>a. Inr (b\<lparr>ob_anchor := Some a\<rparr>))) = Inr q"
        by (simp add: inside_line_def)
      from with_current_unplaced [OF assms(1) this step_unplaced(1)] show ?thesis
        using other anch by (simp add: inside_line_def)
    next
      case betw
      with other assms(2) have "with_current p n l (\<lambda>b. rbind (parse_between r n) (\<lambda>c. Inr (b\<lparr>ob_between := Some c\<rparr>))) = Inr q"
        by (simp add: inside_line_def)
      from with_current_unplaced [OF assms(1) this step_unplaced(2)] show ?thesis
        using other betw by (simp add: inside_line_def)
    next
      case fld
      with other assms(2) have "with_current p n l
          (\<lambda>b. rbind (parse_field codec r n l) (\<lambda>kv. Inr (b\<lparr>ob_fields := ob_fields b @ [kv]\<rparr>))) = Inr q"
        by (simp add: inside_line_def)
      from with_current_unplaced [OF assms(1) this step_unplaced(3)] show ?thesis
        using other fld by (simp add: inside_line_def)
    next
      case rest
      then show ?thesis using other assms by (cases "strip_prefix ''- '' l") (simp_all add: inside_line_def)
    qed
  qed
qed

lemma line_unplaced:
  assumes "unplaced p = unplaced p'" and "parse_line codec over p n l = Inr q"
  shows "\<exists>q'. parse_line codec over p' n' l = Inr q' \<and> unplaced q = unplaced q'"
proof -
  note parts = unplaced_parts [OF assms(1)]
  have opened: "unplaced (p\<lparr>ps_state := v\<rparr>) = unplaced (p'\<lparr>ps_state := v\<rparr>)" for v
    using parts by (auto intro!: unplacedI)
  show ?thesis
  proof (cases "trim (trim_end l) = []")
    case True
    then show ?thesis using assms by (simp add: parse_line_def Let_def)
  next
    case False
    show ?thesis
    proof (cases "ps_state p")
      case Outside
      then show ?thesis using assms False parts(1) opened [of InsideEnvelope]
        by (auto simp: parse_line_def Let_def split: if_splits)
    next
      case InsideEnvelope
      then show ?thesis using assms False parts(1) inside_unplaced [OF assms(1), of codec over n "trim_end l" q n']
        by (simp add: parse_line_def Let_def)
    next
      case Closed
      then show ?thesis using assms False by (simp add: parse_line_def Let_def)
    qed
  qed
qed

lemma lines_unplaced:
  assumes "unplaced p = unplaced p'" and "parse_lines codec over n ls p = Inr q"
  shows "\<exists>q'. parse_lines codec over n' (filter (\<lambda>l. \<not> says_nothing l) ls) p' = Inr q' \<and> unplaced q = unplaced q'"
  using assms
proof (induction ls arbitrary: n n' p p')
  case (Cons l ls)
  then obtain r where r: "parse_line codec over p n l = Inr r" "parse_lines codec over (Suc n) ls r = Inr q"
    by (auto simp: rbind_eq_Inr)
  show ?case
  proof (cases "says_nothing l")
    case True
    then have "r = p" using skip_line r(1) by blast
    then show ?thesis using Cons.IH [OF _ r(2)] Cons.prems(1) True by simp
  next
    case False
    obtain r' where "parse_line codec over p' n' l = Inr r'" "unplaced r = unplaced r'"
      using line_unplaced [OF Cons.prems(1) r(1)] by blast
    with Cons.IH [OF _ r(2), of r' "Suc n'"] False show ?thesis by (simp add: rbind_def)
  qed
qed simp

lemma text_lines_filter:
  assumes "CHR 0x0D \<notin> set s"
  shows "text_lines (concat (map (\<lambda>l. l @ line_feed) (filter P (text_lines s)))) = filter P (text_lines s)"
proof -
  have plain: "without_cr l = l" if "CHR 0x0D \<notin> set l" for l
    using that by (auto simp: without_cr_def strip_suffix_iff split: option.splits)
  have parts: "CHR 0x0D \<notin> set l \<and> CHR 0x0A \<notin> set l" if "l \<in> set (split_on (CHR 0x0A) s)" for l
  proof
    show "CHR 0x0A \<notin> set l" using split_on_no_delim [OF that] .
    have "set l \<subseteq> set s" using that
    proof (induction s arbitrary: l)
      case (Cons c s)
      obtain q qs where q: "split_on (CHR 0x0A) s = q # qs" by (cases "split_on (CHR 0x0A) s") auto
      with Cons show ?case by (fastforce split: if_splits)
    qed simp
    with assms show "CHR 0x0D \<notin> set l" by blast
  qed
  have "l \<in> set (split_on (CHR 0x0A) s)" if "l \<in> set (text_lines s)" for l
    using that parts in_set_butlastD [of _ "split_on (CHR 0x0A) s"] last_in_set [of "split_on (CHR 0x0A) s"]
    by (fastforce simp: text_lines_def Let_def plain split: if_splits)
  with parts have lines: "CHR 0x0D \<notin> set l \<and> CHR 0x0A \<notin> set l" if "l \<in> set (filter P (text_lines s))" for l
    using that by auto
  show ?thesis
    by (subst text_lines_def, subst split_lines) (use lines plain in \<open>auto simp: Let_def butlast_append intro!: map_idI\<close>)
qed

lemma parse_without_silent_lines:
  assumes "parse codec over s = Inr xs" and "CHR 0x0D \<notin> set s"
  shows "parse codec over (concat (map (\<lambda>l. l @ line_feed) (filter (\<lambda>l. \<not> says_nothing l) (text_lines s)))) = Inr xs"
proof -
  obtain p where p: "parse_lines codec over 1 (text_lines s) parser_init = Inr p" "ps_state p \<noteq> Outside" "ps_saw_end p"
    "xs = ps_ops p"
    using assms(1) by (auto simp: parse_def rbind_eq_Inr split: if_splits)
  obtain p' where p': "parse_lines codec over 1 (filter (\<lambda>l. \<not> says_nothing l) (text_lines s)) parser_init = Inr p'"
    "unplaced p = unplaced p'"
    using lines_unplaced [OF refl p(1)] by blast
  then show ?thesis using p unplaced_parts [OF p'(2)] by (simp add: parse_def text_lines_filter [OF assms(2)] rbind_def)
qed

end
