(* ===== verification/Script_Props.thy ===== *)
theory Script_Props
  imports Tool_Props Script_Errors Edl_Marker_Props
begin

text \<open>
  Properties of the edit language and of the tools that write it.
\<close>

section \<open>A codec\<close>

text \<open>A codec that quotes without escaping and knows no payload.\<close>

definition plain_codec :: edl_codec where
  "plain_codec =
     \<lparr>ec_quote = \<lambda>s. [CHR 0x22] @ s @ [CHR 0x22], ec_string = unquoted, ec_print = \<lambda>_. ''{}'', ec_edit_text = \<lambda>_. ''{}'',
      ec_value = \<lambda>_. Inr (JObj []), ec_payload = \<lambda>_. Inr, ec_multicam = \<lambda>_. Inl ''missing field'',
      ec_pro_edit = \<lambda>_. Inl ''missing field'', ec_eq_bands = \<lambda>_. Inr []\<rparr>"

definition plain_overlay :: overlay_codec where
  "plain_overlay = \<lparr>oco_config = \<lambda>_. Inr overlay_default, oco_host = \<lambda>_. Inr host_default\<rparr>"

definition by_snippet :: "string \<Rightarrow> anchor_arg" where
  "by_snippet t = \<lparr>aa_clip_uuid = None, aa_transcript_snippet = Some t, aa_asset_id = None, aa_scene_change_index = None\<rparr>"

section \<open>Calls\<close>



section \<open>Snippets\<close>

text \<open>C16: A transcript snippet is written as a JSON string but read by taking its quotes off: what is
  looked for in the transcript is the escaped text, so a snippet with a quotation mark or a backslash
  in it is looked for with backslashes that the transcript does not have.\<close>

theorem escaped_snippet_is_looked_for:
  assumes "ec_quote codec (single_line t) = [CHR 0x22] @ e @ [CHR 0x22]" and "tidy e"
  shows "\<exists>txt. run_delete_clips codec [by_snippet t] = Inr txt
    \<and> parse codec over txt = Inr [Timeline (DeleteClip (TranscriptSnippet e))]"
proof -
  define s where "s = ''transcript_snippet='' @ [CHR 0x22] @ e @ [CHR 0x22]"
  have read: "anchored_at s (TranscriptSnippet e)" unfolding s_def by (rule quoted_snippet_read [OF assms(2)])
  have written: "edl_anchor codec (by_snippet t) = Inr s"
    using assms(1) by (simp add: edl_anchor_def by_snippet_def json_string_def s_def)
  define blk where "blk = \<lparr>bk_heading = ''Delete Clip'', bk_kind = K_DeleteClip,
    bk_anchor = Some (s, TranscriptSnippet e), bk_fields = []\<rparr>"
  have "stands_for codec over blk (Timeline (DeleteClip (TranscriptSnippet e)))"
    using read by (simp add: blk_def block_build build_delete_clip_def)
  moreover have "run_delete_clips codec [by_snippet t] = Inr (delegated_edl [block_text blk])"
    by (simp add: run_delete_clips_def written rbind_def blk_def block_layout)
  ultimately show ?thesis by (rule written_block)
qed

text \<open>JSON escapes a quotation mark with a backslash.\<close>

definition escape_quotes :: "string \<Rightarrow> string" where
  "escape_quotes s = concat (map (\<lambda>c. if c = CHR 0x22 then [CHR 0x5C, CHR 0x22] else [c]) s)"

theorem escaped_snippet_is_looked_for_witness:
  "\<exists>txt. run_delete_clips (plain_codec\<lparr>ec_quote := \<lambda>s. [CHR 0x22] @ escape_quotes s @ [CHR 0x22]\<rparr>)
       [by_snippet (''the '' @ [CHR 0x22] @ ''big'' @ [CHR 0x22] @ '' day'')] = Inr txt
     \<and> parse (plain_codec\<lparr>ec_quote := \<lambda>s. [CHR 0x22] @ escape_quotes s @ [CHR 0x22]\<rparr>) plain_overlay txt =
       Inr [Timeline (DeleteClip (TranscriptSnippet
         (''the '' @ [CHR 0x5C, CHR 0x22] @ ''big'' @ [CHR 0x5C, CHR 0x22] @ '' day'')))]"
proof (rule escaped_snippet_is_looked_for)
  have "single_line (''the '' @ [CHR 0x22] @ ''big'' @ [CHR 0x22] @ '' day'') = ''the '' @ [CHR 0x22] @ ''big'' @ [CHR 0x22] @ '' day''"
    by (rule single_line_tidy) (simp add: literal_text)
  then show "ec_quote (plain_codec\<lparr>ec_quote := \<lambda>s. [CHR 0x22] @ escape_quotes s @ [CHR 0x22]\<rparr>)
      (single_line (''the '' @ [CHR 0x22] @ ''big'' @ [CHR 0x22] @ '' day'')) =
    [CHR 0x22] @ (''the '' @ [CHR 0x5C, CHR 0x22] @ ''big'' @ [CHR 0x5C, CHR 0x22] @ '' day'') @ [CHR 0x22]"
    by (simp only: edl_codec.simps) (simp add: escape_quotes_def)
  show "tidy (''the '' @ [CHR 0x5C, CHR 0x22] @ ''big'' @ [CHR 0x5C, CHR 0x22] @ '' day'')" by (simp add: literal_text)
qed

section \<open>The two anchors of a cut\<close>

definition occurs :: "string \<Rightarrow> string \<Rightarrow> bool" where
  "occurs d s \<longleftrightarrow> (\<exists>u v. s = u @ d @ v)"

lemma occurs_within: "occurs d s \<Longrightarrow> occurs d (p @ s @ q)"
  unfolding occurs_def by (metis append.assoc)

lemma split_once_append: "split_once_at d s = Some (a, b) \<Longrightarrow> s = a @ d @ b"
proof (induction s arbitrary: a)
  case Nil
  then show ?case by (subst (asm) split_once_at.simps) (auto simp: strip_prefix_iff split: option.splits)
next
  case (Cons c s)
  then show ?case by (subst (asm) split_once_at.simps) (auto simp: strip_prefix_iff split: option.splits)
qed

lemma split_once_before: "split_once_at d s = Some (a, b) \<Longrightarrow> d \<noteq> [] \<Longrightarrow> \<not> occurs d a"
proof (induction s arbitrary: a)
  case Nil
  then show ?case by (subst (asm) split_once_at.simps) (auto simp: strip_prefix_iff split: option.splits)
next
  case (Cons c s)
  show ?case
  proof (cases "strip_prefix d (c # s)")
    case (Some r)
    with Cons.prems have "a = []" by (subst (asm) split_once_at.simps) simp
    then show ?thesis using Cons.prems(2) by (simp add: occurs_def)
  next
    case None
    with Cons.prems(1) obtain a' where a': "a = c # a'" "split_once_at d s = Some (a', b)"
      by (subst (asm) split_once_at.simps) auto
    show ?thesis
    proof
      assume "occurs d a"
      then obtain u v where uv: "c # a' = u @ d @ v" unfolding occurs_def a' by blast
      show False
      proof (cases u)
        case Nil
        with uv have "c # s = d @ (v @ d @ b)" using split_once_append [OF a'(2)] by (metis append.assoc append_Cons append_Nil)
        then have "strip_prefix d (c # s) = Some (v @ d @ b)" by (simp only: strip_prefix_append)
        with None show False by simp
      next
        case (Cons x u')
        with uv have "occurs d a'" unfolding occurs_def by auto
        with Cons.IH [OF a'(2) Cons.prems(2)] show False by simp
      qed
    qed
  qed
qed

lemma trim_within: "\<exists>p q. s = p @ trim s @ q"
proof -
  have front: "\<exists>p. r = p @ trim_start r" for r
  proof -
    have "utf8_chars r = takeWhile is_whitespace (utf8_chars r) @ dropWhile is_whitespace (utf8_chars r)" by simp
    from arg_cong [OF this, of concat] show ?thesis unfolding trim_start_def concat_utf8_chars concat_append by blast
  qed
  have rear: "\<exists>q. r = trim_end r @ q" for r
  proof -
    have "utf8_chars r = rev (dropWhile is_whitespace (rev (utf8_chars r))) @ rev (takeWhile is_whitespace (rev (utf8_chars r)))"
      by (metis rev_append rev_rev_ident takeWhile_dropWhile_id)
    from arg_cong [OF this, of concat] show ?thesis unfolding trim_end_def concat_utf8_chars concat_append by blast
  qed
  obtain p where "s = p @ trim_start s" using front by blast
  moreover obtain q where "trim_start s = trim s @ q" using rear [of "trim_start s"] by (auto simp: trim_def)
  ultimately show ?thesis by metis
qed

lemma snippet_within:
  assumes "parse_anchor r n = Inr (TranscriptSnippet t)"
  shows "\<exists>p q. r = p @ t @ q"
proof -
  let ?kv = "case split_once_at ''='' r of Some kv \<Rightarrow> Some kv | None \<Rightarrow> split_once_at '': '' r"
  obtain k v where kv: "?kv = Some (k, v)"
    using assms unfolding parse_anchor_def by (cases ?kv) auto
  have t: "t = unwrap_or (trim v) (unquoted (trim v))"
    using assms unfolding parse_anchor_def kv by (auto simp: Let_def split: option.splits if_splits sum.splits)
  have kv: "split_once_at ''='' r = Some (k, v) \<or> split_once_at '': '' r = Some (k, v)" using kv by (auto split: option.splits)
  have "\<exists>p q. trim v = p @ t @ q"
  proof (cases "unquoted (trim v)")
    case None
    then have "trim v = [] @ t @ []" using t by (simp add: unwrap_or_def)
    then show ?thesis by blast
  next
    case (Some w)
    then have "trim v = [CHR 0x22] @ w @ [CHR 0x22]"
      by (auto simp: unquoted_def strip_prefix_iff strip_suffix_iff bind_eq_Some_conv)
    then show ?thesis using t Some by (metis option.simps(5) unwrap_or_def)
  qed
  moreover obtain p' q' where "v = p' @ trim v @ q'" using trim_within by blast
  moreover have "\<exists>p''. r = p'' @ v" using kv split_once_append by (metis append.assoc)
  ultimately show ?thesis by (metis append.assoc)
qed

text \<open>The two anchors of a cut are separated at the first \<open> and \<close> of the line, quoted or not: no
  script names the outgoing clip of a transition or a cut by a snippet with the word \<open>and\<close> in it.\<close>

theorem outgoing_snippet_has_no_and:
  assumes "parse_between r n = Inr (TranscriptSnippet t, b)"
  shows "\<not> occurs '' and '' t"
proof -
  obtain x y where split: "split_once_at '' and '' r = Some (x, y)" and x: "parse_anchor (trim x) n = Inr (TranscriptSnippet t)"
    using assms by (auto simp: parse_between_def rbind_eq_Inr split: option.splits)
  obtain p q where "trim x = p @ t @ q" using snippet_within [OF x] by blast
  moreover obtain p' q' where "x = p' @ trim x @ q'" using trim_within by blast
  ultimately have "x = (p' @ p) @ t @ (q @ q')" by simp
  then have "occurs '' and '' x" if "occurs '' and '' t" using occurs_within [OF that, of "p' @ p" "q @ q'"] by simp
  then show ?thesis using split_once_before [OF split] by auto
qed

theorem outgoing_snippet_has_no_and_witness:
  "parse_between ''transcript_snippet=salt and clip_uuid=c2'' 3 = Inr (TranscriptSnippet ''salt'', ClipUuid ''c2'')
     \<and> \<not> occurs '' and '' ''salt''"
proof -
  have trims: "trim ''transcript_snippet=salt'' = ''transcript_snippet=salt''" "trim ''clip_uuid=c2'' = ''clip_uuid=c2''"
    "trim ''transcript_snippet'' = ''transcript_snippet''" "trim ''salt'' = ''salt''" "trim ''clip_uuid'' = ''clip_uuid''"
    "trim ''c2'' = ''c2''"
    by (rule tidy_trim; simp add: literal_text)+
  have "parse_between ''transcript_snippet=salt and clip_uuid=c2'' 3 = Inr (TranscriptSnippet ''salt'', ClipUuid ''c2'')"
    by (simp add: parse_between_def split_once_at.simps rbind_def trims parse_anchor_def unquoted_def Let_def unwrap_or_def)
  with outgoing_snippet_has_no_and [OF this] show ?thesis by blast
qed

section \<open>Lines\<close>

text \<open>C17: A script that is not understood is refused with a place to look at: either the envelope is
  missing or not closed, or the error names one of the lines of the script, counted from one.\<close>

theorem script_errors_name_a_line:
  assumes "parse codec over s = Inl e"
  shows "e = MissingBegin \<or> e = MissingEnd \<or> (\<exists>k. err_line e = Some k \<and> 1 \<le> k \<and> k \<le> length (text_lines s))"
  by (rule parse_error_line [OF assms])

definition bad_script :: string where
  "bad_script = ''*** Begin EDL'' @ line_feed @ ''*** Cut Clip'' @ line_feed @ ''*** End EDL''"

theorem script_errors_name_a_line_witness:
  "\<exists>e k. parse plain_codec plain_overlay bad_script = Inl e \<and> err_line e = Some k \<and> 1 \<le> k \<and> k \<le> length (text_lines bad_script)"
proof -
  have "parse plain_codec plain_overlay bad_script = Inl (UnknownOp 2 ''Cut Clip'')" by code_simp
  with script_errors_name_a_line [OF this] show ?thesis by auto
qed

text \<open>A script without its blank lines and without the lines that show old values.\<close>

definition spoken :: "string \<Rightarrow> string" where
  "spoken s = concat (map (\<lambda>l. l @ line_feed) (filter (\<lambda>l. \<not> says_nothing l) (text_lines s)))"

text \<open>C15: Blank lines and lines that show the old value of a field mean nothing: a script that is
  understood is understood in the same way without them.\<close>

theorem silent_lines_do_not_matter:
  assumes "parse codec over s = Inr xs" and "CHR 0x0D \<notin> set s"
  shows "parse codec over (spoken s) = Inr xs"
  unfolding spoken_def by (rule parse_without_silent_lines [OF assms])

definition annotated_script :: string where
  "annotated_script = concat (map (\<lambda>l. l @ line_feed)
     [''*** Begin EDL'', [], ''*** Delete Clip'', ''- name: old'', ''@@ anchor: clip_uuid=c2'', [], ''*** End EDL''])"

theorem silent_lines_do_not_matter_witness:
  "length (text_lines annotated_script) = 7 \<and> length (text_lines (spoken annotated_script)) = 4
     \<and> parse plain_codec plain_overlay (spoken annotated_script) = Inr [Timeline (DeleteClip (ClipUuid ''c2''))]"
proof -
  have "parse plain_codec plain_overlay annotated_script = Inr [Timeline (DeleteClip (ClipUuid ''c2''))]" by code_simp
  moreover have "CHR 0x0D \<notin> set annotated_script" by code_simp
  moreover have "length (text_lines annotated_script) = 7" "length (text_lines (spoken annotated_script)) = 4" by code_simp+
  ultimately show ?thesis using silent_lines_do_not_matter by blast
qed

end
