(* ===== verification/Edl_Overlays.thy ===== *)
theory Edl_Overlays
  imports Edl_Script Edl_Placement Edl_Audio
begin

text \<open>
  Pictures over other pictures (\<open>apply_insert_broll\<close> and \<open>apply_insert_pip\<close> of
  \<open>crates/core/src/edl/apply.rs\<close>): b-roll that takes the place of a clip or lies over it on another
  video track, and a small picture in a corner. On the grid, an overlay lands at the time of the clip it
  is for and moves nothing; a picture in picture is appended to the track it is put on.
\<close>

section \<open>Room on a track\<close>

text \<open>The loop of \<open>insert_overlay_clip_at\<close> that looks for the gap that holds the whole span.\<close>

fun overlay_slot :: "track_child \<Rightarrow> f64 \<Rightarrow> f64 \<Rightarrow> f64 \<Rightarrow> f64 \<Rightarrow> track_child list \<Rightarrow> track_child list option" where
  "overlay_slot child start duration_s rate t [] = None"
| "overlay_slot child start duration_s rate t (c # cs) =
     (let e = fadd t (child_duration c)
      in if fle (fsub t micro) start \<and> fle (fadd start duration_s) (fadd e micro)
         then if \<not> is_gap c then None
              else let before = fmax (fsub start t) (Fin 0); after = fmax (fsub (fsub e start) duration_s) (Fin 0)
                   in Some ((if flt micro before then [gap_child before rate] else []) @ [child]
                        @ (if flt micro after then [gap_child after rate] else []) @ cs)
         else if flt start (fsub e micro) then None
         else map_option ((#) c) (overlay_slot child start duration_s rate e cs))"

definition insert_overlay_clip_at :: "track_child \<Rightarrow> f64 \<Rightarrow> f64 \<Rightarrow> f64 \<Rightarrow> track_child list \<Rightarrow> track_child list option" where
  "insert_overlay_clip_at child start duration_s rate cs =
     (let cursor = fsum (map child_duration cs)
      in if fle cursor (fadd start micro)
         then Some (cs @ (if flt (fadd cursor micro) start then [gap_child (fsub start cursor) rate] else []) @ [child])
         else overlay_slot child start duration_s rate (Fin 0) cs)"

text \<open>The number after the largest of the tracks named \<open>V1\<close>, \<open>V2\<close> and so on, as a \<open>u32\<close>.\<close>

definition next_video_track_name :: "timeline \<Rightarrow> string" where
  "next_video_track_name tml =
     (let numbers = List.map_filter (\<lambda>sc. case sc of
            SC_Track t \<Rightarrow> Option.bind (strip_prefix ''V'' (track_name t)) (\<lambda>rest.
              case parse_unsigned 32 rest of Inr n \<Rightarrow> Some n | Inl _ \<Rightarrow> None)
          | _ \<Rightarrow> None) (tl_children tml)
      in ''V'' @ dec_of_nat (unat (of_nat (fold max numbers 1) + 1 :: u32)))"

text \<open>The time at which a child starts; a stack child that is no track has none.\<close>

definition track_time_at :: "timeline \<Rightarrow> nat \<Rightarrow> nat \<Rightarrow> f64 edit" where
  "track_time_at tml ti ci =
     rbind (vec_get (tl_children tml) ti) (\<lambda>sc.
       Inr (case sc of SC_Track t \<Rightarrow> foldl fadd (Fin 0) (map child_duration (take ci (track_children t))) | _ \<Rightarrow> Fin 0))"

section \<open>B-roll\<close>

definition broll_clip :: "string \<Rightarrow> string \<Rightarrow> f64 \<Rightarrow> f64 \<Rightarrow> string \<Rightarrow> clip" where
  "broll_clip name asset duration_s rate uuid =
     stamp_clip_uuid uuid ((clip_empty name)\<lparr>
       clip_media_reference := MR_External (external_reference_new asset),
       clip_source_range := Some (time_range_new (rational_time_new (Fin 0) rate)
         (rational_time_new (fmul duration_s rate) rate))\<rparr>)"

text \<open>What is left of the clip that was replaced.\<close>

definition residual_tail :: "clip \<Rightarrow> f64 \<Rightarrow> f64 \<Rightarrow> f64 \<Rightarrow> f64 \<Rightarrow> string \<Rightarrow> clip" where
  "residual_tail orig source_start source_dur duration_s rate uuid =
     stamp_clip_uuid uuid (orig\<lparr>clip_name := clip_name orig @ ''-tail'',
       clip_source_range := Some (time_range_new
         (rational_time_new (fmul (fadd source_start duration_s) rate) rate)
         (rational_time_new (fmul (fsub source_dur duration_s) rate) rate))\<rparr>)"

text \<open>The first other video track with room: its index, its name and its children with the clip.\<close>

definition overlay_track :: "nat \<Rightarrow> track_child \<Rightarrow> f64 \<Rightarrow> f64 \<Rightarrow> f64 \<Rightarrow> timeline \<Rightarrow> (nat \<times> string \<times> track_child list) option" where
  "overlay_track anchor_ti child start duration_s rate tml =
     find_map (\<lambda>(i, sc). case sc of
         SC_Track t \<Rightarrow>
           if i = anchor_ti \<or> track_kind t \<noteq> Video then None
           else map_option (\<lambda>cs. (i, track_name t, cs)) (insert_overlay_clip_at child start duration_s rate (track_children t))
       | _ \<Rightarrow> None) (List.enumerate 0 (tl_children tml))"

definition overlay_broll ::
  "nat \<Rightarrow> string \<Rightarrow> string \<Rightarrow> nat \<Rightarrow> track_child \<Rightarrow> f64 \<Rightarrow> f64 \<Rightarrow> f64 \<Rightarrow> timeline \<Rightarrow> edited" where
  "overlay_broll index anchor_name asset anchor_ti child start duration_s rate tml =
     (let report = (\<lambda>n. Fmt ''inserted b-roll over {:?} on overlay track {}: asset={:?} duration={:.3}s (overlay)''
            [A_dbg anchor_name, A_str n, A_dbg asset, A_secs duration_s])
      in case overlay_track anchor_ti child start duration_s rate tml of
           Some (i, n, cs) \<Rightarrow> Inr (report n, with_track_children i cs tml)
         | None \<Rightarrow>
             let n = next_video_track_name tml
             in case insert_overlay_clip_at child start duration_s rate [] of
                  None \<Rightarrow> invalid index (msg ''broll: failed to insert on fresh overlay track'')
                | Some cs \<Rightarrow> Inr (report n,
                    with_tl_children (tl_children tml @ [SC_Track (track_with_children cs (track_empty n Video))]) tml))"

definition apply_insert_broll ::
  "(nat \<Rightarrow> nat) \<Rightarrow> nat \<Rightarrow> string \<Rightarrow> f64 \<Rightarrow> broll_position \<Rightarrow> clip_locator option \<Rightarrow> timeline \<Rightarrow> nat
     \<Rightarrow> (message \<times> timeline \<times> nat) edit" where
  "apply_insert_broll clock index asset duration_s pos loc tml seq =
     ensures (is_finite duration_s \<and> \<not> fle duration_s (Fin 0))
       (Err (AE_Invalid index (Fmt ''broll duration {} must be > 0'' [A_f64 duration_s]))) (
     rbind (required_locator index loc) (\<lambda>locator.
     let ti = cl_track_index locator; ci = cl_child_index locator
     in rbind (track_time_at tml ti ci) (\<lambda>anchor_track_time.
     rbind (track_at index ''broll: anchor resolved to a non-track stack child'' tml ti) (\<lambda>track.
     rbind (clip_on index ''broll: anchor resolved to a non-clip track child'' (track_children track) ci) (\<lambda>c.
     rbind (source_range_of index ''broll: anchor clip has no source_range'' c) (\<lambda>r.
     let rate = rt_rate (tr_start_time r);
         source_start = to_seconds (tr_start_time r);
         source_dur = to_seconds (tr_duration r);
         check_start = (case pos of
             BRollOverlay \<Rightarrow> anchor_track_time
           | BRollReplace \<Rightarrow> fmax (fsub (track_cursor track) source_dur) (Fin 0))
     in rbind (validate_visual_range index ''broll'' asset check_start duration_s (timeline_duration tml)) (\<lambda>_.
     let broll = TC_Clip (broll_clip (''broll-from-'' @ clip_name c) asset duration_s rate
           (fresh_clip_uuid (clock seq) seq))
     in case pos of
          BRollReplace \<Rightarrow>
            let report = Fmt ''inserted b-roll over {:?} on track {}: asset={:?} duration={:.3}s (replace)''
                  [A_dbg (clip_name c), A_nat ti, A_dbg asset, A_secs duration_s];
                cs = (track_children track)[ci := broll]
            in if flt duration_s source_dur
               then Inr (report, with_track_children ti (insert_at (ci + 1)
                      (TC_Clip (residual_tail c source_start source_dur duration_s rate
                        (fresh_clip_uuid (clock (seq + 1)) (seq + 1)))) cs) tml, seq + 2)
               else Inr (report, with_track_children ti cs tml, seq + 1)
        | BRollOverlay \<Rightarrow>
            rbind (overlay_broll index (clip_name c) asset ti broll anchor_track_time duration_s rate tml)
              (\<lambda>(report, tml'). Inr (report, tml', seq + 1)))))))))"

section \<open>Picture in picture\<close>

text \<open>On Unix: no absolute path and no component \<open>..\<close>.\<close>

definition validate_project_relative_asset :: "nat \<Rightarrow> string \<Rightarrow> string \<Rightarrow> unit edit" where
  "validate_project_relative_asset index op_name asset =
     (if trim asset = [] \<or> strip_prefix ''/'' asset \<noteq> None \<or> ''..'' \<in> set (split_on (CHR ''/'') asset)
      then invalid index (Fmt (''{}: asset must be a non-empty project-relative path without '..'' @ [CHR 0x27]) [A_str op_name])
      else Inr ())"

fun pip_corner_str :: "pip_corner \<Rightarrow> string" where
  "pip_corner_str PipTopLeft = ''top_left''"
| "pip_corner_str PipTopRight = ''top_right''"
| "pip_corner_str PipBottomLeft = ''bottom_left''"
| "pip_corner_str PipBottomRight = ''bottom_right''"

definition video_overlay_effect :: string where
  "video_overlay_effect = ''montage.video_overlay''"

definition stamp_video_overlay_effect ::
  "string \<Rightarrow> pip_corner option \<Rightarrow> f64 option \<Rightarrow> f64 option \<Rightarrow> clip \<Rightarrow> clip" where
  "stamp_video_overlay_effect mode corner scale margin_pct =
     replace_effect video_overlay_effect (bt_of_list ([(''mode'', JStr mode)]
       @ opt_field ''corner'' (\<lambda>k. JStr (pip_corner_str k)) corner @ opt_field ''scale'' json_f64 scale
       @ opt_field ''margin_pct'' json_f64 margin_pct))"

definition pip_clip ::
  "string \<Rightarrow> string \<Rightarrow> f64 \<Rightarrow> f64 \<Rightarrow> f64 \<Rightarrow> string \<Rightarrow> pip_corner \<Rightarrow> f64 \<Rightarrow> f64 \<Rightarrow> clip" where
  "pip_clip name asset source_start_s duration_s rate uuid corner scale margin_pct =
     stamp_video_overlay_effect ''pip'' (Some corner) (Some scale) (Some margin_pct)
       (stamp_clip_uuid uuid ((clip_empty name)\<lparr>
         clip_media_reference := MR_External (external_reference_new asset),
         clip_source_range := Some (time_range_new (rational_time_new (fmul source_start_s rate) rate)
           (rational_time_new (fmul duration_s rate) rate))\<rparr>))"

text \<open>The first other video track, or a new one at the end.\<close>

definition pip_target :: "nat \<Rightarrow> timeline \<Rightarrow> nat \<times> timeline" where
  "pip_target anchor_ti tml =
     (case find_map (\<lambda>(i, sc). if is_track_kind Video sc \<and> i \<noteq> anchor_ti then Some i else None)
             (List.enumerate 0 (tl_children tml)) of
        Some i \<Rightarrow> (i, tml)
      | None \<Rightarrow> (length (tl_children tml),
          with_tl_children (tl_children tml @ [SC_Track (track_empty (next_video_track_name tml) Video)]) tml))"

definition apply_insert_pip ::
  "(nat \<Rightarrow> nat) \<Rightarrow> nat \<Rightarrow> string \<Rightarrow> f64 \<Rightarrow> f64 \<Rightarrow> pip_corner \<Rightarrow> f64 \<Rightarrow> f64 \<Rightarrow> clip_locator option \<Rightarrow> timeline \<Rightarrow> nat
     \<Rightarrow> (message \<times> timeline \<times> nat) edit" where
  "apply_insert_pip clock index asset duration_s source_start_s corner scale margin_pct loc tml seq =
     rbind (validate_project_relative_asset index ''insert_pip'' asset) (\<lambda>_.
     ensures (is_finite duration_s \<and> \<not> fle duration_s (Fin 0))
       (Err (AE_Invalid index (Fmt ''insert_pip: duration_s {} must be > 0'' [A_f64 duration_s]))) (
     ensures (is_finite source_start_s \<and> \<not> flt source_start_s (Fin 0))
       (Err (AE_Invalid index (Fmt ''insert_pip: source_start_s {} must be >= 0'' [A_f64 source_start_s]))) (
     ensures (is_finite scale \<and> fle (f64_lit (1 / 10)) scale \<and> fle scale (f64_lit (6 / 10)))
       (Err (AE_Invalid index (Fmt ''insert_pip: scale {} must be in range 0.10..=0.60'' [A_f64 scale]))) (
     ensures (is_finite margin_pct \<and> fle (Fin 0) margin_pct \<and> fle margin_pct (f64_lit (15 / 100)))
       (Err (AE_Invalid index (Fmt ''insert_pip: margin_pct {} must be in range 0.0..=0.15'' [A_f64 margin_pct]))) (
     rbind (required_locator index loc) (\<lambda>locator.
     let ti = cl_track_index locator; ci = cl_child_index locator
     in rbind (track_at index ''insert_pip: anchor resolved to a non-track stack child'' tml ti) (\<lambda>track.
     rbind (clip_on index ''insert_pip: anchor resolved to a non-clip track child'' (track_children track) ci) (\<lambda>c.
     rbind (source_range_of index ''insert_pip: anchor clip has no source_range'' c) (\<lambda>r.
     let rate = rt_rate (tr_start_time r);
         pip = pip_clip (''pip-from-'' @ clip_name c) asset source_start_s duration_s rate
           (fresh_clip_uuid (clock seq) seq) corner scale margin_pct;
         (target_ti, tml1) = pip_target ti tml
     in rbind (track_time_at tml1 ti ci) (\<lambda>anchor_track_time.
     rbind (if is_generated_visual_asset asset
            then validate_visual_range index ''insert_pip'' asset anchor_track_time duration_s (timeline_duration tml1)
            else Inr ()) (\<lambda>_.
     rbind (track_at index ''insert_pip: overlay target resolved to a non-track stack child'' tml1 target_ti) (\<lambda>target.
     let cursor = track_cursor target;
         pad = (if flt cursor anchor_track_time then [gap_child (fsub anchor_track_time cursor) rate] else [])
     in Inr (Fmt ''inserted PiP over {:?} on overlay track {}: asset={:?} source_start={:.3}s duration={:.3}s corner={}''
               [A_dbg (clip_name c), A_str (track_name target), A_dbg asset, A_secs source_start_s, A_secs duration_s,
                A_str (pip_corner_str corner)],
             with_track_children target_ti (track_children target @ pad @ [TC_Clip pip]) tml1, seq + 1)))))))))))))"

end
