(* ===== verification/Overlay_Props.thy ===== *)
theory Overlay_Props
  imports Edl_Overlays
begin

text \<open>
  Where overlays land, on the grid: b-roll at the time of the clip it is for, with nothing else moved; a
  picture in picture at the end of the track it is put on.
\<close>

section \<open>A slot\<close>

lemma fmax_grid:
  assumes "on_grid x" and "0 \<le> fval x"
  shows "on_grid (fmax x (Fin 0))" and "fval (fmax x (Fin 0)) = fval x"
  using assms on_grid_finite [OF assms(1)] finite_not_nan [OF on_grid_finite [OF assms(1)]]
  by (auto simp: fmax_def finite_compare on_grid_def)

text \<open>What replaces the gap: the rest of it before, the child, the rest of it after.\<close>

lemma slot_pieces:
  assumes "on_grid a" and "on_grid e" and "in_reach start" and "in_reach d" and "whole_rate r"
    and "0 \<le> fval a" and "fval e \<le> 2 ^ 20" and "fval a \<le> fval start" and "0 \<le> fval d" and "fval start + fval d \<le> fval e"
    and "dur child = fval d" and "on_grid (child_duration child)" and "\<not> is_gap child" and "\<not> is_transition child"
  defines "b \<equiv> fmax (fsub start a) (Fin 0)" and "q \<equiv> fmax (fsub (fsub e start) d) (Fin 0)"
  defines "ps \<equiv> (if flt micro b then [gap_child b r] else []) @ [child] @ (if flt micro q then [gap_child q r] else [])"
  shows "grid_track ps" and "span_of ps = fval e - fval a" and "placed x ps = [(x + fval start - fval a, child)]"
proof -
  have reach: "on_grid start" "on_grid d" "\<bar>fval start\<bar> \<le> 2 ^ 20" "\<bar>fval d\<bar> \<le> 2 ^ 20"
    using assms(3,4) by (simp_all add: in_reach_def)
  have bounds: "\<bar>fval start - fval a\<bar> < 2 ^ 44" "\<bar>fval e - fval start\<bar> < 2 ^ 44"
    "\<bar>fval e - fval start - fval d\<bar> < 2 ^ 44"
    using assms(6-10) reach(3,4) by (simp_all add: abs_if split: if_splits)
  note s1 = fsub_grid [OF reach(1) assms(1) bounds(1)]
  note s2 = fsub_grid [OF assms(2) reach(1) bounds(2)]
  have s3: "on_grid (fsub (fsub e start) d)" "fval (fsub (fsub e start) d) = fval e - fval start - fval d"
    using fsub_grid [OF s2(1) reach(2)] bounds(3) s2(2) by simp_all
  have b: "on_grid b" "fval b = fval start - fval a"
    unfolding b_def using fmax_grid [OF s1(1)] s1(2) assms(8) by simp_all
  have q: "on_grid q" "fval q = fval e - fval start - fval d"
    unfolding q_def using fmax_grid [OF s3(1)] s3(2) assms(10) by simp_all
  have bq: "in_reach b" "in_reach q" using b q assms(6-10) by (simp_all add: in_reach_def)
  have pos: "flt micro b \<longleftrightarrow> 0 < fval b" "flt micro q \<longleftrightarrow> 0 < fval q"
    using tolerance_compare(5) [OF tolerances_of_the_code(2) b(1) b(1)]
      tolerance_compare(5) [OF tolerances_of_the_code(2) q(1) q(1)] bq by (simp_all add: in_reach_def)
  note gb = gap_on_track [OF bq(1) assms(5)] and gq = gap_on_track [OF bq(2) assms(5)]
  show "span_of ps = fval e - fval a"
    using gb(2) gq(2) b(2) q(2) assms(8-11) by (simp add: ps_def pos)
  then show "grid_track ps"
    using gb gq b(2) q(2) assms(6-12) by (auto simp: ps_def pos)
  show "placed x ps = [(x + fval start - fval a, child)]"
    using gb(2) b(2) assms(8,13,14) by (auto simp: ps_def pos)
qed

lemma overlay_slot_lands:
  assumes "overlay_slot child start d r a cs = Some cs'" and "grid_track cs" and "on_grid a" and "0 \<le> fval a"
    and "fval a + span_of cs \<le> 2 ^ 20" and "in_reach start" and "in_reach d" and "0 \<le> fval d" and "whole_rate r"
    and "dur child = fval d" and "on_grid (child_duration child)" and "\<not> is_gap child" and "\<not> is_transition child"
  shows "\<exists>before after. placed (fval a) cs = before @ after \<and> placed (fval a) cs' = before @ (fval start, child) # after
    \<and> span_of cs' = span_of cs \<and> grid_track cs'"
  using assms(1-5)
proof (induction cs arbitrary: a cs')
  case (Cons c cs)
  define e where "e = fadd a (child_duration c)"
  note end' = cursor_step [OF Cons.prems(2-5), folded e_def]
  have cs: "grid_track cs" "0 \<le> dur c" "0 \<le> span_of cs" using Cons.prems(2) grid_track_total [of cs] by simp_all
  have reach: "on_grid start" "on_grid d" "\<bar>fval start\<bar> \<le> 2 ^ 20" "\<bar>fval d\<bar> \<le> 2 ^ 20"
    using assms(6,7) by (simp_all add: in_reach_def)
  have small: "\<bar>fval a\<bar> \<le> 2 ^ 21" "\<bar>fval e\<bar> \<le> 2 ^ 21" "fval e \<le> 2 ^ 20"
    using Cons.prems(4,5) cs end'(2-4) by simp_all
  have sum: "on_grid (fadd start d)" "fval (fadd start d) = fval start + fval d"
    using fadd_grid [OF reach(1,2)] reach(3,4) by simp_all
  have here: "fle (fsub a micro) start \<longleftrightarrow> fval a \<le> fval start"
    "fle (fadd start d) (fadd e micro) \<longleftrightarrow> fval start + fval d \<le> fval e"
    "flt start (fsub e micro) \<longleftrightarrow> fval start < fval e"
    using tolerance_compare(4) [OF tolerances_of_the_code(2) Cons.prems(3) reach(1) small(1)]
      tolerance_compare(1) [OF tolerances_of_the_code(2) end'(1) sum(1) small(2)]
      tolerance_compare(3) [OF tolerances_of_the_code(2) end'(1) reach(1) small(2)] sum(2) by simp_all
  show ?case
  proof (cases "fval a \<le> fval start \<and> fval start + fval d \<le> fval e")
    case True
    then have gap: "is_gap c" using Cons.prems(1) here by (simp add: Let_def flip: e_def split: if_splits)
    note pieces = slot_pieces [OF Cons.prems(3) end'(1) assms(6,7,9) Cons.prems(4) small(3) conjunct1 [OF True] assms(8)
        conjunct2 [OF True] assms(10-13)]
    from True gap Cons.prems(1) here obtain ps where ps: "cs' = ps @ cs" "grid_track ps" "span_of ps = fval e - fval a"
      "placed (fval a) ps = [(fval start, child)]"
      using pieces(1,2) pieces(3) [of "fval a"] by (auto simp: Let_def simp flip: e_def append_assoc simp del: append_assoc)
    then show ?thesis using gap cs end' Cons.prems(2)
      by (intro exI [of _ "[]"] exI [of _ "placed (fval a + dur c) cs"]) simp
  next
    case False
    with Cons.prems(1) here obtain rest where rest: "overlay_slot child start d r e cs = Some rest" "cs' = c # rest"
      by (auto simp: Let_def simp flip: e_def split: if_splits)
    from Cons.IH [OF rest(1) cs(1) end'(1)] end' obtain before after where
      "placed (fval e) cs = before @ after" "placed (fval e) rest = before @ (fval start, child) # after"
      "span_of rest = span_of cs" "grid_track rest" by auto
    then show ?thesis unfolding rest(2) using end'(2) Cons.prems(2) cs
      by (intro exI [of _ "(if is_gap c \<or> is_transition c then [] else [(fval a, c)]) @ before"] exI [of _ after]) simp
  qed
qed simp

lemma overlay_lands:
  assumes "insert_overlay_clip_at child start d r cs = Some cs'" and "grid_track cs" and "in_reach start"
    and "0 \<le> fval start" and "in_reach d" and "0 \<le> fval d" and "whole_rate r"
    and "dur child = fval d" and "on_grid (child_duration child)" and "\<not> is_gap child" and "\<not> is_transition child"
  shows "\<exists>before after. placed 0 cs = before @ after \<and> placed 0 cs' = before @ (fval start, child) # after"
proof (cases "fle (fsum (map child_duration cs)) (fadd start micro)")
  case True
  define x where "x = fsum (map child_duration cs)"
  have x: "in_reach x" "fval x = span_of cs" "0 \<le> fval x"
    using track_time_grid [OF assms(2)] grid_track_total [OF assms(2)] by (simp_all add: x_def)
  have reach: "on_grid start" "\<bar>fval start\<bar> \<le> 2 ^ 21" "\<bar>fval x\<bar> \<le> 2 ^ 21" "on_grid x"
    using assms(3) x by (simp_all add: in_reach_def)
  note near = tolerance_compare(1) [OF tolerances_of_the_code(2) reach(1,4,2)]
    tolerance_compare(2) [OF tolerances_of_the_code(2) reach(4,1,3)]
  have sub: "on_grid (fsub start x)" "fval (fsub start x) = fval start - fval x"
    using fsub_grid [OF reach(1,4)] reach(2,3) by simp_all
  have le: "fval x \<le> fval start" using True near(1) by (simp add: x_def)
  have "in_reach (fsub start x)" using sub x le assms(3) by (simp add: in_reach_def)
  note pad = gap_on_track [OF this assms(7)]
  have "cs' = cs @ (if fval x < fval start then [gap_child (fsub start x) r] else []) @ [child]"
    using assms(1) True near(2) by (simp add: insert_overlay_clip_at_def Let_def flip: x_def)
  then have "placed 0 cs' = placed 0 cs @ [(fval start, child)]"
    using pad(2) sub(2) le x(2) assms(10,11) by auto
  then show ?thesis by (intro exI [of _ "placed 0 cs"] exI [of _ "[]"]) simp
next
  case False
  then have "overlay_slot child start d r (Fin 0) cs = Some cs'"
    using assms(1) by (simp add: insert_overlay_clip_at_def Let_def)
  moreover have "on_grid (Fin 0)" by (simp add: on_grid_def)
  ultimately show ?thesis
    using overlay_slot_lands [OF _ assms(2) _ _ _ assms(3,5,6,7,8,9,10,11), of "Fin 0" cs'] grid_track_total [OF assms(2)] by auto
qed

section \<open>The new pictures\<close>

lemma made_clip_duration:
  assumes "in_reach d" and "whole_rate r"
  shows "dur (TC_Clip (broll_clip name asset d r uuid)) = fval d"
    and "on_grid (child_duration (TC_Clip (broll_clip name asset d r uuid)))"
    and "dur (TC_Clip (pip_clip name asset s d r uuid k sc m)) = fval d"
    and "on_grid (child_duration (TC_Clip (pip_clip name asset s d r uuid k sc m)))"
  using frames_grid [OF assms]
  by (simp_all add: dur_def broll_clip_def pip_clip_def stamp_clip_uuid_def stamp_video_overlay_effect_def replace_effect_def
      time_range_new_def in_reach_def Let_def)

lemma track_start_grid:
  assumes "grid_track (track_children tr)" and "tl_children tml ! ti = SC_Track tr" and "ti < length (tl_children tml)"
  shows "\<exists>x. track_time_at tml ti ci = Inr x \<and> in_reach x \<and> 0 \<le> fval x \<and> fval x = span_of (take ci (track_children tr))"
proof -
  have part: "grid_track (take ci (track_children tr))" by (rule grid_track_take [OF assms(1)])
  have "on_grid (Fin 0)" by (simp add: on_grid_def)
  then show ?thesis
    using sum_from_grid [OF part, of "Fin 0"] grid_track_total [OF part] assms(2,3)
    by (simp add: track_time_at_def vec_get_def rbind_def in_reach_def)
qed

text \<open>A child is added at a time, and everything else stays where it is.\<close>

definition adds_at :: "track_child \<Rightarrow> rat \<Rightarrow> track_child list \<Rightarrow> track_child list \<Rightarrow> bool" where
  "adds_at x t cs cs' \<longleftrightarrow>
     (\<exists>before after. placed 0 cs = before @ after \<and> placed 0 cs' = before @ (t, x) # after)"

definition grid_video :: "timeline \<Rightarrow> bool" where
  "grid_video tml \<longleftrightarrow>
     (\<forall>t. SC_Track t \<in> set (tl_children tml) \<longrightarrow> track_kind t = Video \<longrightarrow> grid_track (track_children t))"

lemma overlay_track_Some:
  assumes "overlay_track ti child start d r tml = Some (i, n, cs')"
  shows "\<exists>t. i < length (tl_children tml) \<and> tl_children tml ! i = SC_Track t \<and> i \<noteq> ti \<and> track_kind t = Video
    \<and> insert_overlay_clip_at child start d r (track_children t) = Some cs'"
proof -
  obtain y where "y \<in> set (List.enumerate 0 (tl_children tml))" "(\<lambda>(i, sc). case sc of
         SC_Track t \<Rightarrow>
           if i = ti \<or> track_kind t \<noteq> Video then None
           else map_option (\<lambda>cs. (i, track_name t, cs)) (insert_overlay_clip_at child start d r (track_children t))
       | _ \<Rightarrow> None) y = Some (i, n, cs')"
    using assms find_map_Some unfolding overlay_track_def by fast
  moreover obtain j sc where "y = (j, sc)" by (cases y) auto
  ultimately show ?thesis by (auto simp: in_set_enumerate_eq split: stack_child.splits if_splits)
qed

lemma insert_broll_overlay:
  assumes "clip_at tml l = Some c" and "tl_children tml ! cl_track_index l = SC_Track tr" and "clip_source_range c = Some r"
    and "track_time_at tml (cl_track_index l) (cl_child_index l) = Inr x"
  shows "apply_insert_broll clock index asset d BRollOverlay (Some l) tml seq =
    ensures (is_finite d \<and> \<not> fle d (Fin 0)) (Err (AE_Invalid index (Fmt ''broll duration {} must be > 0'' [A_f64 d])))
      (rbind (validate_visual_range index ''broll'' asset x d (timeline_duration tml)) (\<lambda>_.
       rbind (overlay_broll index (clip_name c) asset (cl_track_index l)
           (TC_Clip (broll_clip (''broll-from-'' @ clip_name c) asset d (rt_rate (tr_start_time r)) (fresh_clip_uuid (clock seq) seq)))
           x d (rt_rate (tr_start_time r)) tml) (\<lambda>(report, tml'). Inr (report, tml', seq + 1))))"
proof -
  from clip_atE [OF assms(1)] assms(2) have "cl_track_index l < length (tl_children tml)"
    "cl_child_index l < length (track_children tr)" "track_children tr ! cl_child_index l = TC_Clip c" by auto
  then show ?thesis using assms(2-4)
    by (simp add: apply_insert_broll_def rbind_def required_locator_def track_at_def clip_on_def vec_get_def source_range_of_def Let_def)
qed

lemma overlay_broll_total:
  assumes "in_reach x" and "0 \<le> fval x"
  shows "\<exists>descr tml'. overlay_broll index n asset ti child x d r tml = Inr (descr, tml')"
proof -
  have x: "on_grid NZero" "on_grid x" "\<bar>fval x\<bar> \<le> 2 ^ 21" using assms by (simp_all add: in_reach_def on_grid_def)
  have "fle NZero (fadd x micro)"
    using tolerance_compare(1) [OF tolerances_of_the_code(2) x(2,1,3)] assms(2) by simp
  then show ?thesis
    by (simp add: overlay_broll_def insert_overlay_clip_at_def fsum_def Let_def split: option.splits)
qed


section \<open>Picture in picture\<close>

text \<open>C25: A picture in picture is put at the end of the first other video track, and only padded up to the
  time of its clip: where that track goes on for longer, the picture appears after the clip it was
  asked for, at the end of the track.\<close>

theorem pip_lands_after_the_track:
  assumes "apply_insert_pip clock index asset d s corner scale m (Some l) tml seq = Inr (descr, tml', seq')"
    and "clip_at tml l = Some c" and "tl_children tml ! cl_track_index l = SC_Track tr"
    and "clip_source_range c = Some r" and "grid_track (track_children tr)" and "whole_rate (rt_rate (tr_start_time r))"
    and "in_reach d" and "find_map (\<lambda>(i, sc). if is_track_kind Video sc \<and> i \<noteq> cl_track_index l then Some i else None)
      (List.enumerate 0 (tl_children tml)) = Some i"
    and "tl_children tml ! i = SC_Track t" and "grid_track (track_children t)"
  shows "\<exists>pip cs'. dur pip = fval d
    \<and> tl_children tml' = (tl_children tml)[i := SC_Track (track_with_children cs' t)]
    \<and> placed 0 cs' = placed 0 (track_children t)
        @ [(max (span_of (track_children t)) (span_of (take (cl_child_index l) (track_children tr))), pip)]"
proof -
  let ?rate = "rt_rate (tr_start_time r)"
  define pip where "pip = TC_Clip (pip_clip (''pip-from-'' @ clip_name c) asset s d ?rate (fresh_clip_uuid (clock seq) seq) corner scale m)"
  from clip_atE [OF assms(2)] assms(3) have at: "cl_track_index l < length (tl_children tml)"
    "cl_child_index l < length (track_children tr)" "track_children tr ! cl_child_index l = TC_Clip c" by auto
  obtain x where x: "track_time_at tml (cl_track_index l) (cl_child_index l) = Inr x" "in_reach x" "0 \<le> fval x"
    "fval x = span_of (take (cl_child_index l) (track_children tr))"
    using track_start_grid [OF assms(5,3) at(1)] by blast
  define e where "e = track_cursor t"
  have e: "in_reach e" "fval e = span_of (track_children t)"
    using track_time_grid [OF assms(10)] by (cases t; simp add: e_def track_children_def)+
  define cs' where "cs' = track_children t @ (if flt e x then [gap_child (fsub x e) ?rate] else []) @ [pip]"
  have "tml' = with_track_children i cs' tml"
    using assms(1,3,4,8,9) at x(1)
    by (auto simp: apply_insert_pip_def rbind_eq_Inr required_locator_def track_at_def clip_on_def vec_get_def source_range_of_def
        Let_def pip_target_def cs'_def e_def pip_def split: if_splits)
  then have tml': "tl_children tml' = (tl_children tml)[i := SC_Track (track_with_children cs' t)]"
    using assms(9) by (simp add: with_track_children_def)
  have fin: "is_finite e" "is_finite x" using e x by (simp_all add: in_reach_def on_grid_finite)
  have "\<bar>fval x - fval e\<bar> < 2 ^ 44" using e(1) x(2) by (simp add: in_reach_def abs_if split: if_splits)
  then have sub: "on_grid (fsub x e)" "fval (fsub x e) = fval x - fval e"
    using fsub_grid e(1) x(2) by (simp_all add: in_reach_def)
  have pad: "dur (gap_child (fsub x e) ?rate) = fval x - fval e" if "fval e < fval x"
  proof -
    have "0 \<le> fval e" using e(2) grid_track_total [OF assms(10)] by simp
    then have "in_reach (fsub x e)" using sub that x(2) by (simp add: in_reach_def)
    from gap_on_track(2) [OF this assms(6)] sub(2) show ?thesis by simp
  qed
  have "\<not> is_gap pip" "\<not> is_transition pip" by (simp_all add: pip_def)
  then have "placed 0 cs' = placed 0 (track_children t) @ [(max (fval e) (fval x), pip)]"
    using pad by (auto simp: cs'_def finite_compare [OF fin] e(2))
  then show ?thesis using tml' made_clip_duration(3) [OF assms(7,6)] e(2) x(4)
    by (intro exI [of _ pip] exI [of _ cs']) (simp add: pip_def)
qed

section \<open>Concrete overlays\<close>

definition two_videos :: timeline where
  "two_videos = sample_timeline
     [SC_Track (sample_track [TC_Clip (sample_clip ''a'' 0 4), TC_Clip (sample_clip ''b'' 0 6)]),
      SC_Track (sample_track [sample_gap 7, TC_Clip (sample_clip ''c'' 0 2)])]"

definition second_shot :: clip_locator where
  "second_shot = \<lparr>cl_track_index = 0, cl_child_index = 1\<rparr>"

lemma two_videos_facts:
  "clip_at two_videos second_shot = Some (sample_clip ''b'' 0 6)"
  "tl_children two_videos = [SC_Track (sample_track [TC_Clip (sample_clip ''a'' 0 4), TC_Clip (sample_clip ''b'' 0 6)]),
      SC_Track (sample_track [sample_gap 7, TC_Clip (sample_clip ''c'' 0 2)])]"
  by (simp_all add: two_videos_def second_shot_def)

lemma two_videos_times:
  "track_time_at two_videos 0 1 = Inr (Fin 4)" "timeline_duration two_videos = Fin 10"
  "child_duration (TC_Clip (sample_clip n st 4)) = Fin 4"
  by (simp_all add: track_time_at_def two_videos_facts vec_get_def rbind_def sample_simps timeline_duration_def)
    (simp add: two_videos_def sample_timeline_def sample_track_def sample_simps fsum_def fmax_def)

lemma two_videos_room:
  "validate_visual_range 0 ''broll'' ''raw/x.mp4'' (Fin 4) (Fin 2) (timeline_duration two_videos) = Inr ()"
proof -
  have "\<not> flt (fadd (Fin 10) milli) (Fin 6)"
    using tolerance_compare(2) [OF tolerances_of_the_code(1), of "Fin 10" "Fin 6"] by (simp add: on_grid_def)
  then show ?thesis by (simp add: validate_visual_range_def two_videos_times finite_compare)
qed


lemma pip_literals:
  "rnd False (1 / 10) = Fin (7205759403792794 / 72057594037927936)"
  "rnd False (3 / 5) = Fin (5404319552844595 / 9007199254740992)"
  "rnd False (3 / 20) = Fin (5404319552844595 / 36028797018963968)"
proof -
  have powers: "(2::rat) powi - 56 = 1 / 72057594037927936" "(2::rat) powi - 53 = 1 / 9007199254740992"
    "(2::rat) powi - 55 = 1 / 36028797018963968"
    by (simp_all only: power_int_minus power_int_numeral) simp_all
  have logs: "floorlog 2 9 = 4" "floorlog 2 (Suc 0) = 1" "floorlog 2 6 = 3"
    by (rule antisym; simp add: floorlog_leI floorlog_geI compute_floorlog)+
  have floors: "\<lfloor>36028797018963968 / 5 :: rat\<rfloor> = 7205759403792793" "\<lceil>5 / 3 :: rat\<rceil> = 2" "\<lceil>20 / 3 :: rat\<rceil> = 7"
    "\<lfloor>27021597764222976 / 5 :: rat\<rfloor> = 5404319552844595"
    by (simp_all add: floor_eq_iff ceiling_eq_iff)
  note rules = literal_simps powers logs floors
  show "rnd False (1 / 10) = Fin (7205759403792794 / 72057594037927936)"
    by (rule rnd_eqI [where k = "- 4" and m = 7205759403792794]) (simp_all add: rules)
  show "rnd False (3 / 5) = Fin (5404319552844595 / 9007199254740992)"
    by (rule rnd_eqI [where k = "- 1" and m = 5404319552844595]) (simp_all add: rules)
  show "rnd False (3 / 20) = Fin (5404319552844595 / 36028797018963968)"
    by (rule rnd_eqI [where k = "- 3" and m = 5404319552844595]) (simp_all add: rules)
qed

theorem pip_lands_after_the_track_witness:
  "\<exists>descr tml' seq' pip cs'. apply_insert_pip id 0 ''raw/x.mp4'' (Fin 2) (Fin 0) PipTopLeft (Fin (1 / 4)) (Fin 0)
       (Some second_shot) two_videos 0 = Inr (descr, tml', seq')
    \<and> tl_children tml' = (tl_children two_videos)[1 := SC_Track (sample_track cs')]
    \<and> placed 0 cs' = [(7, TC_Clip (sample_clip ''c'' 0 2)), (9, pip)]"
proof -
  let ?tr = "sample_track [TC_Clip (sample_clip ''a'' 0 4), TC_Clip (sample_clip ''b'' 0 6)]"
  let ?r = "time_range_new (rational_time_new (Fin 0) (Fin 24)) (rational_time_new (Fin 144) (Fin 24))"
  have at: "tl_children two_videos ! cl_track_index second_shot = SC_Track ?tr" "clip_source_range (sample_clip ''b'' 0 6) = Some ?r"
    by (simp_all add: two_videos_facts second_shot_def sample_seconds)
  have path: "validate_project_relative_asset 0 ''insert_pip'' ''raw/x.mp4'' = Inr ()" "\<not> is_generated_visual_asset ''raw/x.mp4''"
    by code_simp+
  have target: "find_map (\<lambda>(i, sc). if is_track_kind Video sc \<and> i \<noteq> cl_track_index second_shot then Some i else None)
      (List.enumerate 0 (tl_children two_videos)) = Some 1"
    by (simp add: two_videos_facts second_shot_def sample_track_def is_track_kind_def)
  have onto: "pip_target 0 two_videos = (1, two_videos)"
    by (simp add: pip_target_def two_videos_facts sample_track_def is_track_kind_def)
  have "\<exists>descr tml' seq'. apply_insert_pip id 0 ''raw/x.mp4'' (Fin 2) (Fin 0) PipTopLeft (Fin (1 / 4)) (Fin 0)
       (Some second_shot) two_videos 0 = Inr (descr, tml', seq')"
    unfolding apply_insert_pip_def path
    by (simp add: rbind_def finite_compare f64_lit_def pip_literals required_locator_def track_at_def clip_on_def vec_get_def
      source_range_of_def sample_seconds Let_def onto path two_videos_facts(2) two_videos_times(1) [simplified] second_shot_def)
  then obtain descr tml' seq' where run: "apply_insert_pip id 0 ''raw/x.mp4'' (Fin 2) (Fin 0) PipTopLeft (Fin (1 / 4)) (Fin 0)
       (Some second_shot) two_videos 0 = Inr (descr, tml', seq')" by blast
  have grid: "grid_track (track_children ?tr)" "whole_rate (rt_rate (tr_start_time ?r))" "in_reach (Fin 2)"
    by (auto simp: sample_simps in_reach_def whole_rate_def)
  have second: "tl_children two_videos ! 1 = SC_Track (sample_track [sample_gap 7, TC_Clip (sample_clip ''c'' 0 2)])"
    "grid_track (track_children (sample_track [sample_gap 7, TC_Clip (sample_clip ''c'' 0 2)]))"
    by (simp_all add: two_videos_facts sample_simps)
  show ?thesis using pip_lands_after_the_track [OF run two_videos_facts(1) at grid target second] run
    by (auto simp: second_shot_def sample_simps sample_track_def)
qed

end
