(* ===== verification/Lut_Parser.thy ===== *)
theory Lut_Parser
  imports Edl_Text
begin

text \<open>
  The reader of colour tables (\<open>crates/lut/src/lib.rs\<close>): \<open>.cube\<close> and \<open>.3dl\<close> files. An \<open>f32\<close> is a
  number of \<open>f64\<close> that is rounded to 24 binary digits; every accepted table has the edge it declares,
  finite entries and a domain that is not empty.
\<close>

section \<open>Single precision\<close>

definition rnd32 :: "bool \<Rightarrow> rat \<Rightarrow> f64" where
  "rnd32 negative q =
     (if q = 0 then (if negative then NZero else Fin 0)
      else
        let e = max (ilog2 \<bar>q\<bar> - 23) (- 149);
            m = round_half_even (q / 2 powi e);
            r = of_int m * 2 powi e
        in if m = 0 then (if q < 0 then NZero else Fin 0)
           else if 2 ^ 128 \<le> \<bar>r\<bar> then Inf (q < 0)
           else Fin r)"

text \<open>The exact value of a decimal number.\<close>

definition decimal_value :: "string \<Rightarrow> rat option" where
  "decimal_value s =
     (let whole = takeWhile is_digit s; rest = dropWhile is_digit s;
          (frac, rest') = (case rest of
              c # t \<Rightarrow> if c = CHR ''.'' then (takeWhile is_digit t, dropWhile is_digit t) else ([], rest)
            | [] \<Rightarrow> ([], []))
      in if whole = [] \<and> frac = [] then None
         else map_option (\<lambda>x. of_nat (nat_of_dec (whole @ frac)) * 10 powi (x - int (length frac))) (parse_exponent rest'))"

definition parse_f32 :: "string \<Rightarrow> f64 option" where
  "parse_f32 s =
     (let (negative, t) = take_sign s; l = to_ascii_lowercase t
      in if l = ''inf'' \<or> l = ''infinity'' then Some (Inf negative)
         else if l = ''nan'' then Some NaN
         else map_option (\<lambda>q. with_sign negative (rnd32 False q)) (decimal_value t))"

section \<open>Tables\<close>

definition min_size :: nat where "min_size = 2"
definition max_size_3d :: nat where "max_size_3d = 65"
definition max_size_1d :: nat where "max_size_1d = 65536"

text \<open>Three channels are a list of three numbers.\<close>

record lut_3d =
  l3_size :: nat
  l3_domain_min :: "f64 list"
  l3_domain_max :: "f64 list"
  l3_title :: "string option"
  l3_table :: "f64 list"

record lut_1d =
  l1_size :: nat
  l1_domain_min :: "f64 list"
  l1_domain_max :: "f64 list"
  l1_title :: "string option"
  l1_table :: "f64 list"

datatype lut = Lut_Three lut_3d | Lut_One lut_1d

datatype lut_validation_error =
    LE_Empty
  | LE_MissingSize
  | LE_ConflictingSize
  | LE_SizeOutOfRange string nat nat nat
  | LE_MalformedHeader nat message
  | LE_RowCountMismatch nat nat
  | LE_MalformedRow nat message
  | LE_NonFinite nat
  | LE_DomainInverted string f64 f64
  | LE_Was1DExpectedThree
  | LE_Was3DExpectedOne

fun lut_message :: "lut_validation_error \<Rightarrow> message" where
  "lut_message LE_Empty = msg ''LUT is empty or contains only whitespace/comments''"
| "lut_message LE_MissingSize = msg ''LUT declares no LUT_3D_SIZE or LUT_1D_SIZE''"
| "lut_message LE_ConflictingSize = msg ''LUT declares both LUT_3D_SIZE and LUT_1D_SIZE''"
| "lut_message (LE_SizeOutOfRange k got lo hi) =
     Fmt ''LUT_{} size {} is outside supported range {}..={}'' [A_str k, A_nat got, A_nat lo, A_nat hi]"
| "lut_message (LE_MalformedHeader n d) = Fmt ''malformed header on line {}: {}'' [A_nat n, A_msg d]"
| "lut_message (LE_RowCountMismatch e g) = Fmt ''expected {} table rows, got {}'' [A_nat e, A_nat g]"
| "lut_message (LE_MalformedRow n d) = Fmt ''malformed table row on line {}: {}'' [A_nat n, A_msg d]"
| "lut_message (LE_NonFinite n) = Fmt ''non-finite value on line {}'' [A_nat n]"
| "lut_message (LE_DomainInverted c lo hi) =
     Fmt ''DOMAIN_MIN >= DOMAIN_MAX on channel {} (min={}, max={})'' [A_str c, A_f64 lo, A_f64 hi]"
| "lut_message LE_Was1DExpectedThree = msg ''LUT is 1D but a 3D LUT was expected''"
| "lut_message LE_Was3DExpectedOne = msg ''LUT is 3D but a 1D LUT was expected''"

section \<open>Lines\<close>

text \<open>A line without its carriage return, its comment and the space around it.\<close>

definition significant :: "string \<Rightarrow> string" where
  "significant raw =
     (let no_cr = without_cr raw
      in trim (case split_once_at ''#'' no_cr of Some (before, _) \<Rightarrow> before | None \<Rightarrow> no_cr))"

definition without_bom :: "string \<Rightarrow> string" where
  "without_bom src = unwrap_or src (strip_prefix [CHR 0xEF, CHR 0xBB, CHR 0xBF] src)"

section \<open>Numbers of a line\<close>

fun take_channels :: "nat \<Rightarrow> string list \<Rightarrow> string list \<Rightarrow> lut_validation_error + f64 list \<times> string list" where
  "take_channels line [] toks = Inr ([], toks)"
| "take_channels line (label # ls) [] =
     Inl (LE_MalformedRow line (Fmt ''expected 3 numbers, missing channel {}'' [A_str label]))"
| "take_channels line (label # ls) (tok # toks) =
     (case parse_f32 tok of
        None \<Rightarrow> Inl (LE_MalformedRow line (Fmt ''channel {} value {:?} is not a number'' [A_str label, A_dbg tok]))
      | Some v \<Rightarrow>
          if \<not> is_finite v then Inl (LE_NonFinite line)
          else rbind (take_channels line ls toks) (\<lambda>(vs, rest). Inr (v # vs, rest)))"

definition channels :: "string list" where
  "channels = [''R'', ''G'', ''B'']"

definition parse_triple :: "nat \<Rightarrow> string list \<Rightarrow> lut_validation_error + f64 list" where
  "parse_triple line toks =
     rbind (take_channels line channels toks) (\<lambda>(vs, rest).
       if rest \<noteq> [] then Inl (LE_MalformedRow line (msg ''expected 3 numbers, got extra tokens'')) else Inr vs)"

definition parse_size :: "nat \<Rightarrow> string option \<Rightarrow> lut_validation_error + nat" where
  "parse_size line token =
     (case token of
        None \<Rightarrow> Inl (LE_MalformedHeader line (msg ''size keyword missing value''))
      | Some tok \<Rightarrow>
          (case parse_unsigned 64 tok of
             Inl _ \<Rightarrow> Inl (LE_MalformedHeader line (Fmt ''size value {:?} is not a non-negative integer'' [A_dbg tok]))
           | Inr n \<Rightarrow> Inr n))"

section \<open>The state of the cube reader\<close>

record lut_state =
  ls_title :: "string option"
  ls_size_3d :: "nat option"
  ls_size_1d :: "nat option"
  ls_domain_min :: "f64 list option"
  ls_domain_max :: "f64 list option"
  ls_table :: "f64 list"
  ls_row_count :: nat

definition lut_state_default :: lut_state where
  "lut_state_default =
     \<lparr>ls_title = None, ls_size_3d = None, ls_size_1d = None, ls_domain_min = None, ls_domain_max = None, ls_table = [],
      ls_row_count = 0\<rparr>"

definition guard_pre_data :: "lut_state \<Rightarrow> nat \<Rightarrow> string \<Rightarrow> lut_validation_error + unit" where
  "guard_pre_data st line header =
     (if 0 < ls_row_count st then Inl (LE_MalformedHeader line (Fmt ''{} after table rows'' [A_str header])) else Inr ())"

definition to_ascii_uppercase :: "string \<Rightarrow> string" where
  "to_ascii_uppercase s =
     map (\<lambda>c. let n = (of_char c :: nat) in if 97 \<le> n \<and> n < 123 then char_of (n - 32) else c) s"

text \<open>What follows the first white space of a line.\<close>

definition after_whitespace :: "string \<Rightarrow> string option" where
  "after_whitespace s =
     (case dropWhile (\<lambda>g. \<not> is_whitespace g) (utf8_chars s) of [] \<Rightarrow> None | g # gs \<Rightarrow> Some (concat gs))"

definition trim_quotes :: "string \<Rightarrow> string" where
  "trim_quotes s = rev (dropWhile (\<lambda>c. c = CHR 0x22) (rev (dropWhile (\<lambda>c. c = CHR 0x22) s)))"

definition size_keyword ::
  "nat \<Rightarrow> string \<Rightarrow> string \<Rightarrow> nat \<Rightarrow> nat option \<Rightarrow> string list \<Rightarrow> lut_state \<Rightarrow> lut_validation_error + nat" where
  "size_keyword line keyword kind hi earlier toks st =
     rbind (guard_pre_data st line keyword) (\<lambda>_.
       if earlier \<noteq> None then Inl (LE_MalformedHeader line (msg (''duplicate '' @ keyword)))
       else rbind (parse_size line (case toks of [] \<Rightarrow> None | t # _ \<Rightarrow> Some t)) (\<lambda>edge.
         if edge < min_size \<or> hi < edge then Inl (LE_SizeOutOfRange kind edge min_size hi) else Inr edge))"

definition consume_line :: "nat \<Rightarrow> string \<Rightarrow> lut_state \<Rightarrow> lut_validation_error + lut_state" where
  "consume_line line content st =
     (case split_whitespace content of
        [] \<Rightarrow> Inr st
      | first # toks \<Rightarrow>
          let upper = to_ascii_uppercase first
          in if upper = ''TITLE''
             then rbind (guard_pre_data st line ''TITLE'') (\<lambda>_.
               Inr (st\<lparr>ls_title := Some (trim_quotes (unwrap_or [] (map_option trim (after_whitespace content))))\<rparr>))
             else if upper = ''LUT_3D_SIZE''
             then rbind (size_keyword line ''LUT_3D_SIZE'' ''3D'' max_size_3d (ls_size_3d st) toks st) (\<lambda>n.
               Inr (st\<lparr>ls_size_3d := Some n\<rparr>))
             else if upper = ''LUT_1D_SIZE''
             then rbind (size_keyword line ''LUT_1D_SIZE'' ''1D'' max_size_1d (ls_size_1d st) toks st) (\<lambda>n.
               Inr (st\<lparr>ls_size_1d := Some n\<rparr>))
             else if upper = ''DOMAIN_MIN''
             then rbind (guard_pre_data st line ''DOMAIN_MIN'') (\<lambda>_. rbind (parse_triple line toks) (\<lambda>v.
               Inr (st\<lparr>ls_domain_min := Some v\<rparr>)))
             else if upper = ''DOMAIN_MAX''
             then rbind (guard_pre_data st line ''DOMAIN_MAX'') (\<lambda>_. rbind (parse_triple line toks) (\<lambda>v.
               Inr (st\<lparr>ls_domain_max := Some v\<rparr>)))
             else rbind (parse_triple line (first # toks)) (\<lambda>v.
               Inr (st\<lparr>ls_table := ls_table st @ v, ls_row_count := ls_row_count st + 1\<rparr>)))"

fun inverted_channel :: "string list \<Rightarrow> f64 list \<Rightarrow> f64 list \<Rightarrow> lut_validation_error option" where
  "inverted_channel (c # cs) (lo # los) (hi # his) =
     (if fle hi lo then Some (LE_DomainInverted c lo hi) else inverted_channel cs los his)"
| "inverted_channel _ _ _ = None"

definition finalize_domain :: "f64 list option \<Rightarrow> f64 list option \<Rightarrow> lut_validation_error + f64 list \<times> f64 list" where
  "finalize_domain lo hi =
     (let domain_min = unwrap_or [Fin 0, Fin 0, Fin 0] lo; domain_max = unwrap_or [Fin 1, Fin 1, Fin 1] hi
      in case inverted_channel channels domain_min domain_max of
           Some e \<Rightarrow> Inl e
         | None \<Rightarrow> Inr (domain_min, domain_max))"

definition finish :: "lut_state \<Rightarrow> lut_validation_error + lut" where
  "finish st =
     (case (ls_size_3d st, ls_size_1d st) of
        (Some _, Some _) \<Rightarrow> Inl LE_ConflictingSize
      | (None, None) \<Rightarrow> if ls_row_count st = 0 \<and> ls_title st = None then Inl LE_Empty else Inl LE_MissingSize
      | (Some edge, None) \<Rightarrow>
          if ls_row_count st \<noteq> edge ^ 3 then Inl (LE_RowCountMismatch (edge ^ 3) (ls_row_count st))
          else rbind (finalize_domain (ls_domain_min st) (ls_domain_max st)) (\<lambda>(lo, hi).
            Inr (Lut_Three \<lparr>l3_size = edge, l3_domain_min = lo, l3_domain_max = hi, l3_title = ls_title st,
              l3_table = ls_table st\<rparr>))
      | (None, Some edge) \<Rightarrow>
          if ls_row_count st \<noteq> edge then Inl (LE_RowCountMismatch edge (ls_row_count st))
          else rbind (finalize_domain (ls_domain_min st) (ls_domain_max st)) (\<lambda>(lo, hi).
            Inr (Lut_One \<lparr>l1_size = edge, l1_domain_min = lo, l1_domain_max = hi, l1_title = ls_title st,
              l1_table = ls_table st\<rparr>)))"

fun consume_lines :: "nat \<Rightarrow> string list \<Rightarrow> lut_state \<Rightarrow> lut_validation_error + lut_state" where
  "consume_lines n [] st = Inr st"
| "consume_lines n (raw # ls) st =
     rbind (if significant raw = [] then Inr st else consume_line n (significant raw) st) (consume_lines (Suc n) ls)"

definition parse_cube :: "string \<Rightarrow> lut_validation_error + lut" where
  "parse_cube src =
     rbind (consume_lines 1 (split_on (CHR 0x0A) (without_bom src)) lut_state_default) finish"

definition parse_cube_3d :: "string \<Rightarrow> lut_validation_error + lut_3d" where
  "parse_cube_3d src =
     rbind (parse_cube src) (\<lambda>l. case l of Lut_Three t \<Rightarrow> Inr t | Lut_One _ \<Rightarrow> Inl LE_Was1DExpectedThree)"

definition parse_cube_1d :: "string \<Rightarrow> lut_validation_error + lut_1d" where
  "parse_cube_1d src =
     rbind (parse_cube src) (\<lambda>l. case l of Lut_One t \<Rightarrow> Inr t | Lut_Three _ \<Rightarrow> Inl LE_Was3DExpectedOne)"

section \<open>The other format\<close>

record mesh_state =
  ms_mesh_header :: "nat list option"
  ms_data :: "nat list"
  ms_rows :: nat
  ms_saw_first :: bool

definition mesh_state_default :: mesh_state where
  "mesh_state_default = \<lparr>ms_mesh_header = None, ms_data = [], ms_rows = 0, ms_saw_first = False\<rparr>"

text \<open>All tokens as \<open>u32\<close>, or none.\<close>

fun all_u32 :: "string list \<Rightarrow> nat list option" where
  "all_u32 [] = Some []"
| "all_u32 (t # ts) =
     (case parse_unsigned 32 t of
        Inl _ \<Rightarrow> None
      | Inr n \<Rightarrow> map_option ((#) n) (all_u32 ts))"

definition mesh_line :: "string list \<Rightarrow> nat list option" where
  "mesh_line toks =
     (case all_u32 toks of
        None \<Rightarrow> None
      | Some mesh \<Rightarrow> if 2 \<le> length mesh \<and> sorted_wrt (<) mesh then Some mesh else None)"

fun take_integers :: "nat \<Rightarrow> string list \<Rightarrow> string list \<Rightarrow> lut_validation_error + nat list" where
  "take_integers line (label # ls) (tok # toks) =
     (case parse_unsigned 32 tok of
        Inl _ \<Rightarrow> Inl (LE_MalformedRow line
          (Fmt ''channel {} value {:?} is not a non-negative integer'' [A_str label, A_dbg tok]))
      | Inr n \<Rightarrow> rbind (take_integers line ls toks) (\<lambda>ns. Inr (n # ns)))"
| "take_integers line _ _ = Inr []"

definition mesh_row :: "nat \<Rightarrow> string list \<Rightarrow> mesh_state \<Rightarrow> lut_validation_error + mesh_state" where
  "mesh_row line toks st =
     (if length toks \<noteq> 3 then Inl (LE_MalformedRow line (Fmt ''expected 3 integers, got {}'' [A_nat (length toks)]))
      else rbind (take_integers line channels toks) (\<lambda>ns.
        Inr (st\<lparr>ms_data := ms_data st @ ns, ms_rows := ms_rows st + 1, ms_saw_first := True\<rparr>)))"

definition mesh_consume :: "nat \<Rightarrow> string \<Rightarrow> mesh_state \<Rightarrow> lut_validation_error + mesh_state" where
  "mesh_consume line content st =
     (let toks = split_whitespace content
      in case (if ms_saw_first st then None else mesh_line toks) of
           Some mesh \<Rightarrow>
             if length mesh < min_size \<or> max_size_3d < length mesh
             then Inl (LE_SizeOutOfRange ''3D'' (length mesh) min_size max_size_3d)
             else Inr (st\<lparr>ms_mesh_header := Some mesh, ms_saw_first := True\<rparr>)
         | None \<Rightarrow> mesh_row line toks st)"

fun mesh_lines :: "nat \<Rightarrow> string list \<Rightarrow> mesh_state \<Rightarrow> lut_validation_error + mesh_state" where
  "mesh_lines n [] st = Inr st"
| "mesh_lines n (raw # ls) st =
     rbind (if significant raw = [] then Inr st else mesh_consume n (significant raw) st) (mesh_lines (Suc n) ls)"

text \<open>
  \<open>(n as f64).cbrt().round()\<close>: the number of the half-integers whose cube is below \<open>n\<close>. No half-integer
  has an integral cube, so the rounded root does not depend on the last digits of \<open>cbrt\<close>.
\<close>

definition cube_root :: "nat \<Rightarrow> nat" where
  "cube_root n = length (filter (\<lambda>k. (2 * k + 1) ^ 3 < 8 * n) [0..<Suc n])"

definition mesh_finish :: "mesh_state \<Rightarrow> lut_validation_error + lut_3d" where
  "mesh_finish st =
     (if ms_rows st = 0 then Inl LE_Empty
      else rbind (case ms_mesh_header st of
          Some mesh \<Rightarrow> Inr (length mesh)
        | None \<Rightarrow>
            let k = cube_root (ms_rows st)
            in if k < min_size \<or> max_size_3d < k then Inl (LE_SizeOutOfRange ''3D'' k min_size max_size_3d) else Inr k)
        (\<lambda>edge.
          if ms_rows st \<noteq> edge ^ 3 then Inl (LE_RowCountMismatch (edge ^ 3) (ms_rows st))
          else
            let top = (case ms_mesh_header st of
                  Some mesh \<Rightarrow> last mesh
                | None \<Rightarrow> Max (set (ms_data st)));
                max_value = rnd32 False (of_nat (max top 1))
            in Inr \<lparr>l3_size = edge, l3_domain_min = [Fin 0, Fin 0, Fin 0], l3_domain_max = [Fin 1, Fin 1, Fin 1],
                 l3_title = None,
                 l3_table = map (\<lambda>v. rnd32 False (fval (rnd32 False (of_nat v)) / fval max_value)) (ms_data st)\<rparr>))"

definition parse_3dl :: "string \<Rightarrow> lut_validation_error + lut_3d" where
  "parse_3dl src =
     rbind (mesh_lines 1 (split_on (CHR 0x0A) (without_bom src)) mesh_state_default) mesh_finish"

end
