(* ===== verification/Lut_Props.thy ===== *)
theory Lut_Props
  imports Lut_Parser
begin

text \<open>
  What an accepted colour table is: the edge is within its bounds, the table has the rows of that edge,
  every entry is finite and no channel of the domain is empty. The other format has the same shape, and a
  first row whose values ascend is read as its header.
\<close>

definition lut_inv :: "lut_state \<Rightarrow> bool" where
  "lut_inv st \<longleftrightarrow>
     length (ls_table st) = 3 * ls_row_count st \<and> list_all is_finite (ls_table st) \<and>
     pred_option (\<lambda>n. min_size \<le> n \<and> n \<le> max_size_3d) (ls_size_3d st) \<and>
     pred_option (\<lambda>n. min_size \<le> n \<and> n \<le> max_size_1d) (ls_size_1d st) \<and>
     pred_option (\<lambda>v. length v = 3 \<and> list_all is_finite v) (ls_domain_min st) \<and>
     pred_option (\<lambda>v. length v = 3 \<and> list_all is_finite v) (ls_domain_max st)"

definition sound_table :: "nat \<Rightarrow> f64 list \<Rightarrow> f64 list \<Rightarrow> f64 list \<Rightarrow> bool" where
  "sound_table rows table lo hi \<longleftrightarrow>
     length table = 3 * rows \<and> list_all is_finite table \<and> length lo = 3 \<and> length hi = 3 \<and>
     list_all2 (\<lambda>a b. is_finite a \<and> is_finite b \<and> \<not> fle b a) lo hi"

fun sound_lut :: "lut \<Rightarrow> bool" where
  "sound_lut (Lut_Three t) \<longleftrightarrow>
     min_size \<le> l3_size t \<and> l3_size t \<le> max_size_3d \<and>
     sound_table (l3_size t ^ 3) (l3_table t) (l3_domain_min t) (l3_domain_max t)"
| "sound_lut (Lut_One t) \<longleftrightarrow>
     min_size \<le> l1_size t \<and> l1_size t \<le> max_size_1d \<and>
     sound_table (l1_size t) (l1_table t) (l1_domain_min t) (l1_domain_max t)"

lemma take_channels_sound:
  "take_channels n ls toks = Inr (vs, rest) \<Longrightarrow> length vs = length ls \<and> list_all is_finite vs"
  by (induction n ls toks arbitrary: vs rest rule: take_channels.induct)
     (auto simp: rbind_eq_Inr split: option.splits if_splits)

lemma parse_triple_sound:
  assumes "parse_triple n toks = Inr vs"
  shows "length vs = 3 \<and> list_all is_finite vs"
  using assms take_channels_sound [of n channels toks vs "[]"]
  by (auto simp: parse_triple_def rbind_eq_Inr channels_def split: if_splits)

lemma size_keyword_sound:
  "size_keyword line keyword kind hi earlier toks st = Inr n \<Longrightarrow> min_size \<le> n \<and> n \<le> hi"
  by (auto simp: size_keyword_def rbind_eq_Inr split: if_splits)

lemma consume_line_sound:
  assumes "consume_line n content st = Inr st'" and "lut_inv st"
  shows "lut_inv st'"
  using assms
  by (auto simp: consume_line_def Let_def rbind_eq_Inr lut_inv_def split: list.splits if_splits
      dest!: parse_triple_sound size_keyword_sound)

lemma consume_lines_sound:
  "consume_lines n ls st = Inr st' \<Longrightarrow> lut_inv st \<Longrightarrow> lut_inv st'"
  by (induction n ls st arbitrary: st' rule: consume_lines.induct)
     (auto simp: rbind_eq_Inr split: if_splits dest: consume_line_sound)

lemma not_inverted:
  "inverted_channel cs los his = None \<Longrightarrow> length los = length cs \<Longrightarrow> length his = length cs \<Longrightarrow>
   list_all is_finite los \<Longrightarrow> list_all is_finite his \<Longrightarrow>
   list_all2 (\<lambda>a b. is_finite a \<and> is_finite b \<and> \<not> fle b a) los his"
  by (induction cs los his rule: inverted_channel.induct) (auto split: if_splits)

lemma unwrap_pred: "pred_option P v \<Longrightarrow> P d \<Longrightarrow> P (unwrap_or d v)"
  by (cases v) (simp_all add: unwrap_or_def)

lemma finalize_domain_sound:
  assumes "finalize_domain lo hi = Inr (lo', hi')"
    and "pred_option (\<lambda>v. length v = 3 \<and> list_all is_finite v) lo"
    and "pred_option (\<lambda>v. length v = 3 \<and> list_all is_finite v) hi"
  shows "length lo' = 3 \<and> length hi' = 3 \<and> list_all2 (\<lambda>a b. is_finite a \<and> is_finite b \<and> \<not> fle b a) lo' hi'"
proof -
  have lo': "lo' = unwrap_or [Fin 0, Fin 0, Fin 0] lo" and hi': "hi' = unwrap_or [Fin 1, Fin 1, Fin 1] hi"
    and none: "inverted_channel channels lo' hi' = None"
    using assms(1) by (auto simp: finalize_domain_def Let_def split: option.splits)
  have "length lo' = 3 \<and> list_all is_finite lo'" "length hi' = 3 \<and> list_all is_finite hi'"
    unfolding lo' hi' by (rule unwrap_pred [OF assms(2)], simp) (rule unwrap_pred [OF assms(3)], simp)
  then show ?thesis using not_inverted [OF none] by (simp add: channels_def)
qed

lemma finish_sound:
  assumes "finish st = Inr l" and "lut_inv st"
  shows "sound_lut l"
  using assms
  by (auto simp: finish_def lut_inv_def rbind_eq_Inr sound_table_def split: option.splits if_splits
      dest: finalize_domain_sound)

section \<open>The other format\<close>

definition mesh_inv :: "mesh_state \<Rightarrow> bool" where
  "mesh_inv st \<longleftrightarrow>
     length (ms_data st) = 3 * ms_rows st \<and> list_all (\<lambda>v. v < 2 ^ 32) (ms_data st) \<and>
     pred_option (\<lambda>m. min_size \<le> length m \<and> length m \<le> max_size_3d \<and> list_all (\<lambda>v. v < 2 ^ 32) m) (ms_mesh_header st)"

lemma parse_unsigned_bound: "parse_unsigned bits s = Inr n \<Longrightarrow> n < 2 ^ bits"
  by (auto simp: parse_unsigned_def Let_def split: if_splits)

lemma take_integers_sound:
  "take_integers n ls toks = Inr vs \<Longrightarrow> length ls = length toks \<Longrightarrow> length vs = length ls \<and> list_all (\<lambda>v. v < 2 ^ 32) vs"
proof (induction n ls toks arbitrary: vs rule: take_integers.induct)
  case (1 line label ls tok toks)
  then show ?case by (auto simp: rbind_eq_Inr split: sum.splits dest: parse_unsigned_bound)
qed auto

lemma all_u32_sound: "all_u32 ts = Some ns \<Longrightarrow> list_all (\<lambda>v. v < 2 ^ 32) ns"
  by (induction ts arbitrary: ns) (auto split: sum.splits dest: parse_unsigned_bound)

lemma mesh_consume_sound:
  assumes "mesh_consume n content st = Inr st'" and "mesh_inv st"
  shows "mesh_inv st'"
  using assms
  by (auto simp: mesh_consume_def Let_def mesh_row_def mesh_line_def rbind_eq_Inr mesh_inv_def channels_def
      split: option.splits if_splits dest!: take_integers_sound all_u32_sound)

lemma mesh_lines_sound:
  "mesh_lines n ls st = Inr st' \<Longrightarrow> mesh_inv st \<Longrightarrow> mesh_inv st'"
  by (induction n ls st arbitrary: st' rule: mesh_lines.induct)
     (auto simp: rbind_eq_Inr split: if_splits dest: mesh_consume_sound)


section \<open>Normalized values are finite\<close>

lemma rnd32_near:
  assumes "\<bar>q\<bar> < 2 ^ 100"
  shows "is_finite (rnd32 s q)" and "\<bar>fval (rnd32 s q) - q\<bar> \<le> max \<bar>q\<bar> 1 / 2"
proof -
  have "is_finite (rnd32 s q) \<and> \<bar>fval (rnd32 s q) - q\<bar> \<le> max \<bar>q\<bar> 1 / 2"
  proof (cases "q = 0")
    case True
    then show ?thesis by (simp add: rnd32_def)
  next
    case False
    define e where "e = max (ilog2 \<bar>q\<bar> - 23) (- 149)"
    define m where "m = round_half_even (q / 2 powi e)"
    define r where "r = of_int m * (2::rat) powi e"
    have pos: "0 < (2::rat) powi e" by simp
    have "(2::rat) powi e \<le> max \<bar>q\<bar> 1"
    proof (cases "e = - 149")
      case True
      then show ?thesis by simp
    next
      case other: False
      then have "e \<le> ilog2 \<bar>q\<bar>" by (simp add: e_def)
      then have "(2::rat) powi e \<le> 2 powi ilog2 \<bar>q\<bar>" by (intro power_int_increasing) simp_all
      then show ?thesis using ilog2_bounds(1) [of "\<bar>q\<bar>"] False by simp
    qed
    then have small: "(2::rat) powi e / 2 \<le> max \<bar>q\<bar> 1 / 2" by simp
    have "r - q = (of_int m - q / 2 powi e) * 2 powi e" by (simp add: r_def left_diff_distrib)
    then have "\<bar>r - q\<bar> = \<bar>of_int m - q / 2 powi e\<bar> * 2 powi e" using pos by (simp add: abs_mult)
    also have "\<dots> \<le> 1 / 2 * 2 powi e"
      unfolding m_def using pos by (intro mult_right_mono round_half_even_near) simp
    finally have near: "\<bar>r - q\<bar> \<le> max \<bar>q\<bar> 1 / 2" using small by simp
    have "max \<bar>q\<bar> 1 \<le> 2 ^ 100" using assms by simp
    then have "\<bar>r\<bar> \<le> 2 * (2 ^ 100)" using near assms by linarith
    also have "\<dots> < (2::rat) ^ 128" by simp
    finally have "\<bar>r\<bar> < 2 ^ 128" .
    then have "rnd32 s q = (if m = 0 then (if q < 0 then NZero else Fin 0) else Fin r)"
      using False unfolding rnd32_def Let_def e_def [symmetric] m_def [symmetric] r_def [symmetric]
      by (simp add: not_le)
    then show ?thesis using near by (auto simp: r_def)
  qed
  then show "is_finite (rnd32 s q)" and "\<bar>fval (rnd32 s q) - q\<bar> \<le> max \<bar>q\<bar> 1 / 2" by blast+
qed

lemma of_nat_mono_rat: "m < n \<Longrightarrow> (of_nat m :: rat) < of_nat n"
  by simp

lemma normalized_finite:
  assumes "v < 2 ^ 32" and "1 \<le> peak" and "peak < 2 ^ 32"
  shows "is_finite (rnd32 False (fval (rnd32 False (of_nat v)) / fval (rnd32 False (of_nat peak))))"
proof (rule rnd32_near(1))
  let ?a = "fval (rnd32 False (of_nat v))" and ?b = "fval (rnd32 False (of_nat peak))"
  have v: "(of_nat v :: rat) < 2 ^ 32" using of_nat_mono_rat [OF assms(1)] by simp
  have t: "(of_nat peak :: rat) < 2 ^ 32" "1 \<le> (of_nat peak :: rat)"
    using of_nat_mono_rat [OF assms(3)] assms(2) by simp_all
  have "\<bar>?a - of_nat v\<bar> \<le> max \<bar>of_nat v\<bar> 1 / 2" using v by (intro rnd32_near(2)) simp
  moreover have "max \<bar>of_nat v\<bar> 1 \<le> (2::rat) ^ 32" using v by simp
  ultimately have "\<bar>?a - of_nat v\<bar> \<le> 2 ^ 32 / 2" by (meson divide_right_mono order_trans zero_le_numeral)
  then have a: "\<bar>?a\<bar> \<le> 2 ^ 33" using v by simp
  have "\<bar>?b - of_nat peak\<bar> \<le> max \<bar>of_nat peak\<bar> 1 / 2" using t by (intro rnd32_near(2)) simp
  moreover have "max \<bar>of_nat peak\<bar> 1 = (of_nat peak :: rat)" using t(2) by simp
  ultimately have b: "1 / 2 \<le> ?b" using t(2) by linarith
  have "\<bar>?a / ?b\<bar> \<le> 2 ^ 33 / (1 / 2)" unfolding abs_divide using a b by (intro frac_le) simp_all
  also have "\<dots> < (2::rat) ^ 100" by simp
  finally show "\<bar>?a / ?b\<bar> < 2 ^ 100" .
qed

lemma mesh_finish_sound:
  assumes "mesh_finish st = Inr t" and "mesh_inv st"
  shows "sound_lut (Lut_Three t)"
proof -
  define peak where "peak = (case ms_mesh_header st of Some mesh \<Rightarrow> last mesh | None \<Rightarrow> Max (set (ms_data st)))"
  have rows: "ms_rows st \<noteq> 0" and data: "ms_data st \<noteq> []"
    using assms by (auto simp: mesh_finish_def mesh_inv_def split: if_splits)
  have below: "v < 2 ^ 32" if "v \<in> set (ms_data st)" for v
    using assms(2) that by (simp add: mesh_inv_def list_all_iff)
  have peak: "max peak 1 < 2 ^ 32"
  proof (cases "ms_mesh_header st")
    case None
    then have "peak \<in> set (ms_data st)" using data by (simp add: peak_def)
    then show ?thesis using below by simp
  next
    case (Some m)
    then have "m \<noteq> []" "list_all (\<lambda>v. v < 2 ^ 32) m" using assms(2) by (auto simp: mesh_inv_def min_size_def)
    then have "last m < 2 ^ 32" by (simp add: list_all_iff)
    then show ?thesis by (simp add: peak_def Some)
  qed
  obtain edge where edge: "min_size \<le> edge" "edge \<le> max_size_3d" "ms_rows st = edge ^ 3"
    and t: "t = \<lparr>l3_size = edge, l3_domain_min = [Fin 0, Fin 0, Fin 0], l3_domain_max = [Fin 1, Fin 1, Fin 1],
      l3_title = None,
      l3_table = map (\<lambda>v. rnd32 False (fval (rnd32 False (of_nat v)) / fval (rnd32 False (of_nat (max peak 1))))) (ms_data st)\<rparr>"
    using assms rows
    by (auto simp: mesh_finish_def mesh_inv_def rbind_eq_Inr Let_def peak_def not_less split: option.splits if_splits)
  have "list_all is_finite (l3_table t)"
    unfolding t using peak below by (auto simp: list_all_iff intro!: normalized_finite)
  then show ?thesis using edge assms(2)
    by (simp add: t sound_table_def mesh_inv_def finite_compare)
qed


section \<open>The guarantees\<close>

definition lut_reads_as_sound :: "string \<Rightarrow> bool" where
  "lut_reads_as_sound src \<longleftrightarrow>
     (case parse_cube src of Inr l \<Rightarrow> sound_lut l | Inl _ \<Rightarrow> True) \<and>
     (case parse_3dl src of Inr t \<Rightarrow> sound_lut (Lut_Three t) | Inl _ \<Rightarrow> True)"

text \<open>C19: An accepted colour table is well formed in both formats: its edge is in the supported range, the
  table has exactly the rows of that edge, every entry is a finite number (after rounding to single
  precision and normalization) and the domain of every channel is not empty.\<close>

theorem accepted_lut_is_sound: "lut_reads_as_sound src"
proof -
  have "lut_inv lut_state_default" by (simp add: lut_inv_def lut_state_default_def)
  then have "sound_lut l" if "parse_cube src = Inr l" for l
    using that by (auto simp: parse_cube_def rbind_eq_Inr dest: consume_lines_sound intro: finish_sound)
  moreover have "mesh_inv mesh_state_default" by (simp add: mesh_inv_def mesh_state_default_def)
  then have "sound_lut (Lut_Three t)" if "parse_3dl src = Inr t" for t
    using that by (auto simp: parse_3dl_def rbind_eq_Inr dest: mesh_lines_sound intro: mesh_finish_sound
        simp del: sound_lut.simps)
  ultimately show ?thesis by (auto simp: lut_reads_as_sound_def split: sum.splits simp del: sound_lut.simps)
qed

end
