(* ===== verification/Lut_Rows.thy ===== *)
theory Lut_Rows
  imports Lut_Props Tool_Scripts
begin

text \<open>
  Headerless tables of the integer format (\<open>parse_3dl\<close> in \<open>crates/lut/src/lib.rs\<close>), written as one line of
  three numbers for each row: which of them are read, and as what.
\<close>

section \<open>Written rows\<close>

type_synonym lut_row = "nat \<times> nat \<times> nat"

fun row_values :: "lut_row \<Rightarrow> nat list" where
  "row_values (r, g, b) = [r, g, b]"

fun row_text :: "lut_row \<Rightarrow> string" where
  "row_text (r, g, b) = dec_of_nat r @ '' '' @ dec_of_nat g @ '' '' @ dec_of_nat b"

definition mesh_text :: "lut_row list \<Rightarrow> string" where
  "mesh_text rows = concat (map (\<lambda>r. row_text r @ line_feed) rows)"

fun ascending_row :: "lut_row \<Rightarrow> bool" where
  "ascending_row (r, g, b) \<longleftrightarrow> r < g \<and> g < b"

fun u32_row :: "lut_row \<Rightarrow> bool" where
  "u32_row (r, g, b) \<longleftrightarrow> r < 2 ^ 32 \<and> g < 2 ^ 32 \<and> b < 2 ^ 32"

lemma digit_char_facts: "is_digit c \<Longrightarrow> printable [c]" "is_digit c \<Longrightarrow> \<not> is_whitespace [c]"
proof -
  assume d: "is_digit c"
  show "printable [c]" using d by (simp add: printable_def is_digit_def)
  show "\<not> is_whitespace [c]" using d by (subst space_char) (auto simp: is_digit_def)
qed

lemma digits_printable: "list_all is_digit s \<Longrightarrow> printable s"
  by (induction s) (auto simp: printable_Cons is_digit_def)

lemma words_digits: "list_all is_digit s \<Longrightarrow> words_of (map (\<lambda>c. [c]) s @ gs) w = words_of gs (w @ s)"
  by (induction s arbitrary: w) (auto simp: digit_char_facts(2))

lemma space_is_white: "is_whitespace '' ''"
  by (simp add: space_char)

lemma row_printable: "printable (row_text r)"
  by (cases r) (auto simp: printable_Cons intro: digits_printable digits_of_nat)

lemma row_words:
  "split_whitespace (row_text (r, g, b)) = [dec_of_nat r, dec_of_nat g, dec_of_nat b]"
proof -
  have "utf8_chars (row_text (r, g, b)) =
      map (\<lambda>c. [c]) (dec_of_nat r) @ '' '' # map (\<lambda>c. [c]) (dec_of_nat g) @ '' '' # map (\<lambda>c. [c]) (dec_of_nat b) @ []"
    using row_printable [of "(r, g, b)"] by (simp add: printable_chars)
  then show ?thesis using digits_of_nat
    by (simp add: split_whitespace_def words_digits space_is_white del: append_Nil2)
qed

lemma row_tidy: "tidy (row_text r)"
proof (cases r)
  case (fields a b c)
  have space: "\<not> is_digit (CHR 0x20)" by (simp add: is_digit_def)
  have "is_digit (hd (dec_of_nat a))" "is_digit (last (dec_of_nat c))"
    using digits_of_nat [of a] digits_of_nat [of c] by (simp_all add: list_all_iff)
  then have "hd (dec_of_nat a) \<noteq> CHR 0x20" "last (dec_of_nat c) \<noteq> CHR 0x20" using space by metis+
  then show ?thesis using row_printable [of r] digits_of_nat [of a] digits_of_nat [of c]
    by (simp add: tidy_def fields)
qed

lemma no_hash: "CHR ''#'' \<notin> set (dec_of_nat n)"
  using digits_of_nat(1) [of n] by (auto simp: list_all_iff is_digit_def)

lemma row_no_comment: "split_once_at ''#'' (row_text r) = None"
proof -
  have "CHR ''#'' \<notin> set (row_text r)"
    using no_hash by (cases r) auto
  moreover have "CHR ''#'' \<notin> set s \<Longrightarrow> split_once_at ''#'' s = None" for s
    by (induction s) (auto simp: split_once_at.simps)
  ultimately show ?thesis by blast
qed

lemma row_significant: "significant (row_text r) = row_text r"
  using row_tidy [of r] by (simp add: significant_def without_cr_printable tidyD row_no_comment tidy_trim)

lemma row_not_empty: "row_text r \<noteq> []"
  using row_tidy [of r] by (simp add: tidyD)

lemma mesh_text_lines:
  assumes "rows \<noteq> []"
  shows "split_on (CHR 0x0A) (without_bom (mesh_text rows)) = map row_text rows @ [[]]"
proof -
  obtain a b c rest where rows: "rows = (a, b, c) # rest" using assms by (cases rows) auto
  obtain d s where d: "dec_of_nat a = d # s" "is_digit d" using digits_of_nat [of a] by (cases "dec_of_nat a") auto
  have "CHR 0xEF \<noteq> d" using d(2) by (auto simp: is_digit_def)
  then have "without_bom (mesh_text rows) = mesh_text rows"
    by (simp add: without_bom_def mesh_text_def rows d(1) unwrap_or_def)
  moreover have "\<forall>l\<in>set (map row_text rows). CHR 0x0A \<notin> set l"
    using row_printable by (auto dest: printable_no_control(1))
  ultimately show ?thesis using split_lines [of "map row_text rows"] by (simp add: mesh_text_def o_def)
qed

declare row_text.simps [simp del]

section \<open>Reading them\<close>

lemma integers_of_row:
  "u32_row (r, g, b) \<Longrightarrow> take_integers n channels [dec_of_nat r, dec_of_nat g, dec_of_nat b] = Inr [r, g, b]"
  by (simp add: channels_def parse_unsigned_nat rbind_def)

lemma mesh_of_row:
  "u32_row r \<Longrightarrow> mesh_line (split_whitespace (row_text r)) = (if ascending_row r then Some (row_values r) else None)"
  by (cases r) (auto simp: row_words mesh_line_def parse_unsigned_nat)

lemma data_row:
  assumes "u32_row r" and "ms_saw_first st \<or> \<not> ascending_row r"
  shows "mesh_consume n (row_text r) st =
    Inr (st\<lparr>ms_data := ms_data st @ row_values r, ms_rows := ms_rows st + 1, ms_saw_first := True\<rparr>)"
proof (cases r)
  case (fields a b c)
  have "(if ms_saw_first st then None else mesh_line (split_whitespace (row_text r))) = None"
    using assms mesh_of_row [of r] by auto
  then have "mesh_consume n (row_text r) st = mesh_row n (split_whitespace (row_text r)) st"
    by (simp add: mesh_consume_def)
  then show ?thesis using assms(1) integers_of_row [of a b c n] by (simp add: fields row_words mesh_row_def rbind_def)
qed

lemma header_row:
  assumes "u32_row r" and "ascending_row r" and "\<not> ms_saw_first st"
  shows "mesh_consume n (row_text r) st = Inr (st\<lparr>ms_mesh_header := Some (row_values r), ms_saw_first := True\<rparr>)"
  using assms mesh_of_row [of r]
  by (cases r) (simp add: mesh_consume_def Let_def min_size_def max_size_3d_def)

lemma blank_line: "significant [] = []"
  by code_simp

lemma data_rows:
  "list_all u32_row rows \<Longrightarrow> ms_saw_first st \<Longrightarrow>
   mesh_lines n (map row_text rows @ [[]]) st =
     Inr (st\<lparr>ms_data := ms_data st @ concat (map row_values rows), ms_rows := ms_rows st + length rows, ms_saw_first := True\<rparr>)"
proof (induction rows arbitrary: n st)
  case Nil
  then show ?case by (cases st) (simp add: blank_line rbind_def)
qed (simp add: row_significant row_not_empty data_row rbind_def)

lemma cube_root_cube: "cube_root (n ^ 3) = n"
proof -
  have "(2 * k + 1) ^ 3 < 8 * n ^ 3 \<longleftrightarrow> k < n" for k
  proof -
    have "(2 * k + 1) ^ 3 < 8 * n ^ 3 \<longleftrightarrow> \<not> (2 * n) ^ 3 \<le> (2 * k + 1) ^ 3"
      by (simp only: power_mult_distrib not_le) simp
    also have "\<dots> \<longleftrightarrow> \<not> 2 * n \<le> 2 * k + 1" by (subst power_mono_iff) simp_all
    also have "\<dots> \<longleftrightarrow> k < n" by linarith
    finally show ?thesis .
  qed
  moreover have "n \<le> n ^ 3" by (cases "n = 0") (simp_all add: self_le_power)
  then have "[0..<Suc (n ^ 3)] = [0..<n] @ [n..<Suc (n ^ 3)]"
    using upt_add_eq_append [of 0 n "Suc (n ^ 3) - n"] by simp
  then have "filter (\<lambda>k. k < n) [0..<Suc (n ^ 3)] = [0..<n]" by simp
  ultimately show ?thesis by (simp add: cube_root_def)
qed


section \<open>Which tables are read\<close>

definition unscaled_table :: "lut_row list \<Rightarrow> f64 list" where
  "unscaled_table rows =
     (let vs = concat (map row_values rows)
      in map (\<lambda>v. rnd32 False (fval (rnd32 False (of_nat v)) / fval (rnd32 False (of_nat (max (Max (set vs)) 1))))) vs)"

lemma values_length: "length (concat (map row_values rows)) = 3 * length rows"
  by (induction rows) auto

text \<open>C24: A headerless table of \<open>n\<^sup>3\<close> rows is read as the cube of edge \<open>n\<close>, each value divided by the
  largest, except when the three values of its first row ascend: that row is taken for a header of edge 3
  and the file is refused for having \<open>n\<^sup>3 - 1\<close> rows instead of 27, whatever its edge.\<close>

theorem headerless_table_is_read_or_refused:
  assumes "list_all u32_row rows" and "length rows = n ^ 3" and "2 \<le> n" and "n \<le> 65"
  shows "parse_3dl (mesh_text rows) =
    (if ascending_row (hd rows) then Inl (LE_RowCountMismatch 27 (n ^ 3 - 1))
     else Inr \<lparr>l3_size = n, l3_domain_min = [Fin 0, Fin 0, Fin 0], l3_domain_max = [Fin 1, Fin 1, Fin 1],
       l3_title = None, l3_table = unscaled_table rows\<rparr>)"
proof -
  have many: "8 \<le> n ^ 3" using power_mono [OF assms(3), of 3] by simp
  have odd: "n ^ 3 \<noteq> 28"
  proof (cases "n \<le> 3")
    case True
    then have "n = 2 \<or> n = 3" using assms(3) by auto
    then show ?thesis by auto
  next
    case False
    then have "4 ^ 3 \<le> n ^ 3" by (intro power_mono) simp_all
    then show ?thesis by simp
  qed
  have three: "Suc (Suc (Suc 0)) ^ 3 = 27" "n ^ 3 - Suc 0 \<noteq> 27" using odd many by (simp_all add: eval_nat_numeral)
  obtain r rest where rows: "rows = r # rest" using assms(2) many by (cases rows) auto
  have rest: "length rest = n ^ 3 - 1" "rest \<noteq> []" using assms(2) many by (auto simp: rows)
  have parse: "parse_3dl (mesh_text rows) =
      rbind (rbind (mesh_consume 1 (row_text r) mesh_state_default) (mesh_lines 2 (map row_text rest @ [[]]))) mesh_finish"
    by (simp add: parse_3dl_def mesh_text_lines rows row_significant row_not_empty numeral_2_eq_2)
  show ?thesis
  proof (cases "ascending_row r")
    case True
    then show ?thesis unfolding parse using assms(1) rest many odd three
      by (cases r) (simp add: rows header_row data_rows rbind_def mesh_finish_def mesh_state_default_def del: u32_row.simps ascending_row.simps)
  next
    case False
    have "mesh_finish \<lparr>ms_mesh_header = None, ms_data = row_values r @ concat (map row_values rest),
        ms_rows = Suc (length rest), ms_saw_first = True\<rparr> =
      Inr \<lparr>l3_size = n, l3_domain_min = [Fin 0, Fin 0, Fin 0], l3_domain_max = [Fin 1, Fin 1, Fin 1],
       l3_title = None, l3_table = unscaled_table rows\<rparr>"
      using assms(2-4) many
      by (simp add: rows mesh_finish_def rbind_def cube_root_cube min_size_def max_size_3d_def unscaled_table_def Let_def)
    then show ?thesis unfolding parse using False assms(1)
      by (simp add: rows data_row data_rows rbind_def mesh_state_default_def del: u32_row.simps ascending_row.simps)
  qed
qed


lemma headerless_table_is_read_or_refused_witness:
  "parse_3dl (mesh_text [(10, 20, 30), (900, 0, 0), (0, 900, 0), (900, 900, 0), (0, 0, 900), (900, 0, 900), (0, 900, 900), (900, 900, 900)]) =
    Inl (LE_RowCountMismatch 27 7)"
  using headerless_table_is_read_or_refused
    [of "[(10, 20, 30), (900, 0, 0), (0, 900, 0), (900, 900, 0), (0, 0, 900), (900, 0, 900), (0, 900, 900), (900, 900, 900)]" 2]
  by simp

end
