(* ===== verification/Effects_Registry.thy ===== *)
theory Effects_Registry
  imports Edl_Text
begin

text \<open>
  The registry of effects (\<open>crates/effects/src/lib.rs\<close>): their parameter schemas, and the
  normalization of the parameters an operation sets. Normalizing settles a set of parameters: what comes
  out is accepted again and stays as it is, and nothing that was given is changed.
\<close>

section \<open>Schemas\<close>

datatype effect_scope = ScopeClip | ScopeTrack | ScopeTimeline
datatype media_kind = MediaVideo | MediaAudio | MediaBoth
datatype effect_phase = PhaseSource | PhaseClip | PhaseTransform | PhaseTransition | PhaseTimelineOverlay | PhaseOutput
datatype support_status = SupportStable | SupportExperimental | SupportUnavailable
datatype stack_policy = ReplaceSameId | Stackable
datatype backend_kind = FfmpegNative | SemanticOnly
datatype param_kind = PK_Number | PK_Integer | PK_String | PK_Bool | PK_Json
datatype param_default = PD_Number f64 | PD_Integer int | PD_String string | PD_Bool bool

record param_def =
  pd_key :: string
  pd_kind :: param_kind
  pd_required :: bool
  pd_min :: "f64 option"
  pd_max :: "f64 option"
  pd_default :: "param_default option"
  pd_choices :: "string list option"

record effect_def =
  ed_id :: string
  ed_display_name :: string
  ed_scope :: effect_scope
  ed_media_kind :: media_kind
  ed_phase :: effect_phase
  ed_support :: support_status
  ed_stack_policy :: stack_policy
  ed_backend :: backend_kind
  ed_min_present_params :: nat
  ed_params :: "param_def list"

definition param_number :: "string \<Rightarrow> bool \<Rightarrow> f64 option \<Rightarrow> f64 option \<Rightarrow> param_default option \<Rightarrow> param_def" where
  "param_number key req lo hi dflt =
     \<lparr>pd_key = key, pd_kind = PK_Number, pd_required = req, pd_min = lo, pd_max = hi, pd_default = dflt, pd_choices = None\<rparr>"

text \<open>The bounds of an integer are converted with \<open>as f64\<close>.\<close>

definition param_integer :: "string \<Rightarrow> bool \<Rightarrow> int option \<Rightarrow> int option \<Rightarrow> param_default option \<Rightarrow> param_def" where
  "param_integer key req lo hi dflt =
     \<lparr>pd_key = key, pd_kind = PK_Integer, pd_required = req, pd_min = map_option (\<lambda>i. rnd False (of_int i)) lo,
      pd_max = map_option (\<lambda>i. rnd False (of_int i)) hi, pd_default = dflt, pd_choices = None\<rparr>"

definition param_string :: "string \<Rightarrow> bool \<Rightarrow> param_default option \<Rightarrow> param_def" where
  "param_string key req dflt =
     \<lparr>pd_key = key, pd_kind = PK_String, pd_required = req, pd_min = None, pd_max = None, pd_default = dflt, pd_choices = None\<rparr>"

definition param_choice :: "string \<Rightarrow> bool \<Rightarrow> param_default option \<Rightarrow> string list \<Rightarrow> param_def" where
  "param_choice key req dflt choices =
     \<lparr>pd_key = key, pd_kind = PK_String, pd_required = req, pd_min = None, pd_max = None, pd_default = dflt,
      pd_choices = Some choices\<rparr>"

definition param_bool :: "string \<Rightarrow> bool \<Rightarrow> param_default option \<Rightarrow> param_def" where
  "param_bool key req dflt =
     \<lparr>pd_key = key, pd_kind = PK_Bool, pd_required = req, pd_min = None, pd_max = None, pd_default = dflt, pd_choices = None\<rparr>"

definition param_json :: "string \<Rightarrow> bool \<Rightarrow> param_default option \<Rightarrow> param_def" where
  "param_json key req dflt =
     \<lparr>pd_key = key, pd_kind = PK_Json, pd_required = req, pd_min = None, pd_max = None, pd_default = dflt, pd_choices = None\<rparr>"

definition f64_min_positive :: f64 where
  "f64_min_positive = Fin (1 / 2 ^ 1022)"

section \<open>The registered effects\<close>

definition volume_params :: "param_def list" where
  "volume_params =
    [param_number ''value'' True (Some (Fin 0)) None None]"

definition speed_params :: "param_def list" where
  "speed_params =
    [param_number ''factor'' True (Some f64_min_positive) None None,
     param_bool ''reverse'' False (Some (PD_Bool False)),
     param_bool ''maintain_pitch'' False (Some (PD_Bool True)),
     param_choice ''frame_blending'' False (Some (PD_String ''nearest'')) [''nearest'', ''blend'', ''flow'']]"

definition time_remap_params :: "param_def list" where
  "time_remap_params =
    [param_json ''curve'' True None]"

definition freeze_params :: "param_def list" where
  "freeze_params =
    [param_number ''freeze_at_source_s'' True (Some (Fin 0)) None None,
     param_number ''duration_s'' True (Some f64_min_positive) None None,
     param_choice ''freeze_position'' False (Some (PD_String ''at'')) [''at''],
     param_choice ''audio_behavior'' False (Some (PD_String ''silence'')) [''silence'']]"

definition color_params :: "param_def list" where
  "color_params =
    [param_number ''exposure_ev'' False (Some (Fin (- 4))) (Some (Fin 4)) None,
     param_number ''contrast'' False (Some (Fin 0)) (Some (Fin 3)) None,
     param_number ''saturation'' False (Some (Fin 0)) (Some (Fin 3)) None,
     param_number ''temperature'' False (Some (Fin (- 1))) (Some (Fin 1)) None,
     param_number ''tint'' False (Some (Fin (- 1))) (Some (Fin 1)) None,
     param_number ''shadows'' False (Some (Fin (- 1))) (Some (Fin 1)) None,
     param_number ''highlights'' False (Some (Fin (- 1))) (Some (Fin 1)) None]"

definition blur_params :: "param_def list" where
  "blur_params =
    [param_number ''radius_px'' False (Some (Fin 0)) (Some (Fin 100)) (Some (PD_Number (Fin 8)))]"

definition chroma_key_params :: "param_def list" where
  "chroma_key_params =
    [param_string ''key_color'' True None,
     param_number ''similarity'' False (Some (Fin 0)) (Some (Fin 1)) (Some (PD_Number (f64_lit (1 / 10)))),
     param_number ''blend'' False (Some (Fin 0)) (Some (Fin 1)) (Some (PD_Number (Fin 0))),
     param_number ''despill_amount'' False (Some (Fin 0)) (Some (Fin 1)) (Some (PD_Number (Fin 0)))]"

definition luma_key_params :: "param_def list" where
  "luma_key_params =
    [param_number ''threshold'' False (Some (Fin 0)) (Some (Fin 1)) (Some (PD_Number (Fin (1 / 2)))),
     param_number ''softness'' False (Some (Fin 0)) (Some (Fin 1)) (Some (PD_Number (f64_lit (1 / 10))))]"

definition region_blur_params :: "param_def list" where
  "region_blur_params =
    [param_choice ''shape'' False (Some (PD_String ''rect'')) [''rect'', ''ellipse''],
     param_number ''x'' True (Some (Fin 0)) (Some (Fin 1)) None,
     param_number ''y'' True (Some (Fin 0)) (Some (Fin 1)) None,
     param_number ''width'' True (Some f64_min_positive) (Some (Fin 1)) None,
     param_number ''height'' True (Some f64_min_positive) (Some (Fin 1)) None,
     param_number ''radius_px'' False (Some (Fin 0)) (Some (Fin 100)) (Some (PD_Number (Fin 12)))]"

definition lut_params :: "param_def list" where
  "lut_params =
    [param_string ''lut_path'' True None,
     param_string ''interpolation'' False None,
     param_number ''strength'' False (Some (Fin 0)) (Some (Fin 1)) (Some (PD_Number (Fin 1)))]"

definition color_pipeline_params :: "param_def list" where
  "color_pipeline_params =
    [param_string ''clip_input_space'' True None,
     param_string ''working_space'' False None,
     param_string ''lut_input_space'' False None,
     param_string ''output_space'' False None,
     param_string ''input_transform_lut'' False None,
     param_string ''shaper_lut'' False None,
     param_string ''look_lut'' False None,
     param_string ''look_interpolation'' False None,
     param_number ''look_strength'' False (Some (Fin 0)) (Some (Fin 1)) (Some (PD_Number (Fin 1))),
     param_string ''output_transform_lut'' False None,
     param_string ''mask_source'' False None]"

definition title_params :: "param_def list" where
  "title_params =
    [param_number ''start_s'' True (Some (Fin 0)) None None,
     param_number ''end_s'' True (Some (Fin 0)) None None,
     param_string ''text'' True None,
     param_string ''position'' False (Some (PD_String ''center'')),
     param_integer ''font_size'' False (Some 1) None (Some (PD_Integer 64)),
     param_string ''color'' False (Some (PD_String ''#FFFFFF'')),
     param_string ''font_weight'' False (Some (PD_String ''normal'')),
     param_string ''animation'' False (Some (PD_String ''none'')),
     param_string ''role'' False None,
     param_string ''safe_area'' False None]"

definition video_overlay_params :: "param_def list" where
  "video_overlay_params =
    [param_string ''mode'' False (Some (PD_String ''pip'')),
     param_string ''corner'' False None,
     param_number ''scale'' False (Some (f64_lit (1 / 100))) (Some (Fin 1)) None,
     param_number ''margin_pct'' False (Some (Fin 0)) (Some (Fin (1 / 2))) None,
     param_number ''rotation_deg'' False (Some (Fin (- 360))) (Some (Fin 360)) (Some (PD_Number (Fin 0))),
     param_bool ''motion_blur'' False (Some (PD_Bool False)),
     param_choice ''blend_mode'' False (Some (PD_String ''normal'')) [''normal'', ''multiply'', ''screen''],
     param_number ''motion_blur_shutter_s'' False (Some (Fin 0)) (Some (f64_lit (1 / 5))) (Some (PD_Number (f64_lit (1 / 60))))]"

definition reframe_params :: "param_def list" where
  "reframe_params =
    [param_number ''zoom'' True (Some (Fin 1)) (Some (Fin 3)) None,
     param_number ''x'' False (Some (Fin (- 1))) (Some (Fin 1)) (Some (PD_Number (Fin 0))),
     param_number ''y'' False (Some (Fin (- 1))) (Some (Fin 1)) (Some (PD_Number (Fin 0)))]"

definition warp_params :: "param_def list" where
  "warp_params =
    [param_number ''k1'' False (Some (Fin (- 1))) (Some (Fin 1)) (Some (PD_Number (fneg (f64_lit (2 / 25))))),
     param_number ''k2'' False (Some (Fin (- 1))) (Some (Fin 1)) (Some (PD_Number (Fin 0))),
     param_number ''center_x'' False (Some (Fin 0)) (Some (Fin 1)) (Some (PD_Number (Fin (1 / 2)))),
     param_number ''center_y'' False (Some (Fin 0)) (Some (Fin 1)) (Some (PD_Number (Fin (1 / 2))))]"

definition shake_params :: "param_def list" where
  "shake_params =
    [param_number ''intensity_px'' False (Some (Fin 0)) (Some (Fin 200)) (Some (PD_Number (Fin 8))),
     param_number ''frequency_hz'' False (Some (f64_lit (1 / 10))) (Some (Fin 60)) (Some (PD_Number (Fin 12)))]"

definition audio_fade_params :: "param_def list" where
  "audio_fade_params =
    [param_number ''fade_in_s'' False (Some (Fin 0)) None None,
     param_number ''fade_out_s'' False (Some (Fin 0)) None None]"

definition audio_fx_params :: "param_def list" where
  "audio_fx_params =
    [param_number ''high_pass_hz'' False (Some (Fin 0)) None None,
     param_number ''low_pass_hz'' False (Some (Fin 0)) None None,
     param_json ''eq_bands'' False None,
     param_number ''compressor_threshold_db'' False None None None,
     param_number ''compressor_ratio'' False (Some (Fin 0)) None None,
     param_number ''limiter_limit_db'' False None None None,
     param_number ''noise_gate_threshold_db'' False None None None,
     param_number ''hum_notch_hz'' False (Some (Fin 0)) None None,
     param_number ''de_ess_hz'' False (Some (Fin 0)) None None,
     param_number ''de_ess_reduction_db'' False (Some (Fin 0)) None None,
     param_number ''loudnorm_i'' False None None None,
     param_number ''loudnorm_tp'' False None None None]"

definition effects :: "effect_def list" where
  "effects =
    [\<lparr>ed_id = ''montage.volume'', ed_display_name = ''Volume'', ed_scope = ScopeClip, ed_media_kind = MediaAudio,
       ed_phase = PhaseClip, ed_support = SupportStable, ed_stack_policy = ReplaceSameId, ed_backend = FfmpegNative,
       ed_min_present_params = 0, ed_params = volume_params\<rparr>,
     \<lparr>ed_id = ''montage.speed'', ed_display_name = ''Speed'', ed_scope = ScopeClip, ed_media_kind = MediaBoth,
       ed_phase = PhaseClip, ed_support = SupportStable, ed_stack_policy = ReplaceSameId, ed_backend = FfmpegNative,
       ed_min_present_params = 0, ed_params = speed_params\<rparr>,
     \<lparr>ed_id = ''montage.time_remap'', ed_display_name = ''Time Remap'', ed_scope = ScopeClip, ed_media_kind = MediaBoth,
       ed_phase = PhaseClip, ed_support = SupportStable, ed_stack_policy = ReplaceSameId, ed_backend = FfmpegNative,
       ed_min_present_params = 0, ed_params = time_remap_params\<rparr>,
     \<lparr>ed_id = ''montage.freeze'', ed_display_name = ''Freeze Frame'', ed_scope = ScopeClip, ed_media_kind = MediaBoth,
       ed_phase = PhaseClip, ed_support = SupportStable, ed_stack_policy = ReplaceSameId, ed_backend = FfmpegNative,
       ed_min_present_params = 0, ed_params = freeze_params\<rparr>,
     \<lparr>ed_id = ''montage.color_correction'', ed_display_name = ''Color Correction'', ed_scope = ScopeClip, ed_media_kind = MediaVideo,
       ed_phase = PhaseClip, ed_support = SupportStable, ed_stack_policy = ReplaceSameId, ed_backend = FfmpegNative,
       ed_min_present_params = 1, ed_params = color_params\<rparr>,
     \<lparr>ed_id = ''montage.blur'', ed_display_name = ''Blur'', ed_scope = ScopeClip, ed_media_kind = MediaVideo,
       ed_phase = PhaseClip, ed_support = SupportStable, ed_stack_policy = ReplaceSameId, ed_backend = FfmpegNative,
       ed_min_present_params = 0, ed_params = blur_params\<rparr>,
     \<lparr>ed_id = ''montage.chroma_key'', ed_display_name = ''Chroma Key'', ed_scope = ScopeClip, ed_media_kind = MediaVideo,
       ed_phase = PhaseClip, ed_support = SupportStable, ed_stack_policy = ReplaceSameId, ed_backend = FfmpegNative,
       ed_min_present_params = 0, ed_params = chroma_key_params\<rparr>,
     \<lparr>ed_id = ''montage.luma_key'', ed_display_name = ''Luma Key'', ed_scope = ScopeClip, ed_media_kind = MediaVideo,
       ed_phase = PhaseClip, ed_support = SupportStable, ed_stack_policy = ReplaceSameId, ed_backend = FfmpegNative,
       ed_min_present_params = 0, ed_params = luma_key_params\<rparr>,
     \<lparr>ed_id = ''montage.region_blur'', ed_display_name = ''Region Blur'', ed_scope = ScopeClip, ed_media_kind = MediaVideo,
       ed_phase = PhaseClip, ed_support = SupportStable, ed_stack_policy = ReplaceSameId, ed_backend = FfmpegNative,
       ed_min_present_params = 0, ed_params = region_blur_params\<rparr>,
     \<lparr>ed_id = ''montage.lut'', ed_display_name = ''3D LUT'', ed_scope = ScopeClip, ed_media_kind = MediaVideo,
       ed_phase = PhaseClip, ed_support = SupportStable, ed_stack_policy = ReplaceSameId, ed_backend = FfmpegNative,
       ed_min_present_params = 0, ed_params = lut_params\<rparr>,
     \<lparr>ed_id = ''montage.color_pipeline'', ed_display_name = ''Color Pipeline'', ed_scope = ScopeClip, ed_media_kind = MediaVideo,
       ed_phase = PhaseClip, ed_support = SupportExperimental, ed_stack_policy = ReplaceSameId, ed_backend = FfmpegNative,
       ed_min_present_params = 0, ed_params = color_pipeline_params\<rparr>,
     \<lparr>ed_id = ''montage.title'', ed_display_name = ''Title'', ed_scope = ScopeClip, ed_media_kind = MediaVideo,
       ed_phase = PhaseTimelineOverlay, ed_support = SupportStable, ed_stack_policy = ReplaceSameId, ed_backend = FfmpegNative,
       ed_min_present_params = 0, ed_params = title_params\<rparr>,
     \<lparr>ed_id = ''montage.video_overlay'', ed_display_name = ''Video Overlay'', ed_scope = ScopeClip, ed_media_kind = MediaVideo,
       ed_phase = PhaseTransform, ed_support = SupportStable, ed_stack_policy = ReplaceSameId, ed_backend = FfmpegNative,
       ed_min_present_params = 0, ed_params = video_overlay_params\<rparr>,
     \<lparr>ed_id = ''montage.reframe'', ed_display_name = ''Reframe'', ed_scope = ScopeClip, ed_media_kind = MediaVideo,
       ed_phase = PhaseTransform, ed_support = SupportStable, ed_stack_policy = ReplaceSameId, ed_backend = FfmpegNative,
       ed_min_present_params = 0, ed_params = reframe_params\<rparr>,
     \<lparr>ed_id = ''montage.warp'', ed_display_name = ''Warp'', ed_scope = ScopeClip, ed_media_kind = MediaVideo,
       ed_phase = PhaseTransform, ed_support = SupportStable, ed_stack_policy = ReplaceSameId, ed_backend = FfmpegNative,
       ed_min_present_params = 0, ed_params = warp_params\<rparr>,
     \<lparr>ed_id = ''montage.shake'', ed_display_name = ''Shake'', ed_scope = ScopeClip, ed_media_kind = MediaVideo,
       ed_phase = PhaseTransform, ed_support = SupportStable, ed_stack_policy = ReplaceSameId, ed_backend = FfmpegNative,
       ed_min_present_params = 0, ed_params = shake_params\<rparr>,
     \<lparr>ed_id = ''montage.audio_fade'', ed_display_name = ''Audio Fade'', ed_scope = ScopeClip, ed_media_kind = MediaAudio,
       ed_phase = PhaseClip, ed_support = SupportStable, ed_stack_policy = ReplaceSameId, ed_backend = FfmpegNative,
       ed_min_present_params = 1, ed_params = audio_fade_params\<rparr>,
     \<lparr>ed_id = ''montage.audio_fx'', ed_display_name = ''Audio FX'', ed_scope = ScopeClip, ed_media_kind = MediaAudio,
       ed_phase = PhaseClip, ed_support = SupportStable, ed_stack_policy = ReplaceSameId, ed_backend = FfmpegNative,
       ed_min_present_params = 1, ed_params = audio_fx_params\<rparr>]"

section \<open>Errors\<close>

datatype validation_error =
    VE_UnknownEffect string
  | VE_MissingParam string string
  | VE_NotEnoughParams string nat
  | VE_UnknownParam string string
  | VE_WrongType string string string
  | VE_NonFinite string string
  | VE_OutOfRange string string f64 "f64 option" "f64 option"
  | VE_InvalidChoice string string string "string list"
  | VE_InvalidDefault

fun validation_message :: "validation_error \<Rightarrow> message" where
  "validation_message (VE_UnknownEffect e) = Fmt ''unknown effect id {:?}'' [A_dbg e]"
| "validation_message (VE_MissingParam e p) = Fmt ''effect {:?} missing required parameter {:?}'' [A_dbg e, A_dbg p]"
| "validation_message (VE_NotEnoughParams e n) = Fmt ''effect {:?} requires at least {} parameter(s)'' [A_dbg e, A_nat n]"
| "validation_message (VE_UnknownParam e p) = Fmt ''effect {:?} does not accept parameter {:?}'' [A_dbg e, A_dbg p]"
| "validation_message (VE_WrongType e p t) = Fmt ''effect {:?} parameter {:?} must be {}'' [A_dbg e, A_dbg p, A_str t]"
| "validation_message (VE_NonFinite e p) = Fmt ''effect {:?} parameter {:?} must be finite'' [A_dbg e, A_dbg p]"
| "validation_message (VE_OutOfRange e p v lo hi) =
     Fmt ''effect {:?} parameter {:?} value {} is outside range'' [A_dbg e, A_dbg p, A_f64 v]"
| "validation_message (VE_InvalidChoice e p v choices) =
     Fmt ''effect {:?} parameter {:?} value {:?} is not an accepted choice'' [A_dbg e, A_dbg p, A_dbg v]"
| "validation_message VE_InvalidDefault = msg ''invalid effect registry default''"

section \<open>Values\<close>

text \<open>\<open>Value::as_i64\<close>.\<close>

fun json_as_i64 :: "json \<Rightarrow> int option" where
  "json_as_i64 (JInt i) = (if - (2 ^ 63) \<le> i \<and> i < 2 ^ 63 then Some i else None)"
| "json_as_i64 _ = None"

definition validate_range :: "string \<Rightarrow> param_def \<Rightarrow> f64 \<Rightarrow> validation_error + unit" where
  "validate_range eff p v =
     (if (case pd_min p of None \<Rightarrow> False | Some lo \<Rightarrow> flt v lo) \<or> (case pd_max p of None \<Rightarrow> False | Some hi \<Rightarrow> flt hi v)
      then Inl (VE_OutOfRange eff (pd_key p) v (pd_min p) (pd_max p)) else Inr ())"

definition validate_number :: "string \<Rightarrow> param_def \<Rightarrow> json \<Rightarrow> validation_error + unit" where
  "validate_number eff p v =
     (case json_as_f64 v of
        None \<Rightarrow> Inl (VE_WrongType eff (pd_key p) ''number'')
      | Some n \<Rightarrow> if \<not> is_finite n then Inl (VE_NonFinite eff (pd_key p)) else validate_range eff p n)"

definition validate_integer :: "string \<Rightarrow> param_def \<Rightarrow> json \<Rightarrow> validation_error + unit" where
  "validate_integer eff p v =
     (case json_as_i64 v of
        None \<Rightarrow> Inl (VE_WrongType eff (pd_key p) ''integer'')
      | Some n \<Rightarrow> validate_range eff p (rnd False (of_int n)))"

definition validate_value :: "string \<Rightarrow> param_def \<Rightarrow> json \<Rightarrow> validation_error + unit" where
  "validate_value eff p v =
     (case pd_kind p of
        PK_Number \<Rightarrow> validate_number eff p v
      | PK_Integer \<Rightarrow> validate_integer eff p v
      | PK_String \<Rightarrow>
          (case json_as_str v of
             None \<Rightarrow> Inl (VE_WrongType eff (pd_key p) ''string'')
           | Some raw \<Rightarrow>
               (case pd_choices p of
                  None \<Rightarrow> Inr ()
                | Some choices \<Rightarrow>
                    if raw \<notin> set choices then Inl (VE_InvalidChoice eff (pd_key p) raw choices) else Inr ()))
      | PK_Bool \<Rightarrow> (if json_as_bool v \<noteq> None then Inr () else Inl (VE_WrongType eff (pd_key p) ''bool''))
      | PK_Json \<Rightarrow> Inr ())"

fun default_value :: "param_default \<Rightarrow> validation_error + json" where
  "default_value (PD_Number x) = (if is_finite x then Inr (json_f64 x) else Inl VE_InvalidDefault)"
| "default_value (PD_Integer n) = Inr (JInt n)"
| "default_value (PD_String s) = Inr (JStr s)"
| "default_value (PD_Bool b) = Inr (JBool b)"

section \<open>Normalization\<close>

definition effect_param :: "effect_def \<Rightarrow> string \<Rightarrow> param_def option" where
  "effect_param d key = List.find (\<lambda>p. pd_key p = key) (ed_params d)"

fun normalize_each :: "string \<Rightarrow> json_map \<Rightarrow> param_def list \<Rightarrow> json_map \<Rightarrow> validation_error + json_map" where
  "normalize_each eff params [] out = Inr out"
| "normalize_each eff params (p # ps) out =
     (case bt_get params (pd_key p) of
        Some v \<Rightarrow>
          rbind (validate_value eff p v) (\<lambda>_. normalize_each eff params ps (bt_insert (pd_key p) v out))
      | None \<Rightarrow>
          if pd_required p then Inl (VE_MissingParam eff (pd_key p))
          else case pd_default p of
            None \<Rightarrow> normalize_each eff params ps out
          | Some d \<Rightarrow>
              rbind (default_value d) (\<lambda>v. normalize_each eff params ps (bt_insert (pd_key p) v out)))"

definition normalize_for :: "effect_def \<Rightarrow> json_map \<Rightarrow> validation_error + json_map" where
  "normalize_for d params =
     (case List.find (\<lambda>key. effect_param d key = None) (bt_keys params) of
        Some key \<Rightarrow> Inl (VE_UnknownParam (ed_id d) key)
      | None \<Rightarrow>
          if length params < ed_min_present_params d
          then Inl (VE_NotEnoughParams (ed_id d) (ed_min_present_params d))
          else normalize_each (ed_id d) params (ed_params d) [])"

definition legacy_awidat_id_matches :: "string \<Rightarrow> string \<Rightarrow> bool" where
  "legacy_awidat_id_matches candidate montage_id =
     (case strip_prefix ''awidat.'' candidate of
        None \<Rightarrow> False
      | Some legacy_suffix \<Rightarrow> strip_prefix ''montage.'' montage_id = Some legacy_suffix)"

definition lookup_effect :: "string \<Rightarrow> effect_def option" where
  "lookup_effect i = List.find (\<lambda>d. ed_id d = i \<or> legacy_awidat_id_matches i (ed_id d)) effects"

definition normalize_params :: "string \<Rightarrow> json_map \<Rightarrow> validation_error + effect_def \<times> json_map" where
  "normalize_params i params =
     (case lookup_effect i of
        None \<Rightarrow> Inl (VE_UnknownEffect i)
      | Some d \<Rightarrow> rbind (normalize_for d params) (\<lambda>out. Inr (d, out)))"

section \<open>A sound schema\<close>

text \<open>The keys are different, and every default is a value the parameter accepts.\<close>

definition default_accepted :: "string \<Rightarrow> param_def \<Rightarrow> bool" where
  "default_accepted eff p =
     (case pd_default p of
        None \<Rightarrow> True
      | Some d \<Rightarrow> (case default_value d of Inl _ \<Rightarrow> False | Inr v \<Rightarrow> validate_value eff p v = Inr ()))"

definition schema_ok :: "effect_def \<Rightarrow> bool" where
  "schema_ok d \<longleftrightarrow> distinct (map pd_key (ed_params d)) \<and> list_all (default_accepted (ed_id d)) (ed_params d)"

lemma number_default:
  assumes "is_f64 x"
  shows "default_accepted eff (param_number key req lo hi (Some (PD_Number x))) \<longleftrightarrow>
    (case lo of None \<Rightarrow> True | Some l \<Rightarrow> \<not> flt x l) \<and> (case hi of None \<Rightarrow> True | Some h \<Rightarrow> \<not> flt h x)"
  using assms json_f64_round_trip [OF assms]
  by (auto simp: default_accepted_def param_number_def validate_value_def validate_number_def validate_range_def is_f64_def
      split: option.splits)

lemma no_default:
  "pd_default p = None \<Longrightarrow> default_accepted eff p"
  by (simp add: default_accepted_def)

lemma other_defaults:
  "default_accepted eff (param_string key req (Some (PD_String s)))"
  "default_accepted eff (param_choice key req (Some (PD_String s)) cs) \<longleftrightarrow> s \<in> set cs"
  "default_accepted eff (param_bool key req (Some (PD_Bool b)))"
  by (simp_all add: default_accepted_def validate_value_def param_string_def param_choice_def param_bool_def)

lemma no_defaults:
  "default_accepted eff (param_number key req lo hi None)" "default_accepted eff (param_string key req None)"
  "default_accepted eff (param_json key req None)"
  by (simp_all add: no_default param_number_def param_string_def param_json_def)

lemma font_size_default: "default_accepted eff (param_integer key req (Some 1) None (Some (PD_Integer 64)))"
proof -
  have "rnd False (1 :: rat) = Fin 1" "rnd False (64 :: rat) = Fin 64"
    using rnd_exact [of "1" False] rnd_exact [of "64" False] representable_dyadic [of 1 0] representable_dyadic [of 64 0] by simp_all
  then show ?thesis
    by (simp add: default_accepted_def validate_value_def validate_integer_def validate_range_def param_integer_def)
qed

lemma literal_powers: "(2::rat) powi - 56 = 1 / 72057594037927936" "(2::rat) powi - 58 = 1 / 288230376151711744"
  "(2::rat) powi - 55 = 1 / 36028797018963968"
  by (simp_all only: power_int_minus power_int_numeral) simp_all

lemma literal_logs: "floorlog 2 9 = 4" "floorlog 2 59 = 6" "floorlog 2 12 = 4" "floorlog 2 4 = 3"
  by (rule antisym; simp add: floorlog_leI floorlog_geI)+

lemma literal_floors:
  "\<lfloor>36028797018963968 / 5 :: rat\<rfloor> = 7205759403792793"
  "\<lfloor>72057594037927936 / 15 :: rat\<rfloor> = 4803839602528529"
  "\<lfloor>144115188075855872 / 25 :: rat\<rfloor> = 5764607523034234" "\<lceil>25 / 2 :: rat\<rceil> = 13"
  by (simp_all add: floor_eq_iff ceiling_eq_iff)

lemmas more_literals = literal_simps literal_powers literal_logs literal_floors

lemma rnd_tenth: "rnd s (1 / 10) = Fin (7205759403792794 / 72057594037927936)"
  by (rule rnd_eqI [where k = "- 4" and m = 7205759403792794]) (simp_all add: more_literals)

lemma rnd_fifth: "rnd s (1 / 5) = Fin (7205759403792794 / 36028797018963968)"
  by (rule rnd_eqI [where k = "- 3" and m = 7205759403792794]) (simp_all add: more_literals)

lemma rnd_sixtieth: "rnd s (1 / 60) = Fin (4803839602528529 / 288230376151711744)"
  by (rule rnd_eqI [where k = "- 6" and m = 4803839602528529]) (simp_all add: more_literals)

lemma rnd_eight_hundredths: "rnd s (2 / 25) = Fin (5764607523034235 / 72057594037927936)"
  by (rule rnd_eqI [where k = "- 4" and m = 5764607523034235]) (simp_all add: more_literals)

text \<open>The numbers the registry has as defaults.\<close>

lemma default_numbers: "is_f64 (Fin 0)" "is_f64 (Fin 1)" "is_f64 (Fin 8)" "is_f64 (Fin 12)" "is_f64 (Fin (1 / 2))"
    "is_f64 (f64_lit (1 / 10))" "is_f64 (f64_lit (1 / 60))" "is_f64 (fneg (f64_lit (2 / 25)))"
  using representable_dyadic [of 0 0] representable_dyadic [of 1 0] representable_dyadic [of 8 0] representable_dyadic [of 12 0]
    representable_dyadic [of 1 1] representable_dyadic [of 7205759403792794 56] representable_dyadic [of 4803839602528529 58]
    representable_dyadic [of "- 5764607523034235" 56]
  by (simp_all add: is_f64_def f64_lit_def rnd_tenth rnd_sixtieth rnd_eight_hundredths)

lemma default_numbers_within:
  "\<not> flt (f64_lit (1 / 10)) (Fin 0)" "\<not> flt (Fin 1) (f64_lit (1 / 10))" "\<not> flt (f64_lit (1 / 60)) (Fin 0)"
  "\<not> flt (f64_lit (1 / 5)) (f64_lit (1 / 60))" "\<not> flt (Fin 12) (f64_lit (1 / 10))"
  "\<not> flt (fneg (f64_lit (2 / 25))) (Fin (- 1))" "\<not> flt (Fin 1) (fneg (f64_lit (2 / 25)))"
  by (simp_all add: f64_lit_def rnd_tenth rnd_fifth rnd_sixtieth rnd_eight_hundredths)

lemmas schema_tables = volume_params_def speed_params_def time_remap_params_def freeze_params_def color_params_def
  blur_params_def chroma_key_params_def luma_key_params_def region_blur_params_def lut_params_def color_pipeline_params_def
  title_params_def video_overlay_params_def reframe_params_def warp_params_def shake_params_def audio_fade_params_def
  audio_fx_params_def

lemma param_keys:
  "pd_key (param_number key req lo hi dflt) = key" "pd_key (param_integer key req ilo ihi dflt) = key"
  "pd_key (param_string key req dflt) = key" "pd_key (param_choice key req dflt cs) = key"
  "pd_key (param_bool key req dflt) = key" "pd_key (param_json key req dflt) = key"
  by (simp_all add: param_number_def param_integer_def param_string_def param_choice_def param_bool_def param_json_def)

lemma effects_ok: "d \<in> set effects \<Longrightarrow> schema_ok d"
  by (auto simp: effects_def schema_ok_def schema_tables param_keys number_default default_numbers no_defaults other_defaults
      font_size_default default_numbers_within)

section \<open>What normalization does\<close>

text \<open>The value a parameter ends up with, and whether it can have one.\<close>

definition settled_value :: "json_map \<Rightarrow> param_def \<Rightarrow> json option" where
  "settled_value params p =
     (case bt_get params (pd_key p) of
        Some v \<Rightarrow> Some v
      | None \<Rightarrow> (case pd_default p of
            None \<Rightarrow> None
          | Some d \<Rightarrow> (case default_value d of Inl _ \<Rightarrow> None | Inr v \<Rightarrow> Some v)))"

definition accepted :: "string \<Rightarrow> json_map \<Rightarrow> param_def \<Rightarrow> bool" where
  "accepted eff params p \<longleftrightarrow>
     (case bt_get params (pd_key p) of
        Some v \<Rightarrow> validate_value eff p v = Inr ()
      | None \<Rightarrow> \<not> pd_required p \<and> (pd_default p = None \<or> settled_value params p \<noteq> None))"

definition settle :: "json_map \<Rightarrow> param_def \<Rightarrow> json_map \<Rightarrow> json_map" where
  "settle params p m = (case settled_value params p of None \<Rightarrow> m | Some v \<Rightarrow> bt_insert (pd_key p) v m)"

lemma normalize_each_run:
  "normalize_each eff params ps out = Inr r \<longleftrightarrow>
     list_all (accepted eff params) ps \<and> r = fold (settle params) ps out"
proof (induction ps arbitrary: out)
  case (Cons p ps)
  show ?case
    by (auto simp: Cons accepted_def settle_def settled_value_def rbind_eq_Inr split: option.splits sum.splits)
qed auto

lemma get_settle: "bt_get (settle params p m) (pd_key p) =
    (case settled_value params p of None \<Rightarrow> bt_get m (pd_key p) | Some v \<Rightarrow> Some v)"
    "k \<noteq> pd_key p \<Longrightarrow> bt_get (settle params p m) k = bt_get m k"
  by (auto simp: settle_def split: option.splits)

lemma settle_others: "k \<notin> pd_key ` set ps \<Longrightarrow> bt_get (fold (settle params) ps m) k = bt_get m k"
  by (induction ps arbitrary: m) (auto simp: get_settle)

lemma settle_each:
  "distinct (map pd_key ps) \<Longrightarrow> p \<in> set ps \<Longrightarrow> bt_get m (pd_key p) = None \<Longrightarrow>
     bt_get (fold (settle params) ps m) (pd_key p) = settled_value params p"
proof (induction ps arbitrary: m)
  case (Cons q ps)
  show ?case
  proof (cases "p = q")
    case True
    then have "pd_key p \<notin> pd_key ` set ps" using Cons.prems(1) by simp
    from settle_others [OF this, of params "settle params q m"] True Cons.prems(3) show ?thesis
      by (simp add: get_settle split: option.splits)
  next
    case False
    then have "p \<in> set ps" "pd_key q \<noteq> pd_key p" using Cons.prems(1,2) by auto
    moreover from this(2) have "bt_get (settle params q m) (pd_key p) = None"
      using Cons.prems(3) by (simp add: get_settle(2) not_sym)
    ultimately show ?thesis using Cons.IH Cons.prems(1) by simp
  qed
qed simp

lemma settle_ok: "bt_ok m \<Longrightarrow> bt_ok (fold (settle params) ps m)"
  by (induction ps arbitrary: m) (auto simp: settle_def split: option.splits)

lemma normalize_for_run:
  "normalize_for d params = Inr out \<longleftrightarrow>
     fst ` set params \<subseteq> pd_key ` set (ed_params d) \<and> ed_min_present_params d \<le> length params
     \<and> list_all (accepted (ed_id d) params) (ed_params d) \<and> out = fold (settle params) (ed_params d) []"
proof -
  have "List.find (\<lambda>key. effect_param d key = None) (bt_keys params) = None \<longleftrightarrow>
      fst ` set params \<subseteq> pd_key ` set (ed_params d)"
    by (auto simp: find_None_iff effect_param_def bt_keys_def image_subset_iff image_iff) (metis fst_conv)+
  then show ?thesis
    by (cases "List.find (\<lambda>key. effect_param d key = None) (bt_keys params)")
      (auto simp: normalize_for_def normalize_each_run)
qed

lemma normalize_again:
  assumes "schema_ok d" and "bt_ok params" and "normalize_for d params = Inr out"
  shows "normalize_for d out = Inr out" and "bt_get params k = Some v \<Longrightarrow> bt_get out k = Some v" and "bt_ok out"
proof -
  let ?ps = "ed_params d"
  have keys: "fst ` set params \<subseteq> pd_key ` set ?ps" and many: "ed_min_present_params d \<le> length params"
    and acc: "list_all (accepted (ed_id d) params) ?ps" and out: "out = fold (settle params) ?ps []"
    using assms(3) unfolding normalize_for_run by blast+
  have diff: "distinct (map pd_key ?ps)" and dflt: "list_all (default_accepted (ed_id d)) ?ps"
    using assms(1) by (simp_all add: schema_ok_def)
  show ok: "bt_ok out" unfolding out by (rule settle_ok) simp
  have each: "bt_get out (pd_key p) = settled_value params p" if "p \<in> set ?ps" for p
    unfolding out by (rule settle_each [OF diff that]) simp
  have others: "bt_get out j = None" if "j \<notin> pd_key ` set ?ps" for j
    unfolding out settle_others [OF that] by simp
  show kept: "bt_get out k = Some v" if "bt_get params k = Some v" for k v
  proof -
    have "k \<in> pd_key ` set ?ps" using keys bt_get_SomeD [OF that] by force
    then obtain p where "p \<in> set ?ps" "k = pd_key p" by blast
    then show ?thesis using each [of p] that by (simp add: settled_value_def)
  qed
  have same: "settled_value out p = settled_value params p" if "p \<in> set ?ps" for p
    using each [OF that] by (auto simp: settled_value_def split: option.splits sum.splits)
  have still: "accepted (ed_id d) out p" if "p \<in> set ?ps" for p
  proof -
    have "accepted (ed_id d) params p" "default_accepted (ed_id d) p" using acc dflt that by (simp_all add: list_all_iff)
    then show ?thesis using each [OF that]
      by (auto simp: accepted_def settled_value_def default_accepted_def split: option.splits sum.splits)
  qed
  have "fold (settle out) ?ps [] = fold (settle params) ?ps []"
    by (rule fold_cong) (simp_all add: settle_def same fun_eq_iff)
  moreover have "fst ` set out \<subseteq> pd_key ` set ?ps"
  proof
    fix j assume "j \<in> fst ` set out"
    then obtain w where "(j, w) \<in> set out" by force
    then have "bt_get out j = Some w" using bt_get_eq_Some [OF ok] by blast
    then show "j \<in> pd_key ` set ?ps" using others by force
  qed
  moreover have "length params \<le> length out"
  proof -
    have "fst ` set params \<subseteq> fst ` set out"
    proof
      fix j assume "j \<in> fst ` set params"
      then obtain w where "(j, w) \<in> set params" by force
      then have "bt_get params j = Some w" using bt_get_eq_Some [OF assms(2)] by blast
      then show "j \<in> fst ` set out" using bt_get_SomeD [OF kept] by force
    qed
    then have "card (fst ` set params) \<le> card (fst ` set out)" by (intro card_mono) simp_all
    then show ?thesis using bt_ok_distinct [OF assms(2)] bt_ok_distinct [OF ok]
      by (metis distinct_card length_map set_map)
  qed
  ultimately show "normalize_for d out = Inr out"
    unfolding normalize_for_run using still many by (simp add: list_all_iff out)
qed

lemma lookup_registered: "lookup_effect i = Some d \<Longrightarrow> d \<in> set effects"
  by (auto simp: lookup_effect_def find_Some_iff)

section \<open>Properties\<close>

text \<open>C20: Normalizing the parameters of an effect settles them: what comes out is accepted again and
  stays as it is, and every value that was given is in it unchanged.\<close>

theorem normalization_settles:
  assumes "normalize_params i params = Inr (d, out)" and "bt_ok params"
  shows "normalize_params i out = Inr (d, out) \<and> (\<forall>k v. bt_get params k = Some v \<longrightarrow> bt_get out k = Some v)"
proof -
  have found: "lookup_effect i = Some d" and run: "normalize_for d params = Inr out"
    using assms(1) by (auto simp: normalize_params_def rbind_eq_Inr split: option.splits)
  note again = normalize_again [OF effects_ok [OF lookup_registered [OF found]] assms(2) run]
  from found again(1,2) show ?thesis by (simp add: normalize_params_def rbind_def)
qed

definition speed_args :: json_map where
  "speed_args = [(''factor'', JInt 2), (''reverse'', JBool True)]"

definition speed_settled :: json_map where
  "speed_settled = [(''factor'', JInt 2), (''frame_blending'', JStr ''nearest''), (''maintain_pitch'', JBool True),
     (''reverse'', JBool True)]"

theorem normalization_settles_witness:
  "\<exists>d. normalize_params ''awidat.speed'' speed_args = Inr (d, speed_settled)
     \<and> normalize_params ''awidat.speed'' speed_settled = Inr (d, speed_settled)
     \<and> bt_get speed_settled ''factor'' = Some (JInt 2)"
proof -
  have two: "json_as_f64 (JInt 2) = Some (Fin 2)"
    using rnd_exact [of "2" False] representable_dyadic [of 2 0] by simp
  obtain d where d: "lookup_effect ''awidat.speed'' = Some d" "ed_params d = speed_params" "ed_min_present_params d = 0"
    by (simp add: lookup_effect_def effects_def legacy_awidat_id_matches_def)
  have "normalize_for d speed_args = Inr speed_settled"
    unfolding normalize_for_run using d(3) two
    by (simp add: d(2) speed_params_def param_keys speed_args_def speed_settled_def)
      (simp add: accepted_def settle_def settled_value_def bt_get_def param_number_def param_choice_def param_bool_def
        validate_value_def validate_number_def validate_range_def f64_min_positive_def)
  then have run: "normalize_params ''awidat.speed'' speed_args = Inr (d, speed_settled)"
    using d(1) by (simp add: normalize_params_def rbind_def)
  moreover have "bt_ok speed_args" by (simp add: speed_args_def bt_ok_def)
  ultimately show ?thesis using normalization_settles [OF run] by (auto simp: speed_args_def bt_get_def)
qed

end
