(* ===== verification/Edl_Effects.thy ===== *)
theory Edl_Effects
  imports Effects_Registry Lut_Parser Edl_Audio
begin

text \<open>
  The edits that put an effect of the registry on a clip (\<open>apply_set_effect\<close> and the operations around it
  in \<open>crates/core/src/edl/apply.rs\<close>): parameters go through the schema of the effect, and a colour table
  is looked up in the project and parsed before its path is stored. What is in a file of the project is a
  parameter (\<open>project_files\<close>, absent when the edit has no project root).
\<close>

datatype file_read = File_Missing | File_Failed message | File_Bytes string

type_synonym project_files = "(string \<Rightarrow> file_read) option"

definition lut_effect :: string where "lut_effect = ''montage.lut''"
definition color_pipeline_effect :: string where "color_pipeline_effect = ''montage.color_pipeline''"
definition color_correction_effect :: string where "color_correction_effect = ''montage.color_correction''"
definition time_remap_effect :: string where "time_remap_effect = ''montage.time_remap''"
definition freeze_effect :: string where "freeze_effect = ''montage.freeze''"

definition supported_lut_extensions :: "string list" where
  "supported_lut_extensions = [''3dl'', ''cube'', ''dat'', ''m3d'', ''csp'']"

definition supported_lut_interpolations :: "string list" where
  "supported_lut_interpolations = [''nearest'', ''trilinear'', ''tetrahedral'', ''pyramid'', ''prism'']"

definition three_d_only_lut_extensions :: "string list" where
  "three_d_only_lut_extensions = [''3dl'', ''dat'', ''m3d'']"

definition supported_mask_extensions :: "string list" where
  "supported_mask_extensions = [''png'', ''jpg'', ''jpeg'', ''tif'', ''tiff'', ''mp4'', ''mov'']"

definition known_color_spaces :: "string list" where
  "known_color_spaces =
     [''rec709_g24'', ''srgb'', ''dci_p3'', ''scene_linear'', ''pq_rec2020'', ''hlg_rec2020'', ''arri_logc3'', ''arri_logc4'',
      ''slog3_sgamut3'', ''vlog_vgamut'', ''redlog_filmgen5'', ''canon_log2'', ''canon_log3'', ''bmd_film_gen5'']"

definition is_known_color_space :: "string \<Rightarrow> bool" where
  "is_known_color_space name \<longleftrightarrow> name \<in> set known_color_spaces"

section \<open>Paths\<close>

text \<open>
  On Unix. \<open>Path::extension\<close> is what follows the last dot of the file name, unless the dot is its first
  character; \<open>Path::components\<close> skips empty components and \<open>.\<close>, the latter not in front.
\<close>

definition file_extension :: "string \<Rightarrow> string option" where
  "file_extension p =
     Option.bind (file_name p) (\<lambda>name.
       let parts = split_on (CHR ''.'') name
       in if join ''.'' (butlast parts) = [] then None else Some (last parts))"

definition plain_path :: "string \<Rightarrow> bool" where
  "plain_path p \<longleftrightarrow>
     p \<noteq> [] \<and> CHR 0x5C \<notin> set p \<and> strip_prefix ''/'' p = None
     \<and> ''..'' \<notin> set (split_on (CHR ''/'') p) \<and> hd (split_on (CHR ''/'') p) \<noteq> ''.''"

definition lower_extension :: "string \<Rightarrow> string option" where
  "lower_extension p = map_option to_ascii_lowercase (file_extension p)"

definition has_extension_of :: "string list \<Rightarrow> string \<Rightarrow> bool" where
  "has_extension_of exts p \<longleftrightarrow> (case lower_extension p of None \<Rightarrow> False | Some e \<Rightarrow> e \<in> set exts)"

definition normalize_lut_path :: "nat \<Rightarrow> string \<Rightarrow> string edit" where
  "normalize_lut_path index lut_path =
     (let trimmed = trim lut_path
      in if \<not> plain_path trimmed
         then invalid index (msg (''apply_lut: lut_path must be a non-empty project-relative path without '' @ [CHR 0x27] @ ''.''
           @ [CHR 0x27] @ '', '' @ [CHR 0x27] @ ''..'' @ [CHR 0x27] @ '', absolute prefixes, or backslashes''))
         else if \<not> has_extension_of supported_lut_extensions trimmed
         then invalid index (Fmt ''apply_lut: lut_path must end in one of: {}'' [A_str (join '', '' supported_lut_extensions)])
         else Inr trimmed)"

definition normalize_mask_path :: "nat \<Rightarrow> string \<Rightarrow> string edit" where
  "normalize_mask_path index mask_source =
     (let trimmed = trim mask_source
      in if \<not> plain_path trimmed
         then invalid index (msg (''set_effect: montage.color_pipeline mask_source must be a non-empty project-relative path without ''
           @ [CHR 0x27] @ ''.'' @ [CHR 0x27] @ '', '' @ [CHR 0x27] @ ''..'' @ [CHR 0x27] @ '', absolute prefixes, or backslashes''))
         else if \<not> has_extension_of supported_mask_extensions trimmed
         then invalid index (Fmt ''set_effect: montage.color_pipeline mask_source must end in one of: {}''
           [A_str (join '', '' supported_mask_extensions)])
         else Inr trimmed)"

definition normalize_lut_strength :: "nat \<Rightarrow> f64 option \<Rightarrow> f64 option edit" where
  "normalize_lut_strength index strength =
     (case strength of
        None \<Rightarrow> Inr None
      | Some v \<Rightarrow>
          if \<not> is_finite v \<or> \<not> (fle (Fin 0) v \<and> fle v (Fin 1))
          then invalid index (Fmt ''apply_lut: strength {} must be finite and in 0.0..=1.0'' [A_f64 v])
          else Inr (Some v))"

definition normalize_lut_interpolation :: "nat \<Rightarrow> string option \<Rightarrow> string option edit" where
  "normalize_lut_interpolation index interpolation =
     (case interpolation of
        None \<Rightarrow> Inr None
      | Some raw \<Rightarrow>
          let i = to_ascii_lowercase (trim raw)
          in if i = [] then Inr None
             else if i \<notin> set supported_lut_interpolations
             then invalid index (Fmt ''apply_lut: interpolation must be one of: {}'' [A_str (join '', '' supported_lut_interpolations)])
             else Inr (Some i))"

section \<open>The contents of a colour table\<close>

datatype expected_lut_kind = ThreeD | OneD

definition lut_contents :: "string \<Rightarrow> expected_lut_kind \<Rightarrow> string \<Rightarrow> lut_validation_error + unit" where
  "lut_contents ext expected src =
     (if ext = ''3dl'' then rbind (parse_3dl src) (\<lambda>_. Inr ())
      else case expected of
        ThreeD \<Rightarrow> rbind (parse_cube_3d src) (\<lambda>_. Inr ())
      | OneD \<Rightarrow> rbind (parse_cube_1d src) (\<lambda>_. Inr ()))"

definition validate_lut_contents :: "(string \<Rightarrow> file_read) \<Rightarrow> nat \<Rightarrow> string \<Rightarrow> expected_lut_kind \<Rightarrow> unit edit" where
  "validate_lut_contents read index lut_path expected =
     (case lower_extension lut_path of
        None \<Rightarrow> Inr ()
      | Some ext \<Rightarrow>
          if expected = OneD \<and> ext \<in> set three_d_only_lut_extensions
          then invalid index (Fmt ''apply_lut: {:?} is a .{} (3D-only format) but the slot expects a 1D LUT''
                 [A_dbg lut_path, A_str ext])
          else if ext \<noteq> ''cube'' \<and> ext \<noteq> ''3dl'' then Inr ()
          else case read lut_path of
            File_Missing \<Rightarrow> Inr ()
          | File_Failed e \<Rightarrow> invalid index (Fmt ''apply_lut: failed to read {:?}: {}'' [A_dbg lut_path, A_msg e])
          | File_Bytes src \<Rightarrow>
              if \<not> utf8_valid src
              then invalid index (Fmt ''apply_lut: {:?} is not valid UTF-8'' [A_dbg lut_path])
              else case lut_contents ext expected src of
                Inl e \<Rightarrow> invalid index (Fmt ''apply_lut: {:?} is not a valid .{} LUT: {}''
                    [A_dbg lut_path, A_str ext, A_msg (lut_message e)])
              | Inr _ \<Rightarrow> Inr ())"

definition checked_contents :: "project_files \<Rightarrow> nat \<Rightarrow> string \<Rightarrow> expected_lut_kind \<Rightarrow> unit edit" where
  "checked_contents files index lut_path expected =
     (case files of None \<Rightarrow> Inr () | Some read \<Rightarrow> validate_lut_contents read index lut_path expected)"

section \<open>The parameters of a colour table\<close>

definition meta_str :: "string \<Rightarrow> json_map \<Rightarrow> string option" where
  "meta_str k m = Option.bind (bt_get m k) json_as_str"

definition meta_f64 :: "string \<Rightarrow> json_map \<Rightarrow> f64 option" where
  "meta_f64 k m = Option.bind (bt_get m k) json_as_f64"

definition normalize_lut_metadata :: "project_files \<Rightarrow> nat \<Rightarrow> json_map \<Rightarrow> json_map edit" where
  "normalize_lut_metadata files index m =
     (case meta_str ''lut_path'' m of
        None \<Rightarrow> invalid index (msg ''set_effect: montage.lut requires string lut_path'')
      | Some lut_path \<Rightarrow>
          rbind (normalize_lut_path index lut_path) (\<lambda>path.
          rbind (checked_contents files index path ThreeD) (\<lambda>_.
          let m1 = bt_insert ''lut_path'' (JStr path) m
          in rbind (normalize_lut_interpolation index (meta_str ''interpolation'' m1)) (\<lambda>interpolation.
          let m2 = (case interpolation of
                Some v \<Rightarrow> bt_insert ''interpolation'' (JStr v) m1
              | None \<Rightarrow> bt_remove ''interpolation'' m1)
          in rbind (normalize_lut_strength index (meta_f64 ''strength'' m2)) (\<lambda>strength.
          case strength of
            Some v \<Rightarrow>
              if \<not> is_finite v
              then invalid index (Fmt ''set_effect: montage.lut strength {} is non-finite'' [A_f64 v])
              else Inr (bt_insert ''strength'' (json_f64 v) m2)
          | None \<Rightarrow> Inr (bt_remove ''strength'' m2))))))"

section \<open>The parameters of a colour pipeline\<close>

fun check_color_spaces :: "nat \<Rightarrow> json_map \<Rightarrow> string list \<Rightarrow> unit edit" where
  "check_color_spaces index m [] = Inr ()"
| "check_color_spaces index m (slot # slots) =
     (case meta_str slot m of
        None \<Rightarrow> check_color_spaces index m slots
      | Some v \<Rightarrow>
          if \<not> is_known_color_space v
          then invalid index (Fmt ''set_effect: montage.color_pipeline {} {:?} is not a known color space; expected one of {:?}''
            [A_str slot, A_dbg v, A_strs known_color_spaces])
          else check_color_spaces index m slots)"

fun in_slot :: "nat \<Rightarrow> string \<Rightarrow> 'a edit \<Rightarrow> 'a edit" where
  "in_slot index slot (Inl (Err (AE_Invalid i m))) =
     invalid index (Fmt ''set_effect: montage.color_pipeline {}: {}'' [A_str slot, A_msg m])"
| "in_slot index slot r = r"

fun normalize_lut_slots ::
  "project_files \<Rightarrow> nat \<Rightarrow> (string \<times> expected_lut_kind) list \<Rightarrow> json_map \<Rightarrow> json_map edit" where
  "normalize_lut_slots files index [] m = Inr m"
| "normalize_lut_slots files index ((slot, kind) # slots) m =
     (case meta_str slot m of
        None \<Rightarrow> normalize_lut_slots files index slots m
      | Some v \<Rightarrow>
          rbind (in_slot index slot (normalize_lut_path index v)) (\<lambda>path.
          rbind (in_slot index slot (checked_contents files index path kind)) (\<lambda>_.
          normalize_lut_slots files index slots (bt_insert slot (JStr path) m))))"

definition f64_epsilon :: f64 where
  "f64_epsilon = Fin (1 / 2 ^ 52)"

definition normalize_color_pipeline_metadata :: "project_files \<Rightarrow> nat \<Rightarrow> json_map \<Rightarrow> json_map edit" where
  "normalize_color_pipeline_metadata files index m =
     rbind (check_color_spaces index m [''clip_input_space'', ''working_space'', ''lut_input_space'', ''output_space'']) (\<lambda>_.
     rbind (normalize_lut_slots files index
         [(''input_transform_lut'', ThreeD), (''shaper_lut'', OneD), (''look_lut'', ThreeD), (''output_transform_lut'', ThreeD)]
         m) (\<lambda>m1.
     rbind (case meta_str ''mask_source'' m1 of
         None \<Rightarrow> Inr m1
       | Some v \<Rightarrow> rbind (normalize_mask_path index v) (\<lambda>path. Inr (bt_insert ''mask_source'' (JStr path) m1))) (\<lambda>m2.
     rbind (normalize_lut_interpolation index (meta_str ''look_interpolation'' m2)) (\<lambda>interpolation.
     let m3 = (case interpolation of
           Some v \<Rightarrow> bt_insert ''look_interpolation'' (JStr v) m2
         | None \<Rightarrow> bt_remove ''look_interpolation'' m2);
         has_look_lut = (bt_get m3 ''look_lut'' \<noteq> None)
     in case List.find (\<lambda>k. bt_get m3 k \<noteq> None \<and> \<not> has_look_lut) [''look_interpolation'', ''lut_input_space''] of
          Some dep \<Rightarrow> invalid index
            (Fmt ''set_effect: montage.color_pipeline {} requires look_lut to also be set'' [A_str dep])
        | None \<Rightarrow>
            if (case meta_f64 ''look_strength'' m3 of
                  None \<Rightarrow> False
                | Some s \<Rightarrow> flt f64_epsilon (fabs (fsub s (Fin 1))) \<and> \<not> has_look_lut)
            then invalid index (msg ''set_effect: montage.color_pipeline look_strength != 1.0 requires look_lut'')
            else Inr m3))))"

section \<open>Setting an effect\<close>

definition effect_metadata ::
  "project_files \<Rightarrow> nat \<Rightarrow> string \<Rightarrow> json_map \<Rightarrow> string option \<Rightarrow> (effect_def \<times> json_map) edit" where
  "effect_metadata files index effect_id params rationale =
     (case normalize_params effect_id params of
        Inl e \<Rightarrow> invalid index (Fmt ''set_effect: {}'' [A_msg (validation_message e)])
      | Inr (d, m) \<Rightarrow>
          rbind (if ed_id d = lut_effect then normalize_lut_metadata files index m else Inr m) (\<lambda>m1.
          rbind (if ed_id d = color_pipeline_effect then normalize_color_pipeline_metadata files index m1 else Inr m1) (\<lambda>m2.
          ensures (ed_scope d = ScopeClip)
            (Err (AE_Invalid index (Fmt ''set_effect: effect {:?} is not a clip-scoped effect'' [A_dbg effect_id]))) (
          Inr (d, case rationale of
              None \<Rightarrow> m2
            | Some r \<Rightarrow> if trim r \<noteq> [] then bt_insert ''rationale'' (JStr r) m2 else m2)))))"

definition push_effect :: "effect_def \<Rightarrow> json_map \<Rightarrow> clip \<Rightarrow> clip" where
  "push_effect d m c =
     (let kept = (if ed_stack_policy d = ReplaceSameId
                  then filter (\<lambda>e. ef_effect_name e \<noteq> ed_id d) (clip_effects c) else clip_effects c)
      in c\<lparr>clip_effects := kept @ [(effect_new (ed_id d) m)\<lparr>ef_name := ed_display_name d\<rparr>]\<rparr>)"

definition apply_set_effect ::
  "project_files \<Rightarrow> nat \<Rightarrow> string \<Rightarrow> json_map \<Rightarrow> string option \<Rightarrow> clip_locator option \<Rightarrow> timeline \<Rightarrow> edited" where
  "apply_set_effect files index effect_id params rationale loc tml =
     rbind (effect_metadata files index effect_id params rationale) (\<lambda>(d, m).
     edit_clip index ''set_effect'' (\<lambda>c.
       Inr (Fmt ''set effect {} on clip {:?}'' [A_str (ed_id d), A_dbg (clip_name c)], push_effect d m c)) loc tml)"

definition apply_set_time_remap ::
  "project_files \<Rightarrow> nat \<Rightarrow> json list \<Rightarrow> clip_locator option \<Rightarrow> timeline \<Rightarrow> edited" where
  "apply_set_time_remap files index curve loc tml =
     apply_set_effect files index time_remap_effect (bt_of_list [(''curve'', JArr curve)]) None loc tml"

definition apply_set_freeze ::
  "project_files \<Rightarrow> nat \<Rightarrow> f64 \<Rightarrow> f64 \<Rightarrow> string option \<Rightarrow> string option \<Rightarrow> clip_locator option \<Rightarrow> timeline \<Rightarrow> edited" where
  "apply_set_freeze files index freeze_at_source_s duration_s freeze_position audio_behavior loc tml =
     apply_set_effect files index freeze_effect
       (bt_of_list ([(''freeze_at_source_s'', json_f64 freeze_at_source_s), (''duration_s'', json_f64 duration_s)]
         @ opt_field ''freeze_position'' JStr freeze_position @ opt_field ''audio_behavior'' JStr audio_behavior))
       None loc tml"

section \<open>Colour\<close>

type_synonym correction = "string \<times> f64 option \<times> f64 \<times> f64"

definition correction_fields ::
  "f64 option \<Rightarrow> f64 option \<Rightarrow> f64 option \<Rightarrow> f64 option \<Rightarrow> f64 option \<Rightarrow> f64 option \<Rightarrow> f64 option \<Rightarrow> correction list" where
  "correction_fields exposure_ev contrast saturation temperature tint shadows highlights =
     [(''exposure_ev'', exposure_ev, Fin (- 4), Fin 4), (''contrast'', contrast, Fin 0, Fin 3),
      (''saturation'', saturation, Fin 0, Fin 3), (''temperature'', temperature, Fin (- 1), Fin 1),
      (''tint'', tint, Fin (- 1), Fin 1), (''shadows'', shadows, Fin (- 1), Fin 1),
      (''highlights'', highlights, Fin (- 1), Fin 1)]"

fun check_corrections :: "nat \<Rightarrow> correction list \<Rightarrow> unit edit" where
  "check_corrections index [] = Inr ()"
| "check_corrections index ((name, None, lo, hi) # fs) = check_corrections index fs"
| "check_corrections index ((name, Some v, lo, hi) # fs) =
     (if \<not> is_finite v \<or> flt v lo \<or> flt hi v
      then invalid index (Fmt ''set_color_correction: {} {} must be finite and within [{}, {}]''
             [A_str name, A_f64 v, A_f64 lo, A_f64 hi])
      else check_corrections index fs)"

definition apply_set_color_correction ::
  "nat \<Rightarrow> correction list \<Rightarrow> clip_locator option \<Rightarrow> timeline \<Rightarrow> edited" where
  "apply_set_color_correction index fs loc tml =
     (if list_all (\<lambda>(_, v, _, _). v = None) fs
      then invalid index (msg ''set_color_correction: provide at least one correction field'')
      else rbind (check_corrections index fs) (\<lambda>_.
        edit_clip index ''set_color_correction'' (\<lambda>c.
          Inr (Fmt ''set color correction on clip {:?}'' [A_dbg (clip_name c)],
               replace_effect color_correction_effect
                 (bt_of_list (concat (map (\<lambda>(name, v, _, _). opt_field name json_f64 v) fs))) c)) loc tml))"

definition apply_lut ::
  "project_files \<Rightarrow> nat \<Rightarrow> string \<Rightarrow> string option \<Rightarrow> f64 option \<Rightarrow> clip_locator option \<Rightarrow> timeline \<Rightarrow> edited" where
  "apply_lut files index lut_path interpolation strength loc tml =
     rbind (normalize_lut_path index lut_path) (\<lambda>path.
     rbind (normalize_lut_interpolation index interpolation) (\<lambda>mode.
     rbind (normalize_lut_strength index strength) (\<lambda>amount.
     rbind (checked_contents files index path ThreeD) (\<lambda>_.
     edit_clip index ''apply_lut'' (\<lambda>c.
       Inr (Fmt ''applied LUT {:?} to clip {:?}'' [A_dbg path, A_dbg (clip_name c)],
            replace_effect lut_effect (bt_of_list ([(''lut_path'', JStr path)]
              @ opt_field ''interpolation'' JStr mode @ opt_field ''strength'' json_f64 amount)) c)) loc tml))))"

definition apply_remove_lut :: "nat \<Rightarrow> clip_locator option \<Rightarrow> timeline \<Rightarrow> edited" where
  "apply_remove_lut index loc tml =
     edit_clip index ''remove_lut'' (\<lambda>c.
       let kept = filter (\<lambda>e. ef_effect_name e \<noteq> lut_effect) (clip_effects c)
       in Inr (if length kept = length (clip_effects c)
               then Fmt ''clip {:?} had no LUT effect'' [A_dbg (clip_name c)]
               else Fmt ''removed LUT from clip {:?}'' [A_dbg (clip_name c)],
               c\<lparr>clip_effects := kept\<rparr>)) loc tml"

end
