(* ===== verification/Effect_Props.thy ===== *)
theory Effect_Props
  imports Edl_Effects Lut_Props Edl_Sound_Props
begin

text \<open>
  Two ways to put a colour table on a clip, \<open>apply_lut\<close> and \<open>apply_set_effect\<close> with \<open>montage.lut\<close>: they
  accept the same tables and leave the same settings.
\<close>

definition lut_args :: "string \<Rightarrow> string option \<Rightarrow> f64 option \<Rightarrow> json_map" where
  "lut_args path mode amount =
     bt_of_list ([(''lut_path'', JStr path)] @ opt_field ''interpolation'' JStr mode @ opt_field ''strength'' json_f64 amount)"

text \<open>What the renderer reads: the path, the interpolation and the strength, which is 1 when it is absent.\<close>

definition lut_setting :: "json_map \<Rightarrow> string option \<times> string option \<times> f64" where
  "lut_setting m = (meta_str ''lut_path'' m, meta_str ''interpolation'' m, unwrap_or (Fin 1) (meta_f64 ''strength'' m))"

definition lut_view :: "clip \<Rightarrow> clip \<times> effect_node list \<times> (string option \<times> string option \<times> f64) list" where
  "lut_view c =
     (c\<lparr>clip_effects := []\<rparr>, filter (\<lambda>e. ef_effect_name e \<noteq> lut_effect) (clip_effects c),
      map (\<lambda>e. lut_setting (ef_metadata e)) (filter (\<lambda>e. ef_effect_name e = lut_effect) (clip_effects c)))"

text \<open>The clip at the locator after an edit that succeeded.\<close>

definition lut_outcome :: "clip_locator \<Rightarrow> edited \<Rightarrow> (clip \<times> effect_node list \<times> (string option \<times> string option \<times> f64) list) option option" where
  "lut_outcome l r = (case r of Inl _ \<Rightarrow> None | Inr (_, t) \<Rightarrow> Some (map_option lut_view (clip_at t l)))"

section \<open>The schema of the effect\<close>

definition lut_def :: effect_def where
  "lut_def = the (lookup_effect lut_effect)"

lemma lut_def_facts:
  "lookup_effect lut_effect = Some lut_def" "ed_id lut_def = lut_effect" "ed_params lut_def = lut_params"
  "ed_min_present_params lut_def = 0" "ed_scope lut_def = ScopeClip" "ed_stack_policy lut_def = ReplaceSameId"
  by (simp_all add: lut_def_def lookup_effect_def effects_def legacy_awidat_id_matches_def lut_effect_def)

definition amount_ok :: "f64 option \<Rightarrow> bool" where
  "amount_ok amount \<longleftrightarrow>
     (case amount of None \<Rightarrow> True | Some v \<Rightarrow> is_finite v \<and> fle (Fin 0) v \<and> fle v (Fin 1))"

definition float_amount :: "f64 option \<Rightarrow> bool" where
  "float_amount amount \<longleftrightarrow> (case amount of None \<Rightarrow> True | Some v \<Rightarrow> is_finite v \<longrightarrow> is_f64 v)"

lemma one_is_f64: "is_f64 (Fin 1)"
  using representable_dyadic [of 1 0] by (simp add: is_f64_def)

lemma lut_args_cases:
  "lut_args path mode amount =
     (case mode of None \<Rightarrow> [] | Some m \<Rightarrow> [(''interpolation'', JStr m)]) @ [(''lut_path'', JStr path)]
     @ (case amount of None \<Rightarrow> [] | Some v \<Rightarrow> [(''strength'', json_f64 v)])"
  by (simp add: lut_args_def bt_of_list_def opt_field_def split: option.splits)

lemma lut_normalized:
  assumes "float_amount amount"
  shows "\<exists>e. normalize_params lut_effect (lut_args path mode amount) =
    (if amount_ok amount then Inr (lut_def, lut_args path mode (Some (unwrap_or (Fin 1) amount))) else Inl e)"
proof -
  have "\<exists>e. normalize_for lut_def (lut_args path mode amount) =
    (if amount_ok amount then Inr (lut_args path mode (Some (unwrap_or (Fin 1) amount))) else Inl e)"
  proof (cases amount)
    case None
    then show ?thesis
      by (simp add: normalize_for_def lut_def_facts lut_args_cases lut_params_def effect_param_def param_string_def
        param_number_def bt_keys_def bt_get_def validate_value_def rbind_def amount_ok_def unwrap_or_def json_f64_def
        split: option.splits)
  next
    case (Some v)
    have number: "validate_number e p (json_f64 v) = (if is_finite v then validate_range e p v else Inl (VE_WrongType e (pd_key p) ''number''))" for e p
      using assms json_f64_round_trip [of v] by (auto simp: validate_number_def json_f64_def float_amount_def Some)
    have "(flt v (Fin 0) \<or> flt (Fin 1) v) \<longleftrightarrow> \<not> (fle (Fin 0) v \<and> fle v (Fin 1))" if "is_finite v"
      using that by (auto simp: finite_compare)
    then show ?thesis
      by (simp add: Some normalize_for_def lut_def_facts lut_args_cases lut_params_def effect_param_def param_string_def
        param_number_def bt_keys_def bt_get_def validate_value_def rbind_def amount_ok_def unwrap_or_def number validate_range_def
        split: option.splits)
  qed
  then show ?thesis by (auto simp: normalize_params_def lut_def_facts rbind_def split: if_splits)
qed

section \<open>The stored parameters\<close>

lemma lut_args_get:
  "meta_str ''lut_path'' (lut_args path mode amount) = Some path"
  "meta_str ''interpolation'' (lut_args path mode amount) = mode"
  "meta_f64 ''strength'' (lut_args path mode amount) = Option.bind (map_option json_f64 amount) json_as_f64"
  by (simp_all add: lut_args_cases meta_str_def meta_f64_def bt_get_def split: option.splits)

lemma lut_args_put:
  "bt_insert ''lut_path'' (JStr p) (lut_args path mode amount) = lut_args p mode amount"
  "bt_insert ''interpolation'' (JStr m) (lut_args path mode amount) = lut_args path (Some m) amount"
  "bt_remove ''interpolation'' (lut_args path mode amount) = lut_args path None amount"
  "bt_insert ''strength'' (json_f64 v) (lut_args path mode amount) = lut_args path mode (Some v)"
  by (simp_all add: lut_args_cases bt_remove_def split: option.splits)

lemma lut_metadata:
  assumes "is_f64 v" and "amount_ok (Some v)"
  shows "normalize_lut_metadata files i (lut_args path mode (Some v)) =
    rbind (normalize_lut_path i path) (\<lambda>p. rbind (checked_contents files i p ThreeD) (\<lambda>_.
    rbind (normalize_lut_interpolation i mode) (\<lambda>m. Inr (lut_args p m (Some v)))))"
proof -
  have read: "json_as_f64 (json_f64 v) = Some v" using assms(1) by (rule json_f64_round_trip)
  have strength: "normalize_lut_strength i (Some v) = Inr (Some v)"
    using assms(2) by (simp add: normalize_lut_strength_def amount_ok_def)
  have finite: "is_finite v" using assms(1) by (simp add: is_f64_def)
  have "(case m of Some x \<Rightarrow> bt_insert ''interpolation'' (JStr x) (lut_args p mode (Some v))
      | None \<Rightarrow> bt_remove ''interpolation'' (lut_args p mode (Some v))) = lut_args p m (Some v)" for m p
    by (simp add: lut_args_put split: option.splits)
  then show ?thesis
    by (simp add: normalize_lut_metadata_def lut_args_get lut_args_put read strength finite Let_def rbind_def split: sum.splits)
qed

lemma lut_effect_metadata:
  assumes "float_amount amount" and "amount_ok amount"
  shows "effect_metadata files i lut_effect (lut_args path mode amount) None =
    rbind (normalize_lut_path i path) (\<lambda>p. rbind (checked_contents files i p ThreeD) (\<lambda>_.
    rbind (normalize_lut_interpolation i mode) (\<lambda>m. Inr (lut_def, lut_args p m (Some (unwrap_or (Fin 1) amount))))))"
proof -
  have v: "is_f64 (unwrap_or (Fin 1) amount)" "amount_ok (Some (unwrap_or (Fin 1) amount))"
    using assms one_is_f64 by (cases amount; simp add: amount_ok_def float_amount_def unwrap_or_def finite_compare)+
  obtain e where "normalize_params lut_effect (lut_args path mode amount) =
      Inr (lut_def, lut_args path mode (Some (unwrap_or (Fin 1) amount)))"
    using lut_normalized [OF assms(1)] assms(2) by auto
  then show ?thesis
    by (simp add: effect_metadata_def lut_metadata [OF v] lut_def_facts lut_effect_def color_pipeline_effect_def
        rbind_def split: sum.splits)
qed

lemma refused_amount:
  assumes "float_amount amount" and "\<not> amount_ok amount"
  shows "\<exists>e. effect_metadata files i lut_effect (lut_args path mode amount) None = Inl e"
  using lut_normalized [OF assms(1), of "path" mode] assms(2) by (auto simp: effect_metadata_def)

section \<open>Edits of one clip\<close>

definition first_slot :: clip_locator where
  "first_slot = \<lparr>cl_track_index = 0, cl_child_index = 0\<rparr>"

lemma edit_clip_fails:
  assumes "\<And>tr c. cl_track_index l < length (tl_children t) \<Longrightarrow> tl_children t ! cl_track_index l = SC_Track tr \<Longrightarrow>
    cl_child_index l < length (track_children tr) \<Longrightarrow> track_children tr ! cl_child_index l \<noteq> TC_Clip c"
  shows "\<exists>e. edit_clip i label f (Some l) t = Inl e"
  using assms
  by (auto simp: edit_clip_def required_locator_def track_at_def clip_on_def vec_get_def rbind_def
      split: sum.splits if_splits stack_child.splits track_child.splits)

lemma edit_clip_outcome:
  assumes "\<And>c. lut_view (f c) = lut_view (g c)"
  shows "lut_outcome l (edit_clip i label (\<lambda>c. Inr (m c, f c)) (Some l) t) =
    lut_outcome l (edit_clip j label' (\<lambda>c. Inr (n c, g c)) (Some l) t)"
proof (cases "\<exists>tr c. cl_track_index l < length (tl_children t) \<and> tl_children t ! cl_track_index l = SC_Track tr \<and>
    cl_child_index l < length (track_children tr) \<and> track_children tr ! cl_child_index l = TC_Clip c")
  case True
  then obtain tr c where slot: "cl_track_index l < length (tl_children t)" "tl_children t ! cl_track_index l = SC_Track tr"
    "cl_child_index l < length (track_children tr)" "track_children tr ! cl_child_index l = TC_Clip c" by blast
  have "clip_at (with_track_children (cl_track_index l) ((track_children tr)[cl_child_index l := TC_Clip c']) t) l = Some c'" for c'
    using slot by (simp add: clip_at_def Let_def with_track_children_def track_children_with flip: tl_children_def)
  then show ?thesis using edit_clip_slot [OF slot, of "Some l"] assms by (simp add: lut_outcome_def rbind_def)
next
  case False
  then have "\<exists>e. edit_clip k lb h (Some l) t = Inl e" for k lb h by (intro edit_clip_fails) blast
  then show ?thesis unfolding lut_outcome_def by (metis (no_types, lifting) sum.simps(5))
qed

text \<open>C18: Applying a colour table and setting the effect \<open>montage.lut\<close> with the same path, interpolation and
  strength accept the same requests and leave the same settings on the clip, its other effects as they
  were: what the second stores for an absent strength is the strength the first is rendered with.\<close>

theorem lut_edits_agree:
  assumes "float_amount amount"
  shows "lut_outcome l (apply_lut files i path mode amount (Some l) t) =
    lut_outcome l (apply_set_effect files i ''montage.lut'' (lut_args path mode amount) None (Some l) t)"
proof (cases "amount_ok amount")
  case False
  then have "\<exists>e. normalize_lut_strength i amount = Inl e"
    by (auto simp: normalize_lut_strength_def amount_ok_def split: option.splits)
  then have "lut_outcome l (apply_lut files i path mode amount (Some l) t) = None"
    by (auto simp: lut_outcome_def apply_lut_def rbind_def split: sum.splits)
  moreover obtain e where "effect_metadata files i lut_effect (lut_args path mode amount) None = Inl e"
    using refused_amount [OF assms False] by blast
  ultimately show ?thesis by (simp add: lut_outcome_def apply_set_effect_def rbind_def lut_effect_def)
next
  case True
  then have strength: "normalize_lut_strength i amount = Inr amount"
    by (auto simp: normalize_lut_strength_def amount_ok_def split: option.splits)
  have view: "lut_view (replace_effect lut_effect (lut_args p m amount) c) =
      lut_view (push_effect lut_def (lut_args p m (Some (unwrap_or (Fin 1) amount))) c)" for p m c
  proof -
    have "Option.bind (map_option json_f64 amount) json_as_f64 = amount"
      using assms True json_f64_round_trip by (cases amount) (auto simp: amount_ok_def float_amount_def)
    then show ?thesis
      using True assms one_is_f64 json_f64_round_trip
      by (cases amount)
        (auto simp: lut_view_def replace_effect_def push_effect_def lut_def_facts effect_new_def lut_setting_def lut_args_get
          unwrap_or_def amount_ok_def float_amount_def)
  qed
  have applied: "apply_lut files i path mode amount (Some l) t =
      rbind (normalize_lut_path i path) (\<lambda>p. rbind (normalize_lut_interpolation i mode) (\<lambda>m.
      rbind (checked_contents files i p ThreeD) (\<lambda>_.
      edit_clip i ''apply_lut'' (\<lambda>c. Inr (Fmt ''applied LUT {:?} to clip {:?}'' [A_dbg p, A_dbg (clip_name c)],
        replace_effect lut_effect (lut_args p m amount) c)) (Some l) t)))"
    by (simp add: apply_lut_def strength lut_args_def rbind_def)
  note set = lut_effect_metadata [OF assms True, unfolded lut_effect_def, of files i path mode]
  have none: "lut_outcome l (Inl e) = None" for e by (simp add: lut_outcome_def)
  show ?thesis
    unfolding applied apply_set_effect_def set
    by (cases "normalize_lut_path i path"; cases "normalize_lut_interpolation i mode";
        simp add: rbind_def none split: sum.splits)
      (intro impI edit_clip_outcome view)
qed

lemma lut_edits_agree_witness:
  "lut_outcome first_slot (apply_set_effect None 0 ''montage.lut'' (lut_args '' luts/look.cube'' (Some ''Trilinear'') None) None
      (Some first_slot) three_shots) =
    Some (Some (clip_a\<lparr>clip_effects := []\<rparr>, [], [(Some ''luts/look.cube'', Some ''trilinear'', Fin 1)]))"
proof -
  have path: "normalize_lut_path 0 '' luts/look.cube'' = Inr ''luts/look.cube''" by code_simp
  have mode: "normalize_lut_interpolation 0 (Some ''Trilinear'') = Inr (Some ''trilinear'')" by code_simp
  have applied: "\<exists>m. apply_lut None 0 '' luts/look.cube'' (Some ''Trilinear'') None (Some first_slot) three_shots =
      Inr (m, with_track_children 0 [TC_Clip (replace_effect lut_effect
        (lut_args ''luts/look.cube'' (Some ''trilinear'') None) clip_a), TC_Clip clip_b, TC_Clip clip_c] three_shots)"
    using edit_clip_slot [OF three_shots_track(1,2), where ci = 0 and c = clip_a and loc = "Some first_slot"]
    by (simp add: apply_lut_def path mode normalize_lut_strength_def checked_contents_def rbind_def lut_args_def
        sample_track_def first_slot_def)
  have clip: "clip_at (with_track_children 0 (TC_Clip c # cs) three_shots) first_slot = Some c" for c cs
    by (simp add: clip_at_def Let_def first_slot_def with_track_children_def three_shots_track flip: tl_children_def)
  have view: "lut_view (replace_effect lut_effect (lut_args p m None) clip_a) =
      (clip_a\<lparr>clip_effects := []\<rparr>, [], [(Some p, m, Fin 1)])" for p m
    by (simp add: lut_view_def replace_effect_def effect_new_def lut_setting_def lut_args_get clip_a_def sample_clip_def
        clip_empty_def unwrap_or_def)
  show ?thesis
    using applied lut_edits_agree [of None first_slot None 0 "'' luts/look.cube''" "Some ''Trilinear''" three_shots]
    by (auto simp: lut_outcome_def float_amount_def clip view)
qed

end
