(* ===== verification/Spec2Isabelle.thy ===== *)
theory Spec2Isabelle
  imports Claim_Fairness Token_Refresh Eligibility Edl_Resolve Render_Props Marker_Tool Script_Props
    Overlay_Props Lut_Rows Effect_Props
begin

text \<open>
  \<^bold>\<open>What this library verifies.\<close> The repository is a video editor driven by an agent, with a
  service that publishes the results to social platforms. Four parts carry its own logic and
  are modelled here: the \<^emph>\<open>publishing service\<close> (\<open>crates/social\<close>), the
  \<^emph>\<open>editorial core\<close> (\<open>crates/proto/src/otio\<close>, \<open>crates/core/src/edl\<close>), the
  \<^emph>\<open>edit language\<close> it is driven with, and the
  \<^emph>\<open>plan of a render\<close> (\<open>crates/render/src/timeline.rs\<close>). They share
  the theories \<open>Prelude\<close> (machine integers, UTF-8 strings, results), \<open>BTree_Map\<close>
  (\<open>BTreeMap\<close>) and \<open>Json\<close> (\<open>serde_json::Value\<close>), and are otherwise independent.

  \<^bold>\<open>The publishing service.\<close> Users connect accounts through OAuth, bind and schedule targets;
  a scheduler claims the jobs that are due; a worker uploads each claimed job through the adapter of
  its platform; a poller follows jobs the platform is still processing. All of them act on one store.

  \<^item> \<open>Social_Model\<close>: the records and enums of \<open>model.rs\<close> and \<open>oauth.rs\<close>.
  \<^item> \<open>Publish_Job\<close>: the transitions of a job (\<open>job.rs\<close>), bounded retries, the idempotency key.
  \<^item> \<open>Social_Store\<close>, \<open>Social_Store_Props\<close>: the in-memory store (\<open>store.rs\<close>), its
    invariant, the claim of due jobs, and the contract \<open>publish_store\<close> the services rely on.
  \<^item> \<open>Eligibility\<close>, \<open>Platform_Metadata\<close>: what an account may publish
    (\<open>eligibility.rs\<close>, \<open>provider.rs\<close>, \<open>platform_metadata.rs\<close>).
  \<^item> \<open>Publish_Service\<close>, \<open>Publish_Service_Props\<close>: what users do
    (\<open>publish_service.rs\<close>); the contract \<open>guarded_service\<close> says that strangers are refused.
  \<^item> \<open>Upload_Service\<close>, \<open>Upload_Service_Props\<close>, \<open>Upload_Status\<close>: the worker and the
    poller (\<open>upload_service.rs\<close>, \<open>upload_adapter.rs\<close>, \<open>upload_status.rs\<close>).
  \<^item> \<open>Token\<close>, \<open>Token_Refresh\<close>, \<open>OAuth_Url\<close>, \<open>Accounts_Teams\<close>: secrets, their
    refresh, the authorization URL, accounts and teams (\<open>token.rs\<close>, \<open>token_bundle.rs\<close>,
    \<open>token_refresh.rs\<close>, \<open>oauth_url.rs\<close>, \<open>account_service.rs\<close>, \<open>team_service.rs\<close>).
  \<^item> \<open>Job_Lifecycle\<close>: all actors on one store, in every order; safety and monotonicity of
    the whole pipeline by rule induction over the interleavings. \<open>Claim_Fairness\<close>: a due job is
    claimed after as many batches as there are jobs due before it.

  \<^bold>\<open>The editorial core.\<close> A timeline is a stack of tracks of clips, gaps, transitions and nested
  stacks. An envelope is a list of operations; \<open>apply\<close> works on a clone: it resolves the anchor of
  each operation against the timeline so far, performs it, and prunes the records of cuts that are
  gone; at the end it checks the result. A failed envelope gives no timeline.

  \<^item> \<open>Float64\<close>: binary64 arithmetic with rounding to nearest even, NaN, infinities and
    negative zero; a finite number is its rational value.
  \<^item> \<open>Otio\<close>: \<open>time.rs\<close>, \<open>nodes.rs\<close>, the clip and cut metadata of
    \<open>montage_meta.rs\<close>, and the validation of every node with its error path.
  \<^item> \<open>Edl_Anchor\<close>: \<open>anchor.rs\<close>, how an anchor names a clip.
  \<^item> \<open>Edl_Track\<close>, \<open>Edl_Boundaries\<close>: the helpers of \<open>apply.rs\<close> on one track, and
    the records of cuts and split edits.
  \<^item> \<open>Edl_Ops\<close>, \<open>Edl_Clips\<close>, \<open>Edl_Moves\<close>, \<open>Edl_Insert\<close>: one definition per
    operation, with all its guards, messages and cascades to linked clips on other tracks.
  \<^item> \<open>Edl_Source_Edits\<close>, \<open>Edl_Range_Edits\<close>, \<open>Edl_Markers\<close>, \<open>Edl_Nesting\<close>,
    \<open>Edl_Professional\<close>: the professional timeline edits (roll, slip, slide, replace; lift, extract,
    overwrite, append; markers), nested sequences and the multicam plan, and the record that is kept of
    a professional edit. \<open>Edl_Audio\<close>: the sound edits.
  \<^item> \<open>Edl_Apply\<close>: the dispatch, the aliases of split halves, what an operation reports, the
    final check and the loop (\<open>apply_envelope\<close> is \<open>apply\<close>).
  \<^item> \<open>Edl_Progress\<close>: no edit panics. An out-of-bounds index of the code is the failure
    \<open>Panic\<close>, so this is the progress theorem of the model.
  \<^item> \<open>Edl_Cuts\<close>, \<open>Edl_Guarantees\<close>: after an envelope no record of a cut is stale, and the
    result is well formed. \<open>Edl_Frames\<close>: what edits leave alone, as the contract
    \<open>timeline_frame\<close>, interpreted on the names and kinds of tracks and on the fields of the
    timeline.
  \<^item> \<open>Edl_Grid\<close>: exact times. \<open>Edl_Layout\<close>, \<open>Edl_Placement\<close>,
    \<open>Edl_Ripple\<close>, \<open>Edl_Split\<close>, \<open>Edl_Undo\<close>, \<open>Edl_Resolve\<close>: where deletions, moves,
    ripple edits and splits put the clips, edits that undo each other, and how anchors and
    snapped times are resolved.
  \<^item> \<open>Edl_Program\<close>: the abstract specification of a track, \<open>plays\<close>, the clip or nested
    stack and the second of it that is played at a time. \<open>Edl_Range_Props\<close>,
    \<open>Edl_Nesting_Props\<close>, \<open>Edl_Media_Props\<close>: the range edits, nesting, the multicam plan and
    the edits of the source refine it. \<open>Edl_Marker_Props\<close>: the identity of markers.
  \<^item> \<open>Picture_Lock\<close>: \<open>picture_lock.rs\<close>, what the lock protects, and the two operations that
    get past it. \<open>Edl_Sound_Props\<close>: the levels of a clip and the life of a split edit.
  \<^item> \<open>Edl_Overlays\<close>: b-roll and picture in picture. \<open>Overlay_Props\<close>: where they land.
  \<^item> \<open>Effects_Registry\<close>: the schemas of \<open>crates/effects\<close> and the normalization of parameters;
    every schema is sound, so normalized parameters stay as they are. \<open>Lut_Parser\<close>: the colour tables of
    \<open>crates/lut\<close>, with \<open>f32\<close> as the numbers of 24 binary digits (\<open>rnd32\<close>). \<open>Lut_Props\<close>,
    \<open>Lut_Rows\<close>: accepted tables are well formed; which headerless tables are read.
    \<open>Edl_Effects\<close>: the edits that set an effect of the registry or apply a colour table, which parse the
    file of the project they name. \<open>Effect_Props\<close>: the two ways to apply a colour table agree.

  \<^bold>\<open>The edit language.\<close> The agent edits by scripts: an envelope of blocks, each with a heading,
  anchors and fields. \<open>parse\<close> (\<open>edl/parser.rs\<close>) is a machine over the lines that builds one
  operation per block; the editing tools (\<open>granular_timeline.rs\<close>) turn the arguments of a call into
  such a script, which \<open>apply_edl\<close> parses and applies.

  \<^item> \<open>Float_Text\<close>: reading and printing of \<open>f64\<close> as the standard library does it, and that
    what is printed is read back unchanged. The search for the shortest digits goes through the scales of
    ten from coarse to fine; its fuel, the digits of the integral part and the 1074 binary places of the smallest
    number, ends at a scale where the number is exact.
  \<^item> \<open>Edl_Text\<close>, \<open>Edl_Script\<close>, \<open>Edl_Script_Build\<close>, \<open>Edl_Parser\<close>: strings,
    anchors, fields; the kinds of operation and how each takes its arguments; the dispatch and the machine.
  \<^item> \<open>Tool_Edits\<close>: the tools. \<open>Script_Lines\<close>: how the lines of a block are read.
    \<open>Tool_Scripts\<close>, \<open>Tool_Props\<close>: what the calls ask for (\<open>call_ops\<close>), which calls the
    language can carry (\<open>writable\<close>), and that the parser reads the script of each of them as asked.
  \<^item> \<open>Script_Errors\<close>: the line an error names, and the lines that say nothing.
    \<open>Script_Props\<close>: the properties. \<open>Marker_Tool\<close>: the marker tool and the edit it makes.

  \<^bold>\<open>The plan of a render.\<close> \<open>collect_timeline_full_plan\<close> walks the timeline and turns it into
  segments, transitions, overlays and audio tracks, from which the command line of the encoder is built.

  \<^item> \<open>Float_Bits\<close>: the numbers of the JSON metadata, kept by their bits, are read back unchanged.
  \<^item> \<open>Render_Plan\<close>: how the effects of a clip are read, the duration a segment has on the
    timeline, transitions and their handles, nested stacks, the base track, overlays, audio tracks, and
    the audio tracks that are synthesized for split edits, mutes and removed sound.
  \<^item> \<open>Render_Removals\<close>: what is heard of an audio track at a time (\<open>heard\<close>), and that the
    merged cuts of a clip silence exactly the removed ranges. \<open>Render_Props\<close>: the gaps of the picture
    track, the place of the sound of a split edit, and the settings of the sound end to end.

  \<^bold>\<open>Conventions.\<close> A struct is a record with the fields of the struct under a short prefix, an enum
  a datatype. A Rust \<open>String\<close> is the list of its bytes. \<open>u32\<close> is a word, \<open>i64\<close> an
  integer with the checked and saturating operations written out, \<open>usize\<close> a natural number. A
  result is \<open>error + value\<close>; a \<open>&mut\<close> argument is returned updated. Formatted messages keep
  their template and arguments and are not rendered. The clock behind fresh clip ids is a function of
  the global counter, which the operations pass along.

  \<^bold>\<open>Times.\<close> The operations are defined over \<open>f64\<close> as the code computes them. Positions are
  stated over rationals: \<open>placed\<close> lists the clips of a track with the exact sums of the durations
  before them. The properties about layout assume a grid: times are multiples of 1/512 of a second up
  to \<open>2 ^ 20\<close> seconds, rates are whole numbers up to \<open>2 ^ 20\<close>. There every sum, every
  conversion to frames and back fits the 53 bits of the significand, and the tolerances of the code
  (a millisecond, a microsecond) are finer than the grid, so they decide like equality. The theorems
  without a grid hold for every float, NaN and infinities included.

  \<^bold>\<open>Loops.\<close> Every loop of the modelled code is a structural recursion or a fold. The search for
  an unused clip name, unbounded in the code, looks at one candidate more than there are children, and
  \<open>unused_name_total\<close> shows that this is always enough. The search for the shortest decimal of a number
  has the fuel named above.

  \<^bold>\<open>Parameters.\<close> The HTTP adapters of the platforms, the OAuth exchange, the cipher, hashes and
  nonces of other crates, the transcript sidecar files, the files of colour tables (\<open>project_files\<close>), the Unicode tables behind
  \<open>to_lowercase\<close> and the JSON library behind the payloads of the edit language (\<open>edl_codec\<close>,
  \<open>overlay_codec\<close>) are arguments of the definitions that use them.

  \<^bold>\<open>Not modelled.\<close> Of the edit operations, which are all parsed: the application of titles, captions,
  annotations, reframes, motion graphics, transitions being inserted and the metadata operations, and the copy of an
  operation's parameters into its report. The overlays and the effects are modelled as operations of their own and not
  yet part of the dispatch \<open>apply_step\<close>. The digest of a colour table is not modelled (SHA-256 is third-party). Of the plan of a render: titles, annotations, motion
  graphics, colour, masks, animations, the canvas and the limitations; whether a composition of a transition is
  valid and which transitions the encoder has are arguments (\<open>render_env\<close>), as is the file system.
  Also the serde encodings, the filter graph, captions, version control, the agent and its other tools, the indexers, the PostgreSQL store
  and the HTTP routes: they are either files, processes and sockets around the code modelled here, or
  left to later extensions. The project manifest lists every part with its reason.
\<close>

end
